(* ===== verification/Prelude.thy ===== *)
theory Prelude
  imports Complex_Main "HOL-Library.Word"
begin

text \<open>
  Shared vocabulary of the development: the collections of simplification rules the component
  theories fill, the part of \<open>std::string_view\<close> the program uses (searching and slicing), the
  keep-the-first-of-each-key loop that the configuration and post-processing code repeats, and
  the order on byte strings that \<open>std::map\<close> and \<open>std::set\<close> use.

  A C++ string is a list of \<open>char\<close> (one \<open>char\<close> of HOL is one byte). A position that may be
  \<open>npos\<close> is a \<open>nat option\<close>.
\<close>

named_theorems vinput_defs \<open>definitions unfolded by the component proofs\<close>
named_theorems str_simps \<open>facts on searching and slicing strings\<close>
named_theorems key_simps \<open>facts on lists with a key per element\<close>

type_synonym bytes = string
type_synonym u64 = "64 word"
type_synonym i16 = "16 word"

section \<open>Searching and slicing strings\<close>

text \<open>\<open>std::ranges::find_if\<close>: the position of the first element that satisfies \<open>P\<close>.\<close>

primrec find_index :: "('a \<Rightarrow> bool) \<Rightarrow> 'a list \<Rightarrow> nat option" where
  "find_index P [] = None"
| "find_index P (x # xs) = (if P x then Some 0 else map_option Suc (find_index P xs))"

text \<open>\<open>text.find(c, start)\<close> and its relatives: the first position at or after \<open>start\<close>.\<close>

definition find_from :: "('a \<Rightarrow> bool) \<Rightarrow> 'a list \<Rightarrow> nat \<Rightarrow> nat option" where
  "find_from P s start = map_option (\<lambda>i. start + i) (find_index P (drop start s))"

text \<open>\<open>text.rfind(c)\<close>: the last position.\<close>

definition rfind_index :: "('a \<Rightarrow> bool) \<Rightarrow> 'a list \<Rightarrow> nat option" where
  "rfind_index P s = map_option (\<lambda>i. length s - 1 - i) (find_index P (rev s))"

text \<open>\<open>starts_with\<close> and \<open>ends_with\<close>.\<close>

definition starts_with :: "'a list \<Rightarrow> 'a list \<Rightarrow> bool" where
  "starts_with s p \<longleftrightarrow> take (length p) s = p"

definition ends_with :: "'a list \<Rightarrow> 'a list \<Rightarrow> bool" where
  "ends_with s p \<longleftrightarrow> length p \<le> length s \<and> drop (length s - length p) s = p"

text \<open>\<open>text.find(pattern)\<close> for a pattern of several bytes.\<close>

fun find_sub :: "'a list \<Rightarrow> 'a list \<Rightarrow> nat option" where
  "find_sub p [] = (if p = [] then Some 0 else None)"
| "find_sub p (x # xs) =
     (if starts_with (x # xs) p then Some 0 else map_option Suc (find_sub p xs))"

definition find_sub_from :: "'a list \<Rightarrow> 'a list \<Rightarrow> nat \<Rightarrow> nat option" where
  "find_sub_from p s start =
     (if start \<le> length s then map_option (\<lambda>i. start + i) (find_sub p (drop start s)) else None)"

text \<open>\<open>text.substr(pos, n)\<close>; every call of the program has \<open>pos \<le> size\<close>.\<close>

definition substr :: "'a list \<Rightarrow> nat \<Rightarrow> nat \<Rightarrow> 'a list" where
  "substr s pos n = take n (drop pos s)"

lemma find_index_None [simp]: "find_index P xs = None \<longleftrightarrow> (\<forall>x\<in>set xs. \<not> P x)"
  by (induction xs) auto

lemma find_index_SomeD:
  "find_index P xs = Some i \<Longrightarrow>
     i < length xs \<and> P (xs ! i) \<and> take i xs = takeWhile (\<lambda>x. \<not> P x) xs
     \<and> drop i xs = dropWhile (\<lambda>x. \<not> P x) xs"
  by (induction xs arbitrary: i) (auto split: if_splits)

lemma find_index_less: "find_index P xs = Some i \<Longrightarrow> i < length xs"
  by (simp add: find_index_SomeD)

lemma find_index_takeWhile:
  "find_index P xs =
     (if \<exists>x\<in>set xs. P x then Some (length (takeWhile (\<lambda>x. \<not> P x) xs)) else None)"
  by (induction xs) auto

lemma find_from_Some:
  assumes "find_from P s start = Some i"
  shows "start \<le> i" and "i < length s" and "P (s ! i)"
    and "\<forall>x\<in>set (take (i - start) (drop start s)). \<not> P x"
proof -
  from assms obtain k where k: "find_index P (drop start s) = Some k" and i: "i = start + k"
    by (auto simp: find_from_def)
  note D = find_index_SomeD [OF k]
  from D show "start \<le> i" and "i < length s" and "P (s ! i)"
    by (auto simp: i)
  from D show "\<forall>x\<in>set (take (i - start) (drop start s)). \<not> P x"
    by (auto simp: i dest: set_takeWhileD)
qed

lemma find_from_None: "find_from P s start = None \<longleftrightarrow> (\<forall>x\<in>set (drop start s). \<not> P x)"
  by (simp add: find_from_def)

lemma starts_with_append [str_simps]: "starts_with (p @ s) p"
  by (simp add: starts_with_def)

lemma starts_with_iff: "starts_with s p \<longleftrightarrow> (\<exists>r. s = p @ r)"
  by (auto simp: starts_with_def) (metis append_take_drop_id)

lemma starts_with_length: "starts_with s p \<Longrightarrow> length p \<le> length s"
  by (auto simp: starts_with_iff)

lemma ends_with_iff: "ends_with s p \<longleftrightarrow> (\<exists>r. s = r @ p)"
  by (auto simp: ends_with_def) (metis append_take_drop_id)

lemma find_sub_SomeD:
  "find_sub p s = Some i \<Longrightarrow> i + length p \<le> length s \<and> starts_with (drop i s) p"
proof (induction p s arbitrary: i rule: find_sub.induct)
  case (1 p)
  then show ?case by (auto simp: starts_with_def split: if_splits)
next
  case (2 p x xs)
  then show ?case
    by (auto split: if_splits dest!: starts_with_length)
qed

lemma find_sub_prefix_None:
  "find_sub p (u @ s) = None \<Longrightarrow> find_sub p s = None"
  by (induction u) (auto split: if_splits)

lemma find_sub_drop_None:
  assumes "find_sub p s = None"
  shows "find_sub p (drop k s) = None"
proof -
  have "find_sub p (take k s @ drop k s) = None" using assms by simp
  then show ?thesis by (rule find_sub_prefix_None)
qed

lemma rfind_index_SomeD:
  assumes "rfind_index P s = Some i"
  shows "i < length s \<and> P (s ! i) \<and> (\<forall>x\<in>set (drop (Suc i) s). \<not> P x)"
proof -
  from assms obtain k where k: "find_index P (rev s) = Some k" and i: "i = length s - 1 - k"
    by (auto simp: rfind_index_def)
  note D = find_index_SomeD [OF k]
  then have less: "k < length s" by simp
  have "P (s ! i)" using D less by (simp add: i rev_nth)
  moreover have "set (drop (Suc i) s) = set (take k (rev s))"
  proof -
    have "Suc i = length s - k" using less i by simp
    then show ?thesis by (simp add: take_rev)
  qed
  moreover have "\<forall>x\<in>set (take k (rev s)). \<not> P x"
    using D by (metis set_takeWhileD)
  ultimately show ?thesis using less i by simp
qed

lemma rfind_index_None: "rfind_index P s = None \<longleftrightarrow> (\<forall>x\<in>set s. \<not> P x)"
  by (simp add: rfind_index_def)

section \<open>Keeping the first element of each key\<close>

text \<open>
  The loop \<open>if (seen.insert(key).second) out.push_back(x)\<close>; \<open>seen\<close> is the list of the keys met.
\<close>

text \<open>\<open>std::optional::value_or\<close>.\<close>

definition value_or :: "'a option \<Rightarrow> 'a \<Rightarrow> 'a" where
  "value_or x d = (case x of Some v \<Rightarrow> v | None \<Rightarrow> d)"

fun keep_first :: "('a \<Rightarrow> 'k) \<Rightarrow> 'k list \<Rightarrow> 'a list \<Rightarrow> 'a list" where
  "keep_first key seen [] = []"
| "keep_first key seen (x # xs) =
     (if key x \<in> set seen then keep_first key seen xs
      else x # keep_first key (key x # seen) xs)"

lemma keep_first_key_set [key_simps]:
  "key ` set (keep_first key seen xs) = key ` set xs - set seen"
  by (induction xs arbitrary: seen) auto

lemma keep_first_subset: "set (keep_first key seen xs) \<subseteq> set xs"
  by (induction xs arbitrary: seen) auto

lemma keep_first_memD: "x \<in> set (keep_first key seen xs) \<Longrightarrow> x \<in> set xs"
  using keep_first_subset by fastforce

lemma keep_first_not_seen: "x \<in> set (keep_first key seen xs) \<Longrightarrow> key x \<notin> set seen"
  using keep_first_key_set [of key seen xs] by blast

lemma keep_first_distinct [key_simps]: "distinct (map key (keep_first key seen xs))"
proof (induction xs arbitrary: seen)
  case Nil
  show ?case by simp
next
  case (Cons x xs)
  have "key x \<notin> key ` set (keep_first key (key x # seen) xs)"
    by (auto dest: keep_first_not_seen)
  with Cons show ?case by auto
qed

lemma keep_first_ident:
  "distinct (map key xs) \<Longrightarrow> set seen \<inter> key ` set xs = {} \<Longrightarrow> keep_first key seen xs = xs"
  by (induction xs arbitrary: seen) auto

lemma keep_first_idem [key_simps]:
  "keep_first key seen (keep_first key seen xs) = keep_first key seen xs"
  by (rule keep_first_ident) (auto simp: key_simps dest: keep_first_not_seen)

text \<open>The first element of each new key survives.\<close>

lemma keep_first_find:
  "k \<notin> set seen \<Longrightarrow>
     find (\<lambda>x. key x = k) (keep_first key seen xs) = find (\<lambda>x. key x = k) xs"
  by (induction xs arbitrary: seen) auto

lemma find_Some_memD: "find P xs = Some x \<Longrightarrow> x \<in> set xs \<and> P x"
  by (induction xs) (auto split: if_splits)

lemma find_None_iff_all: "find P xs = None \<longleftrightarrow> (\<forall>x\<in>set xs. \<not> P x)"
  by (induction xs) auto

lemma find_not_None: "find P xs \<noteq> None \<longleftrightarrow> (\<exists>x\<in>set xs. P x)"
  by (auto simp: find_None_iff_all)

lemma find_append_last:
  "find P (xs @ [x]) = (case find P xs of Some y \<Rightarrow> Some y | None \<Rightarrow> if P x then Some x else None)"
  by (induction xs) auto

section \<open>Byte strings in the order of \<open>std::map\<close> keys\<close>

fun string_less :: "string \<Rightarrow> string \<Rightarrow> bool" where
  "string_less _ [] = False"
| "string_less [] (_ # _) = True"
| "string_less (a # s) (b # t) =
     (if (of_char a :: nat) < of_char b then True
      else if (of_char b :: nat) < of_char a then False
      else string_less s t)"

lemma string_less_irrefl [simp]: "\<not> string_less s s"
  by (induction s) auto

lemma string_less_trans: "string_less s t \<Longrightarrow> string_less t u \<Longrightarrow> string_less s u"
proof (induction s arbitrary: t u)
  case Nil
  then show ?case by (cases t; cases u) auto
next
  case (Cons a s)
  then show ?case by (cases t; cases u) (auto split: if_splits)
qed

lemma string_less_linear: "string_less s t \<or> s = t \<or> string_less t s"
proof (induction s arbitrary: t)
  case Nil
  then show ?case by (cases t) auto
next
  case (Cons a s)
  then show ?case by (cases t) (auto simp: not_less_iff_gr_or_eq)
qed

section \<open>Components as machines\<close>

text \<open>
  The contract every stateful component below meets: an initial state, one step function over
  the component's operations, and an invariant that holds initially and that every step keeps.
  A run is \<open>foldl step\<close> over the calls in the order in which the owner makes them.
\<close>

locale invariant_machine =
  fixes step :: "'s \<Rightarrow> 'e \<Rightarrow> 's"
    and init :: 's
    and inv :: "'s \<Rightarrow> bool"
  assumes inv_init: "inv init"
    and inv_step: "inv s \<Longrightarrow> inv (step s e)"
begin

lemma run_from: "inv s \<Longrightarrow> inv (foldl step s es)"
  by (induction es arbitrary: s) (auto intro: inv_step)

lemma run_inv: "inv (foldl step init es)"
  by (rule run_from) (rule inv_init)

end

end
