(* ===== verification/Dbus_Interface.thy ===== *)
theory Dbus_Interface
  imports Prelude
begin

text \<open>
  \<open>src/common/dbus/dbus_interface.h\<close> and \<open>asr_backend_state_utils.h\<close>: the daemon's status and
  its wire names, and the classification of a backend reload that the clients show.
\<close>

datatype Status = Idle | Recording | Inferring | Postprocessing | Error

fun StatusToString :: "Status \<Rightarrow> string" where
  "StatusToString Idle = ''idle''"
| "StatusToString Recording = ''recording''"
| "StatusToString Inferring = ''inferring''"
| "StatusToString Postprocessing = ''postprocessing''"
| "StatusToString Error = ''error''"

definition StringToStatus :: "string \<Rightarrow> Status" where
  "StringToStatus s =
     (if s = ''idle'' then Idle
      else if s = ''recording'' then Recording
      else if s = ''inferring'' then Inferring
      else if s = ''postprocessing'' then Postprocessing
      else if s = ''error'' then Error
      else Idle)"

record AsrBackendState =
  target_provider_id :: string
  target_model_id :: string
  effective_provider_id :: string
  effective_model_id :: string
  last_error :: string
  reload_in_progress :: bool
  has_effective_backend :: bool
  remote_endpoints :: "string list"

datatype RequestedAsrBackendStatus =
    kUnknown
  | kConfigSaved
  | kReloadInProgress
  | kApplied
  | kFailedStillUsingPrevious
  | kFailedNoUsableBackend

definition MatchesRequestedAsrBackend ::
    "AsrBackendState \<Rightarrow> string \<Rightarrow> string \<Rightarrow> bool \<Rightarrow> bool" where
  "MatchesRequestedAsrBackend state provider_id model_id effective \<longleftrightarrow>
     (if effective then effective_provider_id state else target_provider_id state) = provider_id
     \<and> (if effective then effective_model_id state else target_model_id state) = model_id"

definition ClassifyRequestedAsrBackend ::
    "AsrBackendState \<Rightarrow> string \<Rightarrow> string \<Rightarrow> RequestedAsrBackendStatus" where
  "ClassifyRequestedAsrBackend state provider_id model_id =
     (let target_matches = MatchesRequestedAsrBackend state provider_id model_id False;
          effective_matches = MatchesRequestedAsrBackend state provider_id model_id True
      in if reload_in_progress state \<and> target_matches then kReloadInProgress
         else if last_error state \<noteq> [] \<and> target_matches \<and> \<not> effective_matches then
           (if has_effective_backend state then kFailedStillUsingPrevious
            else kFailedNoUsableBackend)
         else if effective_matches then kApplied
         else if target_matches then kConfigSaved
         else kUnknown)"

lemma StatusToString_inj: "StatusToString a = StatusToString b \<longleftrightarrow> a = b"
  by (cases a; cases b) simp_all

lemma StringToStatus_StatusToString [simp]: "StringToStatus (StatusToString s) = s"
  by (cases s) (simp_all add: StringToStatus_def)

text \<open>
  The status names sent over D-Bus decode to the status they were made from, and a name
  that is none of them decodes to \<open>Idle\<close>.
\<close>

theorem Status_roundtrip:
  "StringToStatus (StatusToString s) = s
   \<and> (t \<in> range StatusToString \<or> StringToStatus t = Idle)"
proof (intro conjI disjCI)
  show "StringToStatus (StatusToString s) = s" by simp
  assume "StringToStatus t \<noteq> Idle"
  then have "\<exists>st. t = StatusToString st"
    by (auto simp: StringToStatus_def split: if_splits intro: StatusToString.simps [symmetric])
  then show "t \<in> range StatusToString" by auto
qed

end
