(* ===== verification/Runtime_State_Machine.thy ===== *)
theory Runtime_State_Machine
  imports Dbus_Interface
begin

text \<open>
  \<open>src/daemon/runtime/runtime_state_machine.h\<close> and \<open>runtime_state_machine.cpp\<close>: the phases of one
  dictation (idle, recording, inferring, post-processing, error) and the effects that each
  transition asks the controller for. Every member function returns its
  \<open>StateTransitionResult\<close> and the new state. A translated message \<open>_("...")\<close> is its message id.
\<close>

section \<open>State and results\<close>

datatype PostprocessingState = Inactive | Dictation | Command | Discard | CommitRaw

record StateTransitionResult =
  accepted :: bool
  previous_phase :: Status
  new_phase :: Status
  rejection_reason :: string
  should_start_capture :: bool
  should_stop_capture :: bool
  should_submit_inference :: bool
  should_cancel_session :: bool
  should_enter_postprocessing :: bool
  should_commit_result :: bool
  should_commit_raw_text :: bool
  should_discard_text :: bool
  is_too_short :: bool

definition default_result :: StateTransitionResult where
  "default_result =
     \<lparr>accepted = False, previous_phase = Idle, new_phase = Idle, rejection_reason = [],
      should_start_capture = False, should_stop_capture = False, should_submit_inference = False,
      should_cancel_session = False, should_enter_postprocessing = False,
      should_commit_result = False, should_commit_raw_text = False, should_discard_text = False,
      is_too_short = False\<rparr>"

record RuntimeStateMachine =
  m_phase :: Status
  m_postprocessing_state :: PostprocessingState
  m_is_command :: bool
  m_selected_text :: string

definition initial_machine :: RuntimeStateMachine where
  "initial_machine =
     \<lparr>m_phase = Idle, m_postprocessing_state = Inactive, m_is_command = False, m_selected_text = []\<rparr>"

section \<open>Operations\<close>

definition Reject :: "Status \<Rightarrow> string \<Rightarrow> StateTransitionResult" where
  "Reject phase reason =
     default_result\<lparr>accepted := False, previous_phase := phase, new_phase := phase,
       rejection_reason := reason\<rparr>"

definition AbortRecordingToIdle ::
    "RuntimeStateMachine \<Rightarrow> Status \<Rightarrow> bool \<Rightarrow> StateTransitionResult \<times> RuntimeStateMachine" where
  "AbortRecordingToIdle m prev too_short =
     (default_result\<lparr>accepted := True, previous_phase := prev, new_phase := Idle,
        should_stop_capture := True, should_cancel_session := True, is_too_short := too_short\<rparr>,
      m\<lparr>m_phase := Idle, m_is_command := False, m_selected_text := []\<rparr>)"

definition CompleteToIdle ::
    "RuntimeStateMachine \<Rightarrow> Status \<Rightarrow> StateTransitionResult \<times> RuntimeStateMachine" where
  "CompleteToIdle m prev =
     (default_result\<lparr>accepted := True, previous_phase := prev, new_phase := Idle,
        should_commit_result := True\<rparr>,
      m\<lparr>m_phase := Idle, m_postprocessing_state := Inactive, m_is_command := False,
        m_selected_text := []\<rparr>)"

definition rsm_Clear :: "RuntimeStateMachine \<Rightarrow> RuntimeStateMachine" where
  "rsm_Clear m =
     m\<lparr>m_phase := Idle, m_postprocessing_state := Inactive, m_is_command := False,
       m_selected_text := []\<rparr>"

definition OnStartRecording ::
    "RuntimeStateMachine \<Rightarrow> bool \<Rightarrow> string \<Rightarrow> StateTransitionResult \<times> RuntimeStateMachine" where
  "OnStartRecording m is_command selected_text =
     (if m_phase m \<noteq> Idle then
        (Reject (m_phase m)
           ''Voice input daemon is busy. Please wait for the current request to finish.'', m)
      else
        (default_result\<lparr>accepted := True, previous_phase := m_phase m, new_phase := Recording,
           should_start_capture := True\<rparr>,
         m\<lparr>m_phase := Recording, m_postprocessing_state := Inactive, m_is_command := is_command,
           m_selected_text := selected_text\<rparr>))"

definition OnStopRecording ::
    "RuntimeStateMachine \<Rightarrow> nat \<Rightarrow> nat \<Rightarrow> StateTransitionResult \<times> RuntimeStateMachine" where
  "OnStopRecording m sample_count min_samples =
     (if m_phase m \<noteq> Recording then (Reject (m_phase m) ''Recording is not active.'', m)
      else if sample_count < min_samples then AbortRecordingToIdle m (m_phase m) True
      else
        (default_result\<lparr>accepted := True, previous_phase := m_phase m, new_phase := Inferring,
           should_stop_capture := True, should_submit_inference := True\<rparr>,
         m\<lparr>m_phase := Inferring\<rparr>))"

definition OnCancel ::
    "RuntimeStateMachine \<Rightarrow> bool \<Rightarrow> StateTransitionResult \<times> RuntimeStateMachine" where
  "OnCancel m commit_raw_text =
     (let prev = m_phase m in
      if prev = Idle then
        (default_result\<lparr>accepted := True, previous_phase := prev, new_phase := prev\<rparr>, m)
      else if prev = Recording then AbortRecordingToIdle m prev False
      else if prev = Postprocessing then
        (if \<not> (m_postprocessing_state m = Dictation
               \<or> \<not> commit_raw_text \<and> m_postprocessing_state m = Command) then
           (Reject prev ''Requested post-processing action is not available.'', m)
         else
           (default_result\<lparr>accepted := True, previous_phase := prev, new_phase := prev,
              should_commit_raw_text := commit_raw_text,
              should_discard_text := \<not> commit_raw_text\<rparr>,
            m\<lparr>m_postprocessing_state := (if commit_raw_text then CommitRaw else Discard)\<rparr>))
      else (Reject prev ''No cancellable operation in current phase.'', m))"

definition OnAudioError ::
    "RuntimeStateMachine \<Rightarrow> StateTransitionResult \<times> RuntimeStateMachine" where
  "OnAudioError m =
     (if m_phase m \<noteq> Recording then (Reject (m_phase m) [], m)
      else
        (default_result\<lparr>accepted := True, previous_phase := m_phase m, new_phase := Error,
           should_stop_capture := True, should_cancel_session := True\<rparr>,
         m\<lparr>m_phase := Error\<rparr>))"

definition OnInferenceComplete ::
    "RuntimeStateMachine \<Rightarrow> bool \<Rightarrow> StateTransitionResult \<times> RuntimeStateMachine" where
  "OnInferenceComplete m has_scene_to_postprocess =
     (if m_phase m \<noteq> Inferring then (Reject (m_phase m) [], m)
      else if has_scene_to_postprocess then
        (default_result\<lparr>accepted := True, previous_phase := m_phase m,
           new_phase := Postprocessing, should_enter_postprocessing := True\<rparr>,
         m\<lparr>m_phase := Postprocessing,
           m_postprocessing_state := (if m_is_command m then Command else Dictation)\<rparr>)
      else CompleteToIdle m (m_phase m))"

definition OnInferenceError ::
    "RuntimeStateMachine \<Rightarrow> StateTransitionResult \<times> RuntimeStateMachine" where
  "OnInferenceError m =
     (if m_phase m \<noteq> Inferring then (Reject (m_phase m) [], m)
      else
        (default_result\<lparr>accepted := True, previous_phase := m_phase m, new_phase := Error\<rparr>,
         m\<lparr>m_phase := Error\<rparr>))"

definition OnPostprocessingComplete ::
    "RuntimeStateMachine \<Rightarrow> StateTransitionResult \<times> RuntimeStateMachine" where
  "OnPostprocessingComplete m =
     (if m_phase m \<noteq> Postprocessing then (Reject (m_phase m) [], m)
      else CompleteToIdle m (m_phase m))"

definition OnResetToIdle ::
    "RuntimeStateMachine \<Rightarrow> StateTransitionResult \<times> RuntimeStateMachine" where
  "OnResetToIdle m =
     (default_result\<lparr>accepted := True, previous_phase := m_phase m, new_phase := Idle\<rparr>,
      rsm_Clear m)"

definition TakePostprocessingState ::
    "RuntimeStateMachine \<Rightarrow> PostprocessingState \<times> RuntimeStateMachine" where
  "TakePostprocessingState m = (m_postprocessing_state m, m\<lparr>m_postprocessing_state := Inactive\<rparr>)"

lemmas rsm_op_defs [vinput_defs] =
  OnStartRecording_def OnStopRecording_def OnCancel_def OnAudioError_def OnInferenceComplete_def
  OnInferenceError_def OnPostprocessingComplete_def OnResetToIdle_def AbortRecordingToIdle_def
  CompleteToIdle_def Reject_def rsm_Clear_def default_result_def Let_def

section \<open>Runs\<close>

text \<open>The calls a controller can make, with their arguments.\<close>

datatype rsm_event =
    StartRecording bool string
  | StopRecording nat nat
  | Cancel bool
  | AudioError
  | InferenceComplete bool
  | InferenceError
  | PostprocessingComplete
  | ResetToIdle

fun rsm_handle :: "RuntimeStateMachine \<Rightarrow> rsm_event \<Rightarrow> StateTransitionResult \<times> RuntimeStateMachine" where
  "rsm_handle m (StartRecording c t) = OnStartRecording m c t"
| "rsm_handle m (StopRecording n k) = OnStopRecording m n k"
| "rsm_handle m (Cancel raw) = OnCancel m raw"
| "rsm_handle m AudioError = OnAudioError m"
| "rsm_handle m (InferenceComplete b) = OnInferenceComplete m b"
| "rsm_handle m InferenceError = OnInferenceError m"
| "rsm_handle m PostprocessingComplete = OnPostprocessingComplete m"
| "rsm_handle m ResetToIdle = OnResetToIdle m"

text \<open>Between two calls the controller may also take the post-processing state.\<close>

datatype rsm_call = Event rsm_event | TakeState

fun rsm_step :: "RuntimeStateMachine \<Rightarrow> rsm_call \<Rightarrow> RuntimeStateMachine" where
  "rsm_step m (Event e) = snd (rsm_handle m e)"
| "rsm_step m TakeState = snd (TakePostprocessingState m)"

definition rsm_inv :: "RuntimeStateMachine \<Rightarrow> bool" where
  "rsm_inv m \<longleftrightarrow>
     (m_phase m = Idle \<longrightarrow> \<not> m_is_command m \<and> m_selected_text m = [])
     \<and> (m_phase m \<noteq> Postprocessing \<longrightarrow> m_postprocessing_state m = Inactive)
     \<and> (m_postprocessing_state m = Command \<longrightarrow> m_is_command m)
     \<and> (m_postprocessing_state m \<in> {Dictation, CommitRaw} \<longrightarrow> \<not> m_is_command m)"

lemma rsm_step_inv: "rsm_inv m \<Longrightarrow> rsm_inv (rsm_step m c)"
proof (cases c)
  case (Event e)
  then show "rsm_inv m \<Longrightarrow> rsm_inv (rsm_step m c)"
    by (cases e) (auto simp: rsm_inv_def rsm_op_defs split: if_splits)
next
  case TakeState
  then show "rsm_inv m \<Longrightarrow> rsm_inv (rsm_step m c)"
    by (auto simp: rsm_inv_def TakePostprocessingState_def)
qed

interpretation rsm: invariant_machine rsm_step initial_machine rsm_inv
proof unfold_locales
  show "rsm_inv initial_machine" by (simp add: rsm_inv_def initial_machine_def)
  show "rsm_inv m \<Longrightarrow> rsm_inv (rsm_step m c)" for m c by (rule rsm_step_inv)
qed

text \<open>The reachable states, as an inductive predicate over the calls.\<close>

inductive rsm_reachable :: "RuntimeStateMachine \<Rightarrow> bool" where
  start: "rsm_reachable initial_machine"
| step: "rsm_reachable m \<Longrightarrow> rsm_reachable (rsm_step m c)"

lemma rsm_reachable_run: "rsm_reachable (foldl rsm_step initial_machine cs)"
  by (induction cs rule: rev_induct) (auto intro: rsm_reachable.intros)

lemma rsm_reachable_inv: "rsm_reachable m \<Longrightarrow> rsm_inv m"
  by (induction rule: rsm_reachable.induct) (auto intro: rsm_step_inv rsm.inv_init)

text \<open>The phase changes that an accepted event may make.\<close>

inductive phase_edge :: "Status \<Rightarrow> rsm_event \<Rightarrow> Status \<Rightarrow> bool" where
  "phase_edge Idle (StartRecording c t) Recording"
| "n \<ge> k \<Longrightarrow> phase_edge Recording (StopRecording n k) Inferring"
| "n < k \<Longrightarrow> phase_edge Recording (StopRecording n k) Idle"
| "phase_edge Recording (Cancel raw) Idle"
| "phase_edge Idle (Cancel raw) Idle"
| "phase_edge Postprocessing (Cancel raw) Postprocessing"
| "phase_edge Recording AudioError Error"
| "phase_edge Inferring (InferenceComplete True) Postprocessing"
| "phase_edge Inferring (InferenceComplete False) Idle"
| "phase_edge Inferring InferenceError Error"
| "phase_edge Postprocessing PostprocessingComplete Idle"
| "phase_edge p ResetToIdle Idle"

inductive_simps phase_edge_simps [simp]:
  "phase_edge p (StartRecording c t) q" "phase_edge p (StopRecording n k) q"
  "phase_edge p (Cancel raw) q" "phase_edge p AudioError q" "phase_edge p (InferenceComplete b) q"
  "phase_edge p InferenceError q" "phase_edge p PostprocessingComplete q" "phase_edge p ResetToIdle q"

section \<open>Properties\<close>

text \<open>
  C3: every call reports the truth: a rejected call changes nothing and names the current
  phase twice; an accepted call names the old and the new phase, and the two are an edge of the
  phase diagram.
\<close>

theorem rsm_handle_contract:
  "case rsm_handle m e of (r, m') \<Rightarrow>
     previous_phase r = m_phase m \<and> new_phase r = m_phase m'
     \<and> (if accepted r then phase_edge (m_phase m) e (m_phase m') else m' = m)"
  by (cases e) (auto simp: rsm_op_defs split: if_splits)

text \<open>
  C32: in every reachable state an idle machine holds no command flag and no selected text, the
  post-processing state is inactive outside post-processing, and it agrees with the command
  flag of the running request.
\<close>

theorem rsm_reachable_invariant: "rsm_inv (foldl rsm_step initial_machine cs)"
  by (rule rsm.run_inv)

text \<open>
  In a reachable post-processing state a command request never has its raw text committed
  (the call is rejected), and after one accepted cancellation every further one is rejected, so
  a result is discarded or committed raw at most once.
\<close>

theorem rsm_cancel_postprocessing:
  assumes "rsm_reachable m" and "m_phase m = Postprocessing"
  shows "(m_is_command m \<longrightarrow> \<not> accepted (fst (OnCancel m True)))
    \<and> (accepted (fst (OnCancel m raw)) \<longrightarrow> \<not> accepted (fst (OnCancel (snd (OnCancel m raw)) raw')))"
  using rsm_reachable_inv [OF assms(1)] assms(2)
  by (auto simp: rsm_op_defs rsm_inv_def split: if_splits)

theorem rsm_cancel_postprocessing_witness:
  "rsm_reachable (foldl rsm_step initial_machine
      [Event (StartRecording True ''sel''), Event (StopRecording 9000 8000),
       Event (InferenceComplete True)])
   \<and> \<not> accepted (fst (OnCancel (foldl rsm_step initial_machine
      [Event (StartRecording True ''sel''), Event (StopRecording 9000 8000),
       Event (InferenceComplete True)]) True))"
  using rsm_cancel_postprocessing [OF rsm_reachable_run, of
      "[Event (StartRecording True ''sel''), Event (StopRecording 9000 8000),
        Event (InferenceComplete True)]"]
    rsm_reachable_run [of "[Event (StartRecording True ''sel''), Event (StopRecording 9000 8000),
        Event (InferenceComplete True)]"]
  by (simp add: rsm_op_defs initial_machine_def)

text \<open>The effects on the microphone that a result asks for.\<close>

definition capture_delta :: "StateTransitionResult \<Rightarrow> int" where
  "capture_delta r =
     (if should_start_capture r then 1 else 0) - (if should_stop_capture r then 1 else 0)"

fun capture_balance :: "RuntimeStateMachine \<Rightarrow> rsm_event list \<Rightarrow> int" where
  "capture_balance m [] = 0"
| "capture_balance m (e # es) =
     capture_delta (fst (rsm_handle m e)) + capture_balance (snd (rsm_handle m e)) es"

definition capturing :: "RuntimeStateMachine \<Rightarrow> int" where
  "capturing m = (if m_phase m = Recording then 1 else 0)"

lemma capture_step:
  "e \<noteq> ResetToIdle \<Longrightarrow>
     capturing (snd (rsm_handle m e)) = capturing m + capture_delta (fst (rsm_handle m e))"
  by (cases e) (auto simp: rsm_op_defs capturing_def capture_delta_def split: if_splits)

text \<open>
  Over any sequence of events without a reset, the capture starts minus the capture stops
  that the machine asks for are one exactly while it records, and zero otherwise: the microphone
  is never started twice and never left running.
\<close>

theorem rsm_capture_balanced:
  assumes "ResetToIdle \<notin> set es"
  shows "capture_balance initial_machine es
    = capturing (foldl (\<lambda>m e. snd (rsm_handle m e)) initial_machine es)"
proof -
  have "ResetToIdle \<notin> set es \<Longrightarrow>
      capturing m + capture_balance m es = capturing (foldl (\<lambda>m e. snd (rsm_handle m e)) m es)" for m
  proof (induction es arbitrary: m)
    case Nil
    then show ?case by simp
  next
    case (Cons e es)
    then have "capturing (snd (rsm_handle m e)) = capturing m + capture_delta (fst (rsm_handle m e))"
      by (intro capture_step) auto
    with Cons.IH [of "snd (rsm_handle m e)"] Cons.prems show ?case by simp
  qed
  from this [OF assms, of initial_machine] show ?thesis
    by (simp add: capturing_def initial_machine_def)
qed

theorem rsm_capture_balanced_witness:
  "ResetToIdle \<notin> set [StartRecording False [], StopRecording 5 9, StartRecording False []]
   \<and> capture_balance initial_machine [StartRecording False [], StopRecording 5 9, StartRecording False []] = 1"
  using rsm_capture_balanced [of "[StartRecording False [], StopRecording 5 9, StartRecording False []]"]
  by (simp add: rsm_op_defs initial_machine_def capturing_def)

end
