(* ===== verification/Float_Model.thy ===== *)
theory Float_Model
  imports Prelude
begin

text \<open>
  Floating point as the sources use it. A \<open>float\<close> or \<open>double\<close> is a finite rational, an infinity
  or a NaN. Rounding is not fixed here: \<open>fe_round32\<close> and \<open>fe_round64\<close> give the value that the
  hardware stores for an exact result, and \<open>fe_undef_cast\<close> the integer that a conversion without a
  defined result (of a NaN, an infinity or a value out of range) happens to give. Every theorem
  below holds for every choice of the three.
\<close>

datatype fp = Finite rat | PosInf | NegInf | NaN

record float_env =
  fe_round32 :: "rat \<Rightarrow> fp"
  fe_round64 :: "rat \<Rightarrow> fp"
  fe_undef_cast :: "fp \<Rightarrow> int"

text \<open>An environment without rounding, for examples.\<close>

definition exact_env :: float_env where
  "exact_env = \<lparr>fe_round32 = Finite, fe_round64 = Finite, fe_undef_cast = (\<lambda>_. 0)\<rparr>"

fun fp_less :: "fp \<Rightarrow> fp \<Rightarrow> bool" where
  "fp_less (Finite a) (Finite b) = (a < b)"
| "fp_less NaN _ = False"
| "fp_less _ NaN = False"
| "fp_less NegInf b = (b \<noteq> NegInf)"
| "fp_less _ NegInf = False"
| "fp_less PosInf _ = False"
| "fp_less _ PosInf = True"

definition is_finite :: "fp \<Rightarrow> bool" where
  "is_finite x \<longleftrightarrow> (case x of Finite _ \<Rightarrow> True | _ \<Rightarrow> False)"

definition fp_sign :: "fp \<Rightarrow> rat" where
  "fp_sign x = (case x of Finite a \<Rightarrow> sgn a | PosInf \<Rightarrow> 1 | NegInf \<Rightarrow> - 1 | NaN \<Rightarrow> 0)"

text \<open>A product with an infinity has the sign of both factors; with a zero it is a NaN.\<close>

fun fp_mul :: "(rat \<Rightarrow> fp) \<Rightarrow> fp \<Rightarrow> fp \<Rightarrow> fp" where
  "fp_mul rnd (Finite a) (Finite b) = rnd (a * b)"
| "fp_mul rnd a b =
     (if a = NaN \<or> b = NaN \<or> fp_sign a * fp_sign b = 0 then NaN
      else if fp_sign a * fp_sign b > 0 then PosInf else NegInf)"

definition fp_le :: "fp \<Rightarrow> fp \<Rightarrow> bool" where
  "fp_le a b \<longleftrightarrow> fp_less a b \<or> a = b \<and> a \<noteq> NaN"

text \<open>Division by a positive divisor, finite or infinite (the caller has tested it).\<close>

definition fp_div_pos :: "(rat \<Rightarrow> fp) \<Rightarrow> fp \<Rightarrow> fp \<Rightarrow> fp" where
  "fp_div_pos rnd a b =
     (case (a, b) of
        (NaN, _) \<Rightarrow> NaN
      | (_, NaN) \<Rightarrow> NaN
      | (Finite x, Finite y) \<Rightarrow> rnd (x / y)
      | (Finite x, _) \<Rightarrow> Finite 0
      | (PosInf, Finite y) \<Rightarrow> PosInf
      | (NegInf, Finite y) \<Rightarrow> NegInf
      | (_, _) \<Rightarrow> NaN)"

text \<open>Subtraction; equal infinities give a NaN.\<close>

definition fp_sub :: "(rat \<Rightarrow> fp) \<Rightarrow> fp \<Rightarrow> fp \<Rightarrow> fp" where
  "fp_sub rnd a b =
     (case (a, b) of
        (NaN, _) \<Rightarrow> NaN
      | (_, NaN) \<Rightarrow> NaN
      | (Finite x, Finite y) \<Rightarrow> rnd (x - y)
      | (Finite x, PosInf) \<Rightarrow> NegInf
      | (Finite x, NegInf) \<Rightarrow> PosInf
      | (x, Finite y) \<Rightarrow> x
      | (x, y) \<Rightarrow> if x = y then NaN else x)"

definition fp_abs :: "fp \<Rightarrow> fp" where
  "fp_abs x = (case x of Finite a \<Rightarrow> Finite \<bar>a\<bar> | NegInf \<Rightarrow> PosInf | y \<Rightarrow> y)"

text \<open>\<open>std::max\<close> and \<open>std::clamp\<close>, which compare with \<open><\<close> only.\<close>

definition fp_max :: "fp \<Rightarrow> fp \<Rightarrow> fp" where
  "fp_max a b = (if fp_less a b then b else a)"

definition fp_clamp :: "fp \<Rightarrow> fp \<Rightarrow> fp \<Rightarrow> fp" where
  "fp_clamp v lo hi = (if fp_less v lo then lo else if fp_less hi v then hi else v)"

text \<open>Conversion to an integer type with range \<open>lo..hi\<close> truncates towards zero.\<close>

definition trunc_rat :: "rat \<Rightarrow> int" where
  "trunc_rat x = (if x \<ge> 0 then \<lfloor>x\<rfloor> else \<lceil>x\<rceil>)"

definition fp_to_int :: "float_env \<Rightarrow> int \<Rightarrow> int \<Rightarrow> fp \<Rightarrow> int" where
  "fp_to_int fe lo hi x =
     (case x of
        Finite a \<Rightarrow> (if lo \<le> trunc_rat a \<and> trunc_rat a \<le> hi then trunc_rat a else fe_undef_cast fe x)
      | _ \<Rightarrow> fe_undef_cast fe x)"

lemma trunc_rat_bounds:
  "of_int lo \<le> x \<Longrightarrow> x \<le> of_int hi \<Longrightarrow> lo \<le> trunc_rat x \<and> trunc_rat x \<le> hi"
  by (auto simp: trunc_rat_def le_floor_iff ceiling_le_iff floor_le_iff le_ceiling_iff)

lemma fp_clamp_cases:
  assumes "lo \<le> hi"
  shows "fp_clamp v (Finite lo) (Finite hi) = NaN \<and> v = NaN
    \<or> (\<exists>x. fp_clamp v (Finite lo) (Finite hi) = Finite x \<and> lo \<le> x \<and> x \<le> hi)"
  using assms by (cases v) (auto simp: fp_clamp_def)

lemma fp_clamp_idem [simp]:
  "lo \<le> hi \<Longrightarrow> fp_clamp (fp_clamp v (Finite lo) (Finite hi)) (Finite lo) (Finite hi)
    = fp_clamp v (Finite lo) (Finite hi)"
  by (cases v) (auto simp: fp_clamp_def)

lemma fp_clamp_ident:
  "lo \<le> x \<Longrightarrow> x \<le> hi \<Longrightarrow> fp_clamp (Finite x) (Finite lo) (Finite hi) = Finite x"
  by (simp add: fp_clamp_def)

end
