(* ===== verification/Recognition_Contract.thy ===== *)
theory Recognition_Contract
  imports Float_Model
begin

text \<open>
  \<open>src/daemon/asr/runtime/recognition_contract.h\<close> and the result type of
  \<open>recognition_session_manager.h\<close>: events, capabilities, and the interface of a recognition
  session. The virtual class \<open>RecognitionSession\<close> is a record of functions over a session state
  of any type; each function returns its value, its error text and the new state.
\<close>

definition kMinSamplesForRecognition :: nat where "kMinSamplesForRecognition = 8000"

datatype AudioDeliveryMode = Buffered | Chunked

datatype RecognitionEventKind = PartialText | FinalText | ErrorEvent | Completed

record RecognitionEvent =
  ev_kind :: RecognitionEventKind
  ev_text :: string
  ev_error :: string

record BackendCapabilities =
  audio_delivery_mode :: AudioDeliveryMode
  supports_streaming :: bool
  supports_partial_results :: bool
  requires_network :: bool
  supports_hotwords :: bool

record BackendDescriptor =
  bd_provider_id :: string
  bd_provider_type :: string
  bd_backend_id :: string
  bd_capabilities :: BackendCapabilities

definition default_descriptor :: BackendDescriptor where
  "default_descriptor =
     \<lparr>bd_provider_id = [], bd_provider_type = [], bd_backend_id = [],
      bd_capabilities = \<lparr>audio_delivery_mode = Chunked, supports_streaming = False,
        supports_partial_results = False, requires_network = False, supports_hotwords = False\<rparr>\<rparr>"

record 's session_ops =
  so_push :: "'s \<Rightarrow> i16 list \<Rightarrow> (bool \<times> string) \<times> 's"
  so_finish :: "'s \<Rightarrow> (bool \<times> string) \<times> 's"
  so_cancel :: "'s \<Rightarrow> 's"
  so_interrupt :: "'s \<Rightarrow> 's"
  so_poll :: "'s \<Rightarrow> RecognitionEvent list \<times> 's"

text \<open>The default \<open>PushAudio\<close> for \<open>float\<close> samples converts to 16 bits and calls the other one.\<close>

definition float_to_pcm :: "float_env \<Rightarrow> fp \<Rightarrow> i16" where
  "float_to_pcm fe val =
     (if \<not> is_finite val then 0
      else word_of_int (fp_to_int fe (- 32768) 32767
             (fp_clamp (fp_mul (fe_round32 fe) val (Finite 32768)) (Finite (- 32768)) (Finite 32767))))"

definition PushAudio_float ::
    "float_env \<Rightarrow> 's session_ops \<Rightarrow> 's \<Rightarrow> fp list \<Rightarrow> (bool \<times> string) \<times> 's" where
  "PushAudio_float fe ops s xs =
     (if xs = [] then so_push ops s [] else so_push ops s (map (float_to_pcm fe) xs))"

record RecognitionRunResult =
  rr_available :: bool
  rr_ok :: bool
  rr_text :: string
  rr_error :: string

definition default_run_result :: RecognitionRunResult where
  "default_run_result = \<lparr>rr_available = False, rr_ok = True, rr_text = [], rr_error = []\<rparr>"

end
