(* ===== verification/Async_Session.thy ===== *)
theory Async_Session
  imports Recognition_Contract
begin

text \<open>
  \<open>src/daemon/asr/runtime/async_recognition_session.cpp\<close>: a session whose backend runs on one
  worker thread behind a bounded queue. Every critical section of \<open>mutex_\<close> is one function on the
  shared state; the worker's position between two of them is its program counter. The threads
  interleave in the step relation \<open>async_step\<close>. The field \<open>as_calls\<close> records the calls made on the
  backend and \<open>as_accepted\<close> the chunks accepted by \<open>PushAudio\<close>; no function reads them.
\<close>

section \<open>State\<close>

datatype backend_call = CPush "i16 list" | CFinish | CCancel

text \<open>
  The worker waits; holds a chunk it has popped; has events of an accepted chunk to append; is
  about to finish the backend; has the result of finishing to publish; has failed and has
  events to append; is about to cancel the backend; has the events of the cancellation to
  append; has copied \<open>error_\<close> and is about to complete; or has returned.
\<close>

datatype worker_pc =
    Waiting
  | Pushing "i16 list"
  | Appending "RecognitionEvent list"
  | Finishing
  | FinishAppend bool string "RecognitionEvent list"
  | FinishComplete bool string
  | FailPublish string "RecognitionEvent list"
  | FailAppend "RecognitionEvent list"
  | Cancelling
  | CancelAppend "RecognitionEvent list"
  | CancelReadError
  | CancelComplete string
  | Done

record 'b async_state =
  as_max :: nat
  as_queue :: "i16 list list"
  as_events :: "RecognitionEvent list"
  as_queued :: nat
  as_dropped_chunks :: u64
  as_dropped_samples :: u64
  as_finish_requested :: bool
  as_cancel_requested :: bool
  as_complete :: bool
  as_success :: bool
  as_backend_failed :: bool
  as_error :: string
  as_pc :: worker_pc
  as_backend :: 'b
  as_calls :: "backend_call list"
  as_accepted :: "i16 list list"

definition async_init :: "nat \<Rightarrow> 'b \<Rightarrow> 'b async_state" where
  "async_init max_queued backend =
     \<lparr>as_max = max_queued, as_queue = [], as_events = [], as_queued = 0, as_dropped_chunks = 0,
      as_dropped_samples = 0, as_finish_requested = False, as_cancel_requested = False,
      as_complete = False, as_success = False, as_backend_failed = False, as_error = [],
      as_pc = Waiting, as_backend = backend, as_calls = [], as_accepted = []\<rparr>"

section \<open>Calls from other threads\<close>

definition overflow_error :: string where
  "overflow_error = ''Streaming recognition queue overflowed; audio chunk was dropped.''"

definition max_u64 :: u64 where "max_u64 = - 1"

definition saturating_add :: "u64 \<Rightarrow> u64 \<Rightarrow> u64" where
  "saturating_add a n = (if n > max_u64 - a then max_u64 else a + n)"

text \<open>\<open>PushAudio\<close>: the result and the text stored in \<open>*error\<close>.\<close>

definition async_PushAudio ::
    "'b async_state \<Rightarrow> i16 list \<Rightarrow> (bool \<times> string) \<times> 'b async_state" where
  "async_PushAudio s pcm =
     (if as_cancel_requested s \<or> as_finish_requested s \<or> as_complete s then
        ((False, if as_error s = [] then ''Streaming session is no longer recording.'' else as_error s), s)
      else if pcm \<noteq> [] \<and> (as_queued s \<ge> as_max s \<or> length pcm > as_max s - as_queued s) then
        ((False, overflow_error),
         s\<lparr>as_dropped_chunks :=
             (if as_dropped_chunks s < max_u64 then as_dropped_chunks s + 1 else as_dropped_chunks s),
           as_dropped_samples := saturating_add (as_dropped_samples s) (of_nat (length pcm)),
           as_error := overflow_error, as_cancel_requested := True, as_queue := [], as_queued := 0\<rparr>)
      else if pcm \<noteq> [] then
        ((True, []),
         s\<lparr>as_queue := as_queue s @ [pcm], as_queued := as_queued s + length pcm,
           as_accepted := as_accepted s @ [pcm]\<rparr>)
      else ((True, []), s))"

text \<open>\<open>Finish\<close> first requests the end, then waits for \<open>complete_\<close> and reports.\<close>

definition async_Finish_request :: "'b async_state \<Rightarrow> 'b async_state" where
  "async_Finish_request s =
     (if \<not> as_complete s \<and> \<not> as_cancel_requested s then s\<lparr>as_finish_requested := True\<rparr> else s)"

definition async_Finish_return :: "'b async_state \<Rightarrow> (bool \<times> string) option" where
  "async_Finish_return s = (if as_complete s then Some (as_success s, as_error s) else None)"

text \<open>The critical section of \<open>Cancel\<close>; the call of \<open>Interrupt\<close> that follows is a step of its own.\<close>

definition async_Cancel :: "'b async_state \<Rightarrow> 'b async_state" where
  "async_Cancel s =
     (if as_complete s \<or> as_cancel_requested s then s
      else s\<lparr>as_cancel_requested := True, as_queue := [], as_queued := 0\<rparr>)"

definition async_Interrupt :: "'b session_ops \<Rightarrow> 'b async_state \<Rightarrow> 'b async_state" where
  "async_Interrupt ops s = s\<lparr>as_backend := so_interrupt ops (as_backend s)\<rparr>"

definition async_PollEvents :: "'b async_state \<Rightarrow> RecognitionEvent list \<times> 'b async_state" where
  "async_PollEvents s = (as_events s, s\<lparr>as_events := []\<rparr>)"

definition async_FailureError :: "'b async_state \<Rightarrow> string option" where
  "async_FailureError s = (if as_backend_failed s then Some (as_error s) else None)"

section \<open>The worker\<close>

definition AppendEvents :: "RecognitionEvent list \<Rightarrow> 'b async_state \<Rightarrow> 'b async_state" where
  "AppendEvents evs s = (if evs = [] then s else s\<lparr>as_events := as_events s @ evs\<rparr>)"

definition async_Complete :: "bool \<Rightarrow> string \<Rightarrow> 'b async_state \<Rightarrow> 'b async_state" where
  "async_Complete success err s =
     s\<lparr>as_complete := True, as_success := success, as_error := err, as_pc := Done\<rparr>"

text \<open>One step of \<open>Run\<close>; a worker whose wait condition is false does not move.\<close>

definition worker_step :: "'b session_ops \<Rightarrow> 'b async_state \<Rightarrow> 'b async_state" where
  "worker_step ops s =
     (case as_pc s of
        Waiting \<Rightarrow>
          (if as_cancel_requested s then s\<lparr>as_pc := Cancelling\<rparr>
           else (case as_queue s of
                   chunk # rest \<Rightarrow>
                     s\<lparr>as_queue := rest, as_queued := as_queued s - length chunk,
                       as_pc := Pushing chunk\<rparr>
                 | [] \<Rightarrow> (if as_finish_requested s then s\<lparr>as_pc := Finishing\<rparr> else s)))
      | Pushing chunk \<Rightarrow>
          (case so_push ops (as_backend s) chunk of
             ((ok, err), b1) \<Rightarrow>
               (case so_poll ops b1 of
                  (evs, b2) \<Rightarrow>
                    s\<lparr>as_backend := b2, as_calls := as_calls s @ [CPush chunk],
                      as_pc := (if ok then Appending evs else FailPublish err evs)\<rparr>))
      | Appending evs \<Rightarrow> (AppendEvents evs s)\<lparr>as_pc := Waiting\<rparr>
      | Finishing \<Rightarrow>
          (case so_finish ops (as_backend s) of
             ((ok, err), b1) \<Rightarrow>
               (case so_poll ops b1 of
                  (evs, b2) \<Rightarrow>
                    s\<lparr>as_backend := b2, as_calls := as_calls s @ [CFinish],
                      as_pc := FinishAppend ok err evs\<rparr>))
      | FinishAppend ok err evs \<Rightarrow> (AppendEvents evs s)\<lparr>as_pc := FinishComplete ok err\<rparr>
      | FinishComplete ok err \<Rightarrow> async_Complete ok err s
      | FailPublish err evs \<Rightarrow>
          s\<lparr>as_error := (if err = [] then ''Streaming backend rejected audio.'' else err),
            as_backend_failed := True, as_cancel_requested := True, as_queue := [], as_queued := 0,
            as_pc := FailAppend evs\<rparr>
      | FailAppend evs \<Rightarrow> (AppendEvents evs s)\<lparr>as_pc := Cancelling\<rparr>
      | Cancelling \<Rightarrow>
          (case so_poll ops (so_cancel ops (as_backend s)) of
             (evs, b2) \<Rightarrow>
               s\<lparr>as_backend := b2, as_calls := as_calls s @ [CCancel], as_pc := CancelAppend evs\<rparr>)
      | CancelAppend evs \<Rightarrow> (AppendEvents evs s)\<lparr>as_pc := CancelReadError\<rparr>
      | CancelReadError \<Rightarrow> s\<lparr>as_pc := CancelComplete (as_error s)\<rparr>
      | CancelComplete err \<Rightarrow> async_Complete False err s
      | Done \<Rightarrow> s)"

section \<open>Interleavings\<close>

inductive async_step :: "'b session_ops \<Rightarrow> 'b async_state \<Rightarrow> 'b async_state \<Rightarrow> bool" for ops where
  push: "async_step ops s (snd (async_PushAudio s pcm))"
| finish: "async_step ops s (async_Finish_request s)"
| cancel: "async_step ops s (async_Cancel s)"
| interrupt: "async_step ops s (async_Interrupt ops s)"
| poll: "async_step ops s (snd (async_PollEvents s))"
| worker: "async_step ops s (worker_step ops s)"

inductive async_reachable :: "'b session_ops \<Rightarrow> nat \<Rightarrow> 'b \<Rightarrow> 'b async_state \<Rightarrow> bool"
  for ops n b where
  start: "async_reachable ops n b (async_init n b)"
| step: "async_reachable ops n b s \<Longrightarrow> async_step ops s t \<Longrightarrow> async_reachable ops n b t"

lemmas async_op_defs [vinput_defs] =
  async_PushAudio_def async_Finish_request_def async_Cancel_def async_Interrupt_def
  async_PollEvents_def AppendEvents_def async_Complete_def

section \<open>Invariants\<close>

fun pushes :: "backend_call list \<Rightarrow> i16 list list" where
  "pushes [] = []"
| "pushes (CPush c # cs) = c # pushes cs"
| "pushes (CFinish # cs) = pushes cs"
| "pushes (CCancel # cs) = pushes cs"

lemma pushes_append [simp]: "pushes (cs @ ds) = pushes cs @ pushes ds"
  by (induction cs rule: pushes.induct) auto

text \<open>The chunk the worker holds.\<close>

definition in_flight :: "worker_pc \<Rightarrow> i16 list list" where
  "in_flight pc = (case pc of Pushing c \<Rightarrow> [c] | _ \<Rightarrow> [])"

text \<open>Before the backend was told to stop, and while it is being finished.\<close>

fun pc_running :: "worker_pc \<Rightarrow> bool" where
  "pc_running Waiting = True"
| "pc_running (Pushing c) = True"
| "pc_running (Appending e) = True"
| "pc_running pc = False"

fun pc_finishing :: "worker_pc \<Rightarrow> bool" where
  "pc_finishing Finishing = True"
| "pc_finishing (FinishAppend ok err e) = True"
| "pc_finishing (FinishComplete ok err) = True"
| "pc_finishing pc = False"

fun pc_told :: "worker_pc \<Rightarrow> backend_call list" where
  "pc_told (FinishAppend ok err e) = [CFinish]"
| "pc_told (FinishComplete ok err) = [CFinish]"
| "pc_told (CancelAppend e) = [CCancel]"
| "pc_told CancelReadError = [CCancel]"
| "pc_told (CancelComplete err) = [CCancel]"
| "pc_told pc = []"

definition stops :: "backend_call list \<Rightarrow> backend_call list" where
  "stops cs = filter (\<lambda>c. c = CFinish \<or> c = CCancel) cs"

definition queue_inv :: "'b async_state \<Rightarrow> bool" where
  "queue_inv s \<longleftrightarrow>
     as_queued s = sum_list (map length (as_queue s)) \<and> as_queued s \<le> as_max s
     \<and> [] \<notin> set (as_queue s) \<and> (as_cancel_requested s \<longrightarrow> as_queue s = [])"

definition order_inv :: "'b async_state \<Rightarrow> bool" where
  "order_inv s \<longleftrightarrow>
     (pc_running (as_pc s) \<and> \<not> as_cancel_requested s \<longrightarrow>
        as_accepted s = pushes (as_calls s) @ in_flight (as_pc s) @ as_queue s)
     \<and> (pc_finishing (as_pc s) \<longrightarrow>
        as_finish_requested s \<and> as_queue s = [] \<and> as_accepted s = pushes (as_calls s))
     \<and> (as_success s \<longrightarrow> as_complete s \<and> as_accepted s = pushes (as_calls s)
          \<and> stops (as_calls s) = [CFinish])"

definition done_inv :: "'b async_state \<Rightarrow> bool" where
  "done_inv s \<longleftrightarrow>
     (as_complete s \<longleftrightarrow> as_pc s = Done)
     \<and> (as_pc s \<noteq> Done \<longrightarrow> stops (as_calls s) = pc_told (as_pc s) \<and> \<not> as_success s)
     \<and> (as_pc s = Done \<longrightarrow> length (stops (as_calls s)) = 1
          \<and> (as_success s \<longrightarrow> stops (as_calls s) = [CFinish]))
     \<and> (\<not> pc_running (as_pc s) \<longrightarrow>
          as_finish_requested s \<or> as_cancel_requested s \<or> (\<exists>e evs. as_pc s = FailPublish e evs))"

definition async_inv :: "'b async_state \<Rightarrow> bool" where
  "async_inv s \<longleftrightarrow> queue_inv s \<and> order_inv s \<and> done_inv s"

lemmas async_inv_defs = queue_inv_def order_inv_def done_inv_def

lemma async_inv_init: "async_inv (async_init n b)"
  by (simp add: async_inv_def async_inv_defs async_init_def in_flight_def stops_def)

lemma push_inv: "async_inv s \<Longrightarrow> async_inv (snd (async_PushAudio s pcm))"
  by (cases "as_pc s")
     (auto simp: async_inv_def async_inv_defs async_PushAudio_def in_flight_def)

lemma request_inv:
  "async_inv s \<Longrightarrow> async_inv (async_Finish_request s)"
  "async_inv s \<Longrightarrow> async_inv (async_Cancel s)"
  "async_inv s \<Longrightarrow> async_inv (async_Interrupt ops s)"
  "async_inv s \<Longrightarrow> async_inv (snd (async_PollEvents s))"
  by (auto simp: async_inv_def async_inv_defs async_op_defs)

lemma AppendEvents_fields [simp]:
  "as_queue (AppendEvents e s) = as_queue s" "as_queued (AppendEvents e s) = as_queued s"
  "as_max (AppendEvents e s) = as_max s" "as_pc (AppendEvents e s) = as_pc s"
  "as_cancel_requested (AppendEvents e s) = as_cancel_requested s"
  "as_finish_requested (AppendEvents e s) = as_finish_requested s"
  "as_complete (AppendEvents e s) = as_complete s" "as_success (AppendEvents e s) = as_success s"
  "as_calls (AppendEvents e s) = as_calls s" "as_accepted (AppendEvents e s) = as_accepted s"
  "as_backend_failed (AppendEvents e s) = as_backend_failed s"
  "as_error (AppendEvents e s) = as_error s"
  by (simp_all add: AppendEvents_def)

lemma worker_queue_inv: "queue_inv s \<Longrightarrow> queue_inv (worker_step ops s)"
  by (cases "as_pc s")
     (auto simp: queue_inv_def worker_step_def async_Complete_def split: list.splits prod.splits)

lemma worker_order_inv: "async_inv s \<Longrightarrow> order_inv (worker_step ops s)"
  by (cases "as_pc s")
     (auto simp: async_inv_def async_inv_defs worker_step_def async_Complete_def in_flight_def
        split: list.splits prod.splits)

lemma stops_snoc [simp]:
  "stops (cs @ [CPush c]) = stops cs" "stops (cs @ [CFinish]) = stops cs @ [CFinish]"
  "stops (cs @ [CCancel]) = stops cs @ [CCancel]"
  by (simp_all add: stops_def)

lemma worker_done_inv: "async_inv s \<Longrightarrow> done_inv (worker_step ops s)"
  by (cases "as_pc s")
     (auto simp: async_inv_def async_inv_defs worker_step_def async_Complete_def
        split: list.splits prod.splits)

lemma async_step_inv: "async_step ops s t \<Longrightarrow> async_inv s \<Longrightarrow> async_inv t"
proof (induction rule: async_step.induct)
  case (worker s)
  then show ?case
    using worker_queue_inv worker_order_inv worker_done_inv unfolding async_inv_def by blast
qed (auto intro: push_inv request_inv)

lemma async_reachable_inv: "async_reachable ops n b s \<Longrightarrow> async_inv s"
  by (induction rule: async_reachable.induct) (auto intro: async_step_inv async_inv_init)

lemma as_max_step: "async_step ops s t \<Longrightarrow> as_max t = as_max s"
  by (induction rule: async_step.induct)
     (auto simp: async_op_defs worker_step_def split: worker_pc.splits list.splits prod.splits)

lemma async_reachable_max: "async_reachable ops n b s \<Longrightarrow> as_max s = n"
  by (induction rule: async_reachable.induct) (auto simp: async_init_def as_max_step)

section \<open>Progress of the worker\<close>

fun pc_rank :: "nat \<Rightarrow> worker_pc \<Rightarrow> nat" where
  "pc_rank q Done = 0"
| "pc_rank q (CancelComplete e) = 1"
| "pc_rank q CancelReadError = 2"
| "pc_rank q (CancelAppend e) = 3"
| "pc_rank q Cancelling = 4"
| "pc_rank q (FailAppend e) = 5"
| "pc_rank q (FailPublish e evs) = 6"
| "pc_rank q (FinishComplete ok e) = 1"
| "pc_rank q (FinishAppend ok e evs) = 2"
| "pc_rank q Finishing = 3"
| "pc_rank q Waiting = 7 + 3 * q"
| "pc_rank q (Appending e) = 8 + 3 * q"
| "pc_rank q (Pushing c) = 9 + 3 * q"

definition worker_rank :: "'b async_state \<Rightarrow> nat" where
  "worker_rank s = pc_rank (length (as_queue s)) (as_pc s)"

definition stopping :: "'b async_state \<Rightarrow> bool" where
  "stopping s \<longleftrightarrow> as_cancel_requested s \<or> as_finish_requested s \<or> \<not> pc_running (as_pc s)"

lemma worker_progress:
  "stopping s \<Longrightarrow> as_pc s \<noteq> Done \<Longrightarrow>
     worker_rank (worker_step ops s) < worker_rank s \<and> stopping (worker_step ops s)"
  by (cases "as_pc s")
     (auto simp: stopping_def worker_rank_def worker_step_def async_Complete_def
        split: list.splits prod.splits)

lemma worker_terminates:
  "stopping s \<Longrightarrow> \<exists>k \<le> worker_rank s. as_pc ((worker_step ops ^^ k) s) = Done"
proof (induction "worker_rank s" arbitrary: s rule: less_induct)
  case less
  show ?case
  proof (cases "as_pc s = Done")
    case True
    then show ?thesis by (intro exI [of _ 0]) simp
  next
    case False
    note P = worker_progress [OF less.prems False, of ops]
    then obtain k where "k \<le> worker_rank (worker_step ops s)"
        "as_pc ((worker_step ops ^^ k) (worker_step ops s)) = Done"
      using less.hyps by blast
    then show ?thesis using P
      by (intro exI [of _ "Suc k"]) (simp add: funpow_Suc_right del: funpow.simps)
  qed
qed

lemma worker_run_reachable:
  "async_reachable ops n b s \<Longrightarrow> async_reachable ops n b ((worker_step ops ^^ k) s)"
  by (induction k) (auto intro: async_reachable.step async_step.worker)

section \<open>Properties\<close>

text \<open>
  C18: in every interleaving of the capture thread, the controller and the worker, the queue
  never holds more samples than its bound, its counter is the number of samples in it (so the
  subtractions of the source never wrap), and it is empty once cancellation was requested.
\<close>

theorem async_queue_bounded:
  assumes "async_reachable ops n b s"
  shows "as_queued s = sum_list (map length (as_queue s)) \<and> as_queued s \<le> n
    \<and> (as_cancel_requested s \<longrightarrow> as_queue s = [])"
  using async_reachable_inv [OF assms] async_reachable_max [OF assms]
  by (simp add: async_inv_def queue_inv_def)

text \<open>
  C4: a session that reports success has given its backend every accepted chunk, in the order
  of acceptance, and finished it exactly once; an incomplete recording is never reported as
  successful. A completed session has stopped its backend exactly once.
\<close>

theorem async_success_complete:
  assumes "async_reachable ops n b s"
  shows "(as_success s \<longrightarrow> pushes (as_calls s) = as_accepted s \<and> stops (as_calls s) = [CFinish])
    \<and> (as_complete s \<longrightarrow> length (stops (as_calls s)) = 1)
    \<and> (\<not> as_complete s \<longrightarrow> length (stops (as_calls s)) \<le> 1)"
proof -
  have I: "async_inv s" using assms by (rule async_reachable_inv)
  have "length (pc_told (as_pc s)) \<le> 1" by (cases "as_pc s") simp_all
  then show ?thesis using I by (auto simp: async_inv_def order_inv_def done_inv_def)
qed

text \<open>
  C17: \<open>Finish\<close> returns: whatever the session did before, once the request of \<open>Finish\<close> (or an
  earlier cancellation) is in place the worker alone reaches completion within a number of steps
  linear in the queue, and the waiting call then has its result.
\<close>

theorem async_Finish_returns:
  assumes "async_reachable ops n b s"
  shows "\<exists>k \<le> 9 + 3 * length (as_queue s).
    \<exists>r. async_Finish_return ((worker_step ops ^^ k) (async_Finish_request s)) = Some r"
proof -
  let ?s = "async_Finish_request s"
  have r: "async_reachable ops n b ?s"
    using assms by (auto intro: async_reachable.step async_step.finish)
  have "stopping ?s"
  proof (cases "as_complete s")
    case True
    then have "as_pc s = Done"
      using async_reachable_inv [OF assms] by (simp add: async_inv_def done_inv_def)
    then show ?thesis using True by (simp add: stopping_def async_Finish_request_def)
  next
    case False
    then show ?thesis by (simp add: stopping_def async_Finish_request_def)
  qed
  then obtain k where k: "k \<le> worker_rank ?s" "as_pc ((worker_step ops ^^ k) ?s) = Done"
    using worker_terminates by blast
  have "as_complete ((worker_step ops ^^ k) ?s)"
    using async_reachable_inv [OF worker_run_reachable [OF r, of k]] k(2)
    by (simp add: async_inv_def done_inv_def)
  moreover have "worker_rank ?s \<le> 9 + 3 * length (as_queue s)"
    by (cases "as_pc s") (auto simp: worker_rank_def async_Finish_request_def)
  ultimately show ?thesis using k(1)
    by (intro exI [of _ k]) (simp add: async_Finish_return_def)
qed

text \<open>A backend that accepts everything, for evaluating examples.\<close>

definition quiet_backend :: "unit session_ops" where
  "quiet_backend =
     \<lparr>so_push = (\<lambda>b c. ((True, []), b)), so_finish = (\<lambda>b. ((True, []), b)), so_cancel = (\<lambda>b. b),
      so_interrupt = (\<lambda>b. b), so_poll = (\<lambda>b. ([], b))\<rparr>"

definition example_session :: "unit async_state" where
  "example_session = snd (async_PushAudio (async_init 4 ()) [1, 2])"

lemma example_session_reachable: "async_reachable quiet_backend 4 () example_session"
  unfolding example_session_def
  by (rule async_reachable.step [OF async_reachable.start async_step.push])

lemma example_session_eval:
  "as_queue example_session = [[1, 2]]" "as_queued example_session = 2"
  by (simp_all add: example_session_def async_PushAudio_def async_init_def)

theorem async_queue_bounded_witness:
  "async_reachable quiet_backend 4 () example_session \<and> as_queued example_session = 2
   \<and> as_queued example_session \<le> 4"
  using async_queue_bounded [OF example_session_reachable] example_session_reachable
  by (simp add: example_session_eval)

definition example_finished :: "unit async_state" where
  "example_finished = (worker_step quiet_backend ^^ 7) (async_Finish_request example_session)"

lemma example_finished_reachable: "async_reachable quiet_backend 4 () example_finished"
  unfolding example_finished_def
  by (intro worker_run_reachable async_reachable.step [OF example_session_reachable]
      async_step.finish)

lemma example_finished_success: "as_success example_finished"
  by (simp add: example_finished_def example_session_def numeral_eq_Suc worker_step_def
      async_Finish_request_def async_PushAudio_def async_init_def quiet_backend_def
      async_Complete_def AppendEvents_def)

theorem async_success_complete_witness:
  "as_success example_finished \<and> pushes (as_calls example_finished) = as_accepted example_finished"
  using async_success_complete [OF example_finished_reachable] example_finished_success by simp

theorem async_Finish_returns_witness:
  "\<exists>k \<le> 12. \<exists>r. async_Finish_return
     ((worker_step quiet_backend ^^ k) (async_Finish_request example_session)) = Some r"
  using async_Finish_returns [OF example_session_reachable] by (simp add: example_session_eval)

end
