(* ===== verification/Session_Lifecycle.thy ===== *)
theory Session_Lifecycle
  imports Async_Session "HOL-Library.Multiset"
begin

text \<open>
  \<open>src/daemon/runtime/session_lifecycle_manager.cpp\<close>: ownership of the active recognition session.
  A \<open>shared_ptr\<close> is an identity (a number) or null (\<open>None\<close>); the sessions themselves are in the
  store \<open>lm_store\<close>, reached through the operations \<open>ops\<close> of their class and \<open>failure_of\<close>, which is
  \<open>AsyncRecognitionSession::FailureError\<close> for the asynchronous sessions and \<open>None\<close> for the others.
  Both mutexes are held for exactly one of the functions below at a time. The list
  \<open>lm_cancelled\<close> records the calls of \<open>Cancel\<close> (messages that the code translates stand here in
  their untranslated form) and \<open>lm_wakes\<close> counts the calls of the wake callback.
\<close>

section \<open>State\<close>

type_synonym sid = nat

record 's lifecycle =
  lm_active :: "sid option"
  lm_deferred :: "sid list"
  lm_has_wake :: bool
  lm_wakes :: nat
  lm_store :: "sid \<Rightarrow> 's"
  lm_cancelled :: "sid list"

record SessionPollResult =
  sp_session :: "sid option"
  sp_events :: "RecognitionEvent list"
  sp_failure :: "string option"
  sp_session_active :: bool

definition kSessionNotInitializedError :: string where
  "kSessionNotInitializedError = ''Recognition session is not initialized.''"
definition kFailedToPushAudioError :: string where
  "kFailedToPushAudioError = ''Failed to push audio chunk.''"
definition kFailedToFinishSessionError :: string where
  "kFailedToFinishSessionError = ''Failed to finish recognition session.''"

section \<open>Operations\<close>

definition RetireSession :: "'s lifecycle \<Rightarrow> sid option \<Rightarrow> 's lifecycle" where
  "RetireSession l session =
     (case session of
        None \<Rightarrow> l
      | Some i \<Rightarrow>
          l\<lparr>lm_deferred := lm_deferred l @ [i],
            lm_wakes := (if lm_has_wake l then Suc (lm_wakes l) else lm_wakes l)\<rparr>)"

definition cancel_session :: "'s session_ops \<Rightarrow> 's lifecycle \<Rightarrow> sid \<Rightarrow> 's lifecycle" where
  "cancel_session ops l i =
     l\<lparr>lm_store := (lm_store l)(i := so_cancel ops (lm_store l i)),
       lm_cancelled := lm_cancelled l @ [i]\<rparr>"

definition CancelAndRetireSession ::
    "'s session_ops \<Rightarrow> 's lifecycle \<Rightarrow> sid option \<Rightarrow> 's lifecycle" where
  "CancelAndRetireSession ops l session =
     (case session of None \<Rightarrow> l | Some i \<Rightarrow> RetireSession (cancel_session ops l i) (Some i))"

definition InstallActiveSession ::
    "'s session_ops \<Rightarrow> 's lifecycle \<Rightarrow> sid option \<Rightarrow> 's lifecycle" where
  "InstallActiveSession ops l session =
     (let old_session = lm_active l; l1 = l\<lparr>lm_active := session\<rparr> in
      if old_session \<noteq> None then CancelAndRetireSession ops l1 old_session else l1)"

definition HasActiveSession :: "'s lifecycle \<Rightarrow> bool" where
  "HasActiveSession l \<longleftrightarrow> lm_active l \<noteq> None"

definition IsActiveSession :: "'s lifecycle \<Rightarrow> sid option \<Rightarrow> bool" where
  "IsActiveSession l session \<longleftrightarrow> session \<noteq> None \<and> lm_active l = session"

definition DetachActive :: "'s lifecycle \<Rightarrow> sid option \<times> 's lifecycle" where
  "DetachActive l = (lm_active l, l\<lparr>lm_active := None\<rparr>)"

definition lm_PushAudio ::
    "'s session_ops \<Rightarrow> 's lifecycle \<Rightarrow> sid option \<Rightarrow> i16 list \<Rightarrow> (bool \<times> string) \<times> 's lifecycle" where
  "lm_PushAudio ops l session pcm =
     (case session of
        None \<Rightarrow> ((False, kSessionNotInitializedError), l)
      | Some i \<Rightarrow>
          (case so_push ops (lm_store l i) pcm of
             ((ok, err), st) \<Rightarrow>
               ((ok, if \<not> ok \<and> err = [] then kFailedToPushAudioError else err),
                l\<lparr>lm_store := (lm_store l)(i := st)\<rparr>)))"

text \<open>The failure reported by the first error event; an empty error has a default text.\<close>

definition event_failure :: "RecognitionEvent list \<Rightarrow> string option" where
  "event_failure evs =
     (case find (\<lambda>e. ev_kind e = ErrorEvent) evs of
        None \<Rightarrow> None
      | Some e \<Rightarrow> Some (if ev_error e = [] then ''ASR provider failed.'' else ev_error e))"

definition PollSessionEvents ::
    "'s session_ops \<Rightarrow> ('s \<Rightarrow> string option) \<Rightarrow> 's lifecycle \<Rightarrow> sid option
      \<Rightarrow> SessionPollResult \<times> 's lifecycle" where
  "PollSessionEvents ops failure_of l session =
     (case session of
        None \<Rightarrow>
          (\<lparr>sp_session = None, sp_events = [], sp_failure = None, sp_session_active = False\<rparr>, l)
      | Some i \<Rightarrow>
          (case so_poll ops (lm_store l i) of
             (evs, st) \<Rightarrow>
               (let l' = l\<lparr>lm_store := (lm_store l)(i := st)\<rparr>;
                    failure = (case failure_of st of
                                 None \<Rightarrow> event_failure evs | Some f \<Rightarrow> Some f);
                    evs' = (if failure \<noteq> None then filter (\<lambda>e. ev_kind e \<noteq> ErrorEvent) evs else evs)
                in (\<lparr>sp_session = session, sp_events = evs', sp_failure = failure,
                     sp_session_active = IsActiveSession l' session\<rparr>, l'))))"

definition PollActiveEvents ::
    "'s session_ops \<Rightarrow> ('s \<Rightarrow> string option) \<Rightarrow> 's lifecycle \<Rightarrow> SessionPollResult \<times> 's lifecycle" where
  "PollActiveEvents ops failure_of l = PollSessionEvents ops failure_of l (lm_active l)"

text \<open>One event of the final poll; used by the session manager's \<open>ConsumeEvents\<close> in another variant.\<close>

fun collect_event :: "RecognitionRunResult \<Rightarrow> RecognitionEvent \<Rightarrow> RecognitionRunResult" where
  "collect_event r e =
     (case ev_kind e of
        PartialText \<Rightarrow> r
      | FinalText \<Rightarrow> r\<lparr>rr_text := ev_text e\<rparr>
      | ErrorEvent \<Rightarrow>
          (let r1 = r\<lparr>rr_ok := False\<rparr>
           in if ev_error e \<noteq> [] then r1\<lparr>rr_error := ev_error e\<rparr> else r1)
      | Completed \<Rightarrow> r)"

definition FinishSessionAndCollectResult ::
    "'s session_ops \<Rightarrow> 's lifecycle \<Rightarrow> sid option \<Rightarrow> RecognitionRunResult \<times> 's lifecycle" where
  "FinishSessionAndCollectResult ops l session =
     (case session of
        None \<Rightarrow>
          (default_run_result\<lparr>rr_available := False, rr_ok := False,
             rr_error := kSessionNotInitializedError\<rparr>, l)
      | Some i \<Rightarrow>
          (case so_finish ops (lm_store l i) of
             ((ok, err), st1) \<Rightarrow>
               (case so_poll ops st1 of
                  (evs, st2) \<Rightarrow>
                    (let r0 = default_run_result\<lparr>rr_available := True\<rparr>;
                         r1 = (if ok then r0
                               else r0\<lparr>rr_ok := False,
                                 rr_error := (if err = [] then kFailedToFinishSessionError else err)\<rparr>)
                     in (foldl collect_event r1 evs, l\<lparr>lm_store := (lm_store l)(i := st2)\<rparr>)))))"

definition CancelAndRetireActive :: "'s session_ops \<Rightarrow> 's lifecycle \<Rightarrow> 's lifecycle" where
  "CancelAndRetireActive ops l =
     (case lm_active l of
        None \<Rightarrow> l
      | Some i \<Rightarrow> CancelAndRetireSession ops (l\<lparr>lm_active := None\<rparr>) (Some i))"

definition CancelAndRetireActiveIfMatches ::
    "'s session_ops \<Rightarrow> 's lifecycle \<Rightarrow> sid option \<Rightarrow> bool \<times> 's lifecycle" where
  "CancelAndRetireActiveIfMatches ops l expected =
     (if expected = None then (False, l)
      else if lm_active l \<noteq> expected then (False, l)
      else (True, CancelAndRetireSession ops (l\<lparr>lm_active := None\<rparr>) (lm_active l)))"

definition FlushReapedSessions :: "'s lifecycle \<Rightarrow> nat \<times> 's lifecycle" where
  "FlushReapedSessions l = (length (lm_deferred l), l\<lparr>lm_deferred := []\<rparr>)"

definition DeferredSessionCount :: "'s lifecycle \<Rightarrow> nat" where
  "DeferredSessionCount l = length (lm_deferred l)"

definition lm_Clear :: "'s session_ops \<Rightarrow> 's lifecycle \<Rightarrow> 's lifecycle" where
  "lm_Clear ops l =
     (let l1 = l\<lparr>lm_active := None, lm_deferred := []\<rparr> in
      case lm_active l of None \<Rightarrow> l1 | Some i \<Rightarrow> cancel_session ops l1 i)"

lemmas lm_defs [vinput_defs] =
  RetireSession_def cancel_session_def CancelAndRetireSession_def InstallActiveSession_def
  DetachActive_def CancelAndRetireActive_def CancelAndRetireActiveIfMatches_def
  FlushReapedSessions_def lm_Clear_def

section \<open>Runs of the owner\<close>

datatype lm_event = Install "sid option" | Detach | CancelActive | CancelIf "sid option" | Flush | ClearAll

text \<open>The second component collects the sessions handed out by \<open>DetachActive\<close>.\<close>

fun lm_step ::
    "'s session_ops \<Rightarrow> 's lifecycle \<times> sid list \<Rightarrow> lm_event \<Rightarrow> 's lifecycle \<times> sid list" where
  "lm_step ops (l, d) (Install i) = (InstallActiveSession ops l i, d)"
| "lm_step ops (l, d) Detach =
     (case DetachActive l of (i, l') \<Rightarrow> (l', d @ (case i of None \<Rightarrow> [] | Some x \<Rightarrow> [x])))"
| "lm_step ops (l, d) CancelActive = (CancelAndRetireActive ops l, d)"
| "lm_step ops (l, d) (CancelIf i) = (snd (CancelAndRetireActiveIfMatches ops l i), d)"
| "lm_step ops (l, d) Flush = (snd (FlushReapedSessions l), d)"
| "lm_step ops (l, d) ClearAll = (lm_Clear ops l, d)"

fun installed :: "lm_event list \<Rightarrow> sid list" where
  "installed [] = []"
| "installed (Install (Some i) # es) = i # installed es"
| "installed (e # es) = installed es"

definition lm_init :: "(sid \<Rightarrow> 's) \<Rightarrow> bool \<Rightarrow> 's lifecycle" where
  "lm_init store has_wake =
     \<lparr>lm_active = None, lm_deferred = [], lm_has_wake = has_wake, lm_wakes = 0, lm_store = store,
      lm_cancelled = []\<rparr>"

definition owned :: "'s lifecycle \<times> sid list \<Rightarrow> sid multiset" where
  "owned st = mset_set (set_option (lm_active (fst st))) + mset (snd st) + mset (lm_cancelled (fst st))"

lemma owned_step:
  "owned (lm_step ops st e) = owned st + mset (installed [e])"
proof -
  obtain l d where st: "st = (l, d)" by fastforce
  show ?thesis
  proof (cases e)
    case (Install x)
    then show ?thesis
      by (cases x; cases "lm_active l") (simp_all add: st owned_def lm_defs Let_def)
  next
    case Detach
    then show ?thesis by (cases "lm_active l") (simp_all add: st owned_def lm_defs Let_def)
  next
    case CancelActive
    then show ?thesis by (cases "lm_active l") (simp_all add: st owned_def lm_defs Let_def)
  next
    case (CancelIf x)
    then show ?thesis by (cases x; cases "lm_active l") (simp_all add: st owned_def lm_defs Let_def)
  next
    case Flush
    then show ?thesis by (simp add: st owned_def lm_defs)
  next
    case ClearAll
    then show ?thesis by (cases "lm_active l") (simp_all add: st owned_def lm_defs Let_def)
  qed
qed

lemma installed_Cons: "mset (installed (e # es)) = mset (installed [e]) + mset (installed es)"
proof (cases e)
  case (Install x)
  then show ?thesis by (cases x) simp_all
qed simp_all

section \<open>Properties\<close>

text \<open>
  No session is lost and none is cancelled twice by a replacement: over any sequence of
  installs, detaches, cancellations, flushes and clears, the installed sessions are exactly the
  active one, those handed out by \<open>DetachActive\<close> and those cancelled, each as often as it was
  installed.
\<close>

theorem lifecycle_accounts_for_sessions:
  "mset (installed es) = owned (foldl (lm_step ops) (lm_init store has_wake, []) es)"
proof -
  have "owned (foldl (lm_step ops) st es) = owned st + mset (installed es)"
    for st :: "'a lifecycle \<times> sid list"
  proof (induction es arbitrary: st)
    case Nil
    then show ?case by simp
  next
    case (Cons e es)
    have "owned (foldl (lm_step ops) st (e # es))
        = owned (lm_step ops st e) + mset (installed es)"
      using Cons.IH by simp
    then show ?case by (simp only: owned_step installed_Cons [of e es] add.assoc)
  qed
  then show ?thesis by (simp add: owned_def lm_init_def)
qed

lemma event_failure_None: "event_failure evs = None \<longleftrightarrow> (\<forall>e\<in>set evs. ev_kind e \<noteq> ErrorEvent)"
proof (cases "find (\<lambda>e. ev_kind e = ErrorEvent) evs")
  case None
  then show ?thesis using find_None_iff_all [of "\<lambda>e. ev_kind e = ErrorEvent" evs]
    by (simp add: event_failure_def)
next
  case (Some e)
  then show ?thesis using find_Some_memD [OF Some] by (auto simp: event_failure_def)
qed

text \<open>
  A poll never passes an error event on: the events it returns are the polled ones without
  the error events, in order, and there was an error event only if a failure is reported.
\<close>

theorem PollSessionEvents_filters_errors:
  assumes "so_poll ops (lm_store l i) = (evs, st)"
  shows "case PollSessionEvents ops failure_of l (Some i) of (r, l') \<Rightarrow>
      sp_events r = filter (\<lambda>e. ev_kind e \<noteq> ErrorEvent) evs
      \<and> (sp_failure r = None \<longleftrightarrow> failure_of st = None \<and> (\<forall>e\<in>set evs. ev_kind e \<noteq> ErrorEvent))
      \<and> sp_session_active r = (lm_active l = Some i)"
proof -
  have "filter (\<lambda>e. ev_kind e \<noteq> ErrorEvent) evs = evs" if "event_failure evs = None"
    using that by (simp add: event_failure_None filter_id_conv)
  then show ?thesis using assms
    by (auto simp: PollSessionEvents_def Let_def IsActiveSession_def event_failure_None
        split: option.splits)
qed

definition error_poll :: "unit session_ops" where
  "error_poll = quiet_backend\<lparr>so_poll := (\<lambda>b.
     ([\<lparr>ev_kind = PartialText, ev_text = ''hi'', ev_error = []\<rparr>,
       \<lparr>ev_kind = ErrorEvent, ev_text = [], ev_error = ''net''\<rparr>], b))\<rparr>"

theorem PollSessionEvents_filters_errors_witness:
  "sp_failure (fst (PollSessionEvents error_poll (\<lambda>_. None) (lm_init (\<lambda>_. ()) True) (Some 0))) \<noteq> None
   \<and> length (sp_events (fst (PollSessionEvents error_poll (\<lambda>_. None) (lm_init (\<lambda>_. ()) True) (Some 0)))) = 1"
  using PollSessionEvents_filters_errors [of error_poll "lm_init (\<lambda>_. ()) True" 0
      "[\<lparr>ev_kind = PartialText, ev_text = ''hi'', ev_error = []\<rparr>,
        \<lparr>ev_kind = ErrorEvent, ev_text = [], ev_error = ''net''\<rparr>]" "()" "\<lambda>_. None"]
  by (simp add: error_poll_def split: prod.splits)

lemma collect_ok:
  "rr_ok (foldl collect_event r evs) \<longleftrightarrow> rr_ok r \<and> (\<forall>e\<in>set evs. ev_kind e \<noteq> ErrorEvent)"
  by (induction evs arbitrary: r) (auto simp: Let_def split: RecognitionEventKind.splits)

lemma collect_text:
  "rr_text (foldl collect_event r evs) =
     last (rr_text r # map ev_text (filter (\<lambda>e. ev_kind e = FinalText) evs))"
  by (induction evs arbitrary: r) (auto simp: Let_def split: RecognitionEventKind.splits)

lemma collect_available: "rr_available (foldl collect_event r evs) = rr_available r"
  by (induction evs arbitrary: r) (auto simp: Let_def split: RecognitionEventKind.splits)

text \<open>
  The result of finishing a session is successful exactly when the session finished without
  failure and produced no error event, and its text is that of the last final event, or empty.
\<close>

theorem FinishSession_result:
  assumes "so_finish ops (lm_store l i) = ((ok, err), st1)" and "so_poll ops st1 = (evs, st2)"
  shows "case FinishSessionAndCollectResult ops l (Some i) of (r, l') \<Rightarrow>
      rr_available r
      \<and> (rr_ok r \<longleftrightarrow> ok \<and> (\<forall>e\<in>set evs. ev_kind e \<noteq> ErrorEvent))
      \<and> rr_text r = last ([] # map ev_text (filter (\<lambda>e. ev_kind e = FinalText) evs))"
  using assms
  by (auto simp: FinishSessionAndCollectResult_def Let_def collect_ok collect_text
      collect_available default_run_result_def)

theorem FinishSession_result_witness:
  "rr_ok (fst (FinishSessionAndCollectResult quiet_backend (lm_init (\<lambda>_. ()) True) (Some 3)))"
  using FinishSession_result [of quiet_backend "lm_init (\<lambda>_. ()) True" 3 True "[]" "()" "[]" "()"]
  by (simp add: quiet_backend_def split: prod.splits)

end
