(* ===== verification/String_Utils.thy ===== *)
theory String_Utils
  imports Prelude
begin

text \<open>
  \<open>src/common/utils/string_utils.h\<close>, \<open>url_utils.h\<close> and \<open>locale_utils.h\<close>: trimming, affixes,
  splitting, joining, ASCII case-insensitive comparison, integer parsing and locale names.
  The loops keep the positions of the source; each splitting loop is then shown equal to a
  structural reference definition, from which the round trips follow.
\<close>

section \<open>Character classes (the C locale)\<close>

definition is_space :: "char \<Rightarrow> bool" where
  "is_space c \<longleftrightarrow> c = CHR '' '' \<or> c = CHR 0x09 \<or> c = CHR 0x0A \<or> c = CHR 0x0B
     \<or> c = CHR 0x0C \<or> c = CHR 0x0D"

definition is_digit :: "char \<Rightarrow> bool" where
  "is_digit c \<longleftrightarrow> 48 \<le> (of_char c :: nat) \<and> (of_char c :: nat) \<le> 57"

definition to_lower :: "char \<Rightarrow> char" where
  "to_lower c =
     (if 65 \<le> (of_char c :: nat) \<and> (of_char c :: nat) \<le> 90
      then char_of ((of_char c :: nat) + 32) else c)"

section \<open>Trimming and affixes\<close>

definition Trim :: "string \<Rightarrow> string" where
  "Trim s =
     (case find_index (\<lambda>c. \<not> is_space c) s of
        None \<Rightarrow> []
      | Some b \<Rightarrow>
          (case find_index (\<lambda>c. \<not> is_space c) (rev s) of
             None \<Rightarrow> []
           | Some r \<Rightarrow> (let e = length s - r in substr s b (e - b))))"

definition StripSuffix :: "string \<Rightarrow> string \<Rightarrow> string" where
  "StripSuffix s suffix =
     (if ends_with s suffix then substr s 0 (length s - length suffix) else s)"

text \<open>The result flag and the remaining view.\<close>

definition ConsumePrefix :: "string \<Rightarrow> string \<Rightarrow> bool \<times> string" where
  "ConsumePrefix s prefix =
     (if starts_with s prefix then (True, drop (length prefix) s) else (False, s))"

section \<open>Splitting\<close>

function Split_loop :: "string \<Rightarrow> char \<Rightarrow> nat \<Rightarrow> string list" where
  "Split_loop s d start =
     (if start \<le> length s then
        (case find_from (\<lambda>c. c = d) s start of
           None \<Rightarrow> [drop start s]
         | Some e \<Rightarrow> substr s start (e - start) # Split_loop s d (Suc e))
      else [])"
  by pat_completeness auto
termination
  by (relation "measure (\<lambda>(s, d, start). Suc (length s) - start)")
     (auto dest: find_from_Some(1) find_from_Some(2))

definition Split :: "string \<Rightarrow> char \<Rightarrow> string list" where
  "Split s d = Split_loop s d 0"

function SplitLines_loop :: "string \<Rightarrow> nat \<Rightarrow> string list" where
  "SplitLines_loop s start =
     (if start < length s then
        (case find_from (\<lambda>c. c = CHR 0x0A) s start of
           None \<Rightarrow> [drop start s]
         | Some e \<Rightarrow>
             (let len = e - start;
                  len' = (if len > 0 \<and> s ! (start + len - 1) = CHR 0x0D then len - 1 else len)
              in substr s start len' # SplitLines_loop s (Suc e)))
      else [])"
  by pat_completeness auto
termination
  by (relation "measure (\<lambda>(s, start). Suc (length s) - start)")
     (auto dest: find_from_Some(1) find_from_Some(2))

definition SplitLines :: "string \<Rightarrow> string list" where
  "SplitLines s = SplitLines_loop s 0"

definition SplitOnce :: "string \<Rightarrow> char \<Rightarrow> (string \<times> string) option" where
  "SplitOnce s d =
     (case find_index (\<lambda>c. c = d) s of
        None \<Rightarrow> None
      | Some pos \<Rightarrow> Some (substr s 0 pos, drop (pos + 1) s))"

definition RSplitOnce :: "string \<Rightarrow> char \<Rightarrow> (string \<times> string) option" where
  "RSplitOnce s d =
     (case rfind_index (\<lambda>c. c = d) s of
        None \<Rightarrow> None
      | Some pos \<Rightarrow> Some (substr s 0 pos, drop (pos + 1) s))"

section \<open>Joining\<close>

text \<open>
  The appending loop; the size that the source reserves beforehand is \<open>Join_size\<close>.
\<close>

fun Join_rest :: "string list \<Rightarrow> string \<Rightarrow> string \<Rightarrow> string" where
  "Join_rest [] d acc = acc"
| "Join_rest (x # xs) d acc = Join_rest xs d (acc @ d @ x)"

definition Join :: "string list \<Rightarrow> string \<Rightarrow> string" where
  "Join xs d = (case xs of [] \<Rightarrow> [] | x # rest \<Rightarrow> Join_rest rest d x)"

definition Join_size :: "string list \<Rightarrow> string \<Rightarrow> nat" where
  "Join_size xs d =
     sum_list (map length xs) + (if length xs > 1 then (length xs - 1) * length d else 0)"

definition JoinKeyValue :: "(string \<times> string) list \<Rightarrow> string \<Rightarrow> string \<Rightarrow> string" where
  "JoinKeyValue m item_d kv_d = Join (map (\<lambda>(k, v). k @ kv_d @ v) m) item_d"

section \<open>Comparison and numbers\<close>

definition EqualsIgnoreCase :: "string \<Rightarrow> string \<Rightarrow> bool" where
  "EqualsIgnoreCase a b \<longleftrightarrow> list_all2 (\<lambda>x y. to_lower x = to_lower y) a b"

definition StartsWithIgnoreCase :: "string \<Rightarrow> string \<Rightarrow> bool" where
  "StartsWithIgnoreCase s prefix \<longleftrightarrow>
     length s \<ge> length prefix \<and> EqualsIgnoreCase (substr s 0 (length prefix)) prefix"

text \<open>
  \<open>std::from_chars\<close> for a signed integer with bounds \<open>lo..hi\<close> in base 10: an optional minus
  sign, then the longest run of digits. The result is the value and the number of bytes read;
  \<open>None\<close> for no digits and for a value out of range.
\<close>

definition digit_value :: "char \<Rightarrow> int" where
  "digit_value c = int (of_char c) - 48"

fun digits_value :: "int \<Rightarrow> string \<Rightarrow> int" where
  "digits_value acc [] = acc"
| "digits_value acc (c # cs) = digits_value (10 * acc + digit_value c) cs"

definition from_chars :: "int \<Rightarrow> int \<Rightarrow> string \<Rightarrow> (int \<times> nat) option" where
  "from_chars lo hi s =
     (let neg = starts_with s ''-'' \<and> lo < 0;
          body = (if neg then drop 1 s else s);
          ds = takeWhile is_digit body;
          v = (if neg then - digits_value 0 ds else digits_value 0 ds)
      in if ds = [] \<or> v < lo \<or> hi < v then None
         else Some (v, length ds + (if neg then 1 else 0)))"

definition int32_min :: int where "int32_min = - (2 ^ 31)"
definition int32_max :: int where "int32_max = 2 ^ 31 - 1"

definition ParseInteger :: "int \<Rightarrow> int \<Rightarrow> string \<Rightarrow> int option" where
  "ParseInteger lo hi s =
     (let t = Trim s in
      if t = [] then None
      else case from_chars lo hi t of
             None \<Rightarrow> None
           | Some (v, n) \<Rightarrow> (if n = length t then Some v else None))"

section \<open>URLs and locale names\<close>

fun drop_trailing :: "char \<Rightarrow> string \<Rightarrow> string" where
  "drop_trailing c s =
     (if s \<noteq> [] \<and> last s = c then drop_trailing c (butlast s) else s)"

declare drop_trailing.simps [simp del]

definition JoinPath :: "string \<Rightarrow> string \<Rightarrow> string" where
  "JoinPath base_url path = drop_trailing CHR ''/'' base_url @ path"

definition ExtractLanguageCode :: "string \<Rightarrow> string" where
  "ExtractLanguageCode loc =
     (case find_index (\<lambda>c. c = CHR ''-'' \<or> c = CHR ''_'') loc of
        None \<Rightarrow> loc | Some sep \<Rightarrow> substr loc 0 sep)"

definition cut_at :: "char \<Rightarrow> string \<Rightarrow> string" where
  "cut_at c s = (case find_index (\<lambda>x. x = c) s of None \<Rightarrow> s | Some i \<Rightarrow> substr s 0 i)"

definition NormalizeLocale :: "string \<Rightarrow> bool \<Rightarrow> string" where
  "NormalizeLocale raw replace_hyphen =
     (if raw = [] then []
      else
        let r = cut_at CHR ''@'' (cut_at CHR ''.'' (cut_at CHR '':'' raw)) in
        if r = [] \<or> r = ''C'' \<or> r = ''POSIX'' then []
        else if replace_hyphen then map (\<lambda>c. if c = CHR ''-'' then CHR ''_'' else c) r
        else r)"

definition NormalizeLocaleName :: "string \<Rightarrow> string" where
  "NormalizeLocaleName raw = NormalizeLocale raw False"

definition CanonicalizeLocale :: "string \<Rightarrow> string" where
  "CanonicalizeLocale raw =
     (let l = NormalizeLocale raw True in
      if l = [] then []
      else if CHR ''_'' \<notin> set l then
        (if l = ''zh'' then ''zh_CN'' else if l = ''en'' then ''en_US'' else l)
      else l)"

lemmas locale_defs [vinput_defs] =
  NormalizeLocale_def NormalizeLocaleName_def CanonicalizeLocale_def

section \<open>Trimming\<close>

text \<open>The specification of \<open>Trim\<close>: drop the white space at both ends.\<close>

definition trim_spec :: "string \<Rightarrow> string" where
  "trim_spec s = rev (dropWhile is_space (rev (dropWhile is_space s)))"

lemma dropWhile_rev_dropWhile:
  assumes "\<exists>x\<in>set s. \<not> P x"
  shows "rev (dropWhile P (rev (dropWhile P s))) =
    drop (length (takeWhile P s))
      (take (length s - length (takeWhile P (rev s))) s)"
proof -
  let ?a = "takeWhile P s" and ?b = "takeWhile P (rev s)"
  have cut: "dropWhile P s = drop (length ?a) s" by (rule dropWhile_eq_drop)
  have some: "\<exists>x\<in>set (dropWhile P s). \<not> P x"
    using assms by (induction s) auto
  have "takeWhile P (rev s) = takeWhile P (rev (dropWhile P s) @ rev ?a)"
    by (metis rev_append takeWhile_dropWhile_id)
  also have "\<dots> = takeWhile P (rev (dropWhile P s))"
    using some by (metis set_rev takeWhile_append1)
  finally have "dropWhile P (rev (dropWhile P s)) = drop (length ?b) (rev (dropWhile P s))"
    by (metis dropWhile_eq_drop)
  then have "rev (dropWhile P (rev (dropWhile P s)))
      = take (length (dropWhile P s) - length ?b) (dropWhile P s)"
    by (simp add: rev_drop)
  then show ?thesis by (simp add: cut drop_take add.commute)
qed

lemma Trim_spec: "Trim s = trim_spec s"
proof (cases "\<exists>x\<in>set s. \<not> is_space x")
  case True
  then show ?thesis
    by (simp add: Trim_def trim_spec_def find_index_takeWhile dropWhile_rev_dropWhile
        substr_def drop_take)
next
  case False
  then have "find_index (\<lambda>c. \<not> is_space c) s = None" by simp
  moreover have "dropWhile is_space s = []" using False by (simp add: dropWhile_eq_Nil_conv)
  ultimately show ?thesis by (simp only: Trim_def trim_spec_def) simp
qed

lemma trim_spec_no_edge: "trim_spec s \<noteq> [] \<Longrightarrow>
    \<not> is_space (hd (trim_spec s)) \<and> \<not> is_space (last (trim_spec s))"
proof -
  assume ne: "trim_spec s \<noteq> []"
  let ?d = "dropWhile is_space (rev (dropWhile is_space s))"
  have "\<not> is_space (hd ?d)" using ne hd_dropWhile [of is_space "rev (dropWhile is_space s)"]
    by (simp add: trim_spec_def)
  then have l: "\<not> is_space (last (trim_spec s))" using ne by (simp add: trim_spec_def last_rev)
  obtain p where p: "dropWhile is_space s = trim_spec s @ p"
    by (metis trim_spec_def rev_append rev_rev_ident takeWhile_dropWhile_id)
  have "\<not> is_space (hd (dropWhile is_space s))" using ne p hd_dropWhile [of is_space s] by auto
  then show ?thesis using l ne p by simp
qed

lemma Trim_edges:
  "Trim s \<noteq> [] \<Longrightarrow> \<not> is_space (hd (Trim s)) \<and> \<not> is_space (last (Trim s))"
  by (simp add: Trim_spec trim_spec_no_edge)

lemma Trim_ident:
  assumes "s = [] \<or> \<not> is_space (hd s) \<and> \<not> is_space (last s)"
  shows "Trim s = s"
proof -
  have "dropWhile is_space s = s" using assms by (cases s) auto
  moreover have "dropWhile is_space (rev s) = rev s"
    using assms by (cases s rule: rev_cases) auto
  ultimately show ?thesis by (simp add: Trim_spec trim_spec_def)
qed

lemma Trim_idem [simp]: "Trim (Trim s) = Trim s"
  by (rule Trim_ident) (metis Trim_edges)

lemma Trim_Nil [simp]: "Trim [] = []"
  by (simp add: Trim_def)

lemma Trim_subset: "set (Trim s) \<subseteq> set s"
  by (auto simp: Trim_spec trim_spec_def dest!: set_dropWhileD)

lemma Trim_no_space: "\<forall>c\<in>set s. \<not> is_space c \<Longrightarrow> Trim s = s"
  by (rule Trim_ident) (auto simp: hd_in_set last_in_set)

lemma Trim_length: "length (Trim s) \<le> length s"
  by (auto simp: Trim_def substr_def split: option.splits)

section \<open>Splitting and joining\<close>

text \<open>The structural reference for \<open>Split\<close>.\<close>

fun split_spec :: "char \<Rightarrow> string \<Rightarrow> string list" where
  "split_spec d [] = [[]]"
| "split_spec d (c # s) =
     (if c = d then [] # split_spec d s
      else case split_spec d s of
             [] \<Rightarrow> [[c]]
           | t # ts \<Rightarrow> (c # t) # ts)"

lemma split_spec_ne [simp]: "split_spec d s \<noteq> []"
  by (induction s) (auto split: list.splits)

lemma split_spec_none: "d \<notin> set s \<Longrightarrow> split_spec d s = [s]"
  by (induction s) auto

lemma split_spec_append: "d \<notin> set u \<Longrightarrow> split_spec d (u @ d # v) = u # split_spec d v"
  by (induction u) auto

lemma split_spec_concat: "split_spec d (u @ d # v) = split_spec d u @ split_spec d v"
  by (induction u) (auto split: list.splits simp: Cons_eq_append_conv)

declare Split_loop.simps [simp del] SplitLines_loop.simps [simp del]

lemma drop_find_from:
  assumes "find_from (\<lambda>c. c = d) s start = Some e"
  shows "drop start s = substr s start (e - start) @ d # drop (Suc e) s"
    and "d \<notin> set (substr s start (e - start))"
proof -
  note F = find_from_Some [OF assms]
  have "drop start s = take (e - start) (drop start s) @ drop (e - start) (drop start s)"
    by (rule append_take_drop_id [symmetric])
  also have "drop (e - start) (drop start s) = drop e s" using F(1) by simp
  also have "drop e s = s ! e # drop (Suc e) s" using F(2) by (rule Cons_nth_drop_Suc [symmetric])
  finally show "drop start s = substr s start (e - start) @ d # drop (Suc e) s"
    using F(3) by (simp add: substr_def)
  show "d \<notin> set (substr s start (e - start))" using F(4) by (auto simp: substr_def)
qed

lemma Split_loop_spec: "start \<le> length s \<Longrightarrow> Split_loop s d start = split_spec d (drop start s)"
proof (induction s d start rule: Split_loop.induct)
  case (1 s d start)
  show ?case
  proof (cases "find_from (\<lambda>c. c = d) s start")
    case None
    then have "d \<notin> set (drop start s)" by (auto simp: find_from_None)
    with None 1(2) show ?thesis by (simp add: Split_loop.simps split_spec_none)
  next
    case (Some e)
    note F = find_from_Some [OF Some] and D = drop_find_from [OF Some]
    have "Split_loop s d (Suc e) = split_spec d (drop (Suc e) s)"
      using 1(1) [OF 1(2) Some] F(2) by simp
    then show ?thesis using Some 1(2)
      by (subst D(1)) (simp add: Split_loop.simps [of s d start] split_spec_append [OF D(2)])
  qed
qed

lemma Split_spec: "Split s d = split_spec d s"
  by (simp add: Split_def Split_loop_spec)

lemma Split_ne [simp]: "Split s d \<noteq> []"
  by (simp add: Split_spec)

lemma Split_no_delim: "t \<in> set (Split s d) \<Longrightarrow> d \<notin> set t"
proof -
  have "\<forall>t\<in>set (split_spec d s). d \<notin> set t"
    by (induction s) (auto split: list.splits)
  then show "t \<in> set (Split s d) \<Longrightarrow> d \<notin> set t" by (simp add: Split_spec)
qed

lemma Split_length: "length (Split s d) = Suc (count_list s d)"
proof -
  have "length (split_spec d s) = Suc (count_list s d)"
    by (induction s) (auto split: list.splits)
  then show ?thesis by (simp add: Split_spec)
qed

text \<open>The structural reference for \<open>Join\<close>.\<close>

fun join_spec :: "string list \<Rightarrow> string \<Rightarrow> string" where
  "join_spec [] d = []"
| "join_spec [x] d = x"
| "join_spec (x # y # ys) d = x @ d @ join_spec (y # ys) d"

lemma join_spec_Cons: "xs \<noteq> [] \<Longrightarrow> join_spec (x # xs) d = x @ d @ join_spec xs d"
  by (cases xs) auto

lemma Join_rest_spec: "Join_rest xs d acc = join_spec (acc # xs) d"
proof (induction xs arbitrary: acc)
  case Nil
  then show ?case by simp
next
  case (Cons x xs)
  show ?case by (simp only: Join_rest.simps Cons.IH) (cases xs; simp)
qed

lemma Join_spec: "Join xs d = join_spec xs d"
  by (cases xs) (auto simp: Join_def Join_rest_spec)

lemma Join_reserved_size: "length (Join xs d) = Join_size xs d"
proof -
  have "length (join_spec xs d) = sum_list (map length xs) + (length xs - 1) * length d"
    by (induction xs d rule: join_spec.induct) auto
  then show ?thesis by (simp add: Join_spec Join_size_def)
qed

lemma join_split_spec: "join_spec (split_spec d s) [d] = s"
proof (induction s)
  case Nil
  then show ?case by simp
next
  case (Cons c s)
  obtain t ts where t: "split_spec d s = t # ts" by (cases "split_spec d s") auto
  then show ?case using Cons by (cases ts) (auto simp: join_spec_Cons)
qed

lemma split_join_spec:
  "xs \<noteq> [] \<Longrightarrow> \<forall>x\<in>set xs. d \<notin> set x \<Longrightarrow> split_spec d (join_spec xs [d]) = xs"
  by (induction xs "[d]" rule: join_spec.induct) (auto simp: split_spec_none split_spec_append)

lemma takeWhile_upto_delim: "d \<notin> set a \<Longrightarrow> takeWhile (\<lambda>c. c \<noteq> d) (a @ d # b) = a"
  by (induction a) auto

lemma SplitOnce_Some:
  "SplitOnce s d = Some (a, b) \<longleftrightarrow> s = a @ d # b \<and> d \<notin> set a"
proof
  assume "SplitOnce s d = Some (a, b)"
  then obtain i where i: "find_index (\<lambda>c. c = d) s = Some i" and ab: "a = take i s" "b = drop (i + 1) s"
    by (auto simp: SplitOnce_def substr_def split: option.splits)
  note D = find_index_SomeD [OF i]
  then show "s = a @ d # b \<and> d \<notin> set a"
    using ab id_take_nth_drop [of i s] by (auto dest: set_takeWhileD)
next
  assume A: "s = a @ d # b \<and> d \<notin> set a"
  then have "takeWhile (\<lambda>c. c \<noteq> d) s = a" by (simp add: takeWhile_upto_delim)
  then show "SplitOnce s d = Some (a, b)"
    using A by (simp add: SplitOnce_def find_index_takeWhile substr_def)
qed

lemma RSplitOnce_Some:
  assumes "RSplitOnce s d = Some (a, b)"
  shows "s = a @ d # b \<and> d \<notin> set b"
proof -
  from assms obtain i where i: "rfind_index (\<lambda>c. c = d) s = Some i"
    and ab: "a = take i s" "b = drop (i + 1) s"
    by (auto simp: RSplitOnce_def substr_def split: option.splits)
  note D = rfind_index_SomeD [OF i]
  then show ?thesis using ab id_take_nth_drop [of i s] by auto
qed

lemma RSplitOnce_None: "RSplitOnce s d = None \<longleftrightarrow> d \<notin> set s"
  by (auto simp: RSplitOnce_def rfind_index_None split: option.splits dest: rfind_index_SomeD)

section \<open>Lines\<close>

text \<open>
  The reference for \<open>SplitLines\<close>: split at line feeds, drop one carriage return in front of each
  line feed, and drop the empty piece after a final line feed. The piece after the last line
  feed keeps its carriage return.
\<close>

definition strip_cr :: "string \<Rightarrow> string" where
  "strip_cr t = (if t \<noteq> [] \<and> last t = CHR 0x0D then butlast t else t)"

definition lines_spec :: "string list \<Rightarrow> string list" where
  "lines_spec parts =
     map strip_cr (butlast parts) @ (if last parts = [] then [] else [last parts])"

lemma lines_spec_Cons: "ps \<noteq> [] \<Longrightarrow> lines_spec (p # ps) = strip_cr p # lines_spec ps"
  by (simp add: lines_spec_def)

lemma strip_cr_take:
  assumes "start \<le> e" "e < length s"
  shows "substr s start
      (if e - start > 0 \<and> s ! (start + (e - start) - 1) = CHR 0x0D then e - start - 1 else e - start)
    = strip_cr (substr s start (e - start))"
proof (cases "start < e")
  case True
  then have ne: "take (e - start) (drop start s) \<noteq> []" using assms by simp
  have "last (take (e - start) (drop start s)) = s ! (e - 1)"
    using ne True assms by (simp add: last_conv_nth)
  then show ?thesis
    using ne True assms by (auto simp: strip_cr_def substr_def butlast_take)
next
  case False
  then show ?thesis by (simp add: strip_cr_def substr_def)
qed

lemma SplitLines_loop_spec:
  "start \<le> length s \<Longrightarrow> SplitLines_loop s start = lines_spec (split_spec CHR 0x0A (drop start s))"
proof (induction s start rule: SplitLines_loop.induct)
  case (1 s start)
  show ?case
  proof (cases "start < length s")
    case False
    then have "start = length s" using 1(2) by simp
    then show ?thesis by (simp add: SplitLines_loop.simps [of s "length s"] lines_spec_def)
  next
    case True
    show ?thesis
    proof (cases "find_from (\<lambda>c. c = CHR 0x0A) s start")
      case None
      then have "CHR 0x0A \<notin> set (drop start s)" by (auto simp: find_from_None)
      with None True show ?thesis
        by (simp add: SplitLines_loop.simps [of s start] split_spec_none lines_spec_def)
    next
      case (Some e)
      note F = find_from_Some [OF Some] and D = drop_find_from [OF Some]
      have IH: "SplitLines_loop s (Suc e) = lines_spec (split_spec CHR 0x0A (drop (Suc e) s))"
        using 1(1) [OF True Some refl refl] F(2) by simp
      have step: "SplitLines_loop s start =
          strip_cr (substr s start (e - start)) # SplitLines_loop s (Suc e)"
        using Some True strip_cr_take [OF F(1,2)]
        by (simp add: SplitLines_loop.simps [of s start] Let_def)
      show ?thesis
        by (subst D(1)) (simp add: step IH split_spec_append [OF D(2)] lines_spec_Cons)
    qed
  qed
qed

section \<open>Properties\<close>

text \<open>
  \<open>Trim\<close> removes exactly the white space at both ends: the input is white space, the
  result and white space, and a non-empty result starts and ends with a non-space byte.
\<close>

theorem Trim_correct:
  "\<exists>p q. s = p @ Trim s @ q \<and> (\<forall>c\<in>set p. is_space c) \<and> (\<forall>c\<in>set q. is_space c)
     \<and> (Trim s = [] \<or> \<not> is_space (hd (Trim s)) \<and> \<not> is_space (last (Trim s)))"
proof -
  let ?r = "rev (dropWhile is_space s)"
  have "rev ?r = rev (dropWhile is_space ?r) @ rev (takeWhile is_space ?r)"
    by (metis rev_append takeWhile_dropWhile_id)
  then have "s = takeWhile is_space s @ Trim s @ rev (takeWhile is_space ?r)"
    by (simp add: Trim_spec trim_spec_def)
  moreover have "\<forall>c\<in>set (takeWhile is_space s). is_space c"
    and "\<forall>c\<in>set (rev (takeWhile is_space ?r)). is_space c"
    by (auto dest: set_takeWhileD)
  ultimately show ?thesis using Trim_edges [of s] by blast
qed

text \<open>
  Splitting at a delimiter and joining with it gives the text back, the pieces do not
  contain the delimiter, and there is one piece more than there are delimiters; the size that
  \<open>Join\<close> reserves is the size of its result.
\<close>

theorem Split_Join_roundtrip:
  "Join (Split s d) [d] = s \<and> list_all (\<lambda>t. d \<notin> set t) (Split s d)
   \<and> length (Split s d) = Suc (count_list s d)
   \<and> length (Join xs sep) = Join_size xs sep"
  by (simp add: Join_spec Split_spec join_split_spec Join_reserved_size [unfolded Join_spec]
      Split_length [unfolded Split_spec] Split_no_delim [unfolded Split_spec] list_all_iff)

text \<open>
  \<open>SplitLines\<close> computes the lines of a text: the pieces between line feeds, without
  the carriage return that precedes a line feed and without an empty last piece.
\<close>

theorem SplitLines_correct: "SplitLines s = lines_spec (Split s CHR 0x0A)"
  by (simp add: SplitLines_def SplitLines_loop_spec Split_spec)

end
