(* ===== verification/Json_Access.thy ===== *)
theory Json_Access
  imports String_Utils Float_Model
begin

text \<open>
  JSON trees and the typed accessors of \<open>common/json/json_access.h\<close>. A \<open>glz::json_t\<close> is null, a
  boolean, a double, a string, an array or an object; an object is a \<open>std::map\<close>, that is a list of
  members in ascending key order. The reader and the writer of JSON text belong to the glaze
  library and are parameters wherever they are used.
\<close>

section \<open>Maps with string keys in ascending order\<close>

type_synonym 'v smap = "(string \<times> 'v) list"

fun smap_put :: "string \<Rightarrow> 'v \<Rightarrow> 'v smap \<Rightarrow> 'v smap" where
  "smap_put k v [] = [(k, v)]"
| "smap_put k v ((k', v') # m) =
     (if k = k' then (k, v) # m
      else if string_less k k' then (k, v) # (k', v') # m
      else (k', v') # smap_put k v m)"

text \<open>\<open>emplace\<close> keeps a member that is there already.\<close>

definition smap_emplace :: "string \<Rightarrow> 'v \<Rightarrow> 'v smap \<Rightarrow> 'v smap" where
  "smap_emplace k v m = (case map_of m k of Some _ \<Rightarrow> m | None \<Rightarrow> smap_put k v m)"

definition smap_erase :: "string \<Rightarrow> 'v smap \<Rightarrow> 'v smap" where
  "smap_erase k m = filter (\<lambda>(k', _). k' \<noteq> k) m"

definition smap_sorted :: "'v smap \<Rightarrow> bool" where
  "smap_sorted m = sorted_wrt string_less (map fst m)"

lemma map_of_smap_put [simp]: "map_of (smap_put k v m) = (map_of m)(k \<mapsto> v)"
  by (induction m) auto

lemma map_of_smap_erase [simp]: "map_of (smap_erase k m) = (map_of m)(k := None)"
  by (induction m) (auto simp: smap_erase_def)

lemma smap_put_keys: "set (map fst (smap_put k v m)) = insert k (set (map fst m))"
proof (induction m)
  case (Cons p m)
  then show ?case by (cases p) (simp add: insert_commute)
qed simp

lemma smap_sorted_Cons [simp]:
  "smap_sorted ((k, v) # m) \<longleftrightarrow> (\<forall>j\<in>set (map fst m). string_less k j) \<and> smap_sorted m"
  "smap_sorted []"
  by (simp_all add: smap_sorted_def)

lemma smap_sorted_put: "smap_sorted m \<Longrightarrow> smap_sorted (smap_put k v m)"
proof (induction m)
  case (Cons p m)
  obtain k' v' where p: "p = (k', v')" by fastforce
  consider "k = k'" | "string_less k k'" "k \<noteq> k'" | "string_less k' k" "\<not> string_less k k'" "k \<noteq> k'"
    using string_less_linear [of k k'] by blast
  then show ?case
  proof cases
    case 1
    then show ?thesis using Cons.prems by (simp add: p)
  next
    case 2
    then show ?thesis using Cons.prems string_less_trans [of k k'] by (auto simp: p)
  next
    case 3
    then show ?thesis using Cons smap_put_keys [of k v m] by (simp add: p del: set_map)
  qed
qed simp

lemma smap_sorted_erase: "smap_sorted m \<Longrightarrow> smap_sorted (smap_erase k m)"
  by (induction m) (auto simp: smap_erase_def)

lemma smap_sorted_distinct: "smap_sorted m \<Longrightarrow> distinct (map fst m)"
  by (induction m) (auto, metis fst_conv string_less_irrefl)

lemma smap_put_last:
  "(\<And>j. j \<in> set (map fst m) \<Longrightarrow> string_less j k) \<Longrightarrow> smap_put k v m = m @ [(k, v)]"
proof (induction m)
  case (Cons p m)
  obtain k' v' where p: "p = (k', v')" by fastforce
  have "string_less k' k" using Cons.prems by (simp add: p)
  then have "\<not> string_less k k'" "k \<noteq> k'" using string_less_trans [of k k' k] by auto
  then show ?case using Cons by (simp add: p)
qed simp

section \<open>Trees\<close>

datatype json =
  JNull
| JBool bool
| JNum fp
| JStr string
| JArr "json list"
| JObj "(string \<times> json) list"

fun is_object :: "json \<Rightarrow> bool" where
  "is_object (JObj _) = True"
| "is_object _ = False"

fun is_string :: "json \<Rightarrow> bool" where
  "is_string (JStr _) = True"
| "is_string _ = False"

fun json_Find :: "json \<Rightarrow> string \<Rightarrow> json option" where
  "json_Find (JObj m) key = map_of m key"
| "json_Find _ key = None"

definition json_String :: "json \<Rightarrow> string \<Rightarrow> string \<Rightarrow> string" where
  "json_String j key fallback = (case json_Find j key of Some (JStr s) \<Rightarrow> s | _ \<Rightarrow> fallback)"

definition json_Number :: "json \<Rightarrow> string \<Rightarrow> fp \<Rightarrow> fp" where
  "json_Number j key fallback = (case json_Find j key of Some (JNum x) \<Rightarrow> x | _ \<Rightarrow> fallback)"

definition int64_min :: int where "int64_min = - (2 ^ 63)"
definition int64_max :: int where "int64_max = 2 ^ 63 - 1"

text \<open>
  The bounds are converted to double before the comparison; the upper one, \<open>2 ^ 63 - 1\<close>, is not
  representable and becomes \<open>2 ^ 63\<close>.
\<close>

definition int64_min_double :: rat where "int64_min_double = - (2 ^ 63)"
definition int64_max_double :: rat where "int64_max_double = 2 ^ 63"

definition json_Int64 :: "float_env \<Rightarrow> json \<Rightarrow> string \<Rightarrow> int \<Rightarrow> int" where
  "json_Int64 fe j key fallback =
     (case json_Find j key of
        Some (JNum x) \<Rightarrow>
          (case x of
             Finite a \<Rightarrow>
               (if of_int (trunc_rat a) \<noteq> a \<or> a < int64_min_double \<or> a > int64_max_double
                then fallback
                else fp_to_int fe int64_min int64_max x)
           | _ \<Rightarrow> fallback)
      | _ \<Rightarrow> fallback)"

text \<open>The conversion of a 64-bit value to \<open>int\<close> keeps the low 32 bits.\<close>

definition to_int32 :: "int \<Rightarrow> int" where
  "to_int32 i = (i + 2 ^ 31) mod 2 ^ 32 - 2 ^ 31"

definition json_Int :: "float_env \<Rightarrow> json \<Rightarrow> string \<Rightarrow> int \<Rightarrow> int" where
  "json_Int fe j key fallback = to_int32 (json_Int64 fe j key fallback)"

definition json_Bool :: "json \<Rightarrow> string \<Rightarrow> bool \<Rightarrow> bool" where
  "json_Bool j key fallback = (case json_Find j key of Some (JBool b) \<Rightarrow> b | _ \<Rightarrow> fallback)"

fun string_elements :: "json list \<Rightarrow> string list" where
  "string_elements [] = []"
| "string_elements (JStr s # js) = s # string_elements js"
| "string_elements (_ # js) = string_elements js"

definition Strings_value :: "json \<Rightarrow> string list" where
  "Strings_value j = (case j of JArr js \<Rightarrow> string_elements js | _ \<Rightarrow> [])"

definition Strings :: "json \<Rightarrow> string \<Rightarrow> string list" where
  "Strings j key = (case json_Find j key of None \<Rightarrow> [] | Some v \<Rightarrow> Strings_value v)"

fun string_members :: "(string \<times> json) list \<Rightarrow> string smap \<Rightarrow> string smap" where
  "string_members [] acc = acc"
| "string_members ((k, JStr s) # m) acc = string_members m (smap_emplace k s acc)"
| "string_members (_ # m) acc = string_members m acc"

definition StringMap_value :: "json \<Rightarrow> string smap" where
  "StringMap_value j = (case j of JObj m \<Rightarrow> string_members m [] | _ \<Rightarrow> [])"

definition StringMap :: "json \<Rightarrow> string \<Rightarrow> string smap" where
  "StringMap j key = (case json_Find j key of None \<Rightarrow> [] | Some v \<Rightarrow> StringMap_value v)"

definition FromStrings :: "string list \<Rightarrow> json" where
  "FromStrings ss = JArr (map JStr ss)"

definition FromStringMap :: "string smap \<Rightarrow> json" where
  "FromStringMap m = JObj (foldl (\<lambda>acc (k, v). smap_emplace k (JStr v) acc) [] m)"

definition EmptyObject :: json where
  "EmptyObject = JObj []"

definition json_Object :: "json \<Rightarrow> string \<Rightarrow> json" where
  "json_Object j key =
     (case json_Find j key of
        None \<Rightarrow> EmptyObject
      | Some v \<Rightarrow> if is_object v then v else EmptyObject)"

section \<open>One value and nothing after it\<close>

text \<open>
  The scans return the text after the value, or \<open>None\<close> where the source returns false: at once,
  or because \<open>pos\<close> has passed the end.
\<close>

function container_scan :: "int \<Rightarrow> bool \<Rightarrow> string \<Rightarrow> string option" where
  "container_scan depth in_string [] = (if depth \<noteq> 0 \<or> in_string then None else Some [])"
| "container_scan depth in_string (c # cs) =
     (if in_string then
        (if c = CHR 0x5C then container_scan depth True (drop 1 cs)
         else if c = CHR 0x22 then container_scan depth False cs
         else container_scan depth True cs)
      else if c = CHR 0x22 then container_scan depth True cs
      else if c = CHR ''{'' \<or> c = CHR ''['' then container_scan (depth + 1) False cs
      else if c = CHR ''}'' \<or> c = CHR '']'' then
        (if depth - 1 = 0 then Some cs
         else if depth - 1 < 0 then None
         else container_scan (depth - 1) False cs)
      else container_scan depth False cs)"
  by pat_completeness auto
termination by (relation "measure (\<lambda>(_, _, s). length s)") auto

fun string_scan :: "string \<Rightarrow> string option" where
  "string_scan [] = Some []"
| "string_scan [c] = (if c = CHR 0x5C then None else Some [])"
| "string_scan (c # d # cs) =
     (if c = CHR 0x5C then string_scan cs
      else if c = CHR 0x22 then Some (d # cs)
      else string_scan (d # cs))"

definition IsSingleJsonValue :: "string \<Rightarrow> bool" where
  "IsSingleJsonValue s =
     (case dropWhile is_space s of
        [] \<Rightarrow> False
      | c # cs \<Rightarrow>
          (case (if c = CHR ''{'' \<or> c = CHR ''['' then container_scan 0 False (c # cs)
                 else if c = CHR 0x22 then string_scan cs
                 else Some (dropWhile (\<lambda>d. \<not> is_space d) (c # cs))) of
             None \<Rightarrow> False
           | Some rest \<Rightarrow> dropWhile is_space rest = []))"

section \<open>Properties\<close>

lemma container_scan_append:
  "container_scan d q s = Some rest \<Longrightarrow> 0 < d \<Longrightarrow> container_scan d q (s @ t) = Some (rest @ t)"
proof (induction d q s rule: container_scan.induct)
  case (1 d q)
  then show ?case by (simp split: if_splits)
next
  case (2 d q c cs)
  show ?case
  proof (cases "q \<and> c = CHR 0x5C")
    case True
    then have "container_scan d True (drop 1 cs) = Some rest" using "2.prems" by simp
    moreover have "Suc 0 - length cs = 0" using calculation "2.prems" by (cases cs) auto
    ultimately show ?thesis using True "2.IH"(1) "2.prems"(2) by simp
  next
    case False
    note q = False
    show ?thesis
    proof (cases q)
      case True
      then show ?thesis using q "2.IH"(2,3) "2.prems" by (simp split: if_splits)
    next
      case False
      then show ?thesis using "2.IH"(4-7) "2.prems"
        by (cases "c = CHR 0x22"; cases "c = CHR ''{'' \<or> c = CHR ''[''";
            cases "c = CHR ''}'' \<or> c = CHR '']''"; cases "d = 1"; cases "d - 1 < 0") auto
    qed
  qed
qed

text \<open>
  A document whose first value is an object or an array is accepted only if nothing but white
  space follows that value: once a text is accepted, appending anything that holds a
  non-space character makes it rejected, and appending white space does not.
\<close>

theorem IsSingleJsonValue_rejects_junk:
  assumes "IsSingleJsonValue s" and "dropWhile is_space s = c # cs" and "c = CHR ''{'' \<or> c = CHR ''[''"
  shows "IsSingleJsonValue (s @ junk) \<longleftrightarrow> (\<forall>x\<in>set junk. is_space x)"
proof -
  from assms obtain rest where scan: "container_scan 0 False (c # cs) = Some rest"
    and rest: "dropWhile is_space rest = []"
    by (auto simp: IsSingleJsonValue_def split: option.splits)
  have "dropWhile is_space (s @ junk) = c # cs @ junk"
    using assms(2) by (metis append_Cons dropWhile_append dropWhile_eq_Nil_conv list.distinct(1))
  moreover have "container_scan 0 False (c # cs @ junk) = Some (rest @ junk)"
    using container_scan_append [of 1 False cs rest junk] scan assms(3) by auto
  moreover have "dropWhile is_space (rest @ junk) = [] \<longleftrightarrow> (\<forall>x\<in>set junk. is_space x)"
    using rest by (auto simp: dropWhile_eq_Nil_conv)
  ultimately show ?thesis using assms(3) by (auto simp: IsSingleJsonValue_def)
qed

theorem IsSingleJsonValue_rejects_junk_witness:
  "\<not> IsSingleJsonValue (''{[1]} '' @ ''junk'')"
proof -
  have s: "IsSingleJsonValue ''{[1]} ''" "dropWhile is_space ''{[1]} '' = CHR ''{'' # ''[1]} ''"
    by (simp_all add: IsSingleJsonValue_def is_space_def)
  show ?thesis using IsSingleJsonValue_rejects_junk [OF s, of "''junk''"] by (simp add: is_space_def)
qed

text \<open>
  \<open>Int64\<close> returns a number of the document exactly when it is integral and lies in the signed
  64-bit range, and the fallback for every other value, with one exception: \<open>2 ^ 63\<close> itself, the
  value of the converted upper bound, passes the guard and is handed to a conversion that has no
  defined result. \<open>Int\<close> always gives a 32-bit value, by keeping the low 32 bits.
\<close>

theorem json_Int64_guard:
  "json_Int64 fe j key fallback =
     (case json_Find j key of
        Some (JNum (Finite a)) \<Rightarrow>
          (if (\<exists>i. a = of_int i \<and> int64_min \<le> i \<and> i \<le> int64_max) then trunc_rat a
           else if a = 2 ^ 63 then fe_undef_cast fe (Finite a)
           else fallback)
      | _ \<Rightarrow> fallback)
   \<and> (- (2 ^ 31) \<le> json_Int fe j key fallback \<and> json_Int fe j key fallback < 2 ^ 31)"
proof (rule conjI)
  have tr: "trunc_rat (of_int i) = i" for i by (simp add: trunc_rat_def)
  have guard: "of_int (trunc_rat a) \<noteq> a \<longleftrightarrow> \<not> (\<exists>i. a = of_int i)" for a
    by (metis tr)
  have lo: "of_int i < int64_min_double \<longleftrightarrow> i < int64_min" for i
    using of_int_less_iff [of i "- (2 ^ 63)", where 'a = rat]
    by (simp add: int64_min_double_def int64_min_def)
  have hi: "int64_max_double < of_int i \<longleftrightarrow> 2 ^ 63 < i" for i
    using of_int_less_iff [of "2 ^ 63" i, where 'a = rat] by (simp add: int64_max_double_def)
  have top: "of_int i = (2 :: rat) ^ 63 \<longleftrightarrow> i = 2 ^ 63" for i
    using of_int_eq_iff [of i "2 ^ 63", where 'a = rat] by simp
  have fin: "(if of_int (trunc_rat a) \<noteq> a \<or> a < int64_min_double \<or> a > int64_max_double then fallback
        else fp_to_int fe int64_min int64_max (Finite a)) =
      (if (\<exists>i. a = of_int i \<and> int64_min \<le> i \<and> i \<le> int64_max) then trunc_rat a
       else if a = 2 ^ 63 then fe_undef_cast fe (Finite a) else fallback)" for a
  proof (cases "\<exists>i. a = of_int i")
    case True
    then obtain i where a: "a = of_int i" by blast
    have m: "int64_max = 2 ^ 63 - 1" "int64_min < 2 ^ 63" by (simp_all add: int64_max_def int64_min_def)
    show ?thesis unfolding a using m
      by (simp only: tr lo hi top fp_to_int_def fp.case of_int_eq_iff) (auto)
  next
    case False
    moreover have "a \<noteq> 2 ^ 63" using False by (metis of_int_numeral of_int_power)
    ultimately show ?thesis using guard [of a] by auto
  qed
  show "json_Int64 fe j key fallback =
     (case json_Find j key of
        Some (JNum (Finite a)) \<Rightarrow>
          (if (\<exists>i. a = of_int i \<and> int64_min \<le> i \<and> i \<le> int64_max) then trunc_rat a
           else if a = 2 ^ 63 then fe_undef_cast fe (Finite a)
           else fallback)
      | _ \<Rightarrow> fallback)"
    unfolding json_Int64_def fin [symmetric] by (auto split: option.splits json.splits fp.splits)
next
  have "0 \<le> (json_Int64 fe j key fallback + 2 ^ 31) mod 2 ^ 32"
    "(json_Int64 fe j key fallback + 2 ^ 31) mod 2 ^ 32 < (2 :: int) ^ 32" by simp_all
  then show "- (2 ^ 31) \<le> json_Int fe j key fallback \<and> json_Int fe j key fallback < 2 ^ 31"
    by (simp add: json_Int_def to_int32_def)
qed

lemma smap_emplace_last:
  assumes "\<And>j. j \<in> set (map fst m) \<Longrightarrow> string_less j k"
  shows "smap_emplace k v m = m @ [(k, v)]"
proof -
  have "map_of m k = None" using assms [of k] by (auto simp: map_of_eq_None_iff)
  then show ?thesis using smap_put_last [of m k v] assms by (simp add: smap_emplace_def)
qed

lemma foldl_emplace:
  "smap_sorted (acc @ m) \<Longrightarrow> foldl (\<lambda>acc (k, v). smap_emplace k (f v) acc) (map (map_prod id f) acc) m
     = map (map_prod id f) (acc @ m)"
proof (induction m arbitrary: acc)
  case (Cons p m)
  obtain k v where p: "p = (k, v)" by fastforce
  have lt: "string_less j k" if "j \<in> set (map fst (map (map_prod id f) acc))" for j
    using Cons.prems that by (auto simp: p smap_sorted_def sorted_wrt_append)
  have "smap_emplace k (f v) (map (map_prod id f) acc) = map (map_prod id f) acc @ [(k, f v)]"
    by (rule smap_emplace_last) (rule lt)
  then show ?case using Cons.IH [of "acc @ [p]"] Cons.prems by (simp add: p id_def)
qed simp

lemma string_members_strings:
  "smap_sorted (acc @ m) \<Longrightarrow> string_members (map (map_prod id JStr) m) acc = acc @ m"
proof (induction m arbitrary: acc)
  case (Cons p m)
  obtain k v where p: "p = (k, v)" by fastforce
  have lt: "string_less j k" if "j \<in> set (map fst acc)" for j
    using Cons.prems that by (auto simp: p smap_sorted_def sorted_wrt_append)
  have "smap_emplace k v acc = acc @ [(k, v)]"
    by (rule smap_emplace_last) (rule lt)
  then show ?case using Cons.IH [of "acc @ [p]"] Cons.prems by (simp add: p)
qed simp

text \<open>
  Argument lists and environments survive the trip through JSON: reading back the tree built
  from a list of strings, or from a string map, gives the list or the map again.
\<close>

theorem json_strings_roundtrip:
  "Strings_value (FromStrings ss) = ss
   \<and> (smap_sorted env \<longrightarrow> StringMap_value (FromStringMap env) = env)"
proof (intro conjI impI)
  have "string_elements (map JStr ss) = ss" by (induction ss) simp_all
  then show "Strings_value (FromStrings ss) = ss" by (simp add: Strings_value_def FromStrings_def)
  assume "smap_sorted env"
  then show "StringMap_value (FromStringMap env) = env"
    using foldl_emplace [of "[]" env JStr] string_members_strings [of "[]" env]
    by (simp add: StringMap_value_def FromStringMap_def)
qed

theorem json_strings_roundtrip_witness:
  "StringMap_value (FromStringMap [(''HOME'', ''/root''), (''LANG'', ''C'')])
     = [(''HOME'', ''/root''), (''LANG'', ''C'')]"
  using json_strings_roundtrip [of "[]" "[(''HOME'', ''/root''), (''LANG'', ''C'')]"]
  by (simp add: smap_sorted_def)

end
