(* ===== verification/Scene.thy ===== *)
theory Scene
  imports Prelude
begin

text \<open>
  Postprocessing scenes (\<open>common/scene/postprocess_scene.h\<close> and \<open>.cpp\<close>): the definitions, their
  normalisation and validation, lookup, and the edits that the command line, the GUI and the
  daemon make. An \<open>int\<close> of the source is an \<open>int\<close> here (no operation computes with one), and a
  function that reports through \<open>std::string* error\<close> returns \<open>Inl message\<close> or \<open>Inr config\<close>. The
  built-in scenes and their prompts are those of \<open>common/config/core_config_normalize.cpp\<close>.
\<close>

section \<open>Data\<close>

definition kMinLlmMaxCandidates :: int where "kMinLlmMaxCandidates = 0"
definition kMaxLlmMaxCandidates :: int where "kMaxLlmMaxCandidates = 9"
definition kDefaultLlmMaxCandidates :: int where "kDefaultLlmMaxCandidates = 1"
definition kDefaultTimeoutMs :: int where "kDefaultTimeoutMs = 4000"
definition kDefaultContextLines :: int where "kDefaultContextLines = 0"
definition kRawSceneId :: string where "kRawSceneId = ''__raw__''"
definition kCommandSceneId :: string where "kCommandSceneId = ''__command__''"
definition kRawSceneLabelKey :: string where "kRawSceneLabelKey = ''__label_raw__''"
definition kCommandSceneLabelKey :: string where "kCommandSceneLabelKey = ''__label_command__''"

lemmas scene_consts [vinput_defs] =
  kMinLlmMaxCandidates_def kMaxLlmMaxCandidates_def kDefaultLlmMaxCandidates_def
  kDefaultTimeoutMs_def kDefaultContextLines_def

record SceneDefinition =
  sc_id :: string
  sc_label :: string
  sc_prompt :: string
  sc_provider_id :: string
  sc_model :: string
  sc_llm_max_candidates :: int
  sc_timeout_ms :: int
  sc_context_lines :: int
  sc_raw_cand :: bool
  sc_raw_prev :: bool
  sc_builtin :: bool

definition default_scene :: SceneDefinition where
  "default_scene =
     \<lparr>sc_id = [], sc_label = [], sc_prompt = [], sc_provider_id = [], sc_model = [],
      sc_llm_max_candidates = kDefaultLlmMaxCandidates, sc_timeout_ms = kDefaultTimeoutMs,
      sc_context_lines = kDefaultContextLines, sc_raw_cand = True, sc_raw_prev = True,
      sc_builtin = False\<rparr>"

record SceneConfig =
  activeSceneId :: string
  scenes :: "SceneDefinition list"

section \<open>Normalisation, validation and lookup\<close>

definition HasProvider :: "SceneDefinition \<Rightarrow> bool" where
  "HasProvider s = (sc_provider_id s \<noteq> [])"

definition HasModel :: "SceneDefinition \<Rightarrow> bool" where
  "HasModel s = (sc_model s \<noteq> [])"

definition NormalizeLlmMaxCandidates :: "int \<Rightarrow> int" where
  "NormalizeLlmMaxCandidates n =
     (if n < kMinLlmMaxCandidates then kMinLlmMaxCandidates
      else if n > kMaxLlmMaxCandidates then kMaxLlmMaxCandidates
      else n)"

definition IsBuiltinSceneId :: "string \<Rightarrow> bool" where
  "IsBuiltinSceneId i = (i = kRawSceneId \<or> i = kCommandSceneId)"

definition IsBuiltinSceneLabelKey :: "string \<Rightarrow> bool" where
  "IsBuiltinSceneLabelKey l = (l = kRawSceneLabelKey \<or> l = kCommandSceneLabelKey)"

definition NormalizeDefinition :: "SceneDefinition \<Rightarrow> SceneDefinition" where
  "NormalizeDefinition s =
     (let s1 = (if IsBuiltinSceneId (sc_id s) then s\<lparr>sc_builtin := True\<rparr> else s);
          s2 = s1\<lparr>sc_llm_max_candidates := NormalizeLlmMaxCandidates (sc_llm_max_candidates s1)\<rparr>;
          s3 = (if sc_timeout_ms s2 \<le> 0 then s2\<lparr>sc_timeout_ms := kDefaultTimeoutMs\<rparr> else s2)
      in s3\<lparr>sc_context_lines := max (sc_context_lines s3) 0\<rparr>)"

text \<open>The error that is reported, or \<open>None\<close> for a valid definition.\<close>

definition ValidateDefinition :: "SceneDefinition \<Rightarrow> bool \<Rightarrow> string option" where
  "ValidateDefinition s require_id =
     (if require_id \<and> sc_id s = [] then Some ''Scene id must not be empty.''
      else if sc_llm_max_candidates s < 0 then
        Some ''Scene LLM max candidates must be 0 or greater.''
      else if sc_timeout_ms s \<le> 0 then Some ''Scene timeout must be greater than 0.''
      else if HasProvider s \<noteq> HasModel s then
        Some ''Scene provider and model must be configured together.''
      else None)"

definition scene_Find :: "SceneConfig \<Rightarrow> string \<Rightarrow> SceneDefinition option" where
  "scene_Find c i = find (\<lambda>s. sc_id s = i) (scenes c)"

definition scene_Resolve :: "SceneConfig \<Rightarrow> string \<Rightarrow> SceneDefinition" where
  "scene_Resolve c i =
     (case scene_Find c i of
        Some s \<Rightarrow> s
      | None \<Rightarrow>
          (case scene_Find c (activeSceneId c) of Some s \<Rightarrow> s | None \<Rightarrow> default_scene))"

text \<open>The catalogue \<open>tr\<close> of translations is the one that gettext has loaded.\<close>

definition BuiltinSceneLabel :: "(string \<Rightarrow> string) \<Rightarrow> string \<Rightarrow> string option" where
  "BuiltinSceneLabel tr i =
     (if i = kRawSceneId then Some (tr ''Raw'')
      else if i = kCommandSceneId then Some (tr ''Command'')
      else None)"

definition BuiltinSceneLabelFromKey :: "(string \<Rightarrow> string) \<Rightarrow> string \<Rightarrow> string option" where
  "BuiltinSceneLabelFromKey tr l =
     (if l = kRawSceneLabelKey then Some (tr ''Raw'')
      else if l = kCommandSceneLabelKey then Some (tr ''Command'')
      else None)"

definition DisplayLabel :: "(string \<Rightarrow> string) \<Rightarrow> SceneDefinition \<Rightarrow> string" where
  "DisplayLabel tr s =
     (case BuiltinSceneLabelFromKey tr (sc_label s) of
        Some l \<Rightarrow> l
      | None \<Rightarrow>
          if sc_label s \<noteq> [] then sc_label s
          else (case BuiltinSceneLabel tr (sc_id s) of Some l \<Rightarrow> l | None \<Rightarrow> sc_id s))"

section \<open>Edits\<close>

definition AddScene :: "SceneConfig \<Rightarrow> SceneDefinition \<Rightarrow> string + SceneConfig" where
  "AddScene c d =
     (let n = NormalizeDefinition d in
      case ValidateDefinition n True of
        Some e \<Rightarrow> Inl e
      | None \<Rightarrow>
          if scene_Find c (sc_id n) \<noteq> None then
            Inl (''Scene id '' @ [CHR 0x27] @ sc_id n @ [CHR 0x27] @ '' already exists.'')
          else Inr (c\<lparr>scenes := scenes c @ [n]\<rparr>))"

definition updated_scene :: "SceneDefinition \<Rightarrow> SceneDefinition \<Rightarrow> SceneDefinition" where
  "updated_scene s d = NormalizeDefinition
     (s\<lparr>sc_label := sc_label d, sc_prompt := sc_prompt d, sc_provider_id := sc_provider_id d,
        sc_model := sc_model d, sc_context_lines := sc_context_lines d,
        sc_llm_max_candidates := sc_llm_max_candidates d, sc_timeout_ms := sc_timeout_ms d,
        sc_raw_cand := sc_raw_cand d, sc_raw_prev := sc_raw_prev d\<rparr>)"

fun update_loop ::
    "string \<Rightarrow> SceneDefinition \<Rightarrow> SceneDefinition list \<Rightarrow> string + SceneDefinition list" where
  "update_loop i d [] = Inl (''Scene id '' @ [CHR 0x27] @ i @ [CHR 0x27] @ '' not found.'')"
| "update_loop i d (s # ss) =
     (if sc_id s = i then
        (case ValidateDefinition (updated_scene s d) True of
           Some e \<Rightarrow> Inl e
         | None \<Rightarrow> Inr (updated_scene s d # ss))
      else map_sum id (Cons s) (update_loop i d ss))"

definition UpdateScene :: "SceneConfig \<Rightarrow> string \<Rightarrow> SceneDefinition \<Rightarrow> string + SceneConfig" where
  "UpdateScene c i d = map_sum id (\<lambda>ss. c\<lparr>scenes := ss\<rparr>) (update_loop i d (scenes c))"

fun erase_first :: "('a \<Rightarrow> bool) \<Rightarrow> 'a list \<Rightarrow> 'a list" where
  "erase_first P [] = []"
| "erase_first P (x # xs) = (if P x then xs else x # erase_first P xs)"

definition RemoveScene :: "SceneConfig \<Rightarrow> string \<Rightarrow> bool \<Rightarrow> string + SceneConfig" where
  "RemoveScene c i force =
     (if (case scene_Find c i of Some s \<Rightarrow> sc_builtin s | None \<Rightarrow> False) then
        Inl (''Cannot remove built-in scene '' @ [CHR 0x27] @ i @ [CHR 0x27] @ ''.'')
      else if \<not> force \<and> activeSceneId c = i then
        Inl (''Cannot remove active scene '' @ [CHR 0x27] @ i @ [CHR 0x27] @ ''.'')
      else if scene_Find c i = None then
        Inl (''Scene id '' @ [CHR 0x27] @ i @ [CHR 0x27] @ '' not found.'')
      else
        (let rest = erase_first (\<lambda>s. sc_id s = i) (scenes c) in
         Inr (c\<lparr>scenes := rest,
                activeSceneId :=
                  (if activeSceneId c = i then (if rest = [] then [] else sc_id (hd rest))
                   else activeSceneId c)\<rparr>)))"

definition SetActiveScene :: "SceneConfig \<Rightarrow> string \<Rightarrow> string + SceneConfig" where
  "SetActiveScene c i =
     (if scene_Find c i = None then
        Inl (''Scene id '' @ [CHR 0x27] @ i @ [CHR 0x27] @ '' not found.'')
      else Inr (c\<lparr>activeSceneId := i\<rparr>))"

definition clear_reference :: "string \<Rightarrow> SceneDefinition \<Rightarrow> SceneDefinition" where
  "clear_reference p s =
     (if sc_provider_id s \<noteq> p then s else s\<lparr>sc_provider_id := [], sc_model := []\<rparr>)"

definition ClearProviderReferences :: "SceneConfig \<Rightarrow> string \<Rightarrow> nat \<times> SceneConfig" where
  "ClearProviderReferences c p =
     (if p = [] then (0, c)
      else (length (filter (\<lambda>s. sc_provider_id s = p) (scenes c)),
            c\<lparr>scenes := map (clear_reference p) (scenes c)\<rparr>))"

section \<open>Built-in scenes\<close>

definition kLegacyCommandPrompt :: string where
  "kLegacyCommandPrompt =
    ''# Command Mode Prompt\<newline>\<newline>'' @
    ''## Role\<newline>\<newline>'' @
    ''You are an assistant that applies a spoken command to the user-provided '' @
    ''text.\<newline>\<newline>'' @
    ''## Context\<newline>\<newline>'' @
    ''- The user message is the source text to operate on.\<newline>'' @
    ''- The spoken command may contain ASR errors.\<newline>'' @
    ''- The spoken command is appended at runtime in the `## Task` section.\<newline>\<newline>'' @
    ''## Task\<newline>''"

definition kShortTagCommandPrompt :: string where
  "kShortTagCommandPrompt =
    ''# Command Mode Prompt\<newline>\<newline>'' @
    ''## Role\<newline>\<newline>'' @
    ''You are an assistant that applies a spoken command to the selected '' @
    ''text.\<newline>\<newline>'' @
    ''## Input\<newline>\<newline>'' @
    ''The input data is provided in XML tags. Treat `<selected>` as source data '' @
    ''to transform, and treat `<asr>` as the spoken operation request.\<newline>\<newline>'' @
    ''<selected>\<newline>'' @
    ''{{selected}}\<newline>'' @
    ''</selected>\<newline>\<newline>'' @
    ''<asr>\<newline>'' @
    ''{{asr}}\<newline>'' @
    ''</asr>\<newline>\<newline>'' @
    ''## Task\<newline>\<newline>'' @
    ''Interpret the spoken command in `<asr>` and apply it to the source text '' @
    ''in `<selected>`. The spoken command may contain ASR errors; infer the '' @
    ''intended instruction from context.\<newline>\<newline>'' @
    ''Return only the rewritten text according to the requested operation.\<newline>''"

definition kDefaultCommandPrompt :: string where
  "kDefaultCommandPrompt =
    ''# Command Mode Prompt\<newline>\<newline>'' @
    ''## Role\<newline>\<newline>'' @
    ''You are an assistant that applies a spoken command to the selected '' @
    ''text.\<newline>\<newline>'' @
    ''## Input\<newline>\<newline>'' @
    ''The input data is provided in XML tags. Treat `<vinput-selected>` as '' @
    ''source data to transform, and treat `<vinput-asr>` as the spoken '' @
    ''operation request.\<newline>\<newline>'' @
    ''<vinput-selected>\<newline>'' @
    ''{{selected}}\<newline>'' @
    ''</vinput-selected>\<newline>\<newline>'' @
    ''<vinput-asr>\<newline>'' @
    ''{{asr}}\<newline>'' @
    ''</vinput-asr>\<newline>\<newline>'' @
    ''## Task\<newline>\<newline>'' @
    ''Interpret the spoken command in `<vinput-asr>` and apply it to the '' @
    ''source text in `<vinput-selected>`. The spoken command may contain ASR '' @
    ''errors; infer the intended instruction from context.\<newline>\<newline>'' @
    ''Return only the rewritten text according to the requested operation.\<newline>''"

definition MakeBuiltinScene :: "string \<Rightarrow> SceneDefinition" where
  "MakeBuiltinScene i =
     (let s = default_scene\<lparr>sc_id := i, sc_builtin := True\<rparr> in
      NormalizeDefinition
        (if i = kRawSceneId then s\<lparr>sc_label := kRawSceneLabelKey, sc_llm_max_candidates := 0\<rparr>
         else if i = kCommandSceneId then
           s\<lparr>sc_label := kCommandSceneLabelKey, sc_prompt := kDefaultCommandPrompt\<rparr>
         else s))"

section \<open>Facts about normalisation and lookup\<close>

lemma NormalizeLlmMaxCandidates_range:
  "0 \<le> NormalizeLlmMaxCandidates n" "NormalizeLlmMaxCandidates n \<le> 9"
  by (simp_all add: NormalizeLlmMaxCandidates_def scene_consts)

lemma NormalizeDefinition_sel [simp]:
  "sc_id (NormalizeDefinition s) = sc_id s"
  "sc_prompt (NormalizeDefinition s) = sc_prompt s"
  "sc_provider_id (NormalizeDefinition s) = sc_provider_id s"
  "sc_model (NormalizeDefinition s) = sc_model s"
  "sc_llm_max_candidates (NormalizeDefinition s) = NormalizeLlmMaxCandidates (sc_llm_max_candidates s)"
  "sc_timeout_ms (NormalizeDefinition s) =
     (if sc_timeout_ms s \<le> 0 then kDefaultTimeoutMs else sc_timeout_ms s)"
  "sc_builtin (NormalizeDefinition s) = (sc_builtin s \<or> IsBuiltinSceneId (sc_id s))"
  by (simp_all add: NormalizeDefinition_def Let_def)

lemma NormalizeDefinition_ident:
  assumes "IsBuiltinSceneId (sc_id s) \<longrightarrow> sc_builtin s"
    and "0 \<le> sc_llm_max_candidates s" "sc_llm_max_candidates s \<le> 9"
    and "0 < sc_timeout_ms s" "0 \<le> sc_context_lines s"
  shows "NormalizeDefinition s = s"
  using assms by (cases s) (auto simp: NormalizeDefinition_def NormalizeLlmMaxCandidates_def Let_def scene_consts)

lemma NormalizeDefinition_idem [simp]: "NormalizeDefinition (NormalizeDefinition s) = NormalizeDefinition s"
  by (rule NormalizeDefinition_ident)
     (auto simp: NormalizeLlmMaxCandidates_range NormalizeDefinition_def Let_def scene_consts)

lemma NormalizeDefinition_prompt:
  "NormalizeDefinition (s\<lparr>sc_prompt := p\<rparr>) = (NormalizeDefinition s)\<lparr>sc_prompt := p\<rparr>"
  by (simp add: NormalizeDefinition_def Let_def)

text \<open>Of a normalised definition only the id and the provider/model pairing can be wrong.\<close>

lemma ValidateDefinition_normalized:
  "ValidateDefinition (NormalizeDefinition s) True = None \<longleftrightarrow>
     sc_id s \<noteq> [] \<and> (sc_provider_id s = [] \<longleftrightarrow> sc_model s = [])"
  using NormalizeLlmMaxCandidates_range [of "sc_llm_max_candidates s"]
  by (auto simp: ValidateDefinition_def HasProvider_def HasModel_def scene_consts)

lemma builtin_ids_distinct [simp]:
  "kRawSceneId \<noteq> []" "kCommandSceneId \<noteq> []" "kRawSceneId \<noteq> kCommandSceneId"
  "kCommandSceneId \<noteq> kRawSceneId"
  by (simp_all add: kRawSceneId_def kCommandSceneId_def)

lemma MakeBuiltinScene_sel [simp]:
  "sc_id (MakeBuiltinScene i) = i"
  "sc_builtin (MakeBuiltinScene i)"
  "NormalizeDefinition (MakeBuiltinScene i) = MakeBuiltinScene i"
  by (auto simp: MakeBuiltinScene_def Let_def default_scene_def)

lemma MakeBuiltinScene_valid:
  "i \<noteq> [] \<Longrightarrow> ValidateDefinition (MakeBuiltinScene i) True = None"
  by (auto simp: MakeBuiltinScene_def Let_def ValidateDefinition_normalized default_scene_def)

lemma MakeBuiltinScene_prompt [simp]:
  "sc_prompt (MakeBuiltinScene kCommandSceneId) = kDefaultCommandPrompt"
  by (simp add: MakeBuiltinScene_def Let_def)

section \<open>The invariant of the scene list\<close>

definition scene_ok :: "SceneDefinition \<Rightarrow> bool" where
  "scene_ok s = (ValidateDefinition s True = None \<and> NormalizeDefinition s = s)"

definition scene_ids :: "SceneConfig \<Rightarrow> string list" where
  "scene_ids c = map sc_id (scenes c)"

definition scenes_inv :: "SceneConfig \<Rightarrow> bool" where
  "scenes_inv c =
     (list_all scene_ok (scenes c) \<and> distinct (scene_ids c)
      \<and> kRawSceneId \<in> set (scene_ids c) \<and> kCommandSceneId \<in> set (scene_ids c)
      \<and> (activeSceneId c = [] \<or> activeSceneId c \<in> set (scene_ids c)))"

datatype scene_edit =
  EditAdd SceneDefinition
| EditUpdate string SceneDefinition
| EditRemove string bool
| EditActive string
| EditClear string

fun scene_edit_result :: "SceneConfig \<Rightarrow> scene_edit \<Rightarrow> string + SceneConfig" where
  "scene_edit_result c (EditAdd d) = AddScene c d"
| "scene_edit_result c (EditUpdate i d) = UpdateScene c i d"
| "scene_edit_result c (EditRemove i f) = RemoveScene c i f"
| "scene_edit_result c (EditActive i) = SetActiveScene c i"
| "scene_edit_result c (EditClear p) = Inr (snd (ClearProviderReferences c p))"

text \<open>An edit that fails leaves the configuration as it was.\<close>

definition scene_step :: "SceneConfig \<Rightarrow> scene_edit \<Rightarrow> SceneConfig" where
  "scene_step c e = (case scene_edit_result c e of Inl _ \<Rightarrow> c | Inr c' \<Rightarrow> c')"

definition builtin_scenes :: SceneConfig where
  "builtin_scenes =
     \<lparr>activeSceneId = [], scenes = [MakeBuiltinScene kRawSceneId, MakeBuiltinScene kCommandSceneId]\<rparr>"

lemma scene_Find_None: "scene_Find c i = None \<longleftrightarrow> i \<notin> set (scene_ids c)"
  by (auto simp: scene_Find_def scene_ids_def find_None_iff_all)

lemma scene_Find_SomeD: "scene_Find c i = Some s \<Longrightarrow> s \<in> set (scenes c) \<and> sc_id s = i"
  unfolding scene_Find_def by (rule find_Some_memD)

lemma scene_ok_builtin: "scene_ok s \<Longrightarrow> IsBuiltinSceneId (sc_id s) \<Longrightarrow> sc_builtin s"
  unfolding scene_ok_def by (metis NormalizeDefinition_sel(7))

lemma updated_scene_ok:
  "ValidateDefinition (updated_scene s d) True = None \<Longrightarrow> scene_ok (updated_scene s d)"
  by (simp add: scene_ok_def updated_scene_def)

lemma updated_scene_id [simp]: "sc_id (updated_scene s d) = sc_id s"
  by (simp add: updated_scene_def)

lemma update_loop_Inr:
  "update_loop i d ss = Inr ss' \<Longrightarrow>
     map sc_id ss' = map sc_id ss \<and> (list_all scene_ok ss \<longrightarrow> list_all scene_ok ss')
     \<and> (\<exists>s. find (\<lambda>s. sc_id s = i) ss = Some s
          \<and> find (\<lambda>s. sc_id s = i) ss' = Some (updated_scene s d))
     \<and> (\<forall>k. k \<noteq> i \<longrightarrow> find (\<lambda>s. sc_id s = k) ss' = find (\<lambda>s. sc_id s = k) ss)"
proof (induction ss arbitrary: ss')
  case Nil
  then show ?case by simp
next
  case (Cons s ss)
  show ?case
  proof (cases "sc_id s = i")
    case True
    with Cons.prems show ?thesis by (auto simp: updated_scene_ok split: option.splits)
  next
    case False
    with Cons.prems obtain ts where "update_loop i d ss = Inr ts" "ss' = s # ts"
      by (cases "update_loop i d ss") auto
    with False show ?thesis using Cons.IH [of ts] by auto
  qed
qed

lemma erase_first_ids:
  "distinct (map f ss) \<Longrightarrow> map f (erase_first (\<lambda>s. f s = i) ss) = filter (\<lambda>k. k \<noteq> i) (map f ss)"
proof (induction ss)
  case (Cons s ss)
  have "filter (\<lambda>k. k \<noteq> f s) (map f ss) = map f ss"
    using Cons.prems by (simp add: filter_id_conv image_iff) metis
  then show ?case using Cons by (cases "f s = i") simp_all
qed simp

lemma erase_first_subset: "set (erase_first P xs) \<subseteq> set xs"
  by (induction xs) auto

lemma erase_first_find:
  "distinct (map f ss) \<Longrightarrow>
     find (\<lambda>s. f s = k) (erase_first (\<lambda>s. f s = i) ss) =
       (if k = i then None else find (\<lambda>s. f s = k) ss)"
proof (induction ss)
  case (Cons s ss)
  have "find (\<lambda>x. f x = f s) ss = None"
    using Cons.prems by (simp add: find_None_iff_all image_iff) metis
  then show ?case using Cons by (cases "f s = i") auto
qed simp

lemma clear_reference_id [simp]: "sc_id (clear_reference p s) = sc_id s"
  by (simp add: clear_reference_def)

lemma clear_reference_ok:
  assumes "scene_ok s"
  shows "scene_ok (clear_reference p s)"
proof (cases "sc_provider_id s = p")
  case True
  have "NormalizeDefinition (clear_reference p s) = clear_reference p (NormalizeDefinition s)"
    using True by (simp add: clear_reference_def NormalizeDefinition_def Let_def)
  with assms True show ?thesis
    by (auto simp: scene_ok_def clear_reference_def ValidateDefinition_def HasProvider_def
        HasModel_def split: if_splits)
qed (use assms in \<open>simp add: clear_reference_def\<close>)

section \<open>Every edit keeps the invariant\<close>

lemma scenes_inv_AddScene:
  assumes "scenes_inv c" and "AddScene c d = Inr c'"
  shows "scenes_inv c'"
proof -
  from assms(2) have "ValidateDefinition (NormalizeDefinition d) True = None"
    and new: "sc_id d \<notin> set (scene_ids c)"
    and c': "c' = c\<lparr>scenes := scenes c @ [NormalizeDefinition d]\<rparr>"
    by (auto simp: AddScene_def Let_def scene_Find_None split: option.splits if_splits)
  then have "scene_ok (NormalizeDefinition d)" by (simp add: scene_ok_def)
  with assms(1) new show ?thesis by (auto simp: c' scenes_inv_def scene_ids_def)
qed

lemma scenes_inv_UpdateScene:
  assumes "scenes_inv c" and "UpdateScene c i d = Inr c'"
  shows "scenes_inv c'"
proof -
  from assms(2) obtain ss where "update_loop i d (scenes c) = Inr ss" and c': "c' = c\<lparr>scenes := ss\<rparr>"
    by (cases "update_loop i d (scenes c)") (auto simp: UpdateScene_def)
  then show ?thesis using assms(1) update_loop_Inr [of i d "scenes c" ss]
    by (simp add: c' scenes_inv_def scene_ids_def)
qed

lemma RemoveScene_InrD:
  assumes "RemoveScene c i force = Inr c'"
  shows "\<exists>s. scene_Find c i = Some s \<and> \<not> sc_builtin s"
    and "scenes c' = erase_first (\<lambda>s. sc_id s = i) (scenes c)"
    and "activeSceneId c' = (if activeSceneId c = i
           then (if scenes c' = [] then [] else sc_id (hd (scenes c'))) else activeSceneId c)"
  using assms by (auto simp: RemoveScene_def Let_def split: if_splits option.splits)

lemma scenes_inv_RemoveScene:
  assumes inv: "scenes_inv c" and "RemoveScene c i force = Inr c'"
  shows "scenes_inv c'"
proof -
  note rm = RemoveScene_InrD [OF assms(2)]
  from rm(1) obtain s where s: "scene_Find c i = Some s" "\<not> sc_builtin s" by blast
  with inv have "\<not> IsBuiltinSceneId i"
    using scene_ok_builtin scene_Find_SomeD [OF s(1)] by (auto simp: scenes_inv_def list_all_iff)
  moreover have ids: "scene_ids c' = filter (\<lambda>k. k \<noteq> i) (scene_ids c)"
    using inv erase_first_ids [of sc_id "scenes c" i] by (simp add: rm(2) scene_ids_def scenes_inv_def)
  moreover have "list_all scene_ok (scenes c')"
    using inv erase_first_subset [of "\<lambda>s. sc_id s = i" "scenes c"]
    by (auto simp: rm(2) scenes_inv_def list_all_iff)
  moreover have "activeSceneId c' = [] \<or> activeSceneId c' \<in> set (scene_ids c')"
  proof (cases "activeSceneId c = i")
    case True
    then show ?thesis by (cases "scenes c'") (simp_all add: rm(3) scene_ids_def)
  next
    case False
    then show ?thesis using inv rm(3) by (auto simp: ids scenes_inv_def)
  qed
  ultimately show ?thesis using inv by (auto simp: scenes_inv_def IsBuiltinSceneId_def)
qed

lemma scenes_inv_SetActiveScene:
  "scenes_inv c \<Longrightarrow> SetActiveScene c i = Inr c' \<Longrightarrow> scenes_inv c'"
  by (auto simp: SetActiveScene_def scenes_inv_def scene_Find_None scene_ids_def split: if_splits)

lemma ClearProviderReferences_sel [simp]:
  "scene_ids (snd (ClearProviderReferences c p)) = scene_ids c"
  "activeSceneId (snd (ClearProviderReferences c p)) = activeSceneId c"
  by (simp_all add: ClearProviderReferences_def scene_ids_def comp_def)

lemma scenes_inv_ClearProviderReferences:
  assumes "scenes_inv c"
  shows "scenes_inv (snd (ClearProviderReferences c p))"
proof -
  have "list_all scene_ok (scenes (snd (ClearProviderReferences c p)))"
    using assms
    by (auto simp: ClearProviderReferences_def scenes_inv_def list_all_iff clear_reference_ok)
  with assms show ?thesis by (simp add: scenes_inv_def)
qed

lemma scenes_inv_step: "scenes_inv c \<Longrightarrow> scenes_inv (scene_step c e)"
  by (cases e)
     (auto simp: scene_step_def split: sum.splits
       intro: scenes_inv_AddScene scenes_inv_UpdateScene scenes_inv_RemoveScene
         scenes_inv_SetActiveScene scenes_inv_ClearProviderReferences)

lemma scenes_inv_builtin: "scenes_inv builtin_scenes"
  by (simp add: scenes_inv_def builtin_scenes_def scene_ids_def scene_ok_def MakeBuiltinScene_valid)

interpretation scene_list: invariant_machine scene_step builtin_scenes scenes_inv
proof unfold_locales
  show "scenes_inv builtin_scenes" by (rule scenes_inv_builtin)
  show "scenes_inv (scene_step c e)" if "scenes_inv c" for c e using that by (rule scenes_inv_step)
qed

section \<open>Properties\<close>

text \<open>
  C35: from a well-formed scene list no sequence of additions, updates, removals (forced or not),
  activations and provider clean-ups, failing ones included, ever leaves a duplicate id, an
  invalid or unnormalised definition, a missing built-in scene or an active scene that does not
  exist; the two built-in scenes alone are such a list.
\<close>

theorem scene_edits_keep_invariant:
  "scenes_inv builtin_scenes \<and> (scenes_inv c \<longrightarrow> scenes_inv (foldl scene_step c es))"
  using scenes_inv_builtin scene_list.run_from by blast

definition example_scene :: SceneDefinition where
  "example_scene = default_scene\<lparr>sc_id := ''polish'', sc_timeout_ms := -1,
     sc_llm_max_candidates := 40, sc_provider_id := ''openai'', sc_model := ''gpt''\<rparr>"

theorem scene_edits_keep_invariant_witness:
  "scenes_inv (foldl scene_step builtin_scenes
     [EditAdd example_scene, EditActive ''polish'', EditRemove ''polish'' False,
      EditClear ''openai'', EditRemove ''polish'' True, EditRemove kRawSceneId True])"
  using scene_edits_keep_invariant [of builtin_scenes] by blast

text \<open>
  What a lookup returns after a successful edit. After an addition the new id gives the
  normalised definition; after an update the updated one, with its id and built-in flag kept;
  after a removal nothing; and in all three cases every other id gives what it gave before. An
  addition succeeds exactly when the normalised definition is valid and its id is new.
\<close>

theorem scene_edit_lookup:
  assumes "distinct (scene_ids c)"
  shows "(AddScene c d = Inr c' \<longrightarrow>
            scene_Find c' k = (if k = sc_id d then Some (NormalizeDefinition d) else scene_Find c k))
    \<and> (UpdateScene c i d = Inr c' \<longrightarrow>
            scene_Find c' k =
              (if k = i then map_option (\<lambda>s. updated_scene s d) (scene_Find c i) else scene_Find c k)
            \<and> scene_Find c' i \<noteq> None)
    \<and> (RemoveScene c i force = Inr c' \<longrightarrow>
            scene_Find c' k = (if k = i then None else scene_Find c k))
    \<and> ((\<exists>c'. AddScene c d = Inr c') \<longleftrightarrow>
            sc_id d \<noteq> [] \<and> (sc_provider_id d = [] \<longleftrightarrow> sc_model d = []) \<and> scene_Find c (sc_id d) = None)"
proof (intro conjI impI)
  assume "AddScene c d = Inr c'"
  then have "scene_Find c (sc_id d) = None" "c' = c\<lparr>scenes := scenes c @ [NormalizeDefinition d]\<rparr>"
    by (auto simp: AddScene_def Let_def split: option.splits if_splits)
  then show "scene_Find c' k = (if k = sc_id d then Some (NormalizeDefinition d) else scene_Find c k)"
    by (simp add: scene_Find_def find_append_last split: option.split)
next
  assume "UpdateScene c i d = Inr c'"
  then obtain ss where "update_loop i d (scenes c) = Inr ss" and c': "c' = c\<lparr>scenes := ss\<rparr>"
    by (cases "update_loop i d (scenes c)") (auto simp: UpdateScene_def)
  then show "scene_Find c' k =
        (if k = i then map_option (\<lambda>s. updated_scene s d) (scene_Find c i) else scene_Find c k)"
    and "scene_Find c' i \<noteq> None"
    using update_loop_Inr [of i d "scenes c" ss] by (auto simp: scene_Find_def c')
next
  assume "RemoveScene c i force = Inr c'"
  from RemoveScene_InrD(2) [OF this] show "scene_Find c' k = (if k = i then None else scene_Find c k)"
    using assms erase_first_find [of sc_id "scenes c" k i] by (simp add: scene_Find_def scene_ids_def)
next
  show "(\<exists>c'. AddScene c d = Inr c') \<longleftrightarrow>
      sc_id d \<noteq> [] \<and> (sc_provider_id d = [] \<longleftrightarrow> sc_model d = []) \<and> scene_Find c (sc_id d) = None"
    using ValidateDefinition_normalized [of d]
    by (auto simp: AddScene_def Let_def split: option.splits)
qed

theorem scene_edit_lookup_witness:
  "\<exists>c'. AddScene builtin_scenes example_scene = Inr c'
     \<and> scene_Find c' ''polish'' = Some (NormalizeDefinition example_scene)"
proof -
  have d: "distinct (scene_ids builtin_scenes)" by (simp add: builtin_scenes_def scene_ids_def)
  have n: "sc_id example_scene \<noteq> [] \<and> (sc_provider_id example_scene = [] \<longleftrightarrow> sc_model example_scene = [])
      \<and> scene_Find builtin_scenes (sc_id example_scene) = None"
    by (simp add: example_scene_def builtin_scenes_def scene_Find_def kRawSceneId_def kCommandSceneId_def)
  have "\<exists>c'. AddScene builtin_scenes example_scene = Inr c'"
    using scene_edit_lookup [OF d, of example_scene] n by blast
  then obtain c' where c': "AddScene builtin_scenes example_scene = Inr c'" by blast
  have "scene_Find c' ''polish'' = Some (NormalizeDefinition example_scene)"
    using scene_edit_lookup [OF d, of example_scene c' "''polish''"] c' by (simp add: example_scene_def)
  with c' show ?thesis by blast
qed

end
