(* ===== verification/Core_Config.thy ===== *)
theory Core_Config
  imports Json_Access Scene
begin

text \<open>
  The configuration of the daemon (\<open>common/config/core_config_types.h\<close>), its normalisation
  (\<open>core_config_normalize.cpp\<close>), its validation (\<open>core_config_validate.cpp\<close>), the read-only view
  (\<open>core_config_view.cpp\<close>) and \<open>SetPreferredLocalModel\<close> (\<open>core_config_resolve.cpp\<close>). The nested
  structs are flattened into one record with the prefix \<open>cc_\<close>; a \<open>std::map\<close> is a key-sorted list;
  the bounds of the clamps are the doubles nearest to the decimal literals. The warnings written
  to \<open>std::cerr\<close> are not modelled.
\<close>

section \<open>Data\<close>

record LlmProvider =
  lp_id :: string
  lp_base_url :: string
  lp_api_key :: string
  lp_json_object :: bool
  lp_extra_body :: json

record LlmAdapter =
  la_id :: string
  la_command :: string
  la_args :: "string list"
  la_env :: "string smap"
  la_autoStart :: bool

record ClientSpec =
  cs_id :: string
  cs_command :: string
  cs_args :: "string list"
  cs_env :: "string smap"
  cs_autoStart :: bool

record LocalAsr =
  lo_id :: string
  lo_timeoutMs :: int
  lo_model :: string
  lo_hotwordsFile :: string

record CommandAsr =
  co_id :: string
  co_timeoutMs :: int
  co_command :: string
  co_args :: "string list"
  co_env :: "string smap"

datatype AsrProvider = LocalAsrProvider LocalAsr | CommandAsrProvider CommandAsr

fun AsrProviderId :: "AsrProvider \<Rightarrow> string" where
  "AsrProviderId (LocalAsrProvider p) = lo_id p"
| "AsrProviderId (CommandAsrProvider p) = co_id p"

fun AsrProviderTimeoutMs :: "AsrProvider \<Rightarrow> int" where
  "AsrProviderTimeoutMs (LocalAsrProvider p) = lo_timeoutMs p"
| "AsrProviderTimeoutMs (CommandAsrProvider p) = co_timeoutMs p"

definition kLocalProviderType :: string where "kLocalProviderType = ''local''"
definition kCommandProviderType :: string where "kCommandProviderType = ''command''"

fun AsrProviderType :: "AsrProvider \<Rightarrow> string" where
  "AsrProviderType (LocalAsrProvider p) = kLocalProviderType"
| "AsrProviderType (CommandAsrProvider p) = kCommandProviderType"

fun is_local :: "AsrProvider \<Rightarrow> bool" where
  "is_local (LocalAsrProvider _) = True"
| "is_local (CommandAsrProvider _) = False"

record VadConfig =
  vad_enabled :: bool
  vad_threshold :: fp
  vad_minSpeechDuration :: fp
  vad_minSilenceDuration :: fp
  vad_speechPadMs :: int

record CoreConfig =
  cc_version :: string
  cc_baseUrls :: "string list"
  cc_captureDevice :: string
  cc_duckOutputWhileRecording :: bool
  cc_duckOutputVolume :: fp
  cc_llm_providers :: "LlmProvider list"
  cc_llm_adapters :: "LlmAdapter list"
  cc_activeProvider :: string
  cc_normalizeAudio :: bool
  cc_inputGain :: fp
  cc_vad :: VadConfig
  cc_asr_providers :: "AsrProvider list"
  cc_activeScene :: string
  cc_definitions :: "SceneDefinition list"
  cc_triggers :: "ClientSpec list"
  cc_receivers :: "ClientSpec list"

definition dbl_0_05 :: rat where "dbl_0_05 = 3602879701896397 / 72057594037927936"
definition dbl_0_1 :: rat where "dbl_0_1 = 3602879701896397 / 36028797018963968"
definition dbl_0_35 :: rat where "dbl_0_35 = 3152519739159347 / 9007199254740992"
definition dbl_0_95 :: rat where "dbl_0_95 = 4278419646001971 / 4503599627370496"
definition dbl_1_2 :: rat where "dbl_1_2 = 5404319552844595 / 4503599627370496"

definition default_config :: CoreConfig where
  "default_config =
     \<lparr>cc_version = ''>=2.4.0'', cc_baseUrls = [], cc_captureDevice = [],
      cc_duckOutputWhileRecording = False, cc_duckOutputVolume = Finite (1 / 4),
      cc_llm_providers = [], cc_llm_adapters = [], cc_activeProvider = [],
      cc_normalizeAudio = True, cc_inputGain = Finite 1,
      cc_vad = \<lparr>vad_enabled = True, vad_threshold = Finite dbl_0_35,
                vad_minSpeechDuration = Finite dbl_0_1, vad_minSilenceDuration = Finite dbl_1_2,
                vad_speechPadMs = 500\<rparr>,
      cc_asr_providers = [], cc_activeScene = [], cc_definitions = [], cc_triggers = [],
      cc_receivers = []\<rparr>"

section \<open>The view\<close>

definition strip_slashes :: "string \<Rightarrow> string" where
  "strip_slashes u = rev (dropWhile (\<lambda>c. c = CHR ''/'') (rev u))"

definition ResolveRegistryUrlsForPath :: "CoreConfig \<Rightarrow> string \<Rightarrow> string list" where
  "ResolveRegistryUrlsForPath c suffix =
     keep_first id [] (map (\<lambda>u. strip_slashes u @ ''/'' @ suffix) (filter (\<lambda>u. u \<noteq> []) (cc_baseUrls c)))"

definition find_id :: "('a \<Rightarrow> string) \<Rightarrow> 'a list \<Rightarrow> string \<Rightarrow> 'a option" where
  "find_id key xs i = (if i = [] then None else find (\<lambda>x. key x = i) xs)"

definition view_LlmProvider :: "CoreConfig \<Rightarrow> string \<Rightarrow> LlmProvider option" where
  "view_LlmProvider c i = find_id lp_id (cc_llm_providers c) i"

definition view_LlmAdapter :: "CoreConfig \<Rightarrow> string \<Rightarrow> LlmAdapter option" where
  "view_LlmAdapter c i = find_id la_id (cc_llm_adapters c) i"

definition view_Trigger :: "CoreConfig \<Rightarrow> string \<Rightarrow> ClientSpec option" where
  "view_Trigger c i = find_id cs_id (cc_triggers c) i"

definition view_Receiver :: "CoreConfig \<Rightarrow> string \<Rightarrow> ClientSpec option" where
  "view_Receiver c i = find_id cs_id (cc_receivers c) i"

definition view_AsrProvider :: "CoreConfig \<Rightarrow> string \<Rightarrow> AsrProvider option" where
  "view_AsrProvider c i = find_id AsrProviderId (cc_asr_providers c) i"

definition ActiveAsrProvider :: "CoreConfig \<Rightarrow> AsrProvider option" where
  "ActiveAsrProvider c = view_AsrProvider c (cc_activeProvider c)"

definition ActiveLocalAsrProvider :: "CoreConfig \<Rightarrow> AsrProvider option" where
  "ActiveLocalAsrProvider c =
     (case ActiveAsrProvider c of
        None \<Rightarrow> None
      | Some p \<Rightarrow> if \<not> is_local p then None else Some p)"

definition PreferredLocalAsrProvider :: "CoreConfig \<Rightarrow> AsrProvider option" where
  "PreferredLocalAsrProvider c =
     (case ActiveLocalAsrProvider c of
        Some p \<Rightarrow> Some p
      | None \<Rightarrow> find is_local (cc_asr_providers c))"

fun provider_model :: "AsrProvider \<Rightarrow> string" where
  "provider_model (LocalAsrProvider p) = lo_model p"
| "provider_model (CommandAsrProvider p) = []"

definition PreferredLocalModel :: "CoreConfig \<Rightarrow> string" where
  "PreferredLocalModel c =
     (case PreferredLocalAsrProvider c of None \<Rightarrow> [] | Some p \<Rightarrow> provider_model p)"

definition ModelRegistryUrls :: "CoreConfig \<Rightarrow> string list" where
  "ModelRegistryUrls c = ResolveRegistryUrlsForPath c ''registry/models.json''"

definition AsrProviderRegistryUrls :: "CoreConfig \<Rightarrow> string list" where
  "AsrProviderRegistryUrls c = ResolveRegistryUrlsForPath c ''registry/providers.json''"

definition LlmAdapterRegistryUrls :: "CoreConfig \<Rightarrow> string list" where
  "LlmAdapterRegistryUrls c = ResolveRegistryUrlsForPath c ''registry/adapters.json''"

definition RegistryI18nUrls :: "CoreConfig \<Rightarrow> string \<Rightarrow> string list" where
  "RegistryI18nUrls c locale = ResolveRegistryUrlsForPath c (''i18n/'' @ locale @ ''.json'')"

definition CommandScene :: "CoreConfig \<Rightarrow> SceneDefinition option" where
  "CommandScene c = find (\<lambda>s. sc_id s = kCommandSceneId) (cc_definitions c)"

section \<open>Setting the model of the preferred local provider\<close>

fun set_model_loop :: "string \<Rightarrow> string \<Rightarrow> AsrProvider list \<Rightarrow> AsrProvider list option" where
  "set_model_loop i model [] = None"
| "set_model_loop i model (p # ps) =
     (case p of
        LocalAsrProvider l \<Rightarrow>
          (if lo_id l = i then Some (LocalAsrProvider (l\<lparr>lo_model := model\<rparr>) # ps)
           else map_option (Cons p) (set_model_loop i model ps))
      | CommandAsrProvider _ \<Rightarrow> map_option (Cons p) (set_model_loop i model ps))"

definition SetPreferredLocalModel :: "CoreConfig \<Rightarrow> string \<Rightarrow> string + CoreConfig" where
  "SetPreferredLocalModel c model =
     (case PreferredLocalAsrProvider c of
        None \<Rightarrow> Inl ''No local ASR provider configured.''
      | Some p \<Rightarrow>
          (case set_model_loop (AsrProviderId p) model (cc_asr_providers c) of
             Some ps \<Rightarrow> Inr (c\<lparr>cc_asr_providers := ps\<rparr>)
           | None \<Rightarrow> Inl ''Local ASR provider not found.''))"

section \<open>Normalisation\<close>

definition EraseEmptyEnvKeys :: "string smap \<Rightarrow> string smap" where
  "EraseEmptyEnvKeys env = filter (\<lambda>(k, _). k \<noteq> []) env"

definition normalize_vad :: "VadConfig \<Rightarrow> VadConfig" where
  "normalize_vad v =
     v\<lparr>vad_threshold := fp_clamp (vad_threshold v) (Finite dbl_0_05) (Finite dbl_0_95),
       vad_minSpeechDuration := fp_clamp (vad_minSpeechDuration v) (Finite dbl_0_05) (Finite 2),
       vad_minSilenceDuration := fp_clamp (vad_minSilenceDuration v) (Finite dbl_0_05) (Finite 5),
       vad_speechPadMs := (if vad_speechPadMs v < 0 then 0
                           else if 2000 < vad_speechPadMs v then 2000 else vad_speechPadMs v)\<rparr>"

definition normalize_urls :: "string list \<Rightarrow> string list" where
  "normalize_urls us = keep_first id [] (filter (\<lambda>u. u \<noteq> []) us)"

definition normalize_llm_providers :: "LlmProvider list \<Rightarrow> LlmProvider list" where
  "normalize_llm_providers ps = keep_first lp_id [] (filter (\<lambda>p. lp_id p \<noteq> []) ps)"

definition erase_adapter_env :: "LlmAdapter \<Rightarrow> LlmAdapter" where
  "erase_adapter_env a = a\<lparr>la_env := EraseEmptyEnvKeys (la_env a)\<rparr>"

definition normalize_llm_adapters :: "LlmAdapter list \<Rightarrow> LlmAdapter list" where
  "normalize_llm_adapters as =
     map erase_adapter_env (keep_first la_id [] (filter (\<lambda>a. la_id a \<noteq> []) as))"

definition erase_client_env :: "ClientSpec \<Rightarrow> ClientSpec" where
  "erase_client_env a = a\<lparr>cs_env := EraseEmptyEnvKeys (cs_env a)\<rparr>"

text \<open>\<open>client_ids\<close> is shared by the two calls; the ids that a call adds are those it keeps.\<close>

definition normalize_clients ::
    "string list \<Rightarrow> ClientSpec list \<Rightarrow> string list \<times> ClientSpec list" where
  "normalize_clients client_ids cs =
     (let kept = keep_first cs_id client_ids (filter (\<lambda>a. cs_id a \<noteq> []) cs)
      in (map cs_id kept @ client_ids, map erase_client_env kept))"

fun has_command :: "AsrProvider \<Rightarrow> bool" where
  "has_command (LocalAsrProvider _) = True"
| "has_command (CommandAsrProvider p) = (co_command p \<noteq> [])"

fun erase_provider_env :: "AsrProvider \<Rightarrow> AsrProvider" where
  "erase_provider_env (LocalAsrProvider p) = LocalAsrProvider p"
| "erase_provider_env (CommandAsrProvider p) =
     CommandAsrProvider (p\<lparr>co_env := EraseEmptyEnvKeys (co_env p)\<rparr>)"

text \<open>A command provider with an empty command is dropped only after its id has been recorded.\<close>

definition normalize_asr_providers :: "AsrProvider list \<Rightarrow> AsrProvider list" where
  "normalize_asr_providers ps =
     map erase_provider_env
       (filter has_command (keep_first AsrProviderId [] (filter (\<lambda>p. AsrProviderId p \<noteq> []) ps)))"

definition normalize_scene :: "SceneDefinition \<Rightarrow> SceneDefinition" where
  "normalize_scene s0 =
     (let s = NormalizeDefinition s0 in
      if sc_id s = kCommandSceneId
         \<and> (sc_prompt s = [] \<or> sc_prompt s = kLegacyCommandPrompt \<or> sc_prompt s = kShortTagCommandPrompt)
      then s\<lparr>sc_prompt := kDefaultCommandPrompt\<rparr> else s)"

definition add_builtin :: "string \<Rightarrow> SceneDefinition list \<Rightarrow> SceneDefinition list" where
  "add_builtin i ss = (if i \<in> set (map sc_id ss) then ss else ss @ [MakeBuiltinScene i])"

definition normalize_scenes :: "SceneDefinition list \<Rightarrow> SceneDefinition list" where
  "normalize_scenes ss =
     add_builtin kCommandSceneId (add_builtin kRawSceneId
       (keep_first sc_id []
          (filter (\<lambda>s. ValidateDefinition s True = None) (map normalize_scene ss))))"

definition NormalizeCoreConfig :: "CoreConfig \<Rightarrow> CoreConfig" where
  "NormalizeCoreConfig c =
     (let (ids1, triggers) = normalize_clients [] (cc_triggers c);
          (ids2, receivers) = normalize_clients ids1 (cc_receivers c);
          c1 = c\<lparr>cc_inputGain := fp_clamp (cc_inputGain c) (Finite dbl_0_1) (Finite 10),
                 cc_duckOutputVolume := fp_clamp (cc_duckOutputVolume c) (Finite 0) (Finite 1),
                 cc_vad := normalize_vad (cc_vad c),
                 cc_baseUrls := normalize_urls (cc_baseUrls c),
                 cc_llm_providers := normalize_llm_providers (cc_llm_providers c),
                 cc_llm_adapters := normalize_llm_adapters (cc_llm_adapters c),
                 cc_triggers := triggers,
                 cc_receivers := receivers,
                 cc_asr_providers := normalize_asr_providers (cc_asr_providers c),
                 cc_definitions := normalize_scenes (cc_definitions c)\<rparr>;
          c2 = (if cc_activeProvider c1 \<noteq> [] \<and> view_AsrProvider c1 (cc_activeProvider c1) = None
                then c1\<lparr>cc_activeProvider := []\<rparr> else c1)
      in if cc_activeScene c2 \<noteq> []
            \<and> scene_Find \<lparr>activeSceneId = cc_activeScene c2, scenes = cc_definitions c2\<rparr>
                (cc_activeScene c2) = None
         then c2\<lparr>cc_activeScene := []\<rparr> else c2)"

section \<open>Validation\<close>

fun CheckUniqueId :: "('a \<Rightarrow> string) \<Rightarrow> string \<Rightarrow> string list \<Rightarrow> 'a list \<Rightarrow> string option" where
  "CheckUniqueId key label seen [] = None"
| "CheckUniqueId key label seen (x # xs) =
     (if key x = [] then Some (label @ '' id must not be empty.'')
      else if key x \<in> set seen then
        Some (''Duplicate '' @ label @ '' id '' @ [CHR 0x27] @ key x @ [CHR 0x27] @ ''.'')
      else CheckUniqueId key label (key x # seen) xs)"

fun check_asr_providers :: "string list \<Rightarrow> AsrProvider list \<Rightarrow> string option" where
  "check_asr_providers seen [] = None"
| "check_asr_providers seen (p # ps) =
     (let i = AsrProviderId p in
      if i = [] then Some ''ASR provider id must not be empty.''
      else if i \<in> set seen then
        Some (''Duplicate ASR provider id '' @ [CHR 0x27] @ i @ [CHR 0x27] @ ''.'')
      else if \<not> has_command p then
        Some (''Command ASR provider '' @ [CHR 0x27] @ i @ [CHR 0x27] @ '' must not have an empty command.'')
      else check_asr_providers (i # seen) ps)"

fun check_scenes :: "string list \<Rightarrow> SceneDefinition list \<Rightarrow> string option" where
  "check_scenes seen [] = None"
| "check_scenes seen (s # ss) =
     (case ValidateDefinition s True of
        Some e \<Rightarrow> Some (''Invalid scene '' @ [CHR 0x27] @ sc_id s @ [CHR 0x27] @ '': '' @ e)
      | None \<Rightarrow>
          if sc_id s \<in> set seen then
            Some (''Duplicate scene id '' @ [CHR 0x27] @ sc_id s @ [CHR 0x27] @ ''.'')
          else check_scenes (sc_id s # seen) ss)"

definition check_active_provider :: "CoreConfig \<Rightarrow> string option" where
  "check_active_provider c =
     (if cc_activeProvider c \<noteq> [] \<and> view_AsrProvider c (cc_activeProvider c) = None
      then Some (''Active ASR provider '' @ [CHR 0x27] @ cc_activeProvider c @ [CHR 0x27] @ '' does not exist.'')
      else None)"

definition check_builtins :: "CoreConfig \<Rightarrow> string option" where
  "check_builtins c =
     (if kRawSceneId \<notin> set (map sc_id (cc_definitions c)) then
        Some (''Builtin scene '' @ [CHR 0x27] @ ''__raw__'' @ [CHR 0x27] @ '' is required.'')
      else if kCommandSceneId \<notin> set (map sc_id (cc_definitions c)) then
        Some (''Builtin scene '' @ [CHR 0x27] @ ''__command__'' @ [CHR 0x27] @ '' is required.'')
      else None)"

definition check_active_scene :: "CoreConfig \<Rightarrow> string option" where
  "check_active_scene c =
     (if cc_activeScene c \<noteq> []
         \<and> scene_Find \<lparr>activeSceneId = cc_activeScene c, scenes = cc_definitions c\<rparr>
             (cc_activeScene c) = None
      then Some (''Active scene '' @ [CHR 0x27] @ cc_activeScene c @ [CHR 0x27] @ '' does not exist.'')
      else None)"

text \<open>The error of the first check that fails.\<close>

fun first_error :: "string option list \<Rightarrow> string option" where
  "first_error [] = None"
| "first_error (None # es) = first_error es"
| "first_error (Some e # es) = Some e"

definition ValidateCoreConfig :: "CoreConfig \<Rightarrow> string option" where
  "ValidateCoreConfig c = first_error
     [CheckUniqueId lp_id ''LLM provider'' [] (cc_llm_providers c),
      CheckUniqueId la_id ''LLM adapter'' [] (cc_llm_adapters c),
      check_asr_providers [] (cc_asr_providers c),
      check_active_provider c,
      check_scenes [] (cc_definitions c),
      check_builtins c,
      check_active_scene c]"

section \<open>What the checks accept\<close>

lemma first_error_None [simp]: "first_error es = None \<longleftrightarrow> (\<forall>e\<in>set es. e = None)"
  by (induction es rule: first_error.induct) auto

lemma CheckUniqueId_None:
  "CheckUniqueId key label seen xs = None \<longleftrightarrow>
     list_all (\<lambda>x. key x \<noteq> []) xs \<and> distinct (map key xs) \<and> set seen \<inter> set (map key xs) = {}"
  by (induction xs arbitrary: seen) auto

lemma check_asr_providers_None:
  "check_asr_providers seen ps = None \<longleftrightarrow>
     list_all (\<lambda>p. AsrProviderId p \<noteq> []) ps \<and> list_all has_command ps
     \<and> distinct (map AsrProviderId ps) \<and> set seen \<inter> set (map AsrProviderId ps) = {}"
  by (induction ps arbitrary: seen) (auto simp: Let_def)

lemma check_scenes_None:
  "check_scenes seen ss = None \<longleftrightarrow>
     list_all (\<lambda>s. ValidateDefinition s True = None) ss
     \<and> distinct (map sc_id ss) \<and> set seen \<inter> set (map sc_id ss) = {}"
  by (induction ss arbitrary: seen) (auto split: option.splits)

lemma find_id_None: "i \<noteq> [] \<Longrightarrow> find_id key xs i = None \<longleftrightarrow> i \<notin> set (map key xs)"
  by (auto simp: find_id_def find_None_iff_all)

lemma check_active_provider_None:
  "check_active_provider c = None \<longleftrightarrow>
     cc_activeProvider c = [] \<or> cc_activeProvider c \<in> set (map AsrProviderId (cc_asr_providers c))"
  using find_id_None [of "cc_activeProvider c" AsrProviderId "cc_asr_providers c"]
  by (cases "cc_activeProvider c = []") (simp_all add: check_active_provider_def view_AsrProvider_def)

lemma check_builtins_None:
  "check_builtins c = None \<longleftrightarrow>
     kRawSceneId \<in> set (map sc_id (cc_definitions c)) \<and> kCommandSceneId \<in> set (map sc_id (cc_definitions c))"
  by (simp add: check_builtins_def)

lemma check_active_scene_None:
  "check_active_scene c = None \<longleftrightarrow>
     cc_activeScene c = [] \<or> cc_activeScene c \<in> set (map sc_id (cc_definitions c))"
  by (auto simp: check_active_scene_def scene_Find_None scene_ids_def)

lemma ValidateCoreConfig_None:
  "ValidateCoreConfig c = None \<longleftrightarrow>
     list_all (\<lambda>p. lp_id p \<noteq> []) (cc_llm_providers c) \<and> distinct (map lp_id (cc_llm_providers c))
     \<and> list_all (\<lambda>a. la_id a \<noteq> []) (cc_llm_adapters c) \<and> distinct (map la_id (cc_llm_adapters c))
     \<and> list_all (\<lambda>p. AsrProviderId p \<noteq> []) (cc_asr_providers c) \<and> list_all has_command (cc_asr_providers c)
     \<and> distinct (map AsrProviderId (cc_asr_providers c))
     \<and> (cc_activeProvider c = [] \<or> cc_activeProvider c \<in> set (map AsrProviderId (cc_asr_providers c)))
     \<and> list_all (\<lambda>s. ValidateDefinition s True = None) (cc_definitions c)
     \<and> distinct (map sc_id (cc_definitions c))
     \<and> kRawSceneId \<in> set (map sc_id (cc_definitions c)) \<and> kCommandSceneId \<in> set (map sc_id (cc_definitions c))
     \<and> (cc_activeScene c = [] \<or> cc_activeScene c \<in> set (map sc_id (cc_definitions c)))"
  by (simp add: ValidateCoreConfig_def CheckUniqueId_None check_asr_providers_None check_scenes_None
      check_active_provider_None check_builtins_None check_active_scene_None del: set_map)

section \<open>What normalisation establishes\<close>

lemma keep_first_all: "list_all P xs \<Longrightarrow> list_all P (keep_first key seen xs)"
  by (auto simp: list_all_iff dest: keep_first_memD)

lemma keep_first_filter_all: "list_all P (keep_first key seen (filter P xs))"
  by (rule keep_first_all) (simp add: list_all_iff)

lemma EraseEmptyEnvKeys_idem [simp]: "EraseEmptyEnvKeys (EraseEmptyEnvKeys e) = EraseEmptyEnvKeys e"
  by (simp add: EraseEmptyEnvKeys_def)

lemma erase_env_ids [simp]:
  "la_id (erase_adapter_env a) = la_id a"
  "cs_id (erase_client_env c) = cs_id c"
  "AsrProviderId (erase_provider_env p) = AsrProviderId p"
  "has_command (erase_provider_env p) = has_command p"
  "is_local (erase_provider_env p) = is_local p"
  by (simp_all add: erase_adapter_env_def erase_client_env_def) (cases p; simp)+

lemma erase_env_idem [simp]:
  "erase_adapter_env (erase_adapter_env a) = erase_adapter_env a"
  "erase_client_env (erase_client_env c) = erase_client_env c"
  "erase_provider_env (erase_provider_env p) = erase_provider_env p"
  by (simp_all add: erase_adapter_env_def erase_client_env_def) (cases p; simp)

text \<open>
  A list that a normalisation loop has produced: no empty key, no duplicate key, and each entry
  as the clean-up \<open>g\<close> of an entry leaves it. Such a list passes through the loop unchanged.
\<close>

lemma map_ident: "(\<And>x. x \<in> set xs \<Longrightarrow> g x = x) \<Longrightarrow> map g xs = xs"
  by (induction xs) auto

lemma loop_fixpoint:
  assumes "list_all (\<lambda>x. key x \<noteq> []) xs" and "distinct (map key xs)"
    and "set seen \<inter> set (map key xs) = {}"
  shows "keep_first key seen (filter (\<lambda>x. key x \<noteq> []) xs) = xs"
proof -
  have "filter (\<lambda>x. key x \<noteq> []) xs = xs" using assms(1) by (simp add: list_all_iff filter_id_conv)
  then show ?thesis using assms by (simp add: keep_first_ident)
qed

lemma normalize_llm_providers_wf:
  "list_all (\<lambda>p. lp_id p \<noteq> []) (normalize_llm_providers ps) \<and> distinct (map lp_id (normalize_llm_providers ps))"
  by (simp add: normalize_llm_providers_def keep_first_filter_all keep_first_distinct)

lemma normalize_llm_adapters_wf:
  "list_all (\<lambda>p. la_id p \<noteq> []) (normalize_llm_adapters ps) \<and> distinct (map la_id (normalize_llm_adapters ps))"
  using keep_first_filter_all [of "\<lambda>p. la_id p \<noteq> []" la_id "[]" ps]
  by (simp add: normalize_llm_adapters_def list.pred_map comp_def keep_first_distinct)

lemma normalize_asr_providers_wf:
  "list_all (\<lambda>p. AsrProviderId p \<noteq> []) (normalize_asr_providers ps)
   \<and> list_all has_command (normalize_asr_providers ps)
   \<and> distinct (map AsrProviderId (normalize_asr_providers ps))
   \<and> map erase_provider_env (normalize_asr_providers ps) = normalize_asr_providers ps"
proof -
  define kept where "kept = keep_first AsrProviderId [] (filter (\<lambda>p. AsrProviderId p \<noteq> []) ps)"
  have "list_all (\<lambda>p. AsrProviderId p \<noteq> []) kept"
    unfolding kept_def by (rule keep_first_filter_all)
  then have "list_all (\<lambda>p. AsrProviderId p \<noteq> []) (filter has_command kept)"
    by (simp add: list_all_iff)
  moreover have "list_all has_command (filter has_command kept)" by (simp add: list_all_iff)
  moreover have "distinct (map AsrProviderId (filter has_command kept))"
    unfolding kept_def by (rule distinct_map_filter) (rule keep_first_distinct)
  moreover have "normalize_asr_providers ps = map erase_provider_env (filter has_command kept)"
    by (simp add: normalize_asr_providers_def kept_def)
  ultimately show ?thesis by (simp add: list.pred_map comp_def)
qed

lemma normalize_clients_wf:
  assumes "normalize_clients ids cs = (ids', out)"
  shows "list_all (\<lambda>p. cs_id p \<noteq> []) out" "distinct (map cs_id out)" "ids' = map cs_id out @ ids"
    "set ids \<inter> set (map cs_id out) = {}" "map erase_client_env out = out"
proof -
  let ?kept = "keep_first cs_id ids (filter (\<lambda>p. cs_id p \<noteq> []) cs)"
  have out: "out = map erase_client_env ?kept" and ids: "ids' = map cs_id ?kept @ ids"
    using assms by (simp_all add: normalize_clients_def Let_def)
  show "list_all (\<lambda>p. cs_id p \<noteq> []) out"
    using keep_first_filter_all [of "\<lambda>p. cs_id p \<noteq> []" cs_id ids cs]
    by (simp add: out list.pred_map comp_def)
  show "distinct (map cs_id out)" by (simp add: out comp_def keep_first_distinct)
  show "ids' = map cs_id out @ ids" by (simp add: out ids comp_def)
  show "set ids \<inter> set (map cs_id out) = {}"
    using keep_first_key_set [of cs_id ids "filter (\<lambda>p. cs_id p \<noteq> []) cs"]
    by (auto simp: out image_image)
  show "map erase_client_env out = out" by (simp add: out comp_def)
qed

lemma normalize_scene_id [simp]: "sc_id (normalize_scene s) = sc_id s"
  by (simp add: normalize_scene_def Let_def)

lemma normalize_scene_idem [simp]: "normalize_scene (normalize_scene s) = normalize_scene s"
  by (auto simp: normalize_scene_def Let_def NormalizeDefinition_prompt)

lemma prompt_update_same: "sc_prompt s = p \<Longrightarrow> s\<lparr>sc_prompt := p\<rparr> = s"
  by (cases s) simp

lemma normalize_scene_builtin [simp]: "normalize_scene (MakeBuiltinScene i) = MakeBuiltinScene i"
  by (simp add: normalize_scene_def Let_def prompt_update_same)

lemma add_builtin_wf:
  assumes "list_all (\<lambda>s. ValidateDefinition s True = None) ss" "distinct (map sc_id ss)"
    "map normalize_scene ss = ss" "i \<noteq> []"
  shows "list_all (\<lambda>s. ValidateDefinition s True = None) (add_builtin i ss)"
    "distinct (map sc_id (add_builtin i ss))"
    "map normalize_scene (add_builtin i ss) = add_builtin i ss"
    "set (map sc_id (add_builtin i ss)) = insert i (set (map sc_id ss))"
  using assms by (auto simp: add_builtin_def MakeBuiltinScene_valid)

lemma normalize_scenes_wf:
  "list_all (\<lambda>s. ValidateDefinition s True = None) (normalize_scenes ss)
   \<and> distinct (map sc_id (normalize_scenes ss))
   \<and> map normalize_scene (normalize_scenes ss) = normalize_scenes ss
   \<and> kRawSceneId \<in> set (map sc_id (normalize_scenes ss))
   \<and> kCommandSceneId \<in> set (map sc_id (normalize_scenes ss))"
proof -
  define kept where "kept = keep_first sc_id []
    (filter (\<lambda>s. ValidateDefinition s True = None) (map normalize_scene ss))"
  have k1: "list_all (\<lambda>s. ValidateDefinition s True = None) kept"
    unfolding kept_def by (rule keep_first_filter_all)
  have k2: "distinct (map sc_id kept)" unfolding kept_def by (rule keep_first_distinct)
  have k3: "map normalize_scene kept = kept"
    unfolding kept_def by (rule map_ident, drule keep_first_memD) auto
  note raw = add_builtin_wf [OF k1 k2 k3 builtin_ids_distinct(1)]
  note cmd = add_builtin_wf [OF raw(1,2,3) builtin_ids_distinct(2)]
  have n: "normalize_scenes ss = add_builtin kCommandSceneId (add_builtin kRawSceneId kept)"
    by (simp add: normalize_scenes_def kept_def)
  show ?thesis using cmd raw(4) by (simp add: n)
qed

lemma normalize_scenes_fixpoint:
  assumes "list_all (\<lambda>s. ValidateDefinition s True = None) ss" "distinct (map sc_id ss)"
    "map normalize_scene ss = ss" "kRawSceneId \<in> set (map sc_id ss)" "kCommandSceneId \<in> set (map sc_id ss)"
  shows "normalize_scenes ss = ss"
proof -
  have "filter (\<lambda>s. ValidateDefinition s True = None) ss = ss"
    using assms(1) by (simp add: list_all_iff filter_id_conv)
  then show ?thesis using assms
    by (simp add: normalize_scenes_def add_builtin_def keep_first_ident del: set_map)
qed

lemma normalize_scene_valid:
  assumes "ValidateDefinition s True = None"
  shows "ValidateDefinition (normalize_scene s) True = None"
proof -
  from assms have "sc_id s \<noteq> []" "sc_provider_id s = [] \<longleftrightarrow> sc_model s = []"
    by (auto simp: ValidateDefinition_def HasProvider_def HasModel_def split: if_splits)
  then have n: "ValidateDefinition (NormalizeDefinition s) True = None"
    by (simp add: ValidateDefinition_normalized)
  have "ValidateDefinition (t\<lparr>sc_prompt := p\<rparr>) True = ValidateDefinition t True" for t p
    by (simp add: ValidateDefinition_def HasProvider_def HasModel_def)
  with n show ?thesis by (simp add: normalize_scene_def Let_def)
qed

lemma normalize_scenes_ids:
  assumes "list_all (\<lambda>s. ValidateDefinition s True = None) ss" "distinct (map sc_id ss)"
    "kRawSceneId \<in> set (map sc_id ss)" "kCommandSceneId \<in> set (map sc_id ss)"
  shows "map sc_id (normalize_scenes ss) = map sc_id ss"
proof -
  define ns where "ns = map normalize_scene ss"
  have ids: "map sc_id ns = map sc_id ss" by (simp add: ns_def comp_def)
  have "filter (\<lambda>s. ValidateDefinition s True = None) ns = ns"
    using assms(1) by (auto simp: ns_def filter_id_conv list_all_iff normalize_scene_valid)
  then show ?thesis using assms(2-4) keep_first_ident [of sc_id ns "[]"]
    by (simp add: normalize_scenes_def add_builtin_def ns_def [symmetric] ids del: set_map)
qed

lemma NormalizeCoreConfig_sel [simp]:
  "cc_version (NormalizeCoreConfig c) = cc_version c"
  "cc_inputGain (NormalizeCoreConfig c) = fp_clamp (cc_inputGain c) (Finite dbl_0_1) (Finite 10)"
  "cc_duckOutputVolume (NormalizeCoreConfig c) = fp_clamp (cc_duckOutputVolume c) (Finite 0) (Finite 1)"
  "cc_vad (NormalizeCoreConfig c) = normalize_vad (cc_vad c)"
  "cc_baseUrls (NormalizeCoreConfig c) = normalize_urls (cc_baseUrls c)"
  "cc_llm_providers (NormalizeCoreConfig c) = normalize_llm_providers (cc_llm_providers c)"
  "cc_llm_adapters (NormalizeCoreConfig c) = normalize_llm_adapters (cc_llm_adapters c)"
  "cc_triggers (NormalizeCoreConfig c) = snd (normalize_clients [] (cc_triggers c))"
  "cc_receivers (NormalizeCoreConfig c) =
     snd (normalize_clients (fst (normalize_clients [] (cc_triggers c))) (cc_receivers c))"
  "cc_asr_providers (NormalizeCoreConfig c) = normalize_asr_providers (cc_asr_providers c)"
  "cc_definitions (NormalizeCoreConfig c) = normalize_scenes (cc_definitions c)"
  "cc_captureDevice (NormalizeCoreConfig c) = cc_captureDevice c"
  "cc_duckOutputWhileRecording (NormalizeCoreConfig c) = cc_duckOutputWhileRecording c"
  "cc_normalizeAudio (NormalizeCoreConfig c) = cc_normalizeAudio c"
  by (simp_all add: NormalizeCoreConfig_def Let_def split: prod.split)

lemma NormalizeCoreConfig_active:
  "cc_activeProvider (NormalizeCoreConfig c) =
     (if cc_activeProvider c \<in> set (map AsrProviderId (normalize_asr_providers (cc_asr_providers c)))
      then cc_activeProvider c else [])"
  "cc_activeScene (NormalizeCoreConfig c) =
     (if cc_activeScene c \<in> set (map sc_id (normalize_scenes (cc_definitions c)))
      then cc_activeScene c else [])"
  using find_id_None [of "cc_activeProvider c" AsrProviderId "normalize_asr_providers (cc_asr_providers c)"]
  by (cases "cc_activeProvider c = []"; cases "cc_activeScene c = []",
      auto simp: NormalizeCoreConfig_def Let_def view_AsrProvider_def scene_Find_None scene_ids_def
      split: prod.split simp del: set_map)+

section \<open>Properties\<close>

lemma normalized_accepted: "ValidateCoreConfig (NormalizeCoreConfig c) = None"
  using normalize_llm_providers_wf normalize_llm_adapters_wf normalize_asr_providers_wf
    normalize_scenes_wf
  by (simp add: ValidateCoreConfig_None NormalizeCoreConfig_active del: set_map)

text \<open>
  C7: whatever configuration is read, normalising it gives one that validation accepts: ids of
  providers, adapters and scenes are present and unique, command providers have a command, the
  built-in scenes exist, and the active provider and the active scene exist or are empty.
\<close>

theorem NormalizeCoreConfig_valid: "ValidateCoreConfig (NormalizeCoreConfig c) = None"
  by (rule normalized_accepted)

lemma dbl_order [simp]:
  "dbl_0_05 \<le> dbl_0_95" "dbl_0_05 \<le> 2" "dbl_0_05 \<le> 5" "dbl_0_1 \<le> 10"
  by (simp_all add: dbl_0_05_def dbl_0_95_def dbl_0_1_def)

lemma normalize_vad_idem [simp]: "normalize_vad (normalize_vad v) = normalize_vad v"
  by (cases v) (simp add: normalize_vad_def)

lemma normalize_urls_idem [simp]: "normalize_urls (normalize_urls us) = normalize_urls us"
proof -
  have "filter (\<lambda>u. u \<noteq> []) (normalize_urls us) = normalize_urls us"
    by (auto simp: normalize_urls_def filter_id_conv dest: keep_first_memD)
  then show ?thesis by (simp add: normalize_urls_def key_simps)
qed

lemma normalize_llm_providers_idem [simp]:
  "normalize_llm_providers (normalize_llm_providers ps) = normalize_llm_providers ps"
  using normalize_llm_providers_wf [of ps] loop_fixpoint [of lp_id "normalize_llm_providers ps" "[]"]
  by (simp add: normalize_llm_providers_def)

lemma normalize_llm_adapters_idem [simp]:
  "normalize_llm_adapters (normalize_llm_adapters ps) = normalize_llm_adapters ps"
proof -
  have "map erase_adapter_env (normalize_llm_adapters ps) = normalize_llm_adapters ps"
    by (simp add: normalize_llm_adapters_def comp_def)
  then show ?thesis
    using normalize_llm_adapters_wf [of ps] loop_fixpoint [of la_id "normalize_llm_adapters ps" "[]"]
    by (simp add: normalize_llm_adapters_def [of "normalize_llm_adapters ps"])
qed

lemma normalize_asr_providers_idem [simp]:
  "normalize_asr_providers (normalize_asr_providers ps) = normalize_asr_providers ps"
proof -
  note wf = normalize_asr_providers_wf [of ps]
  have "filter has_command (normalize_asr_providers ps) = normalize_asr_providers ps"
    using wf by (simp add: list_all_iff filter_id_conv)
  then show ?thesis
    using wf loop_fixpoint [of AsrProviderId "normalize_asr_providers ps" "[]"]
    by (simp add: normalize_asr_providers_def [of "normalize_asr_providers ps"])
qed

lemma normalize_clients_fixpoint:
  assumes "list_all (\<lambda>p. cs_id p \<noteq> []) cs" "distinct (map cs_id cs)"
    "set ids \<inter> set (map cs_id cs) = {}" "map erase_client_env cs = cs"
  shows "normalize_clients ids cs = (map cs_id cs @ ids, cs)"
  using assms loop_fixpoint [OF assms(1-3)] by (simp add: normalize_clients_def)

lemma normalize_clients_idem:
  assumes "normalize_clients ids cs = (ids', out)"
  shows "normalize_clients ids out = (ids', out)"
  using normalize_clients_wf [OF assms] normalize_clients_fixpoint [of out ids] by simp

lemma normalize_scenes_idem [simp]: "normalize_scenes (normalize_scenes ss) = normalize_scenes ss"
  using normalize_scenes_wf [of ss] normalize_scenes_fixpoint [of "normalize_scenes ss"] by blast

text \<open>
  Normalisation is idempotent: a configuration that has been normalised once, saved and read
  again is not changed by normalising it a second time.
\<close>

theorem NormalizeCoreConfig_idem: "NormalizeCoreConfig (NormalizeCoreConfig c) = NormalizeCoreConfig c"
proof -
  obtain ids1 ts where t: "normalize_clients [] (cc_triggers c) = (ids1, ts)" by fastforce
  obtain ids2 rs where r: "normalize_clients ids1 (cc_receivers c) = (ids2, rs)" by fastforce
  show ?thesis
    by (rule CoreConfig.equality)
       (simp_all add: NormalizeCoreConfig_active t r normalize_clients_idem [OF t]
         normalize_clients_idem [OF r] del: set_map)
qed

text \<open>
  On a configuration that is valid already, normalisation keeps the user's choices: every ASR
  provider, LLM provider and adapter id and every scene id in order, and the active provider and
  scene.
\<close>

theorem NormalizeCoreConfig_keeps_valid:
  assumes "ValidateCoreConfig c = None"
  shows "map AsrProviderId (cc_asr_providers (NormalizeCoreConfig c)) = map AsrProviderId (cc_asr_providers c)
    \<and> cc_llm_providers (NormalizeCoreConfig c) = cc_llm_providers c
    \<and> map la_id (cc_llm_adapters (NormalizeCoreConfig c)) = map la_id (cc_llm_adapters c)
    \<and> map sc_id (cc_definitions (NormalizeCoreConfig c)) = map sc_id (cc_definitions c)
    \<and> cc_activeProvider (NormalizeCoreConfig c) = cc_activeProvider c
    \<and> cc_activeScene (NormalizeCoreConfig c) = cc_activeScene c"
proof -
  note v = assms [unfolded ValidateCoreConfig_None]
  have asr: "map AsrProviderId (normalize_asr_providers (cc_asr_providers c)) = map AsrProviderId (cc_asr_providers c)"
  proof -
    have "filter has_command (cc_asr_providers c) = cc_asr_providers c"
      using v by (simp add: list_all_iff filter_id_conv)
    then show ?thesis using v loop_fixpoint [of AsrProviderId "cc_asr_providers c" "[]"]
      by (simp add: normalize_asr_providers_def comp_def)
  qed
  have llm: "normalize_llm_providers (cc_llm_providers c) = cc_llm_providers c"
    using v loop_fixpoint [of lp_id "cc_llm_providers c" "[]"] by (simp add: normalize_llm_providers_def)
  have ada: "map la_id (normalize_llm_adapters (cc_llm_adapters c)) = map la_id (cc_llm_adapters c)"
    using v loop_fixpoint [of la_id "cc_llm_adapters c" "[]"]
    by (simp add: normalize_llm_adapters_def comp_def)
  have sce: "map sc_id (normalize_scenes (cc_definitions c)) = map sc_id (cc_definitions c)"
    using v by (intro normalize_scenes_ids) simp_all
  show ?thesis using v by (auto simp: NormalizeCoreConfig_active asr llm ada sce simp del: set_map)
qed

definition example_config :: CoreConfig where
  "example_config = default_config
     \<lparr>cc_asr_providers :=
        [CommandAsrProvider \<lparr>co_id = ''cloud'', co_timeoutMs = 5000, co_command = ''asr'', co_args = [], co_env = [([], ''x'')]\<rparr>,
         LocalAsrProvider \<lparr>lo_id = ''sherpa'', lo_timeoutMs = 0, lo_model = ''paraformer'', lo_hotwordsFile = []\<rparr>],
      cc_activeProvider := ''cloud'',
      cc_definitions := [MakeBuiltinScene kRawSceneId, MakeBuiltinScene kCommandSceneId],
      cc_activeScene := kRawSceneId\<rparr>"

lemma example_config_valid: "ValidateCoreConfig example_config = None"
  by (simp add: ValidateCoreConfig_None example_config_def default_config_def MakeBuiltinScene_valid)

theorem NormalizeCoreConfig_keeps_valid_witness:
  "cc_activeProvider (NormalizeCoreConfig example_config) = ''cloud''"
  using NormalizeCoreConfig_keeps_valid [OF example_config_valid] by (simp add: example_config_def)

definition in_range_or_nan :: "rat \<Rightarrow> rat \<Rightarrow> fp \<Rightarrow> bool" where
  "in_range_or_nan lo hi v = (case v of Finite x \<Rightarrow> lo \<le> x \<and> x \<le> hi | NaN \<Rightarrow> True | _ \<Rightarrow> False)"

lemma fp_clamp_range:
  "lo \<le> hi \<Longrightarrow> in_range_or_nan lo hi (fp_clamp v (Finite lo) (Finite hi))
    \<and> (fp_clamp v (Finite lo) (Finite hi) = NaN \<longleftrightarrow> v = NaN)"
  by (cases v) (auto simp: fp_clamp_def in_range_or_nan_def)

text \<open>
  After normalisation every audio knob lies in its documented range. \<open>std::clamp\<close> lets a NaN
  through, and only a NaN that was there before.
\<close>

theorem NormalizeCoreConfig_ranges:
  "let n = NormalizeCoreConfig c; v = cc_vad n in
     in_range_or_nan dbl_0_1 10 (cc_inputGain n) \<and> (cc_inputGain n = NaN \<longleftrightarrow> cc_inputGain c = NaN)
     \<and> in_range_or_nan 0 1 (cc_duckOutputVolume n)
     \<and> (cc_duckOutputVolume n = NaN \<longleftrightarrow> cc_duckOutputVolume c = NaN)
     \<and> in_range_or_nan dbl_0_05 dbl_0_95 (vad_threshold v)
     \<and> in_range_or_nan dbl_0_05 2 (vad_minSpeechDuration v)
     \<and> in_range_or_nan dbl_0_05 5 (vad_minSilenceDuration v)
     \<and> 0 \<le> vad_speechPadMs v \<and> vad_speechPadMs v \<le> 2000"
  by (simp add: Let_def fp_clamp_range normalize_vad_def)

text \<open>A test of providers that does not look at the model.\<close>

definition model_blind :: "string \<Rightarrow> (AsrProvider \<Rightarrow> bool) \<Rightarrow> bool" where
  "model_blind m P = (\<forall>l. P (LocalAsrProvider (l\<lparr>lo_model := m\<rparr>)) = P (LocalAsrProvider l))"

lemma set_model_loop_find:
  assumes "find (\<lambda>p. is_local p \<and> AsrProviderId p = i) ps = Some p"
  shows "\<exists>l qs. p = LocalAsrProvider l \<and> set_model_loop i m ps = Some qs
    \<and> map AsrProviderId qs = map AsrProviderId ps \<and> map is_local qs = map is_local ps
    \<and> (\<forall>P. model_blind m P \<longrightarrow>
         (find P ps = Some p \<longrightarrow> find P qs = Some (LocalAsrProvider (l\<lparr>lo_model := m\<rparr>)))
         \<and> ((\<forall>l. find P ps \<noteq> Some (LocalAsrProvider l)) \<longrightarrow> find P qs = find P ps))"
  using assms
proof (induction ps)
  case (Cons q qs)
  show ?case
  proof (cases "is_local q \<and> AsrProviderId q = i")
    case True
    then obtain l where q: "q = LocalAsrProvider l" by (cases q) auto
    with True Cons.prems show ?thesis
      by (auto simp: model_blind_def split: if_splits dest: find_Some_memD)
  next
    case False
    with Cons obtain l rs where "p = LocalAsrProvider l" "set_model_loop i m qs = Some rs"
      "map AsrProviderId rs = map AsrProviderId qs" "map is_local rs = map is_local qs"
      and "\<And>P. model_blind m P \<Longrightarrow> find P qs = Some p \<Longrightarrow> find P rs = Some (LocalAsrProvider (l\<lparr>lo_model := m\<rparr>))"
      and "\<And>P. model_blind m P \<Longrightarrow> \<forall>l. find P qs \<noteq> Some (LocalAsrProvider l) \<Longrightarrow> find P rs = find P qs"
      by auto
    moreover have "AsrProviderId p = i" using find_Some_memD [OF Cons.prems] by simp
    ultimately show ?thesis using False by (cases q) (auto split: if_splits)
  qed
qed simp

lemma not_local_iff: "\<not> is_local p \<longleftrightarrow> (\<forall>l. p \<noteq> LocalAsrProvider l)"
  by (cases p) auto

lemma find_and: "find P xs = Some x \<Longrightarrow> Q x \<Longrightarrow> find (\<lambda>y. Q y \<and> P y) xs = Some x"
  by (induction xs) (auto split: if_splits)

lemma PreferredLocalAsrProvider_cases:
  assumes "PreferredLocalAsrProvider c = Some p"
  obtains (active) "cc_activeProvider c \<noteq> []"
      "find (\<lambda>q. AsrProviderId q = cc_activeProvider c) (cc_asr_providers c) = Some p" "is_local p"
  | (first) "find is_local (cc_asr_providers c) = Some p"
      "cc_activeProvider c = [] \<or>
       (\<forall>l. find (\<lambda>q. AsrProviderId q = cc_activeProvider c) (cc_asr_providers c) \<noteq> Some (LocalAsrProvider l))"
proof (cases "ActiveLocalAsrProvider c")
  case None
  with assms first show ?thesis
    by (auto simp: PreferredLocalAsrProvider_def ActiveLocalAsrProvider_def ActiveAsrProvider_def
        view_AsrProvider_def find_id_def not_local_iff split: option.splits if_splits)
next
  case (Some q)
  with assms active show ?thesis
    by (auto simp: PreferredLocalAsrProvider_def ActiveLocalAsrProvider_def ActiveAsrProvider_def
        view_AsrProvider_def find_id_def split: option.splits if_splits)
qed

text \<open>
  \<open>SetPreferredLocalModel\<close> fails exactly when no local provider is configured; otherwise the
  preferred local provider has the new model afterwards, and no id, kind or order of providers
  and no selection changes.
\<close>

theorem SetPreferredLocalModel_correct:
  "case SetPreferredLocalModel c m of
     Inl _ \<Rightarrow> \<not> list_ex is_local (cc_asr_providers c)
   | Inr c' \<Rightarrow> PreferredLocalModel c' = m
       \<and> map AsrProviderId (cc_asr_providers c') = map AsrProviderId (cc_asr_providers c)
       \<and> map is_local (cc_asr_providers c') = map is_local (cc_asr_providers c)
       \<and> c' = c\<lparr>cc_asr_providers := cc_asr_providers c'\<rparr>"
proof (cases "PreferredLocalAsrProvider c")
  case None
  then have "find is_local (cc_asr_providers c) = None"
    by (auto simp: PreferredLocalAsrProvider_def split: option.splits)
  then have "\<not> list_ex is_local (cc_asr_providers c)" by (auto simp: find_None_iff_all list_ex_iff)
  with None show ?thesis by (simp add: SetPreferredLocalModel_def)
next
  case (Some p)
  have blind: "model_blind m is_local" "model_blind m (\<lambda>q. AsrProviderId q = i)" for i
    by (simp_all add: model_blind_def)
  from Some show ?thesis
  proof (cases rule: PreferredLocalAsrProvider_cases)
    case active
    have "AsrProviderId p = cc_activeProvider c" using find_Some_memD [OF active(2)] by simp
    with set_model_loop_find [of "AsrProviderId p" "cc_asr_providers c" p m]
      find_and [OF active(2), of is_local] active
    obtain l qs where "set_model_loop (AsrProviderId p) m (cc_asr_providers c) = Some qs"
      "map AsrProviderId qs = map AsrProviderId (cc_asr_providers c)"
      "map is_local qs = map is_local (cc_asr_providers c)"
      "find (\<lambda>q. AsrProviderId q = cc_activeProvider c) qs = Some (LocalAsrProvider (l\<lparr>lo_model := m\<rparr>))"
      using blind by auto
    then show ?thesis using Some active(1)
      by (simp add: SetPreferredLocalModel_def PreferredLocalModel_def PreferredLocalAsrProvider_def
          ActiveLocalAsrProvider_def ActiveAsrProvider_def view_AsrProvider_def find_id_def)
  next
    case first
    have eq: "find (\<lambda>q. is_local q \<and> AsrProviderId q = AsrProviderId p) (cc_asr_providers c) = Some p"
      using find_and [OF first(1), of "\<lambda>q. AsrProviderId q = AsrProviderId p"] by (simp add: conj_commute)
    from set_model_loop_find [OF eq, of m]
    obtain l qs where q: "set_model_loop (AsrProviderId p) m (cc_asr_providers c) = Some qs"
      "map AsrProviderId qs = map AsrProviderId (cc_asr_providers c)"
      "map is_local qs = map is_local (cc_asr_providers c)"
      "find is_local qs = Some (LocalAsrProvider (l\<lparr>lo_model := m\<rparr>))"
      and act: "cc_activeProvider c = [] \<or> find (\<lambda>q. AsrProviderId q = cc_activeProvider c) qs
        = find (\<lambda>q. AsrProviderId q = cc_activeProvider c) (cc_asr_providers c)"
      using blind first by blast
    have "ActiveLocalAsrProvider (c\<lparr>cc_asr_providers := qs\<rparr>) = None"
      using act first(2)
      by (auto simp: ActiveLocalAsrProvider_def ActiveAsrProvider_def view_AsrProvider_def find_id_def
          split: option.splits elim: is_local.elims)
    with Some q show ?thesis
      by (simp add: SetPreferredLocalModel_def PreferredLocalModel_def PreferredLocalAsrProvider_def)
  qed
qed

text \<open>
  The registry URLs are the configured base URLs without their trailing slashes, each with one
  slash and the path, empty ones skipped and duplicates tried once.
\<close>

theorem ResolveRegistryUrls_correct:
  "distinct (ResolveRegistryUrlsForPath c suffix)
   \<and> set (ResolveRegistryUrlsForPath c suffix) =
       (\<lambda>u. strip_slashes u @ ''/'' @ suffix) ` {u \<in> set (cc_baseUrls c). u \<noteq> []}
   \<and> (\<forall>u. strip_slashes u = [] \<or> last (strip_slashes u) \<noteq> CHR ''/'')"
proof (intro conjI allI)
  show "distinct (ResolveRegistryUrlsForPath c suffix)"
    using keep_first_distinct [of id "[]"] by (simp add: ResolveRegistryUrlsForPath_def)
  show "set (ResolveRegistryUrlsForPath c suffix) =
      (\<lambda>u. strip_slashes u @ ''/'' @ suffix) ` {u \<in> set (cc_baseUrls c). u \<noteq> []}"
    using keep_first_key_set [of id "[]" "map (\<lambda>u. strip_slashes u @ ''/'' @ suffix)
        (filter (\<lambda>u. u \<noteq> []) (cc_baseUrls c))"]
    by (simp add: ResolveRegistryUrlsForPath_def)
  show "strip_slashes u = [] \<or> last (strip_slashes u) \<noteq> CHR ''/''" for u
    by (cases "dropWhile (\<lambda>c. c = CHR ''/'') (rev u)")
       (auto simp: strip_slashes_def last_rev dest: dropWhile_eq_Cons_conv [THEN iffD1])
qed

end
