(* ===== verification/Session_Manager.thy ===== *)
theory Session_Manager
  imports Core_Config Recognition_Contract
begin

text \<open>
  The choice of the recogniser (\<open>daemon/asr/runtime/backend_factory.cpp\<close>,
  \<open>daemon/asr/local_asr_model_loader.cpp\<close>) and the manager that keeps one effective backend and
  reloads it on a thread of its own (\<open>daemon/asr/runtime/recognition_session_manager.cpp\<close>).

  Backends are values of any type \<open>'b\<close>; their constructors and the model files behind them are the
  fields of \<open>factory\<close>, and \<open>backend_ops\<close> are the two virtual functions of \<open>AsrBackend\<close>. A step that
  builds a backend has its own \<open>factory\<close> argument, because what is on disk changes between calls.
  Every critical section of \<open>state_mutex_\<close> is one function, and the reload thread's position between
  two of them is \<open>rm_worker\<close>. The calls of the reload callback are recorded in \<open>rm_reports\<close>.
\<close>

section \<open>The factory\<close>

record ('ctx, 'b) factory =
  fa_local_enabled :: bool
  fa_ensure_models :: "string \<Rightarrow> string option"
  fa_model_info :: "string \<Rightarrow> string + 'ctx"
  fa_backend_of :: "'ctx \<Rightarrow> string"
  fa_sherpa_offline :: "CoreConfig \<Rightarrow> LocalAsr \<Rightarrow> 'ctx \<Rightarrow> string + 'b"
  fa_sherpa_streaming :: "LocalAsr \<Rightarrow> 'ctx \<Rightarrow> string + 'b"
  fa_command_streaming :: "CommandAsr \<Rightarrow> string + 'b"
  fa_command_batch :: "CommandAsr \<Rightarrow> string + 'b"

record ('b, 's) backend_ops =
  bo_Describe :: "'b \<Rightarrow> BackendDescriptor"
  bo_CreateSession :: "'b \<Rightarrow> string + 's"

definition quoted_id :: "string \<Rightarrow> string" where
  "quoted_id i = [CHR 0x27] @ i @ [CHR 0x27]"

text \<open>The hotwords file and the language hint that the source copies into the context are read by
  the constructors from the provider and the context themselves.\<close>

definition LoadLocalAsrModelContext :: "('ctx, 'b) factory \<Rightarrow> LocalAsr \<Rightarrow> string + 'ctx" where
  "LoadLocalAsrModelContext fa provider =
     (if lo_model provider = [] then
        Inl (''Local ASR model configuration is missing for provider '' @ quoted_id (lo_id provider) @ ''.'')
      else case fa_ensure_models fa (lo_model provider) of
        Some e \<Rightarrow>
          Inl (''Local ASR model check failed for provider '' @ quoted_id (lo_id provider) @ ''.'' @ [CHR 0x0A] @ e)
      | None \<Rightarrow>
          (case fa_model_info fa (lo_model provider) of
             Inl e \<Rightarrow>
               Inl (''Failed to read local ASR model metadata for provider '' @ quoted_id (lo_id provider)
                    @ '': '' @ e)
           | Inr ctx \<Rightarrow> Inr ctx))"

definition IsStreamingCommandProvider :: "CommandAsr \<Rightarrow> bool" where
  "IsStreamingCommandProvider p \<longleftrightarrow> ends_with (co_id p) ''.streaming''"

definition CreateLocalBackend :: "('ctx, 'b) factory \<Rightarrow> CoreConfig \<Rightarrow> LocalAsr \<Rightarrow> string + 'b" where
  "CreateLocalBackend fa config provider =
     (if \<not> fa_local_enabled fa then Inl ''Local ASR support is disabled in this Lite build.''
      else case LoadLocalAsrModelContext fa provider of
        Inl e \<Rightarrow> Inl e
      | Inr ctx \<Rightarrow>
          (let backend_id = (if fa_backend_of fa ctx = [] then ''sherpa-offline'' else fa_backend_of fa ctx) in
           if backend_id = ''sherpa-offline'' then fa_sherpa_offline fa config provider ctx
           else if backend_id = ''sherpa-streaming'' then fa_sherpa_streaming fa provider ctx
           else Inl (''Unsupported local ASR backend '' @ quoted_id backend_id @ '' for provider ''
                     @ quoted_id (lo_id provider) @ ''.'')))"

definition CreateBackend :: "('ctx, 'b) factory \<Rightarrow> CoreConfig \<Rightarrow> string + 'b" where
  "CreateBackend fa config =
     (case ActiveAsrProvider config of
        None \<Rightarrow> Inl ''Active ASR provider not found.''
      | Some (LocalAsrProvider l) \<Rightarrow> CreateLocalBackend fa config l
      | Some (CommandAsrProvider c) \<Rightarrow>
          if IsStreamingCommandProvider c then fa_command_streaming fa c else fa_command_batch fa c)"

definition DescribeActiveBackend ::
    "('b, 's) backend_ops \<Rightarrow> ('ctx, 'b) factory \<Rightarrow> CoreConfig \<Rightarrow> string + BackendDescriptor" where
  "DescribeActiveBackend bo fa config =
     (case CreateBackend fa config of Inl e \<Rightarrow> Inl e | Inr b \<Rightarrow> Inr (bo_Describe bo b))"

section \<open>The session that keeps its backend alive\<close>

text \<open>\<open>BackendKeepingSession\<close> forwards to the session it owns; \<open>None\<close> is the null pointer.\<close>

definition not_initialized :: string where
  "not_initialized = ''Recognition session is not initialized.''"

definition keeping_ops :: "'s session_ops \<Rightarrow> ('b \<times> 's option) session_ops" where
  "keeping_ops ops =
     \<lparr>so_push = (\<lambda>(b, s) pcm. case s of
        None \<Rightarrow> ((False, not_initialized), (b, None))
      | Some x \<Rightarrow> (case so_push ops x pcm of (r, x') \<Rightarrow> (r, (b, Some x')))),
      so_finish = (\<lambda>(b, s). case s of
        None \<Rightarrow> ((False, not_initialized), (b, None))
      | Some x \<Rightarrow> (case so_finish ops x of (r, x') \<Rightarrow> (r, (b, Some x')))),
      so_cancel = (\<lambda>(b, s). (b, map_option (so_cancel ops) s)),
      so_interrupt = (\<lambda>(b, s). (b, map_option (so_interrupt ops) s)),
      so_poll = (\<lambda>(b, s). case s of
        None \<Rightarrow> ([], (b, None))
      | Some x \<Rightarrow> (case so_poll ops x of (evs, x') \<Rightarrow> (evs, (b, Some x'))))\<rparr>"

section \<open>The manager\<close>

datatype reload_worker = NotStarted | Waiting | Loading CoreConfig string | Exited

record 'b manager =
  rm_worker_running :: bool
  rm_reload_requested :: bool
  rm_reload_in_progress :: bool
  rm_pending_settings :: CoreConfig
  rm_target_provider_id :: string
  rm_target_model_id :: string
  rm_target_signature :: string
  rm_effective_backend :: "'b option"
  rm_effective_descriptor :: BackendDescriptor
  rm_has_effective_descriptor :: bool
  rm_effective_provider_id :: string
  rm_effective_model_id :: string
  rm_effective_signature :: string
  rm_last_error :: string
  rm_worker :: reload_worker
  rm_reports :: "(bool \<times> string) list"

definition new_manager :: "'b manager" where
  "new_manager =
     \<lparr>rm_worker_running = False, rm_reload_requested = False, rm_reload_in_progress = False,
      rm_pending_settings = default_config, rm_target_provider_id = [], rm_target_model_id = [],
      rm_target_signature = [], rm_effective_backend = None,
      rm_effective_descriptor = default_descriptor, rm_has_effective_descriptor = False,
      rm_effective_provider_id = [], rm_effective_model_id = [], rm_effective_signature = [],
      rm_last_error = [], rm_worker = NotStarted, rm_reports = []\<rparr>"

definition ShouldDisableAsr :: "CoreConfig \<Rightarrow> string option" where
  "ShouldDisableAsr config =
     (if ActiveAsrProvider config = None then Some ''No active ASR provider configured.'' else None)"

fun provider_signature :: "CoreConfig \<Rightarrow> AsrProvider \<Rightarrow> json" where
  "provider_signature config (LocalAsrProvider l) =
     JObj (smap_put ''vad_enabled'' (JBool (vad_enabled (cc_vad config)))
       (smap_put ''hotwords_file'' (JStr (lo_hotwordsFile l))
       (smap_put ''model'' (JStr (lo_model l))
       (smap_put ''timeout_ms'' (JNum (Finite (of_int (lo_timeoutMs l))))
       (smap_put ''type'' (JStr kLocalProviderType)
       (smap_put ''id'' (JStr (lo_id l)) []))))))"
| "provider_signature config (CommandAsrProvider c) =
     JObj (smap_put ''env'' (FromStringMap (co_env c))
       (smap_put ''args'' (FromStrings (co_args c))
       (smap_put ''command'' (JStr (co_command c))
       (smap_put ''timeout_ms'' (JNum (Finite (of_int (co_timeoutMs c))))
       (smap_put ''type'' (JStr kCommandProviderType)
       (smap_put ''id'' (JStr (co_id c)) []))))))"

definition signature_json :: "CoreConfig \<Rightarrow> json" where
  "signature_json config =
     (let j = smap_put ''active_provider'' (JStr (cc_activeProvider config)) [] in
      case ActiveAsrProvider config of
        None \<Rightarrow> JObj j
      | Some p \<Rightarrow> JObj (smap_put ''provider'' (provider_signature config p) j))"

definition BuildRuntimeSignature :: "(json \<Rightarrow> string) \<Rightarrow> CoreConfig \<Rightarrow> string" where
  "BuildRuntimeSignature to_text config = to_text (signature_json config)"

definition ResetEffectiveBackend :: "'b manager \<Rightarrow> 'b manager" where
  "ResetEffectiveBackend m =
     m\<lparr>rm_effective_backend := None, rm_has_effective_descriptor := False,
       rm_effective_descriptor := default_descriptor, rm_effective_provider_id := [],
       rm_effective_model_id := [], rm_effective_signature := []\<rparr>"

definition ApplyDisabledState :: "'b manager \<Rightarrow> 'b manager" where
  "ApplyDisabledState m =
     ResetEffectiveBackend
       (m\<lparr>rm_pending_settings := default_config, rm_target_provider_id := [], rm_target_model_id := [],
          rm_target_signature := [], rm_last_error := [], rm_reload_requested := False,
          rm_reload_in_progress := False\<rparr>)"

record 'b PreparedBackend =
  pb_backend :: 'b
  pb_descriptor :: BackendDescriptor
  pb_provider_id :: string
  pb_model_id :: string
  pb_signature :: string

text \<open>The warm-up session is created only to load the model and is cancelled at once.\<close>

definition CreatePreparedBackend ::
    "(json \<Rightarrow> string) \<Rightarrow> ('b, 's) backend_ops \<Rightarrow> ('ctx, 'b) factory \<Rightarrow> CoreConfig \<Rightarrow> string + 'b PreparedBackend" where
  "CreatePreparedBackend to_text bo fa settings =
     (case CreateBackend fa settings of
        Inl e \<Rightarrow> Inl e
      | Inr backend \<Rightarrow>
          (let descriptor = bo_Describe bo backend in
           case bo_CreateSession bo backend of
             Inl e \<Rightarrow> Inl e
           | Inr _ \<Rightarrow>
               Inr \<lparr>pb_backend = backend, pb_descriptor = descriptor,
                    pb_provider_id = bd_provider_id descriptor,
                    pb_model_id = PreferredLocalModel settings,
                    pb_signature = BuildRuntimeSignature to_text settings\<rparr>))"

definition install_effective :: "'b PreparedBackend \<Rightarrow> 'b manager \<Rightarrow> 'b manager" where
  "install_effective p m =
     m\<lparr>rm_effective_backend := Some (pb_backend p), rm_effective_descriptor := pb_descriptor p,
       rm_has_effective_descriptor := True, rm_effective_provider_id := pb_provider_id p,
       rm_effective_model_id := pb_model_id p, rm_effective_signature := pb_signature p,
       rm_last_error := []\<rparr>"

definition ActivatePreparedBackend :: "'b PreparedBackend \<Rightarrow> 'b manager \<Rightarrow> 'b manager" where
  "ActivatePreparedBackend p m =
     (install_effective p m)\<lparr>rm_target_provider_id := pb_provider_id p,
        rm_target_model_id := pb_model_id p, rm_target_signature := pb_signature p\<rparr>"

definition CreatePreparedBackendForReload ::
    "(json \<Rightarrow> string) \<Rightarrow> ('b, 's) backend_ops \<Rightarrow> ('ctx, 'b) factory \<Rightarrow> CoreConfig \<Rightarrow> string \<Rightarrow>
     string + 'b PreparedBackend" where
  "CreatePreparedBackendForReload to_text bo fa settings signature =
     (case CreatePreparedBackend to_text bo fa settings of
        Inl e \<Rightarrow> Inl e
      | Inr p \<Rightarrow> Inr (p\<lparr>pb_signature := signature\<rparr>))"

definition EnsureReloadWorkerStarted :: "'b manager \<Rightarrow> 'b manager" where
  "EnsureReloadWorkerStarted m =
     (if rm_worker_running m then m else m\<lparr>rm_worker_running := True, rm_worker := Waiting\<rparr>)"

text \<open>The reason why recognition is disabled, or \<open>None\<close> for success.\<close>

definition rm_Initialize ::
    "(json \<Rightarrow> string) \<Rightarrow> ('b, 's) backend_ops \<Rightarrow> ('ctx, 'b) factory \<Rightarrow> CoreConfig \<Rightarrow> 'b manager \<Rightarrow>
     string option \<times> 'b manager" where
  "rm_Initialize to_text bo fa settings m =
     (case ShouldDisableAsr settings of
        Some reason \<Rightarrow> (Some reason, ApplyDisabledState m)
      | None \<Rightarrow>
          (case CreatePreparedBackend to_text bo fa settings of
             Inl e \<Rightarrow>
               (Some e, (ResetEffectiveBackend m)\<lparr>rm_target_signature := [], rm_last_error := e\<rparr>)
           | Inr p \<Rightarrow> (None, EnsureReloadWorkerStarted (ActivatePreparedBackend p m))))"

definition set_target :: "(json \<Rightarrow> string) \<Rightarrow> CoreConfig \<Rightarrow> 'b manager \<Rightarrow> 'b manager" where
  "set_target to_text settings m =
     m\<lparr>rm_target_provider_id :=
          (case ActiveAsrProvider settings of Some p \<Rightarrow> AsrProviderId p | None \<Rightarrow> []),
       rm_target_model_id := PreferredLocalModel settings,
       rm_target_signature := BuildRuntimeSignature to_text settings, rm_last_error := []\<rparr>"

definition SynchronizeBackend :: "(json \<Rightarrow> string) \<Rightarrow> CoreConfig \<Rightarrow> 'b manager \<Rightarrow> bool \<times> 'b manager" where
  "SynchronizeBackend to_text settings m =
     (if ShouldDisableAsr settings \<noteq> None then (True, ApplyDisabledState m)
      else
        (let m1 = EnsureReloadWorkerStarted m; signature = BuildRuntimeSignature to_text settings in
         if rm_effective_backend m1 \<noteq> None \<and> rm_effective_signature m1 = signature
            \<and> \<not> rm_reload_in_progress m1
         then (True, set_target to_text settings m1)
         else (True, (set_target to_text settings m1)\<lparr>rm_pending_settings := settings,
                       rm_reload_requested := True\<rparr>)))"

text \<open>The descriptor, when there is one, and the session inside its wrapper; the new session is not
  part of the manager.\<close>

definition CreateSession ::
    "('b, 's) backend_ops \<Rightarrow> 'b manager \<Rightarrow> string + (BackendDescriptor option \<times> ('b \<times> 's option))" where
  "CreateSession bo m =
     (case rm_effective_backend m of
        None \<Rightarrow>
          Inl (if rm_last_error m \<noteq> [] then rm_last_error m
               else if rm_reload_in_progress m
                    then ''ASR backend is still loading. Please try again in a moment.''
               else ''ASR backend is not ready.'')
      | Some b \<Rightarrow>
          (case bo_CreateSession bo b of
             Inl e \<Rightarrow> Inl e
           | Inr s \<Rightarrow>
               Inr (if rm_has_effective_descriptor m then Some (rm_effective_descriptor m) else None,
                    (b, Some s))))"

fun consume_event :: "RecognitionRunResult \<Rightarrow> RecognitionEvent \<Rightarrow> RecognitionRunResult" where
  "consume_event r ev =
     (case ev_kind ev of
        PartialText \<Rightarrow> r
      | FinalText \<Rightarrow> r\<lparr>rr_text := ev_text ev\<rparr>
      | ErrorEvent \<Rightarrow> r\<lparr>rr_ok := False, rr_error := ev_error ev\<rparr>
      | Completed \<Rightarrow> r)"

text \<open>\<open>ConsumeEvents\<close> resets the session pointer, so the session's last state is returned for the
  caller that destroys it.\<close>

definition ConsumeEvents ::
    "'s session_ops \<Rightarrow> 's option \<Rightarrow> bool \<Rightarrow> RecognitionRunResult \<times> 's option" where
  "ConsumeEvents ops session cancel =
     (case session of
        None \<Rightarrow> (default_run_result\<lparr>rr_ok := False, rr_error := not_initialized\<rparr>, None)
      | Some s \<Rightarrow>
          (let (r1, s1) =
             (if cancel then (default_run_result\<lparr>rr_available := True\<rparr>, so_cancel ops s)
              else (case so_finish ops s of
                      ((ok, err), s') \<Rightarrow>
                        (if \<not> ok \<and> err \<noteq> []
                         then default_run_result\<lparr>rr_available := True, rr_ok := False, rr_error := err\<rparr>
                         else default_run_result\<lparr>rr_available := True\<rparr>, s')))
           in case so_poll ops s1 of (evs, s2) \<Rightarrow> (foldl consume_event r1 evs, Some s2)))"

record ReloadSnapshot =
  sn_target_provider_id :: string
  sn_target_model_id :: string
  sn_effective_provider_id :: string
  sn_effective_model_id :: string
  sn_target_signature :: string
  sn_effective_signature :: string
  sn_last_error :: string
  sn_reload_in_progress :: bool
  sn_has_effective_backend :: bool

definition GetReloadSnapshot :: "'b manager \<Rightarrow> ReloadSnapshot" where
  "GetReloadSnapshot m =
     \<lparr>sn_target_provider_id = rm_target_provider_id m, sn_target_model_id = rm_target_model_id m,
      sn_effective_provider_id = rm_effective_provider_id m,
      sn_effective_model_id = rm_effective_model_id m, sn_target_signature = rm_target_signature m,
      sn_effective_signature = rm_effective_signature m, sn_last_error = rm_last_error m,
      sn_reload_in_progress = rm_reload_in_progress m,
      sn_has_effective_backend = (rm_effective_backend m \<noteq> None)\<rparr>"

text \<open>\<open>Shutdown\<close> is two critical sections with the join of the worker between them.\<close>

definition Shutdown_begin :: "'b manager \<Rightarrow> 'b manager" where
  "Shutdown_begin m = m\<lparr>rm_worker_running := False, rm_reload_requested := False\<rparr>"

definition Shutdown_end :: "'b manager \<Rightarrow> 'b manager" where
  "Shutdown_end m =
     (ResetEffectiveBackend m)\<lparr>rm_target_provider_id := [], rm_target_model_id := [],
        rm_target_signature := [], rm_last_error := []\<rparr>"

text \<open>The reload thread: the wait and what follows it under the lock, then the end of a load.\<close>

definition worker_take :: "'b manager \<Rightarrow> 'b manager" where
  "worker_take m =
     (if rm_worker m \<noteq> Waiting \<or> \<not> (rm_reload_requested m \<or> \<not> rm_worker_running m) then m
      else if \<not> rm_worker_running m then m\<lparr>rm_worker := Exited\<rparr>
      else m\<lparr>rm_worker := Loading (rm_pending_settings m) (rm_target_signature m),
             rm_reload_requested := False, rm_reload_in_progress := True\<rparr>)"

definition worker_loaded ::
    "(json \<Rightarrow> string) \<Rightarrow> ('b, 's) backend_ops \<Rightarrow> ('ctx, 'b) factory \<Rightarrow> 'b manager \<Rightarrow> 'b manager" where
  "worker_loaded to_text bo fa m =
     (case rm_worker m of
        Loading settings signature \<Rightarrow>
          (case CreatePreparedBackendForReload to_text bo fa settings signature of
             Inr p \<Rightarrow>
               (install_effective p m)\<lparr>rm_reload_in_progress := False, rm_worker := Waiting,
                  rm_reports := rm_reports m @ [(True, [])]\<rparr>
           | Inl e \<Rightarrow>
               m\<lparr>rm_last_error := e, rm_reload_in_progress := False, rm_worker := Waiting,
                 rm_reports := rm_reports m @ [(False, e)]\<rparr>)
      | _ \<Rightarrow> m)"

lemmas manager_defs [vinput_defs] =
  rm_Initialize_def SynchronizeBackend_def worker_take_def worker_loaded_def Shutdown_begin_def
  Shutdown_end_def EnsureReloadWorkerStarted_def ActivatePreparedBackend_def install_effective_def
  ApplyDisabledState_def ResetEffectiveBackend_def set_target_def ShouldDisableAsr_def
  CreatePreparedBackendForReload_def CreatePreparedBackend_def

section \<open>Runs\<close>

text \<open>
  The owner's calls interleaved with the steps of the reload thread. The owner waits for the thread
  between the two parts of \<open>Shutdown\<close>, so it starts no new one there (\<open>may_call\<close>).
\<close>

definition may_call :: "'b manager \<Rightarrow> bool" where
  "may_call m \<longleftrightarrow> rm_worker_running m \<or> rm_worker m = NotStarted \<or> rm_worker m = Exited"

inductive rm_step ::
    "(json \<Rightarrow> string) \<Rightarrow> ('b, 's) backend_ops \<Rightarrow> ('ctx, 'b) factory \<Rightarrow> 'b manager \<Rightarrow> 'b manager \<Rightarrow> bool"
  for to_text bo where
  Initialize: "may_call m \<Longrightarrow> rm_step to_text bo fa m (snd (rm_Initialize to_text bo fa settings m))"
| Synchronize: "may_call m \<Longrightarrow> rm_step to_text bo fa m (snd (SynchronizeBackend to_text settings m))"
| Take: "rm_step to_text bo fa m (worker_take m)"
| Loaded: "rm_step to_text bo fa m (worker_loaded to_text bo fa m)"
| ShutdownBegin: "rm_step to_text bo fa m (Shutdown_begin m)"
| ShutdownEnd: "\<not> rm_worker_running m \<Longrightarrow> may_call m \<Longrightarrow> rm_step to_text bo fa m (Shutdown_end m)"

inductive rm_reachable :: "(json \<Rightarrow> string) \<Rightarrow> ('b, 's) backend_ops \<Rightarrow> 'ctx itself \<Rightarrow> 'b manager \<Rightarrow> bool"
  for to_text bo ctx where
  start: "rm_reachable to_text bo ctx new_manager"
| step: "rm_reachable to_text bo ctx m \<Longrightarrow> rm_step to_text bo (fa :: ('ctx, 'b) factory) m m'
    \<Longrightarrow> rm_reachable to_text bo ctx m'"

definition effective_ok :: "('b, 's) backend_ops \<Rightarrow> 'b manager \<Rightarrow> bool" where
  "effective_ok bo m \<longleftrightarrow>
     (case rm_effective_backend m of
        None \<Rightarrow> \<not> rm_has_effective_descriptor m \<and> rm_effective_descriptor m = default_descriptor
          \<and> rm_effective_provider_id m = [] \<and> rm_effective_model_id m = [] \<and> rm_effective_signature m = []
      | Some b \<Rightarrow> rm_has_effective_descriptor m \<and> rm_effective_descriptor m = bo_Describe bo b
          \<and> rm_effective_provider_id m = bd_provider_id (bo_Describe bo b))"

definition worker_ok :: "'b manager \<Rightarrow> bool" where
  "worker_ok m \<longleftrightarrow>
     (rm_reload_requested m \<longrightarrow> rm_worker_running m \<and> ActiveAsrProvider (rm_pending_settings m) \<noteq> None)
     \<and> (rm_reload_in_progress m \<longrightarrow> (\<exists>c sig. rm_worker m = Loading c sig))
     \<and> (\<forall>c sig. rm_worker m = Loading c sig \<longrightarrow> ActiveAsrProvider c \<noteq> None)
     \<and> (rm_worker_running m \<longrightarrow> rm_worker m \<noteq> NotStarted \<and> rm_worker m \<noteq> Exited)"

lemma effective_ok_step: "rm_step to_text bo fa m m' \<Longrightarrow> effective_ok bo m \<Longrightarrow> effective_ok bo m'"
  by (induction rule: rm_step.induct)
     (auto simp: effective_ok_def manager_defs Let_def split: option.splits sum.splits reload_worker.splits if_splits)

lemma worker_ok_step: "rm_step to_text bo fa m m' \<Longrightarrow> worker_ok m \<Longrightarrow> worker_ok m'"
  by (induction rule: rm_step.induct)
     (auto simp: worker_ok_def may_call_def manager_defs Let_def
       split: option.splits sum.splits reload_worker.splits if_splits)

lemma rm_reachable_ok: "rm_reachable to_text bo ctx m \<Longrightarrow> effective_ok bo m \<and> worker_ok m"
proof (induction rule: rm_reachable.induct)
  case start
  then show ?case by (simp add: effective_ok_def worker_ok_def new_manager_def)
qed (auto intro: effective_ok_step worker_ok_step)

section \<open>Properties\<close>

text \<open>
  C26: In every interleaving of the owner's calls and the reload thread: an effective backend comes with
  its own descriptor and provider id, and without one every effective field is empty; a reload is in
  progress only while the thread loads; what is loaded or waits to be loaded has an active provider;
  and while the manager runs, so does its thread.
\<close>

theorem rm_reachable_invariant:
  assumes "rm_reachable to_text bo (ctx :: 'ctx itself) m"
  shows "(case rm_effective_backend m of
       None \<Rightarrow> \<not> rm_has_effective_descriptor m \<and> rm_effective_provider_id m = []
         \<and> rm_effective_model_id m = [] \<and> rm_effective_signature m = []
     | Some b \<Rightarrow> rm_has_effective_descriptor m \<and> rm_effective_descriptor m = bo_Describe bo b
         \<and> rm_effective_provider_id m = bd_provider_id (bo_Describe bo b))
   \<and> (rm_reload_in_progress m \<longrightarrow> (\<exists>c sig. rm_worker m = Loading c sig))
   \<and> (rm_reload_requested m \<longrightarrow> rm_worker_running m \<and> ActiveAsrProvider (rm_pending_settings m) \<noteq> None)
   \<and> (rm_worker_running m \<longrightarrow> rm_worker m \<noteq> NotStarted \<and> rm_worker m \<noteq> Exited)"
  using rm_reachable_ok [OF assms]
  by (auto simp: effective_ok_def worker_ok_def split: option.splits)

lemma SynchronizeBackend_enabled:
  assumes "ActiveAsrProvider c \<noteq> None"
  shows "snd (SynchronizeBackend to_text c m) =
    (let m1 = EnsureReloadWorkerStarted m in
     if rm_effective_backend m1 \<noteq> None \<and> rm_effective_signature m1 = BuildRuntimeSignature to_text c
        \<and> \<not> rm_reload_in_progress m1
     then set_target to_text c m1
     else (set_target to_text c m1)\<lparr>rm_pending_settings := c, rm_reload_requested := True\<rparr>)"
  using assms by (auto simp: SynchronizeBackend_def ShouldDisableAsr_def Let_def)

lemma CreatePreparedBackend_Inr:
  assumes "CreateBackend fa c = Inr b" and "bo_CreateSession bo b = Inr s"
  shows "CreatePreparedBackendForReload to_text bo fa c sig =
    Inr \<lparr>pb_backend = b, pb_descriptor = bo_Describe bo b,
         pb_provider_id = bd_provider_id (bo_Describe bo b), pb_model_id = PreferredLocalModel c,
         pb_signature = sig\<rparr>"
  using assms by (simp add: CreatePreparedBackendForReload_def CreatePreparedBackend_def Let_def)

text \<open>
  A request that is not served from the effective backend is loaded next: once the thread is done
  with an earlier load, it takes the settings of the request, and when the backend can be built it
  becomes the effective one with the requested signature, no error is left and success is reported.
  When it cannot be built, the previous backend stays effective and the error is reported.
\<close>

theorem reload_converges:
  assumes "rm_reachable to_text bo (ctx :: 'ctx itself) m" and "may_call m" and "ActiveAsrProvider c \<noteq> None"
    and "rm_effective_backend m = None \<or> rm_effective_signature m \<noteq> BuildRuntimeSignature to_text c
         \<or> rm_reload_in_progress m"
    and "m2 = worker_take (worker_loaded to_text bo fa0 (snd (SynchronizeBackend to_text c m)))"
    and "m3 = worker_loaded to_text bo fa m2"
  shows "(case CreatePreparedBackend to_text bo fa c of
       Inr p \<Rightarrow> rm_effective_backend m3 = Some (pb_backend p)
         \<and> rm_effective_signature m3 = BuildRuntimeSignature to_text c
         \<and> rm_target_signature m3 = rm_effective_signature m3
         \<and> rm_last_error m3 = [] \<and> rm_reports m3 = rm_reports m2 @ [(True, [])]
     | Inl e \<Rightarrow> rm_effective_backend m3 = rm_effective_backend m2
         \<and> rm_effective_signature m3 = rm_effective_signature m2
         \<and> rm_last_error m3 = e \<and> rm_reports m3 = rm_reports m2 @ [(False, e)])
    \<and> rm_worker m3 = Waiting \<and> \<not> rm_reload_in_progress m3"
proof -
  let ?sig = "BuildRuntimeSignature to_text c"
  let ?m1 = "snd (SynchronizeBackend to_text c m)"
  let ?l = "worker_loaded to_text bo fa0 ?m1"
  have m1: "?m1 = (set_target to_text c (EnsureReloadWorkerStarted m))\<lparr>rm_pending_settings := c, rm_reload_requested := True\<rparr>"
    using assms(4) by (auto simp: SynchronizeBackend_enabled [OF assms(3)] EnsureReloadWorkerStarted_def Let_def)
  have "worker_ok m" using rm_reachable_ok [OF assms(1)] by simp
  then have w: "rm_worker_running ?m1 \<and> (rm_worker ?m1 = Waiting \<or> (\<exists>c' s'. rm_worker ?m1 = Loading c' s'))"
    using assms(2) unfolding m1
    by (cases "rm_worker m") (auto simp: set_target_def EnsureReloadWorkerStarted_def worker_ok_def may_call_def)
  have "rm_reload_requested ?m1" "rm_pending_settings ?m1 = c" "rm_target_signature ?m1 = ?sig"
    unfolding m1 by (simp_all add: set_target_def)
  with w have "rm_worker ?l = Waiting" and "rm_reload_requested ?l" and "rm_worker_running ?l"
    and "rm_pending_settings ?l = c" and "rm_target_signature ?l = ?sig"
    by (auto simp: worker_loaded_def install_effective_def split: sum.splits)
  then have "rm_worker m2 = Loading c ?sig" and "rm_target_signature m2 = ?sig"
    unfolding assms(5) by (simp_all add: worker_take_def)
  then show ?thesis
    unfolding assms(6)
    by (auto simp: worker_loaded_def install_effective_def CreatePreparedBackendForReload_def split: sum.splits)
qed

text \<open>
  Two changes of the configuration in quick succession: while a request for \<open>b\<close> waits for the
  thread, synchronising back to the effective configuration \<open>a\<close> changes the target signature but
  does not withdraw the request. The thread then builds the backend of \<open>b\<close> and labels it with the
  signature of \<open>a\<close>; synchronising to \<open>a\<close> again finds nothing to do.
\<close>

theorem reload_mislabels_backend:
  assumes "ActiveAsrProvider a \<noteq> None" and "ActiveAsrProvider b \<noteq> None"
    and "BuildRuntimeSignature to_text a \<noteq> BuildRuntimeSignature to_text b"
    and "rm_worker_running m" and "rm_worker m = Waiting" and "\<not> rm_reload_in_progress m"
    and "rm_effective_backend m = Some x" and "rm_effective_signature m = BuildRuntimeSignature to_text a"
    and "CreateBackend fa b = Inr y" and "bo_CreateSession bo y = Inr sess"
    and "m' = worker_loaded to_text bo fa (worker_take
           (snd (SynchronizeBackend to_text a (snd (SynchronizeBackend to_text b m)))))"
  shows "rm_effective_backend m' = Some y
    \<and> rm_effective_signature m' = BuildRuntimeSignature to_text a
    \<and> rm_target_signature m' = BuildRuntimeSignature to_text a
    \<and> rm_effective_backend (snd (SynchronizeBackend to_text a m')) = Some y
    \<and> \<not> rm_reload_requested (snd (SynchronizeBackend to_text a m'))"
proof -
  let ?sa = "BuildRuntimeSignature to_text a" and ?sb = "BuildRuntimeSignature to_text b"
  let ?m1 = "snd (SynchronizeBackend to_text b m)"
  have m1: "?m1 = (set_target to_text b m)\<lparr>rm_pending_settings := b, rm_reload_requested := True\<rparr>"
    using assms(3-8) by (simp add: SynchronizeBackend_enabled [OF assms(2)] EnsureReloadWorkerStarted_def)
  have m2: "snd (SynchronizeBackend to_text a ?m1) = set_target to_text a ?m1"
    using assms(4,6-8) unfolding m1
    by (simp add: SynchronizeBackend_enabled [OF assms(1)] EnsureReloadWorkerStarted_def set_target_def)
  have m3: "rm_worker (worker_take (set_target to_text a ?m1)) = Loading b ?sa"
    "rm_target_signature (worker_take (set_target to_text a ?m1)) = ?sa"
    "rm_worker_running (worker_take (set_target to_text a ?m1))"
    "\<not> rm_reload_requested (worker_take (set_target to_text a ?m1))"
    using assms(4,5) unfolding m1 by (simp_all add: worker_take_def set_target_def)
  have m': "rm_effective_backend m' = Some y" "rm_effective_signature m' = ?sa" "rm_target_signature m' = ?sa"
    "\<not> rm_reload_in_progress m'" "rm_worker_running m'" "\<not> rm_reload_requested m'"
    unfolding assms(11) m2 using m3 CreatePreparedBackend_Inr [OF assms(9,10)]
    by (simp_all add: worker_loaded_def install_effective_def)
  then show ?thesis
    by (simp add: SynchronizeBackend_enabled [OF assms(1)] EnsureReloadWorkerStarted_def set_target_def)
qed

text \<open>
  Disabling recognition while a reload is running does not stop the reload: when it ends, its
  backend becomes effective and sessions can be created, although nothing is configured.
\<close>

theorem reload_survives_disable:
  assumes "ActiveAsrProvider off = None" and "rm_worker m = Loading c sig"
    and "CreateBackend fa c = Inr y" and "bo_CreateSession bo y = Inr sess"
    and "m' = worker_loaded to_text bo fa (snd (SynchronizeBackend to_text off m))"
  shows "rm_target_signature m' = [] \<and> rm_effective_backend m' = Some y
    \<and> CreateSession bo m' = Inr (Some (bo_Describe bo y), (y, Some sess))"
  using assms CreatePreparedBackend_Inr [OF assms(3,4)]
  by (simp add: SynchronizeBackend_def ShouldDisableAsr_def ApplyDisabledState_def
      ResetEffectiveBackend_def worker_loaded_def install_effective_def CreateSession_def)

text \<open>
  The signature that decides whether a reload is needed ignores the parameters of the voice activity
  detector: when only its threshold, durations or padding change, synchronising keeps the effective
  backend, which was built with the old parameters, and requests no reload.
\<close>

theorem SynchronizeBackend_ignores_vad:
  assumes "ActiveAsrProvider c \<noteq> None" and "vad_enabled v = vad_enabled (cc_vad c)"
    and "rm_effective_backend m = Some x" and "rm_effective_signature m = BuildRuntimeSignature to_text c"
    and "\<not> rm_reload_in_progress m" and "\<not> rm_reload_requested m"
    and "m' = snd (SynchronizeBackend to_text (c\<lparr>cc_vad := v\<rparr>) m)"
  shows "rm_effective_backend m' = Some x \<and> \<not> rm_reload_requested m' \<and> \<not> rm_reload_in_progress m'"
proof -
  have act: "ActiveAsrProvider (c\<lparr>cc_vad := v\<rparr>) = ActiveAsrProvider c"
    by (simp add: ActiveAsrProvider_def view_AsrProvider_def)
  have "provider_signature (c\<lparr>cc_vad := v\<rparr>) p = provider_signature c p" for p
    using assms(2) by (cases p) simp_all
  then have "BuildRuntimeSignature to_text (c\<lparr>cc_vad := v\<rparr>) = BuildRuntimeSignature to_text c"
    by (simp add: BuildRuntimeSignature_def signature_json_def act Let_def split: option.splits)
  moreover have "ActiveAsrProvider (c\<lparr>cc_vad := v\<rparr>) \<noteq> None" using assms(1) act by simp
  ultimately show ?thesis
    using assms(3-6) unfolding assms(7)
    by (simp add: SynchronizeBackend_enabled EnsureReloadWorkerStarted_def set_target_def)
qed

text \<open>
  A session is created exactly from the effective backend, with that backend's descriptor; without
  one the caller gets the error of the last reload, or is told that the backend is still loading.
\<close>

theorem CreateSession_correct:
  assumes "rm_reachable to_text bo (ctx :: 'ctx itself) m"
  shows "CreateSession bo m =
    (case rm_effective_backend m of
       Some b \<Rightarrow> (case bo_CreateSession bo b of
                    Inr s \<Rightarrow> Inr (Some (bo_Describe bo b), (b, Some s)) | Inl e \<Rightarrow> Inl e)
     | None \<Rightarrow> Inl (if rm_last_error m \<noteq> [] then rm_last_error m
                     else if \<exists>c sig. rm_worker m = Loading c sig \<and> rm_reload_in_progress m
                     then ''ASR backend is still loading. Please try again in a moment.''
                     else ''ASR backend is not ready.''))"
  using rm_reachable_ok [OF assms]
  by (auto simp: CreateSession_def effective_ok_def worker_ok_def split: option.splits sum.splits)

section \<open>Examples\<close>

text \<open>Two command providers; a backend is its provider's id, and every session is a unit.\<close>

definition example_command :: "string \<Rightarrow> AsrProvider" where
  "example_command i = CommandAsrProvider \<lparr>co_id = i, co_timeoutMs = 1000, co_command = ''asr'',
     co_args = [], co_env = []\<rparr>"

definition example_settings :: "string \<Rightarrow> CoreConfig" where
  "example_settings i = default_config\<lparr>cc_activeProvider := i,
     cc_asr_providers := [example_command ''a'', example_command ''b'']\<rparr>"

definition example_factory :: "(unit, string) factory" where
  "example_factory = \<lparr>fa_local_enabled = False, fa_ensure_models = (\<lambda>_. None),
     fa_model_info = (\<lambda>_. Inr ()), fa_backend_of = (\<lambda>_. []), fa_sherpa_offline = (\<lambda>_ _ _. Inl []),
     fa_sherpa_streaming = (\<lambda>_ _. Inl []), fa_command_streaming = (\<lambda>p. Inr (co_id p)),
     fa_command_batch = (\<lambda>p. Inr (co_id p))\<rparr>"

definition example_backend :: "(string, unit) backend_ops" where
  "example_backend = \<lparr>bo_Describe = (\<lambda>b. default_descriptor\<lparr>bd_provider_id := b\<rparr>),
     bo_CreateSession = (\<lambda>_. Inr ())\<rparr>"

definition example_text :: "json \<Rightarrow> string" where
  "example_text j = json_String j ''active_provider'' []"

lemmas example_simps =
  example_command_def example_settings_def example_factory_def example_backend_def example_text_def
  ActiveAsrProvider_def view_AsrProvider_def find_id_def BuildRuntimeSignature_def signature_json_def
  json_String_def CreateBackend_def IsStreamingCommandProvider_def ends_with_def

lemma example_active [simp]: "i = ''a'' \<or> i = ''b'' \<Longrightarrow> ActiveAsrProvider (example_settings i) = Some (example_command i)"
  by (auto simp: example_simps)

lemma example_signature [simp]: "i = ''a'' \<or> i = ''b'' \<Longrightarrow> BuildRuntimeSignature example_text (example_settings i) = i"
  by (auto simp: example_simps)

lemma example_create [simp]:
  "i = ''a'' \<or> i = ''b'' \<Longrightarrow> CreateBackend example_factory (example_settings i) = Inr i"
  by (simp add: CreateBackend_def) (auto simp: example_simps)

definition example_manager :: "string manager" where
  "example_manager = snd (rm_Initialize example_text example_backend example_factory
     (example_settings ''a'') new_manager)"

lemma example_manager_state:
  "rm_worker_running example_manager" "rm_worker example_manager = Waiting"
  "\<not> rm_reload_in_progress example_manager" "\<not> rm_reload_requested example_manager"
  "rm_effective_backend example_manager = Some ''a''" "rm_effective_signature example_manager = ''a''"
  by (simp_all add: example_manager_def rm_Initialize_def ShouldDisableAsr_def CreatePreparedBackend_def
      ActivatePreparedBackend_def install_effective_def EnsureReloadWorkerStarted_def new_manager_def
      example_backend_def Let_def)

lemma example_reachable: "rm_reachable example_text example_backend TYPE(unit) example_manager"
  unfolding example_manager_def
  by (rule rm_reachable.step [OF rm_reachable.start, where fa = example_factory])
     (rule rm_step.Initialize, simp add: may_call_def new_manager_def)

theorem rm_reachable_invariant_witness:
  "rm_has_effective_descriptor example_manager
   \<and> rm_effective_provider_id example_manager = bd_provider_id (bo_Describe example_backend ''a'')"
  using rm_reachable_invariant [OF example_reachable] by (simp add: example_manager_state)

theorem reload_converges_witness:
  "let m2 = worker_take (worker_loaded example_text example_backend example_factory
         (snd (SynchronizeBackend example_text (example_settings ''b'') example_manager)));
       m3 = worker_loaded example_text example_backend example_factory m2
   in rm_effective_backend m3 = Some ''b'' \<and> rm_target_signature m3 = ''b''"
  using reload_converges [OF example_reachable, of "example_settings ''b''" _ example_factory _ example_factory,
      OF _ _ _ refl refl]
  by (simp add: example_manager_state may_call_def CreatePreparedBackend_def Let_def)
     (simp add: example_backend_def)

theorem reload_mislabels_backend_witness:
  "let m' = worker_loaded example_text example_backend example_factory (worker_take
         (snd (SynchronizeBackend example_text (example_settings ''a'')
           (snd (SynchronizeBackend example_text (example_settings ''b'') example_manager)))))
   in rm_effective_backend m' = Some ''b'' \<and> rm_effective_signature m' = ''a''"
  using reload_mislabels_backend [of "example_settings ''a''" "example_settings ''b''" example_text
      example_manager "''a''" example_factory "''b''" example_backend "()", OF _ _ _ _ _ _ _ _ _ _ refl]
  by (simp add: example_manager_state Let_def) (simp add: example_backend_def)

theorem reload_survives_disable_witness:
  "rm_effective_backend (worker_loaded example_text example_backend example_factory
     (snd (SynchronizeBackend example_text default_config
       (example_manager\<lparr>rm_worker := Loading (example_settings ''b'') ''b''\<rparr>)))) = Some ''b''"
  using reload_survives_disable [of default_config "example_manager\<lparr>rm_worker := Loading (example_settings ''b'') ''b''\<rparr>"
      "example_settings ''b''" "''b''" example_factory "''b''" example_backend "()" _ example_text, OF _ _ _ _ refl]
  by (simp add: example_backend_def)
     (simp add: ActiveAsrProvider_def view_AsrProvider_def find_id_def default_config_def)

theorem SynchronizeBackend_ignores_vad_witness:
  "rm_effective_backend (snd (SynchronizeBackend example_text
     ((example_settings ''a'')\<lparr>cc_vad := (cc_vad default_config)\<lparr>vad_speechPadMs := 900\<rparr>\<rparr>) example_manager)) = Some ''a''"
  using SynchronizeBackend_ignores_vad [of "example_settings ''a''" "(cc_vad default_config)\<lparr>vad_speechPadMs := 900\<rparr>"
      example_manager "''a''" example_text, OF _ _ _ _ _ _ refl]
  by (simp add: example_manager_state) (simp add: example_settings_def)

theorem CreateSession_correct_witness:
  "CreateSession example_backend example_manager = Inr (Some (bo_Describe example_backend ''a''), (''a'', Some ()))"
  using CreateSession_correct [OF example_reachable] by (simp add: example_manager_state example_backend_def)

end
