(* ===== verification/Audio.thy ===== *)
theory Audio
  imports Float_Model
begin

text \<open>
  The daemon's audio path: \<open>src/daemon/audio/audio_types.h\<close> (fixed-size chunks),
  \<open>src/daemon/audio/audio_utils.cpp\<close> (gain and peak normalisation),
  \<open>src/daemon/runtime/audio_recording_buffer.cpp\<close> (start-up samples, streaming chunks, buffered
  utterances) and \<open>src/daemon/asr/vad_segmentation.cpp\<close> (slicing and merging speech segments).
  A PCM sample is a \<open>16 word\<close>, read as signed.
\<close>

section \<open>Chunks of fixed capacity\<close>

definition kMaxChunkSamples :: nat where "kMaxChunkSamples = 2048"

record AudioPcmChunk =
  samples :: "i16 list"
  chunk_size :: nat

definition empty_chunk :: AudioPcmChunk where
  "empty_chunk = \<lparr>samples = replicate kMaxChunkSamples 0, chunk_size = 0\<rparr>"

definition FromSpan :: "i16 list \<Rightarrow> AudioPcmChunk" where
  "FromSpan src =
     (let copy_size = min (length src) kMaxChunkSamples in
      if copy_size > 0 then
        \<lparr>samples = take copy_size src @ drop copy_size (samples empty_chunk),
         chunk_size = copy_size\<rparr>
      else empty_chunk)"

definition AsSpan :: "AudioPcmChunk \<Rightarrow> i16 list" where
  "AsSpan c = take (chunk_size c) (samples c)"

definition chunk_empty :: "AudioPcmChunk \<Rightarrow> bool" where
  "chunk_empty c \<longleftrightarrow> chunk_size c = 0"

definition chunk_clear :: "AudioPcmChunk \<Rightarrow> AudioPcmChunk" where
  "chunk_clear c = c\<lparr>chunk_size := 0\<rparr>"

section \<open>Gain\<close>

definition PeakNormalize :: "float_env \<Rightarrow> fp list \<Rightarrow> fp \<Rightarrow> fp \<Rightarrow> fp list" where
  "PeakNormalize fe xs target_peak low_threshold =
     (if xs = [] then xs
      else
        let peak = foldl (\<lambda>p s. fp_max p (fp_abs s)) (Finite 0) xs in
        if fp_less peak (Finite (11258999 / 1125899906842624)) \<or> fp_le low_threshold peak then xs
        else
          let scale = fp_div_pos (fe_round32 fe) target_peak peak
          in map (\<lambda>s. fp_mul (fe_round32 fe) s scale) xs)"

definition ApplyGain :: "float_env \<Rightarrow> fp list \<Rightarrow> fp \<Rightarrow> fp list" where
  "ApplyGain fe xs gain =
     (if xs = [] \<or> gain = Finite 1 then xs
      else map (\<lambda>s. fp_clamp (fp_mul (fe_round32 fe) s gain) (Finite (- 1)) (Finite 1)) xs)"

definition gain_sample :: "float_env \<Rightarrow> fp \<Rightarrow> i16 \<Rightarrow> i16" where
  "gain_sample fe gain s =
     (let scaled = fp_mul (fe_round32 fe) (Finite (of_int (sint s))) gain
      in word_of_int (fp_to_int fe (- 32768) 32767
           (fp_clamp scaled (Finite (- 32768)) (Finite 32767))))"

definition ApplyGainI16 :: "float_env \<Rightarrow> i16 list \<Rightarrow> fp \<Rightarrow> i16 list" where
  "ApplyGainI16 fe xs gain =
     (if xs = [] \<or> gain = Finite 1 then xs else map (gain_sample fe gain) xs)"

definition PrepareGainAdjustedInput :: "float_env \<Rightarrow> i16 list \<Rightarrow> fp \<Rightarrow> i16 list" where
  "PrepareGainAdjustedInput fe pcm gain =
     (if gain = Finite 1 \<or> pcm = [] then pcm else ApplyGainI16 fe pcm gain)"

section \<open>The recording buffer\<close>

definition kStreamingChunkSamples :: nat where "kStreamingChunkSamples = 800"

record AudioRecordingBuffer =
  ab_gain :: fp
  ab_is_buffered :: bool
  ab_is_activated :: bool
  ab_startup :: "i16 list"
  ab_buffered :: "i16 list"
  ab_streaming :: "i16 list"
  ab_total :: nat

definition ab_Reset :: "AudioRecordingBuffer \<Rightarrow> fp \<Rightarrow> AudioRecordingBuffer" where
  "ab_Reset b gain =
     b\<lparr>ab_gain := gain, ab_is_buffered := False, ab_is_activated := False, ab_startup := [],
       ab_buffered := [], ab_streaming := [], ab_total := 0\<rparr>"

definition ab_SetGain :: "AudioRecordingBuffer \<Rightarrow> fp \<Rightarrow> AudioRecordingBuffer" where
  "ab_SetGain b gain = b\<lparr>ab_gain := gain\<rparr>"

text \<open>The part of \<open>Append\<close> after its two tests.\<close>

definition append_live :: "float_env \<Rightarrow> AudioRecordingBuffer \<Rightarrow> i16 list \<Rightarrow> AudioRecordingBuffer" where
  "append_live fe b pcm =
     (let view = PrepareGainAdjustedInput fe pcm (ab_gain b);
          b1 = b\<lparr>ab_total := ab_total b + length pcm\<rparr>
      in if ab_is_buffered b then b1\<lparr>ab_buffered := ab_buffered b @ view\<rparr>
         else b1\<lparr>ab_streaming := ab_streaming b @ view\<rparr>)"

definition AppendStartup :: "float_env \<Rightarrow> AudioRecordingBuffer \<Rightarrow> i16 list \<Rightarrow> AudioRecordingBuffer" where
  "AppendStartup fe b pcm =
     (if pcm = [] then b
      else if ab_is_activated b then append_live fe b pcm
      else b\<lparr>ab_startup := ab_startup b @ pcm, ab_total := ab_total b + length pcm\<rparr>)"

definition ab_Append :: "float_env \<Rightarrow> AudioRecordingBuffer \<Rightarrow> i16 list \<Rightarrow> AudioRecordingBuffer" where
  "ab_Append fe b pcm =
     (if pcm = [] then b
      else if \<not> ab_is_activated b then AppendStartup fe b pcm
      else append_live fe b pcm)"

definition Activate :: "float_env \<Rightarrow> AudioRecordingBuffer \<Rightarrow> bool \<Rightarrow> AudioRecordingBuffer" where
  "Activate fe b buffered =
     (let b1 = b\<lparr>ab_is_activated := True, ab_is_buffered := buffered\<rparr> in
      if ab_startup b \<noteq> [] then
        (let pcm = ApplyGainI16 fe (ab_startup b) (ab_gain b) in
         if buffered then b1\<lparr>ab_buffered := pcm, ab_startup := []\<rparr>
         else b1\<lparr>ab_streaming := pcm, ab_startup := []\<rparr>)
      else b1)"

definition PopStreamingChunk ::
    "AudioRecordingBuffer \<Rightarrow> nat \<Rightarrow> i16 list option \<times> AudioRecordingBuffer" where
  "PopStreamingChunk b n =
     (if n = 0 \<or> length (ab_streaming b) < n then (None, b)
      else (Some (take n (ab_streaming b)), b\<lparr>ab_streaming := drop n (ab_streaming b)\<rparr>))"

definition DrainStreamingTail :: "AudioRecordingBuffer \<Rightarrow> i16 list \<times> AudioRecordingBuffer" where
  "DrainStreamingTail b = (ab_streaming b, b\<lparr>ab_streaming := []\<rparr>)"

definition TakeBufferedPcm :: "AudioRecordingBuffer \<Rightarrow> i16 list \<times> AudioRecordingBuffer" where
  "TakeBufferedPcm b = (ab_buffered b, b\<lparr>ab_buffered := []\<rparr>)"

definition ab_Clear :: "AudioRecordingBuffer \<Rightarrow> AudioRecordingBuffer" where
  "ab_Clear b =
     b\<lparr>ab_gain := Finite 1, ab_is_buffered := False, ab_is_activated := False, ab_startup := [],
       ab_buffered := [], ab_streaming := [], ab_total := 0\<rparr>"

lemmas ab_defs [vinput_defs] =
  ab_Reset_def ab_SetGain_def append_live_def AppendStartup_def ab_Append_def Activate_def
  PopStreamingChunk_def DrainStreamingTail_def TakeBufferedPcm_def ab_Clear_def

section \<open>Segments\<close>

definition to_samples :: "float_env \<Rightarrow> int \<Rightarrow> fp \<Rightarrow> nat" where
  "to_samples fe sample_rate duration_sec =
     (case fp_mul (fe_round64 fe) duration_sec (Finite (of_int sample_rate)) of
        Finite x \<Rightarrow> (if x \<le> 0 \<or> x \<ge> 2 ^ 64 then 0 else nat \<lfloor>x\<rfloor>)
      | _ \<Rightarrow> 0)"

function slice_loop :: "nat \<Rightarrow> 'a list \<Rightarrow> nat \<Rightarrow> 'a list list" where
  "slice_loop m seg offset =
     (if 0 < m \<and> offset < length seg then
        substr seg offset (min m (length seg - offset)) # slice_loop m seg (offset + m)
      else [])"
  by pat_completeness auto
termination
  by (relation "measure (\<lambda>(m, seg, offset). length seg - offset)") auto

declare slice_loop.simps [simp del]

text \<open>One round of the loop over the raw segments, on the result built so far.\<close>

definition coalesce_step :: "nat \<Rightarrow> nat \<Rightarrow> 'a list list \<Rightarrow> 'a list \<Rightarrow> 'a list list" where
  "coalesce_step m k result seg =
     (if seg = [] then result
      else if length seg > m then result @ slice_loop m seg 0
      else if result \<noteq> [] \<and> length (last result) < k \<and> length (last result) + length seg \<le> m then
        butlast result @ [last result @ seg]
      else result @ [seg])"

definition CoalesceAndSliceSegments ::
    "float_env \<Rightarrow> 'a list list \<Rightarrow> int \<Rightarrow> fp \<Rightarrow> fp \<Rightarrow> 'a list list" where
  "CoalesceAndSliceSegments fe raw_segments sample_rate max_sec min_merge_sec =
     (if sample_rate \<le> 0 \<or> raw_segments = [] then filter (\<lambda>s. s \<noteq> []) raw_segments
      else
        let m = to_samples fe sample_rate max_sec; k = to_samples fe sample_rate min_merge_sec in
        if m = 0 then filter (\<lambda>s. s \<noteq> []) raw_segments
        else foldl (coalesce_step m k) [] raw_segments)"

section \<open>Gain lemmas\<close>

lemma ApplyGainI16_map:
  "ApplyGainI16 fe xs g = (if g = Finite 1 then xs else map (gain_sample fe g) xs)"
  by (auto simp: ApplyGainI16_def)

lemma ApplyGainI16_append:
  "ApplyGainI16 fe (xs @ ys) g = ApplyGainI16 fe xs g @ ApplyGainI16 fe ys g"
  by (simp add: ApplyGainI16_map)

lemma ApplyGainI16_Nil [simp]: "ApplyGainI16 fe [] g = []"
  by (simp add: ApplyGainI16_def)

lemma Prepare_eq [simp]: "PrepareGainAdjustedInput fe pcm g = ApplyGainI16 fe pcm g"
  by (auto simp: PrepareGainAdjustedInput_def ApplyGainI16_def)

lemma ApplyGainI16_length [simp]: "length (ApplyGainI16 fe xs g) = length xs"
  by (simp add: ApplyGainI16_map)

lemma sint_word_of_int_16:
  "- 32768 \<le> k \<Longrightarrow> k \<le> 32767 \<Longrightarrow> sint (word_of_int k :: i16) = k"
  by (simp add: int_word_sint)

lemma gain_sample_value:
  assumes "fp_mul (fe_round32 fe) (Finite (of_int (sint s))) g = v" and "v \<noteq> NaN"
  shows "\<exists>x. fp_clamp v (Finite (- 32768)) (Finite 32767) = Finite x
    \<and> sint (gain_sample fe g s) = trunc_rat x \<and> - 32768 \<le> x \<and> x \<le> 32767"
proof -
  obtain x where x: "fp_clamp v (Finite (- 32768)) (Finite 32767) = Finite x"
      "- 32768 \<le> x" "x \<le> 32767"
    using fp_clamp_cases [of "- 32768" 32767 v] assms(2) by auto
  have t: "- 32768 \<le> trunc_rat x \<and> trunc_rat x \<le> 32767"
    using trunc_rat_bounds [of "- 32768" x 32767] x by simp
  have "gain_sample fe g s = word_of_int (trunc_rat x)"
    using assms(1) x t by (simp add: gain_sample_def fp_to_int_def)
  then show ?thesis using x t by (auto simp: sint_word_of_int_16)
qed

lemma AsSpan_FromSpan: "AsSpan (FromSpan src) = take kMaxChunkSamples src"
  by (auto simp: AsSpan_def FromSpan_def empty_chunk_def kMaxChunkSamples_def Let_def min_def)

section \<open>The buffer as a stream of samples\<close>

text \<open>
  A run of a buffer: \<open>Inl xs\<close> feeds samples, \<open>Inr d\<close> draws some. The result is what was drawn, in
  order, and the final state.
\<close>

fun run_stream ::
    "('s \<Rightarrow> 'a list \<Rightarrow> 's) \<Rightarrow> ('s \<Rightarrow> 'd \<Rightarrow> 'b list \<times> 's) \<Rightarrow> 's \<Rightarrow> ('a list + 'd) list
      \<Rightarrow> 'b list \<times> 's" where
  "run_stream feed draw s [] = ([], s)"
| "run_stream feed draw s (Inl xs # ops) = run_stream feed draw (feed s xs) ops"
| "run_stream feed draw s (Inr d # ops) =
     (case draw s d of (out, s') \<Rightarrow>
        (case run_stream feed draw s' ops of (rest, t) \<Rightarrow> (out @ rest, t)))"

fun fed :: "('a list + 'd) list \<Rightarrow> 'a list list" where
  "fed [] = []"
| "fed (Inl xs # ops) = xs # fed ops"
| "fed (Inr d # ops) = fed ops"

text \<open>
  What a consumer of samples relies on: \<open>feed\<close> appends the adjusted samples to what is pending,
  \<open>draw\<close> removes a prefix of what is pending, and both keep the well-formedness. Whatever the
  interleaving, what was drawn followed by what is pending is what was fed.
\<close>

locale sample_stream =
  fixes feed :: "'s \<Rightarrow> 'a list \<Rightarrow> 's"
    and draw :: "'s \<Rightarrow> 'd \<Rightarrow> 'b list \<times> 's"
    and pending :: "'s \<Rightarrow> 'b list"
    and adjust :: "'s \<Rightarrow> 'a list \<Rightarrow> 'b list"
    and wf :: "'s \<Rightarrow> bool"
  assumes feed_pending: "wf s \<Longrightarrow> pending (feed s xs) = pending s @ adjust s xs"
    and feed_wf: "wf s \<Longrightarrow> wf (feed s xs)"
    and feed_adjust: "wf s \<Longrightarrow> adjust (feed s xs) = adjust s"
    and draw_pending: "wf s \<Longrightarrow> fst (draw s d) @ pending (snd (draw s d)) = pending s"
    and draw_wf: "wf s \<Longrightarrow> wf (snd (draw s d))"
    and draw_adjust: "wf s \<Longrightarrow> adjust (snd (draw s d)) = adjust s"
begin

lemma stream_conserved:
  "wf s \<Longrightarrow> run_stream feed draw s ops = (out, t) \<Longrightarrow>
     out @ pending t = pending s @ concat (map (adjust s) (fed ops)) \<and> wf t"
proof (induction ops arbitrary: s out)
  case Nil
  then show ?case by simp
next
  case (Cons op ops)
  show ?case
  proof (cases op)
    case (Inl xs)
    then show ?thesis
      using Cons.IH [of "feed s xs" out] Cons.prems by (simp add: feed_pending feed_wf feed_adjust)
  next
    case (Inr d)
    obtain o1 s' where d: "draw s d = (o1, s')" by fastforce
    obtain o2 where r: "run_stream feed draw s' ops = (o2, t)" and o: "out = o1 @ o2"
      using Cons.prems(2) Inr d by (auto split: prod.splits)
    have s': "wf s'" "adjust s' = adjust s" "pending s = o1 @ pending s'"
      using draw_wf [OF Cons.prems(1), of d] draw_adjust [OF Cons.prems(1), of d]
        draw_pending [OF Cons.prems(1), of d] d by simp_all
    show ?thesis using Cons.IH [OF s'(1) r] s' o Inr by simp
  qed
qed

end

text \<open>The samples still to be delivered, and the states in which they are in one place.\<close>

definition ab_pending :: "float_env \<Rightarrow> AudioRecordingBuffer \<Rightarrow> i16 list" where
  "ab_pending fe b =
     (if \<not> ab_is_activated b then ApplyGainI16 fe (ab_startup b) (ab_gain b)
      else if ab_is_buffered b then ab_buffered b else ab_streaming b)"

definition ab_wf :: "AudioRecordingBuffer \<Rightarrow> bool" where
  "ab_wf b \<longleftrightarrow>
     (if \<not> ab_is_activated b then ab_buffered b = [] \<and> ab_streaming b = []
      else ab_startup b = []
        \<and> (if ab_is_buffered b then ab_streaming b = [] else ab_buffered b = []))"

text \<open>The three ways the controller takes samples out.\<close>

datatype ab_draw = PopChunk nat | DrainTail | TakeBuffered

fun ab_draw_op :: "AudioRecordingBuffer \<Rightarrow> ab_draw \<Rightarrow> i16 list \<times> AudioRecordingBuffer" where
  "ab_draw_op b (PopChunk n) =
     (case PopStreamingChunk b n of (c, b') \<Rightarrow> ((case c of None \<Rightarrow> [] | Some xs \<Rightarrow> xs), b'))"
| "ab_draw_op b DrainTail = DrainStreamingTail b"
| "ab_draw_op b TakeBuffered = TakeBufferedPcm b"

lemma ab_Append_facts:
  "ab_wf b \<Longrightarrow> ab_pending fe (ab_Append fe b xs) = ab_pending fe b @ ApplyGainI16 fe xs (ab_gain b)"
  "ab_wf b \<Longrightarrow> ab_wf (ab_Append fe b xs)"
  "ab_gain (ab_Append fe b xs) = ab_gain b"
  "ab_total (ab_Append fe b xs) = ab_total b + length xs"
  by (auto simp: ab_defs ab_pending_def ab_wf_def ApplyGainI16_append Let_def)

lemma ab_draw_facts:
  "ab_wf b \<Longrightarrow> fst (ab_draw_op b d) @ ab_pending fe (snd (ab_draw_op b d)) = ab_pending fe b"
  "ab_wf b \<Longrightarrow> ab_wf (snd (ab_draw_op b d))"
  "ab_gain (snd (ab_draw_op b d)) = ab_gain b"
  "ab_total (snd (ab_draw_op b d)) = ab_total b"
  by (cases d; auto simp: ab_defs ab_pending_def ab_wf_def split: if_splits)+

lemma ab_Activate_facts:
  "ab_wf b \<Longrightarrow> \<not> ab_is_activated b \<Longrightarrow> ab_pending fe (Activate fe b m) = ab_pending fe b"
  "ab_wf b \<Longrightarrow> \<not> ab_is_activated b \<Longrightarrow> ab_wf (Activate fe b m)"
  "ab_gain (Activate fe b m) = ab_gain b"
  "ab_total (Activate fe b m) = ab_total b"
  by (auto simp: ab_defs ab_pending_def ab_wf_def Let_def)

interpretation ab: sample_stream "ab_Append fe" ab_draw_op "ab_pending fe"
  "\<lambda>b xs. ApplyGainI16 fe xs (ab_gain b)" ab_wf for fe
  by unfold_locales (simp_all add: ab_Append_facts ab_draw_facts)

lemma ab_run_total:
  "ab_total (snd (run_stream (ab_Append fe) ab_draw_op b ops))
    = ab_total b + sum_list (map length (fed ops))"
proof (induction ops arbitrary: b)
  case (Cons op ops)
  show ?case
  proof (cases op)
    case (Inl xs)
    then show ?thesis using Cons.IH by (simp add: ab_Append_facts)
  next
    case (Inr d)
    then show ?thesis
      using Cons.IH [of "snd (ab_draw_op b d)"] ab_draw_facts(4) [of b d]
      by (auto split: prod.splits)
  qed
qed simp

lemma ab_startup_run:
  assumes "ab_wf b" and "\<not> ab_is_activated b"
  shows "ab_pending fe (foldl (AppendStartup fe) b ss)
      = ab_pending fe b @ ApplyGainI16 fe (concat ss) (ab_gain b)
    \<and> ab_wf (foldl (AppendStartup fe) b ss) \<and> \<not> ab_is_activated (foldl (AppendStartup fe) b ss)
    \<and> ab_gain (foldl (AppendStartup fe) b ss) = ab_gain b
    \<and> ab_total (foldl (AppendStartup fe) b ss) = ab_total b + length (concat ss)"
  using assms
proof (induction ss arbitrary: b)
  case (Cons x ss)
  have "ab_wf (AppendStartup fe b x)" "\<not> ab_is_activated (AppendStartup fe b x)"
    "ab_pending fe (AppendStartup fe b x) = ab_pending fe b @ ApplyGainI16 fe x (ab_gain b)"
    "ab_gain (AppendStartup fe b x) = ab_gain b"
    "ab_total (AppendStartup fe b x) = ab_total b + length x"
    using Cons.prems by (auto simp: ab_defs ab_wf_def ab_pending_def ApplyGainI16_append)
  then show ?case using Cons.IH [of "AppendStartup fe b x"]
    by (simp add: ApplyGainI16_append)
qed simp

lemma concat_map_gain:
  "concat (map (\<lambda>xs. ApplyGainI16 fe xs g) xss) = ApplyGainI16 fe (concat xss) g"
  by (induction xss) (simp_all add: ApplyGainI16_append)

section \<open>Slicing and merging\<close>

lemma slice_loop_facts:
  assumes "0 < m"
  shows "concat (slice_loop m seg offset) = drop offset seg
    \<and> (\<forall>s\<in>set (slice_loop m seg offset). s \<noteq> [] \<and> length s \<le> m)"
  using assms
proof (induction m seg offset rule: slice_loop.induct)
  case (1 m seg offset)
  show ?case
  proof (cases "offset < length seg")
    case True
    note IH = 1(1) [OF conjI [OF 1(2) True] 1(2)]
    have "take (min m (length seg - offset)) (drop offset seg) = take m (drop offset seg)"
      by (simp add: min_def)
    then have "take (min m (length seg - offset)) (drop offset seg) @ drop (offset + m) seg
        = drop offset seg"
      using append_take_drop_id [of m "drop offset seg"] by (simp add: add.commute)
    with IH True 1(2) show ?thesis
      by (auto simp: slice_loop.simps [of m seg offset] substr_def)
  next
    case False
    then show ?thesis by (simp add: slice_loop.simps [of m seg offset])
  qed
qed

lemma coalesce_step_facts:
  assumes "0 < m" and "\<forall>s\<in>set result. s \<noteq> [] \<and> length s \<le> m"
  shows "concat (coalesce_step m k result seg) = concat result @ seg"
    and "\<forall>s\<in>set (coalesce_step m k result seg). s \<noteq> [] \<and> length s \<le> m"
proof -
  have sl: "concat (slice_loop m seg 0) = seg"
    "\<forall>s\<in>set (slice_loop m seg 0). s \<noteq> [] \<and> length s \<le> m"
    using slice_loop_facts [OF assms(1), of seg 0] by simp_all
  have cl: "result \<noteq> [] \<Longrightarrow> concat (butlast result) @ last result = concat result"
    by (metis append_butlast_last_id concat.simps concat_append append_Nil2)
  show "concat (coalesce_step m k result seg) = concat result @ seg"
    using sl(1) cl by (auto simp: coalesce_step_def)
  show "\<forall>s\<in>set (coalesce_step m k result seg). s \<noteq> [] \<and> length s \<le> m"
    using sl(2) assms(2) by (auto simp: coalesce_step_def dest: in_set_butlastD)
qed

lemma coalesce_run:
  assumes "0 < m"
  shows "\<forall>s\<in>set result. s \<noteq> [] \<and> length s \<le> m \<Longrightarrow>
    concat (foldl (coalesce_step m k) result segs) = concat result @ concat segs
    \<and> (\<forall>s\<in>set (foldl (coalesce_step m k) result segs). s \<noteq> [] \<and> length s \<le> m)"
proof (induction segs arbitrary: result)
  case (Cons seg segs)
  note F = coalesce_step_facts [OF assms Cons.prems, of k seg]
  show ?case using Cons.IH [OF F(2)] F(1) by (auto simp only: foldl.simps concat.simps append_assoc)
qed simp

lemma concat_filter_ne: "concat (filter (\<lambda>s. s \<noteq> []) xss) = concat xss"
  by (induction xss) auto

section \<open>Properties\<close>

text \<open>
  C16: no sample is lost, duplicated or reordered on the way through the recording buffer. After
  a reset, start-up samples, one activation in either delivery mode, and any interleaving of
  appended samples and draws, the samples drawn followed by those still pending are the
  gain-adjusted input in order, and the sample count is the length of the whole input.
\<close>

theorem AudioRecordingBuffer_conserves:
  assumes "run_stream (ab_Append fe) ab_draw_op
      (Activate fe (foldl (AppendStartup fe) (ab_Reset b0 g) startup) buffered) ops = (out, b)"
  shows "out @ ab_pending fe b = ApplyGainI16 fe (concat startup @ concat (fed ops)) g
    \<and> ab_total b = length (concat startup @ concat (fed ops))"
proof -
  let ?b0 = "ab_Reset b0 g"
  let ?b1 = "foldl (AppendStartup fe) ?b0 startup"
  let ?b2 = "Activate fe ?b1 buffered"
  have r: "ab_wf ?b0" "\<not> ab_is_activated ?b0" "ab_pending fe ?b0 = []" "ab_gain ?b0 = g"
    "ab_total ?b0 = 0"
    by (simp_all add: ab_defs ab_wf_def ab_pending_def)
  note S = ab_startup_run [OF r(1,2), of fe startup]
  have A: "ab_wf ?b2" "ab_pending fe ?b2 = ApplyGainI16 fe (concat startup) g" "ab_gain ?b2 = g"
    "ab_total ?b2 = length (concat startup)"
    using S r by (simp_all add: ab_Activate_facts)
  have "out @ ab_pending fe b
      = ab_pending fe ?b2 @ concat (map (\<lambda>xs. ApplyGainI16 fe xs (ab_gain ?b2)) (fed ops))"
    using ab.stream_conserved [OF A(1) assms] by blast
  then have "out @ ab_pending fe b = ApplyGainI16 fe (concat startup @ concat (fed ops)) g"
    using A by (simp add: concat_map_gain ApplyGainI16_append)
  moreover have "ab_total b = length (concat startup @ concat (fed ops))"
    using ab_run_total [of fe ?b2 ops] assms A(4) by (simp add: length_concat)
  ultimately show ?thesis by blast
qed

text \<open>A unit rounding environment, for evaluating examples.\<close>

definition example_buffer :: AudioRecordingBuffer where
  "example_buffer = \<lparr>ab_gain = Finite 1, ab_is_buffered = False, ab_is_activated = False,
     ab_startup = [], ab_buffered = [], ab_streaming = [], ab_total = 0\<rparr>"

theorem AudioRecordingBuffer_conserves_witness:
  "\<exists>b. run_stream (ab_Append exact_env) ab_draw_op
      (Activate exact_env (foldl (AppendStartup exact_env) (ab_Reset example_buffer (Finite 1)) [[1, 2]])
        False) [Inl [3], Inr (PopChunk 2)] = ([1, 2], b)
    \<and> ab_pending exact_env b = [3] \<and> ab_total b = 3"
proof -
  let ?b = "\<lparr>ab_gain = Finite 1, ab_is_buffered = False, ab_is_activated = True,
     ab_startup = [], ab_buffered = [], ab_streaming = [3], ab_total = 3\<rparr> :: AudioRecordingBuffer"
  have run: "run_stream (ab_Append exact_env) ab_draw_op
      (Activate exact_env (foldl (AppendStartup exact_env) (ab_Reset example_buffer (Finite 1)) [[1, 2]])
        False) [Inl [3], Inr (PopChunk 2)] = ([1, 2], ?b)"
    by (simp add: ab_defs example_buffer_def ApplyGainI16_def PrepareGainAdjustedInput_def)
  show ?thesis
    using run AudioRecordingBuffer_conserves [OF run] by (intro exI [of _ ?b]) (simp add: ApplyGainI16_def)
qed

text \<open>
  Slicing and merging keeps the speech: for a positive sample rate and a maximal duration of
  at least one sample, the segments of the result concatenate to those of the input, none is
  empty and none is longer than the maximum; in the other cases only the empty ones are dropped.
\<close>

theorem CoalesceAndSliceSegments_correct:
  "concat (CoalesceAndSliceSegments fe segs rate max_sec min_sec) = concat segs
   \<and> list_all (\<lambda>s. s \<noteq> [] \<and> (rate \<le> 0 \<or> to_samples fe rate max_sec = 0
                     \<or> length s \<le> to_samples fe rate max_sec))
        (CoalesceAndSliceSegments fe segs rate max_sec min_sec)"
proof (cases "rate \<le> 0 \<or> segs = [] \<or> to_samples fe rate max_sec = 0")
  case True
  then have "CoalesceAndSliceSegments fe segs rate max_sec min_sec = filter (\<lambda>s. s \<noteq> []) segs"
    by (auto simp: CoalesceAndSliceSegments_def Let_def)
  then show ?thesis using True by (auto simp: concat_filter_ne list_all_iff)
next
  case False
  then show ?thesis
    using coalesce_run [of "to_samples fe rate max_sec" "[]" "to_samples fe rate min_sec" segs]
    by (simp add: CoalesceAndSliceSegments_def Let_def list_all_iff)
qed

text \<open>
  The 16-bit gain keeps the number of samples, is the identity at unity gain and on
  silence of length zero, and otherwise gives for every sample whose product is a number the
  truncated product, saturated at the limits of 16 bits (never wrapped).
\<close>

theorem ApplyGainI16_saturates:
  assumes "fp_mul (fe_round32 fe) (Finite (of_int (sint s))) g = Finite v"
  shows "length (ApplyGainI16 fe xs g) = length xs \<and> ApplyGainI16 fe xs (Finite 1) = xs
    \<and> sint (gain_sample fe g s) =
        (if v < - 32768 then - 32768 else if v > 32767 then 32767 else trunc_rat v)"
proof -
  have "trunc_rat (- 32768) = - 32768" "trunc_rat 32767 = 32767"
    by (simp_all add: trunc_rat_def)
  then have "sint (gain_sample fe g s) =
      (if v < - 32768 then - 32768 else if v > 32767 then 32767 else trunc_rat v)"
    using gain_sample_value [OF assms] by (auto simp: fp_clamp_def split: if_splits)
  then show ?thesis by (simp add: ApplyGainI16_map)
qed

theorem ApplyGainI16_saturates_witness:
  "fp_mul (fe_round32 exact_env) (Finite (of_int (sint (20000 :: i16)))) (Finite 2) = Finite 40000
   \<and> sint (gain_sample exact_env (Finite 2) 20000) = 32767"
proof -
  have "fp_mul (fe_round32 exact_env) (Finite (of_int (sint (20000 :: i16)))) (Finite 2) = Finite 40000"
    by (simp add: exact_env_def)
  from this ApplyGainI16_saturates [OF this] show ?thesis by simp
qed

end
