(* ===== verification/Interpolation.thy ===== *)
theory Interpolation
  imports String_Utils
begin

text \<open>
  \<open>src/common/utils/interpolation.h\<close>, \<open>interpolation.cpp\<close> and the interpolation of
  \<open>src/daemon/postprocess/prompt_template.cpp\<close>: placeholders \<open>${VAR}\<close>, \<open>{{key}}\<close>,
  \<open>{{scheme.key}}\<close> and \<open>{{scheme:key}}\<close>.

  The source scans with two flags that remember that no closing brace is left, and jumps from
  marker to marker. The reference \<open>interp_spec\<close> looks at every position and has no flags; the
  optimised loop is shown equal to it.
\<close>

section \<open>Placeholders\<close>

record Placeholder =
  ph_raw :: string
  ph_scheme :: string
  ph_key :: string

record ParsedPlaceholder =
  pp_placeholder :: Placeholder
  pp_length :: nat

type_synonym Resolver = "Placeholder \<Rightarrow> string option"

text \<open>The dollar syntax; the flag says whether the search for the brace failed.\<close>

definition try_dollar :: "string \<Rightarrow> bool \<Rightarrow> ParsedPlaceholder option \<times> bool" where
  "try_dollar remaining can_close =
     (if can_close \<and> starts_with remaining ''${'' then
        (case find_from (\<lambda>c. c = CHR ''}'') remaining 2 of
           None \<Rightarrow> (None, False)
         | Some e \<Rightarrow>
             (let raw = substr remaining 0 (e + 1);
                  inner = Trim (substr remaining 2 (e - 2))
              in if inner \<noteq> [] then
                   (Some \<lparr>pp_placeholder = \<lparr>ph_raw = raw, ph_scheme = ''env'', ph_key = inner\<rparr>,
                          pp_length = e + 1\<rparr>, can_close)
                 else (None, can_close)))
      else (None, can_close))"

text \<open>The scheme and key of a double-brace placeholder; \<open>None\<close> for an empty scheme or key.\<close>

definition scheme_key :: "string \<Rightarrow> (string \<times> string) option" where
  "scheme_key inner =
     (case find_index (\<lambda>c. c = CHR ''.'' \<or> c = CHR '':'') inner of
        None \<Rightarrow> (if inner \<noteq> [] then Some ([], inner) else None)
      | Some sep \<Rightarrow>
          (let scheme = Trim (substr inner 0 sep); key = Trim (drop (sep + 1) inner)
           in if scheme = [] \<or> key = [] then None else Some (scheme, key)))"

definition try_brace :: "string \<Rightarrow> bool \<Rightarrow> ParsedPlaceholder option \<times> bool" where
  "try_brace remaining can_close =
     (if can_close \<and> starts_with remaining ''{{'' then
        (case find_sub_from ''}}'' remaining 2 of
           None \<Rightarrow> (None, False)
         | Some e \<Rightarrow>
             (let raw = substr remaining 0 (e + 2);
                  inner = Trim (substr remaining 2 (e - 2))
              in if inner \<noteq> [] then
                   (case scheme_key inner of
                      None \<Rightarrow> (None, can_close)
                    | Some (scheme, key) \<Rightarrow>
                        (Some \<lparr>pp_placeholder = \<lparr>ph_raw = raw, ph_scheme = scheme, ph_key = key\<rparr>,
                               pp_length = e + 2\<rparr>, can_close))
                 else (None, can_close)))
      else (None, can_close))"

definition TryParsePlaceholder ::
    "string \<Rightarrow> bool \<Rightarrow> bool \<Rightarrow> ParsedPlaceholder option \<times> bool \<times> bool" where
  "TryParsePlaceholder remaining cd cb =
     (case try_dollar remaining cd of
        (Some p, cd') \<Rightarrow> (Some p, cd', cb)
      | (None, cd') \<Rightarrow>
          (case try_brace remaining cb of (r, cb') \<Rightarrow> (r, cd', cb')))"

section \<open>The scanning loop\<close>

definition HasInterpolation :: "string \<Rightarrow> bool" where
  "HasInterpolation s \<longleftrightarrow> find_sub ''${'' s \<noteq> None \<or> find_sub ''{{'' s \<noteq> None"

definition next_marker :: "string \<Rightarrow> nat \<Rightarrow> bool \<Rightarrow> bool \<Rightarrow> nat option" where
  "next_marker s i cd cb =
     (if cd \<and> cb then find_from (\<lambda>c. c = CHR ''$'' \<or> c = CHR ''{'') s i
      else if cd then find_from (\<lambda>c. c = CHR ''$'') s i
      else find_from (\<lambda>c. c = CHR ''{'') s i)"

lemma next_marker_Some: "next_marker s i cd cb = Some m \<Longrightarrow> i \<le> m \<and> m < length s"
  by (auto simp: next_marker_def split: if_splits dest: find_from_Some(1) find_from_Some(2))

lemma TryParse_length:
  assumes "TryParsePlaceholder s cd cb = (Some p, cd', cb')"
  shows "0 < pp_length p \<and> pp_length p \<le> length s"
proof -
  have "0 < pp_length q \<and> pp_length q \<le> length s"
    if "try_dollar s c = (Some q, c')" for c q c'
    using that by (auto simp: try_dollar_def Let_def split: if_splits option.splits
        dest: find_from_Some(2))
  moreover have "0 < pp_length q \<and> pp_length q \<le> length s"
    if "try_brace s c = (Some q, c')" for c q c'
    using that by (auto simp: try_brace_def Let_def find_sub_from_def
        split: if_splits option.splits prod.splits dest!: find_sub_SomeD)
  ultimately show ?thesis using assms
    by (auto simp: TryParsePlaceholder_def split: prod.splits option.splits)
qed

function Interp_loop :: "Resolver \<Rightarrow> string \<Rightarrow> nat \<Rightarrow> bool \<Rightarrow> bool \<Rightarrow> string" where
  "Interp_loop resolver s i cd cb =
     (if i < length s then
        (if \<not> cd \<and> \<not> cb then drop i s
         else case next_marker s i cd cb of
           None \<Rightarrow> drop i s
         | Some m \<Rightarrow>
             substr s i (m - i) @
             (case TryParsePlaceholder (drop m s) cd cb of
                (None, cd', cb') \<Rightarrow> s ! m # Interp_loop resolver s (m + 1) cd' cb'
              | (Some p, cd', cb') \<Rightarrow>
                  (case resolver (pp_placeholder p) of
                     None \<Rightarrow> s ! m # Interp_loop resolver s (m + 1) cd' cb'
                   | Some replacement \<Rightarrow>
                       replacement @ Interp_loop resolver s (m + pp_length p) cd' cb')))
      else [])"
  by pat_completeness auto
termination
  by (relation "measure (\<lambda>(r, s, i, cd, cb). length s - i)")
     (auto dest!: next_marker_Some TryParse_length [OF sym])

text \<open>The resolver may be an empty \<open>std::function\<close>.\<close>

definition Interpolate :: "string \<Rightarrow> Resolver option \<Rightarrow> string" where
  "Interpolate s resolver =
     (case resolver of
        None \<Rightarrow> s
      | Some r \<Rightarrow> (if s = [] then s else Interp_loop r s 0 True True))"

text \<open>\<open>key.c_str()\<close> ends at the first NUL byte; the environment is the argument \<open>getenv\<close>.\<close>

definition env_resolver :: "(string \<Rightarrow> string option) \<Rightarrow> Resolver" where
  "env_resolver getenv p =
     (if ph_scheme p = ''env'' then
        (case getenv (takeWhile (\<lambda>c. c \<noteq> CHR 0x00) (ph_key p)) of
           None \<Rightarrow> Some [] | Some v \<Rightarrow> Some v)
      else None)"

definition InterpolateEnv :: "(string \<Rightarrow> string option) \<Rightarrow> string \<Rightarrow> string" where
  "InterpolateEnv getenv s = Interpolate s (Some (env_resolver getenv))"

section \<open>Prompt templates\<close>

record PromptVars =
  pv_asr :: string
  pv_selected :: string
  pv_context :: string

definition IsFileUri :: "string \<Rightarrow> bool" where
  "IsFileUri s = starts_with s ''file:///''"

definition prompt_HasInterpolation :: "string \<Rightarrow> bool" where
  "prompt_HasInterpolation s \<longleftrightarrow> find_sub ''{{'' s \<noteq> None"

definition prompt_resolver :: "PromptVars \<Rightarrow> Resolver" where
  "prompt_resolver vars p =
     (if starts_with (ph_raw p) ''{{'' \<and> ph_scheme p = [] then
        (if ph_key p = ''asr'' then Some (pv_asr vars)
         else if ph_key p = ''selected'' then Some (pv_selected vars)
         else if ph_key p = ''context'' then Some (pv_context vars)
         else None)
      else None)"

definition prompt_Interpolate :: "string \<Rightarrow> PromptVars \<Rightarrow> string" where
  "prompt_Interpolate tpl vars = Interpolate tpl (Some (prompt_resolver vars))"

section \<open>The reference without flags and jumps\<close>

definition parse_at :: "string \<Rightarrow> ParsedPlaceholder option" where
  "parse_at s = fst (TryParsePlaceholder s True True)"

lemma parse_at_length: "parse_at s = Some p \<Longrightarrow> 0 < pp_length p \<and> pp_length p \<le> length s"
  using TryParse_length by (metis parse_at_def prod.collapse)

function interp_spec :: "Resolver \<Rightarrow> string \<Rightarrow> string" where
  "interp_spec r [] = []"
| "interp_spec r (c # s) =
     (case parse_at (c # s) of
        None \<Rightarrow> c # interp_spec r s
      | Some p \<Rightarrow>
          (case r (pp_placeholder p) of
             None \<Rightarrow> c # interp_spec r s
           | Some v \<Rightarrow> v @ interp_spec r (drop (pp_length p) (c # s))))"
  by pat_completeness auto
termination
  by (relation "measure (\<lambda>(r, s). length s)") (auto dest!: parse_at_length)

declare Interp_loop.simps [simp del] interp_spec.simps(2) [simp del]

lemma parse_at_no_marker:
  "\<not> starts_with s ''${'' \<Longrightarrow> \<not> starts_with s ''{{'' \<Longrightarrow> parse_at s = None"
  by (simp add: parse_at_def TryParsePlaceholder_def try_dollar_def try_brace_def)

lemma parse_at_other: "c \<noteq> CHR ''$'' \<Longrightarrow> c \<noteq> CHR ''{'' \<Longrightarrow> parse_at (c # s) = None"
  by (rule parse_at_no_marker) (auto simp: starts_with_def)

lemma interp_spec_skip:
  "n \<le> length s \<Longrightarrow> \<forall>j<n. parse_at (drop j s) = None \<Longrightarrow>
     interp_spec r s = take n s @ interp_spec r (drop n s)"
proof (induction n arbitrary: s)
  case 0
  then show ?case by simp
next
  case (Suc n)
  then obtain c t where s: "s = c # t" by (cases s) auto
  have "parse_at (c # t) = None" using Suc.prems(2) s by (metis drop0 zero_less_Suc)
  moreover have "\<forall>j<n. parse_at (drop j t) = None"
    using Suc.prems(2) s by (metis Suc_less_eq drop_Suc_Cons)
  ultimately show ?case using Suc s by (simp add: interp_spec.simps(2))
qed

text \<open>What a cleared flag promises: no closing brace is left.\<close>

definition flags_ok :: "string \<Rightarrow> bool \<Rightarrow> bool \<Rightarrow> bool" where
  "flags_ok s cd cb \<longleftrightarrow>
     (\<not> cd \<longrightarrow> CHR ''}'' \<notin> set (drop 2 s)) \<and> (\<not> cb \<longrightarrow> find_sub ''}}'' (drop 2 s) = None)"

lemma flags_ok_drop: "flags_ok s cd cb \<Longrightarrow> flags_ok (drop n s) cd cb"
proof -
  assume f: "flags_ok s cd cb"
  have "drop 2 (drop n s) = drop n (drop 2 s)" by (simp add: add.commute)
  moreover have "set (drop n (drop 2 s)) \<subseteq> set (drop 2 s)" by (rule set_drop_subset)
  ultimately show ?thesis
    using f find_sub_drop_None [of "''}}''" "drop 2 s" n]
    unfolding flags_ok_def by (metis subsetD)
qed

lemma TryParse_flags:
  assumes "flags_ok s cd cb"
  shows "fst (TryParsePlaceholder s cd cb) = parse_at s"
    and "TryParsePlaceholder s cd cb = (r, cd', cb') \<Longrightarrow> flags_ok s cd' cb'"
proof -
  have d: "fst (try_dollar s cd) = fst (try_dollar s True)"
  proof (cases cd)
    case False
    then have "find_from (\<lambda>c. c = CHR ''}'') s 2 = None"
      using assms by (auto simp: flags_ok_def find_from_None)
    then show ?thesis using False by (simp add: try_dollar_def)
  qed simp
  have b: "fst (try_brace s cb) = fst (try_brace s True)"
  proof (cases cb)
    case False
    then have "find_sub_from ''}}'' s 2 = None"
      using assms by (auto simp: flags_ok_def find_sub_from_def)
    then show ?thesis using False by (simp add: try_brace_def)
  qed simp
  show "fst (TryParsePlaceholder s cd cb) = parse_at s"
    using d b by (auto simp: TryParsePlaceholder_def parse_at_def split: prod.splits option.splits)
  have d': "cd' \<or> CHR ''}'' \<notin> set (drop 2 s)" if "try_dollar s cd = (r, cd')" for r cd'
    using that assms
    by (auto simp: try_dollar_def flags_ok_def find_from_None Let_def
        split: if_splits option.splits)
  have b': "cb' \<or> find_sub ''}}'' (drop 2 s) = None" if "try_brace s cb = (r, cb')" for r cb'
    using that assms starts_with_length [of s "''{{''"]
    by (auto simp: try_brace_def flags_ok_def find_sub_from_def Let_def
        split: if_splits option.splits prod.splits)
  show "TryParsePlaceholder s cd cb = (r, cd', cb') \<Longrightarrow> flags_ok s cd' cb'"
    using d' b' assms
    by (fastforce simp: TryParsePlaceholder_def flags_ok_def split: prod.splits option.splits)
qed

lemma next_marker_skip:
  assumes "flags_ok (drop i s) cd cb" and "cd \<or> cb"
    and "case next_marker s i cd cb of None \<Rightarrow> n = length s - i | Some m \<Rightarrow> n = m - i"
    and "i < length s"
  shows "n \<le> length (drop i s) \<and> (\<forall>j<n. parse_at (drop j (drop i s)) = None)"
proof -
  let ?hit = "\<lambda>c. cd \<and> c = CHR ''$'' \<or> cb \<and> c = CHR ''{''"
  have nm: "next_marker s i cd cb = find_from ?hit s i"
    using assms(2) by (cases cd; cases cb) (simp_all add: next_marker_def)
  have n: "n \<le> length (drop i s) \<and> (\<forall>x\<in>set (take n (drop i s)). \<not> ?hit x)"
  proof (cases "find_from ?hit s i")
    case None
    with assms(3) nm have "n = length s - i" by simp
    then show ?thesis using None by (simp add: find_from_None)
  next
    case (Some m)
    with assms(3) nm have "n = m - i" by simp
    then show ?thesis using find_from_Some [OF Some] by simp
  qed
  moreover have "parse_at (drop j (drop i s)) = None" if j: "j < n" for j
  proof -
    have jl: "j < length (drop i s)" using j n by linarith
    let ?t = "drop j (drop i s)"
    have t: "?t = drop i s ! j # drop (Suc j) (drop i s)"
      using Cons_nth_drop_Suc [OF jl] by simp
    have "drop i s ! j \<in> set (take n (drop i s))"
      using j jl by (metis in_set_conv_nth length_take min_less_iff_conj nth_take)
    then have nh: "\<not> ?hit (drop i s ! j)" using n by blast
    have fo: "flags_ok ?t cd cb" using assms(1) by (rule flags_ok_drop)
    then have "parse_at ?t = fst (TryParsePlaceholder ?t cd cb)" by (simp add: TryParse_flags(1))
    also have "\<dots> = None"
      using nh by (subst (1) t) (auto simp: TryParsePlaceholder_def try_dollar_def try_brace_def
          starts_with_def)
    finally show ?thesis .
  qed
  ultimately show ?thesis by blast
qed

lemma interp_spec_at:
  assumes "t \<noteq> []"
  shows "interp_spec r t =
    (case parse_at t of
       None \<Rightarrow> hd t # interp_spec r (tl t)
     | Some q \<Rightarrow> (case r (pp_placeholder q) of
         None \<Rightarrow> hd t # interp_spec r (tl t)
       | Some v \<Rightarrow> v @ interp_spec r (drop (pp_length q) t)))"
  using assms by (cases t) (auto simp: interp_spec.simps(2) split: option.splits)

lemma interp_spec_inert:
  assumes "\<forall>j\<le>length s. parse_at (drop j s) = None"
  shows "interp_spec r s = s"
  using interp_spec_skip [of "length s" s r] assms by simp

lemma parse_at_closed_flags:
  "flags_ok s False False \<Longrightarrow> parse_at s = None"
  using TryParse_flags(1) [of s False False]
  by (simp add: TryParsePlaceholder_def try_dollar_def try_brace_def)

lemma Interp_loop_spec:
  "flags_ok (drop i s) cd cb \<Longrightarrow> Interp_loop r s i cd cb = interp_spec r (drop i s)"
proof (induction r s i cd cb rule: Interp_loop.induct)
  case (1 r s i cd cb)
  show ?case
  proof (cases "i < length s")
    case False
    then show ?thesis by (simp add: Interp_loop.simps)
  next
    case i: True
    show ?thesis
    proof (cases "cd \<or> cb")
      case False
      then have "flags_ok (drop i s) False False" using 1(4) by simp
      then have "\<forall>j. parse_at (drop j (drop i s)) = None"
        using parse_at_closed_flags flags_ok_drop by blast
      then show ?thesis using False i
        by (subst Interp_loop.simps) (simp add: interp_spec_inert)
    next
      case cc: True
      show ?thesis
      proof (cases "next_marker s i cd cb")
        case None
        have "interp_spec r (drop i s) = drop i s"
          using next_marker_skip [OF 1(4) cc _ i, of "length s - i"] None
            interp_spec_skip [of "length s - i" "drop i s" r] by simp
        then show ?thesis using None cc i by (subst Interp_loop.simps) simp
      next
        case (Some m)
        note m = next_marker_Some [OF Some]
        have skip: "interp_spec r (drop i s) = substr s i (m - i) @ interp_spec r (drop m s)"
          using next_marker_skip [OF 1(4) cc _ i, of "m - i"] Some m
            interp_spec_skip [of "m - i" "drop i s" r] by (simp add: substr_def)
        have fo: "flags_ok (drop m s) cd cb"
          using flags_ok_drop [OF 1(4), of "m - i"] m by simp
        obtain p cd' cb' where tp: "TryParsePlaceholder (drop m s) cd cb = (p, cd', cb')"
          by (metis prod_cases3)
        note fo' = TryParse_flags(2) [OF fo tp] and pa = TryParse_flags(1) [OF fo]
        have next1: "flags_ok (drop (m + 1) s) cd' cb'"
          using flags_ok_drop [OF fo', of 1] by (simp add: add.commute)
        have nextp: "flags_ok (drop (m + k) s) cd' cb'" for k
          using flags_ok_drop [OF fo', of k] by (simp add: add.commute)
        have at: "interp_spec r (drop m s) =
          (case p of None \<Rightarrow> s ! m # interp_spec r (drop (m + 1) s)
           | Some q \<Rightarrow> (case r (pp_placeholder q) of
               None \<Rightarrow> s ! m # interp_spec r (drop (m + 1) s)
             | Some v \<Rightarrow> v @ interp_spec r (drop (m + pp_length q) s)))"
          using interp_spec_at [of "drop m s" r] pa tp m
          by (auto simp: hd_drop_conv_nth tl_drop drop_Suc add.commute split: option.splits)
        note IH = 1(1-3) [OF i _ Some tp [symmetric]]
        show ?thesis
          using i cc Some tp skip at IH next1 nextp
          by (subst Interp_loop.simps) (auto split: option.splits)
      qed
    qed
  qed
qed

lemma Interpolate_spec: "Interpolate s (Some r) = interp_spec r s"
proof -
  have "flags_ok (drop 0 s) True True" by (simp add: flags_ok_def)
  then have "Interp_loop r s 0 True True = interp_spec r s"
    using Interp_loop_spec [of 0 s True True r] by simp
  then show ?thesis by (simp add: Interpolate_def)
qed

section \<open>Properties\<close>

text \<open>
  C33: the scanning loop with its two remembered flags and its jumps from marker to marker
  computes the same text as the reference that tries to parse a placeholder at every position;
  in particular a cleared flag never hides a placeholder that could still be closed.
\<close>

theorem Interpolate_equiv_spec: "Interpolate s (Some r) = interp_spec r s"
  by (rule Interpolate_spec)

lemma interp_spec_unresolved:
  "(\<And>p. r p = None) \<Longrightarrow> interp_spec r s = s"
  by (induction s) (auto simp: interp_spec.simps(2) split: option.splits)

lemma HasInterpolation_drop: "\<not> HasInterpolation s \<Longrightarrow> \<not> HasInterpolation (drop k s)"
  by (auto simp: HasInterpolation_def dest: find_sub_drop_None [of _ _ k])

lemma find_sub_starts: "starts_with s p \<Longrightarrow> p \<noteq> [] \<Longrightarrow> find_sub p s \<noteq> None"
  by (cases s) (auto simp: starts_with_def)

lemma interp_spec_plain: "\<not> HasInterpolation s \<Longrightarrow> interp_spec r s = s"
proof (rule interp_spec_inert, intro allI impI)
  fix j
  assume "\<not> HasInterpolation s"
  then have "\<not> HasInterpolation (drop j s)" by (rule HasInterpolation_drop)
  then show "parse_at (drop j s) = None"
    by (intro parse_at_no_marker) (auto simp: HasInterpolation_def dest!: find_sub_starts)
qed

text \<open>
  A placeholder the resolver does not handle is kept verbatim (so a resolver that handles
  none leaves every text as it is), and a text without \<open>${\<close> and \<open>{{\<close> is unchanged by any
  resolver.
\<close>

theorem Interpolate_preserves:
  "Interpolate s (Some (\<lambda>p. None)) = s
   \<and> (HasInterpolation s \<or> Interpolate s (Some r) = s)"
  using interp_spec_plain [of s r] by (auto simp: Interpolate_spec interp_spec_unresolved)

lemma parse_at_dollar:
  assumes "CHR ''}'' \<notin> set v" and "Trim v \<noteq> []"
  shows "parse_at (''${'' @ v @ ''}'' @ post) =
    Some \<lparr>pp_placeholder = \<lparr>ph_raw = ''${'' @ v @ ''}'', ph_scheme = ''env'', ph_key = Trim v\<rparr>,
          pp_length = length v + 3\<rparr>"
proof -
  let ?s = "''${'' @ v @ ''}'' @ post"
  have "find_index (\<lambda>c. c = CHR ''}'') (v @ ''}'' @ post) = Some (length v)"
    using takeWhile_upto_delim [OF assms(1), of post] by (simp add: find_index_takeWhile)
  then have f: "find_from (\<lambda>c. c = CHR ''}'') ?s 2 = Some (length v + 2)"
    by (simp add: find_from_def)
  have "starts_with ?s ''${''" by (simp add: starts_with_def)
  then show ?thesis using assms(2)
    by (simp add: parse_at_def TryParsePlaceholder_def try_dollar_def f substr_def Let_def
        del: append_Cons)
qed

lemma interp_spec_prefix:
  assumes "\<forall>c\<in>set pre. c \<noteq> CHR ''$'' \<and> c \<noteq> CHR ''{''"
  shows "interp_spec r (pre @ s) = pre @ interp_spec r s"
  using assms by (induction pre) (auto simp: interp_spec.simps(2) parse_at_other)

lemma interp_spec_placeholder:
  assumes "parse_at (t @ post) = Some p" and "pp_length p = length t"
    and "r (pp_placeholder p) = Some v"
  shows "interp_spec r (t @ post) = v @ interp_spec r post"
proof -
  have "t \<noteq> []" using parse_at_length [OF assms(1)] assms(2) by auto
  then show ?thesis using assms interp_spec_at [of "t @ post" r] by simp
qed

text \<open>
  \<open>InterpolateEnv\<close> replaces \<open>${VAR}\<close> by the value of the trimmed variable name, or by the
  empty string when it is unset, keeps the text before it, and goes on after the brace.
\<close>

theorem InterpolateEnv_dollar:
  assumes "\<forall>c\<in>set pre. c \<noteq> CHR ''$'' \<and> c \<noteq> CHR ''{''"
    and "CHR ''}'' \<notin> set v" and "Trim v \<noteq> []" and "CHR 0x00 \<notin> set v"
  shows "InterpolateEnv getenv (pre @ ''${'' @ v @ ''}'' @ post) =
    pre @ (case getenv (Trim v) of None \<Rightarrow> [] | Some x \<Rightarrow> x) @ InterpolateEnv getenv post"
proof -
  have z: "takeWhile (\<lambda>c. c \<noteq> CHR 0x00) (Trim v) = Trim v"
    using assms(4) Trim_subset [of v] by (auto simp: takeWhile_eq_all_conv)
  let ?val = "case getenv (Trim v) of None \<Rightarrow> [] | Some x \<Rightarrow> x"
  let ?ph = "\<lparr>ph_raw = ''${'' @ v @ ''}'', ph_scheme = ''env'', ph_key = Trim v\<rparr>"
  let ?p = "\<lparr>pp_placeholder = ?ph, pp_length = length v + 3\<rparr>"
  have "parse_at ((''${'' @ v @ ''}'') @ post) = Some ?p"
    using parse_at_dollar [OF assms(2,3), of post] by simp
  moreover have "pp_length ?p = length (''${'' @ v @ ''}'')" by simp
  moreover have "env_resolver getenv (pp_placeholder ?p) = Some ?val"
    by (cases "getenv (Trim v)") (simp_all add: env_resolver_def z)
  ultimately have "interp_spec (env_resolver getenv) ((''${'' @ v @ ''}'') @ post) =
      ?val @ interp_spec (env_resolver getenv) post"
    by (rule interp_spec_placeholder)
  then show ?thesis
    by (simp add: InterpolateEnv_def Interpolate_spec interp_spec_prefix [OF assms(1)])
qed

theorem InterpolateEnv_dollar_witness:
  "InterpolateEnv (\<lambda>k. if k = ''KEY'' then Some ''sk'' else None) (''a '' @ ''${'' @ '' KEY'' @ ''}'' @ ''z'')
   = ''a '' @ ''sk'' @ InterpolateEnv (\<lambda>k. if k = ''KEY'' then Some ''sk'' else None) ''z''"
  using InterpolateEnv_dollar [of "''a ''" "'' KEY''" "\<lambda>k. if k = ''KEY'' then Some ''sk'' else None" "''z''"]
  by (simp add: Trim_def substr_def is_space_def)

end
