(* ===== verification/Version_Utils.thy ===== *)
theory Version_Utils
  imports String_Utils
begin

text \<open>
  \<open>src/common/utils/version_utils.h\<close> and \<open>version_utils.cpp\<close>: semantic versions, their parser
  and the evaluation of constraints such as \<open>>=2.3.0, <3.0.0\<close>. The defaulted \<open><=>\<close> of
  the struct is the lexicographic order, given to the library as a \<open>linorder\<close> instance. The
  decimal printer \<open>std::to_string\<close> is here too, because the configuration migration prints the
  versions that this component parses.
\<close>

section \<open>Versions and their order\<close>

datatype SemanticVersion = SemanticVersion (major: int) (minor: int) (patch: int)

lemma SemanticVersion_eq_iff:
  "a = b \<longleftrightarrow> major a = major b \<and> minor a = minor b \<and> patch a = patch b"
  by (cases a; cases b) simp

instantiation SemanticVersion :: linorder
begin

definition less_SemanticVersion :: "SemanticVersion \<Rightarrow> SemanticVersion \<Rightarrow> bool" where
  "less_SemanticVersion a b \<longleftrightarrow>
     major a < major b \<or> major a = major b \<and>
       (minor a < minor b \<or> minor a = minor b \<and> patch a < patch b)"

definition less_eq_SemanticVersion :: "SemanticVersion \<Rightarrow> SemanticVersion \<Rightarrow> bool" where
  "less_eq_SemanticVersion a b \<longleftrightarrow> a < b \<or> a = (b :: SemanticVersion)"

instance
  by standard
     (auto simp: less_SemanticVersion_def less_eq_SemanticVersion_def SemanticVersion_eq_iff)

end

section \<open>Parsing\<close>

text \<open>One numeric field: the whole segment is a non-negative \<open>int\<close>.\<close>

definition parse_field :: "string \<Rightarrow> int option" where
  "parse_field seg =
     (case from_chars int32_min int32_max seg of
        None \<Rightarrow> None
      | Some (v, n) \<Rightarrow> (if n \<noteq> length seg \<or> v < 0 then None else Some v))"

text \<open>The body of \<open>Parse\<close> after the split: two or three fields, the third up to a dash.\<close>

definition parse_segments :: "string list \<Rightarrow> SemanticVersion option" where
  "parse_segments segments =
     (if length segments < 2 \<or> length segments > 3 then None
      else case parse_field (segments ! 0) of
        None \<Rightarrow> None
      | Some ma \<Rightarrow>
          (case parse_field (segments ! 1) of
             None \<Rightarrow> None
           | Some mi \<Rightarrow>
               (if length segments = 3 then
                  (case parse_field (cut_at CHR ''-'' (segments ! 2)) of
                     None \<Rightarrow> None
                   | Some pa \<Rightarrow> Some (SemanticVersion ma mi pa))
                else Some (SemanticVersion ma mi 0))))"

definition version_Parse :: "string \<Rightarrow> SemanticVersion option" where
  "version_Parse str0 =
     (let str1 = Trim str0;
          str = (if starts_with str1 ''v'' \<or> starts_with str1 ''V'' then drop 1 str1 else str1)
      in parse_segments (Split str CHR ''.''))"

section \<open>Constraints\<close>

datatype Op = Equal | Greater | GreaterEqual | Less | LessEqual

fun compare_op :: "Op \<Rightarrow> SemanticVersion \<Rightarrow> SemanticVersion \<Rightarrow> bool" where
  "compare_op Equal c t = (c = t)"
| "compare_op Greater c t = (c > t)"
| "compare_op GreaterEqual c t = (c \<ge> t)"
| "compare_op Less c t = (c < t)"
| "compare_op LessEqual c t = (c \<le> t)"

definition split_op :: "string \<Rightarrow> Op \<times> string" where
  "split_op token =
     (if starts_with token ''>='' then (GreaterEqual, drop 2 token)
      else if starts_with token ''<='' then (LessEqual, drop 2 token)
      else if starts_with token ''>'' then (Greater, drop 1 token)
      else if starts_with token ''<'' then (Less, drop 1 token)
      else if starts_with token ''='' then (Equal, drop 1 token)
      else (Equal, token))"

definition CheckSingleConstraint :: "SemanticVersion \<Rightarrow> string \<Rightarrow> bool" where
  "CheckSingleConstraint current token0 =
     (let token = Trim token0 in
      if token = [] \<or> token = ''*'' then True
      else let (op, rest) = split_op token in
        case version_Parse (Trim rest) of
          None \<Rightarrow> False
        | Some target \<Rightarrow> compare_op op current target)"

definition Satisfies :: "string \<Rightarrow> string \<Rightarrow> bool" where
  "Satisfies current_ver constraint0 =
     (let constraint = Trim constraint0 in
      if constraint = [] \<or> constraint = ''*'' then True
      else case version_Parse current_ver of
        None \<Rightarrow> False
      | Some cur \<Rightarrow> list_all (CheckSingleConstraint cur) (Split constraint CHR '',''))"

section \<open>Printing\<close>

definition digit_char :: "nat \<Rightarrow> char" where
  "digit_char d = char_of (48 + d)"

fun to_string_nat :: "nat \<Rightarrow> string" where
  "to_string_nat n =
     (if n < 10 then [digit_char n] else to_string_nat (n div 10) @ [digit_char (n mod 10)])"

declare to_string_nat.simps [simp del]

definition to_string :: "int \<Rightarrow> string" where
  "to_string i = (if i < 0 then CHR ''-'' # to_string_nat (nat (- i)) else to_string_nat (nat i))"

definition show_version :: "SemanticVersion \<Rightarrow> string" where
  "show_version v = to_string (major v) @ ''.'' @ to_string (minor v) @ ''.'' @ to_string (patch v)"

definition version_ok :: "SemanticVersion \<Rightarrow> bool" where
  "version_ok v \<longleftrightarrow> 0 \<le> major v \<and> major v \<le> int32_max \<and> 0 \<le> minor v \<and> minor v \<le> int32_max
     \<and> 0 \<le> patch v \<and> patch v \<le> int32_max"

section \<open>Digits\<close>

lemma digit_char_digit [simp]: "d < 10 \<Longrightarrow> is_digit (digit_char d)"
  by (simp add: is_digit_def digit_char_def)

lemma digit_char_value [simp]: "d < 10 \<Longrightarrow> digit_value (digit_char d) = int d"
  by (simp add: digit_value_def digit_char_def)

lemma digits_value_snoc: "digits_value acc (ds @ [c]) = 10 * digits_value acc ds + digit_value c"
  by (induction ds arbitrary: acc) auto

lemma to_string_nat_digits: "\<forall>c\<in>set (to_string_nat n). is_digit c"
proof (induction n rule: to_string_nat.induct)
  case (1 n)
  then show ?case by (subst to_string_nat.simps) auto
qed

lemma to_string_nat_ne [simp]: "to_string_nat n \<noteq> []"
  by (subst to_string_nat.simps) simp

lemma to_string_nat_value: "digits_value 0 (to_string_nat n) = int n"
proof (induction n rule: to_string_nat.induct)
  case (1 n)
  show ?case
  proof (cases "n < 10")
    case True
    then show ?thesis by (simp add: to_string_nat.simps [of n])
  next
    case False
    with 1 have "digits_value 0 (to_string_nat (n div 10)) = int (n div 10)" by simp
    with False show ?thesis
      by (simp add: to_string_nat.simps [of n] digits_value_snoc zdiv_int zmod_int)
  qed
qed

lemma digit_not_special:
  "is_digit c \<Longrightarrow> \<not> is_space c \<and> c \<notin> set ''-.,vV*<>=''"
  by (auto simp: is_digit_def is_space_def)

lemma not_starts_minus: "\<forall>c\<in>set s. is_digit c \<Longrightarrow> \<not> starts_with s ''-''"
  by (cases s) (auto simp: starts_with_def dest: digit_not_special)

lemma parse_field_to_string:
  assumes "0 \<le> i" and "i \<le> int32_max"
  shows "parse_field (to_string i) = Some i"
proof -
  let ?s = "to_string_nat (nat i)"
  have all: "\<forall>c\<in>set ?s. is_digit c" by (rule to_string_nat_digits)
  have s: "to_string i = ?s" using assms by (simp add: to_string_def)
  have tw: "takeWhile is_digit ?s = ?s" using all by (simp add: takeWhile_eq_all_conv)
  show ?thesis using assms
    by (simp add: parse_field_def from_chars_def s tw not_starts_minus [OF all]
        to_string_nat_value int32_min_def int32_max_def Let_def)
qed

lemma to_string_chars: "c \<in> set (to_string i) \<Longrightarrow> 0 \<le> i \<Longrightarrow> is_digit c"
  using to_string_nat_digits by (simp add: to_string_def)

lemma show_version_chars:
  "version_ok v \<Longrightarrow> c \<in> set (show_version v) \<Longrightarrow> is_digit c \<or> c = CHR ''.''"
  by (auto simp: show_version_def version_ok_def dest: to_string_chars)

lemma show_version_hd: "version_ok v \<Longrightarrow> is_digit (hd (show_version v)) \<and> show_version v \<noteq> []"
  using to_string_nat_digits [of "nat (major v)"] hd_in_set [OF to_string_nat_ne [of "nat (major v)"]]
  by (auto simp: show_version_def version_ok_def to_string_def)

lemma Trim_show_version: "version_ok v \<Longrightarrow> Trim (show_version v) = show_version v"
  by (rule Trim_no_space)
     (auto dest!: show_version_chars dest: digit_not_special simp: is_space_def)

lemma show_version_not_prefix:
  assumes "version_ok v" and "c \<in> set ''-.,vV*<>=''"
  shows "\<not> starts_with (show_version v) [c]"
  using show_version_hd [OF assms(1)] digit_not_special assms(2)
  by (cases "show_version v") (auto simp: starts_with_def)

lemma Split_show_version:
  assumes "version_ok v"
  shows "Split (show_version v) CHR ''.'' =
    [to_string (major v), to_string (minor v), to_string (patch v)]"
proof -
  have n: "0 \<le> i \<Longrightarrow> CHR ''.'' \<notin> set (to_string i)" for i
    by (auto dest: to_string_chars simp: is_digit_def)
  show ?thesis using assms n
    by (auto simp: Split_spec show_version_def version_ok_def split_spec_append split_spec_none)
qed

lemma parse_segments_show:
  assumes ok: "version_ok v"
  shows "parse_segments (Split (show_version v) CHR ''.'') = Some v"
proof -
  have nd: "find_index (\<lambda>c. c = CHR ''-'') (to_string (patch v)) = None"
    using ok by (auto simp: version_ok_def is_digit_def dest!: to_string_chars)
  show ?thesis using ok
    by (simp add: parse_segments_def cut_at_def Split_show_version nd version_ok_def
        parse_field_to_string del: find_index_None)
qed

lemma parse_show_version:
  assumes ok: "version_ok v"
  shows "version_Parse (show_version v) = Some v"
proof -
  have nv: "\<not> starts_with (show_version v) ''v''" "\<not> starts_with (show_version v) ''V''"
    using show_version_not_prefix [OF ok] by auto
  then show ?thesis
    by (simp add: version_Parse_def Trim_show_version [OF ok] parse_segments_show [OF ok])
qed

lemma Trim_op_version:
  assumes "version_ok v" and "p \<noteq> []" and "\<not> is_space (hd p)"
  shows "Trim (p @ show_version v) = p @ show_version v"
proof (rule Trim_ident)
  have "last (show_version v) \<in> set (show_version v)"
    using show_version_hd [OF assms(1)] by simp
  then have "\<not> is_space (last (show_version v))"
    using show_version_chars [OF assms(1)] digit_not_special by (fastforce simp: is_space_def)
  then show "p @ show_version v = [] \<or> \<not> is_space (hd (p @ show_version v))
      \<and> \<not> is_space (last (p @ show_version v))"
    using assms show_version_hd [OF assms(1)] by simp
qed

lemma version_ok_single_constraint:
  assumes "version_ok w" and "split_op (p @ show_version w) = (op, show_version w)"
    and "p \<noteq> []" and "\<not> is_space (hd p)"
  shows "CheckSingleConstraint v (p @ show_version w) = compare_op op v w"
proof -
  have "p @ show_version w \<noteq> ''*''"
    using assms(3) show_version_hd [OF assms(1)] by (cases p) auto
  then show ?thesis
    using assms show_version_hd [OF assms(1)]
    by (simp add: CheckSingleConstraint_def Trim_op_version Trim_show_version parse_show_version)
qed

lemma split_op_prefix:
  assumes "version_ok w"
  shows "split_op (''>='' @ show_version w) = (GreaterEqual, show_version w)"
    and "split_op (''<='' @ show_version w) = (LessEqual, show_version w)"
    and "split_op (''>'' @ show_version w) = (Greater, show_version w)"
    and "split_op (''<'' @ show_version w) = (Less, show_version w)"
    and "split_op (''='' @ show_version w) = (Equal, show_version w)"
  using show_version_not_prefix [OF assms, of "CHR ''=''"] show_version_hd [OF assms]
  by (auto simp: split_op_def starts_with_def)

lemma Satisfies_op_version:
  assumes "version_ok v" and "version_ok w"
  shows "Satisfies (show_version v) (''>='' @ show_version w) \<longleftrightarrow> v \<ge> w"
    and "Satisfies (show_version v) (''<='' @ show_version w) \<longleftrightarrow> v \<le> w"
    and "Satisfies (show_version v) (''>'' @ show_version w) \<longleftrightarrow> v > w"
    and "Satisfies (show_version v) (''<'' @ show_version w) \<longleftrightarrow> v < w"
    and "Satisfies (show_version v) (''='' @ show_version w) \<longleftrightarrow> v = w"
proof -
  have main: "Satisfies (show_version v) (p @ show_version w) \<longleftrightarrow> compare_op op v w"
    if p: "split_op (p @ show_version w) = (op, show_version w)" "p \<noteq> []" "\<not> is_space (hd p)"
      "CHR '','' \<notin> set p" "p @ show_version w \<noteq> ''*''" for p op
  proof -
    have "CHR '','' \<notin> set (p @ show_version w)"
      using p(4) show_version_chars [OF assms(2)] digit_not_special by fastforce
    then have "Split (p @ show_version w) CHR '','' = [p @ show_version w]"
      by (simp add: Split_spec split_spec_none)
    then show ?thesis
      using p version_ok_single_constraint [OF assms(2) p(1-3), of v]
      by (simp add: Satisfies_def Trim_op_version [OF assms(2)] parse_show_version [OF assms(1)])
  qed
  note ops = split_op_prefix [OF assms(2)]
  show "Satisfies (show_version v) (''>='' @ show_version w) \<longleftrightarrow> v \<ge> w"
    using main [OF ops(1)] by (simp add: is_space_def)
  show "Satisfies (show_version v) (''<='' @ show_version w) \<longleftrightarrow> v \<le> w"
    using main [OF ops(2)] by (simp add: is_space_def)
  show "Satisfies (show_version v) (''>'' @ show_version w) \<longleftrightarrow> v > w"
    using main [OF ops(3)] by (simp add: is_space_def)
  show "Satisfies (show_version v) (''<'' @ show_version w) \<longleftrightarrow> v < w"
    using main [OF ops(4)] by (simp add: is_space_def)
  show "Satisfies (show_version v) (''='' @ show_version w) \<longleftrightarrow> v = w"
    using main [OF ops(5)] by (simp add: is_space_def)
qed

section \<open>Properties\<close>

text \<open>
  A printed version parses back to itself, for every version whose three fields are
  non-negative 32-bit integers, with or without the prefix \<open>v\<close>.
\<close>

theorem version_Parse_roundtrip:
  assumes "version_ok v"
  shows "version_Parse (show_version v) = Some v
    \<and> version_Parse (''v'' @ show_version v) = Some v"
proof
  show "version_Parse (show_version v) = Some v" using assms by (rule parse_show_version)
  have "Trim (''v'' @ show_version v) = ''v'' @ show_version v"
    using assms by (intro Trim_op_version) (auto simp: is_space_def)
  then show "version_Parse (''v'' @ show_version v) = Some v"
    by (simp add: version_Parse_def starts_with_def parse_segments_show [OF assms])
qed

theorem version_Parse_roundtrip_witness:
  "version_ok (SemanticVersion 2 4 1)
   \<and> version_Parse (show_version (SemanticVersion 2 4 1)) = Some (SemanticVersion 2 4 1)"
  using version_Parse_roundtrip [of "SemanticVersion 2 4 1"]
  by (simp add: version_ok_def int32_max_def)

text \<open>
  A constraint made of a comparison operator and a version holds of a version exactly
  when the comparison does, in the lexicographic order of the three fields.
\<close>

theorem Satisfies_operator:
  assumes "version_ok v" and "version_ok w"
  shows "(Satisfies (show_version v) (''>='' @ show_version w) \<longleftrightarrow> v \<ge> w)
    \<and> (Satisfies (show_version v) (''<='' @ show_version w) \<longleftrightarrow> v \<le> w)
    \<and> (Satisfies (show_version v) (''>'' @ show_version w) \<longleftrightarrow> v > w)
    \<and> (Satisfies (show_version v) (''<'' @ show_version w) \<longleftrightarrow> v < w)
    \<and> (Satisfies (show_version v) (''='' @ show_version w) \<longleftrightarrow> v = w)"
  by (intro conjI Satisfies_op_version [OF assms])

theorem Satisfies_operator_witness:
  "version_ok (SemanticVersion 2 10 0) \<and> version_ok (SemanticVersion 2 4 0)
   \<and> Satisfies (show_version (SemanticVersion 2 10 0)) (''>='' @ show_version (SemanticVersion 2 4 0))"
  using Satisfies_operator [of "SemanticVersion 2 10 0" "SemanticVersion 2 4 0"]
  by (simp add: version_ok_def int32_max_def less_eq_SemanticVersion_def less_SemanticVersion_def)

end
