(* ===== verification/Process_Utils.thy ===== *)
theory Process_Utils
  imports Interpolation Json_Access Version_Utils
begin

text \<open>
  The process module (\<open>common/utils/process_utils.h\<close> and \<open>.cpp\<close>) as far as it computes: the
  command line and environment of a child (\<open>BuildCmd\<close>, \<open>BuildEnvMap\<close>), the extraction of lines from
  an incrementally filled output buffer (\<open>DrainLinesFromBuffer\<close>), and the identity of a process from
  its \<open>/proc/<pid>/stat\<close> line; and the clock arithmetic of \<open>common/utils/time_utils.h\<close>. Spawning,
  polling and signals are the operating system's; \<open>Run\<close> is a parameter of the components that call it.
\<close>

section \<open>Commands\<close>

record CommandSpec =
  sp_command :: string
  sp_args :: "string list"
  sp_env :: "string smap"
  sp_timeout_ms :: int

record CommandResult =
  re_exit_code :: int
  re_timed_out :: bool
  re_launch_failed :: bool
  re_stdout :: string
  re_stderr :: string

definition BuildCmd :: "CommandSpec \<Rightarrow> string list" where
  "BuildCmd spec = sp_command spec # sp_args spec"

definition put_entry :: "string smap \<Rightarrow> string \<Rightarrow> string smap" where
  "put_entry m entry =
     (case SplitOnce entry CHR ''='' of None \<Rightarrow> m | Some (k, v) \<Rightarrow> smap_put k v m)"

text \<open>\<open>environ\<close> is the parent's environment, \<open>getenv\<close> the lookup that the interpolation uses.\<close>

definition BuildEnvMap :: "string list \<Rightarrow> (string \<Rightarrow> string option) \<Rightarrow> CommandSpec \<Rightarrow> string smap" where
  "BuildEnvMap environ getenv spec =
     foldl (\<lambda>m (k, v). smap_put k (InterpolateEnv getenv v) m) (foldl put_entry [] environ) (sp_env spec)"

section \<open>Lines of a buffer\<close>

text \<open>
  The loop of \<open>DrainLinesFromBuffer\<close>. The callback works on a state \<open>'s\<close> and tells whether to go
  on; the result is the number of bytes processed, whether the callback stopped the loop, and the
  callback's state. (The source's \<open>processed\<close> and \<open>start\<close> agree at every test of the loop.)
\<close>

function drain_loop ::
    "('s \<Rightarrow> string \<Rightarrow> bool \<times> 's) \<Rightarrow> string \<Rightarrow> nat \<Rightarrow> 's \<Rightarrow> nat \<times> bool \<times> 's" where
  "drain_loop on_line buffer start st =
     (if start < length buffer then
        (case find_from (\<lambda>c. c = CHR 0x0A) buffer start of
           None \<Rightarrow> (start, False, st)
         | Some e \<Rightarrow>
             (let len = e - start;
                  len' = (if len > 0 \<and> buffer ! (start + len - 1) = CHR 0x0D then len - 1 else len)
              in case on_line st (substr buffer start len') of
                   (go_on, st') \<Rightarrow>
                     if go_on then drain_loop on_line buffer (Suc e) st' else (Suc e, True, st')))
      else (start, False, st))"
  by pat_completeness auto
termination
  by (relation "measure (\<lambda>(f, b, start, st). Suc (length b) - start)")
     (auto dest: find_from_Some(1) find_from_Some(2))

text \<open>The remaining buffer and the callback's state.\<close>

definition DrainLinesFromBuffer ::
    "('s \<Rightarrow> string \<Rightarrow> bool \<times> 's) \<Rightarrow> bool \<Rightarrow> string \<Rightarrow> 's \<Rightarrow> string \<times> 's" where
  "DrainLinesFromBuffer on_line flush_tail buffer st =
     (case drain_loop on_line buffer 0 st of
        (processed, should_stop, st1) \<Rightarrow>
          (let rest = drop processed buffer in
           if flush_tail \<and> \<not> should_stop \<and> rest \<noteq> [] then
             (let tail = (if last rest = CHR 0x0D then butlast rest else rest)
              in ([], snd (on_line st1 tail)))
           else (rest, st1)))"

section \<open>Process identity\<close>

text \<open>\<open>stream >> token\<close>, until the end of the stream: the maximal runs of bytes that are not spaces.\<close>

lemma token_shrinks:
  assumes "dropWhile is_space s = c # cs"
  shows "length (dropWhile (\<lambda>x. \<not> is_space x) (c # cs)) < length s"
proof -
  have "\<not> is_space c" using assms by (metis dropWhile_eq_Cons_conv)
  moreover have "length (c # cs) \<le> length s" by (metis assms length_dropWhile_le)
  moreover have "length (dropWhile (\<lambda>x. \<not> is_space x) cs) \<le> length cs"
    by (rule length_dropWhile_le)
  ultimately show ?thesis by simp
qed

function tokens :: "string \<Rightarrow> string list" where
  "tokens s =
     (case dropWhile is_space s of
        [] \<Rightarrow> []
      | c # cs \<Rightarrow> takeWhile (\<lambda>x. \<not> is_space x) (c # cs)
                  # tokens (dropWhile (\<lambda>x. \<not> is_space x) (c # cs)))"
  by pat_completeness auto
termination
  by (relation "measure length") (simp_all del: dropWhile.simps add: token_shrinks)

definition u64_max :: int where "u64_max = 2 ^ 64 - 1"

text \<open>\<open>stat_line\<close> is the first line of \<open>/proc/<pid>/stat\<close>, \<open>None\<close> when it cannot be read.\<close>

definition ProcessStartTime :: "(int \<Rightarrow> string option) \<Rightarrow> int \<Rightarrow> int" where
  "ProcessStartTime stat_line pid =
     (if pid \<le> 0 then 0
      else case stat_line pid of
        None \<Rightarrow> 0
      | Some line \<Rightarrow>
          (case rfind_index (\<lambda>c. c = CHR '')'') line of
             None \<Rightarrow> 0
           | Some comm_end \<Rightarrow>
               if comm_end + 2 \<ge> length line then 0
               else (let fields = tokens (drop (comm_end + 2) line) in
                     if length fields < 20 then 0
                     else (let token = fields ! 19 in
                           case from_chars 0 u64_max token of
                             None \<Rightarrow> 0
                           | Some (v, n) \<Rightarrow> if n = length token then v else 0))))"

definition ProcessIdentityMatches :: "(int \<Rightarrow> string option) \<Rightarrow> int \<Rightarrow> int \<Rightarrow> bool" where
  "ProcessIdentityMatches stat_line pid start_time \<longleftrightarrow>
     \<not> (pid \<le> 0 \<or> start_time = 0) \<and> ProcessStartTime stat_line pid = start_time"

text \<open>The exit code that \<open>TryReapProcess\<close> makes of a wait status (a 32-bit \<open>int\<close>).\<close>

definition reaped_exit_code :: "32 word \<Rightarrow> int" where
  "reaped_exit_code status =
     (let term_sig = and status 0x7f in
      if term_sig = 0 then uint (and (signed_drop_bit 8 status) 0xff) else 128 + uint term_sig)"

section \<open>Clock arithmetic\<close>

text \<open>Points in time are nanosecond counts; \<open>None\<close> is \<open>time_point::max()\<close>.\<close>

definition ns_per_ms :: int where "ns_per_ms = 1000000"

definition trunc_ms :: "int \<Rightarrow> int" where
  "trunc_ms d = (if d \<ge> 0 then d div ns_per_ms else - ((- d) div ns_per_ms))"

definition RemainingTimeoutMs :: "int option \<Rightarrow> int \<Rightarrow> int \<Rightarrow> int" where
  "RemainingTimeoutMs deadline max_timeout_ms now =
     (if max_timeout_ms \<le> 0 then 0
      else case deadline of
        None \<Rightarrow> max_timeout_ms
      | Some d \<Rightarrow>
          if d \<le> now then 0
          else (let remaining = d - now in
                if remaining \<ge> max_timeout_ms * ns_per_ms then max_timeout_ms
                else trunc_ms remaining))"

definition MillisecondsBetween :: "int \<Rightarrow> int \<Rightarrow> int" where
  "MillisecondsBetween start finish = trunc_ms (finish - start)"

definition MillisecondsSince :: "int option \<Rightarrow> int \<Rightarrow> int" where
  "MillisecondsSince start now = (case start of None \<Rightarrow> - 1 | Some s \<Rightarrow> MillisecondsBetween s now)"

section \<open>Facts on lines\<close>

declare drain_loop.simps [simp del]
declare tokens.simps [simp del]

text \<open>
  The reference: the complete lines of a text and the piece after its last line feed. A callback
  that never stops is a fold over the lines.
\<close>

definition whole_lines :: "string \<Rightarrow> string list" where
  "whole_lines s = map strip_cr (butlast (split_spec CHR 0x0A s))"

definition tail_piece :: "string \<Rightarrow> string" where
  "tail_piece s = last (split_spec CHR 0x0A s)"

definition keep_going :: "('s \<Rightarrow> string \<Rightarrow> 's) \<Rightarrow> 's \<Rightarrow> string \<Rightarrow> bool \<times> 's" where
  "keep_going f st line = (True, f st line)"

lemma whole_lines_step:
  "CHR 0x0A \<notin> set u \<Longrightarrow> whole_lines (u @ CHR 0x0A # v) = strip_cr u # whole_lines v"
  by (simp add: whole_lines_def split_spec_append)

lemma tail_piece_step: "CHR 0x0A \<notin> set u \<Longrightarrow> tail_piece (u @ CHR 0x0A # v) = tail_piece v"
  by (simp add: tail_piece_def split_spec_append)

lemma whole_lines_none: "CHR 0x0A \<notin> set u \<Longrightarrow> whole_lines u = [] \<and> tail_piece u = u"
  by (simp add: whole_lines_def tail_piece_def split_spec_none)

text \<open>A callback over a list of lines, until it stops.\<close>

fun run_lines :: "('s \<Rightarrow> string \<Rightarrow> bool \<times> 's) \<Rightarrow> 's \<Rightarrow> string list \<Rightarrow> bool \<times> 's" where
  "run_lines f st [] = (False, st)"
| "run_lines f st (l # ls) =
     (case f st l of (go_on, st') \<Rightarrow> if go_on then run_lines f st' ls else (True, st'))"

lemma run_lines_append:
  "run_lines f st (ls @ ms) =
     (case run_lines f st ls of (stop, st') \<Rightarrow> if stop then (stop, st') else run_lines f st' ms)"
  by (induction ls arbitrary: st) (auto split: prod.splits)

lemma run_lines_keep_going: "run_lines (keep_going f) st ls = (False, foldl f st ls)"
  by (induction ls arbitrary: st) (auto simp: keep_going_def)

lemma drain_loop_run:
  "start \<le> length b \<Longrightarrow> run_lines f st (whole_lines (drop start b)) = (stop, st') \<Longrightarrow>
   \<exists>p. drain_loop f b start st = (p, stop, st') \<and> (stop \<or> drop p b = tail_piece (drop start b))"
proof (induction f b start st rule: drain_loop.induct)
  case (1 f b start st)
  show ?case
  proof (cases "find_from (\<lambda>c. c = CHR 0x0A) b start")
    case None
    then have "CHR 0x0A \<notin> set (drop start b)" by (auto simp: find_from_None)
    with None 1(2,3) show ?thesis
      by (simp add: drain_loop.simps [of _ b start] whole_lines_none)
  next
    case (Some e)
    note F = find_from_Some [OF Some] and D = drop_find_from [OF Some]
    have lt: "start < length b" using F by simp
    let ?l = "strip_cr (substr b start (e - start))"
    obtain go_on st1 where f: "f st ?l = (go_on, st1)" by (rule prod.exhaust)
    have step: "drain_loop f b start st =
        (if go_on then drain_loop f b (Suc e) st1 else (Suc e, True, st1))"
      using Some lt strip_cr_take [OF F(1,2)] f
      by (simp add: drain_loop.simps [of _ b start] Let_def)
    have run: "(if go_on then run_lines f st1 (whole_lines (drop (Suc e) b)) else (True, st1)) = (stop, st')"
      using 1(3) unfolding D(1) whole_lines_step [OF D(2)] by (simp add: f)
    show ?thesis
    proof (cases go_on)
      case True
      have "\<exists>p. drain_loop f b (Suc e) st1 = (p, stop, st') \<and> (stop \<or> drop p b = tail_piece (drop (Suc e) b))"
        using 1(1) [OF lt Some refl refl, of go_on st1] F(2) strip_cr_take [OF F(1,2)] f True run
        by simp
      then show ?thesis unfolding step D(1) tail_piece_step [OF D(2)] using True by simp
    next
      case False
      with step run show ?thesis by simp
    qed
  qed
qed

definition all_lines :: "string \<Rightarrow> string list" where
  "all_lines b = whole_lines b @ (if tail_piece b = [] then [] else [strip_cr (tail_piece b)])"

lemma Drain_run_flush:
  "snd (DrainLinesFromBuffer f True b st) = snd (run_lines f st (all_lines b))"
proof -
  obtain stop st' where r: "run_lines f st (whole_lines b) = (stop, st')" by (rule prod.exhaust)
  then obtain p where "drain_loop f b 0 st = (p, stop, st')" and "stop \<or> drop p b = tail_piece b"
    using drain_loop_run [of 0 b f st stop st'] by auto
  with r show ?thesis
    by (auto simp: DrainLinesFromBuffer_def all_lines_def run_lines_append strip_cr_def Let_def
        split: prod.splits simp del: drop_eq_Nil)
qed

lemma Drain_keep_going:
  "DrainLinesFromBuffer (keep_going f) False b st = (tail_piece b, foldl f st (whole_lines b))"
  using drain_loop_run [of 0 b "keep_going f" st False "foldl f st (whole_lines b)"]
  by (auto simp: DrainLinesFromBuffer_def run_lines_keep_going)

lemma Drain_flush:
  "DrainLinesFromBuffer (keep_going f) True b st = ([], foldl f st (all_lines b))"
proof -
  obtain p where "drain_loop (keep_going f) b 0 st = (p, False, foldl f st (whole_lines b))"
    and "drop p b = tail_piece b"
    using drain_loop_run [of 0 b "keep_going f" st False "foldl f st (whole_lines b)"]
    by (auto simp: run_lines_keep_going)
  then show ?thesis
    by (simp add: DrainLinesFromBuffer_def all_lines_def keep_going_def strip_cr_def Let_def del: drop_eq_Nil)
qed

lemma split_spec_tail:
  "split_spec d (s @ t) = butlast (split_spec d s) @ split_spec d (last (split_spec d s) @ t)"
proof (induction s)
  case (Cons a s)
  show ?case
  proof (cases "a = d")
    case True
    then show ?thesis using Cons split_spec_append [of d "[]" "s @ t"] split_spec_append [of d "[]" s]
      by simp
  next
    case False
    then show ?thesis using Cons by (auto split: list.splits simp: Cons_eq_append_conv)
  qed
qed simp

lemma tail_piece_no_lf: "CHR 0x0A \<notin> set (tail_piece s)"
  using Split_no_delim [unfolded Split_spec] last_in_set split_spec_ne unfolding tail_piece_def by metis

lemma whole_lines_append: "whole_lines (a @ b) = whole_lines a @ whole_lines (tail_piece a @ b)"
  by (simp add: whole_lines_def tail_piece_def split_spec_tail [of _ a b] butlast_append)

lemma tail_piece_append: "tail_piece (a @ b) = tail_piece (tail_piece a @ b)"
  by (simp add: tail_piece_def split_spec_tail [of _ a b])

section \<open>Facts on process identity\<close>

definition is_word :: "string \<Rightarrow> bool" where
  "is_word w \<longleftrightarrow> w \<noteq> [] \<and> list_all (\<lambda>c. \<not> is_space c \<and> c \<noteq> CHR '')'') w"

fun unwords :: "string list \<Rightarrow> string" where
  "unwords [] = []"
| "unwords [w] = w"
| "unwords (w # v # ws) = w @ CHR '' '' # unwords (v # ws)"

lemma tokens_space: "is_space c \<Longrightarrow> tokens (c # s) = tokens s"
  by (simp add: tokens.simps [of "c # s"] tokens.simps [of s])

lemma tokens_word:
  assumes "is_word w" and "r = [] \<or> is_space (hd r)"
  shows "tokens (w @ r) = w # tokens r"
proof -
  from assms(1) obtain c cs where w: "w = c # cs" and nw: "\<forall>x\<in>set w. \<not> is_space x"
    by (cases w) (auto simp: is_word_def list_all_iff)
  have t: "takeWhile (\<lambda>x. \<not> is_space x) (w @ r) = w" "dropWhile (\<lambda>x. \<not> is_space x) (w @ r) = r"
    using nw assms(2) by (cases r; auto simp: takeWhile_append2 dropWhile_append2)+
  have "dropWhile is_space (w @ r) = w @ r" using nw w by simp
  with t show ?thesis by (subst tokens.simps) (simp add: w)
qed

lemma tokens_unwords: "list_all is_word ws \<Longrightarrow> tokens (unwords ws) = ws"
proof (induction ws rule: unwords.induct)
  case 1
  then show ?case by (simp add: tokens.simps [of "[]"])
next
  case (2 w)
  then show ?case using tokens_word [of w "[]"] by (simp add: tokens.simps [of "[]"])
next
  case (3 w v ws)
  then show ?case using tokens_word [of w "CHR '' '' # unwords (v # ws)"]
    by (simp add: tokens_space is_space_def)
qed

lemma unwords_no_paren: "list_all is_word ws \<Longrightarrow> CHR '')'' \<notin> set (unwords ws)"
  by (induction ws rule: unwords.induct) (auto simp: is_word_def list_all_iff)

lemma unwords_ne: "list_all is_word ws \<Longrightarrow> ws \<noteq> [] \<Longrightarrow> unwords ws \<noteq> []"
  by (cases ws rule: unwords.cases) (auto simp: is_word_def)

lemma rfind_index_last:
  assumes "P x" and "\<forall>y\<in>set r. \<not> P y"
  shows "rfind_index P (a @ x # r) = Some (length a)"
proof -
  have "takeWhile (\<lambda>y. \<not> P y) (rev r @ x # rev a) = rev r"
    using assms by (subst takeWhile_append2) auto
  then have "find_index P (rev r @ x # rev a) = Some (length r)"
    using assms by (simp add: find_index_takeWhile)
  then show ?thesis by (simp add: rfind_index_def)
qed

lemma from_chars_to_string:
  "int n \<le> hi \<Longrightarrow> from_chars 0 hi (to_string_nat n) = Some (int n, length (to_string_nat n))"
  using to_string_nat_digits [of n]
  by (simp add: from_chars_def Let_def takeWhile_eq_all_conv [THEN iffD2] to_string_nat_value)

lemma ProcessStartTime_line:
  assumes "0 < pid" and "list_all is_word fs" and "length fs \<ge> 20"
    and "fs ! 19 = to_string_nat n" and "int n \<le> u64_max"
    and "stat pid = Some (p @ CHR '')'' # CHR '' '' # unwords fs)"
  shows "ProcessStartTime stat pid = int n"
proof -
  have "rfind_index (\<lambda>c. c = CHR '')'') (p @ CHR '')'' # CHR '' '' # unwords fs) = Some (length p)"
    by (rule rfind_index_last) (use unwords_no_paren [OF assms(2)] in auto)
  moreover have "unwords fs \<noteq> []" using assms(2,3) by (intro unwords_ne) auto
  ultimately show ?thesis
    using assms by (simp add: ProcessStartTime_def tokens_unwords from_chars_to_string Let_def)
qed

section \<open>Properties\<close>

text \<open>
  Output that arrives in pieces gives the same lines, in order, and the same unfinished tail as
  output that arrives at once, wherever the pieces are cut (also inside a CR LF pair); the buffer
  that stays behind holds no line feed, and a flush delivers the unfinished tail and empties it.
\<close>

theorem DrainLines_chunking:
  "(let (buf1, st1) = DrainLinesFromBuffer (keep_going f) False a st
    in DrainLinesFromBuffer (keep_going f) False (buf1 @ b) st1)
     = DrainLinesFromBuffer (keep_going f) False (a @ b) st
   \<and> CHR 0x0A \<notin> set (fst (DrainLinesFromBuffer (keep_going f) False a st))
   \<and> DrainLinesFromBuffer (keep_going (\<lambda>ls l. ls @ [l])) True a [] = ([], all_lines a)"
proof -
  have snoc: "foldl (\<lambda>ls l. ls @ [l]) acc xs = acc @ xs" for acc xs :: "string list"
    by (induction xs arbitrary: acc) simp_all
  show ?thesis
    by (simp add: Drain_keep_going Drain_flush whole_lines_append [of a b] tail_piece_append [of a b]
        tail_piece_no_lf snoc)
qed

text \<open>
  The start time that identifies a process is field 22 of its stat line, whatever the name of the
  executable (\<open>comm\<close>, which may contain spaces and parentheses): the fields after the last closing
  parenthesis are counted. A process whose stat line cannot be read matches no recorded start time.
\<close>

theorem ProcessStartTime_correct:
  assumes "0 < pid" and "list_all is_word fs" and "length fs \<ge> 20"
    and "fs ! 19 = to_string_nat n" and "int n \<le> u64_max"
    and "stat pid = Some (number @ '' ('' @ comm @ '') '' @ unwords fs)"
  shows "ProcessStartTime stat pid = int n
    \<and> \<not> ProcessIdentityMatches (stat(pid := None)) pid (int n)"
  using ProcessStartTime_line [OF assms(1-5), of stat "number @ '' ('' @ comm"] assms(6)
  by (auto simp: ProcessIdentityMatches_def ProcessStartTime_def)

end
