(* ===== verification/Audio_Capture.thy ===== *)
theory Audio_Capture
  imports Audio Process_Utils
begin

text \<open>
  The microphone stream (\<open>daemon/audio/audio_capture.cpp\<close>) and the volume of the output while
  recording (\<open>daemon/audio/output_ducker.cpp\<close>). PipeWire answers the calls that create and activate
  a stream; the answers of one operation are the functions \<open>pw_create\<close> and \<open>pw_activate\<close> of the number
  of the call (\<open>None\<close> for success). Whether the lock-free queue has room at a given length is the
  function \<open>room\<close>. The time stamps kept for log lines only are not modelled; the deadline after which
  an idle stream is destroyed is.
\<close>

section \<open>Capture\<close>

record capture =
  cap_loop :: bool
  cap_stream :: bool
  cap_stream_active :: bool
  cap_recording :: bool
  cap_target_object :: string
  cap_connected_target :: string
  cap_queue :: "AudioPcmChunk list"
  cap_dropped_chunks :: u64
  cap_dropped_samples :: u64
  cap_idle_deadline :: "int option"

definition new_capture :: capture where
  "new_capture = \<lparr>cap_loop = False, cap_stream = False, cap_stream_active = False, cap_recording = False,
     cap_target_object = [], cap_connected_target = [], cap_queue = [], cap_dropped_chunks = 0,
     cap_dropped_samples = 0, cap_idle_deadline = None\<rparr>"

record pw_env =
  pw_create :: "nat \<Rightarrow> string option"
  pw_activate :: "nat \<Rightarrow> string option"
  pw_reuse :: "string option"
  pw_idle_destroy :: "string option"
  pw_now :: int

definition EnvTruthy :: "string \<Rightarrow> bool" where
  "EnvTruthy v \<longleftrightarrow> v \<noteq> [] \<and> hd v \<in> set ''1tTyY''"

definition EnvFalsey :: "string \<Rightarrow> bool" where
  "EnvFalsey v \<longleftrightarrow> v \<noteq> [] \<and> hd v \<in> set ''0fFnN''"

definition StreamReuseEnabled :: "pw_env \<Rightarrow> bool" where
  "StreamReuseEnabled pw =
     (case pw_reuse pw of
        None \<Rightarrow> True
      | Some v \<Rightarrow> if EnvFalsey v then False else if EnvTruthy v then True else True)"

definition is_blank :: "char \<Rightarrow> bool" where
  "is_blank c \<longleftrightarrow> c = CHR '' '' \<or> c = CHR 0x09"

definition long_max :: int where "long_max = 2 ^ 63 - 1"

definition IdleDestroyMs :: "pw_env \<Rightarrow> int" where
  "IdleDestroyMs pw =
     (case pw_idle_destroy pw of
        None \<Rightarrow> 15000
      | Some v \<Rightarrow>
          (let s1 = dropWhile is_blank v;
               s2 = (if s1 \<noteq> [] \<and> hd s1 = CHR ''+'' then tl s1 else s1);
               sv = rev (dropWhile is_blank (rev s2))
           in if sv = [] then 15000
              else case from_chars (- long_max - 1) long_max sv of
                None \<Rightarrow> 15000
              | Some (parsed, n) \<Rightarrow>
                  if n \<noteq> length sv \<or> parsed < 0 then 15000 else min parsed 600000))"

text \<open>The real-time callback: the period is cut into chunks, and a chunk without room is counted.\<close>

function enqueue_chunks :: "(nat \<Rightarrow> bool) \<Rightarrow> i16 list \<Rightarrow> capture \<Rightarrow> capture" where
  "enqueue_chunks room pcm c =
     (if pcm = [] then c
      else
        (let chunk = FromSpan pcm in
         enqueue_chunks room (drop kMaxChunkSamples pcm)
           (if room (length (cap_queue c)) then c\<lparr>cap_queue := cap_queue c @ [chunk]\<rparr>
            else c\<lparr>cap_dropped_chunks := cap_dropped_chunks c + 1,
                   cap_dropped_samples := cap_dropped_samples c + of_nat (chunk_size chunk)\<rparr>)))"
  by pat_completeness auto
termination
  by (relation "measure (\<lambda>(room, pcm, c). length pcm)") (auto simp: kMaxChunkSamples_def)

definition processCallback :: "(nat \<Rightarrow> bool) \<Rightarrow> i16 list \<Rightarrow> capture \<Rightarrow> capture" where
  "processCallback room pcm c =
     (if \<not> cap_stream c \<or> \<not> cap_recording c then c else enqueue_chunks room pcm c)"

definition cap_Start :: "string option \<Rightarrow> capture \<Rightarrow> string option \<times> capture" where
  "cap_Start failure c =
     (if cap_loop c then (None, c)
      else case failure of Some e \<Rightarrow> (Some e, c) | None \<Rightarrow> (None, c\<lparr>cap_loop := True\<rparr>))"

definition CanReuseStream :: "capture \<Rightarrow> bool" where
  "CanReuseStream c \<longleftrightarrow>
     cap_stream c
     \<and> (if cap_target_object c = [] \<or> cap_target_object c = ''default''
        then cap_connected_target c = [] \<or> cap_connected_target c = ''default''
        else cap_connected_target c = cap_target_object c)"

text \<open>The error, or \<open>None\<close> for success.\<close>

definition CreateStream :: "pw_env \<Rightarrow> nat \<Rightarrow> bool \<Rightarrow> capture \<Rightarrow> string option \<times> capture" where
  "CreateStream pw n start_inactive c =
     (if \<not> cap_loop c then (Some ''audio capture loop is not initialized'', c)
      else if cap_stream c then (None, c)
      else case pw_create pw n of
        Some e \<Rightarrow> (Some e, c\<lparr>cap_stream := False, cap_stream_active := False\<rparr>)
      | None \<Rightarrow>
          (None, c\<lparr>cap_stream := True, cap_stream_active := \<not> start_inactive,
                   cap_connected_target :=
                     (if cap_target_object c = [] \<or> cap_target_object c = ''default'' then []
                      else cap_target_object c)\<rparr>))"

definition SetStreamActive :: "pw_env \<Rightarrow> nat \<Rightarrow> bool \<Rightarrow> capture \<Rightarrow> string option \<times> capture" where
  "SetStreamActive pw n active c =
     (if \<not> cap_loop c \<or> \<not> cap_stream c then (Some ''audio capture stream is not initialized'', c)
      else if cap_stream_active c = active then (None, c)
      else case pw_activate pw n of
        Some e \<Rightarrow> (Some e, c)
      | None \<Rightarrow> (None, c\<lparr>cap_stream_active := active\<rparr>))"

definition DestroyStream :: "capture \<Rightarrow> capture" where
  "DestroyStream c =
     c\<lparr>cap_recording := False, cap_stream := (if cap_loop c then False else cap_stream c),
       cap_stream_active := False, cap_connected_target := [], cap_idle_deadline := None\<rparr>"

definition ScheduleIdleDestroy :: "pw_env \<Rightarrow> capture \<Rightarrow> capture" where
  "ScheduleIdleDestroy pw c =
     c\<lparr>cap_idle_deadline :=
         Some (if IdleDestroyMs pw \<le> 0 then pw_now pw else pw_now pw + IdleDestroyMs pw * ns_per_ms)\<rparr>"

definition MaybeDestroyExpiredStream :: "pw_env \<Rightarrow> capture \<Rightarrow> bool \<times> capture" where
  "MaybeDestroyExpiredStream pw c =
     (if cap_recording c \<or> \<not> cap_stream c then (False, c)
      else case cap_idle_deadline c of
        None \<Rightarrow> (False, c)
      | Some d \<Rightarrow> if pw_now pw < d then (False, c) else (True, DestroyStream c))"

text \<open>A new stream, created inactive and then activated when streams are reused.\<close>

definition create_and_activate :: "pw_env \<Rightarrow> nat \<Rightarrow> nat \<Rightarrow> bool \<Rightarrow> capture \<Rightarrow> string option \<times> capture" where
  "create_and_activate pw i j start_inactive c =
     (case CreateStream pw i start_inactive c of
        (Some e, c1) \<Rightarrow> (Some e, c1\<lparr>cap_recording := False\<rparr>)
      | (None, c1) \<Rightarrow>
          if start_inactive then
            (case SetStreamActive pw j True c1 of
               (Some e, c2) \<Rightarrow> (Some e, DestroyStream (c2\<lparr>cap_recording := False\<rparr>))
             | (None, c2) \<Rightarrow> (None, c2))
          else (None, c1))"

definition BeginRecording :: "pw_env \<Rightarrow> capture \<Rightarrow> string option \<times> capture" where
  "BeginRecording pw c =
     (let c0 = c\<lparr>cap_idle_deadline := None, cap_queue := [], cap_dropped_chunks := 0, cap_dropped_samples := 0\<rparr>
      in if \<not> (StreamReuseEnabled pw \<and> CanReuseStream c0) then
           create_and_activate pw 0 0 (StreamReuseEnabled pw) ((DestroyStream c0)\<lparr>cap_recording := True\<rparr>)
         else
           (case SetStreamActive pw 0 True (c0\<lparr>cap_recording := True\<rparr>) of
              (None, c1) \<Rightarrow> (None, c1)
            | (Some e, c1) \<Rightarrow> create_and_activate pw 0 1 True (DestroyStream c1)))"

text \<open>Deactivate a reusable stream, or destroy it.\<close>

definition release_stream :: "pw_env \<Rightarrow> capture \<Rightarrow> capture" where
  "release_stream pw c =
     (case SetStreamActive pw 0 False c of
        (Some e, c1) \<Rightarrow> DestroyStream c1
      | (None, c1) \<Rightarrow> if IdleDestroyMs pw \<le> 0 then DestroyStream c1 else ScheduleIdleDestroy pw c1)"

definition EndRecording :: "pw_env \<Rightarrow> capture \<Rightarrow> capture" where
  "EndRecording pw c =
     (let c1 = c\<lparr>cap_recording := False\<rparr> in
      if StreamReuseEnabled pw \<and> cap_stream c then release_stream pw c1 else c1)"

definition StopAndGetBuffer :: "pw_env \<Rightarrow> capture \<Rightarrow> i16 list \<times> capture" where
  "StopAndGetBuffer pw c =
     (let c1 = c\<lparr>cap_recording := False\<rparr>;
          c2 = (if StreamReuseEnabled pw \<and> cap_stream c then release_stream pw c1 else DestroyStream c1)
      in (concat (map AsSpan (cap_queue c2)), c2\<lparr>cap_queue := []\<rparr>))"

definition cap_Stop :: "capture \<Rightarrow> capture" where
  "cap_Stop c = (DestroyStream (c\<lparr>cap_recording := False, cap_idle_deadline := None\<rparr>))\<lparr>cap_queue := []\<rparr>"

definition TryDequeue :: "capture \<Rightarrow> AudioPcmChunk option \<times> capture" where
  "TryDequeue c =
     (case cap_queue c of [] \<Rightarrow> (None, c) | x # xs \<Rightarrow> (Some x, c\<lparr>cap_queue := xs\<rparr>))"

definition SetTargetObject :: "string \<Rightarrow> capture \<Rightarrow> capture" where
  "SetTargetObject target c =
     (if cap_target_object c = target then c
      else (let c1 = c\<lparr>cap_target_object := target\<rparr> in
            if \<not> cap_recording c \<and> cap_stream c then DestroyStream c1 else c1))"

section \<open>Output ducking\<close>

datatype DuckerTask = DuckTask fp | RestoreTask

text \<open>\<open>du_busy\<close> is the task the worker has taken from the queue and not finished.\<close>

record ducker =
  du_queue :: "DuckerTask list"
  du_logical_ducked :: bool
  du_worker_ducked :: bool
  du_saved_volume :: fp
  du_busy :: "DuckerTask option"

definition new_ducker :: ducker where
  "new_ducker = \<lparr>du_queue = [], du_logical_ducked = False, du_worker_ducked = False,
     du_saved_volume = Finite 0, du_busy = None\<rparr>"

definition kVolumePrefix :: string where "kVolumePrefix = ''Volume:''"

definition ParseVolume :: "(string \<Rightarrow> fp option) \<Rightarrow> string \<Rightarrow> fp option" where
  "ParseVolume parse_double t =
     (if t = [] then None
      else case find_sub kVolumePrefix t of
        None \<Rightarrow> None
      | Some pos \<Rightarrow>
          (case dropWhile is_blank (drop (pos + length kVolumePrefix) t) of
             [] \<Rightarrow> None
           | number \<Rightarrow> parse_double number))"

text \<open>
  The sink: \<open>wp_run\<close> runs \<open>wpctl\<close>, \<open>wp_double\<close> reads and \<open>wp_print\<close> prints a number (\<open>None\<close> when it
  does not fit the 32-byte buffer).
\<close>

record wp_env =
  wp_run :: "CommandSpec \<Rightarrow> CommandResult"
  wp_double :: "string \<Rightarrow> fp option"
  wp_print :: "fp \<Rightarrow> string option"
  wp_mul :: "fp \<Rightarrow> fp \<Rightarrow> fp"

definition kDefaultSink :: string where "kDefaultSink = ''@DEFAULT_AUDIO_SINK@''"
definition kWpctlTimeoutMs :: int where "kWpctlTimeoutMs = 2000"

definition ReadDefaultSinkVolume :: "wp_env \<Rightarrow> fp option" where
  "ReadDefaultSinkVolume wp =
     (let result = wp_run wp \<lparr>sp_command = ''wpctl'', sp_args = [''get-volume'', kDefaultSink], sp_env = [],
                              sp_timeout_ms = kWpctlTimeoutMs\<rparr>
      in if re_launch_failed result \<or> re_timed_out result \<or> re_exit_code result \<noteq> 0 then None
         else ParseVolume (wp_double wp) (re_stdout result))"

text \<open>The command that sets the volume; the call's own success only decides what is logged.\<close>

definition set_volume_command :: "wp_env \<Rightarrow> fp \<Rightarrow> CommandSpec option" where
  "set_volume_command wp volume =
     (case wp_print wp volume of
        None \<Rightarrow> None
      | Some s \<Rightarrow> Some \<lparr>sp_command = ''wpctl'', sp_args = [''set-volume'', kDefaultSink, s], sp_env = [],
                       sp_timeout_ms = kWpctlTimeoutMs\<rparr>)"

definition Duck :: "fp \<Rightarrow> ducker \<Rightarrow> ducker" where
  "Duck scale d =
     (if du_logical_ducked d then d
      else d\<lparr>du_logical_ducked := True, du_queue := du_queue d @ [DuckTask scale]\<rparr>)"

definition Restore :: "ducker \<Rightarrow> ducker" where
  "Restore d =
     (if \<not> du_logical_ducked d then d
      else d\<lparr>du_logical_ducked := False, du_queue := du_queue d @ [RestoreTask]\<rparr>)"

text \<open>\<open>Flush\<close> returns in the states where this holds.\<close>

definition Flush_returns :: "ducker \<Rightarrow> bool" where
  "Flush_returns d \<longleftrightarrow> du_queue d = []"

text \<open>The state after a task and the volume it asked for, if any.\<close>

definition ProcessDuck :: "wp_env \<Rightarrow> fp \<Rightarrow> ducker \<Rightarrow> fp option \<times> ducker" where
  "ProcessDuck wp scale d =
     (if du_worker_ducked d then (None, d)
      else
        (let scale' = fp_clamp scale (Finite 0) (Finite 1) in
         case ReadDefaultSinkVolume wp of
           None \<Rightarrow> (None, d)
         | Some current \<Rightarrow>
             (Some (wp_mul wp current scale'), d\<lparr>du_saved_volume := current, du_worker_ducked := True\<rparr>)))"

definition ProcessRestore :: "ducker \<Rightarrow> fp option \<times> ducker" where
  "ProcessRestore d =
     (if \<not> du_worker_ducked d then (None, d)
      else (Some (du_saved_volume d), d\<lparr>du_worker_ducked := False, du_saved_volume := Finite 0\<rparr>))"

definition ducker_take :: "ducker \<Rightarrow> ducker" where
  "ducker_take d =
     (case (du_busy d, du_queue d) of
        (None, t # ts) \<Rightarrow> d\<lparr>du_busy := Some t, du_queue := ts\<rparr>
      | _ \<Rightarrow> d)"

definition ducker_process :: "wp_env \<Rightarrow> ducker \<Rightarrow> fp option \<times> ducker" where
  "ducker_process wp d =
     (case du_busy d of
        None \<Rightarrow> (None, d)
      | Some (DuckTask scale) \<Rightarrow> map_prod id (\<lambda>e. e\<lparr>du_busy := None\<rparr>) (ProcessDuck wp scale d)
      | Some RestoreTask \<Rightarrow> map_prod id (\<lambda>e. e\<lparr>du_busy := None\<rparr>) (ProcessRestore d))"

section \<open>Facts on capture\<close>

declare enqueue_chunks.simps [simp del]

text \<open>A stream belongs to a loop, and only a stream can be active.\<close>

definition cap_wf :: "capture \<Rightarrow> bool" where
  "cap_wf c \<longleftrightarrow> (cap_stream c \<longrightarrow> cap_loop c) \<and> (cap_stream_active c \<longrightarrow> cap_stream c)"

definition queued :: "capture \<Rightarrow> i16 list" where
  "queued c = concat (map AsSpan (cap_queue c))"

lemmas capture_defs [vinput_defs] =
  CreateStream_def SetStreamActive_def DestroyStream_def ScheduleIdleDestroy_def
  MaybeDestroyExpiredStream_def create_and_activate_def BeginRecording_def release_stream_def
  EndRecording_def StopAndGetBuffer_def cap_Stop_def TryDequeue_def SetTargetObject_def
  processCallback_def cap_Start_def

lemma release_stream_off:
  "cap_wf c \<Longrightarrow> \<not> cap_stream_active (release_stream pw c) \<and> cap_wf (release_stream pw c)
     \<and> cap_queue (release_stream pw c) = cap_queue c
     \<and> (\<not> cap_recording c \<longrightarrow> \<not> cap_recording (release_stream pw c))"
  by (cases "cap_stream c"; cases "cap_stream_active c"; cases "pw_activate pw 0")
     (simp_all add: release_stream_def SetStreamActive_def DestroyStream_def ScheduleIdleDestroy_def cap_wf_def)

lemma release_stream_wf: "cap_wf c \<Longrightarrow> cap_wf (release_stream pw c)"
  using release_stream_off by blast

lemma DestroyStream_wf: "cap_wf c \<Longrightarrow> cap_wf (DestroyStream c) \<and> \<not> cap_recording (DestroyStream c)"
  by (auto simp: DestroyStream_def cap_wf_def)

lemma cap_wf_recording [simp]: "cap_wf (c\<lparr>cap_recording := b\<rparr>) = cap_wf c"
  by (simp add: cap_wf_def)

lemma EndRecording_wf: "cap_wf c \<Longrightarrow> cap_wf (EndRecording pw c) \<and> \<not> cap_recording (EndRecording pw c)"
  using release_stream_off [of "c\<lparr>cap_recording := False\<rparr>" pw]
  by (auto simp: EndRecording_def Let_def)

lemma StopAndGetBuffer_wf:
  "cap_wf c \<Longrightarrow> cap_wf (snd (StopAndGetBuffer pw c)) \<and> \<not> cap_recording (snd (StopAndGetBuffer pw c))
     \<and> cap_queue (snd (StopAndGetBuffer pw c)) = []"
  using release_stream_off [of "c\<lparr>cap_recording := False\<rparr>" pw] DestroyStream_wf [of "c\<lparr>cap_recording := False\<rparr>"]
  by (auto simp: StopAndGetBuffer_def Let_def cap_wf_def)

lemma cap_Stop_wf: "cap_wf c \<Longrightarrow> cap_wf (cap_Stop c) \<and> \<not> cap_recording (cap_Stop c)"
  by (auto simp: cap_Stop_def DestroyStream_def cap_wf_def)

lemma SetTargetObject_wf: "cap_wf c \<Longrightarrow> cap_wf (SetTargetObject t c)"
  by (auto simp: SetTargetObject_def DestroyStream_def cap_wf_def Let_def)

lemma create_and_activate_wf:
  assumes "cap_wf c"
  shows "cap_wf (snd (create_and_activate pw i j inactive c))
    \<and> (fst (create_and_activate pw i j inactive c) \<noteq> None \<longrightarrow>
        \<not> cap_recording (snd (create_and_activate pw i j inactive c)))"
  using assms
  by (cases "cap_loop c"; cases "cap_stream c"; cases "pw_create pw i"; cases "pw_activate pw j"; cases "cap_stream_active c"; cases inactive)
     (simp_all add: create_and_activate_def CreateStream_def SetStreamActive_def DestroyStream_def cap_wf_def)

lemma BeginRecording_wf:
  assumes "cap_wf c"
  shows "cap_wf (snd (BeginRecording pw c))
    \<and> (fst (BeginRecording pw c) \<noteq> None \<longrightarrow> \<not> cap_recording (snd (BeginRecording pw c)))"
proof -
  define c0 where "c0 = c\<lparr>cap_idle_deadline := None, cap_queue := [], cap_dropped_chunks := 0, cap_dropped_samples := 0\<rparr>"
  have wf: "cap_wf c0" using assms by (simp add: c0_def cap_wf_def)
  have beg: "BeginRecording pw c =
      (if \<not> (StreamReuseEnabled pw \<and> CanReuseStream c0) then
         create_and_activate pw 0 0 (StreamReuseEnabled pw) ((DestroyStream c0)\<lparr>cap_recording := True\<rparr>)
       else (case SetStreamActive pw 0 True (c0\<lparr>cap_recording := True\<rparr>) of
               (None, c1) \<Rightarrow> (None, c1)
             | (Some e, c1) \<Rightarrow> create_and_activate pw 0 1 True (DestroyStream c1)))"
    by (simp add: BeginRecording_def c0_def)
  obtain r c1 where s: "SetStreamActive pw 0 True (c0\<lparr>cap_recording := True\<rparr>) = (r, c1)" by (rule prod.exhaust)
  then have "cap_wf c1" using wf by (auto simp: SetStreamActive_def cap_wf_def split: if_splits option.splits)
  then show ?thesis
    unfolding beg s
    using create_and_activate_wf [of "(DestroyStream c0)\<lparr>cap_recording := True\<rparr>" pw 0 0 "StreamReuseEnabled pw"]
      create_and_activate_wf [of "DestroyStream c1" pw 0 1 True] DestroyStream_wf [OF wf] DestroyStream_wf [of c1]
    by (cases r) auto
qed

lemma enqueue_chunks_Nil [simp]: "enqueue_chunks room [] c = c"
  by (simp add: enqueue_chunks.simps)

lemma enqueue_frame:
  "cap_stream (enqueue_chunks room pcm c) = cap_stream c \<and> cap_loop (enqueue_chunks room pcm c) = cap_loop c
   \<and> cap_stream_active (enqueue_chunks room pcm c) = cap_stream_active c
   \<and> cap_recording (enqueue_chunks room pcm c) = cap_recording c"
proof (induction room pcm c rule: enqueue_chunks.induct)
  case (1 room pcm c)
  show ?case
  proof (cases "pcm = []")
    case False
    with 1 show ?thesis by (subst (1 2 3 4) enqueue_chunks.simps) (simp add: Let_def)
  qed simp
qed

lemma enqueue_all:
  "queued (enqueue_chunks (\<lambda>_. True) pcm c) = queued c @ pcm
   \<and> cap_dropped_samples (enqueue_chunks (\<lambda>_. True) pcm c) = cap_dropped_samples c"
proof (induction pcm arbitrary: c rule: length_induct)
  case (1 pcm)
  show ?case
  proof (cases "pcm = []")
    case False
    have "length (drop kMaxChunkSamples pcm) < length pcm" using False by (simp add: kMaxChunkSamples_def)
    from 1 [rule_format, OF this, of "c\<lparr>cap_queue := cap_queue c @ [FromSpan pcm]\<rparr>"] False
    show ?thesis
      by (subst (1 2) enqueue_chunks.simps) (simp add: Let_def queued_def AsSpan_FromSpan)
  qed simp
qed

lemma enqueue_none:
  "cap_queue (enqueue_chunks (\<lambda>_. False) pcm c) = cap_queue c
   \<and> cap_dropped_samples (enqueue_chunks (\<lambda>_. False) pcm c) = cap_dropped_samples c + of_nat (length pcm)"
proof (induction pcm arbitrary: c rule: length_induct)
  case (1 pcm)
  show ?case
  proof (cases "pcm = []")
    case False
    let ?c = "c\<lparr>cap_dropped_chunks := cap_dropped_chunks c + 1,
        cap_dropped_samples := cap_dropped_samples c + of_nat (chunk_size (FromSpan pcm))\<rparr>"
    have sz: "chunk_size (FromSpan pcm) = min (length pcm) kMaxChunkSamples"
      using False by (simp add: FromSpan_def Let_def kMaxChunkSamples_def)
    have sum: "of_nat (min (length pcm) kMaxChunkSamples) + of_nat (length pcm - kMaxChunkSamples)
        = (of_nat (length pcm) :: u64)"
      unfolding of_nat_add [symmetric] by (rule arg_cong [where f = of_nat]) linarith
    have less: "length (drop kMaxChunkSamples pcm) < length pcm" using False by (simp add: kMaxChunkSamples_def)
    have step: "enqueue_chunks (\<lambda>_. False) pcm c = enqueue_chunks (\<lambda>_. False) (drop kMaxChunkSamples pcm) ?c"
      using False by (subst enqueue_chunks.simps) (simp add: Let_def)
    show ?thesis
      unfolding step using 1 [rule_format, OF less, of ?c] sum by (simp add: sz add.assoc)
  qed simp
qed

section \<open>Facts on ducking\<close>

definition pending_tasks :: "ducker \<Rightarrow> DuckerTask list" where
  "pending_tasks d = (case du_busy d of None \<Rightarrow> [] | Some t \<Rightarrow> [t]) @ du_queue d"

definition ducker_inv :: "ducker \<Rightarrow> bool" where
  "ducker_inv d \<longleftrightarrow>
     (if pending_tasks d = [] then du_worker_ducked d \<longrightarrow> du_logical_ducked d
      else du_logical_ducked d = (last (pending_tasks d) \<noteq> RestoreTask))"

datatype ducker_call = DoDuck fp | DoRestore | WorkerTakes | WorkerProcesses wp_env

fun ducker_step :: "ducker \<Rightarrow> ducker_call \<Rightarrow> ducker" where
  "ducker_step d (DoDuck s) = Duck s d"
| "ducker_step d DoRestore = Restore d"
| "ducker_step d WorkerTakes = ducker_take d"
| "ducker_step d (WorkerProcesses wp) = snd (ducker_process wp d)"

lemma ducker_process_inv: "ducker_inv d \<Longrightarrow> ducker_inv (snd (ducker_process wp d))"
  by (auto simp: ducker_inv_def ducker_process_def pending_tasks_def ProcessDuck_def ProcessRestore_def Let_def
      split: option.splits DuckerTask.splits if_splits)

interpretation ducker: invariant_machine ducker_step new_ducker ducker_inv
proof
  show "ducker_inv new_ducker" by (simp add: ducker_inv_def new_ducker_def pending_tasks_def)
  show "ducker_inv (ducker_step d c)" if "ducker_inv d" for d c
    using that ducker_process_inv [OF that]
    by (cases c)
       (auto simp: ducker_inv_def pending_tasks_def Duck_def Restore_def ducker_take_def
         split: option.splits list.splits if_splits)
qed

section \<open>Properties\<close>

text \<open>
  However a recording ends, the microphone is released: after \<open>StopAndGetBuffer\<close> and \<open>Stop\<close> no
  stream is active and nothing is recorded, and after \<open>EndRecording\<close> neither when streams are reused.
  \<open>StopAndGetBuffer\<close> hands out exactly the samples that were queued, in order.
\<close>

theorem capture_released:
  assumes "cap_wf c"
  shows "(let (pcm, c') = StopAndGetBuffer pw c in
      pcm = queued c \<and> cap_queue c' = [] \<and> \<not> cap_recording c' \<and> \<not> cap_stream_active c' \<and> cap_wf c')
    \<and> (let c' = cap_Stop c in \<not> cap_recording c' \<and> \<not> cap_stream_active c' \<and> cap_queue c' = [] \<and> cap_wf c')
    \<and> (let c' = EndRecording pw c in
        \<not> cap_recording c' \<and> cap_wf c' \<and> (StreamReuseEnabled pw \<longrightarrow> \<not> cap_stream_active c'))"
proof -
  have wf: "cap_wf (c\<lparr>cap_recording := False\<rparr>)" using assms by (simp add: cap_wf_def)
  show ?thesis
    using release_stream_off [OF wf, of pw] assms
    by (auto simp: StopAndGetBuffer_def cap_Stop_def EndRecording_def DestroyStream_def cap_wf_def queued_def Let_def)
qed

text \<open>
  A period of audio that arrives while recording is queued completely and in order as long as the
  queue has room, and counted completely (modulo \<open>2 ^ 64\<close>) when it has none; otherwise it is ignored.
\<close>

theorem processCallback_conserves:
  assumes "cap_stream c" and "cap_recording c"
  shows "queued (processCallback (\<lambda>_. True) pcm c) = queued c @ pcm
    \<and> cap_dropped_samples (processCallback (\<lambda>_. True) pcm c) = cap_dropped_samples c
    \<and> cap_dropped_samples (processCallback (\<lambda>_. False) pcm c) = cap_dropped_samples c + of_nat (length pcm)
    \<and> processCallback room pcm (c\<lparr>cap_recording := False\<rparr>) = c\<lparr>cap_recording := False\<rparr>"
  using assms enqueue_all [of pcm c] enqueue_none [of pcm c] by (simp add: processCallback_def)

text \<open>
  C37: \<open>BeginRecording\<close> either fails with nothing recorded and no active stream, or leaves an active
  stream that is connected to the wanted source and an empty queue. It records in all these cases but
  one: when a reused stream cannot be activated and is created anew, destroying the old stream clears
  the recording flag and nothing sets it again, so the call reports success and every sample of the
  recording is dropped by the callback.
\<close>

theorem BeginRecording_outcome:
  assumes "cap_wf c" and "cap_loop c"
  shows "(case BeginRecording pw c of
       (Some e, c') \<Rightarrow> \<not> cap_recording c' \<and> \<not> cap_stream_active c'
     | (None, c') \<Rightarrow>
         cap_stream c' \<and> cap_stream_active c' \<and> cap_queue c' = [] \<and> CanReuseStream c'
         \<and> (if StreamReuseEnabled pw \<and> CanReuseStream c \<and> \<not> cap_stream_active c \<and> pw_activate pw 0 \<noteq> None
            then processCallback room pcm c' = c' \<and> \<not> cap_recording c'
            else cap_recording c'))"
proof -
  define c0 where "c0 = c\<lparr>cap_idle_deadline := None, cap_queue := [], cap_dropped_chunks := 0, cap_dropped_samples := 0\<rparr>"
  have same: "CanReuseStream c0 = CanReuseStream c" "cap_loop c0" "cap_stream_active c0 = cap_stream_active c"
    "cap_queue c0 = []"
    using assms by (simp_all add: c0_def CanReuseStream_def)
  have beg: "BeginRecording pw c =
      (if \<not> (StreamReuseEnabled pw \<and> CanReuseStream c0) then
         create_and_activate pw 0 0 (StreamReuseEnabled pw) ((DestroyStream c0)\<lparr>cap_recording := True\<rparr>)
       else (case SetStreamActive pw 0 True (c0\<lparr>cap_recording := True\<rparr>) of
               (None, c1) \<Rightarrow> (None, c1)
             | (Some e, c1) \<Rightarrow> create_and_activate pw 0 1 True (DestroyStream c1)))"
    by (simp add: BeginRecording_def c0_def)
  show ?thesis
  proof (cases "StreamReuseEnabled pw \<and> CanReuseStream c")
    case False
    then show ?thesis
      unfolding beg using same
      by (auto simp: create_and_activate_def CreateStream_def SetStreamActive_def DestroyStream_def
          CanReuseStream_def processCallback_def split: option.splits)
  next
    case True
    then have "cap_stream c0" by (simp add: c0_def CanReuseStream_def)
    with True show ?thesis
      unfolding beg using same
      by (auto simp: create_and_activate_def CreateStream_def SetStreamActive_def DestroyStream_def
          CanReuseStream_def processCallback_def split: option.splits)
  qed
qed

text \<open>
  The default sink's volume, as \<open>wpctl\<close> reports it, beside the ducker. \<open>fate cmd v\<close> is the volume after the
  command \<open>cmd\<close> was run at volume \<open>v\<close>: a command that cannot be started, fails or times out may or may not
  have taken effect.
\<close>

type_synonym volume_fate = "CommandSpec \<Rightarrow> fp \<Rightarrow> fp"

definition volume_after :: "wp_env \<Rightarrow> volume_fate \<Rightarrow> fp option \<Rightarrow> fp \<Rightarrow> fp" where
  "volume_after wp fate asked v =
     (case asked of
        None \<Rightarrow> v
      | Some volume \<Rightarrow> (case set_volume_command wp volume of None \<Rightarrow> v | Some cmd \<Rightarrow> fate cmd v))"

fun volume_step :: "ducker \<times> fp \<Rightarrow> ducker_call \<times> volume_fate \<Rightarrow> ducker \<times> fp" where
  "volume_step (d, v) (WorkerProcesses wp, fate) =
     (case ducker_process wp d of (asked, d') \<Rightarrow> (d', volume_after wp fate asked v))"
| "volume_step (d, v) (c, fate) = (ducker_step d c, v)"

text \<open>Setting the volume to \<open>v0\<close> can be printed and takes effect.\<close>

definition sets_volume :: "fp \<Rightarrow> wp_env \<Rightarrow> volume_fate \<Rightarrow> fp \<Rightarrow> bool" where
  "sets_volume v0 wp fate v \<longleftrightarrow>
     (case set_volume_command wp v0 of None \<Rightarrow> False | Some cmd \<Rightarrow> fate cmd v = v0)"

text \<open>
  What is asked of \<open>wpctl\<close> along a run: a volume it reports is the sink's, and a command that puts \<open>v0\<close> back
  takes effect. A report may be missing, and the commands that lower the volume may do anything.
\<close>

fun wpctl_answers :: "fp \<Rightarrow> ducker \<times> fp \<Rightarrow> (ducker_call \<times> volume_fate) list \<Rightarrow> bool" where
  "wpctl_answers v0 st [] \<longleftrightarrow> True"
| "wpctl_answers v0 (d, v) ((c, fate) # evs) \<longleftrightarrow>
     (case c of
        WorkerProcesses wp \<Rightarrow>
          (ReadDefaultSinkVolume wp = None \<or> ReadDefaultSinkVolume wp = Some v)
          \<and> (du_busy d = Some RestoreTask \<longrightarrow> sets_volume v0 wp fate v)
      | _ \<Rightarrow> True)
     \<and> wpctl_answers v0 (volume_step (d, v) (c, fate)) evs"

definition volume_inv :: "fp \<Rightarrow> ducker \<times> fp \<Rightarrow> bool" where
  "volume_inv v0 st \<longleftrightarrow> (case st of (d, v) \<Rightarrow>
     ducker_inv d \<and> (if du_worker_ducked d then du_saved_volume d = v0 else v = v0))"

lemma ducker_step_worker:
  "\<not> (\<exists>wp. c = WorkerProcesses wp) \<Longrightarrow>
     du_worker_ducked (ducker_step d c) = du_worker_ducked d \<and> du_saved_volume (ducker_step d c) = du_saved_volume d"
  by (cases c) (auto simp: Duck_def Restore_def ducker_take_def split: option.split list.split)

lemma volume_process_inv:
  assumes "volume_inv v0 (d, v)" and "ReadDefaultSinkVolume wp = None \<or> ReadDefaultSinkVolume wp = Some v"
    and "du_busy d = Some RestoreTask \<longrightarrow> sets_volume v0 wp fate v"
  shows "volume_inv v0 (volume_step (d, v) (WorkerProcesses wp, fate))"
  using assms ducker_process_inv [of d wp]
  by (auto simp: volume_inv_def ducker_process_def ProcessDuck_def ProcessRestore_def volume_after_def
      sets_volume_def Let_def split: option.splits DuckerTask.splits if_splits)

lemma volume_step_inv:
  assumes "volume_inv v0 st" and "wpctl_answers v0 st (ev # evs)"
  shows "volume_inv v0 (volume_step st ev) \<and> wpctl_answers v0 (volume_step st ev) evs"
proof -
  obtain d v c fate where st: "st = (d, v)" and ev: "ev = (c, fate)" by (cases st, cases ev)
  have "volume_inv v0 (volume_step (d, v) (c, fate))"
  proof (cases "\<exists>wp. c = WorkerProcesses wp")
    case True
    then show ?thesis using assms volume_process_inv by (auto simp: st ev)
  next
    case False
    then have "volume_step (d, v) (c, fate) = (ducker_step d c, v)" by (cases c) auto
    with assms(1) ducker.inv_step [of d c] ducker_step_worker [OF False, of d] show ?thesis
      by (simp add: volume_inv_def st)
  qed
  with assms(2) show ?thesis by (simp add: st ev)
qed

lemma volume_run_inv:
  "volume_inv v0 st \<Longrightarrow> wpctl_answers v0 st evs \<Longrightarrow> volume_inv v0 (foldl volume_step st evs)"
  by (induction evs arbitrary: st) (simp_all only: foldl_Nil foldl_Cons, use volume_step_inv in blast)

text \<open>
  C36: The output's volume is put back. For every interleaving of \<open>Duck\<close>, \<open>Restore\<close> and the worker, when
  nobody else changes the volume, \<open>wpctl\<close> reports the sink's volume or nothing, and every command that puts
  the volume \<open>v0\<close> back takes effect (the commands that lower it may fail, time out, or take effect although
  they are reported as failed): while the worker does not count the output as ducked, its volume is \<open>v0\<close>; so
  once the worker is idle with an empty queue and \<open>Restore\<close> was the last request, the volume is \<open>v0\<close>. When
  the ducker is destroyed with the output still ducked, the final \<open>ProcessRestore\<close> puts \<open>v0\<close> back.
\<close>

theorem ducker_restores_volume:
  assumes "wpctl_answers v0 (new_ducker, v0) evs" and "foldl volume_step (new_ducker, v0) evs = (d, v)"
  shows "(\<not> du_worker_ducked d \<longrightarrow> v = v0)
    \<and> (du_busy d = None \<and> du_queue d = [] \<and> \<not> du_logical_ducked d \<longrightarrow> v = v0)
    \<and> (sets_volume v0 wp fate v \<longrightarrow> volume_after wp fate (fst (ProcessRestore d)) v = v0)"
proof -
  have "volume_inv v0 (new_ducker, v0)"
    by (simp add: volume_inv_def ducker_inv_def new_ducker_def pending_tasks_def)
  then have "volume_inv v0 (d, v)" using volume_run_inv [OF _ assms(1)] assms(2) by simp
  then show ?thesis
    by (auto simp: volume_inv_def ducker_inv_def pending_tasks_def ProcessRestore_def volume_after_def
        sets_volume_def split: option.splits if_splits)
qed

text \<open>
  The condition on the command that puts the volume back is needed: a restore whose command has no effect
  is not tried again, because the worker has already forgotten the volume and that it ducked.
\<close>

lemma failed_restore_forgets:
  assumes "du_busy d = Some RestoreTask" and "du_worker_ducked d" and "\<And>cmd. fate cmd v = v"
  shows "(case volume_step (d, v) (WorkerProcesses wp, fate) of
      (d', v') \<Rightarrow> v' = v \<and> \<not> du_worker_ducked d' \<and> du_saved_volume d' = Finite 0 \<and> fst (ProcessRestore d') = None)"
  using assms by (simp add: ducker_process_def ProcessRestore_def volume_after_def split: option.splits)

text \<open>
  \<open>Flush\<close> is documented to wait for all pending tasks, but it returns as soon as the last task has
  been taken from the queue: the output can still be at full volume when \<open>Duck\<close> has been flushed.
\<close>

theorem ducker_Flush_early:
  "(let d = foldl ducker_step new_ducker [DoDuck scale, WorkerTakes] in
    Flush_returns d \<and> du_busy d = Some (DuckTask scale) \<and> \<not> du_worker_ducked d)"
  by (simp add: Duck_def ducker_take_def new_ducker_def Flush_returns_def)

section \<open>Examples\<close>

definition example_pw :: pw_env where
  "example_pw = \<lparr>pw_create = (\<lambda>_. None), pw_activate = (\<lambda>n. if n = 0 then Some ''busy'' else None),
     pw_reuse = None, pw_idle_destroy = None, pw_now = 0\<rparr>"

definition idle_capture :: capture where
  "idle_capture = new_capture\<lparr>cap_loop := True, cap_stream := True\<rparr>"

theorem capture_released_witness:
  "(let (pcm, c') = StopAndGetBuffer example_pw (idle_capture\<lparr>cap_queue := [FromSpan [1, 2]]\<rparr>)
    in pcm = [1, 2] \<and> \<not> cap_stream_active c')"
  using capture_released [of "idle_capture\<lparr>cap_queue := [FromSpan [1, 2]]\<rparr>" example_pw]
  by (simp add: cap_wf_def idle_capture_def new_capture_def queued_def AsSpan_FromSpan kMaxChunkSamples_def
      split: prod.splits)

theorem processCallback_conserves_witness:
  "queued (processCallback (\<lambda>_. True) [7, 8] (idle_capture\<lparr>cap_recording := True\<rparr>)) = [7, 8]"
  using processCallback_conserves [of "idle_capture\<lparr>cap_recording := True\<rparr>" "[7, 8]"]
  by (simp add: idle_capture_def new_capture_def queued_def)

theorem BeginRecording_outcome_witness:
  "fst (BeginRecording example_pw idle_capture) = None
   \<and> \<not> cap_recording (snd (BeginRecording example_pw idle_capture))"
proof -
  have "fst (BeginRecording example_pw idle_capture) = None"
    by (simp add: BeginRecording_def StreamReuseEnabled_def CanReuseStream_def SetStreamActive_def
        create_and_activate_def CreateStream_def DestroyStream_def example_pw_def idle_capture_def new_capture_def)
  then show ?thesis
    using BeginRecording_outcome [of idle_capture example_pw]
    by (cases "BeginRecording example_pw idle_capture")
       (simp add: cap_wf_def idle_capture_def new_capture_def StreamReuseEnabled_def CanReuseStream_def example_pw_def)
qed

text \<open>A \<open>wpctl\<close> that reports the volume it is given, and carries every command out.\<close>

definition text_volume :: "string \<Rightarrow> fp option" where
  "text_volume t = (if t = ''0.2500'' then Some (Finite (1 / 4)) else if t = ''1.0000'' then Some (Finite 1) else None)"

definition volume_text :: "fp \<Rightarrow> string option" where
  "volume_text v = (if v = Finite (1 / 4) then Some ''0.2500'' else if v = Finite 1 then Some ''1.0000'' else None)"

definition example_wp :: "string \<Rightarrow> wp_env" where
  "example_wp shown = \<lparr>wp_run = (\<lambda>_. \<lparr>re_exit_code = 0, re_timed_out = False, re_launch_failed = False,
       re_stdout = ''Volume: '' @ shown, re_stderr = []\<rparr>),
     wp_double = text_volume, wp_print = volume_text, wp_mul = fp_mul Finite\<rparr>"

definition obeyed :: volume_fate where
  "obeyed cmd v = (case text_volume (sp_args cmd ! 2) of Some u \<Rightarrow> u | None \<Rightarrow> v)"

definition duck_and_restore :: "(ducker_call \<times> volume_fate) list" where
  "duck_and_restore = map (\<lambda>c. (c, obeyed))
     [DoDuck (Finite (1 / 4)), WorkerTakes, WorkerProcesses (example_wp ''1.0000''), DoRestore, WorkerTakes,
      WorkerProcesses (example_wp ''0.2500'')]"

theorem ducker_restores_volume_witness:
  "snd (foldl volume_step (new_ducker, Finite 1) (take 3 duck_and_restore)) = Finite (1 / 4)
   \<and> snd (foldl volume_step (new_ducker, Finite 1) duck_and_restore) = Finite 1"
proof -
  have lowered: "snd (foldl volume_step (new_ducker, Finite 1) (take 3 duck_and_restore)) = Finite (1 / 4)"
    by code_simp
  obtain d v where run: "foldl volume_step (new_ducker, Finite 1) duck_and_restore = (d, v)"
    by (cases "foldl volume_step (new_ducker, Finite 1) duck_and_restore")
  have "wpctl_answers (Finite 1) (new_ducker, Finite 1) duck_and_restore" by code_simp
  note restored = ducker_restores_volume [OF this run]
  have "\<not> du_worker_ducked (fst (foldl volume_step (new_ducker, Finite 1) duck_and_restore))" by code_simp
  then have "v = Finite 1" using restored run by simp
  then show ?thesis using lowered run by simp
qed

end
