(* ===== verification/Recognition_Result.thy ===== *)
theory Recognition_Result
  imports Prelude
begin

text \<open>
  The payload that the daemon hands to the addon (\<open>common/asr/recognition_result.h\<close> and \<open>.cpp\<close>). The
  JSON text is read and written by glaze: the writer turns a payload into text or fails, and the
  reader turns text into the wire structure, in which every field may be missing, or fails.
\<close>

definition kSourceRaw :: string where "kSourceRaw = ''raw''"
definition kSourceLlm :: string where "kSourceLlm = ''llm''"
definition kSourceAsr :: string where "kSourceAsr = ''asr''"
definition kSourceCancel :: string where "kSourceCancel = ''cancel''"

record Candidate =
  cd_text :: string
  cd_source :: string

record Payload =
  pl_commitText :: string
  pl_candidates :: "Candidate list"

definition empty_payload :: Payload where
  "empty_payload = \<lparr>pl_commitText = [], pl_candidates = []\<rparr>"

record WireCandidate =
  wc_text :: "string option"
  wc_source :: "string option"

record WirePayload =
  wp_commit_text :: "string option"
  wp_candidates :: "WireCandidate list option"

definition result_Serialize :: "(Payload \<Rightarrow> string option) \<Rightarrow> Payload \<Rightarrow> string" where
  "result_Serialize emit p = (case emit p of None \<Rightarrow> [] | Some out \<Rightarrow> out)"

fun accept_candidates :: "WireCandidate list \<Rightarrow> Candidate list" where
  "accept_candidates [] = []"
| "accept_candidates (w # ws) =
     (case wc_text w of
        Some t \<Rightarrow>
          (if t \<noteq> [] then
             \<lparr>cd_text = t, cd_source = (case wc_source w of Some s \<Rightarrow> s | None \<Rightarrow> [])\<rparr> # accept_candidates ws
           else accept_candidates ws)
      | None \<Rightarrow> accept_candidates ws)"

definition result_Parse :: "(string \<Rightarrow> WirePayload option) \<Rightarrow> string \<Rightarrow> Payload" where
  "result_Parse read txt =
     (if txt = [] then empty_payload
      else case read txt of
        None \<Rightarrow> empty_payload
      | Some wire \<Rightarrow>
          (let p1 = empty_payload\<lparr>pl_commitText := (case wp_commit_text wire of Some t \<Rightarrow> t | None \<Rightarrow> [])\<rparr>;
               p2 = p1\<lparr>pl_candidates :=
                      (case wp_candidates wire of Some cs \<Rightarrow> accept_candidates cs | None \<Rightarrow> [])\<rparr>;
               p3 = (if pl_commitText p2 = [] \<and> pl_candidates p2 \<noteq> []
                     then p2\<lparr>pl_commitText := cd_text (hd (pl_candidates p2))\<rparr> else p2);
               p4 = (if pl_candidates p3 = [] \<and> pl_commitText p3 \<noteq> []
                     then p3\<lparr>pl_candidates := [\<lparr>cd_text = pl_commitText p3, cd_source = kSourceRaw\<rparr>]\<rparr> else p3)
           in if pl_commitText p4 = [] \<and> pl_candidates p4 = [] then empty_payload else p4))"

section \<open>Properties\<close>

text \<open>What a parsed payload looks like: nothing at all, or a commit text and non-empty candidates.\<close>

definition payload_ok :: "Payload \<Rightarrow> bool" where
  "payload_ok p =
     (p = empty_payload
      \<or> pl_commitText p \<noteq> [] \<and> pl_candidates p \<noteq> [] \<and> list_all (\<lambda>c. cd_text c \<noteq> []) (pl_candidates p))"

lemma accept_candidates_ok: "list_all (\<lambda>c. cd_text c \<noteq> []) (accept_candidates ws)"
  by (induction ws rule: accept_candidates.induct) (auto split: option.split)

lemma accept_candidates_hd: "accept_candidates ws \<noteq> [] \<Longrightarrow> cd_text (hd (accept_candidates ws)) \<noteq> []"
  using accept_candidates_ok [of ws] by (cases "accept_candidates ws") simp_all

definition wire_of :: "Payload \<Rightarrow> WirePayload" where
  "wire_of p = \<lparr>wp_commit_text = Some (pl_commitText p),
     wp_candidates = Some (map (\<lambda>c. \<lparr>wc_text = Some (cd_text c), wc_source = Some (cd_source c)\<rparr>) (pl_candidates p))\<rparr>"

lemma accept_wire:
  "list_all (\<lambda>c. cd_text c \<noteq> []) cs \<Longrightarrow>
     accept_candidates (map (\<lambda>c. \<lparr>wc_text = Some (cd_text c), wc_source = Some (cd_source c)\<rparr>) cs) = cs"
  by (induction cs) auto

text \<open>
  Whatever text arrives, the parsed payload is empty or has a commit text and at least one
  candidate, none of them empty; and a payload of that shape survives serialising and parsing,
  provided that the JSON reader reads back what the JSON writer has written.
\<close>

theorem result_Parse_correct:
  assumes "\<And>q t. emit q = Some t \<Longrightarrow> t \<noteq> [] \<and> read t = Some (wire_of q)"
  shows "payload_ok (result_Parse read txt)
    \<and> (payload_ok p \<and> emit p \<noteq> None \<longrightarrow> result_Parse read (result_Serialize emit p) = p)"
proof (intro conjI impI)
  show "payload_ok (result_Parse read txt)"
    by (auto simp: payload_ok_def result_Parse_def empty_payload_def Let_def accept_candidates_ok
        accept_candidates_hd split: option.split)
next
  assume p: "payload_ok p \<and> emit p \<noteq> None"
  then obtain t where t: "emit p = Some t" by blast
  have r: "t \<noteq> []" "read t = Some (wire_of p)" using assms [OF t] by auto
  have "result_Parse read t = p"
    using p r by (cases p) (auto simp: result_Parse_def wire_of_def payload_ok_def empty_payload_def
        accept_wire Let_def)
  then show "result_Parse read (result_Serialize emit p) = p" by (simp add: result_Serialize_def t)
qed

text \<open>The witness uses a writer that only knows one payload.\<close>

definition toy_payload :: Payload where
  "toy_payload = \<lparr>pl_commitText = ''hi'', pl_candidates = [\<lparr>cd_text = ''hi'', cd_source = kSourceLlm\<rparr>]\<rparr>"

theorem result_Parse_correct_witness:
  "result_Parse (\<lambda>t. Some (wire_of toy_payload))
     (result_Serialize (\<lambda>q. if q = toy_payload then Some ''{}'' else None) toy_payload) = toy_payload"
proof -
  let ?emit = "\<lambda>q. if q = toy_payload then Some ''{}'' else None"
  let ?read = "\<lambda>t :: string. Some (wire_of toy_payload)"
  have h: "t \<noteq> [] \<and> ?read t = Some (wire_of q)" if "?emit q = Some t" for q t
    using that by (auto split: if_splits)
  have "payload_ok toy_payload" by (simp add: payload_ok_def toy_payload_def)
  then show ?thesis using result_Parse_correct [of ?emit ?read "[]" toy_payload, OF h] by simp
qed

end
