(* ===== verification/Client_Protocol.thy ===== *)
theory Client_Protocol
  imports Recognition_Result Json_Access
begin

text \<open>
  The line protocol of managed clients: commands that a client writes
  (\<open>common/client/client_command.h\<close> and \<open>.cpp\<close>) and events that the daemon broadcasts
  (\<open>common/client/client_event.cpp\<close>). Reading a line into the wire envelope and writing a JSON
  object to text belong to the JSON library: \<open>read_wire\<close> gives the envelope or the formatted error,
  \<open>write_text\<close> the text or \<open>None\<close> for a failure.
\<close>

section \<open>Commands\<close>

record WireEnvelope =
  we_type :: string
  we_ime :: "bool option"
  we_mode :: "string option"
  we_selected_text :: "string option"
  we_capture_device :: "string option"
  we_scene :: "string option"
  we_commit_raw :: "bool option"
  we_stage :: "string option"
  we_text :: "string option"

datatype InjectStage = StagePartial | StageFinal

record StartCommand =
  st_ime :: bool
  st_mode :: string
  st_selected_text :: string
  st_capture_device :: string

record StopCommand =
  so_ime :: bool
  so_scene :: string

record CancelCommand =
  ca_ime :: bool
  ca_commit_raw :: bool

record InjectCommand =
  in_ime :: bool
  in_stage :: InjectStage
  in_text :: string
  in_scene :: string

datatype ClientCommand =
    CmdStart StartCommand
  | CmdStop StopCommand
  | CmdCancel CancelCommand
  | CmdInject InjectCommand

definition ParseStart :: "WireEnvelope \<Rightarrow> string + ClientCommand" where
  "ParseStart w =
     (let mode = value_or (we_mode w) ''normal'' in
      if mode \<noteq> ''normal'' \<and> mode \<noteq> ''command'' then
        Inl (''start mode must be '' @ [CHR 0x27] @ ''normal'' @ [CHR 0x27] @ '' or '' @ [CHR 0x27] @ ''command''
             @ [CHR 0x27] @ '', got: '' @ mode)
      else Inr (CmdStart \<lparr>st_ime = value_or (we_ime w) True, st_mode = mode,
                          st_selected_text = value_or (we_selected_text w) [],
                          st_capture_device = value_or (we_capture_device w) []\<rparr>))"

definition ParseStop :: "WireEnvelope \<Rightarrow> string + ClientCommand" where
  "ParseStop w = Inr (CmdStop \<lparr>so_ime = value_or (we_ime w) True, so_scene = value_or (we_scene w) []\<rparr>)"

definition ParseCancel :: "WireEnvelope \<Rightarrow> string + ClientCommand" where
  "ParseCancel w =
     Inr (CmdCancel \<lparr>ca_ime = value_or (we_ime w) True, ca_commit_raw = value_or (we_commit_raw w) False\<rparr>)"

definition ParseInject :: "WireEnvelope \<Rightarrow> string + ClientCommand" where
  "ParseInject w =
     (case (we_stage w, we_text w) of
        (Some stage, Some t) \<Rightarrow>
          (if stage = ''partial'' \<or> stage = ''final'' then
             Inr (CmdInject \<lparr>in_ime = value_or (we_ime w) True,
                    in_stage = (if stage = ''partial'' then StagePartial else StageFinal), in_text = t,
                    in_scene = value_or (we_scene w) []\<rparr>)
           else Inl (''inject stage must be '' @ [CHR 0x27] @ ''partial'' @ [CHR 0x27] @ '' or '' @ [CHR 0x27]
                     @ ''final'' @ [CHR 0x27] @ '', got: '' @ stage))
      | _ \<Rightarrow> Inl (''inject command requires '' @ [CHR 0x27] @ ''stage'' @ [CHR 0x27] @ '' and '' @ [CHR 0x27]
                  @ ''text'' @ [CHR 0x27]))"

definition kCommandParsers :: "(string \<times> (WireEnvelope \<Rightarrow> string + ClientCommand)) list" where
  "kCommandParsers =
     [(''start'', ParseStart), (''stop'', ParseStop), (''cancel'', ParseCancel), (''inject'', ParseInject)]"

definition ParseClientCommand :: "(string \<Rightarrow> string + WireEnvelope) \<Rightarrow> string \<Rightarrow> string + ClientCommand" where
  "ParseClientCommand read_wire line =
     (if line = [] then Inl ''command line is empty''
      else case read_wire line of
        Inl e \<Rightarrow> Inl e
      | Inr w \<Rightarrow>
          (case map_of kCommandParsers (we_type w) of
             Some parser \<Rightarrow> parser w
           | None \<Rightarrow> Inl (''unknown command type: '' @ we_type w)))"

section \<open>Events\<close>

definition glaze_escapable :: "char \<Rightarrow> bool" where
  "glaze_escapable c \<longleftrightarrow> c = CHR 0x08 \<or> c = CHR 0x09 \<or> c = CHR 0x0A \<or> c = CHR 0x0C \<or> c = CHR 0x0D"

fun SanitizeText :: "string \<Rightarrow> string" where
  "SanitizeText [] = []"
| "SanitizeText (c # cs) =
     (if (of_char c :: nat) < 0x20 \<and> \<not> glaze_escapable c then SanitizeText cs else c # SanitizeText cs)"

text \<open>The members in the order in which the wire structs are written.\<close>

definition StatusWire :: "string \<Rightarrow> bool \<Rightarrow> json" where
  "StatusWire status ime = JObj [(''type'', JStr ''status''), (''status'', JStr status), (''ime'', JBool ime)]"

definition PartialWire :: "string \<Rightarrow> bool \<Rightarrow> json" where
  "PartialWire t ime = JObj [(''type'', JStr ''partial''), (''text'', JStr t), (''ime'', JBool ime)]"

definition CandidateWire :: "Candidate \<Rightarrow> json" where
  "CandidateWire c = JObj [(''text'', JStr (SanitizeText (cd_text c))), (''source'', JStr (cd_source c))]"

definition CommittedWire :: "Payload \<Rightarrow> bool \<Rightarrow> json" where
  "CommittedWire p ime =
     JObj [(''type'', JStr ''committed''), (''text'', JStr (SanitizeText (pl_commitText p))),
           (''candidates'', JArr (map CandidateWire (pl_candidates p))), (''ime'', JBool ime)]"

definition SerializeStatusEvent :: "(json \<Rightarrow> string option) \<Rightarrow> string \<Rightarrow> bool \<Rightarrow> string" where
  "SerializeStatusEvent write_text status ime =
     value_or (write_text (StatusWire (SanitizeText status) ime)) []"

definition SerializePartialEvent :: "(json \<Rightarrow> string option) \<Rightarrow> string \<Rightarrow> bool \<Rightarrow> string" where
  "SerializePartialEvent write_text t ime = value_or (write_text (PartialWire (SanitizeText t) ime)) []"

definition SerializeCommittedEvent :: "(json \<Rightarrow> string option) \<Rightarrow> Payload \<Rightarrow> bool \<Rightarrow> string" where
  "SerializeCommittedEvent write_text p ime = value_or (write_text (CommittedWire p ime)) []"

section \<open>Facts\<close>

lemma SanitizeText_filter:
  "SanitizeText s = filter (\<lambda>c. \<not> ((of_char c :: nat) < 0x20 \<and> \<not> glaze_escapable c)) s"
  by (induction s) auto

text \<open>The envelope a client sends for a command.\<close>

definition empty_envelope :: WireEnvelope where
  "empty_envelope = \<lparr>we_type = [], we_ime = None, we_mode = None, we_selected_text = None,
     we_capture_device = None, we_scene = None, we_commit_raw = None, we_stage = None, we_text = None\<rparr>"

fun envelope_of :: "ClientCommand \<Rightarrow> WireEnvelope" where
  "envelope_of (CmdStart c) = empty_envelope\<lparr>we_type := ''start'', we_ime := Some (st_ime c),
     we_mode := Some (st_mode c), we_selected_text := Some (st_selected_text c),
     we_capture_device := Some (st_capture_device c)\<rparr>"
| "envelope_of (CmdStop c) = empty_envelope\<lparr>we_type := ''stop'', we_ime := Some (so_ime c),
     we_scene := Some (so_scene c)\<rparr>"
| "envelope_of (CmdCancel c) = empty_envelope\<lparr>we_type := ''cancel'', we_ime := Some (ca_ime c),
     we_commit_raw := Some (ca_commit_raw c)\<rparr>"
| "envelope_of (CmdInject c) = empty_envelope\<lparr>we_type := ''inject'', we_ime := Some (in_ime c),
     we_stage := Some (case in_stage c of StagePartial \<Rightarrow> ''partial'' | StageFinal \<Rightarrow> ''final''),
     we_text := Some (in_text c), we_scene := Some (in_scene c)\<rparr>"

fun valid_command :: "ClientCommand \<Rightarrow> bool" where
  "valid_command (CmdStart c) \<longleftrightarrow> st_mode c = ''normal'' \<or> st_mode c = ''command''"
| "valid_command _ \<longleftrightarrow> True"

lemmas parser_defs =
  ParseClientCommand_def kCommandParsers_def ParseStart_def ParseStop_def ParseCancel_def
  ParseInject_def value_or_def Let_def

lemma parse_valid: "ParseClientCommand read_wire line = Inr cmd \<Longrightarrow> valid_command cmd"
  by (cases cmd) (auto simp: parser_defs split: sum.splits if_splits option.splits)

lemma parse_envelope:
  assumes "valid_command cmd" and "line \<noteq> []" and "read_wire line = Inr (envelope_of cmd)"
  shows "ParseClientCommand read_wire line = Inr cmd"
proof (cases cmd)
  case (CmdInject c)
  then show ?thesis using assms
    by (cases "in_stage c") (simp_all add: parser_defs empty_envelope_def)
qed (use assms in \<open>auto simp: parser_defs empty_envelope_def\<close>)

section \<open>Properties\<close>

text \<open>
  Commands survive the wire: the line whose envelope a valid command gives is parsed back to exactly
  that command, and nothing but valid commands (a start mode that the protocol knows) is ever
  returned by the parser.
\<close>

theorem ParseClientCommand_roundtrip:
  assumes "valid_command cmd" and "line \<noteq> []" and "read_wire line = Inr (envelope_of cmd)"
  shows "ParseClientCommand read_wire line = Inr cmd
    \<and> (case ParseClientCommand rd l of Inr c \<Rightarrow> valid_command c | Inl _ \<Rightarrow> True)"
  using parse_envelope [of cmd line read_wire] assms parse_valid by (auto split: sum.splits)

theorem ParseClientCommand_roundtrip_witness:
  "let cmd = CmdInject \<lparr>in_ime = False, in_stage = StageFinal, in_text = ''hi'', in_scene = ''s''\<rparr>
   in ParseClientCommand (\<lambda>_. Inr (envelope_of cmd)) ''{}'' = Inr cmd"
  using ParseClientCommand_roundtrip
    [of "CmdInject \<lparr>in_ime = False, in_stage = StageFinal, in_text = ''hi'', in_scene = ''s''\<rparr>" "''{}''"
        "\<lambda>_. Inr (envelope_of (CmdInject \<lparr>in_ime = False, in_stage = StageFinal, in_text = ''hi'', in_scene = ''s''\<rparr>))"]
  by simp

text \<open>
  What is broadcast contains only bytes that the JSON writer escapes: every byte below \<open>0x20\<close> that
  is left is one it knows, all other bytes are kept in order, and sanitising again changes nothing.
\<close>

theorem SanitizeText_correct:
  "list_all (\<lambda>c. 0x20 \<le> (of_char c :: nat) \<or> glaze_escapable c) (SanitizeText s)
   \<and> SanitizeText s = filter (\<lambda>c. 0x20 \<le> (of_char c :: nat) \<or> glaze_escapable c) s
   \<and> SanitizeText (SanitizeText s) = SanitizeText s"
proof -
  have p: "(\<not> ((of_char c :: nat) < 0x20 \<and> \<not> glaze_escapable c)) \<longleftrightarrow> 0x20 \<le> (of_char c :: nat) \<or> glaze_escapable c"
    for c by auto
  show ?thesis unfolding SanitizeText_filter p by (simp add: list_all_iff)
qed

end
