(* ===== verification/Post_Processor.thy ===== *)
theory Post_Processor
  imports Process_Utils Core_Config Recognition_Result
begin

text \<open>
  Postprocessing of recognised text: the parser of model output
  (\<open>daemon/postprocess/candidate_parser.cpp\<close>), prompt files
  (\<open>daemon/postprocess/prompt_template.cpp\<close>), the post processor
  (\<open>daemon/postprocess/post_processor.cpp\<close>) and the pipeline that chooses the scene
  (\<open>daemon/runtime/recognition_pipeline.cpp\<close>). Everything outside is in \<open>pp_env\<close>: the JSON reader
  and writer, the HTTP client, the process runner, the file system, the environment, gettext and
  \<open>fmt::sprintf\<close>, and the cancellation flags as they read at each of the points where the code
  samples them. Log lines and the notifications made from an adapter's stderr are not modelled.
\<close>

section \<open>The candidate parser\<close>

definition fence :: string where
  "fence = ''```''"

definition StripMarkdownFence :: "string \<Rightarrow> string" where
  "StripMarkdownFence text0 =
     (let t = Trim text0 in
      if starts_with t fence then
        (case find_index (\<lambda>c. c = CHR 0x0A) t of
           None \<Rightarrow> t
         | Some p \<Rightarrow>
             (let body = Trim (drop (p + 1) t) in
              if ends_with body fence then Trim (take (length body - 3) body) else t))
      else t)"

definition StripBulletOrNumber :: "string \<Rightarrow> string" where
  "StripBulletOrNumber line =
     (if starts_with line ''- '' \<or> starts_with line ''* '' then Trim (drop 2 line)
      else if 3 \<le> length line \<and> is_digit (line ! 0) \<and> line ! 1 = CHR ''.'' \<and> line ! 2 = CHR '' ''
      then Trim (drop 3 line)
      else if 4 \<le> length line \<and> is_digit (line ! 0) \<and> is_digit (line ! 1) \<and> line ! 2 = CHR ''.''
        \<and> line ! 3 = CHR '' ''
      then Trim (drop 4 line)
      else line)"

text \<open>The loop shared by the two list formats: keep non-empty items until \<open>max\<close> are kept.\<close>

fun collect_candidates :: "('a \<Rightarrow> string option) \<Rightarrow> nat \<Rightarrow> 'a list \<Rightarrow> string list" where
  "collect_candidates item n [] = []"
| "collect_candidates item n (x # xs) =
     (case item x of
        None \<Rightarrow> collect_candidates item n xs
      | Some t \<Rightarrow>
          (if t = [] then collect_candidates item n xs
           else if n \<le> 1 then [t]
           else t # collect_candidates item (n - 1) xs))"

fun json_item :: "json \<Rightarrow> string option" where
  "json_item (JStr s) = Some (Trim s)"
| "json_item _ = None"

definition line_item :: "string \<Rightarrow> string option" where
  "line_item l = Some (StripBulletOrNumber (Trim l))"

definition ExtractCandidatesAuto :: "(string \<Rightarrow> json option) \<Rightarrow> string \<Rightarrow> int \<Rightarrow> string list" where
  "ExtractCandidatesAuto read_json raw max_candidates =
     (if max_candidates \<le> 0 then []
      else
        (let content = StripMarkdownFence raw in
         if content = [] then []
         else
           (case (case read_json content of Some j \<Rightarrow> json_Find j ''candidates'' | None \<Rightarrow> None) of
              Some (JArr items) \<Rightarrow> collect_candidates json_item (nat max_candidates) items
            | _ \<Rightarrow>
                if max_candidates = 1 then
                  (let trimmed = Trim content in if trimmed \<noteq> [] then [trimmed] else [])
                else collect_candidates line_item (nat max_candidates) (Split content CHR 0x0A))))"

section \<open>The outside world\<close>

record HttpRequest =
  rq_url :: string
  rq_body :: string
  rq_timeout_ms :: int
  rq_connect_timeout_ms :: int
  rq_max_response_bytes :: nat
  rq_headers :: "(string \<times> string) list"

record HttpResponse =
  rs_cancelled :: bool
  rs_error_message :: string
  rs_status_code :: int
  rs_body :: string

text \<open>The flags are sampled at entry (\<open>0\<close>) and after the request or the process (\<open>1\<close>).\<close>

record pp_env =
  pe_read_json :: "string \<Rightarrow> json option"
  pe_to_text :: "json \<Rightarrow> string"
  pe_http :: "HttpRequest \<Rightarrow> HttpResponse"
  pe_run :: "CommandSpec \<Rightarrow> string \<Rightarrow> CommandResult"
  pe_exists :: "string \<Rightarrow> string option"
  pe_regular :: "string \<Rightarrow> bool"
  pe_read_file :: "string \<Rightarrow> nat \<Rightarrow> string + string"
  pe_context_file :: "string option"
  pe_getenv :: "string \<Rightarrow> string option"
  pe_tr :: "string \<Rightarrow> string"
  pe_sprintf :: "string \<Rightarrow> string list \<Rightarrow> string"
  pe_cancelled :: "nat \<Rightarrow> bool"

section \<open>Prompt files\<close>

definition kMaxPromptFileBytes :: nat where "kMaxPromptFileBytes = 256 * 1024"

text \<open>\<open>pe_exists\<close> gives the reason why a file does not exist, or \<open>None\<close> when it does.\<close>

definition LoadFromFileUri :: "pp_env \<Rightarrow> string \<Rightarrow> string + string" where
  "LoadFromFileUri env uri =
     (if \<not> IsFileUri uri then Inl ''not a file:/// URI''
      else let path = drop 7 uri in
        if path = [] \<or> path = ''/'' then Inl ''empty path''
        else case pe_exists env path of
          Some e \<Rightarrow> Inl (if e \<noteq> [] then e else ''file does not exist'')
        | None \<Rightarrow>
            if \<not> pe_regular env path then Inl ''not a regular file''
            else pe_read_file env path kMaxPromptFileBytes)"

section \<open>Building the request\<close>

definition kMaxResponseBytes :: nat where "kMaxResponseBytes = 1024 * 1024"
definition kDefaultConnectTimeoutMs :: int where "kDefaultConnectTimeoutMs = 5000"
definition kOpenAiChatCompletionsPath :: string where "kOpenAiChatCompletionsPath = ''/chat/completions''"

definition BuildCandidatesResponseFormat :: json where
  "BuildCandidatesResponseFormat = JObj [(''type'', JStr ''json_object'')]"

definition BuildRequestUrl :: "string \<Rightarrow> string" where
  "BuildRequestUrl base_url =
     (if base_url = [] then []
      else if ends_with base_url kOpenAiChatCompletionsPath then base_url
      else JoinPath base_url kOpenAiChatCompletionsPath)"

definition ExtractCandidates :: "(string \<Rightarrow> json option) \<Rightarrow> json \<Rightarrow> int \<Rightarrow> string list" where
  "ExtractCandidates read_json response max_candidates =
     (case json_Find response ''choices'' of
        Some (JArr (choice # _)) \<Rightarrow>
          (case json_Find choice ''message'' of
             Some (JObj m) \<Rightarrow>
               (case map_of m ''content'' of
                  Some (JStr content) \<Rightarrow> ExtractCandidatesAuto read_json content max_candidates
                | _ \<Rightarrow> [])
           | _ \<Rightarrow> [])
      | _ \<Rightarrow> [])"

definition kXmlTagAsr :: string where "kXmlTagAsr = ''vinput-asr''"
definition kXmlTagSelected :: string where "kXmlTagSelected = ''vinput-selected''"
definition kXmlTagContext :: string where "kXmlTagContext = ''vinput-context''"

definition WrapXmlBlock :: "string \<Rightarrow> string \<Rightarrow> string" where
  "WrapXmlBlock tag t =
     ''<'' @ tag @ ''>\<newline>'' @ t @ (if t = [] \<or> last t \<noteq> CHR 0x0A then [CHR 0x0A] else []) @
     ''</'' @ tag @ ''>''"

definition BuildContextPrefix :: "pp_env \<Rightarrow> int \<Rightarrow> string" where
  "BuildContextPrefix env max_lines =
     (if max_lines \<le> 0 then []
      else case pe_context_file env of
        None \<Rightarrow> []
      | Some content \<Rightarrow>
          (let lines = filter (\<lambda>l. l \<noteq> []) (Split content CHR 0x0A) in
           if lines = [] then []
           else ''Recent input history (use to fix ASR errors):\<newline>'' @
             concat (map (\<lambda>l. l @ [CHR 0x0A]) (drop (length lines - nat max_lines) lines)) @ [CHR 0x0A]))"

definition BuildConstraintsSuffix :: "int \<Rightarrow> bool \<Rightarrow> string" where
  "BuildConstraintsSuffix n json_object =
     (if n \<le> 0 then []
      else if \<not> json_object then
        (if n = 1 then
           ''\<newline>\<newline>## Constraints\<newline>'' @
           ''- Return only the final rewritten text directly.\<newline>'' @
           ''- Do not include explanations, markdown fences, or extra commentary.''
         else
           ''\<newline>\<newline>## Constraints\<newline>'' @
           ''- Return up to '' @ to_string n @ '' distinct candidate(s), exactly one candidate per line.\<newline>'' @
           ''- Each line must contain only the final rewritten text.\<newline>'' @
           ''- Do not include numbering, explanations, markdown fences, or extra commentary.'')
      else
        ''\<newline>\<newline>## Constraints\<newline>'' @
        ''- Return only the JSON object described below.\<newline>'' @
        ''- Each candidate must contain only the final rewritten text.\<newline>'' @
        ''- Do not include explanations, Markdown fences, or extra keys.\<newline>'' @
        ''\<newline>\<newline>## Format\<newline>'' @
        ''Return up to '' @ to_string n @ '' distinct candidate(s) in a JSON object:\<newline>'' @
        ''```json\<newline>'' @
        ''{'' @ [CHR 0x22] @ ''candidates'' @ [CHR 0x22] @ '': ['' @ [CHR 0x22] @ ''<string>'' @ [CHR 0x22] @ '']}\<newline>'' @
        ''```'')"

definition kProtected :: "string list" where
  "kProtected = [''messages'', ''stream'', ''response_format'']"

fun merge_members :: "(string \<times> json) list \<Rightarrow> (string \<times> json) list \<Rightarrow> (string \<times> json) list" where
  "merge_members request [] = request"
| "merge_members request ((k, v) # extra) =
     (if k \<in> set kProtected then merge_members request extra
      else merge_members (smap_put k v request) extra)"

definition MergeExtraBody :: "(string \<times> json) list \<Rightarrow> json \<Rightarrow> (string \<times> json) list" where
  "MergeExtraBody request extra =
     (case extra of JObj m \<Rightarrow> merge_members request m | _ \<Rightarrow> request)"

definition dec_0_2 :: fp where "dec_0_2 = Finite (3602879701896397 / 18014398509481984)"

definition build_request :: "SceneDefinition \<Rightarrow> LlmProvider \<Rightarrow> string \<Rightarrow> (string \<times> json) list" where
  "build_request scene provider user_content =
     (let base = smap_put ''model'' (JStr (sc_model scene)) (smap_put ''stream'' (JBool False)
            (smap_put ''temperature'' (JNum dec_0_2)
              (smap_put ''messages'' (JArr [JObj [(''content'', JStr user_content), (''role'', JStr ''user'')]]) [])));
          formatted = (if lp_json_object provider
                       then smap_put ''response_format'' BuildCandidatesResponseFormat base else base)
      in MergeExtraBody formatted (lp_extra_body provider))"

definition build_user_content ::
    "pp_env \<Rightarrow> string \<Rightarrow> SceneDefinition \<Rightarrow> LlmProvider \<Rightarrow> int \<Rightarrow> string \<Rightarrow> string \<Rightarrow> string \<Rightarrow> string" where
  "build_user_content env txt scene provider max_llm base_prompt asr_var selected_var =
     (let context_prefix = BuildContextPrefix env (sc_context_lines scene) in
      (if prompt_HasInterpolation base_prompt then
         prompt_Interpolate base_prompt
           \<lparr>pv_asr = (if asr_var = [] then txt else asr_var), pv_selected = selected_var,
            pv_context = context_prefix\<rparr>
       else
         base_prompt @
         (if base_prompt = [] then []
          else if last base_prompt \<noteq> CHR 0x0A then [CHR 0x0A, CHR 0x0A] else [CHR 0x0A]) @
         (if context_prefix \<noteq> [] then WrapXmlBlock kXmlTagContext context_prefix @ [CHR 0x0A] else []) @
         (if txt \<noteq> [] then WrapXmlBlock kXmlTagAsr txt @ [CHR 0x0A] else []))
      @ BuildConstraintsSuffix max_llm (lp_json_object provider))"

definition build_headers :: "pp_env \<Rightarrow> LlmProvider \<Rightarrow> (string \<times> string) list" where
  "build_headers env provider =
     (let key = InterpolateEnv (pe_getenv env) (lp_api_key provider) in
      [(''Content-Type'', ''application/json''), (''User-Agent'', ''fcitx5-vinput/0.1'')] @
      (if key \<noteq> [] then [(''Authorization'', ''Bearer '' @ key)] else []))"

section \<open>The two rewriters\<close>

definition quote_s :: string where
  "quote_s = [CHR 0x27] @ ''%s'' @ [CHR 0x27]"

text \<open>
  A rewriter returns the candidates, or none, and the text behind \<open>error_out\<close>: \<open>err\<close> is its value
  before the call.
\<close>

type_synonym rewrite_result = "string list option \<times> string"

definition handle_response :: "pp_env \<Rightarrow> int \<Rightarrow> string \<Rightarrow> HttpResponse \<Rightarrow> rewrite_result" where
  "handle_response env max_llm err res =
     (if rs_cancelled res \<or> pe_cancelled env 1 then (None, [])
      else if rs_error_message res \<noteq> [] then
        (None, pe_tr env ''LLM request failed.'' @ ''\<newline>'' @ rs_error_message res)
      else if rs_status_code res < 200 \<or> 300 \<le> rs_status_code res then
        (None, pe_tr env ''LLM request returned an HTTP error.'' @ ''\<newline>HTTP '' @
               to_string (rs_status_code res) @ '': '' @ rs_body res)
      else case pe_read_json env (rs_body res) of
        None \<Rightarrow> (None, err)
      | Some response \<Rightarrow>
          if json_Find response ''error'' \<noteq> None then (None, err)
          else (case ExtractCandidates (pe_read_json env) response max_llm of
                  [] \<Rightarrow> (None, err)
                | cs \<Rightarrow> (Some cs, err)))"

definition RewriteWithOpenAiCompatible ::
    "pp_env \<Rightarrow> string \<Rightarrow> SceneDefinition \<Rightarrow> LlmProvider \<Rightarrow> int \<Rightarrow> string \<Rightarrow> string \<Rightarrow> string \<Rightarrow> string \<Rightarrow> rewrite_result" where
  "RewriteWithOpenAiCompatible env txt scene provider max_llm err task_prompt asr_var selected_var =
     (if pe_cancelled env 0 then (None, [])
      else let url = BuildRequestUrl (lp_base_url provider) in
        if url = [] then (None, err)
        else
          (let prompt0 = (if task_prompt = [] then sc_prompt scene else task_prompt) in
           case (if task_prompt = [] \<and> IsFileUri prompt0 then LoadFromFileUri env prompt0 else Inr prompt0) of
             Inl load_err \<Rightarrow>
               (None, pe_sprintf env (pe_tr env (''Failed to load prompt file '' @ quote_s @ '': %s'')) [prompt0, load_err])
           | Inr base_prompt \<Rightarrow>
               (let content = build_user_content env txt scene provider max_llm base_prompt asr_var selected_var;
                    req = \<lparr>rq_url = url,
                           rq_body = pe_to_text env (JObj (build_request scene provider content)),
                           rq_timeout_ms = sc_timeout_ms scene,
                           rq_connect_timeout_ms = min (sc_timeout_ms scene) kDefaultConnectTimeoutMs,
                           rq_max_response_bytes = kMaxResponseBytes,
                           rq_headers = build_headers env provider\<rparr>
                in handle_response env max_llm err (pe_http env req))))"

definition RewriteWithCommandAdapter ::
    "pp_env \<Rightarrow> string \<Rightarrow> SceneDefinition \<Rightarrow> LlmAdapter \<Rightarrow> int \<Rightarrow> string \<Rightarrow> rewrite_result" where
  "RewriteWithCommandAdapter env stdin_content scene adapter max_candidates err =
     (if pe_cancelled env 0 then (None, [])
      else if la_command adapter = [] then
        (None, pe_sprintf env (pe_tr env (''Adapter '' @ quote_s @ '' has no command configured.'')) [la_id adapter])
      else
        (let result = pe_run env
               \<lparr>sp_command = la_command adapter, sp_args = la_args adapter, sp_env = la_env adapter,
                sp_timeout_ms = sc_timeout_ms scene\<rparr> stdin_content
         in if pe_cancelled env 1 then (None, [])
            else if re_launch_failed result then
              (None, pe_sprintf env (pe_tr env (''Failed to start adapter '' @ quote_s @ ''.'')) [la_id adapter])
            else if re_timed_out result then
              (None, pe_sprintf env (pe_tr env (''Adapter '' @ quote_s @ '' timed out.'')) [la_id adapter])
            else if re_exit_code result \<noteq> 0 then
              (None, pe_sprintf env (pe_tr env (''Adapter '' @ quote_s @ '' exited with code %d.''))
                 [la_id adapter, to_string (re_exit_code result)])
            else (case ExtractCandidatesAuto (pe_read_json env) (re_stdout result) max_candidates of
                    [] \<Rightarrow> (None, err)
                  | cs \<Rightarrow> (Some cs, err))))"

section \<open>Assembling the payload\<close>

definition AppendCandidate :: "Candidate list \<Rightarrow> string \<Rightarrow> string \<Rightarrow> Candidate list" where
  "AppendCandidate cs t source =
     (let t' = Trim t in if t' = [] then cs else cs @ [\<lparr>cd_text = t', cd_source = source\<rparr>])"

text \<open>
  The loop over the rewritten texts: \<open>accepted\<close> counts the candidates taken so far, and the first
  of them becomes the text to commit.
\<close>

fun llm_loop ::
    "int \<Rightarrow> string list \<Rightarrow> int \<Rightarrow> string \<Rightarrow> string list \<Rightarrow> Candidate list \<Rightarrow> string \<times> Candidate list" where
  "llm_loop max_llm seen accepted first [] cs = (first, cs)"
| "llm_loop max_llm seen accepted first (t # ts) cs =
     (let trimmed = Trim t in
      if trimmed = [] \<or> trimmed \<in> set seen then llm_loop max_llm seen accepted first ts cs
      else
        (let first' = (if first = [] then trimmed else first);
             cs' = AppendCandidate cs trimmed kSourceLlm
         in if max_llm \<le> accepted + 1 then (first', cs')
            else llm_loop max_llm (trimmed # seen) (accepted + 1) first' ts cs'))"

definition raw_payload :: "string \<Rightarrow> Payload" where
  "raw_payload t = \<lparr>pl_commitText = t, pl_candidates = AppendCandidate [] t kSourceRaw\<rparr>"

definition assemble_payload :: "SceneDefinition \<Rightarrow> string \<Rightarrow> int \<Rightarrow> string list option \<Rightarrow> Payload" where
  "assemble_payload scene normalized max_llm rewritten =
     (case rewritten of
        None \<Rightarrow> raw_payload normalized
      | Some ts \<Rightarrow>
          (let cs0 = (if sc_raw_cand scene then AppendCandidate [] normalized kSourceRaw else []);
               seen0 = (if sc_raw_cand scene then [normalized] else []);
               (first_llm, cs) = llm_loop max_llm seen0 0 [] ts cs0
           in if cs = [] then raw_payload normalized
              else \<lparr>pl_commitText = (if first_llm = [] then normalized else first_llm), pl_candidates = cs\<rparr>))"

definition pp_Process ::
    "pp_env \<Rightarrow> string \<Rightarrow> SceneDefinition \<Rightarrow> CoreConfig \<Rightarrow> string \<Rightarrow> Payload \<times> string" where
  "pp_Process env raw_text scene settings err =
     (let normalized = Trim raw_text in
      if normalized = [] then (empty_payload, err)
      else
        (let max_llm = NormalizeLlmMaxCandidates (sc_llm_max_candidates scene);
             provider = view_LlmProvider settings (sc_provider_id scene);
             adapter = (if provider = None then view_LlmAdapter settings (sc_provider_id scene) else None)
         in if provider = None \<and> adapter = None \<or> max_llm = 0 then (raw_payload normalized, err)
            else
              (let (rewritten, err') =
                 (case provider of
                    Some p \<Rightarrow> RewriteWithOpenAiCompatible env normalized scene p max_llm err [] [] []
                  | None \<Rightarrow> RewriteWithCommandAdapter env normalized scene (the adapter) max_llm err)
               in (assemble_payload scene normalized max_llm rewritten, err'))))"

definition legacy_command_prompt :: "string \<Rightarrow> string \<Rightarrow> string \<Rightarrow> string" where
  "legacy_command_prompt task_prompt asr selected =
     task_prompt @ (if task_prompt \<noteq> [] \<and> last task_prompt \<noteq> CHR 0x0A then [CHR 0x0A] else []) @ [CHR 0x0A] @
     WrapXmlBlock kXmlTagAsr asr @ [CHR 0x0A, CHR 0x0A] @ WrapXmlBlock kXmlTagSelected selected @ [CHR 0x0A]"

text \<open>The rewriting step of a command; \<open>None\<close> stands for the early return with the fallback.\<close>

definition command_rewrite ::
    "pp_env \<Rightarrow> string \<Rightarrow> string \<Rightarrow> SceneDefinition \<Rightarrow> LlmProvider option \<Rightarrow> LlmAdapter option \<Rightarrow> int \<Rightarrow> string \<Rightarrow>
     string + rewrite_result" where
  "command_rewrite env asr selected scene provider adapter max_llm err =
     (case provider of
        Some p \<Rightarrow>
          (case (if IsFileUri (sc_prompt scene) then LoadFromFileUri env (sc_prompt scene)
                 else Inr (sc_prompt scene)) of
             Inl load_err \<Rightarrow>
               Inl (pe_sprintf env (pe_tr env (''Failed to load prompt file '' @ quote_s @ '': %s''))
                      [sc_prompt scene, load_err])
           | Inr task_prompt \<Rightarrow>
               Inr (if prompt_HasInterpolation task_prompt then
                      RewriteWithOpenAiCompatible env [] scene p max_llm err task_prompt asr selected
                    else
                      RewriteWithOpenAiCompatible env [] scene p max_llm err
                        (legacy_command_prompt task_prompt asr selected) [] []))
      | None \<Rightarrow>
          Inr (RewriteWithCommandAdapter env
                 (pe_to_text env (JObj (smap_put ''text'' (JStr asr) [(''selected'', JStr selected)])))
                 scene (the adapter) max_llm err))"

definition command_payload :: "string \<Rightarrow> string \<Rightarrow> int \<Rightarrow> string list option \<Rightarrow> Payload" where
  "command_payload normalized_asr selected max_llm rewritten =
     (let cs1 = AppendCandidate [] selected kSourceRaw;
          (seen, cs2) = (if normalized_asr = selected then ([selected], cs1)
                         else ([normalized_asr, selected], AppendCandidate cs1 normalized_asr kSourceAsr));
          (first_llm, cs) = (case rewritten of
                               Some ts \<Rightarrow> llm_loop max_llm seen 0 [] ts cs2
                             | None \<Rightarrow> ([], cs2))
      in \<lparr>pl_commitText = (if first_llm = [] then selected else first_llm), pl_candidates = cs\<rparr>)"

definition pp_ProcessCommand ::
    "pp_env \<Rightarrow> string \<Rightarrow> string \<Rightarrow> SceneDefinition \<Rightarrow> CoreConfig \<Rightarrow> string \<Rightarrow> Payload \<times> string" where
  "pp_ProcessCommand env asr_text selected scene settings err =
     (let normalized_asr = Trim asr_text;
          fallback = raw_payload (if normalized_asr = [] then selected else normalized_asr)
      in if normalized_asr = [] \<or> selected = [] then (fallback, err)
         else
           (let max_llm = NormalizeLlmMaxCandidates (sc_llm_max_candidates scene);
                provider = view_LlmProvider settings (sc_provider_id scene);
                adapter = (if provider = None then view_LlmAdapter settings (sc_provider_id scene) else None)
            in if provider = None \<and> adapter = None \<or> max_llm = 0 then (fallback, err)
               else
                 (case command_rewrite env normalized_asr selected scene provider adapter max_llm err of
                    Inl err' \<Rightarrow> (fallback, err')
                  | Inr (rewritten, err') \<Rightarrow> (command_payload normalized_asr selected max_llm rewritten, err'))))"

section \<open>The pipeline\<close>

record PostprocessRequest =
  pr_text :: string
  pr_scene_id :: string
  pr_is_command :: bool
  pr_selected_text :: string

record RecognitionPipelineResult =
  rpr_payload :: Payload
  rpr_errors :: "string list"
  rpr_entered :: bool

definition empty_result :: RecognitionPipelineResult where
  "empty_result = \<lparr>rpr_payload = empty_payload, rpr_errors = [], rpr_entered = False\<rparr>"

text \<open>
  \<open>rpr_entered\<close> records the call of \<open>on_enter_postprocessing\<close>. The post processor is the owner's and
  never null here.
\<close>

definition invoke_processor :: "Payload \<times> string \<Rightarrow> RecognitionPipelineResult" where
  "invoke_processor r =
     \<lparr>rpr_payload = fst r, rpr_errors = (if snd r = [] then [] else [snd r]), rpr_entered = True\<rparr>"

definition commit_only :: "string \<Rightarrow> string list \<Rightarrow> RecognitionPipelineResult" where
  "commit_only t errors =
     \<lparr>rpr_payload = empty_payload\<lparr>pl_commitText := t\<rparr>, rpr_errors = errors, rpr_entered = False\<rparr>"

definition pipeline_Process :: "pp_env \<Rightarrow> PostprocessRequest \<Rightarrow> CoreConfig \<Rightarrow> RecognitionPipelineResult" where
  "pipeline_Process env rq settings =
     (if pr_text rq = [] then empty_result
      else if pr_is_command rq then
        (let scene = (case CommandScene settings of
                        Some s \<Rightarrow> s
                      | None \<Rightarrow> default_scene\<lparr>sc_id := kCommandSceneId, sc_builtin := True\<rparr>)
         in if sc_llm_max_candidates scene > 0 \<and> sc_provider_id scene \<noteq> [] then
              invoke_processor (pp_ProcessCommand env (pr_text rq) (pr_selected_text rq) scene settings [])
            else commit_only (pr_text rq) [])
      else
        (let target = (if pr_scene_id rq = [] then cc_activeScene settings else pr_scene_id rq) in
         case find (\<lambda>s. sc_id s = target) (cc_definitions settings) of
           None \<Rightarrow>
             commit_only (pr_text rq) [pe_sprintf env (pe_tr env (''Scene '' @ quote_s @ '' not found.'')) [target]]
         | Some scene \<Rightarrow>
             if sc_llm_max_candidates scene > 0 \<and> sc_provider_id scene \<noteq> [] then
               invoke_processor (pp_Process env (pr_text rq) scene settings [])
             else commit_only (pr_text rq) []))"

section \<open>Facts about the loops\<close>

lemma collect_candidates_length: "length (collect_candidates item n xs) \<le> max n 1"
proof (induction xs arbitrary: n)
  case (Cons x xs)
  show ?case using Cons.IH [of n] Cons.IH [of "n - 1"] by (auto split: option.split)
qed simp

lemma collect_candidates_mem:
  "t \<in> set (collect_candidates item n xs) \<Longrightarrow> t \<noteq> [] \<and> (\<exists>x\<in>set xs. item x = Some t)"
  by (induction xs arbitrary: n) (auto split: option.splits if_splits)

lemma StripBulletOrNumber_trimmed: "Trim l = l \<Longrightarrow> Trim (StripBulletOrNumber l) = StripBulletOrNumber l"
  by (simp add: StripBulletOrNumber_def Trim_idem)

lemma llm_loop_spec:
  assumes "accepted < max_llm"
  shows "\<exists>new. llm_loop max_llm seen accepted first ts cs =
        (if first = [] then (case new of [] \<Rightarrow> [] | t # _ \<Rightarrow> t) else first,
         cs @ map (\<lambda>t. \<lparr>cd_text = t, cd_source = kSourceLlm\<rparr>) new)
      \<and> distinct new \<and> set new \<inter> set seen = {}
      \<and> list_all (\<lambda>t. t \<noteq> [] \<and> Trim t = t \<and> t \<in> Trim ` set ts) new
      \<and> int (length new) \<le> max_llm - accepted"
  using assms
proof (induction ts arbitrary: seen accepted first cs)
  case Nil
  show ?case using Nil by (intro exI [of _ "[]"]) simp
next
  case (Cons t ts)
  show ?case
  proof (cases "Trim t = [] \<or> Trim t \<in> set seen")
    case True
    from Cons.IH [OF Cons.prems, of seen first cs] obtain new where
      "llm_loop max_llm seen accepted first ts cs =
        (if first = [] then (case new of [] \<Rightarrow> [] | t # _ \<Rightarrow> t) else first,
         cs @ map (\<lambda>t. \<lparr>cd_text = t, cd_source = kSourceLlm\<rparr>) new)"
      "distinct new" "set new \<inter> set seen = {}"
      "list_all (\<lambda>t. t \<noteq> [] \<and> Trim t = t \<and> t \<in> Trim ` set ts) new" "int (length new) \<le> max_llm - accepted"
      by blast
    then show ?thesis using True by (intro exI [of _ new]) (auto simp: Let_def list_all_iff)
  next
    case False
    let ?first = "if first = [] then Trim t else first"
    let ?cs = "cs @ [\<lparr>cd_text = Trim t, cd_source = kSourceLlm\<rparr>]"
    have app: "AppendCandidate cs (Trim t) kSourceLlm = ?cs"
      using False by (simp add: AppendCandidate_def Trim_idem)
    show ?thesis
    proof (cases "max_llm \<le> accepted + 1")
      case True
      then have "llm_loop max_llm seen accepted first (t # ts) cs = (?first, ?cs)"
        using False by (auto simp: Let_def app)
      then show ?thesis using False Cons.prems by (intro exI [of _ "[Trim t]"]) (simp add: Trim_idem)
    next
      case go: False
      from Cons.IH [of "accepted + 1" "Trim t # seen" ?first ?cs] go obtain new where
        new: "llm_loop max_llm (Trim t # seen) (accepted + 1) ?first ts ?cs =
          (if ?first = [] then (case new of [] \<Rightarrow> [] | t # _ \<Rightarrow> t) else ?first,
           ?cs @ map (\<lambda>t. \<lparr>cd_text = t, cd_source = kSourceLlm\<rparr>) new)"
        "distinct new" "set new \<inter> set (Trim t # seen) = {}"
        "list_all (\<lambda>t. t \<noteq> [] \<and> Trim t = t \<and> t \<in> Trim ` set ts) new"
        "int (length new) \<le> max_llm - (accepted + 1)"
        by auto
      have "llm_loop max_llm seen accepted first (t # ts) cs =
          llm_loop max_llm (Trim t # seen) (accepted + 1) ?first ts ?cs"
        using False go by (auto simp: Let_def app)
      then show ?thesis using new False
        by (intro exI [of _ "Trim t # new"]) (auto simp: Trim_idem list_all_iff)
    qed
  qed
qed

section \<open>Properties\<close>

lemma ExtractCandidatesAuto_items:
  "t \<in> set (ExtractCandidatesAuto rj raw n) \<Longrightarrow> t \<noteq> [] \<and> Trim t = t"
proof -
  have item: "Trim u = u" if "json_item j = Some u" for j u using that by (cases j) auto
  have line: "Trim u = u" if "line_item l = Some u" for l u
    using that StripBulletOrNumber_trimmed [of "Trim l"] by (auto simp: line_item_def)
  show "t \<in> set (ExtractCandidatesAuto rj raw n) \<Longrightarrow> t \<noteq> [] \<and> Trim t = t"
    by (auto simp: ExtractCandidatesAuto_def Let_def split: if_splits option.splits json.splits
        dest!: collect_candidates_mem dest: item line)
qed

text \<open>
  Whatever a model or an adapter prints, as JSON, plain text, fenced or as a list, the parser
  returns at most the requested number of candidates, each trimmed and not empty, and none when
  none are requested.
\<close>

theorem ExtractCandidatesAuto_bounded:
  "length (ExtractCandidatesAuto read_json raw n) \<le> nat n
   \<and> list_all (\<lambda>t. t \<noteq> [] \<and> Trim t = t) (ExtractCandidatesAuto read_json raw n)"
proof
  have one: "length (collect_candidates json_item (Suc 0) xs) \<le> Suc 0" for xs
    using collect_candidates_length [of json_item 1 xs] by simp
  have j: "length (collect_candidates json_item (nat n) xs) \<le> nat n" if "\<not> n \<le> 0" for xs
    using collect_candidates_length [of json_item "nat n" xs] that by simp
  have l: "length (collect_candidates line_item (nat n) xs) \<le> nat n" if "\<not> n \<le> 0" for xs
    using collect_candidates_length [of line_item "nat n" xs] that by simp
  show "length (ExtractCandidatesAuto read_json raw n) \<le> nat n"
    by (simp add: ExtractCandidatesAuto_def Let_def one j l split: option.split json.split)
  show "list_all (\<lambda>t. t \<noteq> [] \<and> Trim t = t) (ExtractCandidatesAuto read_json raw n)"
    unfolding list_all_iff using ExtractCandidatesAuto_items by blast
qed

lemma merge_members_protected:
  "k \<in> set kProtected \<Longrightarrow> map_of (merge_members rq extra) k = map_of rq k"
  by (induction rq extra rule: merge_members.induct) auto

text \<open>
  The user's \<open>extra_body\<close> cannot break the response contract: whatever it holds, the request
  carries the one user message, asks for no streaming, and asks for a JSON object exactly when the
  provider is configured for it.
\<close>

theorem build_request_protected:
  "map_of (build_request scene provider content) ''messages'' =
     Some (JArr [JObj [(''content'', JStr content), (''role'', JStr ''user'')]])
   \<and> map_of (build_request scene provider content) ''stream'' = Some (JBool False)
   \<and> map_of (build_request scene provider content) ''response_format'' =
       (if lp_json_object provider then Some BuildCandidatesResponseFormat else None)"
  by (simp add: build_request_def MergeExtraBody_def merge_members_protected kProtected_def Let_def
      split: json.split)

definition payload_texts :: "Payload \<Rightarrow> string list" where
  "payload_texts p = map cd_text (pl_candidates p)"

lemma NormalizeLlmMaxCandidates_pos:
  "NormalizeLlmMaxCandidates n \<noteq> 0 \<Longrightarrow> 0 < NormalizeLlmMaxCandidates n"
  using NormalizeLlmMaxCandidates_range [of n] by simp

text \<open>What \<open>Process\<close> may return for a text that is not blank.\<close>

definition process_ok :: "string \<Rightarrow> SceneDefinition \<Rightarrow> Payload \<Rightarrow> bool" where
  "process_ok normalized scene p =
     (pl_commitText p \<noteq> [] \<and> pl_commitText p \<in> set (payload_texts p) \<union> {normalized}
      \<and> pl_candidates p \<noteq> []
      \<and> distinct (payload_texts p) \<and> list_all (\<lambda>t. t \<noteq> [] \<and> Trim t = t) (payload_texts p)
      \<and> int (length (filter (\<lambda>c. cd_source c = kSourceLlm) (pl_candidates p)))
          \<le> NormalizeLlmMaxCandidates (sc_llm_max_candidates scene)
      \<and> (sc_raw_cand scene \<longrightarrow> hd (pl_candidates p) = \<lparr>cd_text = normalized, cd_source = kSourceRaw\<rparr>))"

lemma sources_distinct [simp]: "kSourceRaw \<noteq> kSourceLlm" "kSourceAsr \<noteq> kSourceLlm"
  by (simp_all add: kSourceRaw_def kSourceLlm_def kSourceAsr_def)

lemma raw_payload_ok:
  "n \<noteq> [] \<Longrightarrow> Trim n = n \<Longrightarrow> process_ok n scene (raw_payload n)"
  using NormalizeLlmMaxCandidates_range(1) [of "sc_llm_max_candidates scene"]
  by (simp add: process_ok_def raw_payload_def payload_texts_def AppendCandidate_def Let_def)

lemma llm_payload_ok:
  assumes n: "n \<noteq> []" "Trim n = n" and m: "NormalizeLlmMaxCandidates (sc_llm_max_candidates scene) \<noteq> 0"
    and loop: "llm_loop (NormalizeLlmMaxCandidates (sc_llm_max_candidates scene))
        (if sc_raw_cand scene then [n] else []) 0 [] ts
        (if sc_raw_cand scene then AppendCandidate [] n kSourceRaw else []) = (first, cs)"
    and ne: "cs \<noteq> []"
  shows "process_ok n scene \<lparr>pl_commitText = (if first = [] then n else first), pl_candidates = cs\<rparr>"
proof -
  let ?raw = "if sc_raw_cand scene then [\<lparr>cd_text = n, cd_source = kSourceRaw\<rparr>] else []"
  have app: "AppendCandidate [] n kSourceRaw = [\<lparr>cd_text = n, cd_source = kSourceRaw\<rparr>]"
    using n by (simp add: AppendCandidate_def)
  from llm_loop_spec [OF NormalizeLlmMaxCandidates_pos [OF m],
      of "if sc_raw_cand scene then [n] else []" "[]" ts
        "if sc_raw_cand scene then AppendCandidate [] n kSourceRaw else []"]
  obtain new where new: "first = (case new of [] \<Rightarrow> [] | t # _ \<Rightarrow> t)"
    "cs = ?raw @ map (\<lambda>t. \<lparr>cd_text = t, cd_source = kSourceLlm\<rparr>) new"
    "distinct new" "sc_raw_cand scene \<Longrightarrow> n \<notin> set new"
    "list_all (\<lambda>t. t \<noteq> [] \<and> Trim t = t) new"
    "int (length new) \<le> NormalizeLlmMaxCandidates (sc_llm_max_candidates scene)"
    by (auto simp: loop app list_all_iff split: if_splits)
  show ?thesis
    using n new ne
    by (cases new; cases "sc_raw_cand scene")
       (auto simp: process_ok_def payload_texts_def comp_def)
qed

lemma assemble_payload_ok:
  assumes "n \<noteq> []" "Trim n = n" "NormalizeLlmMaxCandidates (sc_llm_max_candidates scene) \<noteq> 0"
  shows "process_ok n scene
    (assemble_payload scene n (NormalizeLlmMaxCandidates (sc_llm_max_candidates scene)) rewritten)"
proof (cases rewritten)
  case None
  then show ?thesis using raw_payload_ok [OF assms(1,2)] by (simp add: assemble_payload_def)
next
  case (Some ts)
  obtain first cs where loop: "llm_loop (NormalizeLlmMaxCandidates (sc_llm_max_candidates scene))
      (if sc_raw_cand scene then [n] else []) 0 [] ts
      (if sc_raw_cand scene then AppendCandidate [] n kSourceRaw else []) = (first, cs)" by fastforce
  have "assemble_payload scene n (NormalizeLlmMaxCandidates (sc_llm_max_candidates scene)) rewritten =
      (if cs = [] then raw_payload n
       else \<lparr>pl_commitText = (if first = [] then n else first), pl_candidates = cs\<rparr>)"
    by (simp only: assemble_payload_def Some option.case Let_def loop prod.case)
  then show ?thesis using raw_payload_ok [OF assms(1,2)] llm_payload_ok [OF assms loop] by presburger
qed

text \<open>
  C6: postprocessing never loses what was said. For every recognised text that is not blank, and
  whatever the model, the adapter, the network or a cancellation does, \<open>Process\<close> returns a text to
  commit that is the recognised text or one of the candidates, and candidates that are trimmed,
  not empty and pairwise different, at most the configured number of them from the model, with
  the recognised text first when the scene asks for it.
\<close>

theorem pp_Process_correct:
  assumes "Trim raw_text \<noteq> []"
  shows "process_ok (Trim raw_text) scene (fst (pp_Process env raw_text scene settings err))"
proof -
  have "process_ok (Trim raw_text) scene (raw_payload (Trim raw_text))"
    using assms by (simp add: raw_payload_ok)
  then show ?thesis using assms assemble_payload_ok [OF assms Trim_idem]
    by (simp add: pp_Process_def Let_def split: prod.split)
qed

definition offline_env :: pp_env where
  "offline_env = \<lparr>pe_read_json = (\<lambda>_. None), pe_to_text = (\<lambda>_. []),
     pe_http = (\<lambda>_. \<lparr>rs_cancelled = False, rs_error_message = ''offline'', rs_status_code = 0, rs_body = []\<rparr>),
     pe_run = (\<lambda>_ input. \<lparr>re_exit_code = 0, re_timed_out = False, re_launch_failed = False, re_stdout = input, re_stderr = []\<rparr>),
     pe_exists = (\<lambda>_. Some []), pe_regular = (\<lambda>_. False), pe_read_file = (\<lambda>_ _. Inl []),
     pe_context_file = None, pe_getenv = (\<lambda>_. None), pe_tr = (\<lambda>s. s), pe_sprintf = (\<lambda>f _. f),
     pe_cancelled = (\<lambda>_. False)\<rparr>"

theorem pp_Process_correct_witness:
  "process_ok ''hello'' default_scene
     (fst (pp_Process offline_env '' hello '' default_scene default_config []))"
proof -
  have t: "Trim '' hello '' = ''hello''" by (simp add: Trim_def is_space_def substr_def rfind_index_def)
  show ?thesis
    using pp_Process_correct [of "'' hello ''" default_scene offline_env default_config "[]"] by (simp add: t)
qed

lemma command_payload_spec:
  assumes "0 < max_llm" and "asr \<noteq> []" "Trim asr = asr" and "selected \<noteq> []"
  shows "\<exists>new. command_payload asr selected max_llm rewritten =
      \<lparr>pl_commitText = (case new of [] \<Rightarrow> selected | t # _ \<Rightarrow> t),
       pl_candidates = AppendCandidate [] selected kSourceRaw @
         (if asr = selected then [] else [\<lparr>cd_text = asr, cd_source = kSourceAsr\<rparr>]) @
         map (\<lambda>t. \<lparr>cd_text = t, cd_source = kSourceLlm\<rparr>) new\<rparr>
    \<and> distinct new \<and> asr \<notin> set new \<and> selected \<notin> set new
    \<and> list_all (\<lambda>t. t \<noteq> [] \<and> Trim t = t) new \<and> int (length new) \<le> max_llm"
proof (cases rewritten)
  case None
  then show ?thesis using assms
    by (intro exI [of _ "[]"]) (simp add: command_payload_def AppendCandidate_def Let_def)
next
  case (Some ts)
  let ?cs1 = "AppendCandidate [] selected kSourceRaw"
  let ?seen = "if asr = selected then [selected] else [asr, selected]"
  let ?cs2 = "if asr = selected then ?cs1 else AppendCandidate ?cs1 asr kSourceAsr"
  from llm_loop_spec [OF assms(1), of ?seen "[]" ts ?cs2] obtain new where
    loop: "llm_loop max_llm ?seen 0 [] ts ?cs2 = (case new of [] \<Rightarrow> [] | t # _ \<Rightarrow> t,
       ?cs2 @ map (\<lambda>t. \<lparr>cd_text = t, cd_source = kSourceLlm\<rparr>) new)"
    and new: "distinct new" "set new \<inter> set ?seen = {}"
      "list_all (\<lambda>t. t \<noteq> [] \<and> Trim t = t) new" "int (length new) \<le> max_llm"
    by (auto simp: list_all_iff)
  have "command_payload asr selected max_llm rewritten =
      \<lparr>pl_commitText = (case new of [] \<Rightarrow> selected | t # _ \<Rightarrow> t),
       pl_candidates = ?cs2 @ map (\<lambda>t. \<lparr>cd_text = t, cd_source = kSourceLlm\<rparr>) new\<rparr>"
    using loop new(3) by (cases "asr = selected"; cases new) (simp_all add: command_payload_def Some Let_def)
  then show ?thesis using new assms
    by (intro exI [of _ new]) (auto simp: AppendCandidate_def Let_def split: if_splits)
qed

lemma command_payload_commit:
  assumes "0 < max_llm" and "asr \<noteq> []" "Trim asr = asr" and "selected \<noteq> []"
  shows "pl_commitText (command_payload asr selected max_llm rewritten) \<noteq> []"
proof -
  from command_payload_spec [OF assms, of rewritten] obtain new where
    p: "command_payload asr selected max_llm rewritten =
      \<lparr>pl_commitText = (case new of [] \<Rightarrow> selected | t # _ \<Rightarrow> t),
       pl_candidates = AppendCandidate [] selected kSourceRaw @
         (if asr = selected then [] else [\<lparr>cd_text = asr, cd_source = kSourceAsr\<rparr>]) @
         map (\<lambda>t. \<lparr>cd_text = t, cd_source = kSourceLlm\<rparr>) new\<rparr>"
    and new: "list_all (\<lambda>t. t \<noteq> [] \<and> Trim t = t) new" by blast
  show ?thesis using new assms(4) by (cases new) (simp_all add: p)
qed

text \<open>
  A spoken command on selected text always leaves something to commit, offers at most the
  configured number of model results, and offers no text twice when the selection has no
  surrounding white space.
\<close>

theorem command_payload_correct:
  assumes "0 < max_llm" and "Trim asr = asr" "asr \<noteq> []" and "selected \<noteq> []"
  shows "pl_commitText (command_payload asr selected max_llm rewritten) \<noteq> []
    \<and> int (length (filter (\<lambda>c. cd_source c = kSourceLlm)
          (pl_candidates (command_payload asr selected max_llm rewritten)))) \<le> max_llm
    \<and> (Trim selected = selected \<longrightarrow>
         distinct (payload_texts (command_payload asr selected max_llm rewritten)))"
proof -
  from command_payload_spec [OF assms(1,3,2,4), of rewritten] obtain new where
    p: "command_payload asr selected max_llm rewritten =
      \<lparr>pl_commitText = (case new of [] \<Rightarrow> selected | t # _ \<Rightarrow> t),
       pl_candidates = AppendCandidate [] selected kSourceRaw @
         (if asr = selected then [] else [\<lparr>cd_text = asr, cd_source = kSourceAsr\<rparr>]) @
         map (\<lambda>t. \<lparr>cd_text = t, cd_source = kSourceLlm\<rparr>) new\<rparr>"
    and new: "distinct new" "asr \<notin> set new" "selected \<notin> set new"
      "list_all (\<lambda>t. t \<noteq> [] \<and> Trim t = t) new" "int (length new) \<le> max_llm" by blast
  have "pl_commitText (command_payload asr selected max_llm rewritten) \<noteq> []"
    using command_payload_commit [OF assms(1,3,2,4)] .
  moreover have "int (length (filter (\<lambda>c. cd_source c = kSourceLlm)
      (pl_candidates (command_payload asr selected max_llm rewritten)))) \<le> max_llm"
    using new(5) by (simp add: p AppendCandidate_def Let_def comp_def)
  moreover have "distinct (payload_texts (command_payload asr selected max_llm rewritten))"
    if "Trim selected = selected"
    using that new assms by (auto simp: p payload_texts_def AppendCandidate_def comp_def)
  ultimately show ?thesis by blast
qed

theorem command_payload_correct_witness:
  "distinct (payload_texts (command_payload ''shorten'' ''long text'' 2 (Some [''long text'', '' text '', ''text''])))"
proof -
  have t: "Trim ''shorten'' = ''shorten''" "Trim ''long text'' = ''long text''"
    by (rule Trim_ident, simp add: is_space_def)+
  show ?thesis using command_payload_correct [of 2 "''shorten''" "''long text''"] t by simp
qed

text \<open>
  The duplicate check of \<open>ProcessCommand\<close> remembers the selection as it is but offers it
  trimmed: when the selection has surrounding white space, a spoken text equal to the trimmed
  selection is offered a second time.
\<close>

theorem command_payload_duplicate:
  assumes "0 < max_llm" and "Trim selected \<noteq> []" and "Trim selected \<noteq> selected"
  shows "\<not> distinct (payload_texts (command_payload (Trim selected) selected max_llm rewritten))"
proof -
  have ne: "selected \<noteq> []" using assms(2) by auto
  from command_payload_spec [OF assms(1,2) Trim_idem ne, of rewritten] obtain new where
    p: "command_payload (Trim selected) selected max_llm rewritten =
      \<lparr>pl_commitText = (case new of [] \<Rightarrow> selected | t # _ \<Rightarrow> t),
       pl_candidates = AppendCandidate [] selected kSourceRaw @
         (if Trim selected = selected then [] else [\<lparr>cd_text = Trim selected, cd_source = kSourceAsr\<rparr>]) @
         map (\<lambda>t. \<lparr>cd_text = t, cd_source = kSourceLlm\<rparr>) new\<rparr>" by blast
  show ?thesis using assms(2,3) by (simp add: p payload_texts_def AppendCandidate_def Let_def)
qed

theorem command_payload_duplicate_witness:
  "\<not> distinct (payload_texts (command_payload ''hi'' ''hi '' 1 None))"
proof -
  have t: "Trim ''hi '' = ''hi''" by (simp add: Trim_def is_space_def substr_def rfind_index_def)
  show ?thesis using command_payload_duplicate [of 1 "''hi ''" None] by (simp add: t)
qed

lemma pp_Process_commit:
  assumes "Trim t \<noteq> []"
  shows "pl_commitText (fst (pp_Process env t scene settings err)) \<noteq> []"
proof -
  have "process_ok (Trim t) scene (raw_payload (Trim t))" using assms by (simp add: raw_payload_ok)
  then show ?thesis using assms assemble_payload_ok [OF assms Trim_idem, of scene]
    by (simp add: pp_Process_def process_ok_def Let_def split: prod.split)
qed

lemma pp_ProcessCommand_commit:
  assumes "Trim t \<noteq> []"
  shows "pl_commitText (fst (pp_ProcessCommand env t sel scene settings err)) \<noteq> []"
proof -
  have "pl_commitText (command_payload (Trim t) sel m r) \<noteq> []" if "0 < m" "sel \<noteq> []" for m r
    using command_payload_commit [OF that(1) assms Trim_idem that(2)] .
  then show ?thesis using assms NormalizeLlmMaxCandidates_pos [of "sc_llm_max_candidates scene"]
    by (auto simp: pp_ProcessCommand_def raw_payload_def Let_def split: sum.split)
qed

text \<open>
  The pipeline never swallows a recognised text: if it is not blank, there is something to
  commit, in command mode and in every scene, known or not; and postprocessing is entered only for
  a scene that has a provider and asks for candidates.
\<close>

theorem pipeline_keeps_text:
  assumes "Trim (pr_text rq) \<noteq> []"
  shows "pl_commitText (rpr_payload (pipeline_Process env rq settings)) \<noteq> []
    \<and> (rpr_entered (pipeline_Process env rq settings) \<longrightarrow>
         (\<exists>s. sc_llm_max_candidates s > 0 \<and> sc_provider_id s \<noteq> []
            \<and> (if pr_is_command rq then CommandScene settings = Some s else s \<in> set (cc_definitions settings))))"
proof -
  have ne: "pr_text rq \<noteq> []" using assms by auto
  have proc: "pl_commitText (fst (pp_Process env (pr_text rq) s settings [])) \<noteq> []" for s
    using pp_Process_commit [OF assms] .
  have cmd: "pl_commitText (fst (pp_ProcessCommand env (pr_text rq) sel s settings [])) \<noteq> []" for sel s
    using pp_ProcessCommand_commit [OF assms] .
  show ?thesis
    using ne proc cmd
    by (auto simp: pipeline_Process_def Let_def invoke_processor_def commit_only_def default_scene_def
        dest: find_Some_memD split: option.splits)
qed

theorem pipeline_keeps_text_witness:
  "pl_commitText (rpr_payload (pipeline_Process offline_env
     \<lparr>pr_text = ''hello'', pr_scene_id = ''nowhere'', pr_is_command = False, pr_selected_text = []\<rparr>
     default_config)) \<noteq> []"
proof -
  have t: "Trim ''hello'' = ''hello''" by (rule Trim_ident) (simp add: is_space_def)
  show ?thesis
    using pipeline_keeps_text [of "\<lparr>pr_text = ''hello'', pr_scene_id = ''nowhere'', pr_is_command = False,
      pr_selected_text = []\<rparr>" offline_env default_config] by (simp add: t)
qed

end
