(* ===== verification/Daemon_Controller.thy ===== *)
theory Daemon_Controller
  imports
    Runtime_State_Machine
    Session_Lifecycle
    Session_Manager
    Audio_Capture
    Client_Protocol
    Post_Processor
begin

text \<open>
  The controller that connects the parts of the daemon (\<open>daemon/runtime/daemon_runtime_controller.h\<close>
  and \<open>.cpp\<close>). Its state holds the states of the parts it owns or drives: the runtime state machine,
  the session lifecycle manager, the recording buffer, the capture stream, the output ducker and the
  session manager. What leaves the daemon (D-Bus signals, desktop notifications, broadcasts to
  clients) is appended to \<open>ct_out\<close>; signals are there in the order of the calls, as the emission
  queue of \<open>dbus_service.cpp\<close> keeps it.

  A handler is one function of the state; its critical sections run without interruption, except
  that \<open>StartRecordingInternal\<close> is also available as its four parts, because a cancellation may come
  between them. The worker thread has three steps (\<open>ct_worker\<close> is its local order): it takes an order,
  it finishes recognition and enters the pipeline, and it delivers the result. \<open>LoadCoreConfig\<close> is the
  argument \<open>loaded\<close>. The D-Bus service, the capture and the pipeline are never null here. The points
  in time that only feed log lines (\<open>recording_started_at_\<close>, \<open>first_non_silent_at_\<close>) are left out.
\<close>

section \<open>State\<close>

record RecognitionOrder =
  ro_audio_delivery_mode :: AudioDeliveryMode
  ro_session :: "sid option"
  ro_backend :: BackendDescriptor
  ro_pcm :: "i16 list"
  ro_request :: PostprocessRequest
  ro_ime :: bool

definition default_request :: PostprocessRequest where
  "default_request = \<lparr>pr_text = [], pr_scene_id = [], pr_is_command = False, pr_selected_text = []\<rparr>"

definition default_order :: RecognitionOrder where
  "default_order = \<lparr>ro_audio_delivery_mode = Chunked, ro_session = None, ro_backend = default_descriptor,
     ro_pcm = [], ro_request = default_request, ro_ime = True\<rparr>"

datatype daemon_output =
    StatusChanged string
  | RecognitionPartial string
  | RecognitionResult string
  | DesktopNotification string
  | Broadcast string

datatype worker_state = WorkerIdle | WorkerTook RecognitionOrder | WorkerProcessing RecognitionOrder CoreConfig

record ('b, 's) controller =
  ct_machine :: RuntimeStateMachine
  ct_cancel_requested :: bool
  ct_order :: "RecognitionOrder option"
  ct_worker :: worker_state
  ct_lifecycle :: "'s lifecycle"
  ct_active_backend :: BackendDescriptor
  ct_buffer :: AudioRecordingBuffer
  ct_latest_final :: string
  ct_starting :: bool
  ct_pending_reload :: bool
  ct_ime :: bool
  ct_pending_stop :: bool
  ct_accepting :: bool
  ct_worker_running :: bool
  ct_capture :: capture
  ct_ducker :: ducker
  ct_manager :: "'b manager"
  ct_next_session :: sid
  ct_out :: "daemon_output list"

text \<open>
  \<open>ce_make_session\<close> builds the session object of a backend session: the keeping wrapper, inside an
  \<open>AsyncRecognitionSession\<close> for chunked delivery.
\<close>

record ('b, 'x, 's) ctl_env =
  ce_fe :: float_env
  ce_ops :: "'s session_ops"
  ce_push_float :: "'s \<Rightarrow> fp list \<Rightarrow> (bool \<times> string) \<times> 's"
  ce_failure_of :: "'s \<Rightarrow> string option"
  ce_to_text :: "json \<Rightarrow> string"
  ce_write_text :: "json \<Rightarrow> string option"
  ce_emit_payload :: "Payload \<Rightarrow> string option"
  ce_backend :: "('b, 'x) backend_ops"
  ce_make_session :: "AudioDeliveryMode \<Rightarrow> 'b \<times> 'x option \<Rightarrow> 's"
  ce_pp :: pp_env
  ce_tr :: "string \<Rightarrow> string"

section \<open>Small steps\<close>

definition emit :: "daemon_output list \<Rightarrow> ('b, 's) controller \<Rightarrow> ('b, 's) controller" where
  "emit xs c = c\<lparr>ct_out := ct_out c @ xs\<rparr>"

definition status_outputs :: "('b, 'x, 's) ctl_env \<Rightarrow> Status \<Rightarrow> bool \<Rightarrow> daemon_output list" where
  "status_outputs env status ime =
     (if ime then [StatusChanged (StatusToString status)] else [])
     @ [Broadcast (SerializeStatusEvent (ce_write_text env) (StatusToString status) ime)]"

definition NotifyStatusChanged :: "('b, 'x, 's) ctl_env \<Rightarrow> Status \<Rightarrow> ('b, 's) controller \<Rightarrow> ('b, 's) controller" where
  "NotifyStatusChanged env status c = emit (status_outputs env status (ct_ime c)) c"

definition partial_outputs :: "('b, 'x, 's) ctl_env \<Rightarrow> string \<Rightarrow> bool \<Rightarrow> daemon_output list" where
  "partial_outputs env t ime =
     (if ime then [RecognitionPartial t] else [])
     @ [Broadcast (SerializePartialEvent (ce_write_text env) t ime)]"

definition UsesBufferedDelivery :: "BackendDescriptor \<Rightarrow> bool" where
  "UsesBufferedDelivery d \<longleftrightarrow> audio_delivery_mode (bd_capabilities d) = Buffered"

definition RestoreOutputIfDucked :: "('b, 's) controller \<Rightarrow> ('b, 's) controller" where
  "RestoreOutputIfDucked c = c\<lparr>ct_ducker := Restore (ct_ducker c)\<rparr>"

definition ResetRecordingState :: "('b, 's) controller \<Rightarrow> ('b, 's) controller" where
  "ResetRecordingState c =
     c\<lparr>ct_buffer := ab_Clear (ct_buffer c), ct_latest_final := [], ct_active_backend := default_descriptor\<rparr>"

definition ScheduleCaptureStop :: "('b, 's) controller \<Rightarrow> ('b, 's) controller" where
  "ScheduleCaptureStop c = c\<lparr>ct_pending_stop := True\<rparr>"

definition cancel_retire :: "('b, 'x, 's) ctl_env \<Rightarrow> sid option \<Rightarrow> ('b, 's) controller \<Rightarrow> ('b, 's) controller" where
  "cancel_retire env session c =
     c\<lparr>ct_lifecycle := CancelAndRetireSession (ce_ops env) (ct_lifecycle c) session\<rparr>"

definition detach_active :: "('b, 's) controller \<Rightarrow> sid option \<times> ('b, 's) controller" where
  "detach_active c =
     (case DetachActive (ct_lifecycle c) of (s, l) \<Rightarrow> (s, c\<lparr>ct_lifecycle := l\<rparr>))"

section \<open>Reloading the recogniser\<close>

definition SynchronizeAsrBackend ::
    "('b, 'x, 's) ctl_env \<Rightarrow> CoreConfig \<Rightarrow> ('b, 's) controller \<Rightarrow> bool \<times> ('b, 's) controller" where
  "SynchronizeAsrBackend env loaded c =
     (case SynchronizeBackend (ce_to_text env) (NormalizeCoreConfig loaded) (ct_manager c) of
        (ok, m) \<Rightarrow> (ok, c\<lparr>ct_manager := m\<rparr>))"

definition reload_failed_message :: "('b, 'x, 's) ctl_env \<Rightarrow> string" where
  "reload_failed_message env =
     ce_tr env ''ASR backend reload failed. The previous backend may still be active.''"

text \<open>The results of D-Bus methods: \<open>None\<close> for success, \<open>Some message\<close> for failure.\<close>

definition ReloadAsrBackend ::
    "('b, 'x, 's) ctl_env \<Rightarrow> CoreConfig \<Rightarrow> ('b, 's) controller \<Rightarrow> string option \<times> ('b, 's) controller" where
  "ReloadAsrBackend env loaded c =
     (if m_phase (ct_machine c) \<noteq> Idle \<or> ct_starting c then (None, c\<lparr>ct_pending_reload := True\<rparr>)
      else case SynchronizeAsrBackend env loaded c of
        (True, c1) \<Rightarrow> (None, c1)
      | (False, c1) \<Rightarrow> (Some (reload_failed_message env), c1))"

definition MaybeApplyPendingAsrBackendReload ::
    "('b, 'x, 's) ctl_env \<Rightarrow> CoreConfig \<Rightarrow> ('b, 's) controller \<Rightarrow> ('b, 's) controller" where
  "MaybeApplyPendingAsrBackendReload env loaded c =
     (if \<not> ct_pending_reload c \<or> m_phase (ct_machine c) \<noteq> Idle then c
      else case SynchronizeAsrBackend env loaded (c\<lparr>ct_pending_reload := False\<rparr>) of
        (True, c1) \<Rightarrow> c1
      | (False, c1) \<Rightarrow> emit [DesktopNotification (reload_failed_message env)] c1)"

definition GetStatus :: "('b, 's) controller \<Rightarrow> string" where
  "GetStatus c = StatusToString (m_phase (ct_machine c))"

definition GetAsrBackendState :: "('b, 's) controller \<Rightarrow> AsrBackendState" where
  "GetAsrBackendState c =
     (let snapshot = GetReloadSnapshot (ct_manager c) in
      \<lparr>target_provider_id = sn_target_provider_id snapshot, target_model_id = sn_target_model_id snapshot,
       effective_provider_id = sn_effective_provider_id snapshot,
       effective_model_id = sn_effective_model_id snapshot, last_error = sn_last_error snapshot,
       reload_in_progress = sn_reload_in_progress snapshot,
       has_effective_backend = sn_has_effective_backend snapshot, remote_endpoints = []\<rparr>)"

definition ResetToIdle :: "('b, 'x, 's) ctl_env \<Rightarrow> CoreConfig \<Rightarrow> ('b, 's) controller \<Rightarrow> ('b, 's) controller" where
  "ResetToIdle env loaded c =
     (let was_ime = ct_ime c;
          c1 = ResetRecordingState
                 (c\<lparr>ct_starting := False, ct_cancel_requested := False,
                    ct_machine := snd (OnResetToIdle (ct_machine c)), ct_order := None\<rparr>);
          c2 = RestoreOutputIfDucked (c1\<lparr>ct_ime := True\<rparr>)
      in MaybeApplyPendingAsrBackendReload env loaded (emit (status_outputs env Idle was_ime) c2))"

section \<open>Audio\<close>

definition FailActiveSession ::
    "('b, 'x, 's) ctl_env \<Rightarrow> pw_env \<Rightarrow> sid option \<Rightarrow> string \<Rightarrow> ('b, 's) controller \<Rightarrow> bool \<times> ('b, 's) controller" where
  "FailActiveSession env pw session error_message c =
     (if \<not> IsActiveSession (ct_lifecycle c) session then (False, c)
      else
        (let (s, c1) = detach_active (ResetRecordingState (c\<lparr>ct_accepting := False\<rparr>));
             c2 = cancel_retire env s (c1\<lparr>ct_machine := snd (OnAudioError (ct_machine c1))\<rparr>);
             c3 = emit [DesktopNotification error_message] (NotifyStatusChanged env Error c2);
             c4 = RestoreOutputIfDucked (c3\<lparr>ct_capture := EndRecording pw (ct_capture c3)\<rparr>)
         in (True, ScheduleCaptureStop c4)))"

text \<open>
  The loop of \<open>HandleIncomingAudio\<close>: push the chunk, then take the next one unless the session was
  retired meanwhile.
\<close>

function push_loop ::
    "('b, 'x, 's) ctl_env \<Rightarrow> pw_env \<Rightarrow> sid option \<Rightarrow> i16 list \<Rightarrow> ('b, 's) controller \<Rightarrow> ('b, 's) controller" where
  "push_loop env pw session chunk c =
     (case lm_PushAudio (ce_ops env) (ct_lifecycle c) session chunk of
        ((pushed, push_error), l) \<Rightarrow>
          (let c1 = c\<lparr>ct_lifecycle := l\<rparr> in
           if \<not> pushed \<or> push_error \<noteq> [] then snd (FailActiveSession env pw session push_error c1)
           else if \<not> IsActiveSession l session then c1\<lparr>ct_lifecycle := RetireSession l session\<rparr>
           else
             (case PopStreamingChunk (ct_buffer c) kStreamingChunkSamples of
                (None, b) \<Rightarrow> c1\<lparr>ct_buffer := b\<rparr>
              | (Some next, b) \<Rightarrow> push_loop env pw session next (c1\<lparr>ct_buffer := b\<rparr>))))"
  by pat_completeness auto
termination
  by (relation "measure (\<lambda>(env, pw, s, ch, c). length (ab_streaming (ct_buffer c)))")
     (auto simp: PopStreamingChunk_def split: if_splits)

definition HandleIncomingAudio ::
    "('b, 'x, 's) ctl_env \<Rightarrow> pw_env \<Rightarrow> i16 list \<Rightarrow> ('b, 's) controller \<Rightarrow> ('b, 's) controller" where
  "HandleIncomingAudio env pw pcm c =
     (if \<not> ct_accepting c \<or> pcm = [] then c
      else if ct_starting c \<and> \<not> HasActiveSession (ct_lifecycle c)
      then c\<lparr>ct_buffer := AppendStartup (ce_fe env) (ct_buffer c) pcm\<rparr>
      else if \<not> HasActiveSession (ct_lifecycle c) then c
      else
        (let session = lm_active (ct_lifecycle c);
             b1 = ab_Append (ce_fe env) (ct_buffer c) pcm
         in if UsesBufferedDelivery (ct_active_backend c) then c\<lparr>ct_buffer := b1\<rparr>
            else (case PopStreamingChunk b1 kStreamingChunkSamples of
                    (None, b) \<Rightarrow> c\<lparr>ct_buffer := b\<rparr>
                  | (Some chunk, b) \<Rightarrow> push_loop env pw session chunk (c\<lparr>ct_buffer := b\<rparr>))))"

text \<open>The chunks that wait in the capture queue; each is dequeued before it is handled.\<close>

primrec drain_chunks ::
    "('b, 'x, 's) ctl_env \<Rightarrow> pw_env \<Rightarrow> AudioPcmChunk list \<Rightarrow> ('b, 's) controller \<Rightarrow> ('b, 's) controller" where
  "drain_chunks env pw [] c = c"
| "drain_chunks env pw (ch # chs) c =
     (let c1 = c\<lparr>ct_capture := (ct_capture c)\<lparr>cap_queue := chs\<rparr>\<rparr> in
      drain_chunks env pw chs
        (if chunk_size ch > 0 then HandleIncomingAudio env pw (AsSpan ch) c1 else c1))"

definition DrainIncomingAudio ::
    "('b, 'x, 's) ctl_env \<Rightarrow> pw_env \<Rightarrow> ('b, 's) controller \<Rightarrow> ('b, 's) controller" where
  "DrainIncomingAudio env pw c =
     (if \<not> ct_accepting c then c else drain_chunks env pw (cap_queue (ct_capture c)) c)"

section \<open>Recognition events\<close>

fun DispatchSingleEvent ::
    "('b, 'x, 's) ctl_env \<Rightarrow> ('b, 's) controller \<Rightarrow> RecognitionEvent \<Rightarrow> ('b, 's) controller" where
  "DispatchSingleEvent env c event =
     (case ev_kind event of
        PartialText \<Rightarrow>
          if ev_text event = [] then c else emit (partial_outputs env (ev_text event) (ct_ime c)) c
      | FinalText \<Rightarrow>
          if ev_text event = [] then c
          else emit (partial_outputs env (ev_text event) (ct_ime c)) (c\<lparr>ct_latest_final := ev_text event\<rparr>)
      | ErrorEvent \<Rightarrow> c
      | Completed \<Rightarrow> c)"

definition ApplyRecognitionEvents ::
    "('b, 'x, 's) ctl_env \<Rightarrow> RecognitionEvent list \<Rightarrow> ('b, 's) controller \<Rightarrow> ('b, 's) controller" where
  "ApplyRecognitionEvents env events c = foldl (DispatchSingleEvent env) c events"

definition PollActiveSessionEvents ::
    "('b, 'x, 's) ctl_env \<Rightarrow> pw_env \<Rightarrow> ('b, 's) controller \<Rightarrow> ('b, 's) controller" where
  "PollActiveSessionEvents env pw c =
     (if m_phase (ct_machine c) \<noteq> Recording \<or> \<not> HasActiveSession (ct_lifecycle c)
         \<or> UsesBufferedDelivery (ct_active_backend c) then c
      else
        (case PollSessionEvents (ce_ops env) (ce_failure_of env) (ct_lifecycle c) (lm_active (ct_lifecycle c)) of
           (poll, l) \<Rightarrow>
             (let c1 = ApplyRecognitionEvents env (sp_events poll) (c\<lparr>ct_lifecycle := l\<rparr>) in
              case sp_failure poll of
                None \<Rightarrow> c1
              | Some f \<Rightarrow> snd (FailActiveSession env pw (lm_active (ct_lifecycle c)) f c1))))"

definition FlushDeferredActions ::
    "('b, 'x, 's) ctl_env \<Rightarrow> pw_env \<Rightarrow> CoreConfig \<Rightarrow> ('b, 's) controller \<Rightarrow> ('b, 's) controller" where
  "FlushDeferredActions env pw loaded c =
     (let c1 = c\<lparr>ct_lifecycle := snd (FlushReapedSessions (ct_lifecycle c))\<rparr>;
          c2 = PollActiveSessionEvents env pw (DrainIncomingAudio env pw c1)
      in if \<not> ct_pending_stop c2 then c2
         else
           (let c3 = c2\<lparr>ct_pending_stop := False\<rparr>; phase = m_phase (ct_machine c3) in
            if ct_starting c3 \<or> cap_recording (ct_capture c3)
               \<or> phase = Recording \<or> phase = Inferring \<or> phase = Postprocessing
            then RestoreOutputIfDucked c3
            else
              (let c4 = (if StreamReuseEnabled pw then c3 else c3\<lparr>ct_capture := cap_Stop (ct_capture c3)\<rparr>)
               in ResetToIdle env loaded (RestoreOutputIfDucked c4))))"

section \<open>Starting and stopping\<close>

definition busy_message :: "('b, 'x, 's) ctl_env \<Rightarrow> string" where
  "busy_message env =
     ce_tr env ''Voice input daemon is busy. Please wait for the current request to finish.''"

text \<open>The first critical section of \<open>StartRecordingInternal\<close>: the checks, and arming the buffer.\<close>

definition start_arm ::
    "('b, 'x, 's) ctl_env \<Rightarrow> pw_env \<Rightarrow> CoreConfig \<Rightarrow> bool \<Rightarrow> ('b, 's) controller \<Rightarrow> string option \<times> ('b, 's) controller" where
  "start_arm env pw loaded ime c =
     (let c0 = (if ct_pending_stop c then FlushDeferredActions env pw loaded c else c) in
      if m_phase (ct_machine c0) \<noteq> Idle \<or> ct_starting c0 then (Some (busy_message env), c0)
      else (None, c0\<lparr>ct_pending_stop := False, ct_buffer := ab_Reset (ct_buffer c0) (Finite 1),
                     ct_ime := ime, ct_starting := True, ct_accepting := True\<rparr>))"

definition disarm :: "('b, 's) controller \<Rightarrow> ('b, 's) controller" where
  "disarm c = c\<lparr>ct_starting := False, ct_accepting := False, ct_buffer := ab_Clear (ct_buffer c)\<rparr>"

text \<open>Opening the microphone, before the session is created.\<close>

definition start_open ::
    "('b, 'x, 's) ctl_env \<Rightarrow> pw_env \<Rightarrow> CoreConfig \<Rightarrow> bool \<Rightarrow> string \<Rightarrow> ('b, 's) controller
      \<Rightarrow> string option \<times> ('b, 's) controller" where
  "start_open env pw settings is_command capture_device c =
     (let target = (if capture_device = [] then cc_captureDevice settings else capture_device) in
      case BeginRecording pw (SetTargetObject target (ct_capture c)) of
        (None, cap) \<Rightarrow> (None, c\<lparr>ct_capture := cap\<rparr>)
      | (Some e, cap) \<Rightarrow>
          (let message = ce_tr env (if is_command then ''Failed to start command recording.''
                                    else ''Failed to start recording.'')
           in (Some (if e = [] then message else StripSuffix message ''.'' @ '': '' @ e),
               disarm (c\<lparr>ct_capture := cap\<rparr>))))"

text \<open>Creating the session; the new object gets a fresh identity.\<close>

definition start_session ::
    "('b, 'x, 's) ctl_env \<Rightarrow> pw_env \<Rightarrow> ('b, 's) controller
      \<Rightarrow> (string + BackendDescriptor \<times> sid) \<times> ('b, 's) controller" where
  "start_session env pw c =
     (case CreateSession (ce_backend env) (ct_manager c) of
        Inl e \<Rightarrow>
          (let message = ce_tr env ''Failed to start recognition session.'' @ (if e = [] then [] else '' '' @ e);
               c1 = disarm (c\<lparr>ct_capture := EndRecording pw (ct_capture c)\<rparr>)
           in (Inl message, ScheduleCaptureStop (RestoreOutputIfDucked c1)))
      | Inr (descriptor, inner) \<Rightarrow>
          (let active_backend = (case descriptor of Some d \<Rightarrow> d | None \<Rightarrow> default_descriptor);
               session = ce_make_session env (audio_delivery_mode (bd_capabilities active_backend)) inner;
               i = ct_next_session c;
               l = ct_lifecycle c
           in (Inr (active_backend, i),
               c\<lparr>ct_next_session := Suc i, ct_lifecycle := l\<lparr>lm_store := (lm_store l)(i := session)\<rparr>\<rparr>)))"

definition to_float :: "float_env \<Rightarrow> fp \<Rightarrow> fp" where
  "to_float fe x = (case x of Finite r \<Rightarrow> fe_round32 fe r | _ \<Rightarrow> x)"

text \<open>The last critical section: install the session and start recording, or give up.\<close>

definition start_commit ::
    "('b, 'x, 's) ctl_env \<Rightarrow> pw_env \<Rightarrow> CoreConfig \<Rightarrow> bool \<Rightarrow> string \<Rightarrow> BackendDescriptor \<Rightarrow> sid \<Rightarrow> ('b, 's) controller
      \<Rightarrow> string option \<times> ('b, 's) controller" where
  "start_commit env pw settings is_command selected_text active_backend i c =
     (if \<not> ct_starting c \<or> m_phase (ct_machine c) \<noteq> Idle then
        (let c1 = disarm c
         in (Some (busy_message env),
             ScheduleCaptureStop (RestoreOutputIfDucked (c1\<lparr>ct_capture := EndRecording pw (ct_capture c1)\<rparr>))))
      else
        (let buffer = ab_SetGain (ct_buffer c) (to_float (ce_fe env) (cc_inputGain settings));
             c1 = c\<lparr>ct_order := None,
                    ct_lifecycle := InstallActiveSession (ce_ops env) (ct_lifecycle c) (Some i),
                    ct_active_backend := active_backend,
                    ct_machine := snd (OnStartRecording (ct_machine c) is_command selected_text),
                    ct_buffer := Activate (ce_fe env) buffer (UsesBufferedDelivery active_backend),
                    ct_latest_final := [], ct_accepting := True, ct_starting := False\<rparr>;
             c2 = (if cc_duckOutputWhileRecording settings
                   then c1\<lparr>ct_ducker := Duck (cc_duckOutputVolume settings) (ct_ducker c1)\<rparr> else c1)
         in (None, NotifyStatusChanged env Recording c2)))"

definition StartRecordingInternal ::
    "('b, 'x, 's) ctl_env \<Rightarrow> pw_env \<Rightarrow> CoreConfig \<Rightarrow> bool \<Rightarrow> bool \<Rightarrow> string \<Rightarrow> string \<Rightarrow> ('b, 's) controller
      \<Rightarrow> string option \<times> ('b, 's) controller" where
  "StartRecordingInternal env pw loaded ime is_command selected_text capture_device c =
     (case start_arm env pw loaded ime c of
        (Some e, c1) \<Rightarrow> (Some e, c1)
      | (None, c1) \<Rightarrow>
          (let settings = NormalizeCoreConfig loaded in
           case start_open env pw settings is_command capture_device c1 of
             (Some e, c2) \<Rightarrow> (Some e, c2)
           | (None, c2) \<Rightarrow>
               (case start_session env pw c2 of
                  (Inl e, c3) \<Rightarrow> (Some e, c3)
                | (Inr (d, i), c3) \<Rightarrow> start_commit env pw settings is_command selected_text d i c3)))"

definition CancelOperation ::
    "('b, 'x, 's) ctl_env \<Rightarrow> pw_env \<Rightarrow> CoreConfig \<Rightarrow> bool \<Rightarrow> bool \<Rightarrow> ('b, 's) controller
      \<Rightarrow> string option \<times> ('b, 's) controller" where
  "CancelOperation env pw loaded ime commit_raw_text c =
     (let stop0 = ct_starting c; c1 = (if stop0 then disarm c else c) in
      case OnCancel (ct_machine c1) commit_raw_text of
        (t, m) \<Rightarrow>
          if \<not> accepted t then (if stop0 then (None, c1) else (Some (rejection_reason t), c1))
          else
            (let c2 = c1\<lparr>ct_machine := m, ct_ime := ime\<rparr>;
                 (session, c3) =
                   (if should_stop_capture t then
                      (let (s, d) = detach_active (ResetRecordingState (c2\<lparr>ct_accepting := False\<rparr>))
                       in (s, NotifyStatusChanged env (new_phase t) (d\<lparr>ct_order := None\<rparr>)))
                    else if should_commit_raw_text t \<or> should_discard_text t
                    then (None, c2\<lparr>ct_cancel_requested := True\<rparr>)
                    else (None, c2));
                 c4 = (if stop0 \<or> should_stop_capture t
                       then RestoreOutputIfDucked (c3\<lparr>ct_capture := snd (StopAndGetBuffer pw (ct_capture c3))\<rparr>)
                       else c3);
                 c5 = cancel_retire env session c4
             in (None, if should_stop_capture t \<and> ct_pending_reload c2
                       then MaybeApplyPendingAsrBackendReload env loaded c5 else c5)))"

text \<open>The second critical section of \<open>StopRecording\<close>, with the samples that were still queued.\<close>

definition stop_submit ::
    "('b, 'x, 's) ctl_env \<Rightarrow> CoreConfig \<Rightarrow> string \<Rightarrow> i16 list \<Rightarrow> ('b, 's) controller \<Rightarrow> ('b, 's) controller" where
  "stop_submit env loaded scene_id captured_pcm c =
     (if \<not> HasActiveSession (ct_lifecycle c) then
        MaybeApplyPendingAsrBackendReload env loaded
          (NotifyStatusChanged env Idle
            (c\<lparr>ct_machine := snd (OnResetToIdle (ct_machine c)), ct_order := None\<rparr>))
      else
        (let c1 = c\<lparr>ct_buffer := (if captured_pcm = [] then ct_buffer c
                                  else ab_Append (ce_fe env) (ct_buffer c) captured_pcm)\<rparr>
         in case OnStopRecording (ct_machine c1) (ab_total (ct_buffer c1)) kMinSamplesForRecognition of
              (t, m) \<Rightarrow>
                if is_too_short t then
                  (let (s, c2) = detach_active (ResetRecordingState (c1\<lparr>ct_machine := m\<rparr>));
                       c3 = NotifyStatusChanged env (new_phase t) (c2\<lparr>ct_order := None\<rparr>)
                   in MaybeApplyPendingAsrBackendReload env loaded (cancel_retire env s c3))
                else
                  (let (s, c2) = detach_active (c1\<lparr>ct_machine := m\<rparr>);
                       (pcm, b) = (if UsesBufferedDelivery (ct_active_backend c2)
                                   then TakeBufferedPcm (ct_buffer c2) else DrainStreamingTail (ct_buffer c2));
                       order = \<lparr>ro_audio_delivery_mode =
                                  audio_delivery_mode (bd_capabilities (ct_active_backend c2)),
                                ro_session = s, ro_backend = ct_active_backend c2, ro_pcm = pcm,
                                ro_request = \<lparr>pr_text = ct_latest_final c2, pr_scene_id = scene_id,
                                              pr_is_command = m_is_command m,
                                              pr_selected_text = m_selected_text m\<rparr>,
                                ro_ime = ct_ime c2\<rparr>
                   in NotifyStatusChanged env (new_phase t)
                        (c2\<lparr>ct_buffer := b, ct_order := Some order, ct_active_backend := default_descriptor\<rparr>))))"

definition StopRecording_ctl ::
    "('b, 'x, 's) ctl_env \<Rightarrow> pw_env \<Rightarrow> CoreConfig \<Rightarrow> bool \<Rightarrow> string \<Rightarrow> ('b, 's) controller
      \<Rightarrow> string option \<times> ('b, 's) controller" where
  "StopRecording_ctl env pw loaded ime scene_id c =
     (if m_phase (ct_machine c) \<noteq> Recording then (Some (ce_tr env ''Recording is not active.''), c)
      else
        (case StopAndGetBuffer pw (ct_capture c) of
           (captured_pcm, cap) \<Rightarrow>
             (None, stop_submit env loaded scene_id captured_pcm
                      (RestoreOutputIfDucked (c\<lparr>ct_ime := ime, ct_accepting := False, ct_capture := cap\<rparr>)))))"

section \<open>The worker\<close>

text \<open>\<open>order = std::move(*current_order_)\<close> leaves an order without contents behind.\<close>

definition moved_order :: "RecognitionOrder \<Rightarrow> RecognitionOrder" where
  "moved_order o' = default_order\<lparr>ro_audio_delivery_mode := ro_audio_delivery_mode o', ro_ime := ro_ime o'\<rparr>"

definition worker_takes :: "('b, 's) controller \<Rightarrow> ('b, 's) controller" where
  "worker_takes c =
     (case (ct_worker c, ct_order c) of
        (WorkerIdle, Some o') \<Rightarrow> c\<lparr>ct_worker := WorkerTook o', ct_order := Some (moved_order o')\<rparr>
      | _ \<Rightarrow> c)"

definition EnterPostprocessing :: "('b, 'x, 's) ctl_env \<Rightarrow> ('b, 's) controller \<Rightarrow> ('b, 's) controller" where
  "EnterPostprocessing env c =
     (case OnInferenceComplete (ct_machine c) True of
        (res, m) \<Rightarrow> emit (status_outputs env (new_phase res) (ct_ime c)) (c\<lparr>ct_machine := m\<rparr>))"

text \<open>A 16-bit sample as a \<open>float\<close>; the division by a power of two is exact.\<close>

definition pcm_to_float :: "i16 \<Rightarrow> fp" where
  "pcm_to_float s = Finite (of_int (sint s) / 32768)"

definition flt_0_1 :: rat where "flt_0_1 = 13421773 / 134217728"

definition lm_PushAudio_float ::
    "('s \<Rightarrow> fp list \<Rightarrow> (bool \<times> string) \<times> 's) \<Rightarrow> 's lifecycle \<Rightarrow> sid option \<Rightarrow> fp list
      \<Rightarrow> (bool \<times> string) \<times> 's lifecycle" where
  "lm_PushAudio_float push l session xs =
     (case session of
        None \<Rightarrow> ((False, kSessionNotInitializedError), l)
      | Some i \<Rightarrow>
          (case push (lm_store l i) xs of
             ((ok, err), st) \<Rightarrow>
               ((ok, if \<not> ok \<and> err = [] then kFailedToPushAudioError else err),
                l\<lparr>lm_store := (lm_store l)(i := st)\<rparr>)))"

text \<open>The push of the remaining samples at the start of the worker's round; \<open>Some\<close> is the exception.\<close>

definition worker_push ::
    "('b, 'x, 's) ctl_env \<Rightarrow> CoreConfig \<Rightarrow> RecognitionOrder \<Rightarrow> 's lifecycle \<Rightarrow> string option \<times> 's lifecycle" where
  "worker_push env settings o' l =
     (if ro_pcm o' = [] then (None, l)
      else
        (case (if cc_normalizeAudio settings \<and> ro_audio_delivery_mode o' = Buffered then
                 lm_PushAudio_float (ce_push_float env) l (ro_session o')
                   (PeakNormalize (ce_fe env) (map pcm_to_float (ro_pcm o')) (Finite 1) (Finite flt_0_1))
               else lm_PushAudio (ce_ops env) l (ro_session o') (ro_pcm o')) of
           ((ok, err), l') \<Rightarrow> (if ok then None else Some err, l')))"

definition worker_exception ::
    "('b, 'x, 's) ctl_env \<Rightarrow> CoreConfig \<Rightarrow> string \<Rightarrow> ('b, 's) controller \<Rightarrow> ('b, 's) controller" where
  "worker_exception env loaded what c =
     (ResetToIdle env loaded
        (emit [DesktopNotification what]
          (c\<lparr>ct_machine := snd (TakePostprocessingState (ct_machine c))\<rparr>)))\<lparr>ct_worker := WorkerIdle\<rparr>"

text \<open>Entering the pipeline: the callback is called exactly when a processor is invoked.\<close>

definition worker_pipeline ::
    "('b, 'x, 's) ctl_env \<Rightarrow> CoreConfig \<Rightarrow> RecognitionOrder \<Rightarrow> ('b, 's) controller \<Rightarrow> ('b, 's) controller" where
  "worker_pipeline env settings o' c =
     (let c1 = c\<lparr>ct_cancel_requested := False\<rparr>;
          c2 = (if rpr_entered (pipeline_Process (ce_pp env) (ro_request o') settings)
                then EnterPostprocessing env c1 else c1)
      in c2\<lparr>ct_worker := WorkerProcessing o' settings\<rparr>)"

definition worker_recognizes ::
    "('b, 'x, 's) ctl_env \<Rightarrow> CoreConfig \<Rightarrow> ('b, 's) controller \<Rightarrow> ('b, 's) controller" where
  "worker_recognizes env loaded c =
     (case ct_worker c of
        WorkerTook o' \<Rightarrow>
          (let settings = NormalizeCoreConfig loaded in
           if ro_session o' = None then worker_pipeline env settings o' c
           else
             (case worker_push env settings o' (ct_lifecycle c) of
                (Some what, l) \<Rightarrow> worker_exception env loaded what (c\<lparr>ct_lifecycle := l\<rparr>)
              | (None, l) \<Rightarrow>
                  (case FinishSessionAndCollectResult (ce_ops env) l (ro_session o') of
                     (result, l') \<Rightarrow>
                       (let c1 = c\<lparr>ct_lifecycle := l'\<rparr>; o1 = o'\<lparr>ro_pcm := [], ro_session := None\<rparr> in
                        if \<not> rr_ok result \<or> rr_error result \<noteq> [] then
                          (let failure = (if rr_error result = [] then ''Failed to finish recognition session.''
                                          else rr_error result)
                           in (ResetToIdle env loaded (emit [DesktopNotification failure] c1))
                                \<lparr>ct_worker := WorkerIdle\<rparr>)
                        else if rr_text result \<noteq> [] then
                          worker_pipeline env settings
                            (o1\<lparr>ro_request := (ro_request o1)\<lparr>pr_text := rr_text result\<rparr>\<rparr>)
                            (emit (partial_outputs env (rr_text result) (ro_ime o1)) c1)
                        else worker_pipeline env settings o1 c1))))
      | _ \<Rightarrow> c)"

text \<open>The result after a cancellation: the raw text, nothing, or what the pipeline made.\<close>

definition apply_postprocessing_action ::
    "PostprocessingState \<Rightarrow> string \<Rightarrow> RecognitionPipelineResult \<Rightarrow> RecognitionPipelineResult" where
  "apply_postprocessing_action action t r =
     (case action of
        CommitRaw \<Rightarrow>
          r\<lparr>rpr_payload := \<lparr>pl_commitText = t, pl_candidates = [\<lparr>cd_text = t, cd_source = kSourceRaw\<rparr>]\<rparr>,
            rpr_errors := []\<rparr>
      | Discard \<Rightarrow> r\<lparr>rpr_payload := empty_payload, rpr_errors := []\<rparr>
      | _ \<Rightarrow> r)"

definition result_outputs ::
    "('b, 'x, 's) ctl_env \<Rightarrow> RecognitionPipelineResult \<Rightarrow> bool \<Rightarrow> daemon_output list" where
  "result_outputs env r ime =
     map DesktopNotification (rpr_errors r)
     @ (if ime then [RecognitionResult (result_Serialize (ce_emit_payload env) (rpr_payload r))] else [])
     @ (if pl_commitText (rpr_payload r) \<noteq> []
        then [Broadcast (SerializeCommittedEvent (ce_write_text env) (rpr_payload r) ime)] else [])"

text \<open>\<open>pp\<close> is the pipeline's environment as observed, with the cancellation flags it sampled.\<close>

definition worker_delivers ::
    "('b, 'x, 's) ctl_env \<Rightarrow> pp_env \<Rightarrow> CoreConfig \<Rightarrow> ('b, 's) controller \<Rightarrow> ('b, 's) controller" where
  "worker_delivers env pp loaded c =
     (case ct_worker c of
        WorkerProcessing o' settings \<Rightarrow>
          (case TakePostprocessingState (ct_machine c) of
             (action, m) \<Rightarrow>
               (let r = apply_postprocessing_action action (pr_text (ro_request o'))
                          (pipeline_Process pp (ro_request o') settings)
                in (ResetToIdle env loaded
                      (emit (result_outputs env r (ro_ime o')) (c\<lparr>ct_machine := m\<rparr>)))\<lparr>ct_worker := WorkerIdle\<rparr>))
      | _ \<Rightarrow> c)"

section \<open>Clients\<close>

definition InjectText ::
    "('b, 'x, 's) ctl_env \<Rightarrow> bool \<Rightarrow> InjectStage \<Rightarrow> string \<Rightarrow> string \<Rightarrow> ('b, 's) controller
      \<Rightarrow> string option \<times> ('b, 's) controller" where
  "InjectText env ime stage t scene_id c =
     (if stage = StagePartial then (None, emit (partial_outputs env t ime) c)
      else if scene_id = [] then
        (let payload = \<lparr>pl_commitText = t, pl_candidates = [\<lparr>cd_text = t, cd_source = kSourceRaw\<rparr>]\<rparr>
         in (None, emit ((if ime then [RecognitionResult (result_Serialize (ce_emit_payload env) payload)] else [])
                         @ (if t \<noteq> [] then [Broadcast (SerializeCommittedEvent (ce_write_text env) payload ime)]
                            else [])) c))
      else if m_phase (ct_machine c) \<noteq> Idle then (Some (busy_message env), c)
      else
        (None, c\<lparr>ct_ime := ime,
                 ct_order := Some (default_order\<lparr>ro_request := \<lparr>pr_text = t, pr_scene_id = scene_id,
                    pr_is_command = False, pr_selected_text = []\<rparr>, ro_ime := ime\<rparr>)\<rparr>))"

definition DispatchClientCommand ::
    "('b, 'x, 's) ctl_env \<Rightarrow> pw_env \<Rightarrow> CoreConfig \<Rightarrow> ClientCommand \<Rightarrow> ('b, 's) controller \<Rightarrow> ('b, 's) controller" where
  "DispatchClientCommand env pw loaded command c =
     snd (case command of
            CmdStart cmd \<Rightarrow>
              StartRecordingInternal env pw loaded (st_ime cmd) (st_mode cmd = ''command'')
                (st_selected_text cmd) (st_capture_device cmd) c
          | CmdStop cmd \<Rightarrow> StopRecording_ctl env pw loaded (so_ime cmd) (so_scene cmd) c
          | CmdCancel cmd \<Rightarrow> CancelOperation env pw loaded (ca_ime cmd) (ca_commit_raw cmd) c
          | CmdInject cmd \<Rightarrow> InjectText env (in_ime cmd) (in_stage cmd) (in_text cmd) (in_scene cmd) c)"

definition DispatchClientLine ::
    "('b, 'x, 's) ctl_env \<Rightarrow> (string \<Rightarrow> string + WireEnvelope) \<Rightarrow> pw_env \<Rightarrow> CoreConfig \<Rightarrow> string \<Rightarrow> ('b, 's) controller
      \<Rightarrow> ('b, 's) controller" where
  "DispatchClientLine env read_wire pw loaded line c =
     (case ParseClientCommand read_wire line of
        Inl _ \<Rightarrow> c
      | Inr cmd \<Rightarrow> DispatchClientCommand env pw loaded cmd c)"

definition StartWorker :: "('b, 's) controller \<Rightarrow> ('b, 's) controller" where
  "StartWorker c = (if ct_worker_running c then c else c\<lparr>ct_worker_running := True, ct_worker := WorkerIdle\<rparr>)"

text \<open>The parts of \<open>Shutdown\<close> before and after the worker is joined.\<close>

definition Shutdown_stop :: "('b, 'x, 's) ctl_env \<Rightarrow> ('b, 's) controller \<Rightarrow> ('b, 's) controller" where
  "Shutdown_stop env c =
     (let c1 = RestoreOutputIfDucked (c\<lparr>ct_accepting := False, ct_pending_stop := False,
                 ct_capture := cap_Stop (ct_capture c)\<rparr>);
          c2 = c1\<lparr>ct_starting := False, ct_worker_running := False, ct_machine := rsm_Clear (ct_machine c1)\<rparr>
      in c2\<lparr>ct_lifecycle := CancelAndRetireActive (ce_ops env) (ct_lifecycle c2)\<rparr>)"

definition Shutdown_finish :: "('b, 'x, 's) ctl_env \<Rightarrow> ('b, 's) controller \<Rightarrow> ('b, 's) controller" where
  "Shutdown_finish env c =
     c\<lparr>ct_lifecycle := lm_Clear (ce_ops env) (snd (FlushReapedSessions (ct_lifecycle c)))\<rparr>"

end
