(* ===== verification/Process_Session.thy ===== *)
theory Process_Session
  imports Process_Utils
begin

text \<open>
  A child process that runs beside its owner (\<open>common/utils/process_session.cpp\<close> and the read loop of
  \<open>process_internal.h\<close>). The pump thread owns the pipes; the owner pushes input, pops events and may ask
  to cancel. One turn of the pump's loop is one function of the state and of what the operating
  system answers in that turn (\<open>turn\<close>); the loop that drains the pipes after the exit and the end of
  the pump are two more.

  \<open>ps_written\<close>, \<open>ps_pushed\<close>, \<open>ps_published\<close>, \<open>ps_popped\<close> and \<open>ps_signals\<close> record what happened: the bytes
  the child's input took, the bytes accepted from the owner, the events queued and popped so far, and
  the signals sent. Output for which the owner gave a sink goes to \<open>ps_direct\<close>. The event descriptors of
  the session exist after \<open>Open\<close>, so the pump always has something to wait for.
\<close>

section \<open>State\<close>

datatype ChildEvent =
    StdoutChunk bytes
  | StderrChunk bytes
  | ChildCancelled
  | ChildExited int bool

datatype signal = SigTerm | SigKill

datatype pump_phase = Pumping | PostExit | PumpDone

record psession =
  ps_phase :: pump_phase
  ps_stdin_queue :: "bytes list"
  ps_event_queue :: "ChildEvent list"
  ps_queued_output_bytes :: nat
  ps_stdin_open :: bool
  ps_stdout_open :: bool
  ps_stderr_open :: bool
  ps_pending :: bytes
  ps_pending_offset :: nat
  ps_exit_code :: int
  ps_reaped :: bool
  ps_killed_by_us :: bool
  ps_stdin_closed :: bool
  ps_cancel_signal :: bool
  ps_cancel_seen :: bool
  ps_force_kill_sent :: bool
  ps_terminate_deadline :: bool
  ps_stdout_sink :: bool
  ps_stderr_sink :: bool
  ps_written :: bytes
  ps_pushed :: bytes
  ps_published :: "ChildEvent list"
  ps_popped :: "ChildEvent list"
  ps_direct :: "ChildEvent list"
  ps_signals :: "signal list"

text \<open>A session after \<open>Open\<close> and \<open>StartPump\<close>; all three channels are there.\<close>

definition new_psession :: "bool \<Rightarrow> bool \<Rightarrow> psession" where
  "new_psession stdout_sink stderr_sink =
     \<lparr>ps_phase = Pumping, ps_stdin_queue = [], ps_event_queue = [], ps_queued_output_bytes = 0,
      ps_stdin_open = True, ps_stdout_open = True, ps_stderr_open = True, ps_pending = [], ps_pending_offset = 0,
      ps_exit_code = - 1, ps_reaped = False, ps_killed_by_us = False, ps_stdin_closed = False,
      ps_cancel_signal = False, ps_cancel_seen = False, ps_force_kill_sent = False, ps_terminate_deadline = False,
      ps_stdout_sink = stdout_sink, ps_stderr_sink = stderr_sink, ps_written = [], ps_pushed = [],
      ps_published = [], ps_popped = [], ps_direct = [], ps_signals = []\<rparr>"

definition kMaxQueuedOutputBytes :: nat where "kMaxQueuedOutputBytes = 1024 * 1024"
definition kReadBudgetBytes :: nat where "kReadBudgetBytes = 64 * 1024"

section \<open>Reading a channel\<close>

text \<open>The answers of \<open>read\<close>; the end of the list is a read that would block.\<close>

datatype read_result = ReadData bytes | ReadEof | ReadRetry | ReadFailed

fun DrainBudgeted :: "nat \<Rightarrow> read_result list \<Rightarrow> nat \<Rightarrow> bytes list \<times> nat \<times> bool" where
  "DrainBudgeted budget [] bytes_read = ([], bytes_read, False)"
| "DrainBudgeted budget (ReadData d # rs) bytes_read =
     (if bytes_read < budget then
        (let chunk = take (min 4096 (budget - bytes_read)) d in
         if chunk = [] then ([], bytes_read, True)
         else case DrainBudgeted budget rs (bytes_read + length chunk) of (chunks, n, peer_closed) \<Rightarrow> (chunk # chunks, n, peer_closed))
      else ([], bytes_read, False))"
| "DrainBudgeted budget (ReadEof # rs) bytes_read = ([], bytes_read, bytes_read < budget)"
| "DrainBudgeted budget (ReadRetry # rs) bytes_read = ([], bytes_read, False)"
| "DrainBudgeted budget (ReadFailed # rs) bytes_read = ([], bytes_read, bytes_read < budget)"

fun event_bytes :: "ChildEvent \<Rightarrow> nat" where
  "event_bytes (StdoutChunk d) = length d"
| "event_bytes (StderrChunk d) = length d"
| "event_bytes _ = 0"

definition QueueEvent :: "ChildEvent \<Rightarrow> psession \<Rightarrow> psession" where
  "QueueEvent e s = s\<lparr>ps_event_queue := ps_event_queue s @ [e], ps_published := ps_published s @ [e],
     ps_queued_output_bytes := ps_queued_output_bytes s + event_bytes e\<rparr>"

definition PopEvent :: "psession \<Rightarrow> ChildEvent option \<times> psession" where
  "PopEvent s =
     (case ps_event_queue s of
        [] \<Rightarrow> (None, s)
      | e # es \<Rightarrow>
          (Some e, s\<lparr>ps_event_queue := es, ps_popped := ps_popped s @ [e],
                     ps_queued_output_bytes := ps_queued_output_bytes s - event_bytes e\<rparr>))"

definition CloseStdinChannel :: "psession \<Rightarrow> psession" where
  "CloseStdinChannel s = s\<lparr>ps_stdin_open := False, ps_pending := [], ps_pending_offset := 0\<rparr>"

definition CloseOutputChannel :: "bool \<Rightarrow> psession \<Rightarrow> psession" where
  "CloseOutputChannel is_stdout s =
     (if is_stdout then s\<lparr>ps_stdout_open := False\<rparr> else s\<lparr>ps_stderr_open := False\<rparr>)"

definition chunk_event :: "bool \<Rightarrow> bytes \<Rightarrow> ChildEvent" where
  "chunk_event is_stdout d = (if is_stdout then StdoutChunk d else StderrChunk d)"

definition has_sink :: "bool \<Rightarrow> psession \<Rightarrow> bool" where
  "has_sink is_stdout s = (if is_stdout then ps_stdout_sink s else ps_stderr_sink s)"

definition emit_chunk :: "bool \<Rightarrow> psession \<Rightarrow> bytes \<Rightarrow> psession" where
  "emit_chunk is_stdout s d =
     (if has_sink is_stdout s then s\<lparr>ps_direct := ps_direct s @ [chunk_event is_stdout d]\<rparr>
      else QueueEvent (chunk_event is_stdout d) s)"

text \<open>The state, the number of bytes read and whether the peer closed the channel.\<close>

definition DrainOutput :: "bool \<Rightarrow> read_result list \<Rightarrow> psession \<Rightarrow> nat \<times> bool \<times> psession" where
  "DrainOutput is_stdout reads s =
     (if \<not> has_sink is_stdout s \<and> ps_queued_output_bytes s \<ge> kMaxQueuedOutputBytes then (0, False, s)
      else case DrainBudgeted kReadBudgetBytes reads 0 of
        (chunks, n, peer_closed) \<Rightarrow> (n, peer_closed, foldl (emit_chunk is_stdout) s chunks))"

definition ServiceOutputChannel :: "bool \<Rightarrow> read_result list \<Rightarrow> psession \<Rightarrow> psession" where
  "ServiceOutputChannel is_stdout reads s =
     (if \<not> (if is_stdout then ps_stdout_open s else ps_stderr_open s) then s
      else case DrainOutput is_stdout reads s of
        (n, peer_closed, s1) \<Rightarrow> if peer_closed then CloseOutputChannel is_stdout s1 else s1)"

section \<open>The pump\<close>

datatype poll_result = PollFailed | PollInterrupted | PollTimeout | PollReady

text \<open>What \<open>poll\<close> and \<open>write\<close> say of the input channel.\<close>

datatype input_result = InputNotReady | InputWrote nat | InputRetry | InputFailed

record turn =
  tn_reaped :: "int option"
  tn_deadline_passed :: bool
  tn_poll :: poll_result
  tn_input :: input_result
  tn_stdout :: "read_result list option"
  tn_stderr :: "read_result list option"

definition send_signal :: "signal \<Rightarrow> psession \<Rightarrow> psession" where
  "send_signal sig s = s\<lparr>ps_signals := ps_signals s @ [sig]\<rparr>"

text \<open>The next block of input, once the last one is written; a closed input ends the channel.\<close>

definition next_block :: "psession \<Rightarrow> psession" where
  "next_block s =
     (if ps_stdin_open s \<and> ps_pending_offset s \<ge> length (ps_pending s) then
        (let s1 = s\<lparr>ps_pending := [], ps_pending_offset := 0\<rparr> in
         case ps_stdin_queue s of
           b # bs \<Rightarrow> s1\<lparr>ps_pending := b, ps_stdin_queue := bs\<rparr>
         | [] \<Rightarrow> if ps_stdin_closed s then CloseStdinChannel s1 else s1)
      else s)"

text \<open>\<open>write\<close> takes at most the bytes it was given.\<close>

definition feed_input :: "input_result \<Rightarrow> psession \<Rightarrow> psession" where
  "feed_input r s =
     (if \<not> (ps_stdin_open s \<and> ps_pending_offset s < length (ps_pending s)) then s
      else case r of
        InputNotReady \<Rightarrow> s
      | InputRetry \<Rightarrow> s
      | InputFailed \<Rightarrow> CloseStdinChannel s
      | InputWrote n \<Rightarrow>
          (let rest = drop (ps_pending_offset s) (ps_pending s);
               offset = ps_pending_offset s + min n (length rest);
               s1 = s\<lparr>ps_written := ps_written s @ take n rest, ps_pending_offset := offset\<rparr>
           in if offset \<ge> length (ps_pending s) then s1\<lparr>ps_pending := [], ps_pending_offset := 0\<rparr> else s1))"

definition watched_output :: "bool \<Rightarrow> bool \<Rightarrow> read_result list option \<Rightarrow> psession \<Rightarrow> psession" where
  "watched_output is_stdout watched reads s =
     (case reads of
        Some rs \<Rightarrow> if watched then ServiceOutputChannel is_stdout rs s else s
      | None \<Rightarrow> s)"

definition handle_cancel :: "psession \<Rightarrow> psession" where
  "handle_cancel s =
     (if \<not> ps_cancel_signal s then s
      else
        (let s1 = s\<lparr>ps_cancel_signal := False\<rparr> in
         if ps_cancel_seen s then s1
         else (send_signal SigTerm (QueueEvent ChildCancelled (CloseStdinChannel
                 (s1\<lparr>ps_cancel_seen := True, ps_killed_by_us := True, ps_stdin_closed := True\<rparr>))))
                \<lparr>ps_terminate_deadline := True\<rparr>))"

definition pump_ready :: "turn \<Rightarrow> psession \<Rightarrow> psession" where
  "pump_ready t s =
     (let pressure = ps_queued_output_bytes s \<ge> kMaxQueuedOutputBytes;
          watch_out = ps_stdout_open s \<and> \<not> pressure;
          watch_err = ps_stderr_open s \<and> \<not> pressure
      in handle_cancel (watched_output False watch_err (tn_stderr t)
           (watched_output True watch_out (tn_stdout t) (feed_input (tn_input t) s))))"

definition pump_turn :: "turn \<Rightarrow> psession \<Rightarrow> psession" where
  "pump_turn t s =
     (case tn_reaped t of
        Some code \<Rightarrow>
          (let s1 = s\<lparr>ps_reaped := True, ps_exit_code := code, ps_phase := PostExit\<rparr>
           in if ps_cancel_seen s then send_signal SigKill s1 else s1)
      | None \<Rightarrow>
          if ps_terminate_deadline s \<and> tn_deadline_passed t \<and> ps_force_kill_sent s then s\<lparr>ps_phase := PostExit\<rparr>
          else
            (let s1 = (if ps_terminate_deadline s \<and> tn_deadline_passed t
                       then send_signal SigKill s\<lparr>ps_force_kill_sent := True\<rparr> else s);
                 s2 = next_block s1
             in case tn_poll t of
                  PollFailed \<Rightarrow> s2\<lparr>ps_phase := PostExit\<rparr>
                | PollInterrupted \<Rightarrow> s2
                | PollTimeout \<Rightarrow> s2
                | PollReady \<Rightarrow> pump_ready t s2))"

text \<open>One turn of the loop that drains the pipes after the exit, while its deadline has not passed.\<close>

definition drain_turn :: "read_result list \<Rightarrow> read_result list \<Rightarrow> psession \<Rightarrow> psession" where
  "drain_turn out err s = ServiceOutputChannel False err (ServiceOutputChannel True out s)"

definition pump_end :: "int option \<Rightarrow> psession \<Rightarrow> psession" where
  "pump_end reaped s =
     (let s1 = (case reaped of
                  Some code \<Rightarrow> if ps_reaped s then s else s\<lparr>ps_reaped := True, ps_exit_code := code\<rparr>
                | None \<Rightarrow> s);
          s2 = (if ps_stdin_open s1 then CloseStdinChannel s1 else s1);
          s3 = s2\<lparr>ps_stdout_open := False, ps_stderr_open := False\<rparr>
      in (QueueEvent (ChildExited (if ps_reaped s3 then ps_exit_code s3 else - 1) (ps_killed_by_us s3)) s3)
           \<lparr>ps_phase := PumpDone\<rparr>)"

section \<open>The owner\<close>

text \<open>\<open>room\<close> tells whether the input queue takes another block without allocating.\<close>

definition PushStdin :: "bool \<Rightarrow> bytes \<Rightarrow> psession \<Rightarrow> bool \<times> psession" where
  "PushStdin room bs s =
     (if bs = [] then (True, s)
      else if ps_phase s = PumpDone \<or> ps_stdin_closed s then (False, s)
      else if \<not> room then (False, s)
      else (True, s\<lparr>ps_stdin_queue := ps_stdin_queue s @ [bs], ps_pushed := ps_pushed s @ bs\<rparr>))"

definition CloseStdin :: "psession \<Rightarrow> psession" where
  "CloseStdin s = s\<lparr>ps_stdin_closed := True\<rparr>"

definition ps_Cancel :: "psession \<Rightarrow> psession" where
  "ps_Cancel s = s\<lparr>ps_cancel_signal := True\<rparr>"

definition HasExited :: "psession \<Rightarrow> int option" where
  "HasExited s = (if ps_phase s = PumpDone then Some (ps_exit_code s) else None)"

section \<open>Invariant\<close>

definition is_exit :: "ChildEvent \<Rightarrow> bool" where
  "is_exit e = (case e of ChildExited _ _ \<Rightarrow> True | _ \<Rightarrow> False)"

text \<open>
  The events: those popped and those in the queue are those published, in order; the counter is the
  size of the queued output; the exit is published at the end of the pump and nothing after it; a
  cancellation is published once, when it is seen.
\<close>

definition events_inv :: "psession \<Rightarrow> bool" where
  "events_inv s \<longleftrightarrow>
     ps_popped s @ ps_event_queue s = ps_published s
     \<and> ps_queued_output_bytes s = sum_list (map event_bytes (ps_event_queue s))
     \<and> ps_queued_output_bytes s < kMaxQueuedOutputBytes + kReadBudgetBytes
     \<and> (if ps_phase s = PumpDone
        then (\<exists>es code. ps_published s = es @ [ChildExited code (ps_cancel_seen s)] \<and> filter is_exit es = [])
        else filter is_exit (ps_published s) = [])
     \<and> length (filter (\<lambda>e. e = ChildCancelled) (ps_published s)) = (if ps_cancel_seen s then 1 else 0)
     \<and> ps_killed_by_us s = ps_cancel_seen s"

text \<open>
  The input: what the child has taken is a beginning of what was accepted; while the channel is open
  the rest is waiting, in order; a cancellation closes the channel.
\<close>

definition input_inv :: "psession \<Rightarrow> bool" where
  "input_inv s \<longleftrightarrow>
     (\<exists>rest. ps_pushed s = ps_written s @ rest
        \<and> (ps_stdin_open s \<longrightarrow> rest = drop (ps_pending_offset s) (ps_pending s) @ concat (ps_stdin_queue s)))
     \<and> (ps_cancel_seen s \<longrightarrow> \<not> ps_stdin_open s)"

text \<open>Fields the invariants do not read.\<close>

lemma events_inv_frame [simp]:
  "events_inv (s\<lparr>ps_stdout_open := b\<rparr>) = events_inv s" "events_inv (s\<lparr>ps_stderr_open := b\<rparr>) = events_inv s"
  "events_inv (s\<lparr>ps_stdin_open := b\<rparr>) = events_inv s" "events_inv (s\<lparr>ps_pending := p\<rparr>) = events_inv s"
  "events_inv (s\<lparr>ps_pending_offset := n\<rparr>) = events_inv s" "events_inv (s\<lparr>ps_stdin_queue := q\<rparr>) = events_inv s"
  "events_inv (s\<lparr>ps_written := p\<rparr>) = events_inv s" "events_inv (s\<lparr>ps_pushed := p\<rparr>) = events_inv s"
  "events_inv (s\<lparr>ps_stdin_closed := b\<rparr>) = events_inv s" "events_inv (s\<lparr>ps_cancel_signal := b\<rparr>) = events_inv s"
  "events_inv (s\<lparr>ps_force_kill_sent := b\<rparr>) = events_inv s" "events_inv (s\<lparr>ps_terminate_deadline := b\<rparr>) = events_inv s"
  "events_inv (s\<lparr>ps_signals := g\<rparr>) = events_inv s" "events_inv (s\<lparr>ps_reaped := b\<rparr>) = events_inv s"
  "events_inv (s\<lparr>ps_exit_code := i\<rparr>) = events_inv s"
  unfolding events_inv_def by simp_all

lemma input_inv_frame [simp]:
  "input_inv (s\<lparr>ps_stdout_open := b\<rparr>) = input_inv s" "input_inv (s\<lparr>ps_stderr_open := b\<rparr>) = input_inv s"
  "input_inv (s\<lparr>ps_stdin_closed := b\<rparr>) = input_inv s" "input_inv (s\<lparr>ps_cancel_signal := b\<rparr>) = input_inv s"
  "input_inv (s\<lparr>ps_force_kill_sent := b\<rparr>) = input_inv s" "input_inv (s\<lparr>ps_terminate_deadline := b\<rparr>) = input_inv s"
  "input_inv (s\<lparr>ps_signals := g\<rparr>) = input_inv s" "input_inv (s\<lparr>ps_reaped := b\<rparr>) = input_inv s"
  "input_inv (s\<lparr>ps_exit_code := i\<rparr>) = input_inv s" "input_inv (s\<lparr>ps_phase := p\<rparr>) = input_inv s"
  "input_inv (s\<lparr>ps_killed_by_us := b\<rparr>) = input_inv s"
  by (simp_all add: input_inv_def)

lemma DrainBudgeted_bound:
  "bytes_read \<le> budget \<Longrightarrow>
     bytes_read + sum_list (map length (fst (DrainBudgeted budget reads bytes_read))) \<le> budget"
proof (induction budget reads bytes_read rule: DrainBudgeted.induct)
  case (2 budget d rs bytes_read)
  let ?chunk = "take (min 4096 (budget - bytes_read)) d"
  have len: "bytes_read + length ?chunk \<le> budget" using 2(2) by simp
  show ?case
  proof (cases "bytes_read < budget \<and> ?chunk \<noteq> []")
    case True
    have "bytes_read + length ?chunk + sum_list (map length (fst (DrainBudgeted budget rs (bytes_read + length ?chunk)))) \<le> budget"
      using 2(1) [OF _ refl _ len] True by blast
    then show ?thesis using True by (simp add: Let_def case_prod_beta)
  qed (use 2(2) in \<open>auto simp: Let_def\<close>)
qed simp_all

text \<open>Everything but the events of one kind stays when chunks are emitted.\<close>

lemma emit_chunks:
  "ps_popped (foldl (emit_chunk b) s ds) = ps_popped s
   \<and> ps_phase (foldl (emit_chunk b) s ds) = ps_phase s
   \<and> ps_cancel_seen (foldl (emit_chunk b) s ds) = ps_cancel_seen s
   \<and> ps_killed_by_us (foldl (emit_chunk b) s ds) = ps_killed_by_us s
   \<and> has_sink b (foldl (emit_chunk b) s ds) = has_sink b s
   \<and> ps_event_queue (foldl (emit_chunk b) s ds) = ps_event_queue s @ (if has_sink b s then [] else map (chunk_event b) ds)
   \<and> ps_published (foldl (emit_chunk b) s ds) = ps_published s @ (if has_sink b s then [] else map (chunk_event b) ds)
   \<and> ps_queued_output_bytes (foldl (emit_chunk b) s ds) =
       ps_queued_output_bytes s + (if has_sink b s then 0 else sum_list (map length ds))
   \<and> ps_pushed (foldl (emit_chunk b) s ds) = ps_pushed s \<and> ps_written (foldl (emit_chunk b) s ds) = ps_written s
   \<and> ps_stdin_open (foldl (emit_chunk b) s ds) = ps_stdin_open s
   \<and> ps_pending (foldl (emit_chunk b) s ds) = ps_pending s
   \<and> ps_pending_offset (foldl (emit_chunk b) s ds) = ps_pending_offset s
   \<and> ps_stdin_queue (foldl (emit_chunk b) s ds) = ps_stdin_queue s"
proof (induction ds arbitrary: s)
  case (Cons d ds)
  let ?t = "emit_chunk b s d"
  have "has_sink b ?t = has_sink b s" "ps_popped ?t = ps_popped s" "ps_phase ?t = ps_phase s"
    "ps_cancel_seen ?t = ps_cancel_seen s" "ps_killed_by_us ?t = ps_killed_by_us s"
    "ps_event_queue ?t = ps_event_queue s @ (if has_sink b s then [] else [chunk_event b d])"
    "ps_published ?t = ps_published s @ (if has_sink b s then [] else [chunk_event b d])"
    "ps_queued_output_bytes ?t = ps_queued_output_bytes s + (if has_sink b s then 0 else length d)"
    "ps_pushed ?t = ps_pushed s" "ps_written ?t = ps_written s" "ps_stdin_open ?t = ps_stdin_open s"
    "ps_pending ?t = ps_pending s" "ps_pending_offset ?t = ps_pending_offset s"
    "ps_stdin_queue ?t = ps_stdin_queue s"
    by (simp_all add: emit_chunk_def QueueEvent_def has_sink_def chunk_event_def)
  with Cons.IH [of ?t] show ?case by (simp add: foldl_Cons)
qed simp

lemma chunk_event_facts [simp]:
  "is_exit (chunk_event b d) = False" "chunk_event b d \<noteq> ChildCancelled" "event_bytes (chunk_event b d) = length d"
  by (simp_all add: is_exit_def chunk_event_def)

lemma Service_events:
  assumes "events_inv s" and "ps_phase s \<noteq> PumpDone"
  shows "events_inv (ServiceOutputChannel b reads s)"
proof -
  obtain n peer s1 where d: "DrainOutput b reads s = (n, peer, s1)" by (metis prod.exhaust)
  have "events_inv s1"
  proof (cases "\<not> has_sink b s \<and> ps_queued_output_bytes s \<ge> kMaxQueuedOutputBytes")
    case True
    with d assms(1) show ?thesis by (simp add: DrainOutput_def)
  next
    case False
    obtain chunks m cl where r: "DrainBudgeted kReadBudgetBytes reads 0 = (chunks, m, cl)" by (metis prod.exhaust)
    have "sum_list (map length chunks) \<le> kReadBudgetBytes"
      using DrainBudgeted_bound [of 0 kReadBudgetBytes reads] r by simp
    moreover have "s1 = foldl (emit_chunk b) s chunks" using d r False by (auto simp: DrainOutput_def)
    ultimately show ?thesis
      using assms False emit_chunks [of b s chunks]
      by (cases "has_sink b s") (auto simp: events_inv_def comp_def filter_empty_conv)
  qed
  then have "events_inv (CloseOutputChannel b s1)" by (simp add: CloseOutputChannel_def)
  with \<open>events_inv s1\<close> d assms(1) show ?thesis by (cases b) (simp_all add: ServiceOutputChannel_def)
qed

lemma Service_frame:
  "ps_phase (ServiceOutputChannel b reads s) = ps_phase s"
  "input_inv s \<Longrightarrow> input_inv (ServiceOutputChannel b reads s)"
proof -
  obtain n peer s1 where d: "DrainOutput b reads s = (n, peer, s1)" by (metis prod.exhaust)
  obtain chunks where c: "s1 = foldl (emit_chunk b) s chunks"
  proof (cases "\<not> has_sink b s \<and> ps_queued_output_bytes s \<ge> kMaxQueuedOutputBytes")
    case True
    with d have "s1 = foldl (emit_chunk b) s []" by (simp add: DrainOutput_def)
    then show ?thesis by (rule that)
  next
    case False
    with d show ?thesis by (intro that [of "fst (DrainBudgeted kReadBudgetBytes reads 0)"])
        (auto simp: DrainOutput_def split: prod.splits)
  qed
  note e = emit_chunks [of b s chunks, folded c]
  show "ps_phase (ServiceOutputChannel b reads s) = ps_phase s"
    using d e by (auto simp: ServiceOutputChannel_def CloseOutputChannel_def)
  show "input_inv s \<Longrightarrow> input_inv (ServiceOutputChannel b reads s)"
    using d e by (auto simp: ServiceOutputChannel_def CloseOutputChannel_def input_inv_def)
qed

lemma events_inv_QueueEvent:
  assumes "events_inv s" and "ps_phase s \<noteq> PumpDone" and "event_bytes e = 0" and "\<not> is_exit e" and "e \<noteq> ChildCancelled"
  shows "events_inv (QueueEvent e s)"
  using assms by (simp add: events_inv_def QueueEvent_def)

lemma events_inv_phase:
  "ps_phase s \<noteq> PumpDone \<Longrightarrow> p \<noteq> PumpDone \<Longrightarrow> events_inv (s\<lparr>ps_phase := p\<rparr>) = events_inv s"
  by (simp add: events_inv_def)

lemma CloseStdinChannel_inv:
  "events_inv (CloseStdinChannel s) = events_inv s" "input_inv s \<Longrightarrow> input_inv (CloseStdinChannel s)"
  by (auto simp: CloseStdinChannel_def input_inv_def)

lemma next_block_inv:
  "events_inv s \<Longrightarrow> events_inv (next_block s)" "input_inv s \<Longrightarrow> input_inv (next_block s)"
  "ps_phase (next_block s) = ps_phase s"
proof -
  show "events_inv s \<Longrightarrow> events_inv (next_block s)"
    by (simp add: next_block_def CloseStdinChannel_inv Let_def split: list.splits)
  show "ps_phase (next_block s) = ps_phase s"
    by (simp add: next_block_def CloseStdinChannel_def Let_def split: list.splits)
  show "input_inv (next_block s)" if "input_inv s"
  proof (cases "ps_stdin_open s \<and> ps_pending_offset s \<ge> length (ps_pending s)")
    case True
    with that have "ps_pushed s = ps_written s @ concat (ps_stdin_queue s)" "\<not> ps_cancel_seen s"
      by (auto simp: input_inv_def)
    with True show ?thesis
      by (cases "ps_stdin_queue s") (auto simp: next_block_def input_inv_def CloseStdinChannel_def Let_def)
  qed (use that in \<open>auto simp: next_block_def\<close>)
qed

lemma feed_input_inv:
  "events_inv s \<Longrightarrow> events_inv (feed_input r s)" "input_inv s \<Longrightarrow> input_inv (feed_input r s)"
  "ps_phase (feed_input r s) = ps_phase s"
proof -
  show "events_inv s \<Longrightarrow> events_inv (feed_input r s)"
    by (simp add: feed_input_def CloseStdinChannel_inv Let_def split: input_result.splits)
  show "ps_phase (feed_input r s) = ps_phase s"
    by (simp add: feed_input_def CloseStdinChannel_def Let_def split: input_result.splits)
  show "input_inv (feed_input r s)" if "input_inv s"
  proof (cases r)
    case (InputWrote n)
    let ?rest = "drop (ps_pending_offset s) (ps_pending s)"
    have split: "?rest = take n ?rest @ drop (ps_pending_offset s + min n (length ?rest)) (ps_pending s)"
      by (cases "n \<le> length ?rest") (simp_all add: add.commute flip: drop_drop)
    show ?thesis
    proof (cases "ps_stdin_open s \<and> ps_pending_offset s < length (ps_pending s)")
      case True
      then have "ps_pushed s = ps_written s @ ?rest @ concat (ps_stdin_queue s)" and "\<not> ps_cancel_seen s"
        using that by (auto simp: input_inv_def)
      then have "ps_pushed s = (ps_written s @ take n ?rest)
          @ drop (ps_pending_offset s + min n (length ?rest)) (ps_pending s) @ concat (ps_stdin_queue s)"
        using split by (metis append.assoc)
      with True \<open>\<not> ps_cancel_seen s\<close> InputWrote show ?thesis
        by (simp add: feed_input_def input_inv_def Let_def)
    qed (use that in \<open>simp add: feed_input_def\<close>)
  qed (use that in \<open>simp_all add: feed_input_def CloseStdinChannel_inv\<close>)
qed

lemma watched_inv:
  "events_inv s \<Longrightarrow> ps_phase s \<noteq> PumpDone \<Longrightarrow> events_inv (watched_output b w r s)"
  "input_inv s \<Longrightarrow> input_inv (watched_output b w r s)" "ps_phase (watched_output b w r s) = ps_phase s"
  by (simp_all add: watched_output_def Service_events Service_frame split: option.splits)

lemma handle_cancel_inv:
  "events_inv s \<Longrightarrow> ps_phase s \<noteq> PumpDone \<Longrightarrow> events_inv (handle_cancel s)"
  "input_inv s \<Longrightarrow> input_inv (handle_cancel s)" "ps_phase (handle_cancel s) = ps_phase s"
proof -
  show "events_inv (handle_cancel s)" if "events_inv s" "ps_phase s \<noteq> PumpDone"
  proof (cases "ps_cancel_signal s \<and> \<not> ps_cancel_seen s")
    case True
    with that show ?thesis
      by (simp add: handle_cancel_def Let_def send_signal_def QueueEvent_def CloseStdinChannel_def)
         (simp add: events_inv_def is_exit_def)
  qed (use that in \<open>auto simp: handle_cancel_def Let_def\<close>)
  show "input_inv s \<Longrightarrow> input_inv (handle_cancel s)"
    by (auto simp: handle_cancel_def Let_def send_signal_def QueueEvent_def CloseStdinChannel_def input_inv_def)
  show "ps_phase (handle_cancel s) = ps_phase s"
    by (simp add: handle_cancel_def Let_def send_signal_def QueueEvent_def CloseStdinChannel_def)
qed

lemma pump_turn_inv:
  assumes "ps_phase s = Pumping"
  shows "events_inv s \<Longrightarrow> events_inv (pump_turn t s)" "input_inv s \<Longrightarrow> input_inv (pump_turn t s)"
    "ps_phase (pump_turn t s) \<noteq> PumpDone"
proof -
  let ?s1 = "if ps_terminate_deadline s \<and> tn_deadline_passed t then send_signal SigKill s\<lparr>ps_force_kill_sent := True\<rparr> else s"
  have s1: "events_inv s \<Longrightarrow> events_inv ?s1" "input_inv s \<Longrightarrow> input_inv ?s1" "ps_phase ?s1 = Pumping"
    using assms by (simp_all add: send_signal_def)
  have ready: "ps_phase s' = Pumping \<Longrightarrow> events_inv s' \<Longrightarrow> events_inv (pump_ready t s')"
    "input_inv s' \<Longrightarrow> input_inv (pump_ready t s')" "ps_phase (pump_ready t s') = ps_phase s'" for s'
    by (simp_all add: pump_ready_def Let_def handle_cancel_inv watched_inv feed_input_inv)
  show "events_inv s \<Longrightarrow> events_inv (pump_turn t s)"
    using s1 assms ready
    by (auto simp: pump_turn_def Let_def send_signal_def events_inv_phase next_block_inv
        split: option.splits poll_result.splits)
  show "input_inv s \<Longrightarrow> input_inv (pump_turn t s)"
    using s1 assms ready
    by (auto simp: pump_turn_def Let_def send_signal_def next_block_inv split: option.splits poll_result.splits)
  show "ps_phase (pump_turn t s) \<noteq> PumpDone"
    using s1 assms ready
    by (auto simp: pump_turn_def Let_def send_signal_def next_block_inv split: option.splits poll_result.splits)
qed

lemma pump_end_inv:
  assumes "ps_phase s = PostExit"
  shows "events_inv s \<Longrightarrow> events_inv (pump_end r s)" "input_inv s \<Longrightarrow> input_inv (pump_end r s)"
proof -
  let ?s1 = "case r of Some code \<Rightarrow> if ps_reaped s then s else s\<lparr>ps_reaped := True, ps_exit_code := code\<rparr> | None \<Rightarrow> s"
  let ?s3 = "(if ps_stdin_open ?s1 then CloseStdinChannel ?s1 else ?s1)\<lparr>ps_stdout_open := False, ps_stderr_open := False\<rparr>"
  have s3: "events_inv s \<Longrightarrow> events_inv ?s3" "input_inv s \<Longrightarrow> input_inv ?s3" "ps_phase ?s3 = PostExit"
    using assms by (auto simp: CloseStdinChannel_def input_inv_def split: option.splits)
  have e: "pump_end r s = (QueueEvent (ChildExited (if ps_reaped ?s3 then ps_exit_code ?s3 else - 1) (ps_killed_by_us ?s3)) ?s3)
      \<lparr>ps_phase := PumpDone\<rparr>"
    by (simp add: pump_end_def Let_def)
  have q: "events_inv ((QueueEvent (ChildExited code (ps_killed_by_us t)) t)\<lparr>ps_phase := PumpDone\<rparr>)"
    if "events_inv t" "ps_phase t = PostExit" for code t
    using that by (simp add: events_inv_def QueueEvent_def)
  have i: "input_inv (QueueEvent x t) = input_inv t" for x t by (simp add: input_inv_def QueueEvent_def)
  show "events_inv s \<Longrightarrow> events_inv (pump_end r s)" unfolding e by (rule q) (use s3 in simp_all)
  show "input_inv s \<Longrightarrow> input_inv (pump_end r s)" unfolding e using s3 by (simp add: i)
qed

section \<open>Runs\<close>

datatype ps_call =
    OwnerPush bool bytes
  | OwnerCloseStdin
  | OwnerPop
  | OwnerCancel
  | PumpTurn turn
  | DrainTurn "read_result list" "read_result list"
  | PumpEnd "int option"

fun ps_step :: "psession \<Rightarrow> ps_call \<Rightarrow> psession" where
  "ps_step s (OwnerPush room bs) = snd (PushStdin room bs s)"
| "ps_step s OwnerCloseStdin = CloseStdin s"
| "ps_step s OwnerPop = snd (PopEvent s)"
| "ps_step s OwnerCancel = ps_Cancel s"
| "ps_step s (PumpTurn t) = (if ps_phase s = Pumping then pump_turn t s else s)"
| "ps_step s (DrainTurn out err) = (if ps_phase s = PostExit then drain_turn out err s else s)"
| "ps_step s (PumpEnd r) = (if ps_phase s = PostExit then pump_end r s else s)"

lemma owner_inv:
  "events_inv s \<Longrightarrow> events_inv (snd (PushStdin room bs s))" "input_inv s \<Longrightarrow> input_inv (snd (PushStdin room bs s))"
  "events_inv s \<Longrightarrow> events_inv (snd (PopEvent s))" "input_inv s \<Longrightarrow> input_inv (snd (PopEvent s))"
proof -
  show "events_inv s \<Longrightarrow> events_inv (snd (PushStdin room bs s))" by (simp add: PushStdin_def)
  show "input_inv s \<Longrightarrow> input_inv (snd (PushStdin room bs s))" by (auto simp: PushStdin_def input_inv_def)
  show "events_inv s \<Longrightarrow> events_inv (snd (PopEvent s))"
    by (cases "ps_event_queue s") (auto simp: PopEvent_def events_inv_def)
  show "input_inv s \<Longrightarrow> input_inv (snd (PopEvent s))"
    by (cases "ps_event_queue s") (auto simp: PopEvent_def input_inv_def)
qed

interpretation psession: invariant_machine ps_step "new_psession a b" "\<lambda>s. events_inv s \<and> input_inv s" for a b
proof unfold_locales
  show "events_inv (new_psession a b) \<and> input_inv (new_psession a b)"
    by (simp add: events_inv_def input_inv_def new_psession_def kMaxQueuedOutputBytes_def)
  show "events_inv (ps_step s x) \<and> input_inv (ps_step s x)" if "events_inv s \<and> input_inv s" for s x
    using that
    by (cases x) (simp_all add: owner_inv CloseStdin_def ps_Cancel_def pump_turn_inv pump_end_inv drain_turn_def
        Service_events Service_frame)
qed

section \<open>Properties\<close>

text \<open>
  C9: What the class promises its owner, however the owner's calls and the pump's turns interleave and
  whatever the child and the operating system do: events are popped in the order they were published;
  the exit of the child is the last event and says that the session killed it exactly when a
  cancellation was published before, which happens at most once; the child's input is a beginning of
  the bytes that were accepted, with nothing lost, repeated or reordered; and the output that waits is
  bounded, however much the child prints.
\<close>

theorem ProcessSession_contract:
  "let s = foldl ps_step (new_psession o' e') calls in
     ps_popped s @ ps_event_queue s = ps_published s
     \<and> (if ps_phase s = PumpDone
        then \<exists>es code. ps_published s = es @ [ChildExited code (ChildCancelled \<in> set es)] \<and> filter is_exit es = []
        else filter is_exit (ps_published s) = [])
     \<and> length (filter (\<lambda>e. e = ChildCancelled) (ps_published s)) \<le> 1
     \<and> (\<exists>rest. ps_pushed s = ps_written s @ rest)
     \<and> sum_list (map event_bytes (ps_event_queue s)) < kMaxQueuedOutputBytes + kReadBudgetBytes"
proof -
  let ?s = "foldl ps_step (new_psession o' e') calls"
  have inv: "events_inv ?s" "input_inv ?s" using psession.run_inv [of o' e' calls] by simp_all
  have "ps_cancel_seen ?s = (ChildCancelled \<in> set es)"
    if "ps_published ?s = es @ [ChildExited code (ps_cancel_seen ?s)]" for es code
  proof -
    have "length (filter (\<lambda>e. e = ChildCancelled) es) = (if ps_cancel_seen ?s then 1 else 0)"
      using inv(1) that by (simp add: events_inv_def)
    then show ?thesis by (cases "filter (\<lambda>e. e = ChildCancelled) es") (auto simp: filter_empty_conv split: if_splits dest: filter_eq_ConsD)
  qed
  then show ?thesis using inv unfolding Let_def by (auto simp: events_inv_def input_inv_def)
qed

lemma Service_written: "ps_written (ServiceOutputChannel b reads s) = ps_written s"
proof -
  have "ps_written (snd (snd (DrainOutput b reads s))) = ps_written s"
    by (simp add: DrainOutput_def emit_chunks case_prod_beta)
  then show ?thesis by (cases b) (simp_all add: ServiceOutputChannel_def CloseOutputChannel_def case_prod_beta)
qed

lemma pump_turn_written:
  assumes "\<not> ps_stdin_open s"
  shows "ps_written (pump_turn t s) = ps_written s"
proof -
  have w: "ps_written (watched_output b w r x) = ps_written x" for b w r x
    by (simp add: watched_output_def Service_written split: option.splits)
  have c: "ps_written (handle_cancel x) = ps_written x" for x
    by (simp add: handle_cancel_def Let_def send_signal_def QueueEvent_def CloseStdinChannel_def)
  have "ps_written (pump_ready t x) = ps_written x" if "\<not> ps_stdin_open x" for x
    using that by (simp add: pump_ready_def Let_def w c feed_input_def)
  then show ?thesis using assms
    by (auto simp: pump_turn_def Let_def send_signal_def next_block_def split: option.splits poll_result.splits)
qed

text \<open>
  Once a cancellation is published, no step of the session gives the child another byte, also not one
  that was accepted before.
\<close>

theorem ProcessSession_cancel_stops_input:
  assumes "ChildCancelled \<in> set (ps_published (foldl ps_step (new_psession a b) calls))"
  shows "ps_written (foldl ps_step (new_psession a b) (calls @ [call]))
    = ps_written (foldl ps_step (new_psession a b) calls)"
proof -
  let ?s = "foldl ps_step (new_psession a b) calls"
  have inv: "events_inv ?s" "input_inv ?s" using psession.run_inv [of a b calls] by simp_all
  have "filter (\<lambda>e. e = ChildCancelled) (ps_published ?s) \<noteq> []" using assms by (auto simp: filter_empty_conv)
  then have "ps_cancel_seen ?s" using inv(1) by (auto simp: events_inv_def split: if_splits)
  then have "\<not> ps_stdin_open ?s" using inv(2) by (simp add: input_inv_def)
  then show ?thesis
    by (cases call) (simp_all add: pump_turn_written PushStdin_def CloseStdin_def PopEvent_def ps_Cancel_def
        drain_turn_def Service_written pump_end_def QueueEvent_def CloseStdinChannel_def Let_def split: list.splits option.splits)
qed

definition example_turn :: turn where
  "example_turn = \<lparr>tn_reaped = None, tn_deadline_passed = False, tn_poll = PollReady, tn_input = InputWrote 1,
     tn_stdout = Some [ReadData ''out''], tn_stderr = None\<rparr>"

theorem ProcessSession_cancel_stops_input_witness:
  "ps_written (foldl ps_step (new_psession False False)
     [OwnerPush True ''ab'', PumpTurn example_turn, OwnerCancel, PumpTurn example_turn, PumpTurn example_turn]) = ''ab''"
  using ProcessSession_cancel_stops_input [of False False
      "[OwnerPush True ''ab'', PumpTurn example_turn, OwnerCancel, PumpTurn example_turn]" "PumpTurn example_turn"]
  by (simp add: new_psession_def PushStdin_def example_turn_def pump_turn_def pump_ready_def next_block_def feed_input_def
      watched_output_def ServiceOutputChannel_def DrainOutput_def has_sink_def kMaxQueuedOutputBytes_def
      kReadBudgetBytes_def emit_chunk_def chunk_event_def QueueEvent_def handle_cancel_def ps_Cancel_def
      CloseStdinChannel_def send_signal_def Let_def)

end
