(* ===== verification/Notification_Bridge.thy ===== *)
theory Notification_Bridge
  imports Process_Utils
begin

text \<open>
  The consumer of the standard error of helper processes (\<open>common/notify/notification_bridge.h\<close> and
  \<open>.cpp\<close>): lines are extracted, parsed as JSON or taken as they are, filtered by a sliding window of
  recently sent notifications, and handed to the sink. The clock (one reading per processed line),
  the JSON reader for the two-member wire object and the translated default title are parameters; the
  sink is the list \<open>nb_sent\<close> of the notifications it received. The mutex makes every operation one
  step. The unordered map of the window is a list in insertion order; where the source takes the
  first of several oldest entries in iteration order, the list takes the one inserted first.
\<close>

section \<open>State\<close>

datatype NotificationLevel = InformationLevel | WarningLevel | ErrorLevel

record Notification =
  no_title :: string
  no_body :: string
  no_level :: NotificationLevel

record nb_env =
  ne_clock :: "nat \<Rightarrow> int"
  ne_dedup_window :: int
  ne_voice_input :: string
  ne_read_wire :: "string \<Rightarrow> (string option \<times> string option) option"

record bridge =
  nb_buffers :: "string smap"
  nb_dedup_cache :: "(string \<times> int) list"
  nb_ticks :: nat
  nb_sent :: "Notification list"

definition empty_bridge :: bridge where
  "empty_bridge = \<lparr>nb_buffers = [], nb_dedup_cache = [], nb_ticks = 0, nb_sent = []\<rparr>"

definition kMaxDedupCacheSize :: nat where "kMaxDedupCacheSize = 256"
definition kMaxSourceBufferSize :: nat where "kMaxSourceBufferSize = 64 * 1024"
definition kDefaultDedupWindow :: int where "kDefaultDedupWindow = 3000"

definition MakeDedupKey :: "string \<Rightarrow> string \<Rightarrow> string" where
  "MakeDedupKey title body = title @ [CHR 0x00] @ body"

section \<open>The window of recent notifications\<close>

fun oldest_entry :: "(string \<times> int) \<Rightarrow> (string \<times> int) list \<Rightarrow> string \<times> int" where
  "oldest_entry best [] = best"
| "oldest_entry best (x # xs) = oldest_entry (if snd x < snd best then x else best) xs"

lemma oldest_entry_in: "oldest_entry best xs \<in> insert best (set xs)"
  by (induction xs arbitrary: best) (simp_all, blast)

definition erase_oldest :: "(string \<times> int) list \<Rightarrow> (string \<times> int) list" where
  "erase_oldest c = (case c of [] \<Rightarrow> [] | x # xs \<Rightarrow> remove1 (oldest_entry x xs) c)"

lemma erase_oldest_length: "c \<noteq> [] \<Longrightarrow> length (erase_oldest c) = length c - 1"
  using oldest_entry_in [of "hd c" "tl c"]
  by (cases c) (simp_all add: erase_oldest_def length_remove1 del: remove1.simps)

lemma erase_oldest_shrinks: "n < length c \<Longrightarrow> length (erase_oldest c) < length c"
  by (cases "c = []") (simp_all add: erase_oldest_length)

function shrink_cache :: "(string \<times> int) list \<Rightarrow> (string \<times> int) list" where
  "shrink_cache c = (if length c > kMaxDedupCacheSize then shrink_cache (erase_oldest c) else c)"
  by pat_completeness auto
termination
  by (relation "measure length") (simp_all add: erase_oldest_shrinks)

definition EvictStaleDedupEntries :: "int \<Rightarrow> int \<Rightarrow> (string \<times> int) list \<Rightarrow> (string \<times> int) list" where
  "EvictStaleDedupEntries window now c = shrink_cache (filter (\<lambda>(k, t). \<not> now - t \<ge> window) c)"

definition touch_entry :: "string \<Rightarrow> int \<Rightarrow> (string \<times> int) list \<Rightarrow> (string \<times> int) list" where
  "touch_entry key now c = map (\<lambda>(k, t). if k = key then (k, now) else (k, t)) c"

section \<open>Operations\<close>

definition make_notification :: "nb_env \<Rightarrow> string \<Rightarrow> string \<Rightarrow> Notification" where
  "make_notification env default_title raw_line =
     (let trimmed = Trim raw_line;
          title0 = (if default_title = [] then ne_voice_input env else default_title);
          plain = \<lparr>no_title = title0, no_body = raw_line, no_level = WarningLevel\<rparr>
      in if starts_with trimmed ''{'' \<and> ends_with trimmed ''}'' then
           (case ne_read_wire env trimmed of
              Some (Some title, Some body) \<Rightarrow>
                \<lparr>no_title = (if title = [] then title0 else title), no_body = body, no_level = WarningLevel\<rparr>
            | _ \<Rightarrow> plain)
         else plain)"

text \<open>The lines of one call are collected in \<open>ready\<close> and dispatched after the lock is released.\<close>

definition ProcessLine ::
    "nb_env \<Rightarrow> string \<Rightarrow> bridge \<times> Notification list \<Rightarrow> string \<Rightarrow> bridge \<times> Notification list" where
  "ProcessLine env default_title st raw_line =
     (case st of (b, ready) \<Rightarrow>
        if Trim raw_line = [] then st
        else
          (let n = make_notification env default_title raw_line;
               now = ne_clock env (nb_ticks b);
               b1 = b\<lparr>nb_ticks := Suc (nb_ticks b)\<rparr>;
               key = MakeDedupKey (no_title n) (no_body n)
           in case map_of (nb_dedup_cache b) key of
                Some timestamp \<Rightarrow>
                  (let b2 = b1\<lparr>nb_dedup_cache := touch_entry key now (nb_dedup_cache b)\<rparr> in
                   if now - timestamp < ne_dedup_window env then (b2, ready) else (b2, ready @ [n]))
              | None \<Rightarrow>
                  (let c = nb_dedup_cache b @ [(key, now)];
                       c' = (if length c > kMaxDedupCacheSize
                             then EvictStaleDedupEntries (ne_dedup_window env) now c else c)
                   in (b1\<lparr>nb_dedup_cache := c'\<rparr>, ready @ [n]))))"

definition Dispatch :: "bridge \<times> Notification list \<Rightarrow> bridge" where
  "Dispatch st = (case st of (b, ready) \<Rightarrow> b\<lparr>nb_sent := nb_sent b @ ready\<rparr>)"

text \<open>The byte loop of \<open>FeedStderr\<close>: a buffer that reaches its limit is processed as one line.\<close>

fun feed_bytes ::
    "nb_env \<Rightarrow> string \<Rightarrow> string \<Rightarrow> string \<Rightarrow> bridge \<times> Notification list \<Rightarrow> string \<times> (bridge \<times> Notification list)" where
  "feed_bytes env title [] buffer st = (buffer, st)"
| "feed_bytes env title (x # xs) buffer st =
     (let buffer' = buffer @ [x] in
      if length buffer' \<ge> kMaxSourceBufferSize
      then feed_bytes env title xs [] (ProcessLine env title st buffer')
      else feed_bytes env title xs buffer' st)"

definition source_buffer :: "bridge \<Rightarrow> string \<Rightarrow> string" where
  "source_buffer b source_id = (case map_of (nb_buffers b) source_id of Some s \<Rightarrow> s | None \<Rightarrow> [])"

definition FeedStderr :: "nb_env \<Rightarrow> string \<Rightarrow> string \<Rightarrow> bridge \<Rightarrow> string \<Rightarrow> bridge" where
  "FeedStderr env source_id default_title b bs =
     (if bs = [] then b
      else
        (case feed_bytes env default_title bs (source_buffer b source_id) (b, []) of
           (buffer, st) \<Rightarrow>
             (case DrainLinesFromBuffer (keep_going (ProcessLine env default_title)) False buffer st of
                (rest, (b1, ready)) \<Rightarrow>
                  Dispatch (b1\<lparr>nb_buffers := smap_put source_id rest (nb_buffers b1)\<rparr>, ready))))"

definition DeliverLine :: "nb_env \<Rightarrow> string \<Rightarrow> string \<Rightarrow> bridge \<Rightarrow> string \<Rightarrow> bridge" where
  "DeliverLine env source_id default_title b raw_line =
     Dispatch (ProcessLine env default_title (b, []) raw_line)"

definition bridge_Flush :: "nb_env \<Rightarrow> string \<Rightarrow> string \<Rightarrow> bridge \<Rightarrow> bridge" where
  "bridge_Flush env source_id default_title b =
     (case map_of (nb_buffers b) source_id of
        None \<Rightarrow> b
      | Some buffer \<Rightarrow>
          if buffer = [] then b
          else (case DrainLinesFromBuffer (keep_going (ProcessLine env default_title)) True buffer (b, []) of
                  (rest, (b1, ready)) \<Rightarrow>
                    Dispatch (b1\<lparr>nb_buffers := smap_put source_id rest (nb_buffers b1)\<rparr>, ready)))"

definition RetireSource :: "string \<Rightarrow> bridge \<Rightarrow> bridge" where
  "RetireSource source_id b = b\<lparr>nb_buffers := smap_erase source_id (nb_buffers b)\<rparr>"

definition ResetDedup :: "bridge \<Rightarrow> bridge" where
  "ResetDedup b = b\<lparr>nb_dedup_cache := []\<rparr>"

text \<open>
  One-shot helpers leave their whole standard error behind; at most ten lines of it are delivered
  (\<open>DeliverStderr\<close> of \<open>daemon/asr/backends/command_batch_backend.cpp\<close> and the same loop in
  \<open>daemon/postprocess/post_processor.cpp\<close>).
\<close>

definition kMaxBatchNotifications :: nat where "kMaxBatchNotifications = 10"

definition deliver_counted ::
    "nb_env \<Rightarrow> string \<Rightarrow> bridge \<times> nat \<Rightarrow> string \<Rightarrow> bool \<times> (bridge \<times> nat)" where
  "deliver_counted env source_id st line =
     (case st of (b, delivered) \<Rightarrow>
        if delivered \<ge> kMaxBatchNotifications then (False, st)
        else (True, (DeliverLine env source_id [] b line, Suc delivered)))"

definition DeliverStderr :: "nb_env \<Rightarrow> string \<Rightarrow> bridge option \<Rightarrow> string \<Rightarrow> bridge option" where
  "DeliverStderr env source_id bridge stderr_text =
     (case bridge of
        None \<Rightarrow> None
      | Some b \<Rightarrow>
          if stderr_text = [] then Some b
          else Some (fst (snd (DrainLinesFromBuffer (deliver_counted env source_id) True stderr_text (b, 0)))))"


section \<open>Invariant\<close>

declare shrink_cache.simps [simp del]

definition cache_ok :: "(string \<times> int) list \<Rightarrow> bool" where
  "cache_ok c \<longleftrightarrow> length c \<le> kMaxDedupCacheSize \<and> distinct (map fst c)"

definition buffer_ok :: "string \<Rightarrow> bool" where
  "buffer_ok buf \<longleftrightarrow> length buf < kMaxSourceBufferSize \<and> CHR 0x0A \<notin> set buf"

definition bridge_inv :: "bridge \<Rightarrow> bool" where
  "bridge_inv b \<longleftrightarrow> cache_ok (nb_dedup_cache b) \<and> list_all (\<lambda>(k, buf). buffer_ok buf) (nb_buffers b)"

lemma erase_oldest_keys: "distinct (map fst c) \<Longrightarrow> distinct (map fst (erase_oldest c))"
proof -
  have "distinct (map fst c) \<Longrightarrow> distinct (map fst (remove1 x c))" for x
    unfolding distinct_map by (metis distinct_remove1 inj_on_subset set_remove1_subset)
  then show "distinct (map fst c) \<Longrightarrow> distinct (map fst (erase_oldest c))"
    by (cases c) (simp_all add: erase_oldest_def del: remove1.simps)
qed

lemma shrink_cache_ok: "distinct (map fst c) \<Longrightarrow> cache_ok (shrink_cache c)"
proof (induction c rule: shrink_cache.induct)
  case (1 c)
  then show ?case
    by (cases "length c > kMaxDedupCacheSize")
       (simp_all add: shrink_cache.simps [of c] cache_ok_def erase_oldest_keys)
qed

lemma touch_entry_ok: "cache_ok (touch_entry k t c) = cache_ok c"
proof -
  have "map fst (touch_entry k t c) = map fst c" by (auto simp: touch_entry_def)
  then show ?thesis by (simp add: cache_ok_def touch_entry_def del: map_map)
qed

lemma Evict_ok: "distinct (map fst c) \<Longrightarrow> cache_ok (EvictStaleDedupEntries w now c)"
  unfolding EvictStaleDedupEntries_def by (rule shrink_cache_ok) (simp add: distinct_map_filter)

lemma ProcessLine_frame:
  assumes "ProcessLine env t (b, r) line = (b', r')"
  shows "nb_buffers b' = nb_buffers b" and "nb_sent b' = nb_sent b"
    and "cache_ok (nb_dedup_cache b) \<Longrightarrow> cache_ok (nb_dedup_cache b')"
    and "\<exists>d. r' = r @ d"
proof -
  show "nb_buffers b' = nb_buffers b" "nb_sent b' = nb_sent b" "\<exists>d. r' = r @ d"
    using assms by (auto simp: ProcessLine_def Let_def split: if_splits option.splits)
  show "cache_ok (nb_dedup_cache b')" if ok: "cache_ok (nb_dedup_cache b)"
  proof -
    let ?k = "MakeDedupKey (no_title (make_notification env t line)) (no_body (make_notification env t line))"
    have "distinct (map fst (nb_dedup_cache b @ [(?k, now)]))" if "map_of (nb_dedup_cache b) ?k = None" for now
      using ok that by (auto simp: cache_ok_def map_of_eq_None_iff)
    then show ?thesis
      using assms ok
      by (auto simp: ProcessLine_def Let_def touch_entry_ok Evict_ok split: if_splits option.splits)
         (simp_all add: cache_ok_def)
  qed
qed

definition line_frame :: "bridge \<Rightarrow> bridge \<Rightarrow> bool" where
  "line_frame b b' \<longleftrightarrow> nb_buffers b' = nb_buffers b \<and> nb_sent b' = nb_sent b
     \<and> (cache_ok (nb_dedup_cache b) \<longrightarrow> cache_ok (nb_dedup_cache b'))"

lemma line_frame_refl [simp]: "line_frame b b"
  by (simp add: line_frame_def)

lemma line_frame_trans: "line_frame a b \<Longrightarrow> line_frame b c \<Longrightarrow> line_frame a c"
  by (simp add: line_frame_def)

lemma ProcessLine_line_frame: "line_frame (fst st) (fst (ProcessLine env t st line))"
  using ProcessLine_frame [of env t "fst st" "snd st" line]
  by (cases "ProcessLine env t st line") (simp add: line_frame_def)

lemma fold_lines_frame: "line_frame (fst st) (fst (foldl (ProcessLine env t) st ls))"
proof (induction ls arbitrary: st)
  case (Cons l ls)
  show ?case
    using line_frame_trans [OF ProcessLine_line_frame [of st env t l] Cons.IH [of "ProcessLine env t st l"]]
    by simp
qed simp

lemma feed_bytes_frame:
  "length buf < kMaxSourceBufferSize \<Longrightarrow>
   length (fst (feed_bytes env t xs buf st)) < kMaxSourceBufferSize
   \<and> line_frame (fst st) (fst (snd (feed_bytes env t xs buf st)))"
proof (induction env t xs buf st rule: feed_bytes.induct)
  case (2 env title x xs buffer st)
  have zero: "0 < kMaxSourceBufferSize" by (simp add: kMaxSourceBufferSize_def)
  show ?case
  proof (cases "length (buffer @ [x]) \<ge> kMaxSourceBufferSize")
    case True
    with 2 zero show ?thesis
      by (auto simp: Let_def intro: line_frame_trans ProcessLine_line_frame)
  next
    case False
    with 2 show ?thesis by (simp add: Let_def)
  qed
qed simp

lemma source_buffer_ok: "bridge_inv b \<Longrightarrow> buffer_ok (source_buffer b s)"
  by (auto simp: bridge_inv_def source_buffer_def buffer_ok_def kMaxSourceBufferSize_def list_all_iff
      dest!: map_of_SomeD split: option.splits)

lemma list_all_smap_put:
  "list_all (\<lambda>(k, x). P x) m \<Longrightarrow> P v \<Longrightarrow> list_all (\<lambda>(k, x). P x) (smap_put k v m)"
  by (induction m) auto

lemma tail_piece_length: "length (tail_piece s) \<le> length s"
proof -
  have "length (last ps) \<le> length (join_spec ps d)" if "ps \<noteq> []" for ps and d :: string
    using that by (induction ps) (auto simp: join_spec_Cons)
  from this [of "split_spec CHR 0x0A s" "[CHR 0x0A]"] show ?thesis
    by (simp add: tail_piece_def join_split_spec)
qed

lemma FeedStderr_eq:
  assumes "bs \<noteq> []" and "feed_bytes env t bs (source_buffer b s) (b, []) = (buf, st)"
  shows "FeedStderr env s t b bs =
    (case foldl (ProcessLine env t) st (whole_lines buf) of
       (b1, ready) \<Rightarrow> Dispatch (b1\<lparr>nb_buffers := smap_put s (tail_piece buf) (nb_buffers b1)\<rparr>, ready))"
  using assms by (simp add: FeedStderr_def Drain_keep_going)

lemma FeedStderr_inv: assumes "bridge_inv b" shows "bridge_inv (FeedStderr env s t b bs)"
proof (cases "bs = []")
  case False
  obtain buf st where f: "feed_bytes env t bs (source_buffer b s) (b, []) = (buf, st)" by (rule prod.exhaust)
  obtain b1 ready where l: "foldl (ProcessLine env t) st (whole_lines buf) = (b1, ready)" by (rule prod.exhaust)
  have fb: "length buf < kMaxSourceBufferSize" "line_frame b (fst st)"
    using feed_bytes_frame [of "source_buffer b s" env t bs "(b, [])"] source_buffer_ok [OF assms, of s] f
    by (simp_all add: buffer_ok_def)
  have "line_frame (fst st) b1" using fold_lines_frame [of st env t "whole_lines buf"] l by simp
  with fb(2) have "line_frame b b1" by (rule line_frame_trans)
  moreover have "buffer_ok (tail_piece buf)"
    using fb(1) tail_piece_length [of buf] tail_piece_no_lf by (simp add: buffer_ok_def)
  ultimately show ?thesis
    using assms
    by (simp add: FeedStderr_eq [OF False f] l Dispatch_def bridge_inv_def line_frame_def list_all_smap_put)
qed (simp add: FeedStderr_def assms)

lemma bridge_Flush_inv: assumes "bridge_inv b" shows "bridge_inv (bridge_Flush env s t b)"
proof (cases "source_buffer b s = []")
  case True
  then have "bridge_Flush env s t b = b"
    by (simp add: bridge_Flush_def source_buffer_def split: option.splits)
  with assms show ?thesis by simp
next
  case False
  then obtain buf where m: "map_of (nb_buffers b) s = Some buf" and ne: "buf \<noteq> []"
    by (auto simp: source_buffer_def split: option.splits)
  let ?ls = "all_lines buf"
  obtain b1 ready where l: "foldl (ProcessLine env t) (b, []) ?ls = (b1, ready)" by (rule prod.exhaust)
  have "line_frame b b1" using fold_lines_frame [of "(b, [])" env t ?ls] l by simp
  moreover have "buffer_ok []" by (simp add: buffer_ok_def kMaxSourceBufferSize_def)
  ultimately show ?thesis
    using assms
    by (simp add: bridge_Flush_def m ne Drain_flush l Dispatch_def bridge_inv_def line_frame_def
        list_all_smap_put)
qed

lemma DeliverLine_inv: "bridge_inv b \<Longrightarrow> bridge_inv (DeliverLine env s t b line)"
  using ProcessLine_line_frame [of "(b, [])" env t line]
  by (auto simp: DeliverLine_def Dispatch_def bridge_inv_def line_frame_def split: prod.splits)

datatype bridge_call =
    Feed string string bytes
  | Deliver string string string
  | FlushSource string string
  | Retire string
  | ResetWindow

fun bridge_step :: "nb_env \<Rightarrow> bridge \<Rightarrow> bridge_call \<Rightarrow> bridge" where
  "bridge_step env b (Feed s t bs) = FeedStderr env s t b bs"
| "bridge_step env b (Deliver s t l) = DeliverLine env s t b l"
| "bridge_step env b (FlushSource s t) = bridge_Flush env s t b"
| "bridge_step env b (Retire s) = RetireSource s b"
| "bridge_step env b ResetWindow = ResetDedup b"

interpretation bridge: invariant_machine "bridge_step env" empty_bridge bridge_inv
  for env
proof
  show "bridge_inv empty_bridge"
    by (simp add: bridge_inv_def empty_bridge_def cache_ok_def)
  show "bridge_inv (bridge_step env b c)" if "bridge_inv b" for b c
    using that
    by (cases c) (simp_all add: FeedStderr_inv DeliverLine_inv bridge_Flush_inv,
        auto simp: RetireSource_def ResetDedup_def bridge_inv_def cache_ok_def smap_erase_def list_all_iff)
qed

section \<open>Facts on single lines\<close>

text \<open>A line is processed alike whatever the buffers hold and whatever was sent before.\<close>

lemma ProcessLine_shift:
  "ProcessLine env t (b\<lparr>nb_buffers := x, nb_sent := y\<rparr>, r) l =
     (case ProcessLine env t (b, []) l of (b', d) \<Rightarrow> (b'\<lparr>nb_buffers := x, nb_sent := y\<rparr>, r @ d))"
  by (simp add: ProcessLine_def Let_def split: option.split)

lemma fold_lines_shift:
  "foldl (ProcessLine env t) (b\<lparr>nb_buffers := x, nb_sent := y\<rparr>, r) ls =
     (case foldl (ProcessLine env t) (b, []) ls of
        (b', d) \<Rightarrow> (b'\<lparr>nb_buffers := x, nb_sent := y\<rparr>, r @ d))"
proof (induction ls arbitrary: b r x y)
  case (Cons l ls)
  obtain b1 d where p: "ProcessLine env t (b, []) l = (b1, d)" by (rule prod.exhaust)
  obtain b2 e where f: "foldl (ProcessLine env t) (b1, []) ls = (b2, e)" by (rule prod.exhaust)
  have "foldl (ProcessLine env t) (b1, d) ls = (b2, d @ e)"
  proof -
    have fr: "nb_buffers b2 = nb_buffers b1" "nb_sent b2 = nb_sent b1"
      using fold_lines_frame [of "(b1, [])" env t ls] f by (simp_all add: line_frame_def)
    show ?thesis
      using Cons.IH [where b = b1 and r = d and x = "nb_buffers b1" and y = "nb_sent b1"] f fr by simp
  qed
  with Cons.IH [where b = b1 and r = "r @ d" and x = x and y = y] f show ?case by (simp add: ProcessLine_shift p)
qed simp

lemma feed_bytes_small:
  "length buf + length xs < kMaxSourceBufferSize \<Longrightarrow> feed_bytes env t xs buf st = (buf @ xs, st)"
  by (induction env t xs buf st rule: feed_bytes.induct) (simp_all add: Let_def)

lemma feed_bytes_full:
  "xs \<noteq> [] \<Longrightarrow> length buf + length xs = kMaxSourceBufferSize \<Longrightarrow>
   feed_bytes env t xs buf st = ([], ProcessLine env t st (buf @ xs))"
proof (induction env t xs buf st rule: feed_bytes.induct)
  case (2 env title x xs buffer st)
  then show ?case by (cases xs) (simp_all add: Let_def)
qed simp


lemma DeliverLine_sent:
  "nb_sent (DeliverLine env s t b l) = nb_sent b @ snd (ProcessLine env t (b, []) l)"
  using ProcessLine_line_frame [of "(b, [])" env t l]
  by (cases "ProcessLine env t (b, []) l") (simp add: DeliverLine_def Dispatch_def line_frame_def)

lemma DeliverStderr_run:
  "snd (run_lines (deliver_counted env s) (b, n) ls)
     = (foldl (\<lambda>b l. DeliverLine env s [] b l) b (take (kMaxBatchNotifications - n) ls),
        n + length (take (kMaxBatchNotifications - n) ls))"
proof (induction ls arbitrary: b n)
  case (Cons l ls)
  show ?case
  proof (cases "n \<ge> kMaxBatchNotifications")
    case False
    then have "kMaxBatchNotifications - n = Suc (kMaxBatchNotifications - Suc n)" by simp
    with False Cons show ?thesis by (simp add: deliver_counted_def)
  qed (simp add: deliver_counted_def)
qed simp

section \<open>Properties\<close>

text \<open>
  In every run the window holds at most 256 entries with different keys, and the buffer kept for a
  helper stays below 64 KiB and holds no complete line.
\<close>

theorem bridge_bounded:
  "(let b = foldl (bridge_step env) empty_bridge calls in
    length (nb_dedup_cache b) \<le> 256 \<and> distinct (map fst (nb_dedup_cache b))
    \<and> list_all (\<lambda>(k, buf). length buf < 65536 \<and> CHR 0x0A \<notin> set buf) (nb_buffers b))"
  using bridge.run_inv [of env calls]
  by (simp add: bridge_inv_def cache_ok_def buffer_ok_def kMaxDedupCacheSize_def kMaxSourceBufferSize_def
      list_all_iff Let_def split_beta)

text \<open>
  Standard error that stays below the buffer limit may arrive in any pieces: feeding two pieces one
  after the other sends the same notifications and leaves the same bridge as feeding them at once.
\<close>

theorem FeedStderr_chunking:
  assumes "length (source_buffer b s) + length xs + length ys < kMaxSourceBufferSize"
    and "xs \<noteq> []"
  shows "FeedStderr env s t (FeedStderr env s t b xs) ys = FeedStderr env s t b (xs @ ys)"
proof (cases "ys = []")
  case False
  let ?buf = "source_buffer b s @ xs"
  obtain b1 d where f: "foldl (ProcessLine env t) (b, []) (whole_lines ?buf) = (b1, d)" by (rule prod.exhaust)
  let ?bufs = "smap_put s (tail_piece ?buf) (nb_buffers b1)"
  let ?b1 = "b1\<lparr>nb_buffers := ?bufs, nb_sent := nb_sent b1 @ d\<rparr>"
  have first: "FeedStderr env s t b xs = ?b1"
    using assms f by (subst FeedStderr_eq [OF assms(2) feed_bytes_small]) (simp_all add: Dispatch_def)
  have sb: "source_buffer ?b1 s = tail_piece ?buf" by (simp add: source_buffer_def)
  have small: "length (tail_piece ?buf) + length ys < kMaxSourceBufferSize"
    using assms(1) tail_piece_length [of ?buf] by simp
  let ?ls = "whole_lines (tail_piece ?buf @ ys)"
  obtain b2 e where g: "foldl (ProcessLine env t) (b1, []) ?ls = (b2, e)" by (rule prod.exhaust)
  have fr: "nb_buffers b2 = nb_buffers b1" "nb_sent b2 = nb_sent b1"
    using fold_lines_frame [of "(b1, [])" env t ?ls] g by (simp_all add: line_frame_def)
  have put2: "smap_put s v (smap_put s u m) = smap_put s v m" for u v and m :: "string smap"
    by (induction m) auto
  have tp: "tail_piece (source_buffer b s @ xs @ ys) = tail_piece (tail_piece ?buf @ ys)"
    by (metis append_assoc tail_piece_append)
  have second: "FeedStderr env s t ?b1 ys =
      b2\<lparr>nb_buffers := smap_put s (tail_piece (?buf @ ys)) (nb_buffers b1), nb_sent := nb_sent b1 @ d @ e\<rparr>"
    using small fold_lines_shift [where b = b1 and x = ?bufs and y = "nb_sent b1 @ d" and r = "[]" and ls = ?ls and env = env and t = t] g put2
    by (subst FeedStderr_eq [OF False feed_bytes_small])
       (simp_all add: sb Dispatch_def tp)
  have lines: "whole_lines (?buf @ ys) = whole_lines ?buf @ ?ls" by (rule whole_lines_append)
  have "foldl (ProcessLine env t) (b1, d) ?ls = (b2, d @ e)"
    using fold_lines_shift [where b = b1 and x = "nb_buffers b1" and y = "nb_sent b1" and r = d and ls = ?ls and env = env and t = t] g fr by simp
  then have "FeedStderr env s t b (xs @ ys) =
      b2\<lparr>nb_buffers := smap_put s (tail_piece (?buf @ ys)) (nb_buffers b1), nb_sent := nb_sent b1 @ d @ e\<rparr>"
    using assms f fr lines
    by (subst FeedStderr_eq [OF _ feed_bytes_small]) (simp_all add: Dispatch_def)
  with first second show ?thesis by simp
qed (simp add: FeedStderr_def)

text \<open>
  A feed that fills the buffer is not split into lines: 65536 bytes that arrive at an empty buffer
  are processed as one line, with all their line feeds, although the interface promises that
  complete lines are drained and forwarded.
\<close>

theorem FeedStderr_merges_lines:
  assumes "source_buffer b s = []" and "length bs = kMaxSourceBufferSize"
  shows "nb_sent (FeedStderr env s t b bs) = nb_sent (DeliverLine env s t b bs)"
proof -
  have ne: "bs \<noteq> []" using assms(2) by (auto simp: kMaxSourceBufferSize_def)
  have "feed_bytes env t bs (source_buffer b s) (b, []) = ([], ProcessLine env t (b, []) bs)"
    using feed_bytes_full [OF ne, of "[]" env t "(b, [])"] assms by simp
  from FeedStderr_eq [OF ne this] show ?thesis
    by (simp add: whole_lines_def DeliverLine_def Dispatch_def split: prod.split)
qed

text \<open>
  The same line delivered again within the window is suppressed and restarts the window; after the
  window it is sent again.
\<close>

theorem DeliverLine_deduplicates:
  assumes "Trim l \<noteq> []" and "length (nb_dedup_cache b) < kMaxDedupCacheSize"
    and "map_of (nb_dedup_cache b) (MakeDedupKey (no_title n) (no_body n)) = None"
    and "n = make_notification env t l"
    and "t0 = ne_clock env (nb_ticks b)" and "t1 = ne_clock env (Suc (nb_ticks b))"
  shows "nb_sent (DeliverLine env s t b l) = nb_sent b @ [n]"
    and "nb_sent (DeliverLine env s t (DeliverLine env s t b l) l)
      = nb_sent b @ [n] @ (if t1 - t0 < ne_dedup_window env then [] else [n])"
    and "map_of (nb_dedup_cache (DeliverLine env s t (DeliverLine env s t b l) l))
          (MakeDedupKey (no_title n) (no_body n)) = Some t1"
proof -
  let ?k = "MakeDedupKey (no_title n) (no_body n)"
  let ?c = "nb_dedup_cache b @ [(?k, t0)]"
  let ?b1 = "b\<lparr>nb_ticks := Suc (nb_ticks b), nb_dedup_cache := ?c, nb_sent := nb_sent b @ [n]\<rparr>"
  have first: "DeliverLine env s t b l = ?b1"
    using assms by (simp add: DeliverLine_def ProcessLine_def Dispatch_def Let_def)
  then show "nb_sent (DeliverLine env s t b l) = nb_sent b @ [n]" by simp
  have m: "map_of ?c ?k = Some t0" using assms(3) by (simp add: map_add_def)
  let ?b2 = "b\<lparr>nb_ticks := Suc (Suc (nb_ticks b)), nb_dedup_cache := touch_entry ?k t1 ?c,
    nb_sent := nb_sent b @ [n] @ (if t1 - t0 < ne_dedup_window env then [] else [n])\<rparr>"
  have second: "DeliverLine env s t ?b1 l = ?b2"
    using assms(1,4,5,6) m by (simp add: DeliverLine_def ProcessLine_def Dispatch_def Let_def)
  show "nb_sent (DeliverLine env s t (DeliverLine env s t b l) l)
      = nb_sent b @ [n] @ (if t1 - t0 < ne_dedup_window env then [] else [n])"
    unfolding first second by simp
  have "map_of (touch_entry k v c) k = Some v" if "map_of c k = Some u" for k u v and c :: "(string \<times> int) list"
    using that by (induction c) (auto simp: touch_entry_def split: if_splits)
  then show "map_of (nb_dedup_cache (DeliverLine env s t (DeliverLine env s t b l) l)) ?k = Some t1"
    unfolding first second using m by simp
qed

text \<open>At most the first ten lines of a one-shot helper's standard error reach the bridge, in order.\<close>

theorem DeliverStderr_first_ten:
  "DeliverStderr env s (Some b) err =
     Some (foldl (\<lambda>b l. DeliverLine env s [] b l) b (take 10 (all_lines err)))
   \<and> DeliverStderr env s None err = None"
proof (cases "err = []")
  case True
  then show ?thesis by (simp add: DeliverStderr_def all_lines_def whole_lines_def tail_piece_def)
next
  case False
  then show ?thesis
    by (simp add: DeliverStderr_def Drain_run_flush DeliverStderr_run kMaxBatchNotifications_def)
qed

end
