(* ===== verification/Command_Backends.thy ===== *)
theory Command_Backends
  imports Process_Session Notification_Bridge Session_Lifecycle Session_Manager
begin

text \<open>
  The recognisers that are external programs: \<open>daemon/asr/backends/command_batch_backend.cpp\<close> (one run
  of the program per recording) and \<open>daemon/asr/backends/command_streaming_backend.cpp\<close> (a program that
  reads audio and writes events as JSON lines while the recording lasts).

  Running a program, reading and printing JSON, base64 and the translations are parameters. The
  notification bridge a session points to is part of its state here. \<open>DrainEvents\<close> takes what the
  child has reported since the last call; what one operation may see of the child is its argument of
  type \<open>child_input\<close>. An \<open>std::string* error\<close> is \<open>None\<close> for a null pointer.
\<close>

section \<open>Batch programs\<close>

record batch_session =
  bs_command :: CommandSpec
  bs_provider_id :: string
  bs_bridge :: "bridge option"
  bs_finished :: bool
  bs_pcm :: "i16 list"
  bs_events :: "RecognitionEvent list"

record batch_env =
  be_run :: "CommandSpec \<Rightarrow> bytes \<Rightarrow> CommandResult"
  be_nb :: nb_env
  be_tr :: "string \<Rightarrow> string"

definition BuildCommandSpec :: "CommandAsr \<Rightarrow> CommandSpec" where
  "BuildCommandSpec provider =
     \<lparr>sp_command = co_command provider, sp_args = co_args provider, sp_env = co_env provider,
      sp_timeout_ms = co_timeoutMs provider\<rparr>"

definition new_batch_session :: "CommandAsr \<Rightarrow> bridge option \<Rightarrow> batch_session" where
  "new_batch_session provider bridge =
     \<lparr>bs_command = BuildCommandSpec provider, bs_provider_id = co_id provider, bs_bridge = bridge,
      bs_finished = False, bs_pcm = [], bs_events = []\<rparr>"

text \<open>\<open>std::as_bytes\<close> of 16-bit samples, low byte first.\<close>

definition sample_bytes :: "i16 \<Rightarrow> bytes" where
  "sample_bytes w = [char_of (unat w mod 256), char_of (unat w div 256)]"

definition pcm_bytes :: "i16 list \<Rightarrow> bytes" where
  "pcm_bytes pcm = concat (map sample_bytes pcm)"

definition batch_PushAudio :: "batch_session \<Rightarrow> i16 list \<Rightarrow> (bool \<times> string) \<times> batch_session" where
  "batch_PushAudio s pcm =
     (if bs_finished s then ((False, ''Recognition session already finished.''), s)
      else ((True, []), s\<lparr>bs_pcm := bs_pcm s @ pcm\<rparr>))"

definition error_event :: "string \<Rightarrow> RecognitionEvent" where
  "error_event e = \<lparr>ev_kind = ErrorEvent, ev_text = [], ev_error = e\<rparr>"

definition completed_event :: RecognitionEvent where
  "completed_event = \<lparr>ev_kind = Completed, ev_text = [], ev_error = []\<rparr>"

text \<open>The event that a finished run becomes.\<close>

definition run_event :: "batch_env \<Rightarrow> CommandResult \<Rightarrow> RecognitionEvent" where
  "run_event env r =
     (if re_launch_failed r then error_event (be_tr env ''Command ASR provider failed to start.'')
      else if re_timed_out r then error_event (be_tr env ''Command ASR provider timed out.'')
      else if re_exit_code r \<noteq> 0 then error_event (be_tr env ''Command ASR provider exited abnormally.'')
      else if Trim (re_stdout r) = [] then error_event (be_tr env ''Command ASR provider returned no text.'')
      else \<lparr>ev_kind = FinalText, ev_text = Trim (re_stdout r), ev_error = []\<rparr>)"

definition batch_Finish :: "batch_env \<Rightarrow> batch_session \<Rightarrow> (bool \<times> string) \<times> batch_session" where
  "batch_Finish env s =
     (if bs_finished s then ((True, []), s)
      else
        (let r = be_run env (bs_command s) (pcm_bytes (bs_pcm s));
             s1 = s\<lparr>bs_finished := True,
                    bs_bridge := DeliverStderr (be_nb env) (bs_provider_id s) (bs_bridge s) (re_stderr r),
                    bs_events := bs_events s @ [run_event env r, completed_event]\<rparr>;
             error = (if bs_events s1 \<noteq> [] \<and> ev_kind (hd (bs_events s1)) = ErrorEvent
                      then ev_error (hd (bs_events s1)) else [])
         in ((error = [], error), s1)))"

definition batch_Cancel :: "batch_session \<Rightarrow> batch_session" where
  "batch_Cancel s = s\<lparr>bs_finished := True, bs_pcm := [], bs_events := [completed_event]\<rparr>"

definition batch_PollEvents :: "batch_session \<Rightarrow> RecognitionEvent list \<times> batch_session" where
  "batch_PollEvents s = (bs_events s, s\<lparr>bs_events := []\<rparr>)"

definition batch_ops :: "batch_env \<Rightarrow> batch_session session_ops" where
  "batch_ops env =
     \<lparr>so_push = batch_PushAudio, so_finish = batch_Finish env, so_cancel = batch_Cancel,
      so_interrupt = (\<lambda>s. s), so_poll = batch_PollEvents\<rparr>"

definition batch_Describe :: "CommandAsr \<Rightarrow> BackendDescriptor" where
  "batch_Describe provider =
     default_descriptor\<lparr>bd_provider_id := co_id provider, bd_provider_type := kCommandProviderType,
       bd_backend_id := ''command-batch'',
       bd_capabilities := (bd_capabilities default_descriptor)\<lparr>audio_delivery_mode := Buffered\<rparr>\<rparr>"

definition CreateCommandBatchBackend :: "CommandAsr \<Rightarrow> string + CommandAsr" where
  "CreateCommandBatchBackend provider =
     (if co_command provider = [] then Inl ''Command ASR provider has empty command.'' else Inr provider)"

definition batch_live :: "batch_session \<Rightarrow> bool" where
  "batch_live s \<longleftrightarrow> \<not> bs_finished s \<and> bs_events s = []"

section \<open>Streaming programs\<close>

record streaming_session =
  ss_provider :: CommandAsr
  ss_source_id :: string
  ss_bridge :: "bridge option"
  ss_running :: bool
  ss_unread :: "ChildEvent list"
  ss_sent :: "string list"
  ss_interrupted :: bool
  ss_started :: bool
  ss_finished :: bool
  ss_cancelled :: bool
  ss_terminated :: bool
  ss_completed :: bool
  ss_completed_emitted :: bool
  ss_saw_error :: bool
  ss_saw_final_text :: bool
  ss_child_exited :: bool
  ss_killed_by_us :: bool
  ss_exit_code :: int
  ss_stdout_buffer :: string
  ss_last_partial_text :: string
  ss_events :: "RecognitionEvent list"

text \<open>
  \<open>ss_running\<close> says that \<open>session_\<close> holds a process; \<open>ss_unread\<close> are the child's events that a failed
  \<open>DrainEvents\<close> left behind, \<open>ss_sent\<close> the lines the child accepted.

  One operation sees of the child: the error of starting it, an interruption between start and
  installation, whether its input accepts a line, and what it reports. \<open>ci_rounds\<close> are the rounds of
  the wait for the final text with the answer of the clock after each; the deadline ends the wait
  after finitely many rounds, so the end of the list is the deadline. \<open>ci_grace\<close> are the rounds of
  the grace period.
\<close>

record child_input =
  ci_start :: "string option"
  ci_interrupted :: bool
  ci_accepts :: bool
  ci_events :: "ChildEvent list"
  ci_rounds :: "(ChildEvent list \<times> bool) list"
  ci_grace :: "ChildEvent list list"
  ci_last :: "ChildEvent list"

record streaming_env =
  se_nb :: nb_env
  se_read_json :: "string \<Rightarrow> string + json"
  se_to_text :: "json \<Rightarrow> string"
  se_base64 :: "bytes \<Rightarrow> string"

definition new_streaming_session :: "CommandAsr \<Rightarrow> string \<Rightarrow> bridge option \<Rightarrow> streaming_session" where
  "new_streaming_session provider source_id bridge =
     \<lparr>ss_provider = provider, ss_source_id = source_id, ss_bridge = bridge, ss_running = False, ss_unread = [],
      ss_sent = [], ss_interrupted = False, ss_started = False, ss_finished = False, ss_cancelled = False,
      ss_terminated = False, ss_completed = False, ss_completed_emitted = False, ss_saw_error = False,
      ss_saw_final_text = False, ss_child_exited = False, ss_killed_by_us = False, ss_exit_code = - 1,
      ss_stdout_buffer = [], ss_last_partial_text = [], ss_events = []\<rparr>"

definition QueueError :: "string \<Rightarrow> streaming_session \<Rightarrow> streaming_session" where
  "QueueError error_text s =
     (let trimmed = Trim error_text in
      s\<lparr>ss_saw_error := True,
        ss_events := ss_events s @ [error_event (if trimmed = [] then ''failed.'' else trimmed)]\<rparr>)"

definition QueueCompleted :: "streaming_session \<Rightarrow> streaming_session" where
  "QueueCompleted s =
     (if ss_completed_emitted s then s
      else s\<lparr>ss_completed_emitted := True, ss_completed := True, ss_events := ss_events s @ [completed_event]\<rparr>)"

definition Terminate :: "streaming_env \<Rightarrow> streaming_session \<Rightarrow> streaming_session" where
  "Terminate env s =
     (if ss_terminated s then s
      else s\<lparr>ss_terminated := True,
             ss_bridge := map_option (\<lambda>b. RetireSource (ss_source_id s)
                            (bridge_Flush (se_nb env) (ss_source_id s) [] b)) (ss_bridge s),
             ss_running := False\<rparr>)"

definition set_error :: "string \<Rightarrow> string option \<Rightarrow> string option" where
  "set_error e err = map_option (\<lambda>_. e) err"

text \<open>\<open>*error\<close> when it is there and not empty, else a text of its own.\<close>

definition error_or :: "string \<Rightarrow> string option \<Rightarrow> string" where
  "error_or t err = (case err of Some e \<Rightarrow> if e \<noteq> [] then e else t | None \<Rightarrow> t)"

definition HandleOutputLine ::
    "streaming_env \<Rightarrow> string option \<times> streaming_session \<Rightarrow> string \<Rightarrow> bool \<times> (string option \<times> streaming_session)" where
  "HandleOutputLine env st line =
     (case st of (err, s) \<Rightarrow>
        case se_read_json env line of
          Inl e \<Rightarrow> (False, (set_error (''invalid streaming provider JSON: '' @ e) err, s))
        | Inr payload \<Rightarrow>
            (let type = json_String payload ''type'' [] in
             if type = ''session_started'' \<or> type = [] then (True, (err, s))
             else if type = ''partial'' then
               (let t = Trim (json_String payload ''text'' []) in
                if t \<noteq> [] \<and> t \<noteq> ss_last_partial_text s
                then (True, (err, s\<lparr>ss_last_partial_text := t,
                       ss_events := ss_events s @ [\<lparr>ev_kind = PartialText, ev_text = t, ev_error = []\<rparr>]\<rparr>))
                else (True, (err, s)))
             else if type = ''final'' \<or> type = ''final_timestamps'' then
               (let t = Trim (json_String payload ''text'' []) in
                if t \<noteq> []
                then (True, (err, s\<lparr>ss_saw_final_text := True, ss_last_partial_text := [],
                       ss_events := ss_events s @ [\<lparr>ev_kind = FinalText, ev_text = t, ev_error = []\<rparr>]\<rparr>))
                else (True, (err, s)))
             else if type = ''closed'' then (True, (err, s\<lparr>ss_completed := True\<rparr>))
             else (True, (err, s))))"

definition on_stdout_line ::
    "streaming_env \<Rightarrow> string option \<times> streaming_session \<Rightarrow> string \<Rightarrow> bool \<times> (string option \<times> streaming_session)" where
  "on_stdout_line env st raw_line =
     (let line = Trim raw_line in if line = [] then (True, st) else HandleOutputLine env st line)"

definition ConsumeStdoutLines ::
    "streaming_env \<Rightarrow> string option \<Rightarrow> streaming_session \<Rightarrow> string option \<times> streaming_session" where
  "ConsumeStdoutLines env err s =
     (case DrainLinesFromBuffer (on_stdout_line env) False (ss_stdout_buffer s) (err, s) of
        (rest, (err', s')) \<Rightarrow> (err', s'\<lparr>ss_stdout_buffer := rest\<rparr>))"

definition child_exit :: "streaming_env \<Rightarrow> int \<Rightarrow> bool \<Rightarrow> streaming_session \<Rightarrow> streaming_session" where
  "child_exit env code killed s =
     (let s1 = s\<lparr>ss_child_exited := True, ss_exit_code := code, ss_killed_by_us := killed,
                 ss_bridge := map_option (bridge_Flush (se_nb env) (ss_source_id s) []) (ss_bridge s)\<rparr>
      in if \<not> killed \<and> code \<noteq> 0 \<and> \<not> ss_saw_error s1 \<and> \<not> ss_saw_final_text s1
         then QueueError ''Streaming ASR provider exited abnormally.'' s1 else s1)"

fun drain_events ::
    "streaming_env \<Rightarrow> ChildEvent list \<Rightarrow> string option \<Rightarrow> streaming_session
      \<Rightarrow> bool \<times> string option \<times> streaming_session" where
  "drain_events env [] err s = (True, set_error [] err, s\<lparr>ss_unread := []\<rparr>)"
| "drain_events env (StdoutChunk d # es) err s =
     (case ConsumeStdoutLines env err (s\<lparr>ss_stdout_buffer := ss_stdout_buffer s @ d\<rparr>) of
        (err', s') \<Rightarrow>
          if err' \<noteq> None \<and> err' \<noteq> Some [] then (False, err', s'\<lparr>ss_unread := es\<rparr>)
          else drain_events env es err' s')"
| "drain_events env (StderrChunk d # es) err s =
     drain_events env es err
       (s\<lparr>ss_bridge := map_option (\<lambda>b. FeedStderr (se_nb env) (ss_source_id s) [] b d) (ss_bridge s)\<rparr>)"
| "drain_events env (ChildCancelled # es) err s = drain_events env es err (s\<lparr>ss_killed_by_us := True\<rparr>)"
| "drain_events env (ChildExited code killed # es) err s = drain_events env es err (child_exit env code killed s)"

definition DrainEvents ::
    "streaming_env \<Rightarrow> ChildEvent list \<Rightarrow> string option \<Rightarrow> streaming_session
      \<Rightarrow> bool \<times> string option \<times> streaming_session" where
  "DrainEvents env arrived err s =
     (if \<not> ss_running s then (True, set_error [] err, s)
      else drain_events env (ss_unread s @ arrived) err s)"

definition SendJsonLine ::
    "streaming_env \<Rightarrow> child_input \<Rightarrow> json \<Rightarrow> string option \<Rightarrow> streaming_session
      \<Rightarrow> bool \<times> string option \<times> streaming_session" where
  "SendJsonLine env ci payload err s =
     (if \<not> ss_running s then (False, set_error ''provider session is not started.'' err, s)
      else
        (let line = se_to_text env payload @ [CHR 0x0A] in
         if \<not> ci_accepts ci then
           (False, set_error ''Provider closed stdin or input buffer is full.'' err,
            snd (snd (DrainEvents env (ci_events ci) None s)))
         else (True, set_error [] err, s\<lparr>ss_sent := ss_sent s @ [line]\<rparr>)))"

definition SendControlEvent ::
    "streaming_env \<Rightarrow> child_input \<Rightarrow> string \<Rightarrow> string option \<Rightarrow> streaming_session
      \<Rightarrow> bool \<times> string option \<times> streaming_session" where
  "SendControlEvent env ci type err s = SendJsonLine env ci (JObj [(''type'', JStr type)]) err s"

definition EnsureStarted ::
    "child_input \<Rightarrow> string option \<Rightarrow> streaming_session \<Rightarrow> bool \<times> string option \<times> streaming_session" where
  "EnsureStarted ci err s =
     (if ss_cancelled s \<or> ss_interrupted s then
        (False, set_error ''Recognition session already cancelled.'' err, s)
      else if ss_started s then (True, err, s)
      else if co_command (ss_provider s) = [] then
        (False, set_error ''Command ASR provider has empty command.'' err, s)
      else case ci_start ci of
        Some e \<Rightarrow>
          (let err' = set_error e err
           in (False, err', QueueCompleted (QueueError (case err' of Some x \<Rightarrow> x | None \<Rightarrow> ''failed to start.'') s)))
      | None \<Rightarrow>
          if ci_interrupted ci then (False, err, s\<lparr>ss_interrupted := True\<rparr>)
          else (True, err, s\<lparr>ss_running := True, ss_started := True\<rparr>))"

definition audio_message :: "streaming_env \<Rightarrow> i16 list \<Rightarrow> json" where
  "audio_message env pcm =
     JObj [(''audio_base64'', JStr (se_base64 env (pcm_bytes pcm))), (''type'', JStr ''audio'')]"

definition streaming_PushAudio ::
    "streaming_env \<Rightarrow> child_input \<Rightarrow> i16 list \<Rightarrow> string option \<Rightarrow> streaming_session
      \<Rightarrow> bool \<times> string option \<times> streaming_session" where
  "streaming_PushAudio env ci pcm err s =
     (if ss_finished s then (False, set_error ''Recognition session already finished.'' err, s)
      else case EnsureStarted ci err s of
        (False, err1, s1) \<Rightarrow> (False, err1, s1)
      | (True, err1, s1) \<Rightarrow>
          (case (if pcm = [] then (True, err1, s1) else SendJsonLine env ci (audio_message env pcm) err1 s1) of
             (False, err2, s2) \<Rightarrow> (False, err2, s2)
           | (True, err2, s2) \<Rightarrow>
               (case DrainEvents env (ci_events ci) err2 s2 of
                  (False, err3, s3) \<Rightarrow> (False, err3, s3)
                | (True, err3, s3) \<Rightarrow> (True, set_error [] err3, s3))))"

text \<open>The wait for the final text; \<open>Inl\<close> is an early return.\<close>

definition give_up ::
    "streaming_env \<Rightarrow> string \<Rightarrow> streaming_session \<Rightarrow> streaming_session" where
  "give_up env error_text s = Terminate env (QueueCompleted (QueueError error_text s))"

definition wait_over :: "streaming_session \<Rightarrow> bool" where
  "wait_over s \<longleftrightarrow> ss_saw_final_text s \<or> ss_completed s \<or> ss_child_exited s"

text \<open>At the deadline the returned error is that of the last queued event.\<close>

definition wait_timed_out ::
    "streaming_env \<Rightarrow> string option \<Rightarrow> streaming_session \<Rightarrow> bool \<times> string option \<times> streaming_session" where
  "wait_timed_out env err s =
     (let s1 = give_up env ''Streaming ASR provider timed out.'' s
      in (False, set_error (ev_error (last (ss_events s1))) err, s1))"

fun await_final ::
    "streaming_env \<Rightarrow> (ChildEvent list \<times> bool) list \<Rightarrow> string option \<Rightarrow> streaming_session
      \<Rightarrow> (bool \<times> string option \<times> streaming_session) + (string option \<times> streaming_session)" where
  "await_final env [] err s =
     (if wait_over s then Inr (err, s) else Inl (wait_timed_out env err s))"
| "await_final env ((arrived, timed_out) # rounds) err s =
     (if wait_over s then Inr (err, s)
      else case DrainEvents env arrived err s of
        (False, err1, s1) \<Rightarrow> Inl (False, err1, give_up env (error_or ''failed to poll provider.'' err1) s1)
      | (True, err1, s1) \<Rightarrow>
          if timed_out then Inl (wait_timed_out env err1 s1) else await_final env rounds err1 s1)"

text \<open>The grace period after a final text; the flag tells that a drain failed.\<close>

fun grace_loop ::
    "streaming_env \<Rightarrow> ChildEvent list list \<Rightarrow> string option \<Rightarrow> streaming_session
      \<Rightarrow> bool \<times> string option \<times> streaming_session" where
  "grace_loop env [] err s = (False, err, s)"
| "grace_loop env (arrived # rounds) err s =
     (if ss_completed s \<or> ss_child_exited s then (False, err, s)
      else case DrainEvents env arrived err s of
        (False, err1, s1) \<Rightarrow> (True, err1, s1)
      | (True, err1, s1) \<Rightarrow> grace_loop env rounds err1 s1)"

definition finish_result ::
    "bool \<Rightarrow> string option \<Rightarrow> streaming_session \<Rightarrow> bool \<times> string option \<times> streaming_session" where
  "finish_result grace_pump_failed err s =
     (if ss_cancelled s \<or> ss_killed_by_us s \<or> ss_interrupted s then
        (False, set_error ''Recognition session was interrupted or cancelled.'' err, s)
      else if err \<noteq> None \<and> ss_saw_error s \<and> find (\<lambda>e. ev_kind e = ErrorEvent) (ss_events s) \<noteq> None then
        (False, map_option ev_error (find (\<lambda>e. ev_kind e = ErrorEvent) (ss_events s)), s)
      else if err \<noteq> None \<and> grace_pump_failed then (False, err, s)
      else (\<not> ss_saw_error s \<and> \<not> grace_pump_failed, set_error [] err, s))"

definition finish_drained ::
    "streaming_env \<Rightarrow> child_input \<Rightarrow> string option \<Rightarrow> streaming_session \<Rightarrow> bool \<times> string option \<times> streaming_session" where
  "finish_drained env ci err s =
     (case (if ss_saw_final_text s then grace_loop env (ci_grace ci) err s else (False, err, s)) of
        (failed, err1, s1) \<Rightarrow>
          (let s2 = snd (snd (DrainEvents env (ci_last ci) None s1));
               s3 = (if \<not> ss_saw_final_text s2 \<and> \<not> ss_saw_error s2 \<and> \<not> ss_cancelled s2 \<and> \<not> ss_killed_by_us s2
                     then QueueError ''Streaming ASR provider returned no text.'' s2 else s2)
           in finish_result failed err1 (Terminate env (QueueCompleted s3))))"

definition streaming_Finish ::
    "streaming_env \<Rightarrow> child_input \<Rightarrow> string option \<Rightarrow> streaming_session \<Rightarrow> bool \<times> string option \<times> streaming_session" where
  "streaming_Finish env ci err s =
     (if ss_finished s then (True, set_error [] err, s)
      else case EnsureStarted ci err s of
        (False, err1, s1) \<Rightarrow> (False, err1, s1)
      | (True, err1, s1) \<Rightarrow>
          (case SendControlEvent env ci ''finish'' err1 (s1\<lparr>ss_finished := True\<rparr>) of
             (False, err2, s2) \<Rightarrow> (False, err2, give_up env (error_or ''failed to send finish event.'' err2) s2)
           | (True, err2, s2) \<Rightarrow>
               (case await_final env (ci_rounds ci) err2 s2 of
                  Inl r \<Rightarrow> r
                | Inr (err3, s3) \<Rightarrow> finish_drained env ci err3 s3)))"

definition streaming_Cancel :: "streaming_env \<Rightarrow> child_input \<Rightarrow> streaming_session \<Rightarrow> streaming_session" where
  "streaming_Cancel env ci s =
     (let s1 = (if ss_cancelled s then s
                else (let s0 = s\<lparr>ss_cancelled := True\<rparr> in
                      if ss_started s then snd (snd (SendControlEvent env ci ''cancel'' None s0)) else s0))
      in Terminate env (QueueCompleted s1))"

definition streaming_Interrupt :: "streaming_session \<Rightarrow> streaming_session" where
  "streaming_Interrupt s = s\<lparr>ss_interrupted := True\<rparr>"

definition streaming_PollEvents :: "streaming_session \<Rightarrow> RecognitionEvent list \<times> streaming_session" where
  "streaming_PollEvents s = (ss_events s, s\<lparr>ss_events := []\<rparr>)"

definition streaming_Describe :: "CommandAsr \<Rightarrow> BackendDescriptor" where
  "streaming_Describe provider =
     default_descriptor\<lparr>bd_provider_id := co_id provider, bd_provider_type := kCommandProviderType,
       bd_backend_id := ''command-streaming'',
       bd_capabilities := (bd_capabilities default_descriptor)
         \<lparr>audio_delivery_mode := Chunked, supports_streaming := True, supports_partial_results := True,
          requires_network := True\<rparr>\<rparr>"

definition CreateCommandStreamingBackend :: "CommandAsr \<Rightarrow> string + CommandAsr" where
  "CreateCommandStreamingBackend provider =
     (if co_command provider = [] then Inl ''Command ASR provider has empty command.'' else Inr provider)"

section \<open>Facts on batch sessions\<close>

text \<open>The reading of little-endian samples, as the program on the other side does it.\<close>

fun bytes_pcm :: "bytes \<Rightarrow> i16 list" where
  "bytes_pcm (a # b # xs) = word_of_nat (of_char a + 256 * of_char b) # bytes_pcm xs"
| "bytes_pcm xs = []"

lemma sample_roundtrip: "word_of_nat (of_char (char_of (unat w mod 256) :: char)
    + 256 * of_char (char_of (unat w div 256) :: char)) = (w :: i16)"
proof -
  have "unat w < 2 ^ 16" using unsigned_less [of w, where ?'a = nat] by simp
  then have "unat w div 256 < 256" by (simp add: less_mult_imp_div_less)
  then have "of_char (char_of (unat w mod 256) :: char) + 256 * of_char (char_of (unat w div 256) :: char)
      = unat w" by simp
  then show ?thesis by simp
qed

lemma bytes_pcm_sample: "bytes_pcm (sample_bytes w @ bs) = w # bytes_pcm bs"
  by (simp only: sample_bytes_def append.simps bytes_pcm.simps sample_roundtrip)

lemma bytes_pcm_bytes: "bytes_pcm (pcm_bytes pcm) = pcm"
  by (induction pcm) (simp_all add: pcm_bytes_def bytes_pcm_sample)

lemma length_pcm_bytes: "length (pcm_bytes pcm) = 2 * length pcm"
  by (induction pcm) (simp_all add: pcm_bytes_def sample_bytes_def)

section \<open>Facts on streaming sessions\<close>

lemma run_lines_pres:
  assumes "\<And>st l. P st \<Longrightarrow> P (snd (f st l))" and "P st"
  shows "P (snd (run_lines f st ls))"
  using assms(2)
proof (induction ls arbitrary: st)
  case (Cons l ls)
  then show ?case using assms(1) [of st l] by (cases "f st l") auto
qed simp

lemma Drain_pres:
  assumes "\<And>st l. P st \<Longrightarrow> P (snd (f st l))" and "P st"
  shows "P (snd (DrainLinesFromBuffer f False b st))"
proof -
  obtain stop st' where r: "run_lines f st (whole_lines b) = (stop, st')" by (rule prod.exhaust)
  then obtain p where "drain_loop f b 0 st = (p, stop, st')"
    using drain_loop_run [of 0 b f st stop st'] by auto
  moreover have "P st'" using run_lines_pres [of P f st "whole_lines b", OF assms] r by simp
  ultimately show ?thesis by (simp add: DrainLinesFromBuffer_def Let_def)
qed

text \<open>The part of a session that reports of the child never change.\<close>

definition flags :: "streaming_session \<Rightarrow> bool list" where
  "flags s = [ss_finished s, ss_cancelled s, ss_terminated s, ss_running s, ss_started s,
     ss_completed_emitted s, ss_interrupted s]"

definition completions :: "RecognitionEvent list \<Rightarrow> nat" where
  "completions evs = length (filter (\<lambda>e. ev_kind e = Completed) evs)"

text \<open>Reports of the child change neither these flags nor the number of completion events.\<close>

definition same_control :: "streaming_session \<Rightarrow> streaming_session \<Rightarrow> bool" where
  "same_control s0 s \<longleftrightarrow> flags s = flags s0 \<and> completions (ss_events s) = completions (ss_events s0)"

lemma same_control_refl [simp]: "same_control s s"
  by (simp add: same_control_def)

lemma HandleOutputLine_control:
  "same_control s0 (snd st) \<Longrightarrow> same_control s0 (snd (snd (HandleOutputLine env st line)))"
  by (cases st; cases "se_read_json env line")
     (simp_all add: HandleOutputLine_def Let_def same_control_def flags_def completions_def)

lemma ConsumeStdoutLines_control:
  assumes "same_control s0 s"
  shows "same_control s0 (snd (ConsumeStdoutLines env err s))"
proof -
  let ?d = "DrainLinesFromBuffer (on_stdout_line env) False (ss_stdout_buffer s) (err, s)"
  have "same_control s0 (snd (snd ?d))"
    by (rule Drain_pres [where P = "\<lambda>st. same_control s0 (snd st)"])
       (auto simp: on_stdout_line_def Let_def HandleOutputLine_control assms)
  moreover obtain rest err' s' where "?d = (rest, (err', s'))" by (metis prod.exhaust)
  ultimately show ?thesis
    by (simp add: ConsumeStdoutLines_def same_control_def flags_def)
qed

lemma QueueError_control: "same_control s0 s \<Longrightarrow> same_control s0 (QueueError e s)"
  by (simp add: QueueError_def Let_def same_control_def flags_def completions_def error_event_def)

lemma drain_events_control:
  "same_control s0 s \<Longrightarrow> same_control s0 (snd (snd (drain_events env es err s)))"
proof (induction env es err s rule: drain_events.induct)
  case (1 env err s)
  then show ?case by (simp add: same_control_def flags_def)
next
  case (2 env d es err s)
  let ?c = "ConsumeStdoutLines env err (s\<lparr>ss_stdout_buffer := ss_stdout_buffer s @ d\<rparr>)"
  obtain err' s' where c: "?c = (err', s')" by (rule prod.exhaust)
  have "same_control s0 (s\<lparr>ss_stdout_buffer := ss_stdout_buffer s @ d\<rparr>)"
    using 2(2) by (simp add: same_control_def flags_def)
  from ConsumeStdoutLines_control [OF this, of env err] c have s': "same_control s0 s'" by simp
  then have u: "same_control s0 (s'\<lparr>ss_unread := es\<rparr>)" by (simp add: same_control_def flags_def)
  show ?case
  proof (cases "err' \<noteq> None \<and> err' \<noteq> Some []")
    case True
    with c u show ?thesis by simp
  next
    case False
    from 2(1) [OF c [symmetric] False s'] c False show ?thesis by auto
  qed
next
  case (3 env d es err s)
  have "same_control s0 (s\<lparr>ss_bridge := b\<rparr>)" for b using 3(2) by (simp add: same_control_def flags_def)
  then show ?case using 3(1) by simp
next
  case (4 env es err s)
  have "same_control s0 (s\<lparr>ss_killed_by_us := True\<rparr>)" using 4(2) by (simp add: same_control_def flags_def)
  then show ?case using 4(1) by simp
next
  case (5 env code killed es err s)
  have "same_control s0 (s\<lparr>ss_child_exited := True, ss_exit_code := code, ss_killed_by_us := kill,
      ss_bridge := b\<rparr>)" for b kill using 5(2) by (simp add: same_control_def flags_def)
  then have "same_control s0 (child_exit env code killed s)"
    by (simp add: child_exit_def Let_def QueueError_control)
  then show ?case using 5(1) by simp
qed

lemma DrainEvents_control: "same_control s0 s \<Longrightarrow> same_control s0 (snd (snd (DrainEvents env es err s)))"
  by (simp add: DrainEvents_def drain_events_control)

text \<open>Starting and sending change the flags only as they say.\<close>

lemma SendJsonLine_control: "same_control s (snd (snd (SendJsonLine env ci payload err s)))"
  by (simp add: SendJsonLine_def Let_def DrainEvents_control same_control_def [of s "s\<lparr>ss_sent := x\<rparr>" for x] flags_def)

lemma grace_loop_control: "same_control s0 s \<Longrightarrow> same_control s0 (snd (snd (grace_loop env rounds err s)))"
proof (induction env rounds err s rule: grace_loop.induct)
  case (2 env arrived rounds err s)
  obtain ok err1 s1 where d: "DrainEvents env arrived err s = (ok, err1, s1)" by (metis prod.exhaust)
  have "same_control s0 s1" using DrainEvents_control [OF 2(2), of env arrived err] d by simp
  with 2 d show ?case by (cases ok) auto
qed simp

text \<open>
  Between two calls: at most one completion event has been queued (\<open>k\<close> counts the polled ones), and a
  finished or cancelled session has queued it and owns no process.
\<close>

definition streaming_inv :: "nat \<Rightarrow> streaming_session \<Rightarrow> bool" where
  "streaming_inv k s \<longleftrightarrow>
     k + completions (ss_events s) = (if ss_completed_emitted s then 1 else 0)
     \<and> (ss_finished s \<or> ss_cancelled s \<longrightarrow> ss_terminated s \<and> ss_completed_emitted s)
     \<and> (ss_terminated s \<longrightarrow> \<not> ss_running s \<and> (ss_finished s \<or> ss_cancelled s))
     \<and> (ss_running s \<longrightarrow> ss_started s)"

text \<open>The part of it that holds within a call, and the end of a call that ends the session.\<close>

definition open_inv :: "nat \<Rightarrow> streaming_session \<Rightarrow> bool" where
  "open_inv k s \<longleftrightarrow> k + completions (ss_events s) = (if ss_completed_emitted s then 1 else 0)
     \<and> (ss_terminated s \<longrightarrow> \<not> ss_running s) \<and> (ss_running s \<longrightarrow> ss_started s)"

lemma open_inv_control:
  "same_control s0 s \<Longrightarrow> open_inv k s0 \<Longrightarrow> open_inv k s"
  by (simp add: same_control_def open_inv_def flags_def)

lemma streaming_inv_control:
  "same_control s0 s \<Longrightarrow> streaming_inv k s0 \<Longrightarrow> streaming_inv k s"
  by (simp add: same_control_def streaming_inv_def flags_def)

lemma open_inv_ends:
  assumes "open_inv k s" and "ss_finished s \<or> ss_cancelled s"
  shows "streaming_inv k (Terminate env (QueueCompleted s))"
  using assms
  by (cases "ss_completed_emitted s"; cases "ss_terminated s")
     (auto simp: Terminate_def QueueCompleted_def streaming_inv_def open_inv_def completions_def completed_event_def)

lemma open_inv_QueueError: "open_inv k s \<Longrightarrow> open_inv k (QueueError e s)"
  using open_inv_control [OF QueueError_control [OF same_control_refl]] .

lemma flags_QueueError [simp]:
  "ss_finished (QueueError e s) = ss_finished s" "ss_cancelled (QueueError e s) = ss_cancelled s"
  by (simp_all add: QueueError_def Let_def)

lemma ends_finished [simp]: "ss_finished (Terminate env (QueueCompleted s)) = ss_finished s"
  by (simp add: Terminate_def QueueCompleted_def)

lemma give_up_inv:
  assumes "open_inv k s" and "ss_finished s"
  shows "streaming_inv k (give_up env e s) \<and> ss_finished (give_up env e s)"
  unfolding give_up_def using open_inv_ends [of k "QueueError e s" env] assms by (simp add: open_inv_QueueError)

lemma same_control_finished: "same_control s0 s \<Longrightarrow> ss_finished s0 \<Longrightarrow> ss_finished s"
  by (simp add: same_control_def flags_def)

lemma await_final_inv:
  assumes "open_inv k s" and "ss_finished s"
  shows "case await_final env rounds err s of
      Inl r \<Rightarrow> streaming_inv k (snd (snd r)) \<and> ss_finished (snd (snd r))
    | Inr (err', s') \<Rightarrow> open_inv k s' \<and> ss_finished s'"
  using assms
proof (induction env rounds err s rule: await_final.induct)
  case (1 env err s)
  then show ?case by (simp add: wait_timed_out_def Let_def give_up_inv)
next
  case (2 env arrived timed_out rounds err s)
  obtain ok err1 s1 where d: "DrainEvents env arrived err s = (ok, err1, s1)" by (metis prod.exhaust)
  have c: "same_control s s1" using DrainEvents_control [OF same_control_refl [of s], of env arrived err] d by simp
  have s1: "open_inv k s1" "ss_finished s1"
    using open_inv_control [OF c] same_control_finished [OF c] 2(2,3) by simp_all
  show ?case
  proof (cases "wait_over s \<or> \<not> ok \<or> timed_out")
    case True
    with d s1 2(2,3) show ?thesis
      by (cases "wait_over s"; cases ok) (simp_all add: wait_timed_out_def Let_def give_up_inv)
  next
    case False
    with 2(1) [OF _ d [symmetric] _ refl _ s1] d show ?thesis by auto
  qed
qed

lemma finish_drained_inv:
  assumes "open_inv k s" and "ss_finished s"
  shows "streaming_inv k (snd (snd (finish_drained env ci err s))) \<and> ss_finished (snd (snd (finish_drained env ci err s)))"
proof -
  let ?g = "if ss_saw_final_text s then grace_loop env (ci_grace ci) err s else (False, err, s)"
  obtain failed err1 s1 where g: "?g = (failed, err1, s1)" by (metis prod.exhaust)
  have "same_control s s1"
    using g grace_loop_control [OF same_control_refl [of s], of env "ci_grace ci" err] by (auto split: if_splits)
  define s2 where "s2 = snd (snd (DrainEvents env (ci_last ci) None s1))"
  have c2: "same_control s s2" unfolding s2_def by (rule DrainEvents_control) fact
  define s3 where "s3 = (if \<not> ss_saw_final_text s2 \<and> \<not> ss_saw_error s2 \<and> \<not> ss_cancelled s2 \<and> \<not> ss_killed_by_us s2
                     then QueueError ''Streaming ASR provider returned no text.'' s2 else s2)"
  have c3: "same_control s s3" unfolding s3_def using c2 QueueError_control by simp
  have "streaming_inv k (Terminate env (QueueCompleted s3)) \<and> ss_finished (Terminate env (QueueCompleted s3))"
    using open_inv_ends [OF open_inv_control [OF c3 assms(1)]] same_control_finished [OF c3 assms(2)] by simp
  moreover have "snd (snd (finish_result failed err1 x)) = x" for x by (simp add: finish_result_def)
  ultimately show ?thesis
    unfolding finish_drained_def g Let_def prod.case s2_def [symmetric] s3_def [symmetric] by simp
qed

lemma EnsureStarted_inv:
  assumes "streaming_inv k s" and "\<not> ss_finished s" and "EnsureStarted ci err s = (ok, err', s')"
  shows "if ok then streaming_inv k s' \<and> ss_started s' \<and> \<not> ss_finished s' else streaming_inv k s'"
proof (cases "ci_start ci")
  case (Some e)
  have qc: "streaming_inv k (QueueCompleted (QueueError t s))" if "\<not> ss_cancelled s" for t
    using assms(1,2) that
    by (cases "ss_completed_emitted s")
       (auto simp: QueueCompleted_def QueueError_def Let_def streaming_inv_def completions_def completed_event_def
         error_event_def)
  from assms Some qc show ?thesis
    by (auto simp: EnsureStarted_def Let_def split: if_splits)
next
  case None
  have "streaming_inv k (s\<lparr>ss_interrupted := True\<rparr>)" using assms(1) by (simp add: streaming_inv_def)
  moreover have "streaming_inv k (s\<lparr>ss_running := True, ss_started := True\<rparr>)" if "\<not> ss_cancelled s"
    using assms(1,2) that by (auto simp: streaming_inv_def)
  ultimately show ?thesis using assms None
    by (auto simp: EnsureStarted_def split: if_splits)
qed

lemma Finish_facts:
  assumes "streaming_inv k s"
  shows "streaming_inv k (snd (snd (streaming_Finish env ci err s)))
    \<and> (fst (EnsureStarted ci err s) \<longrightarrow> ss_finished (snd (snd (streaming_Finish env ci err s))))"
proof (cases "ss_finished s")
  case True
  with assms show ?thesis by (simp add: streaming_Finish_def)
next
  case False
  obtain ok err1 s1 where e: "EnsureStarted ci err s = (ok, err1, s1)" by (metis prod.exhaust)
  note f = EnsureStarted_inv [OF assms False e]
  show ?thesis
  proof (cases ok)
    case True
    let ?s = "s1\<lparr>ss_finished := True\<rparr>"
    have o: "open_inv k ?s" using f True by (auto simp: streaming_inv_def open_inv_def)
    obtain ok2 err2 s2 where d: "SendControlEvent env ci ''finish'' err1 ?s = (ok2, err2, s2)" by (metis prod.exhaust)
    have c: "same_control ?s s2"
      using SendJsonLine_control [of ?s env ci "JObj [(''type'', JStr ''finish'')]" err1] d
      by (simp add: SendControlEvent_def)
    have s2: "open_inv k s2" "ss_finished s2"
      using open_inv_control [OF c o] same_control_finished [OF c] by simp_all
    show ?thesis
      using False e True d s2 give_up_inv [OF s2] await_final_inv [OF s2, of env "ci_rounds ci" err2]
        finish_drained_inv
      by (cases ok2; cases "await_final env (ci_rounds ci) err2 s2")
         (auto simp: streaming_Finish_def)
  qed (use False e f in \<open>simp add: streaming_Finish_def\<close>)
qed

lemmas Finish_inv = Finish_facts [THEN conjunct1]

lemma Push_inv:
  assumes "streaming_inv k s"
  shows "streaming_inv k (snd (snd (streaming_PushAudio env ci pcm err s)))"
proof (cases "ss_finished s")
  case True
  with assms show ?thesis by (simp add: streaming_PushAudio_def)
next
  case False
  obtain ok err1 s1 where e: "EnsureStarted ci err s = (ok, err1, s1)" by (metis prod.exhaust)
  note f = EnsureStarted_inv [OF assms False e]
  show ?thesis
  proof (cases ok)
    case True
    let ?r = "if pcm = [] then (True, err1, s1) else SendJsonLine env ci (audio_message env pcm) err1 s1"
    obtain ok2 err2 s2 where d: "?r = (ok2, err2, s2)" by (metis prod.exhaust)
    have "same_control s1 s2"
      using SendJsonLine_control [of s1 env ci "audio_message env pcm" err1] d by (auto split: if_splits)
    then have s2: "streaming_inv k s2" using f True streaming_inv_control by simp
    have "streaming_inv k (snd (snd (DrainEvents env (ci_events ci) err2 s2)))"
      by (rule streaming_inv_control [OF DrainEvents_control [OF same_control_refl [of s2]] s2])
    with False e True d s2 show ?thesis
      by (cases ok2; cases "DrainEvents env (ci_events ci) err2 s2") (auto simp: streaming_PushAudio_def split: bool.splits)
  qed (use False e f in \<open>simp add: streaming_PushAudio_def\<close>)
qed

lemma Cancel_streaming_inv:
  assumes "streaming_inv k s"
  shows "streaming_inv k (streaming_Cancel env ci s)"
proof -
  let ?s0 = "s\<lparr>ss_cancelled := True\<rparr>"
  let ?s1 = "if ss_cancelled s then s
             else if ss_started s then snd (snd (SendControlEvent env ci ''cancel'' None ?s0)) else ?s0"
  have o: "open_inv k s" "open_inv k ?s0" using assms by (auto simp: streaming_inv_def open_inv_def)
  have c: "same_control ?s0 (snd (snd (SendControlEvent env ci ''cancel'' None ?s0)))"
    unfolding SendControlEvent_def by (rule SendJsonLine_control)
  then have "ss_cancelled (snd (snd (SendControlEvent env ci ''cancel'' None ?s0)))"
    by (simp add: same_control_def flags_def)
  then have "open_inv k ?s1 \<and> ss_cancelled ?s1" using o open_inv_control [OF c o(2)] by simp
  then have "streaming_inv k (Terminate env (QueueCompleted ?s1))" by (intro open_inv_ends) simp_all
  moreover have "streaming_Cancel env ci s = Terminate env (QueueCompleted ?s1)"
    by (simp add: streaming_Cancel_def Let_def)
  ultimately show ?thesis by simp
qed

section \<open>Runs of a streaming session\<close>

datatype streaming_call =
    PushCall child_input "i16 list" "string option"
  | FinishCall child_input "string option"
  | CancelCall child_input
  | InterruptCall
  | PollCall

text \<open>The second component collects the polled events.\<close>

fun streaming_step ::
    "streaming_env \<Rightarrow> streaming_session \<times> RecognitionEvent list \<Rightarrow> streaming_call
      \<Rightarrow> streaming_session \<times> RecognitionEvent list" where
  "streaming_step env (s, out) (PushCall ci pcm err) = (snd (snd (streaming_PushAudio env ci pcm err s)), out)"
| "streaming_step env (s, out) (FinishCall ci err) = (snd (snd (streaming_Finish env ci err s)), out)"
| "streaming_step env (s, out) (CancelCall ci) = (streaming_Cancel env ci s, out)"
| "streaming_step env (s, out) InterruptCall = (streaming_Interrupt s, out)"
| "streaming_step env (s, out) PollCall =
     (case streaming_PollEvents s of (evs, s') \<Rightarrow> (s', out @ evs))"

interpretation streaming: invariant_machine "streaming_step env" "(new_streaming_session provider source bridge, [])"
    "\<lambda>(s, out). streaming_inv (completions out) s" for env provider source bridge
proof unfold_locales
  show "case (new_streaming_session provider source bridge, []) of (s, out) \<Rightarrow> streaming_inv (completions out) s"
    by (simp add: streaming_inv_def new_streaming_session_def completions_def)
  show "case streaming_step env st e of (s, out) \<Rightarrow> streaming_inv (completions out) s"
    if "case st of (s, out) \<Rightarrow> streaming_inv (completions out) s" for st e
  proof -
    obtain s out where st: "st = (s, out)" by (rule prod.exhaust)
    have inv: "streaming_inv (completions out) s" using that st by simp
    then have "streaming_inv (completions (out @ ss_events s)) (s\<lparr>ss_events := []\<rparr>)"
      "streaming_inv (completions out) (s\<lparr>ss_interrupted := True\<rparr>)"
      by (simp_all add: streaming_inv_def completions_def)
    with inv show ?thesis
      by (cases e) (simp_all add: st Push_inv Finish_inv Cancel_streaming_inv streaming_Interrupt_def
          streaming_PollEvents_def)
  qed
qed

section \<open>Properties\<close>

lemma batch_finish_collect:
  assumes "lm_store l i = s" and "batch_live s"
    and ev_def: "ev = run_event env (be_run env (bs_command s) (pcm_bytes (bs_pcm s)))"
  shows "fst (FinishSessionAndCollectResult (batch_ops env) l (Some i)) =
    (if ev_kind ev = ErrorEvent
     then default_run_result\<lparr>rr_available := True, rr_ok := False, rr_error := ev_error ev\<rparr>
     else collect_event (default_run_result\<lparr>rr_available := True\<rparr>) ev)"
  using assms(1,2)
  by (cases "ev_kind ev")
     (simp_all add: FinishSessionAndCollectResult_def batch_ops_def batch_Finish_def batch_PollEvents_def
      batch_live_def completed_event_def default_run_result_def Let_def ev_def)

text \<open>Programs to run the properties on: one whose output is fixed, one that answers with a final text.\<close>

definition example_provider :: CommandAsr where
  "example_provider = \<lparr>co_id = ''asr'', co_timeoutMs = 1000, co_command = ''asr'', co_args = [], co_env = []\<rparr>"

definition example_batch :: batch_env where
  "example_batch =
     \<lparr>be_run = (\<lambda>_ _. \<lparr>re_exit_code = 0, re_timed_out = False, re_launch_failed = False, re_stdout = ''hello'',
                      re_stderr = []\<rparr>),
      be_nb = \<lparr>ne_clock = (\<lambda>_. 0), ne_dedup_window = 0, ne_voice_input = [], ne_read_wire = (\<lambda>_. None)\<rparr>,
      be_tr = (\<lambda>s. s)\<rparr>"

definition example_lifecycle :: "i16 list \<Rightarrow> batch_session lifecycle" where
  "example_lifecycle pcm =
     \<lparr>lm_active = Some 0, lm_deferred = [], lm_has_wake = False, lm_wakes = 0,
      lm_store = (\<lambda>_. (new_batch_session example_provider None)\<lparr>bs_pcm := pcm\<rparr>), lm_cancelled = []\<rparr>"

definition example_streaming :: streaming_env where
  "example_streaming =
     \<lparr>se_nb = be_nb example_batch,
      se_read_json = (\<lambda>_. Inr (JObj [(''text'', JStr ''hello''), (''type'', JStr ''final'')])),
      se_to_text = (\<lambda>_. []), se_base64 = (\<lambda>b. b)\<rparr>"

definition example_input :: "(ChildEvent list \<times> bool) list \<Rightarrow> child_input" where
  "example_input rounds =
     \<lparr>ci_start = None, ci_interrupted = False, ci_accepts = True, ci_events = [], ci_rounds = rounds,
      ci_grace = [], ci_last = []\<rparr>"

definition batch_failure :: "batch_env \<Rightarrow> CommandResult \<Rightarrow> string" where
  "batch_failure env r =
     be_tr env (if re_launch_failed r then ''Command ASR provider failed to start.''
       else if re_timed_out r then ''Command ASR provider timed out.''
       else if re_exit_code r \<noteq> 0 then ''Command ASR provider exited abnormally.''
       else ''Command ASR provider returned no text.'')"

text \<open>
  A batch session runs its program once, on exactly the samples that were pushed (two bytes each, low
  byte first), and its result is the trimmed output of a run that succeeded with some text; every
  other run is reported as the failure it was.
\<close>

theorem batch_result:
  assumes "lm_store l i = s" and "batch_live s"
  shows "let r = be_run env (bs_command s) (pcm_bytes (bs_pcm s));
       ok = (\<not> re_launch_failed r \<and> \<not> re_timed_out r \<and> re_exit_code r = 0 \<and> Trim (re_stdout r) \<noteq> [])
     in bytes_pcm (pcm_bytes (bs_pcm s)) = bs_pcm s
        \<and> fst (FinishSessionAndCollectResult (batch_ops env) l (Some i)) =
            \<lparr>rr_available = True, rr_ok = ok, rr_text = (if ok then Trim (re_stdout r) else []),
             rr_error = (if ok then [] else batch_failure env r)\<rparr>"
proof -
  define r where "r = be_run env (bs_command s) (pcm_bytes (bs_pcm s))"
  note f = batch_finish_collect [OF assms refl, of env, folded r_def]
  show ?thesis
    unfolding f Let_def r_def [symmetric]
    by (cases "re_launch_failed r"; cases "re_timed_out r"; cases "re_exit_code r = 0"; cases "Trim (re_stdout r) = []")
       (simp_all add: run_event_def error_event_def batch_failure_def default_run_result_def bytes_pcm_bytes)
qed

theorem batch_result_witness:
  "rr_text (fst (FinishSessionAndCollectResult (batch_ops example_batch) (example_lifecycle [1, 2]) (Some 0))) = ''hello''"
proof -
  have t: "Trim ''hello'' = ''hello''" by (rule Trim_ident) (simp_all add: is_space_def)
  have "batch_live (lm_store (example_lifecycle [1, 2]) 0)"
    by (simp add: example_lifecycle_def new_batch_session_def batch_live_def)
  from batch_result [OF refl this, of example_batch] show ?thesis
    by (simp add: example_batch_def t)
qed






text \<open>
  The refusal matters: after a push that started the program and an interruption, \<open>Finish\<close> returns without
  reporting completion, and the session still holds the process.
\<close>

lemma interrupted_finish_incomplete:
  assumes "co_command provider \<noteq> []" and "ci_start ci = None" and "\<not> ci_interrupted ci"
  shows "case foldl (streaming_step env) (new_streaming_session provider source bridge, [])
      [PushCall ci [] err, InterruptCall, FinishCall ci' err'] of
    (s, polled) \<Rightarrow> \<not> ss_completed_emitted s \<and> ss_running s \<and> \<not> ss_finished s"
proof -
  let ?new = "new_streaming_session provider source bridge"
  define s0 where "s0 = ?new\<lparr>ss_running := True, ss_started := True\<rparr>"
  have start: "EnsureStarted ci err ?new = (True, err, s0)" and new: "\<not> ss_finished ?new"
    using assms by (simp_all add: EnsureStarted_def new_streaming_session_def s0_def)
  obtain ok err3 s3 where d: "DrainEvents env (ci_events ci) err s0 = (ok, err3, s3)" by (rule prod_cases3)
  have "streaming_PushAudio env ci [] err ?new = (ok, if ok then set_error [] err3 else err3, s3)"
    using new start d by (cases ok) (simp_all add: streaming_PushAudio_def)
  moreover have "flags s3 = flags s0"
    using DrainEvents_control [OF same_control_refl [of s0], of env "ci_events ci" err] d by (simp add: same_control_def)
  ultimately show ?thesis
    by (simp add: streaming_Interrupt_def streaming_Finish_def EnsureStarted_def flags_def s0_def new_streaming_session_def)
qed

lemma ends_frame [simp]:
  "ss_saw_error (Terminate env (QueueCompleted s)) = ss_saw_error s"
  "ss_saw_final_text (Terminate env (QueueCompleted s)) = ss_saw_final_text s"
  "ss_cancelled (Terminate env (QueueCompleted s)) = ss_cancelled s"
  "ss_killed_by_us (Terminate env (QueueCompleted s)) = ss_killed_by_us s"
  "ss_interrupted (Terminate env (QueueCompleted s)) = ss_interrupted s"
  by (simp_all add: Terminate_def QueueCompleted_def)

lemma QueueError_saw [simp]: "ss_saw_error (QueueError e s)"
  by (simp add: QueueError_def Let_def)

lemma finish_drained_success:
  assumes "finish_drained env ci err s = (True, err', s')"
  shows "ss_saw_final_text s' \<and> \<not> ss_saw_error s' \<and> \<not> ss_cancelled s' \<and> \<not> ss_killed_by_us s'
    \<and> \<not> ss_interrupted s' \<and> err' = set_error [] err'"
proof -
  let ?g = "if ss_saw_final_text s then grace_loop env (ci_grace ci) err s else (False, err, s)"
  obtain failed err1 s1 where g: "?g = (failed, err1, s1)" by (metis prod.exhaust)
  define s2 where "s2 = snd (snd (DrainEvents env (ci_last ci) None s1))"
  let ?missing = "\<not> ss_saw_final_text s2 \<and> \<not> ss_saw_error s2 \<and> \<not> ss_cancelled s2 \<and> \<not> ss_killed_by_us s2"
  define s3 where "s3 = (if ?missing then QueueError ''Streaming ASR provider returned no text.'' s2 else s2)"
  have r: "finish_result failed err1 (Terminate env (QueueCompleted s3)) = (True, err', s')"
    using assms unfolding finish_drained_def g Let_def prod.case s2_def [symmetric] s3_def [symmetric] .
  then have ok: "\<not> ss_saw_error s3" "\<not> ss_cancelled s3" "\<not> ss_killed_by_us s3" "\<not> ss_interrupted s3"
    and s': "s' = Terminate env (QueueCompleted s3)" "err' = set_error [] err1"
    by (auto simp: finish_result_def split: if_splits)
  have "s3 = s2" "ss_saw_final_text s2"
    using ok unfolding s3_def by (auto split: if_splits)
  with ok s' show ?thesis by (simp add: set_error_def option.map_comp comp_def)
qed

text \<open>
  A streaming session that finishes successfully for the first time has seen a final text and no
  error, was neither cancelled nor interrupted nor killed, and clears the caller's error.
\<close>

theorem streaming_Finish_success:
  assumes "\<not> ss_finished s" and "streaming_Finish env ci err s = (True, err', s')"
  shows "ss_saw_final_text s' \<and> \<not> ss_saw_error s' \<and> \<not> ss_cancelled s' \<and> \<not> ss_killed_by_us s'
    \<and> \<not> ss_interrupted s' \<and> err' = set_error [] err'"
proof -
  have "\<exists>ci err3 s3. finish_drained env ci err3 s3 = (True, err', s')"
  proof -
    obtain ok err1 s1 where e: "EnsureStarted ci err s = (ok, err1, s1)" by (metis prod.exhaust)
    obtain ok2 err2 s2 where d: "SendControlEvent env ci ''finish'' err1 (s1\<lparr>ss_finished := True\<rparr>) = (ok2, err2, s2)"
      by (metis prod.exhaust)
    have inl: "\<not> fst r" if "await_final env rounds e s = Inl r" for rounds e s r
      using that
    proof (induction env rounds e s rule: await_final.induct)
      case (2 env arrived timed_out rounds err s)
      then show ?case
        by (auto simp: wait_timed_out_def Let_def split: if_splits prod.splits bool.splits)
    qed (auto simp: wait_timed_out_def Let_def split: if_splits)
    show ?thesis using assms e d inl [of "ci_rounds ci" err2 s2 "(True, err', s')"]
      by (cases ok; cases ok2; cases "await_final env (ci_rounds ci) err2 s2")
         (auto simp: streaming_Finish_def)
  qed
  then show ?thesis using finish_drained_success by blast
qed

theorem streaming_Finish_success_witness:
  "case streaming_Finish example_streaming (example_input []) (Some ''x'')
     ((new_streaming_session example_provider ''asr'' None)\<lparr>ss_running := True, ss_started := True, ss_saw_final_text := True\<rparr>) of
     (ok, err, s) \<Rightarrow> ok \<and> ss_saw_final_text s \<and> \<not> ss_saw_error s \<and> err = Some []"
proof -
  let ?r = "streaming_Finish example_streaming (example_input []) (Some ''x'')
     ((new_streaming_session example_provider ''asr'' None)\<lparr>ss_running := True, ss_started := True, ss_saw_final_text := True\<rparr>)"
  have ok: "fst ?r" and e: "fst (snd ?r) \<noteq> None"
    by (simp_all add: streaming_Finish_def new_streaming_session_def EnsureStarted_def SendControlEvent_def
        SendJsonLine_def example_input_def set_error_def wait_over_def finish_drained_def DrainEvents_def
        QueueCompleted_def Terminate_def finish_result_def Let_def)
  obtain ok' err' s' where r: "?r = (ok', err', s')" by (rule prod_cases3)
  with ok e have r': "?r = (True, err', s')" and n: "err' \<noteq> None" by simp_all
  have "ss_saw_final_text s' \<and> \<not> ss_saw_error s' \<and> err' = set_error [] err'"
    using streaming_Finish_success [OF _ r'] by (simp add: new_streaming_session_def)
  with n r' show ?thesis by (auto simp: set_error_def)
qed

lemma await_quiet:
  assumes "ss_running s" and "ss_unread s = []" and "\<not> wait_over s" and "list_all (\<lambda>(es, b). es = []) rounds"
  shows "await_final env rounds err s =
    Inl (wait_timed_out env (if rounds = [] then err else set_error [] err) s)"
  using assms
proof (induction rounds arbitrary: err)
  case (Cons p rounds)
  obtain es b where p: "p = (es, b)" by (rule prod.exhaust)
  have s: "s\<lparr>ss_unread := []\<rparr> = s" using Cons.prems(2) by simp
  from Cons show ?case
    by (cases b) (auto simp: p DrainEvents_def s set_error_def option.map_comp comp_def)
qed simp

text \<open>
  A wait for the final text that ends at its deadline fails, but the text it returns is empty: the
  message is read from the last queued event, and that is the completion event, not the error event
  queued before it.
\<close>

theorem streaming_timeout_without_message:
  assumes "ss_running s" and "ss_started s" and "ss_unread s = []" and "\<not> wait_over s" and "\<not> ss_finished s"
    and "\<not> ss_cancelled s" and "\<not> ss_interrupted s" and "\<not> ss_completed_emitted s"
    and "ci_accepts ci" and "list_all (\<lambda>(es, b). es = []) (ci_rounds ci)"
  shows "case streaming_Finish env ci (Some e) s of (ok, err, s') \<Rightarrow>
     \<not> ok \<and> err = Some []
     \<and> ss_events s' = ss_events s @ [error_event ''Streaming ASR provider timed out.'', completed_event]"
proof -
  let ?s = "s\<lparr>ss_finished := True, ss_sent := ss_sent s @ [se_to_text env (JObj [(''type'', JStr ''finish'')]) @ [CHR 0x0A]]\<rparr>"
  have t: "Trim ''Streaming ASR provider timed out.'' = ''Streaming ASR provider timed out.''"
    by (rule Trim_ident) (simp_all add: is_space_def)
  have w: "await_final env (ci_rounds ci) (Some []) ?s = Inl (wait_timed_out env (Some []) ?s)"
    using await_quiet [of ?s "ci_rounds ci" env "Some []"] assms by (simp add: wait_over_def set_error_def)
  have "streaming_Finish env ci (Some e) s = wait_timed_out env (Some []) ?s"
    using assms w
    by (simp add: streaming_Finish_def EnsureStarted_def SendControlEvent_def SendJsonLine_def set_error_def Let_def)
  then show ?thesis using assms(8)
    by (simp add: wait_timed_out_def give_up_def Terminate_def QueueCompleted_def QueueError_def Let_def t
        set_error_def completed_event_def)
qed

theorem streaming_timeout_without_message_witness:
  "fst (snd (streaming_Finish example_streaming (example_input [([], False), ([], True)]) (Some ''x'')
     ((new_streaming_session example_provider ''asr'' None)\<lparr>ss_running := True, ss_started := True\<rparr>))) = Some []"
  using streaming_timeout_without_message [of "(new_streaming_session example_provider ''asr'' None)
      \<lparr>ss_running := True, ss_started := True\<rparr>" "example_input [([], False), ([], True)]" example_streaming "''x''"]
  by (simp add: new_streaming_session_def wait_over_def example_input_def case_prod_beta)

end
