(* ===== verification/Controller_Runs.thy ===== *)
theory Controller_Runs
  imports Daemon_Controller Command_Backends
begin

text \<open>
  Runs of the daemon's controller. An event is one call of a public operation by the main loop, one
  period of the audio thread, one step of the worker or of the threads of the session manager and the
  ducker; the invariant \<open>ctl_inv\<close> relates the phase to the sessions, the microphone, the output volume
  and the worker, and the properties at the end follow from it.
\<close>

section \<open>Frames\<close>

text \<open>The part of the controller's state the invariant speaks about.\<close>

record ctl_view =
  vw_machine :: RuntimeStateMachine
  vw_starting :: bool
  vw_accepting :: bool
  vw_capture :: capture
  vw_active :: "sid option"
  vw_ducked :: bool
  vw_order :: "RecognitionOrder option"
  vw_worker :: worker_state
  vw_pending_stop :: bool

definition view :: "('b, 's) controller \<Rightarrow> ctl_view" where
  "view c = \<lparr>vw_machine = ct_machine c, vw_starting = ct_starting c, vw_accepting = ct_accepting c,
     vw_capture = ct_capture c, vw_active = lm_active (ct_lifecycle c),
     vw_ducked = du_logical_ducked (ct_ducker c), vw_order = ct_order c, vw_worker = ct_worker c,
     vw_pending_stop = ct_pending_stop c\<rparr>"

lemma Restore_ducked [simp]: "\<not> du_logical_ducked (Restore d)"
  by (simp add: Restore_def)

lemma Duck_ducked [simp]: "du_logical_ducked (Duck s d)"
  by (simp add: Duck_def)

lemma active_retire [simp]:
  "lm_active (RetireSession l s) = lm_active l"
  "lm_active (CancelAndRetireSession ops l s) = lm_active l"
  by (simp_all add: lm_defs split: option.splits)

lemma active_flush [simp]: "lm_active (snd (FlushReapedSessions l)) = lm_active l"
  by (simp add: lm_defs)

lemma active_install [simp]: "lm_active (InstallActiveSession ops l s) = s"
  by (simp add: InstallActiveSession_def Let_def)

lemma active_push [simp]: "lm_active (snd (lm_PushAudio ops l s pcm)) = lm_active l"
  by (auto simp: lm_PushAudio_def split: option.splits prod.splits)

lemma active_push_float [simp]: "lm_active (snd (lm_PushAudio_float push l s xs)) = lm_active l"
  by (auto simp: lm_PushAudio_float_def split: option.splits prod.splits)

lemma active_poll [simp]: "lm_active (snd (PollSessionEvents ops f l s)) = lm_active l"
  by (auto simp: PollSessionEvents_def Let_def split: option.splits prod.splits)

lemma active_finish [simp]: "lm_active (snd (FinishSessionAndCollectResult ops l s)) = lm_active l"
  by (auto simp: FinishSessionAndCollectResult_def Let_def split: option.splits prod.splits)

lemma view_emit [simp]: "view (emit xs c) = view c"
  by (simp add: view_def emit_def)

lemma emit_fields [simp]:
  "ct_capture (emit xs c) = ct_capture c" "ct_machine (emit xs c) = ct_machine c"
  by (simp_all add: emit_def)

lemma view_Notify [simp]: "view (NotifyStatusChanged env s c) = view c"
  by (simp add: NotifyStatusChanged_def)

lemma view_SynchronizeAsr [simp]: "view (snd (SynchronizeAsrBackend env loaded c)) = view c"
  by (simp add: SynchronizeAsrBackend_def view_def split: prod.splits)

lemma view_pending_reload [simp]: "view (c\<lparr>ct_pending_reload := b\<rparr>) = view c"
  by (simp add: view_def)

lemma view_MaybeApply [simp]: "view (MaybeApplyPendingAsrBackendReload env loaded c) = view c"
proof -
  obtain b c1 where s: "SynchronizeAsrBackend env loaded (c\<lparr>ct_pending_reload := False\<rparr>) = (b, c1)"
    by (rule prod.exhaust)
  then have "view c1 = view c"
    using view_SynchronizeAsr [of env loaded "c\<lparr>ct_pending_reload := False\<rparr>"] by simp
  with s show ?thesis by (cases b) (simp_all add: MaybeApplyPendingAsrBackendReload_def)
qed

lemma view_dispatch [simp]: "view (DispatchSingleEvent env c e) = view c"
  by (cases "ev_kind e") (simp_all add: view_def emit_def)

lemma view_events [simp]: "view (ApplyRecognitionEvents env evs c) = view c"
  unfolding ApplyRecognitionEvents_def
  by (induction evs arbitrary: c) (simp_all del: DispatchSingleEvent.simps)

lemma view_Restore [simp]: "view (RestoreOutputIfDucked c) = (view c)\<lparr>vw_ducked := False\<rparr>"
  by (simp add: view_def RestoreOutputIfDucked_def)

lemma view_ResetRecording [simp]: "view (ResetRecordingState c) = view c"
  by (simp add: view_def ResetRecordingState_def)

lemma view_cancel_retire [simp]: "view (cancel_retire env s c) = view c"
  by (simp add: view_def cancel_retire_def)

lemma view_detach [simp]: "view (snd (detach_active c)) = (view c)\<lparr>vw_active := None\<rparr>"
  by (simp add: view_def detach_active_def DetachActive_def)

lemma view_updates [simp]:
  "view (c\<lparr>ct_machine := m\<rparr>) = (view c)\<lparr>vw_machine := m\<rparr>"
  "view (c\<lparr>ct_starting := b\<rparr>) = (view c)\<lparr>vw_starting := b\<rparr>"
  "view (c\<lparr>ct_accepting := b\<rparr>) = (view c)\<lparr>vw_accepting := b\<rparr>"
  "view (c\<lparr>ct_capture := p\<rparr>) = (view c)\<lparr>vw_capture := p\<rparr>"
  "view (c\<lparr>ct_order := o'\<rparr>) = (view c)\<lparr>vw_order := o'\<rparr>"
  "view (c\<lparr>ct_worker := w\<rparr>) = (view c)\<lparr>vw_worker := w\<rparr>"
  "view (c\<lparr>ct_pending_stop := b\<rparr>) = (view c)\<lparr>vw_pending_stop := b\<rparr>"
  "view (c\<lparr>ct_lifecycle := l\<rparr>) = (view c)\<lparr>vw_active := lm_active l\<rparr>"
  "view (c\<lparr>ct_ducker := d\<rparr>) = (view c)\<lparr>vw_ducked := du_logical_ducked d\<rparr>"
  "view (c\<lparr>ct_buffer := buf\<rparr>) = view c"
  "view (c\<lparr>ct_ime := b\<rparr>) = view c"
  "view (c\<lparr>ct_cancel_requested := b\<rparr>) = view c"
  "view (c\<lparr>ct_active_backend := d'\<rparr>) = view c"
  "view (c\<lparr>ct_latest_final := t\<rparr>) = view c"
  "view (c\<lparr>ct_next_session := i\<rparr>) = view c"
  "view (c\<lparr>ct_manager := man\<rparr>) = view c"
  by (simp_all add: view_def)

lemma view_fields [simp]:
  "vw_machine (view c) = ct_machine c" "vw_starting (view c) = ct_starting c"
  "vw_accepting (view c) = ct_accepting c" "vw_capture (view c) = ct_capture c"
  "vw_active (view c) = lm_active (ct_lifecycle c)"
  "vw_ducked (view c) = du_logical_ducked (ct_ducker c)" "vw_order (view c) = ct_order c"
  "vw_worker (view c) = ct_worker c" "vw_pending_stop (view c) = ct_pending_stop c"
  by (simp_all add: view_def)

lemma view_ResetToIdle [simp]:
  "view (ResetToIdle env loaded c) =
     (view c)\<lparr>vw_starting := False, vw_machine := rsm_Clear (ct_machine c), vw_order := None, vw_ducked := False\<rparr>"
  by (simp add: ResetToIdle_def Let_def OnResetToIdle_def)

section \<open>The invariant\<close>

text \<open>No session, no recording microphone, no lowered volume, no chunks accepted.\<close>

definition quiet :: "ctl_view \<Rightarrow> bool" where
  "quiet v \<longleftrightarrow> \<not> vw_accepting v \<and> vw_active v = None \<and> \<not> cap_recording (vw_capture v) \<and> \<not> vw_ducked v"

definition is_processing :: "worker_state \<Rightarrow> bool" where
  "is_processing w = (case w of WorkerProcessing _ _ \<Rightarrow> True | _ \<Rightarrow> False)"

text \<open>What each phase means for the rest of the state.\<close>

definition phase_inv :: "ctl_view \<Rightarrow> bool" where
  "phase_inv v =
     (case m_phase (vw_machine v) of
        Idle \<Rightarrow> quiet v \<and> vw_order v = None \<and> vw_worker v = WorkerIdle
      | Recording \<Rightarrow> vw_active v \<noteq> None \<and> vw_order v = None \<and> vw_worker v = WorkerIdle
      | Inferring \<Rightarrow> quiet v \<and> (vw_worker v = WorkerIdle \<longrightarrow> vw_order v \<noteq> None)
      | Postprocessing \<Rightarrow> quiet v \<and> is_processing (vw_worker v)
      | Error \<Rightarrow> quiet v \<and> vw_order v = None \<and> vw_worker v = WorkerIdle \<and> vw_pending_stop v)"

definition ctl_inv :: "('b, 's) controller \<Rightarrow> bool" where
  "ctl_inv c \<longleftrightarrow> rsm_inv (ct_machine c) \<and> \<not> ct_starting c \<and> cap_wf (ct_capture c) \<and> phase_inv (view c)"

text \<open>The invariant reads only the view.\<close>

definition view_inv :: "ctl_view \<Rightarrow> bool" where
  "view_inv v \<longleftrightarrow> rsm_inv (vw_machine v) \<and> \<not> vw_starting v \<and> cap_wf (vw_capture v) \<and> phase_inv v"

lemma ctl_inv_view: "ctl_inv c \<longleftrightarrow> view_inv (view c)"
  by (simp add: ctl_inv_def view_inv_def)

lemmas inv_simps = view_inv_def phase_inv_def quiet_def

lemma rsm_inv_Clear [simp]: "rsm_inv (rsm_Clear m)"
  by (simp add: rsm_inv_def rsm_Clear_def)

lemma phase_Clear [simp]: "m_phase (rsm_Clear m) = Idle"
  by (simp add: rsm_Clear_def)

lemma rsm_inv_handle: "rsm_inv m \<Longrightarrow> rsm_inv (snd (rsm_handle m e))"
  using rsm_step_inv [of m "Event e"] by simp

lemmas rsm_inv_ops =
  rsm_inv_handle [where e = "StartRecording b t" for b t, simplified]
  rsm_inv_handle [where e = "StopRecording n k" for n k, simplified]
  rsm_inv_handle [where e = "Cancel raw" for raw, simplified]
  rsm_inv_handle [where e = AudioError, simplified]
  rsm_inv_handle [where e = "InferenceComplete b" for b, simplified]

lemma Error_phase_op: "m_phase m = Recording \<Longrightarrow> m_phase (snd (OnAudioError m)) = Error"
  by (simp add: OnAudioError_def)

text \<open>A reset keeps the invariant when there is no recording left to lose.\<close>

lemma ResetToIdle_inv:
  assumes "cap_wf (ct_capture c)" and "quiet (view c)" and "ct_worker c = WorkerIdle"
  shows "ctl_inv (ResetToIdle env loaded c)"
  using assms by (simp add: ctl_inv_view inv_simps)

section \<open>The operations keep the invariant\<close>

lemma FailActiveSession_view:
  assumes "IsActiveSession (ct_lifecycle c) session"
  shows "view (snd (FailActiveSession env pw session msg c)) =
     (view c)\<lparr>vw_accepting := False, vw_active := None, vw_machine := snd (OnAudioError (ct_machine c)),
       vw_capture := EndRecording pw (ct_capture c), vw_ducked := False, vw_pending_stop := True\<rparr>"
proof -
  let ?c = "ResetRecordingState (c\<lparr>ct_accepting := False\<rparr>)"
  obtain s c1 where d: "detach_active ?c = (s, c1)" by (rule prod.exhaust)
  have "view c1 = (view c)\<lparr>vw_accepting := False, vw_active := None\<rparr>"
    using view_detach [of ?c] d by simp
  moreover from this have "ct_machine c1 = ct_machine c" "ct_capture c1 = ct_capture c"
    by (simp_all add: view_def)
  ultimately show ?thesis using assms d
    by (simp add: FailActiveSession_def Let_def ScheduleCaptureStop_def)
       (simp add: emit_def NotifyStatusChanged_def cancel_retire_def)
qed

lemma FailActiveSession_inv: "ctl_inv c \<Longrightarrow> ctl_inv (snd (FailActiveSession env pw session msg c))"
proof (cases "IsActiveSession (ct_lifecycle c) session")
  case True
  assume inv: "ctl_inv c"
  then have "m_phase (ct_machine c) = Recording" using True
    by (cases "m_phase (ct_machine c)") (auto simp: ctl_inv_view inv_simps IsActiveSession_def)
  with inv True show ?thesis
    using EndRecording_wf [of "ct_capture c" pw]
    by (simp add: ctl_inv_view FailActiveSession_view inv_simps rsm_inv_ops Error_phase_op)
qed (simp add: FailActiveSession_def)

lemma ctl_inv_frame:
  "view c' = view c \<Longrightarrow> ctl_inv c \<Longrightarrow> ctl_inv c'"
  by (simp add: ctl_inv_view)

lemma ctl_inv_lifecycle:
  "lm_active l = lm_active (ct_lifecycle c) \<Longrightarrow> ctl_inv c \<Longrightarrow> ctl_inv (c\<lparr>ct_lifecycle := l\<rparr>)"
  by (rule ctl_inv_frame) (simp_all add: view_def)

lemma ctl_inv_buffer [simp]: "ctl_inv (c\<lparr>ct_buffer := b\<rparr>) = ctl_inv c"
  by (simp add: ctl_inv_view)

declare push_loop.simps [simp del]

lemma push_loop_inv: "ctl_inv c \<Longrightarrow> ctl_inv (push_loop env pw session chunk c)"
proof (induction env pw session chunk c rule: push_loop.induct)
  case (1 env pw session chunk c)
  obtain pushed err l where p: "lm_PushAudio (ce_ops env) (ct_lifecycle c) session chunk = ((pushed, err), l)"
    by (metis prod.exhaust)
  have act: "lm_active l = lm_active (ct_lifecycle c)"
    using active_push [of "ce_ops env" "ct_lifecycle c" session chunk] p by simp
  have c1: "ctl_inv (c\<lparr>ct_lifecycle := l\<rparr>)" using act 1(2) by (rule ctl_inv_lifecycle)
  have c2: "ctl_inv (c\<lparr>ct_lifecycle := RetireSession l session\<rparr>)"
    by (rule ctl_inv_lifecycle [OF _ 1(2)]) (simp add: act)
  obtain r b where pop: "PopStreamingChunk (ct_buffer c) kStreamingChunkSamples = (r, b)" by (rule prod.exhaust)
  show ?case
  proof (cases "\<not> pushed \<or> err \<noteq> [] \<or> \<not> IsActiveSession l session \<or> r = None")
    case True
    then show ?thesis
      using c1 c2 p pop FailActiveSession_inv [OF c1, of env pw session err]
      by (subst push_loop.simps) (auto simp: Let_def)
  next
    case False
    then obtain next' where r: "r = Some next'" by auto
    have "ctl_inv (push_loop env pw session next' (c\<lparr>ct_lifecycle := l, ct_buffer := b\<rparr>))"
      using 1(1) [OF p [symmetric] refl refl _ _ pop [symmetric] r] False c1 by simp
    with False p pop r show ?thesis by (subst push_loop.simps) (simp add: Let_def)
  qed
qed

lemma HandleIncomingAudio_inv: "ctl_inv c \<Longrightarrow> ctl_inv (HandleIncomingAudio env pw pcm c)"
  by (auto simp: HandleIncomingAudio_def Let_def intro!: push_loop_inv split: prod.splits option.splits)

lemma capture_queue_inv [simp]:
  "ctl_inv (c\<lparr>ct_capture := (ct_capture c)\<lparr>cap_queue := q\<rparr>\<rparr>) = ctl_inv c"
  by (simp add: ctl_inv_view inv_simps cap_wf_def split: Status.splits)

lemma drain_chunks_inv: "ctl_inv c \<Longrightarrow> ctl_inv (drain_chunks env pw chs c)"
  by (induction chs arbitrary: c) (simp_all add: Let_def HandleIncomingAudio_inv)

lemma PollActive_inv:
  assumes "ctl_inv c"
  shows "ctl_inv (PollActiveSessionEvents env pw c)"
proof -
  let ?s = "lm_active (ct_lifecycle c)"
  obtain poll l where p: "PollSessionEvents (ce_ops env) (ce_failure_of env) (ct_lifecycle c) ?s = (poll, l)"
    by (rule prod.exhaust)
  have "lm_active l = ?s"
    using active_poll [of "ce_ops env" "ce_failure_of env" "ct_lifecycle c" ?s] p by simp
  then have "ctl_inv (c\<lparr>ct_lifecycle := l\<rparr>)" using assms by (rule ctl_inv_lifecycle)
  then have "ctl_inv (ApplyRecognitionEvents env (sp_events poll) (c\<lparr>ct_lifecycle := l\<rparr>))"
    by (simp add: ctl_inv_view del: view_updates)
  with p assms show ?thesis
    by (auto simp: PollActiveSessionEvents_def Let_def intro!: FailActiveSession_inv split: option.splits)
qed

text \<open>
  The flush is the way out of the error phase: it clears the pending stop, and an error without a
  running capture becomes idle.
\<close>

lemma Flush_teardown:
  assumes "ctl_inv c"
  shows "let phase = m_phase (ct_machine c) in
     (ct_starting c \<or> cap_recording (ct_capture c) \<or> phase = Recording \<or> phase = Inferring \<or> phase = Postprocessing)
       = (phase \<noteq> Idle \<and> phase \<noteq> Error)"
  using assms by (cases "m_phase (ct_machine c)") (auto simp: ctl_inv_view inv_simps Let_def)

lemma Flush_inv:
  assumes "ctl_inv c"
  shows "ctl_inv (FlushDeferredActions env pw loaded c)"
proof -
  let ?c1 = "c\<lparr>ct_lifecycle := snd (FlushReapedSessions (ct_lifecycle c))\<rparr>"
  define c2 where "c2 = PollActiveSessionEvents env pw (DrainIncomingAudio env pw ?c1)"
  have "ctl_inv ?c1" by (rule ctl_inv_lifecycle) (simp_all add: assms)
  then have c2: "ctl_inv c2"
    by (simp add: c2_def PollActive_inv DrainIncomingAudio_def drain_chunks_inv)
  let ?c3 = "c2\<lparr>ct_pending_stop := False\<rparr>"
  have eq: "FlushDeferredActions env pw loaded c =
      (if \<not> ct_pending_stop c2 then c2
       else if m_phase (ct_machine c2) \<noteq> Idle \<and> m_phase (ct_machine c2) \<noteq> Error
       then RestoreOutputIfDucked ?c3
       else ResetToIdle env loaded (RestoreOutputIfDucked
              (if StreamReuseEnabled pw then ?c3 else ?c3\<lparr>ct_capture := cap_Stop (ct_capture c2)\<rparr>)))"
    using Flush_teardown [OF c2]
    unfolding FlushDeferredActions_def Let_def c2_def by simp
  show ?thesis
  proof (cases "m_phase (ct_machine c2) \<noteq> Idle \<and> m_phase (ct_machine c2) \<noteq> Error")
    case True
    then show ?thesis using c2 unfolding eq
      by (cases "ct_pending_stop c2"; cases "m_phase (ct_machine c2)") (simp_all add: ctl_inv_view inv_simps)
  next
    case False
    then have "quiet (view c2)" "ct_worker c2 = WorkerIdle" "cap_wf (ct_capture c2)"
      using c2 by (cases "m_phase (ct_machine c2)"; simp add: ctl_inv_view inv_simps)+
    then show ?thesis using False c2 cap_Stop_wf [of "ct_capture c2"] unfolding eq
      by (auto intro!: ResetToIdle_inv simp: quiet_def RestoreOutputIfDucked_def)
  qed
qed

text \<open>The state while a start is in progress: idle apart from the armed buffer and the microphone.\<close>

definition armed :: "worker_state \<Rightarrow> RecognitionOrder option \<Rightarrow> ctl_view \<Rightarrow> bool" where
  "armed w o' v \<longleftrightarrow> rsm_inv (vw_machine v) \<and> m_phase (vw_machine v) = Idle \<and> vw_starting v \<and> vw_accepting v
     \<and> cap_wf (vw_capture v) \<and> vw_active v = None \<and> \<not> vw_ducked v \<and> vw_order v = o'
     \<and> vw_worker v = w"

lemma start_arm_facts:
  assumes "ctl_inv c" and "start_arm env pw loaded ime c = (r, c1)"
  shows "r \<noteq> None \<and> ctl_inv c1 \<or> r = None \<and> armed WorkerIdle None (view c1)"
proof -
  define c0 where "c0 = (if ct_pending_stop c then FlushDeferredActions env pw loaded c else c)"
  have inv: "ctl_inv c0" using assms(1) by (simp add: c0_def Flush_inv)
  have step: "(r, c1) = (if m_phase (ct_machine c0) \<noteq> Idle \<or> ct_starting c0 then (Some (busy_message env), c0)
      else (None, c0\<lparr>ct_pending_stop := False, ct_buffer := ab_Reset (ct_buffer c0) (Finite 1),
                     ct_ime := ime, ct_starting := True, ct_accepting := True\<rparr>))"
    using assms(2) unfolding start_arm_def Let_def c0_def by (rule sym)
  show ?thesis
  proof (cases "m_phase (ct_machine c0) \<noteq> Idle \<or> ct_starting c0")
    case True
    with step inv show ?thesis by simp
  next
    case False
    then have "armed WorkerIdle None ((view c0)\<lparr>vw_pending_stop := False, vw_starting := True, vw_accepting := True\<rparr>)"
      using inv by (simp add: armed_def ctl_inv_view inv_simps)
    with step False show ?thesis by simp
  qed
qed

lemma view_disarm [simp]: "view (disarm c) = (view c)\<lparr>vw_starting := False, vw_accepting := False\<rparr>"
  by (simp add: disarm_def)

text \<open>Giving up a start whose microphone is off restores the invariant.\<close>

lemma armed_disarm:
  assumes "armed WorkerIdle None (view c)" and "cap_wf cap" and "\<not> cap_recording cap"
  shows "ctl_inv (disarm (c\<lparr>ct_capture := cap\<rparr>))"
  using assms by (simp add: ctl_inv_view inv_simps armed_def)

lemma ctl_inv_schedule [simp]:
  "m_phase (ct_machine c) \<noteq> Error \<Longrightarrow> ctl_inv (ScheduleCaptureStop c) = ctl_inv c"
  by (cases "m_phase (ct_machine c)") (simp_all add: ScheduleCaptureStop_def ctl_inv_view inv_simps)

lemma ctl_inv_Restore: "ctl_inv c \<Longrightarrow> ctl_inv (RestoreOutputIfDucked c)"
  by (cases "m_phase (ct_machine c)") (simp_all add: ctl_inv_view inv_simps)

lemma start_open_facts:
  assumes "armed w o' (view c)" and "start_open env pw settings cmd dev c = (r, c1)"
  shows "r \<noteq> None \<and> (w = WorkerIdle \<and> o' = None \<longrightarrow> ctl_inv c1) \<or> r = None \<and> armed w o' (view c1)"
proof -
  let ?cap = "SetTargetObject (if dev = [] then cc_captureDevice settings else dev) (ct_capture c)"
  obtain e cap where b: "BeginRecording pw ?cap = (e, cap)" by (rule prod.exhaust)
  have "cap_wf ?cap" using assms(1) by (simp add: armed_def SetTargetObject_wf)
  then have cap: "cap_wf cap" "e \<noteq> None \<longrightarrow> \<not> cap_recording cap"
    using BeginRecording_wf [of ?cap pw] b by simp_all
  show ?thesis
  proof (cases e)
    case None
    with assms b cap show ?thesis by (auto simp: start_open_def armed_def Let_def)
  next
    case (Some x)
    with cap have "w = WorkerIdle \<and> o' = None \<longrightarrow> ctl_inv (disarm (c\<lparr>ct_capture := cap\<rparr>))"
      using assms(1) by (auto intro!: armed_disarm)
    with assms(2) b Some show ?thesis by (auto simp: start_open_def Let_def)
  qed
qed

lemma phase_of_view: "view c = v \<Longrightarrow> m_phase (ct_machine c) = m_phase (vw_machine v)"
  by auto

lemma disarm_machine [simp]: "ct_machine (disarm c) = ct_machine c"
  by (simp add: disarm_def)

lemma Restore_machine [simp]: "ct_machine (RestoreOutputIfDucked c) = ct_machine c"
  by (simp add: RestoreOutputIfDucked_def)

lemma start_session_facts:
  assumes "armed w o' (view c)" and "start_session env pw c = (r, c1)"
  shows "(\<exists>e. r = Inl e) \<and> (w = WorkerIdle \<and> o' = None \<longrightarrow> ctl_inv c1)
    \<or> (\<exists>d i. r = Inr (d, i)) \<and> armed w o' (view c1)"
proof (cases "CreateSession (ce_backend env) (ct_manager c)")
  case (Inl e)
  have cap: "cap_wf (EndRecording pw (ct_capture c))" "\<not> cap_recording (EndRecording pw (ct_capture c))"
    using assms(1) EndRecording_wf [of "ct_capture c" pw] by (simp_all add: armed_def)
  have "w = WorkerIdle \<and> o' = None \<longrightarrow> ctl_inv (ScheduleCaptureStop (RestoreOutputIfDucked
      (disarm (c\<lparr>ct_capture := EndRecording pw (ct_capture c)\<rparr>))))"
    using assms(1) armed_disarm [OF _ cap] by (auto simp: armed_def intro!: ctl_inv_Restore)
  with assms(2) Inl show ?thesis by (auto simp: start_session_def Let_def)
next
  case (Inr p)
  with assms show ?thesis by (cases p) (auto simp: start_session_def Let_def armed_def)
qed

lemma start_commit_view:
  assumes "armed w o' (view c)" and "start_commit env pw settings cmd sel d i c = (r, c1)"
  shows "r = None \<and> view c1 =
    (view c)\<lparr>vw_machine := snd (OnStartRecording (ct_machine c) cmd sel), vw_starting := False,
      vw_active := Some i, vw_order := None, vw_ducked := cc_duckOutputWhileRecording settings\<rparr>"
  using assms by (auto simp: start_commit_def armed_def Let_def)

lemma Start_parts:
  assumes "armed w o' (view c1)" and "start_arm env pw loaded ime c = (None, c1)"
    and "StartRecordingInternal env pw loaded ime cmd sel dev c = (r, c')"
  shows "r \<noteq> None \<and> (w = WorkerIdle \<and> o' = None \<longrightarrow> ctl_inv c')
    \<or> (\<exists>v i. r = None \<and> armed w o' v \<and> view c' =
        v\<lparr>vw_machine := snd (OnStartRecording (vw_machine v) cmd sel), vw_starting := False,
          vw_active := Some i, vw_order := None,
          vw_ducked := cc_duckOutputWhileRecording (NormalizeCoreConfig loaded)\<rparr>)"
proof -
  let ?st = "NormalizeCoreConfig loaded"
  obtain r2 c2 where s2: "start_open env pw ?st cmd dev c1 = (r2, c2)" by (rule prod.exhaust)
  show ?thesis
  proof (cases r2)
    case (Some e)
    with start_open_facts [OF assms(1) s2] assms(2,3) s2 show ?thesis
      by (auto simp: StartRecordingInternal_def Let_def)
  next
    case r2: None
    with start_open_facts [OF assms(1) s2] have a2: "armed w o' (view c2)" by simp
    obtain r3 c3 where s3: "start_session env pw c2 = (r3, c3)" by (rule prod.exhaust)
    show ?thesis
    proof (cases r3)
      case (Inl e)
      with start_session_facts [OF a2 s3] assms(2,3) s2 s3 r2 show ?thesis
        by (auto simp: StartRecordingInternal_def Let_def)
    next
      case (Inr p)
      then obtain d i where r3: "r3 = Inr (d, i)" by (cases p) simp
      with start_session_facts [OF a2 s3] have a3: "armed w o' (view c3)" by simp
      have "start_commit env pw ?st cmd sel d i c3 = (r, c')"
        using assms(2,3) s2 s3 r2 r3 by (simp add: StartRecordingInternal_def Let_def)
      from start_commit_view [OF a3 this] a3 show ?thesis
        by (intro disjI2 exI [of _ "view c3"] exI [of _ i]) simp
    qed
  qed
qed

lemma started_inv:
  assumes "armed WorkerIdle None v"
  shows "view_inv (v\<lparr>vw_machine := snd (OnStartRecording (vw_machine v) cmd sel), vw_starting := False,
      vw_active := Some i, vw_order := None, vw_ducked := b\<rparr>)"
  using assms by (simp add: armed_def inv_simps OnStartRecording_def rsm_inv_def)

lemma Start_inv:
  assumes "ctl_inv c" and "StartRecordingInternal env pw loaded ime cmd sel dev c = (r, c')"
  shows "ctl_inv c'"
proof -
  obtain r1 c1 where s1: "start_arm env pw loaded ime c = (r1, c1)" by (rule prod.exhaust)
  show ?thesis
  proof (cases r1)
    case (Some e)
    with start_arm_facts [OF assms(1) s1] assms(2) s1 show ?thesis
      by (auto simp: StartRecordingInternal_def)
  next
    case None
    with start_arm_facts [OF assms(1) s1] have a1: "armed WorkerIdle None (view c1)" by simp
    from s1 None have "start_arm env pw loaded ime c = (None, c1)" by simp
    from Start_parts [OF a1 this assms(2)] show ?thesis
    proof (elim disjE exE conjE)
      fix v i
      assume a3: "armed WorkerIdle None v" and v: "view c' =
        v\<lparr>vw_machine := snd (OnStartRecording (vw_machine v) cmd sel), vw_starting := False,
          vw_active := Some i, vw_order := None,
          vw_ducked := cc_duckOutputWhileRecording (NormalizeCoreConfig loaded)\<rparr>"
      show ?thesis unfolding ctl_inv_view v by (rule started_inv [OF a3])
    qed simp
  qed
qed

lemma MaybeApply_inv [simp]: "ctl_inv (MaybeApplyPendingAsrBackendReload env loaded c) = ctl_inv c"
  by (simp add: ctl_inv_view)

lemma cancel_retire_inv [simp]: "ctl_inv (cancel_retire env s c) = ctl_inv c"
  by (simp add: ctl_inv_view)

text \<open>Outside a start, a cancellation of a recording leaves an idle controller.\<close>

lemma Cancel_recording_view:
  assumes "\<not> ct_starting c" and "m_phase (ct_machine c) = Recording"
  shows "fst (CancelOperation env pw loaded ime raw c) = None
    \<and> view (snd (CancelOperation env pw loaded ime raw c)) =
        (view c)\<lparr>vw_machine := snd (OnCancel (ct_machine c) raw), vw_accepting := False, vw_active := None,
          vw_order := None, vw_capture := snd (StopAndGetBuffer pw (ct_capture c)), vw_ducked := False\<rparr>"
proof -
  obtain t m where t: "OnCancel (ct_machine c) raw = (t, m)" by (rule prod.exhaust)
  have props: "accepted t" "should_stop_capture t"
    using t assms(2) by (auto simp: rsm_op_defs)
  let ?c2 = "c\<lparr>ct_machine := m, ct_ime := ime\<rparr>"
  obtain s d where d: "detach_active (ResetRecordingState (?c2\<lparr>ct_accepting := False\<rparr>)) = (s, d)"
    by (rule prod.exhaust)
  have vd: "view d = (view c)\<lparr>vw_machine := m, vw_accepting := False, vw_active := None\<rparr>"
    using view_detach [of "ResetRecordingState (?c2\<lparr>ct_accepting := False\<rparr>)"] d by simp
  then have cap: "ct_capture d = ct_capture c" by (metis view_fields(4) ctl_view.select_convs(4)
      ctl_view.surjective ctl_view.update_convs(1,3,5))
  define c3 where "c3 = NotifyStatusChanged env (new_phase t) (d\<lparr>ct_order := None\<rparr>)"
  have c3: "ct_capture c3 = ct_capture c" by (simp add: c3_def NotifyStatusChanged_def emit_def cap)
  have v3: "view c3 = (view d)\<lparr>vw_order := None\<rparr>" by (simp add: c3_def)
  show ?thesis
    using assms(1) t props d c3 v3 vd
    by (simp add: CancelOperation_def Let_def c3_def [symmetric])
qed

lemma Cancel_other_view:
  assumes "\<not> ct_starting c" and "m_phase (ct_machine c) \<noteq> Recording"
  shows "view (snd (CancelOperation env pw loaded ime raw c)) =
     (view c)\<lparr>vw_machine := snd (OnCancel (ct_machine c) raw)\<rparr>"
proof -
  obtain t m where t: "OnCancel (ct_machine c) raw = (t, m)" by (rule prod.exhaust)
  have props: "\<not> should_stop_capture t" "accepted t \<or> ct_machine c = m"
    using t assms(2) by (auto simp: rsm_op_defs split: if_splits)
  show ?thesis
    using assms(1) t props
    by (cases "accepted t"; cases "should_commit_raw_text t \<or> should_discard_text t")
       (simp_all add: CancelOperation_def Let_def cancel_retire_def CancelAndRetireSession_def view_def)
qed

lemma OnCancel_phase:
  "m_phase (snd (OnCancel m raw)) = (if m_phase m = Recording then Idle else m_phase m)"
  by (auto simp: rsm_op_defs)

lemma Cancel_inv:
  assumes "ctl_inv c"
  shows "ctl_inv (snd (CancelOperation env pw loaded ime raw c))"
proof -
  have st: "\<not> ct_starting c" "rsm_inv (ct_machine c)" "cap_wf (ct_capture c)"
    using assms by (simp_all add: ctl_inv_def)
  show ?thesis
  proof (cases "m_phase (ct_machine c) = Recording")
    case True
    with assms st show ?thesis
      using StopAndGetBuffer_wf [of "ct_capture c" pw]
      by (simp add: ctl_inv_view Cancel_recording_view inv_simps OnCancel_phase rsm_inv_ops)
  next
    case False
    with assms st show ?thesis
      by (cases "m_phase (ct_machine c)")
         (simp_all add: ctl_inv_view Cancel_other_view inv_simps OnCancel_phase rsm_inv_ops)
  qed
qed

text \<open>The order that a stop hands to the worker.\<close>

definition stop_order ::
    "('b, 'x, 's) ctl_env \<Rightarrow> string \<Rightarrow> i16 list \<Rightarrow> ('b, 's) controller \<Rightarrow> RecognitionOrder" where
  "stop_order env scene_id pcm c =
     (let b = (if pcm = [] then ct_buffer c else ab_Append (ce_fe env) (ct_buffer c) pcm);
          d = ct_active_backend c
      in \<lparr>ro_audio_delivery_mode = audio_delivery_mode (bd_capabilities d),
          ro_session = lm_active (ct_lifecycle c), ro_backend = d,
          ro_pcm = (if UsesBufferedDelivery d then ab_buffered b else ab_streaming b),
          ro_request = \<lparr>pr_text = ct_latest_final c, pr_scene_id = scene_id,
            pr_is_command = m_is_command (ct_machine c), pr_selected_text = m_selected_text (ct_machine c)\<rparr>,
          ro_ime = ct_ime c\<rparr>)"

definition stop_total :: "('b, 'x, 's) ctl_env \<Rightarrow> i16 list \<Rightarrow> ('b, 's) controller \<Rightarrow> nat" where
  "stop_total env pcm c = ab_total (if pcm = [] then ct_buffer c else ab_Append (ce_fe env) (ct_buffer c) pcm)"

lemma stop_submit_view:
  assumes "m_phase (ct_machine c) = Recording" and "lm_active (ct_lifecycle c) \<noteq> None"
  shows "view (stop_submit env loaded scene pcm c) =
     (if stop_total env pcm c < kMinSamplesForRecognition
      then (view c)\<lparr>vw_machine := snd (AbortRecordingToIdle (ct_machine c) Recording True), vw_active := None,
             vw_order := None\<rparr>
      else (view c)\<lparr>vw_machine := (ct_machine c)\<lparr>m_phase := Inferring\<rparr>, vw_active := None,
             vw_order := Some (stop_order env scene pcm c)\<rparr>)"
proof -
  let ?b = "if pcm = [] then ct_buffer c else ab_Append (ce_fe env) (ct_buffer c) pcm"
  show ?thesis
  proof (cases "ab_total ?b < kMinSamplesForRecognition")
    case True
    with assms show ?thesis
      by (simp add: stop_submit_def stop_total_def HasActiveSession_def OnStopRecording_def
          AbortRecordingToIdle_def default_result_def detach_active_def DetachActive_def Let_def)
  next
    case False
    with assms show ?thesis
      by (cases "UsesBufferedDelivery (ct_active_backend c)")
         (simp_all add: stop_submit_def stop_total_def HasActiveSession_def OnStopRecording_def
          default_result_def detach_active_def DetachActive_def stop_order_def Let_def
          TakeBufferedPcm_def DrainStreamingTail_def)
  qed
qed

lemma Stop_view:
  assumes "ctl_inv c" and "m_phase (ct_machine c) = Recording"
    and "StopAndGetBuffer pw (ct_capture c) = (pcm, cap)"
  shows "view (snd (StopRecording_ctl env pw loaded ime scene c)) =
     (if stop_total env pcm c < kMinSamplesForRecognition
      then (view c)\<lparr>vw_machine := snd (AbortRecordingToIdle (ct_machine c) Recording True), vw_active := None,
             vw_order := None, vw_accepting := False, vw_capture := cap, vw_ducked := False\<rparr>
      else (view c)\<lparr>vw_machine := (ct_machine c)\<lparr>m_phase := Inferring\<rparr>, vw_active := None,
             vw_order := Some (stop_order env scene pcm (c\<lparr>ct_ime := ime\<rparr>)),
             vw_accepting := False, vw_capture := cap, vw_ducked := False\<rparr>)"
proof -
  let ?c = "RestoreOutputIfDucked (c\<lparr>ct_ime := ime, ct_accepting := False, ct_capture := cap\<rparr>)"
  have act: "lm_active (ct_lifecycle c) \<noteq> None" using assms(1,2) by (simp add: ctl_inv_view inv_simps)
  have frame: "ct_machine ?c = ct_machine c" "lm_active (ct_lifecycle ?c) = lm_active (ct_lifecycle c)"
    "stop_total env pcm ?c = stop_total env pcm c"
    "stop_order env scene pcm ?c = stop_order env scene pcm (c\<lparr>ct_ime := ime\<rparr>)"
    by (simp_all add: RestoreOutputIfDucked_def stop_total_def stop_order_def)
  show ?thesis
    using stop_submit_view [of ?c env loaded scene pcm] assms(2,3) act
    by (simp add: StopRecording_ctl_def frame del: Restore_machine)
qed

lemma Stop_inv:
  assumes "ctl_inv c"
  shows "ctl_inv (snd (StopRecording_ctl env pw loaded ime scene c))"
proof (cases "m_phase (ct_machine c) = Recording")
  case True
  obtain pcm cap where s: "StopAndGetBuffer pw (ct_capture c) = (pcm, cap)" by (rule prod.exhaust)
  have cap: "cap_wf cap" "\<not> cap_recording cap"
    using StopAndGetBuffer_wf [of "ct_capture c" pw] s assms by (simp_all add: ctl_inv_def)
  have m: "rsm_inv (snd (AbortRecordingToIdle (ct_machine c) Recording True))"
    "rsm_inv ((ct_machine c)\<lparr>m_phase := Inferring\<rparr>)"
    using assms True by (simp_all add: ctl_inv_def rsm_inv_def AbortRecordingToIdle_def)
  have ph: "m_phase (snd (AbortRecordingToIdle (ct_machine c) Recording True)) = Idle"
    by (simp add: AbortRecordingToIdle_def)
  show ?thesis
    using assms True cap m ph
    by (cases "stop_total env pcm c < kMinSamplesForRecognition")
       (simp_all add: ctl_inv_view Stop_view [OF assms True s] inv_simps)
qed (simp add: StopRecording_ctl_def assms)

lemma Reload_inv: "ctl_inv c \<Longrightarrow> ctl_inv (snd (ReloadAsrBackend env loaded c))"
  using view_SynchronizeAsr [of env loaded c]
  by (cases "SynchronizeAsrBackend env loaded c"; cases "fst (SynchronizeAsrBackend env loaded c)")
     (simp_all add: ReloadAsrBackend_def ctl_inv_view)

lemma audio_inv:
  "ctl_inv c \<Longrightarrow> ctl_inv (c\<lparr>ct_capture := processCallback room pcm (ct_capture c)\<rparr>)"
  using enqueue_frame [of room pcm "ct_capture c"]
  by (cases "m_phase (ct_machine c)")
     (simp_all add: ctl_inv_view inv_simps processCallback_def cap_wf_def)

lemma takes_inv: "ctl_inv c \<Longrightarrow> ctl_inv (worker_takes c)"
  by (cases "m_phase (ct_machine c)"; cases "ct_worker c"; cases "ct_order c")
     (simp_all add: worker_takes_def ctl_inv_view inv_simps is_processing_def)

lemma Inject_direct_inv:
  "ctl_inv c \<Longrightarrow> stage = StagePartial \<or> scene = [] \<Longrightarrow> ctl_inv (snd (InjectText env ime stage t scene c))"
  by (auto simp: InjectText_def ctl_inv_view Let_def)

lemma InferenceComplete_phase:
  "m_phase m = Inferring \<Longrightarrow> m_phase (snd (OnInferenceComplete m True)) = Postprocessing"
  by (simp add: OnInferenceComplete_def)

lemma busy_quiet:
  assumes "ctl_inv c" and "ct_worker c \<noteq> WorkerIdle"
  shows "quiet (view c) \<and> (m_phase (ct_machine c) = Inferring
    \<or> m_phase (ct_machine c) = Postprocessing \<and> is_processing (ct_worker c))"
  using assms by (cases "m_phase (ct_machine c)") (simp_all add: ctl_inv_view inv_simps)

lemma EnterPostprocessing_view:
  "view (EnterPostprocessing env c) = (view c)\<lparr>vw_machine := snd (OnInferenceComplete (ct_machine c) True)\<rparr>"
  by (simp add: EnterPostprocessing_def split: prod.splits)

lemma pipeline_inv:
  assumes "rsm_inv (ct_machine c)" and "m_phase (ct_machine c) = Inferring" and "quiet (view c)"
    and "\<not> ct_starting c" and "cap_wf (ct_capture c)"
  shows "ctl_inv (worker_pipeline env settings o' c)"
  using assms
  by (cases "rpr_entered (pipeline_Process (ce_pp env) (ro_request o') settings)")
     (simp_all add: worker_pipeline_def Let_def ctl_inv_view inv_simps EnterPostprocessing_view
       InferenceComplete_phase rsm_inv_ops is_processing_def)

lemma active_worker_push [simp]: "lm_active (snd (worker_push env settings o' l)) = lm_active l"
  by (simp add: worker_push_def case_prod_beta)

text \<open>A worker round that ends early resets the controller.\<close>

lemma round_reset_inv:
  assumes "cap_wf (ct_capture c)" and "quiet (view c)"
  shows "ctl_inv ((ResetToIdle env loaded c)\<lparr>ct_worker := WorkerIdle\<rparr>)"
  using assms by (simp add: ctl_inv_view inv_simps)

lemma recognizes_cases:
  assumes "ct_worker c = WorkerTook o'"
  shows "\<exists>c1 o1 l. lm_active l = lm_active (ct_lifecycle c) \<and> view c1 = view (c\<lparr>ct_lifecycle := l\<rparr>)
    \<and> (worker_recognizes env loaded c = (ResetToIdle env loaded c1)\<lparr>ct_worker := WorkerIdle\<rparr>
       \<or> worker_recognizes env loaded c = worker_pipeline env (NormalizeCoreConfig loaded) o1 c1
       \<or> (\<exists>what. worker_recognizes env loaded c = worker_exception env loaded what c1))"
proof (cases "ro_session o' = None")
  case True
  with assms have "worker_recognizes env loaded c = worker_pipeline env (NormalizeCoreConfig loaded) o' c"
    by (simp add: worker_recognizes_def Let_def)
  moreover have "view c = view (c\<lparr>ct_lifecycle := ct_lifecycle c\<rparr>)" by simp
  ultimately show ?thesis by blast
next
  case False
  then obtain i where i: "ro_session o' = Some i" by auto
  let ?st = "NormalizeCoreConfig loaded"
  obtain e l where p: "worker_push env ?st o' (ct_lifecycle c) = (e, l)" by (rule prod.exhaust)
  have l: "lm_active l = lm_active (ct_lifecycle c)"
    using active_worker_push [of env ?st o' "ct_lifecycle c"] p by simp
  show ?thesis
  proof (cases e)
    case (Some what)
    with assms i p have "worker_recognizes env loaded c = worker_exception env loaded what (c\<lparr>ct_lifecycle := l\<rparr>)"
      by (simp add: worker_recognizes_def Let_def)
    with l show ?thesis by blast
  next
    case None
    obtain result l' where f: "FinishSessionAndCollectResult (ce_ops env) l (ro_session o') = (result, l')"
      by (rule prod.exhaust)
    have l': "lm_active l' = lm_active (ct_lifecycle c)"
      using active_finish [of "ce_ops env" l "ro_session o'"] f l by simp
    let ?c1 = "c\<lparr>ct_lifecycle := l'\<rparr>"
    let ?o1 = "o'\<lparr>ro_pcm := [], ro_session := None\<rparr>"
    have eq: "worker_recognizes env loaded c =
      (if \<not> rr_ok result \<or> rr_error result \<noteq> [] then
         (ResetToIdle env loaded (emit [DesktopNotification
            (if rr_error result = [] then ''Failed to finish recognition session.'' else rr_error result)] ?c1))
            \<lparr>ct_worker := WorkerIdle\<rparr>
       else if rr_text result \<noteq> [] then
         worker_pipeline env ?st (?o1\<lparr>ro_request := (ro_request ?o1)\<lparr>pr_text := rr_text result\<rparr>\<rparr>)
           (emit (partial_outputs env (rr_text result) (ro_ime ?o1)) ?c1)
       else worker_pipeline env ?st ?o1 ?c1)"
      using assms i p None f by (simp add: worker_recognizes_def Let_def)
    have e1: "view (emit xs ?c1) = view ?c1" for xs by simp
    show ?thesis unfolding eq using l' e1
      by (cases "\<not> rr_ok result \<or> rr_error result \<noteq> []"; cases "rr_text result \<noteq> []")
         (simp only: if_True if_False simp_thms; blast)+
  qed
qed

lemma exception_inv:
  assumes "cap_wf (ct_capture c)" and "quiet (view c)"
  shows "ctl_inv (worker_exception env loaded what c)"
  using assms by (simp add: worker_exception_def ctl_inv_view inv_simps)

lemma recognizes_inv:
  assumes "ctl_inv c"
  shows "ctl_inv (worker_recognizes env loaded c)"
proof (cases "ct_worker c")
  case (WorkerTook o')
  from busy_quiet [OF assms] WorkerTook
  have q: "quiet (view c)" "m_phase (ct_machine c) = Inferring" by (simp_all add: is_processing_def)
  have st: "rsm_inv (ct_machine c)" "\<not> ct_starting c" "cap_wf (ct_capture c)"
    using assms by (simp_all add: ctl_inv_def)
  from recognizes_cases [OF WorkerTook, of env loaded] obtain c1 o1 l
    where l: "lm_active l = lm_active (ct_lifecycle c)" and v: "view c1 = view (c\<lparr>ct_lifecycle := l\<rparr>)"
      and step: "worker_recognizes env loaded c = (ResetToIdle env loaded c1)\<lparr>ct_worker := WorkerIdle\<rparr>
       \<or> worker_recognizes env loaded c = worker_pipeline env (NormalizeCoreConfig loaded) o1 c1
       \<or> (\<exists>what. worker_recognizes env loaded c = worker_exception env loaded what c1)" by blast
  have v1: "view c1 = view c" using v l by (simp add: view_def)
  then have f: "ct_machine c1 = ct_machine c" "ct_capture c1 = ct_capture c" "ct_starting c1 = ct_starting c"
    by (metis view_fields)+
  have q1: "quiet (view c1)" using q v1 by simp
  show ?thesis using step
    by (elim disjE exE; simp only:)
       (use st q q1 f in \<open>auto intro!: round_reset_inv pipeline_inv exception_inv\<close>)
qed (simp_all add: worker_recognizes_def assms)

lemma delivers_inv:
  assumes "ctl_inv c"
  shows "ctl_inv (worker_delivers env pp loaded c)"
proof (cases "ct_worker c")
  case (WorkerProcessing o' settings)
  then have "quiet (view c)" using busy_quiet [OF assms] by simp
  moreover have "cap_wf (ct_capture c)" using assms by (simp add: ctl_inv_def)
  ultimately show ?thesis using WorkerProcessing
    by (auto simp: worker_delivers_def TakePostprocessingState_def Let_def quiet_def intro!: round_reset_inv)
qed (simp_all add: worker_delivers_def assms)

section \<open>Runs\<close>

text \<open>
  The calls of the main loop, the audio thread, the worker, the reload thread and the ducker's thread.
  An injected text that asks for a scene is not among them; what it does to the worker is shown
  separately below.
\<close>

datatype ('ctx, 'b) ctl_event =
    EvStart pw_env CoreConfig bool bool string string
  | EvStop pw_env CoreConfig bool string
  | EvCancel pw_env CoreConfig bool bool
  | EvFlush pw_env CoreConfig
  | EvReload CoreConfig
  | EvInject bool InjectStage string
  | EvAudio "nat \<Rightarrow> bool" "i16 list"
  | EvTake
  | EvRecognize CoreConfig
  | EvDeliver pp_env CoreConfig
  | EvReloadTake
  | EvReloadLoaded "('ctx, 'b) factory"
  | EvDuckerTake
  | EvDuckerProcess wp_env

fun ctl_step :: "('b, 'x, 's) ctl_env \<Rightarrow> ('b, 's) controller \<Rightarrow> ('ctx, 'b) ctl_event \<Rightarrow> ('b, 's) controller" where
  "ctl_step env c (EvStart pw loaded ime cmd sel dev) = snd (StartRecordingInternal env pw loaded ime cmd sel dev c)"
| "ctl_step env c (EvStop pw loaded ime scene) = snd (StopRecording_ctl env pw loaded ime scene c)"
| "ctl_step env c (EvCancel pw loaded ime raw) = snd (CancelOperation env pw loaded ime raw c)"
| "ctl_step env c (EvFlush pw loaded) = FlushDeferredActions env pw loaded c"
| "ctl_step env c (EvReload loaded) = snd (ReloadAsrBackend env loaded c)"
| "ctl_step env c (EvInject ime stage t) = snd (InjectText env ime stage t [] c)"
| "ctl_step env c (EvAudio room pcm) = c\<lparr>ct_capture := processCallback room pcm (ct_capture c)\<rparr>"
| "ctl_step env c EvTake = worker_takes c"
| "ctl_step env c (EvRecognize loaded) = worker_recognizes env loaded c"
| "ctl_step env c (EvDeliver pp loaded) = worker_delivers env pp loaded c"
| "ctl_step env c EvReloadTake = c\<lparr>ct_manager := worker_take (ct_manager c)\<rparr>"
| "ctl_step env c (EvReloadLoaded fa) =
     c\<lparr>ct_manager := worker_loaded (ce_to_text env) (ce_backend env) fa (ct_manager c)\<rparr>"
| "ctl_step env c EvDuckerTake = c\<lparr>ct_ducker := ducker_take (ct_ducker c)\<rparr>"
| "ctl_step env c (EvDuckerProcess wp) = c\<lparr>ct_ducker := snd (ducker_process wp (ct_ducker c))\<rparr>"

text \<open>A controller after construction, with its capture loop running and the worker started.\<close>

definition new_controller :: "(sid \<Rightarrow> 's) \<Rightarrow> 'b manager \<Rightarrow> ('b, 's) controller" where
  "new_controller store m =
     \<lparr>ct_machine = initial_machine, ct_cancel_requested = False, ct_order = None, ct_worker = WorkerIdle,
      ct_lifecycle = lm_init store True, ct_active_backend = default_descriptor,
      ct_buffer = \<lparr>ab_gain = Finite 1, ab_is_buffered = False, ab_is_activated = False, ab_startup = [],
        ab_buffered = [], ab_streaming = [], ab_total = 0\<rparr>,
      ct_latest_final = [], ct_starting = False, ct_pending_reload = False, ct_ime = True,
      ct_pending_stop = False, ct_accepting = False, ct_worker_running = True,
      ct_capture = new_capture\<lparr>cap_loop := True\<rparr>, ct_ducker = new_ducker, ct_manager = m,
      ct_next_session = 0, ct_out = []\<rparr>"

lemma ducker_thread_logical [simp]:
  "du_logical_ducked (ducker_take d) = du_logical_ducked d"
  "du_logical_ducked (snd (ducker_process wp d)) = du_logical_ducked d"
  by (auto simp: ducker_take_def ducker_process_def ProcessDuck_def ProcessRestore_def Let_def
      split: option.splits list.splits DuckerTask.splits)

lemma ctl_inv_ducker:
  "du_logical_ducked d = du_logical_ducked (ct_ducker c) \<Longrightarrow> ctl_inv c \<Longrightarrow> ctl_inv (c\<lparr>ct_ducker := d\<rparr>)"
  by (rule ctl_inv_frame) (simp_all add: view_def)

lemma ctl_step_inv: "ctl_inv c \<Longrightarrow> ctl_inv (ctl_step env c e)"
proof (cases e)
  case (EvStart pw loaded ime cmd sel dev)
  then show "ctl_inv c \<Longrightarrow> ctl_inv (ctl_step env c e)"
    using Start_inv [of c env pw loaded ime cmd sel dev]
    by (cases "StartRecordingInternal env pw loaded ime cmd sel dev c") simp
qed (simp_all add: Stop_inv Cancel_inv Flush_inv Reload_inv Inject_direct_inv audio_inv takes_inv
      recognizes_inv delivers_inv ctl_inv_ducker ctl_inv_frame [of "c\<lparr>ct_manager := m\<rparr>" c for m])

lemma new_controller_inv: "ctl_inv (new_controller store m)"
  by (simp add: new_controller_def ctl_inv_view view_def inv_simps rsm_inv_def initial_machine_def cap_wf_def
      new_capture_def lm_init_def new_ducker_def)

interpretation ctl: invariant_machine "ctl_step env" "new_controller store m" ctl_inv for env store m
proof unfold_locales
  show "ctl_inv (new_controller store m)" by (rule new_controller_inv)
  show "ctl_inv c \<Longrightarrow> ctl_inv (ctl_step env c e)" for c e by (rule ctl_step_inv)
qed

section \<open>An example\<close>

text \<open>A daemon whose recogniser is a batch program that answers every recording with the same text.\<close>

definition example_env :: "(CommandAsr, batch_session, CommandAsr \<times> batch_session option) ctl_env" where
  "example_env =
     \<lparr>ce_fe = exact_env, ce_ops = keeping_ops (batch_ops example_batch),
      ce_push_float = PushAudio_float exact_env (keeping_ops (batch_ops example_batch)),
      ce_failure_of = (\<lambda>(b, s). case s of None \<Rightarrow> None | Some x \<Rightarrow> None), ce_to_text = (\<lambda>_. []),
      ce_write_text = (\<lambda>_. None), ce_emit_payload = (\<lambda>_. None),
      ce_backend = \<lparr>bo_Describe = batch_Describe, bo_CreateSession = (\<lambda>p. Inr (new_batch_session p None))\<rparr>,
      ce_make_session = (\<lambda>mode p. p), ce_pp = offline_env, ce_tr = (\<lambda>s. s)\<rparr>"

definition example_daemon :: "(CommandAsr, CommandAsr \<times> batch_session option) controller" where
  "example_daemon = new_controller (\<lambda>_. (example_provider, None))
     (new_manager\<lparr>rm_effective_backend := Some example_provider,
        rm_effective_descriptor := batch_Describe example_provider, rm_has_effective_descriptor := True\<rparr>)"

definition ready_pw :: pw_env where
  "ready_pw = \<lparr>pw_create = (\<lambda>_. None), pw_activate = (\<lambda>_. None), pw_reuse = None, pw_idle_destroy = None, pw_now = 0\<rparr>"

definition example_start :: "(unit, CommandAsr) ctl_event" where
  "example_start = EvStart ready_pw default_config True False [] []"

lemma example_starts:
  "\<exists>c. StartRecordingInternal example_env ready_pw default_config True False [] [] example_daemon = (None, c)
     \<and> cap_recording (ct_capture c) \<and> m_phase (ct_machine c) = Recording
     \<and> rm_effective_backend (ct_manager c) = Some example_provider"
  by (simp add: StartRecordingInternal_def start_arm_def start_open_def start_session_def start_commit_def
      example_daemon_def new_controller_def initial_machine_def example_env_def ready_pw_def
      BeginRecording_def StreamReuseEnabled_def CanReuseStream_def create_and_activate_def CreateStream_def
      SetStreamActive_def DestroyStream_def SetTargetObject_def new_capture_def CreateSession_def
      OnStartRecording_def NotifyStatusChanged_def emit_def Let_def)

section \<open>Properties\<close>

text \<open>
  C1: In every run of the daemon in which no client injects a text for a scene, the phase agrees with the
  rest of the controller: a session is active
  exactly while recording; the microphone records, chunks are accepted and the output volume is lowered
  at most while recording; an order or a busy worker exists exactly while inferring or post-processing,
  so the worker has never more than one request; and in the error phase a cleanup is scheduled.
\<close>

theorem controller_invariant:
  "let c = foldl (ctl_step env) (new_controller store m) es; phase = m_phase (ct_machine c) in
     rsm_inv (ct_machine c) \<and> \<not> ct_starting c
     \<and> (HasActiveSession (ct_lifecycle c) \<longleftrightarrow> phase = Recording)
     \<and> (phase = Recording \<or> \<not> ct_accepting c \<and> \<not> cap_recording (ct_capture c) \<and> \<not> du_logical_ducked (ct_ducker c))
     \<and> ((ct_order c \<noteq> None \<or> ct_worker c \<noteq> WorkerIdle) \<longleftrightarrow> phase \<in> {Inferring, Postprocessing})
     \<and> (phase \<noteq> Error \<or> ct_pending_stop c)"
proof -
  have "ctl_inv (foldl (ctl_step env) (new_controller store m) es)" by (rule ctl.run_inv)
  then show ?thesis unfolding Let_def HasActiveSession_def
    by (cases "m_phase (ct_machine (foldl (ctl_step env) (new_controller store m) es))")
       (auto simp: ctl_inv_view inv_simps is_processing_def)
qed

theorem controller_invariant_witness:
  "HasActiveSession (ct_lifecycle (foldl (ctl_step example_env) example_daemon [example_start]))
   \<and> ct_worker (foldl (ctl_step example_env) example_daemon [example_start]) = WorkerIdle"
proof -
  from example_starts have "m_phase (ct_machine (foldl (ctl_step example_env) example_daemon [example_start])) = Recording"
    by (auto simp: example_start_def)
  then show ?thesis
    using controller_invariant [of example_env "\<lambda>_. (example_provider, None)"
        "new_manager\<lparr>rm_effective_backend := Some example_provider,
          rm_effective_descriptor := batch_Describe example_provider, rm_has_effective_descriptor := True\<rparr>"
        "[example_start]", folded example_daemon_def]
    by (simp add: Let_def del: foldl_Cons)
qed

lemma reset_phase [simp]: "m_phase (ct_machine (ResetToIdle env loaded c)) = Idle"
  using phase_of_view [OF view_ResetToIdle [of env loaded c]] by simp

lemma Flush_error_to_idle:
  assumes "ctl_inv c" and "m_phase (ct_machine c) \<noteq> Recording"
  shows "m_phase (ct_machine (FlushDeferredActions env pw loaded c)) =
      (if m_phase (ct_machine c) = Error then Idle else m_phase (ct_machine c))"
proof -
  have q: "quiet (view c)"
    using assms by (cases "m_phase (ct_machine c)") (simp_all add: ctl_inv_view inv_simps)
  let ?c1 = "c\<lparr>ct_lifecycle := snd (FlushReapedSessions (ct_lifecycle c))\<rparr>"
  have same: "PollActiveSessionEvents env pw (DrainIncomingAudio env pw ?c1) = ?c1"
    using q assms(2) by (simp add: quiet_def PollActiveSessionEvents_def DrainIncomingAudio_def)
  show ?thesis
    using assms q unfolding FlushDeferredActions_def Let_def same
    by (cases "m_phase (ct_machine c)"; cases "ct_pending_stop c")
       (simp_all add: ctl_inv_view inv_simps)
qed

lemma takes_busy:
  assumes "ctl_inv c" and "m_phase (ct_machine c) \<in> {Inferring, Postprocessing}"
  shows "ct_worker (worker_takes c) \<noteq> WorkerIdle"
  using assms
  by (cases "m_phase (ct_machine c)"; cases "ct_worker c"; cases "ct_order c")
     (simp_all add: worker_takes_def ctl_inv_view inv_simps is_processing_def)

lemma recognizes_busy:
  assumes "ct_worker c \<noteq> WorkerIdle"
  shows "m_phase (ct_machine (worker_recognizes env loaded c)) = Idle
    \<or> is_processing (ct_worker (worker_recognizes env loaded c))"
proof (cases "ct_worker c")
  case (WorkerTook o')
  from recognizes_cases [OF WorkerTook, of env loaded] show ?thesis
  proof (elim exE conjE disjE)
    fix c1 o1 l
    assume "worker_recognizes env loaded c = worker_pipeline env (NormalizeCoreConfig loaded) o1 c1"
    then show ?thesis by (simp add: worker_pipeline_def is_processing_def Let_def)
  qed (simp_all add: worker_exception_def)
qed (use assms in \<open>simp_all add: worker_recognizes_def is_processing_def\<close>)

lemma delivers_phase:
  "m_phase (ct_machine c) = Idle \<Longrightarrow> m_phase (ct_machine (worker_delivers env pp loaded c)) = Idle"
  "is_processing (ct_worker c) \<Longrightarrow> m_phase (ct_machine (worker_delivers env pp loaded c)) = Idle"
  by (cases "ct_worker c"; simp add: worker_delivers_def is_processing_def Let_def split: prod.splits)+

lemma idle_worker:
  "ctl_inv c \<Longrightarrow> m_phase (ct_machine c) = Idle \<Longrightarrow> worker_recognizes env loaded (worker_takes c) = c"
  by (simp add: ctl_inv_view inv_simps worker_takes_def worker_recognizes_def)

lemma worker_round:
  assumes "ctl_inv c" and "m_phase (ct_machine c) \<in> {Idle, Inferring, Postprocessing}"
  shows "m_phase (ct_machine
    (worker_delivers env pp loaded' (worker_recognizes env loaded (worker_takes c)))) = Idle"
proof (cases "m_phase (ct_machine c) = Idle")
  case True
  with assms show ?thesis by (simp add: idle_worker delivers_phase)
next
  case False
  with assms have "ct_worker (worker_takes c) \<noteq> WorkerIdle" by (intro takes_busy) auto
  from recognizes_busy [OF this, of env loaded] show ?thesis by (auto intro: delivers_phase)
qed

text \<open>
  C10: From every state such a run can reach, the daemon comes back to rest: a cancellation, a flush of the main
  loop and one round of the worker end in the idle phase, with no session, no order, the microphone
  off and the output volume restored.
\<close>

theorem controller_recovers:
  fixes env :: "('b, 'x, 's) ctl_env" and es :: "('ctx, 'b) ctl_event list"
  shows "let c = foldl (ctl_step env) (new_controller store m) es;
       c' = foldl (ctl_step env) c
              [EvCancel pw loaded ime raw, EvFlush pw' loaded', EvTake, EvRecognize loaded2,
               EvDeliver pp loaded3 :: ('ctx, 'b) ctl_event] in
     m_phase (ct_machine c') = Idle \<and> \<not> HasActiveSession (ct_lifecycle c') \<and> ct_order c' = None
     \<and> ct_worker c' = WorkerIdle \<and> \<not> cap_recording (ct_capture c') \<and> \<not> ct_accepting c'
     \<and> \<not> du_logical_ducked (ct_ducker c')"
proof -
  define c where "c = foldl (ctl_step env) (new_controller store m) es"
  have c: "ctl_inv c" unfolding c_def by (rule ctl.run_inv)
  define c1 where "c1 = snd (CancelOperation env pw loaded ime raw c)"
  have c1: "ctl_inv c1" unfolding c1_def by (rule Cancel_inv [OF c])
  have st: "\<not> ct_starting c" using c by (simp add: ctl_inv_def)
  have p1: "m_phase (ct_machine c1) = (if m_phase (ct_machine c) = Recording then Idle else m_phase (ct_machine c))"
  proof (cases "m_phase (ct_machine c) = Recording")
    case True
    have "ct_machine c1 = snd (OnCancel (ct_machine c) raw)"
      using Cancel_recording_view [OF st True, of env pw loaded ime raw, THEN conjunct2, THEN arg_cong, of vw_machine]
      by (simp add: c1_def)
    then show ?thesis by (simp add: OnCancel_phase)
  next
    case False
    have "ct_machine c1 = snd (OnCancel (ct_machine c) raw)"
      using Cancel_other_view [OF st False, of env pw loaded ime raw, THEN arg_cong, of vw_machine]
      by (simp add: c1_def)
    then show ?thesis by (simp add: OnCancel_phase)
  qed
  define c2 where "c2 = FlushDeferredActions env pw' loaded' c1"
  have c2: "ctl_inv c2" unfolding c2_def by (rule Flush_inv [OF c1])
  have "m_phase (ct_machine c2) \<in> {Idle, Inferring, Postprocessing}"
    unfolding c2_def using Flush_error_to_idle [OF c1, of env pw' loaded'] p1
    by (cases "m_phase (ct_machine c)") simp_all
  from worker_round [OF c2 this, of env pp loaded3 loaded2]
  have idle: "m_phase (ct_machine (worker_delivers env pp loaded3
      (worker_recognizes env loaded2 (worker_takes c2)))) = Idle" (is "m_phase (ct_machine ?d) = Idle") .
  have "ctl_inv ?d" by (intro delivers_inv recognizes_inv takes_inv c2)
  with idle show ?thesis
    by (simp add: c_def [symmetric] c1_def [symmetric] c2_def [symmetric] HasActiveSession_def ctl_inv_view inv_simps)
qed

end
