(* ===== verification/Controller_Delivery.thy ===== *)
theory Controller_Delivery
  imports Controller_Runs
begin

text \<open>
  What the worker delivers after a cancellation of the post-processing, and what happens to texts
  that clients inject for a scene: these are queued like recordings, but the phase stays idle.
\<close>

section \<open>Delivery\<close>

lemma view_eqD:
  "view c = v \<Longrightarrow> ct_machine c = vw_machine v \<and> ct_accepting c = vw_accepting v \<and> ct_capture c = vw_capture v
     \<and> lm_active (ct_lifecycle c) = vw_active v \<and> ct_worker c = vw_worker v"
  by auto

lemma MaybeApply_no_reload: "\<not> ct_pending_reload c \<Longrightarrow> MaybeApplyPendingAsrBackendReload env loaded c = c"
  by (simp add: MaybeApplyPendingAsrBackendReload_def)

lemma ResetToIdle_out:
  "\<not> ct_pending_reload c \<Longrightarrow> ct_out (ResetToIdle env loaded c) = ct_out c @ status_outputs env Idle (ct_ime c)"
  by (simp add: ResetToIdle_def Let_def MaybeApply_no_reload emit_def RestoreOutputIfDucked_def
      ResetRecordingState_def)

lemma delivers_out:
  assumes "ct_worker c = WorkerProcessing o' settings" and "\<not> ct_pending_reload c"
  shows "ct_out (worker_delivers env pp loaded c) =
     ct_out c
     @ result_outputs env (apply_postprocessing_action (m_postprocessing_state (ct_machine c))
          (pr_text (ro_request o')) (pipeline_Process pp (ro_request o') settings)) (ro_ime o')
     @ status_outputs env Idle (ct_ime c)"
  using assms
  by (simp add: worker_delivers_def TakePostprocessingState_def Let_def ResetToIdle_out emit_def)

text \<open>An accepted cancellation of the post-processing only notes the wish.\<close>

lemma Cancel_postprocessing:
  assumes "\<not> ct_starting c" and "m_phase (ct_machine c) = Postprocessing"
    and "accepted (fst (OnCancel (ct_machine c) raw))"
  shows "CancelOperation env pw loaded ime raw c =
     (None, c\<lparr>ct_machine := (ct_machine c)\<lparr>m_postprocessing_state := (if raw then CommitRaw else Discard)\<rparr>,
              ct_ime := ime, ct_cancel_requested := True\<rparr>)"
  using assms
  by (cases raw)
     (auto simp: CancelOperation_def Let_def rsm_op_defs cancel_retire_def CancelAndRetireSession_def
       split: if_splits)

text \<open>
  An accepted cancellation during post-processing decides the result, whatever the language model
  still returns: with \<open>commit_raw\<close> the recognised text itself is committed as the only candidate,
  otherwise an empty result is signalled and no client sees a commit; errors of the post-processing
  are not shown. The daemon is idle afterwards.
\<close>

theorem cancel_decides_result:
  assumes "\<not> ct_starting c" and "m_phase (ct_machine c) = Postprocessing"
    and "ct_worker c = WorkerProcessing o' settings"
    and "accepted (fst (OnCancel (ct_machine c) raw))" and "\<not> ct_pending_reload c"
    and "pr_text (ro_request o') \<noteq> []"
  shows "let t = pr_text (ro_request o');
       payload = (if raw then \<lparr>pl_commitText = t, pl_candidates = [\<lparr>cd_text = t, cd_source = kSourceRaw\<rparr>]\<rparr>
                  else empty_payload);
       c' = worker_delivers env pp loaded (snd (CancelOperation env pw loaded ime raw c))
     in ct_out c' = ct_out c
          @ (if ro_ime o' then [RecognitionResult (result_Serialize (ce_emit_payload env) payload)] else [])
          @ (if raw then [Broadcast (SerializeCommittedEvent (ce_write_text env) payload (ro_ime o'))] else [])
          @ status_outputs env Idle ime
        \<and> m_phase (ct_machine c') = Idle"
proof -
  note cancel = Cancel_postprocessing [OF assms(1,2,4), of env pw loaded ime]
  let ?c = "c\<lparr>ct_machine := (ct_machine c)\<lparr>m_postprocessing_state := (if raw then CommitRaw else Discard)\<rparr>,
              ct_ime := ime, ct_cancel_requested := True\<rparr>"
  have w: "ct_worker ?c = WorkerProcessing o' settings" "\<not> ct_pending_reload ?c" using assms(3,5) by simp_all
  have "is_processing (ct_worker ?c)" using assms(3) by (simp add: is_processing_def)
  then have "m_phase (ct_machine (worker_delivers env pp loaded ?c)) = Idle" by (rule delivers_phase)
  then show ?thesis
    using assms(6) delivers_out [OF w, of env pp loaded] unfolding cancel
    by (cases raw) (simp_all add: result_outputs_def apply_postprocessing_action_def empty_payload_def)
qed

definition example_processing :: "(CommandAsr, CommandAsr \<times> batch_session option) controller" where
  "example_processing = example_daemon
     \<lparr>ct_machine := \<lparr>m_phase = Postprocessing, m_postprocessing_state = Dictation, m_is_command = False,
        m_selected_text = []\<rparr>,
      ct_worker := WorkerProcessing (default_order\<lparr>ro_request := default_request\<lparr>pr_text := ''hello''\<rparr>\<rparr>) default_config\<rparr>"

theorem cancel_decides_result_witness:
  "ct_out (worker_delivers example_env offline_env default_config
     (snd (CancelOperation example_env ready_pw default_config True False example_processing)))
   = [RecognitionResult (result_Serialize (ce_emit_payload example_env) empty_payload)]
     @ status_outputs example_env Idle True"
  using cancel_decides_result [of example_processing
      "default_order\<lparr>ro_request := default_request\<lparr>pr_text := ''hello''\<rparr>\<rparr>" default_config False example_env
      offline_env default_config ready_pw True]
  by (simp add: example_processing_def example_daemon_def new_controller_def OnCancel_def default_result_def
      default_order_def default_request_def Let_def)

section \<open>Injected texts\<close>

definition injected_order :: "bool \<Rightarrow> string \<Rightarrow> string \<Rightarrow> RecognitionOrder" where
  "injected_order ime t scene = default_order\<lparr>ro_request := \<lparr>pr_text = t, pr_scene_id = scene,
     pr_is_command = False, pr_selected_text = []\<rparr>, ro_ime := ime\<rparr>"

lemma Inject_scene:
  assumes "m_phase (ct_machine c) = Idle" and "scene \<noteq> []"
  shows "InjectText env ime StageFinal t scene c =
     (None, c\<lparr>ct_ime := ime, ct_order := Some (injected_order ime t scene)\<rparr>)"
  using assms by (simp add: InjectText_def injected_order_def)

lemma ResetToIdle_forgets_order: "ResetToIdle env loaded (c\<lparr>ct_order := o'\<rparr>) = ResetToIdle env loaded c"
  by (simp add: ResetToIdle_def Let_def ResetRecordingState_def)

lemma delivers_forgets_order:
  assumes "is_processing (ct_worker c)"
  shows "worker_delivers env pp loaded (c\<lparr>ct_order := o'\<rparr>) = worker_delivers env pp loaded c"
proof (cases "ct_worker c")
  case (WorkerProcessing q settings)
  obtain action m where a: "TakePostprocessingState (ct_machine c) = (action, m)" by (rule prod.exhaust)
  have e: "emit xs (c\<lparr>ct_order := o', ct_machine := m\<rparr>) = (emit xs (c\<lparr>ct_machine := m\<rparr>))\<lparr>ct_order := o'\<rparr>" for xs
    by (simp add: emit_def)
  show ?thesis
    using WorkerProcessing a e by (simp add: worker_delivers_def Let_def ResetToIdle_forgets_order)
qed (use assms in \<open>simp_all add: is_processing_def\<close>)

lemma worker_pipeline_frame:
  "ct_worker (worker_pipeline env st o' c) = WorkerProcessing o' st"
  "ct_ime (worker_pipeline env st o' c) = ct_ime c"
  "m_phase (ct_machine c) = Idle \<Longrightarrow> ct_machine (worker_pipeline env st o' c) = ct_machine c"
  "ct_starting (worker_pipeline env st o' c) = ct_starting c"
  by (simp_all add: worker_pipeline_def EnterPostprocessing_def Let_def OnInferenceComplete_def emit_def
      split: prod.splits)

lemma takes_injected:
  assumes "ct_worker c = WorkerIdle"
  shows "worker_takes (c\<lparr>ct_ime := ime, ct_order := Some o'\<rparr>) =
     c\<lparr>ct_ime := ime, ct_worker := WorkerTook o', ct_order := Some (moved_order o')\<rparr>"
  using assms by (simp add: worker_takes_def)

lemma recognizes_injected:
  assumes "ct_worker c = WorkerTook o'" and "ro_session o' = None"
  shows "worker_recognizes env loaded c = worker_pipeline env (NormalizeCoreConfig loaded) o' c"
  using assms by (simp add: worker_recognizes_def Let_def)

lemma injected_no_session [simp]: "ro_session (injected_order ime t scene) = None"
  by (simp add: injected_order_def default_order_def)

text \<open>
  A text injected for a scene while the worker still processes an earlier one is lost: the call
  reports success, because the phase stays idle, but the state after the worker's round is the one
  without the second call.
\<close>

theorem scene_injection_lost:
  assumes "ctl_inv c" and "m_phase (ct_machine c) = Idle" and "scene1 \<noteq> []" and "scene2 \<noteq> []"
  shows "let c1 = worker_recognizes env loaded (worker_takes (snd (InjectText env ime StageFinal t1 scene1 c)))
     in fst (InjectText env ime StageFinal t1 scene1 c) = None
        \<and> fst (InjectText env ime StageFinal t2 scene2 c1) = None
        \<and> worker_delivers env pp loaded2 (snd (InjectText env ime StageFinal t2 scene2 c1))
            = worker_delivers env pp loaded2 c1"
proof -
  let ?o = "injected_order ime t1 scene1"
  let ?t = "c\<lparr>ct_ime := ime, ct_worker := WorkerTook ?o, ct_order := Some (moved_order ?o)\<rparr>"
  let ?c1 = "worker_pipeline env (NormalizeCoreConfig loaded) ?o ?t"
  have w: "ct_worker c = WorkerIdle" using assms(1,2) by (simp add: ctl_inv_view inv_simps)
  have c1: "worker_recognizes env loaded (worker_takes (snd (InjectText env ime StageFinal t1 scene1 c))) = ?c1"
    using Inject_scene [OF assms(2,3), of env ime t1] takes_injected [OF w, where ime = ime and o' = ?o]
      recognizes_injected [of ?t ?o env loaded] by simp
  have idle: "m_phase (ct_machine ?c1) = Idle" using assms(2) by (simp add: worker_pipeline_frame)
  have ime: "?c1\<lparr>ct_ime := ime, ct_order := q\<rparr> = ?c1\<lparr>ct_order := q\<rparr>" for q
    using worker_pipeline_frame(2) [of env "NormalizeCoreConfig loaded" ?o ?t] by simp
  have "is_processing (ct_worker ?c1)" by (simp add: worker_pipeline_frame is_processing_def)
  moreover have "fst (InjectText env ime StageFinal t1 scene1 c) = None"
    by (simp add: Inject_scene [OF assms(2,3)])
  ultimately show ?thesis
    unfolding Let_def c1 Inject_scene [OF idle assms(4)] by (simp add: ime delivers_forgets_order)
qed

lemma example_daemon_idle:
  "ctl_inv example_daemon" "m_phase (ct_machine example_daemon) = Idle" "\<not> ct_pending_stop example_daemon"
  by (simp_all add: example_daemon_def new_controller_inv) (simp_all add: new_controller_def initial_machine_def)

theorem scene_injection_lost_witness:
  "fst (InjectText example_env True StageFinal ''one'' ''raw'' example_daemon) = None
   \<and> fst (InjectText example_env True StageFinal ''two'' ''raw''
        (worker_recognizes example_env default_config
          (worker_takes (snd (InjectText example_env True StageFinal ''one'' ''raw'' example_daemon))))) = None"
  using scene_injection_lost [OF example_daemon_idle(1,2), of "''raw''" "''raw''" example_env default_config True "''one''"
      "''two''" offline_env default_config]
  by (simp add: Let_def)

lemma delivers_idle_view:
  assumes "ct_worker c = WorkerTook o'" and "ro_session o' = None"
  shows "view (worker_delivers env pp loaded' (worker_recognizes env loaded c)) =
     (view c)\<lparr>vw_machine := initial_machine, vw_order := None, vw_starting := False, vw_ducked := False,
       vw_worker := WorkerIdle\<rparr>"
proof -
  let ?p = "worker_pipeline env (NormalizeCoreConfig loaded) o' c"
  have clear: "rsm_Clear m = initial_machine" for m :: RuntimeStateMachine
    by (simp add: rsm_Clear_def initial_machine_def)
  have "\<exists>m. view ?p = (view c)\<lparr>vw_machine := m, vw_worker := WorkerProcessing o' (NormalizeCoreConfig loaded)\<rparr>"
    by (auto simp: worker_pipeline_def Let_def EnterPostprocessing_def emit_def view_def split: prod.splits)
  then show ?thesis
    using worker_pipeline_frame(1) [of env "NormalizeCoreConfig loaded" o' c]
    unfolding recognizes_injected [OF assms]
    by (auto simp: worker_delivers_def Let_def clear split: prod.splits)
qed

text \<open>
  C38: A recording that starts while the worker processes an injected text is cut off from its controls:
  when the worker is done, the phase is idle although the session is still active, chunks are still
  accepted and the capture keeps its state, and a stop is refused. (\<open>StartRecordingInternal\<close> refuses to
  start only when the phase is not idle.)
\<close>

theorem scene_injection_orphans_recording:
  assumes "ctl_inv c" and "m_phase (ct_machine c) = Idle" and "\<not> ct_pending_stop c" and "scene \<noteq> []"
    and "StartRecordingInternal env pw loaded ime cmd sel dev
           (worker_takes (snd (InjectText env ime' StageFinal t scene c))) = (None, c2)"
  shows "let c3 = worker_delivers env pp loaded3 (worker_recognizes env loaded2 c2)
     in m_phase (ct_machine c3) = Idle \<and> HasActiveSession (ct_lifecycle c3) \<and> ct_accepting c3
        \<and> ct_capture c3 = ct_capture c2
        \<and> fst (StopRecording_ctl env pw loaded ime scene' c3) = Some (ce_tr env ''Recording is not active.'')"
proof -
  let ?o = "injected_order ime' t scene" let ?q = "Some (moved_order ?o)"
  let ?c1 = "c\<lparr>ct_ime := ime', ct_worker := WorkerTook ?o, ct_order := ?q\<rparr>"
  have w: "ct_worker c = WorkerIdle" and st: "\<not> ct_starting c"
    using assms(1,2) by (simp_all add: ctl_inv_view inv_simps)
  have c1: "worker_takes (snd (InjectText env ime' StageFinal t scene c)) = ?c1"
    using Inject_scene [OF assms(2,4), of env ime' t] takes_injected [OF w, where ime = ime' and o' = ?o] by simp
  let ?a = "?c1\<lparr>ct_pending_stop := False, ct_buffer := ab_Reset (ct_buffer c) (Finite 1),
              ct_ime := ime, ct_starting := True, ct_accepting := True\<rparr>"
  have arm: "start_arm env pw loaded ime ?c1 = (None, ?a)"
    using assms(2,3) st by (simp add: start_arm_def)
  have armed: "armed (WorkerTook ?o) ?q (view ?a)"
    using assms(1,2) by (simp add: armed_def ctl_inv_view inv_simps)
  from Start_parts [OF armed arm assms(5) [unfolded c1]] obtain v i where
    v: "armed (WorkerTook ?o) ?q v" "view c2 =
        v\<lparr>vw_machine := snd (OnStartRecording (vw_machine v) cmd sel), vw_starting := False,
          vw_active := Some i, vw_order := None,
          vw_ducked := cc_duckOutputWhileRecording (NormalizeCoreConfig loaded)\<rparr>" by auto
  have c2: "ct_worker c2 = WorkerTook ?o" "lm_active (ct_lifecycle c2) = Some i" "ct_accepting c2"
    using view_eqD [OF v(2)] v(1) by (simp_all add: armed_def)
  let ?c3 = "worker_delivers env pp loaded3 (worker_recognizes env loaded2 c2)"
  note d = delivers_idle_view [OF c2(1) injected_no_session, of env pp loaded3 loaded2]
  have "ct_machine ?c3 = initial_machine" "lm_active (ct_lifecycle ?c3) = Some i" "ct_accepting ?c3"
    "ct_capture ?c3 = ct_capture c2"
    using c2 view_eqD [OF d] by simp_all
  then show ?thesis
    by (simp add: initial_machine_def HasActiveSession_def StopRecording_ctl_def)
qed

lemma example_injected_start:
  "\<exists>c. StartRecordingInternal example_env ready_pw default_config True False [] []
     (worker_takes (snd (InjectText example_env True StageFinal ''one'' ''raw'' example_daemon))) = (None, c)"
  by (simp add: InjectText_def worker_takes_def StartRecordingInternal_def start_arm_def start_open_def
      start_session_def start_commit_def
      example_daemon_def new_controller_def initial_machine_def example_env_def ready_pw_def
      BeginRecording_def StreamReuseEnabled_def CanReuseStream_def create_and_activate_def CreateStream_def
      SetStreamActive_def DestroyStream_def SetTargetObject_def new_capture_def CreateSession_def
      OnStartRecording_def NotifyStatusChanged_def emit_def Let_def)

theorem scene_injection_orphans_recording_witness:
  "\<exists>c. StartRecordingInternal example_env ready_pw default_config True False [] []
     (worker_takes (snd (InjectText example_env True StageFinal ''one'' ''raw'' example_daemon))) = (None, c)
   \<and> HasActiveSession (ct_lifecycle (worker_delivers example_env offline_env default_config
        (worker_recognizes example_env default_config c)))"
proof -
  from example_injected_start obtain c where c: "StartRecordingInternal example_env ready_pw default_config True False [] []
     (worker_takes (snd (InjectText example_env True StageFinal ''one'' ''raw'' example_daemon))) = (None, c)" ..
  have "''raw'' \<noteq> ([] :: string)" by simp
  from scene_injection_orphans_recording [OF example_daemon_idle this c, of offline_env default_config default_config "[]"] c
  show ?thesis by (auto simp: Let_def)
qed

end
