(* ===== verification/Controller_Audio.thy ===== *)
theory Controller_Audio
  imports Controller_Runs
begin

text \<open>
  The way of the audio through the whole daemon: the periods the audio thread delivers, the capture
  queue, the recording buffer with its gain, the chunks pushed to the session while recording, and the
  order that the worker gets at the end.
\<close>

section \<open>The session object\<close>

text \<open>
  What \<open>StartRecordingInternal\<close> installs: the session of the backend with its keeping wrapper, and for chunked
  delivery an \<open>AsyncRecognitionSession\<close> around it, with the default queue of three seconds. The virtual calls
  go to one or the other. While \<open>Finish\<close> waits, the worker of an asynchronous session runs to completion;
  the number of its steps is the bound of the theorem that \<open>Finish\<close> returns.
\<close>

datatype ('b, 'x) session_object = PlainSession "'b \<times> 'x option" | QueuedSession "('b \<times> 'x option) async_state"

definition kMaxQueuedSamples :: nat where "kMaxQueuedSamples = 16000 * 3"

definition make_session_object :: "AudioDeliveryMode \<Rightarrow> 'b \<times> 'x option \<Rightarrow> ('b, 'x) session_object" where
  "make_session_object mode session =
     (if mode = Chunked then QueuedSession (async_init kMaxQueuedSamples session) else PlainSession session)"

definition async_Finish_waits :: "'b session_ops \<Rightarrow> 'b async_state \<Rightarrow> (bool \<times> string) \<times> 'b async_state" where
  "async_Finish_waits ops s =
     (let s' = (worker_step ops ^^ (9 + 3 * length (as_queue s))) (async_Finish_request s)
      in ((as_success s', as_error s'), s'))"

definition object_ops :: "'x session_ops \<Rightarrow> ('b, 'x) session_object session_ops" where
  "object_ops ops =
     (let plain = keeping_ops ops in
      \<lparr>so_push = (\<lambda>s pcm. case s of
         PlainSession p \<Rightarrow> (case so_push plain p pcm of (r, p') \<Rightarrow> (r, PlainSession p'))
       | QueuedSession a \<Rightarrow> (case async_PushAudio a pcm of (r, a') \<Rightarrow> (r, QueuedSession a'))),
       so_finish = (\<lambda>s. case s of
         PlainSession p \<Rightarrow> (case so_finish plain p of (r, p') \<Rightarrow> (r, PlainSession p'))
       | QueuedSession a \<Rightarrow> (case async_Finish_waits plain a of (r, a') \<Rightarrow> (r, QueuedSession a'))),
       so_cancel = (\<lambda>s. case s of
         PlainSession p \<Rightarrow> PlainSession (so_cancel plain p) | QueuedSession a \<Rightarrow> QueuedSession (async_Cancel a)),
       so_interrupt = (\<lambda>s. case s of
         PlainSession p \<Rightarrow> PlainSession (so_interrupt plain p)
       | QueuedSession a \<Rightarrow> QueuedSession (async_Interrupt plain a)),
       so_poll = (\<lambda>s. case s of
         PlainSession p \<Rightarrow> (case so_poll plain p of (evs, p') \<Rightarrow> (evs, PlainSession p'))
       | QueuedSession a \<Rightarrow> (case async_PollEvents a of (evs, a') \<Rightarrow> (evs, QueuedSession a')))\<rparr>)"

definition object_failure :: "('b, 'x) session_object \<Rightarrow> string option" where
  "object_failure s = (case s of PlainSession p \<Rightarrow> None | QueuedSession a \<Rightarrow> async_FailureError a)"

text \<open>One step of the thread of a session, the audio a session has accepted, and whether it gets audio in chunks.\<close>

definition object_work :: "'x session_ops \<Rightarrow> ('b, 'x) session_object \<Rightarrow> ('b, 'x) session_object" where
  "object_work ops s =
     (case s of PlainSession p \<Rightarrow> PlainSession p | QueuedSession a \<Rightarrow> QueuedSession (worker_step (keeping_ops ops) a))"

definition object_audio :: "('b, 'x) session_object \<Rightarrow> i16 list" where
  "object_audio s = (case s of PlainSession p \<Rightarrow> [] | QueuedSession a \<Rightarrow> concat (as_accepted a))"

definition is_queued :: "('b, 'x) session_object \<Rightarrow> bool" where
  "is_queued s = (case s of PlainSession p \<Rightarrow> False | QueuedSession a \<Rightarrow> True)"

section \<open>The contract of a session that is recorded into\<close>

text \<open>
  While it records, the controller pushes to sessions with chunked delivery and polls them, and the thread of the
  session runs beside it. A push that reports success has taken the chunk; nothing else changes the
  account \<open>taken\<close>. A push may fail, and a poll may report a failure.
\<close>

locale recording_session =
  fixes ops :: "'s session_ops"
    and streams :: "'s \<Rightarrow> bool"
    and taken :: "'s \<Rightarrow> i16 list"
    and work :: "'s \<Rightarrow> 's"
  assumes push_log: "streams s \<Longrightarrow> fst (so_push ops s pcm) = (True, []) \<Longrightarrow> taken (snd (so_push ops s pcm)) = taken s @ pcm"
    and push_streams: "streams s \<Longrightarrow> streams (snd (so_push ops s pcm))"
    and poll_log: "streams s \<Longrightarrow> taken (snd (so_poll ops s)) = taken s"
    and poll_streams: "streams s \<Longrightarrow> streams (snd (so_poll ops s))"
    and work_log: "taken (work s) = taken s"
    and work_streams: "streams (work s) = streams s"

lemma worker_step_accepted: "as_accepted (worker_step ops a) = as_accepted a"
  by (cases "as_pc a") (simp_all add: worker_step_def async_Complete_def split: list.splits prod.splits)

interpretation object: recording_session "object_ops inner" is_queued object_audio "object_work inner"
  for inner :: "'x session_ops"
proof unfold_locales
  fix s :: "('b, 'x) session_object" and pcm
  show "is_queued s \<Longrightarrow> fst (so_push (object_ops inner) s pcm) = (True, [])
      \<Longrightarrow> object_audio (snd (so_push (object_ops inner) s pcm)) = object_audio s @ pcm"
    by (cases s) (auto simp: object_ops_def object_audio_def is_queued_def async_PushAudio_def Let_def split: if_splits)
qed (auto simp: object_ops_def object_audio_def is_queued_def object_work_def worker_step_accepted
      async_PollEvents_def Let_def split: session_object.splits prod.splits)

section \<open>Starting\<close>

lemma create_and_activate_stream:
  "fst (create_and_activate pw i j inactive c) = None \<Longrightarrow> cap_stream (snd (create_and_activate pw i j inactive c))"
  by (cases "cap_loop c"; cases "cap_stream c"; cases "pw_create pw i"; cases "pw_activate pw j"; cases inactive;
      cases "cap_stream_active c")
     (simp_all add: create_and_activate_def CreateStream_def SetStreamActive_def)

lemma create_and_activate_queue: "cap_queue (snd (create_and_activate pw i j inactive c)) = cap_queue c
    \<and> cap_dropped_samples (snd (create_and_activate pw i j inactive c)) = cap_dropped_samples c"
  by (cases "cap_loop c"; cases "cap_stream c"; cases "pw_create pw i"; cases "pw_activate pw j"; cases inactive;
      cases "cap_stream_active c")
     (simp_all add: create_and_activate_def CreateStream_def SetStreamActive_def DestroyStream_def)

lemma BeginRecording_facts:
  "cap_queue (snd (BeginRecording pw c)) = [] \<and> cap_dropped_samples (snd (BeginRecording pw c)) = 0
   \<and> (fst (BeginRecording pw c) = None \<longrightarrow> cap_stream (snd (BeginRecording pw c)))"
proof -
  define c0 where "c0 = c\<lparr>cap_idle_deadline := None, cap_queue := [], cap_dropped_chunks := 0, cap_dropped_samples := 0\<rparr>"
  obtain r c1 where s: "SetStreamActive pw 0 True (c0\<lparr>cap_recording := True\<rparr>) = (r, c1)" by (rule prod.exhaust)
  have c1: "cap_queue c1 = []" "cap_dropped_samples c1 = 0" "r = None \<longrightarrow> cap_stream c1"
    using s by (auto simp: SetStreamActive_def c0_def split: if_splits option.splits)
  have beg: "BeginRecording pw c =
      (if \<not> (StreamReuseEnabled pw \<and> CanReuseStream c0) then
         create_and_activate pw 0 0 (StreamReuseEnabled pw) ((DestroyStream c0)\<lparr>cap_recording := True\<rparr>)
       else (case r of None \<Rightarrow> (None, c1) | Some e \<Rightarrow> create_and_activate pw 0 1 True (DestroyStream c1)))"
    using s by (simp add: BeginRecording_def c0_def)
  have q: "cap_queue ((DestroyStream c0)\<lparr>cap_recording := True\<rparr>) = []" "cap_queue (DestroyStream c1) = []"
    "cap_dropped_samples ((DestroyStream c0)\<lparr>cap_recording := True\<rparr>) = 0" "cap_dropped_samples (DestroyStream c1) = 0"
    using c1 by (simp_all add: DestroyStream_def c0_def)
  show ?thesis unfolding beg using c1 q
    by (cases r) (simp_all add: create_and_activate_queue create_and_activate_stream)
qed

text \<open>What a successful start leaves behind.\<close>

lemma Start_state:
  assumes "ctl_inv c0" and "StartRecordingInternal env pw loaded ime cmd sel dev c0 = (None, c)"
  shows "\<exists>b d i inner. lm_active (ct_lifecycle c) = Some i
      \<and> lm_store (ct_lifecycle c) i = ce_make_session env (audio_delivery_mode (bd_capabilities d)) inner
      \<and> ct_active_backend c = d \<and> ct_accepting c
      \<and> ct_buffer c = Activate (ce_fe env)
          (ab_SetGain (ab_Reset b (Finite 1)) (to_float (ce_fe env) (cc_inputGain (NormalizeCoreConfig loaded))))
          (UsesBufferedDelivery d)
      \<and> cap_queue (ct_capture c) = [] \<and> cap_dropped_samples (ct_capture c) = 0 \<and> cap_stream (ct_capture c)
      \<and> m_phase (ct_machine c) = Recording
      \<and> (\<exists>descr. CreateSession (ce_backend env) (ct_manager c) = Inr (descr, inner))"
proof -
  let ?st = "NormalizeCoreConfig loaded"
  obtain r1 c1 where s1: "start_arm env pw loaded ime c0 = (r1, c1)" by (rule prod.exhaust)
  have r1: "r1 = None" using assms(2) s1 by (cases r1) (simp_all add: StartRecordingInternal_def)
  have a1: "armed WorkerIdle None (view c1)" using start_arm_facts [OF assms(1) s1] r1 by simp
  have b1: "\<exists>b. ct_buffer c1 = ab_Reset b (Finite 1)"
    using s1 r1 by (auto simp: start_arm_def Let_def split: if_splits)
  obtain r2 c2 where s2: "start_open env pw ?st cmd dev c1 = (r2, c2)" by (rule prod.exhaust)
  have r2: "r2 = None" using assms(2) s1 r1 s2 by (cases r2) (simp_all add: StartRecordingInternal_def Let_def)
  have a2: "armed WorkerIdle None (view c2)" using start_open_facts [OF a1 s2] r2 by simp
  have "\<exists>cap. c2 = c1\<lparr>ct_capture := cap\<rparr> \<and> cap_queue cap = [] \<and> cap_dropped_samples cap = 0 \<and> cap_stream cap"
    using s2 r2 BeginRecording_facts [of pw "SetTargetObject (if dev = [] then cc_captureDevice ?st else dev) (ct_capture c1)"]
    by (auto simp: start_open_def Let_def split: prod.splits option.splits)
  then obtain cap where c2: "c2 = c1\<lparr>ct_capture := cap\<rparr>" "cap_queue cap = []" "cap_dropped_samples cap = 0"
    "cap_stream cap" by blast
  obtain r3 c3 where s3: "start_session env pw c2 = (r3, c3)" by (rule prod.exhaust)
  have "\<exists>d i. r3 = Inr (d, i)"
    using assms(2) s1 r1 s2 r2 s3 by (cases r3) (auto simp: StartRecordingInternal_def Let_def)
  then obtain d i where r3: "r3 = Inr (d, i)" by blast
  have a3: "armed WorkerIdle None (view c3)" using start_session_facts [OF a2 s3] r3 by auto
  have "\<exists>inner descr. CreateSession (ce_backend env) (ct_manager c2) = Inr (descr, inner) \<and> c3 = c2\<lparr>ct_next_session := Suc i, ct_lifecycle := (ct_lifecycle c2)\<lparr>lm_store :=
      (lm_store (ct_lifecycle c2))(i := ce_make_session env (audio_delivery_mode (bd_capabilities d)) inner)\<rparr>\<rparr>"
    using s3 r3 by (auto simp: start_session_def Let_def split: sum.splits prod.splits)
  then obtain inner descr where c3: "lm_store (ct_lifecycle c3) i = ce_make_session env (audio_delivery_mode (bd_capabilities d)) inner"
    "ct_buffer c3 = ct_buffer c1" "ct_capture c3 = cap"
    "CreateSession (ce_backend env) (ct_manager c3) = Inr (descr, inner)" using c2 by auto
  have s4: "start_commit env pw ?st cmd sel d i c3 = (None, c)"
    using assms(2) s1 r1 s2 r2 s3 r3 by (simp add: StartRecordingInternal_def Let_def)
  have act: "lm_active (ct_lifecycle c3) = None" "ct_starting c3" "m_phase (ct_machine c3) = Idle"
    using a3 by (simp_all add: armed_def)
  then have inst: "InstallActiveSession (ce_ops env) (ct_lifecycle c3) (Some i) = (ct_lifecycle c3)\<lparr>lm_active := Some i\<rparr>"
    by (simp add: InstallActiveSession_def)
  from b1 obtain b where b: "ct_buffer c1 = ab_Reset b (Finite 1)" by blast
  show ?thesis
    using s4 act b c2 c3
    by (intro exI [of _ b] exI [of _ d] exI [of _ i] exI [of _ inner])
       (auto simp: start_commit_def Let_def inst NotifyStatusChanged_def emit_def OnStartRecording_def)
qed

lemma Start_pending:
  "StartRecordingInternal env pw loaded ime cmd sel dev c0 = (None, c) \<Longrightarrow> \<not> ct_pending_stop c"
  by (auto simp: StartRecordingInternal_def start_arm_def start_open_def start_session_def start_commit_def Let_def
      NotifyStatusChanged_def emit_def split: if_splits prod.splits sum.splits option.splits)

section \<open>Recording\<close>

text \<open>
  The controller records for session \<open>i\<close>: the audio the session has taken, followed by what waits in
  the buffer, is all the audio handed over so far (\<open>acc\<close>), with the gain applied.
\<close>

definition rec_core ::
    "float_env \<Rightarrow> ('s \<Rightarrow> bool) \<Rightarrow> ('s \<Rightarrow> i16 list) \<Rightarrow> sid \<Rightarrow> fp \<Rightarrow> i16 list \<Rightarrow> ('b, 's) controller \<Rightarrow> bool" where
  "rec_core fe streams taken i g acc c \<longleftrightarrow>
     m_phase (ct_machine c) = Recording \<and> ct_accepting c \<and> \<not> ct_starting c \<and> \<not> ct_pending_stop c
     \<and> lm_active (ct_lifecycle c) = Some i
     \<and> (UsesBufferedDelivery (ct_active_backend c) \<or> streams (lm_store (ct_lifecycle c) i))
     \<and> ab_wf (ct_buffer c) \<and> ab_is_activated (ct_buffer c) \<and> ab_gain (ct_buffer c) = g
     \<and> ab_is_buffered (ct_buffer c) = UsesBufferedDelivery (ct_active_backend c)
     \<and> taken (lm_store (ct_lifecycle c) i) @ ab_pending fe (ct_buffer c) = ApplyGainI16 fe acc g
     \<and> ab_total (ct_buffer c) = length acc"

text \<open>With a chunk taken from the buffer and not yet pushed.\<close>

definition rec_pushing ::
    "float_env \<Rightarrow> ('s \<Rightarrow> bool) \<Rightarrow> ('s \<Rightarrow> i16 list) \<Rightarrow> sid \<Rightarrow> fp \<Rightarrow> i16 list \<Rightarrow> i16 list \<Rightarrow> ('b, 's) controller \<Rightarrow> bool" where
  "rec_pushing fe streams taken i g acc chunk c \<longleftrightarrow>
     m_phase (ct_machine c) = Recording \<and> ct_accepting c \<and> \<not> ct_starting c \<and> \<not> ct_pending_stop c
     \<and> lm_active (ct_lifecycle c) = Some i
     \<and> (UsesBufferedDelivery (ct_active_backend c) \<or> streams (lm_store (ct_lifecycle c) i))
     \<and> ab_wf (ct_buffer c) \<and> ab_is_activated (ct_buffer c) \<and> ab_gain (ct_buffer c) = g
     \<and> ab_is_buffered (ct_buffer c) = UsesBufferedDelivery (ct_active_backend c)
     \<and> taken (lm_store (ct_lifecycle c) i) @ chunk @ ab_pending fe (ct_buffer c) = ApplyGainI16 fe acc g
     \<and> ab_total (ct_buffer c) = length acc"

lemma rec_core_frame:
  assumes "rec_core fe streams taken i g acc c"
  shows "rec_core fe streams taken i g acc (c\<lparr>ct_capture := cap\<rparr>)" "rec_core fe streams taken i g acc (c\<lparr>ct_ime := b\<rparr>)"
    "rec_core fe streams taken i g acc (c\<lparr>ct_pending_reload := b\<rparr>)" "rec_core fe streams taken i g acc (c\<lparr>ct_manager := m\<rparr>)"
    "rec_core fe streams taken i g acc (c\<lparr>ct_ducker := d\<rparr>)" "rec_core fe streams taken i g acc (emit xs c)"
    "rec_core fe streams taken i g acc (c\<lparr>ct_latest_final := t\<rparr>)"
    "rec_core fe streams taken i g acc (c\<lparr>ct_lifecycle := (ct_lifecycle c)\<lparr>lm_deferred := ds\<rparr>\<rparr>)"
  using assms by (simp_all add: rec_core_def emit_def)

lemma pop_pending:
  assumes "ab_wf b" and "ab_is_activated b" and "\<not> ab_is_buffered b" and "PopStreamingChunk b n = (r, b')"
  shows "(case r of None \<Rightarrow> [] | Some ch \<Rightarrow> ch) @ ab_pending fe b' = ab_pending fe b \<and> ab_wf b'
    \<and> ab_is_activated b' \<and> \<not> ab_is_buffered b' \<and> ab_gain b' = ab_gain b \<and> ab_total b' = ab_total b"
  using assms by (auto simp: PopStreamingChunk_def ab_pending_def ab_wf_def split: if_splits)

lemma FailActive_detaches:
  "IsActiveSession (ct_lifecycle c) session \<Longrightarrow> lm_active (ct_lifecycle (snd (FailActiveSession env pw session e c))) = None"
  by (cases session)
     (simp_all add: FailActiveSession_def detach_active_def DetachActive_def cancel_retire_def CancelAndRetireSession_def
       RetireSession_def cancel_session_def NotifyStatusChanged_def emit_def RestoreOutputIfDucked_def
       ScheduleCaptureStop_def ResetRecordingState_def Let_def IsActiveSession_def split: option.splits)

text \<open>Once the session is given up, nothing in a flush brings one back.\<close>

lemma Handle_detached:
  "lm_active (ct_lifecycle c) = None \<Longrightarrow> lm_active (ct_lifecycle (HandleIncomingAudio env pw pcm c)) = None"
  by (simp add: HandleIncomingAudio_def HasActiveSession_def)

lemma drain_detached:
  "lm_active (ct_lifecycle c) = None \<Longrightarrow> lm_active (ct_lifecycle (drain_chunks env pw chs c)) = None"
  by (induction chs arbitrary: c) (simp_all add: Let_def Handle_detached)

lemma ResetToIdle_lifecycle: "ct_lifecycle (ResetToIdle env loaded c) = ct_lifecycle c"
  by (simp add: ResetToIdle_def Let_def MaybeApplyPendingAsrBackendReload_def SynchronizeAsrBackend_def
      ResetRecordingState_def RestoreOutputIfDucked_def emit_def split: prod.splits bool.splits)

lemma flush_lifecycle:
  assumes "c2 = PollActiveSessionEvents env pw
      (DrainIncomingAudio env pw (c\<lparr>ct_lifecycle := snd (FlushReapedSessions (ct_lifecycle c))\<rparr>))"
  shows "ct_lifecycle (FlushDeferredActions env pw loaded c) = ct_lifecycle c2"
  unfolding FlushDeferredActions_def Let_def assms [symmetric]
  by (simp add: RestoreOutputIfDucked_def ResetToIdle_lifecycle)

context recording_session
begin

lemma push_once:
  assumes "rec_pushing fe streams taken i g acc chunk c" and "\<not> UsesBufferedDelivery (ct_active_backend c)"
    and "lm_PushAudio ops (ct_lifecycle c) (Some i) chunk = ((ok, err), l)"
  shows "IsActiveSession l (Some i)"
    and "ok \<Longrightarrow> err = [] \<Longrightarrow> rec_core fe streams taken i g acc (c\<lparr>ct_lifecycle := l\<rparr>)"
proof -
  let ?s = "lm_store (ct_lifecycle c) i"
  obtain r e st where p: "so_push ops ?s chunk = ((r, e), st)" by (metis prod.exhaust)
  show "IsActiveSession l (Some i)"
    using assms(1,3) p by (auto simp: lm_PushAudio_def rec_pushing_def IsActiveSession_def)
  assume "ok" "err = []"
  then have "r" "e = []" using assms(3) p by (auto simp: lm_PushAudio_def)
  moreover have "streams ?s" using assms(1,2) by (simp add: rec_pushing_def)
  ultimately have "streams st" "taken st = taken ?s @ chunk"
    using push_streams [of ?s chunk] push_log [of ?s chunk] p by simp_all
  with assms p show "rec_core fe streams taken i g acc (c\<lparr>ct_lifecycle := l\<rparr>)"
    by (auto simp: lm_PushAudio_def rec_pushing_def rec_core_def)
qed

lemma push_loop_conserves:
  assumes "ce_ops env = ops" and "rec_pushing fe streams taken i g acc chunk c" and "\<not> ab_is_buffered (ct_buffer c)"
  shows "rec_core fe streams taken i g acc (push_loop env pw (Some i) chunk c)
      \<and> ct_capture (push_loop env pw (Some i) chunk c) = ct_capture c
    \<or> lm_active (ct_lifecycle (push_loop env pw (Some i) chunk c)) = None"
  using assms
proof (induction env pw "Some i" chunk c rule: push_loop.induct)
  case (1 env pw chunk c)
  obtain ok err l where p: "lm_PushAudio ops (ct_lifecycle c) (Some i) chunk = ((ok, err), l)" by (metis prod.exhaust)
  have nb: "\<not> UsesBufferedDelivery (ct_active_backend c)" using 1(3,4) by (simp add: rec_pushing_def)
  note one = push_once [OF 1(3) nb p]
  obtain r b where pop: "PopStreamingChunk (ct_buffer c) kStreamingChunkSamples = (r, b)" by (rule prod.exhaust)
  have b: "(case r of None \<Rightarrow> [] | Some ch \<Rightarrow> ch) @ ab_pending fe b = ab_pending fe (ct_buffer c) \<and> ab_wf b
    \<and> ab_is_activated b \<and> \<not> ab_is_buffered b \<and> ab_gain b = ab_gain (ct_buffer c) \<and> ab_total b = ab_total (ct_buffer c)"
    by (rule pop_pending [OF _ _ 1(4) pop]) (use 1(3) in \<open>simp_all add: rec_pushing_def\<close>)
  show ?case
  proof (cases "ok \<and> err = []")
    case False
    then have "push_loop env pw (Some i) chunk c = snd (FailActiveSession env pw (Some i) err (c\<lparr>ct_lifecycle := l\<rparr>))"
      using p 1(2) by (subst push_loop.simps) (simp add: Let_def)
    then show ?thesis using FailActive_detaches [of "c\<lparr>ct_lifecycle := l\<rparr>" "Some i" env pw err] one(1) by simp
  next
    case good: True
    then have core: "rec_core fe streams taken i g acc (c\<lparr>ct_lifecycle := l\<rparr>)" using one(2) by simp
    show ?thesis
    proof (cases r)
      case None
      then have "push_loop env pw (Some i) chunk c = c\<lparr>ct_lifecycle := l, ct_buffer := b\<rparr>"
        using p one good pop 1(2) by (subst push_loop.simps) (simp add: Let_def)
      with core b None 1(4) nb show ?thesis by (simp add: rec_core_def)
    next
      case (Some next')
      let ?c = "c\<lparr>ct_lifecycle := l, ct_buffer := b\<rparr>"
      have step: "push_loop env pw (Some i) chunk c = push_loop env pw (Some i) next' ?c"
        using p one good pop 1(2) Some by (subst push_loop.simps) (simp add: Let_def)
      have pushing: "rec_pushing fe streams taken i g acc next' ?c"
        using core b Some 1(4) nb by (simp add: rec_core_def rec_pushing_def)
      have "\<not> ab_is_buffered (ct_buffer ?c)" using b by simp
      from 1(1) [OF p [folded 1(2), symmetric] refl refl _ _ pop [symmetric] Some 1(2) pushing this] one good
      show ?thesis unfolding step by auto
    qed
  qed
qed

lemma HandleIncomingAudio_conserves:
  assumes "ce_ops env = ops" and "ce_fe env = fe" and "rec_core fe streams taken i g acc c"
  shows "rec_core fe streams taken i g (acc @ pcm) (HandleIncomingAudio env pw pcm c)
      \<and> ct_capture (HandleIncomingAudio env pw pcm c) = ct_capture c
    \<or> lm_active (ct_lifecycle (HandleIncomingAudio env pw pcm c)) = None"
proof (cases "pcm = []")
  case True
  with assms show ?thesis by (simp add: HandleIncomingAudio_def)
next
  case False
  let ?b = "ct_buffer c" let ?b1 = "ab_Append fe ?b pcm"
  have wf: "ab_wf ?b" using assms(3) by (simp add: rec_core_def)
  have b1: "ab_pending fe ?b1 = ab_pending fe ?b @ ApplyGainI16 fe pcm (ab_gain ?b)" "ab_wf ?b1"
    "ab_gain ?b1 = ab_gain ?b" "ab_total ?b1 = ab_total ?b + length pcm"
    using ab_Append_facts wf by auto
  have act: "ab_is_activated ?b1" "ab_is_buffered ?b1 = ab_is_buffered ?b"
    using assms(3) False by (simp_all add: rec_core_def ab_defs Let_def)
  have h: "HandleIncomingAudio env pw pcm c =
     (if UsesBufferedDelivery (ct_active_backend c) then c\<lparr>ct_buffer := ?b1\<rparr>
      else (case PopStreamingChunk ?b1 kStreamingChunkSamples of
              (None, b) \<Rightarrow> c\<lparr>ct_buffer := b\<rparr>
            | (Some chunk, b) \<Rightarrow> push_loop env pw (Some i) chunk (c\<lparr>ct_buffer := b\<rparr>)))"
    using assms False by (simp add: HandleIncomingAudio_def rec_core_def HasActiveSession_def Let_def)
  show ?thesis
  proof (cases "UsesBufferedDelivery (ct_active_backend c)")
    case True
    with h b1 act assms(3) show ?thesis by (simp add: rec_core_def ApplyGainI16_append)
  next
    case streaming: False
    obtain r b where pop: "PopStreamingChunk ?b1 kStreamingChunkSamples = (r, b)" by (rule prod.exhaust)
    have nb: "\<not> ab_is_buffered ?b1" using act streaming assms(3) by (simp add: rec_core_def)
    note p = pop_pending [OF b1(2) act(1) nb pop, of fe]
    show ?thesis
    proof (cases r)
      case None
      with h pop streaming p b1 assms(3) show ?thesis by (simp add: rec_core_def ApplyGainI16_append)
    next
      case (Some chunk)
      let ?c = "c\<lparr>ct_buffer := b\<rparr>"
      have "rec_pushing fe streams taken i g (acc @ pcm) chunk ?c"
        using Some streaming p b1 assms(3) by (simp add: rec_core_def rec_pushing_def ApplyGainI16_append)
      from push_loop_conserves [OF assms(1) this, of pw] p h pop streaming Some show ?thesis by simp
    qed
  qed
qed

lemma drain_conserves:
  assumes "ce_ops env = ops" and "ce_fe env = fe" and "rec_core fe streams taken i g acc c"
  shows "rec_core fe streams taken i g (acc @ concat (map AsSpan chs)) (drain_chunks env pw chs c)
      \<and> ct_capture (drain_chunks env pw chs c) = (if chs = [] then ct_capture c else (ct_capture c)\<lparr>cap_queue := []\<rparr>)
    \<or> lm_active (ct_lifecycle (drain_chunks env pw chs c)) = None"
  using assms(3)
proof (induction chs arbitrary: acc c)
  case (Cons ch chs)
  let ?c1 = "c\<lparr>ct_capture := (ct_capture c)\<lparr>cap_queue := chs\<rparr>\<rparr>"
  have c1: "rec_core fe streams taken i g acc ?c1" using Cons.prems by (rule rec_core_frame)
  let ?c2 = "if chunk_size ch > 0 then HandleIncomingAudio env pw (AsSpan ch) ?c1 else ?c1"
  have "rec_core fe streams taken i g (acc @ AsSpan ch) ?c2 \<and> ct_capture ?c2 = ct_capture ?c1
      \<or> lm_active (ct_lifecycle ?c2) = None"
    using HandleIncomingAudio_conserves [OF assms(1,2) c1, of "AsSpan ch" pw] c1 by (simp add: AsSpan_def)
  with Cons.IH [of "acc @ AsSpan ch" ?c2] drain_detached [of ?c2 env pw chs] show ?case by (auto simp: Let_def)
qed simp

lemma events_core: "rec_core fe streams taken i g acc c \<Longrightarrow> rec_core fe streams taken i g acc (ApplyRecognitionEvents env evs c)
    \<and> ct_capture (ApplyRecognitionEvents env evs c) = ct_capture c"
proof -
  have one: "rec_core fe streams taken i g acc (DispatchSingleEvent env c e)
      \<and> ct_capture (DispatchSingleEvent env c e) = ct_capture c"
    if "rec_core fe streams taken i g acc c" for c e
    using that by (cases "ev_kind e") (auto intro!: rec_core_frame)
  show "rec_core fe streams taken i g acc c \<Longrightarrow> ?thesis"
    unfolding ApplyRecognitionEvents_def
  proof (induction evs arbitrary: c)
    case (Cons e evs)
    from Cons.IH [of "DispatchSingleEvent env c e"] one [OF Cons.prems, of e] show ?case
      by (simp del: DispatchSingleEvent.simps)
  qed simp
qed

lemma poll_conserves:
  assumes "ce_ops env = ops" and "rec_core fe streams taken i g acc c"
  shows "rec_core fe streams taken i g acc (PollActiveSessionEvents env pw c)
      \<and> ct_capture (PollActiveSessionEvents env pw c) = ct_capture c
    \<or> lm_active (ct_lifecycle (PollActiveSessionEvents env pw c)) = None"
proof (cases "UsesBufferedDelivery (ct_active_backend c)")
  case True
  with assms show ?thesis by (simp add: PollActiveSessionEvents_def)
next
  case False
  let ?s = "lm_store (ct_lifecycle c) i"
  have act: "lm_active (ct_lifecycle c) = Some i" "m_phase (ct_machine c) = Recording" "streams ?s"
    using assms(2) False by (simp_all add: rec_core_def)
  obtain poll l where p: "PollSessionEvents ops (ce_failure_of env) (ct_lifecycle c) (Some i) = (poll, l)"
    by (rule prod.exhaust)
  have l: "l = (ct_lifecycle c)\<lparr>lm_store := (lm_store (ct_lifecycle c))(i := snd (so_poll ops ?s))\<rparr>"
    using p by (auto simp: PollSessionEvents_def Let_def split: prod.splits)
  define c1 where "c1 = ApplyRecognitionEvents env (sp_events poll) (c\<lparr>ct_lifecycle := l\<rparr>)"
  have "rec_core fe streams taken i g acc (c\<lparr>ct_lifecycle := l\<rparr>)"
    using assms(2) poll_streams [OF act(3)] poll_log [OF act(3)] by (simp add: rec_core_def l)
  from events_core [OF this, of env "sp_events poll"]
  have c1: "rec_core fe streams taken i g acc c1" "ct_capture c1 = ct_capture c" by (simp_all add: c1_def)
  have poll: "PollActiveSessionEvents env pw c =
      (case sp_failure poll of None \<Rightarrow> c1 | Some f \<Rightarrow> snd (FailActiveSession env pw (Some i) f c1))"
    using p act False assms(1) by (simp add: PollActiveSessionEvents_def HasActiveSession_def Let_def c1_def split: option.splits)
  have "IsActiveSession (ct_lifecycle c1) (Some i)" using c1(1) by (simp add: rec_core_def IsActiveSession_def)
  with poll c1 FailActive_detaches [of c1 "Some i" env pw] show ?thesis by (cases "sp_failure poll") simp_all
qed

lemma flush_conserves:
  assumes "ce_ops env = ops" and "ce_fe env = fe" and "rec_core fe streams taken i g acc c"
  shows "rec_core fe streams taken i g (acc @ queued (ct_capture c)) (FlushDeferredActions env pw loaded c)
      \<and> ct_capture (FlushDeferredActions env pw loaded c) = (ct_capture c)\<lparr>cap_queue := []\<rparr>
    \<or> lm_active (ct_lifecycle (FlushDeferredActions env pw loaded c)) = None"
proof -
  let ?c1 = "c\<lparr>ct_lifecycle := snd (FlushReapedSessions (ct_lifecycle c))\<rparr>"
  let ?acc = "acc @ queued (ct_capture c)"
  define d where "d = DrainIncomingAudio env pw ?c1"
  define c2 where "c2 = PollActiveSessionEvents env pw d"
  have c1: "rec_core fe streams taken i g acc ?c1"
    using rec_core_frame(8) [OF assms(3), of "[]"] by (simp add: FlushReapedSessions_def)
  have "d = drain_chunks env pw (cap_queue (ct_capture c)) ?c1"
    using assms(3) by (simp add: d_def DrainIncomingAudio_def rec_core_def)
  with drain_conserves [OF assms(1,2) c1, of "cap_queue (ct_capture c)" pw]
  have d: "rec_core fe streams taken i g ?acc d \<and> ct_capture d = (ct_capture c)\<lparr>cap_queue := []\<rparr>
      \<or> lm_active (ct_lifecycle d) = None"
    by (auto simp: queued_def)
  have lc: "ct_lifecycle (FlushDeferredActions env pw loaded c) = ct_lifecycle c2"
    by (rule flush_lifecycle) (simp add: c2_def d_def)
  have "rec_core fe streams taken i g ?acc c2 \<and> ct_capture c2 = (ct_capture c)\<lparr>cap_queue := []\<rparr>
      \<or> lm_active (ct_lifecycle c2) = None"
    using d poll_conserves [OF assms(1), of fe i g ?acc d pw]
    by (auto simp: c2_def PollActiveSessionEvents_def HasActiveSession_def)
  moreover have "\<not> ct_pending_stop c2 \<Longrightarrow> FlushDeferredActions env pw loaded c = c2"
    unfolding FlushDeferredActions_def Let_def d_def [symmetric] c2_def [symmetric] by simp
  ultimately show ?thesis using lc by (auto simp: rec_core_def)
qed

end

section \<open>A whole recording\<close>

text \<open>The samples of a period that the capture queue, which holds \<open>n\<close> chunks, has room for.\<close>

function enqueued :: "(nat \<Rightarrow> bool) \<Rightarrow> nat \<Rightarrow> i16 list \<Rightarrow> i16 list" where
  "enqueued room n pcm =
     (if pcm = [] then []
      else if room n then take kMaxChunkSamples pcm @ enqueued room (Suc n) (drop kMaxChunkSamples pcm)
      else enqueued room n (drop kMaxChunkSamples pcm))"
  by pat_completeness auto
termination
  by (relation "measure (\<lambda>(room, n, pcm). length pcm)") (auto simp: kMaxChunkSamples_def)

declare enqueued.simps [simp del]

lemma enqueued_all: "enqueued (\<lambda>_. True) n pcm = pcm"
proof (induction "\<lambda>_ :: nat. True" n pcm rule: enqueued.induct)
  case (1 n pcm)
  then show ?case by (subst enqueued.simps) simp
qed

lemma enqueue_some:
  "queued (enqueue_chunks room pcm c) = queued c @ enqueued room (length (cap_queue c)) pcm
   \<and> cap_dropped_samples (enqueue_chunks room pcm c) + of_nat (length (enqueued room (length (cap_queue c)) pcm))
     = cap_dropped_samples c + of_nat (length pcm)"
proof (induction pcm arbitrary: c rule: length_induct)
  case (1 pcm)
  show ?case
  proof (cases "pcm = []")
    case False
    define a where "a = take kMaxChunkSamples pcm"
    define b where "b = drop kMaxChunkSamples pcm"
    let ?n = "length (cap_queue c)"
    let ?in = "c\<lparr>cap_queue := cap_queue c @ [FromSpan pcm]\<rparr>"
    let ?out = "c\<lparr>cap_dropped_chunks := cap_dropped_chunks c + 1,
      cap_dropped_samples := cap_dropped_samples c + of_nat (length a)\<rparr>"
    have less: "length b < length pcm" using False by (simp add: b_def kMaxChunkSamples_def)
    have len: "length pcm = length a + length b"
      unfolding a_def b_def by (metis append_take_drop_id length_append)
    have chunk: "AsSpan (FromSpan pcm) = a" "chunk_size (FromSpan pcm) = length a"
      using False by (simp_all add: a_def AsSpan_FromSpan) (simp add: FromSpan_def Let_def kMaxChunkSamples_def)
    have e1: "enqueue_chunks room pcm c = enqueue_chunks room b (if room ?n then ?in else ?out)"
      using False chunk by (subst enqueue_chunks.simps) (simp add: Let_def b_def)
    have e2: "enqueued room ?n pcm = (if room ?n then a @ enqueued room (Suc ?n) b else enqueued room ?n b)"
      using False by (subst enqueued.simps) (simp add: a_def b_def)
    show ?thesis
      using 1 [rule_format, OF less, of ?in] 1 [rule_format, OF less, of ?out]
      unfolding e1 e2 len by (auto simp: queued_def chunk ac_simps)
  qed (simp add: enqueued.simps)
qed

text \<open>Everything but a stop and a cancellation, with the steps of the session's own thread in between.\<close>

datatype ('ctx, 'b) recording_event = Daemon "('ctx, 'b) ctl_event" | SessionWork

fun keeps_recording :: "('ctx, 'b) recording_event \<Rightarrow> bool" where
  "keeps_recording (Daemon (EvStop _ _ _ _)) = False"
| "keeps_recording (Daemon (EvCancel _ _ _ _)) = False"
| "keeps_recording _ = True"

fun recording_step ::
    "('s \<Rightarrow> 's) \<Rightarrow> ('b, 'x, 's) ctl_env \<Rightarrow> ('b, 's) controller \<Rightarrow> ('ctx, 'b) recording_event \<Rightarrow> ('b, 's) controller" where
  "recording_step work env c (Daemon e) = ctl_step env c e"
| "recording_step work env c SessionWork =
     (case lm_active (ct_lifecycle c) of
        None \<Rightarrow> c
      | Some i \<Rightarrow> c\<lparr>ct_lifecycle := (ct_lifecycle c)\<lparr>lm_store :=
                    (lm_store (ct_lifecycle c))(i := work (lm_store (ct_lifecycle c) i))\<rparr>\<rparr>)"

fun audio_of :: "('ctx, 'b) recording_event \<Rightarrow> i16 list" where
  "audio_of (Daemon (EvAudio _ pcm)) = pcm"
| "audio_of _ = []"

fun captured_in :: "('b, 's) controller \<Rightarrow> ('ctx, 'b) recording_event \<Rightarrow> i16 list" where
  "captured_in c (Daemon (EvAudio room pcm)) = enqueued room (length (cap_queue (ct_capture c))) pcm"
| "captured_in c _ = []"

fun captured ::
    "('s \<Rightarrow> 's) \<Rightarrow> ('b, 'x, 's) ctl_env \<Rightarrow> ('b, 's) controller \<Rightarrow> ('ctx, 'b) recording_event list \<Rightarrow> i16 list" where
  "captured work env c [] = []"
| "captured work env c (e # es) = captured_in c e @ captured work env (recording_step work env c e) es"

definition recorded ::
    "float_env \<Rightarrow> ('s \<Rightarrow> bool) \<Rightarrow> ('s \<Rightarrow> i16 list) \<Rightarrow> sid \<Rightarrow> fp \<Rightarrow> i16 list \<Rightarrow> ('b, 's) controller \<Rightarrow> bool" where
  "recorded fe streams taken i g heard c \<longleftrightarrow>
     ctl_inv c \<and> cap_stream (ct_capture c) \<and> cap_recording (ct_capture c)
     \<and> (\<exists>acc. rec_core fe streams taken i g acc c \<and> heard = acc @ queued (ct_capture c))"

lemma Start_while_recording:
  assumes "m_phase (ct_machine c) = Recording" and "\<not> ct_pending_stop c"
  shows "snd (StartRecordingInternal env pw loaded ime cmd sel dev c) = c"
  using assms by (simp add: StartRecordingInternal_def start_arm_def)

lemma ctl_inv_store: "ctl_inv (c\<lparr>ct_lifecycle := (ct_lifecycle c)\<lparr>lm_store := st\<rparr>\<rparr>) = ctl_inv c"
  by (simp add: ctl_inv_view view_def)

context recording_session
begin

lemma flush_recorded:
  assumes "ce_ops env = ops" and "ce_fe env = fe" and "recorded fe streams taken i g heard c"
    and "lm_active (ct_lifecycle (FlushDeferredActions env pw loaded c)) = Some i"
  shows "recorded fe streams taken i g heard (FlushDeferredActions env pw loaded c)
    \<and> cap_dropped_samples (ct_capture (FlushDeferredActions env pw loaded c)) = cap_dropped_samples (ct_capture c)"
proof -
  from assms(3) obtain acc where acc: "rec_core fe streams taken i g acc c" "heard = acc @ queued (ct_capture c)"
    and c: "ctl_inv c" "cap_stream (ct_capture c)" "cap_recording (ct_capture c)" by (auto simp: recorded_def)
  from flush_conserves [OF assms(1,2) acc(1), of pw loaded] acc(2) c Controller_Runs.Flush_inv [OF c(1), of env pw loaded]
    assms(4)
  show ?thesis by (auto simp: recorded_def queued_def)
qed

lemma daemon_recorded:
  assumes "ce_ops env = ops" and "ce_fe env = fe"
    and "recorded fe streams taken i g heard c" and "keeps_recording (Daemon e)"
    and "lm_active (ct_lifecycle (ctl_step env c e)) = Some i"
  shows "recorded fe streams taken i g (heard @ captured_in c (Daemon e)) (ctl_step env c e)
    \<and> cap_dropped_samples (ct_capture (ctl_step env c e)) + of_nat (length (captured_in c (Daemon e)))
      = cap_dropped_samples (ct_capture c) + of_nat (length (audio_of (Daemon e)))"
proof -
  from assms(3) obtain acc where acc: "rec_core fe streams taken i g acc c" "heard = acc @ queued (ct_capture c)"
    and c: "ctl_inv c" "cap_stream (ct_capture c)" "cap_recording (ct_capture c)" by (auto simp: recorded_def)
  have ph: "m_phase (ct_machine c) = Recording" "\<not> ct_pending_stop c" using acc(1) by (simp_all add: rec_core_def)
  have w: "ct_worker c = WorkerIdle" "ct_order c = None" using c(1) ph by (simp_all add: ctl_inv_view inv_simps)
  note inv = ctl_step_inv [OF c(1), of env e]
  have fr: "recorded fe streams taken i g heard c'"
    if "rec_core fe streams taken i g acc c'" "ct_capture c' = ct_capture c" "ctl_inv c'" for c'
    using that acc(2) c by (auto simp: recorded_def)
  show ?thesis
  proof (cases e)
    case (EvStart pw loaded ime cmd sel dev)
    with assms(3) show ?thesis by (simp add: Start_while_recording [OF ph])
  next
    case (EvFlush pw loaded)
    with flush_recorded [OF assms(1-3), of pw loaded] assms(5) show ?thesis by simp
  next
    case (EvAudio room pcm)
    let ?cap = "enqueue_chunks room pcm (ct_capture c)"
    have "ctl_step env c e = c\<lparr>ct_capture := ?cap\<rparr>"
      using EvAudio c by (simp add: processCallback_def)
    moreover have "rec_core fe streams taken i g acc (c\<lparr>ct_capture := ?cap\<rparr>)" using acc(1) by (rule rec_core_frame)
    ultimately show ?thesis
      using inv c acc(2) enqueue_some [of room pcm "ct_capture c"] enqueue_frame [of room pcm "ct_capture c"] EvAudio
      by (auto simp: recorded_def)
  qed (use assms(3,4) w ph fr [OF rec_core_frame(3) [OF acc(1)]] fr [OF rec_core_frame(4) [OF acc(1)]]
         fr [OF rec_core_frame(5) [OF acc(1)]] fr [OF rec_core_frame(6) [OF acc(1)]] inv in
       \<open>auto simp: ReloadAsrBackend_def InjectText_def Let_def worker_takes_def worker_recognizes_def
          worker_delivers_def emit_def\<close>)
qed

lemma step_recorded:
  assumes "ce_ops env = ops" and "ce_fe env = fe"
    and "recorded fe streams taken i g heard c" and "keeps_recording e"
    and "lm_active (ct_lifecycle (recording_step work env c e)) = Some i"
  shows "recorded fe streams taken i g (heard @ captured_in c e) (recording_step work env c e)
    \<and> cap_dropped_samples (ct_capture (recording_step work env c e)) + of_nat (length (captured_in c e))
      = cap_dropped_samples (ct_capture c) + of_nat (length (audio_of e))"
proof (cases e)
  case (Daemon d)
  with daemon_recorded [OF assms(1-3), of d] assms(4,5) show ?thesis by simp
next
  case SessionWork
  with assms(3) show ?thesis
    by (auto simp: recorded_def rec_core_def ctl_inv_store work_log work_streams)
qed

lemma run_recorded:
  assumes "ce_ops env = ops" and "ce_fe env = fe"
    and "recorded fe streams taken i g heard c" and "list_all keeps_recording es"
    and "\<forall>n \<le> length es. lm_active (ct_lifecycle (foldl (recording_step work env) c (take n es))) = Some i"
  shows "recorded fe streams taken i g (heard @ captured work env c es) (foldl (recording_step work env) c es)
    \<and> cap_dropped_samples (ct_capture (foldl (recording_step work env) c es)) + of_nat (length (captured work env c es))
      = cap_dropped_samples (ct_capture c) + of_nat (length (concat (map audio_of es)))"
  using assms(3-5)
proof (induction es arbitrary: heard c)
  case (Cons e es)
  have "lm_active (ct_lifecycle (recording_step work env c e)) = Some i" using Cons.prems(3) [rule_format, of 1] by simp
  note one = step_recorded [OF assms(1,2) Cons.prems(1) _ this]
  have rest: "\<forall>n \<le> length es. lm_active (ct_lifecycle
      (foldl (recording_step work env) (recording_step work env c e) (take n es))) = Some i"
    using Cons.prems(3) by (metis Suc_le_mono foldl_Cons length_Cons take_Suc_Cons)
  from Cons.IH [OF one [THEN conjunct1] _ rest] one Cons.prems(2) show ?case
    by (simp add: algebra_simps)
qed simp

end

section \<open>Properties\<close>

lemma StopAndGetBuffer_queued:
  assumes "cap_wf c"
  shows "fst (StopAndGetBuffer pw c) = queued c"
  using release_stream_off [of "c\<lparr>cap_recording := False\<rparr>" pw] assms
  by (auto simp: StopAndGetBuffer_def queued_def Let_def DestroyStream_def)

lemma stop_submit_lifecycle:
  assumes "m_phase (ct_machine c) = Recording" and "lm_active (ct_lifecycle c) \<noteq> None"
    and "\<not> stop_total env pcm c < kMinSamplesForRecognition"
  shows "ct_lifecycle (stop_submit env loaded scene pcm c) = (ct_lifecycle c)\<lparr>lm_active := None\<rparr>"
  using assms
  by (cases "UsesBufferedDelivery (ct_active_backend c)")
     (simp_all add: stop_submit_def stop_total_def HasActiveSession_def OnStopRecording_def
       default_result_def detach_active_def DetachActive_def Let_def TakeBufferedPcm_def DrainStreamingTail_def
       NotifyStatusChanged_def emit_def)

lemma Stop_lifecycle:
  assumes "m_phase (ct_machine c) = Recording" and "lm_active (ct_lifecycle c) \<noteq> None"
    and "StopAndGetBuffer pw (ct_capture c) = (pcm, cap)"
    and "\<not> stop_total env pcm c < kMinSamplesForRecognition"
  shows "ct_lifecycle (snd (StopRecording_ctl env pw loaded ime scene c)) = (ct_lifecycle c)\<lparr>lm_active := None\<rparr>"
proof -
  let ?c = "RestoreOutputIfDucked (c\<lparr>ct_ime := ime, ct_accepting := False, ct_capture := cap\<rparr>)"
  have "ct_lifecycle (stop_submit env loaded scene pcm ?c) = (ct_lifecycle ?c)\<lparr>lm_active := None\<rparr>"
    by (rule stop_submit_lifecycle)
       (use assms in \<open>simp_all add: RestoreOutputIfDucked_def stop_total_def split: if_splits\<close>)
  with assms(1,3) show ?thesis by (simp add: StopRecording_ctl_def RestoreOutputIfDucked_def)
qed

lemma stop_order_pcm:
  assumes "rec_core fe streams taken i g acc c" and "ce_fe env = fe"
  shows "taken (lm_store (ct_lifecycle c) i) @ ro_pcm (stop_order env scene pcm (c\<lparr>ct_ime := ime\<rparr>))
      = ApplyGainI16 fe (acc @ pcm) g"
    and "stop_total env pcm c = length (acc @ pcm)"
    and "ro_session (stop_order env scene pcm (c\<lparr>ct_ime := ime\<rparr>)) = Some i"
proof -
  let ?b = "if pcm = [] then ct_buffer c else ab_Append fe (ct_buffer c) pcm"
  have wf: "ab_wf (ct_buffer c)" and act: "ab_is_activated (ct_buffer c)" using assms(1) by (simp_all add: rec_core_def)
  have b: "ab_pending fe ?b = ab_pending fe (ct_buffer c) @ ApplyGainI16 fe pcm g" "ab_total ?b = length acc + length pcm"
    using ab_Append_facts(1,4) [where b = "ct_buffer c" and fe = fe and xs = pcm] wf assms(1) by (simp_all add: rec_core_def)
  have "ab_is_activated ?b" "ab_is_buffered ?b = UsesBufferedDelivery (ct_active_backend c)"
    using assms(1) act by (simp_all add: rec_core_def ab_defs Let_def)
  then have "ab_pending fe ?b = (if UsesBufferedDelivery (ct_active_backend c) then ab_buffered ?b else ab_streaming ?b)"
    by (simp add: ab_pending_def)
  then have "ro_pcm (stop_order env scene pcm (c\<lparr>ct_ime := ime\<rparr>)) = ab_pending fe ?b"
    using assms(2) by (simp add: stop_order_def Let_def)
  then show "taken (lm_store (ct_lifecycle c) i) @ ro_pcm (stop_order env scene pcm (c\<lparr>ct_ime := ime\<rparr>))
      = ApplyGainI16 fe (acc @ pcm) g"
    using b(1) assms(1) by (simp add: rec_core_def ApplyGainI16_append)
  show "stop_total env pcm c = length (acc @ pcm)"
    using b(2) assms(2) by (simp add: stop_total_def split: if_splits)
  show "ro_session (stop_order env scene pcm (c\<lparr>ct_ime := ime\<rparr>)) = Some i"
    using assms(1) by (simp add: stop_order_def rec_core_def Let_def)
qed

lemma Start_recorded:
  assumes "ctl_inv c0" and "StartRecordingInternal env pw loaded ime cmd sel dev c0 = (None, c)"
    and "cap_recording (ct_capture c)"
    and "\<And>mode inner. taken (ce_make_session env mode inner) = [] \<and> (mode = Buffered \<or> streams (ce_make_session env mode inner))"
  shows "\<exists>i. recorded (ce_fe env) streams taken i (to_float (ce_fe env) (cc_inputGain (NormalizeCoreConfig loaded))) [] c
    \<and> cap_dropped_samples (ct_capture c) = 0"
proof -
  from Start_state [OF assms(1,2)] obtain b d i inner descr where st: "lm_active (ct_lifecycle c) = Some i"
      "lm_store (ct_lifecycle c) i = ce_make_session env (audio_delivery_mode (bd_capabilities d)) inner"
      "ct_active_backend c = d" "ct_accepting c"
      "ct_buffer c = Activate (ce_fe env)
          (ab_SetGain (ab_Reset b (Finite 1)) (to_float (ce_fe env) (cc_inputGain (NormalizeCoreConfig loaded))))
          (UsesBufferedDelivery d)"
      "cap_queue (ct_capture c) = []" "cap_dropped_samples (ct_capture c) = 0" "cap_stream (ct_capture c)"
      "m_phase (ct_machine c) = Recording" by blast
  note fresh = assms(4) [of "audio_delivery_mode (bd_capabilities d)" inner]
  have inv: "ctl_inv c" using Start_inv [OF assms(1,2)] .
  then have "\<not> ct_starting c" by (simp add: ctl_inv_def)
  with st fresh assms(3) inv Start_pending [OF assms(2)] have "recorded (ce_fe env) streams taken i
      (to_float (ce_fe env) (cc_inputGain (NormalizeCoreConfig loaded))) [] c"
    by (auto simp: recorded_def rec_core_def queued_def ab_defs ab_wf_def ab_pending_def UsesBufferedDelivery_def)
  with st(7) show ?thesis by blast
qed

lemma Stop_after_recording:
  assumes "recorded (ce_fe env) streams taken i g heard c" and "kMinSamplesForRecognition \<le> length heard"
    and "c' = snd (StopRecording_ctl env pw loaded ime scene c)"
  shows "m_phase (ct_machine c') = Inferring \<and> (\<exists>order. ct_order c' = Some order \<and> ro_session order = Some i
    \<and> taken (lm_store (ct_lifecycle c') i) @ ro_pcm order = ApplyGainI16 (ce_fe env) heard g)"
proof -
  from assms(1) obtain acc where inv: "ctl_inv c" and core: "rec_core (ce_fe env) streams taken i g acc c"
    and heard: "heard = acc @ queued (ct_capture c)" by (auto simp: recorded_def)
  have ph: "m_phase (ct_machine c) = Recording" and act: "lm_active (ct_lifecycle c) = Some i"
    using core by (simp_all add: rec_core_def)
  obtain pcm cap where s: "StopAndGetBuffer pw (ct_capture c) = (pcm, cap)" by (rule prod.exhaust)
  have pcm: "pcm = queued (ct_capture c)"
    using StopAndGetBuffer_queued [of "ct_capture c" pw] s inv by (simp add: ctl_inv_def)
  note o = stop_order_pcm [OF core refl, where pcm = pcm]
  have long: "\<not> stop_total env pcm c < kMinSamplesForRecognition" using o(2) heard pcm assms(2) by simp
  note v = Stop_view [OF inv ph s, of env loaded ime scene, folded assms(3)]
  have l: "ct_lifecycle c' = (ct_lifecycle c)\<lparr>lm_active := None\<rparr>"
    unfolding assms(3) by (rule Stop_lifecycle [OF ph _ s long]) (use act in simp)
  have "ct_order c' = Some (stop_order env scene pcm (c\<lparr>ct_ime := ime\<rparr>))" "m_phase (ct_machine c') = Inferring"
    using arg_cong [OF v, of vw_order] arg_cong [OF v, of vw_machine] long by simp_all
  then show ?thesis using o heard pcm l by auto
qed

text \<open>
  C2: Between the microphone and the recogniser no captured sample is lost, repeated or reordered. After a start
  that succeeds and leaves the microphone recording (the fallback after a failed reuse of a stream does not), let
  anything happen but a stop or a cancellation: periods of audio, flushes, reloads, injected texts, steps of the
  other threads and of the session's own thread, further attempts to start. As long as the session is not given
  up after a failure of the recogniser, a stop with at least half a second of captured audio hands over to the
  worker, and the audio the session has accepted, followed by the samples of the worker's order, is exactly the
  captured audio with the configured gain, in order, for buffered and for chunked delivery. Captured is what the
  capture queue had room for; the samples it had no room for are counted as dropped, and no others.
\<close>

theorem recording_conserves_audio:
  assumes "ce_ops env = object_ops inner" and "ce_make_session env = make_session_object"
    and "ctl_inv c0" and "StartRecordingInternal env pw loaded ime cmd sel dev c0 = (None, c)"
    and "cap_recording (ct_capture c)" and "list_all keeps_recording es"
    and "\<forall>n \<le> length es. lm_active (ct_lifecycle (foldl (recording_step (object_work inner) env) c (take n es))) = Some i"
    and "heard = captured (object_work inner) env c es" and "kMinSamplesForRecognition \<le> length heard"
    and "c1 = foldl (recording_step (object_work inner) env) c es"
    and "c2 = snd (StopRecording_ctl env pw' loaded' ime' scene c1)"
  shows "m_phase (ct_machine c2) = Inferring
     \<and> (\<exists>order. ct_order c2 = Some order \<and> ro_session order = Some i
          \<and> object_audio (lm_store (ct_lifecycle c2) i) @ ro_pcm order
            = ApplyGainI16 (ce_fe env) heard (to_float (ce_fe env) (cc_inputGain (NormalizeCoreConfig loaded))))
     \<and> cap_dropped_samples (ct_capture c1) + of_nat (length heard) = of_nat (length (concat (map audio_of es)))"
proof -
  let ?g = "to_float (ce_fe env) (cc_inputGain (NormalizeCoreConfig loaded))"
  have "object_audio (ce_make_session env mode p) = [] \<and> (mode = Buffered \<or> is_queued (ce_make_session env mode p))" for mode p
    by (cases mode) (simp_all add: assms(2) make_session_object_def object_audio_def is_queued_def async_init_def)
  from Start_recorded [OF assms(3-5) this] obtain j where
    j: "recorded (ce_fe env) is_queued object_audio j ?g [] c" "cap_dropped_samples (ct_capture c) = 0" by blast
  have "j = i" using j(1) assms(7) [rule_format, of 0] by (auto simp: recorded_def rec_core_def)
  then have "recorded (ce_fe env) is_queued object_audio i ?g [] c" using j(1) by simp
  from object.run_recorded [OF assms(1) refl this assms(6,7)] j(2)
  have r: "recorded (ce_fe env) is_queued object_audio i ?g heard c1"
    "cap_dropped_samples (ct_capture c1) + of_nat (length heard) = of_nat (length (concat (map audio_of es)))"
    by (simp_all add: assms(8,10))
  from Stop_after_recording [OF r(1) assms(9,11)] r(2) show ?thesis by simp
qed

text \<open>
  A daemon whose recogniser is a streaming program. Its session is written here for a program that starts,
  accepts every line and reports nothing before it is finished.
\<close>

definition streaming_ops :: "streaming_env \<Rightarrow> child_input \<Rightarrow> streaming_session session_ops" where
  "streaming_ops env ci =
     \<lparr>so_push = (\<lambda>s pcm. case streaming_PushAudio env ci pcm (Some []) s of (ok, err, s') \<Rightarrow> ((ok, the err), s')),
      so_finish = (\<lambda>s. case streaming_Finish env ci (Some []) s of (ok, err, s') \<Rightarrow> ((ok, the err), s')),
      so_cancel = streaming_Cancel env ci, so_interrupt = streaming_Interrupt, so_poll = streaming_PollEvents\<rparr>"

definition silent_streaming :: "streaming_session session_ops" where
  "silent_streaming = streaming_ops example_streaming (example_input [])"

definition streaming_example_env :: "(CommandAsr, streaming_session, (CommandAsr, streaming_session) session_object) ctl_env" where
  "streaming_example_env =
     \<lparr>ce_fe = exact_env, ce_ops = object_ops silent_streaming,
      ce_push_float = PushAudio_float exact_env (object_ops silent_streaming),
      ce_failure_of = object_failure, ce_to_text = (\<lambda>_. []), ce_write_text = (\<lambda>_. None), ce_emit_payload = (\<lambda>_. None),
      ce_backend = \<lparr>bo_Describe = streaming_Describe, bo_CreateSession = (\<lambda>p. Inr (new_streaming_session p [] None))\<rparr>,
      ce_make_session = make_session_object, ce_pp = offline_env, ce_tr = (\<lambda>s. s)\<rparr>"

definition streaming_daemon :: "(CommandAsr, (CommandAsr, streaming_session) session_object) controller" where
  "streaming_daemon = new_controller (\<lambda>_. PlainSession (example_provider, None))
     (new_manager\<lparr>rm_effective_backend := Some example_provider,
        rm_effective_descriptor := streaming_Describe example_provider, rm_has_effective_descriptor := True\<rparr>)"

definition streaming_run :: "(unit, CommandAsr) recording_event list" where
  "streaming_run = [Daemon (EvAudio (\<lambda>_. True) (replicate 8000 1)), SessionWork,
     Daemon (EvAudio (\<lambda>_. False) [2, 3]), Daemon (EvReload default_config)]"

lemma streaming_starts:
  "\<exists>c. StartRecordingInternal streaming_example_env ready_pw default_config True False [] [] streaming_daemon = (None, c)
     \<and> cap_recording (ct_capture c) \<and> m_phase (ct_machine c) = Recording \<and> cap_queue (ct_capture c) = []
     \<and> cap_stream (ct_capture c) \<and> lm_active (ct_lifecycle c) = Some 0"
  by (simp add: StartRecordingInternal_def start_arm_def start_open_def start_session_def start_commit_def
      streaming_daemon_def new_controller_def initial_machine_def streaming_example_env_def ready_pw_def
      BeginRecording_def StreamReuseEnabled_def CanReuseStream_def create_and_activate_def CreateStream_def
      SetStreamActive_def DestroyStream_def SetTargetObject_def new_capture_def CreateSession_def lm_init_def
      OnStartRecording_def NotifyStatusChanged_def emit_def InstallActiveSession_def Let_def)

theorem recording_conserves_audio_witness:
  "\<exists>c c2 order.
     StartRecordingInternal streaming_example_env ready_pw default_config True False [] [] streaming_daemon = (None, c)
     \<and> c2 = snd (StopRecording_ctl streaming_example_env ready_pw default_config True []
          (foldl (recording_step (object_work silent_streaming) streaming_example_env) c streaming_run))
     \<and> ct_order c2 = Some order \<and> ro_session order = Some 0
     \<and> object_audio (lm_store (ct_lifecycle c2) 0) @ ro_pcm order
       = ApplyGainI16 exact_env (replicate 8000 1) (to_float exact_env (cc_inputGain (NormalizeCoreConfig default_config)))"
proof -
  let ?step = "recording_step (object_work silent_streaming) streaming_example_env"
  from streaming_starts obtain c where c:
    "StartRecordingInternal streaming_example_env ready_pw default_config True False [] [] streaming_daemon = (None, c)"
    "cap_recording (ct_capture c)" "m_phase (ct_machine c) = Recording" "cap_stream (ct_capture c)"
    "lm_active (ct_lifecycle c) = Some 0" by blast
  have env: "ce_ops streaming_example_env = object_ops silent_streaming"
    "ce_make_session streaming_example_env = make_session_object" "ce_fe streaming_example_env = exact_env"
    by (simp_all add: streaming_example_env_def)
  have inv: "ctl_inv streaming_daemon" unfolding streaming_daemon_def by (rule new_controller_inv)
  have active: "\<forall>n \<le> length streaming_run. lm_active (ct_lifecycle (foldl ?step c (take n streaming_run))) = Some 0"
    using c by (auto simp: streaming_run_def take_Cons' processCallback_def ReloadAsrBackend_def)
  have none: "enqueued (\<lambda>_. False) n [2, 3] = []" for n
    by (subst enqueued.simps) (subst enqueued.simps, simp add: kMaxChunkSamples_def)
  have heard: "replicate 8000 1 = captured (object_work silent_streaming) streaming_example_env c streaming_run"
    by (simp add: streaming_run_def enqueued_all none)
  have es: "list_all keeps_recording streaming_run" "kMinSamplesForRecognition \<le> length (replicate 8000 (1 :: i16))"
    by (simp_all add: streaming_run_def kMinSamplesForRecognition_def)
  show ?thesis
    using recording_conserves_audio [OF env(1,2) inv c(1,2) es(1) active heard es(2) refl refl,
        of ready_pw default_config True "[]", unfolded env(3)] c(1) by blast
qed

end
