(* ===== verification/Config_Migration.thy ===== *)
theory Config_Migration
  imports Version_Utils Json_Access
begin

text \<open>
  The table-driven migration of \<open>config.json\<close> and of the input method's INI file
  (\<open>common/config/config_migration.cpp\<close>). The JSON side works on trees; the INI side on an abstract
  tree of fcitx (\<open>fcitx::RawConfig\<close>) of which the code uses four operations (\<open>ini_ops\<close>). Reading,
  parsing and writing files are parameters (\<open>migration_world\<close>); what the run writes is recorded in
  the report in the order of the writes.
\<close>

section \<open>Rules\<close>

datatype ActionType = Rename | Remove | Ensure | ReplaceIfDefault | IniReplaceKey | IniRemoveKey

record MigrationRule =
  mr_version :: string
  mr_target_file :: string
  mr_action :: ActionType
  mr_path :: string
  mr_new_key :: string
  mr_default_value :: json
  mr_expected_value :: json
  mr_to_value :: json

record MigrationChange =
  ch_file :: string
  ch_description :: string

definition rule :: "string \<Rightarrow> string \<Rightarrow> ActionType \<Rightarrow> string \<Rightarrow> string \<Rightarrow> json \<Rightarrow> json \<Rightarrow> json \<Rightarrow> MigrationRule" where
  "rule v tf act p nk d e t =
     \<lparr>mr_version = v, mr_target_file = tf, mr_action = act, mr_path = p, mr_new_key = nk,
      mr_default_value = d, mr_expected_value = e, mr_to_value = t\<rparr>"

definition dec_0_45 :: fp where "dec_0_45 = Finite (8106479329266893 / 18014398509481984)"
definition dec_0_35 :: fp where "dec_0_35 = Finite (3152519739159347 / 9007199254740992)"
definition dec_0_15 :: fp where "dec_0_15 = Finite (5404319552844595 / 36028797018963968)"
definition dec_0_10 :: fp where "dec_0_10 = Finite (3602879701896397 / 36028797018963968)"
definition dec_0_5 :: fp where "dec_0_5 = Finite (1 / 2)"
definition dec_1_2 :: fp where "dec_1_2 = Finite (5404319552844595 / 4503599627370496)"
definition dec_1e_4 :: fp where "dec_1e_4 = Finite (7378697629483821 / 73786976294838206464)"

definition GetRules :: "MigrationRule list" where
  "GetRules =
     [rule ''2.3.15'' ''config.json'' Rename ''scenes.*.*.candidate_count'' ''count'' JNull JNull JNull,
      rule ''2.3.15'' ''config.json'' Rename ''llm.adaptors'' ''adapters'' JNull JNull JNull,
      rule ''2.3.15'' ''vinput.conf'' IniReplaceKey ''SceneMenuKey'' ''MenuKey'' JNull JNull JNull,
      rule ''2.3.15'' ''vinput.conf'' IniRemoveKey ''AsrMenuKey'' [] JNull JNull JNull,
      rule ''2.3.25'' ''config.json'' Rename ''scenes.*.*.show_raw'' ''raw_cand'' JNull JNull JNull,
      rule ''2.3.25'' ''config.json'' Ensure ''scenes.*.*.raw_prev'' [] (JBool True) JNull JNull,
      rule ''2.3.27'' ''config.json'' Remove ''global.default_language'' [] JNull JNull JNull,
      rule ''2.4.0'' ''vinput.conf'' IniRemoveKey ''HoldActivationDelay'' [] JNull JNull JNull,
      rule ''2.4.0'' ''config.json'' ReplaceIfDefault ''asr.vad.threshold'' [] JNull
        (JNum dec_0_45) (JNum dec_0_35),
      rule ''2.4.0'' ''config.json'' ReplaceIfDefault ''asr.vad.min_speech_duration'' [] JNull
        (JNum dec_0_15) (JNum dec_0_10),
      rule ''2.4.0'' ''config.json'' ReplaceIfDefault ''asr.vad.min_silence_duration'' [] JNull
        (JNum dec_0_5) (JNum dec_1_2),
      rule ''2.4.0'' ''config.json'' ReplaceIfDefault ''asr.vad.speech_pad_ms'' [] JNull
        (JNum (Finite 30)) (JNum (Finite 500)),
      rule ''2.4.0'' ''config.json'' ReplaceIfDefault ''asr.vad.speech_pad_ms'' [] JNull
        (JNum (Finite 300)) (JNum (Finite 500))]"

fun max_version :: "SemanticVersion \<Rightarrow> MigrationRule list \<Rightarrow> SemanticVersion" where
  "max_version m [] = m"
| "max_version m (r # rs) =
     (case version_Parse (mr_version r) of
        Some v \<Rightarrow> max_version (if m < v then v else m) rs
      | None \<Rightarrow> max_version m rs)"

definition GetMaxRuleVersion :: SemanticVersion where
  "GetMaxRuleVersion = max_version (SemanticVersion 0 0 0) GetRules"

definition GetTargetVersionConstraint :: string where
  "GetTargetVersionConstraint =
     ''>='' @ to_string (major GetMaxRuleVersion) @ ''.'' @ to_string (minor GetMaxRuleVersion) @ ''.'' @
     to_string (patch GetMaxRuleVersion)"

definition ParseConfigLowerBoundVersion :: "string \<Rightarrow> SemanticVersion option" where
  "ParseConfigLowerBoundVersion s0 =
     (let s = Trim s0 in
      if s = [] then None
      else version_Parse
        (dropWhile (\<lambda>c. c = CHR ''>'' \<or> c = CHR ''='' \<or> c = CHR '' '') (cut_at CHR '','' s)))"

section \<open>JSON actions\<close>

fun JsonEquals :: "float_env \<Rightarrow> json \<Rightarrow> json \<Rightarrow> bool" where
  "JsonEquals fe (JNum a) (JNum b) = fp_less (fp_abs (fp_sub (fe_round64 fe) a b)) dec_1e_4"
| "JsonEquals fe (JBool a) (JBool b) = (a = b)"
| "JsonEquals fe (JStr a) (JStr b) = (a = b)"
| "JsonEquals fe JNull JNull = True"
| "JsonEquals fe _ _ = False"

fun EraseMember :: "json \<Rightarrow> string \<Rightarrow> json" where
  "EraseMember (JObj m) key = JObj (smap_erase key m)"
| "EraseMember j key = j"

fun json_put :: "json \<Rightarrow> string \<Rightarrow> json \<Rightarrow> json" where
  "json_put (JObj m) key v = JObj (smap_put key v m)"
| "json_put j key v = j"

definition config_change :: "string \<Rightarrow> MigrationChange" where
  "config_change d = \<lparr>ch_file = ''config.json'', ch_description = d\<rparr>"

definition quoted :: "string \<Rightarrow> string" where
  "quoted s = [CHR 0x27] @ s @ [CHR 0x27]"

text \<open>
  The result: whether anything changed, the new tree, and the changes to be appended to the
  report. \<open>fmt\<close> is the compact writer of JSON text.
\<close>

type_synonym walk_result = "bool \<times> json \<times> MigrationChange list"

definition ApplyActionToTarget ::
    "float_env \<Rightarrow> (json \<Rightarrow> string) \<Rightarrow> json \<Rightarrow> string \<Rightarrow> string \<Rightarrow> MigrationRule \<Rightarrow> walk_result" where
  "ApplyActionToTarget fe fmt parent key desc r =
     (let prefix = (if desc = [] then key else desc @ ''.'' @ key);
          where_to = (if desc = [] then key else desc)
      in case mr_action r of
        Rename \<Rightarrow>
          (case json_Find parent key of
             None \<Rightarrow> (False, parent, [])
           | Some v \<Rightarrow>
               (if json_Find parent (mr_new_key r) = None then
                  (True, EraseMember (json_put parent (mr_new_key r) v) key,
                   [config_change (prefix @ '': renamed '' @ quoted key @ '' to '' @ quoted (mr_new_key r))])
                else
                  (True, EraseMember parent key,
                   [config_change (prefix @ '': removed obsolete duplicate key '' @ quoted key)])))
      | Remove \<Rightarrow>
          (if json_Find parent key = None then (False, parent, [])
           else (True, EraseMember parent key,
                 [config_change (where_to @ '': removed obsolete field '' @ quoted key)]))
      | Ensure \<Rightarrow>
          (if is_object parent \<and> json_Find parent key = None then
             (True, json_put parent key (mr_default_value r),
              [config_change (where_to @ '': added '' @ quoted key)])
           else (False, parent, []))
      | ReplaceIfDefault \<Rightarrow>
          (case json_Find parent key of
             None \<Rightarrow> (False, parent, [])
           | Some v \<Rightarrow>
               (if JsonEquals fe v (mr_expected_value r) then
                  (True, json_put parent key (mr_to_value r),
                   [config_change (prefix @ '': upgraded legacy default '' @ fmt (mr_expected_value r) @
                      '' to '' @ fmt (mr_to_value r))])
                else (False, parent, [])))
      | _ \<Rightarrow> (False, parent, []))"

definition child_id :: "nat \<Rightarrow> json \<Rightarrow> string" where
  "child_id idx child =
     (case json_Find child ''id'' of Some (JStr s) \<Rightarrow> s | _ \<Rightarrow> to_string_nat idx)"

text \<open>One visit per child, in order; the walk of a child is \<open>f child desc\<close>.\<close>

definition walk_members ::
    "(json \<Rightarrow> string \<Rightarrow> walk_result) \<Rightarrow> string \<Rightarrow> (string \<times> json) list \<Rightarrow> walk_result" where
  "walk_members f desc m =
     (let rs = map (\<lambda>(k, v). (k, f v (if desc = [] then k else desc @ ''.'' @ k))) m
      in (list_ex (\<lambda>(k, b, v, c). b) rs, JObj (map (\<lambda>(k, b, v, c). (k, v)) rs),
          concat (map (\<lambda>(k, b, v, c). c) rs)))"

definition walk_elements ::
    "(json \<Rightarrow> string \<Rightarrow> walk_result) \<Rightarrow> string \<Rightarrow> json list \<Rightarrow> walk_result" where
  "walk_elements f desc js =
     (let rs = map (\<lambda>(i, v). f v (if desc = [] then ''['' @ child_id i v @ '']''
                                  else desc @ ''['' @ child_id i v @ '']'')) (enumerate 0 js)
      in (list_ex (\<lambda>(b, v, c). b) rs, JArr (map (\<lambda>(b, v, c). v) rs), concat (map (\<lambda>(b, v, c). c) rs)))"

primrec WalkAndApply ::
    "float_env \<Rightarrow> (json \<Rightarrow> string) \<Rightarrow> MigrationRule \<Rightarrow> string list \<Rightarrow> json \<Rightarrow> string \<Rightarrow> walk_result" where
  "WalkAndApply fe fmt r [] = (\<lambda>node desc. (False, node, []))"
| "WalkAndApply fe fmt r (seg # segs) = (\<lambda>node desc.
     if segs = [] then
       (if is_object node then ApplyActionToTarget fe fmt node seg desc r else (False, node, []))
     else if seg = ''*'' then
       (case node of
          JObj m \<Rightarrow> walk_members (WalkAndApply fe fmt r segs) desc m
        | JArr js \<Rightarrow> walk_elements (WalkAndApply fe fmt r segs) desc js
        | _ \<Rightarrow> (False, node, []))
     else
       (case json_Find node seg of
          None \<Rightarrow> (False, node, [])
        | Some child \<Rightarrow>
            (case WalkAndApply fe fmt r segs child (if desc = [] then seg else desc @ ''.'' @ seg) of
               (b, child', c) \<Rightarrow> (b, json_put node seg child', c))))"

section \<open>The INI file\<close>

text \<open>
  \<open>io_visit\<close>: name and path of every node in the order of \<open>visitSubItems\<close>; \<open>io_has\<close>: \<open>get(path)\<close> is not
  null; \<open>io_copy old new\<close>: \<open>*get(new, true) = *get(old)\<close>; \<open>io_remove\<close>: \<open>remove(path)\<close> and its result.
\<close>

record 'i ini_ops =
  io_visit :: "'i \<Rightarrow> (string \<times> string) list"
  io_has :: "'i \<Rightarrow> string \<Rightarrow> bool"
  io_copy :: "'i \<Rightarrow> string \<Rightarrow> string \<Rightarrow> 'i"
  io_remove :: "'i \<Rightarrow> string \<Rightarrow> bool \<times> 'i"

definition kOutdatedKeys :: "string list" where
  "kOutdatedKeys = [''SceneMenuKey'', ''AsrMenuKey'', ''HoldActivationDelay'']"

definition HasOutdatedIniKeys :: "'i ini_ops \<Rightarrow> 'i \<Rightarrow> bool" where
  "HasOutdatedIniKeys ops conf = list_ex (\<lambda>(name, path). name \<in> set kOutdatedKeys) (io_visit ops conf)"

definition matching_paths :: "'i ini_ops \<Rightarrow> 'i \<Rightarrow> MigrationRule \<Rightarrow> string list" where
  "matching_paths ops ini r =
     map snd (filter (\<lambda>(name, path). if CHR ''/'' \<in> set (mr_path r) then path = mr_path r
                                     else name = mr_path r) (io_visit ops ini))"

definition conf_change :: "string \<Rightarrow> MigrationChange" where
  "conf_change d = \<lparr>ch_file = ''vinput.conf'', ch_description = d\<rparr>"

text \<open>
  The parent of a path is the part before the last slash, or the root; a node below a parent is
  reached from the root by the joined path.
\<close>

definition ApplyIniAt ::
    "'i ini_ops \<Rightarrow> MigrationRule \<Rightarrow> 'i \<times> bool \<times> MigrationChange list \<Rightarrow> string \<Rightarrow>
     'i \<times> bool \<times> MigrationChange list" where
  "ApplyIniAt ops r st path =
     (case st of (ini, changed, changes) \<Rightarrow>
        let slash = rfind_index (\<lambda>c. c = CHR ''/'') path;
            prefix = (case slash of Some i \<Rightarrow> take (Suc i) path | None \<Rightarrow> []);
            parent_ok = (case slash of Some i \<Rightarrow> io_has ops ini (take i path) | None \<Rightarrow> True)
        in if \<not> parent_ok then st
           else case mr_action r of
             IniReplaceKey \<Rightarrow>
               (if io_has ops ini path then
                  (let new_path = prefix @ mr_new_key r;
                       fresh = \<not> io_has ops ini new_path;
                       root1 = (if fresh then io_copy ops ini path new_path else ini)
                   in (snd (io_remove ops root1 path), True,
                       changes @ [conf_change
                         (if fresh then ''replaced key '' @ quoted (mr_path r) @ '' with '' @ quoted (mr_new_key r)
                          else ''removed obsolete duplicate key '' @ quoted (mr_path r))]))
                else st)
           | IniRemoveKey \<Rightarrow>
               (case io_remove ops ini path of
                  (True, root1) \<Rightarrow>
                    (root1, True, changes @ [conf_change (''removed obsolete key '' @ quoted (mr_path r))])
                | (False, root1) \<Rightarrow> (root1, changed, changes))
           | _ \<Rightarrow> st)"

definition ApplyIniRule :: "'i ini_ops \<Rightarrow> 'i \<Rightarrow> MigrationRule \<Rightarrow> 'i \<times> bool \<times> MigrationChange list" where
  "ApplyIniRule ops ini r = foldl (ApplyIniAt ops r) (ini, False, []) (matching_paths ops ini r)"

section \<open>The run\<close>

definition config_satisfies :: "string \<Rightarrow> json \<Rightarrow> bool" where
  "config_satisfies host data =
     (case json_Find data ''version'' of
        Some (JStr ver) \<Rightarrow>
          json_Find data ''vinput_version'' = None
          \<and> (case ParseConfigLowerBoundVersion ver of
               Some lower \<Rightarrow> lower \<ge> GetMaxRuleVersion \<and> Satisfies host ver
             | None \<Rightarrow> False)
      | _ \<Rightarrow> False)"

text \<open>The version of a file without a usable constraint is \<open>None\<close> (\<open>is_unversioned\<close>).\<close>

definition config_version :: "json \<Rightarrow> SemanticVersion option" where
  "config_version data =
     (case json_Find data ''version'' of
        Some (JStr ver) \<Rightarrow> ParseConfigLowerBoundVersion ver
      | _ \<Rightarrow> None)"

definition rule_applies :: "SemanticVersion option \<Rightarrow> MigrationRule \<Rightarrow> bool" where
  "rule_applies ver r =
     (mr_target_file r = ''config.json''
      \<and> (case version_Parse (mr_version r) of
           None \<Rightarrow> False
         | Some rv \<Rightarrow> (case ver of None \<Rightarrow> True | Some v \<Rightarrow> v < rv)))"

definition apply_config_rule ::
    "float_env \<Rightarrow> (json \<Rightarrow> string) \<Rightarrow> SemanticVersion option \<Rightarrow> walk_result \<Rightarrow> MigrationRule \<Rightarrow> walk_result" where
  "apply_config_rule fe fmt ver st r =
     (case st of (changed, data, changes) \<Rightarrow>
        if rule_applies ver r then
          (case WalkAndApply fe fmt r (Split (mr_path r) CHR ''.'') data [] of
             (b, data', c) \<Rightarrow> (changed \<or> b, data', changes @ c))
        else st)"

definition drop_vinput_version :: "walk_result \<Rightarrow> walk_result" where
  "drop_vinput_version st =
     (case st of (changed, data, changes) \<Rightarrow>
        if json_Find data ''vinput_version'' \<noteq> None then
          (True, EraseMember data ''vinput_version'',
           changes @ [config_change (''removed legacy '' @ quoted ''vinput_version'' @ '' field'')])
        else st)"

definition standardize_version :: "walk_result \<Rightarrow> walk_result" where
  "standardize_version st =
     (case st of (changed, data, changes) \<Rightarrow>
        if json_Find data ''version'' \<noteq> Some (JStr GetTargetVersionConstraint) then
          (True, json_put data ''version'' (JStr GetTargetVersionConstraint),
           changes @ [config_change (''version: standardized constraint to '' @ quoted GetTargetVersionConstraint)])
        else st)"

definition migrate_config :: "float_env \<Rightarrow> (json \<Rightarrow> string) \<Rightarrow> json \<Rightarrow> walk_result" where
  "migrate_config fe fmt data =
     (if is_object data then
        standardize_version (drop_vinput_version
          (foldl (apply_config_rule fe fmt (config_version data)) (False, data, []) GetRules))
      else (False, data, []))"

definition apply_conf_rule ::
    "'i ini_ops \<Rightarrow> 'i \<times> bool \<times> MigrationChange list \<Rightarrow> MigrationRule \<Rightarrow> 'i \<times> bool \<times> MigrationChange list" where
  "apply_conf_rule ops st r =
     (case st of (ini, changed, changes) \<Rightarrow>
        if mr_target_file r \<noteq> ''vinput.conf'' then st
        else case ApplyIniRule ops ini r of (ini', b, c) \<Rightarrow> (ini', changed \<or> b, changes @ c))"

definition migrate_conf :: "'i ini_ops \<Rightarrow> 'i \<Rightarrow> 'i \<times> bool \<times> MigrationChange list" where
  "migrate_conf ops ini = foldl (apply_conf_rule ops) (ini, False, []) GetRules"

text \<open>Writes, each with the text or tree that it stores.\<close>

datatype 'i migration_write =
  BackupConfig string
| WriteConfig string
| BackupConf string
| SaveConf 'i

record 'i migration_world =
  mw_resolve_config :: "string option"
  mw_resolve_conf :: "string option"
  mw_config_exists :: bool
  mw_conf_exists :: bool
  mw_read_config :: "string + string"
  mw_read_conf :: "string + string"
  mw_parse :: "string \<Rightarrow> json option"
  mw_pretty :: "json \<Rightarrow> string"
  mw_compact :: "json \<Rightarrow> string"
  mw_ini :: 'i
  mw_host :: string
  mw_config_path :: string
  mw_conf_path :: string
  mw_write :: "'i migration_write \<Rightarrow> string option"

record 'i MigrationReport =
  rp_needed :: bool
  rp_applied :: bool
  rp_changes :: "MigrationChange list"
  rp_error :: string
  rp_writes :: "'i migration_write list"

definition empty_report :: "'i MigrationReport" where
  "empty_report = \<lparr>rp_needed = False, rp_applied = False, rp_changes = [], rp_error = [], rp_writes = []\<rparr>"

definition failed_report :: "string \<Rightarrow> 'i MigrationReport" where
  "failed_report e = empty_report\<lparr>rp_error := e\<rparr>"

text \<open>The writes in order; each carries its error message and the first failure ends the run.\<close>

fun perform_writes ::
    "'i migration_world \<Rightarrow> ('i migration_write \<times> (string \<Rightarrow> string)) list \<Rightarrow> 'i MigrationReport \<Rightarrow> 'i MigrationReport" where
  "perform_writes w [] rep = rep\<lparr>rp_applied := True\<rparr>"
| "perform_writes w ((wr, msg) # ws) rep =
     (case mw_write w wr of
        Some e \<Rightarrow> rep\<lparr>rp_error := msg e\<rparr>
      | None \<Rightarrow> perform_writes w ws (rep\<lparr>rp_writes := rp_writes rep @ [wr]\<rparr>))"

definition run_slow_path ::
    "float_env \<Rightarrow> 'i ini_ops \<Rightarrow> 'i migration_world \<Rightarrow> bool \<Rightarrow> string \<Rightarrow> json \<Rightarrow> string \<Rightarrow> 'i MigrationReport" where
  "run_slow_path fe ops w dry_run raw_config data raw_conf =
     (let (config_changed, data', changes1) =
            (if mw_config_exists w then migrate_config fe (mw_compact w) data else (False, data, []));
          (ini', conf_changed, changes2) =
            (if mw_conf_exists w then migrate_conf ops (mw_ini w) else (mw_ini w, False, []));
          needed = (changes1 @ changes2 \<noteq> [] \<or> config_changed \<or> conf_changed);
          rep = empty_report\<lparr>rp_needed := needed, rp_changes := changes1 @ changes2\<rparr>
      in if \<not> needed \<or> dry_run then rep
         else perform_writes w
           ((if config_changed \<and> mw_config_exists w then
               [(BackupConfig raw_config,
                   \<lambda>e. ''Failed to create backup for '' @ mw_config_path w @ '': '' @ e),
                (WriteConfig (mw_pretty w data' @ [CHR 0x0A]),
                   \<lambda>e. ''Failed to write migrated '' @ mw_config_path w @ '': '' @ e)]
             else []) @
            (if conf_changed \<and> mw_conf_exists w then
               [(BackupConf raw_conf,
                   \<lambda>e. ''Failed to create backup for '' @ mw_conf_path w @ '': '' @ e),
                (SaveConf ini', \<lambda>e. ''Failed to write migrated '' @ mw_conf_path w)]
             else []))
           rep)"

definition RunConfigMigration ::
    "float_env \<Rightarrow> 'i ini_ops \<Rightarrow> 'i migration_world \<Rightarrow> bool \<Rightarrow> 'i MigrationReport" where
  "RunConfigMigration fe ops w dry_run =
     (case mw_resolve_config w of Some e \<Rightarrow> failed_report e | None \<Rightarrow>
      case mw_resolve_conf w of Some e \<Rightarrow> failed_report e | None \<Rightarrow>
      if \<not> mw_config_exists w \<and> \<not> mw_conf_exists w then empty_report else
      case (if mw_config_exists w then mw_read_config w else Inr []) of
        Inl e \<Rightarrow> failed_report e
      | Inr raw_config \<Rightarrow>
      case (if mw_config_exists w then mw_parse w raw_config else Some JNull) of
        None \<Rightarrow> failed_report (''Failed to parse '' @ mw_config_path w @ '': invalid JSON'')
      | Some data \<Rightarrow>
      case (if mw_conf_exists w then mw_read_conf w else Inr []) of
        Inl e \<Rightarrow> failed_report e
      | Inr raw_conf \<Rightarrow>
      if (mw_config_exists w \<longrightarrow> config_satisfies (mw_host w) data)
         \<and> \<not> (mw_conf_exists w \<and> HasOutdatedIniKeys ops (mw_ini w))
      then empty_report
      else run_slow_path fe ops w dry_run raw_config data raw_conf)"

definition HasPendingMigrations :: "float_env \<Rightarrow> 'i ini_ops \<Rightarrow> 'i migration_world \<Rightarrow> bool" where
  "HasPendingMigrations fe ops w = rp_needed (RunConfigMigration fe ops w True)"

section \<open>Facts about single actions\<close>

lemma json_put_sel [simp]:
  "is_object (json_put j k v) = is_object j"
  "is_object (EraseMember j k) = is_object j"
  by (cases j; simp)+

lemma json_Find_put [simp]:
  "json_Find (json_put j k v) k' = (if k' = k \<and> is_object j then Some v else json_Find j k')"
  by (cases j) auto

lemma json_Find_erase [simp]:
  "json_Find (EraseMember j k) k' = (if k' = k then None else json_Find j k')"
  by (cases j) auto

lemma ApplyActionToTarget_object:
  "is_object (fst (snd (ApplyActionToTarget fe fmt parent key desc r))) = is_object parent"
  by (simp add: ApplyActionToTarget_def Let_def split: ActionType.split option.split)

lemma WalkAndApply_object:
  "is_object (fst (snd (WalkAndApply fe fmt r segs node desc))) = is_object node"
  by (cases segs)
     (auto simp: ApplyActionToTarget_object walk_members_def walk_elements_def Let_def
       split: json.split option.split prod.split)

lemma WalkAndApply_frame:
  assumes "segs \<noteq> []" and "seg \<noteq> ''*''" and "k \<noteq> seg"
  shows "json_Find (fst (snd (WalkAndApply fe fmt r (seg # segs) node desc))) k = json_Find node k"
  using assms by (simp split: option.split prod.split)

section \<open>The rule table\<close>

lemma show_literal:
  "show_version (SemanticVersion 2 3 15) = ''2.3.15''"
  "show_version (SemanticVersion 2 3 25) = ''2.3.25''"
  "show_version (SemanticVersion 2 3 27) = ''2.3.27''"
  "show_version (SemanticVersion 2 4 0) = ''2.4.0''"
  by code_simp+

lemma parse_literal:
  "version_Parse ''2.3.15'' = Some (SemanticVersion 2 3 15)"
  "version_Parse ''2.3.25'' = Some (SemanticVersion 2 3 25)"
  "version_Parse ''2.3.27'' = Some (SemanticVersion 2 3 27)"
  "version_Parse ''2.4.0'' = Some (SemanticVersion 2 4 0)"
  using parse_show_version [of "SemanticVersion 2 3 15"] parse_show_version [of "SemanticVersion 2 3 25"]
    parse_show_version [of "SemanticVersion 2 3 27"] parse_show_version [of "SemanticVersion 2 4 0"]
  by (simp_all add: version_ok_def int32_max_def show_literal)

lemma GetMaxRuleVersion_eval: "GetMaxRuleVersion = SemanticVersion 2 4 0"
  by (simp add: GetMaxRuleVersion_def GetRules_def rule_def parse_literal less_SemanticVersion_def)

lemma GetTargetVersionConstraint_eq:
  "GetTargetVersionConstraint = ''>='' @ show_version (SemanticVersion 2 4 0)"
  by (simp add: GetTargetVersionConstraint_def GetMaxRuleVersion_eval show_version_def)

lemma version_ok_target: "version_ok (SemanticVersion 2 4 0)"
  by (simp add: version_ok_def int32_max_def)

lemma lower_bound_target:
  "ParseConfigLowerBoundVersion GetTargetVersionConstraint = Some (SemanticVersion 2 4 0)"
proof -
  let ?v = "SemanticVersion 2 4 0"
  have t: "Trim (''>='' @ show_version ?v) = ''>='' @ show_version ?v"
    using version_ok_target by (intro Trim_op_version) (simp_all add: is_space_def)
  have "cut_at CHR '','' (''>='' @ show_version ?v) = ''>='' @ show_version ?v"
    by (simp add: cut_at_def show_literal)
  moreover have "dropWhile (\<lambda>c. c = CHR ''>'' \<or> c = CHR ''='' \<or> c = CHR '' '') (''>='' @ show_version ?v) = show_version ?v"
    by (simp add: show_literal)
  ultimately show ?thesis
    using t parse_show_version [OF version_ok_target]
    by (simp add: ParseConfigLowerBoundVersion_def GetTargetVersionConstraint_eq Let_def)
qed

definition migrated_keys :: "string list" where
  "migrated_keys = [''scenes'', ''llm'', ''global'', ''asr'']"

lemma rule_paths:
  assumes "r \<in> set GetRules" and "mr_target_file r = ''config.json''"
  shows "\<exists>seg segs. Split (mr_path r) CHR ''.'' = seg # segs \<and> segs \<noteq> [] \<and> seg \<noteq> ''*''
    \<and> seg \<in> set migrated_keys"
  using assms
  by (auto simp: GetRules_def rule_def Split_spec migrated_keys_def)

lemma rule_versions: "r \<in> set GetRules \<Longrightarrow> \<not> rule_applies (Some (SemanticVersion 2 4 0)) r"
  by (auto simp: GetRules_def rule_def rule_applies_def parse_literal less_SemanticVersion_def)

section \<open>The whole migration of a tree\<close>

lemma apply_config_rules_frame:
  assumes "set rs \<subseteq> set GetRules"
  shows "is_object (fst (snd (foldl (apply_config_rule fe fmt ver) (b, data, c) rs))) = is_object data
    \<and> (k \<notin> set migrated_keys \<longrightarrow>
         json_Find (fst (snd (foldl (apply_config_rule fe fmt ver) (b, data, c) rs))) k = json_Find data k)"
  using assms
proof (induction rs arbitrary: b data c)
  case (Cons r rs)
  obtain b' data' c' where step: "apply_config_rule fe fmt ver (b, data, c) r = (b', data', c')"
    by (metis prod_cases3)
  have "is_object data' = is_object data \<and> (k \<notin> set migrated_keys \<longrightarrow> json_Find data' k = json_Find data k)"
  proof (cases "rule_applies ver r")
    case True
    then have "mr_target_file r = ''config.json''" by (simp add: rule_applies_def)
    with Cons.prems obtain seg segs where split: "Split (mr_path r) CHR ''.'' = seg # segs"
      and seg: "segs \<noteq> []" "seg \<noteq> ''*''" "seg \<in> set migrated_keys"
      using rule_paths [of r] by auto
    have data': "data' = fst (snd (WalkAndApply fe fmt r (seg # segs) data []))"
      using step True split
      by (simp add: apply_config_rule_def del: WalkAndApply.simps split: prod.splits)
    show ?thesis unfolding data'
      using seg WalkAndApply_frame [OF seg(1,2), of k] WalkAndApply_object [of fe fmt r "seg # segs" data "[]"]
      by metis
  next
    case False
    with step show ?thesis by (simp add: apply_config_rule_def)
  qed
  then show ?case using Cons by (simp add: step)
qed simp

lemma drop_vinput_version_sel:
  "is_object (fst (snd (drop_vinput_version st))) = is_object (fst (snd st))"
  "json_Find (fst (snd (drop_vinput_version st))) k =
     (if k = ''vinput_version'' then None else json_Find (fst (snd st)) k)"
  by (auto simp: drop_vinput_version_def split: prod.split)

lemma standardize_version_sel:
  "is_object (fst (snd (standardize_version st))) = is_object (fst (snd st))"
  "is_object (fst (snd st)) \<Longrightarrow> json_Find (fst (snd (standardize_version st))) k =
     (if k = ''version'' then Some (JStr GetTargetVersionConstraint) else json_Find (fst (snd st)) k)"
  by (auto simp: standardize_version_def split: prod.split)

lemma migrate_config_result:
  fixes fe :: float_env and fmt :: "json \<Rightarrow> string"
  assumes "is_object data"
  defines "data' \<equiv> fst (snd (migrate_config fe fmt data))"
  shows "is_object data'" and "json_Find data' ''version'' = Some (JStr GetTargetVersionConstraint)"
    and "json_Find data' ''vinput_version'' = None"
    and "k \<notin> set (''version'' # ''vinput_version'' # migrated_keys) \<Longrightarrow> json_Find data' k = json_Find data k"
  using assms apply_config_rules_frame [of GetRules fe fmt "config_version data" False data "[]"]
  by (simp_all add: migrate_config_def standardize_version_sel drop_vinput_version_sel)

lemma config_version_target:
  "json_Find data ''version'' = Some (JStr GetTargetVersionConstraint) \<Longrightarrow>
     config_version data = Some (SemanticVersion 2 4 0)"
  by (simp add: config_version_def lower_bound_target)

lemma no_rule_applies:
  "set rs \<subseteq> set GetRules \<Longrightarrow>
     foldl (apply_config_rule fe fmt (Some (SemanticVersion 2 4 0))) st rs = st"
  by (induction rs arbitrary: st) (auto simp: apply_config_rule_def rule_versions split: prod.split)

section \<open>Properties\<close>

text \<open>
  C25: migrating is done once: the result of migrating a \<open>config.json\<close> carries the target version
  constraint and no legacy version field, and migrating it again changes nothing and reports
  nothing, whatever the host version. On a host of version 2.4.0 or later the fast path accepts it.
\<close>

theorem migrate_config_once:
  fixes fe :: float_env and fmt :: "json \<Rightarrow> string"
  assumes "is_object data"
  defines "data' \<equiv> fst (snd (migrate_config fe fmt data))"
  shows "migrate_config fe fmt data' = (False, data', [])
    \<and> json_Find data' ''version'' = Some (JStr GetTargetVersionConstraint)
    \<and> json_Find data' ''vinput_version'' = None
    \<and> (version_ok host \<longrightarrow> (config_satisfies (show_version host) data' \<longleftrightarrow> host \<ge> SemanticVersion 2 4 0))"
proof -
  note res = migrate_config_result [OF assms(1), where fe = fe and fmt = fmt, folded data'_def]
  have "migrate_config fe fmt data' = (False, data', [])"
    using res(1) no_rule_applies [of GetRules fe fmt "(False, data', [])"]
    by (simp add: migrate_config_def config_version_target [OF res(2)] drop_vinput_version_def
        standardize_version_def res(2,3))
  moreover have "config_satisfies (show_version host) data' \<longleftrightarrow> host \<ge> SemanticVersion 2 4 0" if "version_ok host"
    using Satisfies_op_version(1) [OF that version_ok_target, folded GetTargetVersionConstraint_eq]
    by (simp add: config_satisfies_def res(2,3) lower_bound_target GetMaxRuleVersion_eval)
  ultimately show ?thesis using res by blast
qed

definition old_config :: json where
  "old_config = JObj [(''custom'', JNum (Finite 7)), (''llm'', JObj [(''adaptors'', JArr [])]),
     (''vinput_version'', JStr ''2.3.0'')]"

theorem migrate_config_once_witness:
  "fst (migrate_config exact_env (\<lambda>_. []) (fst (snd (migrate_config exact_env (\<lambda>_. []) old_config)))) = False"
  using migrate_config_once [of old_config exact_env "\<lambda>_. []"] by (simp add: old_config_def)

text \<open>
  Migration leaves the rest of the user's file alone: every top-level member other than
  \<open>scenes\<close>, \<open>llm\<close>, \<open>global\<close>, \<open>asr\<close> and the version fields keeps its value, known to this version or
  not.
\<close>

theorem migrate_config_frame:
  assumes "is_object data" and "k \<notin> set [''version'', ''vinput_version'', ''scenes'', ''llm'', ''global'', ''asr'']"
  shows "json_Find (fst (snd (migrate_config fe fmt data))) k = json_Find data k"
  using assms migrate_config_result(4) [of data k fe fmt] by (simp add: migrated_keys_def)

theorem migrate_config_frame_witness:
  "json_Find (fst (snd (migrate_config exact_env (\<lambda>_. []) old_config))) ''custom'' = Some (JNum (Finite 7))"
  using migrate_config_frame [of old_config "''custom''" exact_env "\<lambda>_. []"] by (simp add: old_config_def)

lemma perform_writes_take:
  "\<exists>n. rp_writes (perform_writes w ws rep) = rp_writes rep @ take n (map fst ws)"
proof (induction w ws rep rule: perform_writes.induct)
  case (2 w wr msg ws rep)
  show ?case
  proof (cases "mw_write w wr")
    case (Some e)
    then show ?thesis by (intro exI [of _ 0]) simp
  next
    case None
    from 2 [OF None] obtain n where
      "rp_writes (perform_writes w ((wr, msg) # ws) rep) = rp_writes rep @ wr # take n (map fst ws)"
      using None by auto
    then show ?thesis by (intro exI [of _ "Suc n"]) simp
  qed
qed simp

lemma perform_writes_applied:
  "\<not> rp_applied rep \<Longrightarrow> rp_applied (perform_writes w ws rep) \<Longrightarrow>
     rp_error (perform_writes w ws rep) = rp_error rep"
  by (induction w ws rep rule: perform_writes.induct) (auto split: option.splits)

text \<open>The writes of a run that no failure cuts short.\<close>

definition planned_writes ::
    "bool \<Rightarrow> string \<Rightarrow> string \<Rightarrow> bool \<Rightarrow> string \<Rightarrow> 'i \<Rightarrow> 'i migration_write list" where
  "planned_writes config raw_config t conf raw_conf ini =
     (if config then [BackupConfig raw_config, WriteConfig t] else []) @
     (if conf then [BackupConf raw_conf, SaveConf ini] else [])"

lemma run_slow_path_writes:
  "(dry_run \<longrightarrow> rp_writes (run_slow_path fe ops w dry_run raw_config data raw_conf) = [])
   \<and> (rp_applied (run_slow_path fe ops w dry_run raw_config data raw_conf) \<longrightarrow>
        rp_error (run_slow_path fe ops w dry_run raw_config data raw_conf) = [])
   \<and> (\<exists>n a t b ini. rp_writes (run_slow_path fe ops w dry_run raw_config data raw_conf) =
        take n (planned_writes a raw_config t b raw_conf ini)
        \<and> (a \<longrightarrow> mw_config_exists w) \<and> (b \<longrightarrow> mw_conf_exists w))"
proof -
  obtain cc data' ch1 where m1: "(if mw_config_exists w then migrate_config fe (mw_compact w) data
      else (False, data, [])) = (cc, data', ch1)" by (metis prod_cases3)
  obtain ini' fc ch2 where m2: "(if mw_conf_exists w then migrate_conf ops (mw_ini w)
      else (mw_ini w, False, [])) = (ini', fc, ch2)" by (metis prod_cases3)
  show ?thesis
  proof (cases "ch1 @ ch2 = [] \<and> \<not> cc \<and> \<not> fc \<or> dry_run")
    case True
    then have "run_slow_path fe ops w dry_run raw_config data raw_conf =
        empty_report\<lparr>rp_needed := ch1 @ ch2 \<noteq> [] \<or> cc \<or> fc, rp_changes := ch1 @ ch2\<rparr>"
      by (auto simp: run_slow_path_def m1 m2 Let_def)
    then show ?thesis by (auto simp: empty_report_def intro: exI [of _ 0])
  next
    case False
    define rep :: "'a MigrationReport" where "rep = empty_report\<lparr>rp_needed := True, rp_changes := ch1 @ ch2\<rparr>"
    define t where "t = mw_pretty w data' @ [CHR 0x0A]"
    obtain ws where run: "run_slow_path fe ops w dry_run raw_config data raw_conf = perform_writes w ws rep"
      and ws: "map fst ws = planned_writes (cc \<and> mw_config_exists w) raw_config t (fc \<and> mw_conf_exists w) raw_conf ini'"
      using False by (auto simp: run_slow_path_def m1 m2 Let_def rep_def t_def planned_writes_def)
    have rep: "rp_writes rep = []" "rp_error rep = []" "\<not> rp_applied rep"
      by (simp_all add: rep_def empty_report_def)
    from perform_writes_take [of w ws rep] obtain n where
      "rp_writes (perform_writes w ws rep) = take n (map fst ws)" by (auto simp: rep)
    then have "rp_writes (perform_writes w ws rep) =
        take n (planned_writes (cc \<and> mw_config_exists w) raw_config t (fc \<and> mw_conf_exists w) raw_conf ini')"
      by (simp only: ws)
    then have "\<exists>n a t b ini. rp_writes (perform_writes w ws rep) =
        take n (planned_writes a raw_config t b raw_conf ini)
        \<and> (a \<longrightarrow> mw_config_exists w) \<and> (b \<longrightarrow> mw_conf_exists w)"
      by (intro exI conjI) (assumption, simp_all)
    then show ?thesis unfolding run
      using perform_writes_applied [of rep w ws] False rep by simp
  qed
qed

text \<open>
  No write without a backup. A dry run writes nothing; a migrated \<open>config.json\<close> is written only
  directly after the text that was read has been backed up, the INI file likewise; a failure ends
  the run, and a run that reports itself applied has no error.
\<close>

theorem RunConfigMigration_backs_up:
  "(dry_run \<longrightarrow> rp_writes (RunConfigMigration fe ops w dry_run) = [])
   \<and> (rp_applied (RunConfigMigration fe ops w dry_run) \<longrightarrow> rp_error (RunConfigMigration fe ops w dry_run) = [])
   \<and> (\<exists>n a raw_config t b raw_conf ini.
        rp_writes (RunConfigMigration fe ops w dry_run) = take n (planned_writes a raw_config t b raw_conf ini)
        \<and> (a \<longrightarrow> mw_read_config w = Inr raw_config) \<and> (b \<longrightarrow> mw_read_conf w = Inr raw_conf))"
proof (cases "\<exists>raw_config data raw_conf.
    RunConfigMigration fe ops w dry_run = run_slow_path fe ops w dry_run raw_config data raw_conf
    \<and> (mw_config_exists w \<longrightarrow> mw_read_config w = Inr raw_config)
    \<and> (mw_conf_exists w \<longrightarrow> mw_read_conf w = Inr raw_conf)")
  case True
  then obtain raw_config data raw_conf where
    run: "RunConfigMigration fe ops w dry_run = run_slow_path fe ops w dry_run raw_config data raw_conf"
    and read: "mw_config_exists w \<longrightarrow> mw_read_config w = Inr raw_config"
      "mw_conf_exists w \<longrightarrow> mw_read_conf w = Inr raw_conf" by blast
  show ?thesis unfolding run
    using run_slow_path_writes [of dry_run fe ops w raw_config data raw_conf] read by blast
next
  case False
  then have "rp_writes (RunConfigMigration fe ops w dry_run) = [] \<and> \<not> rp_applied (RunConfigMigration fe ops w dry_run)"
    by (auto simp: RunConfigMigration_def failed_report_def empty_report_def
        split: option.splits sum.splits if_splits)
  moreover have "[] = take 0 (planned_writes False [] [] False [] (mw_ini w))" by simp
  ultimately show ?thesis by metis
qed

definition flat_ini :: "string list ini_ops" where
  "flat_ini = \<lparr>io_visit = map (\<lambda>k. (k, k)), io_has = (\<lambda>i k. k \<in> set i), io_copy = (\<lambda>i old new. i @ [new]),
     io_remove = (\<lambda>i k. (k \<in> set i, removeAll k i))\<rparr>"

definition example_world :: "string list migration_world" where
  "example_world = \<lparr>mw_resolve_config = None, mw_resolve_conf = None, mw_config_exists = False,
     mw_conf_exists = True, mw_read_config = Inl [], mw_read_conf = Inr ''raw'', mw_parse = (\<lambda>_. None),
     mw_pretty = (\<lambda>_. []), mw_compact = (\<lambda>_. []), mw_ini = [''AsrMenuKey''], mw_host = ''2.4.0'',
     mw_config_path = [], mw_conf_path = [], mw_write = (\<lambda>_. None)\<rparr>"

theorem RunConfigMigration_backs_up_witness:
  "rp_writes (RunConfigMigration exact_env flat_ini example_world False) = [BackupConf ''raw'', SaveConf []]
   \<and> rp_writes (RunConfigMigration exact_env flat_ini example_world True) = []"
proof
  show "rp_writes (RunConfigMigration exact_env flat_ini example_world True) = []"
    using RunConfigMigration_backs_up [of True exact_env flat_ini example_world] by simp
  show "rp_writes (RunConfigMigration exact_env flat_ini example_world False) = [BackupConf ''raw'', SaveConf []]"
    by (simp add: RunConfigMigration_def example_world_def flat_ini_def HasOutdatedIniKeys_def kOutdatedKeys_def
        run_slow_path_def migrate_conf_def GetRules_def rule_def apply_conf_rule_def ApplyIniRule_def
        matching_paths_def ApplyIniAt_def rfind_index_def conf_change_def empty_report_def Let_def)
qed

end
