(* ===== verification/Config_Json.thy ===== *)
theory Config_Json
  imports Core_Config Version_Utils
begin

text \<open>
  The mapping between the configuration and \<open>config.json\<close> (\<open>common/config/core_config_json.cpp\<close>): the
  wire structs, the conversions in both directions, and reading section by section.

  The glaze library reads and writes the wire structs; its calls are the fields of the record
  \<open>glaze\<close>. \<open>gz_section ... node\<close> is the pair \<open>write_json(node)\<close>, \<open>read<kConfigReadOpts>\<close> of
  \<open>ReadSection\<close>. What the properties need of glaze is \<open>reads_back\<close>: the text it writes for a
  configuration is read as a tree whose sections give the written structs.
\<close>

section \<open>Wire structs\<close>

record LlmProviderWire =
  lpw_id :: string
  lpw_base_url :: "string option"
  lpw_api_key :: "string option"
  lpw_json_object :: "bool option"
  lpw_extra_body :: "json option"

record LlmAdapterWire =
  law_id :: string
  law_command :: string
  law_args :: "json option"
  law_env :: "json option"
  law_auto_start :: "bool option"

type_synonym ClientSpecWire = LlmAdapterWire

record AsrProviderWire =
  apw_id :: string
  apw_type :: string
  apw_model :: "string option"
  apw_hotwords_file :: "string option"
  apw_command :: "string option"
  apw_args :: "json option"
  apw_env :: "json option"
  apw_timeout_ms :: "int option"

record GlobalWire =
  gw_capture_device :: string
  gw_duck_output_while_recording :: bool
  gw_duck_output_volume :: fp

record VadWire =
  vw_enabled :: bool
  vw_threshold :: fp
  vw_min_speech_duration :: fp
  vw_min_silence_duration :: fp
  vw_speech_pad_ms :: int

record RegistryWire =
  rw_base_urls :: "json option"

record SceneWire =
  sw_id :: string
  sw_label :: "string option"
  sw_prompt :: "string option"
  sw_provider_id :: "string option"
  sw_model :: "string option"
  sw_count :: "int option"
  sw_timeout_ms :: "int option"
  sw_context_lines :: "int option"
  sw_raw_cand :: "bool option"
  sw_raw_prev :: "bool option"

record LlmWire =
  lw_providers :: "LlmProviderWire list option"
  lw_adapters :: "LlmAdapterWire list option"

record AsrWire =
  aw_active_provider :: string
  aw_normalize_audio :: bool
  aw_input_gain :: fp
  aw_vad :: "VadWire option"
  aw_providers :: "AsrProviderWire list option"

record ScenesWire =
  ssw_active_scene :: string
  ssw_definitions :: "SceneWire list option"

record CoreConfigWire =
  cw_version :: "json option"
  cw_registry :: "RegistryWire option"
  cw_global :: "GlobalWire option"
  cw_asr :: "AsrWire option"
  cw_llm :: "LlmWire option"
  cw_scenes :: "ScenesWire option"
  cw_triggers :: "ClientSpecWire list option"
  cw_receivers :: "ClientSpecWire list option"

section \<open>Wire to domain\<close>

definition default_llm_provider :: LlmProvider where
  "default_llm_provider = \<lparr>lp_id = [], lp_base_url = [], lp_api_key = [], lp_json_object = True, lp_extra_body = JObj []\<rparr>"

definition default_llm_adapter :: LlmAdapter where
  "default_llm_adapter = \<lparr>la_id = [], la_command = [], la_args = [], la_env = [], la_autoStart = False\<rparr>"

definition default_client :: ClientSpec where
  "default_client = \<lparr>cs_id = [], cs_command = [], cs_args = [], cs_env = [], cs_autoStart = False\<rparr>"

definition default_local :: LocalAsr where
  "default_local = \<lparr>lo_id = [], lo_timeoutMs = 0, lo_model = [], lo_hotwordsFile = []\<rparr>"

definition default_command :: CommandAsr where
  "default_command = \<lparr>co_id = [], co_timeoutMs = 0, co_command = [], co_args = [], co_env = []\<rparr>"

definition FromWire_LlmProvider :: "LlmProviderWire \<Rightarrow> LlmProvider \<Rightarrow> LlmProvider" where
  "FromWire_LlmProvider w p =
     p\<lparr>lp_id := lpw_id w, lp_base_url := value_or (lpw_base_url w) (lp_base_url p),
       lp_api_key := value_or (lpw_api_key w) (lp_api_key p),
       lp_json_object := value_or (lpw_json_object w) (lp_json_object p),
       lp_extra_body := (case lpw_extra_body w of Some j \<Rightarrow> if is_object j then j else JObj [] | None \<Rightarrow> JObj [])\<rparr>"

definition FromWire_LlmAdapter :: "LlmAdapterWire \<Rightarrow> LlmAdapter \<Rightarrow> LlmAdapter" where
  "FromWire_LlmAdapter w a =
     a\<lparr>la_id := law_id w, la_command := law_command w,
       la_args := value_or (map_option Strings_value (law_args w)) (la_args a),
       la_env := value_or (map_option StringMap_value (law_env w)) (la_env a),
       la_autoStart := value_or (law_auto_start w) (la_autoStart a)\<rparr>"

definition FromWire_Client :: "ClientSpecWire \<Rightarrow> ClientSpec \<Rightarrow> ClientSpec" where
  "FromWire_Client w c =
     c\<lparr>cs_id := law_id w, cs_command := law_command w,
       cs_args := value_or (map_option Strings_value (law_args w)) (cs_args c),
       cs_env := value_or (map_option StringMap_value (law_env w)) (cs_env c),
       cs_autoStart := value_or (law_auto_start w) (cs_autoStart c)\<rparr>"

definition FromWire_AsrProvider :: "AsrProviderWire \<Rightarrow> AsrProvider \<Rightarrow> AsrProvider" where
  "FromWire_AsrProvider w p =
     (if apw_type w = kLocalProviderType then
        LocalAsrProvider (default_local
          \<lparr>lo_id := apw_id w, lo_model := value_or (apw_model w) (lo_model default_local),
           lo_hotwordsFile := value_or (apw_hotwords_file w) (lo_hotwordsFile default_local),
           lo_timeoutMs := value_or (apw_timeout_ms w) (lo_timeoutMs default_local)\<rparr>)
      else if apw_type w = kCommandProviderType then
        CommandAsrProvider (default_command
          \<lparr>co_id := apw_id w, co_command := value_or (apw_command w) (co_command default_command),
           co_args := value_or (map_option Strings_value (apw_args w)) (co_args default_command),
           co_env := value_or (map_option StringMap_value (apw_env w)) (co_env default_command),
           co_timeoutMs := value_or (apw_timeout_ms w) (co_timeoutMs default_command)\<rparr>)
      else p)"

definition FromWire_Global :: "GlobalWire \<Rightarrow> CoreConfig \<Rightarrow> CoreConfig" where
  "FromWire_Global w c =
     c\<lparr>cc_captureDevice := gw_capture_device w,
       cc_duckOutputWhileRecording := gw_duck_output_while_recording w,
       cc_duckOutputVolume := gw_duck_output_volume w\<rparr>"

definition FromWire_Vad :: "VadWire \<Rightarrow> VadConfig \<Rightarrow> VadConfig" where
  "FromWire_Vad w v =
     v\<lparr>vad_enabled := vw_enabled w, vad_threshold := vw_threshold w,
       vad_minSpeechDuration := vw_min_speech_duration w,
       vad_minSilenceDuration := vw_min_silence_duration w, vad_speechPadMs := vw_speech_pad_ms w\<rparr>"

definition FromWire_Registry :: "RegistryWire \<Rightarrow> CoreConfig \<Rightarrow> CoreConfig" where
  "FromWire_Registry w c =
     c\<lparr>cc_baseUrls := (case rw_base_urls w of
                         None \<Rightarrow> []
                       | Some j \<Rightarrow> filter (\<lambda>u. u \<noteq> []) (Strings_value j))\<rparr>"

definition FromWire_Scene :: "SceneWire \<Rightarrow> SceneDefinition \<Rightarrow> SceneDefinition" where
  "FromWire_Scene w s =
     s\<lparr>sc_id := sw_id w, sc_label := value_or (sw_label w) [], sc_prompt := value_or (sw_prompt w) [],
       sc_provider_id := value_or (sw_provider_id w) [], sc_model := value_or (sw_model w) [],
       sc_llm_max_candidates := value_or (sw_count w) kDefaultLlmMaxCandidates,
       sc_timeout_ms := value_or (sw_timeout_ms w) kDefaultTimeoutMs,
       sc_context_lines := value_or (sw_context_lines w) kDefaultContextLines,
       sc_raw_cand := value_or (sw_raw_cand w) True, sc_raw_prev := value_or (sw_raw_prev w) True\<rparr>"

definition FromWire_Llm :: "LlmWire \<Rightarrow> CoreConfig \<Rightarrow> CoreConfig" where
  "FromWire_Llm w c =
     c\<lparr>cc_llm_providers := (case lw_providers w of
          Some ps \<Rightarrow> map (\<lambda>e. FromWire_LlmProvider e default_llm_provider) ps | None \<Rightarrow> cc_llm_providers c),
       cc_llm_adapters := (case lw_adapters w of
          Some as \<Rightarrow> map (\<lambda>e. FromWire_LlmAdapter e default_llm_adapter) as | None \<Rightarrow> cc_llm_adapters c)\<rparr>"

definition FromWire_Asr :: "AsrWire \<Rightarrow> CoreConfig \<Rightarrow> CoreConfig" where
  "FromWire_Asr w c =
     c\<lparr>cc_activeProvider := aw_active_provider w, cc_normalizeAudio := aw_normalize_audio w,
       cc_inputGain := aw_input_gain w,
       cc_vad := (case aw_vad w of Some v \<Rightarrow> FromWire_Vad v (cc_vad c) | None \<Rightarrow> cc_vad c),
       cc_asr_providers := (case aw_providers w of
          Some ps \<Rightarrow> map (\<lambda>e. FromWire_AsrProvider e (LocalAsrProvider default_local)) ps
        | None \<Rightarrow> cc_asr_providers c)\<rparr>"

definition FromWire_Scenes :: "ScenesWire \<Rightarrow> CoreConfig \<Rightarrow> CoreConfig" where
  "FromWire_Scenes w c =
     c\<lparr>cc_activeScene := ssw_active_scene w,
       cc_definitions := (case ssw_definitions w of
          Some ds \<Rightarrow> map (\<lambda>e. FromWire_Scene e default_scene) ds | None \<Rightarrow> cc_definitions c)\<rparr>"

section \<open>Domain to wire\<close>

text \<open>A member that is written only under a condition.\<close>

definition only_if :: "bool \<Rightarrow> 'a \<Rightarrow> 'a option" where
  "only_if b x = (if b then Some x else None)"

definition ToWire_LlmProvider :: "LlmProvider \<Rightarrow> LlmProviderWire" where
  "ToWire_LlmProvider p =
     \<lparr>lpw_id = lp_id p, lpw_base_url = only_if (lp_base_url p \<noteq> []) (lp_base_url p),
      lpw_api_key = only_if (lp_api_key p \<noteq> []) (lp_api_key p),
      lpw_json_object = only_if (\<not> lp_json_object p) False,
      lpw_extra_body = only_if (is_object (lp_extra_body p) \<and> lp_extra_body p \<noteq> JObj []) (lp_extra_body p)\<rparr>"

definition ToWire_LlmAdapter :: "LlmAdapter \<Rightarrow> LlmAdapterWire" where
  "ToWire_LlmAdapter a =
     \<lparr>law_id = la_id a, law_command = la_command a, law_args = only_if (la_args a \<noteq> []) (FromStrings (la_args a)),
      law_env = only_if (la_env a \<noteq> []) (FromStringMap (la_env a)), law_auto_start = only_if (la_autoStart a) True\<rparr>"

definition ToWire_Client :: "ClientSpec \<Rightarrow> ClientSpecWire" where
  "ToWire_Client c =
     \<lparr>law_id = cs_id c, law_command = cs_command c, law_args = only_if (cs_args c \<noteq> []) (FromStrings (cs_args c)),
      law_env = only_if (cs_env c \<noteq> []) (FromStringMap (cs_env c)), law_auto_start = only_if (cs_autoStart c) True\<rparr>"

definition ToWire_AsrProvider :: "AsrProvider \<Rightarrow> AsrProviderWire" where
  "ToWire_AsrProvider p =
     (let w = \<lparr>apw_id = AsrProviderId p, apw_type = AsrProviderType p, apw_model = None, apw_hotwords_file = None,
               apw_command = None, apw_args = None, apw_env = None, apw_timeout_ms = None\<rparr>
      in case p of
           LocalAsrProvider l \<Rightarrow>
             w\<lparr>apw_model := only_if (lo_model l \<noteq> []) (lo_model l),
               apw_hotwords_file := only_if (lo_hotwordsFile l \<noteq> []) (lo_hotwordsFile l),
               apw_timeout_ms := only_if (lo_timeoutMs l > 0) (lo_timeoutMs l)\<rparr>
         | CommandAsrProvider c \<Rightarrow>
             w\<lparr>apw_command := only_if (co_command c \<noteq> []) (co_command c),
               apw_args := only_if (co_args c \<noteq> []) (FromStrings (co_args c)),
               apw_env := only_if (co_env c \<noteq> []) (FromStringMap (co_env c)),
               apw_timeout_ms := only_if (co_timeoutMs c > 0) (co_timeoutMs c)\<rparr>)"

definition ToWire_Global :: "CoreConfig \<Rightarrow> GlobalWire" where
  "ToWire_Global c =
     \<lparr>gw_capture_device = cc_captureDevice c, gw_duck_output_while_recording = cc_duckOutputWhileRecording c,
      gw_duck_output_volume = cc_duckOutputVolume c\<rparr>"

definition ToWire_Vad :: "VadConfig \<Rightarrow> VadWire" where
  "ToWire_Vad v =
     \<lparr>vw_enabled = vad_enabled v, vw_threshold = vad_threshold v, vw_min_speech_duration = vad_minSpeechDuration v,
      vw_min_silence_duration = vad_minSilenceDuration v, vw_speech_pad_ms = vad_speechPadMs v\<rparr>"

definition ToWire_Registry :: "CoreConfig \<Rightarrow> RegistryWire" where
  "ToWire_Registry c = \<lparr>rw_base_urls = only_if (cc_baseUrls c \<noteq> []) (FromStrings (cc_baseUrls c))\<rparr>"

definition label_written :: "SceneDefinition \<Rightarrow> bool" where
  "label_written s \<longleftrightarrow>
     sc_label s \<noteq> [] \<and> \<not> IsBuiltinSceneLabelKey (sc_label s) \<and> \<not> IsBuiltinSceneId (sc_id s)"

definition ToWire_Scene :: "SceneDefinition \<Rightarrow> SceneWire" where
  "ToWire_Scene s =
     \<lparr>sw_id = sc_id s, sw_label = only_if (label_written s) (sc_label s),
      sw_prompt = only_if (sc_prompt s \<noteq> []) (sc_prompt s),
      sw_provider_id = only_if (sc_provider_id s \<noteq> []) (sc_provider_id s),
      sw_model = only_if (sc_model s \<noteq> []) (sc_model s),
      sw_count = only_if (sc_llm_max_candidates s \<noteq> kDefaultLlmMaxCandidates) (sc_llm_max_candidates s),
      sw_timeout_ms = only_if (sc_timeout_ms s \<noteq> kDefaultTimeoutMs) (sc_timeout_ms s),
      sw_context_lines = only_if (sc_context_lines s \<noteq> kDefaultContextLines) (sc_context_lines s),
      sw_raw_cand = only_if (\<not> sc_raw_cand s) False, sw_raw_prev = only_if (\<not> sc_raw_prev s) False\<rparr>"

definition ToWire_Llm :: "CoreConfig \<Rightarrow> LlmWire" where
  "ToWire_Llm c =
     \<lparr>lw_providers = Some (map ToWire_LlmProvider (cc_llm_providers c)),
      lw_adapters = Some (map ToWire_LlmAdapter (cc_llm_adapters c))\<rparr>"

definition ToWire_Asr :: "CoreConfig \<Rightarrow> AsrWire" where
  "ToWire_Asr c =
     \<lparr>aw_active_provider = cc_activeProvider c, aw_normalize_audio = cc_normalizeAudio c,
      aw_input_gain = cc_inputGain c, aw_vad = Some (ToWire_Vad (cc_vad c)),
      aw_providers = Some (map ToWire_AsrProvider (cc_asr_providers c))\<rparr>"

definition ToWire_Scenes :: "CoreConfig \<Rightarrow> ScenesWire" where
  "ToWire_Scenes c =
     \<lparr>ssw_active_scene = cc_activeScene c, ssw_definitions = Some (map ToWire_Scene (cc_definitions c))\<rparr>"

definition ToWire :: "CoreConfig \<Rightarrow> CoreConfigWire" where
  "ToWire c =
     \<lparr>cw_version = Some (JStr (cc_version c)), cw_registry = Some (ToWire_Registry c),
      cw_global = Some (ToWire_Global c), cw_asr = Some (ToWire_Asr c), cw_llm = Some (ToWire_Llm c),
      cw_scenes = Some (ToWire_Scenes c),
      cw_triggers = only_if (cc_triggers c \<noteq> []) (map ToWire_Client (cc_triggers c)),
      cw_receivers = only_if (cc_receivers c \<noteq> []) (map ToWire_Client (cc_receivers c))\<rparr>"

section \<open>Text\<close>

record glaze =
  gz_write :: "CoreConfigWire \<Rightarrow> string option"
  gz_tree :: "string \<Rightarrow> string + json"
  gz_registry :: "json \<Rightarrow> RegistryWire option"
  gz_global :: "json \<Rightarrow> GlobalWire option"
  gz_llm :: "json \<Rightarrow> LlmWire option"
  gz_scenes :: "json \<Rightarrow> ScenesWire option"
  gz_asr :: "json \<Rightarrow> AsrWire option"
  gz_clients :: "json \<Rightarrow> ClientSpecWire list option"

definition CoreConfigToJson :: "glaze \<Rightarrow> CoreConfig \<Rightarrow> string" where
  "CoreConfigToJson gz c = (case gz_write gz (ToWire c) of Some out \<Rightarrow> out | None \<Rightarrow> [])"

definition ReadSection :: "(json \<Rightarrow> 'w option) \<Rightarrow> json \<Rightarrow> string \<Rightarrow> 'w option" where
  "ReadSection read tree key = (case json_Find tree key of None \<Rightarrow> None | Some node \<Rightarrow> read node)"

definition read_section :: "(json \<Rightarrow> 'w option) \<Rightarrow> json \<Rightarrow> string \<Rightarrow> ('w \<Rightarrow> CoreConfig \<Rightarrow> CoreConfig) \<Rightarrow> CoreConfig \<Rightarrow> CoreConfig" where
  "read_section read tree key from c = (case ReadSection read tree key of None \<Rightarrow> c | Some w \<Rightarrow> from w c)"

text \<open>A version that is a number is cast to \<open>int\<close> and printed.\<close>

definition read_version :: "float_env \<Rightarrow> json \<Rightarrow> CoreConfig \<Rightarrow> CoreConfig" where
  "read_version fe tree c =
     (case json_Find tree ''version'' of
        Some (JStr v) \<Rightarrow> c\<lparr>cc_version := v\<rparr>
      | Some (JNum x) \<Rightarrow> c\<lparr>cc_version := to_string (fp_to_int fe (- (2 ^ 31)) (2 ^ 31 - 1) x)\<rparr>
      | _ \<Rightarrow> c)"

definition read_clients :: "ClientSpecWire list \<Rightarrow> ClientSpec list" where
  "read_clients ws = map (\<lambda>w. FromWire_Client w default_client) ws"

definition CoreConfigFromJson :: "glaze \<Rightarrow> float_env \<Rightarrow> string \<Rightarrow> string + CoreConfig" where
  "CoreConfigFromJson gz fe t =
     (if t = [] then Inl ''Config is empty.''
      else case gz_tree gz t of
        Inl e \<Rightarrow> Inl e
      | Inr tree \<Rightarrow>
          if \<not> is_object tree then Inl ''Config root is not a JSON object.''
          else
            Inr (read_section (gz_clients gz) tree ''receivers'' (\<lambda>ws c. c\<lparr>cc_receivers := cc_receivers c @ read_clients ws\<rparr>)
                (read_section (gz_clients gz) tree ''triggers'' (\<lambda>ws c. c\<lparr>cc_triggers := cc_triggers c @ read_clients ws\<rparr>)
                (read_section (gz_asr gz) tree ''asr'' FromWire_Asr
                (read_section (gz_scenes gz) tree ''scenes'' FromWire_Scenes
                (read_section (gz_llm gz) tree ''llm'' FromWire_Llm
                (read_section (gz_global gz) tree ''global'' FromWire_Global
                (read_section (gz_registry gz) tree ''registry'' FromWire_Registry
                (read_version fe tree default_config)))))))))"

section \<open>What is stored\<close>

text \<open>
  The configuration that a file written for \<open>c\<close> stands for: labels of built-in scenes and untranslated
  label keys are not written, timeouts that are not positive become the default 0, an extra body that
  is no object becomes empty, and empty registry urls are left out. The flag of built-in scenes is set
  again by normalisation.
\<close>

definition stored_provider :: "LlmProvider \<Rightarrow> LlmProvider" where
  "stored_provider p = p\<lparr>lp_extra_body := (if is_object (lp_extra_body p) then lp_extra_body p else JObj [])\<rparr>"

fun stored_asr :: "AsrProvider \<Rightarrow> AsrProvider" where
  "stored_asr (LocalAsrProvider p) = LocalAsrProvider (p\<lparr>lo_timeoutMs := max 0 (lo_timeoutMs p)\<rparr>)"
| "stored_asr (CommandAsrProvider p) = CommandAsrProvider (p\<lparr>co_timeoutMs := max 0 (co_timeoutMs p)\<rparr>)"

definition stored_scene :: "SceneDefinition \<Rightarrow> SceneDefinition" where
  "stored_scene s = s\<lparr>sc_label := (if label_written s then sc_label s else []), sc_builtin := False\<rparr>"

definition stored :: "CoreConfig \<Rightarrow> CoreConfig" where
  "stored c =
     c\<lparr>cc_baseUrls := filter (\<lambda>u. u \<noteq> []) (cc_baseUrls c),
       cc_llm_providers := map stored_provider (cc_llm_providers c),
       cc_asr_providers := map stored_asr (cc_asr_providers c),
       cc_definitions := map stored_scene (cc_definitions c)\<rparr>"

text \<open>A \<open>std::map\<close> keeps its keys in order.\<close>

fun provider_env_sorted :: "AsrProvider \<Rightarrow> bool" where
  "provider_env_sorted (LocalAsrProvider p) \<longleftrightarrow> True"
| "provider_env_sorted (CommandAsrProvider p) \<longleftrightarrow> smap_sorted (co_env p)"

definition envs_sorted :: "CoreConfig \<Rightarrow> bool" where
  "envs_sorted c \<longleftrightarrow>
     list_all (\<lambda>a. smap_sorted (la_env a)) (cc_llm_adapters c)
     \<and> list_all provider_env_sorted (cc_asr_providers c)
     \<and> list_all (\<lambda>a. smap_sorted (cs_env a)) (cc_triggers c)
     \<and> list_all (\<lambda>a. smap_sorted (cs_env a)) (cc_receivers c)"

definition section_back :: "(json \<Rightarrow> 'w option) \<Rightarrow> json \<Rightarrow> string \<Rightarrow> 'w option \<Rightarrow> bool" where
  "section_back read tree key w \<longleftrightarrow>
     (case w of None \<Rightarrow> json_Find tree key = None | Some x \<Rightarrow> ReadSection read tree key = Some x)"

definition reads_back :: "glaze \<Rightarrow> CoreConfigWire \<Rightarrow> bool" where
  "reads_back gz w \<longleftrightarrow>
     (case gz_write gz w of
        None \<Rightarrow> False
      | Some t \<Rightarrow> t \<noteq> [] \<and>
          (case gz_tree gz t of
             Inl _ \<Rightarrow> False
           | Inr tree \<Rightarrow>
               is_object tree \<and> json_Find tree ''version'' = cw_version w
               \<and> section_back (gz_registry gz) tree ''registry'' (cw_registry w)
               \<and> section_back (gz_global gz) tree ''global'' (cw_global w)
               \<and> section_back (gz_llm gz) tree ''llm'' (cw_llm w)
               \<and> section_back (gz_scenes gz) tree ''scenes'' (cw_scenes w)
               \<and> section_back (gz_asr gz) tree ''asr'' (cw_asr w)
               \<and> section_back (gz_clients gz) tree ''triggers'' (cw_triggers w)
               \<and> section_back (gz_clients gz) tree ''receivers'' (cw_receivers w)))"

lemma read_section_back:
  "section_back read tree key w \<Longrightarrow>
     read_section read tree key from c = (case w of None \<Rightarrow> c | Some x \<Rightarrow> from x c)"
  by (auto simp: read_section_def section_back_def ReadSection_def split: option.splits)

lemma Strings_From [simp]: "Strings_value (FromStrings ss) = ss"
  using json_strings_roundtrip by blast

lemma StringMap_From [simp]: "smap_sorted env \<Longrightarrow> StringMap_value (FromStringMap env) = env"
  using json_strings_roundtrip by blast

lemma value_only_if [simp]: "value_or (only_if b x) d = (if b then x else d)"
  by (simp add: value_or_def only_if_def)

lemma value_map_only_if [simp]: "value_or (map_option f (only_if b x)) d = (if b then f x else d)"
  by (simp add: value_or_def only_if_def)

lemma provider_back: "FromWire_LlmProvider (ToWire_LlmProvider p) default_llm_provider = stored_provider p"
  by (cases p; cases "lp_extra_body p")
     (auto simp: FromWire_LlmProvider_def ToWire_LlmProvider_def default_llm_provider_def stored_provider_def
       value_or_def only_if_def)

lemma adapter_back: "smap_sorted (la_env a) \<Longrightarrow> FromWire_LlmAdapter (ToWire_LlmAdapter a) default_llm_adapter = a"
  by (cases a) (auto simp: FromWire_LlmAdapter_def ToWire_LlmAdapter_def default_llm_adapter_def)

lemma client_back: "smap_sorted (cs_env a) \<Longrightarrow> FromWire_Client (ToWire_Client a) default_client = a"
  by (cases a) (auto simp: FromWire_Client_def ToWire_Client_def default_client_def)

lemma asr_back:
  "provider_env_sorted p \<Longrightarrow> FromWire_AsrProvider (ToWire_AsrProvider p) q = stored_asr p"
  by (cases p rule: stored_asr.cases)
     (auto simp: FromWire_AsrProvider_def ToWire_AsrProvider_def default_local_def default_command_def
       kLocalProviderType_def kCommandProviderType_def Let_def max_def)

lemma scene_back: "FromWire_Scene (ToWire_Scene s) default_scene = stored_scene s"
  by (cases s) (auto simp: FromWire_Scene_def ToWire_Scene_def stored_scene_def default_scene_def)

lemma vad_back: "FromWire_Vad (ToWire_Vad v) v' = v"
  by (cases v; cases v') (simp add: FromWire_Vad_def ToWire_Vad_def)

lemma clients_back: "list_all (\<lambda>a. smap_sorted (cs_env a)) cs \<Longrightarrow> read_clients (map ToWire_Client cs) = cs"
  by (induction cs) (simp_all add: read_clients_def client_back)

lemma map_stored:
  "list_all P xs \<Longrightarrow> (\<And>x. P x \<Longrightarrow> f (g x) = h x) \<Longrightarrow> map (f \<circ> g) xs = map h xs"
  by (induction xs) simp_all

section \<open>Properties\<close>

text \<open>Each section sets its own fields only.\<close>

lemma section_updates:
  "read_section rd tree key FromWire_Asr c =
     (let r = ReadSection rd tree key in
      c\<lparr>cc_activeProvider := (case r of Some w \<Rightarrow> aw_active_provider w | None \<Rightarrow> cc_activeProvider c),
        cc_normalizeAudio := (case r of Some w \<Rightarrow> aw_normalize_audio w | None \<Rightarrow> cc_normalizeAudio c),
        cc_inputGain := (case r of Some w \<Rightarrow> aw_input_gain w | None \<Rightarrow> cc_inputGain c),
        cc_vad := (case r of Some w \<Rightarrow> cc_vad (FromWire_Asr w c) | None \<Rightarrow> cc_vad c),
        cc_asr_providers := (case r of Some w \<Rightarrow> cc_asr_providers (FromWire_Asr w c) | None \<Rightarrow> cc_asr_providers c)\<rparr>)"
  "read_section rs tree key FromWire_Scenes c =
     (let r = ReadSection rs tree key in
      c\<lparr>cc_activeScene := (case r of Some w \<Rightarrow> ssw_active_scene w | None \<Rightarrow> cc_activeScene c),
        cc_definitions := (case r of Some w \<Rightarrow> cc_definitions (FromWire_Scenes w c) | None \<Rightarrow> cc_definitions c)\<rparr>)"
  "read_section rl tree key FromWire_Llm c =
     (let r = ReadSection rl tree key in
      c\<lparr>cc_llm_providers := (case r of Some w \<Rightarrow> cc_llm_providers (FromWire_Llm w c) | None \<Rightarrow> cc_llm_providers c),
        cc_llm_adapters := (case r of Some w \<Rightarrow> cc_llm_adapters (FromWire_Llm w c) | None \<Rightarrow> cc_llm_adapters c)\<rparr>)"
  "read_section rg tree key FromWire_Global c =
     (let r = ReadSection rg tree key in
      c\<lparr>cc_captureDevice := (case r of Some w \<Rightarrow> gw_capture_device w | None \<Rightarrow> cc_captureDevice c),
        cc_duckOutputWhileRecording :=
          (case r of Some w \<Rightarrow> gw_duck_output_while_recording w | None \<Rightarrow> cc_duckOutputWhileRecording c),
        cc_duckOutputVolume := (case r of Some w \<Rightarrow> gw_duck_output_volume w | None \<Rightarrow> cc_duckOutputVolume c)\<rparr>)"
  "read_section rr tree key FromWire_Registry c =
     c\<lparr>cc_baseUrls := (case ReadSection rr tree key of
         Some w \<Rightarrow> cc_baseUrls (FromWire_Registry w c) | None \<Rightarrow> cc_baseUrls c)\<rparr>"
  by (auto simp: read_section_def FromWire_Asr_def FromWire_Scenes_def FromWire_Llm_def FromWire_Global_def
      FromWire_Registry_def Let_def split: option.splits)

lemma client_updates:
  "read_section rd tree key (\<lambda>ws c. c\<lparr>cc_receivers := cc_receivers c @ read_clients ws\<rparr>) c =
     c\<lparr>cc_receivers := (case ReadSection rd tree key of
         Some ws \<Rightarrow> cc_receivers c @ read_clients ws | None \<Rightarrow> cc_receivers c)\<rparr>"
  "read_section rd tree key (\<lambda>ws c. c\<lparr>cc_triggers := cc_triggers c @ read_clients ws\<rparr>) c =
     c\<lparr>cc_triggers := (case ReadSection rd tree key of
         Some ws \<Rightarrow> cc_triggers c @ read_clients ws | None \<Rightarrow> cc_triggers c)\<rparr>"
  by (auto simp: read_section_def split: option.splits)

lemma version_update:
  "read_version fe tree c = c\<lparr>cc_version := cc_version (read_version fe tree c)\<rparr>"
  by (auto simp: read_version_def split: option.splits json.splits)

lemma section_fields:
  "cc_vad (FromWire_Asr w c) = (case aw_vad w of Some v \<Rightarrow> FromWire_Vad v (cc_vad c) | None \<Rightarrow> cc_vad c)"
  "cc_asr_providers (FromWire_Asr w c) =
     (case aw_providers w of
        Some ps \<Rightarrow> map (\<lambda>e. FromWire_AsrProvider e (LocalAsrProvider default_local)) ps | None \<Rightarrow> cc_asr_providers c)"
  "cc_definitions (FromWire_Scenes sw c) =
     (case ssw_definitions sw of Some ds \<Rightarrow> map (\<lambda>e. FromWire_Scene e default_scene) ds | None \<Rightarrow> cc_definitions c)"
  "cc_llm_providers (FromWire_Llm lw c) =
     (case lw_providers lw of
        Some ps \<Rightarrow> map (\<lambda>e. FromWire_LlmProvider e default_llm_provider) ps | None \<Rightarrow> cc_llm_providers c)"
  "cc_llm_adapters (FromWire_Llm lw c) =
     (case lw_adapters lw of
        Some as \<Rightarrow> map (\<lambda>e. FromWire_LlmAdapter e default_llm_adapter) as | None \<Rightarrow> cc_llm_adapters c)"
  "cc_baseUrls (FromWire_Registry rw c) =
     (case rw_base_urls rw of None \<Rightarrow> [] | Some j \<Rightarrow> filter (\<lambda>u. u \<noteq> []) (Strings_value j))"
  by (simp_all add: FromWire_Asr_def FromWire_Scenes_def FromWire_Llm_def FromWire_Registry_def)

lemmas read_updates = client_updates section_updates section_fields

lemma json_back:
  assumes "reads_back gz (ToWire c)" and "envs_sorted c"
  shows "CoreConfigFromJson gz fe (CoreConfigToJson gz c) = Inr (stored c)"
proof -
  from assms(1) obtain t tree where t: "gz_write gz (ToWire c) = Some t" "t \<noteq> []" "gz_tree gz t = Inr tree"
    and tree: "is_object tree" "json_Find tree ''version'' = Some (JStr (cc_version c))"
      "ReadSection (gz_registry gz) tree ''registry'' = Some (ToWire_Registry c)"
      "ReadSection (gz_global gz) tree ''global'' = Some (ToWire_Global c)"
      "ReadSection (gz_llm gz) tree ''llm'' = Some (ToWire_Llm c)"
      "ReadSection (gz_scenes gz) tree ''scenes'' = Some (ToWire_Scenes c)"
      "ReadSection (gz_asr gz) tree ''asr'' = Some (ToWire_Asr c)"
    and clients: "section_back (gz_clients gz) tree ''triggers'' (only_if (cc_triggers c \<noteq> []) (map ToWire_Client (cc_triggers c)))"
      "section_back (gz_clients gz) tree ''receivers'' (only_if (cc_receivers c \<noteq> []) (map ToWire_Client (cc_receivers c)))"
    by (auto simp: reads_back_def ToWire_def section_back_def split: option.splits sum.splits)
  have "map (\<lambda>x. FromWire_LlmAdapter (ToWire_LlmAdapter x) default_llm_adapter) (cc_llm_adapters c) = cc_llm_adapters c"
    using assms(2) by (auto simp: envs_sorted_def list_all_iff adapter_back intro!: map_ident)
  moreover have "map (\<lambda>x. FromWire_AsrProvider (ToWire_AsrProvider x) (LocalAsrProvider default_local)) (cc_asr_providers c)
      = map stored_asr (cc_asr_providers c)"
    using assms(2) by (auto simp: envs_sorted_def list_all_iff asr_back)
  moreover have "(case ReadSection (gz_clients gz) tree ''triggers'' of
        Some ws \<Rightarrow> cc_triggers default_config @ read_clients ws | None \<Rightarrow> cc_triggers default_config) = cc_triggers c"
    "(case ReadSection (gz_clients gz) tree ''receivers'' of
        Some ws \<Rightarrow> cc_receivers default_config @ read_clients ws | None \<Rightarrow> cc_receivers default_config) = cc_receivers c"
    using assms(2) clients
    by (auto simp: envs_sorted_def section_back_def only_if_def ReadSection_def clients_back default_config_def
        split: if_splits)
  ultimately show ?thesis
    by (simp add: CoreConfigFromJson_def CoreConfigToJson_def t tree read_version_def read_updates Let_def
          cong: option.case_cong)
       (intro CoreConfig.equality; simp add: ToWire_Asr_def ToWire_Scenes_def ToWire_Llm_def ToWire_Global_def
         ToWire_Registry_def stored_def only_if_def vad_back provider_back scene_back comp_def)
qed

text \<open>
  Writing a configuration and reading the text back gives the configuration \<open>stored c\<close>, although most
  members are omitted when they have their default value; what is not kept are exactly the labels,
  timeouts and bodies that \<open>stored\<close> names, and storing twice changes nothing more.
\<close>

theorem config_json_roundtrip:
  assumes "reads_back gz (ToWire c)" and "envs_sorted c"
  shows "CoreConfigFromJson gz fe (CoreConfigToJson gz c) = Inr (stored c) \<and> stored (stored c) = stored c"
proof -
  have "stored_asr (stored_asr p) = stored_asr p" for p by (cases p) simp_all
  moreover have "stored_scene (stored_scene s) = stored_scene s" for s
    by (auto simp: stored_scene_def label_written_def)
  moreover have "stored_provider (stored_provider p) = stored_provider p" for p
    by (simp add: stored_provider_def)
  ultimately have "stored (stored c) = stored c" by (simp add: stored_def)
  then show ?thesis by (simp add: json_back [OF assms])
qed

text \<open>
  One bad section never touches the others: when a section cannot be read, every other field of the
  configuration is what it would be otherwise, and the fields of the section have their defaults.
\<close>

theorem section_isolation:
  assumes "CoreConfigFromJson gz fe t = Inr c"
  shows "CoreConfigFromJson (gz\<lparr>gz_asr := \<lambda>_. None\<rparr>) fe t =
      Inr (c\<lparr>cc_activeProvider := cc_activeProvider default_config, cc_normalizeAudio := cc_normalizeAudio default_config,
             cc_inputGain := cc_inputGain default_config, cc_vad := cc_vad default_config,
             cc_asr_providers := cc_asr_providers default_config\<rparr>)
    \<and> CoreConfigFromJson (gz\<lparr>gz_llm := \<lambda>_. None\<rparr>) fe t =
      Inr (c\<lparr>cc_llm_providers := cc_llm_providers default_config, cc_llm_adapters := cc_llm_adapters default_config\<rparr>)
    \<and> CoreConfigFromJson (gz\<lparr>gz_scenes := \<lambda>_. None\<rparr>) fe t =
      Inr (c\<lparr>cc_activeScene := cc_activeScene default_config, cc_definitions := cc_definitions default_config\<rparr>)
    \<and> CoreConfigFromJson (gz\<lparr>gz_global := \<lambda>_. None\<rparr>) fe t =
      Inr (c\<lparr>cc_captureDevice := cc_captureDevice default_config,
             cc_duckOutputWhileRecording := cc_duckOutputWhileRecording default_config,
             cc_duckOutputVolume := cc_duckOutputVolume default_config\<rparr>)
    \<and> CoreConfigFromJson (gz\<lparr>gz_registry := \<lambda>_. None\<rparr>) fe t = Inr (c\<lparr>cc_baseUrls := cc_baseUrls default_config\<rparr>)
    \<and> CoreConfigFromJson (gz\<lparr>gz_clients := \<lambda>_. None\<rparr>) fe t =
      Inr (c\<lparr>cc_triggers := cc_triggers default_config, cc_receivers := cc_receivers default_config\<rparr>)"
proof -
  from assms obtain tree where t: "t \<noteq> []" "gz_tree gz t = Inr tree" "is_object tree"
    by (auto simp: CoreConfigFromJson_def split: if_splits sum.splits)
  have none: "ReadSection (\<lambda>_. None) tree key = None" for key
    by (simp add: ReadSection_def split: option.splits)
  obtain v where v: "read_version fe tree default_config = default_config\<lparr>cc_version := v\<rparr>"
    using version_update by blast
  show ?thesis using assms
    by (simp add: CoreConfigFromJson_def t v read_updates Let_def none cong: option.case_cong)
       (clarsimp simp: default_config_def)
qed

section \<open>Witnesses\<close>

text \<open>
  A reader and writer that know the file of one configuration: they write no other, read no other text (line ends
  apart), and read a section only from the node that stands for it.
\<close>

definition example_tree :: "CoreConfig \<Rightarrow> json" where
  "example_tree c =
     JObj [(''asr'', JStr ''a''), (''global'', JStr ''g''), (''llm'', JStr ''l''), (''registry'', JStr ''r''),
           (''scenes'', JStr ''s''), (''version'', JStr (cc_version c))]"

definition example_glaze :: "CoreConfig \<Rightarrow> glaze" where
  "example_glaze c =
     \<lparr>gz_write = (\<lambda>w. if w = ToWire c then Some ''{}'' else None),
      gz_tree = (\<lambda>t. if filter (\<lambda>ch. ch \<noteq> CHR 0x0A) t = ''{}'' then Inr (example_tree c) else Inl ''syntax error''),
      gz_registry = (\<lambda>j. if j = JStr ''r'' then Some (ToWire_Registry c) else None),
      gz_global = (\<lambda>j. if j = JStr ''g'' then Some (ToWire_Global c) else None),
      gz_llm = (\<lambda>j. if j = JStr ''l'' then Some (ToWire_Llm c) else None),
      gz_scenes = (\<lambda>j. if j = JStr ''s'' then Some (ToWire_Scenes c) else None),
      gz_asr = (\<lambda>j. if j = JStr ''a'' then Some (ToWire_Asr c) else None), gz_clients = (\<lambda>_. None)\<rparr>"

definition example_urls :: CoreConfig where
  "example_urls = default_config\<lparr>cc_baseUrls := [''https://example.org'', []]\<rparr>"

theorem config_json_roundtrip_witness:
  "CoreConfigFromJson (example_glaze example_urls) exact_env (CoreConfigToJson (example_glaze example_urls) example_urls)
     = Inr (default_config\<lparr>cc_baseUrls := [''https://example.org'']\<rparr>)"
proof -
  have "reads_back (example_glaze example_urls) (ToWire example_urls)"
    by (simp add: reads_back_def example_glaze_def example_tree_def section_back_def ReadSection_def ToWire_def
        only_if_def example_urls_def default_config_def)
  moreover have "envs_sorted example_urls" by (simp add: envs_sorted_def example_urls_def default_config_def)
  ultimately show ?thesis
    using config_json_roundtrip [of "example_glaze example_urls" example_urls exact_env]
    by (simp add: stored_def example_urls_def default_config_def)
qed

theorem section_isolation_witness:
  "map_sum id cc_baseUrls (CoreConfigFromJson ((example_glaze example_urls)\<lparr>gz_asr := \<lambda>_. None\<rparr>) exact_env ''{}'')
     = Inr [''https://example.org'']"
proof -
  obtain c where c: "CoreConfigFromJson (example_glaze example_urls) exact_env ''{}'' = Inr c"
    by (simp add: CoreConfigFromJson_def example_glaze_def example_tree_def)
  then have "cc_baseUrls c = [''https://example.org'']"
    by (auto simp: CoreConfigFromJson_def example_glaze_def example_tree_def read_version_def read_updates Let_def
        ReadSection_def ToWire_Registry_def example_urls_def only_if_def)
  with section_isolation [OF c] show ?thesis by simp
qed

end
