(* ===== verification/Config_Store.thy ===== *)
theory Config_Store
  imports Config_Json "HOL-Library.Sublist"
begin

text \<open>
  Loading and saving the configuration (\<open>common/config/core_config_store.cpp\<close>,
  \<open>core_config_defaults.cpp\<close>) and reading or changing one value of it by a JSON pointer
  (\<open>common/config/config_router.cpp\<close>).

  The state is the file at \<open>CoreConfigPath()\<close>, with its text and modification time, and the cache of
  the process. \<open>fs_env\<close> says which file operations fail during a call; \<open>print\<close> is
  \<open>glz::write_json\<close> of a tree. Messages on \<open>std::cerr\<close> are not modelled.
\<close>

section \<open>The file and the cache\<close>

record config_cache =
  ca_mtime :: int
  ca_size :: nat
  ca_cached :: CoreConfig

record config_store =
  st_file :: "(string \<times> int) option"
  st_cache :: "config_cache option"

text \<open>\<open>fs_bundled\<close> is the text of the bundled default configuration, or its path if it cannot be opened.\<close>

record fs_env =
  fs_stat :: bool
  fs_open :: bool
  fs_parent :: "string option"
  fs_write :: "string option"
  fs_now :: int
  fs_bundled :: "string + string"

definition GetConfigStat :: "fs_env \<Rightarrow> config_store \<Rightarrow> (int \<times> nat) option" where
  "GetConfigStat fs st =
     (case st_file st of
        None \<Rightarrow> None
      | Some (t, mtime) \<Rightarrow> if fs_stat fs then Some (mtime, length t) else None)"

definition materialize_label :: "(string \<Rightarrow> string) \<Rightarrow> SceneDefinition \<Rightarrow> SceneDefinition" where
  "materialize_label tr s =
     (if \<not> IsBuiltinSceneId (sc_id s) then s
      else if sc_label s = [] \<or> IsBuiltinSceneLabelKey (sc_label s) then s\<lparr>sc_label := DisplayLabel tr s\<rparr>
      else s)"

definition MaterializeBuiltinSceneLabels :: "(string \<Rightarrow> string) \<Rightarrow> CoreConfig \<Rightarrow> CoreConfig" where
  "MaterializeBuiltinSceneLabels tr c = c\<lparr>cc_definitions := map (materialize_label tr) (cc_definitions c)\<rparr>"

text \<open>The flag says that the file was parsed.\<close>

definition LoadCoreConfigFromFile ::
    "glaze \<Rightarrow> float_env \<Rightarrow> fs_env \<Rightarrow> config_store \<Rightarrow> CoreConfig \<Rightarrow> bool \<times> CoreConfig" where
  "LoadCoreConfigFromFile gz fe fs st c =
     (case st_file st of
        None \<Rightarrow> (False, c)
      | Some (t, _) \<Rightarrow>
          if \<not> fs_open fs then (False, c)
          else case CoreConfigFromJson gz fe t of Inl _ \<Rightarrow> (False, c) | Inr c' \<Rightarrow> (True, c'))"

definition LoadBundledDefaultCoreConfig :: "glaze \<Rightarrow> float_env \<Rightarrow> fs_env \<Rightarrow> string + CoreConfig" where
  "LoadBundledDefaultCoreConfig gz fe fs =
     (case fs_bundled fs of
        Inl path \<Rightarrow> Inl (''Failed to open bundled default config: '' @ path)
      | Inr t \<Rightarrow>
          (case CoreConfigFromJson gz fe t of
             Inl e \<Rightarrow> Inl (''Failed to parse bundled default config: '' @ e)
           | Inr c \<Rightarrow> Inr c))"

definition LoadCoreConfig :: "glaze \<Rightarrow> float_env \<Rightarrow> fs_env \<Rightarrow> config_store \<Rightarrow> CoreConfig \<times> config_store" where
  "LoadCoreConfig gz fe fs st =
     (case GetConfigStat fs st of
        None \<Rightarrow>
          (case LoadBundledDefaultCoreConfig gz fe fs of
             Inl _ \<Rightarrow> (default_config, st)
           | Inr c \<Rightarrow> (NormalizeCoreConfig c, st\<lparr>st_cache := None\<rparr>))
      | Some (mtime, sz) \<Rightarrow>
          (case (case st_cache st of
                   Some ca \<Rightarrow> if ca_mtime ca = mtime \<and> ca_size ca = sz then Some (ca_cached ca) else None
                 | None \<Rightarrow> None) of
             Some c \<Rightarrow> (c, st)
           | None \<Rightarrow>
               (case LoadCoreConfigFromFile gz fe fs st default_config of
                  (parsed, c) \<Rightarrow>
                    (let c' = NormalizeCoreConfig c in
                     (c', st\<lparr>st_cache := (if parsed
                        then Some \<lparr>ca_mtime = mtime, ca_size = sz, ca_cached = c'\<rparr> else None)\<rparr>)))))"

definition SaveCoreConfig ::
    "glaze \<Rightarrow> (string \<Rightarrow> string) \<Rightarrow> fs_env \<Rightarrow> CoreConfig \<Rightarrow> config_store \<Rightarrow> bool \<times> config_store" where
  "SaveCoreConfig gz tr fs c st =
     (if fs_parent fs \<noteq> None then (False, st)
      else
        (let n = NormalizeCoreConfig c in
         if ValidateCoreConfig n \<noteq> None then (False, st)
         else
           (let m = MaterializeBuiltinSceneLabels tr n; serialized = CoreConfigToJson gz m in
            if serialized = [] then (False, st)
            else if fs_write fs \<noteq> None then (False, st)
            else
              (let st1 = st\<lparr>st_file := Some (serialized @ [CHR 0x0A], fs_now fs)\<rparr> in
               (True, st1\<lparr>st_cache :=
                  (case GetConfigStat fs st1 of
                     Some (mtime, sz) \<Rightarrow> Some \<lparr>ca_mtime = mtime, ca_size = sz, ca_cached = m\<rparr>
                   | None \<Rightarrow> None)\<rparr>)))))"

definition InitializeCoreConfig ::
    "glaze \<Rightarrow> float_env \<Rightarrow> (string \<Rightarrow> string) \<Rightarrow> fs_env \<Rightarrow> config_store \<Rightarrow> string option \<times> config_store" where
  "InitializeCoreConfig gz fe tr fs st =
     (case LoadBundledDefaultCoreConfig gz fe fs of
        Inl e \<Rightarrow> (Some e, st)
      | Inr c \<Rightarrow>
          (case SaveCoreConfig gz tr fs c st of
             (False, st') \<Rightarrow> (Some ''Failed to save default config.'', st')
           | (True, st') \<Rightarrow> (None, st')))"

section \<open>Values by pointer\<close>

text \<open>A node of a tree is named by the steps that lead to it.\<close>

datatype step = Member string | Element nat

definition ChildAt :: "json \<Rightarrow> string \<Rightarrow> (step \<times> json) option" where
  "ChildAt node seg =
     (case node of
        JObj m \<Rightarrow> (case map_of m seg of Some v \<Rightarrow> Some (Member seg, v) | None \<Rightarrow> None)
      | JArr vs \<Rightarrow>
          (case from_chars 0 (2 ^ 64 - 1) seg of
             Some (i, n) \<Rightarrow>
               if n = length seg \<and> i < int (length vs) then Some (Element (nat i), vs ! nat i) else None
           | None \<Rightarrow> None)
      | _ \<Rightarrow> None)"

text \<open>The inner loop: the next segment without its escapes, and the rest of the pointer.\<close>

fun scan_segment :: "string \<Rightarrow> string \<Rightarrow> (string \<times> string) option" where
  "scan_segment acc [] = Some (acc, [])"
| "scan_segment acc (c # cs) =
     (if c = CHR ''/'' then Some (acc, c # cs)
      else if c \<noteq> CHR ''~'' then scan_segment (acc @ [c]) cs
      else case cs of
        [] \<Rightarrow> None
      | e # es \<Rightarrow>
          if e = CHR ''1'' then scan_segment (acc @ [CHR ''/'']) es
          else if e = CHR ''0'' then scan_segment (acc @ [CHR ''~'']) es
          else None)"

lemma scan_segment_shrinks: "scan_segment acc p = Some (seg, rest) \<Longrightarrow> length rest \<le> length p"
  by (induction acc p rule: scan_segment.induct) (auto split: if_splits list.splits)

function SeekPointer :: "json \<Rightarrow> string \<Rightarrow> (step list \<times> json) option" where
  "SeekPointer node [] = Some ([], node)"
| "SeekPointer node (c # cs) =
     (if c \<noteq> CHR ''/'' then None
      else case scan_segment [] cs of
        None \<Rightarrow> None
      | Some (seg, rest) \<Rightarrow>
          (case ChildAt node seg of
             None \<Rightarrow> None
           | Some (st, child) \<Rightarrow> map_option (\<lambda>(path, v). (st # path, v)) (SeekPointer child rest)))"
  by pat_completeness auto
termination
  by (relation "measure (\<lambda>(_, p). length p)") (auto dest: scan_segment_shrinks)

text \<open>Assignment through the pointer that was found.\<close>

fun assign_at :: "step list \<Rightarrow> json \<Rightarrow> json \<Rightarrow> json" where
  "assign_at [] v node = v"
| "assign_at (Member k # path) v (JObj m) =
     JObj (map (\<lambda>(k', x). if k' = k then (k', assign_at path v x) else (k', x)) m)"
| "assign_at (Element i # path) v (JArr vs) = JArr (vs[i := assign_at path v (vs ! i)])"
| "assign_at _ v node = node"

definition LoadConfigTree :: "glaze \<Rightarrow> float_env \<Rightarrow> fs_env \<Rightarrow> config_store \<Rightarrow> json option \<times> config_store" where
  "LoadConfigTree gz fe fs st =
     (case LoadCoreConfig gz fe fs st of
        (c, st') \<Rightarrow>
          ((case gz_tree gz (CoreConfigToJson gz (NormalizeCoreConfig c)) of Inr t \<Rightarrow> Some t | Inl _ \<Rightarrow> None), st'))"

definition FormatNode :: "(json \<Rightarrow> string option) \<Rightarrow> json \<Rightarrow> string" where
  "FormatNode print node = (case print node of Some t \<Rightarrow> t | None \<Rightarrow> [])"

definition ParseSetValue :: "glaze \<Rightarrow> string \<Rightarrow> json" where
  "ParseSetValue gz val =
     (if IsSingleJsonValue val then (case gz_tree gz val of Inr j \<Rightarrow> j | Inl _ \<Rightarrow> JStr val) else JStr val)"

definition GetConfigValue ::
    "glaze \<Rightarrow> float_env \<Rightarrow> (json \<Rightarrow> string option) \<Rightarrow> fs_env \<Rightarrow> config_store \<Rightarrow> string
      \<Rightarrow> (string + string) \<times> config_store" where
  "GetConfigValue gz fe print fs st pointer =
     (case LoadConfigTree gz fe fs st of
        (None, st') \<Rightarrow> (Inl ''Failed to load config.'', st')
      | (Some tree, st') \<Rightarrow>
          (case SeekPointer tree pointer of
             None \<Rightarrow> (Inl (''Config path not found: '' @ pointer), st')
           | Some (_, node) \<Rightarrow> (Inr (case node of JStr t \<Rightarrow> t | _ \<Rightarrow> FormatNode print node), st')))"

definition SetConfigValue ::
    "glaze \<Rightarrow> float_env \<Rightarrow> (string \<Rightarrow> string) \<Rightarrow> (json \<Rightarrow> string option) \<Rightarrow> fs_env \<Rightarrow> config_store
      \<Rightarrow> string \<Rightarrow> string \<Rightarrow> string option \<times> config_store" where
  "SetConfigValue gz fe tr print fs st pointer val =
     (case LoadConfigTree gz fe fs st of
        (None, st1) \<Rightarrow> (Some ''Failed to load config.'', st1)
      | (Some tree, st1) \<Rightarrow>
          (case SeekPointer tree pointer of
             None \<Rightarrow> (Some (''Config path not found: '' @ pointer), st1)
           | Some (path, _) \<Rightarrow>
               (case CoreConfigFromJson gz fe (FormatNode print (assign_at path (ParseSetValue gz val) tree)) of
                  Inl e \<Rightarrow> (Some (if e \<noteq> [] then e else ''Failed to parse updated config.''), st1)
                | Inr updated \<Rightarrow>
                    (case SaveCoreConfig gz tr fs updated st1 of
                       (True, st2) \<Rightarrow> (None, st2)
                     | (False, st2) \<Rightarrow>
                         (case ValidateCoreConfig (NormalizeCoreConfig updated) of
                            Some e \<Rightarrow> if e \<noteq> [] then (Some e, st2) else (Some ''Failed to save config.'', st2)
                          | None \<Rightarrow> (Some ''Failed to save config.'', st2))))))"

definition GetEditTarget :: "(string \<Rightarrow> string option) \<Rightarrow> string \<Rightarrow> string \<Rightarrow> string \<Rightarrow> string" where
  "GetEditTarget resolve core_path addon_path target =
     (let path = (if target = ''core'' then core_path else addon_path)
      in case resolve path of Some r \<Rightarrow> r | None \<Rightarrow> path)"

definition GetCoreConfigPath :: "(string \<Rightarrow> string option) \<Rightarrow> string \<Rightarrow> string" where
  "GetCoreConfigPath resolve core_path = (case resolve core_path of Some r \<Rightarrow> r | None \<Rightarrow> core_path)"

section \<open>What another process reads\<close>

text \<open>
  A configuration as the program builds it: environments are ordered maps, extra bodies are objects,
  timeouts are not negative, and only the built-in scenes are marked as such.
\<close>

fun provider_wf :: "AsrProvider \<Rightarrow> bool" where
  "provider_wf (LocalAsrProvider p) \<longleftrightarrow> 0 \<le> lo_timeoutMs p"
| "provider_wf (CommandAsrProvider p) \<longleftrightarrow> 0 \<le> co_timeoutMs p \<and> smap_sorted (co_env p)"

definition config_wf :: "CoreConfig \<Rightarrow> bool" where
  "config_wf c \<longleftrightarrow>
     list_all (\<lambda>p. is_object (lp_extra_body p)) (cc_llm_providers c)
     \<and> list_all (\<lambda>a. smap_sorted (la_env a)) (cc_llm_adapters c)
     \<and> list_all provider_wf (cc_asr_providers c)
     \<and> list_all (\<lambda>s. sc_builtin s \<longleftrightarrow> IsBuiltinSceneId (sc_id s)) (cc_definitions c)
     \<and> list_all (\<lambda>a. smap_sorted (cs_env a)) (cc_triggers c)
     \<and> list_all (\<lambda>a. smap_sorted (cs_env a)) (cc_receivers c)"

text \<open>The configuration without the labels that are not written.\<close>

definition unlabelled :: "SceneDefinition \<Rightarrow> SceneDefinition" where
  "unlabelled s = s\<lparr>sc_label := (if label_written s then sc_label s else [])\<rparr>"

definition without_labels :: "CoreConfig \<Rightarrow> CoreConfig" where
  "without_labels c = c\<lparr>cc_definitions := map unlabelled (cc_definitions c)\<rparr>"

lemma smap_sorted_filter: "smap_sorted m \<Longrightarrow> smap_sorted (filter P m)"
  by (induction m) auto

lemma keep_first_mem: "x \<in> set (keep_first key seen (filter P xs)) \<Longrightarrow> x \<in> set xs"
  using keep_first_memD by fastforce

lemma normalize_clients_sorted:
  assumes "list_all (\<lambda>a. smap_sorted (cs_env a)) cs"
  shows "list_all (\<lambda>a. smap_sorted (cs_env a)) (snd (normalize_clients ids cs))"
  using assms
  by (auto simp: normalize_clients_def Let_def list_all_iff erase_client_env_def EraseEmptyEnvKeys_def
      dest!: keep_first_mem intro!: smap_sorted_filter)

lemma provider_wf_erase: "provider_wf p \<Longrightarrow> provider_wf (erase_provider_env p)"
  by (cases p) (simp_all add: EraseEmptyEnvKeys_def smap_sorted_filter)

lemma NormalizeDefinition_builtin: "sc_builtin (NormalizeDefinition s) \<longleftrightarrow> sc_builtin s \<or> IsBuiltinSceneId (sc_id s)"
  by (simp add: NormalizeDefinition_def Let_def)

lemma normalize_scene_flag [simp]: "sc_builtin (normalize_scene s) \<longleftrightarrow> sc_builtin s \<or> IsBuiltinSceneId (sc_id s)"
  by (simp add: normalize_scene_def Let_def NormalizeDefinition_builtin)

lemma normalize_scenes_flags:
  assumes "list_all (\<lambda>s. sc_builtin s \<longleftrightarrow> IsBuiltinSceneId (sc_id s)) ss"
  shows "list_all (\<lambda>s. sc_builtin s \<longleftrightarrow> IsBuiltinSceneId (sc_id s)) (normalize_scenes ss)"
proof -
  have "list_all (\<lambda>s. sc_builtin s \<longleftrightarrow> IsBuiltinSceneId (sc_id s))
      (keep_first sc_id [] (filter (\<lambda>s. ValidateDefinition s True = None) (map normalize_scene ss)))"
    using assms by (auto simp: list_all_iff dest!: keep_first_mem)
  then show ?thesis
    by (simp add: normalize_scenes_def add_builtin_def IsBuiltinSceneId_def)
qed

lemma config_wf_Normalize:
  assumes "config_wf c"
  shows "config_wf (NormalizeCoreConfig c)"
proof -
  have "list_all (\<lambda>p. is_object (lp_extra_body p)) (normalize_llm_providers (cc_llm_providers c))"
    "list_all (\<lambda>a. smap_sorted (la_env a)) (normalize_llm_adapters (cc_llm_adapters c))"
    "list_all provider_wf (normalize_asr_providers (cc_asr_providers c))"
    using assms
    by (auto simp: config_wf_def list_all_iff normalize_llm_providers_def normalize_llm_adapters_def
        normalize_asr_providers_def erase_adapter_env_def EraseEmptyEnvKeys_def
        dest!: keep_first_mem intro!: smap_sorted_filter provider_wf_erase)
  with assms show ?thesis
    by (simp add: config_wf_def normalize_clients_sorted normalize_scenes_flags)
qed

lemma stored_materialize [simp]: "stored (MaterializeBuiltinSceneLabels tr c) = stored c"
proof -
  have "stored_scene (materialize_label tr s) = stored_scene s" for s
    by (simp add: stored_scene_def materialize_label_def label_written_def)
  then show ?thesis by (simp add: stored_def MaterializeBuiltinSceneLabels_def)
qed

lemma stored_wf:
  assumes "config_wf c" and "[] \<notin> set (cc_baseUrls c)"
  shows "stored c = c\<lparr>cc_definitions := map stored_scene (cc_definitions c)\<rparr>"
proof -
  have "stored_provider p = p" if "p \<in> set (cc_llm_providers c)" for p
    using assms(1) that by (simp add: config_wf_def stored_provider_def list_all_iff)
  moreover have "stored_asr p = p" if "p \<in> set (cc_asr_providers c)" for p
    using assms(1) that by (cases p) (auto simp: config_wf_def list_all_iff max_absorb2)
  moreover have "filter (\<lambda>u. u \<noteq> []) (cc_baseUrls c) = cc_baseUrls c"
    using assms(2) by (auto simp: filter_id_conv)
  ultimately show ?thesis by (simp add: stored_def map_ident)
qed

lemma normalize_stored_scene:
  assumes "normalize_scene s = s" and "sc_builtin s \<longleftrightarrow> IsBuiltinSceneId (sc_id s)"
  shows "normalize_scene (stored_scene s) = unlabelled s"
proof -
  have n: "NormalizeDefinition (s\<lparr>sc_label := l, sc_builtin := False\<rparr>) = (NormalizeDefinition s)\<lparr>sc_label := l\<rparr>" for l
    using assms(2) by (cases s) (auto simp: NormalizeDefinition_def Let_def)
  have "normalize_scene (s\<lparr>sc_label := l, sc_builtin := False\<rparr>) = (normalize_scene s)\<lparr>sc_label := l\<rparr>" for l
    by (auto simp: normalize_scene_def n Let_def)
  then show ?thesis using assms(1) by (simp add: stored_scene_def unlabelled_def)
qed

lemma unlabelled_sel [simp]:
  "sc_id (unlabelled s) = sc_id s"
  "ValidateDefinition (unlabelled s) b = ValidateDefinition s b"
  by (simp_all add: unlabelled_def ValidateDefinition_def HasProvider_def HasModel_def)

lemma normalize_stored_scenes:
  assumes "list_all (\<lambda>s. sc_builtin s \<longleftrightarrow> IsBuiltinSceneId (sc_id s)) (normalize_scenes ss)"
  shows "normalize_scenes (map stored_scene (normalize_scenes ss)) = map unlabelled (normalize_scenes ss)"
proof -
  define ds where "ds = normalize_scenes ss"
  have wf: "list_all (\<lambda>s. ValidateDefinition s True = None) ds" "distinct (map sc_id ds)"
      "map normalize_scene ds = ds" "kRawSceneId \<in> set (map sc_id ds)" "kCommandSceneId \<in> set (map sc_id ds)"
    using normalize_scenes_wf [of ss] by (simp_all add: ds_def)
  have n: "map normalize_scene (map stored_scene ds) = map unlabelled ds"
  proof -
    have "\<forall>s\<in>set ds. normalize_scene s = s" using wf(3) map_eq_conv [of normalize_scene ds id] by simp
    then show ?thesis using assms by (auto simp: ds_def list_all_iff normalize_stored_scene)
  qed
  define us where "us = map unlabelled ds"
  have us: "filter (\<lambda>s. ValidateDefinition s True = None) us = us" "map sc_id us = map sc_id ds"
    using wf(1) by (auto simp: us_def filter_id_conv list_all_iff)
  have "keep_first sc_id [] us = us" using wf(2) us(2) by (simp add: keep_first_ident)
  then have "normalize_scenes (map stored_scene ds) = us"
    using wf(4,5) us unfolding normalize_scenes_def n us_def [symmetric]
    by (simp add: add_builtin_def del: set_map)
  then show ?thesis by (simp add: us_def ds_def)
qed

lemma normalize_saved:
  assumes "config_wf c"
  shows "NormalizeCoreConfig (stored (NormalizeCoreConfig c)) = without_labels (NormalizeCoreConfig c)"
proof -
  let ?n = "NormalizeCoreConfig c"
  have wf: "config_wf ?n" by (rule config_wf_Normalize [OF assms])
  have "[] \<notin> set (cc_baseUrls ?n)" by (auto simp: normalize_urls_def dest!: keep_first_memD)
  then have s: "stored ?n = ?n\<lparr>cc_definitions := map stored_scene (cc_definitions ?n)\<rparr>"
    by (rule stored_wf [OF wf])
  obtain ids1 ts where t: "normalize_clients [] (cc_triggers c) = (ids1, ts)" by fastforce
  obtain ids2 rs where r: "normalize_clients ids1 (cc_receivers c) = (ids2, rs)" by fastforce
  have d: "normalize_scenes (map stored_scene (normalize_scenes (cc_definitions c)))
      = map unlabelled (normalize_scenes (cc_definitions c))"
    using wf by (intro normalize_stored_scenes) (simp add: config_wf_def)
  show ?thesis unfolding s without_labels_def
    by (rule CoreConfig.equality)
       (simp_all add: NormalizeCoreConfig_active t r d normalize_clients_idem [OF t] normalize_clients_idem [OF r]
         comp_def del: set_map)
qed

section \<open>Pointers\<close>

text \<open>RFC 6901 read in two passes: cut the pointer at its slashes, then undo the escapes of each piece.\<close>

fun unescape :: "string \<Rightarrow> string option" where
  "unescape [] = Some []"
| "unescape (c # cs) =
     (if c \<noteq> CHR ''~'' then map_option (Cons c) (unescape cs)
      else case cs of
        [] \<Rightarrow> None
      | e # es \<Rightarrow>
          if e = CHR ''1'' then map_option (Cons CHR ''/'') (unescape es)
          else if e = CHR ''0'' then map_option (Cons CHR ''~'') (unescape es)
          else None)"

definition decode_pointer :: "string \<Rightarrow> string list option" where
  "decode_pointer p =
     (if p = [] then Some []
      else if hd p \<noteq> CHR ''/'' then None
      else those (map unescape (split_spec CHR ''/'' (tl p))))"

fun resolve_path :: "json \<Rightarrow> string list \<Rightarrow> (step list \<times> json) option" where
  "resolve_path node [] = Some ([], node)"
| "resolve_path node (seg # segs) =
     (case ChildAt node seg of
        None \<Rightarrow> None
      | Some (st, child) \<Rightarrow> map_option (\<lambda>(path, v). (st # path, v)) (resolve_path child segs))"

fun escape :: "string \<Rightarrow> string" where
  "escape [] = []"
| "escape (c # cs) =
     (if c = CHR ''~'' then ''~0'' else if c = CHR ''/'' then ''~1'' else [c]) @ escape cs"

definition encode_pointer :: "string list \<Rightarrow> string" where
  "encode_pointer segs = concat (map (\<lambda>s. CHR ''/'' # escape s) segs)"

lemma scan_segment_eq:
  "scan_segment acc p =
     map_option (\<lambda>u. (acc @ u, dropWhile (\<lambda>c. c \<noteq> CHR ''/'') p)) (unescape (takeWhile (\<lambda>c. c \<noteq> CHR ''/'') p))"
proof (induction acc p rule: scan_segment.induct)
  case (2 acc c cs)
  then show ?case
    by (cases cs) (auto simp: option.map_comp comp_def split: list.splits)
qed simp

lemma split_first_piece:
  "split_spec d s = takeWhile (\<lambda>c. c \<noteq> d) s #
     (if dropWhile (\<lambda>c. c \<noteq> d) s = [] then [] else split_spec d (tl (dropWhile (\<lambda>c. c \<noteq> d) s)))"
proof -
  have t: "d \<notin> set (takeWhile (\<lambda>c. c \<noteq> d) s)" by (auto dest: set_takeWhileD)
  show ?thesis
  proof (cases "dropWhile (\<lambda>c. c \<noteq> d) s")
    case Nil
    then have "takeWhile (\<lambda>c. c \<noteq> d) s = s" using takeWhile_dropWhile_id [of "\<lambda>c. c \<noteq> d" s] by simp
    then have "split_spec d s = [takeWhile (\<lambda>c. c \<noteq> d) s]" using t split_spec_none by metis
    with Nil show ?thesis by (simp only: if_True simp_thms)
  next
    case (Cons a v)
    then have "a = d" using hd_dropWhile [of "\<lambda>c. c \<noteq> d" s] by simp
    with Cons have "s = takeWhile (\<lambda>c. c \<noteq> d) s @ d # v" using takeWhile_dropWhile_id [of "\<lambda>c. c \<noteq> d" s] by simp
    then show ?thesis using split_spec_append [OF t, of v] Cons by simp
  qed
qed

lemma decode_step:
  "decode_pointer (CHR ''/'' # cs) =
     (case unescape (takeWhile (\<lambda>c. c \<noteq> CHR ''/'') cs) of
        None \<Rightarrow> None
      | Some u \<Rightarrow> map_option (Cons u) (decode_pointer (dropWhile (\<lambda>c. c \<noteq> CHR ''/'') cs)))"
proof -
  define piece where "piece = takeWhile (\<lambda>c. c \<noteq> CHR ''/'') cs"
  define rest where "rest = dropWhile (\<lambda>c. c \<noteq> CHR ''/'') cs"
  have s: "split_spec CHR ''/'' cs = piece # (if rest = [] then [] else split_spec CHR ''/'' (tl rest))"
    unfolding piece_def rest_def by (rule split_first_piece)
  have "rest = [] \<or> hd rest = CHR ''/''"
    unfolding rest_def using hd_dropWhile [of "\<lambda>c. c \<noteq> CHR ''/''" cs] by blast
  then show ?thesis unfolding piece_def [symmetric] rest_def [symmetric]
    by (cases "rest = []") (simp_all add: decode_pointer_def s split: option.splits)
qed

lemma SeekPointer_decode:
  "SeekPointer node p = (case decode_pointer p of None \<Rightarrow> None | Some segs \<Rightarrow> resolve_path node segs)"
proof (induction node p rule: SeekPointer.induct)
  case (2 node c cs)
  show ?case
  proof (cases "c = CHR ''/''")
    case True
    let ?rest = "dropWhile (\<lambda>c. c \<noteq> CHR ''/'') cs"
    show ?thesis
    proof (cases "unescape (takeWhile (\<lambda>c. c \<noteq> CHR ''/'') cs)")
      case None
      then show ?thesis using True by (simp add: scan_segment_eq decode_step)
    next
      case (Some u)
      then have scan: "scan_segment [] cs = Some (u, ?rest)" by (simp add: scan_segment_eq)
      have IH: "SeekPointer child ?rest = (case decode_pointer ?rest of None \<Rightarrow> None | Some segs \<Rightarrow> resolve_path child segs)"
        if "ChildAt node u = Some (st, child)" for st child
        using 2 True scan that by auto
      show ?thesis
      proof (cases "ChildAt node u")
        case None
        then show ?thesis using True Some scan by (auto simp: decode_step split: option.splits)
      next
        case (Some q)
        obtain st child where q: "q = (st, child)" by (rule prod.exhaust)
        show ?thesis using True scan Some \<open>unescape _ = Some u\<close> IH [of st child]
          by (auto simp: decode_step q split: option.splits)
      qed
    qed
  qed (simp add: decode_pointer_def)
qed (simp add: decode_pointer_def)

lemma escape_no_slash: "CHR ''/'' \<notin> set (escape s)"
  by (induction s) auto

lemma unescape_escape: "unescape (escape s) = Some s"
  by (induction s) auto

lemma escape_split:
  assumes "p = [] \<or> hd p = CHR ''/''"
  shows "takeWhile (\<lambda>c. c \<noteq> CHR ''/'') (escape s @ p) = escape s"
    and "dropWhile (\<lambda>c. c \<noteq> CHR ''/'') (escape s @ p) = p"
  using assms escape_no_slash [of s]
  by (cases p; auto simp: takeWhile_append dropWhile_append)+

lemma decode_encode: "decode_pointer (encode_pointer segs) = Some segs"
proof (induction segs)
  case (Cons s segs)
  have "encode_pointer segs = [] \<or> hd (encode_pointer segs) = CHR ''/''"
    by (cases segs) (simp_all add: encode_pointer_def)
  from escape_split [OF this, of s] Cons show ?case
    by (simp add: encode_pointer_def decode_step unescape_escape)
qed (simp add: encode_pointer_def decode_pointer_def)

section \<open>Assignments\<close>

fun at_path :: "step list \<Rightarrow> json \<Rightarrow> json option" where
  "at_path [] node = Some node"
| "at_path (Member k # path) (JObj m) = (case map_of m k of Some v \<Rightarrow> at_path path v | None \<Rightarrow> None)"
| "at_path (Element i # path) (JArr vs) = (if i < length vs then at_path path (vs ! i) else None)"
| "at_path _ node = None"

lemma map_of_assign:
  "map_of (map (\<lambda>(k', x). if k' = k then (k', f x) else (k', x)) m) j =
     (if j = k then map_option f (map_of m k) else map_of m j)"
  by (induction m) auto

lemma from_chars_nonneg: "from_chars 0 hi t = Some (i, n) \<Longrightarrow> 0 \<le> i"
  by (auto simp: from_chars_def Let_def split: if_splits)

lemma ChildAt_cases:
  assumes "ChildAt node seg = Some (st, child)"
  obtains m where "node = JObj m" "map_of m seg = Some child" "st = Member seg"
    | vs i where "node = JArr vs" "i < length vs" "child = vs ! i" "st = Element i"
        "\<And>vs'. length vs' = length vs \<Longrightarrow> ChildAt (JArr vs') seg = Some (Element i, vs' ! i)"
proof (cases node)
  case (JArr vs)
  with assms obtain i n where f: "from_chars 0 (2 ^ 64 - 1) seg = Some (i, n)" "n = length seg" "i < int (length vs)"
    "st = Element (nat i)" "child = vs ! nat i"
    by (auto simp: ChildAt_def split: option.splits if_splits)
  moreover have "nat i < length vs" using from_chars_nonneg [OF f(1)] f(3) by linarith
  ultimately show ?thesis using JArr that(2) [of vs "nat i"] by (simp add: ChildAt_def)
qed (use assms that(1) in \<open>auto simp: ChildAt_def split: option.splits\<close>)

lemma resolve_assign:
  "resolve_path node segs = Some (path, v) \<Longrightarrow>
     at_path path node = Some v \<and> resolve_path (assign_at path w node) segs = Some (path, w)"
proof (induction segs arbitrary: node path)
  case (Cons seg segs)
  then obtain st child path' where c: "ChildAt node seg = Some (st, child)" "path = st # path'"
    "resolve_path child segs = Some (path', v)"
    by (auto split: option.splits)
  note IH = Cons.IH [OF c(3)]
  show ?case
    using c(1)
  proof (cases rule: ChildAt_cases)
    case (1 m)
    then show ?thesis using IH c(2) by (simp add: ChildAt_def map_of_assign)
  next
    case (2 vs i)
    then show ?thesis using IH c(2) by simp
  qed
qed simp

lemma assign_frame:
  "\<not> prefix path path' \<Longrightarrow> \<not> prefix path' path \<Longrightarrow> at_path path node \<noteq> None \<Longrightarrow>
     at_path path' (assign_at path w node) = at_path path' node"
proof (induction path w node arbitrary: path' rule: assign_at.induct)
  case (2 k path v m)
  then obtain x where x: "map_of m k = Some x" "at_path path x \<noteq> None" by (auto split: option.splits)
  from 2(2,3) obtain a p where p: "path' = a # p" by (cases path') auto
  have "at_path p (assign_at path v x) = at_path p x" if "a = Member k"
    using 2(1) [of "(k, x)" k x p] 2(2,3) that x p map_of_SomeD [OF x(1)] by auto
  then show ?case using x p by (cases a) (auto simp: map_of_assign split: option.splits)
next
  case (3 i path v vs)
  then have x: "i < length vs" "at_path path (vs ! i) \<noteq> None" by (auto split: if_splits)
  from 3(2,3) obtain a p where p: "path' = a # p" by (cases path') auto
  have "at_path p (assign_at path v (vs ! i)) = at_path p (vs ! i)" if "a = Element i"
    using 3(1) [of p] 3(2,3) that x p by auto
  then show ?case using x p by (cases a) (auto simp: nth_list_update)
qed auto

section \<open>Properties\<close>

lemma FromJson_newline:
  assumes "\<And>t. gz_tree gz (t @ [CHR 0x0A]) = gz_tree gz t" and "t \<noteq> []"
  shows "CoreConfigFromJson gz fe (t @ [CHR 0x0A]) = CoreConfigFromJson gz fe t"
  using assms by (simp add: CoreConfigFromJson_def)

lemma SaveCoreConfig_True:
  assumes "SaveCoreConfig gz tr fs c st = (True, st')"
  shows "let m = MaterializeBuiltinSceneLabels tr (NormalizeCoreConfig c) in
     CoreConfigToJson gz m \<noteq> []
     \<and> st_file st' = Some (CoreConfigToJson gz m @ [CHR 0x0A], fs_now fs)
     \<and> st_cache st' = (if fs_stat fs
         then Some \<lparr>ca_mtime = fs_now fs, ca_size = Suc (length (CoreConfigToJson gz m)), ca_cached = m\<rparr> else None)"
  using assms
  by (auto simp: SaveCoreConfig_def Let_def GetConfigStat_def split: if_splits)

lemma without_labels_materialize: "without_labels (MaterializeBuiltinSceneLabels tr c) = without_labels c"
proof -
  have "unlabelled (materialize_label tr s) = unlabelled s" for s
    by (simp add: unlabelled_def materialize_label_def label_written_def)
  then show ?thesis by (simp add: without_labels_def MaterializeBuiltinSceneLabels_def)
qed

lemma envs_sorted_Normalize:
  assumes "envs_sorted c"
  shows "envs_sorted (MaterializeBuiltinSceneLabels tr (NormalizeCoreConfig c))"
proof -
  have erase: "provider_env_sorted p \<Longrightarrow> provider_env_sorted (erase_provider_env p)" for p
    by (cases p) (simp_all add: EraseEmptyEnvKeys_def smap_sorted_filter)
  have "list_all (\<lambda>a. smap_sorted (la_env a)) (normalize_llm_adapters (cc_llm_adapters c))"
    "list_all provider_env_sorted (normalize_asr_providers (cc_asr_providers c))"
    using assms
    by (auto simp: envs_sorted_def list_all_iff normalize_llm_adapters_def normalize_asr_providers_def
        erase_adapter_env_def EraseEmptyEnvKeys_def dest!: keep_first_mem intro!: smap_sorted_filter erase)
  with assms show ?thesis
    by (simp add: envs_sorted_def MaterializeBuiltinSceneLabels_def normalize_clients_sorted)
qed

text \<open>
  C11: What was saved is loaded again. The process that saved a configuration gets it from its cache,
  normalised and with the labels of the built-in scenes filled in. Every other process parses the file and gets
  the normalisation of what the file stands for (\<open>stored\<close>: labels of built-in scenes and timeouts that are not
  positive are not written). When no timeout is negative, extra bodies are objects and exactly the built-in
  scenes are marked as such, this is the saved configuration but for the labels. It is assumed that
  the environments are ordered maps, that the JSON library reads the text it wrote back, that it accepts
  the final line end, and that the file can be opened and its size and time be read.
\<close>

theorem load_after_save:
  assumes "SaveCoreConfig gz tr fs c st = (True, st')" and "fs_stat fs" and "envs_sorted c"
    and "reads_back gz (ToWire (MaterializeBuiltinSceneLabels tr (NormalizeCoreConfig c)))"
    and "\<And>t. gz_tree gz (t @ [CHR 0x0A]) = gz_tree gz t"
    and "fs_stat fs'" and "fs_open fs'"
  shows "let own = fst (LoadCoreConfig gz fe fs' st');
       other = fst (LoadCoreConfig gz fe fs' (st'\<lparr>st_cache := None\<rparr>))
     in own = MaterializeBuiltinSceneLabels tr (NormalizeCoreConfig c)
        \<and> other = NormalizeCoreConfig (stored (NormalizeCoreConfig c))
        \<and> (config_wf c \<longrightarrow> other = without_labels (NormalizeCoreConfig c) \<and> without_labels own = other)"
proof -
  let ?n = "NormalizeCoreConfig c"
  let ?m = "MaterializeBuiltinSceneLabels tr ?n"
  note s = SaveCoreConfig_True [OF assms(1), unfolded Let_def]
  have "CoreConfigFromJson gz fe (CoreConfigToJson gz ?m) = Inr (stored ?n)"
    using json_back [OF assms(4) envs_sorted_Normalize [OF assms(3)]] by simp
  then have "CoreConfigFromJson gz fe (CoreConfigToJson gz ?m @ [CHR 0x0A]) = Inr (stored ?n)"
    using FromJson_newline [OF assms(5)] s by simp
  then have other: "fst (LoadCoreConfig gz fe fs' (st'\<lparr>st_cache := None\<rparr>)) = NormalizeCoreConfig (stored ?n)"
    using s assms(6,7) by (simp add: LoadCoreConfig_def GetConfigStat_def LoadCoreConfigFromFile_def Let_def)
  have own: "fst (LoadCoreConfig gz fe fs' st') = ?m"
    using s assms(2,6) by (simp add: LoadCoreConfig_def GetConfigStat_def)
  show ?thesis unfolding Let_def own other by (simp add: without_labels_materialize normalize_saved)
qed

text \<open>
  A negative timeout survives normalisation and validation, so it stays in the cache of the process that saved it, but it
  is not written: every other process gets the default 0.
\<close>

definition negative_timeout :: CoreConfig where
  "negative_timeout = default_config\<lparr>cc_asr_providers := [CommandAsrProvider
     \<lparr>co_id = ''c'', co_timeoutMs = -5, co_command = ''asr'', co_args = [], co_env = []\<rparr>]\<rparr>"

lemma negative_timeout_not_written:
  "ValidateCoreConfig (NormalizeCoreConfig negative_timeout) = None
   \<and> cc_asr_providers (NormalizeCoreConfig negative_timeout) = cc_asr_providers negative_timeout
   \<and> cc_asr_providers (stored (NormalizeCoreConfig negative_timeout))
     = [CommandAsrProvider \<lparr>co_id = ''c'', co_timeoutMs = 0, co_command = ''asr'', co_args = [], co_env = []\<rparr>]"
proof -
  have "cc_asr_providers (NormalizeCoreConfig negative_timeout) = cc_asr_providers negative_timeout"
    by (simp add: negative_timeout_def normalize_asr_providers_def EraseEmptyEnvKeys_def)
  then show ?thesis by (simp add: normalized_accepted stored_def negative_timeout_def)
qed

text \<open>
  C34: A pointer names what RFC 6901 says: the code, which looks each member up while it is still scanning
  the pointer, agrees with cutting and unescaping the whole pointer first; the pointer built from a
  list of keys is read as that list. After an assignment the pointer finds the new value, and nodes
  that are neither above nor below the assigned one keep their value.
\<close>

theorem SeekPointer_correct:
  "SeekPointer tree p = (case decode_pointer p of None \<Rightarrow> None | Some segs \<Rightarrow> resolve_path tree segs)
   \<and> decode_pointer (encode_pointer segs) = Some segs
   \<and> (case SeekPointer tree p of
        None \<Rightarrow> True
      | Some (path, v) \<Rightarrow>
          at_path path tree = Some v \<and> SeekPointer (assign_at path w tree) p = Some (path, w)
          \<and> (prefix path path' \<or> prefix path' path \<or> at_path path' (assign_at path w tree) = at_path path' tree))"
proof -
  have "at_path path tree = Some v \<and> SeekPointer (assign_at path w tree) p = Some (path, w)
      \<and> (prefix path path' \<or> prefix path' path \<or> at_path path' (assign_at path w tree) = at_path path' tree)"
    if "SeekPointer tree p = Some (path, v)" for path v
  proof -
    from that obtain segs where d: "decode_pointer p = Some segs" "resolve_path tree segs = Some (path, v)"
      by (auto simp: SeekPointer_decode split: option.splits)
    with resolve_assign [OF d(2), of w] show ?thesis
      using assign_frame [of path path' tree w] by (auto simp: SeekPointer_decode)
  qed
  then show ?thesis by (auto simp: SeekPointer_decode decode_encode split: option.splits)
qed

text \<open>
  C40: Setting a value is never refused by validation, although the code asks for the validation error when
  saving fails: the configuration is normalised before it is validated. Once the path exists and the changed tree
  parses, the only error left is that of a save that failed; when the directory and the file can be written and the
  serialisation is not empty, the call succeeds, and the file and, if it can be inspected, the cache hold the normalised
  configuration, which is valid. An active provider that does not exist is silently replaced by the empty one.
\<close>

theorem SetConfigValue_never_invalid:
  assumes "LoadConfigTree gz fe fs st = (Some tree, st1)" and "SeekPointer tree pointer = Some (path, old)"
    and "CoreConfigFromJson gz fe (FormatNode print (assign_at path (ParseSetValue gz val) tree)) = Inr updated"
    and "m = MaterializeBuiltinSceneLabels tr (NormalizeCoreConfig updated)"
    and "SetConfigValue gz fe tr print fs st pointer val = (err, st2)"
  shows "err \<in> {None, Some ''Failed to save config.''}
    \<and> (fs_parent fs = None \<and> fs_write fs = None \<and> CoreConfigToJson gz m \<noteq> []
       \<longrightarrow> err = None \<and> st_file st2 = Some (CoreConfigToJson gz m @ [CHR 0x0A], fs_now fs)
           \<and> (fs_stat fs \<longrightarrow> map_option ca_cached (st_cache st2) = Some m))
    \<and> ValidateCoreConfig (NormalizeCoreConfig updated) = None
    \<and> (cc_activeProvider updated \<in> set (map AsrProviderId (cc_asr_providers (NormalizeCoreConfig updated)))
       \<or> cc_activeProvider m = [])"
proof -
  have r: "(err, st2) =
      (case SaveCoreConfig gz tr fs updated st1 of
         (True, st2) \<Rightarrow> (None, st2) | (False, st2) \<Rightarrow> (Some ''Failed to save config.'', st2))"
    using assms(1-3,5) by (simp add: SetConfigValue_def normalized_accepted split: prod.splits bool.splits)
  then have e: "err \<in> {None, Some ''Failed to save config.''}" by (auto split: prod.splits bool.splits)
  have ok: "err = None \<and> st_file st2 = Some (CoreConfigToJson gz m @ [CHR 0x0A], fs_now fs)
      \<and> (fs_stat fs \<longrightarrow> map_option ca_cached (st_cache st2) = Some m)"
    if "fs_parent fs = None \<and> fs_write fs = None \<and> CoreConfigToJson gz m \<noteq> []"
    using r that by (simp add: SaveCoreConfig_def normalized_accepted Let_def GetConfigStat_def assms(4))
  have "cc_activeProvider m = []"
    if "cc_activeProvider updated \<notin> set (map AsrProviderId (cc_asr_providers (NormalizeCoreConfig updated)))"
    using that by (auto simp: assms(4) MaterializeBuiltinSceneLabels_def NormalizeCoreConfig_active)
  with e ok show ?thesis using normalized_accepted by blast
qed

section \<open>Witnesses\<close>

lemma example_reads_back: "cc_triggers c = [] \<Longrightarrow> cc_receivers c = [] \<Longrightarrow> reads_back (example_glaze c) (ToWire c)"
  by (simp add: reads_back_def example_glaze_def example_tree_def section_back_def ReadSection_def ToWire_def only_if_def)

definition example_fs :: fs_env where
  "example_fs = \<lparr>fs_stat = True, fs_open = True, fs_parent = None, fs_write = None, fs_now = 1, fs_bundled = Inl []\<rparr>"

definition example_store :: config_store where
  "example_store = \<lparr>st_file = Some (''{}'', 0), st_cache = None\<rparr>"

theorem load_after_save_witness:
  "let c = default_config;
     g = example_glaze (MaterializeBuiltinSceneLabels id (NormalizeCoreConfig c));
     st = snd (SaveCoreConfig g id example_fs c example_store)
   in fst (LoadCoreConfig g exact_env example_fs (st\<lparr>st_cache := None\<rparr>)) = without_labels (NormalizeCoreConfig c)"
proof -
  let ?m = "MaterializeBuiltinSceneLabels id (NormalizeCoreConfig default_config)"
  let ?g = "example_glaze ?m"
  have c: "cc_triggers ?m = []" "cc_receivers ?m = []"
    by (simp_all add: MaterializeBuiltinSceneLabels_def default_config_def normalize_clients_def Let_def)
  have save: "SaveCoreConfig ?g id example_fs default_config example_store
      = (True, snd (SaveCoreConfig ?g id example_fs default_config example_store))"
    by (simp add: SaveCoreConfig_def example_fs_def normalized_accepted Let_def CoreConfigToJson_def example_glaze_def)
  have wf: "config_wf default_config" "envs_sorted default_config"
    by (simp_all add: config_wf_def envs_sorted_def default_config_def)
  have newline: "gz_tree ?g (t @ [CHR 0x0A]) = gz_tree ?g t" for t by (simp add: example_glaze_def)
  have fs: "fs_stat example_fs" "fs_open example_fs" by (simp_all add: example_fs_def)
  from load_after_save [OF save fs(1) wf(2) example_reads_back [OF c] newline fs, of exact_env] wf(1)
  show ?thesis unfolding Let_def by blast
qed

text \<open>A file format whose files hold the active provider and nothing else.\<close>

definition choice_tree :: "string \<Rightarrow> json" where
  "choice_tree v = JObj [(''asr'', JObj [(''active_provider'', JStr v)])]"

definition read_choice :: "json \<Rightarrow> string option" where
  "read_choice j = (case json_Find j ''active_provider'' of Some (JStr v) \<Rightarrow> Some v | _ \<Rightarrow> None)"

definition choice_glaze :: glaze where
  "choice_glaze =
     \<lparr>gz_write = (\<lambda>w. Some (CHR ''@'' # (case cw_asr w of Some a \<Rightarrow> aw_active_provider a | None \<Rightarrow> []))),
      gz_tree = (\<lambda>t. case t of c # v \<Rightarrow> if c = CHR ''@'' then Inr (choice_tree v) else Inl ''syntax error''
                            | [] \<Rightarrow> Inl ''syntax error''),
      gz_registry = (\<lambda>_. None), gz_global = (\<lambda>_. None), gz_llm = (\<lambda>_. None), gz_scenes = (\<lambda>_. None),
      gz_asr = (\<lambda>j. map_option (\<lambda>v. (ToWire_Asr default_config)\<lparr>aw_active_provider := v\<rparr>) (read_choice j)),
      gz_clients = (\<lambda>_. None)\<rparr>"

definition choice_print :: "json \<Rightarrow> string option" where
  "choice_print j = (case json_Find j ''asr'' of Some a \<Rightarrow> map_option (Cons (CHR ''@'')) (read_choice a) | None \<Rightarrow> None)"

lemma choice_parse:
  "\<exists>c. CoreConfigFromJson choice_glaze fe (CHR ''@'' # v) = Inr c \<and> cc_activeProvider c = v \<and> cc_asr_providers c = []"
  by (simp add: CoreConfigFromJson_def choice_glaze_def choice_tree_def read_choice_def read_section_def ReadSection_def
      read_version_def FromWire_Asr_def ToWire_Asr_def default_config_def)

theorem SetConfigValue_never_invalid_witness:
  "case SetConfigValue choice_glaze exact_env id choice_print example_fs
       \<lparr>st_file = Some (''@'', 0), st_cache = None\<rparr> ''/asr/active_provider'' ''nosuch'' of
     (err, st) \<Rightarrow> err = None \<and> map_option (\<lambda>ca. cc_activeProvider (ca_cached ca)) (st_cache st) = Some []"
proof -
  let ?st = "\<lparr>st_file = Some (''@'', 0), st_cache = None\<rparr>"
  let ?set = "SetConfigValue choice_glaze exact_env id choice_print example_fs ?st ''/asr/active_provider'' ''nosuch''"
  obtain c0 st1 where load: "LoadCoreConfig choice_glaze exact_env example_fs ?st = (c0, st1)" by (rule prod.exhaust)
  have tree: "\<exists>v. LoadConfigTree choice_glaze exact_env example_fs ?st = (Some (choice_tree v), st1)"
    using load by (auto simp: LoadConfigTree_def CoreConfigToJson_def choice_glaze_def)
  then obtain v where tree: "LoadConfigTree choice_glaze exact_env example_fs ?st = (Some (choice_tree v), st1)" ..
  have seek: "SeekPointer (choice_tree v) ''/asr/active_provider'' = Some ([Member ''asr'', Member ''active_provider''], JStr v)"
    by (simp add: choice_tree_def ChildAt_def)
  have val: "ParseSetValue choice_glaze ''nosuch'' = JStr ''nosuch''"
    by (simp add: ParseSetValue_def choice_glaze_def)
  obtain c where c: "CoreConfigFromJson choice_glaze exact_env
      (FormatNode choice_print (assign_at [Member ''asr'', Member ''active_provider''] (ParseSetValue choice_glaze ''nosuch'') (choice_tree v)))
      = Inr c" "cc_activeProvider c = ''nosuch''" "cc_asr_providers c = []"
    using choice_parse [of exact_env "''nosuch''"]
    by (auto simp: val FormatNode_def choice_print_def choice_tree_def read_choice_def)
  have "cc_activeProvider c \<notin> set (map AsrProviderId (cc_asr_providers (NormalizeCoreConfig c)))"
    using c(2,3) by (simp add: normalize_asr_providers_def)
  moreover have "CoreConfigToJson choice_glaze (MaterializeBuiltinSceneLabels id (NormalizeCoreConfig c)) \<noteq> []"
    by (simp add: CoreConfigToJson_def choice_glaze_def)
  ultimately show ?thesis
    using SetConfigValue_never_invalid [OF tree seek c(1) refl prod.collapse [symmetric], of id]
    by (auto simp: example_fs_def split: prod.splits)
qed

end
