(* ===== verification/Addon.thy ===== *)
theory Addon
  imports String_Utils "HOL-Library.Sublist" "HOL-Library.Word"
begin

text \<open>
  Three parts of the input method addon that carry state of their own: the gate that drops stale
  status replies (\<open>addon/dbus/status_poll_gate.h\<close>), the background writer of the context cache
  (\<open>addon/core/context_writer.h\<close> and \<open>.cpp\<close>) and the registry of palette commands
  (\<open>addon/menu/palette_command.h\<close> and \<open>.cpp\<close>). The fcitx glue around them is not modelled.
\<close>

section \<open>The status poll gate\<close>

record Ticket =
  tk_id :: u64
  tk_generation :: u64

record StatusPollGate =
  g_generation :: u64
  g_request_id :: u64
  g_active :: bool

definition new_gate :: StatusPollGate where
  "new_gate = \<lparr>g_generation = 0, g_request_id = 0, g_active = False\<rparr>"

definition TryBegin :: "StatusPollGate \<Rightarrow> Ticket option \<times> StatusPollGate" where
  "TryBegin g =
     (if g_active g then (None, g)
      else (Some \<lparr>tk_id = g_request_id g + 1, tk_generation = g_generation g\<rparr>,
            g\<lparr>g_active := True, g_request_id := g_request_id g + 1\<rparr>))"

definition Invalidate :: "StatusPollGate \<Rightarrow> StatusPollGate" where
  "Invalidate g = g\<lparr>g_generation := g_generation g + 1\<rparr>"

definition gate_IsActive :: "StatusPollGate \<Rightarrow> Ticket \<Rightarrow> bool" where
  "gate_IsActive g t = (g_active g \<and> g_request_id g = tk_id t)"

definition gate_Complete :: "StatusPollGate \<Rightarrow> Ticket \<Rightarrow> bool \<times> StatusPollGate" where
  "gate_Complete g t =
     (if \<not> gate_IsActive g t then (False, g)
      else (tk_generation t = g_generation g, g\<lparr>g_active := False\<rparr>))"

definition gate_Cancel :: "StatusPollGate \<Rightarrow> StatusPollGate" where
  "gate_Cancel g =
     g\<lparr>g_active := False, g_generation := g_generation g + 1, g_request_id := g_request_id g + 1\<rparr>"

datatype gate_call = CallBegin | CallInvalidate | CallComplete Ticket | CallCancel

fun gate_step :: "StatusPollGate \<Rightarrow> gate_call \<Rightarrow> StatusPollGate" where
  "gate_step g CallBegin = snd (TryBegin g)"
| "gate_step g CallInvalidate = Invalidate g"
| "gate_step g (CallComplete t) = snd (gate_Complete g t)"
| "gate_step g CallCancel = gate_Cancel g"

definition bumps :: "gate_call list \<Rightarrow> nat" where
  "bumps cs = length (filter (\<lambda>c. c = CallInvalidate \<or> c = CallCancel) cs)"

lemmas gate_defs [vinput_defs] =
  TryBegin_def Invalidate_def gate_IsActive_def gate_Complete_def gate_Cancel_def

lemma gate_generation:
  "g_generation (foldl gate_step g cs) = g_generation g + of_nat (bumps cs)"
proof (induction cs arbitrary: g)
  case (Cons c cs)
  show ?case using Cons.IH [of "gate_step g c"] by (cases c) (simp_all add: gate_defs bumps_def)
qed (simp add: bumps_def)

lemma of_nat_u64_0: "(of_nat n :: u64) = 0 \<Longrightarrow> n < 2 ^ 64 \<Longrightarrow> n = 0"
  by (auto simp: word_of_nat_eq_0_iff dest: dvd_imp_le)

text \<open>
  A status reply is accepted only if no newer status signal and no cancellation came between
  the request and the reply, for any interleaving of other calls short of the counter's full
  period of \<open>2 ^ 64\<close>; and a reply is accepted at most once.
\<close>

theorem StatusPollGate_rejects_stale:
  assumes "TryBegin g = (Some t, g')" and "length cs < 2 ^ 64"
    and "fst (gate_Complete (foldl gate_step g' cs) t)"
  shows "CallInvalidate \<notin> set cs \<and> CallCancel \<notin> set cs
    \<and> \<not> fst (gate_Complete (snd (gate_Complete (foldl gate_step g' cs) t)) t)"
proof -
  have "g_generation (foldl gate_step g' cs) = g_generation g'"
    using assms(1,3) by (auto simp: gate_defs split: if_splits)
  then have "(of_nat (bumps cs) :: u64) = 0" by (simp add: gate_generation)
  moreover have "bumps cs < 2 ^ 64"
    using assms(2) length_filter_le [of _ cs] unfolding bumps_def by (rule le_less_trans [rotated])
  ultimately have "bumps cs = 0" by (rule of_nat_u64_0)
  then have "CallInvalidate \<notin> set cs \<and> CallCancel \<notin> set cs"
    by (auto simp: bumps_def filter_empty_conv)
  moreover have "\<not> fst (gate_Complete (snd (gate_Complete (foldl gate_step g' cs) t)) t)"
    by (auto simp: gate_defs)
  ultimately show ?thesis by blast
qed

theorem StatusPollGate_rejects_stale_witness:
  "\<not> fst (gate_Complete (foldl gate_step (snd (TryBegin new_gate)) [CallInvalidate]) \<lparr>tk_id = 1, tk_generation = 0\<rparr>)
   \<and> fst (gate_Complete (snd (TryBegin new_gate)) \<lparr>tk_id = 1, tk_generation = 0\<rparr>)"
proof -
  have b: "TryBegin new_gate = (Some \<lparr>tk_id = 1, tk_generation = 0\<rparr>, snd (TryBegin new_gate))"
    by (simp add: TryBegin_def new_gate_def)
  have "\<not> fst (gate_Complete (foldl gate_step (snd (TryBegin new_gate)) [CallInvalidate]) \<lparr>tk_id = 1, tk_generation = 0\<rparr>)"
    using StatusPollGate_rejects_stale [OF b, of "[CallInvalidate]"] by auto
  then show ?thesis by (simp add: gate_defs new_gate_def)
qed

section \<open>The context writer\<close>

text \<open>
  A \<open>size_t\<close> is a \<open>nat\<close>: the invariant below shows that no subtraction goes below zero. The worker
  thread holds the lock in every step except while it persists a task; \<open>cw_writing\<close> is that task.
\<close>

record ContextWriteTask =
  ct_json_line :: string
  ct_max_lines :: int

definition kMaxPendingBytes :: nat where "kMaxPendingBytes = 4 * 1024 * 1024"
definition kMaxPendingEntries :: nat where "kMaxPendingEntries = 1024"

record AsyncContextWriter =
  cw_pending :: "ContextWriteTask list"
  cw_pending_bytes :: nat
  cw_dropped :: nat
  cw_write_count :: int
  cw_writing :: "ContextWriteTask option"
  cw_stopping :: bool

definition new_writer :: AsyncContextWriter where
  "new_writer = \<lparr>cw_pending = [], cw_pending_bytes = 0, cw_dropped = 0, cw_write_count = 0,
     cw_writing = None, cw_stopping = False\<rparr>"

function drop_oldest :: "nat \<Rightarrow> AsyncContextWriter \<Rightarrow> bool \<Rightarrow> AsyncContextWriter \<times> bool" where
  "drop_oldest n w lost =
     (case cw_pending w of
        [] \<Rightarrow> (w, lost)
      | t # ts \<Rightarrow>
          if kMaxPendingEntries \<le> length (t # ts) \<or> kMaxPendingBytes - n < cw_pending_bytes w then
            drop_oldest n
              (w\<lparr>cw_pending_bytes := cw_pending_bytes w - length (ct_json_line t),
                 cw_pending := ts, cw_dropped := cw_dropped w + 1\<rparr>) True
          else (w, lost))"
  by pat_completeness auto
termination by (relation "measure (\<lambda>(_, w, _). length (cw_pending w))") auto

declare drop_oldest.simps [simp del]

definition Enqueue :: "AsyncContextWriter \<Rightarrow> string \<Rightarrow> int \<Rightarrow> bool \<times> AsyncContextWriter" where
  "Enqueue w json_line max_lines =
     (if max_lines \<le> 0 \<or> json_line = [] then (True, w)
      else if cw_stopping w then (False, w)
      else if kMaxPendingBytes < length json_line then (False, w\<lparr>cw_dropped := cw_dropped w + 1\<rparr>)
      else case drop_oldest (length json_line) w False of
        (w1, lost) \<Rightarrow>
          (\<not> lost, w1\<lparr>cw_pending_bytes := cw_pending_bytes w1 + length json_line,
                      cw_pending := cw_pending w1 @ [\<lparr>ct_json_line = json_line, ct_max_lines = max_lines\<rparr>]\<rparr>))"

definition WaitUntilIdle_ready :: "AsyncContextWriter \<Rightarrow> bool" where
  "WaitUntilIdle_ready w = (cw_pending w = [] \<and> cw_writing w = None)"

definition DroppedEntries :: "AsyncContextWriter \<Rightarrow> nat" where
  "DroppedEntries w = cw_dropped w"

text \<open>The two critical sections of \<open>Run\<close>: taking a task, and coming back from \<open>Persist\<close>.\<close>

definition Run_take :: "AsyncContextWriter \<Rightarrow> AsyncContextWriter" where
  "Run_take w =
     (case (cw_writing w, cw_pending w) of
        (None, t # ts) \<Rightarrow>
          w\<lparr>cw_pending_bytes := cw_pending_bytes w - length (ct_json_line t), cw_pending := ts,
            cw_writing := Some t\<rparr>
      | _ \<Rightarrow> w)"

definition Run_done :: "AsyncContextWriter \<Rightarrow> AsyncContextWriter" where
  "Run_done w = w\<lparr>cw_writing := None\<rparr>"

definition writer_stop :: "AsyncContextWriter \<Rightarrow> AsyncContextWriter" where
  "writer_stop w = w\<lparr>cw_stopping := True\<rparr>"

text \<open>
  \<open>Persist\<close> on the text of the file. The outcome of each file operation is an input; appended text
  is assumed to reach the file.
\<close>

record persist_io =
  pi_open :: bool
  pi_create_dirs :: bool
  pi_reopen :: bool
  pi_read :: bool
  pi_open_temp :: bool
  pi_close_temp :: bool
  pi_rename :: bool

definition kTruncateInterval :: int where "kTruncateInterval = 100"

definition nonempty_lines :: "string \<Rightarrow> string list" where
  "nonempty_lines s = filter (\<lambda>l. l \<noteq> []) (Split s CHR 0x0A)"

definition unlines :: "string list \<Rightarrow> string" where
  "unlines ls = concat (map (\<lambda>l. l @ [CHR 0x0A]) ls)"

definition Persist :: "persist_io \<Rightarrow> ContextWriteTask \<Rightarrow> int \<times> string \<Rightarrow> int \<times> string" where
  "Persist io task st =
     (case st of (count, content) \<Rightarrow>
        if \<not> pi_open io \<and> (\<not> pi_create_dirs io \<or> \<not> pi_reopen io) then (count, content)
        else
          let content1 = content @ ct_json_line task @ [CHR 0x0A] in
          if ct_max_lines task \<le> 0 then (count, content1)
          else if count + 1 < kTruncateInterval then (count + 1, content1)
          else if \<not> pi_read io then (0, content1)
          else
            let lines = nonempty_lines content1 in
            if length lines \<le> nat (ct_max_lines task) then (0, content1)
            else if \<not> pi_open_temp io \<or> \<not> pi_close_temp io \<or> \<not> pi_rename io then (0, content1)
            else (0, unlines (drop (length lines - nat (ct_max_lines task)) lines)))"

section \<open>The command palette\<close>

datatype PaletteCategory = CatAsr | CatScene | CatCommandModel | CatAdapter | CatCustom

text \<open>\<open>'h\<close> stands for the two callbacks of a command.\<close>

record 'h PaletteCommand =
  pc_id :: string
  pc_name :: string
  pc_alias :: string
  pc_title :: string
  pc_comment :: string
  pc_description :: string
  pc_category :: PaletteCategory
  pc_handlers :: 'h

fun registerCommand :: "'h PaletteCommand list \<Rightarrow> 'h PaletteCommand \<Rightarrow> 'h PaletteCommand list" where
  "registerCommand [] c = [c]"
| "registerCommand (d # ds) c = (if pc_id d = pc_id c then c # ds else d # registerCommand ds c)"

definition findByNameOrAlias :: "'h PaletteCommand list \<Rightarrow> string \<Rightarrow> 'h PaletteCommand option" where
  "findByNameOrAlias cs token =
     (if token = [] then None
      else find (\<lambda>c. EqualsIgnoreCase (pc_name c) token
                     \<or> pc_alias c \<noteq> [] \<and> EqualsIgnoreCase (pc_alias c) token) cs)"

definition findByCategory :: "'h PaletteCommand list \<Rightarrow> PaletteCategory \<Rightarrow> 'h PaletteCommand option" where
  "findByCategory cs cat = find (\<lambda>c. pc_category c = cat) cs"

section \<open>The writer's queue\<close>

text \<open>
  A run of the writer, with the tasks that were put into the queue, those the worker took, in
  order, and the number of entries refused for their size.
\<close>

record writer_run =
  wr_state :: AsyncContextWriter
  wr_queued :: "ContextWriteTask list"
  wr_taken :: "ContextWriteTask list"
  wr_refused :: nat

datatype writer_event = EvEnqueue string int | EvTake | EvDone | EvStop

definition accepted :: "AsyncContextWriter \<Rightarrow> string \<Rightarrow> int \<Rightarrow> bool" where
  "accepted w line max_lines =
     (0 < max_lines \<and> line \<noteq> [] \<and> \<not> cw_stopping w \<and> length line \<le> kMaxPendingBytes)"

fun writer_step :: "writer_run \<Rightarrow> writer_event \<Rightarrow> writer_run" where
  "writer_step r (EvEnqueue l m) =
     r\<lparr>wr_state := snd (Enqueue (wr_state r) l m),
       wr_queued := wr_queued r @ (if accepted (wr_state r) l m then [\<lparr>ct_json_line = l, ct_max_lines = m\<rparr>] else []),
       wr_refused := wr_refused r +
         (if 0 < m \<and> l \<noteq> [] \<and> \<not> cw_stopping (wr_state r) \<and> kMaxPendingBytes < length l then 1 else 0)\<rparr>"
| "writer_step r EvTake =
     r\<lparr>wr_state := Run_take (wr_state r),
       wr_taken := wr_taken r @
         (if cw_writing (wr_state r) = None then take 1 (cw_pending (wr_state r)) else [])\<rparr>"
| "writer_step r EvDone = r\<lparr>wr_state := Run_done (wr_state r)\<rparr>"
| "writer_step r EvStop = r\<lparr>wr_state := writer_stop (wr_state r)\<rparr>"

definition new_run :: writer_run where
  "new_run = \<lparr>wr_state = new_writer, wr_queued = [], wr_taken = [], wr_refused = 0\<rparr>"

definition pending_size :: "ContextWriteTask list \<Rightarrow> nat" where
  "pending_size ts = sum_list (map (\<lambda>t. length (ct_json_line t)) ts)"

definition writer_inv :: "writer_run \<Rightarrow> bool" where
  "writer_inv r =
     (let w = wr_state r in
      cw_pending_bytes w = pending_size (cw_pending w)
      \<and> cw_pending_bytes w \<le> kMaxPendingBytes
      \<and> length (cw_pending w) \<le> kMaxPendingEntries
      \<and> subseq (wr_taken r @ cw_pending w) (wr_queued r)
      \<and> length (wr_queued r) + wr_refused r
          = length (wr_taken r) + length (cw_pending w) + cw_dropped w)"

lemma drop_oldest_spec:
  assumes "cw_pending_bytes w = pending_size (cw_pending w)"
  shows "\<exists>k. fst (drop_oldest n w lost) = w\<lparr>cw_pending := drop k (cw_pending w),
        cw_pending_bytes := pending_size (drop k (cw_pending w)), cw_dropped := cw_dropped w + k\<rparr>
      \<and> k \<le> length (cw_pending w) \<and> snd (drop_oldest n w lost) = (lost \<or> 0 < k)
      \<and> (length (drop k (cw_pending w)) < kMaxPendingEntries \<and> pending_size (drop k (cw_pending w)) \<le> kMaxPendingBytes - n)"
  using assms
proof (induction n w lost rule: drop_oldest.induct)
  case (1 n w lost)
  show ?case
  proof (cases "cw_pending w")
    case Nil
    then show ?thesis using 1
      by (intro exI [of _ 0]) (simp add: drop_oldest.simps pending_size_def kMaxPendingEntries_def)
  next
    case (Cons t ts)
    show ?thesis
    proof (cases "kMaxPendingEntries \<le> length (t # ts) \<or> kMaxPendingBytes - n < cw_pending_bytes w")
      case True
      let ?w = "w\<lparr>cw_pending_bytes := cw_pending_bytes w - length (ct_json_line t), cw_pending := ts,
          cw_dropped := cw_dropped w + 1\<rparr>"
      have "cw_pending_bytes ?w = pending_size (cw_pending ?w)"
        using "1.prems" by (simp add: Cons pending_size_def)
      from "1.IH" [OF Cons True this] obtain k where
        "fst (drop_oldest n ?w True) = ?w\<lparr>cw_pending := drop k ts,
            cw_pending_bytes := pending_size (drop k ts), cw_dropped := cw_dropped ?w + k\<rparr>"
        "k \<le> length ts" "snd (drop_oldest n ?w True)"
        "length (drop k ts) < kMaxPendingEntries \<and> pending_size (drop k ts) \<le> kMaxPendingBytes - n"
        by auto
      moreover have "drop_oldest n w lost = drop_oldest n ?w True"
        using True Cons by (simp add: drop_oldest.simps [of n w lost])
      ultimately show ?thesis by (intro exI [of _ "Suc k"]) (simp add: Cons)
    next
      case False
      then have "drop_oldest n w lost = (w, lost)" using Cons by (simp add: drop_oldest.simps [of n w lost])
      then show ?thesis using False Cons "1.prems" by (intro exI [of _ 0]) (cases w, simp)
    qed
  qed
qed

lemma Enqueue_accepted:
  assumes "accepted w l m" and "cw_pending_bytes w = pending_size (cw_pending w)"
  shows "\<exists>k. snd (Enqueue w l m) = w\<lparr>cw_pending := drop k (cw_pending w) @ [\<lparr>ct_json_line = l, ct_max_lines = m\<rparr>],
        cw_pending_bytes := pending_size (drop k (cw_pending w)) + length l, cw_dropped := cw_dropped w + k\<rparr>
      \<and> k \<le> length (cw_pending w) \<and> fst (Enqueue w l m) = (k = 0)
      \<and> length (drop k (cw_pending w)) < kMaxPendingEntries
      \<and> pending_size (drop k (cw_pending w)) + length l \<le> kMaxPendingBytes"
proof -
  obtain w1 lost where d: "drop_oldest (length l) w False = (w1, lost)" by fastforce
  from drop_oldest_spec [OF assms(2), of "length l" False] obtain k where
    w1: "w1 = w\<lparr>cw_pending := drop k (cw_pending w), cw_pending_bytes := pending_size (drop k (cw_pending w)),
        cw_dropped := cw_dropped w + k\<rparr>" and "k \<le> length (cw_pending w)" "lost = (0 < k)"
    "length (drop k (cw_pending w)) < kMaxPendingEntries"
    "pending_size (drop k (cw_pending w)) \<le> kMaxPendingBytes - length l"
    by (auto simp: d)
  then show ?thesis using assms(1)
    by (intro exI [of _ k]) (auto simp: Enqueue_def accepted_def d w1)
qed

lemma writer_inv_enqueue:
  assumes "writer_inv r"
  shows "writer_inv (writer_step r (EvEnqueue l m))"
proof (cases "accepted (wr_state r) l m")
  case True
  let ?w = "wr_state r" and ?t = "\<lparr>ct_json_line = l, ct_max_lines = m\<rparr>"
  have inv: "cw_pending_bytes ?w = pending_size (cw_pending ?w)" "subseq (wr_taken r @ cw_pending ?w) (wr_queued r)"
    "length (wr_queued r) + wr_refused r = length (wr_taken r) + length (cw_pending ?w) + cw_dropped ?w"
    using assms by (simp_all add: writer_inv_def Let_def)
  from Enqueue_accepted [OF True inv(1)] obtain k where
    e: "snd (Enqueue ?w l m) = ?w\<lparr>cw_pending := drop k (cw_pending ?w) @ [?t],
        cw_pending_bytes := pending_size (drop k (cw_pending ?w)) + length l, cw_dropped := cw_dropped ?w + k\<rparr>"
    and k: "k \<le> length (cw_pending ?w)" "length (drop k (cw_pending ?w)) < kMaxPendingEntries"
      "pending_size (drop k (cw_pending ?w)) + length l \<le> kMaxPendingBytes" by blast
  have "subseq (wr_taken r @ drop k (cw_pending ?w)) (wr_queued r)"
    using inv(2) subseq_order.trans [OF list_emb_append_mono [OF subseq_order.refl suffix_imp_subseq [OF suffix_drop]]]
    by blast
  then have "subseq ((wr_taken r @ drop k (cw_pending ?w)) @ [?t]) (wr_queued r @ [?t])"
    by (rule list_emb_append_mono) simp
  then show ?thesis using True k inv(3)
    by (simp add: writer_inv_def Let_def e pending_size_def accepted_def)
next
  case False
  then show ?thesis using assms
    by (auto simp: writer_inv_def Let_def Enqueue_def accepted_def)
qed

lemma writer_inv_step: "writer_inv r \<Longrightarrow> writer_inv (writer_step r e)"
proof (cases e)
  case (EvEnqueue l m)
  then show "writer_inv r \<Longrightarrow> ?thesis" by (simp only: writer_inv_enqueue)
next
  case EvTake
  then show "writer_inv r \<Longrightarrow> ?thesis"
    by (cases "cw_writing (wr_state r)"; cases "cw_pending (wr_state r)")
       (auto simp: writer_inv_def Let_def Run_take_def pending_size_def)
qed (auto simp: writer_inv_def Let_def Run_done_def writer_stop_def)

interpretation context_writer: invariant_machine writer_step new_run writer_inv
proof unfold_locales
  show "writer_inv new_run"
    by (simp add: writer_inv_def new_run_def new_writer_def pending_size_def kMaxPendingEntries_def)
  show "writer_inv (writer_step r e)" if "writer_inv r" for r e using that by (rule writer_inv_step)
qed

text \<open>
  The context writer's queue stays within 1024 entries and 4 MiB whatever the worker does, its
  byte counter is exact (so no subtraction wraps), entries reach the worker in the order of their
  arrival, and every entry is pending, taken or counted as dropped.
\<close>

theorem context_writer_queue:
  "let r = foldl writer_step new_run es; w = wr_state r in
     length (cw_pending w) \<le> 1024
     \<and> cw_pending_bytes w = pending_size (cw_pending w) \<and> cw_pending_bytes w \<le> 4 * 1024 * 1024
     \<and> subseq (wr_taken r @ cw_pending w) (wr_queued r)
     \<and> length (wr_queued r) + wr_refused r = length (wr_taken r) + length (cw_pending w) + cw_dropped w"
  using context_writer.run_inv [of es]
  by (simp add: writer_inv_def Let_def kMaxPendingBytes_def kMaxPendingEntries_def)

text \<open>
  An acceptable entry is always queued, as the newest one; \<open>Enqueue\<close> nevertheless returns false
  when it had to drop older entries to make room, so that false does not mean that the entry
  could not be queued.
\<close>

theorem Enqueue_always_queues:
  assumes "accepted w l m" and "cw_pending_bytes w = pending_size (cw_pending w)"
  shows "cw_pending (snd (Enqueue w l m)) \<noteq> []
    \<and> last (cw_pending (snd (Enqueue w l m))) = \<lparr>ct_json_line = l, ct_max_lines = m\<rparr>
    \<and> (fst (Enqueue w l m) \<longleftrightarrow> DroppedEntries (snd (Enqueue w l m)) = DroppedEntries w)"
  using Enqueue_accepted [OF assms] by (auto simp: DroppedEntries_def)

definition full_writer :: AsyncContextWriter where
  "full_writer = new_writer\<lparr>cw_pending := replicate 1024 \<lparr>ct_json_line = ''x'', ct_max_lines = 5\<rparr>,
     cw_pending_bytes := 1024\<rparr>"

theorem Enqueue_always_queues_witness:
  "last (cw_pending (snd (Enqueue full_writer ''y'' 5))) = \<lparr>ct_json_line = ''y'', ct_max_lines = 5\<rparr>
   \<and> \<not> fst (Enqueue full_writer ''y'' 5)"
proof -
  have a: "accepted full_writer ''y'' 5"
    by (simp add: accepted_def full_writer_def new_writer_def kMaxPendingBytes_def)
  have s: "cw_pending_bytes full_writer = pending_size (cw_pending full_writer)"
    by (simp add: full_writer_def pending_size_def sum_list_replicate)
  obtain k where "fst (Enqueue full_writer ''y'' 5) = (k = 0)"
    "length (drop k (cw_pending full_writer)) < kMaxPendingEntries"
    using Enqueue_accepted [OF a s] by (elim exE conjE) (rule that, assumption+)
  moreover have "length (cw_pending full_writer) = 1024" by (simp add: full_writer_def)
  ultimately have "\<not> fst (Enqueue full_writer ''y'' 5)"
    by (cases k) (simp_all add: kMaxPendingEntries_def)
  then show ?thesis using Enqueue_always_queues [OF a s] by blast
qed

section \<open>The context file\<close>

definition lines_ok :: "string list \<Rightarrow> bool" where
  "lines_ok ls = list_all (\<lambda>l. l \<noteq> [] \<and> CHR 0x0A \<notin> set l) ls"

lemma nonempty_lines_append:
  assumes "content = [] \<or> last content = CHR 0x0A" and "CHR 0x0A \<notin> set l" and "l \<noteq> []"
  shows "nonempty_lines (content @ l @ [CHR 0x0A]) = nonempty_lines content @ [l]"
proof (cases content rule: rev_cases)
  case Nil
  then show ?thesis using assms(2,3)
    by (simp add: nonempty_lines_def Split_spec split_spec_append split_spec_none)
next
  case (snoc c x)
  with assms(1) have x: "content = c @ [CHR 0x0A]" by simp
  show ?thesis using assms(2,3)
    by (simp add: x nonempty_lines_def Split_spec split_spec_concat split_spec_append split_spec_none)
qed

lemma nonempty_lines_unlines: "lines_ok ls \<Longrightarrow> nonempty_lines (unlines ls) = ls"
proof (induction ls)
  case (Cons l ls)
  then show ?case
    by (simp add: unlines_def nonempty_lines_def Split_spec split_spec_append lines_ok_def)
qed (simp add: unlines_def nonempty_lines_def Split_spec)

lemma nonempty_lines_ok: "lines_ok (nonempty_lines s)"
  using Split_no_delim [of _ s "CHR 0x0A"] by (auto simp: lines_ok_def nonempty_lines_def list_all_iff)

text \<open>
  When the file operations succeed, persisting an entry appends it as the last line of the
  context file; on every hundredth write the file is then cut to the newest \<open>max_lines\<close> non-empty
  lines, in order. The file always ends with a newline, so that the next line starts fresh.
\<close>

theorem Persist_keeps_recent:
  assumes "content = [] \<or> last content = CHR 0x0A"
    and "ct_json_line task \<noteq> []" "CHR 0x0A \<notin> set (ct_json_line task)" "0 < ct_max_lines task"
    and "pi_open io" "pi_read io" "pi_open_temp io" "pi_close_temp io" "pi_rename io"
  shows "case Persist io task (count, content) of (count', content') \<Rightarrow>
      (let ls = nonempty_lines content @ [ct_json_line task] in
       nonempty_lines content' =
         (if count + 1 < 100 then ls else drop (length ls - nat (ct_max_lines task)) ls)
       \<and> count' = (if count + 1 < 100 then count + 1 else 0)
       \<and> content' \<noteq> [] \<and> last content' = CHR 0x0A)"
proof -
  define ls where "ls = nonempty_lines content @ [ct_json_line task]"
  let ?m = "nat (ct_max_lines task)"
  have app: "nonempty_lines (content @ ct_json_line task @ [CHR 0x0A]) = ls"
    unfolding ls_def using nonempty_lines_append [OF assms(1)] assms(2,3) by blast
  have ok: "lines_ok (drop n ls)" for n
    using nonempty_lines_ok [of "content @ ct_json_line task @ [CHR 0x0A]"] set_drop_subset [of n ls]
    unfolding app by (auto simp: lines_ok_def list_all_iff)
  have ends: "unlines ls \<noteq> [] \<and> last (unlines ls) = CHR 0x0A" if "ls \<noteq> []" for ls :: "string list"
    using that by (cases ls rule: rev_cases) (simp_all add: unlines_def)
  have ne: "drop (length ls - ?m) ls \<noteq> []" using assms(4) by (simp add: ls_def)
  show ?thesis using assms app nonempty_lines_unlines [OF ok] ends [OF ne]
    by (simp add: Persist_def Let_def kTruncateInterval_def ls_def [symmetric])
qed

definition all_ok :: persist_io where
  "all_ok = \<lparr>pi_open = True, pi_create_dirs = True, pi_reopen = True, pi_read = True,
     pi_open_temp = True, pi_close_temp = True, pi_rename = True\<rparr>"

theorem Persist_keeps_recent_witness:
  "nonempty_lines (snd (Persist all_ok \<lparr>ct_json_line = ''c'', ct_max_lines = 2\<rparr> (99, unlines [''a'', ''b''])))
     = [''b'', ''c'']"
  using Persist_keeps_recent [of "unlines [''a'', ''b'']" "\<lparr>ct_json_line = ''c'', ct_max_lines = 2\<rparr>" all_ok 99]
    nonempty_lines_unlines [of "[''a'', ''b'']"]
  by (simp add: all_ok_def unlines_def lines_ok_def Let_def split: prod.splits)

section \<open>The palette registry\<close>

lemma registerCommand_find:
  "find (\<lambda>c. pc_id c = i) (registerCommand cs c) =
     (if i = pc_id c then Some c else find (\<lambda>c. pc_id c = i) cs)"
  by (induction cs) auto

lemma registerCommand_ids:
  "map pc_id (registerCommand cs c) =
     (if pc_id c \<in> set (map pc_id cs) then map pc_id cs else map pc_id cs @ [pc_id c])"
  by (induction cs) auto

text \<open>
  Registering palette commands in any order keeps one command per id, the latest one, in the
  position of the first registration.
\<close>

theorem registerCommand_unique:
  "distinct (map pc_id (foldl registerCommand [] cs))
   \<and> find (\<lambda>c. pc_id c = i) (foldl registerCommand [] cs) = find (\<lambda>c. pc_id c = i) (rev cs)
   \<and> map pc_id (foldl registerCommand [] cs) = keep_first (\<lambda>x. x) [] (map pc_id cs)"
proof (induction cs rule: rev_induct)
  case (snoc c cs)
  have kf: "keep_first (\<lambda>x. x) seen (xs @ [x]) =
      (if x \<in> set seen \<union> set (keep_first (\<lambda>x. x) seen xs) then keep_first (\<lambda>x. x) seen xs
       else keep_first (\<lambda>x. x) seen xs @ [x])" for seen xs and x :: string
    by (induction xs arbitrary: seen) auto
  show ?case using snoc by (auto simp: registerCommand_find registerCommand_ids kf simp del: set_map)
qed simp

end
