(* ===== verification/Provider_Models.thy ===== *)
theory Provider_Models
  imports Config_Store
begin

text \<open>
  The cache of model names per provider (\<open>common/llm/provider_model_cache.cpp\<close>), from which the command
  palette offers models. The cache file is a text or missing; the reader and the writer of JSON text, the
  outcome of writing the file and the clock are the parameter \<open>model_io\<close>. A \<open>std::set\<close> of strings is an
  ascending list of them.
\<close>

record model_io =
  mi_read :: "string \<Rightarrow> json option"
  mi_emit :: "json \<Rightarrow> string option"
  mi_write :: "string option"
  mi_time :: fp

record ModelEntry =
  me_provider_id :: string
  me_model :: string
  me_full_id :: string
  me_active_for_command :: bool

definition ReadCacheFile :: "model_io \<Rightarrow> string option \<Rightarrow> bool \<times> json" where
  "ReadCacheFile io file =
     (case file of
        None \<Rightarrow> (False, JObj [])
      | Some content \<Rightarrow>
          (case mi_read io content of
             None \<Rightarrow> (False, JObj [])
           | Some j \<Rightarrow> if is_object j then (True, j) else (False, JObj [])))"

definition WriteCacheFile :: "model_io \<Rightarrow> json \<Rightarrow> string option \<Rightarrow> string option \<times> string option" where
  "WriteCacheFile io data file =
     (case mi_emit io data of
        None \<Rightarrow> (Some ''failed to serialize provider model cache'', file)
      | Some content \<Rightarrow>
          (case mi_write io of Some e \<Rightarrow> (Some e, file) | None \<Rightarrow> (None, Some content)))"

text \<open>\<open>members\<close> is \<open>get_object()\<close>, and \<open>put_member\<close> the assignment through \<open>operator[]\<close> on an object.\<close>

fun members :: "json \<Rightarrow> (string \<times> json) list" where
  "members (JObj m) = m"
| "members _ = []"

definition put_member :: "string \<Rightarrow> json \<Rightarrow> json \<Rightarrow> json" where
  "put_member k v j = JObj (smap_put k v (members j))"

text \<open>Every operation returns its error, if it has one, and the cache file.\<close>

definition SaveProviderModels ::
    "model_io \<Rightarrow> string \<Rightarrow> string list \<Rightarrow> string option \<Rightarrow> string option \<times> string option" where
  "SaveProviderModels io provider_id models file =
     (if provider_id = [] then (Some ''Provider ID cannot be empty'', file)
      else
        (let cache = snd (ReadCacheFile io file);
             providers = (case json_Find cache ''providers'' of
                            Some p \<Rightarrow> if is_object p then p else JObj []
                          | None \<Rightarrow> JObj []);
             entry = JObj [(''models'', FromStrings models), (''updated_at'', JNum (mi_time io))]
         in WriteCacheFile io (put_member ''providers'' (put_member provider_id entry providers) cache) file))"

definition RemoveProviderModels ::
    "model_io \<Rightarrow> string \<Rightarrow> string option \<Rightarrow> string option \<times> string option" where
  "RemoveProviderModels io provider_id file =
     (if provider_id = [] then (None, file)
      else case ReadCacheFile io file of
        (False, _) \<Rightarrow> (None, file)
      | (True, cache) \<Rightarrow>
          (case json_Find cache ''providers'' of
             Some (JObj m) \<Rightarrow>
               if map_of m provider_id \<noteq> None then
                 WriteCacheFile io (put_member ''providers'' (JObj (smap_erase provider_id m)) cache) file
               else (None, file)
           | _ \<Rightarrow> (None, file)))"

text \<open>\<open>active_provider_ids\<close> of \<open>LoadActiveModels\<close>.\<close>

definition id_set :: "string list \<Rightarrow> string list" where
  "id_set ids = map fst (foldl (\<lambda>m i. smap_put i () m) [] ids)"

definition active_provider_ids :: "CoreConfig \<Rightarrow> string list" where
  "active_provider_ids c = id_set (filter (\<lambda>i. i \<noteq> []) (map lp_id (cc_llm_providers c)))"

text \<open>The cached providers without the orphaned ones, and the file when some were dropped.\<close>

definition purge_orphans ::
    "model_io \<Rightarrow> string list \<Rightarrow> string option \<Rightarrow> (string \<times> json) list option \<times> string option" where
  "purge_orphans io ids file =
     (case ReadCacheFile io file of
        (False, _) \<Rightarrow> (None, file)
      | (True, cache) \<Rightarrow>
          (case json_Find cache ''providers'' of
             Some (JObj m) \<Rightarrow>
               (let m' = filter (\<lambda>(k, _). k \<in> set ids) m in
                (Some m', if length m' = length m then file
                          else snd (WriteCacheFile io (put_member ''providers'' (JObj m') cache) file)))
           | _ \<Rightarrow> (None, file)))"

definition active_command :: "CoreConfig \<Rightarrow> string \<times> string" where
  "active_command c =
     (case find (\<lambda>s. sc_id s = kCommandSceneId) (cc_definitions c) of
        Some s \<Rightarrow> (sc_provider_id s, sc_model s)
      | None \<Rightarrow> ([], []))"

definition add_entry :: "string \<times> string \<Rightarrow> ModelEntry list \<Rightarrow> string \<times> string \<Rightarrow> ModelEntry list" where
  "add_entry active results p =
     (case p of (pid, mdl) \<Rightarrow>
        if pid = [] \<or> mdl = [] then results
        else if pid @ ''/'' @ mdl \<in> set (map me_full_id results) then results
        else results @ [\<lparr>me_provider_id = pid, me_model = mdl, me_full_id = pid @ ''/'' @ mdl,
                         me_active_for_command = ((pid, mdl) = active)\<rparr>])"

definition cached_pairs :: "string list \<Rightarrow> (string \<times> json) list option \<Rightarrow> (string \<times> string) list" where
  "cached_pairs ids cached =
     (case cached of
        None \<Rightarrow> []
      | Some m \<Rightarrow>
          concat (map (\<lambda>pid. case map_of m pid of
                               None \<Rightarrow> []
                             | Some entry \<Rightarrow> map (Pair pid) (Strings entry ''models'')) ids))"

definition scene_pairs :: "string list \<Rightarrow> SceneDefinition list \<Rightarrow> (string \<times> string) list" where
  "scene_pairs ids ss =
     map (\<lambda>s. (sc_provider_id s, sc_model s))
       (filter (\<lambda>s. sc_provider_id s \<noteq> [] \<and> sc_model s \<noteq> [] \<and> sc_provider_id s \<in> set ids) ss)"

definition LoadActiveModels ::
    "model_io \<Rightarrow> CoreConfig \<Rightarrow> string option \<Rightarrow> ModelEntry list \<times> string option" where
  "LoadActiveModels io c file =
     (let ids = active_provider_ids c in
      case purge_orphans io ids file of
        (cached, file') \<Rightarrow>
          (foldl (add_entry (active_command c)) []
             (cached_pairs ids cached @ scene_pairs ids (cc_definitions c)), file'))"

fun bind_command_scene ::
    "string \<Rightarrow> string \<Rightarrow> SceneDefinition list \<Rightarrow> SceneDefinition list option" where
  "bind_command_scene p m [] = None"
| "bind_command_scene p m (s # ss) =
     (if sc_id s = kCommandSceneId then Some (s\<lparr>sc_provider_id := p, sc_model := m\<rparr> # ss)
      else map_option (Cons s) (bind_command_scene p m ss))"

text \<open>\<open>save\<close> is the outcome of \<open>SaveCoreConfig\<close> on the configuration it is given.\<close>

definition SetActiveCommandModel ::
    "(CoreConfig \<Rightarrow> bool) \<Rightarrow> CoreConfig \<Rightarrow> string \<Rightarrow> string \<Rightarrow> string option \<times> CoreConfig" where
  "SetActiveCommandModel save c provider_id model =
     (let defs = (case bind_command_scene provider_id model (cc_definitions c) of
                    Some ss \<Rightarrow> ss
                  | None \<Rightarrow> cc_definitions c @
                      [default_scene\<lparr>sc_id := kCommandSceneId, sc_label := kCommandSceneLabelKey,
                         sc_provider_id := provider_id, sc_model := model, sc_builtin := True\<rparr>]);
          c' = NormalizeCoreConfig (c\<lparr>cc_definitions := defs\<rparr>)
      in (if save c' then None else Some ''Failed to save core config'', c'))"

section \<open>What the palette is offered\<close>

definition pair_key :: "string \<times> string \<Rightarrow> string" where
  "pair_key p = fst p @ ''/'' @ snd p"

definition pair_ok :: "string \<times> string \<Rightarrow> bool" where
  "pair_ok p \<longleftrightarrow> fst p \<noteq> [] \<and> snd p \<noteq> []"

definition entry_of :: "string \<times> string \<Rightarrow> string \<times> string \<Rightarrow> ModelEntry" where
  "entry_of active p = \<lparr>me_provider_id = fst p, me_model = snd p, me_full_id = pair_key p,
     me_active_for_command = (p = active)\<rparr>"

lemma keep_first_seen: "set seen = set seen' \<Longrightarrow> keep_first key seen xs = keep_first key seen' xs"
proof (induction xs arbitrary: seen seen')
  case (Cons x xs)
  have "keep_first key (key x # seen) xs = keep_first key (key x # seen') xs"
    by (rule Cons.IH) (simp add: Cons.prems)
  then show ?case using Cons.IH [OF Cons.prems] Cons.prems by simp
qed simp

lemma add_entry_fold:
  "foldl (add_entry active) rs ps
     = rs @ map (entry_of active) (keep_first pair_key (map me_full_id rs) (filter pair_ok ps))"
proof (induction ps arbitrary: rs)
  case (Cons p ps)
  have step: "add_entry active rs p =
      (if \<not> pair_ok p \<or> pair_key p \<in> set (map me_full_id rs) then rs else rs @ [entry_of active p])"
    by (cases p) (simp add: add_entry_def pair_ok_def pair_key_def entry_of_def)
  have "keep_first pair_key (map me_full_id (rs @ [entry_of active p])) (filter pair_ok ps)
      = keep_first pair_key (pair_key p # map me_full_id rs) (filter pair_ok ps)"
    by (rule keep_first_seen) (simp add: entry_of_def)
  then show ?case by (simp add: Cons.IH step)
qed simp

lemma id_set_elements: "set (id_set ids) = set ids"
proof -
  have "set (map fst (foldl (\<lambda>m i. smap_put i () m) m ids)) = set (map fst m) \<union> set ids" for m
    by (induction ids arbitrary: m) (simp_all add: smap_put_keys del: set_map)
  from this [of "[]"] show ?thesis by (simp add: id_set_def)
qed

lemma active_ids: "set (active_provider_ids c) = lp_id ` set (cc_llm_providers c) - {[]}"
  by (auto simp: active_provider_ids_def id_set_elements)

lemma LoadActiveModels_entries:
  "fst (LoadActiveModels io c file) =
     map (entry_of (active_command c)) (keep_first pair_key [] (filter pair_ok
       (cached_pairs (active_provider_ids c) (fst (purge_orphans io (active_provider_ids c) file))
        @ scene_pairs (active_provider_ids c) (cc_definitions c))))"
  by (simp add: LoadActiveModels_def add_entry_fold Let_def del: foldl_append filter_append split: prod.split)

lemma Strings_element: "Strings_value (FromStrings ss) = ss"
  by (induction ss) (simp_all add: Strings_value_def FromStrings_def)

definition emits_back :: "model_io \<Rightarrow> bool" where
  "emits_back io \<longleftrightarrow> (\<forall>j t. mi_emit io j = Some t \<longrightarrow> mi_read io t = Some j)"

lemma map_of_filter_keys: "k \<in> S \<Longrightarrow> map_of (filter (\<lambda>(k, _). k \<in> S) m) k = map_of m k"
  by (induction m) auto

lemma saved_entry:
  assumes law: "emits_back io" and save: "SaveProviderModels io p ms file = (None, file')"
    and p: "p \<in> set ids"
  shows "\<exists>m. fst (purge_orphans io ids file') = Some m
    \<and> map_of m p = Some (JObj [(''models'', FromStrings ms), (''updated_at'', JNum (mi_time io))])"
proof -
  obtain j pr where j: "j = put_member ''providers'' (put_member p
      (JObj [(''models'', FromStrings ms), (''updated_at'', JNum (mi_time io))]) pr) (snd (ReadCacheFile io file))"
    and w: "WriteCacheFile io j file = (None, file')"
    using save by (simp add: SaveProviderModels_def Let_def split: if_splits)
  obtain t where t: "mi_emit io j = Some t" "file' = Some t"
    using w by (auto simp: WriteCacheFile_def split: option.splits)
  have "ReadCacheFile io file' = (True, j)"
    using law t by (simp add: ReadCacheFile_def emits_back_def j put_member_def)
  moreover have "json_Find j ''providers'' = Some (put_member p
      (JObj [(''models'', FromStrings ms), (''updated_at'', JNum (mi_time io))]) pr)"
    by (simp add: j put_member_def)
  ultimately show ?thesis using p
    by (simp add: purge_orphans_def put_member_def Let_def map_of_filter_keys)
qed

lemma pairs_active:
  "q \<in> set (cached_pairs ids cached @ scene_pairs ids ss) \<Longrightarrow> fst q \<in> set ids"
  by (auto simp: cached_pairs_def scene_pairs_def split: option.splits)

text \<open>
  After the models of a configured provider were saved, every one of them that has a name is offered;
  no model is offered twice; every model that is offered belongs to a configured provider; and the mark of
  the active command model is on exactly the provider and model of the command scene.
\<close>

theorem saved_models_offered:
  assumes "emits_back io" and "SaveProviderModels io p ms file = (None, file')"
    and "p \<in> lp_id ` set (cc_llm_providers c)"
  shows "(\<forall>m\<in>set ms. m \<noteq> [] \<longrightarrow> p @ ''/'' @ m \<in> me_full_id ` set (fst (LoadActiveModels io c file')))
    \<and> distinct (map me_full_id (fst (LoadActiveModels io c file')))
    \<and> (\<forall>e\<in>set (fst (LoadActiveModels io c file')).
          me_provider_id e \<in> lp_id ` set (cc_llm_providers c)
          \<and> me_full_id e = me_provider_id e @ ''/'' @ me_model e
          \<and> me_active_for_command e = ((me_provider_id e, me_model e) = active_command c))"
proof -
  let ?ids = "active_provider_ids c"
  define cached where "cached = fst (purge_orphans io ?ids file')"
  define ps where "ps = cached_pairs ?ids cached @ scene_pairs ?ids (cc_definitions c)"
  have es: "fst (LoadActiveModels io c file')
      = map (entry_of (active_command c)) (keep_first pair_key [] (filter pair_ok ps))"
    by (simp only: LoadActiveModels_entries ps_def cached_def)
  have p: "p \<noteq> []" "p \<in> set ?ids"
    using assms(2,3) by (auto simp: SaveProviderModels_def active_ids)
  have "me_full_id ` set (fst (LoadActiveModels io c file')) = pair_key ` set (filter pair_ok ps)"
    using keep_first_key_set [of pair_key "[]" "filter pair_ok ps"]
    by (simp add: es image_image entry_of_def)
  moreover have "pair_key (p, m) \<in> pair_key ` set (filter pair_ok ps)" if "m \<in> set ms" "m \<noteq> []" for m
  proof (rule imageI)
    obtain cm where "cached = Some cm"
      "map_of cm p = Some (JObj [(''models'', FromStrings ms), (''updated_at'', JNum (mi_time io))])"
      using saved_entry [OF assms(1,2) p(2)] by (auto simp: cached_def)
    then have "(p, m) \<in> set (cached_pairs ?ids cached)"
      using that p by (auto simp: cached_pairs_def Strings_def Strings_element intro!: bexI [of _ p])
    then show "(p, m) \<in> set (filter pair_ok ps)" using that p by (simp add: ps_def pair_ok_def)
  qed
  moreover have "distinct (map me_full_id (fst (LoadActiveModels io c file')))"
    using keep_first_distinct [of pair_key "[]" "filter pair_ok ps"]
    by (simp add: es entry_of_def comp_def)
  moreover have "fst q \<in> lp_id ` set (cc_llm_providers c)" if "q \<in> set ps" for q
    using pairs_active [OF that [unfolded ps_def]] active_ids [of c] by simp
  ultimately show ?thesis
    by (auto simp: es entry_of_def pair_key_def dest!: keep_first_memD)
qed

text \<open>A file holds the models of one provider under the form the writer gives them.\<close>

definition example_io :: "json \<Rightarrow> model_io" where
  "example_io j = \<lparr>mi_read = (\<lambda>t. if t = ''cache'' then Some j else None),
     mi_emit = (\<lambda>j'. if j' = j then Some ''cache'' else None), mi_write = None, mi_time = Finite 0\<rparr>"

definition example_cache :: json where
  "example_cache = JObj [(''providers'', JObj [(''openai'',
     JObj [(''models'', JArr [JStr ''small'', JStr ''large'']), (''updated_at'', JNum (Finite 0))])])]"

definition example_llm :: CoreConfig where
  "example_llm = default_config\<lparr>cc_llm_providers := [\<lparr>lp_id = ''openai'', lp_base_url = [], lp_api_key = [], lp_json_object = False,
       lp_extra_body = JNull\<rparr>]\<rparr>"

theorem saved_models_offered_witness:
  "map me_full_id (fst (LoadActiveModels (example_io example_cache) example_llm (Some ''cache'')))
     = [''openai/small'', ''openai/large'']
   \<and> distinct (map me_full_id (fst (LoadActiveModels (example_io example_cache) example_llm (Some ''cache''))))"
proof -
  have "emits_back (example_io example_cache)"
    by (simp add: emits_back_def example_io_def)
  moreover have "SaveProviderModels (example_io example_cache) ''openai'' [''small'', ''large''] None
      = (None, Some ''cache'')"
    by (simp add: SaveProviderModels_def ReadCacheFile_def WriteCacheFile_def example_io_def
        example_cache_def put_member_def FromStrings_def)
  moreover have "''openai'' \<in> lp_id ` set (cc_llm_providers example_llm)"
    by (simp add: example_llm_def)
  ultimately have "distinct (map me_full_id (fst (LoadActiveModels (example_io example_cache) example_llm (Some ''cache''))))"
    using saved_models_offered by blast
  then show ?thesis
    by (simp add: LoadActiveModels_def purge_orphans_def ReadCacheFile_def example_io_def example_cache_def
        example_llm_def active_provider_ids_def id_set_def cached_pairs_def scene_pairs_def default_config_def
        Strings_def Strings_value_def add_entry_def active_command_def)
qed

end
