(* ===== verification/Addon_Palette.thy ===== *)
theory Addon_Palette
  imports Addon Provider_Models Process_Utils
begin

text \<open>
  The command palette of the addon (\<open>addon/menu/vinput_menu.cpp\<close>, \<open>palette_command.h\<close>): the query the user
  types, the items the four commands contribute, and the filter that decides which items are shown. The
  callbacks of a command are named by \<open>palette_handler\<close>; \<open>command_items\<close> is their \<open>getItems\<close>, and their
  \<open>onSelect\<close> belongs to the engine. What the items read besides the configuration is the parameter
  \<open>palette_env\<close>: the translations, the formatter, the cached titles, the models on disk, the adapters that
  run. The C locale decides what a space and a lower case letter is.
\<close>

section \<open>Queries\<close>

definition NormalizeSearchText :: "string \<Rightarrow> string" where
  "NormalizeSearchText t = map to_lower t"

definition SplitSearchTerms :: "string \<Rightarrow> string list" where
  "SplitSearchTerms t = tokens (NormalizeSearchText t)"

definition MatchesAllTerms :: "string \<Rightarrow> string \<Rightarrow> bool" where
  "MatchesAllTerms haystack query \<longleftrightarrow>
     query = [] \<or> list_all (\<lambda>term. find_sub term (NormalizeSearchText haystack) \<noteq> None) (SplitSearchTerms query)"

text \<open>A continuation byte of UTF-8 has \<open>10\<close> as its two highest bits.\<close>

definition is_continuation :: "char \<Rightarrow> bool" where
  "is_continuation c \<longleftrightarrow> (of_char c :: nat) div 64 = 2"

definition PopLastUtf8Char :: "string \<Rightarrow> string" where
  "PopLastUtf8Char t = rev (drop 1 (dropWhile is_continuation (rev t)))"

datatype palette_handler = ModelHandlers | AsrHandlers | SceneHandlers | ProcHandlers

type_synonym palette_command = "palette_handler PaletteCommand"

record ParsedPaletteQuery =
  pq_command :: "palette_command option"
  pq_terms :: string
  pq_is_command_mode :: bool

definition ParsePaletteQuery :: "string \<Rightarrow> palette_command list \<Rightarrow> ParsedPaletteQuery" where
  "ParsePaletteQuery raw_query registry =
     (let q = dropWhile is_space raw_query in
      if q = [] then \<lparr>pq_command = None, pq_terms = [], pq_is_command_mode = False\<rparr>
      else
        (let slash = (hd q = CHR ''/'');
             body = (if slash then tl q else q);
             token = (if slash then takeWhile (\<lambda>c. \<not> is_space c \<and> c \<noteq> CHR ''/'') body else []);
             rest = drop (length token) body
         in \<lparr>pq_command = (if token \<noteq> [] then findByNameOrAlias registry token else None),
             pq_terms = dropWhile (\<lambda>c. is_space c \<or> c = CHR ''/'') rest,
             pq_is_command_mode = slash\<rparr>))"

section \<open>Items\<close>

datatype ModelState = Installed | Active | Broken

record palette_env =
  pe_tr :: "string \<Rightarrow> string"
  pe_sprintf :: "string \<Rightarrow> string list \<Rightarrow> string"
  pe_i18n :: "string \<Rightarrow> string option"
  pe_local_asr :: bool
  pe_local_models :: "string \<Rightarrow> (string \<times> ModelState) list"
  pe_running :: "string \<Rightarrow> bool"
  pe_model_io :: model_io

definition PaletteMenuTitle :: "palette_env \<Rightarrow> ParsedPaletteQuery \<Rightarrow> string" where
  "PaletteMenuTitle pe q =
     (case pq_command q of
        Some c \<Rightarrow> if pq_terms q \<noteq> [] then pc_title c @ '': '' @ pq_terms q else pc_title c
      | None \<Rightarrow>
          if pq_is_command_mode q then pe_tr pe ''Command Palette''
          else if pq_terms q \<noteq> [] then pe_sprintf pe (pe_tr pe ''Search: %s'') [pq_terms q]
          else pe_tr pe ''Command Palette'')"

definition LookupI18n :: "(string \<Rightarrow> string option) \<Rightarrow> string \<Rightarrow> string \<Rightarrow> string" where
  "LookupI18n m key fallback =
     (case m key of None \<Rightarrow> fallback | Some v \<Rightarrow> if v = [] then fallback else v)"

record PaletteItem =
  pi_category :: PaletteCategory
  pi_id :: string
  pi_text :: string
  pi_comment :: string
  pi_search_text :: string
  pi_active :: bool
  pi_provider_id :: string
  pi_model_id :: string
  pi_scene_id :: string
  pi_adapter_id :: string
  pi_adapter_running :: bool
  pi_is_command_entry :: bool
  pi_command_token :: string

definition blank_item :: PaletteItem where
  "blank_item = \<lparr>pi_category = CatScene, pi_id = [], pi_text = [], pi_comment = [], pi_search_text = [],
     pi_active = False, pi_provider_id = [], pi_model_id = [], pi_scene_id = [], pi_adapter_id = [],
     pi_adapter_running = False, pi_is_command_entry = False, pi_command_token = []\<rparr>"

definition model_item :: "palette_env \<Rightarrow> ModelEntry \<Rightarrow> PaletteItem" where
  "model_item pe m =
     blank_item\<lparr>pi_category := CatCommandModel, pi_id := me_full_id m,
       pi_text := me_provider_id m @ '' / '' @ me_model m,
       pi_comment := pe_tr pe (if me_active_for_command m then ''Cmd-Model *'' else ''Cmd-Model''),
       pi_search_text := me_full_id m @ '' '' @ me_provider_id m @ '' '' @ me_model m @ '' model cmd'',
       pi_active := me_active_for_command m, pi_provider_id := me_provider_id m, pi_model_id := me_model m\<rparr>"

definition local_model_item :: "palette_env \<Rightarrow> bool \<Rightarrow> string \<times> ModelState \<Rightarrow> PaletteItem" where
  "local_model_item pe is_local_active m =
     (case m of (mid, state) \<Rightarrow>
        (let is_active = (is_local_active \<and> state = Active);
             found = LookupI18n (pe_i18n pe) (mid @ ''.title'') mid;
             display = (if found = [] then mid else found)
         in blank_item\<lparr>pi_category := CatAsr, pi_id := mid, pi_text := display,
              pi_comment := pe_tr pe (if is_active then ''ASR *'' else ''ASR''),
              pi_search_text := mid @ '' '' @ display @ '' asr'', pi_active := is_active,
              pi_provider_id := ''sherpa-onnx'', pi_model_id := mid\<rparr>))"

definition command_asr_item :: "palette_env \<Rightarrow> CoreConfig \<Rightarrow> AsrProvider \<Rightarrow> PaletteItem" where
  "command_asr_item pe c prov =
     (let pid = AsrProviderId prov; is_active = (pid = cc_activeProvider c);
          title = LookupI18n (pe_i18n pe) (pid @ ''.title'') pid
      in blank_item\<lparr>pi_category := CatAsr, pi_id := pid, pi_text := title,
           pi_comment := pe_tr pe (if is_active then ''ASR *'' else ''ASR''),
           pi_search_text := pid @ '' '' @ title @ '' asr'', pi_active := is_active, pi_provider_id := pid\<rparr>)"

definition asr_items :: "palette_env \<Rightarrow> CoreConfig \<Rightarrow> PaletteItem list" where
  "asr_items pe c =
     (if pe_local_asr pe then
        map (local_model_item pe (cc_activeProvider c = ''sherpa-onnx'' \<or> cc_activeProvider c = []))
          (filter (\<lambda>m. snd m \<noteq> Broken) (pe_local_models pe (PreferredLocalModel c)))
      else [])
     @ map (command_asr_item pe c)
         (filter (\<lambda>p. \<not> is_local p \<and> AsrProviderId p \<noteq> []) (cc_asr_providers c))"

definition scene_item :: "palette_env \<Rightarrow> CoreConfig \<Rightarrow> SceneDefinition \<Rightarrow> PaletteItem" where
  "scene_item pe c s =
     (let is_active = (sc_id s = cc_activeScene c); label = DisplayLabel (pe_tr pe) s
      in blank_item\<lparr>pi_category := CatScene, pi_id := sc_id s, pi_text := label,
           pi_comment := pe_tr pe (if is_active then ''Scene *'' else ''Scene''),
           pi_search_text := sc_id s @ '' '' @ label @ '' scene'', pi_active := is_active,
           pi_scene_id := sc_id s\<rparr>)"

text \<open>The message ids of the process comments hold a middle dot, the two bytes \<open>C2 B7\<close>.\<close>

definition autostart_comment :: "string \<Rightarrow> string" where
  "autostart_comment state = ''Proc ('' @ state @ '' '' @ [CHR 0xC2, CHR 0xB7] @ '' autostart)''"

definition proc_item :: "palette_env \<Rightarrow> LlmAdapter \<Rightarrow> PaletteItem" where
  "proc_item pe a =
     (let running = pe_running pe (la_id a);
          title = LookupI18n (pe_i18n pe) (la_id a @ ''.title'') (la_id a)
      in blank_item\<lparr>pi_category := CatAdapter, pi_id := la_id a, pi_text := title,
           pi_comment := pe_tr pe
             (if running then (if la_autoStart a then autostart_comment ''running'' else ''Proc (running)'')
              else (if la_autoStart a then autostart_comment ''stopped'' else ''Proc (stopped)'')),
           pi_search_text := la_id a @ '' '' @ title @ (if running then '' running'' else '' stopped'')
             @ '' adapter proc ps'',
           pi_adapter_id := la_id a, pi_adapter_running := running\<rparr>)"

text \<open>\<open>getItems\<close> of each command, with the model cache file that loading the models may rewrite.\<close>

fun command_items ::
    "palette_env \<Rightarrow> CoreConfig \<Rightarrow> palette_handler \<Rightarrow> string option \<Rightarrow> PaletteItem list \<times> string option" where
  "command_items pe c ModelHandlers file =
     (case LoadActiveModels (pe_model_io pe) c file of (ms, file') \<Rightarrow> (map (model_item pe) ms, file'))"
| "command_items pe c AsrHandlers file = (asr_items pe c, file)"
| "command_items pe c SceneHandlers file = (map (scene_item pe c) (cc_definitions c), file)"
| "command_items pe c ProcHandlers file = (map (proc_item pe) (cc_llm_adapters c), file)"

definition initializePaletteRegistry :: "(string \<Rightarrow> string) \<Rightarrow> palette_command list" where
  "initializePaletteRegistry tr =
     foldl registerCommand []
       [\<lparr>pc_id = ''model'', pc_name = ''model'', pc_alias = ''m'', pc_title = tr ''Cmd-Model'',
         pc_comment = tr ''Cmd-Model'', pc_description = tr ''Switch command model'',
         pc_category = CatCommandModel, pc_handlers = ModelHandlers\<rparr>,
        \<lparr>pc_id = ''asr'', pc_name = ''asr'', pc_alias = ''a'', pc_title = tr ''ASR'',
         pc_comment = tr ''ASR'', pc_description = tr ''Switch ASR provider or model'',
         pc_category = CatAsr, pc_handlers = AsrHandlers\<rparr>,
        \<lparr>pc_id = ''scene'', pc_name = ''scene'', pc_alias = ''s'', pc_title = tr ''Scene'',
         pc_comment = tr ''Scene'', pc_description = tr ''Switch dictation scene'',
         pc_category = CatScene, pc_handlers = SceneHandlers\<rparr>,
        \<lparr>pc_id = ''proc'', pc_name = ''proc'', pc_alias = ''p'', pc_title = tr ''Proc'',
         pc_comment = tr ''Proc'', pc_description = tr ''Manage adapter processes'',
         pc_category = CatAdapter, pc_handlers = ProcHandlers\<rparr>]"

definition command_entry :: "palette_command \<Rightarrow> PaletteItem" where
  "command_entry cmd =
     blank_item\<lparr>pi_category := pc_category cmd, pi_id := ''cmd:'' @ pc_id cmd,
       pi_text := ''/'' @ pc_name cmd @ (if pc_alias cmd \<noteq> [] then '' (/'' @ pc_alias cmd @ '')'' else []),
       pi_comment := pc_description cmd,
       pi_search_text := pc_name cmd @ '' '' @ pc_alias cmd @ '' '' @ pc_description cmd,
       pi_is_command_entry := True,
       pi_command_token := (if pc_alias cmd = [] then pc_name cmd else pc_alias cmd)\<rparr>"

fun collect_items ::
    "palette_env \<Rightarrow> CoreConfig \<Rightarrow> palette_command list \<Rightarrow> string option \<Rightarrow> PaletteItem list \<times> string option" where
  "collect_items pe c [] file = ([], file)"
| "collect_items pe c (cmd # cmds) file =
     (case command_items pe c (pc_handlers cmd) file of
        (items, file1) \<Rightarrow>
          (case collect_items pe c cmds file1 of (others, file2) \<Rightarrow> (items @ others, file2)))"

definition palette_items_of ::
    "palette_env \<Rightarrow> CoreConfig \<Rightarrow> palette_command list \<Rightarrow> string option \<Rightarrow> PaletteItem list \<times> string option" where
  "palette_items_of pe c registry file =
     (case collect_items pe c registry file of
        (items, file') \<Rightarrow> (map command_entry registry @ items, file'))"

text \<open>The test that \<open>rebuildPaletteMenu\<close> makes on each item.\<close>

definition item_shown :: "string \<Rightarrow> ParsedPaletteQuery \<Rightarrow> PaletteItem \<Rightarrow> bool" where
  "item_shown query parsed item =
     (if pi_is_command_entry item then
        (if query = [] then True
         else pq_is_command_mode parsed \<and> pq_command parsed = None
              \<and> (pq_terms parsed = [] \<or> MatchesAllTerms (pi_search_text item) (pq_terms parsed)))
      else if query = [] then False
      else case pq_command parsed of
        Some cmd \<Rightarrow>
          pi_category item = pc_category cmd
          \<and> (pq_terms parsed = [] \<or> MatchesAllTerms (pi_search_text item) (pq_terms parsed))
      | None \<Rightarrow> \<not> pq_is_command_mode parsed \<and> MatchesAllTerms (pi_search_text item) (pq_terms parsed))"

definition filtered_indices :: "string \<Rightarrow> palette_command list \<Rightarrow> PaletteItem list \<Rightarrow> nat list" where
  "filtered_indices query registry items =
     filter (\<lambda>i. item_shown query (ParsePaletteQuery query registry) (items ! i)) [0..<length items]"

section \<open>Properties of the palette\<close>

text \<open>What \<open>append\<close> adds to the query for one character, \<open>PopLastUtf8Char\<close> takes away.\<close>

lemma PopLastUtf8Char_append:
  assumes "\<not> is_continuation c" and "list_all is_continuation cs"
  shows "PopLastUtf8Char (q @ c # cs) = q"
proof -
  have "dropWhile is_continuation (rev cs @ c # rev q) = c # rev q"
    using assms by (simp add: dropWhile_append3 list_all_iff)
  then show ?thesis by (simp add: PopLastUtf8Char_def)
qed

lemma filtered_items: "map ((!) items) (filtered_indices q reg items) = filter (item_shown q (ParsePaletteQuery q reg)) items"
proof -
  have "map ((!) items) (filter (P \<circ> (!) items) [0..<length items]) = filter P items" for P
    by (metis filter_map map_nth)
  then show ?thesis by (simp add: filtered_indices_def comp_def)
qed

text \<open>The query that \<open>selectPaletteItem\<close> types for a command entry.\<close>

definition entry_query :: "PaletteItem \<Rightarrow> string" where
  "entry_query item = ''/'' @ pi_command_token item @ '' ''"

lemma registry_simp:
  "initializePaletteRegistry tr =
     [\<lparr>pc_id = ''model'', pc_name = ''model'', pc_alias = ''m'', pc_title = tr ''Cmd-Model'',
       pc_comment = tr ''Cmd-Model'', pc_description = tr ''Switch command model'',
       pc_category = CatCommandModel, pc_handlers = ModelHandlers\<rparr>,
      \<lparr>pc_id = ''asr'', pc_name = ''asr'', pc_alias = ''a'', pc_title = tr ''ASR'',
       pc_comment = tr ''ASR'', pc_description = tr ''Switch ASR provider or model'',
       pc_category = CatAsr, pc_handlers = AsrHandlers\<rparr>,
      \<lparr>pc_id = ''scene'', pc_name = ''scene'', pc_alias = ''s'', pc_title = tr ''Scene'',
       pc_comment = tr ''Scene'', pc_description = tr ''Switch dictation scene'',
       pc_category = CatScene, pc_handlers = SceneHandlers\<rparr>,
      \<lparr>pc_id = ''proc'', pc_name = ''proc'', pc_alias = ''p'', pc_title = tr ''Proc'',
       pc_comment = tr ''Proc'', pc_description = tr ''Manage adapter processes'',
       pc_category = CatAdapter, pc_handlers = ProcHandlers\<rparr>]"
  by (simp add: initializePaletteRegistry_def)

lemma ParsePaletteQuery_token:
  assumes "token \<noteq> []" and "list_all (\<lambda>c. \<not> is_space c \<and> c \<noteq> CHR ''/'') token"
  shows "ParsePaletteQuery (''/'' @ token @ '' '') reg
    = \<lparr>pq_command = findByNameOrAlias reg token, pq_terms = [], pq_is_command_mode = True\<rparr>"
proof -
  have "takeWhile (\<lambda>c. \<not> is_space c \<and> c \<noteq> CHR ''/'') (token @ '' '') = token"
    using assms(2) by (subst takeWhile_append2) (auto simp: list_all_iff is_space_def)
  then show ?thesis using assms(1)
    by (simp add: ParsePaletteQuery_def Let_def is_space_def)
qed

lemma to_lower_alias:
  "to_lower CHR ''m'' = CHR ''m''" "to_lower CHR ''a'' = CHR ''a''"
  "to_lower CHR ''s'' = CHR ''s''" "to_lower CHR ''p'' = CHR ''p''"
  by (simp_all add: to_lower_def)

lemma registry_tokens:
  assumes "cmd \<in> set (initializePaletteRegistry tr)"
  shows "pc_alias cmd \<noteq> [] \<and> list_all (\<lambda>c. \<not> is_space c \<and> c \<noteq> CHR ''/'') (pc_alias cmd)
    \<and> findByNameOrAlias (initializePaletteRegistry tr) (pc_alias cmd) = Some cmd
    \<and> findByCategory (initializePaletteRegistry tr) (pc_category cmd) = Some cmd"
proof -
  have "cmd = initializePaletteRegistry tr ! 0 \<or> cmd = initializePaletteRegistry tr ! 1
      \<or> cmd = initializePaletteRegistry tr ! 2 \<or> cmd = initializePaletteRegistry tr ! 3"
    using assms by (simp add: registry_simp)
  then show ?thesis
    by (elim disjE)
       (simp_all add: registry_simp is_space_def findByNameOrAlias_def findByCategory_def
         EqualsIgnoreCase_def to_lower_alias)
qed

lemma entry_query_parsed:
  assumes "cmd \<in> set (initializePaletteRegistry tr)"
  shows "ParsePaletteQuery (entry_query (command_entry cmd)) (initializePaletteRegistry tr)
    = \<lparr>pq_command = Some cmd, pq_terms = [], pq_is_command_mode = True\<rparr>"
  unfolding entry_query_def
  using registry_tokens [OF assms]
  by (simp add: command_entry_def ParsePaletteQuery_token [simplified])

text \<open>
  Opening the palette shows exactly the command entries; choosing the entry of a command types its
  short name, and then exactly the items of that command's category are shown, each of which is handled by
  that same command when it is chosen.
\<close>

theorem palette_drills_down:
  assumes "cmd \<in> set (initializePaletteRegistry tr)"
  shows "(let reg = initializePaletteRegistry tr; shown = (\<lambda>q. map ((!) items) (filtered_indices q reg items)) in
      shown [] = filter pi_is_command_entry items
      \<and> shown (entry_query (command_entry cmd))
          = filter (\<lambda>i. \<not> pi_is_command_entry i \<and> pi_category i = pc_category cmd) items
      \<and> (\<forall>i\<in>set (shown (entry_query (command_entry cmd))). findByCategory reg (pi_category i) = Some cmd))"
proof -
  have "filter (item_shown [] (ParsePaletteQuery [] (initializePaletteRegistry tr))) items
      = filter pi_is_command_entry items"
    by (rule filter_cong) (simp_all add: item_shown_def)
  moreover have "filter (item_shown (entry_query (command_entry cmd))
        \<lparr>pq_command = Some cmd, pq_terms = [], pq_is_command_mode = True\<rparr>) items
      = filter (\<lambda>i. \<not> pi_is_command_entry i \<and> pi_category i = pc_category cmd) items"
    by (rule filter_cong) (simp_all add: item_shown_def entry_query_def)
  moreover have "findByCategory (initializePaletteRegistry tr) (pc_category cmd) = Some cmd"
    using registry_tokens [OF assms] by simp
  moreover have "pi_category i = pc_category cmd" if "item_shown (entry_query (command_entry cmd))
      \<lparr>pq_command = Some cmd, pq_terms = [], pq_is_command_mode = True\<rparr> i" for i
    using that by (simp add: item_shown_def entry_query_def split: if_splits)
  ultimately show ?thesis by (simp add: filtered_items entry_query_parsed [OF assms] Let_def)
qed

theorem palette_drills_down_witness:
  "(let reg = initializePaletteRegistry id; items = map command_entry reg @ [blank_item] in
     map ((!) items) (filtered_indices ''/s '' reg items) = [blank_item])"
proof -
  let ?cmd = "initializePaletteRegistry id ! 2"
  let ?items = "map command_entry (initializePaletteRegistry id) @ [blank_item]"
  have cmd: "?cmd \<in> set (initializePaletteRegistry id)" by (simp add: registry_simp)
  have "entry_query (command_entry ?cmd) = ''/s ''"
    by (simp add: registry_simp entry_query_def command_entry_def)
  with palette_drills_down [OF cmd, of ?items, unfolded Let_def]
  have "map ((!) ?items) (filtered_indices ''/s '' (initializePaletteRegistry id) ?items)
      = filter (\<lambda>i. \<not> pi_is_command_entry i \<and> pi_category i = pc_category ?cmd) ?items"
    by metis
  also have "\<dots> = [blank_item]" by (simp add: registry_simp command_entry_def blank_item_def)
  finally show ?thesis unfolding Let_def .
qed

end
