(* ===== verification/Addon_Preview.thy ===== *)
theory Addon_Preview
  imports String_Utils
begin

text \<open>
  The shortened transcript that the addon shows while a recording lasts: \<open>LimitPreviewText\<close> and
  \<open>ComposeLivePreedit\<close> of \<open>addon/dbus/vinput_dbus.cpp\<close>. The Unicode library (decoding, display width,
  grapheme boundaries) is the parameter \<open>unicode\<close>; code points are natural numbers. The loop over the
  graphemes would not end if the library reported an empty grapheme, so it runs on fuel; the number of
  code points is enough.
\<close>

record unicode =
  u_decode :: "string \<Rightarrow> nat list"
  u_encode :: "nat list \<Rightarrow> string"
  u_width :: "nat list \<Rightarrow> int"
  u_grapheme_length :: "nat list \<Rightarrow> nat"

record GraphemeInfo =
  gi_start :: nat
  gi_length :: nat
  gi_width :: nat

definition display_width :: "unicode \<Rightarrow> nat list \<Rightarrow> nat" where
  "display_width u cps = nat (max 0 (u_width u cps))"

fun graphemes_loop :: "unicode \<Rightarrow> nat \<Rightarrow> nat list \<Rightarrow> nat \<Rightarrow> GraphemeInfo list option" where
  "graphemes_loop u fuel u32 i =
     (if i \<ge> length u32 then Some []
      else case fuel of
        0 \<Rightarrow> None
      | Suc f \<Rightarrow>
          (let glen = u_grapheme_length u (drop i u32);
               g = \<lparr>gi_start = i, gi_length = glen, gi_width = display_width u (take glen (drop i u32))\<rparr>
           in map_option (Cons g) (graphemes_loop u f u32 (i + glen))))"

text \<open>How many graphemes, from the first one on, fit into \<open>limit\<close>; \<open>cur\<close> is the width used so far.\<close>

fun fit :: "nat \<Rightarrow> nat \<Rightarrow> GraphemeInfo list \<Rightarrow> nat" where
  "fit limit cur [] = 0"
| "fit limit cur (g # gs) = (if cur + gi_width g > limit then 0 else Suc (fit limit (cur + gi_width g) gs))"

definition ellipsis :: string where "ellipsis = ''...''"

definition head_text :: "unicode \<Rightarrow> nat list \<Rightarrow> GraphemeInfo list \<Rightarrow> nat \<Rightarrow> string" where
  "head_text u u32 gs head_count =
     u_encode u (if head_count > 0
       then take (gi_start (gs ! (head_count - 1)) + gi_length (gs ! (head_count - 1))) u32 else [])"

definition tail_text :: "unicode \<Rightarrow> nat list \<Rightarrow> GraphemeInfo list \<Rightarrow> nat \<Rightarrow> string" where
  "tail_text u u32 gs tail_start =
     u_encode u (if tail_start < length gs then drop (gi_start (gs ! tail_start)) u32 else [])"

definition head_width :: "nat \<Rightarrow> nat" where
  "head_width available =
     (let target = max 6 (min 14 (available div 4)) in if target \<ge> available then available div 2 else target)"

definition limit_graphemes :: "unicode \<Rightarrow> nat list \<Rightarrow> GraphemeInfo list \<Rightarrow> nat \<Rightarrow> string" where
  "limit_graphemes u u32 gs max_width =
     (let ellipsis_width = display_width u (u_decode u ellipsis) in
      if max_width \<le> ellipsis_width + 4 then
        (let tail_start = length gs - fit max_width 0 (rev gs)
         in if tail_start \<ge> length gs then [] else tail_text u u32 gs tail_start)
      else
        (let available = max_width - ellipsis_width;
             head_count = fit (head_width available) 0 gs;
             tail_start = length gs - fit (available - head_width available) 0 (rev (drop head_count gs))
         in head_text u u32 gs head_count @ ellipsis @ tail_text u u32 gs tail_start))"

definition LimitPreviewText :: "unicode \<Rightarrow> string \<Rightarrow> int \<Rightarrow> string option" where
  "LimitPreviewText u t max_display_width =
     (if max_display_width \<le> 0 \<or> t = [] then Some t
      else
        (let max_width = nat max_display_width; u32 = u_decode u t in
         if display_width u u32 \<le> max_width then Some t
         else map_option (\<lambda>gs. limit_graphemes u u32 gs max_width) (graphemes_loop u (length u32) u32 0)))"

definition ComposeLivePreedit :: "unicode \<Rightarrow> string \<Rightarrow> string \<Rightarrow> int \<Rightarrow> string option" where
  "ComposeLivePreedit u transcript_text fallback_text max_display_width =
     (if transcript_text = [] then Some fallback_text
      else LimitPreviewText u transcript_text max_display_width)"

section \<open>Graphemes\<close>

declare graphemes_loop.simps [simp del]

text \<open>What the code relies on: a grapheme is not empty and ends with the text at the latest.\<close>

definition graphemes_nonempty :: "unicode \<Rightarrow> bool" where
  "graphemes_nonempty u \<longleftrightarrow> (\<forall>cps. cps \<noteq> [] \<longrightarrow> 0 < u_grapheme_length u cps \<and> u_grapheme_length u cps \<le> length cps)"

text \<open>The graphemes cut the text from position \<open>i\<close> on into adjacent pieces.\<close>

fun cuts :: "nat list \<Rightarrow> nat \<Rightarrow> GraphemeInfo list \<Rightarrow> bool" where
  "cuts u32 i [] \<longleftrightarrow> i = length u32"
| "cuts u32 i (g # gs) \<longleftrightarrow> gi_start g = i \<and> i + gi_length g \<le> length u32 \<and> 0 < gi_length g \<and> cuts u32 (i + gi_length g) gs"

lemma graphemes_loop_cuts:
  assumes "graphemes_nonempty u" and "length u32 - i \<le> fuel" and "i \<le> length u32"
  shows "\<exists>gs. graphemes_loop u fuel u32 i = Some gs \<and> cuts u32 i gs"
  using assms(2,3)
proof (induction fuel arbitrary: i)
  case (Suc fuel)
  show ?case
  proof (cases "i = length u32")
    case False
    then have ne: "drop i u32 \<noteq> []" using Suc.prems by simp
    define n where "n = u_grapheme_length u (drop i u32)"
    have n: "0 < n" "n \<le> length u32 - i"
      using assms(1) ne unfolding graphemes_nonempty_def n_def by (metis, metis length_drop)
    have "length u32 - (i + n) \<le> fuel" "i + n \<le> length u32" using Suc.prems n by linarith+
    then obtain gs where "graphemes_loop u fuel u32 (i + n) = Some gs" "cuts u32 (i + n) gs"
      using Suc.IH by blast
    with n False Suc.prems show ?thesis
      by (subst graphemes_loop.simps) (simp add: Let_def n_def [symmetric])
  qed (simp add: graphemes_loop.simps)
qed (simp add: graphemes_loop.simps)

lemma fit_le: "fit limit cur gs \<le> length gs"
  by (induction limit cur gs rule: fit.induct) simp_all

lemma fit_sum:
  "cur \<le> limit \<Longrightarrow> cur + sum_list (map gi_width (take (fit limit cur gs) gs)) \<le> limit"
  by (induction limit cur gs rule: fit.induct) (simp_all add: add.assoc)

lemma cuts_start:
  "cuts u32 i gs \<Longrightarrow> k < length gs \<Longrightarrow> gi_start (gs ! k) = i + sum_list (map gi_length (take k gs))"
proof (induction u32 i gs arbitrary: k rule: cuts.induct)
  case (2 u32 i g gs)
  then show ?case by (cases k) simp_all
qed simp

text \<open>The code points of a piece of the list of graphemes.\<close>

definition text_of :: "nat list \<Rightarrow> GraphemeInfo list \<Rightarrow> nat list" where
  "text_of u32 gs = concat (map (\<lambda>g. take (gi_length g) (drop (gi_start g) u32)) gs)"

lemma cuts_text_of: "cuts u32 i gs \<Longrightarrow> i \<le> length u32 \<and> text_of u32 gs = drop i u32"
proof (induction u32 i gs rule: cuts.induct)
  case (2 u32 i g gs)
  then have "text_of u32 gs = drop (i + gi_length g) u32" by simp
  then have "text_of u32 (g # gs) = take (gi_length g) (drop i u32) @ drop (gi_length g) (drop i u32)"
    using 2 by (simp add: text_of_def add.commute)
  then show ?case using 2 append_take_drop_id by (metis add_leD1 cuts.simps(2))
qed (simp add: text_of_def)

lemma cuts_drop:
  "cuts u32 i gs \<Longrightarrow> k \<le> length gs \<Longrightarrow> cuts u32 (i + sum_list (map gi_length (take k gs))) (drop k gs)"
proof (induction u32 i gs arbitrary: k rule: cuts.induct)
  case (2 u32 i g gs)
  then show ?case by (cases k) (simp_all add: add.assoc)
qed simp

lemma tail_text_of:
  assumes "cuts u32 0 gs" and "k \<le> length gs"
  shows "tail_text u u32 gs k = u_encode u (text_of u32 (drop k gs))"
  using cuts_text_of [OF cuts_drop [OF assms]] cuts_start [OF assms(1), of k] assms(2)
  by (cases "k < length gs") (simp_all add: tail_text_def text_of_def)

lemma head_text_of:
  assumes "cuts u32 0 gs" and "k \<le> length gs"
  shows "head_text u u32 gs k = u_encode u (text_of u32 (take k gs))"
proof (cases k)
  case (Suc j)
  have j: "j < length gs" using assms Suc by simp
  have "text_of u32 gs = u32" using cuts_text_of [OF assms(1)] by simp
  then have "text_of u32 (take k gs) @ text_of u32 (drop k gs) = u32"
    unfolding text_of_def by (simp flip: concat_append map_append)
  moreover have "text_of u32 (drop k gs) = drop (sum_list (map gi_length (take k gs))) u32"
    using cuts_text_of [OF cuts_drop [OF assms]] by simp
  ultimately have "text_of u32 (take k gs) = take (sum_list (map gi_length (take k gs))) u32"
    using append_take_drop_id [of "sum_list (map gi_length (take k gs))" u32] by (metis append_same_eq)
  moreover have "sum_list (map gi_length (take k gs)) = gi_start (gs ! j) + gi_length (gs ! j)"
    using cuts_start [OF assms(1) j] j by (simp add: Suc take_Suc_conv_app_nth)
  ultimately show ?thesis by (simp add: head_text_def Suc)
qed (simp add: head_text_def text_of_def)

section \<open>Property\<close>

lemma head_width_le: "0 < available \<Longrightarrow> head_width available \<le> available"
  by (auto simp: head_width_def Let_def not_le intro: less_imp_le)

text \<open>What is shown: the last graphemes, or first and last graphemes around an ellipsis.\<close>

definition preview_of :: "unicode \<Rightarrow> nat list \<Rightarrow> nat \<Rightarrow> GraphemeInfo list \<Rightarrow> GraphemeInfo list \<Rightarrow> string \<Rightarrow> bool" where
  "preview_of u u32 w hs ts shown \<longleftrightarrow>
     hs = [] \<and> shown = (if ts = [] then [] else u_encode u (text_of u32 ts)) \<and> sum_list (map gi_width ts) \<le> w
     \<or> shown = u_encode u (text_of u32 hs) @ ellipsis @ u_encode u (text_of u32 ts)
       \<and> sum_list (map gi_width hs) + display_width u (u_decode u ellipsis) + sum_list (map gi_width ts) \<le> w"

lemma limit_narrow:
  assumes "cuts u32 0 gs" and "w \<le> display_width u (u_decode u ellipsis) + 4"
  shows "\<exists>ms ts. gs = ms @ ts \<and> preview_of u u32 w [] ts (limit_graphemes u u32 gs w)"
proof -
  define k where "k = length gs - fit w 0 (rev gs)"
  have "sum_list (map gi_width (drop k gs)) \<le> w"
    using fit_sum [of 0 w "rev gs"] fit_le [of w 0 "rev gs"]
    by (simp add: k_def take_rev rev_map [symmetric])
  moreover have "limit_graphemes u u32 gs w = (if drop k gs = [] then [] else u_encode u (text_of u32 (drop k gs)))"
    using assms(2) tail_text_of [OF assms(1), of k u]
    by (auto simp: limit_graphemes_def Let_def k_def [symmetric])
  ultimately have "preview_of u u32 w [] (drop k gs) (limit_graphemes u u32 gs w)"
    unfolding preview_of_def by simp
  then show ?thesis using append_take_drop_id by metis
qed

lemma limit_wide:
  assumes "cuts u32 0 gs" and "\<not> w \<le> display_width u (u_decode u ellipsis) + 4"
  shows "\<exists>hs ms ts. gs = hs @ ms @ ts \<and> preview_of u u32 w hs ts (limit_graphemes u u32 gs w)"
proof -
  let ?e = "display_width u (u_decode u ellipsis)"
  define a where "a = w - ?e"
  define h where "h = fit (head_width a) 0 gs"
  define n where "n = fit (a - head_width a) 0 (rev (drop h gs))"
  have h: "h \<le> length gs" "sum_list (map gi_width (take h gs)) \<le> head_width a"
    using fit_le [of "head_width a" 0 gs] fit_sum [of 0 "head_width a" gs] by (simp_all add: h_def)
  have n: "n \<le> length gs - h" using fit_le [of "a - head_width a" 0 "rev (drop h gs)"] by (simp add: n_def)
  have "sum_list (map gi_width (take n (rev (drop h gs)))) \<le> a - head_width a"
    using fit_sum [of 0 "a - head_width a" "rev (drop h gs)"] by (simp add: n_def)
  then have "sum_list (map gi_width (drop (length gs - n) gs)) \<le> a - head_width a"
    using h(1) n by (simp add: take_rev rev_map [symmetric])
  then have "sum_list (map gi_width (take h gs)) + ?e + sum_list (map gi_width (drop (length gs - n) gs)) \<le> w"
    using h(2) head_width_le [of a] assms(2) by (simp add: a_def)
  moreover have "limit_graphemes u u32 gs w =
      u_encode u (text_of u32 (take h gs)) @ ellipsis @ u_encode u (text_of u32 (drop (length gs - n) gs))"
    using assms(2) head_text_of [OF assms(1) h(1), of u] tail_text_of [OF assms(1), of "length gs - n" u]
    by (simp add: limit_graphemes_def Let_def a_def h_def n_def)
  ultimately have "preview_of u u32 w (take h gs) (drop (length gs - n) gs) (limit_graphemes u u32 gs w)"
    unfolding preview_of_def by simp
  moreover have "gs = take h gs @ take (length gs - n - h) (drop h gs) @ drop (length gs - n) gs"
  proof -
    have "drop (length gs - n) gs = drop (length gs - n - h) (drop h gs)" using n h(1) by simp
    then show ?thesis by (metis append_take_drop_id)
  qed
  ultimately show ?thesis by blast
qed

text \<open>
  The preview always ends, and it fits: a text that is narrow enough is shown unchanged, every other
  one as its last graphemes, or as its first graphemes, an ellipsis and its last graphemes, without
  overlap, and the widths of what is shown never add up to more than the configured width.
\<close>

theorem LimitPreviewText_fits:
  assumes "graphemes_nonempty u" and "0 < w"
  shows "\<exists>shown. LimitPreviewText u t w = Some shown \<and>
     (shown = t \<and> (t = [] \<or> display_width u (u_decode u t) \<le> nat w)
      \<or> (\<exists>hs ms ts. cuts (u_decode u t) 0 (hs @ ms @ ts) \<and> preview_of u (u_decode u t) (nat w) hs ts shown))"
proof (cases "t = [] \<or> display_width u (u_decode u t) \<le> nat w")
  case True
  then show ?thesis using assms(2) by (auto simp: LimitPreviewText_def Let_def)
next
  case False
  let ?u32 = "u_decode u t"
  obtain gs where gs: "graphemes_loop u (length ?u32) ?u32 0 = Some gs" "cuts ?u32 0 gs"
    using graphemes_loop_cuts [OF assms(1), of ?u32 0 "length ?u32"] by auto
  have "LimitPreviewText u t w = Some (limit_graphemes u ?u32 gs (nat w))"
    using False assms(2) gs by (simp add: LimitPreviewText_def Let_def)
  moreover have "\<exists>hs ms ts. gs = hs @ ms @ ts \<and> preview_of u ?u32 (nat w) hs ts (limit_graphemes u ?u32 gs (nat w))"
    using limit_narrow [OF gs(2), of "nat w" u] limit_wide [OF gs(2), of "nat w" u]
    by (metis append_Nil)
  ultimately show ?thesis using gs(2) by metis
qed

text \<open>Code points as bytes, each one column wide.\<close>

definition ascii_unicode :: unicode where
  "ascii_unicode = \<lparr>u_decode = map of_char, u_encode = map char_of, u_width = (\<lambda>cps. int (length cps)),
     u_grapheme_length = (\<lambda>_. 1)\<rparr>"

theorem LimitPreviewText_fits_witness:
  "\<exists>shown. LimitPreviewText ascii_unicode ''recognised text'' 12 = Some shown"
proof -
  have "graphemes_nonempty ascii_unicode"
    by (auto simp: graphemes_nonempty_def ascii_unicode_def Suc_le_eq)
  from LimitPreviewText_fits [OF this, of 12 "''recognised text''"] show ?thesis by auto
qed

end
