(* ===== verification/Addon_Engine.thy ===== *)
theory Addon_Engine
  imports Addon_Palette Addon_Preview Recognition_Result Dbus_Interface
begin

text \<open>
  The engine of the input method addon (\<open>addon/core/vinput.h\<close> and \<open>.cpp\<close>, \<open>addon/dbus/vinput_dbus.cpp\<close>):
  the voice session the user sees, the calls to the daemon and what their replies and the daemon's signals
  do, the polling of the daemon's status, and the buffer of what the user typed. Key events and menus are
  in \<open>Addon_Keys\<close>.

  The members of \<open>VinputEngine\<close> are grouped into records. An input context is a number, a pointer to one
  that may be null an \<open>option\<close>. A timer (\<open>EventSourceTime\<close>) is its due time and whether it is enabled, or
  \<open>None\<close> before it is created. An asynchronous call lives as long as its slot: overwriting or resetting the
  slot drops the reply. Times are microseconds of the monotonic clock; one event is handled at one time.
  What the engine tells fcitx and the daemon is the list \<open>en_out\<close>.

  \<open>applySettings\<close> copies the whole configuration after every change of it, so \<open>settings\<close> stands for
  \<open>config_\<close> and for its copies. \<open>pending_start_event_\<close> is never created and \<open>pending_start_ic_\<close> never set,
  so the branches that need them cannot be taken.
\<close>

section \<open>State\<close>

datatype Phase = PhPendingStart | PhRecording | PhInferring | PhPostprocessing

record 'k voice_session =
  vs_phase :: Phase
  vs_ic :: nat
  vs_trigger :: 'k
  vs_press_time :: int
  vs_command_mode :: bool
  vs_trigger_released :: bool
  vs_raw_prev :: bool
  vs_transcript_text :: string
  vs_stop_on_release :: bool

type_synonym timer = "(int \<times> bool) option"

datatype TriggerMode = Tap | Hold | Both

datatype HotkeyRole = RoleNone | RoleMenu | RoleTrigger | RoleCommand

datatype menu_word = PaletteWord nat | ResultWord nat

datatype output_event =
  ShowPreedit nat string string
| ClearPanel nat
| ShowMenu nat string "(menu_word \<times> string \<times> string) list"
| TurnPage nat bool
| MoveCursor nat bool
| CommitText nat string
| DeleteSurrounding nat int int
| StartRecordingCall
| StartCommandRecordingCall string
| StopRecordingCall string
| CancelOperationCall bool
| GetStatusCall
| SyncCall string "string option"
| NotifyError string
| NotifyInfo string
| ContextEntry string string int int
| SaveConfig CoreConfig
| AcceptKey

record 'k settings =
  se_trigger_mode :: TriggerMode
  se_trigger_keys :: "'k list"
  se_command_keys :: "'k list"
  se_menu_keys :: "'k list"
  se_page_prev_keys :: "'k list"
  se_page_next_keys :: "'k list"
  se_max_width :: int

record menu_state =
  mn_palette_ic :: "nat option"
  mn_palette_visible :: bool
  mn_items :: "PaletteItem list"
  mn_filtered :: "nat list"
  mn_query :: string
  mn_result_ic :: "nat option"
  mn_result_visible :: bool
  mn_candidates :: "Candidate list"
  mn_result_is_command :: bool

record 'k hotkey_state =
  hk_key_sym :: "nat option"
  hk_role :: HotkeyRole
  hk_chord_interrupted :: bool
  hk_press_time :: int
  hk_last_trigger_time :: int
  hk_pending_postprocessing_release :: "'k option"

record context_state =
  cx_suppressed :: "string option"
  cx_text :: string
  cx_ic :: "nat option"
  cx_timer :: timer
  cx_max_lines :: int

record link_state =
  ln_bus :: bool
  ln_blocked_until :: int
  ln_last_status :: string
  ln_polled_idle_since :: "int option"
  ln_gate :: StatusPollGate
  ln_status_call :: "Ticket option"
  ln_start_call :: bool
  ln_stop_call :: bool
  ln_status_timer :: timer

record 'k engine =
  en_session :: "'k voice_session option"
  en_status_ic :: "nat option"
  en_last_active_ic :: "nat option"
  en_command_selected_text :: string
  en_stop_timer :: timer
  en_active_scene_id :: string
  en_scene_config :: SceneConfig
  en_registry :: "palette_command list"
  en_settings :: "'k settings"
  en_menu :: menu_state
  en_hot :: "'k hotkey_state"
  en_ctx :: context_state
  en_link :: link_state
  en_model_cache :: "string option"
  en_out :: "output_event list"

text \<open>
  What one event finds: the clock, the configuration \<open>LoadCoreConfig\<close> returns, whether a call can be sent,
  the replies of synchronous calls, and what fcitx and the Unicode library answer. The operations on keys
  are those of \<open>fcitx::Key\<close>; \<open>k_none\<close> is the empty key.
\<close>

record panel =
  pn_words :: "menu_word list option"
  pn_cursor :: int
  pn_movable :: bool
  pn_can_turn :: "bool \<Rightarrow> bool"

datatype reply = NoMessage | ErrorReply string string | Reply string

record 'k fcitx =
  k_none :: 'k
  k_normalize :: "'k \<Rightarrow> 'k"
  k_sym :: "'k \<Rightarrow> nat"
  k_no_states :: "'k \<Rightarrow> bool"
  k_isModifier :: "'k \<Rightarrow> bool"
  k_keyListIndex :: "'k \<Rightarrow> 'k list \<Rightarrow> int"
  k_isReleaseOfModifier :: "'k \<Rightarrow> 'k \<Rightarrow> bool"
  k_check :: "'k \<Rightarrow> nat \<Rightarrow> bool"
  k_checkKeyList :: "'k \<Rightarrow> 'k list \<Rightarrow> bool"
  k_digitSelection :: "'k \<Rightarrow> int"
  k_symToUTF8 :: "nat \<Rightarrow> string"
  fx_surrounding :: "nat \<Rightarrow> (string \<times> nat \<times> nat) option"
  fx_clipboard :: "nat \<Rightarrow> string option"
  fx_validate :: "string \<Rightarrow> bool"
  fx_nchar_bytes :: "string \<Rightarrow> nat \<Rightarrow> nat"
  fx_panel :: "nat \<Rightarrow> panel"
  fx_unicode :: unicode
  fx_ideograph :: "nat \<Rightarrow> bool"
  fx_sentence_terminal :: "nat \<Rightarrow> bool"
  fx_first_codepoint :: "string \<Rightarrow> nat"
  fx_palette :: palette_env
  fx_parse :: "string \<Rightarrow> WirePayload option"
  fx_now :: int
  fx_timestamp :: int
  fx_config :: CoreConfig
  fx_save :: "CoreConfig \<Rightarrow> bool"
  fx_sent :: bool
  fx_status_reply :: reply
  fx_rpc_reply :: reply

abbreviation tr :: "'k fcitx \<Rightarrow> string \<Rightarrow> string" where
  "tr fx \<equiv> pe_tr (fx_palette fx)"

abbreviation sprintf :: "'k fcitx \<Rightarrow> string \<Rightarrow> string list \<Rightarrow> string" where
  "sprintf fx \<equiv> pe_sprintf (fx_palette fx)"

definition issue :: "output_event \<Rightarrow> 'k engine \<Rightarrow> 'k engine" where
  "issue x e = e\<lparr>en_out := en_out e @ [x]\<rparr>"

fun timer_on :: "timer \<Rightarrow> bool" where
  "timer_on (Some (_, b)) = b"
| "timer_on None = False"

definition timer_off :: "timer \<Rightarrow> timer" where
  "timer_off t = map_option (\<lambda>(due, _). (due, False)) t"

definition timer_due :: "int \<Rightarrow> timer \<Rightarrow> bool" where
  "timer_due now t = (case t of Some (due, enabled) \<Rightarrow> enabled \<and> due \<le> now | None \<Rightarrow> False)"

definition kStatusSyncIntervalUsec :: int where "kStatusSyncIntervalUsec = 200 * 1000"
definition kPolledIdleRecoveryDelay :: int where "kPolledIdleRecoveryDelay = 5000 * 1000"
definition kDaemonFailureCooldown :: int where "kDaemonFailureCooldown = 1500 * 1000"
definition kReleaseDebounce :: int where "kReleaseDebounce = 500 * 1000"
definition kTriggerDebounce :: int where "kTriggerDebounce = 80 * 1000"
definition kTapMaxHoldDuration :: int where "kTapMaxHoldDuration = 200 * 1000"
definition kContextFlushDelayUsec :: int where "kContextFlushDelayUsec = 5 * 1000 * 1000"

section \<open>Menus and presentation\<close>

definition resetPaletteMenuState :: "'k engine \<Rightarrow> 'k engine" where
  "resetPaletteMenuState e =
     e\<lparr>en_menu := (en_menu e)\<lparr>mn_palette_ic := None, mn_palette_visible := False, mn_query := [],
                             mn_filtered := []\<rparr>\<rparr>"

definition hidePaletteMenu :: "'k engine \<Rightarrow> 'k engine" where
  "hidePaletteMenu e =
     (let e1 = resetPaletteMenuState e in
      case (mn_palette_visible (en_menu e), mn_palette_ic (en_menu e)) of
        (True, Some ic) \<Rightarrow> issue (ClearPanel ic) e1
      | _ \<Rightarrow> e1)"

definition resetResultMenuState :: "'k engine \<Rightarrow> 'k engine" where
  "resetResultMenuState e =
     e\<lparr>en_menu := (en_menu e)\<lparr>mn_result_ic := None, mn_result_visible := False, mn_candidates := []\<rparr>\<rparr>"

definition hideResultMenu :: "'k engine \<Rightarrow> 'k engine" where
  "hideResultMenu e =
     (let e1 = resetResultMenuState e in
      case (mn_result_visible (en_menu e), mn_result_ic (en_menu e)) of
        (True, Some ic) \<Rightarrow> issue (ClearPanel ic) e1
      | _ \<Rightarrow> e1)"

definition dismissMenusForVoiceActivity :: "'k engine \<Rightarrow> 'k engine" where
  "dismissMenusForVoiceActivity e = hideResultMenu (hidePaletteMenu e)"

definition updateVoicePresentation :: "nat option \<Rightarrow> string \<Rightarrow> string \<Rightarrow> 'k engine \<Rightarrow> 'k engine" where
  "updateVoicePresentation ic preedit_text aux_down_text e =
     (case ic of
        None \<Rightarrow> e
      | Some i \<Rightarrow> issue (ShowPreedit i preedit_text aux_down_text) (dismissMenusForVoiceActivity e))"

definition clearVoicePresentation :: "nat option \<Rightarrow> 'k engine \<Rightarrow> 'k engine" where
  "clearVoicePresentation ic e = updateVoicePresentation ic [] [] e"

definition rememberInputContext :: "nat option \<Rightarrow> 'k engine \<Rightarrow> 'k engine" where
  "rememberInputContext ic e = (case ic of None \<Rightarrow> e | Some i \<Rightarrow> e\<lparr>en_last_active_ic := Some i\<rparr>)"

definition resolveFrontendInputContext :: "nat option \<Rightarrow> 'k engine \<Rightarrow> nat option" where
  "resolveFrontendInputContext fallback_ic e =
     (case en_session e of
        Some s \<Rightarrow> Some (vs_ic s)
      | None \<Rightarrow>
          if en_status_ic e \<noteq> None then en_status_ic e
          else if fallback_ic \<noteq> None then fallback_ic
          else en_last_active_ic e)"

text \<open>A preview that never ends is left out: the library reports no empty grapheme (\<open>graphemes_nonempty\<close>).\<close>

definition compose :: "'k fcitx \<Rightarrow> string \<Rightarrow> string \<Rightarrow> 'k engine \<Rightarrow> string" where
  "compose fx transcript fallback e =
     value_or (ComposeLivePreedit (fx_unicode fx) transcript fallback (se_max_width (en_settings e))) []"

definition limited :: "'k fcitx \<Rightarrow> string \<Rightarrow> 'k engine \<Rightarrow> string" where
  "limited fx t e = value_or (LimitPreviewText (fx_unicode fx) t (se_max_width (en_settings e))) []"

definition PostprocessingPreeditText :: "'k fcitx \<Rightarrow> bool \<Rightarrow> bool \<Rightarrow> string" where
  "PostprocessingPreeditText fx command_mode raw_prev =
     tr fx (if command_mode then ''... Applying command ... (Esc: Cancel)''
            else if raw_prev then ''... Postprocessing ... (Enter: Use raw ASR text, Esc: Cancel)''
            else ''... Postprocessing ... (Esc: Cancel)'')"

definition listening_text :: "'k fcitx \<Rightarrow> bool \<Rightarrow> string" where
  "listening_text fx command_mode =
     tr fx (if command_mode then ''... Commanding ...'' else ''... Recording ...'')"

section \<open>The context buffer\<close>

definition SanitizeUtf8 :: "'k fcitx \<Rightarrow> string \<Rightarrow> string" where
  "SanitizeUtf8 fx t = (if t = [] then t else u_encode (fx_unicode fx) (u_decode (fx_unicode fx) t))"

definition last_codepoint :: "'k fcitx \<Rightarrow> string \<Rightarrow> nat" where
  "last_codepoint fx t =
     (let u32 = u_decode (fx_unicode fx) t in if t = [] \<or> u32 = [] then 0 else last u32)"

definition IsCjkAtBoundary :: "'k fcitx \<Rightarrow> string \<Rightarrow> string \<Rightarrow> bool" where
  "IsCjkAtBoundary fx left right \<longleftrightarrow>
     fx_ideograph fx (last_codepoint fx left)
     \<or> fx_ideograph fx (if right = [] then 0 else fx_first_codepoint fx right)"

text \<open>Code point 8230 is the horizontal ellipsis.\<close>

definition EndsWithSentenceTerminal :: "'k fcitx \<Rightarrow> string \<Rightarrow> bool" where
  "EndsWithSentenceTerminal fx t =
     (if t = [] \<or> u_decode (fx_unicode fx) t = [] then False
      else (let cp = last (u_decode (fx_unicode fx) t) in
            fx_sentence_terminal fx cp \<or> cp = 8230 \<or> cp = 10))"

definition write_entry :: "'k fcitx \<Rightarrow> string \<Rightarrow> string \<Rightarrow> 'k engine \<Rightarrow> 'k engine" where
  "write_entry fx t source e =
     issue (ContextEntry (SanitizeUtf8 fx t) (SanitizeUtf8 fx source) (fx_timestamp fx) (cx_max_lines (en_ctx e))) e"

text \<open>
  \<open>appendContextEntry\<close> and \<open>flushContextBuffer\<close> call each other; an entry of the user never flushes, so the
  flush writes its entry directly.
\<close>

definition flushContextBuffer :: "'k fcitx \<Rightarrow> 'k engine \<Rightarrow> 'k engine" where
  "flushContextBuffer fx e =
     (let cx = en_ctx e; e1 = e\<lparr>en_ctx := cx\<lparr>cx_ic := None\<rparr>\<rparr> in
      if cx_text cx = [] then e1
      else
        (let e2 = (if cx_max_lines cx \<le> 0 then e1 else write_entry fx (cx_text cx) ''user'' e1)
         in e2\<lparr>en_ctx := (en_ctx e2)\<lparr>cx_text := [], cx_timer := timer_off (cx_timer cx)\<rparr>\<rparr>))"

definition appendContextEntry :: "'k fcitx \<Rightarrow> string \<Rightarrow> string \<Rightarrow> 'k engine \<Rightarrow> 'k engine" where
  "appendContextEntry fx t source e =
     (if cx_max_lines (en_ctx e) \<le> 0 \<or> t = [] then e
      else write_entry fx t source
             (if source \<noteq> ''user'' \<and> cx_text (en_ctx e) \<noteq> [] then flushContextBuffer fx e else e))"

definition suppressNextCommitContext :: "string \<Rightarrow> 'k engine \<Rightarrow> 'k engine" where
  "suppressNextCommitContext t e =
     e\<lparr>en_ctx := (en_ctx e)\<lparr>cx_suppressed := (if t = [] then None else Some t)\<rparr>\<rparr>"

definition join_context :: "'k fcitx \<Rightarrow> string \<Rightarrow> string \<Rightarrow> string" where
  "join_context fx buffer t =
     buffer @ (if buffer \<noteq> [] \<and> \<not> IsCjkAtBoundary fx buffer t \<and> last buffer \<noteq> CHR '' '' then '' '' else []) @ t"

definition accumulateContextBuffer :: "'k fcitx \<Rightarrow> string \<Rightarrow> nat \<Rightarrow> 'k engine \<Rightarrow> 'k engine" where
  "accumulateContextBuffer fx t ic e =
     (let e1 = (if Some ic \<noteq> cx_ic (en_ctx e) \<and> cx_text (en_ctx e) \<noteq> [] then flushContextBuffer fx e else e);
          e2 = e1\<lparr>en_ctx := (en_ctx e1)\<lparr>cx_ic := Some ic, cx_text := join_context fx (cx_text (en_ctx e1)) t\<rparr>\<rparr>
      in if EndsWithSentenceTerminal fx (cx_text (en_ctx e2)) then flushContextBuffer fx e2
         else e2\<lparr>en_ctx := (en_ctx e2)\<lparr>cx_timer := Some (fx_now fx + kContextFlushDelayUsec, True)\<rparr>\<rparr>)"

definition onCommitString :: "'k fcitx \<Rightarrow> string \<Rightarrow> nat \<Rightarrow> 'k engine \<Rightarrow> 'k engine" where
  "onCommitString fx t ic e =
     (let e1 = e\<lparr>en_ctx := (en_ctx e)\<lparr>cx_suppressed := None\<rparr>\<rparr> in
      if cx_max_lines (en_ctx e) \<le> 0 \<or> t = [] then e1
      else if cx_suppressed (en_ctx e) = Some t then e1
      else accumulateContextBuffer fx t ic e1)"

definition reloadSceneConfig :: "'k fcitx \<Rightarrow> 'k engine \<Rightarrow> 'k engine" where
  "reloadSceneConfig fx e =
     (let c = fx_config fx;
          max_cl = foldl (\<lambda>m s. max m (sc_context_lines s)) 0 (cc_definitions c);
          cx = (en_ctx e)\<lparr>cx_max_lines := max_cl\<rparr>
      in e\<lparr>en_scene_config := \<lparr>activeSceneId = cc_activeScene c, scenes = cc_definitions c\<rparr>,
           en_active_scene_id := cc_activeScene c,
           en_ctx := (if max_cl \<le> 0
             then cx\<lparr>cx_text := [], cx_ic := None, cx_timer := timer_off (cx_timer cx)\<rparr> else cx)\<rparr>)"

section \<open>The daemon link\<close>

definition daemonSyncAllowed :: "'k fcitx \<Rightarrow> 'k engine \<Rightarrow> bool" where
  "daemonSyncAllowed fx e \<longleftrightarrow> fx_now fx \<ge> ln_blocked_until (en_link e)"

definition noteDaemonSyncFailure :: "'k fcitx \<Rightarrow> 'k engine \<Rightarrow> 'k engine" where
  "noteDaemonSyncFailure fx e =
     e\<lparr>en_link := (en_link e)\<lparr>ln_blocked_until := fx_now fx + kDaemonFailureCooldown\<rparr>\<rparr>"

definition clearDaemonSyncFailure :: "'k engine \<Rightarrow> 'k engine" where
  "clearDaemonSyncFailure e = e\<lparr>en_link := (en_link e)\<lparr>ln_blocked_until := 0\<rparr>\<rparr>"

text \<open>A call can be made when there is a bus and no failure was noted within the cooldown.\<close>

definition callable :: "'k fcitx \<Rightarrow> 'k engine \<Rightarrow> bool" where
  "callable fx e \<longleftrightarrow> ln_bus (en_link e) \<and> daemonSyncAllowed fx e"

definition start_call :: "'k fcitx \<Rightarrow> output_event \<Rightarrow> 'k engine \<Rightarrow> bool \<times> 'k engine" where
  "start_call fx call e =
     (if \<not> callable fx e then (False, noteDaemonSyncFailure fx e)
      else
        (let e1 = e\<lparr>en_link := (en_link e)\<lparr>ln_start_call := fx_sent fx\<rparr>\<rparr> in
         if fx_sent fx then (True, issue call e1) else (False, noteDaemonSyncFailure fx e1)))"

definition callStartRecording :: "'k fcitx \<Rightarrow> 'k engine \<Rightarrow> bool \<times> 'k engine" where
  "callStartRecording fx e =
     start_call fx StartRecordingCall (flushContextBuffer fx (e\<lparr>en_command_selected_text := []\<rparr>))"

definition callStartCommandRecording :: "'k fcitx \<Rightarrow> string \<Rightarrow> 'k engine \<Rightarrow> bool \<times> 'k engine" where
  "callStartCommandRecording fx selected_text e =
     start_call fx (StartCommandRecordingCall selected_text)
       (flushContextBuffer fx (e\<lparr>en_command_selected_text := selected_text\<rparr>))"

definition callStopRecording :: "'k fcitx \<Rightarrow> string \<Rightarrow> 'k engine \<Rightarrow> bool \<times> 'k engine" where
  "callStopRecording fx scene_id e =
     (if \<not> callable fx e then (False, noteDaemonSyncFailure fx e)
      else
        (let e1 = e\<lparr>en_link := (en_link e)\<lparr>ln_stop_call := fx_sent fx\<rparr>\<rparr> in
         if fx_sent fx then (True, issue (StopRecordingCall scene_id) e1)
         else (False, noteDaemonSyncFailure fx e1)))"

definition callCancelOperation :: "bool \<Rightarrow> 'k engine \<Rightarrow> 'k engine" where
  "callCancelOperation commit_raw_text e =
     (if ln_bus (en_link e) then issue (CancelOperationCall commit_raw_text) e else e)"

definition stopStatusSyncIfIdle :: "'k engine \<Rightarrow> 'k engine" where
  "stopStatusSyncIfIdle e =
     (if en_session e \<noteq> None \<or> en_status_ic e \<noteq> None then e
      else e\<lparr>en_link := (en_link e)\<lparr>ln_status_timer := timer_off (ln_status_timer (en_link e)),
               ln_gate := gate_Cancel (ln_gate (en_link e)), ln_status_call := None\<rparr>\<rparr>)"

definition ensureStatusSync :: "'k fcitx \<Rightarrow> 'k engine \<Rightarrow> 'k engine" where
  "ensureStatusSync fx e =
     (if en_session e = None \<and> en_status_ic e = None then stopStatusSyncIfIdle e
      else e\<lparr>en_link := (en_link e)\<lparr>ln_status_timer := Some (fx_now fx + kStatusSyncIntervalUsec, True)\<rparr>\<rparr>)"

section \<open>The phases of a session\<close>

definition new_session :: "'k fcitx \<Rightarrow> nat \<Rightarrow> 'k voice_session" where
  "new_session fx ic = \<lparr>vs_phase = PhPendingStart, vs_ic = ic, vs_trigger = k_none fx,
     vs_press_time = fx_now fx, vs_command_mode = False, vs_trigger_released = False, vs_raw_prev = True,
     vs_transcript_text = [], vs_stop_on_release = False\<rparr>"

definition scene_raw_prev :: "'k engine \<Rightarrow> bool" where
  "scene_raw_prev e = sc_raw_prev (scene_Resolve (en_scene_config e) (en_active_scene_id e))"

text \<open>What the three ways into a session share: leave the other input context, then take this one.\<close>

definition leave_other :: "nat \<Rightarrow> 'k engine \<Rightarrow> 'k engine" where
  "leave_other i e =
     (if en_status_ic e \<noteq> None \<and> en_status_ic e \<noteq> Some i then clearVoicePresentation (en_status_ic e) e else e)"

definition take_session ::
    "'k fcitx \<Rightarrow> nat \<Rightarrow> Phase \<Rightarrow> 'k \<Rightarrow> bool \<Rightarrow> bool \<Rightarrow> 'k engine \<Rightarrow> 'k engine" where
  "take_session fx i phase trigger command_mode raw_prev e =
     e\<lparr>en_session := Some ((value_or (en_session e) (new_session fx i))
         \<lparr>vs_phase := phase, vs_ic := i, vs_trigger := trigger, vs_command_mode := command_mode,
          vs_raw_prev := raw_prev\<rparr>),
       en_status_ic := Some i\<rparr>"

definition enterPendingStartState ::
    "'k fcitx \<Rightarrow> nat option \<Rightarrow> 'k \<Rightarrow> bool \<Rightarrow> 'k engine \<Rightarrow> 'k engine" where
  "enterPendingStartState fx ic trigger command_mode e =
     (case ic of
        None \<Rightarrow> e
      | Some i \<Rightarrow>
          (let e1 = rememberInputContext ic e;
               e2 = leave_other i (e1\<lparr>en_link := (en_link e1)\<lparr>ln_gate := Invalidate (ln_gate (en_link e1))\<rparr>\<rparr>);
               e3 = take_session fx i PhPendingStart trigger command_mode (scene_raw_prev e2) e2
           in ensureStatusSync fx
                (updateVoicePresentation ic (compose fx [] (tr fx ''... Starting ...'') e3) [] e3)))"

definition scheduleStopRecording :: "'k fcitx \<Rightarrow> 'k engine \<Rightarrow> 'k engine" where
  "scheduleStopRecording fx e = e\<lparr>en_stop_timer := Some (fx_now fx + kReleaseDebounce, True)\<rparr>"

definition cancelPendingStop :: "'k engine \<Rightarrow> 'k engine" where
  "cancelPendingStop e = e\<lparr>en_stop_timer := timer_off (en_stop_timer e)\<rparr>"

definition stop_after_start :: "'k engine \<Rightarrow> bool" where
  "stop_after_start e =
     (case en_session e of
        None \<Rightarrow> False
      | Some s \<Rightarrow> (se_trigger_mode (en_settings e) = Hold \<or> vs_stop_on_release s)
                  \<and> vs_phase s = PhPendingStart \<and> vs_trigger_released s)"

definition session_raw_prev :: "'k engine \<Rightarrow> bool" where
  "session_raw_prev e = (case en_session e of Some s \<Rightarrow> vs_raw_prev s | None \<Rightarrow> scene_raw_prev e)"

definition transcript :: "'k engine \<Rightarrow> string" where
  "transcript e = (case en_session e of Some s \<Rightarrow> vs_transcript_text s | None \<Rightarrow> [])"

definition enterRecordingState ::
    "'k fcitx \<Rightarrow> nat option \<Rightarrow> 'k \<Rightarrow> bool \<Rightarrow> 'k engine \<Rightarrow> 'k engine" where
  "enterRecordingState fx ic trigger command_mode e =
     (case ic of
        None \<Rightarrow> e
      | Some i \<Rightarrow>
          (let e1 = leave_other i (rememberInputContext ic e);
               e2 = take_session fx i PhRecording trigger command_mode (session_raw_prev e1) e1;
               e3 = ensureStatusSync fx (updateVoicePresentation ic
                      (compose fx (transcript e2) (listening_text fx command_mode) e2) [] e2)
           in if stop_after_start e then scheduleStopRecording fx e3 else e3))"

definition enterBusyState ::
    "'k fcitx \<Rightarrow> nat option \<Rightarrow> bool \<Rightarrow> string \<Rightarrow> bool \<Rightarrow> bool option \<Rightarrow> 'k engine \<Rightarrow> 'k engine" where
  "enterBusyState fx ic command_mode preedit_text postprocessing raw_prev e =
     (case ic of
        None \<Rightarrow> e
      | Some i \<Rightarrow>
          (let e1 = leave_other i (rememberInputContext ic e);
               raw = value_or raw_prev (session_raw_prev e1);
               e2 = take_session fx i (if postprocessing then PhPostprocessing else PhInferring)
                      (k_none fx) command_mode raw e1;
               e3 = (if \<not> raw then updateVoicePresentation ic preedit_text [] e2
                     else if postprocessing \<and> transcript e2 \<noteq> [] then
                       updateVoicePresentation ic
                         (if command_mode then tr fx ''... Applying command ... (Esc: Cancel)'' else preedit_text)
                         (limited fx (if command_mode then sprintf fx (tr fx ''Command: %s'') [transcript e2]
                                      else transcript e2) e2) e2
                     else updateVoicePresentation ic (compose fx (transcript e2) preedit_text e2) [] e2)
           in ensureStatusSync fx e3))"

definition finishFrontendSession :: "nat option \<Rightarrow> 'k engine \<Rightarrow> 'k engine" where
  "finishFrontendSession fallback_ic e =
     (let ic = (case en_session e of
                  Some s \<Rightarrow> Some (vs_ic s)
                | None \<Rightarrow> if fallback_ic \<noteq> None then fallback_ic else en_status_ic e);
          e1 = e\<lparr>en_session := None, en_command_selected_text := [],
                 en_status_ic := (if en_status_ic e = ic then None else en_status_ic e),
                 en_link := (en_link e)\<lparr>ln_gate := Invalidate (ln_gate (en_link e)),
                                        ln_polled_idle_since := None\<rparr>\<rparr>
      in stopStatusSyncIfIdle (clearVoicePresentation ic e1))"

definition finishStopRecording :: "'k fcitx \<Rightarrow> 'k engine \<Rightarrow> 'k engine" where
  "finishStopRecording fx e =
     (case en_session e of
        None \<Rightarrow> e
      | Some s \<Rightarrow>
          if vs_phase s \<noteq> PhRecording then e
          else
            (let e1 = reloadSceneConfig fx e;
                 scene = scene_Resolve (en_scene_config e1) (en_active_scene_id e1);
                 e2 = e1\<lparr>en_active_scene_id := sc_id scene,
                         en_session := Some (s\<lparr>vs_raw_prev := sc_raw_prev scene, vs_trigger := k_none fx\<rparr>)\<rparr>
             in snd (callStopRecording fx (sc_id scene)
                  (enterBusyState fx (Some (vs_ic s)) (vs_command_mode s) (tr fx ''... Recognizing ...'')
                     False (Some (sc_raw_prev scene)) e2))))"

definition applyDaemonStatusLocally ::
    "'k fcitx \<Rightarrow> string \<Rightarrow> nat option \<Rightarrow> bool \<Rightarrow> 'k engine \<Rightarrow> 'k engine" where
  "applyDaemonStatusLocally fx status fallback_ic prefer_command_mode e =
     (if status = StatusToString Idle \<and> en_session e = None \<and> en_status_ic e = None then e
      else
        (let ic = resolveFrontendInputContext fallback_ic e;
             command_mode = (case en_session e of Some s \<Rightarrow> vs_command_mode s | None \<Rightarrow> prefer_command_mode);
             raw_prev = session_raw_prev e
         in if ic = None then e
            else if status = StatusToString Recording then
              enterRecordingState fx ic (case en_session e of Some s \<Rightarrow> vs_trigger s | None \<Rightarrow> k_none fx) command_mode e
            else if status = StatusToString Inferring then
              enterBusyState fx ic command_mode (tr fx ''... Recognizing ...'') False (Some raw_prev) e
            else if status = StatusToString Postprocessing then
              enterBusyState fx ic command_mode (PostprocessingPreeditText fx command_mode raw_prev) True
                (Some raw_prev) e
            else finishFrontendSession ic e))"

section \<open>Replies and signals\<close>

definition first_line :: "string \<Rightarrow> string" where
  "first_line t = takeWhile (\<lambda>c. c \<noteq> CHR 0x0A) t"

definition RenderMethodCallFailure :: "'k fcitx \<Rightarrow> string \<Rightarrow> string \<Rightarrow> string \<Rightarrow> string" where
  "RenderMethodCallFailure fx error_name error_message fallback =
     (if error_name = ''org.freedesktop.DBus.Error.ServiceUnknown''
         \<or> error_name = ''org.freedesktop.DBus.Error.NameHasNoOwner'' then
        tr fx ''Voice input daemon is unavailable.''
      else if error_name = ''org.freedesktop.DBus.Error.NoReply''
         \<or> error_name = ''org.freedesktop.DBus.Error.Timeout'' then
        tr fx ''Voice input daemon is not responding.''
      else if error_message \<noteq> [] then first_line error_message
      else fallback)"

text \<open>The callbacks of \<open>StartRecording\<close>, \<open>StartCommandRecording\<close> and \<open>StopRecording\<close> do the same.\<close>

definition call_rejected :: "'k fcitx \<Rightarrow> string \<Rightarrow> 'k engine \<Rightarrow> 'k engine" where
  "call_rejected fx shown e =
     (let e1 = noteDaemonSyncFailure fx e; ic = resolveFrontendInputContext None e1
      in updateVoicePresentation ic shown [] (finishFrontendSession ic e1))"

fun call_reply :: "'k fcitx \<Rightarrow> reply \<Rightarrow> 'k engine \<Rightarrow> 'k engine" where
  "call_reply fx NoMessage e = call_rejected fx (tr fx ''Voice input daemon is unavailable.'') e"
| "call_reply fx (ErrorReply name msg) e =
     call_rejected fx (RenderMethodCallFailure fx name msg (tr fx ''Voice input daemon is unavailable.'')) e"
| "call_reply fx (Reply _) e = clearDaemonSyncFailure e"

definition onStartReply :: "'k fcitx \<Rightarrow> reply \<Rightarrow> 'k engine \<Rightarrow> 'k engine" where
  "onStartReply fx r e =
     (if \<not> ln_start_call (en_link e) then e
      else call_reply fx r (e\<lparr>en_link := (en_link e)\<lparr>ln_start_call := False\<rparr>\<rparr>))"

definition onStopReply :: "'k fcitx \<Rightarrow> reply \<Rightarrow> 'k engine \<Rightarrow> 'k engine" where
  "onStopReply fx r e =
     (if \<not> ln_stop_call (en_link e) then e
      else call_reply fx r (e\<lparr>en_link := (en_link e)\<lparr>ln_stop_call := False\<rparr>\<rparr>))"

definition syncFrontendWithDaemonStatus :: "'k fcitx \<Rightarrow> 'k engine \<Rightarrow> 'k engine" where
  "syncFrontendWithDaemonStatus fx e =
     (if \<not> callable fx e then e
      else case TryBegin (ln_gate (en_link e)) of
        (None, _) \<Rightarrow> e
      | (Some ticket, g) \<Rightarrow>
          if fx_sent fx then
            issue GetStatusCall (e\<lparr>en_link := (en_link e)\<lparr>ln_gate := g, ln_status_call := Some ticket\<rparr>\<rparr>)
          else
            noteDaemonSyncFailure fx
              (e\<lparr>en_link := (en_link e)\<lparr>ln_gate := gate_Cancel g, ln_status_call := None\<rparr>\<rparr>))"

text \<open>What a polled status does, once the gate has accepted it.\<close>

definition polled_status :: "'k fcitx \<Rightarrow> string \<Rightarrow> 'k engine \<Rightarrow> 'k engine" where
  "polled_status fx status e0 =
     (let e = e0\<lparr>en_link := (en_link e0)\<lparr>ln_last_status := status\<rparr>\<rparr> in
      if status = [] \<or> en_session e = None \<and> en_status_ic e = None then e
      else
        (let waiting = (status = StatusToString Idle \<and> en_session e \<noteq> None);
             since = value_or (ln_polled_idle_since (en_link e)) (fx_now fx)
         in if waiting \<and> fx_now fx - since < kPolledIdleRecoveryDelay then
              e\<lparr>en_link := (en_link e)\<lparr>ln_polled_idle_since := Some since\<rparr>\<rparr>
            else
              applyDaemonStatusLocally fx status None False
                (e\<lparr>en_link := (en_link e)\<lparr>ln_polled_idle_since := None\<rparr>\<rparr>)))"

fun accepted_status :: "'k fcitx \<Rightarrow> reply \<Rightarrow> 'k engine \<Rightarrow> 'k engine" where
  "accepted_status fx (Reply status) e = polled_status fx status (clearDaemonSyncFailure e)"
| "accepted_status fx _ e = noteDaemonSyncFailure fx e"

definition onStatusReply :: "'k fcitx \<Rightarrow> reply \<Rightarrow> 'k engine \<Rightarrow> 'k engine" where
  "onStatusReply fx r e =
     (case ln_status_call (en_link e) of
        None \<Rightarrow> e
      | Some ticket \<Rightarrow>
          if \<not> gate_IsActive (ln_gate (en_link e)) ticket then e
          else
            (case gate_Complete (ln_gate (en_link e)) ticket of
               (ok, g) \<Rightarrow>
                 (let e1 = e\<lparr>en_link := (en_link e)\<lparr>ln_status_call := None, ln_gate := g\<rparr>\<rparr>
                  in if ok then accepted_status fx r e1 else e1)))"

definition fire_status_timer :: "'k fcitx \<Rightarrow> 'k engine \<Rightarrow> 'k engine" where
  "fire_status_timer fx e =
     (if \<not> timer_due (fx_now fx) (ln_status_timer (en_link e)) then e
      else
        (let e1 = syncFrontendWithDaemonStatus fx
                    (e\<lparr>en_link := (en_link e)\<lparr>ln_status_timer := timer_off (ln_status_timer (en_link e))\<rparr>\<rparr>)
         in if en_session e1 = None \<and> en_status_ic e1 = None then e1
            else e1\<lparr>en_link := (en_link e1)
                      \<lparr>ln_status_timer := Some (fx_now fx + kStatusSyncIntervalUsec, True)\<rparr>\<rparr>))"

definition fire_stop_timer :: "'k fcitx \<Rightarrow> 'k engine \<Rightarrow> 'k engine" where
  "fire_stop_timer fx e =
     (if \<not> timer_due (fx_now fx) (en_stop_timer e) then e
      else finishStopRecording fx (e\<lparr>en_stop_timer := timer_off (en_stop_timer e)\<rparr>))"

definition fire_context_timer :: "'k fcitx \<Rightarrow> 'k engine \<Rightarrow> 'k engine" where
  "fire_context_timer fx e =
     (if \<not> timer_due (fx_now fx) (cx_timer (en_ctx e)) then e
      else flushContextBuffer fx (e\<lparr>en_ctx := (en_ctx e)\<lparr>cx_timer := timer_off (cx_timer (en_ctx e))\<rparr>\<rparr>))"

definition onStatusChanged :: "'k fcitx \<Rightarrow> string \<Rightarrow> 'k engine \<Rightarrow> 'k engine" where
  "onStatusChanged fx status e =
     (let e1 = e\<lparr>en_link := (en_link e)\<lparr>ln_gate := Invalidate (ln_gate (en_link e)), ln_last_status := status,
                                        ln_polled_idle_since := None\<rparr>\<rparr>
      in applyDaemonStatusLocally fx status None False
           (rememberInputContext (resolveFrontendInputContext None e1) e1))"

definition handleRecognitionPartial :: "'k fcitx \<Rightarrow> string \<Rightarrow> 'k engine \<Rightarrow> 'k engine" where
  "handleRecognitionPartial fx transcript_text e =
     (let ic = resolveFrontendInputContext None e in
      if transcript_text = [] \<or> ic = None then e
      else
        (let e1 = rememberInputContext ic e in
         case en_session e1 of
           None \<Rightarrow> e1
         | Some s \<Rightarrow>
             (let e2 = e1\<lparr>en_session := Some (s\<lparr>vs_transcript_text := transcript_text\<rparr>)\<rparr> in
              if vs_phase s = PhPostprocessing then
                enterBusyState fx ic (vs_command_mode s)
                  (PostprocessingPreeditText fx (vs_command_mode s) (vs_raw_prev s)) True (Some (vs_raw_prev s)) e2
              else if vs_phase s = PhInferring \<and> \<not> vs_raw_prev s then e2
              else updateVoicePresentation ic
                     (compose fx transcript_text (listening_text fx (vs_command_mode s)) e2) [] e2)))"

end
