(* ===== verification/Addon_Keys.thy ===== *)
theory Addon_Keys
  imports Addon_Engine
begin

text \<open>
  Keys and menus of the addon (\<open>addon/input/vinput_keyevent.cpp\<close>, \<open>addon/menu/vinput_menu.cpp\<close>, the event
  handlers of \<open>addon/core/vinput.cpp\<close>): the hotkeys that start and stop a recording, the palette and the
  list of results, and what choosing from them does. \<open>engine_step\<close> is one event of the fcitx main loop.

  The candidate list on an input context's panel belongs to fcitx: an event finds it as a \<open>panel\<close>. The page
  counter in a menu's title is left out.
\<close>

section \<open>Keys\<close>

definition FcitxKey_Escape :: nat where "FcitxKey_Escape = 0xff1b"
definition FcitxKey_Return :: nat where "FcitxKey_Return = 0xff0d"
definition FcitxKey_KP_Enter :: nat where "FcitxKey_KP_Enter = 0xff8d"
definition FcitxKey_BackSpace :: nat where "FcitxKey_BackSpace = 0xff08"
definition FcitxKey_Up :: nat where "FcitxKey_Up = 0xff52"
definition FcitxKey_Down :: nat where "FcitxKey_Down = 0xff54"
definition FcitxKey_Page_Up :: nat where "FcitxKey_Page_Up = 0xff55"
definition FcitxKey_Page_Down :: nat where "FcitxKey_Page_Down = 0xff56"
definition FcitxKey_KP_Page_Up :: nat where "FcitxKey_KP_Page_Up = 0xff9a"
definition FcitxKey_KP_Page_Down :: nat where "FcitxKey_KP_Page_Down = 0xff9b"

record 'k key_event =
  ke_key :: 'k
  ke_orig_key :: 'k
  ke_release :: bool
  ke_ic :: nat

definition matchKeyListIndex :: "'k fcitx \<Rightarrow> 'k \<Rightarrow> 'k list \<Rightarrow> bool \<Rightarrow> nat option" where
  "matchKeyListIndex fx key keys is_release =
     (if k_keyListIndex fx key keys \<ge> 0 then Some (nat (k_keyListIndex fx key keys))
      else if is_release \<and> k_isModifier fx key then find_index (k_isReleaseOfModifier fx key) keys
      else None)"

definition IsPureModifierKey :: "'k fcitx \<Rightarrow> 'k \<Rightarrow> bool" where
  "IsPureModifierKey fx key = k_isModifier fx (k_normalize fx key)"

definition HasNoModifiers :: "'k fcitx \<Rightarrow> 'k \<Rightarrow> bool" where
  "HasNoModifiers fx key = k_no_states fx (k_normalize fx key)"

definition IsKeySym :: "'k fcitx \<Rightarrow> 'k \<Rightarrow> nat \<Rightarrow> bool" where
  "IsKeySym fx key sm =
     (let normalized = k_normalize fx key in k_sym fx normalized = sm \<and> HasNoModifiers fx normalized)"

definition IsOneOfKeySyms :: "'k fcitx \<Rightarrow> 'k \<Rightarrow> nat list \<Rightarrow> bool" where
  "IsOneOfKeySyms fx key syms = list_ex (IsKeySym fx key) syms"

definition IsPagePrevKey :: "'k fcitx \<Rightarrow> 'k \<Rightarrow> bool" where
  "IsPagePrevKey fx key = IsOneOfKeySyms fx key [FcitxKey_Page_Up, FcitxKey_KP_Page_Up]"

definition IsPageNextKey :: "'k fcitx \<Rightarrow> 'k \<Rightarrow> bool" where
  "IsPageNextKey fx key = IsOneOfKeySyms fx key [FcitxKey_Page_Down, FcitxKey_KP_Page_Down]"

definition IsEnterKey :: "'k fcitx \<Rightarrow> 'k \<Rightarrow> bool" where
  "IsEnterKey fx key = IsOneOfKeySyms fx key [FcitxKey_Return, FcitxKey_KP_Enter]"

definition IsEscapeKey :: "'k fcitx \<Rightarrow> 'k \<Rightarrow> bool" where
  "IsEscapeKey fx key = IsKeySym fx key FcitxKey_Escape"

definition IsBackspaceKey :: "'k fcitx \<Rightarrow> 'k \<Rightarrow> bool" where
  "IsBackspaceKey fx key = IsKeySym fx key FcitxKey_BackSpace"

definition IsUpKey :: "'k fcitx \<Rightarrow> 'k \<Rightarrow> bool" where
  "IsUpKey fx key = IsKeySym fx key FcitxKey_Up"

definition IsDownKey :: "'k fcitx \<Rightarrow> 'k \<Rightarrow> bool" where
  "IsDownKey fx key = IsKeySym fx key FcitxKey_Down"

definition navigation_key :: "'k fcitx \<Rightarrow> 'k \<Rightarrow> bool" where
  "navigation_key fx key \<longleftrightarrow>
     IsEnterKey fx key \<or> IsEscapeKey fx key \<or> IsBackspaceKey fx key \<or> IsUpKey fx key \<or> IsDownKey fx key
     \<or> IsPagePrevKey fx key \<or> IsPageNextKey fx key \<or> IsPureModifierKey fx key"

definition IsPrintableMenuInput :: "'k fcitx \<Rightarrow> 'k \<Rightarrow> bool" where
  "IsPrintableMenuInput fx key =
     (if navigation_key fx key \<or> k_digitSelection fx key \<ge> 0 then False
      else if \<not> k_no_states fx (k_normalize fx key) then False
      else
        (let utf8 = k_symToUTF8 fx (k_sym fx (k_normalize fx key)) in
         utf8 \<noteq> [] \<and> list_all (\<lambda>ch. (of_char ch :: nat) \<ge> 32 \<and> ch \<noteq> CHR 0x7F) utf8))"

section \<open>Notifications and synchronous calls\<close>

definition notifyError :: "string \<Rightarrow> 'k engine \<Rightarrow> 'k engine" where
  "notifyError message e = (if message = [] then e else issue (NotifyError message) e)"

definition notifyInfo :: "string \<Rightarrow> 'k engine \<Rightarrow> 'k engine" where
  "notifyInfo message e = (if message = [] then e else issue (NotifyInfo message) e)"

definition queryDaemonStatus :: "'k fcitx \<Rightarrow> 'k engine \<Rightarrow> string \<times> 'k engine" where
  "queryDaemonStatus fx e =
     (if \<not> callable fx e then ([], e)
      else
        (let e1 = issue GetStatusCall e in
         case fx_status_reply fx of
           Reply status \<Rightarrow>
             (let e2 = clearDaemonSyncFailure e1
              in (status, e2\<lparr>en_link := (en_link e2)\<lparr>ln_last_status := status\<rparr>\<rparr>))
         | _ \<Rightarrow> ([], noteDaemonSyncFailure fx e1)))"

text \<open>The error text, \<open>None\<close> when the call succeeded.\<close>

definition callSyncRpc ::
    "'k fcitx \<Rightarrow> string \<Rightarrow> string \<Rightarrow> string option \<Rightarrow> 'k engine \<Rightarrow> string option \<times> 'k engine" where
  "callSyncRpc fx member fallback_error arg e =
     (if \<not> callable fx e then
        (Some (if ln_bus (en_link e) then tr fx ''Daemon access is temporarily throttled.''
               else ''D-Bus is unavailable.''), noteDaemonSyncFailure fx e)
      else
        (let e1 = issue (SyncCall member arg) e in
         case fx_rpc_reply fx of
           NoMessage \<Rightarrow> (Some (tr fx ''Failed to contact vinput-daemon.''), noteDaemonSyncFailure fx e1)
         | ErrorReply _ msg \<Rightarrow> (Some (if msg = [] then fallback_error else msg), noteDaemonSyncFailure fx e1)
         | Reply _ \<Rightarrow> (None, clearDaemonSyncFailure e1)))"

definition callReloadAsrBackend :: "'k fcitx \<Rightarrow> 'k engine \<Rightarrow> string option \<times> 'k engine" where
  "callReloadAsrBackend fx e =
     callSyncRpc fx ''ReloadAsrBackend'' (tr fx ''Failed to reload ASR backend.'') None e"

definition callStartAdapter :: "'k fcitx \<Rightarrow> string \<Rightarrow> 'k engine \<Rightarrow> string option \<times> 'k engine" where
  "callStartAdapter fx adapter_id e =
     callSyncRpc fx ''StartAdapter'' (tr fx ''Failed to start adapter.'') (Some adapter_id) e"

definition callStopAdapter :: "'k fcitx \<Rightarrow> string \<Rightarrow> 'k engine \<Rightarrow> string option \<times> 'k engine" where
  "callStopAdapter fx adapter_id e =
     callSyncRpc fx ''StopAdapter'' (tr fx ''Failed to stop adapter.'') (Some adapter_id) e"

section \<open>The palette\<close>

definition in_quotes :: "string \<Rightarrow> string" where
  "in_quotes s = [CHR 0x27] @ s @ [CHR 0x27]"

definition reloadPaletteItems :: "'k fcitx \<Rightarrow> 'k engine \<Rightarrow> 'k engine" where
  "reloadPaletteItems fx e =
     (case palette_items_of (fx_palette fx) (fx_config fx) (en_registry e) (en_model_cache e) of
        (items, file) \<Rightarrow> e\<lparr>en_menu := (en_menu e)\<lparr>mn_items := items\<rparr>, en_model_cache := file\<rparr>)"

definition rebuildPaletteMenu :: "'k fcitx \<Rightarrow> nat option \<Rightarrow> 'k engine \<Rightarrow> 'k engine" where
  "rebuildPaletteMenu fx ic e =
     (case ic of
        None \<Rightarrow> e
      | Some i \<Rightarrow>
          (let m = en_menu e; shown = filtered_indices (mn_query m) (en_registry e) (mn_items m)
           in issue (ShowMenu i (PaletteMenuTitle (fx_palette fx) (ParsePaletteQuery (mn_query m) (en_registry e)))
                     (map (\<lambda>j. (PaletteWord j, pi_text (mn_items m ! j), pi_comment (mn_items m ! j))) shown))
                (e\<lparr>en_menu := m\<lparr>mn_filtered := shown\<rparr>\<rparr>)))"

definition showPaletteMenu :: "'k fcitx \<Rightarrow> nat \<Rightarrow> string \<Rightarrow> 'k engine \<Rightarrow> 'k engine" where
  "showPaletteMenu fx ic initial_query e =
     (let e1 = reloadPaletteItems fx e
      in rebuildPaletteMenu fx (Some ic)
           (e1\<lparr>en_menu := (en_menu e1)\<lparr>mn_palette_ic := Some ic, mn_palette_visible := True,
                                       mn_query := initial_query\<rparr>\<rparr>))"

definition toggleCommandPalette :: "'k fcitx \<Rightarrow> nat \<Rightarrow> 'k engine \<Rightarrow> 'k engine" where
  "toggleCommandPalette fx ic e =
     (if mn_palette_visible (en_menu e) then hidePaletteMenu e
      else if en_session e \<noteq> None then e
      else showPaletteMenu fx ic [] e)"

definition select_model :: "'k fcitx \<Rightarrow> PaletteItem \<Rightarrow> 'k engine \<Rightarrow> 'k engine" where
  "select_model fx item e =
     (case SetActiveCommandModel (fx_save fx) (fx_config fx) (pi_provider_id item) (pi_model_id item) of
        (Some err, c) \<Rightarrow>
          notifyError (if err = [] then tr fx ''Failed to set command model.'' else err) (issue (SaveConfig c) e)
      | (None, c) \<Rightarrow>
          notifyInfo (sprintf fx (tr fx (''Command model set to '' @ in_quotes ''%s / %s'' @ ''.''))
            [pi_provider_id item, pi_model_id item]) (issue (SaveConfig c) e))"

definition lite_rejects :: "'k fcitx \<Rightarrow> PaletteItem \<Rightarrow> bool" where
  "lite_rejects fx item \<longleftrightarrow>
     \<not> pe_local_asr (fx_palette fx)
     \<and> (case view_AsrProvider (fx_config fx) (pi_provider_id item) of Some p \<Rightarrow> is_local p | None \<Rightarrow> False)"

definition asr_choice :: "CoreConfig \<Rightarrow> PaletteItem \<Rightarrow> string + CoreConfig" where
  "asr_choice c item =
     (let c1 = c\<lparr>cc_activeProvider := pi_provider_id item\<rparr>
      in if pi_model_id item \<noteq> [] then SetPreferredLocalModel c1 (pi_model_id item) else Inr c1)"

definition reload_backend :: "'k fcitx \<Rightarrow> PaletteItem \<Rightarrow> 'k engine \<Rightarrow> 'k engine" where
  "reload_backend fx item e =
     (let done_text = sprintf fx (tr fx (''ASR switch requested for '' @ in_quotes ''%s'' @ ''.'')) [pi_text item]
      in case queryDaemonStatus fx e of
           (status, e1) \<Rightarrow>
             if status = [] then notifyInfo done_text e1
             else case callReloadAsrBackend fx e1 of
               (Some err, e2) \<Rightarrow> notifyError (if err = [] then tr fx ''Failed to reload ASR backend.'' else err) e2
             | (None, e2) \<Rightarrow> notifyInfo done_text e2)"

definition select_asr :: "'k fcitx \<Rightarrow> PaletteItem \<Rightarrow> 'k engine \<Rightarrow> 'k engine" where
  "select_asr fx item e =
     (if lite_rejects fx item then
        notifyError (sprintf fx (tr fx (''ASR provider '' @ in_quotes ''%s'' @
          '' is a local provider, which is not supported in this Lite build.'')) [pi_provider_id item]) e
      else case asr_choice (fx_config fx) item of
        Inl err \<Rightarrow> notifyError err e
      | Inr c \<Rightarrow>
          (let e1 = issue (SaveConfig c) e in
           if \<not> fx_save fx c then notifyError (tr fx ''Failed to save ASR config.'') e1
           else reload_backend fx item e1))"

definition select_scene :: "'k fcitx \<Rightarrow> PaletteItem \<Rightarrow> 'k engine \<Rightarrow> 'k engine" where
  "select_scene fx item e =
     (let c = (fx_config fx)\<lparr>cc_activeScene := pi_scene_id item\<rparr>; e1 = issue (SaveConfig c) e
      in if \<not> fx_save fx c then notifyError (tr fx ''Failed to save scene config.'') e1
         else notifyInfo (sprintf fx (tr fx (''Scene switched to '' @ in_quotes ''%s'' @ ''.'')) [pi_text item])
                (e1\<lparr>en_active_scene_id := pi_scene_id item\<rparr>))"

definition select_adapter :: "'k fcitx \<Rightarrow> PaletteItem \<Rightarrow> 'k engine \<Rightarrow> 'k engine" where
  "select_adapter fx item e =
     (if pi_adapter_running item then
        (case callStopAdapter fx (pi_adapter_id item) e of
           (Some err, e1) \<Rightarrow> notifyError (if err = [] then tr fx ''Failed to stop adapter.'' else err) e1
         | (None, e1) \<Rightarrow>
             notifyInfo (sprintf fx (tr fx (''Adapter '' @ in_quotes ''%s'' @ '' stopped.'')) [pi_text item]) e1)
      else
        (case callStartAdapter fx (pi_adapter_id item) e of
           (Some err, e1) \<Rightarrow> notifyError (if err = [] then tr fx ''Failed to start adapter.'' else err) e1
         | (None, e1) \<Rightarrow>
             notifyInfo (sprintf fx (tr fx (''Adapter '' @ in_quotes ''%s'' @ '' started.'')) [pi_text item]) e1))"

text \<open>\<open>onSelect\<close> of the four commands.\<close>

fun on_select :: "'k fcitx \<Rightarrow> palette_handler \<Rightarrow> PaletteItem \<Rightarrow> 'k engine \<Rightarrow> 'k engine" where
  "on_select fx ModelHandlers = select_model fx"
| "on_select fx AsrHandlers = select_asr fx"
| "on_select fx SceneHandlers = select_scene fx"
| "on_select fx ProcHandlers = select_adapter fx"

definition selectPaletteItem :: "'k fcitx \<Rightarrow> nat \<Rightarrow> nat \<Rightarrow> 'k engine \<Rightarrow> 'k engine" where
  "selectPaletteItem fx index ic e =
     (if index \<ge> length (mn_items (en_menu e)) then hidePaletteMenu e
      else
        (let item = mn_items (en_menu e) ! index in
         if pi_is_command_entry item then
           rebuildPaletteMenu fx
             (if mn_palette_ic (en_menu e) \<noteq> None then mn_palette_ic (en_menu e) else Some ic)
             (e\<lparr>en_menu := (en_menu e)\<lparr>mn_query := entry_query item\<rparr>\<rparr>)
         else
           (case findByCategory (en_registry e) (pi_category item) of
              Some cmd \<Rightarrow> on_select fx (pc_handlers cmd) item (hidePaletteMenu e)
            | None \<Rightarrow> hidePaletteMenu e)))"

section \<open>The list of results\<close>

definition ResultMenuTitle :: "'k fcitx \<Rightarrow> nat \<Rightarrow> string" where
  "ResultMenuTitle fx count = take 127 (sprintf fx (tr fx ''Choose Result (%zu)'') [to_string (int count)])"

definition ResultCandidateComment :: "'k fcitx \<Rightarrow> Candidate \<Rightarrow> string" where
  "ResultCandidateComment fx c =
     (if cd_source c = kSourceRaw then tr fx ''Original''
      else if cd_source c = kSourceAsr then tr fx ''Voice Command''
      else [])"

definition showResultMenu :: "'k fcitx \<Rightarrow> nat \<Rightarrow> Payload \<Rightarrow> 'k engine \<Rightarrow> 'k engine" where
  "showResultMenu fx ic payload e =
     (if pl_candidates payload = [] then e
      else
        (let e1 = hidePaletteMenu e; cs = pl_candidates payload
         in issue (ShowMenu ic (ResultMenuTitle fx (length cs))
                   (map (\<lambda>j. (ResultWord j, cd_text (cs ! j), ResultCandidateComment fx (cs ! j))) [0..<length cs]))
              (e1\<lparr>en_menu := (en_menu e1)\<lparr>mn_result_ic := Some ic, mn_result_visible := True,
                                          mn_candidates := cs\<rparr>\<rparr>)))"

text \<open>Command mode replaces the selected text: it is deleted before the commit.\<close>

definition delete_selection :: "'k fcitx \<Rightarrow> nat \<Rightarrow> 'k engine \<Rightarrow> 'k engine" where
  "delete_selection fx ic e =
     (case fx_surrounding fx ic of
        Some (_, cursor, anchor) \<Rightarrow>
          if cursor \<noteq> anchor then
            issue (DeleteSurrounding ic (int (min cursor anchor) - int cursor) \<bar>int cursor - int anchor\<bar>) e
          else e
      | None \<Rightarrow> e)"

definition selectResultCandidate :: "'k fcitx \<Rightarrow> nat \<Rightarrow> nat \<Rightarrow> 'k engine \<Rightarrow> 'k engine" where
  "selectResultCandidate fx index ic e =
     (if index \<ge> length (mn_candidates (en_menu e)) then hideResultMenu e
      else
        (let chosen = mn_candidates (en_menu e) ! index;
             e1 = hideResultMenu e;
             e2 = (if cd_source chosen = kSourceLlm then appendContextEntry fx (cd_text chosen) ''llm'' e1 else e1);
             e3 = suppressNextCommitContext (cd_text chosen) e2;
             e4 = (if mn_result_is_command (en_menu e3) then
                     (let d = delete_selection fx ic e3 in d\<lparr>en_menu := (en_menu d)\<lparr>mn_result_is_command := False\<rparr>\<rparr>)
                   else e3)
         in issue (CommitText ic (cd_text chosen)) e4))"

definition select_word :: "'k fcitx \<Rightarrow> menu_word \<Rightarrow> nat \<Rightarrow> 'k engine \<Rightarrow> 'k engine" where
  "select_word fx w ic e =
     (case w of PaletteWord i \<Rightarrow> selectPaletteItem fx i ic e | ResultWord i \<Rightarrow> selectResultCandidate fx i ic e)"

definition asr_candidate :: "bool \<Rightarrow> string \<Rightarrow> Candidate list \<Rightarrow> Candidate option" where
  "asr_candidate is_command selected cs =
     (case find (\<lambda>c. cd_source c = kSourceAsr) cs of
        Some c \<Rightarrow> Some c
      | None \<Rightarrow> find (\<lambda>c. cd_source c = kSourceRaw \<and> (\<not> is_command \<or> cd_text c \<noteq> selected)) cs)"

definition onRecognitionResult :: "'k fcitx \<Rightarrow> string \<Rightarrow> 'k engine \<Rightarrow> 'k engine" where
  "onRecognitionResult fx payload_text e =
     (let is_command = (case en_session e of Some s \<Rightarrow> vs_command_mode s | None \<Rightarrow> False);
          selected = (if is_command then en_command_selected_text e else []) in
      case resolveFrontendInputContext None e of
        None \<Rightarrow> e
      | Some ic \<Rightarrow>
          (let payload = result_Parse (fx_parse fx) payload_text;
               cs = pl_candidates payload;
               commit = pl_commitText payload;
               e1 = finishFrontendSession (Some ic) (rememberInputContext (Some ic) e)
           in if commit = [] then e1
              else
                (let e2 = (case asr_candidate is_command selected cs of
                             Some c \<Rightarrow> if cd_text c \<noteq> [] then appendContextEntry fx (cd_text c) ''asr'' e1 else e1
                           | None \<Rightarrow> e1);
                     llm_count = length (filter (\<lambda>c. cd_source c = kSourceLlm) cs);
                     commit_from_llm = list_ex (\<lambda>c. cd_source c = kSourceLlm \<and> cd_text c = commit) cs
                 in if (if is_command then llm_count > 1 else length cs > 1) then
                      showResultMenu fx ic payload
                        (e2\<lparr>en_menu := (en_menu e2)\<lparr>mn_result_is_command := is_command\<rparr>\<rparr>)
                    else
                      (let e3 = suppressNextCommitContext commit
                                  (if commit_from_llm then appendContextEntry fx commit ''llm'' e2 else e2)
                       in issue (CommitText ic commit)
                            (if is_command then delete_selection fx ic e3 else e3)))))"

section \<open>Menu keys\<close>

definition ChangeCandidatePage :: "'k fcitx \<Rightarrow> nat \<Rightarrow> bool \<Rightarrow> 'k engine \<Rightarrow> 'k engine" where
  "ChangeCandidatePage fx ic next_page e =
     (if pn_words (fx_panel fx ic) \<noteq> None \<and> pn_can_turn (fx_panel fx ic) next_page
      then issue (TurnPage ic next_page) e else e)"

definition accept :: "'k engine \<Rightarrow> bool \<times> 'k engine" where
  "accept e = (True, issue AcceptKey e)"

text \<open>Pressing Enter chooses the word under the cursor, or the first one.\<close>

definition word_at :: "panel \<Rightarrow> int \<Rightarrow> menu_word option" where
  "word_at pn i =
     (case pn_words pn of
        None \<Rightarrow> None
      | Some ws \<Rightarrow> if 0 \<le> i \<and> nat i < length ws then Some (ws ! nat i) else None)"

definition move_cursor :: "panel \<Rightarrow> bool" where
  "move_cursor pn \<longleftrightarrow> pn_words pn \<noteq> None \<and> pn_movable pn"

definition edit_query :: "'k fcitx \<Rightarrow> nat \<Rightarrow> string \<Rightarrow> 'k engine \<Rightarrow> 'k engine" where
  "edit_query fx ic q e = rebuildPaletteMenu fx (Some ic) (e\<lparr>en_menu := (en_menu e)\<lparr>mn_query := q\<rparr>\<rparr>)"

definition palette_key_press :: "'k fcitx \<Rightarrow> 'k \<Rightarrow> nat \<Rightarrow> 'k engine \<Rightarrow> bool \<times> 'k engine" where
  "palette_key_press fx key ic e =
     (let pn = fx_panel fx ic; q = mn_query (en_menu e); digit = k_digitSelection fx key in
      if IsPureModifierKey fx key then accept e
      else if IsEscapeKey fx key then
        accept (if q \<noteq> [] then edit_query fx ic [] e else hidePaletteMenu e)
      else if IsBackspaceKey fx key then
        accept (if q \<noteq> [] then edit_query fx ic (PopLastUtf8Char q) e else hidePaletteMenu e)
      else if IsPrintableMenuInput fx key then
        accept (edit_query fx ic (q @ k_symToUTF8 fx (k_sym fx (k_normalize fx key))) e)
      else if IsPagePrevKey fx key then accept (ChangeCandidatePage fx ic False e)
      else if IsPageNextKey fx key then accept (ChangeCandidatePage fx ic True e)
      else case word_at pn digit of
        Some w \<Rightarrow> accept (select_word fx w ic e)
      | None \<Rightarrow>
          if move_cursor pn \<and> IsUpKey fx key then accept (issue (MoveCursor ic False) e)
          else if move_cursor pn \<and> IsDownKey fx key then accept (issue (MoveCursor ic True) e)
          else if IsEnterKey fx key then
            accept (case word_at pn (max (pn_cursor pn) 0) of
                      Some w \<Rightarrow> select_word fx w ic e
                    | None \<Rightarrow> hidePaletteMenu e)
          else (False, hidePaletteMenu e))"

definition handlePaletteMenuKeyEvent :: "'k fcitx \<Rightarrow> 'k key_event \<Rightarrow> 'k engine \<Rightarrow> bool \<times> 'k engine" where
  "handlePaletteMenuKeyEvent fx ev e =
     (case (mn_palette_visible (en_menu e), mn_palette_ic (en_menu e)) of
        (True, Some ic) \<Rightarrow>
          (let key = ke_key ev;
               handled_key = (navigation_key fx key \<or> k_digitSelection fx key \<ge> 0 \<or> IsPrintableMenuInput fx key)
           in if matchKeyListIndex fx key (se_menu_keys (en_settings e)) (ke_release ev) \<noteq> None then (False, e)
              else if ke_release ev then (if handled_key then accept e else (False, e))
              else if \<not> handled_key then (False, hidePaletteMenu e)
              else palette_key_press fx key ic e)
      | _ \<Rightarrow> (False, e))"

definition result_key :: "'k fcitx \<Rightarrow> 'k \<Rightarrow> 'k engine \<Rightarrow> bool" where
  "result_key fx key e \<longleftrightarrow>
     k_digitSelection fx key \<ge> 0 \<or> k_checkKeyList fx key (se_page_prev_keys (en_settings e))
     \<or> k_checkKeyList fx key (se_page_next_keys (en_settings e)) \<or> k_check fx key FcitxKey_Up
     \<or> k_check fx key FcitxKey_Down \<or> k_check fx key FcitxKey_Return \<or> k_check fx key FcitxKey_KP_Enter
     \<or> k_check fx key FcitxKey_Escape"

definition result_key_press :: "'k fcitx \<Rightarrow> 'k \<Rightarrow> nat \<Rightarrow> 'k engine \<Rightarrow> bool \<times> 'k engine" where
  "result_key_press fx key ic e =
     (let pn = fx_panel fx ic; digit = k_digitSelection fx key in
      if k_check fx key FcitxKey_Escape then accept (hideResultMenu e)
      else if value_or (pn_words pn) [] = [] \<or> mn_candidates (en_menu e) = [] then (False, hideResultMenu e)
      else if k_checkKeyList fx key (se_page_prev_keys (en_settings e)) then
        accept (ChangeCandidatePage fx ic False e)
      else if k_checkKeyList fx key (se_page_next_keys (en_settings e)) then
        accept (ChangeCandidatePage fx ic True e)
      else case word_at pn digit of
        Some w \<Rightarrow> accept (select_word fx w ic e)
      | None \<Rightarrow>
          if move_cursor pn \<and> k_check fx key FcitxKey_Up then accept (issue (MoveCursor ic False) e)
          else if move_cursor pn \<and> k_check fx key FcitxKey_Down then accept (issue (MoveCursor ic True) e)
          else if k_check fx key FcitxKey_Return \<or> k_check fx key FcitxKey_KP_Enter then
            accept (case word_at pn (max (pn_cursor pn) 0) of
                      Some w \<Rightarrow> select_word fx w ic e
                    | None \<Rightarrow> hideResultMenu e)
          else (False, hideResultMenu e))"

definition handleResultMenuKeyEvent :: "'k fcitx \<Rightarrow> 'k key_event \<Rightarrow> 'k engine \<Rightarrow> bool \<times> 'k engine" where
  "handleResultMenuKeyEvent fx ev e =
     (case (mn_result_visible (en_menu e), mn_result_ic (en_menu e)) of
        (True, Some ic) \<Rightarrow>
          if ke_release ev then (if result_key fx (ke_key ev) e then accept e else (False, e))
          else result_key_press fx (ke_key ev) ic e
      | _ \<Rightarrow> (False, e))"

section \<open>Hotkeys\<close>

definition selection_text :: "'k fcitx \<Rightarrow> nat \<Rightarrow> string" where
  "selection_text fx ic =
     (case fx_surrounding fx ic of
        Some (t, cursor, anchor) \<Rightarrow>
          if cursor \<noteq> anchor \<and> fx_validate fx t then
            (let byte_from = fx_nchar_bytes fx t (min cursor anchor);
                 byte_len = fx_nchar_bytes fx (drop byte_from t) (max cursor anchor - min cursor anchor)
             in substr t byte_from byte_len)
          else []
      | None \<Rightarrow> [])"

definition selected_or_primary :: "'k fcitx \<Rightarrow> nat \<Rightarrow> string" where
  "selected_or_primary fx ic =
     (if selection_text fx ic \<noteq> [] then selection_text fx ic
      else case fx_clipboard fx ic of
        Some primary \<Rightarrow> if fx_validate fx primary then primary else []
      | None \<Rightarrow> [])"

text \<open>Why command mode cannot start, if it cannot.\<close>

definition command_obstacle :: "'k fcitx \<Rightarrow> string option" where
  "command_obstacle fx =
     (let c = fx_config fx in
      case CommandScene c of
        None \<Rightarrow> Some (tr fx ''Command mode is disabled (candidate count is 0).'')
      | Some s \<Rightarrow>
          if sc_llm_max_candidates s \<le> 0 then
            Some (tr fx ''Command mode is disabled (candidate count is 0).'')
          else if sc_provider_id s = []
              \<or> view_LlmProvider c (sc_provider_id s) = None \<and> view_LlmAdapter c (sc_provider_id s) = None then
            Some (tr fx ''No LLM provider configured for command mode.'')
          else None)"

definition start_or_report :: "'k fcitx \<Rightarrow> nat \<Rightarrow> bool \<times> 'k engine \<Rightarrow> 'k engine" where
  "start_or_report fx ic r =
     (case r of
        (True, e) \<Rightarrow> e
      | (False, e) \<Rightarrow>
          (let e1 = finishFrontendSession (Some ic) e in
           if \<not> ln_bus (en_link e1) then
             updateVoicePresentation (Some ic) (tr fx ''Voice input daemon is temporarily unavailable.'') [] e1
           else if \<not> daemonSyncAllowed fx e1 then
             updateVoicePresentation (Some ic) (tr fx ''Voice input daemon is not responding.'') [] e1
           else e1))"

definition start_command :: "'k fcitx \<Rightarrow> nat \<Rightarrow> 'k \<Rightarrow> 'k engine \<Rightarrow> 'k engine" where
  "start_command fx ic trigger e =
     (case command_obstacle fx of
        Some msg \<Rightarrow> updateVoicePresentation (Some ic) msg [] (finishFrontendSession (Some ic) e)
      | None \<Rightarrow>
          if selected_or_primary fx ic = [] then
            updateVoicePresentation (Some ic) (tr fx ''Please select text first.'') []
              (if en_status_ic e = Some ic then finishFrontendSession (Some ic) e
               else clearVoicePresentation (Some ic) e)
          else
            start_or_report fx ic (callStartCommandRecording fx (selected_or_primary fx ic)
              (enterPendingStartState fx (Some ic) trigger True e)))"

definition startVoiceRecording :: "'k fcitx \<Rightarrow> nat \<Rightarrow> 'k \<Rightarrow> bool \<Rightarrow> 'k engine \<Rightarrow> 'k engine" where
  "startVoiceRecording fx ic trigger is_command e0 =
     (let e = cancelPendingStop (dismissMenusForVoiceActivity e0);
          daemon_status = ln_last_status (en_link e)
      in if \<not> is_command \<and> en_session e = None \<and> daemon_status = StatusToString Recording then
           finishStopRecording fx (enterRecordingState fx (Some ic) trigger False e)
         else if daemon_status \<noteq> [] \<and> daemon_status \<noteq> StatusToString Idle then
           applyDaemonStatusLocally fx daemon_status (Some ic) is_command e
         else if is_command then start_command fx ic trigger e
         else
           start_or_report fx ic (callStartRecording fx (enterPendingStartState fx (Some ic) trigger False e)))"

definition cancelPendingStart :: "'k engine \<Rightarrow> 'k engine" where
  "cancelPendingStart e = e\<lparr>en_hot := (en_hot e)\<lparr>hk_role := RoleNone, hk_key_sym := None\<rparr>\<rparr>"

definition abort_session :: "'k voice_session \<Rightarrow> 'k engine \<Rightarrow> 'k engine" where
  "abort_session s e =
     clearVoicePresentation (Some (vs_ic s))
       (finishFrontendSession (Some (vs_ic s)) (callCancelOperation False e))"

definition regular_key_press :: "'k engine \<Rightarrow> 'k engine" where
  "regular_key_press e =
     (if hk_role (en_hot e) = RoleNone then e
      else
        (let e1 = cancelPendingStart (e\<lparr>en_hot := (en_hot e)\<lparr>hk_chord_interrupted := True\<rparr>\<rparr>) in
         case en_session e1 of
           Some s \<Rightarrow> if vs_stop_on_release s \<and> \<not> vs_trigger_released s then abort_session s e1 else e1
         | None \<Rightarrow> e1))"

definition recording_active :: "'k voice_session \<Rightarrow> bool" where
  "recording_active s \<longleftrightarrow> vs_phase s = PhRecording \<or> vs_phase s = PhPendingStart"

definition second_press :: "'k fcitx \<Rightarrow> 'k \<Rightarrow> 'k voice_session \<Rightarrow> 'k engine \<Rightarrow> 'k engine" where
  "second_press fx matched_key s e =
     (if vs_trigger s = matched_key then
        (if vs_trigger_released s then
           (if vs_phase s = PhPendingStart then abort_session s e else finishStopRecording fx e)
         else e)
      else abort_session s e)"

definition mark_session :: "int \<Rightarrow> bool \<Rightarrow> bool \<Rightarrow> 'k engine \<Rightarrow> 'k engine" where
  "mark_session now released stop_on_release e =
     e\<lparr>en_session := map_option (\<lambda>s. s\<lparr>vs_press_time := now, vs_stop_on_release := stop_on_release,
         vs_trigger_released := released\<rparr>) (en_session e)\<rparr>"

definition new_press :: "'k fcitx \<Rightarrow> nat \<Rightarrow> HotkeyRole \<Rightarrow> 'k \<Rightarrow> nat \<Rightarrow> 'k engine \<Rightarrow> 'k engine" where
  "new_press fx event_sym role matched_key ic e =
     (let e1 = e\<lparr>en_hot := (en_hot e)\<lparr>hk_key_sym := Some event_sym, hk_role := role,
                                     hk_chord_interrupted := False, hk_press_time := fx_now fx\<rparr>\<rparr>
      in if role \<noteq> RoleMenu \<and> se_trigger_mode (en_settings e1) \<noteq> Tap then
           mark_session (fx_now fx) False True (startVoiceRecording fx ic matched_key (role = RoleCommand) e1)
         else e1)"

definition hotkey_press :: "'k fcitx \<Rightarrow> nat \<Rightarrow> HotkeyRole \<Rightarrow> 'k \<Rightarrow> nat \<Rightarrow> 'k engine \<Rightarrow> 'k engine" where
  "hotkey_press fx event_sym role matched_key ic e =
     (if role = RoleMenu then new_press fx event_sym role matched_key ic e
      else
        (let since_last = fx_now fx - hk_last_trigger_time (en_hot e);
             e1 = e\<lparr>en_hot := (en_hot e)\<lparr>hk_last_trigger_time := fx_now fx\<rparr>\<rparr>
         in if since_last < kTriggerDebounce then e1
            else
              (let e2 = cancelPendingStop (dismissMenusForVoiceActivity e1) in
               case en_session e2 of
                 Some s \<Rightarrow>
                   if recording_active s then second_press fx matched_key s e2
                   else new_press fx event_sym role matched_key ic e2
               | None \<Rightarrow> new_press fx event_sym role matched_key ic e2)))"

definition stop_if_recording :: "'k fcitx \<Rightarrow> 'k engine \<Rightarrow> 'k engine" where
  "stop_if_recording fx e =
     (case en_session e of
        Some s \<Rightarrow> if vs_phase s = PhRecording then scheduleStopRecording fx e else e
      | None \<Rightarrow> e)"

definition released :: "bool \<Rightarrow> 'k engine \<Rightarrow> 'k engine" where
  "released keep e =
     e\<lparr>en_session := map_option (\<lambda>s. s\<lparr>vs_trigger_released := True,
         vs_stop_on_release := (vs_stop_on_release s \<and> keep)\<rparr>) (en_session e)\<rparr>"

definition trigger_release :: "'k fcitx \<Rightarrow> HotkeyRole \<Rightarrow> 'k \<Rightarrow> nat \<Rightarrow> 'k engine \<Rightarrow> 'k engine" where
  "trigger_release fx role matched_key ic e =
     (case se_trigger_mode (en_settings e) of
        Hold \<Rightarrow> stop_if_recording fx e
      | Tap \<Rightarrow>
          if en_session e = None then
            mark_session (fx_now fx) True False (startVoiceRecording fx ic matched_key (role = RoleCommand) e)
          else stop_if_recording fx e
      | Both \<Rightarrow>
          if fx_now fx - hk_press_time (en_hot e) < kTapMaxHoldDuration then released False e
          else stop_if_recording fx e)"

definition active_release ::
    "'k fcitx \<Rightarrow> HotkeyRole \<Rightarrow> 'k \<Rightarrow> nat \<Rightarrow> 'k engine \<Rightarrow> 'k engine" where
  "active_release fx role matched_key ic e =
     (if role = RoleMenu then (if en_session e = None then toggleCommandPalette fx ic e else e)
      else trigger_release fx role matched_key ic e)"

definition session_release :: "'k fcitx \<Rightarrow> 'k \<Rightarrow> 'k engine \<Rightarrow> 'k engine" where
  "session_release fx matched_key e =
     (case en_session e of
        Some s \<Rightarrow>
          if vs_trigger s = matched_key then
            (let e1 = released True e in if vs_stop_on_release s then stop_if_recording fx e1 else e1)
          else e
      | None \<Rightarrow> e)"

definition hotkey_release :: "'k fcitx \<Rightarrow> nat \<Rightarrow> HotkeyRole \<Rightarrow> 'k \<Rightarrow> nat \<Rightarrow> 'k engine \<Rightarrow> 'k engine" where
  "hotkey_release fx event_sym role matched_key ic e =
     (if hk_role (en_hot e) = role \<and> hk_key_sym (en_hot e) = Some event_sym then
        (let e1 = cancelPendingStart e in
         if hk_chord_interrupted (en_hot e1) then
           cancelPendingStart (e1\<lparr>en_hot := (en_hot e1)\<lparr>hk_chord_interrupted := False\<rparr>\<rparr>)
         else session_release fx matched_key (active_release fx role matched_key ic e1))
      else session_release fx matched_key e)"

text \<open>The role of a key and the entry of the configured list that it matches.\<close>

definition hotkey_role :: "'k fcitx \<Rightarrow> 'k \<Rightarrow> bool \<Rightarrow> 'k engine \<Rightarrow> (HotkeyRole \<times> 'k) option" where
  "hotkey_role fx key is_release e =
     (let se = en_settings e in
      case matchKeyListIndex fx key (se_trigger_keys se) is_release of
        Some i \<Rightarrow> Some (RoleTrigger, se_trigger_keys se ! i)
      | None \<Rightarrow>
          (case matchKeyListIndex fx key (se_command_keys se) is_release of
             Some i \<Rightarrow> Some (RoleCommand, se_command_keys se ! i)
           | None \<Rightarrow>
               (case matchKeyListIndex fx key (se_menu_keys se) is_release of
                  Some i \<Rightarrow> Some (RoleMenu, se_menu_keys se ! i)
                | None \<Rightarrow> None)))"

definition hotkeys :: "'k fcitx \<Rightarrow> 'k key_event \<Rightarrow> 'k engine \<Rightarrow> 'k engine" where
  "hotkeys fx ev e =
     (let event_key = k_normalize fx (ke_orig_key ev) in
      case hotkey_role fx event_key (ke_release ev) e of
        None \<Rightarrow> if ke_release ev then e else regular_key_press e
      | Some (role, matched_key) \<Rightarrow>
          issue AcceptKey
            (if ke_release ev then hotkey_release fx (k_sym fx event_key) role matched_key (ke_ic ev) e
             else hotkey_press fx (k_sym fx event_key) role matched_key (ke_ic ev) e))"

text \<open>Escape and Enter while the language model works: \<open>Some commit_raw\<close> when the key cancels.\<close>

definition cancel_key :: "'k fcitx \<Rightarrow> 'k key_event \<Rightarrow> 'k engine \<Rightarrow> bool option" where
  "cancel_key fx ev e =
     (case en_session e of
        Some s \<Rightarrow>
          if vs_phase s = PhPostprocessing \<and> ln_last_status (en_link e) = StatusToString Postprocessing then
            (let commit_raw = (vs_raw_prev s \<and> \<not> vs_command_mode s
                   \<and> (k_check fx (ke_key ev) FcitxKey_Return \<or> k_check fx (ke_key ev) FcitxKey_KP_Enter))
             in if k_check fx (ke_key ev) FcitxKey_Escape \<or> commit_raw then Some commit_raw else None)
          else None
      | None \<Rightarrow> None)"

definition swallowed_release :: "'k fcitx \<Rightarrow> 'k key_event \<Rightarrow> 'k engine \<Rightarrow> bool" where
  "swallowed_release fx ev e =
     (case hk_pending_postprocessing_release (en_hot e) of
        Some k \<Rightarrow> ke_release ev \<and> k_sym fx (k_normalize fx (ke_key ev)) = k_sym fx (k_normalize fx k)
      | None \<Rightarrow> False)"

definition menu_keys :: "'k fcitx \<Rightarrow> 'k key_event \<Rightarrow> 'k engine \<Rightarrow> 'k engine" where
  "menu_keys fx ev e =
     (case (if mn_result_visible (en_menu e) then handleResultMenuKeyEvent fx ev e else (False, e)) of
        (True, e1) \<Rightarrow> e1
      | (False, e1) \<Rightarrow>
          (case (if mn_palette_visible (en_menu e1) then handlePaletteMenuKeyEvent fx ev e1 else (False, e1)) of
             (True, e2) \<Rightarrow> e2
           | (False, e2) \<Rightarrow> hotkeys fx ev e2))"

definition handleKeyEvent :: "'k fcitx \<Rightarrow> 'k key_event \<Rightarrow> 'k engine \<Rightarrow> 'k engine" where
  "handleKeyEvent fx ev e0 =
     (let e = rememberInputContext (Some (ke_ic ev)) e0 in
      if swallowed_release fx ev e then
        issue AcceptKey (e\<lparr>en_hot := (en_hot e)\<lparr>hk_pending_postprocessing_release := None\<rparr>\<rparr>)
      else case cancel_key fx ev e of
        Some commit_raw \<Rightarrow>
          issue AcceptKey
            (if ke_release ev then e
             else callCancelOperation commit_raw
               (e\<lparr>en_hot := (en_hot e)\<lparr>hk_pending_postprocessing_release := Some (ke_key ev)\<rparr>\<rparr>))
      | None \<Rightarrow> menu_keys fx ev e)"

section \<open>Events\<close>

definition onContextDestroyed :: "'k fcitx \<Rightarrow> nat \<Rightarrow> 'k engine \<Rightarrow> 'k engine" where
  "onContextDestroyed fx ic e =
     (let e1 = (case en_session e of
                  Some s \<Rightarrow>
                    if vs_ic s = ic then
                      (let c = (if vs_phase s \<noteq> PhInferring then callCancelOperation False e else e)
                       in c\<lparr>en_session := None, en_link := (en_link c)\<lparr>ln_polled_idle_since := None\<rparr>\<rparr>)
                    else e
                | None \<Rightarrow> e);
          e2 = (if en_status_ic e1 = Some ic then stopStatusSyncIfIdle (e1\<lparr>en_status_ic := None\<rparr>) else e1);
          e3 = (if en_last_active_ic e2 = Some ic then e2\<lparr>en_last_active_ic := None\<rparr> else e2);
          e4 = (if mn_palette_ic (en_menu e3) = Some ic then resetPaletteMenuState e3 else e3);
          e5 = (if mn_result_ic (en_menu e4) = Some ic then resetResultMenuState e4 else e4)
      in if cx_ic (en_ctx e5) = Some ic then flushContextBuffer fx e5 else e5)"

definition onFocusOut :: "nat \<Rightarrow> 'k engine \<Rightarrow> 'k engine" where
  "onFocusOut ic e =
     (let e1 = e\<lparr>en_hot := (en_hot e)\<lparr>hk_key_sym := None, hk_role := RoleNone, hk_chord_interrupted := True\<rparr>\<rparr> in
      case en_session e1 of
        Some s \<Rightarrow> if vs_ic s = ic \<and> vs_stop_on_release s then abort_session s e1 else e1
      | None \<Rightarrow> e1)"

definition applySettings :: "'k fcitx \<Rightarrow> 'k settings \<Rightarrow> 'k engine \<Rightarrow> 'k engine" where
  "applySettings fx se e = reloadPaletteItems fx (reloadSceneConfig fx (e\<lparr>en_settings := se\<rparr>))"

datatype 'k engine_event =
  KeyEvent "'k key_event"
| ContextCreated nat
| ContextDestroyed nat
| FocusOut nat
| CommitString string nat
| ResultSignal string
| PartialSignal string
| StatusSignal string
| StartReply reply
| StopReply reply
| StatusReply reply
| StatusTimer
| StopTimer
| ContextTimer
| SelectWord menu_word nat
| SetConfig "'k settings"

fun engine_step :: "'k engine \<Rightarrow> 'k fcitx \<times> 'k engine_event \<Rightarrow> 'k engine" where
  "engine_step e (fx, KeyEvent ev) = handleKeyEvent fx ev e"
| "engine_step e (fx, ContextCreated ic) = rememberInputContext (Some ic) e"
| "engine_step e (fx, ContextDestroyed ic) = onContextDestroyed fx ic e"
| "engine_step e (fx, FocusOut ic) = onFocusOut ic e"
| "engine_step e (fx, CommitString t ic) = onCommitString fx t ic e"
| "engine_step e (fx, ResultSignal t) = onRecognitionResult fx t e"
| "engine_step e (fx, PartialSignal t) = handleRecognitionPartial fx t e"
| "engine_step e (fx, StatusSignal t) = onStatusChanged fx t e"
| "engine_step e (fx, StartReply r) = onStartReply fx r e"
| "engine_step e (fx, StopReply r) = onStopReply fx r e"
| "engine_step e (fx, StatusReply r) = onStatusReply fx r e"
| "engine_step e (fx, StatusTimer) = fire_status_timer fx e"
| "engine_step e (fx, StopTimer) = fire_stop_timer fx e"
| "engine_step e (fx, ContextTimer) = fire_context_timer fx e"
| "engine_step e (fx, SelectWord w ic) = select_word fx w ic e"
| "engine_step e (fx, SetConfig se) = applySettings fx se e"

text \<open>The engine after its constructor, with the bus that the D-Bus addon offers, if it is there.\<close>

definition blank_engine :: "'k fcitx \<Rightarrow> bool \<Rightarrow> 'k settings \<Rightarrow> string option \<Rightarrow> 'k engine" where
  "blank_engine fx bus se cache =
     \<lparr>en_session = None, en_status_ic = None, en_last_active_ic = None, en_command_selected_text = [],
      en_stop_timer = None, en_active_scene_id = [],
      en_scene_config = \<lparr>activeSceneId = [], scenes = []\<rparr>,
      en_registry = initializePaletteRegistry (tr fx), en_settings = se,
      en_menu = \<lparr>mn_palette_ic = None, mn_palette_visible = False, mn_items = [], mn_filtered = [],
                 mn_query = [], mn_result_ic = None, mn_result_visible = False, mn_candidates = [],
                 mn_result_is_command = False\<rparr>,
      en_hot = \<lparr>hk_key_sym = None, hk_role = RoleNone, hk_chord_interrupted = False, hk_press_time = 0,
                hk_last_trigger_time = 0, hk_pending_postprocessing_release = None\<rparr>,
      en_ctx = \<lparr>cx_suppressed = None, cx_text = [], cx_ic = None, cx_timer = None, cx_max_lines = 0\<rparr>,
      en_link = \<lparr>ln_bus = bus, ln_blocked_until = 0, ln_last_status = [], ln_polled_idle_since = None,
                 ln_gate = new_gate, ln_status_call = None, ln_start_call = False, ln_stop_call = False,
                 ln_status_timer = None\<rparr>,
      en_model_cache = cache, en_out = []\<rparr>"

definition new_engine :: "'k fcitx \<Rightarrow> bool \<Rightarrow> 'k settings \<Rightarrow> string option \<Rightarrow> 'k engine" where
  "new_engine fx bus se cache = applySettings fx se (blank_engine fx bus se cache)"

end
