(* ===== verification/Addon_Invariant.thy ===== *)
theory Addon_Invariant
  imports Addon_Keys
begin

text \<open>
  The invariant of the addon's engine over every sequence of events, by the frame of each operation: an
  operation on menus, on the context buffer or on the daemon link leaves the rest of the engine as it is.
\<close>

section \<open>What an operation leaves alone\<close>

definition menu_frame :: "'k engine \<Rightarrow> 'k engine \<Rightarrow> bool" where
  "menu_frame e e' \<longleftrightarrow> e' = e\<lparr>en_menu := en_menu e', en_out := en_out e'\<rparr>"

definition ctx_frame :: "'k engine \<Rightarrow> 'k engine \<Rightarrow> bool" where
  "ctx_frame e e' \<longleftrightarrow> e' = e\<lparr>en_ctx := en_ctx e', en_out := en_out e'\<rparr>"

definition link_frame :: "'k engine \<Rightarrow> 'k engine \<Rightarrow> bool" where
  "link_frame e e' \<longleftrightarrow> e' = e\<lparr>en_link := en_link e', en_out := en_out e'\<rparr>"

lemma menu_frameD:
  assumes "menu_frame e e'"
  shows "en_session e' = en_session e" "en_status_ic e' = en_status_ic e" "en_stop_timer e' = en_stop_timer e"
    "en_settings e' = en_settings e" "en_hot e' = en_hot e" "en_ctx e' = en_ctx e" "en_link e' = en_link e"
    "en_last_active_ic e' = en_last_active_ic e" "en_active_scene_id e' = en_active_scene_id e"
    "en_scene_config e' = en_scene_config e" "en_registry e' = en_registry e"
    "en_command_selected_text e' = en_command_selected_text e"
  by (rule ssubst [OF assms [unfolded menu_frame_def]], simp)+

lemma ctx_frameD:
  assumes "ctx_frame e e'"
  shows "en_session e' = en_session e" "en_status_ic e' = en_status_ic e" "en_stop_timer e' = en_stop_timer e"
    "en_settings e' = en_settings e" "en_hot e' = en_hot e" "en_menu e' = en_menu e" "en_link e' = en_link e"
    "en_last_active_ic e' = en_last_active_ic e" "en_active_scene_id e' = en_active_scene_id e"
    "en_scene_config e' = en_scene_config e" "en_registry e' = en_registry e"
    "en_command_selected_text e' = en_command_selected_text e"
  by (rule ssubst [OF assms [unfolded ctx_frame_def]], simp)+

lemma link_frameD:
  assumes "link_frame e e'"
  shows "en_session e' = en_session e" "en_status_ic e' = en_status_ic e" "en_stop_timer e' = en_stop_timer e"
    "en_settings e' = en_settings e" "en_hot e' = en_hot e" "en_menu e' = en_menu e" "en_ctx e' = en_ctx e"
    "en_last_active_ic e' = en_last_active_ic e" "en_active_scene_id e' = en_active_scene_id e"
    "en_scene_config e' = en_scene_config e" "en_registry e' = en_registry e"
    "en_command_selected_text e' = en_command_selected_text e"
  by (rule ssubst [OF assms [unfolded link_frame_def]], simp)+

lemma frame_refl [simp]: "menu_frame e e" "ctx_frame e e" "link_frame e e"
  by (simp_all add: menu_frame_def ctx_frame_def link_frame_def)

lemma menu_frame_trans: "menu_frame a b \<Longrightarrow> menu_frame b c \<Longrightarrow> menu_frame a c"
  unfolding menu_frame_def by (cases a; cases b; cases c) simp

lemma ctx_frame_trans: "ctx_frame a b \<Longrightarrow> ctx_frame b c \<Longrightarrow> ctx_frame a c"
  unfolding ctx_frame_def by (cases a; cases b; cases c) simp

lemma link_frame_trans: "link_frame a b \<Longrightarrow> link_frame b c \<Longrightarrow> link_frame a c"
  unfolding link_frame_def by (cases a; cases b; cases c) simp

lemma issue_frame: "menu_frame e (issue x e)" "ctx_frame e (issue x e)" "link_frame e (issue x e)"
  by (simp_all add: menu_frame_def ctx_frame_def link_frame_def issue_def)

lemma hide_frame:
  "menu_frame e (resetPaletteMenuState e)" "menu_frame e (hidePaletteMenu e)"
  "menu_frame e (resetResultMenuState e)" "menu_frame e (hideResultMenu e)"
  by (simp_all add: menu_frame_def resetPaletteMenuState_def hidePaletteMenu_def resetResultMenuState_def
      hideResultMenu_def Let_def issue_def split: bool.split option.split)

lemma dismiss_frame: "menu_frame e (dismissMenusForVoiceActivity e)"
  unfolding dismissMenusForVoiceActivity_def by (rule menu_frame_trans) (rule hide_frame)+

lemma presentation_frame:
  "menu_frame e (updateVoicePresentation ic p a e)" "menu_frame e (clearVoicePresentation ic e)"
  "menu_frame e (leave_other i e)"
proof -
  show u: "menu_frame e (updateVoicePresentation ic p a e)" for e :: "'k engine" and ic p a
    by (auto simp: updateVoicePresentation_def intro: menu_frame_trans [OF dismiss_frame issue_frame(1)]
        split: option.split)
  show "menu_frame e (clearVoicePresentation ic e)" by (simp add: clearVoicePresentation_def u)
  show "menu_frame e (leave_other i e)" by (simp add: leave_other_def clearVoicePresentation_def u)
qed

lemma context_frame:
  "ctx_frame e (write_entry fx t s e)" "ctx_frame e (flushContextBuffer fx e)"
  "ctx_frame e (suppressNextCommitContext t e)" "ctx_frame e (appendContextEntry fx t s e)"
  "ctx_frame e (accumulateContextBuffer fx t i e)" "ctx_frame e (onCommitString fx t i e)"
  by (simp_all add: ctx_frame_def write_entry_def flushContextBuffer_def suppressNextCommitContext_def
      appendContextEntry_def accumulateContextBuffer_def onCommitString_def Let_def issue_def)

lemma link_ops_frame:
  "link_frame e (noteDaemonSyncFailure fx e)" "link_frame e (clearDaemonSyncFailure e)"
  "link_frame e (stopStatusSyncIfIdle e)" "link_frame e (ensureStatusSync fx e)"
  "link_frame e (callCancelOperation b e)" "link_frame e (snd (start_call fx c e))"
  "link_frame e (snd (callStopRecording fx i e))" "link_frame e (syncFrontendWithDaemonStatus fx e)"
  by (simp_all add: link_frame_def noteDaemonSyncFailure_def clearDaemonSyncFailure_def stopStatusSyncIfIdle_def
      ensureStatusSync_def callCancelOperation_def start_call_def callStopRecording_def
      syncFrontendWithDaemonStatus_def Let_def issue_def split: prod.split option.split)

lemmas frames [simp] =
  menu_frameD [OF issue_frame(1)] link_frameD(6) [OF issue_frame(3)]
  menu_frameD [OF hide_frame(1)] menu_frameD [OF hide_frame(2)] menu_frameD [OF hide_frame(3)]
  menu_frameD [OF hide_frame(4)] menu_frameD [OF dismiss_frame]
  menu_frameD [OF presentation_frame(1)] menu_frameD [OF presentation_frame(2)] menu_frameD [OF presentation_frame(3)]
  ctx_frameD [OF context_frame(1)] ctx_frameD [OF context_frame(2)] ctx_frameD [OF context_frame(3)]
  ctx_frameD [OF context_frame(4)] ctx_frameD [OF context_frame(5)] ctx_frameD [OF context_frame(6)]
  link_frameD [OF link_ops_frame(1)] link_frameD [OF link_ops_frame(2)] link_frameD [OF link_ops_frame(3)]
  link_frameD [OF link_ops_frame(4)] link_frameD [OF link_ops_frame(5)] link_frameD [OF link_ops_frame(6)]
  link_frameD [OF link_ops_frame(7)] link_frameD [OF link_ops_frame(8)]

lemma remember_frame [simp]:
  "en_session (rememberInputContext ic e) = en_session e" "en_status_ic (rememberInputContext ic e) = en_status_ic e"
  "en_menu (rememberInputContext ic e) = en_menu e" "en_hot (rememberInputContext ic e) = en_hot e"
  "en_ctx (rememberInputContext ic e) = en_ctx e" "en_link (rememberInputContext ic e) = en_link e"
  "en_settings (rememberInputContext ic e) = en_settings e" "en_stop_timer (rememberInputContext ic e) = en_stop_timer e"
  by (simp_all add: rememberInputContext_def split: option.split)

lemma take_session_frame [simp]:
  "en_menu (take_session fx i p k c r e) = en_menu e" "en_hot (take_session fx i p k c r e) = en_hot e"
  "en_ctx (take_session fx i p k c r e) = en_ctx e" "en_link (take_session fx i p k c r e) = en_link e"
  "en_settings (take_session fx i p k c r e) = en_settings e"
  "en_stop_timer (take_session fx i p k c r e) = en_stop_timer e"
  by (simp_all add: take_session_def)

lemma scene_frame [simp]:
  "en_session (reloadSceneConfig fx e) = en_session e" "en_status_ic (reloadSceneConfig fx e) = en_status_ic e"
  "en_menu (reloadSceneConfig fx e) = en_menu e" "en_hot (reloadSceneConfig fx e) = en_hot e"
  "en_link (reloadSceneConfig fx e) = en_link e" "en_settings (reloadSceneConfig fx e) = en_settings e"
  by (simp_all add: reloadSceneConfig_def Let_def)

section \<open>The invariant\<close>

text \<open>At most one status query is in flight, and its ticket is the gate's last one.\<close>

definition gate_ok :: "link_state \<Rightarrow> bool" where
  "gate_ok l =
     (case ln_status_call l of
        None \<Rightarrow> \<not> g_active (ln_gate l)
      | Some t \<Rightarrow> g_active (ln_gate l) \<and> tk_id t = g_request_id (ln_gate l))"

definition session_ok :: "'k voice_session option \<Rightarrow> nat option \<Rightarrow> link_state \<Rightarrow> bool" where
  "session_ok s status_ic l \<longleftrightarrow>
     status_ic = map_option vs_ic s \<and> gate_ok l
     \<and> timer_on (ln_status_timer l) = (s \<noteq> None) \<and> (s = None \<longrightarrow> ln_status_call l = None)"

definition menu_ok :: "'k voice_session option \<Rightarrow> menu_state \<Rightarrow> bool" where
  "menu_ok s m \<longleftrightarrow>
     (s \<noteq> None \<longrightarrow> \<not> mn_palette_visible m \<and> \<not> mn_result_visible m)
     \<and> (mn_palette_visible m \<longrightarrow> mn_palette_ic m \<noteq> None)
     \<and> (mn_result_visible m \<longrightarrow> mn_result_ic m \<noteq> None \<and> mn_candidates m \<noteq> [])"

definition ctx_ok :: "context_state \<Rightarrow> bool" where
  "ctx_ok cx \<longleftrightarrow> (cx_text cx \<noteq> [] \<longrightarrow> timer_on (cx_timer cx) \<and> 0 < cx_max_lines cx)"

definition hot_ok :: "'k hotkey_state \<Rightarrow> bool" where
  "hot_ok h \<longleftrightarrow> (hk_chord_interrupted h \<longrightarrow> hk_role h = RoleNone)"

definition engine_inv :: "'k engine \<Rightarrow> bool" where
  "engine_inv e \<longleftrightarrow>
     session_ok (en_session e) (en_status_ic e) (en_link e) \<and> menu_ok (en_session e) (en_menu e)
     \<and> ctx_ok (en_ctx e) \<and> hot_ok (en_hot e)"

lemma timer_on_off [simp]: "\<not> timer_on (timer_off t)"
  by (cases t) (auto simp: timer_off_def)

lemma menus_closed [simp]:
  "\<not> mn_palette_visible (en_menu (hidePaletteMenu e))" "\<not> mn_result_visible (en_menu (hideResultMenu e))"
  "mn_palette_visible (en_menu (hideResultMenu e)) = mn_palette_visible (en_menu e)"
  "mn_palette_ic (en_menu (hideResultMenu e)) = mn_palette_ic (en_menu e)"
  "mn_result_visible (en_menu (hidePaletteMenu e)) = mn_result_visible (en_menu e)"
  "mn_result_ic (en_menu (hidePaletteMenu e)) = mn_result_ic (en_menu e)"
  "mn_candidates (en_menu (hidePaletteMenu e)) = mn_candidates (en_menu e)"
  by (simp_all add: hidePaletteMenu_def hideResultMenu_def resetPaletteMenuState_def resetResultMenuState_def
      Let_def issue_def split: bool.split option.split)

lemma voice_closes [simp]:
  "\<not> mn_palette_visible (en_menu (dismissMenusForVoiceActivity e))"
  "\<not> mn_result_visible (en_menu (dismissMenusForVoiceActivity e))"
  "\<not> mn_palette_visible (en_menu (updateVoicePresentation (Some i) p a e))"
  "\<not> mn_result_visible (en_menu (updateVoicePresentation (Some i) p a e))"
  "\<not> mn_palette_visible (en_menu (clearVoicePresentation (Some i) e))"
  "\<not> mn_result_visible (en_menu (clearVoicePresentation (Some i) e))"
  by (simp_all add: dismissMenusForVoiceActivity_def updateVoicePresentation_def clearVoicePresentation_def
      link_frameD(6) [OF issue_frame(3)])

lemma update_None [simp]: "updateVoicePresentation None p a e = e" "clearVoicePresentation None e = e"
  by (simp_all add: updateVoicePresentation_def clearVoicePresentation_def)

lemma menu_ok_hidden:
  "menu_ok s (en_menu e) \<Longrightarrow> menu_ok s (en_menu (hidePaletteMenu e))"
  "menu_ok s (en_menu e) \<Longrightarrow> menu_ok s (en_menu (hideResultMenu e))"
  by (auto simp: menu_ok_def)

lemma menu_ok_closed: "\<not> mn_palette_visible m \<Longrightarrow> \<not> mn_result_visible m \<Longrightarrow> menu_ok s m"
  by (simp add: menu_ok_def)

lemma menu_ok_update: "menu_ok s (en_menu e) \<Longrightarrow> menu_ok s (en_menu (updateVoicePresentation ic p a e))"
  by (cases ic) (simp_all add: menu_ok_closed)

lemma menu_ok_voice:
  "menu_ok s (en_menu e) \<Longrightarrow> menu_ok s (en_menu (dismissMenusForVoiceActivity e))"
  "menu_ok s (en_menu e) \<Longrightarrow> menu_ok s (en_menu (clearVoicePresentation ic e))"
  "menu_ok s (en_menu e) \<Longrightarrow> menu_ok s (en_menu (leave_other i e))"
  by (simp_all add: menu_ok_closed leave_other_def clearVoicePresentation_def menu_ok_update)

lemma gate_ok_changes [simp]:
  "gate_ok (l\<lparr>ln_gate := Invalidate g\<rparr>) = gate_ok (l\<lparr>ln_gate := g\<rparr>)"
  "gate_ok (l\<lparr>ln_status_timer := t\<rparr>) = gate_ok l"
  "gate_ok (l\<lparr>ln_blocked_until := u\<rparr>) = gate_ok l"
  "gate_ok (l\<lparr>ln_last_status := st\<rparr>) = gate_ok l"
  "gate_ok (l\<lparr>ln_polled_idle_since := p\<rparr>) = gate_ok l"
  "gate_ok (l\<lparr>ln_start_call := b\<rparr>) = gate_ok l"
  "gate_ok (l\<lparr>ln_stop_call := b\<rparr>) = gate_ok l"
  "gate_ok (l\<lparr>ln_gate := gate_Cancel g, ln_status_call := None\<rparr>)"
  by (simp_all add: gate_ok_def Invalidate_def gate_Cancel_def split: option.split)

lemma ctx_ok_ops [simp]:
  "ctx_ok (en_ctx e) \<Longrightarrow> ctx_ok (en_ctx (flushContextBuffer fx e))"
  "ctx_ok (en_ctx e) \<Longrightarrow> ctx_ok (en_ctx (appendContextEntry fx t s e))"
  "ctx_ok (en_ctx e) \<Longrightarrow> ctx_ok (en_ctx (suppressNextCommitContext t e))"
  "ctx_ok (en_ctx e) \<Longrightarrow> ctx_ok (en_ctx (onCommitString fx t i e))"
  "ctx_ok (en_ctx e) \<Longrightarrow> ctx_ok (en_ctx (reloadSceneConfig fx e))"
  by (auto simp: ctx_ok_def flushContextBuffer_def appendContextEntry_def suppressNextCommitContext_def
      onCommitString_def accumulateContextBuffer_def reloadSceneConfig_def write_entry_def issue_def Let_def)

section \<open>Every operation keeps it\<close>

lemma inv_same [simp]:
  "engine_inv (issue x e) = engine_inv e" "engine_inv (rememberInputContext ic e) = engine_inv e"
  "engine_inv (e\<lparr>en_last_active_ic := ic\<rparr>) = engine_inv e"
  "engine_inv (e\<lparr>en_active_scene_id := sid\<rparr>) = engine_inv e"
  "engine_inv (e\<lparr>en_command_selected_text := t\<rparr>) = engine_inv e"
  "engine_inv (e\<lparr>en_stop_timer := tm\<rparr>) = engine_inv e"
  "engine_inv (cancelPendingStop e) = engine_inv e" "engine_inv (scheduleStopRecording fx e) = engine_inv e"
  "engine_inv (callCancelOperation b e) = engine_inv e"
  "engine_inv (noteDaemonSyncFailure fx e) = engine_inv e" "engine_inv (clearDaemonSyncFailure e) = engine_inv e"
  by (simp_all add: engine_inv_def cancelPendingStop_def scheduleStopRecording_def callCancelOperation_def
      noteDaemonSyncFailure_def clearDaemonSyncFailure_def session_ok_def)

lemma inv_menus:
  "engine_inv e \<Longrightarrow> engine_inv (hidePaletteMenu e)" "engine_inv e \<Longrightarrow> engine_inv (hideResultMenu e)"
  "engine_inv e \<Longrightarrow> engine_inv (dismissMenusForVoiceActivity e)"
  "engine_inv e \<Longrightarrow> engine_inv (updateVoicePresentation ic p a e)"
  "engine_inv e \<Longrightarrow> engine_inv (clearVoicePresentation ic e)"
  by (simp_all add: engine_inv_def menu_ok_hidden menu_ok_voice menu_ok_update)

lemma inv_context:
  "engine_inv e \<Longrightarrow> engine_inv (flushContextBuffer fx e)" "engine_inv e \<Longrightarrow> engine_inv (appendContextEntry fx t s e)"
  "engine_inv e \<Longrightarrow> engine_inv (suppressNextCommitContext t e)"
  "engine_inv e \<Longrightarrow> engine_inv (onCommitString fx t i e)" "engine_inv e \<Longrightarrow> engine_inv (reloadSceneConfig fx e)"
  by (simp_all add: engine_inv_def)

lemma inv_link_change:
  assumes "engine_inv e" and "gate_ok l" and "ln_status_timer l = ln_status_timer (en_link e)"
    and "en_session e = None \<Longrightarrow> ln_status_call l = None"
  shows "engine_inv (e\<lparr>en_link := l\<rparr>)"
  using assms by (simp add: engine_inv_def session_ok_def)

lemma inv_gate_ok: "engine_inv e \<Longrightarrow> gate_ok (en_link e)"
  by (simp add: engine_inv_def session_ok_def)

lemma inv_idle_call: "engine_inv e \<Longrightarrow> en_session e = None \<Longrightarrow> ln_status_call (en_link e) = None"
  by (simp add: engine_inv_def session_ok_def)

lemma inv_start_call: "engine_inv e \<Longrightarrow> engine_inv (snd (start_call fx c e))"
  by (simp add: start_call_def Let_def inv_link_change inv_gate_ok inv_idle_call)

lemma inv_callStart:
  "engine_inv e \<Longrightarrow> engine_inv (snd (callStartRecording fx e))"
  "engine_inv e \<Longrightarrow> engine_inv (snd (callStartCommandRecording fx t e))"
  by (simp_all add: callStartRecording_def callStartCommandRecording_def inv_start_call inv_context)

lemma inv_callStop: "engine_inv e \<Longrightarrow> engine_inv (snd (callStopRecording fx i e))"
  by (simp add: callStopRecording_def Let_def inv_link_change inv_gate_ok inv_idle_call)

text \<open>Every way into a session ends like this.\<close>

lemma inv_entered:
  assumes "gate_ok (en_link e)" "ctx_ok (en_ctx e)" "hot_ok (en_hot e)"
  shows "engine_inv (ensureStatusSync fx (updateVoicePresentation (Some i) p a (take_session fx i ph k c r e)))"
  using assms
  by (simp add: engine_inv_def session_ok_def menu_ok_def ensureStatusSync_def take_session_def)

lemma inv_enterPendingStart: "engine_inv e \<Longrightarrow> engine_inv (enterPendingStartState fx ic k c e)"
  by (auto simp: enterPendingStartState_def Let_def engine_inv_def [of e] session_ok_def intro!: inv_entered
      split: option.split)

lemma inv_enterRecording: "engine_inv e \<Longrightarrow> engine_inv (enterRecordingState fx ic k c e)"
  by (auto simp: enterRecordingState_def Let_def engine_inv_def [of e] session_ok_def intro!: inv_entered
      split: option.split)

lemma inv_enterBusy: "engine_inv e \<Longrightarrow> engine_inv (enterBusyState fx ic c t pp raw e)"
  by (auto simp: enterBusyState_def Let_def engine_inv_def [of e] session_ok_def intro!: inv_entered
      split: option.split)

lemma inv_finish: "engine_inv e \<Longrightarrow> engine_inv (finishFrontendSession ic e)"
  by (cases "en_session e")
     (auto simp: finishFrontendSession_def Let_def engine_inv_def session_ok_def stopStatusSyncIfIdle_def
        intro: menu_ok_voice menu_ok_closed)

lemma finish_ends [simp]:
  "en_session (finishFrontendSession ic e) = None" "en_hot (finishFrontendSession ic e) = en_hot e"
  "en_ctx (finishFrontendSession ic e) = en_ctx e" "en_settings (finishFrontendSession ic e) = en_settings e"
  by (simp_all add: finishFrontendSession_def Let_def)

lemma inv_finishStop: "engine_inv e \<Longrightarrow> engine_inv (finishStopRecording fx e)"
proof (cases "en_session e")
  case (Some s)
  assume inv: "engine_inv e"
  then have "engine_inv (reloadSceneConfig fx e)" by (rule inv_context)
  moreover have "engine_inv (r\<lparr>en_session := Some (s\<lparr>vs_raw_prev := b, vs_trigger := k\<rparr>)\<rparr>) = engine_inv r"
    if "en_session r = Some s" for r b k
    using that by (simp add: engine_inv_def session_ok_def menu_ok_def)
  ultimately show ?thesis using Some inv
    by (simp add: finishStopRecording_def Let_def inv_callStop inv_enterBusy)
qed (simp add: finishStopRecording_def)

lemma inv_applyStatus: "engine_inv e \<Longrightarrow> engine_inv (applyDaemonStatusLocally fx st ic b e)"
  by (simp add: applyDaemonStatusLocally_def Let_def inv_enterRecording inv_enterBusy inv_finish)

lemma inv_replies:
  "engine_inv e \<Longrightarrow> engine_inv (call_reply fx r e)"
  by (cases r) (simp_all add: call_rejected_def Let_def inv_menus inv_finish)

lemma inv_call_replies:
  "engine_inv e \<Longrightarrow> engine_inv (onStartReply fx r e)" "engine_inv e \<Longrightarrow> engine_inv (onStopReply fx r e)"
  by (simp_all add: onStartReply_def onStopReply_def inv_replies inv_link_change inv_gate_ok inv_idle_call)

lemma inv_polled: "engine_inv e \<Longrightarrow> engine_inv (polled_status fx st e)"
  by (simp add: polled_status_def Let_def inv_applyStatus inv_link_change inv_gate_ok inv_idle_call)

lemma inv_statusReply: "engine_inv e \<Longrightarrow> engine_inv (onStatusReply fx r e)"
proof (cases "ln_status_call (en_link e)")
  case (Some t)
  assume inv: "engine_inv e"
  obtain ok g where c: "gate_Complete (ln_gate (en_link e)) t = (ok, g)" by (rule prod.exhaust)
  let ?e = "e\<lparr>en_link := (en_link e)\<lparr>ln_status_call := None, ln_gate := g\<rparr>\<rparr>"
  have "gate_ok (en_link ?e)" if "gate_IsActive (ln_gate (en_link e)) t"
    using c that by (auto simp: gate_ok_def gate_Complete_def)
  then have "engine_inv ?e" if "gate_IsActive (ln_gate (en_link e)) t"
    using inv_link_change [OF inv] that by simp
  moreover have "engine_inv ?e \<Longrightarrow> engine_inv (accepted_status fx r ?e)"
    by (cases r) (simp_all add: inv_polled)
  ultimately show ?thesis using inv Some by (simp add: onStatusReply_def c Let_def)
qed (simp add: onStatusReply_def)

lemma inv_session_edit:
  assumes "engine_inv e" and "en_session e = Some s" and "vs_ic s' = vs_ic s"
  shows "engine_inv (e\<lparr>en_session := Some s'\<rparr>)"
  using assms by (simp add: engine_inv_def session_ok_def menu_ok_def)

lemma inv_marks:
  "engine_inv e \<Longrightarrow> engine_inv (mark_session now b1 b2 e)" "engine_inv e \<Longrightarrow> engine_inv (released keep e)"
  by (cases "en_session e"; simp add: mark_session_def released_def inv_session_edit; cases e; simp)+

lemma inv_stop_if_recording [simp]: "engine_inv (stop_if_recording fx e) = engine_inv e"
  by (simp add: stop_if_recording_def split: option.split)

lemma gate_ok_sync: "gate_ok (en_link e) \<Longrightarrow> gate_ok (en_link (syncFrontendWithDaemonStatus fx e))"
  by (auto simp: syncFrontendWithDaemonStatus_def TryBegin_def gate_ok_def noteDaemonSyncFailure_def issue_def
      gate_Cancel_def split: prod.split option.splits if_splits)

lemma inv_statusTimer: "engine_inv e \<Longrightarrow> engine_inv (fire_status_timer fx e)"
proof (cases "timer_due (fx_now fx) (ln_status_timer (en_link e))")
  case True
  assume inv: "engine_inv e"
  then obtain s where "en_session e = Some s"
    using True by (auto simp: engine_inv_def session_ok_def timer_due_def split: option.splits prod.splits)
  then show ?thesis using inv True
    by (simp add: fire_status_timer_def Let_def engine_inv_def session_ok_def gate_ok_sync)
qed (simp add: fire_status_timer_def)

lemma inv_otherTimers:
  "engine_inv e \<Longrightarrow> engine_inv (fire_stop_timer fx e)" "engine_inv e \<Longrightarrow> engine_inv (fire_context_timer fx e)"
proof -
  show "engine_inv e \<Longrightarrow> engine_inv (fire_stop_timer fx e)"
    by (simp add: fire_stop_timer_def inv_finishStop)
  show "engine_inv e \<Longrightarrow> engine_inv (fire_context_timer fx e)"
    by (auto simp: fire_context_timer_def flushContextBuffer_def write_entry_def issue_def Let_def engine_inv_def ctx_ok_def)
qed

lemma inv_statusChanged: "engine_inv e \<Longrightarrow> engine_inv (onStatusChanged fx st e)"
  by (simp add: onStatusChanged_def Let_def inv_applyStatus inv_link_change inv_gate_ok inv_idle_call)

lemma inv_partial: "engine_inv e \<Longrightarrow> engine_inv (handleRecognitionPartial fx t e)"
  by (auto simp: handleRecognitionPartial_def Let_def inv_session_edit inv_menus inv_enterBusy split: option.split)

lemma inv_rebuild [simp]: "engine_inv (rebuildPaletteMenu fx ic e) = engine_inv e"
  by (auto simp: rebuildPaletteMenu_def Let_def engine_inv_def menu_ok_def split: option.split)

lemma inv_reloadItems [simp]: "engine_inv (reloadPaletteItems fx e) = engine_inv e"
  by (auto simp: reloadPaletteItems_def engine_inv_def menu_ok_def split: prod.split)

lemma inv_query [simp]: "engine_inv (e\<lparr>en_menu := (en_menu e)\<lparr>mn_query := q\<rparr>\<rparr>) = engine_inv e"
  by (simp add: engine_inv_def menu_ok_def)

lemma reloadItems_frame [simp]:
  "en_session (reloadPaletteItems fx e) = en_session e"
  by (simp add: reloadPaletteItems_def split: prod.split)

lemma inv_toggle: "engine_inv e \<Longrightarrow> engine_inv (toggleCommandPalette fx ic e)"
proof -
  have "engine_inv (r\<lparr>en_menu := (en_menu r)\<lparr>mn_palette_ic := Some ic, mn_palette_visible := True, mn_query := q\<rparr>\<rparr>)"
    if "engine_inv r" "en_session r = None" for r :: "'a engine" and q
    using that by (simp add: engine_inv_def menu_ok_def)
  then show "engine_inv e \<Longrightarrow> engine_inv (toggleCommandPalette fx ic e)"
    by (simp add: toggleCommandPalette_def showPaletteMenu_def Let_def inv_menus)
qed

lemma inv_notify [simp]:
  "engine_inv (notifyError m e) = engine_inv e" "engine_inv (notifyInfo m e) = engine_inv e"
  by (simp_all add: notifyError_def notifyInfo_def)

lemma inv_last_status [simp]:
  "engine_inv (e\<lparr>en_link := (en_link e)\<lparr>ln_last_status := st\<rparr>\<rparr>) = engine_inv e"
  by (simp add: engine_inv_def session_ok_def)

lemma inv_query_status: "queryDaemonStatus fx e = (st, e') \<Longrightarrow> engine_inv e \<Longrightarrow> engine_inv e'"
  by (auto simp: queryDaemonStatus_def Let_def split: reply.splits if_splits)

lemma inv_rpc: "callSyncRpc fx m fb arg e = (r, e') \<Longrightarrow> engine_inv e \<Longrightarrow> engine_inv e'"
  by (auto simp: callSyncRpc_def Let_def split: reply.splits if_splits)

lemma inv_reload_backend: "engine_inv e \<Longrightarrow> engine_inv (reload_backend fx item e)"
  by (auto simp: reload_backend_def callReloadAsrBackend_def Let_def dest: inv_query_status inv_rpc
      split: prod.split option.split)

lemma inv_on_select: "engine_inv e \<Longrightarrow> engine_inv (on_select fx h item e)"
  by (cases h)
     (auto simp: select_model_def select_asr_def select_scene_def select_adapter_def callStartAdapter_def
        callStopAdapter_def Let_def inv_reload_backend dest: inv_rpc split: prod.split option.split sum.split)

lemma inv_selectPalette: "engine_inv e \<Longrightarrow> engine_inv (selectPaletteItem fx i ic e)"
  by (simp add: selectPaletteItem_def Let_def inv_menus inv_on_select split: option.split)

lemma inv_delete_selection [simp]: "engine_inv (delete_selection fx ic e) = engine_inv e"
  by (auto simp: delete_selection_def split: option.split)

lemma inv_result_flag [simp]:
  "engine_inv (e\<lparr>en_menu := (en_menu e)\<lparr>mn_result_is_command := b\<rparr>\<rparr>) = engine_inv e"
  by (simp add: engine_inv_def menu_ok_def)

lemma inv_selectResult: "engine_inv e \<Longrightarrow> engine_inv (selectResultCandidate fx i ic e)"
  by (simp add: selectResultCandidate_def Let_def inv_menus inv_context)

lemma inv_select_word: "engine_inv e \<Longrightarrow> engine_inv (select_word fx w ic e)"
  by (simp add: select_word_def inv_selectPalette inv_selectResult split: menu_word.split)

lemma inv_showResult:
  assumes "engine_inv e" and "en_session e = None"
  shows "engine_inv (showResultMenu fx ic payload e)"
proof -
  have "engine_inv (r\<lparr>en_menu := (en_menu r)\<lparr>mn_result_ic := Some ic, mn_result_visible := True, mn_candidates := cs\<rparr>\<rparr>)"
    if "engine_inv r" "en_session r = None" "cs \<noteq> []" for r :: "'a engine" and cs
    using that by (simp add: engine_inv_def menu_ok_def)
  then show ?thesis using assms by (simp add: showResultMenu_def Let_def inv_menus)
qed

lemma inv_result: "engine_inv e \<Longrightarrow> engine_inv (onRecognitionResult fx t e)"
  by (simp add: onRecognitionResult_def Let_def inv_finish inv_context inv_showResult split: option.split)

lemma inv_palette_press: "palette_key_press fx key ic e = (b, e') \<Longrightarrow> engine_inv e \<Longrightarrow> engine_inv e'"
  by (auto simp: palette_key_press_def accept_def edit_query_def ChangeCandidatePage_def Let_def inv_menus
      inv_select_word split: if_splits option.splits)

lemma inv_palette_key: "handlePaletteMenuKeyEvent fx ev e = (b, e') \<Longrightarrow> engine_inv e \<Longrightarrow> engine_inv e'"
  by (auto simp: handlePaletteMenuKeyEvent_def accept_def Let_def inv_menus dest: inv_palette_press
      split: if_splits option.splits bool.splits)

lemma inv_result_press: "result_key_press fx key ic e = (b, e') \<Longrightarrow> engine_inv e \<Longrightarrow> engine_inv e'"
  by (auto simp: result_key_press_def accept_def ChangeCandidatePage_def Let_def inv_menus
      inv_select_word split: if_splits option.splits)

lemma inv_result_key: "handleResultMenuKeyEvent fx ev e = (b, e') \<Longrightarrow> engine_inv e \<Longrightarrow> engine_inv e'"
  by (auto simp: handleResultMenuKeyEvent_def accept_def Let_def dest: inv_result_press
      split: if_splits option.splits bool.splits)

lemma inv_start_or_report: "engine_inv (snd r) \<Longrightarrow> engine_inv (start_or_report fx ic r)"
  by (cases r) (simp add: start_or_report_def Let_def inv_finish inv_menus split: bool.split)

lemma inv_startVoice: "engine_inv e \<Longrightarrow> engine_inv (startVoiceRecording fx ic k b e)"
  by (simp add: startVoiceRecording_def start_command_def Let_def inv_menus inv_finishStop inv_enterRecording
      inv_applyStatus inv_finish inv_start_or_report inv_callStart inv_enterPendingStart split: option.split)

lemma inv_abort: "engine_inv e \<Longrightarrow> engine_inv (abort_session s e)"
  by (simp add: abort_session_def inv_menus inv_finish)

lemma inv_hot_change: "engine_inv e \<Longrightarrow> hot_ok h \<Longrightarrow> engine_inv (e\<lparr>en_hot := h\<rparr>)"
  by (simp add: engine_inv_def)

lemma inv_hot_ok: "engine_inv e \<Longrightarrow> hot_ok (en_hot e)"
  by (simp add: engine_inv_def)

lemma inv_regular: "engine_inv e \<Longrightarrow> engine_inv (regular_key_press e)"
  by (auto simp: regular_key_press_def cancelPendingStart_def Let_def hot_ok_def
      intro!: inv_abort inv_hot_change split: option.split)

lemma inv_cancelStart: "engine_inv e \<Longrightarrow> engine_inv (cancelPendingStart e)"
  by (simp add: cancelPendingStart_def inv_hot_change hot_ok_def)

lemma inv_new_press: "engine_inv e \<Longrightarrow> engine_inv (new_press fx ks r k ic e)"
  by (simp add: new_press_def Let_def inv_marks inv_startVoice inv_hot_change hot_ok_def)

lemma inv_press: "engine_inv e \<Longrightarrow> engine_inv (hotkey_press fx ks r k ic e)"
proof -
  have "hot_ok (h\<lparr>hk_last_trigger_time := t\<rparr>) = hot_ok h" for h :: "'a hotkey_state" and t
    by (simp add: hot_ok_def)
  then show "engine_inv e \<Longrightarrow> engine_inv (hotkey_press fx ks r k ic e)"
    by (simp add: hotkey_press_def second_press_def Let_def inv_new_press inv_hot_change inv_hot_ok inv_menus
        inv_abort inv_finishStop split: option.split)
qed

lemma inv_session_release: "engine_inv e \<Longrightarrow> engine_inv (session_release fx k e)"
  by (simp add: session_release_def Let_def inv_marks split: option.split)

lemma inv_release: "engine_inv e \<Longrightarrow> engine_inv (hotkey_release fx ks r k ic e)"
  by (simp add: hotkey_release_def active_release_def trigger_release_def Let_def inv_cancelStart
      inv_session_release inv_toggle inv_marks inv_startVoice inv_hot_change hot_ok_def split: TriggerMode.split)

lemma inv_hotkeys: "engine_inv e \<Longrightarrow> engine_inv (hotkeys fx ev e)"
  by (simp add: hotkeys_def Let_def inv_regular inv_release inv_press split: option.split prod.split)

lemma inv_menu_keys: "engine_inv e \<Longrightarrow> engine_inv (menu_keys fx ev e)"
  by (auto simp: menu_keys_def inv_hotkeys dest: inv_result_key inv_palette_key split: prod.splits bool.splits if_splits)

lemma inv_key: "engine_inv e \<Longrightarrow> engine_inv (handleKeyEvent fx ev e)"
proof -
  have "hot_ok (h\<lparr>hk_pending_postprocessing_release := p\<rparr>) = hot_ok h" for h :: "'a hotkey_state" and p
    by (simp add: hot_ok_def)
  then show "engine_inv e \<Longrightarrow> engine_inv (handleKeyEvent fx ev e)"
    by (simp add: handleKeyEvent_def Let_def inv_menu_keys inv_hot_change inv_hot_ok split: option.split)
qed

lemma inv_reset_menus:
  "engine_inv e \<Longrightarrow> engine_inv (resetPaletteMenuState e)" "engine_inv e \<Longrightarrow> engine_inv (resetResultMenuState e)"
  by (simp_all add: engine_inv_def menu_ok_def resetPaletteMenuState_def resetResultMenuState_def)

lemma inv_destroyed_session:
  assumes "engine_inv e" and "en_session e = Some s"
  shows "engine_inv (stopStatusSyncIfIdle (e\<lparr>en_session := None,
           en_link := (en_link e)\<lparr>ln_polled_idle_since := p\<rparr>, en_status_ic := None\<rparr>))"
  using assms by (simp add: stopStatusSyncIfIdle_def engine_inv_def session_ok_def menu_ok_def)

lemma inv_destroyed: "engine_inv e \<Longrightarrow> engine_inv (onContextDestroyed fx ic e)"
proof -
  assume inv: "engine_inv e"
  define e1 where "e1 = (case en_session e of
      Some s \<Rightarrow> if vs_ic s = ic then
          (let c = (if vs_phase s \<noteq> PhInferring then callCancelOperation False e else e)
           in c\<lparr>en_session := None, en_link := (en_link c)\<lparr>ln_polled_idle_since := None\<rparr>\<rparr>)
        else e
    | None \<Rightarrow> e)"
  define e2 where "e2 = (if en_status_ic e1 = Some ic then stopStatusSyncIfIdle (e1\<lparr>en_status_ic := None\<rparr>) else e1)"
  have "engine_inv e2"
  proof (cases "en_status_ic e = Some ic")
    case True
    then obtain s where s: "en_session e = Some s" "vs_ic s = ic"
      using inv by (auto simp: engine_inv_def session_ok_def)
    define c where "c = (if vs_phase s \<noteq> PhInferring then callCancelOperation False e else e)"
    have c: "engine_inv c" "en_session c = Some s" "en_status_ic c = Some ic"
      using inv s True by (simp_all add: c_def)
    have "e1 = c\<lparr>en_session := None, en_link := (en_link c)\<lparr>ln_polled_idle_since := None\<rparr>\<rparr>"
      using s by (simp only: e1_def c_def Let_def option.case if_True refl)
    then have "e2 = stopStatusSyncIfIdle (c\<lparr>en_session := None,
           en_link := (en_link c)\<lparr>ln_polled_idle_since := None\<rparr>, en_status_ic := None\<rparr>)"
      using c(3) by (simp add: e2_def)
    then show ?thesis using inv_destroyed_session [OF c(1,2)] by simp
  next
    case False
    then have "e1 = e" using inv by (auto simp: e1_def engine_inv_def session_ok_def split: option.split)
    then show ?thesis using inv False by (simp add: e2_def)
  qed
  define e3 where "e3 = (if en_last_active_ic e2 = Some ic then e2\<lparr>en_last_active_ic := None\<rparr> else e2)"
  define e4 where "e4 = (if mn_palette_ic (en_menu e3) = Some ic then resetPaletteMenuState e3 else e3)"
  define e5 where "e5 = (if mn_result_ic (en_menu e4) = Some ic then resetResultMenuState e4 else e4)"
  have "engine_inv e3" using \<open>engine_inv e2\<close> by (simp add: e3_def)
  then have "engine_inv e4" by (simp add: e4_def inv_reset_menus)
  then have "engine_inv e5" by (simp add: e5_def inv_reset_menus)
  then have "engine_inv (if cx_ic (en_ctx e5) = Some ic then flushContextBuffer fx e5 else e5)"
    by (simp add: inv_context)
  then show ?thesis
    unfolding onContextDestroyed_def Let_def e5_def e4_def e3_def e2_def e1_def .
qed

lemma inv_focusOut: "engine_inv e \<Longrightarrow> engine_inv (onFocusOut ic e)"
  by (auto simp: onFocusOut_def Let_def hot_ok_def intro!: inv_abort inv_hot_change split: option.split)

lemma inv_settings: "engine_inv e \<Longrightarrow> engine_inv (applySettings fx se e)"
proof -
  have "engine_inv (e\<lparr>en_settings := se\<rparr>) = engine_inv e" by (simp add: engine_inv_def)
  then show "engine_inv e \<Longrightarrow> engine_inv (applySettings fx se e)"
    by (simp add: applySettings_def inv_context)
qed

lemma inv_new_engine: "engine_inv (new_engine fx bus se cache)"
proof -
  have "engine_inv (blank_engine fx bus se cache)"
    by (simp add: blank_engine_def engine_inv_def session_ok_def menu_ok_def ctx_ok_def hot_ok_def gate_ok_def
        new_gate_def)
  then show ?thesis by (simp add: new_engine_def inv_settings)
qed

lemma inv_engine_step: "engine_inv e \<Longrightarrow> engine_inv (engine_step e ev)"
  by (cases ev rule: prod.exhaust; rename_tac fx x; case_tac x)
     (simp_all add: inv_key inv_destroyed inv_focusOut inv_context inv_result inv_partial inv_statusChanged
        inv_call_replies inv_statusReply inv_statusTimer inv_otherTimers inv_select_word inv_settings)

interpretation engine: invariant_machine engine_step "new_engine fx bus se cache" engine_inv
  by unfold_locales (rule inv_new_engine, rule inv_engine_step)

text \<open>
  C5: whatever keys, signals, replies, timers and focus changes come, in whatever order, the session and the
  status display agree on the input context; the status of the daemon is polled exactly while there is a
  session, with at most one query in flight; no menu is open during a session; an open menu has its input
  context and its candidates; text waiting in the context buffer always has a running timer that will write
  it; and a hotkey that became part of a chord is no longer held.
\<close>

theorem engine_invariant: "engine_inv (foldl engine_step (new_engine fx bus se cache) evs)"
  by (rule engine.run_inv)

end
