(* ===== verification/Addon_Behaviour.thy ===== *)
theory Addon_Behaviour
  imports Addon_Invariant
begin

text \<open>
  What the addon's engine does over several events: a release that comes before the recording has started,
  the recovery from a daemon that reports idle, chords, the engine's own commits, and two defects.
\<close>

section \<open>Steps of the engine\<close>

lemma hold_release_pending:
  assumes "en_session e = Some s" and "vs_phase s \<noteq> PhRecording" and "vs_trigger s = k" and "vs_stop_on_release s"
  shows "session_release fx k e = released True e"
  using assms by (simp add: session_release_def stop_if_recording_def released_def)

lemma recording_signal:
  assumes "en_session e = Some s"
  shows "en_session (onStatusChanged fx ''recording'' e)
      = Some (s\<lparr>vs_phase := PhRecording, vs_command_mode := vs_command_mode s\<rparr>)"
    and "stop_after_start e \<Longrightarrow> en_stop_timer (onStatusChanged fx ''recording'' e) = Some (fx_now fx + kReleaseDebounce, True)"
    and "en_link (onStatusChanged fx ''recording'' e) = (en_link e)\<lparr>ln_gate := Invalidate (ln_gate (en_link e)),
       ln_last_status := ''recording'', ln_polled_idle_since := None,
       ln_status_timer := Some (fx_now fx + kStatusSyncIntervalUsec, True)\<rparr>"
  using assms
  by (simp_all add: onStatusChanged_def applyDaemonStatusLocally_def resolveFrontendInputContext_def Let_def
      enterRecordingState_def take_session_def value_or_def session_raw_prev_def ensureStatusSync_def
      scheduleStopRecording_def stop_after_start_def)

text \<open>A key that no menu and no cancellation takes reaches the hotkeys.\<close>

definition plain_key :: "'k fcitx \<Rightarrow> 'k key_event \<Rightarrow> 'k engine \<Rightarrow> bool" where
  "plain_key fx ev e \<longleftrightarrow> \<not> swallowed_release fx ev e \<and> cancel_key fx ev e = None
     \<and> \<not> mn_result_visible (en_menu e) \<and> \<not> mn_palette_visible (en_menu e)"

lemma plain_key_hotkeys:
  assumes "plain_key fx ev e"
  shows "engine_step e (fx, KeyEvent ev) = hotkeys fx ev (rememberInputContext (Some (ke_ic ev)) e)"
proof -
  have "swallowed_release fx ev (rememberInputContext ic e) = swallowed_release fx ev e"
    "cancel_key fx ev (rememberInputContext ic e) = cancel_key fx ev e" for ic
    by (simp_all add: swallowed_release_def cancel_key_def split: option.split)
  then show ?thesis using assms by (simp add: handleKeyEvent_def plain_key_def menu_keys_def)
qed

definition hotkey_of :: "'k fcitx \<Rightarrow> 'k key_event \<Rightarrow> 'k engine \<Rightarrow> (HotkeyRole \<times> 'k) option" where
  "hotkey_of fx ev e = hotkey_role fx (k_normalize fx (ke_orig_key ev)) (ke_release ev) e"

lemma hotkeys_of:
  "hotkeys fx ev e =
     (case hotkey_of fx ev e of
        None \<Rightarrow> if ke_release ev then e else regular_key_press e
      | Some (role, k) \<Rightarrow>
          issue AcceptKey
            ((if ke_release ev then hotkey_release else hotkey_press)
               fx (k_sym fx (k_normalize fx (ke_orig_key ev))) role k (ke_ic ev) e))"
  by (simp add: hotkeys_def hotkey_of_def Let_def split: option.split prod.split)

lemma hotkey_of_remember [simp]: "hotkey_of fx ev (rememberInputContext ic e) = hotkey_of fx ev e"
  by (simp add: hotkey_of_def hotkey_role_def)

text \<open>The release ends the wait for a short tap.\<close>

definition held_to_stop :: "'k fcitx \<Rightarrow> 'k engine \<Rightarrow> bool" where
  "held_to_stop fx e \<longleftrightarrow> se_trigger_mode (en_settings e) = Hold
     \<or> se_trigger_mode (en_settings e) = Both \<and> fx_now fx - hk_press_time (en_hot e) \<ge> kTapMaxHoldDuration"

lemma early_release:
  assumes "en_session e = Some s" and "vs_phase s = PhPendingStart" and "vs_trigger s = k"
    and "vs_stop_on_release s" and "hot_ok (en_hot e)" and "role = RoleTrigger \<or> role = RoleCommand"
    and "held_to_stop fx e"
  shows "en_session (hotkey_release fx sm role k ic e) = Some (s\<lparr>vs_trigger_released := True\<rparr>)
    \<and> en_link (hotkey_release fx sm role k ic e) = en_link e"
proof (cases "hk_role (en_hot e) = role \<and> hk_key_sym (en_hot e) = Some sm")
  case True
  let ?c = "cancelPendingStart e"
  have "\<not> hk_chord_interrupted (en_hot e)" using assms(5,6) True by (auto simp: hot_ok_def)
  moreover have "active_release fx role k ic ?c = ?c"
    using assms by (auto simp: active_release_def trigger_release_def stop_if_recording_def cancelPendingStart_def
        held_to_stop_def)
  ultimately have "hotkey_release fx sm role k ic e = session_release fx k ?c"
    using True by (simp add: hotkey_release_def Let_def cancelPendingStart_def)
  then show ?thesis using assms by (simp add: hold_release_pending cancelPendingStart_def released_def)
next
  case False
  then have "hotkey_release fx sm role k ic e = session_release fx k e" by (auto simp: hotkey_release_def)
  then show ?thesis using assms by (simp add: hold_release_pending released_def)
qed

definition configured_scene :: "'k fcitx \<Rightarrow> SceneDefinition" where
  "configured_scene fx = scene_Resolve
     \<lparr>activeSceneId = cc_activeScene (fx_config fx), scenes = cc_definitions (fx_config fx)\<rparr>
     (cc_activeScene (fx_config fx))"

lemma busy_session:
  assumes "en_session e = Some s"
  shows "en_session (enterBusyState fx (Some i) c t pp (Some raw) e)
      = Some (s\<lparr>vs_phase := (if pp then PhPostprocessing else PhInferring), vs_ic := i, vs_trigger := k_none fx,
              vs_command_mode := c, vs_raw_prev := raw\<rparr>)"
    and "en_link (enterBusyState fx (Some i) c t pp (Some raw) e)
      = (en_link e)\<lparr>ln_status_timer := Some (fx_now fx + kStatusSyncIntervalUsec, True)\<rparr>"
  using assms
  by (simp_all add: enterBusyState_def Let_def take_session_def value_or_def ensureStatusSync_def)

lemma finishStop_session:
  assumes "en_session e = Some s" and "vs_phase s = PhRecording"
  shows "en_session (finishStopRecording fx e) = Some (s\<lparr>vs_phase := PhInferring, vs_trigger := k_none fx,
      vs_raw_prev := sc_raw_prev (configured_scene fx)\<rparr>)"
    and "callable fx e \<Longrightarrow> fx_sent fx \<Longrightarrow>
      last (en_out (finishStopRecording fx e)) = StopRecordingCall (sc_id (configured_scene fx))"
proof -
  let ?e2 = "(reloadSceneConfig fx e)\<lparr>en_active_scene_id := sc_id (configured_scene fx),
      en_session := Some (s\<lparr>vs_raw_prev := sc_raw_prev (configured_scene fx), vs_trigger := k_none fx\<rparr>)\<rparr>"
  let ?b = "enterBusyState fx (Some (vs_ic s)) (vs_command_mode s) (tr fx ''... Recognizing ...'') False
      (Some (sc_raw_prev (configured_scene fx))) ?e2"
  have c: "scene_Resolve (en_scene_config (reloadSceneConfig fx e)) (en_active_scene_id (reloadSceneConfig fx e))
      = configured_scene fx"
    by (simp add: reloadSceneConfig_def configured_scene_def Let_def)
  have f: "finishStopRecording fx e = snd (callStopRecording fx (sc_id (configured_scene fx)) ?b)"
    using assms by (simp add: finishStopRecording_def Let_def c)
  show "en_session (finishStopRecording fx e) = Some (s\<lparr>vs_phase := PhInferring, vs_trigger := k_none fx,
      vs_raw_prev := sc_raw_prev (configured_scene fx)\<rparr>)"
    unfolding f by (simp add: busy_session)
  have "callable fx ?b = callable fx e"
    by (simp add: callable_def daemonSyncAllowed_def busy_session)
  then show "callable fx e \<Longrightarrow> fx_sent fx \<Longrightarrow>
      last (en_out (finishStopRecording fx e)) = StopRecordingCall (sc_id (configured_scene fx))"
    unfolding f by (simp add: callStopRecording_def Let_def issue_def)
qed

text \<open>
  C28: a push-to-talk key that is released before the daemon has reported that it records is not forgotten.
  The session waits for its start, the released key is its trigger, no menu and no cancellation takes the key,
  and the key was held to stop (hold mode, or held for at least the longest tap). When the daemon then reports
  the recording, the stop is scheduled; and when that timer is due, at a moment when calls are possible (there
  is a bus, and no failure was noted within the cooldown) and the call can be sent, the recording is stopped
  with the configured scene and the session goes on to recognition. A stop that falls into the cooldown is not
  sent; that case is treated below.
\<close>

theorem early_release_stops:
  assumes "engine_inv e" and "en_session e = Some s" and "vs_phase s = PhPendingStart"
    and "vs_trigger s = k" and "vs_stop_on_release s"
    and "plain_key fx1 ev e" and "ke_release ev" and "hotkey_of fx1 ev e = Some (role, k)"
    and "role = RoleTrigger \<or> role = RoleCommand" and "held_to_stop fx1 e"
    and "fx_now fx2 + kReleaseDebounce \<le> fx_now fx3" and "callable fx3 e" and "fx_sent fx3"
  shows "(let e' = foldl engine_step e [(fx1, KeyEvent ev), (fx2, StatusSignal ''recording''), (fx3, StopTimer)] in
      last (en_out e') = StopRecordingCall (sc_id (configured_scene fx3))
      \<and> map_option vs_phase (en_session e') = Some PhInferring)"
proof -
  define e1 where "e1 = engine_step e (fx1, KeyEvent ev)"
  define e2 where "e2 = onStatusChanged fx2 ''recording'' e1"
  have h: "en_session e1 = Some (s\<lparr>vs_trigger_released := True\<rparr>)" "en_link e1 = en_link e"
  proof -
    have "en_session (hotkey_release fx1 sm role k (ke_ic ev) (rememberInputContext ic e)) = Some (s\<lparr>vs_trigger_released := True\<rparr>)
        \<and> en_link (hotkey_release fx1 sm role k (ke_ic ev) (rememberInputContext ic e)) = en_link e" for sm ic
      using assms early_release [of "rememberInputContext ic e" s k role fx1 sm "ke_ic ev"]
      by (simp add: engine_inv_def held_to_stop_def)
    then show "en_session e1 = Some (s\<lparr>vs_trigger_released := True\<rparr>)" "en_link e1 = en_link e"
      using assms by (simp_all only: e1_def plain_key_hotkeys) (simp_all add: hotkeys_of)
  qed
  have "stop_after_start e1" using h assms by (simp add: stop_after_start_def)
  then have two: "en_session e2 = Some (s\<lparr>vs_trigger_released := True, vs_phase := PhRecording\<rparr>)"
    "en_stop_timer e2 = Some (fx_now fx2 + kReleaseDebounce, True)" "ln_bus (en_link e2) = ln_bus (en_link e)"
    "ln_blocked_until (en_link e2) = ln_blocked_until (en_link e)"
    using recording_signal [OF h(1), of fx2] h(2) by (simp_all add: e2_def)
  let ?t = "e2\<lparr>en_stop_timer := timer_off (en_stop_timer e2)\<rparr>"
  have f: "fire_stop_timer fx3 e2 = finishStopRecording fx3 ?t"
    using two(2) assms(11) by (simp add: fire_stop_timer_def timer_due_def)
  have "callable fx3 ?t" using assms(12) two by (simp add: callable_def daemonSyncAllowed_def)
  then have "last (en_out (fire_stop_timer fx3 e2)) = StopRecordingCall (sc_id (configured_scene fx3))
      \<and> map_option vs_phase (en_session (fire_stop_timer fx3 e2)) = Some PhInferring"
    unfolding f using finishStop_session [of ?t _ fx3] two(1) assms(13) by simp
  then show ?thesis by (simp add: e2_def e1_def Let_def)
qed

section \<open>An engine to run\<close>

text \<open>Keys are their symbols, without modifiers; no translation, an empty catalogue, ASCII text.\<close>

definition example_palette :: palette_env where
  "example_palette = \<lparr>pe_tr = id, pe_sprintf = (\<lambda>f args. f @ concat args), pe_i18n = (\<lambda>_. None),
     pe_local_asr = False, pe_local_models = (\<lambda>_. []), pe_running = (\<lambda>_. False),
     pe_model_io = \<lparr>mi_read = (\<lambda>_. None), mi_emit = (\<lambda>_. None), mi_write = None, mi_time = Finite 0\<rparr>\<rparr>"

definition example_scenes :: CoreConfig where
  "example_scenes = default_config\<lparr>cc_activeScene := ''notes'',
     cc_definitions := [default_scene\<lparr>sc_id := ''notes'', sc_context_lines := 5\<rparr>]\<rparr>"

definition list_position :: "nat \<Rightarrow> nat list \<Rightarrow> int" where
  "list_position k ks = (case find_index (\<lambda>x. x = k) ks of Some i \<Rightarrow> int i | None \<Rightarrow> -1)"

definition example_fcitx :: "int \<Rightarrow> nat fcitx" where
  "example_fcitx now =
     \<lparr>k_none = 0, k_normalize = id, k_sym = id, k_no_states = (\<lambda>_. True), k_isModifier = (\<lambda>k. k < 10),
      k_keyListIndex = list_position, k_isReleaseOfModifier = (\<lambda>_ _. False), k_check = (\<lambda>k s. k = s),
      k_checkKeyList = (\<lambda>k ks. k \<in> set ks), k_digitSelection = (\<lambda>_. -1), k_symToUTF8 = (\<lambda>_. []),
      fx_surrounding = (\<lambda>_. None), fx_clipboard = (\<lambda>_. None), fx_validate = (\<lambda>_. True),
      fx_nchar_bytes = (\<lambda>_ n. n), fx_panel = (\<lambda>_. \<lparr>pn_words = None, pn_cursor = 0, pn_movable = False,
        pn_can_turn = (\<lambda>_. False)\<rparr>),
      fx_unicode = ascii_unicode, fx_ideograph = (\<lambda>_. False), fx_sentence_terminal = (\<lambda>cp. cp = 46),
      fx_first_codepoint = (\<lambda>_. 0), fx_palette = example_palette,
      fx_parse = (\<lambda>t. Some \<lparr>wp_commit_text = Some t, wp_candidates =
        Some [\<lparr>wc_text = Some t, wc_source = Some kSourceRaw\<rparr>, \<lparr>wc_text = Some (t @ ''.''), wc_source = Some kSourceLlm\<rparr>]\<rparr>),
      fx_now = now, fx_timestamp = 0, fx_config = example_scenes, fx_save = (\<lambda>_. True), fx_sent = True,
      fx_status_reply = NoMessage, fx_rpc_reply = NoMessage\<rparr>"

definition addon_settings :: "TriggerMode \<Rightarrow> nat settings" where
  "addon_settings mode = \<lparr>se_trigger_mode = mode, se_trigger_keys = [1], se_command_keys = [2], se_menu_keys = [3],
     se_page_prev_keys = [], se_page_next_keys = [], se_max_width = 60\<rparr>"

definition example_key :: "nat \<Rightarrow> bool \<Rightarrow> nat key_event" where
  "example_key k is_release = \<lparr>ke_key = k, ke_orig_key = k, ke_release = is_release, ke_ic = 7\<rparr>"

definition example_run :: "TriggerMode \<Rightarrow> (int \<times> nat engine_event) list \<Rightarrow> nat engine" where
  "example_run mode evs = foldl engine_step (new_engine (example_fcitx 0) True (addon_settings mode) None)
     (map (\<lambda>(t, ev). (example_fcitx t, ev)) evs)"

definition example_pressed :: "nat engine" where
  "example_pressed = example_run Hold [(1000000, KeyEvent (example_key 1 False))]"

lemma example_run_inv: "engine_inv (example_run mode evs)"
  unfolding example_run_def by (rule engine.run_inv)

lemma example_pressed_session:
  "case en_session example_pressed of
     Some s \<Rightarrow> vs_phase s = PhPendingStart \<and> vs_trigger s = 1 \<and> vs_stop_on_release s
   | None \<Rightarrow> False"
  by code_simp

lemma example_release:
  "\<not> swallowed_release (example_fcitx 1200000) (example_key 1 True) example_pressed
   \<and> cancel_key (example_fcitx 1200000) (example_key 1 True) example_pressed = None
   \<and> hotkey_of (example_fcitx 1200000) (example_key 1 True) example_pressed = Some (RoleTrigger, 1)
   \<and> se_trigger_mode (en_settings example_pressed) = Hold \<and> callable (example_fcitx 2000000) example_pressed"
  by code_simp

theorem early_release_stops_witness:
  "last (en_out (foldl engine_step example_pressed [(example_fcitx 1200000, KeyEvent (example_key 1 True)),
      (example_fcitx 1300000, StatusSignal ''recording''), (example_fcitx 2000000, StopTimer)]))
     = StopRecordingCall ''notes''"
proof -
  obtain s where s: "en_session example_pressed = Some s"
    using example_pressed_session by (auto split: option.splits)
  have inv: "engine_inv example_pressed" unfolding example_pressed_def by (rule example_run_inv)
  have plain: "plain_key (example_fcitx 1200000) (example_key 1 True) example_pressed"
    using inv s example_release by (simp add: plain_key_def engine_inv_def menu_ok_def)
  have "sc_id (configured_scene (example_fcitx 2000000)) = ''notes''" by code_simp
  moreover have "fx_now (example_fcitx 1300000) + kReleaseDebounce \<le> fx_now (example_fcitx 2000000)"
    "fx_sent (example_fcitx 2000000)" "ke_release (example_key 1 True)"
    by (simp_all add: example_fcitx_def kReleaseDebounce_def example_key_def)
  ultimately show ?thesis
    using early_release_stops [OF inv s _ _ _ plain, of 1 RoleTrigger "example_fcitx 1300000" "example_fcitx 2000000"]
      example_pressed_session example_release s
    by (simp add: held_to_stop_def Let_def)
qed

section \<open>Recovery\<close>

text \<open>
  While a session is shown, an accepted poll that finds the daemon idle ends the session once the polls
  have found it idle for the recovery delay of five seconds, and the display is cleared; before that the
  session goes on and the time of the first idle poll is kept.
\<close>

theorem polled_idle_recovers:
  assumes "engine_inv e" and "en_session e = Some s" and "ln_status_call (en_link e) = Some t"
    and "tk_generation t = g_generation (ln_gate (en_link e))"
  shows "(let e' = engine_step e (fx, StatusReply (Reply ''idle''));
              since = value_or (ln_polled_idle_since (en_link e)) (fx_now fx)
          in if fx_now fx - since \<ge> kPolledIdleRecoveryDelay then
               en_session e' = None \<and> en_status_ic e' = None \<and> \<not> timer_on (ln_status_timer (en_link e'))
               \<and> last (en_out e') = ShowPreedit (vs_ic s) [] []
             else en_session e' = Some s \<and> ln_polled_idle_since (en_link e') = Some since)"
proof -
  have ok: "gate_IsActive (ln_gate (en_link e)) t"
    using assms(1,3) by (simp add: engine_inv_def session_ok_def gate_ok_def gate_IsActive_def)
  define e1 where "e1 = clearDaemonSyncFailure (e\<lparr>en_link := (en_link e)
      \<lparr>ln_status_call := None, ln_gate := (ln_gate (en_link e))\<lparr>g_active := False\<rparr>\<rparr>\<rparr>)"
  have step: "engine_step e (fx, StatusReply (Reply ''idle'')) = polled_status fx ''idle'' e1"
    using ok assms(3,4) by (simp add: onStatusReply_def gate_Complete_def e1_def Let_def)
  have e1: "en_session e1 = Some s" "en_status_ic e1 = Some (vs_ic s)"
    "ln_polled_idle_since (en_link e1) = ln_polled_idle_since (en_link e)"
    using assms(1,2) by (simp_all add: e1_def engine_inv_def session_ok_def clearDaemonSyncFailure_def)
  have finish: "en_status_ic (finishFrontendSession ic r) = None"
    "\<not> timer_on (ln_status_timer (en_link (finishFrontendSession ic r)))"
    "last (en_out (finishFrontendSession ic r)) = ShowPreedit (vs_ic s) [] []"
    if "en_session r = Some s" "en_status_ic r = Some (vs_ic s)" for r :: "'a engine" and ic
    using that by (simp_all add: finishFrontendSession_def Let_def stopStatusSyncIfIdle_def
        clearVoicePresentation_def updateVoicePresentation_def issue_def)
  show ?thesis
    unfolding step
    using e1 finish
    by (simp add: polled_status_def Let_def applyDaemonStatusLocally_def resolveFrontendInputContext_def not_less)
qed

definition example_polling :: "nat engine" where
  "example_polling = example_run Hold
     [(1000000, KeyEvent (example_key 1 False)), (1250000, StatusTimer), (1300000, StatusReply (Reply ''idle'')),
      (1500000, StatusTimer), (1600000, StatusReply (Reply ''idle'')), (6300000, StatusTimer)]"

lemma example_polling_state:
  "map_option vs_ic (en_session example_polling) = Some 7
   \<and> ln_polled_idle_since (en_link example_polling) = Some 1300000
   \<and> (case ln_status_call (en_link example_polling) of
        Some t \<Rightarrow> tk_generation t = g_generation (ln_gate (en_link example_polling))
      | None \<Rightarrow> False)"
  by code_simp

theorem polled_idle_recovers_witness:
  "en_session example_polling \<noteq> None
   \<and> en_session (engine_step example_polling (example_fcitx 6400000, StatusReply (Reply ''idle''))) = None"
proof -
  obtain s t where st: "en_session example_polling = Some s" "ln_status_call (en_link example_polling) = Some t"
    "tk_generation t = g_generation (ln_gate (en_link example_polling))"
    using example_polling_state by (auto split: option.splits)
  have inv: "engine_inv example_polling" unfolding example_polling_def by (rule example_run_inv)
  from polled_idle_recovers [OF inv st, of "example_fcitx 6400000"] example_polling_state st(1)
  show ?thesis
    by (simp add: Let_def value_or_def example_fcitx_def kPolledIdleRecoveryDelay_def del: engine_step.simps)
qed

section \<open>Chords\<close>

lemma plain_same [simp]:
  "plain_key fx ev (issue x e) = plain_key fx ev e" "hotkey_of fx ev (issue x e) = hotkey_of fx ev e"
  "plain_key fx ev (rememberInputContext ic e) = plain_key fx ev e"
  by (simp_all add: plain_key_def swallowed_release_def cancel_key_def hotkey_of_def hotkey_role_def split: option.split)

lemma dismiss_idle:
  assumes "\<not> mn_palette_visible (en_menu e)" and "\<not> mn_result_visible (en_menu e)"
  shows "en_out (dismissMenusForVoiceActivity e) = en_out e"
  using assms by (simp add: dismissMenusForVoiceActivity_def hidePaletteMenu_def hideResultMenu_def
      resetPaletteMenuState_def resetResultMenuState_def Let_def)

text \<open>
  A menu key, or in tap mode a trigger or command key, that is pressed together with another key does
  nothing when it is released: no recording is started and no palette opened; the hotkey's own events are the
  only ones that are taken away from the client.
\<close>

theorem chord_does_nothing:
  assumes "en_session e = None" and "hk_role (en_hot e) = RoleNone"
    and "role = RoleMenu \<or> role \<noteq> RoleNone \<and> se_trigger_mode (en_settings e) = Tap"
    and "\<not> mn_result_visible (en_menu e)" and "\<not> mn_palette_visible (en_menu e)"
    and "hk_pending_postprocessing_release (en_hot e) = None"
    and "\<not> ke_release press" and "hotkey_of fx1 press e = Some (role, k)"
    and "\<not> ke_release other" and "hotkey_of fx2 other e = None"
    and "ke_release rel" and "hotkey_of fx3 rel e = Some (role, k)"
  shows "(let e' = foldl engine_step e [(fx1, KeyEvent press), (fx2, KeyEvent other), (fx3, KeyEvent rel)] in
      en_out e' = en_out e @ [AcceptKey, AcceptKey] \<and> en_session e' = None
      \<and> \<not> mn_palette_visible (en_menu e') \<and> \<not> mn_result_visible (en_menu e'))"
proof -
  define idle where "idle r \<longleftrightarrow> en_session r = None \<and> \<not> mn_result_visible (en_menu r)
      \<and> \<not> mn_palette_visible (en_menu r) \<and> hk_pending_postprocessing_release (en_hot r) = None
      \<and> en_settings r = en_settings e" for r :: "'a engine"
  have plain: "plain_key fx ev r" and same: "hotkey_of fx ev r = hotkey_of fx ev e"
    if "idle r" for fx ev r
    using that by (simp_all add: plain_key_def swallowed_release_def cancel_key_def hotkey_of_def hotkey_role_def
        idle_def)
  have out: "en_out (rememberInputContext ic r) = en_out r" for ic and r :: "'a engine"
    by (simp add: rememberInputContext_def split: option.split)
  have keep: "idle (rememberInputContext ic r) = idle r" "idle (issue x r) = idle r" for ic x r
    by (simp_all add: idle_def)
  define e1 where "e1 = engine_step e (fx1, KeyEvent press)"
  define e2 where "e2 = engine_step e1 (fx2, KeyEvent other)"
  have e: "idle e" using assms by (simp add: idle_def)
  have press: "idle (hotkey_press fx1 sm role k ic r) \<and> en_out (hotkey_press fx1 sm role k ic r) = en_out r"
    if "idle r" for sm ic r
    using that assms(3)
    by (auto simp: hotkey_press_def new_press_def Let_def idle_def cancelPendingStop_def dismiss_idle)
  have "e1 = issue AcceptKey (hotkey_press fx1 (k_sym fx1 (k_normalize fx1 (ke_orig_key press))) role k (ke_ic press)
      (rememberInputContext (Some (ke_ic press)) e))"
    unfolding e1_def plain_key_hotkeys [OF plain [OF e]] using assms(7,8) by (simp add: hotkeys_of)
  then have e1: "idle e1" "en_out e1 = en_out e @ [AcceptKey]"
    using press [of "rememberInputContext (Some (ke_ic press)) e"] e out by (simp_all add: keep) (simp add: issue_def)
  have "e2 = regular_key_press (rememberInputContext (Some (ke_ic other)) e1)"
    unfolding e2_def plain_key_hotkeys [OF plain [OF e1(1)]] using assms(9,10) same [OF e1(1)] by (simp add: hotkeys_of)
  then have e2: "idle e2" "en_out e2 = en_out e1" "hk_role (en_hot e2) = RoleNone"
    using e1(1) out by (auto simp: regular_key_press_def cancelPendingStart_def Let_def idle_def)
  have "engine_step e2 (fx3, KeyEvent rel) = issue AcceptKey (rememberInputContext (Some (ke_ic rel)) e2)"
    unfolding plain_key_hotkeys [OF plain [OF e2(1)]] using assms(3,11,12) same [OF e2(1)] e2
    by (auto simp: hotkeys_of hotkey_release_def session_release_def idle_def)
  then have "en_out (engine_step e2 (fx3, KeyEvent rel)) = en_out e @ [AcceptKey, AcceptKey]
      \<and> idle (engine_step e2 (fx3, KeyEvent rel))"
    using e1 e2 out by (simp add: keep) (simp add: issue_def)
  then show ?thesis by (simp add: e2_def e1_def Let_def idle_def)
qed

section \<open>A stop that is lost\<close>

text \<open>The calls with which the addon asks the daemon to start, to stop or to cancel.\<close>

fun daemon_call :: "output_event \<Rightarrow> bool" where
  "daemon_call StartRecordingCall = True"
| "daemon_call (StartCommandRecordingCall _) = True"
| "daemon_call (StopRecordingCall _) = True"
| "daemon_call (CancelOperationCall _) = True"
| "daemon_call _ = False"

definition daemon_calls :: "'k engine \<Rightarrow> output_event list" where
  "daemon_calls e = filter daemon_call (en_out e)"

lemma daemon_calls_issue [simp]:
  "daemon_calls (issue x e) = daemon_calls e @ (if daemon_call x then [x] else [])"
  by (simp add: daemon_calls_def issue_def)

lemma daemon_calls_update [simp]:
  "daemon_calls (e\<lparr>en_session := a\<rparr>) = daemon_calls e" "daemon_calls (e\<lparr>en_status_ic := b\<rparr>) = daemon_calls e"
  "daemon_calls (e\<lparr>en_link := l\<rparr>) = daemon_calls e" "daemon_calls (e\<lparr>en_hot := h\<rparr>) = daemon_calls e"
  "daemon_calls (e\<lparr>en_stop_timer := tm\<rparr>) = daemon_calls e" "daemon_calls (e\<lparr>en_menu := m\<rparr>) = daemon_calls e"
  "daemon_calls (e\<lparr>en_active_scene_id := i\<rparr>) = daemon_calls e" "daemon_calls (e\<lparr>en_ctx := cx\<rparr>) = daemon_calls e"
  "daemon_calls (e\<lparr>en_scene_config := sc\<rparr>) = daemon_calls e"
  "daemon_calls (e\<lparr>en_command_selected_text := t\<rparr>) = daemon_calls e"
  "daemon_calls (e\<lparr>en_last_active_ic := ic\<rparr>) = daemon_calls e"
  by (simp_all add: daemon_calls_def)

lemma daemon_calls_menus [simp]:
  "daemon_calls (hidePaletteMenu e) = daemon_calls e" "daemon_calls (hideResultMenu e) = daemon_calls e"
  by (simp_all add: hidePaletteMenu_def hideResultMenu_def resetPaletteMenuState_def resetResultMenuState_def Let_def
      split: option.split bool.split)

lemma daemon_calls_quiet [simp]:
  "daemon_calls (dismissMenusForVoiceActivity e) = daemon_calls e"
  "daemon_calls (updateVoicePresentation ic p a e) = daemon_calls e"
  "daemon_calls (clearVoicePresentation ic e) = daemon_calls e"
  "daemon_calls (rememberInputContext ic e) = daemon_calls e"
  "daemon_calls (leave_other i e) = daemon_calls e"
  "daemon_calls (take_session fx i ph k c r e) = daemon_calls e"
  "daemon_calls (ensureStatusSync fx e) = daemon_calls e"
  "daemon_calls (stopStatusSyncIfIdle e) = daemon_calls e"
  "daemon_calls (reloadSceneConfig fx e) = daemon_calls e"
  "daemon_calls (noteDaemonSyncFailure fx e) = daemon_calls e"
  "daemon_calls (clearDaemonSyncFailure e) = daemon_calls e"
  by (simp_all add: dismissMenusForVoiceActivity_def updateVoicePresentation_def clearVoicePresentation_def
      rememberInputContext_def leave_other_def take_session_def ensureStatusSync_def stopStatusSyncIfIdle_def
      reloadSceneConfig_def noteDaemonSyncFailure_def clearDaemonSyncFailure_def Let_def split: option.split)

lemma daemon_calls_phases [simp]:
  "daemon_calls (enterBusyState fx ic c t pp raw e) = daemon_calls e"
  "daemon_calls (enterRecordingState fx ic k c e) = daemon_calls e"
  "daemon_calls (finishFrontendSession ic e) = daemon_calls e"
  by (simp_all add: enterBusyState_def enterRecordingState_def scheduleStopRecording_def finishFrontendSession_def
      Let_def split: option.split)

text \<open>The engine's stop while the daemon is not called: the session moves on, the daemon is told nothing.\<close>

lemma stop_in_cooldown:
  assumes "en_session e = Some s" and "vs_phase s = PhRecording" and "timer_due (fx_now fx) (en_stop_timer e)"
    and "\<not> callable fx e"
  shows "en_session (fire_stop_timer fx e) = Some (s\<lparr>vs_phase := PhInferring, vs_trigger := k_none fx,
      vs_raw_prev := sc_raw_prev (configured_scene fx)\<rparr>)"
    and "daemon_calls (fire_stop_timer fx e) = daemon_calls e"
    and "en_link (fire_stop_timer fx e) = (en_link e)\<lparr>
      ln_status_timer := Some (fx_now fx + kStatusSyncIntervalUsec, True),
      ln_blocked_until := fx_now fx + kDaemonFailureCooldown\<rparr>"
    and "en_hot (fire_stop_timer fx e) = en_hot e" and "en_settings (fire_stop_timer fx e) = en_settings e"
proof -
  let ?e = "e\<lparr>en_stop_timer := timer_off (en_stop_timer e)\<rparr>"
  let ?e2 = "(reloadSceneConfig fx ?e)\<lparr>en_active_scene_id := sc_id (configured_scene fx),
      en_session := Some (s\<lparr>vs_raw_prev := sc_raw_prev (configured_scene fx), vs_trigger := k_none fx\<rparr>)\<rparr>"
  let ?b = "enterBusyState fx (Some (vs_ic s)) (vs_command_mode s) (tr fx ''... Recognizing ...'') False
      (Some (sc_raw_prev (configured_scene fx))) ?e2"
  have "scene_Resolve (en_scene_config (reloadSceneConfig fx ?e)) (en_active_scene_id (reloadSceneConfig fx ?e))
      = configured_scene fx"
    by (simp add: reloadSceneConfig_def configured_scene_def Let_def)
  then have "fire_stop_timer fx e = snd (callStopRecording fx (sc_id (configured_scene fx)) ?b)"
    using assms(1-3) by (simp add: fire_stop_timer_def finishStopRecording_def Let_def)
  moreover have link: "en_link ?b = (en_link e)\<lparr>ln_status_timer := Some (fx_now fx + kStatusSyncIntervalUsec, True)\<rparr>"
    by (subst busy_session(2)) simp_all
  moreover have "\<not> callable fx ?b" using assms(4) by (simp add: callable_def daemonSyncAllowed_def link)
  ultimately have f: "fire_stop_timer fx e = noteDaemonSyncFailure fx ?b" by (simp add: callStopRecording_def)
  show "en_session (fire_stop_timer fx e) = Some (s\<lparr>vs_phase := PhInferring, vs_trigger := k_none fx,
      vs_raw_prev := sc_raw_prev (configured_scene fx)\<rparr>)"
    unfolding f by (simp add: busy_session)
  show "daemon_calls (fire_stop_timer fx e) = daemon_calls e" unfolding f by simp
  show "en_link (fire_stop_timer fx e) = (en_link e)\<lparr>
      ln_status_timer := Some (fx_now fx + kStatusSyncIntervalUsec, True),
      ln_blocked_until := fx_now fx + kDaemonFailureCooldown\<rparr>"
    unfolding f by (simp add: noteDaemonSyncFailure_def link)
  show "en_hot (fire_stop_timer fx e) = en_hot e" "en_settings (fire_stop_timer fx e) = en_settings e"
    unfolding f
    by (simp_all add: noteDaemonSyncFailure_def enterBusyState_def Let_def ensureStatusSync_def stopStatusSyncIfIdle_def
        leave_other_def)
qed

text \<open>A poll that finds the daemon recording shows the recording again, with the session's trigger.\<close>

lemma poll_sent:
  assumes "en_session e = Some s" and "timer_due (fx_now fx) (ln_status_timer (en_link e))" and "callable fx e"
    and "fx_sent fx" and "\<not> g_active (ln_gate (en_link e))"
  shows "(case engine_step e (fx, StatusTimer) of e' \<Rightarrow>
      en_session e' = Some s \<and> daemon_calls e' = daemon_calls e \<and> en_hot e' = en_hot e
      \<and> en_settings e' = en_settings e \<and> ln_bus (en_link e') = ln_bus (en_link e)
      \<and> (\<exists>t. ln_status_call (en_link e') = Some t \<and> gate_IsActive (ln_gate (en_link e')) t
             \<and> tk_generation t = g_generation (ln_gate (en_link e'))))"
  using assms
  by (simp add: fire_status_timer_def syncFrontendWithDaemonStatus_def TryBegin_def gate_IsActive_def callable_def
      daemonSyncAllowed_def Let_def)

lemma poll_shows_recording:
  assumes "en_session e = Some s" and "vs_phase s \<noteq> PhPendingStart" and "ln_status_call (en_link e) = Some t"
    and "gate_IsActive (ln_gate (en_link e)) t" and "tk_generation t = g_generation (ln_gate (en_link e))"
  shows "(case engine_step e (fx, StatusReply (Reply ''recording'')) of e' \<Rightarrow>
      en_session e' = Some (s\<lparr>vs_phase := PhRecording\<rparr>) \<and> daemon_calls e' = daemon_calls e \<and> en_hot e' = en_hot e
      \<and> en_settings e' = en_settings e \<and> ln_bus (en_link e') = ln_bus (en_link e))"
  using assms
  by (simp add: onStatusReply_def gate_Complete_def polled_status_def applyDaemonStatusLocally_def
      resolveFrontendInputContext_def enterRecordingState_def take_session_def ensureStatusSync_def value_or_def
      session_raw_prev_def stop_after_start_def clearDaemonSyncFailure_def leave_other_def Let_def)

text \<open>A press of a hotkey that is not the session's trigger cancels what is being recorded.\<close>

lemma foreign_press_cancels:
  assumes "engine_inv e" and "en_session e = Some s" and "vs_phase s = PhRecording" and "vs_trigger s \<noteq> k"
    and "\<not> ke_release ev" and "hotkey_of fx ev e = Some (role, k)" and "role = RoleTrigger \<or> role = RoleCommand"
    and "kTriggerDebounce \<le> fx_now fx - hk_last_trigger_time (en_hot e)" and "ln_bus (en_link e)"
  shows "en_session (engine_step e (fx, KeyEvent ev)) = None
    \<and> daemon_calls (engine_step e (fx, KeyEvent ev)) = daemon_calls e @ [CancelOperationCall False]"
proof -
  have "plain_key fx ev e"
    using assms by (simp add: plain_key_def swallowed_release_def cancel_key_def engine_inv_def menu_ok_def
        split: option.split)
  note step = plain_key_hotkeys [OF this]
  show ?thesis
    unfolding step using assms
    by (auto simp: hotkeys_of hotkey_press_def second_press_def recording_active_def abort_session_def
        callCancelOperation_def cancelPendingStop_def Let_def)
qed

text \<open>
  C39: a defect. Suppose a call to the daemon has failed within the last second and a half, so that calls are
  held back, and the timer that ends a recording fires. The session moves on to recognition and forgets its
  trigger key, but the daemon is not asked to stop. When calls are possible again, no poll is outstanding and
  the next status poll is sent and answered with the truth, that the daemon is recording, the session is
  shown as recording again, still without its trigger key. A press of a trigger or command key, the one that
  was used before included, once the debounce time has passed, is then taken for another key: it ends the
  session and cancels the recording. Over the whole run the daemon is asked to cancel, and never to stop.
\<close>

theorem throttled_stop_discards:
  assumes "engine_inv e" and "en_session e = Some s" and "vs_phase s = PhRecording"
    and "timer_due (fx_now fx1) (en_stop_timer e)" and "ln_bus (en_link e)" and "\<not> daemonSyncAllowed fx1 e"
    and "ln_status_call (en_link e) = None" and "fx_sent fx2"
    and "fx_now fx1 + kStatusSyncIntervalUsec \<le> fx_now fx2" and "fx_now fx1 + kDaemonFailureCooldown \<le> fx_now fx2"
    and "\<not> ke_release ev" and "hotkey_of fx4 ev e = Some (role, k)" and "role = RoleTrigger \<or> role = RoleCommand"
    and "k \<noteq> k_none fx1" and "kTriggerDebounce \<le> fx_now fx4 - hk_last_trigger_time (en_hot e)"
  shows "(let e1 = engine_step e (fx1, StopTimer);
              e3 = foldl engine_step e1 [(fx2, StatusTimer), (fx3, StatusReply (Reply ''recording''))];
              e4 = engine_step e3 (fx4, KeyEvent ev)
          in map_option vs_phase (en_session e1) = Some PhInferring
             \<and> map_option vs_phase (en_session e3) = Some PhRecording \<and> daemon_calls e3 = daemon_calls e
             \<and> en_session e4 = None \<and> daemon_calls e4 = daemon_calls e @ [CancelOperationCall False])"
proof -
  define e1 where "e1 = engine_step e (fx1, StopTimer)"
  define e2 where "e2 = engine_step e1 (fx2, StatusTimer)"
  define e3 where "e3 = engine_step e2 (fx3, StatusReply (Reply ''recording''))"
  have inv: "engine_inv e3" using assms(1) engine.inv_step unfolding e1_def e2_def e3_def by blast
  have "\<not> callable fx1 e" using assms(6) by (simp add: callable_def)
  note stop = stop_in_cooldown [OF assms(2-4) this]
  define s1 where "s1 = s\<lparr>vs_phase := PhInferring, vs_trigger := k_none fx1,
      vs_raw_prev := sc_raw_prev (configured_scene fx1)\<rparr>"
  have e1: "en_session e1 = Some s1" "daemon_calls e1 = daemon_calls e" "en_hot e1 = en_hot e"
    "en_settings e1 = en_settings e" "ln_bus (en_link e1)"
    "timer_due (fx_now fx2) (ln_status_timer (en_link e1))" "callable fx2 e1" "\<not> g_active (ln_gate (en_link e1))"
    using stop assms(1,5,7,9,10)
    by (simp_all add: e1_def s1_def timer_due_def callable_def daemonSyncAllowed_def engine_inv_def session_ok_def
        gate_ok_def)
  obtain t where e2: "en_session e2 = Some s1" "daemon_calls e2 = daemon_calls e" "en_hot e2 = en_hot e"
    "en_settings e2 = en_settings e" "ln_bus (en_link e2)" "ln_status_call (en_link e2) = Some t"
    "gate_IsActive (ln_gate (en_link e2)) t" "tk_generation t = g_generation (ln_gate (en_link e2))"
    using poll_sent [OF e1(1,6,7) assms(8) e1(8)] e1(2-5) unfolding e2_def [symmetric] by auto
  have "vs_phase s1 \<noteq> PhPendingStart" by (simp add: s1_def)
  from poll_shows_recording [OF e2(1) this e2(6-8), of fx3]
  have e3: "en_session e3 = Some (s1\<lparr>vs_phase := PhRecording\<rparr>)" "daemon_calls e3 = daemon_calls e"
    "en_hot e3 = en_hot e" "en_settings e3 = en_settings e" "ln_bus (en_link e3)"
    using e2 unfolding e3_def [symmetric] by simp_all
  have "hotkey_of fx4 ev e3 = Some (role, k)"
    using assms(12) e3(4) by (simp add: hotkey_of_def hotkey_role_def)
  then have "en_session (engine_step e3 (fx4, KeyEvent ev)) = None
      \<and> daemon_calls (engine_step e3 (fx4, KeyEvent ev)) = daemon_calls e @ [CancelOperationCall False]"
    using foreign_press_cancels [OF inv e3(1), of k ev fx4 role] assms(11,13-15) e3 by (simp add: s1_def)
  moreover have "foldl engine_step e1 [(fx2, StatusTimer), (fx3, StatusReply (Reply ''recording''))] = e3"
    by (simp only: foldl_Cons foldl_Nil e2_def e3_def)
  ultimately show ?thesis
    unfolding Let_def e1_def [symmetric] using e1(1) e3(1,2) by (simp add: s1_def del: engine_step.simps)
qed

text \<open>The user holds the key, speaks and releases it; a poll has failed meanwhile.\<close>

definition released_in_cooldown :: "nat engine" where
  "released_in_cooldown = example_run Hold
     [(1000000, KeyEvent (example_key 1 False)), (1100000, StatusSignal ''recording''), (1350000, StatusTimer),
      (1400000, StatusReply NoMessage), (2000000, KeyEvent (example_key 1 True))]"

lemma released_in_cooldown_state:
  "map_option vs_phase (en_session released_in_cooldown) = Some PhRecording
   \<and> timer_due 2500000 (en_stop_timer released_in_cooldown) \<and> ln_bus (en_link released_in_cooldown)
   \<and> ln_blocked_until (en_link released_in_cooldown) = 2900000
   \<and> ln_status_call (en_link released_in_cooldown) = None
   \<and> hk_last_trigger_time (en_hot released_in_cooldown) = 1000000
   \<and> hotkey_of (example_fcitx 5000000) (example_key 1 False) released_in_cooldown = Some (RoleTrigger, 1)
   \<and> daemon_calls released_in_cooldown = [StartRecordingCall]"
  by code_simp

theorem throttled_stop_discards_witness:
  "daemon_calls (foldl engine_step released_in_cooldown
     [(example_fcitx 2500000, StopTimer), (example_fcitx 4100000, StatusTimer),
      (example_fcitx 4150000, StatusReply (Reply ''recording'')), (example_fcitx 5000000, KeyEvent (example_key 1 False))])
   = [StartRecordingCall, CancelOperationCall False]"
proof -
  obtain s where s: "en_session released_in_cooldown = Some s" "vs_phase s = PhRecording"
    using released_in_cooldown_state by auto
  have inv: "engine_inv released_in_cooldown" unfolding released_in_cooldown_def by (rule example_run_inv)
  show ?thesis
    using throttled_stop_discards [OF inv s, of "example_fcitx 2500000" "example_fcitx 4100000" "example_key 1 False"
        "example_fcitx 5000000" RoleTrigger 1 "example_fcitx 4150000"] released_in_cooldown_state
    by (simp add: daemonSyncAllowed_def example_fcitx_def kStatusSyncIntervalUsec_def kDaemonFailureCooldown_def
        kTriggerDebounce_def example_key_def Let_def del: engine_step.simps)
qed

section \<open>Stacked menus\<close>

text \<open>
  A defect. Releasing the menu key opens the palette even over a visible list of results (the key was
  pressed before the results came): both menus are then visible, and keys go to the list of results although
  the panel shows the palette.
\<close>

theorem palette_over_results:
  assumes "en_session e = None" and "mn_result_visible (en_menu e)" and "\<not> mn_palette_visible (en_menu e)"
    and "hk_role (en_hot e) = RoleMenu" and "hk_key_sym (en_hot e) = Some (k_sym fx (k_normalize fx (ke_orig_key ev)))"
    and "\<not> hk_chord_interrupted (en_hot e)" and "hk_pending_postprocessing_release (en_hot e) = None"
    and "ke_release ev" and "\<not> result_key fx (ke_key ev) e" and "hotkey_of fx ev e = Some (RoleMenu, k)"
  shows "mn_palette_visible (en_menu (engine_step e (fx, KeyEvent ev)))
    \<and> mn_result_visible (en_menu (engine_step e (fx, KeyEvent ev)))"
proof -
  let ?r = "rememberInputContext (Some (ke_ic ev)) e"
  have "swallowed_release fx ev ?r = False" "cancel_key fx ev ?r = None"
    using assms by (simp_all add: swallowed_release_def cancel_key_def)
  moreover have "handleResultMenuKeyEvent fx ev ?r = (False, ?r)"
    using assms by (simp add: handleResultMenuKeyEvent_def result_key_def split: option.split)
  ultimately have "engine_step e (fx, KeyEvent ev) = hotkeys fx ev ?r"
    using assms by (simp add: handleKeyEvent_def menu_keys_def)
  also have "\<dots> = issue AcceptKey (showPaletteMenu fx (ke_ic ev) [] (cancelPendingStart ?r))"
    using assms
    by (simp add: hotkeys_of hotkey_release_def active_release_def toggleCommandPalette_def session_release_def
        cancelPendingStart_def Let_def showPaletteMenu_def rebuildPaletteMenu_def)
  finally show ?thesis using assms
    by (simp add: showPaletteMenu_def rebuildPaletteMenu_def reloadPaletteItems_def cancelPendingStart_def Let_def
        split: prod.split)
qed

section \<open>The engine's own commits\<close>

text \<open>
  A result that is committed at once is not also recorded as something the user typed: the commit that
  fcitx reports back leaves the context buffer and the written entries as they are. It is forgotten by that
  report, so the same text, typed by the user later, is recorded.
\<close>

theorem own_commit_not_recorded:
  assumes "resolveFrontendInputContext None e = Some ic" and "result_Parse (fx_parse fx) payload = p"
    and "pl_commitText p = t" and "t \<noteq> []" and "length (pl_candidates p) \<le> 1"
  shows "(let e1 = engine_step e (fx, ResultSignal payload); e2 = engine_step e1 (fx', CommitString t ic) in
      last (en_out e1) = CommitText ic t \<and> en_session e1 = None
      \<and> cx_text (en_ctx e2) = cx_text (en_ctx e1) \<and> en_out e2 = en_out e1
      \<and> cx_suppressed (en_ctx e2) = None)"
proof -
  let ?is = "case en_session e of None \<Rightarrow> False | Some s \<Rightarrow> vs_command_mode s"
  have "length (filter (\<lambda>c. cd_source c = kSourceLlm) (pl_candidates p)) \<le> 1"
    using assms(5) length_filter_le le_trans by blast
  then have no_menu: "\<not> (if b then length (filter (\<lambda>c. cd_source c = kSourceLlm) (pl_candidates p)) > 1
      else length (pl_candidates p) > 1)" for b using assms(5) by simp
  define a where "a = finishFrontendSession (Some ic) (rememberInputContext (Some ic) e)"
  obtain x where x: "engine_step e (fx, ResultSignal payload)
      = issue (CommitText ic t) (if ?is then delete_selection fx ic (suppressNextCommitContext t x)
                                else suppressNextCommitContext t x)" and "en_session x = None"
  proof -
    define b where "b = (case asr_candidate ?is (if ?is then en_command_selected_text e else []) (pl_candidates p) of
        Some c \<Rightarrow> if cd_text c \<noteq> [] then appendContextEntry fx (cd_text c) ''asr'' a else a | None \<Rightarrow> a)"
    define x where "x = (if list_ex (\<lambda>c. cd_source c = kSourceLlm \<and> cd_text c = t) (pl_candidates p)
        then appendContextEntry fx t ''llm'' b else b)"
    have "engine_step e (fx, ResultSignal payload)
      = issue (CommitText ic t) (if ?is then delete_selection fx ic (suppressNextCommitContext t x)
                                else suppressNextCommitContext t x)"
      unfolding x_def b_def a_def using assms no_menu by (simp add: onRecognitionResult_def Let_def)
    moreover have "en_session x = None" by (simp add: x_def b_def a_def split: option.split)
    ultimately show ?thesis by (rule that)
  qed
  then have "cx_suppressed (en_ctx (engine_step e (fx, ResultSignal payload))) = Some t"
    "last (en_out (engine_step e (fx, ResultSignal payload))) = CommitText ic t"
    "en_session (engine_step e (fx, ResultSignal payload)) = None"
    using assms(4) unfolding x
    by (simp_all add: delete_selection_def suppressNextCommitContext_def issue_def split: option.split prod.split)
  then show ?thesis
    by (simp add: onCommitString_def Let_def del: engine_step.simps(6))
qed

text \<open>A reader that finds the whole payload in the text.\<close>

definition plain_fcitx :: "nat fcitx" where
  "plain_fcitx = (example_fcitx 0)\<lparr>fx_parse := (\<lambda>t. Some \<lparr>wp_commit_text = Some t, wp_candidates = None\<rparr>)\<rparr>"

definition focused_engine :: "nat engine" where
  "focused_engine = (blank_engine plain_fcitx True (addon_settings Tap) None)\<lparr>en_last_active_ic := Some 7\<rparr>"

theorem own_commit_not_recorded_witness:
  "last (en_out (engine_step focused_engine (plain_fcitx, ResultSignal ''hello''))) = CommitText 7 ''hello''"
proof -
  let ?p = "\<lparr>pl_commitText = ''hello'', pl_candidates = [\<lparr>cd_text = ''hello'', cd_source = kSourceRaw\<rparr>]\<rparr>"
  have r: "resolveFrontendInputContext None focused_engine = Some 7"
    by (simp add: resolveFrontendInputContext_def focused_engine_def blank_engine_def)
  have p: "result_Parse (fx_parse plain_fcitx) ''hello'' = ?p" by code_simp
  have "pl_commitText ?p = ''hello''" "''hello'' \<noteq> []" "length (pl_candidates ?p) \<le> 1" by simp_all
  from own_commit_not_recorded [OF r p this, of plain_fcitx, unfolded Let_def]
  show ?thesis by (rule conjunct1)
qed

definition quiet_engine :: "nat engine" where
  "quiet_engine = blank_engine plain_fcitx True (addon_settings Tap) None"

theorem chord_does_nothing_witness:
  "en_out (foldl engine_step quiet_engine [(plain_fcitx, KeyEvent (example_key 3 False)),
      (plain_fcitx, KeyEvent (example_key 65 False)), (plain_fcitx, KeyEvent (example_key 3 True))])
     = [AcceptKey, AcceptKey]"
proof -
  have keys: "hotkey_of plain_fcitx (example_key 3 False) quiet_engine = Some (RoleMenu, 3)"
    "hotkey_of plain_fcitx (example_key 65 False) quiet_engine = None"
    "hotkey_of plain_fcitx (example_key 3 True) quiet_engine = Some (RoleMenu, 3)"
    by code_simp+
  have state: "en_session quiet_engine = None" "hk_role (en_hot quiet_engine) = RoleNone"
    "\<not> mn_result_visible (en_menu quiet_engine)" "\<not> mn_palette_visible (en_menu quiet_engine)"
    "hk_pending_postprocessing_release (en_hot quiet_engine) = None" "en_out quiet_engine = []"
    by (simp_all add: quiet_engine_def blank_engine_def)
  have "\<not> ke_release (example_key 3 False)" "\<not> ke_release (example_key 65 False)" "ke_release (example_key 3 True)"
    by (simp_all add: example_key_def)
  with chord_does_nothing [OF state(1,2) _ state(3-5) _ keys(1) _ keys(2) _ keys(3), unfolded Let_def state(6)]
  show ?thesis by simp
qed

definition results_shown :: "nat engine" where
  "results_shown = quiet_engine\<lparr>
     en_menu := (en_menu quiet_engine)\<lparr>mn_result_ic := Some 7, mn_result_visible := True,
       mn_candidates := [\<lparr>cd_text = ''a'', cd_source = kSourceRaw\<rparr>, \<lparr>cd_text = ''b'', cd_source = kSourceLlm\<rparr>]\<rparr>,
     en_hot := (en_hot quiet_engine)\<lparr>hk_role := RoleMenu, hk_key_sym := Some 3\<rparr>\<rparr>"

theorem palette_over_results_witness:
  "mn_palette_visible (en_menu (engine_step results_shown (plain_fcitx, KeyEvent (example_key 3 True))))"
proof -
  have key: "hotkey_of plain_fcitx (example_key 3 True) results_shown = Some (RoleMenu, 3)"
    and sm: "hk_key_sym (en_hot results_shown)
      = Some (k_sym plain_fcitx (k_normalize plain_fcitx (ke_orig_key (example_key 3 True))))"
    by code_simp+
  have other: "\<not> result_key plain_fcitx (ke_key (example_key 3 True)) results_shown"
    by (simp add: result_key_def plain_fcitx_def example_fcitx_def example_key_def results_shown_def quiet_engine_def
        blank_engine_def addon_settings_def FcitxKey_Up_def FcitxKey_Down_def FcitxKey_Return_def
        FcitxKey_KP_Enter_def FcitxKey_Escape_def)
  have "en_session results_shown = None" "mn_result_visible (en_menu results_shown)"
    "\<not> mn_palette_visible (en_menu results_shown)" "hk_role (en_hot results_shown) = RoleMenu"
    "\<not> hk_chord_interrupted (en_hot results_shown)" "hk_pending_postprocessing_release (en_hot results_shown) = None"
    "ke_release (example_key 3 True)"
    by (simp_all add: results_shown_def quiet_engine_def blank_engine_def example_key_def)
  from palette_over_results [OF this(1-4) sm this(5-7) other key] show ?thesis by (rule conjunct1)
qed

end
