(* ===== verification/Float_Parse.thy ===== *)
theory Float_Parse
  imports Float_Model String_Utils
begin

text \<open>
  \<open>std::from_chars\<close> for \<open>float\<close>, as the hotword and vocabulary readers use it: a minus sign (never
  a plus), the longest mantissa of digits with one point, an exponent that counts only when digits
  follow it, and the words \<open>inf\<close>, \<open>infinity\<close> and \<open>nan\<close>. In the hexadecimal format the mantissa
  is read in base 16 and the exponent, after \<open>p\<close>, is one of two. The value is rounded by the
  environment's \<open>fe_round32\<close>; a number whose rounded value is infinite, or zero although the number
  is not, is out of range.

  The result is the value and the number of bytes read; \<open>None\<close> for no match and for a value out of
  range.
\<close>

definition is_xdigit :: "char \<Rightarrow> bool" where
  "is_xdigit c \<longleftrightarrow> is_digit c \<or> to_lower c \<in> set ''abcdef''"

definition xdigit_value :: "char \<Rightarrow> int" where
  "xdigit_value c = (if is_digit c then digit_value c else int (of_char (to_lower c)) - 87)"

fun number_value :: "int \<Rightarrow> int \<Rightarrow> string \<Rightarrow> int" where
  "number_value base acc [] = acc"
| "number_value base acc (c # cs) = number_value base (base * acc + xdigit_value c) cs"

text \<open>The digits before and after the point, and the bytes they take.\<close>

definition scan_mantissa :: "(char \<Rightarrow> bool) \<Rightarrow> string \<Rightarrow> (string \<times> string \<times> nat) option" where
  "scan_mantissa ok s =
     (let whole = takeWhile ok s;
          rest = dropWhile ok s;
          pointed = starts_with rest ''.'';
          part = (if pointed then takeWhile ok (drop 1 rest) else [])
      in if whole = [] \<and> part = [] then None
         else Some (whole, part, length whole + (if pointed then 1 else 0) + length part))"

definition scan_exponent :: "char \<Rightarrow> string \<Rightarrow> int \<times> nat" where
  "scan_exponent mark s =
     (case s of
        [] \<Rightarrow> (0, 0)
      | c # rest \<Rightarrow>
          if to_lower c \<noteq> mark then (0, 0)
          else (let neg = starts_with rest ''-'';
                    signed = neg \<or> starts_with rest ''+'';
                    ds = takeWhile is_digit (if signed then drop 1 rest else rest)
                in if ds = [] then (0, 0)
                   else (if neg then - digits_value 0 ds else digits_value 0 ds,
                         1 + (if signed then 1 else 0) + length ds)))"

definition scale :: "rat \<Rightarrow> int \<Rightarrow> rat" where
  "scale b e = (if e \<ge> 0 then b ^ nat e else 1 / b ^ nat (- e))"

text \<open>An unsigned number: its exact value and the bytes it takes.\<close>

definition scan_number :: "bool \<Rightarrow> string \<Rightarrow> (rat \<times> nat) option" where
  "scan_number hex s =
     (case scan_mantissa (if hex then is_xdigit else is_digit) s of
        None \<Rightarrow> None
      | Some (whole, part, n) \<Rightarrow>
          (let base = (if hex then 16 else 10);
               (e, k) = scan_exponent (if hex then CHR ''p'' else CHR ''e'') (drop n s);
               m = of_int (number_value base 0 (whole @ part)) / of_int base ^ length part
           in Some (m * scale (if hex then 2 else 10) e, n + k)))"

definition is_nan_char :: "char \<Rightarrow> bool" where
  "is_nan_char c \<longleftrightarrow> is_digit c \<or> c = CHR ''_'' \<or> (97 \<le> (of_char (to_lower c) :: nat) \<and> (of_char (to_lower c) :: nat) \<le> 122)"

definition scan_special :: "string \<Rightarrow> (fp \<times> nat) option" where
  "scan_special s =
     (if StartsWithIgnoreCase s ''infinity'' then Some (PosInf, 8)
      else if StartsWithIgnoreCase s ''inf'' then Some (PosInf, 3)
      else if StartsWithIgnoreCase s ''nan'' then
        (let rest = drop 3 s; tag = takeWhile is_nan_char (drop 1 rest) in
         if starts_with rest ''('' \<and> starts_with (drop (1 + length tag) rest) '')''
         then Some (NaN, 5 + length tag) else Some (NaN, 3))
      else None)"

definition from_chars_float :: "float_env \<Rightarrow> bool \<Rightarrow> string \<Rightarrow> (fp \<times> nat) option" where
  "from_chars_float fe hex s =
     (let neg = starts_with s ''-'';
          body = (if neg then drop 1 s else s);
          k = (if neg then 1 else 0)
      in case scan_number hex body of
           Some (v, n) \<Rightarrow>
             (let r = fe_round32 fe (if neg then - v else v) in
              if \<not> is_finite r \<or> (r = Finite 0 \<and> v \<noteq> 0) then None else Some (r, k + n))
         | None \<Rightarrow>
             (case scan_special body of
                None \<Rightarrow> None
              | Some (w, n) \<Rightarrow> Some (if neg \<and> w = PosInf then NegInf else w, k + n)))"

lemmas float_parse_defs =
  from_chars_float_def scan_number_def scan_mantissa_def scan_exponent_def Let_def

section \<open>What a whole number consists of\<close>

text \<open>The bytes a number is written with, in either format.\<close>

definition is_number_char :: "char \<Rightarrow> bool" where
  "is_number_char c \<longleftrightarrow> is_xdigit c \<or> c \<in> set ''-+.pPxX''"

definition mantissa_digit :: "bool \<Rightarrow> char \<Rightarrow> bool" where
  "mantissa_digit hex = (if hex then is_xdigit else is_digit)"

definition exponent_mark :: "bool \<Rightarrow> char" where
  "exponent_mark hex = (if hex then CHR ''p'' else CHR ''e'')"

lemma number_char_digit: "mantissa_digit hex c \<Longrightarrow> is_number_char c" "is_digit c \<Longrightarrow> is_number_char c"
  by (auto simp: is_number_char_def mantissa_digit_def is_xdigit_def split: if_splits)

lemma scan_mantissa_chars:
  assumes "scan_mantissa (mantissa_digit hex) s = Some (whole, part, n)"
  shows "n \<le> length s \<and> list_all is_number_char (take n s)"
proof -
  let ?d = "mantissa_digit hex"
  define rest where "rest = dropWhile ?d s"
  have s: "s = takeWhile ?d s @ rest" by (simp add: rest_def)
  have digits: "list_all is_number_char (takeWhile ?d xs)" for xs
    by (auto simp: list_all_iff number_char_digit dest: set_takeWhileD)
  show ?thesis
  proof (cases "starts_with rest ''.''")
    case True
    then obtain r where r: "rest = CHR ''.'' # r" by (auto simp: starts_with_iff)
    define w where "w = takeWhile ?d s"
    define p where "p = takeWhile ?d r"
    have s': "s = w @ CHR ''.'' # p @ dropWhile ?d r"
      using s r by (simp add: w_def p_def)
    have n: "n = length w + 1 + length p"
      using assms True r by (auto simp: scan_mantissa_def Let_def rest_def [symmetric] w_def p_def split: if_splits)
    have "take n s = w @ CHR ''.'' # p" by (subst s') (simp add: n)
    then show ?thesis using digits [of s] digits [of r]
      by (subst (1) s') (simp add: n w_def [symmetric] p_def [symmetric] is_number_char_def)
  next
    case False
    then have "n = length (takeWhile ?d s)"
      using assms by (auto simp: scan_mantissa_def Let_def rest_def [symmetric] split: if_splits)
    then show ?thesis using digits [of s] takeWhile_eq_take [of ?d s]
      by (metis length_takeWhile_le)
  qed
qed

lemma to_lower_eq_letter:
  assumes "to_lower c = l" and "(of_char u :: nat) + 32 = of_char l" and "(of_char l :: nat) \<le> 122"
  shows "c = l \<or> c = u"
proof (cases "65 \<le> (of_char c :: nat) \<and> (of_char c :: nat) \<le> 90")
  case True
  then have "of_char (char_of ((of_char c :: nat) + 32)) = (of_char l :: nat)"
    using assms(1) by (simp add: to_lower_def)
  then have "(of_char c :: nat) + 32 = of_char l" using True assms(3) by simp
  then have "(of_char c :: nat) = of_char u" using assms(2) by linarith
  then show ?thesis by (metis of_char_eq_iff)
next
  case False
  then show ?thesis using assms by (auto simp: to_lower_def)
qed

lemma exponent_mark_char:
  assumes "to_lower c = exponent_mark hex"
  shows "is_number_char c"
proof (cases hex)
  case True
  then have "c = CHR ''p'' \<or> c = CHR ''P''"
    using assms by (intro to_lower_eq_letter) (simp_all add: exponent_mark_def of_char_def)
  then show ?thesis by (auto simp: is_number_char_def)
next
  case False
  then have "c = CHR ''e'' \<or> c = CHR ''E''"
    using assms by (intro to_lower_eq_letter) (simp_all add: exponent_mark_def of_char_def)
  moreover have "is_xdigit CHR ''e''" and "is_xdigit CHR ''E''" by code_simp+
  ultimately show ?thesis by (auto simp: is_number_char_def)
qed

lemma scan_exponent_chars:
  assumes "scan_exponent (exponent_mark hex) s = (e, k)"
  shows "k \<le> length s \<and> list_all is_number_char (take k s)"
proof (cases "k = 0")
  case False
  with assms obtain c rest where s: "s = c # rest" and c: "to_lower c = exponent_mark hex"
    by (auto simp: scan_exponent_def split: list.splits if_splits)
  define signed where "signed \<longleftrightarrow> starts_with rest ''-'' \<or> starts_with rest ''+''"
  define body where "body = (if signed then drop 1 rest else rest)"
  define ds where "ds = takeWhile is_digit body"
  have k: "k = 1 + (if signed then 1 else 0) + length ds"
    using assms False c
    by (auto simp: s scan_exponent_def Let_def signed_def [symmetric] body_def [symmetric] ds_def [symmetric] split: if_splits)
  have c': "is_number_char c" using c by (rule exponent_mark_char)
  have ds: "list_all is_number_char ds"
    by (auto simp: ds_def list_all_iff number_char_digit dest: set_takeWhileD)
  have body': "body = ds @ dropWhile is_digit body" by (simp add: ds_def)
  have rest: "rest = (if signed then [hd rest] else []) @ body"
    by (auto simp: body_def signed_def starts_with_iff)
  have sgn: "signed \<Longrightarrow> is_number_char (hd rest)"
    by (auto simp: signed_def starts_with_iff is_number_char_def)
  have "s = (c # (if signed then [hd rest] else []) @ ds) @ dropWhile is_digit body"
    unfolding s using rest body' by simp
  then have "take k s = c # (if signed then [hd rest] else []) @ ds" and "k \<le> length s"
    by (simp_all add: k)
  then show ?thesis using c' ds sgn by simp
qed simp

lemma take_add_list_all:
  "list_all P (take n s) \<Longrightarrow> list_all P (take k (drop n s)) \<Longrightarrow> list_all P (take (n + k) s)"
  by (simp add: take_add)

lemma scan_number_chars:
  assumes "scan_number hex s = Some (v, n)"
  shows "n \<le> length s \<and> list_all is_number_char (take n s)"
proof -
  from assms obtain whole part m e k where m: "scan_mantissa (mantissa_digit hex) s = Some (whole, part, m)"
    and e: "scan_exponent (exponent_mark hex) (drop m s) = (e, k)" and n: "n = m + k"
    by (auto simp: scan_number_def Let_def mantissa_digit_def exponent_mark_def split: option.splits prod.splits)
  show ?thesis unfolding n
    using scan_mantissa_chars [OF m] scan_exponent_chars [OF e] take_add_list_all [of _ m s k] by auto
qed

lemma scan_special_not_finite: "scan_special s = Some (w, n) \<Longrightarrow> \<not> is_finite w"
  by (auto simp: scan_special_def is_finite_def Let_def split: if_splits)

text \<open>A text that is read to its end as a finite number has only number bytes and is not empty.\<close>

lemma from_chars_float_chars:
  assumes "from_chars_float fe hex s = Some (r, length s)" and "is_finite r"
  shows "s \<noteq> [] \<and> list_all is_number_char s"
proof -
  define body where "body = (if starts_with s ''-'' then drop 1 s else s)"
  have s: "s = (if starts_with s ''-'' then ''-'' else []) @ body"
    by (auto simp: body_def starts_with_iff)
  obtain v n where sn: "scan_number hex body = Some (v, n)"
    and n: "length s = (if starts_with s ''-'' then 1 else 0) + n"
    using assms
    by (auto simp: from_chars_float_def Let_def body_def [symmetric] split: option.splits if_splits
        dest!: scan_special_not_finite) (simp_all add: is_finite_def)
  have "n = length body" using n arg_cong [OF s, of length] by (auto split: if_splits)
  with scan_number_chars [OF sn] have "list_all is_number_char body" by simp
  moreover have "body \<noteq> []" using sn by (auto simp: scan_number_def scan_mantissa_def starts_with_def)
  ultimately show ?thesis by (subst (1 2) s) (simp add: is_number_char_def)
qed

lemma not_number_char:
  "\<not> is_number_char CHR 0x0A" "\<not> is_number_char CHR 0x0D" "\<not> is_number_char CHR 0x09"
  "\<not> is_number_char CHR '' ''" "\<not> is_number_char CHR '':''" "\<not> is_number_char CHR 0x0B"
  "\<not> is_number_char CHR 0x0C"
  by (simp_all add: is_number_char_def is_xdigit_def is_digit_def to_lower_def of_char_def)

end
