(* ===== verification/Bpe_Vocab.thy ===== *)
theory Bpe_Vocab
  imports Float_Parse Process_Utils
begin

unbundle bit_operations_syntax

text \<open>
  \<open>src/common/asr/bpe_vocab_exporter.cpp\<close>: a reader of protocol-buffer fields, the export of the
  piece table of a SentencePiece model to the text vocabulary of the recognisers, and the check of
  such a vocabulary. A buffer is a list of bytes, kept as \<open>char\<close>s; the numbers read from it keep
  their widths, and a score is kept as the 32 bits of the \<open>float\<close>. The printing of a \<open>float\<close> by the
  formatting library is a parameter.

  The reader is shown to invert the encoding of the wire format, for numbers and for a whole piece
  table, and every exported vocabulary is shown to pass the check.
\<close>

definition kMaxSentencePieceModelBytes :: nat where
  "kMaxSentencePieceModelBytes = 64 * 1024 * 1024"
definition kMaxBpeVocabularyBytes :: nat where "kMaxBpeVocabularyBytes = 256 * 1024 * 1024"
definition kMaxPieceCount :: nat where "kMaxPieceCount = 1000000"
definition kMaxPieceBytes :: nat where "kMaxPieceBytes = 1024 * 1024"

section \<open>The byte reader\<close>

text \<open>\<open>static_cast<std::uint8_t>\<close> of a byte.\<close>

definition u8 :: "char \<Rightarrow> 8 word" where
  "u8 c = word_of_nat (of_char c)"

text \<open>Each operation gives its result and the remaining buffer.\<close>

fun ReadVarint_loop :: "nat \<Rightarrow> u64 \<Rightarrow> bytes \<Rightarrow> u64 option \<times> bytes" where
  "ReadVarint_loop shift result [] = (None, [])"
| "ReadVarint_loop shift result (c # buffer) =
     (if shift < 64 then
        (let byte = u8 c in
         if shift = 63 \<and> (byte AND 0x7F) > 1 then (None, buffer)
         else
           (let result' = result OR push_bit shift (ucast (byte AND 0x7F)) in
            if byte AND 0x80 = 0 then (Some result', buffer)
            else ReadVarint_loop (shift + 7) result' buffer))
      else (None, c # buffer))"

definition ReadVarint :: "bytes \<Rightarrow> u64 option \<times> bytes" where
  "ReadVarint buffer = ReadVarint_loop 0 0 buffer"

definition ReadLengthDelimited :: "bytes \<Rightarrow> bytes option \<times> bytes" where
  "ReadLengthDelimited buffer =
     (case ReadVarint buffer of
        (None, rest) \<Rightarrow> (None, rest)
      | (Some len, rest) \<Rightarrow>
          if unat len > length rest then (None, rest)
          else (Some (take (unat len) rest), drop (unat len) rest))"

definition ReadFixed32 :: "bytes \<Rightarrow> 32 word option \<times> bytes" where
  "ReadFixed32 buffer =
     (if length buffer < 4 then (None, buffer)
      else
        (let b0 = ucast (u8 (buffer ! 0)) :: 32 word; b1 = ucast (u8 (buffer ! 1)) :: 32 word;
             b2 = ucast (u8 (buffer ! 2)) :: 32 word; b3 = ucast (u8 (buffer ! 3)) :: 32 word
         in (Some (b0 OR push_bit 8 b1 OR push_bit 16 b2 OR push_bit 24 b3), drop 4 buffer)))"

definition Skip :: "nat \<Rightarrow> bytes \<Rightarrow> bool \<times> bytes" where
  "Skip count buffer =
     (if length buffer < count then (False, buffer) else (True, drop count buffer))"

definition SkipField :: "32 word \<Rightarrow> bytes \<Rightarrow> bool \<times> bytes" where
  "SkipField wire buffer =
     (if wire = 0 then (case ReadVarint buffer of (v, rest) \<Rightarrow> (v \<noteq> None, rest))
      else if wire = 1 then Skip 8 buffer
      else if wire = 2 then (case ReadLengthDelimited buffer of (v, rest) \<Rightarrow> (v \<noteq> None, rest))
      else if wire = 5 then Skip 4 buffer
      else (False, buffer))"

text \<open>No operation makes the buffer longer, and reading a number takes at least a byte.\<close>

lemma ReadVarint_loop_length: "length (snd (ReadVarint_loop shift result buffer)) \<le> length buffer"
  by (induction shift result buffer rule: ReadVarint_loop.induct)
     (auto simp: Let_def le_Suc_eq)

lemma ReadVarint_less: "buffer \<noteq> [] \<Longrightarrow> length (snd (ReadVarint buffer)) < length buffer"
  using ReadVarint_loop_length
  by (cases buffer) (auto simp: ReadVarint_def Let_def less_Suc_eq_le)

lemma ReadVarint_length: "length (snd (ReadVarint buffer)) \<le> length buffer"
  by (simp add: ReadVarint_def ReadVarint_loop_length)

lemma ReadLengthDelimited_length: "length (snd (ReadLengthDelimited buffer)) \<le> length buffer"
  using ReadVarint_length [of buffer]
  by (auto simp: ReadLengthDelimited_def split: prod.splits option.splits)

lemma ReadFixed32_length: "length (snd (ReadFixed32 buffer)) \<le> length buffer"
  by (simp add: ReadFixed32_def Let_def)

lemma SkipField_length: "length (snd (SkipField wire buffer)) \<le> length buffer"
  using ReadVarint_length [of buffer] ReadLengthDelimited_length [of buffer]
  by (auto simp: SkipField_def Skip_def split: prod.splits)

section \<open>Piece records\<close>

record SentencePieceRecord =
  sp_piece :: bytes
  sp_score :: "32 word"

definition new_piece :: SentencePieceRecord where
  "new_piece = \<lparr>sp_piece = [], sp_score = 0\<rparr>"

text \<open>\<open>static_cast<std::uint32_t>\<close> keeps the low 32 bits of the field number.\<close>

definition key_field :: "u64 \<Rightarrow> 32 word" where
  "key_field key = ucast (drop_bit 3 key)"

definition key_wire :: "u64 \<Rightarrow> 32 word" where
  "key_wire key = ucast (key AND 7)"

function ParseSentencePiece_loop ::
    "bytes \<Rightarrow> SentencePieceRecord \<Rightarrow> bool \<Rightarrow> string + SentencePieceRecord" where
  "ParseSentencePiece_loop buffer record found_piece =
     (if buffer = [] then
        (if \<not> found_piece then Inl ''missing piece text in piece record'' else Inr record)
      else
        (case ReadVarint buffer of
           (None, _) \<Rightarrow> Inl ''invalid field key in piece record''
         | (Some key, rest) \<Rightarrow>
             if key_field key = 1 \<and> key_wire key = 2 then
               (case ReadLengthDelimited rest of
                  (None, _) \<Rightarrow> Inl ''invalid length-delimited string in piece record''
                | (Some v, rest') \<Rightarrow>
                    ParseSentencePiece_loop rest' (record\<lparr>sp_piece := v\<rparr>) True)
             else if key_field key = 2 \<and> key_wire key = 5 then
               (case ReadFixed32 rest of
                  (None, _) \<Rightarrow> Inl ''invalid float score in piece record''
                | (Some s, rest') \<Rightarrow>
                    ParseSentencePiece_loop rest' (record\<lparr>sp_score := s\<rparr>) found_piece)
             else
               (case SkipField (key_wire key) rest of
                  (False, _) \<Rightarrow> Inl ''unsupported wire type in piece record''
                | (True, rest') \<Rightarrow> ParseSentencePiece_loop rest' record found_piece)))"
  by pat_completeness auto

text \<open>What is left after a key and its field, in the form the termination proofs need.\<close>

lemma field_read_shorter:
  assumes "buffer \<noteq> []" and "(v, rest) = ReadVarint buffer"
  shows "(m, rest') = ReadLengthDelimited rest \<Longrightarrow> length rest' < length buffer"
    and "(w, rest') = ReadFixed32 rest \<Longrightarrow> length rest' < length buffer"
    and "(b, rest') = SkipField wire rest \<Longrightarrow> length rest' < length buffer"
  using ReadVarint_less [OF assms(1)] assms(2) [symmetric] ReadLengthDelimited_length [of rest]
    ReadFixed32_length [of rest] SkipField_length [of wire rest]
  by (auto dest!: sym [of "(_, _)"])

termination ParseSentencePiece_loop
  by (relation "measure (\<lambda>(buffer, r, f). length buffer)") (auto dest: field_read_shorter)

definition ParseSentencePiece :: "bytes \<Rightarrow> string + SentencePieceRecord" where
  "ParseSentencePiece message = ParseSentencePiece_loop message new_piece False"

section \<open>Exporting a model\<close>

text \<open>\<open>std::isfinite\<close>: the exponent field is not all ones.\<close>

definition isfinite32 :: "32 word \<Rightarrow> bool" where
  "isfinite32 b \<longleftrightarrow> drop_bit 23 b AND 0xFF \<noteq> 0xFF"

definition piece_supported :: "SentencePieceRecord \<Rightarrow> bool" where
  "piece_supported r \<longleftrightarrow>
     \<not> (sp_piece r = [] \<or> length (sp_piece r) > kMaxPieceBytes \<or> \<not> isfinite32 (sp_score r)
        \<or> find_index (\<lambda>c. c \<in> set [CHR 0x09, CHR 0x0D, CHR 0x0A]) (sp_piece r) \<noteq> None)"

definition piece_line :: "(32 word \<Rightarrow> string) \<Rightarrow> SentencePieceRecord \<Rightarrow> string" where
  "piece_line fmt r = sp_piece r @ [CHR 0x09] @ fmt (sp_score r) @ [CHR 0x0A]"

text \<open>The loop over the fields of the model; \<open>fmt\<close> prints a score.\<close>

function export_loop ::
    "(32 word \<Rightarrow> string) \<Rightarrow> string \<Rightarrow> bytes \<Rightarrow> nat \<Rightarrow> string \<Rightarrow> string + (nat \<times> string)" where
  "export_loop fmt model_path buffer piece_count output_buffer =
     (if buffer = [] then Inr (piece_count, output_buffer)
      else
        (case ReadVarint buffer of
           (None, _) \<Rightarrow> Inl (''invalid SentencePiece ModelProto: '' @ model_path)
         | (Some key, rest) \<Rightarrow>
             if key_field key = 1 \<and> key_wire key = 2 then
               (case ReadLengthDelimited rest of
                  (None, _) \<Rightarrow> Inl (''invalid SentencePiece piece record: '' @ model_path)
                | (Some message, rest') \<Rightarrow>
                    (case ParseSentencePiece message of
                       Inl e \<Rightarrow>
                         Inl (''invalid SentencePiece piece record ('' @ e @ '') in: '' @ model_path)
                     | Inr r \<Rightarrow>
                         if \<not> piece_supported r
                         then Inl (''unsupported SentencePiece piece record in: '' @ model_path)
                         else
                           (let out = output_buffer @ piece_line fmt r in
                            if piece_count + 1 > kMaxPieceCount
                               \<or> length out > kMaxBpeVocabularyBytes
                            then Inl (''SentencePiece vocabulary exceeds safety limits: '' @ model_path)
                            else export_loop fmt model_path rest' (piece_count + 1) out)))
             else
               (case SkipField (key_wire key) rest of
                  (False, _) \<Rightarrow>
                    Inl (''unsupported SentencePiece ModelProto field in: '' @ model_path)
                | (True, rest') \<Rightarrow>
                    export_loop fmt model_path rest' piece_count output_buffer)))"
  by pat_completeness auto

termination export_loop
  by (relation "measure (\<lambda>(fmt, p, buffer, n, out). length buffer)") (auto dest: field_read_shorter)

declare ParseSentencePiece_loop.simps [simp del]
declare export_loop.simps [simp del]

text \<open>
  What the file system answers: the size of the model, its mapped contents, and the outcome of the
  atomic write. The second component is the text handed to that write, if it is reached.
\<close>

record vocab_io =
  vi_file_size :: "string \<Rightarrow> string + nat"
  vi_map_file :: "string \<Rightarrow> string + bytes"
  vi_atomic_write :: "string \<Rightarrow> string \<Rightarrow> string + unit"

definition ExportSentencePieceVocabulary ::
    "(32 word \<Rightarrow> string) \<Rightarrow> vocab_io \<Rightarrow> string \<Rightarrow> string \<Rightarrow> (string + unit) \<times> string option" where
  "ExportSentencePieceVocabulary fmt io model_path vocab_path =
     (case vi_file_size io model_path of
        Inl e \<Rightarrow> (Inl (''failed to inspect SentencePiece model: '' @ e), None)
      | Inr model_size \<Rightarrow>
          if model_size > kMaxSentencePieceModelBytes
          then (Inl (''SentencePiece model exceeds 64 MiB limit: '' @ model_path), None)
          else
            (case vi_map_file io model_path of
               Inl e \<Rightarrow> (Inl (''failed to open SentencePiece model: '' @ e), None)
             | Inr data \<Rightarrow>
                 (case export_loop fmt model_path data 0 [] of
                    Inl e \<Rightarrow> (Inl e, None)
                  | Inr (piece_count, output_buffer) \<Rightarrow>
                      if piece_count = 0
                      then (Inl (''SentencePiece model contains no vocabulary pieces: '' @ model_path), None)
                      else
                        (case vi_atomic_write io vocab_path output_buffer of
                           Inl e \<Rightarrow> (Inl (''failed to write BPE vocabulary: '' @ e), Some output_buffer)
                         | Inr _ \<Rightarrow> (Inr (), Some output_buffer)))))"

section \<open>Checking a vocabulary\<close>

text \<open>\<open>std::getline\<close> until the end of the stream: a last line without a line feed counts if it is not empty.\<close>

definition getlines :: "string \<Rightarrow> string list" where
  "getlines s =
     (let ps = split_spec CHR 0x0A s in if last ps = [] then butlast ps else ps)"

fun vocab_lines :: "float_env \<Rightarrow> string \<Rightarrow> nat \<Rightarrow> string list \<Rightarrow> string + nat" where
  "vocab_lines fe vocab_path piece_count [] = Inr piece_count"
| "vocab_lines fe vocab_path piece_count (l # ls) =
     (let line = (if l \<noteq> [] \<and> last l = CHR 0x0D then butlast l else l) in
      case find_index (\<lambda>c. c = CHR 0x09) line of
        None \<Rightarrow> Inl (''invalid BPE vocabulary line in: '' @ vocab_path)
      | Some tab \<Rightarrow>
          if tab = 0 \<or> tab + 1 \<ge> length line \<or> tab > kMaxPieceBytes
          then Inl (''invalid BPE vocabulary line in: '' @ vocab_path)
          else
            (let score_text = drop (tab + 1) line in
             case from_chars_float fe False score_text of
               None \<Rightarrow> Inl (''invalid BPE vocabulary score in: '' @ vocab_path)
             | Some (score, used) \<Rightarrow>
                 if used \<noteq> length score_text \<or> \<not> is_finite score
                 then Inl (''invalid BPE vocabulary score in: '' @ vocab_path)
                 else if piece_count + 1 > kMaxPieceCount
                 then Inl (''BPE vocabulary has too many pieces: '' @ vocab_path)
                 else vocab_lines fe vocab_path (piece_count + 1) ls))"

text \<open>
  The file's size, its contents when it can be opened, and whether the stream then ends at the end
  of the file rather than with an error of the device.
\<close>

definition ValidateBpeVocabulary ::
    "float_env \<Rightarrow> string \<Rightarrow> string + nat \<Rightarrow> (string \<times> bool) option \<Rightarrow> string + unit" where
  "ValidateBpeVocabulary fe vocab_path size_res contents =
     (case size_res of
        Inl e \<Rightarrow> Inl (''failed to inspect BPE vocabulary: '' @ e)
      | Inr vocab_size \<Rightarrow>
          if vocab_size = 0 \<or> vocab_size > kMaxBpeVocabularyBytes
          then Inl (''BPE vocabulary is empty or exceeds 256 MiB: '' @ vocab_path)
          else
            (case contents of
               None \<Rightarrow> Inl (''failed to open BPE vocabulary: '' @ vocab_path)
             | Some (s, eof) \<Rightarrow>
                 (case vocab_lines fe vocab_path 0 (getlines s) of
                    Inl e \<Rightarrow> Inl e
                  | Inr piece_count \<Rightarrow>
                      if \<not> eof \<or> piece_count = 0
                      then Inl (''failed to read BPE vocabulary: '' @ vocab_path)
                      else Inr ())))"

section \<open>Reading inverts the wire encoding\<close>

text \<open>The wire format: seven bits to a byte, the lowest first, the eighth bit marking a further byte.\<close>

fun encode_varint :: "nat \<Rightarrow> bytes" where
  "encode_varint n =
     (if n < 128 then [char_of n] else char_of (n mod 128 + 128) # encode_varint (n div 128))"

declare encode_varint.simps [simp del]

lemma u8_char_of: "n < 256 \<Longrightarrow> u8 (char_of n) = word_of_nat n"
  by (simp add: u8_def)

lemma unat_u8_char_of: "n < 256 \<Longrightarrow> unat (u8 (char_of n)) = n"
  by (simp add: u8_char_of unat_of_nat)

lemma low_seven_bits: "unat ((b :: 8 word) AND 0x7F) = unat b mod 128"
proof -
  have "b AND 0x7F = take_bit 7 b" by (simp add: take_bit_eq_mask mask_eq_exp_minus_1)
  then show ?thesis by (simp add: unsigned_take_bit_eq take_bit_nat_def)
qed

lemma high_bit_clear: "(b :: 8 word) AND 0x80 = 0 \<longleftrightarrow> unat b < 128"
proof -
  have "b AND 0x80 = 0 \<longleftrightarrow> \<not> bit b 7" using and_exp_eq_0_iff_not_bit [of b 7] by simp
  also have "bit b 7 \<longleftrightarrow> bit (unat b) 7" by (simp add: bit_unsigned_iff)
  also have "\<dots> \<longleftrightarrow> odd (unat b div 128)" by (simp add: bit_iff_odd)
  also have "odd (unat b div 128) \<longleftrightarrow> \<not> unat b < 128"
  proof -
    have "unat b < 256" using unsigned_less [of b] by simp
    then have "unat b div 128 < 2" by (simp add: less_mult_imp_div_less)
    then show ?thesis by (cases "unat b < 128") (auto simp: less_2_cases_iff div_eq_0_iff)
  qed
  finally show ?thesis by simp
qed

lemma nat_or_shift: "(a :: nat) < 2 ^ s \<Longrightarrow> a OR push_bit s m = a + m * 2 ^ s"
proof -
  assume a: "a < 2 ^ s"
  then have "take_bit s a = a" by (simp add: take_bit_nat_eq_self)
  then have low: "bit a k \<Longrightarrow> k < s" for k by (metis bit_take_bit_iff)
  have "a AND push_bit s m = 0"
    by (rule bit_eqI) (auto simp: bit_and_iff bit_push_bit_iff dest: low)
  then have "a + push_bit s m = a OR push_bit s m" by (rule disjunctive_add_eq_or)
  then show ?thesis by (simp add: push_bit_eq_mult)
qed

lemma word_or_shift:
  fixes r :: "'a::len word"
  assumes "unat r < 2 ^ s"
  shows "r OR push_bit s (word_of_nat m) = word_of_nat (unat r + m * 2 ^ s)"
proof -
  have "r OR push_bit s (word_of_nat m) = word_of_nat (unat r) OR word_of_nat (push_bit s m)"
    by (simp add: push_bit_of_nat)
  also have "\<dots> = word_of_nat (unat r OR push_bit s m)" by (simp add: of_nat_or_eq)
  finally show ?thesis by (simp add: nat_or_shift [OF assms])
qed

lemma ucast_low_seven: "(ucast (b AND 0x7F) :: u64) = word_of_nat (unat (b :: 8 word) mod 128)"
  by (simp add: low_seven_bits [symmetric])

lemma unat_small: "k < 2 ^ 64 \<Longrightarrow> unat (word_of_nat k :: u64) = k"
  by (simp add: unat_of_nat)

lemma ReadVarint_loop_encode:
  assumes "unat r < 2 ^ shift" and "n * 2 ^ shift + unat r < 2 ^ 64" and "n > 0 \<or> shift = 0"
  shows "ReadVarint_loop shift r (encode_varint n @ rest) = (Some (word_of_nat (n * 2 ^ shift + unat r)), rest)"
  using assms
proof (induction n arbitrary: shift r rule: encode_varint.induct)
  case (1 n)
  have shift: "shift < 64"
  proof (rule ccontr)
    assume "\<not> shift < 64"
    then have "(2 :: nat) ^ 64 \<le> 2 ^ shift" by (intro power_increasing) auto
    moreover have "n > 0" using \<open>\<not> shift < 64\<close> 1(4) by auto
    ultimately have "2 ^ 64 \<le> n * 2 ^ shift" using le_trans [of "2 ^ 64" "2 ^ shift" "n * 2 ^ shift"] by simp
    with 1(3) show False by simp
  qed
  have last: "shift = 63 \<Longrightarrow> n < 2" using 1(3) by simp
  define b where "b = (if n < 128 then n else n mod 128 + 128)"
  have b: "b < 256" "b mod 128 = n mod 128" "b < 128 \<longleftrightarrow> n < 128"
    by (auto simp: b_def mod_less [symmetric]) 
  have b128: "unat (u8 (char_of b) AND 0x7F) = n mod 128"
    using b by (simp add: low_seven_bits unat_u8_char_of)
  have not_big: "\<not> (shift = 63 \<and> u8 (char_of b) AND 0x7F > 1)"
    using last b128 by (auto simp: word_less_nat_alt)
  have acc: "r OR push_bit shift (ucast (u8 (char_of b) AND 0x7F)) = word_of_nat (unat r + n mod 128 * 2 ^ shift)"
    using b by (simp add: ucast_low_seven unat_u8_char_of word_or_shift [OF 1(2)])
  have fin: "u8 (char_of b) AND 0x80 = 0 \<longleftrightarrow> n < 128"
    using b by (simp add: high_bit_clear unat_u8_char_of)
  have enc: "encode_varint n = char_of b # (if n < 128 then [] else encode_varint (n div 128))"
    by (subst encode_varint.simps) (simp add: b_def)
  let ?r = "word_of_nat (unat r + n mod 128 * 2 ^ shift) :: u64"
  have step: "ReadVarint_loop shift r (encode_varint n @ rest) =
      (if n < 128 then (Some ?r, rest) else ReadVarint_loop (shift + 7) ?r (encode_varint (n div 128) @ rest))"
    by (simp only: enc append_Cons ReadVarint_loop.simps Let_def if_P [OF shift] if_not_P [OF not_big] acc fin)
       simp
  show ?case
  proof (cases "n < 128")
    case True
    then show ?thesis using step by (simp add: add.commute)
  next
    case False
    have split: "n * 2 ^ shift = (n div 128) * 2 ^ (shift + 7) + n mod 128 * 2 ^ shift"
    proof -
      have "n * 2 ^ shift = (n div 128 * 128 + n mod 128) * 2 ^ shift" by simp
      also have "\<dots> = (n div 128) * 2 ^ (shift + 7) + n mod 128 * 2 ^ shift"
        unfolding power_add add_mult_distrib by simp
      finally show ?thesis .
    qed
    have "unat r + n mod 128 * 2 ^ shift < 2 ^ 64" using 1(3) split by simp
    then have r: "unat ?r = unat r + n mod 128 * 2 ^ shift" by (rule unat_small)
    have "n mod 128 * 2 ^ shift \<le> 127 * 2 ^ shift" by simp
    moreover have "2 ^ (shift + 7) = 128 * (2 :: nat) ^ shift" by (simp add: power_add)
    ultimately have "unat ?r < 2 ^ (shift + 7)" using 1(2) r by linarith
    moreover have "n div 128 * 2 ^ (shift + 7) + unat ?r < 2 ^ 64" using 1(3) split r by simp
    moreover have "n div 128 > 0" using False by (simp add: div_greater_zero_iff)
    ultimately have "ReadVarint_loop (shift + 7) ?r (encode_varint (n div 128) @ rest)
        = (Some (word_of_nat (n div 128 * 2 ^ (shift + 7) + unat ?r)), rest)"
      using 1(1) [OF False, of ?r "shift + 7"] by blast
    then show ?thesis using False step split r by (simp add: ac_simps)
  qed
qed

lemma ReadVarint_encode:
  "n < 2 ^ 64 \<Longrightarrow> ReadVarint (encode_varint n @ rest) = (Some (word_of_nat n), rest)"
  using ReadVarint_loop_encode [of 0 0 n rest] by (simp add: ReadVarint_def)

definition encode_fixed32 :: "32 word \<Rightarrow> bytes" where
  "encode_fixed32 w =
     map (\<lambda>k. char_of (unat w div 2 ^ (8 * k) mod 256)) [0, 1, 2, 3]"

lemma bytes_of_32:
  "n mod 256 + n div 256 mod 256 * 256 + n div 65536 mod 256 * 65536 + n div 16777216 * 16777216 = (n :: nat)"
proof -
  have "n div 256 div 256 = n div 65536" and "n div 65536 div 256 = n div 16777216"
    by (simp_all add: div_mult2_eq [symmetric])
  then show ?thesis
    using div_mult_mod_eq [of n 256] div_mult_mod_eq [of "n div 256" 256]
      div_mult_mod_eq [of "n div 65536" 256]
    by linarith
qed

lemma u8_ucast_32: "n < 256 \<Longrightarrow> (ucast (u8 (char_of n)) :: 32 word) = word_of_nat n"
  using unat_u8_char_of [of n] by (metis of_nat_unat)

lemma or_byte:
  assumes "a < 2 ^ s" and "s + 8 \<le> 32" and "b < 256"
  shows "(word_of_nat a :: 32 word) OR push_bit s (word_of_nat b) = word_of_nat (a + b * 2 ^ s)"
    and "a + b * 2 ^ s < 2 ^ (s + 8)"
proof -
  have "(2 :: nat) ^ s < 2 ^ 32" using assms(2) by (intro power_strict_increasing) auto
  then have "unat (word_of_nat a :: 32 word) = a" using assms(1) by (simp add: unat_of_nat)
  then show "(word_of_nat a :: 32 word) OR push_bit s (word_of_nat b) = word_of_nat (a + b * 2 ^ s)"
    using word_or_shift [of "word_of_nat a :: 32 word" s b] assms(1) by simp
  have "b * 2 ^ s \<le> 255 * 2 ^ s" using assms(3) by (intro mult_le_mono1) simp
  moreover have "2 ^ (s + 8) = 256 * (2 :: nat) ^ s" by (simp add: power_add)
  ultimately show "a + b * 2 ^ s < 2 ^ (s + 8)" using assms(1) by linarith
qed

lemma ReadFixed32_encode: "ReadFixed32 (encode_fixed32 w @ rest) = (Some w, rest)"
proof -
  define n where "n = unat w"
  have n: "n < 2 ^ 32" "w = word_of_nat n" using unsigned_less [of w] by (simp_all add: n_def)
  define d where "d k = n div 2 ^ (8 * k) mod 256" for k
  have d: "d k < 256" for k by (simp add: d_def)
  have e: "encode_fixed32 w = [char_of (d 0), char_of (d 1), char_of (d 2), char_of (d 3)]"
    by (simp add: encode_fixed32_def d_def n_def)
  have "d 0 < 2 ^ 8" using d [of 0] by simp
  note s1 = or_byte [OF this _ d [of 1]]
  have a2: "d 0 + d 1 * 2 ^ 8 < 2 ^ 16" using s1(2) by simp
  note s2 = or_byte [OF a2 _ d [of 2]]
  have a3: "d 0 + d 1 * 2 ^ 8 + d 2 * 2 ^ 16 < 2 ^ 24" using s2(2) by simp
  note s3 = or_byte [OF a3 _ d [of 3]]
  have "(word_of_nat (d 0) :: 32 word) OR push_bit 8 (word_of_nat (d 1)) OR push_bit 16 (word_of_nat (d 2))
      OR push_bit 24 (word_of_nat (d 3)) = word_of_nat (d 0 + d 1 * 2 ^ 8 + d 2 * 2 ^ 16 + d 3 * 2 ^ 24)"
    using s1(1) s2(1) s3(1) by (simp add: or.assoc [symmetric])
  also have "d 0 + d 1 * 2 ^ 8 + d 2 * 2 ^ 16 + d 3 * 2 ^ 24 = n"
  proof -
    have "n div 16777216 < 256" using n(1) by (simp add: less_mult_imp_div_less)
    then have "d 0 = n mod 256" "d 1 = n div 256 mod 256" "d 2 = n div 65536 mod 256" "d 3 = n div 16777216"
      by (simp_all add: d_def)
    then show ?thesis using bytes_of_32 [of n] by simp
  qed
  also have "word_of_nat n = w" using n(2) by simp
  finally show ?thesis using d unfolding e by (simp add: ReadFixed32_def u8_ucast_32 Let_def)
qed

text \<open>Fields: a key, and for the length-delimited ones the length and the bytes.\<close>

definition encode_key :: "nat \<Rightarrow> nat \<Rightarrow> bytes" where
  "encode_key field wire = encode_varint (8 * field + wire)"

definition encode_bytes :: "nat \<Rightarrow> bytes \<Rightarrow> bytes" where
  "encode_bytes field m = encode_key field 2 @ encode_varint (length m) @ m"

lemma encode_varint_ne [simp]: "encode_varint n \<noteq> []"
  by (subst encode_varint.simps) simp

lemma encode_ne [simp]: "encode_key f w \<noteq> []" "encode_bytes f m \<noteq> []"
  by (simp_all add: encode_key_def encode_bytes_def)

lemma key_parts:
  assumes "field < 2 ^ 29" and "wire < 8"
  shows "key_field (word_of_nat (8 * field + wire)) = word_of_nat field"
    and "key_wire (word_of_nat (8 * field + wire)) = word_of_nat wire"
proof -
  define k where "k = 8 * field + wire"
  have k: "k < 2 ^ 64" using assms by (simp add: k_def)
  then have b: "unat (word_of_nat k :: u64) = k" by (rule unat_small)
  have parts: "k div 8 = field" "k mod 8 = wire" using assms by (simp_all add: k_def)
  have "unat (drop_bit 3 (word_of_nat k :: u64)) = field"
    unfolding unsigned_drop_bit_eq b using parts k by (simp add: drop_bit_eq_div take_bit_nat_eq_self)
  then show "key_field (word_of_nat (8 * field + wire)) = word_of_nat field"
    unfolding key_field_def k_def [symmetric] by (metis of_nat_unat)
  have "(word_of_nat k :: u64) AND 7 = take_bit 3 (word_of_nat k)"
    by (simp add: take_bit_eq_mask mask_eq_exp_minus_1)
  then have "unat ((word_of_nat k :: u64) AND 7) = wire"
    using parts by (simp only: unsigned_take_bit_eq b take_bit_nat_def) simp
  then show "key_wire (word_of_nat (8 * field + wire)) = word_of_nat wire"
    unfolding key_wire_def k_def [symmetric] by (metis of_nat_unat)
qed

lemma ReadVarint_key:
  "field < 2 ^ 29 \<Longrightarrow> wire < 8 \<Longrightarrow>
     ReadVarint (encode_key field wire @ rest) = (Some (word_of_nat (8 * field + wire)), rest)"
  by (simp add: encode_key_def ReadVarint_encode)

lemma ReadLengthDelimited_encode:
  "length m < 2 ^ 64 \<Longrightarrow> ReadLengthDelimited (encode_varint (length m) @ m @ rest) = (Some m, rest)"
  by (simp add: ReadLengthDelimited_def ReadVarint_encode unat_of_nat)

text \<open>
  A piece as a SentencePiece model stores it: the text, the score and, for control and other special
  pieces, a type number that the exporter does not read.
\<close>

definition encode_type :: "nat option \<Rightarrow> bytes" where
  "encode_type t = (case t of None \<Rightarrow> [] | Some v \<Rightarrow> encode_key 3 0 @ encode_varint v)"

definition encode_piece :: "SentencePieceRecord \<times> nat option \<Rightarrow> bytes" where
  "encode_piece p =
     encode_bytes 1 (sp_piece (fst p)) @ encode_key 2 5 @ encode_fixed32 (sp_score (fst p))
     @ encode_type (snd p)"

lemma parse_piece_field:
  "length m < 2 ^ 64 \<Longrightarrow> ParseSentencePiece_loop (encode_bytes 1 m @ rest) r f
     = ParseSentencePiece_loop rest (r\<lparr>sp_piece := m\<rparr>) True"
  using key_parts [of 1 2]
  by (subst ParseSentencePiece_loop.simps)
     (simp add: encode_bytes_def ReadVarint_key ReadLengthDelimited_encode)

lemma parse_score_field:
  "ParseSentencePiece_loop (encode_key 2 5 @ encode_fixed32 w @ rest) r f
     = ParseSentencePiece_loop rest (r\<lparr>sp_score := w\<rparr>) f"
  using key_parts [of 2 5]
  by (subst ParseSentencePiece_loop.simps) (simp add: ReadVarint_key ReadFixed32_encode)

lemma parse_type_field:
  "v < 2 ^ 64 \<Longrightarrow> ParseSentencePiece_loop (encode_key 3 0 @ encode_varint v @ rest) r f
     = ParseSentencePiece_loop rest r f"
  using key_parts [of 3 0]
  by (subst ParseSentencePiece_loop.simps)
     (simp add: ReadVarint_key SkipField_def ReadVarint_encode)

lemma parse_end: "ParseSentencePiece_loop [] r True = Inr r"
  by (simp add: ParseSentencePiece_loop.simps)

definition type_ok :: "nat option \<Rightarrow> bool" where
  "type_ok t \<longleftrightarrow> (case t of None \<Rightarrow> True | Some v \<Rightarrow> v < 2 ^ 64)"

lemma ParseSentencePiece_encode:
  assumes "length (sp_piece r) < 2 ^ 64" and "type_ok t"
  shows "ParseSentencePiece (encode_piece (r, t)) = Inr r"
proof -
  have "ParseSentencePiece_loop (encode_type t) r True = Inr r" for r
    using assms(2) parse_type_field [of _ "[]"]
    by (cases t) (auto simp: encode_type_def type_ok_def parse_end)
  then show ?thesis using assms(1)
    by (simp add: ParseSentencePiece_def encode_piece_def parse_piece_field parse_score_field new_piece_def
        del: One_nat_def)
qed

text \<open>
  A model: the piece records, then other messages (the trainer and normaliser settings) under other
  field numbers.
\<close>

definition encode_model ::
    "(SentencePieceRecord \<times> nat option) list \<Rightarrow> (nat \<times> bytes) list \<Rightarrow> bytes" where
  "encode_model ps others =
     concat (map (\<lambda>p. encode_bytes 1 (encode_piece p)) ps)
     @ concat (map (\<lambda>(field, m). encode_bytes field m) others)"

definition other_ok :: "nat \<times> bytes \<Rightarrow> bool" where
  "other_ok f \<longleftrightarrow> 1 < fst f \<and> fst f < 2 ^ 29 \<and> length (snd f) < 2 ^ 64"

definition vocabulary :: "(32 word \<Rightarrow> string) \<Rightarrow> SentencePieceRecord list \<Rightarrow> string" where
  "vocabulary fmt rs = concat (map (piece_line fmt) rs)"

lemma encode_varint_64: "v < 2 ^ 64 \<Longrightarrow> length (encode_varint v) \<le> 10"
proof -
  have "v < 128 ^ Suc k \<Longrightarrow> length (encode_varint v) \<le> Suc k" for k
  proof (induction k arbitrary: v)
    case (Suc k)
    show ?case
    proof (cases "v < 128")
      case False
      have "v div 128 < 128 ^ Suc k" using Suc(2) by (simp add: less_mult_imp_div_less mult.commute)
      then have "length (encode_varint (v div 128)) \<le> Suc k" by (rule Suc(1))
      then show ?thesis using False by (subst encode_varint.simps) simp
    qed (simp add: encode_varint.simps)
  qed (simp add: encode_varint.simps)
  from this [of 9] show "v < 2 ^ 64 \<Longrightarrow> length (encode_varint v) \<le> 10" by simp
qed

lemma encode_piece_length:
  assumes "length (sp_piece r) \<le> kMaxPieceBytes" and "type_ok t"
  shows "length (encode_piece (r, t)) < 2 ^ 64"
proof -
  have k: "length (encode_key f w) \<le> 10" if "8 * f + w < 2 ^ 64" for f w
    unfolding encode_key_def using that by (rule encode_varint_64)
  have "length (encode_type t) \<le> 20"
    using assms(2) k [of 3 0] encode_varint_64 [of "the t"]
    by (cases t) (auto simp: encode_type_def type_ok_def)
  moreover have "length (encode_bytes 1 (sp_piece r)) \<le> 10 + 10 + kMaxPieceBytes"
    using k [of 1 2] encode_varint_64 [of "length (sp_piece r)"] assms(1)
    by (simp add: encode_bytes_def kMaxPieceBytes_def)
  moreover have "length (encode_fixed32 (sp_score r)) = 4" by (simp add: encode_fixed32_def)
  ultimately show ?thesis using k [of 2 5] by (simp add: encode_piece_def kMaxPieceBytes_def)
qed

lemma export_other:
  assumes "other_ok (field, m)"
  shows "export_loop fmt path (encode_bytes field m @ rest) n out = export_loop fmt path rest n out"
proof -
  have "(word_of_nat field :: 32 word) \<noteq> 1"
  proof
    assume "(word_of_nat field :: 32 word) = 1"
    then have "unat (word_of_nat field :: 32 word) = 1" by simp
    then show False using assms by (simp add: other_ok_def unat_of_nat take_bit_nat_eq_self)
  qed
  then show ?thesis using assms key_parts [of field 2]
    by (subst export_loop.simps)
       (simp add: other_ok_def encode_bytes_def ReadVarint_key SkipField_def ReadLengthDelimited_encode)
qed

lemma export_piece:
  assumes "piece_supported r" and "type_ok t" and "n < kMaxPieceCount"
    and "length (out @ piece_line fmt r) \<le> kMaxBpeVocabularyBytes"
  shows "export_loop fmt path (encode_bytes 1 (encode_piece (r, t)) @ rest) n out
    = export_loop fmt path rest (n + 1) (out @ piece_line fmt r)"
proof -
  have short: "length (sp_piece r) \<le> kMaxPieceBytes" using assms(1) by (simp add: piece_supported_def)
  then have "length (sp_piece r) < 2 ^ 64" by (simp add: kMaxPieceBytes_def)
  then have "ParseSentencePiece (encode_piece (r, t)) = Inr r"
    using assms(2) by (rule ParseSentencePiece_encode)
  then show ?thesis
    using assms key_parts [of 1 2] encode_piece_length [OF short assms(2)]
    by (subst export_loop.simps)
       (simp add: encode_bytes_def ReadVarint_key ReadLengthDelimited_encode Let_def)
qed

lemma export_loop_encode:
  assumes "list_all (\<lambda>(r, t). piece_supported r \<and> type_ok t) ps" and "list_all other_ok others"
    and "n + length ps \<le> kMaxPieceCount"
    and "length (out @ vocabulary fmt (map fst ps)) \<le> kMaxBpeVocabularyBytes"
  shows "export_loop fmt path (encode_model ps others) n out
    = Inr (n + length ps, out @ vocabulary fmt (map fst ps))"
  using assms
proof (induction ps arbitrary: n out)
  case Nil
  from Nil(2) have "export_loop fmt path (concat (map (\<lambda>(field, m). encode_bytes field m) others)) n out = Inr (n, out)"
    by (induction others) (auto simp: export_other export_loop.simps [of _ _ "[]"])
  then show ?case by (simp add: encode_model_def vocabulary_def)
next
  case (Cons p ps)
  obtain r t where p: "p = (r, t)" by (rule prod.exhaust)
  have ok: "piece_supported r" "type_ok t" "n < kMaxPieceCount"
    "length (out @ piece_line fmt r) \<le> kMaxBpeVocabularyBytes"
    using Cons.prems by (simp_all add: p vocabulary_def)
  have "export_loop fmt path (encode_model (p # ps) others) n out
      = export_loop fmt path (encode_model ps others) (n + 1) (out @ piece_line fmt r)"
    using export_piece [OF ok] by (simp add: encode_model_def p)
  then show ?case
    using Cons.IH [of "n + 1" "out @ piece_line fmt r"] Cons.prems by (simp add: p vocabulary_def)
qed

section \<open>Every exported vocabulary passes the check\<close>

text \<open>What the exporter has written at its end, for any model at all.\<close>

lemma export_loop_pieces:
  "export_loop fmt path buffer n out = Inr (m, t) \<Longrightarrow>
     \<exists>rs. m = n + length rs \<and> t = out @ vocabulary fmt rs \<and> list_all piece_supported rs
       \<and> (rs = [] \<or> m \<le> kMaxPieceCount \<and> length t \<le> kMaxBpeVocabularyBytes)"
proof (induction fmt path buffer n out arbitrary: m t rule: export_loop.induct)
  case (1 fmt path buffer n out)
  show ?case
  proof (cases "buffer = []")
    case True
    then show ?thesis using 1(3) by (intro exI [of _ "[]"]) (simp add: export_loop.simps vocabulary_def)
  next
    case False
    obtain key rest where key: "ReadVarint buffer = (Some key, rest)"
      using 1(3) False by (subst (asm) export_loop.simps) (auto split: prod.splits option.splits)
    note eq = 1(3) [unfolded export_loop.simps [of _ _ buffer], simplified False key, simplified]
    show ?thesis
    proof (cases "key_field key = 1 \<and> key_wire key = 2")
      case True
      from eq True obtain msg rest' r where msg: "ReadLengthDelimited rest = (Some msg, rest')"
        and r: "ParseSentencePiece msg = Inr r" and sup: "piece_supported r"
        by (auto split: prod.splits option.splits sum.splits if_splits)
      define out' where "out' = out @ piece_line fmt r"
      have small: "\<not> (n + 1 > kMaxPieceCount \<or> length out' > kMaxBpeVocabularyBytes)"
        and go: "export_loop fmt path rest' (n + 1) out' = Inr (m, t)"
        using eq True msg r sup by (auto simp: Let_def out'_def split: if_splits)
      obtain rs where rs: "m = n + 1 + length rs" "t = out' @ vocabulary fmt rs"
        "list_all piece_supported rs"
        "rs = [] \<or> m \<le> kMaxPieceCount \<and> length t \<le> kMaxBpeVocabularyBytes"
        using 1(1) [OF False key [symmetric] refl True msg [symmetric] refl r _ out'_def small go] sup
        by auto
      then show ?thesis using sup small
        by (intro exI [of _ "r # rs"]) (auto simp: vocabulary_def out'_def)
    next
      case other: False
      from eq other obtain rest' where skip: "SkipField (key_wire key) rest = (True, rest')"
        and go: "export_loop fmt path rest' n out = Inr (m, t)"
        by (auto split: prod.splits bool.splits)
      show ?thesis using 1(2) [OF False key [symmetric] refl other skip [symmetric] refl go] .
    qed
  qed
qed

text \<open>
  What is relied on of the formatting library: it prints a finite \<open>float\<close> as a decimal number that
  \<open>from_chars\<close> reads to its end, as a finite value.
\<close>

definition prints_numbers :: "float_env \<Rightarrow> (32 word \<Rightarrow> string) \<Rightarrow> bool" where
  "prints_numbers fe fmt \<longleftrightarrow>
     (\<forall>b. isfinite32 b \<longrightarrow>
        (\<exists>r. from_chars_float fe False (fmt b) = Some (r, length (fmt b)) \<and> is_finite r))"

lemma prints_numbers_chars:
  "prints_numbers fe fmt \<Longrightarrow> isfinite32 b \<Longrightarrow> fmt b \<noteq> [] \<and> list_all is_number_char (fmt b)"
  using from_chars_float_chars by (metis prints_numbers_def)

definition piece_text :: "(32 word \<Rightarrow> string) \<Rightarrow> SentencePieceRecord \<Rightarrow> string" where
  "piece_text fmt r = sp_piece r @ CHR 0x09 # fmt (sp_score r)"

lemma piece_line_text: "piece_line fmt r = piece_text fmt r @ [CHR 0x0A]"
  by (simp add: piece_line_def piece_text_def)

lemma piece_text_chars:
  assumes "prints_numbers fe fmt" and "piece_supported r"
  shows "CHR 0x0A \<notin> set (piece_text fmt r)" and "CHR 0x0D \<notin> set (piece_text fmt r)"
    and "CHR 0x09 \<notin> set (sp_piece r)"
proof -
  have fin: "isfinite32 (sp_score r)" and piece: "CHR 0x0A \<notin> set (sp_piece r)"
    "CHR 0x0D \<notin> set (sp_piece r)" and tab: "CHR 0x09 \<notin> set (sp_piece r)"
    using assms(2) by (auto simp: piece_supported_def)
  show "CHR 0x09 \<notin> set (sp_piece r)" by (rule tab)
  have "\<forall>c\<in>set (fmt (sp_score r)). is_number_char c"
    using prints_numbers_chars [OF assms(1) fin] by (simp add: list_all_iff)
  then have "CHR 0x0A \<notin> set (fmt (sp_score r))" "CHR 0x0D \<notin> set (fmt (sp_score r))"
    using not_number_char by blast+
  then show "CHR 0x0A \<notin> set (piece_text fmt r)" "CHR 0x0D \<notin> set (piece_text fmt r)"
    using piece by (simp_all add: piece_text_def)
qed

lemma getlines_vocabulary:
  assumes "prints_numbers fe fmt" and "list_all piece_supported rs"
  shows "getlines (vocabulary fmt rs) = map (piece_text fmt) rs"
proof -
  have "split_spec CHR 0x0A (vocabulary fmt rs) = map (piece_text fmt) rs @ [[]]"
    using assms(2)
  proof (induction rs)
    case (Cons r rs)
    have "CHR 0x0A \<notin> set (piece_text fmt r)" using Cons.prems piece_text_chars(1) [OF assms(1)] by simp
    then have "split_spec CHR 0x0A (piece_text fmt r @ CHR 0x0A # vocabulary fmt rs)
        = piece_text fmt r # split_spec CHR 0x0A (vocabulary fmt rs)"
      by (rule split_spec_append)
    moreover have "vocabulary fmt (r # rs) = piece_text fmt r @ CHR 0x0A # vocabulary fmt rs"
      by (simp add: vocabulary_def piece_line_text)
    ultimately show ?case using Cons by simp
  qed (simp add: vocabulary_def)
  then show ?thesis by (simp add: getlines_def)
qed

lemma vocab_lines_vocabulary:
  assumes "prints_numbers fe fmt" and "list_all piece_supported rs" and "n + length rs \<le> kMaxPieceCount"
  shows "vocab_lines fe path n (map (piece_text fmt) rs) = Inr (n + length rs)"
  using assms(2,3)
proof (induction rs arbitrary: n)
  case (Cons r rs)
  let ?l = "piece_text fmt r"
  have sup: "piece_supported r" using Cons.prems by simp
  note chars = piece_text_chars [OF assms(1) sup]
  have fin: "isfinite32 (sp_score r)" and ne: "sp_piece r \<noteq> []" and short: "length (sp_piece r) \<le> kMaxPieceBytes"
    using sup by (auto simp: piece_supported_def)
  obtain v where v: "from_chars_float fe False (fmt (sp_score r)) = Some (v, length (fmt (sp_score r)))" "is_finite v"
    using assms(1) fin by (auto simp: prints_numbers_def)
  have "?l \<noteq> []" by (simp add: piece_text_def)
  then have no_cr: "last ?l \<noteq> CHR 0x0D" using chars(2) by (metis last_in_set)
  have "takeWhile (\<lambda>c. c \<noteq> CHR 0x09) ?l = sp_piece r"
  proof -
    have "\<And>c. c \<in> set (sp_piece r) \<Longrightarrow> c \<noteq> CHR 0x09" using chars(3) by metis
    then show ?thesis by (simp add: piece_text_def takeWhile_tail)
  qed
  then have tab: "find_index (\<lambda>c. c = CHR 0x09) ?l = Some (length (sp_piece r))"
    by (simp add: find_index_takeWhile) (simp add: piece_text_def)
  have "drop (length (sp_piece r) + 1) ?l = fmt (sp_score r)" by (simp add: piece_text_def)
  moreover have "length ?l = length (sp_piece r) + 1 + length (fmt (sp_score r))" by (simp add: piece_text_def)
  ultimately show ?case
    using Cons.IH [of "n + 1"] Cons.prems tab no_cr v ne short prints_numbers_chars [OF assms(1) fin]
    by (simp add: Let_def)
qed simp

section \<open>The properties\<close>

lemma export_result:
  assumes "ExportSentencePieceVocabulary fmt io model_path vocab_path = (Inr (), Some t)"
  shows "\<exists>rs. rs \<noteq> [] \<and> t = vocabulary fmt rs \<and> list_all piece_supported rs
    \<and> length rs \<le> kMaxPieceCount \<and> length t \<le> kMaxBpeVocabularyBytes"
proof -
  obtain data m where e: "export_loop fmt model_path data 0 [] = Inr (m, t)" and m: "m \<noteq> 0"
    using assms by (auto simp: ExportSentencePieceVocabulary_def split: sum.splits if_splits prod.splits)
  from export_loop_pieces [OF e] m show ?thesis by fastforce
qed

text \<open>
  A number written in the wire format is read back whole, whatever follows it, for every
  64-bit value.
\<close>

theorem varint_roundtrip: "ReadVarint (encode_varint (unat v) @ rest) = (Some v, rest)"
  using ReadVarint_encode [of "unat v" rest] unsigned_less [of v] by simp

text \<open>
  The vocabulary exported from a well-formed model is one line per piece, in the order of the
  model: the piece, a tab and its score. The types of the pieces and the other messages of the model
  leave no trace in it.
\<close>

theorem exported_model:
  assumes "list_all (\<lambda>(r, t). piece_supported r \<and> type_ok t) ps" and "list_all other_ok others"
    and "ps \<noteq> []" and "length ps \<le> kMaxPieceCount"
    and "length (vocabulary fmt (map fst ps)) \<le> kMaxBpeVocabularyBytes"
    and "vi_map_file io model_path = Inr (encode_model ps others)"
    and "vi_file_size io model_path = Inr n" and "n \<le> kMaxSentencePieceModelBytes"
    and "vi_atomic_write io vocab_path (vocabulary fmt (map fst ps)) = Inr ()"
  shows "ExportSentencePieceVocabulary fmt io model_path vocab_path
    = (Inr (), Some (vocabulary fmt (map fst ps)))"
  using assms export_loop_encode [OF assms(1,2), of 0 "[]" fmt model_path]
  by (simp add: ExportSentencePieceVocabulary_def)

lemma exported_validates:
  assumes "prints_numbers fe fmt"
    and "ExportSentencePieceVocabulary fmt io model_path vocab_path = (Inr (), Some t)"
  shows "ValidateBpeVocabulary fe vocab_path (Inr (length t)) (Some (t, True)) = Inr ()"
proof -
  obtain rs where rs: "rs \<noteq> []" "t = vocabulary fmt rs" "list_all piece_supported rs"
    "length rs \<le> kMaxPieceCount" "length t \<le> kMaxBpeVocabularyBytes"
    using export_result [OF assms(2)] by blast
  have "length t \<noteq> 0" using rs(1) by (cases rs) (simp_all add: rs(2) vocabulary_def piece_line_def)
  moreover have "vocab_lines fe vocab_path 0 (getlines t) = Inr (length rs)"
    using vocab_lines_vocabulary [OF assms(1) rs(3), of 0 vocab_path] rs(4)
    by (simp add: rs(2) getlines_vocabulary [OF assms(1) rs(3)])
  ultimately show ?thesis using rs(1,5) by (simp add: ValidateBpeVocabulary_def)
qed

text \<open>
  C31: Whatever the model file holds, a vocabulary that the exporter has written passes the check
  that the recognisers apply before they load it: every line has a non-empty piece within the limit,
  a tab and a finite score, and the limits on the number of pieces and on the size are respected.
\<close>

theorem exported_vocabulary_validates:
  assumes "prints_numbers fe fmt"
    and "ExportSentencePieceVocabulary fmt io model_path vocab_path = (Inr (), Some t)"
  shows "ValidateBpeVocabulary fe vocab_path (Inr (length t)) (Some (t, True)) = Inr ()"
  using assms by (rule exported_validates)

definition example_piece :: SentencePieceRecord where
  "example_piece = \<lparr>sp_piece = ''ab'', sp_score = 0xBF800000\<rparr>"

definition example_score :: "32 word \<Rightarrow> string" where
  "example_score b = (if b = 0xBF800000 then ''-1'' else ''0'')"

definition example_vocab_io :: vocab_io where
  "example_vocab_io =
     \<lparr>vi_file_size = (\<lambda>_. Inr 30),
      vi_map_file = (\<lambda>_. Inr (encode_model [(example_piece, Some 3)] [(2, ''trainer'')])),
      vi_atomic_write = (\<lambda>_ _. Inr ())\<rparr>"

lemma example_score_ok: "prints_numbers exact_env example_score"
proof -
  have "from_chars_float exact_env False ''-1'' = Some (Finite (- 1), 2)"
    and "from_chars_float exact_env False ''0'' = Some (Finite 0, 1)"
    by code_simp+
  then show ?thesis by (auto simp: prints_numbers_def example_score_def is_finite_def)
qed

lemma example_piece_ok: "piece_supported example_piece"
  by (simp add: piece_supported_def example_piece_def isfinite32_def kMaxPieceBytes_def)

lemma example_vocabulary: "vocabulary example_score [example_piece] = ''ab'' @ [CHR 0x09] @ ''-1'' @ [CHR 0x0A]"
  by (simp add: vocabulary_def piece_line_def example_score_def example_piece_def)

lemmas example_limits = other_ok_def type_ok_def kMaxPieceCount_def kMaxBpeVocabularyBytes_def
  kMaxSentencePieceModelBytes_def example_vocabulary

lemma example_model_exported:
  "ExportSentencePieceVocabulary example_score example_vocab_io ''m'' ''v''
     = (Inr (), Some (''ab'' @ [CHR 0x09] @ ''-1'' @ [CHR 0x0A]))"
proof -
  have "export_loop example_score ''m'' (encode_model [(example_piece, Some 3)] [(2, ''trainer'')]) 0 []
      = Inr (1, vocabulary example_score [example_piece])"
    using export_loop_encode [of "[(example_piece, Some 3)]" "[(2, ''trainer'')]" 0 "[]" example_score "''m''"]
      example_piece_ok
    by (simp add: example_limits)
  then show ?thesis
    by (simp add: ExportSentencePieceVocabulary_def example_vocab_io_def example_limits)
qed

theorem exported_model_witness:
  "ExportSentencePieceVocabulary example_score example_vocab_io ''m'' ''v''
     = (Inr (), Some (vocabulary example_score (map fst [(example_piece, Some 3 :: nat option)])))"
  by (rule exported_model [where others = "[(2, ''trainer'')]" and n = 30])
     (simp_all add: example_piece_ok example_vocab_io_def example_limits)

theorem exported_vocabulary_validates_witness:
  "ValidateBpeVocabulary exact_env ''v'' (Inr 6) (Some (''ab'' @ [CHR 0x09] @ ''-1'' @ [CHR 0x0A], True)) = Inr ()"
  using exported_vocabulary_validates [OF example_score_ok example_model_exported]
  by (simp add: numeral_eq_Suc)

end
