(* ===== verification/Hotwords.thy ===== *)
theory Hotwords
  imports Bpe_Vocab Json_Access
begin

unbundle bit_operations_syntax

text \<open>
  \<open>src/daemon/asr/hotword_utils.cpp\<close>, with the UTF-8 decoder it calls
  (\<open>src/3rdparty/unicodelib/unicodelib_encodings.h\<close>): hotword files are checked as text, parsed
  into words with optional scores, and rewritten for the two kinds of recogniser that take them.

  The text check is shown to accept exactly the encodings of sequences of allowed code points; the
  parser is shown to lose nothing of a line it accepts, and the rewriting to give each entry a line of
  its own.
\<close>

definition kMaxHotwordFileBytes :: nat where "kMaxHotwordFileBytes = 1024 * 1024"

section \<open>Scores\<close>

fun fp_neg :: "fp \<Rightarrow> fp" where
  "fp_neg (Finite a) = Finite (- a)"
| "fp_neg PosInf = NegInf"
| "fp_neg NegInf = PosInf"
| "fp_neg NaN = NaN"

text \<open>The value of an accepted score, or \<open>None\<close> for a refused one.\<close>

definition ParseHotwordScore :: "float_env \<Rightarrow> string \<Rightarrow> fp option" where
  "ParseHotwordScore fe v =
     (if v = [] then None
      else
        (let signed = starts_with v ''+'' \<or> starts_with v ''-'';
             is_negative = starts_with v ''-'';
             digits = (if signed then drop 1 v else v)
         in if signed \<and> (digits = [] \<or> starts_with digits ''+'' \<or> starts_with digits ''-'') then None
            else
              (let hex = starts_with digits ''0x'' \<or> starts_with digits ''0X'';
                   body = (if hex then drop 2 digits else digits)
               in case from_chars_float fe hex body of
                    None \<Rightarrow> None
                  | Some (parsed, n) \<Rightarrow>
                      if n \<noteq> length body \<or> \<not> is_finite parsed then None
                      else Some (if is_negative then fp_neg parsed else parsed))))"

definition IsValidScore :: "float_env \<Rightarrow> string \<Rightarrow> bool" where
  "IsValidScore fe v \<longleftrightarrow> ParseHotwordScore fe v \<noteq> None"

definition LooksLikeScore :: "string \<Rightarrow> bool" where
  "LooksLikeScore v \<longleftrightarrow>
     (case v of
        [] \<Rightarrow> True
      | c # _ \<Rightarrow>
          is_digit c \<or> c = CHR ''+'' \<or> c = CHR ''-'' \<or> c = CHR ''.''
          \<or> EqualsIgnoreCase v ''nan'' \<or> StartsWithIgnoreCase v ''nan(''
          \<or> EqualsIgnoreCase v ''inf'' \<or> EqualsIgnoreCase v ''infinity'')"

section \<open>Text validation\<close>

definition is_cont :: "bytes \<Rightarrow> nat \<Rightarrow> bool" where
  "is_cont s i \<longleftrightarrow> u8 (s ! i) AND 0xC0 = 0x80"

definition bits_of :: "8 word \<Rightarrow> bytes \<Rightarrow> nat \<Rightarrow> 32 word" where
  "bits_of m s i = ucast (u8 (s ! i) AND m)"

text \<open>The number of bytes and the code point.\<close>

definition decode_codepoint :: "bytes \<Rightarrow> (nat \<times> 32 word) option" where
  "decode_codepoint s =
     (if s = [] then None
      else
        (let l = length s; b = u8 (s ! 0) in
         if b AND 0x80 = 0 then Some (1, ucast b)
         else if b AND 0xE0 = 0xC0 then
           (if l \<ge> 2 \<and> is_cont s 1 then
              (let cp = push_bit 6 (bits_of 0x1F s 0) OR bits_of 0x3F s 1 in
               if cp \<ge> 0x80 then Some (2, cp) else None)
            else None)
         else if b AND 0xF0 = 0xE0 then
           (if l \<ge> 3 \<and> is_cont s 1 \<and> is_cont s 2 then
              (let cp = push_bit 12 (bits_of 0x0F s 0) OR push_bit 6 (bits_of 0x3F s 1)
                        OR bits_of 0x3F s 2 in
               if cp \<ge> 0x800 \<and> (cp < 0xD800 \<or> cp \<ge> 0xE000) then Some (3, cp) else None)
            else None)
         else if b AND 0xF8 = 0xF0 then
           (if l \<ge> 4 \<and> is_cont s 1 \<and> is_cont s 2 \<and> is_cont s 3 then
              (let cp = push_bit 18 (bits_of 0x07 s 0) OR push_bit 12 (bits_of 0x3F s 1)
                        OR push_bit 6 (bits_of 0x3F s 2) OR bits_of 0x3F s 3 in
               if cp \<ge> 0x10000 \<and> cp < 0x110000 then Some (4, cp) else None)
            else None)
         else None))"

text \<open>The general category \<open>Cc\<close> of Unicode: the C0 controls, DEL and the C1 controls.\<close>

definition is_Cc :: "32 word \<Rightarrow> bool" where
  "is_Cc cp \<longleftrightarrow> cp < 0x20 \<or> (0x7F \<le> cp \<and> cp \<le> 0x9F)"

record Utf8Validation =
  uv_valid :: bool
  uv_error_offset :: nat
  uv_error_reason :: "string option"

definition invalid_at :: "nat \<Rightarrow> string \<Rightarrow> Utf8Validation" where
  "invalid_at offset reason = \<lparr>uv_valid = False, uv_error_offset = offset, uv_error_reason = Some reason\<rparr>"

lemma decode_codepoint_bytes: "decode_codepoint s = Some (k, cp) \<Longrightarrow> 0 < k \<and> k \<le> length s"
  by (auto simp: decode_codepoint_def Let_def Suc_le_eq split: if_splits)

function ValidateHotwordText_loop :: "bytes \<Rightarrow> nat \<Rightarrow> Utf8Validation" where
  "ValidateHotwordText_loop txt offset =
     (if offset < length txt then
        (case decode_codepoint (drop offset txt) of
           None \<Rightarrow> invalid_at offset ''invalid UTF-8 sequence''
         | Some (k, cp) \<Rightarrow>
             if cp = 0 then invalid_at offset ''embedded NUL is not allowed''
             else if \<not> (cp = 9 \<or> cp = 10 \<or> cp = 13) \<and> (is_Cc cp \<or> cp < 0x20)
             then invalid_at offset ''control character is not allowed''
             else ValidateHotwordText_loop txt (offset + k))
      else \<lparr>uv_valid = True, uv_error_offset = 0, uv_error_reason = None\<rparr>)"
  by pat_completeness auto
termination
  by (relation "measure (\<lambda>(txt, offset). length txt - offset)")
     (auto dest!: decode_codepoint_bytes [OF sym] decode_codepoint_bytes)

declare ValidateHotwordText_loop.simps [simp del]

definition ValidateHotwordText :: "bytes \<Rightarrow> Utf8Validation" where
  "ValidateHotwordText txt = ValidateHotwordText_loop txt 0"

section \<open>Reading and parsing\<close>

definition IsHotwordWhitespace :: "char \<Rightarrow> bool" where
  "IsHotwordWhitespace c \<longleftrightarrow> c = CHR '' '' \<or> c = CHR 0x09 \<or> c = CHR 0x0D \<or> c = CHR 0x0A"

text \<open>
  What the file system answers: whether the path is a regular file, its size, and what
  \<open>ReadTextFile\<close> gives for a limit on the bytes.
\<close>

record hotword_io =
  hi_is_regular_file :: "string \<Rightarrow> bool"
  hi_file_size :: "string \<Rightarrow> string + nat"
  hi_read_text :: "string \<Rightarrow> nat \<Rightarrow> string + string"

definition ReadHotwordFile :: "hotword_io \<Rightarrow> string \<Rightarrow> string + string" where
  "ReadHotwordFile io path =
     (if path = [] then Inr []
      else if \<not> hi_is_regular_file io path
      then Inl (''hotwords file is not a regular file: '' @ path)
      else
        (case hi_file_size io path of
           Inl e \<Rightarrow> Inl (''failed to inspect hotwords file '' @ [CHR 0x27] @ path @ [CHR 0x27] @ '': '' @ e)
         | Inr n \<Rightarrow>
             if n > kMaxHotwordFileBytes then Inl (''hotwords file exceeds 1 MiB limit: '' @ path)
             else
               (case hi_read_text io path (kMaxHotwordFileBytes + 1) of
                  Inl e \<Rightarrow> Inl (''failed to read hotwords file: '' @ path)
                | Inr txt \<Rightarrow>
                    if length txt > kMaxHotwordFileBytes
                    then Inl (''hotwords file exceeds 1 MiB limit: '' @ path)
                    else
                      (let res = ValidateHotwordText txt in
                       if \<not> uv_valid res
                       then Inl (''invalid hotwords file at byte '' @ to_string_nat (uv_error_offset res)
                                 @ '': '' @ value_or (uv_error_reason res) [])
                       else Inr txt))))"

record HotwordEntry =
  he_text :: string
  he_score :: string

definition spaced_colon :: "string \<Rightarrow> bool" where
  "spaced_colon line \<longleftrightarrow>
     list_ex (\<lambda>i. line ! i = CHR '':'' \<and> IsHotwordWhitespace (line ! (i - 1))) [1..<length line]"

definition invalid_score :: "string \<Rightarrow> string" where
  "invalid_score line =
     ''invalid hotword score; use '' @ [CHR 0x27] @ ''word:3.5'' @ [CHR 0x27] @ '' without spaces: '' @ line"

definition ParseHotwordEntry :: "float_env \<Rightarrow> string \<Rightarrow> string + HotwordEntry" where
  "ParseHotwordEntry fe raw_line =
     (let line = Trim raw_line in
      if line = [] then Inr \<lparr>he_text = [], he_score = []\<rparr>
      else if spaced_colon line then Inl (invalid_score line)
      else
        (case RSplitOnce line CHR '':'' of
           None \<Rightarrow> Inr \<lparr>he_text = line, he_score = []\<rparr>
         | Some (raw_text, raw_score) \<Rightarrow>
             (let score = Trim raw_score;
                  txt = Trim raw_text;
                  whitespace_before = (raw_text \<noteq> [] \<and> IsHotwordWhitespace (last raw_text));
                  whitespace_after = (raw_score \<noteq> score)
              in if IsValidScore fe score then
                   (if whitespace_before \<or> whitespace_after then Inl (invalid_score line)
                    else if txt = [] then Inl (''hotword score has no preceding word or phrase: '' @ line)
                    else Inr \<lparr>he_text = txt, he_score = score\<rparr>)
                 else if whitespace_before \<or> whitespace_after \<or> LooksLikeScore score
                 then Inl (invalid_score line)
                 else Inr \<lparr>he_text = line, he_score = []\<rparr>)))"

fun parse_lines :: "float_env \<Rightarrow> string list \<Rightarrow> HotwordEntry list \<Rightarrow> string + HotwordEntry list" where
  "parse_lines fe [] entries = Inr entries"
| "parse_lines fe (line # lines) entries =
     (case ParseHotwordEntry fe line of
        Inl e \<Rightarrow> Inl e
      | Inr entry \<Rightarrow>
          parse_lines fe lines (if he_text entry \<noteq> [] then entries @ [entry] else entries))"

definition LoadHotwordEntries :: "float_env \<Rightarrow> hotword_io \<Rightarrow> string \<Rightarrow> string + HotwordEntry list" where
  "LoadHotwordEntries fe io path =
     (case ReadHotwordFile io path of
        Inl e \<Rightarrow> Inl e
      | Inr content \<Rightarrow> parse_lines fe (SplitLines content) [])"

section \<open>What the recognisers get\<close>

definition IsTransducerHotwordFamily :: "string \<Rightarrow> bool" where
  "IsTransducerHotwordFamily family \<longleftrightarrow> family = ''transducer'' \<or> family = ''nemo_transducer''"

definition IsPromptHotwordFamily :: "string \<Rightarrow> bool" where
  "IsPromptHotwordFamily family \<longleftrightarrow> family = ''funasr_nano'' \<or> family = ''qwen3_asr''"

definition hotwords_size :: "HotwordEntry list \<Rightarrow> nat" where
  "hotwords_size entries =
     foldl (\<lambda>n e. n + (length (he_text e) + 1) + (if he_score e \<noteq> [] then 2 + length (he_score e) else 0))
       0 entries"

definition append_hotword :: "string \<Rightarrow> HotwordEntry \<Rightarrow> string" where
  "append_hotword hotwords e =
     (hotwords @ he_text e) @ (if he_score e \<noteq> [] then '' :'' @ he_score e else []) @ [CHR 0x0A]"

definition LoadTransducerHotwords :: "float_env \<Rightarrow> hotword_io \<Rightarrow> string \<Rightarrow> string + string" where
  "LoadTransducerHotwords fe io path =
     (case LoadHotwordEntries fe io path of
        Inl e \<Rightarrow> Inl e
      | Inr entries \<Rightarrow> Inr (foldl append_hotword [] entries))"

definition LoadPromptHotwordsCsv :: "float_env \<Rightarrow> hotword_io \<Rightarrow> string \<Rightarrow> string + string" where
  "LoadPromptHotwordsCsv fe io path =
     (case LoadHotwordEntries fe io path of
        Inl e \<Rightarrow> Inl e
      | Inr entries \<Rightarrow> Inr (Join (map he_text entries) '',''))"

text \<open>
  \<open>JsonString\<close> of \<open>sherpa_json_helpers.h\<close>, and the check of a transducer's files: the model's
  settings, the file it names for a role (empty for none), and what the file system says of the
  vocabulary.
\<close>

definition JsonString :: "json \<Rightarrow> string \<Rightarrow> string \<Rightarrow> string" where
  "JsonString obj key default_val =
     (case json_Find obj key of Some (JStr s) \<Rightarrow> s | _ \<Rightarrow> default_val)"

definition ValidateTransducerHotwordAssets ::
    "json \<Rightarrow> (string \<Rightarrow> string) \<Rightarrow> (string \<Rightarrow> bool) \<Rightarrow> (string \<Rightarrow> string + unit) \<Rightarrow> string + unit" where
  "ValidateTransducerHotwordAssets model_config File is_regular_file validate_vocabulary =
     (let modeling_unit = JsonString model_config ''modeling_unit'' [] in
      if modeling_unit = [] then
        Inl ''hotword-capable transducer is missing model.modeling_unit; reinstall or update the model''
      else if modeling_unit \<noteq> ''cjkchar'' \<and> modeling_unit \<noteq> ''bpe'' \<and> modeling_unit \<noteq> ''bbpe''
              \<and> modeling_unit \<noteq> ''cjkchar+bpe''
      then Inl (''unsupported sherpa-onnx hotword modeling_unit '' @ [CHR 0x27] @ modeling_unit @ [CHR 0x27])
      else if modeling_unit = ''bpe'' \<or> modeling_unit = ''bbpe'' \<or> modeling_unit = ''cjkchar+bpe'' then
        (let bpe_vocab = File ''bpe_vocab'' in
         if bpe_vocab = [] \<or> \<not> is_regular_file bpe_vocab
         then Inl (''modeling_unit '' @ [CHR 0x27] @ modeling_unit @ [CHR 0x27] @ '' requires model.bpe_vocab'')
         else validate_vocabulary bpe_vocab)
      else Inr ())"

section \<open>Facts on parsing\<close>

text \<open>The line an entry stands for, in the file and in the input of a transducer.\<close>

definition entry_source :: "HotwordEntry \<Rightarrow> string" where
  "entry_source e = he_text e @ (if he_score e = [] then [] else '':'' @ he_score e)"

definition hotword_line :: "HotwordEntry \<Rightarrow> string" where
  "hotword_line e = he_text e @ (if he_score e = [] then [] else '' :'' @ he_score e)"

text \<open>A valid score has only the bytes of numbers, and is not empty.\<close>

lemma valid_score_chars:
  assumes "IsValidScore fe v"
  shows "v \<noteq> [] \<and> list_all is_number_char v"
proof -
  define signed where "signed \<longleftrightarrow> starts_with v ''+'' \<or> starts_with v ''-''"
  define digits where "digits = (if signed then drop 1 v else v)"
  define hex where "hex \<longleftrightarrow> starts_with digits ''0x'' \<or> starts_with digits ''0X''"
  define body where "body = (if hex then drop 2 digits else digits)"
  have v: "v = (if signed then [hd v] else []) @ digits" and v1: "signed \<Longrightarrow> is_number_char (hd v)"
    by (auto simp: digits_def signed_def starts_with_iff is_number_char_def)
  have d: "digits = (if hex then [CHR ''0'', digits ! 1] else []) @ body"
    and d1: "hex \<Longrightarrow> is_number_char (digits ! 1)"
    by (auto simp: body_def hex_def starts_with_iff is_number_char_def)
  have "ParseHotwordScore fe v =
      (if v = [] then None
       else if signed \<and> (digits = [] \<or> starts_with digits ''+'' \<or> starts_with digits ''-'') then None
       else case from_chars_float fe hex body of None \<Rightarrow> None
            | Some (parsed, n) \<Rightarrow> if n \<noteq> length body \<or> \<not> is_finite parsed then None
                else Some (if starts_with v ''-'' then fp_neg parsed else parsed))"
    by (simp only: ParseHotwordScore_def Let_def signed_def digits_def hex_def body_def)
  then obtain r where r: "from_chars_float fe hex body = Some (r, length body)" "is_finite r"
    using assms unfolding IsValidScore_def
    by (cases "from_chars_float fe hex body") (auto split: if_splits)
  have zero: "is_number_char CHR ''0''" by code_simp
  have "list_all is_number_char digits"
    using from_chars_float_chars [OF r] d1 zero by (subst d) simp
  then have "list_all is_number_char v" using v1 by (subst v) simp
  then show ?thesis using assms by (auto simp: IsValidScore_def ParseHotwordScore_def)
qed

lemma number_char_not_space: "is_number_char c \<Longrightarrow> \<not> is_space c"
  using not_number_char by (auto simp: is_space_def)

lemma spaced_colon_iff:
  "spaced_colon line \<longleftrightarrow>
     (\<exists>i. 0 < i \<and> i < length line \<and> line ! i = CHR '':'' \<and> IsHotwordWhitespace (line ! (i - 1)))"
  by (auto simp: spaced_colon_def list_ex_iff Suc_le_eq)

text \<open>The test before the last colon never finds white space: the first loop has refused it.\<close>

lemma no_whitespace_before:
  assumes "\<not> spaced_colon (a @ CHR '':'' # b)"
  shows "\<not> (a \<noteq> [] \<and> IsHotwordWhitespace (last a))"
proof
  assume a: "a \<noteq> [] \<and> IsHotwordWhitespace (last a)"
  let ?l = "a @ CHR '':'' # b"
  have "?l ! length a = CHR '':''" by simp
  moreover have "?l ! (length a - 1) = last a" using a by (simp add: nth_append last_conv_nth)
  ultimately show False using assms a unfolding spaced_colon_iff
    by (auto dest!: spec [of _ "length a"])
qed

lemma vertical_free:
  "CHR 0x0B \<notin> set s \<Longrightarrow> CHR 0x0C \<notin> set s \<Longrightarrow> c \<in> set s \<Longrightarrow> is_space c \<longleftrightarrow> IsHotwordWhitespace c"
  by (auto simp: is_space_def IsHotwordWhitespace_def)

lemma ParseHotwordEntry_cases:
  assumes "ParseHotwordEntry fe raw = Inr e" and "CHR 0x0B \<notin> set raw" and "CHR 0x0C \<notin> set raw"
  shows "Trim raw = entry_source e"
    and "he_text e \<noteq> [] \<Longrightarrow> he_score e = [] \<or> IsValidScore fe (he_score e)"
    and "he_text e = [] \<Longrightarrow> he_score e = []"
proof -
  define line where "line = Trim raw"
  have "Trim raw = entry_source e \<and> (he_score e = [] \<or> he_text e \<noteq> [] \<and> IsValidScore fe (he_score e))"
  proof (cases "line = [] \<or> he_score e = []")
    case True
    then show ?thesis using assms(1)
      by (auto simp: ParseHotwordEntry_def Let_def line_def [symmetric] entry_source_def
          split: if_splits option.splits prod.splits)
        (auto dest: valid_score_chars)
  next
    case False
    then obtain a b where split: "RSplitOnce line CHR '':'' = Some (a, b)"
      and e: "e = \<lparr>he_text = Trim a, he_score = Trim b\<rparr>" and b: "b = Trim b" and ta: "Trim a \<noteq> []"
      and v: "IsValidScore fe (Trim b)" and nsc: "\<not> spaced_colon line"
      using assms(1)
      by (auto simp: ParseHotwordEntry_def Let_def line_def [symmetric] split: if_splits option.splits prod.splits)
    have line: "line = a @ CHR '':'' # b" using RSplitOnce_Some [OF split] by simp
    have "a \<noteq> []" using ta by auto
    then have "hd line = hd a" by (simp add: line)
    then have hd: "\<not> is_space (hd a)" using Trim_edges [of raw] False line_def by auto
    have "last a \<in> set raw" using \<open>a \<noteq> []\<close> Trim_subset [of raw] line line_def by auto
    then have "\<not> is_space (last a)"
      using no_whitespace_before nsc line \<open>a \<noteq> []\<close> vertical_free [OF assms(2,3)] by metis
    then have "Trim a = a" using hd by (intro Trim_ident) simp
    then show ?thesis using e b v ta line line_def valid_score_chars [OF v] by (simp add: entry_source_def)
  qed
  then show "Trim raw = entry_source e"
    and "he_text e \<noteq> [] \<Longrightarrow> he_score e = [] \<or> IsValidScore fe (he_score e)"
    and "he_text e = [] \<Longrightarrow> he_score e = []" by auto
qed

section \<open>The text check accepts exactly the encodings of allowed code points\<close>

text \<open>The encoding of the Unicode standard.\<close>

definition utf8_of :: "nat \<Rightarrow> bytes" where
  "utf8_of n =
     (if n < 0x80 then [char_of n]
      else if n < 0x800 then [char_of (0xC0 + n div 0x40), char_of (0x80 + n mod 0x40)]
      else if n < 0x10000 then
        [char_of (0xE0 + n div 0x1000), char_of (0x80 + n div 0x40 mod 0x40), char_of (0x80 + n mod 0x40)]
      else
        [char_of (0xF0 + n div 0x40000), char_of (0x80 + n div 0x1000 mod 0x40),
         char_of (0x80 + n div 0x40 mod 0x40), char_of (0x80 + n mod 0x40)])"

definition is_scalar :: "nat \<Rightarrow> bool" where
  "is_scalar n \<longleftrightarrow> n < 0xD800 \<or> (0xE000 \<le> n \<and> n < 0x110000)"

lemma of_char_small: "(of_char c :: nat) < 256"
  by (metis of_char_mod_256 mod_less_divisor zero_less_numeral)

lemma unat_u8: "unat (u8 c) = of_char c"
  using of_char_small [of c] by (simp add: u8_def unat_of_nat)

lemma u8_low:
  "unat (u8 c AND 0x1F) = of_char c mod 32" "unat (u8 c AND 0x0F) = of_char c mod 16"
  "unat (u8 c AND 0x07) = of_char c mod 8" "unat (u8 c AND 0x3F) = of_char c mod 64"
proof -
  have low: "unat (u8 c AND mask k) = of_char c mod 2 ^ k" for k
    by (simp add: take_bit_eq_mask [symmetric] unsigned_take_bit_eq unat_u8 take_bit_nat_def)
  show "unat (u8 c AND 0x1F) = of_char c mod 32" "unat (u8 c AND 0x0F) = of_char c mod 16"
    "unat (u8 c AND 0x07) = of_char c mod 8" "unat (u8 c AND 0x3F) = of_char c mod 64"
    using low [of 5] low [of 4] low [of 3] low [of 6] by (simp_all add: mask_eq_exp_minus_1)
qed

lemma u8_high_bits: "unat (u8 c AND NOT (mask k)) = of_char c div 2 ^ k * 2 ^ k"
proof -
  have shifted: "u8 c AND NOT (mask k) = push_bit k (drop_bit k (u8 c))"
    by (rule bit_eqI) (auto simp add: bit_simps)
  have "(of_char c :: nat) div 2 ^ k * 2 ^ k < 256"
    using of_char_small [of c] by (metis div_times_less_eq_dividend le_less_trans)
  then show ?thesis
    unfolding shifted unsigned_push_bit_eq unsigned_drop_bit_eq unat_u8
    using of_char_small [of c] by (simp add: push_bit_eq_mult drop_bit_eq_div take_bit_nat_eq_self)
qed

lemma u8_high:
  "u8 c AND 0xC0 = 0x80 \<longleftrightarrow> (of_char c :: nat) div 64 = 2"
  "u8 c AND 0xE0 = 0xC0 \<longleftrightarrow> (of_char c :: nat) div 32 = 6"
  "u8 c AND 0xF0 = 0xE0 \<longleftrightarrow> (of_char c :: nat) div 16 = 14"
  "u8 c AND 0xF8 = 0xF0 \<longleftrightarrow> (of_char c :: nat) div 8 = 30"
proof -
  have masks: "(0xC0 :: 8 word) = NOT (mask 6)" "(0xE0 :: 8 word) = NOT (mask 5)"
    "(0xF0 :: 8 word) = NOT (mask 4)" "(0xF8 :: 8 word) = NOT (mask 3)"
    by (simp_all add: mask_eq_exp_minus_1)
  have iff: "u8 c AND NOT (mask k) = w \<longleftrightarrow> of_char c div 2 ^ k * 2 ^ k = unat w" for k w
    using u8_high_bits [of c k] by (metis word_unat_eq_iff)
  show "u8 c AND 0xC0 = 0x80 \<longleftrightarrow> (of_char c :: nat) div 64 = 2"
    using iff [of 6 "0x80"] by (simp add: masks)
  show "u8 c AND 0xE0 = 0xC0 \<longleftrightarrow> (of_char c :: nat) div 32 = 6"
    using iff [of 5 "0xC0"] by (simp add: masks(2))
  show "u8 c AND 0xF0 = 0xE0 \<longleftrightarrow> (of_char c :: nat) div 16 = 14"
    using iff [of 4 "0xE0"] by (simp add: masks(3))
  show "u8 c AND 0xF8 = 0xF0 \<longleftrightarrow> (of_char c :: nat) div 8 = 30"
    using iff [of 3 "0xF0"] by (simp add: masks(4))
qed

lemma or_shift_32:
  assumes "a < 2 ^ s" and "s < 32"
  shows "push_bit s (word_of_nat m) OR (word_of_nat a :: 32 word) = word_of_nat (m * 2 ^ s + a)"
proof -
  have "(2 :: nat) ^ s < 2 ^ 32" using assms(2) by (intro power_strict_increasing) auto
  then have "a < 2 ^ 32" using assms(1) by (rule less_trans [rotated])
  then have "unat (word_of_nat a :: 32 word) = a" by (simp add: unat_of_nat take_bit_nat_eq_self)
  then show ?thesis
    using word_or_shift [of "word_of_nat a :: 32 word" s m] assms(1) by (simp add: or.commute add.commute)
qed

lemma bits_of_low:
  "bits_of 0x1F s i = word_of_nat (of_char (s ! i) mod 32)" "bits_of 0x0F s i = word_of_nat (of_char (s ! i) mod 16)"
  "bits_of 0x07 s i = word_of_nat (of_char (s ! i) mod 8)" "bits_of 0x3F s i = word_of_nat (of_char (s ! i) mod 64)"
  unfolding bits_of_def u8_low [symmetric] by simp_all

text \<open>The code points that the decoder puts together, as numbers.\<close>

lemma codepoint_2: "push_bit 6 (word_of_nat h) OR (word_of_nat (l mod 64) :: 32 word) = word_of_nat (h * 64 + l mod 64)"
  using or_shift_32 [of "l mod 64" 6 h] by simp

lemma codepoint_3:
  "push_bit 12 (word_of_nat h) OR push_bit 6 (word_of_nat (m mod 64)) OR (word_of_nat (l mod 64) :: 32 word)
     = word_of_nat (h * 4096 + (m mod 64 * 64 + l mod 64))"
proof -
  have "m mod 64 < 64" and "l mod 64 < 64" by simp_all
  then have "m mod 64 * 64 + l mod 64 < 2 ^ 12" by simp
  then show ?thesis
    unfolding codepoint_2 using or_shift_32 [of "m mod 64 * 64 + l mod 64" 12 h] by simp
qed

lemma codepoint_4:
  "push_bit 18 (word_of_nat h) OR push_bit 12 (word_of_nat (k mod 64)) OR push_bit 6 (word_of_nat (m mod 64))
     OR (word_of_nat (l mod 64) :: 32 word)
   = word_of_nat (h * 262144 + (k mod 64 * 4096 + (m mod 64 * 64 + l mod 64)))"
proof -
  have "k mod 64 < 64" and "m mod 64 < 64" and "l mod 64 < 64" by simp_all
  then have "k mod 64 * 4096 + (m mod 64 * 64 + l mod 64) < 2 ^ 18" by simp
  then show ?thesis
    unfolding codepoint_3 using or_shift_32 [of "k mod 64 * 4096 + (m mod 64 * 64 + l mod 64)" 18 h] by simp
qed

text \<open>The decoder over numbers.\<close>

definition decode_num :: "bytes \<Rightarrow> (nat \<times> nat) option" where
  "decode_num s =
     (let b = (\<lambda>i. of_char (s ! i) :: nat); l = length s;
          cont = (\<lambda>i. b i div 64 = 2);
          pick = (\<lambda>k n ok. if ok then Some (k, n) else None)
      in if l = 0 then None
         else if b 0 < 128 then Some (1, b 0)
         else if b 0 div 32 = 6 then
           (if l \<ge> 2 \<and> cont 1 then (let n = b 0 mod 32 * 64 + b 1 mod 64 in pick 2 n (n \<ge> 0x80)) else None)
         else if b 0 div 16 = 14 then
           (if l \<ge> 3 \<and> cont 1 \<and> cont 2 then
              (let n = b 0 mod 16 * 4096 + (b 1 mod 64 * 64 + b 2 mod 64)
               in pick 3 n (n \<ge> 0x800 \<and> (n < 0xD800 \<or> n \<ge> 0xE000)))
            else None)
         else if b 0 div 8 = 30 then
           (if l \<ge> 4 \<and> cont 1 \<and> cont 2 \<and> cont 3 then
              (let n = b 0 mod 8 * 262144 + (b 1 mod 64 * 4096 + (b 2 mod 64 * 64 + b 3 mod 64))
               in pick 4 n (n \<ge> 0x10000 \<and> n < 0x110000))
            else None)
         else None)"

lemma unat_word32: "n < 2 ^ 32 \<Longrightarrow> unat (word_of_nat n :: 32 word) = n"
  by (simp add: unat_of_nat take_bit_nat_eq_self)

lemma word32_le: "n < 2 ^ 32 \<Longrightarrow> (w :: 32 word) \<le> word_of_nat n \<longleftrightarrow> unat w \<le> n"
  and word32_less: "n < 2 ^ 32 \<Longrightarrow> word_of_nat n < (w :: 32 word) \<longleftrightarrow> n < unat w"
  by (simp_all add: word_le_nat_alt word_less_nat_alt unat_word32)

lemma decode_codepoint_num: "decode_codepoint s = map_option (\<lambda>(k, n). (k, word_of_nat n)) (decode_num s)"
proof (cases s)
  case Nil
  then show ?thesis by (simp add: decode_codepoint_def decode_num_def)
next
  case (Cons c r)
  define b where "b i = (of_char (s ! i) :: nat)" for i
  define n2 where "n2 = b 0 mod 32 * 64 + b 1 mod 64"
  define n3 where "n3 = b 0 mod 16 * 4096 + (b 1 mod 64 * 64 + b 2 mod 64)"
  define n4 where "n4 = b 0 mod 8 * 262144 + (b 1 mod 64 * 4096 + (b 2 mod 64 * 64 + b 3 mod 64))"
  have "n2 < 2 ^ 32" "n3 < 2 ^ 32" "n4 < 2 ^ 32"
    using mod_less_divisor [of 32 "b 0"] mod_less_divisor [of 16 "b 0"] mod_less_divisor [of 8 "b 0"]
      mod_less_divisor [of 64 "b 1"] mod_less_divisor [of 64 "b 2"] mod_less_divisor [of 64 "b 3"]
    by (simp_all add: n2_def n3_def n4_def)
  then have cmp: "(0x80 :: 32 word) \<le> word_of_nat n2 \<longleftrightarrow> 0x80 \<le> n2"
    "(0x800 :: 32 word) \<le> word_of_nat n3 \<longleftrightarrow> 0x800 \<le> n3"
    "word_of_nat n3 < (0xD800 :: 32 word) \<longleftrightarrow> n3 < 0xD800"
    "(0xE000 :: 32 word) \<le> word_of_nat n3 \<longleftrightarrow> 0xE000 \<le> n3"
    "(0x10000 :: 32 word) \<le> word_of_nat n4 \<longleftrightarrow> 0x10000 \<le> n4"
    "word_of_nat n4 < (0x110000 :: 32 word) \<longleftrightarrow> n4 < 0x110000"
    by (simp_all add: word32_le word32_less)
  have ascii: "(ucast (u8 (s ! 0)) :: 32 word) = word_of_nat (b 0)"
    unfolding b_def unat_u8 [symmetric] by simp
  have ne: "s \<noteq> []" "length s \<noteq> 0" using Cons by auto
  show ?thesis
    unfolding decode_codepoint_def decode_num_def Let_def is_cont_def high_bit_clear u8_high unat_u8 bits_of_low
    unfolding codepoint_4
    unfolding codepoint_3
    unfolding codepoint_2 b_def [symmetric] ascii n2_def [symmetric] n3_def [symmetric]
      n4_def [symmetric] cmp if_not_P [OF ne(1)] if_not_P [OF ne(2)] if_distrib [of "map_option _"]
      option.map prod.case
    by (rule refl)
qed

lemma lead_byte:
  "(of_char c :: nat) div 32 = 6 \<Longrightarrow> c = char_of (0xC0 + (of_char c :: nat) mod 32)"
  "(of_char c :: nat) div 16 = 14 \<Longrightarrow> c = char_of (0xE0 + (of_char c :: nat) mod 16)"
  "(of_char c :: nat) div 8 = 30 \<Longrightarrow> c = char_of (0xF0 + (of_char c :: nat) mod 8)"
  "(of_char c :: nat) div 64 = 2 \<Longrightarrow> c = char_of (0x80 + (of_char c :: nat) mod 64)"
proof -
  have split: "char_of (d * q + (of_char c :: nat) mod d) = c" if "(of_char c :: nat) div d = q" for d q
  proof -
    have "d * q + of_char c mod d = (of_char c :: nat)" using that mult_div_mod_eq [of d "of_char c :: nat"] by simp
    then show ?thesis by simp
  qed
  show "(of_char c :: nat) div 32 = 6 \<Longrightarrow> c = char_of (0xC0 + (of_char c :: nat) mod 32)"
    using split [of 32 6] by simp
  show "(of_char c :: nat) div 16 = 14 \<Longrightarrow> c = char_of (0xE0 + (of_char c :: nat) mod 16)"
    using split [of 16 14] by simp
  show "(of_char c :: nat) div 8 = 30 \<Longrightarrow> c = char_of (0xF0 + (of_char c :: nat) mod 8)"
    using split [of 8 30] by simp
  show "(of_char c :: nat) div 64 = 2 \<Longrightarrow> c = char_of (0x80 + (of_char c :: nat) mod 64)"
    using split [of 64 2] by simp
qed

text \<open>The digits of a number in base 64, with a leading digit of any size.\<close>

lemma base64_digits:
  assumes "l < 64" and "m < 64" and "k < (64 :: nat)"
  shows "(h * 64 + l) div 64 = h" "(h * 64 + l) mod 64 = l"
    "(h * 4096 + (m * 64 + l)) div 4096 = h" "(h * 4096 + (m * 64 + l)) div 64 mod 64 = m"
    "(h * 4096 + (m * 64 + l)) mod 64 = l"
    "(h * 262144 + (k * 4096 + (m * 64 + l))) div 262144 = h"
    "(h * 262144 + (k * 4096 + (m * 64 + l))) div 4096 mod 64 = k"
    "(h * 262144 + (k * 4096 + (m * 64 + l))) div 64 mod 64 = m"
    "(h * 262144 + (k * 4096 + (m * 64 + l))) mod 64 = l"
proof -
  have dm: "(x * 64 + y) div 64 = x" "(x * 64 + y) mod 64 = y" if "y < 64" for x y :: nat
    using that by simp_all
  show "(h * 64 + l) div 64 = h" "(h * 64 + l) mod 64 = l" by (rule dm [OF assms(1)])+
  have f3: "h * 4096 + (m * 64 + l) = (h * 64 + m) * 64 + l" by simp
  have d4096: "n div 4096 = n div 64 div 64" for n :: nat by (simp add: div_mult2_eq [symmetric])
  show "(h * 4096 + (m * 64 + l)) div 4096 = h" "(h * 4096 + (m * 64 + l)) div 64 mod 64 = m"
    "(h * 4096 + (m * 64 + l)) mod 64 = l"
    unfolding f3 d4096 by (simp_all only: dm [OF assms(1)] dm [OF assms(2)])
  have f4: "h * 262144 + (k * 4096 + (m * 64 + l)) = ((h * 64 + k) * 64 + m) * 64 + l" by simp
  have d262144: "n div 262144 = n div 64 div 64 div 64" for n :: nat by (simp add: div_mult2_eq [symmetric])
  show "(h * 262144 + (k * 4096 + (m * 64 + l))) div 262144 = h"
    "(h * 262144 + (k * 4096 + (m * 64 + l))) div 4096 mod 64 = k"
    "(h * 262144 + (k * 4096 + (m * 64 + l))) div 64 mod 64 = m"
    "(h * 262144 + (k * 4096 + (m * 64 + l))) mod 64 = l"
    unfolding f4 d4096 d262144 by (simp_all only: dm [OF assms(1)] dm [OF assms(2)] dm [OF assms(3)])
qed

lemma take_bytes: "1 < length s \<Longrightarrow> take 2 s = [s ! 0, s ! 1]"
  "2 < length s \<Longrightarrow> take 3 s = [s ! 0, s ! 1, s ! 2]"
  "3 < length s \<Longrightarrow> take 4 s = [s ! 0, s ! 1, s ! 2, s ! 3]"
  by (auto simp: numeral_eq_Suc less_eq_Suc_le Suc_le_length_iff)

lemma decode_num_sound:
  assumes "decode_num s = Some (k, n)"
  shows "is_scalar n \<and> take k s = utf8_of n"
proof -
  define b where "b i = (of_char (s ! i) :: nat)" for i
  define lo where "lo i = b i mod 64" for i
  define cont where "cont i \<longleftrightarrow> b i div 64 = 2" for i
  define h2 where "h2 = b 0 mod 32"
  define h3 where "h3 = b 0 mod 16"
  define h4 where "h4 = b 0 mod 8"
  define lead2 where "lead2 \<longleftrightarrow> b 0 div 32 = 6"
  define lead3 where "lead3 \<longleftrightarrow> b 0 div 16 = 14"
  define lead4 where "lead4 \<longleftrightarrow> b 0 div 8 = 30"
  have c64: "lo i < 64" for i by (simp add: lo_def)
  note parts = lo_def cont_def h2_def h3_def h4_def lead2_def lead3_def lead4_def
  note dec = assms [unfolded decode_num_def Let_def b_def [symmetric], folded parts]
  consider (one) "k = 1" "n = b 0" "b 0 < 128" "0 < length s"
    | (two) "k = 2" "n = h2 * 64 + lo 1" lead2 "cont 1" "1 < length s" "0x80 \<le> n"
    | (three) "k = 3" "n = h3 * 4096 + (lo 1 * 64 + lo 2)" lead3 "cont 1" "cont 2" "2 < length s"
        "0x800 \<le> n" "n < 0xD800 \<or> 0xE000 \<le> n"
    | (four) "k = 4" "n = h4 * 262144 + (lo 1 * 4096 + (lo 2 * 64 + lo 3))" lead4 "cont 1" "cont 2" "cont 3"
        "3 < length s" "0x10000 \<le> n" "n < 0x110000"
    using dec by (auto split: if_split_asm)
  then show ?thesis
  proof cases
    case one
    then show ?thesis by (simp add: is_scalar_def utf8_of_def b_def take_Suc_conv_app_nth)
  next
    case two
    have "n < 0x800" using two(2) c64 [of 1] mod_less_divisor [of 32 "b 0", folded h2_def] by simp
    moreover have "n div 64 = h2" "n mod 64 = lo 1"
      using base64_digits(1,2) [OF c64 c64 c64, of h2 1] by (simp_all only: two(2))
    ultimately have "utf8_of n = [char_of (0xC0 + h2), char_of (0x80 + lo 1)]"
      using two(6) by (simp add: utf8_of_def)
    moreover have "is_scalar n" using \<open>n < 0x800\<close> by (simp add: is_scalar_def)
    ultimately show ?thesis
      using two(1,3,4,5) lead_byte(1) [of "s ! 0"] lead_byte(4) [of "s ! 1"]
      by (simp add: take_bytes parts b_def)
  next
    case three
    have "n < 0x10000" using three(2) c64 [of 1] c64 [of 2] mod_less_divisor [of 16 "b 0", folded h3_def] by simp
    moreover have "n div 4096 = h3" "n div 64 mod 64 = lo 1" "n mod 64 = lo 2"
      using base64_digits(3-5) [OF c64 c64 c64, of h3 1 2] by (simp_all only: three(2))
    ultimately have "utf8_of n = [char_of (0xE0 + h3), char_of (0x80 + lo 1), char_of (0x80 + lo 2)]"
      using three(7) by (simp add: utf8_of_def)
    moreover have "is_scalar n" using three(8) \<open>n < 0x10000\<close> by (auto simp: is_scalar_def)
    ultimately show ?thesis
      using three(1,3-6) lead_byte(2) [of "s ! 0"] lead_byte(4) [of "s ! 1"] lead_byte(4) [of "s ! 2"]
      by (simp add: take_bytes parts b_def)
  next
    case four
    have "n div 262144 = h4" "n div 4096 mod 64 = lo 1" "n div 64 mod 64 = lo 2" "n mod 64 = lo 3"
      using base64_digits(6-9) [OF c64 c64 c64, of h4 1 2 3] by (simp_all only: four(2))
    then have "utf8_of n = [char_of (0xF0 + h4), char_of (0x80 + lo 1), char_of (0x80 + lo 2), char_of (0x80 + lo 3)]"
      using four(8) by (simp add: utf8_of_def)
    moreover have "is_scalar n" using four(8,9) by (simp add: is_scalar_def)
    ultimately show ?thesis
      using four(1,3-7) lead_byte(3) [of "s ! 0"] lead_byte(4) [of "s ! 1"] lead_byte(4) [of "s ! 2"]
        lead_byte(4) [of "s ! 3"]
      by (simp add: take_bytes parts b_def)
  qed
qed

lemma base64_join:
  "n div 64 * 64 + n mod 64 = (n :: nat)"
  "n div 4096 * 4096 + (n div 64 mod 64 * 64 + n mod 64) = (n :: nat)"
  "n div 262144 * 262144 + (n div 4096 mod 64 * 4096 + (n div 64 mod 64 * 64 + n mod 64)) = (n :: nat)"
proof -
  have d: "n div 64 div 64 = n div 4096" "n div 4096 div 64 = n div 262144"
    by (simp_all add: div_mult2_eq [symmetric])
  note e = div_mult_mod_eq [of n 64] div_mult_mod_eq [of "n div 64" 64] div_mult_mod_eq [of "n div 4096" 64]
  show "n div 64 * 64 + n mod 64 = n" by (rule e(1))
  show "n div 4096 * 4096 + (n div 64 mod 64 * 64 + n mod 64) = n" using e(1,2) d(1) by linarith
  show "n div 262144 * 262144 + (n div 4096 mod 64 * 4096 + (n div 64 mod 64 * 64 + n mod 64)) = n"
    using e d by linarith
qed

lemma lead_byte_range:
  "h < 32 \<Longrightarrow> (192 + h) div 32 = 6 \<and> (192 + h) mod 32 = (h :: nat)"
  "h < 16 \<Longrightarrow> (224 + h) div 32 = 7 \<and> (224 + h) div 16 = 14 \<and> (224 + h) mod 16 = (h :: nat)"
  "h < 8 \<Longrightarrow> (240 + h) div 32 = 7 \<and> (240 + h) div 16 = 15 \<and> (240 + h) div 8 = 30 \<and> (240 + h) mod 8 = (h :: nat)"
  "h < 64 \<Longrightarrow> (128 + h) div 64 = 2 \<and> (128 + h) mod 64 = (h :: nat)"
proof -
  have dm: "x < d \<Longrightarrow> (q * d + x) div d = q \<and> (q * d + x) mod d = x" for x d q :: nat by simp
  show "h < 32 \<Longrightarrow> (192 + h) div 32 = 6 \<and> (192 + h) mod 32 = h"
    using dm [of h 32 6] by simp
  show "h < 16 \<Longrightarrow> (224 + h) div 32 = 7 \<and> (224 + h) div 16 = 14 \<and> (224 + h) mod 16 = h"
    using dm [of h 32 7] dm [of h 16 14] by simp
  show "h < 8 \<Longrightarrow> (240 + h) div 32 = 7 \<and> (240 + h) div 16 = 15 \<and> (240 + h) div 8 = 30 \<and> (240 + h) mod 8 = h"
    using dm [of "16 + h" 32 7] dm [of h 16 15] dm [of h 8 30] by simp
  show "h < 64 \<Longrightarrow> (128 + h) div 64 = 2 \<and> (128 + h) mod 64 = h"
    using dm [of h 64 2] by simp
qed

lemma decode_num_complete:
  assumes "is_scalar n"
  shows "decode_num (utf8_of n @ rest) = Some (length (utf8_of n), n)"
proof -
  have n: "n < 0x110000" using assms by (auto simp: is_scalar_def)
  define l where "l = n mod 64"
  define m where "m = n div 64 mod 64"
  define k where "k = n div 4096 mod 64"
  have c: "l < 64" "m < 64" "k < 64" by (simp_all add: l_def m_def k_def)
  note cont = lead_byte_range(4) [OF c(1)] lead_byte_range(4) [OF c(2)] lead_byte_range(4) [OF c(3)]
  note join = base64_join [of n, folded l_def m_def k_def]
  consider (one) "n < 0x80" | (two) "0x80 \<le> n" "n < 0x800" | (three) "0x800 \<le> n" "n < 0x10000"
    | (four) "0x10000 \<le> n" by linarith
  then show ?thesis
  proof cases
    case one
    then show ?thesis by (simp add: utf8_of_def decode_num_def Let_def)
  next
    case two
    define h where "h = n div 64"
    have "h < 32" using two(2) by (simp add: h_def less_mult_imp_div_less)
    moreover have "utf8_of n = [char_of (192 + h), char_of (128 + l)]"
      using two by (simp add: utf8_of_def h_def l_def)
    ultimately show ?thesis
      using two cont lead_byte_range(1) [of h] c join(1) [folded h_def]
      by (simp add: decode_num_def Let_def)
  next
    case three
    define h where "h = n div 4096"
    have "h < 16" using three(2) by (simp add: h_def less_mult_imp_div_less)
    moreover have "utf8_of n = [char_of (224 + h), char_of (128 + m), char_of (128 + l)]"
      using three by (simp add: utf8_of_def h_def l_def m_def)
    ultimately show ?thesis
      using three assms cont lead_byte_range(2) [of h] c join(2) [folded h_def]
      by (simp add: decode_num_def Let_def is_scalar_def)
  next
    case four
    define h where "h = n div 262144"
    have "n < 5 * 262144" using n by simp
    then have "h < 5" unfolding h_def by (rule less_mult_imp_div_less)
    moreover have "utf8_of n = [char_of (240 + h), char_of (128 + k), char_of (128 + m), char_of (128 + l)]"
      using four by (simp add: utf8_of_def h_def l_def m_def k_def)
    ultimately show ?thesis
      using four n cont lead_byte_range(3) [of h] c join(3) [folded h_def]
      by (simp add: decode_num_def Let_def)
  qed
qed

text \<open>The code points a hotword file may hold.\<close>

definition allowed_codepoint :: "nat \<Rightarrow> bool" where
  "allowed_codepoint n \<longleftrightarrow>
     is_scalar n \<and> (n = 9 \<or> n = 10 \<or> n = 13 \<or> (0x20 \<le> n \<and> \<not> (0x7F \<le> n \<and> n \<le> 0x9F)))"

lemma codepoint_checks:
  assumes "is_scalar n"
  shows "\<not> ((word_of_nat n :: 32 word) = 0)
      \<and> \<not> (\<not> ((word_of_nat n :: 32 word) = 9 \<or> (word_of_nat n :: 32 word) = 10 \<or> (word_of_nat n :: 32 word) = 13)
           \<and> (is_Cc (word_of_nat n) \<or> (word_of_nat n :: 32 word) < 0x20))
    \<longleftrightarrow> allowed_codepoint n"
proof -
  have n: "n < 2 ^ 32" using assms by (auto simp: is_scalar_def)
  note u = unat_word32 [OF n]
  have eq: "(word_of_nat n :: 32 word) = w \<longleftrightarrow> n = unat w" for w using u by (metis word_unat_eq_iff)
  show ?thesis
    using assms
    by (auto simp: allowed_codepoint_def is_Cc_def eq word_less_nat_alt word_le_nat_alt u)
qed

lemma utf8_of_ne: "utf8_of n \<noteq> []"
  by (simp add: utf8_of_def)

lemma ValidateHotwordText_loop_iff:
  "uv_valid (ValidateHotwordText_loop t offset) \<longleftrightarrow>
     (\<exists>cps. list_all allowed_codepoint cps \<and> drop offset t = concat (map utf8_of cps))"
proof (induction t offset rule: ValidateHotwordText_loop.induct)
  case (1 t offset)
  show ?case
  proof (cases "offset < length t")
    case False
    then have "uv_valid (ValidateHotwordText_loop t offset)" by (simp add: ValidateHotwordText_loop.simps)
    moreover have "drop offset t = concat (map utf8_of [])" using False by simp
    moreover have "list_all allowed_codepoint []" by simp
    ultimately show ?thesis by blast
  next
    case True
    have split: "\<exists>n ns. cps = n # ns" if "drop offset t = concat (map utf8_of cps)" for cps
      using that True by (cases cps) auto
    show ?thesis
    proof (cases "decode_num (drop offset t)")
      case None
      then have "\<not> uv_valid (ValidateHotwordText_loop t offset)"
        using True by (simp add: ValidateHotwordText_loop.simps decode_codepoint_num invalid_at_def)
      moreover have False
        if all: "list_all allowed_codepoint cps" and enc: "drop offset t = concat (map utf8_of cps)" for cps
      proof -
        obtain n ns where cps: "cps = n # ns" using split [OF enc] by blast
        then have "is_scalar n" using all by (simp add: allowed_codepoint_def)
        then show False using decode_num_complete [of n "concat (map utf8_of ns)"] None enc cps by simp
      qed
      ultimately show ?thesis by blast
    next
      case (Some p)
      obtain k n where p: "p = (k, n)" by (rule prod.exhaust)
      have sound: "is_scalar n" "take k (drop offset t) = utf8_of n"
        using decode_num_sound [of "drop offset t" k n] Some p by auto
      have dec: "decode_codepoint (drop offset t) = Some (k, word_of_nat n)"
        using Some p by (simp add: decode_codepoint_num)
      have rest: "drop offset t = utf8_of n @ drop (offset + k) t"
        using append_take_drop_id [of k "drop offset t"] sound(2) by (simp add: add.commute)
      have step: "uv_valid (ValidateHotwordText_loop t offset) \<longleftrightarrow>
          allowed_codepoint n \<and> uv_valid (ValidateHotwordText_loop t (offset + k))"
        unfolding ValidateHotwordText_loop.simps [of t offset] codepoint_checks [OF sound(1), symmetric]
        using True dec by (auto simp: invalid_at_def)
      have tail: "uv_valid (ValidateHotwordText_loop t (offset + k)) \<longleftrightarrow>
          (\<exists>cps. list_all allowed_codepoint cps \<and> drop (offset + k) t = concat (map utf8_of cps))"
        if "allowed_codepoint n"
        using 1 [OF True dec refl] codepoint_checks [OF sound(1)] that by blast
      show ?thesis
      proof
        assume "uv_valid (ValidateHotwordText_loop t offset)"
        then obtain cps where "allowed_codepoint n" "list_all allowed_codepoint cps"
          "drop (offset + k) t = concat (map utf8_of cps)" using step tail by blast
        then have "list_all allowed_codepoint (n # cps)" "drop offset t = concat (map utf8_of (n # cps))"
          using rest by simp_all
        then show "\<exists>cps. list_all allowed_codepoint cps \<and> drop offset t = concat (map utf8_of cps)" by blast
      next
        assume "\<exists>cps. list_all allowed_codepoint cps \<and> drop offset t = concat (map utf8_of cps)"
        then obtain m ns where cps: "list_all allowed_codepoint (m # ns)" "drop offset t = concat (map utf8_of (m # ns))"
          using split by blast
        then have "decode_num (drop offset t) = Some (length (utf8_of m), m)"
          using decode_num_complete [of m "concat (map utf8_of ns)"] by (simp add: allowed_codepoint_def)
        then have same: "m = n" using Some p by simp
        then have "drop (offset + k) t = concat (map utf8_of ns)" using rest cps(2) by simp
        then show "uv_valid (ValidateHotwordText_loop t offset)" using step tail cps(1) same by auto
      qed
    qed
  qed
qed

text \<open>No allowed text has a vertical tab or a form feed.\<close>

lemma utf8_of_bytes: "c \<in> set (utf8_of n) \<Longrightarrow> is_scalar n \<Longrightarrow> of_char c = n \<or> 128 \<le> (of_char c :: nat)"
proof -
  assume c: "c \<in> set (utf8_of n)" and n: "is_scalar n"
  have "n < 5 * 262144" using n by (auto simp: is_scalar_def)
  then have "n div 262144 < 5" by (rule less_mult_imp_div_less)
  moreover have "n < 0x10000 \<Longrightarrow> n div 4096 < 16" "n < 0x800 \<Longrightarrow> n div 64 < 32"
    by (simp_all add: less_mult_imp_div_less)
  moreover have "n mod 64 < 64" "n div 64 mod 64 < 64" "n div 4096 mod 64 < 64" by simp_all
  ultimately show "of_char c = n \<or> 128 \<le> (of_char c :: nat)"
    using c by (auto simp: utf8_of_def split: if_splits)
qed

lemma valid_text_plain:
  assumes "uv_valid (ValidateHotwordText t)"
  shows "CHR 0x0B \<notin> set t" "CHR 0x0C \<notin> set t"
proof -
  obtain cps where cps: "list_all allowed_codepoint cps" "t = concat (map utf8_of cps)"
    using assms ValidateHotwordText_loop_iff [of t 0] by (auto simp: ValidateHotwordText_def)
  have codes: "(of_char c :: nat) \<noteq> 11 \<and> (of_char c :: nat) \<noteq> 12" if c: "c \<in> set t" for c
  proof -
    obtain n where n: "n \<in> set cps" "c \<in> set (utf8_of n)" using c cps(2) by auto
    then have "allowed_codepoint n" using cps(1) by (simp add: list_all_iff)
    then show ?thesis using utf8_of_bytes [OF n(2)] by (auto simp: allowed_codepoint_def)
  qed
  have "(of_char CHR 0x0B :: nat) = 11" "(of_char CHR 0x0C :: nat) = 12" by (simp_all add: of_char_def)
  then show "CHR 0x0B \<notin> set t" "CHR 0x0C \<notin> set t" using codes by metis+
qed

section \<open>What is loaded\<close>

definition entry_ok :: "float_env \<Rightarrow> HotwordEntry \<Rightarrow> bool" where
  "entry_ok fe e \<longleftrightarrow> he_text e \<noteq> [] \<and> (he_score e = [] \<or> IsValidScore fe (he_score e))"

lemma parse_lines_sources:
  assumes "parse_lines fe ls acc = Inr es" and "\<forall>l\<in>set ls. CHR 0x0B \<notin> set l \<and> CHR 0x0C \<notin> set l"
  shows "\<exists>es'. es = acc @ es' \<and> map entry_source es' = filter (\<lambda>l. l \<noteq> []) (map Trim ls)
    \<and> list_all (entry_ok fe) es'"
  using assms
proof (induction ls arbitrary: acc)
  case (Cons l ls)
  obtain e where e: "ParseHotwordEntry fe l = Inr e"
    and go: "parse_lines fe ls (if he_text e \<noteq> [] then acc @ [e] else acc) = Inr es"
    using Cons.prems(1) by (auto split: sum.splits)
  note facts = ParseHotwordEntry_cases [OF e]
  have src: "Trim l = entry_source e" and ok: "he_text e \<noteq> [] \<Longrightarrow> entry_ok fe e"
    and nil: "he_text e = [] \<Longrightarrow> he_score e = []"
    using facts Cons.prems(2) by (auto simp: entry_ok_def)
  obtain es' where es': "es = (if he_text e \<noteq> [] then acc @ [e] else acc) @ es'"
    "map entry_source es' = filter (\<lambda>l. l \<noteq> []) (map Trim ls)" "list_all (entry_ok fe) es'"
    using Cons.IH [OF go] Cons.prems(2) by auto
  show ?case
  proof (cases "he_text e = []")
    case True
    then have "Trim l = []" using src nil by (simp add: entry_source_def)
    then show ?thesis using es' True by (intro exI [of _ es']) simp
  next
    case False
    then have "Trim l \<noteq> []" using src by (simp add: entry_source_def)
    then show ?thesis using es' src ok False by (intro exI [of _ "e # es'"]) simp
  qed
qed simp

lemma foldl_append_hotword:
  "foldl append_hotword acc es = acc @ concat (map (\<lambda>e. hotword_line e @ [CHR 0x0A]) es)"
  by (induction es arbitrary: acc) (simp_all add: append_hotword_def hotword_line_def)

text \<open>The size reserved beforehand is exact.\<close>

lemma hotwords_size_exact: "hotwords_size es = length (foldl append_hotword [] es)"
proof -
  have "foldl (\<lambda>n e. n + (length (he_text e) + 1) + (if he_score e \<noteq> [] then 2 + length (he_score e) else 0)) (length acc) es
      = length (foldl append_hotword acc es)" for acc
    by (induction es rule: rev_induct) (auto simp: append_hotword_def)
  from this [of "[]"] show ?thesis by (simp add: hotwords_size_def)
qed

lemma split_spec_subset: "p \<in> set (split_spec d s) \<Longrightarrow> set p \<subseteq> set s"
proof (induction s arbitrary: p)
  case (Cons c s)
  obtain q qs where q: "split_spec d s = q # qs" using split_spec_ne [of d s] by (cases "split_spec d s") auto
  show ?case
  proof (cases "c = d")
    case True
    then have "p = [] \<or> p \<in> set (split_spec d s)" using Cons.prems split_spec_append [of d "[]" s] by simp
    then show ?thesis using Cons.IH by auto
  next
    case False
    then have "p = c # q \<or> p \<in> set qs" using Cons.prems q by simp
    then show ?thesis using Cons.IH q by fastforce
  qed
qed simp

lemma SplitLines_chars: "l \<in> set (SplitLines s) \<Longrightarrow> set l \<subseteq> set s \<and> CHR 0x0A \<notin> set l"
proof -
  assume l: "l \<in> set (SplitLines s)"
  have pieces: "p \<in> set (split_spec CHR 0x0A s) \<Longrightarrow> set p \<subseteq> set s \<and> CHR 0x0A \<notin> set p" for p
    using Split_no_delim [unfolded Split_spec] by (metis split_spec_subset)
  have strip: "set (strip_cr p) \<subseteq> set p" for p by (auto simp: strip_cr_def dest: in_set_butlastD)
  have "l \<in> set (map strip_cr (butlast (split_spec CHR 0x0A s))) \<or> l = last (split_spec CHR 0x0A s)"
    using l SplitLines_loop_spec [of 0 s] by (auto simp: SplitLines_def lines_spec_def split: if_splits)
  moreover have "last (split_spec CHR 0x0A s) \<in> set (split_spec CHR 0x0A s)" by simp
  ultimately have "\<exists>p\<in>set (split_spec CHR 0x0A s). set l \<subseteq> set p"
    using strip by (auto dest: in_set_butlastD)
  then show ?thesis using pieces by blast
qed

lemma LoadHotwordEntries_sources:
  assumes "LoadHotwordEntries fe io path = Inr es"
  shows "\<exists>content. ReadHotwordFile io path = Inr content
    \<and> map entry_source es = filter (\<lambda>l. l \<noteq> []) (map Trim (SplitLines content)) \<and> list_all (entry_ok fe) es"
proof -
  obtain content where c: "ReadHotwordFile io path = Inr content" "parse_lines fe (SplitLines content) [] = Inr es"
    using assms by (auto simp: LoadHotwordEntries_def split: sum.splits)
  have "content = [] \<or> uv_valid (ValidateHotwordText content)"
    using c(1) by (auto simp: ReadHotwordFile_def Let_def split: if_splits sum.splits)
  then have "CHR 0x0B \<notin> set content" "CHR 0x0C \<notin> set content"
    using valid_text_plain [of content] by auto
  then have "\<forall>l\<in>set (SplitLines content). CHR 0x0B \<notin> set l \<and> CHR 0x0C \<notin> set l"
    using SplitLines_chars by blast
  from parse_lines_sources [OF c(2) this] c(1) show ?thesis by auto
qed

text \<open>A line of the file, as an entry, has neither line feed nor white space at its ends.\<close>

lemma hotword_line_plain:
  assumes "entry_ok fe e" and "entry_source e = Trim l" and "CHR 0x0A \<notin> set l"
  shows "CHR 0x0A \<notin> set (hotword_line e)" and "strip_cr (hotword_line e) = hotword_line e"
proof -
  have sub: "set (hotword_line e) \<subseteq> insert CHR '' '' (set (entry_source e))"
    by (auto simp: hotword_line_def entry_source_def)
  moreover have "CHR 0x0A \<notin> set (entry_source e)" using assms(2,3) Trim_subset [of l] by auto
  ultimately show "CHR 0x0A \<notin> set (hotword_line e)" by auto
  have ne: "entry_source e \<noteq> []" using assms(1) by (simp add: entry_ok_def entry_source_def)
  have "last (hotword_line e) = last (entry_source e)" by (simp add: hotword_line_def entry_source_def)
  moreover have "\<not> is_space (last (entry_source e))" using Trim_edges [of l] assms(2) ne by simp
  ultimately have "last (hotword_line e) \<noteq> CHR 0x0D" by (auto simp: is_space_def)
  then show "strip_cr (hotword_line e) = hotword_line e" by (simp add: strip_cr_def)
qed

lemma lines_of_concat:
  assumes "list_all (\<lambda>l. CHR 0x0A \<notin> set l \<and> strip_cr l = l) ls"
  shows "whole_lines (concat (map (\<lambda>l. l @ [CHR 0x0A]) ls)) = ls
    \<and> tail_piece (concat (map (\<lambda>l. l @ [CHR 0x0A]) ls)) = []"
  using assms by (induction ls) (simp_all add: whole_lines_step tail_piece_step whole_lines_none)

section \<open>The properties of hotword files\<close>

text \<open>
  C30: The text check accepts exactly the well-formed UTF-8 encodings of sequences of code points
  without NUL and without control characters other than tab, line feed and carriage return.
\<close>

theorem hotword_text_check:
  "uv_valid (ValidateHotwordText t) \<longleftrightarrow>
     (\<exists>cps. list_all allowed_codepoint cps \<and> t = concat (map utf8_of cps))"
  using ValidateHotwordText_loop_iff [of t 0] by (simp add: ValidateHotwordText_def)

text \<open>
  A transducer gets one line per non-blank line of the hotword file, in the order of the file:
  the word, and after a space and a colon its score. Put back together without that space, the entries
  are exactly the trimmed lines of the file: loading loses nothing and invents nothing, and every
  score is a valid number.
\<close>

theorem transducer_hotwords_lossless:
  assumes "LoadTransducerHotwords fe io path = Inr hotwords"
  shows "\<exists>content es. ReadHotwordFile io path = Inr content
    \<and> map entry_source es = filter (\<lambda>l. l \<noteq> []) (map Trim (SplitLines content))
    \<and> list_all (entry_ok fe) es
    \<and> whole_lines hotwords = map hotword_line es \<and> tail_piece hotwords = []"
proof -
  obtain es where es: "LoadHotwordEntries fe io path = Inr es" "hotwords = foldl append_hotword [] es"
    using assms by (auto simp: LoadTransducerHotwords_def split: sum.splits)
  obtain content where c: "ReadHotwordFile io path = Inr content"
    and src: "map entry_source es = filter (\<lambda>l. l \<noteq> []) (map Trim (SplitLines content))"
    and ok: "list_all (entry_ok fe) es"
    using LoadHotwordEntries_sources [OF es(1)] by blast
  have "CHR 0x0A \<notin> set (hotword_line e) \<and> strip_cr (hotword_line e) = hotword_line e" if e: "e \<in> set es" for e
  proof -
    have "entry_source e \<in> set (map entry_source es)" using e by simp
    then obtain l where "l \<in> set (SplitLines content)" "entry_source e = Trim l" unfolding src by auto
    then show ?thesis
      using hotword_line_plain [of fe e l] SplitLines_chars [of l content] ok e by (simp add: list_all_iff)
  qed
  then have "list_all (\<lambda>l. CHR 0x0A \<notin> set l \<and> strip_cr l = l) (map hotword_line es)"
    by (simp add: list_all_iff)
  then have "whole_lines hotwords = map hotword_line es \<and> tail_piece hotwords = []"
    using lines_of_concat [of "map hotword_line es"] by (simp add: es(2) foldl_append_hotword comp_def)
  then show ?thesis using c src ok by blast
qed

definition example_hotwords :: string where
  "example_hotwords = ''foo bar:2'' @ [CHR 0x0A, CHR 0x0A] @ ''http://x''"

definition example_hotword_io :: hotword_io where
  "example_hotword_io =
     \<lparr>hi_is_regular_file = (\<lambda>_. True), hi_file_size = (\<lambda>_. Inr 19),
      hi_read_text = (\<lambda>_ n. Inr (take n example_hotwords))\<rparr>"

lemma example_hotwords_valid: "uv_valid (ValidateHotwordText example_hotwords)"
proof -
  have ascii: "\<forall>c\<in>set example_hotwords. (of_char c :: nat) = 10 \<or> 32 \<le> (of_char c :: nat) \<and> (of_char c :: nat) < 127"
    by (simp add: example_hotwords_def of_char_def)
  then have "list_all allowed_codepoint (map of_char example_hotwords)"
    by (auto simp: list_all_iff allowed_codepoint_def is_scalar_def)
  moreover have "map (\<lambda>c. utf8_of (of_char c)) example_hotwords = map (\<lambda>c. [c]) example_hotwords"
    using ascii by (auto simp: utf8_of_def)
  then have "concat (map utf8_of (map of_char example_hotwords)) = concat (map (\<lambda>c. [c]) example_hotwords)"
    unfolding map_map comp_def by (rule arg_cong)
  then have "example_hotwords = concat (map utf8_of (map of_char example_hotwords))" by simp
  ultimately show ?thesis
    unfolding ValidateHotwordText_def ValidateHotwordText_loop_iff by (metis drop0)
qed

lemma example_hotwords_loaded:
  "LoadTransducerHotwords exact_env example_hotword_io ''h'' = Inr (''foo bar :2'' @ [CHR 0x0A] @ ''http://x'' @ [CHR 0x0A])"
proof -
  have "length example_hotwords = 19" by (simp add: example_hotwords_def)
  then have "ReadHotwordFile example_hotword_io ''h'' = Inr example_hotwords"
    using example_hotwords_valid by (simp add: ReadHotwordFile_def example_hotword_io_def kMaxHotwordFileBytes_def Let_def)
  moreover have "parse_lines exact_env (SplitLines example_hotwords) []
      = Inr [\<lparr>he_text = ''foo bar'', he_score = ''2''\<rparr>, \<lparr>he_text = ''http://x'', he_score = []\<rparr>]"
    by code_simp
  ultimately show ?thesis by (simp add: LoadTransducerHotwords_def LoadHotwordEntries_def append_hotword_def)
qed

theorem transducer_hotwords_lossless_witness:
  "\<exists>content es. ReadHotwordFile example_hotword_io ''h'' = Inr content
    \<and> map entry_source es = filter (\<lambda>l. l \<noteq> []) (map Trim (SplitLines content))
    \<and> list_all (entry_ok exact_env) es
    \<and> whole_lines (''foo bar :2'' @ [CHR 0x0A] @ ''http://x'' @ [CHR 0x0A]) = map hotword_line es
    \<and> tail_piece (''foo bar :2'' @ [CHR 0x0A] @ ''http://x'' @ [CHR 0x0A]) = []"
  by (rule transducer_hotwords_lossless [OF example_hotwords_loaded])

text \<open>
  Scores need not be plain decimals: a hexadecimal number is accepted too, even with a minus sign
  after its prefix.
\<close>

theorem hexadecimal_scores:
  "ParseHotwordScore exact_env ''0x1p3'' = Some (Finite 8)
   \<and> ParseHotwordScore exact_env ''0x-1'' = Some (Finite (- 1))
   \<and> ParseHotwordScore exact_env ''inf'' = None"
  by code_simp

end
