(* ===== verification/File_Utils.thy ===== *)
theory File_Utils
  imports Float_Model Version_Utils
begin

text \<open>
  \<open>src/common/utils/file_utils.cpp\<close>: reading text with a limit, following symbolic links, the
  atomic replacement of a file, temporary directories, and the digest of a file. What the operating
  system answers is an argument of each operation; the atomic write gives the sequence of its effects
  on the file system, so that every moment between two of them can be examined.
\<close>

section \<open>Paths\<close>

text \<open>
  \<open>std::filesystem::path\<close>: a root directory or none, and the file names; a trailing separator is an
  empty last name.
\<close>

record path =
  path_rooted :: bool
  path_names :: "string list"

definition empty_path :: path where
  "empty_path = \<lparr>path_rooted = False, path_names = []\<rparr>"

definition parent_path :: "path \<Rightarrow> path" where
  "parent_path p = p\<lparr>path_names := butlast (path_names p)\<rparr>"

definition filename :: "path \<Rightarrow> string" where
  "filename p = (if path_names p = [] then [] else last (path_names p))"

definition relative :: "string list \<Rightarrow> path" where
  "relative ns = \<lparr>path_rooted = False, path_names = ns\<rparr>"

text \<open>
  \<open>operator/\<close>: an absolute right operand replaces the left one, an empty one adds a separator after a
  file name.
\<close>

definition join_path :: "path \<Rightarrow> path \<Rightarrow> path" where
  "join_path p q =
     (if path_rooted q then q
      else if path_names q = [] then (if filename p = [] then p else p\<lparr>path_names := path_names p @ [[]]\<rparr>)
      else p\<lparr>path_names := (if filename p = [] then butlast (path_names p) else path_names p) @ path_names q\<rparr>)"

text \<open>
  \<open>lexically_normal\<close>: dots go away, a name followed by two dots goes away, two dots at the root go
  away, and a removed last name leaves a trailing separator.
\<close>

fun normal_names :: "bool \<Rightarrow> string list \<Rightarrow> bool \<Rightarrow> string list \<Rightarrow> string list" where
  "normal_names rooted done trail [] =
     (if done = [] then (if rooted then [] else [''.''])
      else if trail \<and> last done \<noteq> ''..'' then done @ [[]] else done)"
| "normal_names rooted done trail (n # ns) =
     (if n = [] \<or> n = ''.'' then normal_names rooted done True ns
      else if n = ''..'' then
        (if done \<noteq> [] \<and> last done \<noteq> ''..'' then normal_names rooted (butlast done) True ns
         else if done = [] \<and> rooted then normal_names rooted done True ns
         else normal_names rooted (done @ [n]) False ns)
      else normal_names rooted (done @ [n]) False ns)"

definition lexically_normal :: "path \<Rightarrow> path" where
  "lexically_normal p =
     (if p = empty_path then p
      else p\<lparr>path_names := normal_names (path_rooted p) [] False (path_names p)\<rparr>)"

section \<open>Reading text\<close>

text \<open>
  One \<open>read\<close> after the other until the limit or a read of no bytes; the second component tells
  whether the end of the stream was reached. The stream is the bytes that can be read.
\<close>

function read_chunks :: "nat \<Rightarrow> nat \<Rightarrow> string \<Rightarrow> string \<Rightarrow> string \<times> bool" where
  "read_chunks max_bytes total_read stream content =
     (if total_read < max_bytes then
        (let to_read = min 8192 (max_bytes - total_read);
             chunk = take to_read stream
         in if chunk = [] then (content, True)
            else if length chunk < to_read then
              (content @ chunk, True)
            else read_chunks max_bytes (total_read + length chunk) (drop to_read stream) (content @ chunk))
      else (content, False))"
  by pat_completeness auto
termination
  by (relation "measure (\<lambda>(m, n, s, c). m - n)") (auto simp: Let_def)

declare read_chunks.simps [simp del]

text \<open>
  The file's bytes when it can be opened, and whether they end at the end of the file rather than
  with an error.
\<close>

definition ReadTextFile :: "string \<Rightarrow> (string \<times> bool) option \<Rightarrow> nat \<Rightarrow> string + string" where
  "ReadTextFile path file max_bytes =
     (case file of
        None \<Rightarrow> Inl (''Failed to open file '' @ path)
      | Some (stream, clean) \<Rightarrow>
          (let (content, ended) =
                 (if max_bytes > 0 then read_chunks max_bytes 0 stream [] else (stream, True))
           in if ended \<and> \<not> clean then Inl (''Failed to read file '' @ path) else Inr content))"

section \<open>Symbolic links\<close>

datatype link_status = StatusNotFound | StatusError string | StatusLink | StatusOther

record link_fs =
  lf_symlink_status :: "path \<Rightarrow> link_status"
  lf_read_symlink :: "path \<Rightarrow> string + path"
  lf_canonical :: "path \<Rightarrow> path option"
  lf_text :: "path \<Rightarrow> string"

definition kMaxSymlinkDepth :: nat where "kMaxSymlinkDepth = 32"

definition ResolveRelativeSymlinkTarget :: "link_fs \<Rightarrow> path \<Rightarrow> path \<Rightarrow> path" where
  "ResolveRelativeSymlinkTarget fs symlink_path link_target =
     (if path_rooted link_target then link_target
      else
        (let parent = parent_path symlink_path in
         if parent = empty_path then lexically_normal link_target
         else case lf_canonical fs parent of
                Some canonical_parent \<Rightarrow> lexically_normal (join_path canonical_parent link_target)
              | None \<Rightarrow> lexically_normal (join_path parent link_target)))"

text \<open>A call that does not return is \<open>None\<close>.\<close>

partial_function (option) ResolveSymlinkPathImpl ::
    "link_fs \<Rightarrow> path \<Rightarrow> nat \<Rightarrow> (string + path) option" where
  "ResolveSymlinkPathImpl fs p depth =
     (if depth \<ge> kMaxSymlinkDepth
      then Some (Inl (''Too many symlink levels while resolving '' @ lf_text fs p))
      else
        (case lf_symlink_status fs p of
           StatusNotFound \<Rightarrow>
             (let parent = parent_path p in
              if parent = empty_path then Some (Inr p)
              else
                Option.bind (ResolveSymlinkPathImpl fs parent depth)
                  (\<lambda>r. Some (case r of
                         Inl e \<Rightarrow> Inl e
                       | Inr resolved_parent \<Rightarrow>
                           if filename p = [] then Inr resolved_parent
                           else Inr (lexically_normal (join_path resolved_parent (relative [filename p]))))))
         | StatusError e \<Rightarrow> Some (Inl (''Failed to inspect path '' @ lf_text fs p @ '': '' @ e))
         | StatusOther \<Rightarrow> Some (Inr p)
         | StatusLink \<Rightarrow>
             (case lf_read_symlink fs p of
                Inl e \<Rightarrow> Some (Inl (''Failed to read symlink '' @ lf_text fs p @ '': '' @ e))
              | Inr link_target \<Rightarrow>
                  ResolveSymlinkPathImpl fs (ResolveRelativeSymlinkTarget fs p link_target) (depth + 1))))"

definition ResolveSymlinkPath :: "link_fs \<Rightarrow> path \<Rightarrow> (string + path) option" where
  "ResolveSymlinkPath fs p = ResolveSymlinkPathImpl fs p 0"

definition EnsureParentDirectory ::
    "(path \<Rightarrow> bool) \<Rightarrow> (path \<Rightarrow> string option) \<Rightarrow> (path \<Rightarrow> string) \<Rightarrow> path \<Rightarrow> string + unit" where
  "EnsureParentDirectory path_exists create_directories path_text p =
     (let parent = parent_path p in
      if parent = empty_path \<or> path_exists parent then Inr ()
      else case create_directories parent of
             Some e \<Rightarrow> Inl (''Failed to create directory '' @ path_text parent @ '': '' @ e)
           | None \<Rightarrow> Inr ())"

section \<open>Atomic replacement\<close>

text \<open>The effects of the system calls that change the file system, on the contents of its files.\<close>

datatype fs_op =
    CreateOp path
  | ChmodOp path nat
  | AppendOp path string
  | SyncOp path
  | UnlinkOp path
  | RenameOp path path

type_synonym files = "path \<Rightarrow> string option"

fun apply_op :: "files \<Rightarrow> fs_op \<Rightarrow> files" where
  "apply_op m (CreateOp p) = m(p \<mapsto> [])"
| "apply_op m (ChmodOp p mode) = m"
| "apply_op m (AppendOp p b) = m(p := map_option (\<lambda>c. c @ b) (m p))"
| "apply_op m (SyncOp p) = m"
| "apply_op m (UnlinkOp p) = m(p := None)"
| "apply_op m (RenameOp p q) = (if p = q then m else m(q := m p, p := None))"

abbreviation run_ops :: "files \<Rightarrow> fs_op list \<Rightarrow> files" where
  "run_ops m ops \<equiv> foldl apply_op m ops"

datatype write_result = Wrote nat | WriteInterrupted | WriteFailed string

text \<open>
  The outcomes of the calls of \<open>write\<close>, one per call; the loop goes on as long as bytes remain, and
  a list that ends before means that it has not returned. The kernel writes at most what it is given.
\<close>

fun write_loop :: "path \<Rightarrow> write_result list \<Rightarrow> string \<Rightarrow> (string + unit) option \<times> fs_op list" where
  "write_loop tmp ws [] = (Some (Inr ()), [])"
| "write_loop tmp [] (c # cs) = (None, [])"
| "write_loop tmp (WriteInterrupted # ws) (c # cs) = write_loop tmp ws (c # cs)"
| "write_loop tmp (WriteFailed e # ws) (c # cs) =
     (Some (Inl (''write failed: '' @ e)), [UnlinkOp tmp])"
| "write_loop tmp (Wrote n # ws) (c # cs) =
     (case write_loop tmp ws (drop n (c # cs)) of
        (r, ops) \<Rightarrow> (r, AppendOp tmp (take n (c # cs)) # ops))"

text \<open>
  What the system calls answer: the resolved target, the parent directory, the six letters that
  \<open>mkstemp\<close> puts into the template, the permissions of an existing target, and the outcomes of
  \<open>write\<close>, \<open>fsync\<close> and \<open>rename\<close>.
\<close>

record write_env =
  we_resolved :: "string + path"
  we_parent :: "string + unit"
  we_mkstemp :: "string + string"
  we_permissions :: "nat option"
  we_writes :: "write_result list"
  we_fsync :: "string option"
  we_rename :: "string option"

definition temp_path :: "path \<Rightarrow> string \<Rightarrow> path" where
  "temp_path target letters =
     join_path (parent_path target) (relative [filename target @ ''.tmp.'' @ letters])"

definition AtomicWriteTextFile :: "write_env \<Rightarrow> string \<Rightarrow> (string + unit) option \<times> fs_op list" where
  "AtomicWriteTextFile env content =
     (case we_resolved env of
        Inl e \<Rightarrow> (Some (Inl e), [])
      | Inr resolved_target \<Rightarrow>
          (case we_parent env of
             Inl e \<Rightarrow> (Some (Inl e), [])
           | Inr _ \<Rightarrow>
               (case we_mkstemp env of
                  Inl e \<Rightarrow> (Some (Inl (''mkstemp failed: '' @ e)), [])
                | Inr letters \<Rightarrow>
                    (let tmp = temp_path resolved_target letters;
                         made = CreateOp tmp
                           # (case we_permissions env of None \<Rightarrow> [] | Some mode \<Rightarrow> [ChmodOp tmp mode])
                     in case write_loop tmp (we_writes env) content of
                          (None, ops) \<Rightarrow> (None, made @ ops)
                        | (Some (Inl e), ops) \<Rightarrow> (Some (Inl e), made @ ops)
                        | (Some (Inr _), ops) \<Rightarrow>
                            (case we_fsync env of
                               Some e \<Rightarrow>
                                 (Some (Inl (''fsync failed: '' @ e)), made @ ops @ [UnlinkOp tmp])
                             | None \<Rightarrow>
                                 (case we_rename env of
                                    Some e \<Rightarrow>
                                      (Some (Inl (''rename failed: '' @ e)),
                                       made @ ops @ [SyncOp tmp, UnlinkOp tmp])
                                  | None \<Rightarrow>
                                      (Some (Inr ()),
                                       made @ ops @ [SyncOp tmp, RenameOp tmp resolved_target])))))))"

section \<open>Temporary directories\<close>

text \<open>The operations give the directory that they remove, if any.\<close>

record ScopedTempDir =
  std_path :: path
  std_active :: bool

definition new_ScopedTempDir :: "path \<Rightarrow> ScopedTempDir" where
  "new_ScopedTempDir p = \<lparr>std_path = p, std_active = (p \<noteq> empty_path)\<rparr>"

definition std_Remove :: "ScopedTempDir \<Rightarrow> path option \<times> ScopedTempDir" where
  "std_Remove d =
     (if std_active d \<and> std_path d \<noteq> empty_path
      then (Some (std_path d), d\<lparr>std_active := False\<rparr>) else (None, d))"

definition std_Dismiss :: "ScopedTempDir \<Rightarrow> ScopedTempDir" where
  "std_Dismiss d = d\<lparr>std_active := False\<rparr>"

definition std_IsValid :: "ScopedTempDir \<Rightarrow> bool" where
  "std_IsValid d \<longleftrightarrow> std_active d \<and> std_path d \<noteq> empty_path"

text \<open>The moved-to and the moved-from object.\<close>

definition std_move :: "ScopedTempDir \<Rightarrow> ScopedTempDir \<times> ScopedTempDir" where
  "std_move other =
     (\<lparr>std_path = std_path other, std_active = std_active other\<rparr>,
      \<lparr>std_path = empty_path, std_active = False\<rparr>)"

definition std_move_assign ::
    "ScopedTempDir \<Rightarrow> ScopedTempDir \<Rightarrow> path option \<times> ScopedTempDir \<times> ScopedTempDir" where
  "std_move_assign this other =
     (case std_Remove this of (removed, _) \<Rightarrow> (removed, std_move other))"

definition std_Create ::
    "string + path \<Rightarrow> (path \<Rightarrow> string option) \<Rightarrow> (path \<Rightarrow> string) \<Rightarrow> (path \<Rightarrow> string + path) \<Rightarrow>
     path \<Rightarrow> string \<Rightarrow> string + ScopedTempDir" where
  "std_Create temp_directory create_directories path_text mkdtemp base_dir prefix =
     (let template = (\<lambda>dir. join_path dir
             (relative [if ends_with prefix ''XXXXXX'' then prefix else prefix @ ''XXXXXX'']));
          create = (\<lambda>dir. case mkdtemp (template dir) of
               Inl e \<Rightarrow> Inl (''Failed to create temporary directory: '' @ e)
             | Inr p \<Rightarrow> Inr (new_ScopedTempDir p))
      in if base_dir = empty_path then
           (case temp_directory of
              Inl e \<Rightarrow> Inl (''Failed to determine system temporary directory: '' @ e)
            | Inr dir \<Rightarrow> create dir)
         else
           (case create_directories base_dir of
              Some e \<Rightarrow> Inl (''Failed to create directory '' @ path_text base_dir @ '': '' @ e)
            | None \<Rightarrow> create base_dir))"

section \<open>Mapped files and digests\<close>

text \<open>
  What the system says of a file: whether it exists, is a directory, its size, its contents when it
  can be opened, and its contents when it can be mapped.
\<close>

record file_view =
  fv_exists :: bool
  fv_is_directory :: bool
  fv_size :: "nat option"
  fv_stream :: "string option"
  fv_mmap :: "string + string"

definition MapFileReadOnly :: "string \<Rightarrow> file_view \<Rightarrow> string + string" where
  "MapFileReadOnly path f =
     (if \<not> fv_exists f then Inl (''file does not exist or is inaccessible: '' @ path)
      else if fv_is_directory f then Inl (''cannot map directory: '' @ path)
      else if fv_size f = Some 0 then
        (case fv_stream f of
           None \<Rightarrow> Inl (''failed to open empty file for reading: '' @ path)
         | Some s \<Rightarrow>
             if s = [] then Inr []
             else Inl (''cannot memory map pseudo-file with dynamic contents: '' @ path))
      else
        (case fv_mmap f of Inl e \<Rightarrow> Inl (''failed to map file: '' @ e) | Inr s \<Rightarrow> Inr s))"

text \<open>
  The digest library: a context, one more piece of data, and the result; a failing call is \<open>None\<close>.
\<close>

record 'c digest =
  dg_new :: "'c option"
  dg_init :: "'c \<Rightarrow> 'c option"
  dg_update :: "'c \<Rightarrow> string \<Rightarrow> 'c option"
  dg_final :: "'c \<Rightarrow> string option"

definition hex_digit :: "nat \<Rightarrow> char" where
  "hex_digit n = (if n < 10 then char_of (48 + n) else char_of (87 + n))"

definition FinalizeHashToHex :: "'c digest \<Rightarrow> 'c \<Rightarrow> string + string" where
  "FinalizeHashToHex dg ctx =
     (case dg_final dg ctx of
        None \<Rightarrow> Inl ''EVP_DigestFinal_ex failed''
      | Some hash \<Rightarrow>
          Inr (concat (map (\<lambda>c. [hex_digit ((of_char c :: nat) div 16), hex_digit ((of_char c :: nat) mod 16)]) hash)))"

definition kStreamBufferSize :: nat where "kStreamBufferSize = 65536"

function digest_stream :: "'c digest \<Rightarrow> 'c \<Rightarrow> string \<Rightarrow> 'c option" where
  "digest_stream dg ctx stream =
     (if stream = [] then Some ctx
      else case dg_update dg ctx (take kStreamBufferSize stream) of
             None \<Rightarrow> None
           | Some ctx' \<Rightarrow> digest_stream dg ctx' (drop kStreamBufferSize stream))"
  by pat_completeness auto
termination
  by (relation "measure (\<lambda>(d, c, s). length s)") (auto simp: kStreamBufferSize_def)

declare digest_stream.simps [simp del]

definition start_digest :: "'c digest \<Rightarrow> ('c \<Rightarrow> string + string) \<Rightarrow> string + string" where
  "start_digest dg body =
     (case dg_new dg of
        None \<Rightarrow> Inl ''failed to allocate EVP_MD_CTX''
      | Some c \<Rightarrow>
          (case dg_init dg c of None \<Rightarrow> Inl ''EVP_DigestInit_ex failed'' | Some ctx \<Rightarrow> body ctx))"

definition cannot_hash :: "string \<Rightarrow> string" where
  "cannot_hash path = ''failed to open file for SHA-256 calculation: '' @ path"

definition ComputeFileSha256StreamFallback ::
    "'c digest \<Rightarrow> string \<Rightarrow> string option \<Rightarrow> string + string" where
  "ComputeFileSha256StreamFallback dg path stream =
     (case stream of
        None \<Rightarrow> Inl (cannot_hash path)
      | Some s \<Rightarrow>
          start_digest dg (\<lambda>ctx.
            case digest_stream dg ctx s of
              None \<Rightarrow> Inl ''EVP_DigestUpdate failed''
            | Some ctx' \<Rightarrow> FinalizeHashToHex dg ctx'))"

definition kEmptyFileSha256 :: string where
  "kEmptyFileSha256 = ''e3b0c44298fc1c149afbf4c8996fb92427ae41e4649b934ca495991b7852b855''"

definition ComputeFileSha256 :: "'c digest \<Rightarrow> string \<Rightarrow> file_view \<Rightarrow> string + string" where
  "ComputeFileSha256 dg path f =
     (if \<not> fv_exists f then Inl (cannot_hash path)
      else if fv_is_directory f then Inl (cannot_hash path)
      else if fv_size f = Some 0 then
        (case fv_stream f of
           None \<Rightarrow> Inl (cannot_hash path)
         | Some s \<Rightarrow>
             if s = [] then Inr kEmptyFileSha256
             else ComputeFileSha256StreamFallback dg path (fv_stream f))
      else
        (case MapFileReadOnly path f of
           Inr s \<Rightarrow>
             start_digest dg (\<lambda>ctx.
               if s \<noteq> [] then
                 (case dg_update dg ctx s of
                    None \<Rightarrow> Inl ''EVP_DigestUpdate failed''
                  | Some ctx' \<Rightarrow> FinalizeHashToHex dg ctx')
               else FinalizeHashToHex dg ctx)
         | Inl _ \<Rightarrow> ComputeFileSha256StreamFallback dg path (fv_stream f)))"

text \<open>The queries of \<open>IsDirectoryWritable\<close>: existence, being a directory, and the access test.\<close>

definition IsDirectoryWritable ::
    "(path \<Rightarrow> bool) \<Rightarrow> (path \<Rightarrow> bool) \<Rightarrow> (path \<Rightarrow> bool) \<Rightarrow> path \<Rightarrow> bool" where
  "IsDirectoryWritable path_exists is_directory can_write p =
     (if p = empty_path then False
      else if path_exists p then is_directory p \<and> can_write p
      else
        (let parent = parent_path p in
         parent \<noteq> empty_path \<and> parent \<noteq> p \<and> path_exists parent \<and> is_directory parent
         \<and> can_write parent))"

text \<open>The formatting of a number with one decimal is the library's.\<close>

definition FormatFileSize :: "float_env \<Rightarrow> (fp \<Rightarrow> string) \<Rightarrow> u64 \<Rightarrow> string" where
  "FormatFileSize fe one_decimal bytes =
     (let scaled = (\<lambda>d. case fe_round64 fe (rat_of_nat (unat bytes)) of
            Finite x \<Rightarrow> fe_round64 fe (x / d) | y \<Rightarrow> y)
      in if bytes \<ge> 1024 * 1024 * 1024 then one_decimal (scaled (1024 * 1024 * 1024)) @ '' GB''
         else if bytes \<ge> 1024 * 1024 then one_decimal (scaled (1024 * 1024)) @ '' MB''
         else if bytes \<ge> 1024 then one_decimal (scaled 1024) @ '' KB''
         else to_string_nat (unat bytes) @ '' B'')"

section \<open>Facts on reading\<close>

lemma read_chunks_spec:
  "n \<le> m \<Longrightarrow> read_chunks m n s c = (c @ take (m - n) s, length s < m - n)"
proof (induction m n s c rule: read_chunks.induct)
  case (1 m n s c)
  define k where "k = min 8192 (m - n)"
  show ?case
  proof (cases "n < m \<and> k \<le> length s")
    case True
    then have k: "0 < k" "k \<le> m - n" "length (take k s) = k" by (auto simp: k_def)
    have "read_chunks m n s c = read_chunks m (n + k) (drop k s) (c @ take k s)"
      using True k by (subst read_chunks.simps) (auto simp: Let_def k_def [symmetric])
    also have "\<dots> = ((c @ take k s) @ take (m - (n + k)) (drop k s), length (drop k s) < m - (n + k))"
    proof -
      have "take k s \<noteq> []" using k(1,3) by auto
      then show ?thesis
        using 1(1) [of k "take k s"] True k by (simp add: k_def [symmetric])
    qed
    also have "(c @ take k s) @ take (m - (n + k)) (drop k s) = c @ take (m - n) s"
      using k take_add [of k "m - n - k" s] by simp
    also have "length (drop k s) < m - (n + k) \<longleftrightarrow> length s < m - n" using k True by auto
    finally show ?thesis .
  next
    case False
    then have "n = m \<or> n < m \<and> length s < k" using 1(2) by auto
    then show ?thesis
    proof
      assume "n = m"
      then show ?thesis by (simp add: read_chunks.simps)
    next
      assume short: "n < m \<and> length s < k"
      then have "take k s = s" and "take (m - n) s = s" and "length s < m - n" by (auto simp: k_def)
      then show ?thesis
        using short by (subst read_chunks.simps) (auto simp: Let_def k_def [symmetric])
    qed
  qed
qed

text \<open>
  Reading with a limit gives the first bytes of the file, as many as the limit allows and all of
  them without a limit; an error of the device counts only if the read got as far as it.
\<close>

theorem ReadTextFile_limit:
  "ReadTextFile path (Some (s, clean)) n =
     (if n = 0 \<or> length s < n
      then (if clean then Inr s else Inl (''Failed to read file '' @ path))
      else Inr (take n s))"
  using read_chunks_spec [of 0 n s "[]"] by (auto simp: ReadTextFile_def)

section \<open>Symbolic links are followed to an end\<close>

text \<open>
  Resolving a path returns, however the links of the file system point at each other, provided
  that the root directory exists: every missing name is dropped before the next attempt, and at most
  32 links are followed.
\<close>

theorem ResolveSymlinkPath_returns:
  assumes "lf_symlink_status fs \<lparr>path_rooted = True, path_names = []\<rparr> \<noteq> StatusNotFound"
  shows "\<exists>r. ResolveSymlinkPath fs p = Some r"
proof -
  have "\<exists>r. ResolveSymlinkPathImpl fs p depth = Some r" for p depth
  proof (induction "(kMaxSymlinkDepth - depth, length (path_names p))" arbitrary: p depth
      rule: wf_induct_rule [OF wf_lex_prod [OF wf_less_than wf_less_than]])
    case 1
    show ?case
    proof (cases "depth < kMaxSymlinkDepth")
      case True
      have link: "\<exists>r. ResolveSymlinkPathImpl fs q (depth + 1) = Some r" for q
        using 1 [of "depth + 1" q] True diff_less_mono2 [of depth "depth + 1" kMaxSymlinkDepth] by simp
      have parent: "\<exists>r. ResolveSymlinkPathImpl fs (parent_path p) depth = Some r"
        if "lf_symlink_status fs p = StatusNotFound" "parent_path p \<noteq> empty_path"
      proof -
        have "path_names p \<noteq> []"
        proof
          assume n: "path_names p = []"
          then have "parent_path p = p" by (simp add: parent_path_def)
          then have "path_rooted p" using that(2) n by (cases p) (auto simp: empty_path_def)
          then have "p = \<lparr>path_rooted = True, path_names = []\<rparr>" using n by simp
          then show False using assms that(1) by simp
        qed
        then show ?thesis using 1 [of depth "parent_path p"] by (simp add: parent_path_def)
      qed
      show ?thesis
        using True link parent
        by (subst ResolveSymlinkPathImpl.simps)
           (auto simp: Let_def split: link_status.split sum.split)
    qed (subst ResolveSymlinkPathImpl.simps, simp)
  qed
  then show ?thesis by (simp add: ResolveSymlinkPath_def)
qed

text \<open>Two links that point at each other: resolving either gives up.\<close>

definition looping_fs :: link_fs where
  "looping_fs =
     \<lparr>lf_symlink_status = (\<lambda>p. if path_names p = [] then StatusOther else StatusLink),
      lf_read_symlink = (\<lambda>p. Inr (relative [if filename p = ''a'' then ''b'' else ''a''])),
      lf_canonical = Some, lf_text = filename\<rparr>"

theorem ResolveSymlinkPath_returns_witness:
  "\<exists>r. ResolveSymlinkPath looping_fs \<lparr>path_rooted = True, path_names = [''a'']\<rparr> = Some r"
  by (rule ResolveSymlinkPath_returns) (simp add: looping_fs_def)

section \<open>Replacing a file is atomic\<close>

text \<open>Effects that concern one file only.\<close>

fun op_on :: "path \<Rightarrow> fs_op \<Rightarrow> bool" where
  "op_on p (CreateOp q) \<longleftrightarrow> q = p"
| "op_on p (ChmodOp q _) \<longleftrightarrow> q = p"
| "op_on p (AppendOp q _) \<longleftrightarrow> q = p"
| "op_on p (SyncOp q) \<longleftrightarrow> q = p"
| "op_on p (UnlinkOp q) \<longleftrightarrow> q = p"
| "op_on p (RenameOp _ _) \<longleftrightarrow> False"

lemma op_on_frame: "op_on p op \<Longrightarrow> q \<noteq> p \<Longrightarrow> apply_op m op q = m q"
  by (cases op) auto

lemma ops_on_frame: "list_all (op_on p) ops \<Longrightarrow> q \<noteq> p \<Longrightarrow> run_ops m ops q = m q"
  by (induction ops arbitrary: m) (auto simp: op_on_frame)

lemma list_all_take: "list_all P xs \<Longrightarrow> list_all P (take k xs)"
  by (auto simp: list_all_iff dest: in_set_takeD)

lemma write_loop_on: "list_all (op_on tmp) (snd (write_loop tmp ws content))"
  by (induction tmp ws content rule: write_loop.induct) (auto split: prod.splits)

lemma write_loop_content:
  "write_loop tmp ws content = (r, ops) \<Longrightarrow> m tmp = Some c \<Longrightarrow>
     (r = Some (Inr ()) \<longrightarrow> run_ops m ops tmp = Some (c @ content))
   \<and> (\<forall>e. r = Some (Inl e) \<longrightarrow> run_ops m ops tmp = None)"
proof (induction tmp ws content arbitrary: m c r ops rule: write_loop.induct)
  case (5 tmp n ws x xs)
  obtain ops' where w: "write_loop tmp ws (drop n (x # xs)) = (r, ops')"
    and ops: "ops = AppendOp tmp (take n (x # xs)) # ops'"
    using 5(2) by (auto split: prod.splits)
  define m' where "m' = m(tmp \<mapsto> c @ take n (x # xs))"
  have m': "m' tmp = Some (c @ take n (x # xs))" by (simp add: m'_def)
  have "apply_op m (AppendOp tmp (take n (x # xs))) = m'" using 5(3) by (simp add: m'_def)
  then show ?case
    using 5(1) [of r ops' m', OF w m'] append_take_drop_id [of n "x # xs"]
    by (simp add: ops del: take_Suc_Cons drop_Suc_Cons apply_op.simps)
qed auto

lemma temp_path_ne: "temp_path target letters \<noteq> target"
proof
  assume eq: "temp_path target letters = target"
  have "last (path_names (temp_path target letters)) = filename target @ ''.tmp.'' @ letters"
    by (simp add: temp_path_def join_path_def relative_def)
  moreover have "path_names (temp_path target letters) \<noteq> []"
    by (simp add: temp_path_def join_path_def relative_def)
  ultimately have "filename target @ ''.tmp.'' @ letters = filename target"
    using eq by (simp add: filename_def)
  then show False by simp
qed

text \<open>The effects before the last one concern the temporary file only.\<close>

lemma AtomicWriteTextFile_ops:
  assumes "AtomicWriteTextFile env content = (r, ops)" and "we_resolved env = Inr target"
    and "we_mkstemp env = Inr letters" and "m (temp_path target letters) = None"
  defines "tmp \<equiv> temp_path target letters"
  shows "r = Some (Inr ()) \<and> (\<exists>pre. ops = pre @ [RenameOp tmp target] \<and> list_all (op_on tmp) pre
             \<and> run_ops m pre tmp = Some content)
       \<or> r \<noteq> Some (Inr ()) \<and> list_all (op_on tmp) ops \<and> (r \<noteq> None \<longrightarrow> run_ops m ops tmp = None)"
proof (cases "we_parent env")
  case (Inl e)
  then show ?thesis using assms by (auto simp: AtomicWriteTextFile_def)
next
  case (Inr u)
  define made where "made = CreateOp tmp # (case we_permissions env of None \<Rightarrow> [] | Some mode \<Rightarrow> [ChmodOp tmp mode])"
  have made: "list_all (op_on tmp) made" "run_ops m made tmp = Some []"
    by (auto simp: made_def split: option.split)
  obtain wr wops where w: "write_loop tmp (we_writes env) content = (wr, wops)" by (rule prod.exhaust)
  note on = write_loop_on [of tmp "we_writes env" content, unfolded w snd_conv]
  note c = write_loop_content [of _ _ _ _ _ "run_ops m made", OF w made(2)]
  have eq: "AtomicWriteTextFile env content =
      (case (wr, wops) of
         (None, ops) \<Rightarrow> (None, made @ ops)
       | (Some (Inl e), ops) \<Rightarrow> (Some (Inl e), made @ ops)
       | (Some (Inr _), ops) \<Rightarrow>
           (case we_fsync env of
              Some e \<Rightarrow> (Some (Inl (''fsync failed: '' @ e)), made @ ops @ [UnlinkOp tmp])
            | None \<Rightarrow>
                (case we_rename env of
                   Some e \<Rightarrow> (Some (Inl (''rename failed: '' @ e)), made @ ops @ [SyncOp tmp, UnlinkOp tmp])
                 | None \<Rightarrow> (Some (Inr ()), made @ ops @ [SyncOp tmp, RenameOp tmp target]))))"
    unfolding AtomicWriteTextFile_def assms(2,3) Inr sum.case Let_def tmp_def [symmetric] w made_def [symmetric]
    by (rule refl)
  show ?thesis
  proof (cases "wr = Some (Inr ()) \<and> we_fsync env = None \<and> we_rename env = None")
    case True
    then have "r = Some (Inr ())" "ops = (made @ wops @ [SyncOp tmp]) @ [RenameOp tmp target]"
      using eq assms(1) by simp_all
    then show ?thesis using made(1) on c True by (intro disjI1 conjI exI [of _ "made @ wops @ [SyncOp tmp]"]) auto
  next
    case False
    then show ?thesis
      using eq assms(1) made(1) on c by (auto split: option.splits sum.splits)
  qed
qed

text \<open>
  C12: Replacing a file is atomic. At every moment between two effects the target holds its old or its
  new contents as a whole and no file but the temporary one has changed; after success the target
  holds the new contents and nothing else has changed, after a failure the files are as before.
\<close>

theorem atomic_write_atomic:
  assumes "AtomicWriteTextFile env content = (r, ops)" and "we_resolved env = Inr target"
    and "we_mkstemp env = Inr letters" and "m (temp_path target letters) = None"
  shows "run_ops m (take k ops) target \<in> {m target, Some content}
    \<and> (\<forall>q. q \<noteq> target \<and> q \<noteq> temp_path target letters \<longrightarrow> run_ops m (take k ops) q = m q)
    \<and> (r = Some (Inr ()) \<longrightarrow> run_ops m ops = m(target \<mapsto> content))
    \<and> (\<forall>e. r = Some (Inl e) \<longrightarrow> run_ops m ops = m)"
proof -
  define tmp where "tmp = temp_path target letters"
  have ne: "target \<noteq> tmp" using temp_path_ne [of target letters] by (simp add: tmp_def)
  consider (renamed) pre where "r = Some (Inr ())" "ops = pre @ [RenameOp tmp target]" "list_all (op_on tmp) pre"
      "run_ops m pre tmp = Some content"
    | (kept) "r \<noteq> Some (Inr ())" "list_all (op_on tmp) ops" "r \<noteq> None \<longrightarrow> run_ops m ops tmp = None"
    using AtomicWriteTextFile_ops [of env content r ops target letters m, OF assms] unfolding tmp_def [symmetric] by blast
  then show ?thesis
  proof cases
    case renamed
    have pre: "run_ops m (take k pre) q = m q" if "q \<noteq> tmp" for k q
      using ops_on_frame [OF list_all_take [OF renamed(3)] that] .
    have all: "run_ops m ops = m(target \<mapsto> content)"
    proof
      fix q
      show "run_ops m ops q = (m(target \<mapsto> content)) q"
        using renamed(2,4) ops_on_frame [OF renamed(3), of q m] ne assms(4) by (auto simp: tmp_def)
    qed
    show ?thesis
    proof (cases "k \<le> length pre")
      case True
      then have "take k ops = take k pre" by (simp add: renamed(2))
      then show ?thesis using pre ne all renamed(1) by (auto simp: tmp_def)
    next
      case False
      then have "take k ops = ops" by (simp add: renamed(2))
      then show ?thesis using all renamed(1) by auto
    qed
  next
    case kept
    have frame: "run_ops m (take k ops) q = m q" if "q \<noteq> tmp" for k q
      using ops_on_frame [OF list_all_take [OF kept(2)] that] .
    have "run_ops m ops = m" if "r \<noteq> None"
    proof
      fix q
      show "run_ops m ops q = m q"
        using frame [of q "length ops"] kept(3) that assms(4) by (cases "q = tmp") (auto simp: tmp_def)
    qed
    then show ?thesis using frame ne kept(1) by (auto simp: tmp_def)
  qed
qed

definition example_target :: path where
  "example_target = \<lparr>path_rooted = True, path_names = [''etc'', ''f'']\<rparr>"

definition example_write :: write_env where
  "example_write =
     \<lparr>we_resolved = Inr example_target, we_parent = Inr (), we_mkstemp = Inr ''abcdef'',
      we_permissions = Some 420, we_writes = [Wrote 1, WriteInterrupted, Wrote 5],
      we_fsync = None, we_rename = None\<rparr>"

lemma example_write_done: "fst (AtomicWriteTextFile example_write ''new'') = Some (Inr ())"
  by code_simp

theorem atomic_write_atomic_witness:
  "run_ops [example_target \<mapsto> ''old''] (snd (AtomicWriteTextFile example_write ''new''))
     = [example_target \<mapsto> ''new'']"
proof -
  have "temp_path example_target ''abcdef'' \<noteq> example_target" by (rule temp_path_ne)
  then have "[example_target \<mapsto> ''old''] (temp_path example_target ''abcdef'') = None" by simp
  moreover have "AtomicWriteTextFile example_write ''new''
      = (Some (Inr ()), snd (AtomicWriteTextFile example_write ''new''))"
    using example_write_done by (metis prod.collapse)
  ultimately show ?thesis
    using atomic_write_atomic [of example_write "''new''" "Some (Inr ())" _ example_target "''abcdef''"
        "[example_target \<mapsto> ''old'']" 0]
    by (simp add: example_write_def)
qed

section \<open>The digest does not depend on the route\<close>

text \<open>
  What is relied on of the digest library: feeding two pieces is feeding them joined, and feeding
  never fails (a failure is reported by the operations above).
\<close>

definition incremental :: "'c digest \<Rightarrow> bool" where
  "incremental dg \<longleftrightarrow>
     (\<forall>c a b. dg_update dg c (a @ b) = Option.bind (dg_update dg c a) (\<lambda>c'. dg_update dg c' b))
   \<and> (\<forall>c. dg_update dg c [] = Some c)"

lemma digest_stream_update:
  assumes "incremental dg"
  shows "digest_stream dg c s = dg_update dg c s"
  using assms
proof (induction dg c s rule: digest_stream.induct)
  case (1 dg c s)
  show ?case
  proof (cases "s = []")
    case True
    then show ?thesis using 1(2) by (simp add: digest_stream.simps incremental_def)
  next
    case False
    have "dg_update dg c s = Option.bind (dg_update dg c (take kStreamBufferSize s))
        (\<lambda>c'. dg_update dg c' (drop kStreamBufferSize s))"
      using 1(2) append_take_drop_id [of kStreamBufferSize s] unfolding incremental_def by metis
    then show ?thesis using 1 False
      by (subst digest_stream.simps) (auto split: option.split)
  qed
qed

text \<open>
  A file that can be mapped has the same digest, or the same failure, whether it is hashed in
  one piece from the mapping or in blocks from the stream.
\<close>

theorem sha256_route_independent:
  assumes "incremental dg" and "fv_exists f" and "\<not> fv_is_directory f" and "fv_size f \<noteq> Some 0"
    and "fv_stream f = Some s" and "fv_mmap f = Inr s"
  shows "ComputeFileSha256 dg path f = ComputeFileSha256 dg path (f\<lparr>fv_mmap := Inl e\<rparr>)"
  using assms
  by (simp add: ComputeFileSha256_def MapFileReadOnly_def ComputeFileSha256StreamFallback_def
      digest_stream_update [OF assms(1)] incremental_def start_digest_def split: option.split)

definition example_digest :: "string digest" where
  "example_digest =
     \<lparr>dg_new = Some [], dg_init = (\<lambda>c. Some []), dg_update = (\<lambda>c s. Some (c @ s)),
      dg_final = (\<lambda>c. Some [char_of (length c)])\<rparr>"

definition example_file :: file_view where
  "example_file =
     \<lparr>fv_exists = True, fv_is_directory = False, fv_size = Some 3, fv_stream = Some ''abc'',
      fv_mmap = Inr ''abc''\<rparr>"

theorem sha256_route_independent_witness:
  "ComputeFileSha256 example_digest ''f'' example_file
     = ComputeFileSha256 example_digest ''f'' (example_file\<lparr>fv_mmap := Inl ''no''\<rparr>)"
  by (rule sha256_route_independent [where s = "''abc''"])
     (simp_all add: incremental_def example_digest_def example_file_def)

end
