(* ===== verification/Process_Control.thy ===== *)
theory Process_Control
  imports Process_Utils
begin

text \<open>
  The termination of a process that this process did not spawn
  (\<open>src/common/utils/process_utils.cpp\<close>, \<open>PinnedProcess\<close> and \<open>TerminateGracefully\<close>), and of a
  child (\<open>KillAndReap\<close>, \<open>TerminateProcessBounded\<close>).

  Between two calls of the system everything else may change: every call happens at a moment, moments
  count up, and the kernel's answers depend on the moment. A loop that does not return is \<open>None\<close>. The
  signals that are delivered are listed with how their receiver was determined, so that it can be
  shown that no process but the recorded one is ever signalled through a descriptor.
\<close>

datatype pidfd_result = PidFdOpened | PidFdNoProcess | PidFdUnavailable
datatype send_result = SendOk | SendInterrupted | SendNoProcess | SendError string
datatype probe_result = ProbeReadable | ProbeOtherEvent | ProbeNothing | ProbeInterrupted | ProbeError

record kernel =
  kn_stat :: "nat \<Rightarrow> int \<Rightarrow> string option"
  kn_pidfd_open :: "nat \<Rightarrow> int \<Rightarrow> pidfd_result"
  kn_send :: "nat \<Rightarrow> int \<Rightarrow> send_result"
  kn_poll :: "nat \<Rightarrow> probe_result"
  kn_clock :: "nat \<Rightarrow> int"

definition kSigTerm :: int where "kSigTerm = 15"
definition kSigKill :: int where "kSigKill = 9"

text \<open>
  A delivered signal: through a descriptor opened at a moment, or to a process id whose identity was
  confirmed at one moment and signalled at another.
\<close>

datatype delivery = ViaDescriptor int nat | ByPid int nat nat

datatype ProcessState = PsRunning | PsExited | PsUnknown
datatype ExitWait = EwExited | EwStillRunning | EwInconclusive
datatype SignalOutcome = SoDelivered | SoProcessGone | SoFailed string

record PinnedProcess =
  pp_pid :: int
  pp_start_time :: int
  pp_pidfd :: "nat option"
  pp_no_such_process :: bool

text \<open>The identity that the kernel shows for a process id at a moment.\<close>

definition identity_at :: "kernel \<Rightarrow> nat \<Rightarrow> int \<Rightarrow> int" where
  "identity_at k t pid = ProcessStartTime (kn_stat k t) pid"

definition new_PinnedProcess :: "kernel \<Rightarrow> int \<Rightarrow> int \<Rightarrow> nat \<Rightarrow> PinnedProcess \<times> nat" where
  "new_PinnedProcess k pid start_time t =
     (if pid > 0 \<and> start_time \<noteq> 0 then
        (case kn_pidfd_open k t pid of
           PidFdOpened \<Rightarrow>
             (\<lparr>pp_pid = pid, pp_start_time = start_time, pp_pidfd = Some t, pp_no_such_process = False\<rparr>, t + 1)
         | PidFdNoProcess \<Rightarrow>
             (\<lparr>pp_pid = pid, pp_start_time = start_time, pp_pidfd = None, pp_no_such_process = True\<rparr>, t + 1)
         | PidFdUnavailable \<Rightarrow>
             (\<lparr>pp_pid = pid, pp_start_time = start_time, pp_pidfd = None, pp_no_such_process = False\<rparr>, t + 1))
      else
        (\<lparr>pp_pid = pid, pp_start_time = start_time, pp_pidfd = None, pp_no_such_process = False\<rparr>, t))"

definition PinObservedNoSuchProcess :: "PinnedProcess \<Rightarrow> bool" where
  "PinObservedNoSuchProcess p \<longleftrightarrow> pp_pidfd p = None \<and> pp_no_such_process p"

definition Matches :: "kernel \<Rightarrow> PinnedProcess \<Rightarrow> nat \<Rightarrow> bool" where
  "Matches k p t \<longleftrightarrow> ProcessIdentityMatches (kn_stat k t) (pp_pid p) (pp_start_time p)"

text \<open>The result, the next moment and the delivered signals.\<close>

partial_function (option) signal_descriptor ::
    "kernel \<Rightarrow> int \<Rightarrow> nat \<Rightarrow> nat \<Rightarrow> (SignalOutcome \<times> nat \<times> delivery list) option" where
  "signal_descriptor k sig opened t =
     (case kn_send k t sig of
        SendOk \<Rightarrow> Some (SoDelivered, t + 1, [ViaDescriptor sig opened])
      | SendInterrupted \<Rightarrow> signal_descriptor k sig opened (t + 1)
      | SendNoProcess \<Rightarrow> Some (SoProcessGone, t + 1, [])
      | SendError e \<Rightarrow> Some (SoFailed e, t + 1, []))"

definition pp_Signal :: "kernel \<Rightarrow> PinnedProcess \<Rightarrow> int \<Rightarrow> nat \<Rightarrow> (SignalOutcome \<times> nat \<times> delivery list) option" where
  "pp_Signal k p sig t =
     (case pp_pidfd p of
        Some opened \<Rightarrow> signal_descriptor k sig opened t
      | None \<Rightarrow>
          if \<not> Matches k p t then Some (SoProcessGone, t + 1, [])
          else
            (case kn_send k (t + 1) sig of
               SendOk \<Rightarrow> Some (SoDelivered, t + 2, [ByPid sig t (t + 1)])
             | SendInterrupted \<Rightarrow> Some (SoFailed ''Interrupted system call'', t + 2, [])
             | SendNoProcess \<Rightarrow> Some (SoProcessGone, t + 2, [])
             | SendError e \<Rightarrow> Some (SoFailed e, t + 2, [])))"

definition kIdentityProbeAttempts :: nat where "kIdentityProbeAttempts = 3"

fun ProbePinnedProcess :: "kernel \<Rightarrow> nat \<Rightarrow> nat \<Rightarrow> ProcessState \<times> nat" where
  "ProbePinnedProcess k t 0 = (PsUnknown, t)"
| "ProbePinnedProcess k t (Suc attempts) =
     (case kn_poll k t of
        ProbeReadable \<Rightarrow> (PsExited, t + 1)
      | ProbeOtherEvent \<Rightarrow> (PsUnknown, t + 1)
      | ProbeNothing \<Rightarrow> (PsRunning, t + 1)
      | ProbeError \<Rightarrow> (PsUnknown, t + 1)
      | ProbeInterrupted \<Rightarrow> ProbePinnedProcess k (t + 1) attempts)"

definition pp_Probe :: "kernel \<Rightarrow> PinnedProcess \<Rightarrow> nat \<Rightarrow> ProcessState \<times> nat" where
  "pp_Probe k p t =
     (if pp_pidfd p \<noteq> None then ProbePinnedProcess k t kIdentityProbeAttempts
      else (if Matches k p t then PsRunning else PsExited, t + 1))"

partial_function (option) wait_loop ::
    "kernel \<Rightarrow> PinnedProcess \<Rightarrow> int \<Rightarrow> bool \<Rightarrow> nat \<Rightarrow> (ExitWait \<times> nat) option" where
  "wait_loop k p deadline observed_running t =
     (case pp_Probe k p t of
        (state, t1) \<Rightarrow>
          if state = PsExited then Some (EwExited, t1)
          else
            (let observed = observed_running \<or> state = PsRunning in
             if kn_clock k t1 \<ge> deadline
             then Some (if observed then EwStillRunning else EwInconclusive, t1 + 1)
             else wait_loop k p deadline observed (t1 + 1)))"

definition pp_WaitForExit :: "kernel \<Rightarrow> PinnedProcess \<Rightarrow> int \<Rightarrow> nat \<Rightarrow> (ExitWait \<times> nat) option" where
  "pp_WaitForExit k p timeout t = wait_loop k p (kn_clock k t + timeout) False (t + 1)"

datatype TerminateOutcome = ToExited | ToNotFound | ToStillRunning | ToUnconfirmed | ToFailed

record TerminateResult =
  tr_outcome :: TerminateOutcome
  tr_failed_signal :: int
  tr_error :: string

definition ended :: "TerminateOutcome \<Rightarrow> TerminateResult" where
  "ended out = \<lparr>tr_outcome = out, tr_failed_signal = 0, tr_error = []\<rparr>"

definition failed_at :: "int \<Rightarrow> string \<Rightarrow> TerminateResult" where
  "failed_at sig e = \<lparr>tr_outcome = ToFailed, tr_failed_signal = sig, tr_error = e\<rparr>"

text \<open>The second half: the forced kill and the last wait.\<close>

definition force_kill ::
    "kernel \<Rightarrow> PinnedProcess \<Rightarrow> int \<Rightarrow> delivery list \<Rightarrow> nat \<Rightarrow> (TerminateResult \<times> delivery list) option" where
  "force_kill k p force_timeout sent t =
     Option.bind (pp_Signal k p kSigKill t) (\<lambda>(forced, t1, sent1).
       case forced of
         SoFailed e \<Rightarrow> Some (failed_at kSigKill e, sent @ sent1)
       | SoProcessGone \<Rightarrow> Some (ended ToExited, sent @ sent1)
       | SoDelivered \<Rightarrow>
           Option.bind (pp_WaitForExit k p force_timeout t1) (\<lambda>(final_wait, _).
             Some (ended (case final_wait of
                            EwExited \<Rightarrow> ToExited
                          | EwStillRunning \<Rightarrow> ToStillRunning
                          | EwInconclusive \<Rightarrow> ToUnconfirmed), sent @ sent1)))"

definition TerminateGracefully ::
    "kernel \<Rightarrow> int \<Rightarrow> int \<Rightarrow> int \<Rightarrow> int \<Rightarrow> nat \<Rightarrow> (TerminateResult \<times> delivery list) option" where
  "TerminateGracefully k pid start_time graceful_timeout force_timeout t =
     (if pid \<le> 0 \<or> start_time = 0 then Some (ended ToNotFound, [])
      else
        (case new_PinnedProcess k pid start_time t of
           (process, t1) \<Rightarrow>
             if PinObservedNoSuchProcess process \<or> \<not> Matches k process t1
             then Some (ended ToNotFound, [])
             else
               Option.bind (pp_Signal k process kSigTerm (t1 + 1)) (\<lambda>(terminate, t2, sent).
                 case terminate of
                   SoProcessGone \<Rightarrow> Some (ended ToNotFound, sent)
                 | SoFailed e \<Rightarrow> Some (failed_at kSigTerm e, sent)
                 | SoDelivered \<Rightarrow>
                     Option.bind (pp_WaitForExit k process graceful_timeout t2) (\<lambda>(w, t3).
                       if w = EwExited then Some (ended ToExited, sent)
                       else force_kill k process force_timeout sent t3))))"

section \<open>Children\<close>

text \<open>
  \<open>waitpid\<close> without and with \<open>WNOHANG\<close>; \<open>WaitReaped\<close> carries the status word.
\<close>

datatype wait_result = WaitReaped "32 word" | WaitNothing | WaitInterrupted | WaitNoChild | WaitError

partial_function (option) reap_blocking :: "(nat \<Rightarrow> wait_result) \<Rightarrow> nat \<Rightarrow> bool option" where
  "reap_blocking waits t =
     (case waits t of
        WaitInterrupted \<Rightarrow> reap_blocking waits (t + 1)
      | WaitReaped _ \<Rightarrow> Some True
      | WaitNoChild \<Rightarrow> Some True
      | _ \<Rightarrow> Some False)"

definition KillAndReap :: "(nat \<Rightarrow> wait_result) \<Rightarrow> int \<Rightarrow> nat \<Rightarrow> (bool \<times> int list) option" where
  "KillAndReap waits pid t =
     (if pid \<le> 0 then Some (True, [])
      else map_option (\<lambda>r. (r, [kSigKill])) (reap_blocking waits t))"

definition TryReapProcess :: "(nat \<Rightarrow> wait_result) \<Rightarrow> int \<Rightarrow> nat \<Rightarrow> int option" where
  "TryReapProcess waits pid t =
     (if pid \<le> 0 then None
      else case waits t of WaitReaped status \<Rightarrow> Some (reaped_exit_code status) | _ \<Rightarrow> None)"

partial_function (option) reap_until ::
    "(nat \<Rightarrow> wait_result) \<Rightarrow> (nat \<Rightarrow> int) \<Rightarrow> int \<Rightarrow> int \<Rightarrow> nat \<Rightarrow> (bool \<times> nat) option" where
  "reap_until waits clock pid deadline t =
     (if clock t < deadline then
        (if TryReapProcess waits pid t \<noteq> None \<or> waits t = WaitNoChild then Some (True, t + 1)
         else reap_until waits clock pid deadline (t + 1))
      else Some (TryReapProcess waits pid t \<noteq> None, t + 1))"

text \<open>The signals sent to the child.\<close>

definition TerminateProcessBounded ::
    "(nat \<Rightarrow> wait_result) \<Rightarrow> (nat \<Rightarrow> int) \<Rightarrow> int \<Rightarrow> int \<Rightarrow> int \<Rightarrow> nat \<Rightarrow> int list option" where
  "TerminateProcessBounded waits clock pid graceful_timeout force_timeout t =
     (if pid \<le> 0 then Some []
      else
        Option.bind (reap_until waits clock pid (clock t + graceful_timeout) t) (\<lambda>(reaped, t1).
          if reaped then Some [kSigTerm]
          else map_option (\<lambda>_. [kSigTerm, kSigKill])
                 (reap_until waits clock pid (clock t1 + force_timeout) t1)))"

section \<open>Only the recorded process is signalled\<close>

text \<open>
  What is relied on of the kernel: a process id shows an identity without interruption, that is, an
  identity that was given up does not come back. (\<open>identity_at\<close> at a moment inside is then the
  identity at every moment since the call.)
\<close>

definition identity_kept :: "kernel \<Rightarrow> int \<Rightarrow> int \<Rightarrow> nat \<Rightarrow> bool" where
  "identity_kept k pid start_time t \<longleftrightarrow>
     (\<forall>t1 t2. t \<le> t1 \<and> t1 \<le> t2 \<and> identity_at k t2 pid = start_time \<longrightarrow> identity_at k t1 pid = start_time)"

fun identity_checked :: "kernel \<Rightarrow> int \<Rightarrow> int \<Rightarrow> delivery \<Rightarrow> bool" where
  "identity_checked k pid start_time (ViaDescriptor sig opened) \<longleftrightarrow> identity_at k opened pid = start_time"
| "identity_checked k pid start_time (ByPid sig checked sent) \<longleftrightarrow>
     identity_at k checked pid = start_time \<and> sent = checked + 1"

lemma signal_descriptor_sent:
  "signal_descriptor k sig opened t = Some r \<Longrightarrow> set (snd (snd r)) \<subseteq> {ViaDescriptor sig opened}"
  by (induct rule: signal_descriptor.raw_induct [rotated 1, consumes 1])
     (auto split: send_result.splits)

lemma signal_descriptor_none:
  "signal_descriptor k sig opened t = Some r \<Longrightarrow> fst r \<noteq> SoDelivered \<longrightarrow> snd (snd r) = []"
  by (induct rule: signal_descriptor.raw_induct [rotated 1, consumes 1])
     (auto split: send_result.splits)

lemma ProbePinnedProcess_later: "t \<le> snd (ProbePinnedProcess k t n)"
  by (induction k t n rule: ProbePinnedProcess.induct) (auto split: probe_result.split)

lemma pp_Probe_later: "t \<le> snd (pp_Probe k p t)"
  by (simp add: pp_Probe_def ProbePinnedProcess_later)

lemma pp_Signal_sent:
  assumes "pp_Signal k p sig t = Some (r, t', sent)"
    and "\<forall>fd. pp_pidfd p = Some fd \<longrightarrow> identity_at k fd (pp_pid p) = pp_start_time p"
  shows "\<forall>d\<in>set sent. identity_checked k (pp_pid p) (pp_start_time p) d
    \<and> (pp_pidfd p = None \<or> d = ViaDescriptor sig (the (pp_pidfd p)))"
proof (cases "pp_pidfd p")
  case (Some fd)
  then have "set sent \<subseteq> {ViaDescriptor sig fd}"
    using signal_descriptor_sent [of k sig fd t "(r, t', sent)"] assms(1) by (simp add: pp_Signal_def)
  then show ?thesis using assms(2) Some by auto
next
  case None
  then show ?thesis using assms(1)
    by (auto simp: pp_Signal_def Matches_def ProcessIdentityMatches_def identity_at_def
        split: if_splits send_result.splits)
qed

lemma final_outcome:
  "(case w of EwExited \<Rightarrow> ToExited | EwStillRunning \<Rightarrow> ToStillRunning | EwInconclusive \<Rightarrow> ToUnconfirmed) \<noteq> ToNotFound"
  by (cases w) simp_all

lemma force_kill_sent:
  assumes "force_kill k p timeout sent0 t = Some (res, sent)"
  shows "\<exists>r t' s1. pp_Signal k p kSigKill t = Some (r, t', s1) \<and> sent = sent0 @ s1 \<and> tr_outcome res \<noteq> ToNotFound"
proof -
  obtain r t' s1 where s: "pp_Signal k p kSigKill t = Some (r, t', s1)"
    using assms by (auto simp: force_kill_def Option.bind_eq_Some_conv)
  then have "sent = sent0 @ s1 \<and> tr_outcome res \<noteq> ToNotFound"
    using assms
    by (cases r) (auto simp: force_kill_def Option.bind_eq_Some_conv ended_def failed_at_def final_outcome)
  with s show ?thesis by blast
qed

text \<open>
  A termination request delivers nothing unless the process was found first, and all it delivers comes from signalling the
  pinned process.
\<close>

lemma terminate_deliveries:
  assumes "TerminateGracefully k pid start_time graceful_timeout force_timeout t = Some (res, sent)"
    and "new_PinnedProcess k pid start_time t = (process, t1)"
  shows "tr_outcome res = ToNotFound \<longrightarrow> sent = []"
    and "sent \<noteq> [] \<longrightarrow> pid > 0 \<and> start_time \<noteq> 0 \<and> Matches k process t1"
    and "\<forall>d\<in>set sent. \<exists>sig t' r t'' s. pp_Signal k process sig t' = Some (r, t'', s) \<and> d \<in> set s"
proof -
  let ?all = "(tr_outcome res = ToNotFound \<longrightarrow> sent = [])
    \<and> (sent \<noteq> [] \<longrightarrow> pid > 0 \<and> start_time \<noteq> 0 \<and> Matches k process t1)
    \<and> (\<forall>d\<in>set sent. \<exists>sig t' r t'' s. pp_Signal k process sig t' = Some (r, t'', s) \<and> d \<in> set s)"
  have ?all
  proof (cases "pid \<le> 0 \<or> start_time = 0 \<or> PinObservedNoSuchProcess process \<or> \<not> Matches k process t1")
    case True
    then have "sent = []" using assms by (auto simp: TerminateGracefully_def split: if_splits)
    then show ?thesis by simp
  next
    case found: False
    obtain r1 t2 sent1 where s1: "pp_Signal k process kSigTerm (t1 + 1) = Some (r1, t2, sent1)"
      using assms found by (auto simp: TerminateGracefully_def Option.bind_eq_Some_conv)
    have none: "r1 \<noteq> SoDelivered \<Longrightarrow> sent1 = []"
      using s1 by (auto simp: pp_Signal_def dest!: signal_descriptor_none split: option.splits if_splits send_result.splits)
    have "sent = [] \<or> r1 = SoDelivered \<and> tr_outcome res \<noteq> ToNotFound
        \<and> (sent = sent1 \<or> (\<exists>t3 r t' s2. pp_Signal k process kSigKill t3 = Some (r, t', s2) \<and> sent = sent1 @ s2))"
      using assms found s1 none
      by (cases r1) (auto simp: TerminateGracefully_def Option.bind_eq_Some_conv ended_def dest!: force_kill_sent
          split: if_splits)
    then show ?thesis using s1 found by fastforce
  qed
  then show "tr_outcome res = ToNotFound \<longrightarrow> sent = []"
    and "sent \<noteq> [] \<longrightarrow> pid > 0 \<and> start_time \<noteq> 0 \<and> Matches k process t1"
    and "\<forall>d\<in>set sent. \<exists>sig t' r t'' s. pp_Signal k process sig t' = Some (r, t'', s) \<and> d \<in> set s" by blast+
qed

text \<open>
  C19: Which process a termination request signals. When the kernel gives a descriptor, every signal goes through it, and
  the process it pins had the recorded start time when the descriptor was opened; this assumes that a pid that has the
  recorded start time has had it since the request began. Without a descriptor every signal is sent to the pid in the
  step right after a check that found the recorded start time there; the gap between that check and the signal, which
  the code leaves open, is not excluded. When nothing with the recorded identity is found, no signal is delivered.
\<close>

theorem terminate_signals_recorded:
  assumes "TerminateGracefully k pid start_time graceful_timeout force_timeout t = Some (res, sent)"
    and "identity_kept k pid start_time t"
  shows "(case pp_pidfd (fst (new_PinnedProcess k pid start_time t)) of
        Some fd \<Rightarrow> fd = t \<and> (\<forall>d\<in>set sent. \<exists>sig. d = ViaDescriptor sig t \<and> identity_at k t pid = start_time)
      | None \<Rightarrow> (\<forall>d\<in>set sent. identity_checked k pid start_time d))
    \<and> (tr_outcome res = ToNotFound \<longrightarrow> sent = [])"
proof -
  obtain process t1 where new: "new_PinnedProcess k pid start_time t = (process, t1)" by (rule prod.exhaust)
  note sent = terminate_deliveries [OF assms(1) new]
  have p: "pp_pid process = pid" "pp_start_time process = start_time" "t \<le> t1"
    and fd: "\<forall>fd. pp_pidfd process = Some fd \<longrightarrow> fd = t"
    using new by (auto simp: new_PinnedProcess_def split: pidfd_result.splits if_splits)
  have pinned: "\<forall>fd. pp_pidfd process = Some fd \<longrightarrow> identity_at k fd (pp_pid process) = pp_start_time process"
    if "sent \<noteq> []"
    using that sent(2) assms(2) fd p
    by (auto simp: identity_kept_def Matches_def ProcessIdentityMatches_def identity_at_def)
  have "identity_checked k pid start_time d \<and> (pp_pidfd process = None \<or> (\<exists>sig. d = ViaDescriptor sig t))"
    if "d \<in> set sent" for d
    using that sent(3) pinned pp_Signal_sent [of k process] fd p by fastforce
  then show ?thesis using new fd sent(1) by (fastforce split: option.split)
qed

section \<open>Termination requests return\<close>

text \<open>A kernel that does not interrupt forever and whose clock runs.\<close>

definition fair_kernel :: "kernel \<Rightarrow> bool" where
  "fair_kernel k \<longleftrightarrow>
     (\<forall>t sig. \<exists>n. kn_send k (t + n) sig \<noteq> SendInterrupted)
   \<and> mono (kn_clock k) \<and> (\<forall>d. \<exists>t. d \<le> kn_clock k t)"

lemma signal_descriptor_returns:
  assumes "kn_send k (t + n) sig \<noteq> SendInterrupted"
  shows "\<exists>r. signal_descriptor k sig fd t = Some r"
  using assms
proof (induction n arbitrary: t)
  case 0
  then show ?case by (subst signal_descriptor.simps) (auto split: send_result.split)
next
  case (Suc n)
  then show ?case
    using Suc.IH [of "t + 1"] by (subst signal_descriptor.simps) (auto split: send_result.split)
qed

lemma wait_loop_returns:
  assumes "mono (kn_clock k)" and "deadline \<le> kn_clock k T"
  shows "\<exists>r. wait_loop k p deadline obs t = Some r"
proof (induction "T - t" arbitrary: t obs rule: less_induct)
  case less
  obtain st t1 where probe: "pp_Probe k p t = (st, t1)" by (rule prod.exhaust)
  have later: "t \<le> t1" using pp_Probe_later [of t k p] probe by simp
  show ?case
  proof (cases "deadline \<le> kn_clock k t1")
    case True
    then show ?thesis by (subst wait_loop.simps) (auto simp: probe Let_def)
  next
    case False
    then have "t1 < T" using assms by (meson monoD not_le order.trans)
    then have "T - (t1 + 1) < T - t" using later by simp
    then have "\<exists>r. wait_loop k p deadline obs' (t1 + 1) = Some r" for obs' by (rule less)
    then show ?thesis by (subst wait_loop.simps) (auto simp: probe Let_def)
  qed
qed

text \<open>
  C20: A termination request returns whatever the process does, as long as the kernel does not
  interrupt every call forever and the clock runs.
\<close>

theorem terminate_returns:
  assumes "fair_kernel k"
  shows "\<exists>r. TerminateGracefully k pid start_time graceful_timeout force_timeout t = Some r"
proof -
  have send: "\<exists>r. pp_Signal k p sig t = Some r" for p sig t
  proof (cases "pp_pidfd p")
    case (Some fd)
    obtain n where "kn_send k (t + n) sig \<noteq> SendInterrupted" using assms unfolding fair_kernel_def by blast
    from signal_descriptor_returns [OF this] Some show ?thesis by (simp add: pp_Signal_def)
  qed (auto simp: pp_Signal_def split: send_result.split)
  have wait: "\<exists>r. pp_WaitForExit k p timeout t = Some r" for p timeout t
  proof -
    obtain T where "kn_clock k t + timeout \<le> kn_clock k T" using assms unfolding fair_kernel_def by blast
    then show ?thesis using wait_loop_returns assms by (simp add: pp_WaitForExit_def fair_kernel_def)
  qed
  have force: "\<exists>r. force_kill k p force_timeout sent t = Some r" for p sent t
  proof -
    obtain r t' s1 where "pp_Signal k p kSigKill t = Some (r, t', s1)" using send by (metis prod_cases3)
    moreover obtain w t'' where "pp_WaitForExit k p force_timeout t' = Some (w, t'')" using wait by (metis surj_pair)
    ultimately show ?thesis by (cases r) (auto simp: force_kill_def)
  qed
  obtain process t1 where new: "new_PinnedProcess k pid start_time t = (process, t1)" by (rule prod.exhaust)
  obtain r t2 sent where s: "pp_Signal k process kSigTerm (t1 + 1) = Some (r, t2, sent)" using send by (metis prod_cases3)
  obtain w t3 where "pp_WaitForExit k process graceful_timeout t2 = Some (w, t3)" using wait by (metis surj_pair)
  then show ?thesis using new s force by (cases r) (auto simp: TerminateGracefully_def)
qed

text \<open>
  A kernel under which the process with id 7 and start time 5 stays until it is killed: descriptors are
  available, the first signal is delivered, and the process is seen to have exited.
\<close>

definition example_kernel :: kernel where
  "example_kernel =
     \<lparr>kn_stat = (\<lambda>t pid. Some (''7 (x) S'' @ concat (replicate 18 '' 0'') @ '' 5'')),
      kn_pidfd_open = (\<lambda>_ _. PidFdOpened), kn_send = (\<lambda>t sig. if t = 2 then SendInterrupted else SendOk),
      kn_poll = (\<lambda>_. ProbeReadable), kn_clock = (\<lambda>t. int t * 1000)\<rparr>"

lemma example_identity: "ProcessStartTime (kn_stat example_kernel t) 7 = 5"
proof -
  have "kn_stat example_kernel t = kn_stat example_kernel 0" by (simp add: example_kernel_def)
  moreover have "ProcessStartTime (kn_stat example_kernel 0) 7 = 5" by code_simp
  ultimately show ?thesis by simp
qed

lemma example_answers:
  "kn_pidfd_open example_kernel t pid = PidFdOpened"
  "kn_send example_kernel t sig = (if t = 2 then SendInterrupted else SendOk)"
  "kn_poll example_kernel t = ProbeReadable"
  by (simp_all add: example_kernel_def)

lemma example_fair: "fair_kernel example_kernel"
proof -
  have "\<exists>n. kn_send example_kernel (t + n) sig \<noteq> SendInterrupted" for t sig
    by (rule exI [of _ "if t = 2 then 1 else 0"]) (simp add: example_answers)
  moreover have "\<exists>t. d \<le> kn_clock example_kernel t" for d
    by (rule exI [of _ "nat d"]) (simp add: example_kernel_def)
  moreover have "mono (kn_clock example_kernel)" by (simp add: mono_def example_kernel_def)
  ultimately show ?thesis unfolding fair_kernel_def by blast
qed

theorem terminate_returns_witness: "\<exists>r. TerminateGracefully example_kernel 7 5 2000 1000 0 = Some r"
  by (rule terminate_returns [OF example_fair])

lemma example_terminated:
  "TerminateGracefully example_kernel 7 5 2000 1000 0 = Some (ended ToExited, [ViaDescriptor kSigTerm 0])"
proof -
  define p where "p = \<lparr>pp_pid = 7, pp_start_time = 5, pp_pidfd = Some (0 :: nat), pp_no_such_process = False\<rparr>"
  have new: "new_PinnedProcess example_kernel 7 5 0 = (p, 1)"
    by (simp add: new_PinnedProcess_def example_answers p_def)
  have ok: "\<not> PinObservedNoSuchProcess p" "Matches example_kernel p 1"
    by (simp_all add: PinObservedNoSuchProcess_def Matches_def ProcessIdentityMatches_def p_def example_identity)
  have "signal_descriptor example_kernel kSigTerm 0 2 = Some (SoDelivered, 4, [ViaDescriptor kSigTerm 0])"
    by (subst signal_descriptor.simps, simp add: example_answers, subst signal_descriptor.simps, simp add: example_answers)
  then have sig: "pp_Signal example_kernel p kSigTerm 2 = Some (SoDelivered, 4, [ViaDescriptor kSigTerm 0])"
    by (simp add: pp_Signal_def p_def)
  have "pp_Probe example_kernel p 5 = (PsExited, 6)"
    by (simp add: pp_Probe_def p_def kIdentityProbeAttempts_def numeral_3_eq_3 example_answers)
  then have "pp_WaitForExit example_kernel p 2000 4 = Some (EwExited, 6)"
    by (simp add: pp_WaitForExit_def wait_loop.simps)
  then show ?thesis using new ok sig by (simp add: TerminateGracefully_def numeral_2_eq_2)
qed

theorem terminate_signals_recorded_witness:
  "pp_pidfd (fst (new_PinnedProcess example_kernel 7 5 0)) = Some 0 \<and> identity_at example_kernel 0 7 = 5"
proof -
  have "identity_kept example_kernel 7 5 0" by (simp add: identity_kept_def identity_at_def example_identity)
  moreover have "pp_pidfd (fst (new_PinnedProcess example_kernel 7 5 0)) = Some 0"
    by (simp add: new_PinnedProcess_def example_kernel_def)
  ultimately show ?thesis using terminate_signals_recorded [OF example_terminated] by simp
qed

end
