(* ===== verification/Managed_Clients.thy ===== *)
theory Managed_Clients
  imports Process_Control Process_Session Core_Config "HOL-Library.Multiset"
begin

text \<open>
  \<open>src/common/client/client_manager.cpp\<close>: the framing of a client's output into lines, the PID
  records on disk, and the starting, stopping and shutting down of client processes.

  The operations run on any number of threads and share the table of sessions and the set of
  reservations under one mutex. A thread's program is a list of tasks; a task is what the code does
  without another thread being able to observe an intermediate state of the shared data (one critical
  section, or one call that does not touch it), and threads take turns in any order. The answers of the
  system (process table, spawning, the start probe, the write of a PID file) come with each turn.
\<close>

section \<open>Lines from a client\<close>

definition kMaxCommandLineBytes :: nat where "kMaxCommandLineBytes = 64 * 1024"

record StdoutFramer =
  fr_pending :: string
  fr_overflow :: bool

definition new_framer :: StdoutFramer where
  "new_framer = \<lparr>fr_pending = [], fr_overflow = False\<rparr>"

definition feed_byte :: "string list \<times> StdoutFramer \<Rightarrow> char \<Rightarrow> string list \<times> StdoutFramer" where
  "feed_byte st c =
     (case st of
        (lines, f) \<Rightarrow>
          if c = CHR 0x0A then
            (if \<not> fr_overflow f then lines @ [fr_pending f] else lines,
             f\<lparr>fr_pending := [], fr_overflow := False\<rparr>)
          else if c \<noteq> CHR 0x0D then
            (if length (fr_pending f) \<ge> kMaxCommandLineBytes then (lines, f\<lparr>fr_overflow := True\<rparr>)
             else (lines, f\<lparr>fr_pending := fr_pending f @ [c]\<rparr>))
          else (lines, f))"

text \<open>The lines handed to the command handler and the framer afterwards.\<close>

definition Feed :: "bytes \<Rightarrow> StdoutFramer \<Rightarrow> string list \<times> StdoutFramer" where
  "Feed bs f = foldl feed_byte ([], f) bs"

section \<open>PID records\<close>

record PidRecord =
  pr_pid :: int
  pr_start_time :: int

definition no_record :: PidRecord where
  "no_record = \<lparr>pr_pid = - 1, pr_start_time = 0\<rparr>"

text \<open>
  \<open>stream >> integer\<close>: white space, a sign, the longest run of digits. Without digits the value is
  zero, out of range it is the nearest bound, and in both cases the stream has failed; an unsigned
  number with a minus sign wraps around.
\<close>

definition scan_integer :: "string \<Rightarrow> (bool \<times> int \<times> string) option" where
  "scan_integer s =
     (let r = dropWhile is_space s;
          neg = starts_with r ''-'';
          body = (if neg \<or> starts_with r ''+'' then drop 1 r else r);
          ds = takeWhile is_digit body
      in if ds = [] then None else Some (neg, digits_value 0 ds, dropWhile is_digit body))"

definition extract_int :: "string \<Rightarrow> int \<times> string option" where
  "extract_int s =
     (case scan_integer s of
        None \<Rightarrow> (0, None)
      | Some (neg, n, rest) \<Rightarrow>
          (let v = (if neg then - n else n) in
           if v < int32_min then (int32_min, None) else if int32_max < v then (int32_max, None)
           else (v, Some rest)))"

definition extract_u64 :: "string \<Rightarrow> int" where
  "extract_u64 s =
     (case scan_integer s of
        None \<Rightarrow> 0
      | Some (neg, n, rest) \<Rightarrow> if n > u64_max then u64_max else if neg then (2 ^ 64 - n) mod 2 ^ 64 else n)"

definition read_record :: "string option \<Rightarrow> PidRecord" where
  "read_record file =
     (case file of
        None \<Rightarrow> no_record
      | Some s \<Rightarrow>
          (case extract_int s of
             (pid, rest) \<Rightarrow>
               (let start_time = (case rest of None \<Rightarrow> 0 | Some r \<Rightarrow> extract_u64 r) in
                if pid \<le> 0 then no_record
                else \<lparr>pr_pid = pid, pr_start_time = start_time\<rparr>)))"

definition PidPath :: "string \<Rightarrow> string \<Rightarrow> string" where
  "PidPath runtime_dir client_id =
     (if client_id = [] \<or> CHR ''/'' \<in> set client_id then []
      else runtime_dir @ ''/'' @ client_id @ ''.pid'')"

text \<open>The text to write, or why none is written.\<close>

definition pid_record_text :: "string \<Rightarrow> (int \<Rightarrow> string option) \<Rightarrow> int \<Rightarrow> string + string" where
  "pid_record_text noun stat pid =
     (if pid \<le> 0 then Inl (''refusing to persist a non-positive '' @ noun @ '' pid'')
      else
        (let start_time = ProcessStartTime stat pid in
         if start_time = 0
         then Inl (''failed to read process start time for '' @ noun @ '' pid '' @ to_string pid)
         else Inr (to_string pid @ '' '' @ to_string start_time)))"

definition client_BuildCommandSpec :: "ClientSpec \<Rightarrow> CommandSpec" where
  "client_BuildCommandSpec client =
     \<lparr>sp_command = cs_command client, sp_args = cs_args client, sp_env = cs_env client, sp_timeout_ms = 0\<rparr>"

definition client_SourceId :: "string \<Rightarrow> string" where
  "client_SourceId client_id = ''client:'' @ client_id"

definition FindClient :: "CoreConfig \<Rightarrow> string \<Rightarrow> ClientSpec option" where
  "FindClient config client_id =
     (case view_Trigger config client_id of Some t \<Rightarrow> Some t | None \<Rightarrow> view_Receiver config client_id)"

section \<open>State and tasks\<close>

text \<open>
  A child has a number of its own; how children ended is recorded, with a session that was destroyed
  because another one took its place in the table as \<open>EndReplaced\<close>.
\<close>

record TrackedSession =
  tk_child :: nat
  tk_pid :: int
  tk_session :: psession
  tk_bridge :: bool
  tk_framer :: StdoutFramer

datatype ending = EndExited | EndCancelled | EndReplaced

datatype task =
    StartCheck ClientSpec bool
  | StartIdentity ClientSpec bool
  | StartReserve ClientSpec bool
  | StartSpawn ClientSpec bool
  | StartRecord string TrackedSession
  | StartPublish string TrackedSession
  | ReapCleanup string bool
  | StopTake string bool
  | StopTracked string bool TrackedSession
  | StopRecorded string bool
  | ShutdownTake
  | ShutdownWait "(string \<times> TrackedSession) list"
  | BroadcastLine string

record client_state =
  mg_pending :: "string list"
  mg_sessions :: "TrackedSession smap"
  mg_pid_files :: "string \<Rightarrow> string option"
  mg_retired :: "string list"
  mg_children :: nat
  mg_ended :: "(nat \<times> ending) list"
  mg_threads :: "(nat \<times> task list) list"
  mg_results :: "(nat \<times> (string + unit)) list"

definition new_clients :: client_state where
  "new_clients =
     \<lparr>mg_pending = [], mg_sessions = [], mg_pid_files = (\<lambda>_. None), mg_retired = [],
      mg_children = 0, mg_ended = [], mg_threads = [], mg_results = []\<rparr>"

record client_env =
  en_runtime_dir :: string
  en_kernel :: kernel
  en_spawn :: "CommandSpec \<Rightarrow> string + int"
  en_probe :: "int option"
  en_atomic_write :: "string option"
  en_room :: "string \<Rightarrow> bool"

definition kGracefulStopTimeout :: int where "kGracefulStopTimeout = 2000"
definition kForceKillTimeout :: int where "kForceKillTimeout = 1000"

section \<open>The tasks\<close>

definition retire :: "bool \<Rightarrow> string \<Rightarrow> client_state \<Rightarrow> client_state" where
  "retire bridge source_id m = (if bridge then m\<lparr>mg_retired := mg_retired m @ [source_id]\<rparr> else m)"

definition RemovePidFile :: "client_env \<Rightarrow> string \<Rightarrow> client_state \<Rightarrow> client_state" where
  "RemovePidFile en i m = m\<lparr>mg_pid_files := (mg_pid_files m)(PidPath (en_runtime_dir en) i := None)\<rparr>"

definition ReadPidRecord :: "client_env \<Rightarrow> string \<Rightarrow> client_state \<Rightarrow> PidRecord" where
  "ReadPidRecord en i m = read_record (mg_pid_files m (PidPath (en_runtime_dir en) i))"

definition WritePidFile :: "client_env \<Rightarrow> string \<Rightarrow> int \<Rightarrow> client_state \<Rightarrow> (string + unit) \<times> client_state" where
  "WritePidFile en i pid m =
     (case pid_record_text ''client'' (kn_stat (en_kernel en) 0) pid of
        Inl e \<Rightarrow> (Inl e, m)
      | Inr content \<Rightarrow>
          (case en_atomic_write en of
             Some e \<Rightarrow> (Inl e, m)
           | None \<Rightarrow>
               (Inr (), m\<lparr>mg_pid_files := (mg_pid_files m)(PidPath (en_runtime_dir en) i \<mapsto> content)\<rparr>)))"

text \<open>
  The critical section of \<open>GetPid\<close>: the process id of a session that runs, an exited session taken
  out of the table (to be cleaned up outside of it), or nothing tracked.
\<close>

datatype tracked_query = QueryRunning int | QueryReaped bool | QueryUntracked

definition GetPid_tracked :: "string \<Rightarrow> client_state \<Rightarrow> tracked_query \<times> client_state" where
  "GetPid_tracked i m =
     (case map_of (mg_sessions m) i of
        None \<Rightarrow> (QueryUntracked, m)
      | Some t \<Rightarrow>
          if HasExited (tk_session t) \<noteq> None then
            (QueryReaped (tk_bridge t),
             m\<lparr>mg_sessions := smap_erase i (mg_sessions m), mg_ended := mg_ended m @ [(tk_child t, EndExited)]\<rparr>)
          else (QueryRunning (tk_pid t), m))"

definition GetPid_recorded :: "client_env \<Rightarrow> string \<Rightarrow> client_state \<Rightarrow> int" where
  "GetPid_recorded en i m =
     (let r = ReadPidRecord en i m in
      if ProcessIdentityMatches (kn_stat (en_kernel en) 0) (pr_pid r) (pr_start_time r) then pr_pid r else - 1)"

definition already_running :: "string + unit" where
  "already_running = Inl ''client is already running''"

definition release :: "string \<Rightarrow> client_state \<Rightarrow> client_state" where
  "release i m = m\<lparr>mg_pending := removeAll i (mg_pending m)\<rparr>"

text \<open>What a task leaves to do, its effect, and the result if the call ends with it.\<close>

type_synonym task_result = "task list \<times> client_state \<times> (string + unit) option"

definition start_check :: "ClientSpec \<Rightarrow> bool \<Rightarrow> client_state \<Rightarrow> task_result" where
  "start_check spec bridge m =
     (if PidPath [] (cs_id spec) = []
      then ([], m, Some (Inl ''client id must not contain path separators''))
      else if cs_command spec = [] then ([], m, Some (Inl ''client command is not configured''))
      else
        (case GetPid_tracked (cs_id spec) m of
           (QueryRunning pid, m1) \<Rightarrow>
             if pid > 0 then ([], m1, Some already_running) else ([StartReserve spec bridge], m1, None)
         | (QueryReaped b, m1) \<Rightarrow> ([ReapCleanup (cs_id spec) b, StartReserve spec bridge], m1, None)
         | (QueryUntracked, m1) \<Rightarrow> ([StartIdentity spec bridge], m1, None)))"

definition start_identity :: "client_env \<Rightarrow> ClientSpec \<Rightarrow> bool \<Rightarrow> client_state \<Rightarrow> task_result" where
  "start_identity en spec bridge m =
     (if GetPid_recorded en (cs_id spec) m > 0 then ([], m, Some already_running)
      else ([StartReserve spec bridge], m, None))"

definition start_reserve :: "ClientSpec \<Rightarrow> bool \<Rightarrow> client_state \<Rightarrow> task_result" where
  "start_reserve spec bridge m =
     (if map_of (mg_sessions m) (cs_id spec) \<noteq> None \<or> cs_id spec \<in> set (mg_pending m)
      then ([], m, Some already_running)
      else ([StartSpawn spec bridge], m\<lparr>mg_pending := cs_id spec # mg_pending m\<rparr>, None))"

definition start_spawn :: "client_env \<Rightarrow> ClientSpec \<Rightarrow> bool \<Rightarrow> client_state \<Rightarrow> task_result" where
  "start_spawn en spec bridge m =
     (let i = cs_id spec; source_id = client_SourceId i in
      case en_spawn en (client_BuildCommandSpec spec) of
        Inl e \<Rightarrow> ([], release i m, Some (Inl (if e = [] then ''failed to start client'' else e)))
      | Inr pid \<Rightarrow>
          (let child = mg_children m; m1 = m\<lparr>mg_children := child + 1\<rparr> in
           case en_probe en of
             Some code \<Rightarrow>
               ([], release i ((retire bridge source_id m1)\<lparr>mg_ended := mg_ended m1 @ [(child, EndExited)]\<rparr>),
                Some (Inl (''client exited immediately (code '' @ to_string code @ '')'')))
           | None \<Rightarrow>
               ([StartRecord i
                   \<lparr>tk_child = child, tk_pid = pid, tk_session = new_psession True True, tk_bridge = bridge,
                    tk_framer = new_framer\<rparr>], m1, None)))"

definition start_record :: "client_env \<Rightarrow> string \<Rightarrow> TrackedSession \<Rightarrow> client_state \<Rightarrow> task_result" where
  "start_record en i t m =
     (case WritePidFile en i (tk_pid t) m of
        (Inl e, m1) \<Rightarrow>
          ([], release i ((retire (tk_bridge t) (client_SourceId i) m1)
                 \<lparr>mg_ended := mg_ended m1 @ [(tk_child t, EndCancelled)]\<rparr>), Some (Inl e))
      | (Inr _, m1) \<Rightarrow> ([StartPublish i t], m1, None))"

definition start_publish :: "string \<Rightarrow> TrackedSession \<Rightarrow> client_state \<Rightarrow> task_result" where
  "start_publish i t m =
     ([], release i (m\<lparr>mg_sessions := smap_put i t (mg_sessions m),
            mg_ended := mg_ended m @ (case map_of (mg_sessions m) i of
                                         None \<Rightarrow> [] | Some old \<Rightarrow> [(tk_child old, EndReplaced)])\<rparr>),
      Some (Inr ()))"

definition reap_cleanup :: "client_env \<Rightarrow> string \<Rightarrow> bool \<Rightarrow> client_state \<Rightarrow> task_result" where
  "reap_cleanup en i bridge m = ([], RemovePidFile en i (retire bridge (client_SourceId i) m), None)"

definition stop_take :: "string \<Rightarrow> bool \<Rightarrow> client_state \<Rightarrow> task_result" where
  "stop_take i bridge m =
     (case map_of (mg_sessions m) i of
        Some t \<Rightarrow> ([StopTracked i bridge t], m\<lparr>mg_sessions := smap_erase i (mg_sessions m)\<rparr>, None)
      | None \<Rightarrow> ([StopRecorded i bridge], m, None))"

definition stop_tracked :: "client_env \<Rightarrow> string \<Rightarrow> bool \<Rightarrow> TrackedSession \<Rightarrow> client_state \<Rightarrow> task_result" where
  "stop_tracked en i bridge t m =
     ([], RemovePidFile en i ((retire (bridge \<or> tk_bridge t) (client_SourceId i) m)
            \<lparr>mg_ended := mg_ended m @ [(tk_child t, EndCancelled)]\<rparr>), Some (Inr ()))"

definition stop_message :: "string \<Rightarrow> string \<Rightarrow> TerminateResult \<Rightarrow> string + unit" where
  "stop_message noun i res =
     (case tr_outcome res of
        ToExited \<Rightarrow> Inr ()
      | ToNotFound \<Rightarrow> Inl (noun @ '' is not running: '' @ i)
      | ToStillRunning \<Rightarrow> Inl (noun @ '' did not exit after SIGKILL: '' @ i)
      | ToUnconfirmed \<Rightarrow> Inl (''could not confirm that '' @ noun @ '' stopped: '' @ i)
      | ToFailed \<Rightarrow>
          Inl ((if tr_failed_signal res = kSigKill then ''failed to force-kill '' @ noun @ '' ''
                else ''failed to signal '' @ noun @ '' '') @ i @ '': '' @ tr_error res))"

text \<open>A termination that has not returned leaves the task as it is.\<close>

definition stop_recorded :: "client_env \<Rightarrow> string \<Rightarrow> bool \<Rightarrow> client_state \<Rightarrow> task_result" where
  "stop_recorded en i bridge m =
     (let r = ReadPidRecord en i m in
      case TerminateGracefully (en_kernel en) (pr_pid r) (pr_start_time r) kGracefulStopTimeout
             kForceKillTimeout 0 of
        None \<Rightarrow> ([StopRecorded i bridge], m, None)
      | Some (res, _) \<Rightarrow>
          (let m1 = retire bridge (client_SourceId i) m;
               m2 = (if tr_outcome res = ToExited \<or> tr_outcome res = ToNotFound
                     then RemovePidFile en i m1 else m1)
           in ([], m2, Some (stop_message ''client'' i res))))"

definition shutdown_take :: "client_state \<Rightarrow> task_result" where
  "shutdown_take m = ([ShutdownWait (mg_sessions m)], m\<lparr>mg_sessions := []\<rparr>, None)"

definition shutdown_one :: "client_env \<Rightarrow> string \<times> TrackedSession \<Rightarrow> client_state \<Rightarrow> client_state" where
  "shutdown_one en e m =
     RemovePidFile en (fst e) ((retire (tk_bridge (snd e)) (client_SourceId (fst e)) m)
       \<lparr>mg_ended := mg_ended m @ [(tk_child (snd e), EndCancelled)]\<rparr>)"

definition Broadcast :: "client_env \<Rightarrow> string \<Rightarrow> client_state \<Rightarrow> client_state" where
  "Broadcast en line m =
     m\<lparr>mg_sessions := map (\<lambda>(i, t).
         (i, t\<lparr>tk_session := snd (PushStdin (en_room en i) (line @ [CHR 0x0A]) (tk_session t))\<rparr>)) (mg_sessions m)\<rparr>"

fun exec_task :: "client_env \<Rightarrow> task \<Rightarrow> client_state \<Rightarrow> task_result" where
  "exec_task en (StartCheck spec b) m = start_check spec b m"
| "exec_task en (StartIdentity spec b) m = start_identity en spec b m"
| "exec_task en (StartReserve spec b) m = start_reserve spec b m"
| "exec_task en (StartSpawn spec b) m = start_spawn en spec b m"
| "exec_task en (StartRecord i t) m = start_record en i t m"
| "exec_task en (StartPublish i t) m = start_publish i t m"
| "exec_task en (ReapCleanup i b) m = reap_cleanup en i b m"
| "exec_task en (StopTake i b) m = stop_take i b m"
| "exec_task en (StopTracked i b t) m = stop_tracked en i b t m"
| "exec_task en (StopRecorded i b) m = stop_recorded en i b m"
| "exec_task en ShutdownTake m = shutdown_take m"
| "exec_task en (ShutdownWait []) m = ([], m, None)"
| "exec_task en (ShutdownWait (e # es)) m = ([ShutdownWait es], shutdown_one en e m, None)"
| "exec_task en (BroadcastLine line) m = ([], Broadcast en line m, None)"

section \<open>Calls and turns\<close>

definition Start :: "CoreConfig \<Rightarrow> string \<Rightarrow> bool \<Rightarrow> task list + string" where
  "Start config client_id bridge =
     (case FindClient (NormalizeCoreConfig config) client_id of
        None \<Rightarrow> Inr ''client not found''
      | Some spec \<Rightarrow> Inl [StartCheck spec bridge])"

definition AutoStart :: "CoreConfig \<Rightarrow> bool \<Rightarrow> task list" where
  "AutoStart config bridge =
     map (\<lambda>spec. StartCheck spec bridge)
       (filter cs_autoStart (cc_triggers config) @ filter cs_autoStart (cc_receivers config))"

datatype call =
    CallStart CoreConfig string bool
  | CallAutoStart CoreConfig bool
  | CallStop string bool
  | CallShutdown
  | CallBroadcast string
  | CallGetPid string

text \<open>\<open>GetPid\<close> on its own: what it leaves to clean up.\<close>

definition call_get_pid :: "string \<Rightarrow> client_state \<Rightarrow> task list \<times> client_state" where
  "call_get_pid i m =
     (case GetPid_tracked i m of
        (QueryReaped b, m1) \<Rightarrow> ([ReapCleanup i b], m1)
      | (_, m1) \<Rightarrow> ([], m1))"

definition begin_call :: "nat \<Rightarrow> call \<Rightarrow> client_state \<Rightarrow> client_state" where
  "begin_call thread c m =
     (case c of
        CallStart config i bridge \<Rightarrow>
          (case Start config i bridge of
             Inl ts \<Rightarrow> m\<lparr>mg_threads := (thread, ts) # mg_threads m\<rparr>
           | Inr e \<Rightarrow> m\<lparr>mg_results := mg_results m @ [(thread, Inl e)]\<rparr>)
      | CallAutoStart config bridge \<Rightarrow> m\<lparr>mg_threads := (thread, AutoStart config bridge) # mg_threads m\<rparr>
      | CallStop i bridge \<Rightarrow> m\<lparr>mg_threads := (thread, [StopTake i bridge]) # mg_threads m\<rparr>
      | CallShutdown \<Rightarrow> m\<lparr>mg_threads := (thread, [ShutdownTake]) # mg_threads m\<rparr>
      | CallBroadcast line \<Rightarrow> m\<lparr>mg_threads := (thread, [BroadcastLine line]) # mg_threads m\<rparr>
      | CallGetPid i \<Rightarrow>
          (case call_get_pid i m of (ts, m1) \<Rightarrow> m1\<lparr>mg_threads := (thread, ts) # mg_threads m1\<rparr>))"

text \<open>One turn of the \<open>k\<close>-th program: its first task is replaced by what it leaves to do.\<close>

definition take_turn :: "client_env \<Rightarrow> nat \<Rightarrow> client_state \<Rightarrow> client_state" where
  "take_turn en k m =
     (if k < length (mg_threads m) then
        (case mg_threads m ! k of
           (thread, []) \<Rightarrow> m
         | (thread, t # ts) \<Rightarrow>
             (case exec_task en t m of
                (new, m1, res) \<Rightarrow>
                  m1\<lparr>mg_threads := (mg_threads m)[k := (thread, new @ ts)],
                     mg_results := mg_results m1 @ (case res of None \<Rightarrow> [] | Some r \<Rightarrow> [(thread, r)])\<rparr>))
      else m)"

text \<open>A tracked session moves on its own: its pump works, its process exits, its output is framed.\<close>

definition session_moves :: "string \<Rightarrow> psession \<Rightarrow> StdoutFramer \<Rightarrow> client_state \<Rightarrow> client_state" where
  "session_moves i s f m =
     m\<lparr>mg_sessions := map (\<lambda>(j, t). (j, if j = i then t\<lparr>tk_session := s, tk_framer := f\<rparr> else t)) (mg_sessions m)\<rparr>"

datatype manager_event = BeginCall nat call | TakeTurn client_env nat | SessionMoves string psession StdoutFramer

fun manager_step :: "client_state \<Rightarrow> manager_event \<Rightarrow> client_state" where
  "manager_step m (BeginCall thread c) = begin_call thread c m"
| "manager_step m (TakeTurn en k) = take_turn en k m"
| "manager_step m (SessionMoves i s f) = session_moves i s f m"

section \<open>Nothing is replaced and no child is lost\<close>

text \<open>The reservation a task holds and the children it is responsible for.\<close>

fun task_reserved :: "task \<Rightarrow> string multiset" where
  "task_reserved (StartSpawn spec b) = {#cs_id spec#}"
| "task_reserved (StartRecord i t) = {#i#}"
| "task_reserved (StartPublish i t) = {#i#}"
| "task_reserved _ = {#}"

fun task_children :: "task \<Rightarrow> nat multiset" where
  "task_children (StartRecord i t) = {#tk_child t#}"
| "task_children (StartPublish i t) = {#tk_child t#}"
| "task_children (StopTracked i b t) = {#tk_child t#}"
| "task_children (ShutdownWait es) = mset (map (tk_child \<circ> snd) es)"
| "task_children _ = {#}"

definition all_tasks :: "client_state \<Rightarrow> task list" where
  "all_tasks m = concat (map snd (mg_threads m))"

definition reserved :: "task multiset \<Rightarrow> string multiset" where
  "reserved M = (\<Sum>t\<in>#M. task_reserved t)"

definition held_children :: "task multiset \<Rightarrow> nat multiset" where
  "held_children M = (\<Sum>t\<in>#M. task_children t)"

definition tracked_children :: "client_state \<Rightarrow> nat multiset" where
  "tracked_children m = mset (map (tk_child \<circ> snd) (mg_sessions m))"

definition manager_ok :: "task multiset \<Rightarrow> client_state \<Rightarrow> bool" where
  "manager_ok M m \<longleftrightarrow>
     reserved M = mset (mg_pending m) \<and> distinct (mg_pending m)
     \<and> (\<forall>i\<in>set (mg_pending m). map_of (mg_sessions m) i = None)
     \<and> distinct (map fst (mg_sessions m))
     \<and> EndReplaced \<notin> snd ` set (mg_ended m)
     \<and> tracked_children m + held_children M + mset (map fst (mg_ended m)) = mset [0..<mg_children m]"

lemma reserved_simps [simp]: "reserved {#} = {#}" "reserved (add_mset t M) = task_reserved t + reserved M"
  "reserved (M + N) = reserved M + reserved N"
  by (simp_all add: reserved_def)

lemma held_simps [simp]: "held_children {#} = {#}" "held_children (add_mset t M) = task_children t + held_children M"
  "held_children (M + N) = held_children M + held_children N"
  by (simp_all add: held_children_def)

lemma smap_erase_mset:
  assumes "distinct (map fst m)" and "map_of m i = Some t"
  shows "mset (map f m) = add_mset (f (i, t)) (mset (map f (smap_erase i m)))"
  using assms
proof (induction m)
  case (Cons e m)
  obtain j u where e: "e = (j, u)" by (rule prod.exhaust)
  show ?case
  proof (cases "j = i")
    case True
    then have "filter (\<lambda>(k, _). k \<noteq> i) m = m"
      using Cons.prems(1) by (auto simp: e filter_id_conv image_iff)
    then show ?thesis using True Cons.prems by (simp add: e smap_erase_def)
  next
    case False
    then show ?thesis using Cons by (simp add: e smap_erase_def)
  qed
qed simp

lemma smap_put_mset:
  "map_of m i = None \<Longrightarrow> mset (map f (smap_put i t m)) = add_mset (f (i, t)) (mset (map f m))"
  by (induction m) (auto split: if_splits)

lemma smap_erase_distinct: "distinct (map fst m) \<Longrightarrow> distinct (map fst (smap_erase i m))"
  by (auto simp: smap_erase_def distinct_map filter_id_conv intro: inj_on_subset)

lemma smap_put_distinct: "distinct (map fst m) \<Longrightarrow> map_of m i = None \<Longrightarrow> distinct (map fst (smap_put i t m))"
proof -
  assume m: "distinct (map fst m)" "map_of m i = None"
  have "mset (map fst (smap_put i t m)) = add_mset i (mset (map fst m))" using smap_put_mset [OF m(2), of fst t] by simp
  then have "mset (map fst (smap_put i t m)) = mset (i # map fst m)" by simp
  moreover have "distinct (i # map fst m)" using m by (simp add: map_of_eq_None_iff)
  ultimately show ?thesis by (metis mset_eq_imp_distinct_iff)
qed

text \<open>Changes that do not concern the reservations, the table and the children.\<close>

lemma manager_ok_cong:
  assumes "mg_pending m' = mg_pending m" "mg_sessions m' = mg_sessions m" "mg_ended m' = mg_ended m"
    "mg_children m' = mg_children m"
  shows "manager_ok M m' = manager_ok M m"
  using assms by (simp add: manager_ok_def tracked_children_def)

lemma manager_frames [simp]:
  "mg_pending (retire b s m) = mg_pending m" "mg_sessions (retire b s m) = mg_sessions m"
  "mg_ended (retire b s m) = mg_ended m" "mg_children (retire b s m) = mg_children m"
  "mg_pending (RemovePidFile en i m) = mg_pending m" "mg_sessions (RemovePidFile en i m) = mg_sessions m"
  "mg_ended (RemovePidFile en i m) = mg_ended m" "mg_children (RemovePidFile en i m) = mg_children m"
  by (simp_all add: retire_def RemovePidFile_def)

lemma WritePidFile_frame:
  "WritePidFile en i pid m = (r, m') \<Longrightarrow> mg_pending m' = mg_pending m \<and> mg_sessions m' = mg_sessions m
     \<and> mg_ended m' = mg_ended m \<and> mg_children m' = mg_children m"
  by (auto simp: WritePidFile_def split: sum.splits option.splits)

lemma release_mset:
  assumes "distinct p" and "add_mset i R = mset p"
  shows "mset (removeAll i p) = R" and "set (removeAll i p) = set p - {i}" and "i \<in> set p"
proof -
  have "removeAll i p = remove1 i p" using assms(1) by (simp add: distinct_remove1_removeAll)
  then show "mset (removeAll i p) = R" using assms(2) by (metis add_mset_remove_trivial mset_remove1)
  show "set (removeAll i p) = set p - {i}" by simp
  show "i \<in> set p" using assms(2) by (metis set_mset_mset union_single_eq_member)
qed

lemma release_ok:
  assumes "manager_ok (add_mset t M) m" and "task_reserved t = {#i#}"
    and "mg_pending m' = removeAll i (mg_pending m)"
    and "distinct (map fst (mg_sessions m'))" "\<forall>j. j \<noteq> i \<longrightarrow> map_of (mg_sessions m') j = map_of (mg_sessions m) j"
    and "EndReplaced \<notin> snd ` set (mg_ended m')"
    and "tracked_children m' + held_children M + mset (map fst (mg_ended m')) = mset [0..<mg_children m']"
  shows "manager_ok M m'"
proof -
  have p: "distinct (mg_pending m)" "add_mset i (reserved M) = mset (mg_pending m)"
    using assms(1,2) by (auto simp: manager_ok_def)
  show ?thesis
    using assms release_mset [OF p] p(1) by (auto simp: manager_ok_def distinct_removeAll)
qed

lemma exec_task_ok:
  assumes "manager_ok (add_mset t M) m" and "exec_task en t m = (new, m', res)"
  shows "manager_ok (mset new + M) m'"
proof (cases t)
  case (StartCheck spec b)
  then show ?thesis
    using assms smap_erase_mset [of "mg_sessions m" "cs_id spec" _ "tk_child \<circ> snd"]
    by (auto simp: start_check_def GetPid_tracked_def manager_ok_def tracked_children_def smap_erase_distinct
        split: if_splits option.splits)
next
  case (StartIdentity spec b)
  then show ?thesis using assms by (auto simp: start_identity_def manager_ok_def split: if_splits)
next
  case (StartReserve spec b)
  show ?thesis
  proof (cases "map_of (mg_sessions m) (cs_id spec) \<noteq> None \<or> cs_id spec \<in> set (mg_pending m)")
    case True
    then have "new = []" "m' = m" using assms(2) by (simp_all add: StartReserve start_reserve_def)
    then show ?thesis using assms(1) by (simp add: StartReserve manager_ok_def)
  next
    case False
    then have "new = [StartSpawn spec b]" "m' = m\<lparr>mg_pending := cs_id spec # mg_pending m\<rparr>"
      using assms(2) by (auto simp: StartReserve start_reserve_def)
    moreover have "map_of (mg_sessions m) (cs_id spec) = None" "cs_id spec \<notin> set (mg_pending m)" using False by blast+
    ultimately show ?thesis using assms(1) by (simp add: StartReserve manager_ok_def tracked_children_def)
  qed
next
  case (StartSpawn spec b)
  note ok = assms(1) [unfolded StartSpawn]
  consider (failed) "new = []" "m' = release (cs_id spec) m"
    | (exited) "new = []" "m' = release (cs_id spec) ((retire b (client_SourceId (cs_id spec)) (m\<lparr>mg_children := mg_children m + 1\<rparr>))
          \<lparr>mg_ended := mg_ended m @ [(mg_children m, EndExited)]\<rparr>)"
    | (alive) s where "new = [StartRecord (cs_id spec) s]" "tk_child s = mg_children m" "m' = m\<lparr>mg_children := mg_children m + 1\<rparr>"
    using assms(2) by (auto simp: StartSpawn start_spawn_def Let_def split: sum.splits option.splits)
  then show ?thesis
  proof cases
    case failed
    then show ?thesis
      using release_ok [OF ok, of "cs_id spec" m'] ok by (auto simp: manager_ok_def release_def tracked_children_def)
  next
    case exited
    then show ?thesis
      using release_ok [OF ok, of "cs_id spec" m'] ok by (auto simp: manager_ok_def release_def tracked_children_def)
  next
    case alive
    then show ?thesis using ok by (auto simp: manager_ok_def tracked_children_def)
  qed
next
  case (StartRecord i s)
  note ok = assms(1) [unfolded StartRecord]
  obtain r m1 where w: "WritePidFile en i (tk_pid s) m = (r, m1)" by (rule prod.exhaust)
  note f = WritePidFile_frame [OF w]
  show ?thesis
  proof (cases r)
    case (Inl e)
    then have "new = []" and m': "m' = release i ((retire (tk_bridge s) (client_SourceId i) m1)
        \<lparr>mg_ended := mg_ended m1 @ [(tk_child s, EndCancelled)]\<rparr>)"
      using assms(2) w by (auto simp: StartRecord start_record_def)
    then show ?thesis
      using release_ok [OF ok, of i m'] ok f by (auto simp: manager_ok_def release_def tracked_children_def)
  next
    case (Inr u)
    then have "new = [StartPublish i s]" "m' = m1" using assms(2) w by (auto simp: StartRecord start_record_def)
    then show ?thesis using ok f by (auto simp: manager_ok_def tracked_children_def)
  qed
next
  case (StartPublish i s)
  note ok = assms(1) [unfolded StartPublish]
  have p: "distinct (mg_pending m)" "add_mset i (reserved M) = mset (mg_pending m)" using ok by (simp_all add: manager_ok_def)
  then have none: "map_of (mg_sessions m) i = None" using ok release_mset(3) [OF p] by (simp add: manager_ok_def)
  have "new = []" and m': "m' = release i (m\<lparr>mg_sessions := smap_put i s (mg_sessions m), mg_ended := mg_ended m\<rparr>)"
    using assms(2) none by (auto simp: StartPublish start_publish_def)
  then show ?thesis
    using release_ok [OF ok, of i m'] ok smap_put_distinct [OF _ none, of s] smap_put_mset [OF none, of "tk_child \<circ> snd" s]
    by (auto simp: manager_ok_def release_def tracked_children_def)
next
  case (ReapCleanup i b)
  then show ?thesis using assms by (auto simp: reap_cleanup_def manager_ok_def tracked_children_def)
next
  case (StopTake i b)
  then show ?thesis
    using assms smap_erase_mset [of "mg_sessions m" i _ "tk_child \<circ> snd"]
    by (auto simp: stop_take_def manager_ok_def tracked_children_def smap_erase_distinct split: option.splits)
next
  case (StopTracked i b s)
  then show ?thesis using assms by (auto simp: stop_tracked_def manager_ok_def tracked_children_def)
next
  case (StopRecorded i b)
  then show ?thesis
    using assms by (auto simp: stop_recorded_def Let_def manager_ok_def tracked_children_def split: option.splits if_splits)
next
  case ShutdownTake
  then show ?thesis using assms by (auto simp: shutdown_take_def manager_ok_def tracked_children_def)
next
  case (ShutdownWait es)
  then show ?thesis
    using assms by (cases es) (auto simp: shutdown_one_def manager_ok_def tracked_children_def)
next
  case (BroadcastLine line)
  have "map fst (mg_sessions (Broadcast en line m)) = map fst (mg_sessions m)"
    and "map (tk_child \<circ> snd) (mg_sessions (Broadcast en line m)) = map (tk_child \<circ> snd) (mg_sessions m)"
    by (auto simp: Broadcast_def)
  moreover have "map_of (mg_sessions (Broadcast en line m)) i = None \<longleftrightarrow> map_of (mg_sessions m) i = None" for i
    using calculation(1) by (metis map_of_eq_None_iff set_map)
  moreover have "mg_pending (Broadcast en line m) = mg_pending m" "mg_ended (Broadcast en line m) = mg_ended m"
    "mg_children (Broadcast en line m) = mg_children m" by (simp_all add: Broadcast_def)
  ultimately show ?thesis using assms BroadcastLine by (auto simp: manager_ok_def tracked_children_def)
qed

text \<open>A turn takes one task off the tasks of all threads and adds what it leaves.\<close>

lemma thread_turn_mset:
  assumes "k < length ths" and "ths ! k = (thread, t # ts)"
  obtains R where "mset (concat (map snd ths)) = add_mset t R"
    and "\<And>new. mset (concat (map snd (ths[k := (thread, new @ ts)]))) = mset new + R"
proof -
  define pre where "pre = concat (map snd (take k ths))"
  define post where "post = concat (map snd (drop (Suc k) ths))"
  have "ths = take k ths @ (thread, t # ts) # drop (Suc k) ths"
    using assms id_take_nth_drop [of k ths] by simp
  then have "concat (map snd ths) = pre @ (t # ts) @ post"
    unfolding pre_def post_def by (metis (no_types, lifting) concat.simps(2) concat_append list.simps(9) map_append snd_conv)
  moreover have "concat (map snd (ths[k := (thread, new @ ts)])) = pre @ new @ ts @ post" for new
    using assms(1) by (simp add: pre_def post_def upd_conv_take_nth_drop)
  ultimately show ?thesis by (intro that [of "mset (pre @ ts @ post)"]) simp_all
qed

lemma take_turn_ok:
  assumes "manager_ok (mset (all_tasks m)) m"
  shows "manager_ok (mset (all_tasks (take_turn en k m))) (take_turn en k m)"
proof (cases "k < length (mg_threads m) \<and> snd (mg_threads m ! k) \<noteq> []")
  case True
  then obtain thread t ts where at: "mg_threads m ! k = (thread, t # ts)"
    by (metis list.exhaust prod.collapse)
  obtain new m1 res where x: "exec_task en t m = (new, m1, res)" by (metis prod_cases3)
  obtain R where R: "mset (all_tasks m) = add_mset t R"
      "\<And>new. mset (concat (map snd ((mg_threads m)[k := (thread, new @ ts)]))) = mset new + R"
    using thread_turn_mset [of k "mg_threads m", OF _ at] True unfolding all_tasks_def by blast
  then have "manager_ok (mset new + R) m1" using exec_task_ok [OF _ x] assms by metis
  moreover have "mset (all_tasks (take_turn en k m)) = mset new + R"
    using True at x R(2) by (simp add: take_turn_def all_tasks_def)
  moreover have "mg_pending (take_turn en k m) = mg_pending m1" "mg_sessions (take_turn en k m) = mg_sessions m1"
    "mg_ended (take_turn en k m) = mg_ended m1" "mg_children (take_turn en k m) = mg_children m1"
    using True at x by (simp_all add: take_turn_def)
  ultimately show ?thesis by (metis manager_ok_cong)
next
  case False
  then have "take_turn en k m = m" by (auto simp: take_turn_def split: prod.splits list.splits)
  then show ?thesis using assms by simp
qed

text \<open>A call adds tasks that hold nothing yet.\<close>

lemma begin_call_ok:
  assumes "manager_ok (mset (all_tasks m)) m"
  shows "manager_ok (mset (all_tasks (begin_call thread c m))) (begin_call thread c m)"
proof -
  have idle: "manager_ok (mset ts + mset (all_tasks m)) m"
    if "\<forall>t\<in>set ts. task_reserved t = {#} \<and> task_children t = {#}" for ts
  proof -
    have "reserved (mset ts) = {#}" "held_children (mset ts) = {#}" using that by (induction ts) simp_all
    then show ?thesis using assms by (simp add: manager_ok_def)
  qed
  have query: "manager_ok (mset ts + mset (all_tasks m)) m1 \<and> mg_threads m1 = mg_threads m" if "call_get_pid i m = (ts, m1)" for i ts m1
    using that assms smap_erase_mset [of "mg_sessions m" i _ "tk_child \<circ> snd"]
    by (auto simp: call_get_pid_def GetPid_tracked_def manager_ok_def tracked_children_def smap_erase_distinct
        split: option.splits if_splits)
  show ?thesis
  proof (cases c)
    case (CallStart config i b)
    then show ?thesis using assms
      by (auto simp: begin_call_def Start_def all_tasks_def manager_ok_def tracked_children_def split: option.splits)
  next
    case (CallAutoStart config b)
    have "manager_ok (mset (AutoStart config b) + mset (all_tasks m)) m" by (rule idle) (auto simp: AutoStart_def)
    then show ?thesis by (simp add: CallAutoStart begin_call_def all_tasks_def manager_ok_def tracked_children_def)
  next
    case (CallGetPid i)
    obtain ts m1 where q: "call_get_pid i m = (ts, m1)" by (rule prod.exhaust)
    show ?thesis using query [OF q]
      by (simp add: CallGetPid begin_call_def q all_tasks_def manager_ok_def tracked_children_def)
  qed (use assms in \<open>auto simp: begin_call_def all_tasks_def manager_ok_def tracked_children_def\<close>)
qed

lemma session_moves_ok:
  assumes "manager_ok M m"
  shows "manager_ok M (session_moves i s f m)"
proof -
  have "map fst (mg_sessions (session_moves i s f m)) = map fst (mg_sessions m)"
    and children: "map (tk_child \<circ> snd) (mg_sessions (session_moves i s f m)) = map (tk_child \<circ> snd) (mg_sessions m)"
    by (auto simp: session_moves_def)
  moreover from this(1) have "map_of (mg_sessions (session_moves i s f m)) j = None \<longleftrightarrow> map_of (mg_sessions m) j = None" for j
    by (metis map_of_eq_None_iff set_map)
  moreover have "mg_pending (session_moves i s f m) = mg_pending m" "mg_ended (session_moves i s f m) = mg_ended m"
    "mg_children (session_moves i s f m) = mg_children m" by (simp_all add: session_moves_def)
  ultimately show ?thesis using assms unfolding manager_ok_def tracked_children_def by metis
qed

interpretation clients: invariant_machine manager_step new_clients "\<lambda>m. manager_ok (mset (all_tasks m)) m"
proof unfold_locales
  show "manager_ok (mset (all_tasks new_clients)) new_clients"
    by (simp add: manager_ok_def new_clients_def all_tasks_def tracked_children_def)
next
  fix m e
  assume ok: "manager_ok (mset (all_tasks m)) m"
  show "manager_ok (mset (all_tasks (manager_step m e))) (manager_step m e)"
  proof (cases e)
    case (SessionMoves i s f)
    then show ?thesis using session_moves_ok [OF ok, of i s f] by (simp add: all_tasks_def session_moves_def)
  qed (simp_all add: ok begin_call_ok take_turn_ok)
qed

section \<open>Framing is independent of the chunks\<close>

definition without_cr :: "string \<Rightarrow> string" where
  "without_cr l = filter (\<lambda>c. c \<noteq> CHR 0x0D) l"

definition framed_lines :: "string \<Rightarrow> string list" where
  "framed_lines s =
     filter (\<lambda>l. length l \<le> kMaxCommandLineBytes) (map without_cr (butlast (split_spec CHR 0x0A s)))"

definition framed_rest :: "string \<Rightarrow> StdoutFramer" where
  "framed_rest s =
     (let l = without_cr (last (split_spec CHR 0x0A s)) in
      \<lparr>fr_pending = take kMaxCommandLineBytes l, fr_overflow = (kMaxCommandLineBytes < length l)\<rparr>)"

lemma split_spec_snoc:
  "split_spec d (s @ [c]) =
     (if c = d then split_spec d s @ [[]] else butlast (split_spec d s) @ [last (split_spec d s) @ [c]])"
proof (cases "c = d")
  case True
  then show ?thesis using split_spec_concat [of d s "[]"] by simp
next
  case False
  then show ?thesis by (induction s) (auto split: list.splits)
qed

lemma framer_feed_bytes: "foldl feed_byte ([], new_framer) s = (framed_lines s, framed_rest s)"
proof (induction s rule: rev_induct)
  case Nil
  show ?case by (simp add: framed_lines_def framed_rest_def new_framer_def without_cr_def kMaxCommandLineBytes_def)
next
  case (snoc c s)
  have parts: "map without_cr (split_spec CHR 0x0A s)
      = map without_cr (butlast (split_spec CHR 0x0A s)) @ [without_cr (last (split_spec CHR 0x0A s))]"
    by (metis append_butlast_last_id list.simps(8,9) map_append split_spec_ne)
  show ?case
    using snoc parts
    by (auto simp: feed_byte_def framed_lines_def framed_rest_def split_spec_snoc Let_def without_cr_def)
qed

lemma feed_byte_lines: "foldl feed_byte (ls, f) bs = (ls @ fst (Feed bs f), snd (Feed bs f))"
proof (induction bs rule: rev_induct)
  case (snoc b bs)
  obtain l g where "Feed bs f = (l, g)" by (rule prod.exhaust)
  then show ?case using snoc by (simp add: Feed_def feed_byte_def)
qed (simp add: Feed_def)

text \<open>The lines handed over by a sequence of reads.\<close>

definition feed_chunk :: "string list \<times> StdoutFramer \<Rightarrow> bytes \<Rightarrow> string list \<times> StdoutFramer" where
  "feed_chunk st bs = (case st of (ls, f) \<Rightarrow> (case Feed bs f of (new, g) \<Rightarrow> (ls @ new, g)))"

lemma feed_chunk_bytes: "feed_chunk st bs = foldl feed_byte st bs"
  by (cases st) (simp add: feed_chunk_def feed_byte_lines split: prod.splits)

lemma feed_chunks: "foldl feed_chunk st bss = foldl feed_byte st (concat bss)"
  by (induction bss arbitrary: st) (simp_all add: feed_chunk_bytes)

text \<open>
  However the output of a client is cut into reads, the command handler gets exactly its complete
  lines in order, without their carriage returns, except for those longer than 64 KiB; what is kept for
  the unfinished line never exceeds 64 KiB, and the next line is framed correctly after a dropped one.
\<close>
theorem framing_independent_of_reads:
  "foldl feed_chunk ([], new_framer) chunks = (framed_lines (concat chunks), framed_rest (concat chunks))
     \<and> length (fr_pending (framed_rest (concat chunks))) \<le> kMaxCommandLineBytes"
  by (simp add: feed_chunks framer_feed_bytes) (simp add: framed_rest_def Let_def)

section \<open>A PID record identifies its process\<close>

lemma scan_integer_to_string:
  assumes "0 \<le> i" and "rest = [] \<or> (\<exists>r. rest = CHR '' '' # r)"
  shows "scan_integer (to_string i @ rest) = Some (False, i, rest)"
    and "scan_integer (CHR '' '' # to_string i @ rest) = Some (False, i, rest)"
proof -
  let ?s = "to_string_nat (nat i)"
  have all: "\<forall>c\<in>set ?s. is_digit c" by (rule to_string_nat_digits)
  obtain d ds where ne: "?s = d # ds" by (metis list.exhaust to_string_nat_ne)
  have "is_digit d" using all ne by simp
  moreover have "\<not> is_digit CHR ''+''" by (simp add: is_digit_def)
  ultimately have d: "\<not> is_space d" "d \<noteq> CHR ''-''" "d \<noteq> CHR ''+''" using digit_not_special [of d] by auto
  have stop: "takeWhile is_digit rest = []" "dropWhile is_digit rest = rest"
    using assms(2) by (auto simp: is_digit_def)
  have "takeWhile is_digit (?s @ rest) = ?s" "dropWhile is_digit (?s @ rest) = rest"
    using all stop by (simp_all add: takeWhile_append dropWhile_append)
  moreover have "\<not> starts_with (?s @ rest) ''-''" "\<not> starts_with (?s @ rest) ''+''" "dropWhile is_space (?s @ rest) = ?s @ rest"
    using d by (simp_all add: ne starts_with_def)
  moreover have "to_string i = ?s" using assms(1) by (simp add: to_string_def)
  moreover have "is_space CHR '' ''" by (simp add: is_space_def)
  ultimately show "scan_integer (to_string i @ rest) = Some (False, i, rest)"
    and "scan_integer (CHR '' '' # to_string i @ rest) = Some (False, i, rest)"
    using assms(1) by (simp_all add: scan_integer_def Let_def to_string_nat_value)
qed

lemma ProcessStartTime_range: "0 \<le> ProcessStartTime stat pid \<and> ProcessStartTime stat pid \<le> u64_max"
  by (auto simp: ProcessStartTime_def from_chars_def Let_def u64_max_def split: option.splits prod.splits)

text \<open>
  A PID record that is read back names the process and the start time it was written for, so the
  identity check accepts it exactly while the process with that id has that start time: never for
  another process that got the same id later.
\<close>
theorem pid_record_identity:
  assumes "pid_record_text noun stat pid = Inr content" and "pid \<le> int32_max"
  shows "read_record (Some content) = \<lparr>pr_pid = pid, pr_start_time = ProcessStartTime stat pid\<rparr>
    \<and> (ProcessIdentityMatches later (pr_pid (read_record (Some content))) (pr_start_time (read_record (Some content)))
      \<longleftrightarrow> ProcessStartTime later pid = ProcessStartTime stat pid)"
proof -
  let ?t = "ProcessStartTime stat pid"
  have pid: "0 < pid" "?t \<noteq> 0" and content: "content = to_string pid @ '' '' @ to_string ?t"
    using assms(1) by (auto simp: pid_record_text_def Let_def split: if_splits)
  note t = ProcessStartTime_range [of stat pid]
  have "scan_integer content = Some (False, pid, '' '' @ to_string ?t)"
    using scan_integer_to_string(1) [of pid "'' '' @ to_string ?t"] pid by (simp add: content)
  moreover have "scan_integer ('' '' @ to_string ?t) = Some (False, ?t, [])"
    using scan_integer_to_string(2) [of ?t "[]"] t by simp
  ultimately have r: "read_record (Some content) = \<lparr>pr_pid = pid, pr_start_time = ?t\<rparr>"
    using pid t assms(2) by (simp add: read_record_def extract_int_def extract_u64_def int32_min_def)
  show ?thesis using pid by (auto simp: r ProcessIdentityMatches_def)
qed

theorem pid_record_identity_witness:
  "read_record (Some ''7 5'') = \<lparr>pr_pid = 7, pr_start_time = 5\<rparr>"
proof -
  have "pid_record_text ''client'' (kn_stat example_kernel 0) 7 = Inr ''7 5''" by code_simp
  then show ?thesis
    using pid_record_identity [of "''client''" "kn_stat example_kernel 0" 7 "''7 5''"] example_identity [of 0]
    by (simp add: int32_max_def)
qed

section \<open>Properties of the manager\<close>

text \<open>
  C8: In every interleaving of starts, stops, queries, broadcasts and shutdowns, a client id is in the
  table or reserved by a start at most once, the reservations are those of the starts in flight, no
  session is ever replaced (and thereby killed) by another start, and every child process is in exactly
  one place: in the table, in the hands of exactly one call, or ended.
\<close>
theorem clients_never_replaced:
  "let m = foldl manager_step new_clients es in
     distinct (map fst (mg_sessions m) @ mg_pending m)
     \<and> reserved (mset (all_tasks m)) = mset (mg_pending m)
     \<and> EndReplaced \<notin> snd ` set (mg_ended m)
     \<and> tracked_children m + held_children (mset (all_tasks m)) + mset (map fst (mg_ended m))
       = mset [0..<mg_children m]"
proof -
  have ok: "manager_ok (mset (all_tasks m)) m" if "m = foldl manager_step new_clients es" for m
    using clients.run_inv [of es] that by simp
  have "set (map fst (mg_sessions m)) \<inter> set (mg_pending m) = {}" if "m = foldl manager_step new_clients es" for m
    using ok [OF that] by (auto simp: manager_ok_def map_of_eq_None_iff)
  then show ?thesis using ok unfolding Let_def manager_ok_def distinct_append by blast
qed

definition example_client :: ClientSpec where
  "example_client = \<lparr>cs_id = ''a'', cs_command = ''/bin/a'', cs_args = [], cs_env = [], cs_autoStart = True\<rparr>"

definition example_client_env :: client_env where
  "example_client_env =
     \<lparr>en_runtime_dir = ''/run'', en_kernel = example_kernel, en_spawn = (\<lambda>_. Inr 7), en_probe = None,
      en_atomic_write = None, en_room = (\<lambda>_. True)\<rparr>"

definition start_example :: "nat \<Rightarrow> manager_event list" where
  "start_example thread =
     BeginCall thread (CallAutoStart (default_config\<lparr>cc_triggers := [example_client], cc_receivers := []\<rparr>) True)
     # replicate 4 (TakeTurn (example_client_env\<lparr>en_kernel := example_kernel\<lparr>kn_stat := (\<lambda>_ _. None)\<rparr>\<rparr>) 0)
     @ replicate 2 (TakeTurn example_client_env 0)"

definition pid_file_race_run :: "manager_event list" where
  "pid_file_race_run =
     start_example 1
     @ [SessionMoves ''a'' ((new_psession True True)\<lparr>ps_phase := PumpDone\<rparr>) new_framer, BeginCall 2 (CallGetPid ''a'')]
     @ start_example 3 @ [TakeTurn example_client_env 1]"

text \<open>
  The PID file of a running client can be removed: a query that found the previous process exited
  takes it out of the table and removes the file later, outside the critical section, when the client
  may have been started again.
\<close>
lemma pid_file_race:
  "let m = foldl manager_step new_clients pid_file_race_run in
     map_option (HasExited \<circ> tk_session) (map_of (mg_sessions m) ''a'') = Some None
     \<and> mg_pid_files m (PidPath ''/run'' ''a'') = None
     \<and> mg_results m = [(1, Inr ()), (3, Inr ())]"
  by code_simp

end
