(* ===== verification/Adapter_Manager.thy ===== *)
theory Adapter_Manager
  imports Managed_Clients
begin

text \<open>
  \<open>src/common/llm/adapter_manager.cpp\<close>: the processes of the LLM adapters. The structure is that of the
  client manager, with three differences the model keeps: a start makes no reservation, the cleanup of
  an exited session happens inside the critical section, and an automatic start reads the configuration
  again for every adapter.
\<close>

section \<open>State and tasks\<close>

record AdapterSession =
  as_child :: nat
  as_pid :: int
  as_session :: psession
  as_bridge :: bool

datatype adapter_task =
    AdStart string bool
  | AdIdentity LlmAdapter bool
  | AdSpawn LlmAdapter bool
  | AdRecord string AdapterSession
  | AdPublish string AdapterSession
  | AdStopTake string bool
  | AdStopTracked string bool AdapterSession
  | AdStopRecorded string bool
  | AdShutdownTake
  | AdShutdownWait "(string \<times> AdapterSession) list"

record adapters =
  ad_sessions :: "AdapterSession smap"
  ad_pid_files :: "string \<Rightarrow> string option"
  ad_retired :: "string list"
  ad_children :: nat
  ad_ended :: "(nat \<times> ending) list"
  ad_threads :: "(nat \<times> adapter_task list) list"
  ad_results :: "(nat \<times> (string + unit)) list"

definition new_adapters :: adapters where
  "new_adapters =
     \<lparr>ad_sessions = [], ad_pid_files = (\<lambda>_. None), ad_retired = [], ad_children = 0, ad_ended = [],
      ad_threads = [], ad_results = []\<rparr>"

text \<open>What the system answers during a turn; \<open>ae_config\<close> is what \<open>LoadCoreConfig\<close> returns.\<close>

record adapter_env =
  ae_runtime_dir :: string
  ae_config :: CoreConfig
  ae_kernel :: kernel
  ae_spawn :: "CommandSpec \<Rightarrow> string + int"
  ae_probe :: "int option"
  ae_atomic_write :: "string option"

definition adapter_SourceId :: "string \<Rightarrow> string" where
  "adapter_SourceId i = ''llm:'' @ i"

definition adapter_BuildCommandSpec :: "LlmAdapter \<Rightarrow> CommandSpec" where
  "adapter_BuildCommandSpec a =
     \<lparr>sp_command = la_command a, sp_args = la_args a, sp_env = la_env a, sp_timeout_ms = 0\<rparr>"

definition adapter_PidPath :: "string \<Rightarrow> string \<Rightarrow> string" where
  "adapter_PidPath runtime_dir i = runtime_dir @ ''/'' @ i @ ''.pid''"

definition ad_retire :: "bool \<Rightarrow> string \<Rightarrow> adapters \<Rightarrow> adapters" where
  "ad_retire bridge i m = (if bridge then m\<lparr>ad_retired := ad_retired m @ [adapter_SourceId i]\<rparr> else m)"

definition adapter_RemovePidFile :: "adapter_env \<Rightarrow> string \<Rightarrow> adapters \<Rightarrow> adapters" where
  "adapter_RemovePidFile en i m =
     m\<lparr>ad_pid_files := (ad_pid_files m)(adapter_PidPath (ae_runtime_dir en) i := None)\<rparr>"

definition adapter_ReadPidRecord :: "adapter_env \<Rightarrow> string \<Rightarrow> adapters \<Rightarrow> PidRecord" where
  "adapter_ReadPidRecord en i m = read_record (ad_pid_files m (adapter_PidPath (ae_runtime_dir en) i))"

definition adapter_WritePidFile :: "adapter_env \<Rightarrow> string \<Rightarrow> int \<Rightarrow> adapters \<Rightarrow> (string + unit) \<times> adapters" where
  "adapter_WritePidFile en i pid m =
     (case pid_record_text ''adapter'' (kn_stat (ae_kernel en) 0) pid of
        Inl e \<Rightarrow> (Inl e, m)
      | Inr content \<Rightarrow>
          (case ae_atomic_write en of
             Some e \<Rightarrow> (Inl e, m)
           | None \<Rightarrow>
               (Inr (), m\<lparr>ad_pid_files := (ad_pid_files m)(adapter_PidPath (ae_runtime_dir en) i \<mapsto> content)\<rparr>)))"

text \<open>The critical section of \<open>GetPid\<close>: the answer if the adapter is tracked.\<close>

definition adapter_GetPid_tracked :: "adapter_env \<Rightarrow> string \<Rightarrow> adapters \<Rightarrow> int option \<times> adapters" where
  "adapter_GetPid_tracked en i m =
     (case map_of (ad_sessions m) i of
        None \<Rightarrow> (None, m)
      | Some t \<Rightarrow>
          if HasExited (as_session t) \<noteq> None then
            (Some (- 1),
             (adapter_RemovePidFile en i (ad_retire (as_bridge t) i m))
               \<lparr>ad_sessions := smap_erase i (ad_sessions m), ad_ended := ad_ended m @ [(as_child t, EndExited)]\<rparr>)
          else (Some (as_pid t), m))"

definition adapter_GetPid_recorded :: "adapter_env \<Rightarrow> string \<Rightarrow> adapters \<Rightarrow> int" where
  "adapter_GetPid_recorded en i m =
     (let r = adapter_ReadPidRecord en i m in
      if ProcessIdentityMatches (kn_stat (ae_kernel en) 0) (pr_pid r) (pr_start_time r) then pr_pid r else - 1)"

section \<open>The tasks\<close>

type_synonym adapter_result = "adapter_task list \<times> adapters \<times> (string + unit) option"

definition adapter_running :: "string + unit" where
  "adapter_running = Inl ''adapter is already running''"

definition ad_start :: "adapter_env \<Rightarrow> string \<Rightarrow> bool \<Rightarrow> adapters \<Rightarrow> adapter_result" where
  "ad_start en i bridge m =
     (case view_LlmAdapter (NormalizeCoreConfig (ae_config en)) i of
        None \<Rightarrow> ([], m, Some (Inl ''adapter not found''))
      | Some a \<Rightarrow>
          if la_command a = [] then ([], m, Some (Inl ''adapter command is not configured''))
          else
            (case adapter_GetPid_tracked en i m of
               (None, m1) \<Rightarrow> ([AdIdentity a bridge], m1, None)
             | (Some pid, m1) \<Rightarrow>
                 if pid > 0 then ([], m1, Some adapter_running) else ([AdSpawn a bridge], m1, None)))"

definition ad_identity :: "adapter_env \<Rightarrow> LlmAdapter \<Rightarrow> bool \<Rightarrow> adapters \<Rightarrow> adapter_result" where
  "ad_identity en a bridge m =
     (if adapter_GetPid_recorded en (la_id a) m > 0 then ([], m, Some adapter_running)
      else ([AdSpawn a bridge], m, None))"

definition ad_spawn :: "adapter_env \<Rightarrow> LlmAdapter \<Rightarrow> bool \<Rightarrow> adapters \<Rightarrow> adapter_result" where
  "ad_spawn en a bridge m =
     (case ae_spawn en (adapter_BuildCommandSpec a) of
        Inl e \<Rightarrow> ([], m, Some (Inl (if e = [] then ''failed to start adapter'' else e)))
      | Inr pid \<Rightarrow>
          (let child = ad_children m; m1 = m\<lparr>ad_children := child + 1\<rparr> in
           case ae_probe en of
             Some code \<Rightarrow>
               ([], (ad_retire bridge (la_id a) m1)\<lparr>ad_ended := ad_ended m1 @ [(child, EndExited)]\<rparr>,
                Some (Inl (''adapter exited immediately (code '' @ to_string code @ '')'')))
           | None \<Rightarrow>
               ([AdRecord (la_id a)
                   \<lparr>as_child = child, as_pid = pid, as_session = new_psession True True, as_bridge = bridge\<rparr>],
                m1, None)))"

definition ad_record :: "adapter_env \<Rightarrow> string \<Rightarrow> AdapterSession \<Rightarrow> adapters \<Rightarrow> adapter_result" where
  "ad_record en i t m =
     (case adapter_WritePidFile en i (as_pid t) m of
        (Inl e, m1) \<Rightarrow>
          ([], (ad_retire (as_bridge t) i m1)\<lparr>ad_ended := ad_ended m1 @ [(as_child t, EndCancelled)]\<rparr>,
           Some (Inl e))
      | (Inr _, m1) \<Rightarrow> ([AdPublish i t], m1, None))"

definition ad_publish :: "string \<Rightarrow> AdapterSession \<Rightarrow> adapters \<Rightarrow> adapter_result" where
  "ad_publish i t m =
     ([], m\<lparr>ad_sessions := smap_put i t (ad_sessions m),
            ad_ended := ad_ended m @ (case map_of (ad_sessions m) i of
                                         None \<Rightarrow> [] | Some old \<Rightarrow> [(as_child old, EndReplaced)])\<rparr>,
      Some (Inr ()))"

definition ad_stop_take :: "string \<Rightarrow> bool \<Rightarrow> adapters \<Rightarrow> adapter_result" where
  "ad_stop_take i bridge m =
     (case map_of (ad_sessions m) i of
        Some t \<Rightarrow> ([AdStopTracked i bridge t], m\<lparr>ad_sessions := smap_erase i (ad_sessions m)\<rparr>, None)
      | None \<Rightarrow> ([AdStopRecorded i bridge], m, None))"

definition ad_stop_tracked :: "adapter_env \<Rightarrow> string \<Rightarrow> bool \<Rightarrow> AdapterSession \<Rightarrow> adapters \<Rightarrow> adapter_result" where
  "ad_stop_tracked en i bridge t m =
     ([], adapter_RemovePidFile en i ((ad_retire (bridge \<or> as_bridge t) i m)
            \<lparr>ad_ended := ad_ended m @ [(as_child t, EndCancelled)]\<rparr>), Some (Inr ()))"

text \<open>A termination that has not returned leaves the task as it is.\<close>

definition ad_stop_recorded :: "adapter_env \<Rightarrow> string \<Rightarrow> bool \<Rightarrow> adapters \<Rightarrow> adapter_result" where
  "ad_stop_recorded en i bridge m =
     (let r = adapter_ReadPidRecord en i m in
      case TerminateGracefully (ae_kernel en) (pr_pid r) (pr_start_time r) kGracefulStopTimeout
             kForceKillTimeout 0 of
        None \<Rightarrow> ([AdStopRecorded i bridge], m, None)
      | Some (res, _) \<Rightarrow>
          (let m1 = ad_retire bridge i m;
               m2 = (if tr_outcome res = ToExited \<or> tr_outcome res = ToNotFound
                     then adapter_RemovePidFile en i m1 else m1)
           in ([], m2, Some (stop_message ''adapter'' i res))))"

definition ad_shutdown_take :: "adapters \<Rightarrow> adapter_result" where
  "ad_shutdown_take m = ([AdShutdownWait (ad_sessions m)], m\<lparr>ad_sessions := []\<rparr>, None)"

definition ad_shutdown_one :: "adapter_env \<Rightarrow> string \<times> AdapterSession \<Rightarrow> adapters \<Rightarrow> adapters" where
  "ad_shutdown_one en e m =
     adapter_RemovePidFile en (fst e) ((ad_retire (as_bridge (snd e)) (fst e) m)
       \<lparr>ad_ended := ad_ended m @ [(as_child (snd e), EndCancelled)]\<rparr>)"

fun exec_adapter :: "adapter_env \<Rightarrow> adapter_task \<Rightarrow> adapters \<Rightarrow> adapter_result" where
  "exec_adapter en (AdStart i b) m = ad_start en i b m"
| "exec_adapter en (AdIdentity a b) m = ad_identity en a b m"
| "exec_adapter en (AdSpawn a b) m = ad_spawn en a b m"
| "exec_adapter en (AdRecord i t) m = ad_record en i t m"
| "exec_adapter en (AdPublish i t) m = ad_publish i t m"
| "exec_adapter en (AdStopTake i b) m = ad_stop_take i b m"
| "exec_adapter en (AdStopTracked i b t) m = ad_stop_tracked en i b t m"
| "exec_adapter en (AdStopRecorded i b) m = ad_stop_recorded en i b m"
| "exec_adapter en AdShutdownTake m = ad_shutdown_take m"
| "exec_adapter en (AdShutdownWait []) m = ([], m, None)"
| "exec_adapter en (AdShutdownWait (e # es)) m = ([AdShutdownWait es], ad_shutdown_one en e m, None)"

section \<open>Calls and turns\<close>

definition adapter_AutoStart :: "CoreConfig \<Rightarrow> bool \<Rightarrow> adapter_task list" where
  "adapter_AutoStart config bridge =
     map (\<lambda>a. AdStart (la_id a) bridge) (filter la_autoStart (cc_llm_adapters config))"

datatype adapter_call =
    AdCallStart string bool
  | AdCallAutoStart CoreConfig bool
  | AdCallStop string bool
  | AdCallShutdown

fun call_tasks :: "adapter_call \<Rightarrow> adapter_task list" where
  "call_tasks (AdCallStart i b) = [AdStart i b]"
| "call_tasks (AdCallAutoStart config b) = adapter_AutoStart config b"
| "call_tasks (AdCallStop i b) = [AdStopTake i b]"
| "call_tasks AdCallShutdown = [AdShutdownTake]"

definition adapter_turn :: "adapter_env \<Rightarrow> nat \<Rightarrow> adapters \<Rightarrow> adapters" where
  "adapter_turn en k m =
     (if k < length (ad_threads m) then
        (case ad_threads m ! k of
           (thread, []) \<Rightarrow> m
         | (thread, t # ts) \<Rightarrow>
             (case exec_adapter en t m of
                (new, m1, res) \<Rightarrow>
                  m1\<lparr>ad_threads := (ad_threads m)[k := (thread, new @ ts)],
                     ad_results := ad_results m1 @ (case res of None \<Rightarrow> [] | Some r \<Rightarrow> [(thread, r)])\<rparr>))
      else m)"

datatype adapter_event =
    AdBegin nat adapter_call
  | AdTurn adapter_env nat
  | AdQuery adapter_env string
  | AdSessionMoves string psession

fun adapter_step :: "adapters \<Rightarrow> adapter_event \<Rightarrow> adapters" where
  "adapter_step m (AdBegin thread c) = m\<lparr>ad_threads := (thread, call_tasks c) # ad_threads m\<rparr>"
| "adapter_step m (AdTurn en k) = adapter_turn en k m"
| "adapter_step m (AdQuery en i) = snd (adapter_GetPid_tracked en i m)"
| "adapter_step m (AdSessionMoves i s) =
     m\<lparr>ad_sessions := map (\<lambda>(j, t). (j, if j = i then t\<lparr>as_session := s\<rparr> else t)) (ad_sessions m)\<rparr>"

section \<open>No child is lost\<close>

fun adapter_task_children :: "adapter_task \<Rightarrow> nat multiset" where
  "adapter_task_children (AdRecord i t) = {#as_child t#}"
| "adapter_task_children (AdPublish i t) = {#as_child t#}"
| "adapter_task_children (AdStopTracked i b t) = {#as_child t#}"
| "adapter_task_children (AdShutdownWait es) = mset (map (as_child \<circ> snd) es)"
| "adapter_task_children _ = {#}"

definition adapter_tasks :: "adapters \<Rightarrow> adapter_task list" where
  "adapter_tasks m = concat (map snd (ad_threads m))"

definition adapter_held :: "adapter_task multiset \<Rightarrow> nat multiset" where
  "adapter_held M = (\<Sum>t\<in>#M. adapter_task_children t)"

definition adapter_tracked :: "adapters \<Rightarrow> nat multiset" where
  "adapter_tracked m = mset (map (as_child \<circ> snd) (ad_sessions m))"

definition adapters_ok :: "adapter_task multiset \<Rightarrow> adapters \<Rightarrow> bool" where
  "adapters_ok M m \<longleftrightarrow>
     smap_sorted (ad_sessions m)
     \<and> adapter_tracked m + adapter_held M + mset (map fst (ad_ended m)) = mset [0..<ad_children m]"

lemma adapter_held_simps [simp]: "adapter_held {#} = {#}"
  "adapter_held (add_mset t M) = adapter_task_children t + adapter_held M"
  "adapter_held (M + N) = adapter_held M + adapter_held N"
  by (simp_all add: adapter_held_def)

lemma adapters_ok_cong:
  assumes "ad_sessions m' = ad_sessions m" "ad_ended m' = ad_ended m" "ad_children m' = ad_children m"
  shows "adapters_ok M m' = adapters_ok M m"
  using assms by (simp add: adapters_ok_def adapter_tracked_def)

lemma adapter_frames [simp]:
  "ad_sessions (ad_retire b i m) = ad_sessions m" "ad_ended (ad_retire b i m) = ad_ended m"
  "ad_children (ad_retire b i m) = ad_children m" "ad_threads (ad_retire b i m) = ad_threads m"
  "ad_sessions (adapter_RemovePidFile en i m) = ad_sessions m" "ad_ended (adapter_RemovePidFile en i m) = ad_ended m"
  "ad_children (adapter_RemovePidFile en i m) = ad_children m" "ad_threads (adapter_RemovePidFile en i m) = ad_threads m"
  by (simp_all add: ad_retire_def adapter_RemovePidFile_def)

lemma adapter_WritePidFile_frame:
  "adapter_WritePidFile en i pid m = (r, m') \<Longrightarrow>
     ad_sessions m' = ad_sessions m \<and> ad_ended m' = ad_ended m \<and> ad_children m' = ad_children m"
  by (auto simp: adapter_WritePidFile_def split: sum.splits option.splits)

lemma smap_erase_absent: "i \<notin> fst ` set m \<Longrightarrow> smap_erase i m = m"
  by (auto simp: smap_erase_def filter_id_conv image_iff)

lemma smap_put_erase_mset:
  "smap_sorted m \<Longrightarrow> mset (map f (smap_put i t m)) = add_mset (f (i, t)) (mset (map f (smap_erase i m)))"
proof (induction m)
  case (Cons e m)
  obtain j u where e: "e = (j, u)" by (rule prod.exhaust)
  have above: "string_less j k" if "k \<in> fst ` set m" for k using Cons.prems that by (auto simp: e)
  show ?case
  proof (cases "i = j \<or> string_less i j")
    case True
    then have "i \<notin> fst ` set m" using above string_less_trans [of i j i] by fastforce
    moreover have "smap_erase i (e # m) = (if i = j then smap_erase i m else e # smap_erase i m)"
      by (simp add: e smap_erase_def)
    ultimately show ?thesis using True by (auto simp: e smap_erase_absent)
  next
    case False
    then show ?thesis using Cons by (auto simp: e smap_erase_def)
  qed
qed (simp add: smap_erase_def)

lemma adapter_GetPid_ok:
  assumes "adapters_ok M m" and "adapter_GetPid_tracked en i m = (r, m')"
  shows "adapters_ok M m'" and "ad_threads m' = ad_threads m"
proof -
  show "adapters_ok M m'"
    using assms smap_erase_mset [of "ad_sessions m" i _ "as_child \<circ> snd"]
    by (auto simp: adapter_GetPid_tracked_def adapters_ok_def adapter_tracked_def smap_sorted_erase smap_sorted_distinct
        split: option.splits if_splits)
  show "ad_threads m' = ad_threads m"
    using assms(2) by (auto simp: adapter_GetPid_tracked_def split: option.splits if_splits)
qed

lemma exec_adapter_ok:
  assumes "adapters_ok (add_mset t M) m" and "exec_adapter en t m = (new, m', res)"
  shows "adapters_ok (mset new + M) m'"
proof (cases t)
  case (AdStart i b)
  obtain r m1 where q: "adapter_GetPid_tracked en i m = (r, m1)" by (rule prod.exhaust)
  have "adapters_ok M m" using assms(1) by (simp add: AdStart adapters_ok_def)
  then show ?thesis using adapter_GetPid_ok(1) [OF _ q] assms(2) q
    by (auto simp: AdStart ad_start_def adapters_ok_def split: if_splits option.splits)
next
  case (AdIdentity a b)
  then show ?thesis using assms by (auto simp: ad_identity_def adapters_ok_def split: if_splits)
next
  case (AdSpawn a b)
  then show ?thesis using assms
    by (auto simp: ad_spawn_def Let_def adapters_ok_def adapter_tracked_def atLeast0_lessThan_Suc
        split: sum.splits option.splits)
next
  case (AdRecord i s)
  obtain r m1 where w: "adapter_WritePidFile en i (as_pid s) m = (r, m1)" by (rule prod.exhaust)
  show ?thesis using assms w adapter_WritePidFile_frame [OF w]
    by (auto simp: AdRecord ad_record_def adapters_ok_def adapter_tracked_def split: sum.splits)
next
  case (AdPublish i s)
  have sorted: "smap_sorted (ad_sessions m)" using assms(1) by (simp add: adapters_ok_def)
  note d = smap_sorted_distinct [OF sorted]
  note put = smap_put_erase_mset [OF sorted, of "as_child \<circ> snd" i s]
  show ?thesis
  proof (cases "map_of (ad_sessions m) i")
    case None
    then have "smap_erase i (ad_sessions m) = ad_sessions m" by (simp add: smap_erase_absent map_of_eq_None_iff)
    then show ?thesis using assms None put
      by (auto simp: AdPublish ad_publish_def adapters_ok_def adapter_tracked_def smap_sorted_put)
  next
    case (Some old)
    then show ?thesis using assms put smap_erase_mset [OF d Some, of "as_child \<circ> snd"]
      by (auto simp: AdPublish ad_publish_def adapters_ok_def adapter_tracked_def smap_sorted_put add_mset_commute)
  qed
next
  case (AdStopTake i b)
  then show ?thesis
    using assms smap_erase_mset [of "ad_sessions m" i _ "as_child \<circ> snd"]
    by (auto simp: ad_stop_take_def adapters_ok_def adapter_tracked_def smap_sorted_erase smap_sorted_distinct split: option.splits)
next
  case (AdStopTracked i b s)
  then show ?thesis using assms by (auto simp: ad_stop_tracked_def adapters_ok_def adapter_tracked_def)
next
  case (AdStopRecorded i b)
  then show ?thesis
    using assms by (auto simp: ad_stop_recorded_def Let_def adapters_ok_def adapter_tracked_def split: option.splits if_splits)
next
  case AdShutdownTake
  then show ?thesis using assms by (auto simp: ad_shutdown_take_def adapters_ok_def adapter_tracked_def)
next
  case (AdShutdownWait es)
  then show ?thesis using assms by (cases es) (auto simp: ad_shutdown_one_def adapters_ok_def adapter_tracked_def)
qed

lemma adapter_turn_ok:
  assumes "adapters_ok (mset (adapter_tasks m)) m"
  shows "adapters_ok (mset (adapter_tasks (adapter_turn en k m))) (adapter_turn en k m)"
proof (cases "k < length (ad_threads m) \<and> snd (ad_threads m ! k) \<noteq> []")
  case True
  then obtain thread t ts where at: "ad_threads m ! k = (thread, t # ts)"
    by (metis list.exhaust prod.collapse)
  obtain new m1 res where x: "exec_adapter en t m = (new, m1, res)" by (metis prod_cases3)
  obtain R where R: "mset (adapter_tasks m) = add_mset t R"
      "\<And>new. mset (concat (map snd ((ad_threads m)[k := (thread, new @ ts)]))) = mset new + R"
    using thread_turn_mset [of k "ad_threads m", OF _ at] True unfolding adapter_tasks_def by blast
  then have "adapters_ok (mset new + R) m1" using exec_adapter_ok [OF _ x] assms by metis
  moreover have "mset (adapter_tasks (adapter_turn en k m)) = mset new + R"
    using True at x R(2) by (simp add: adapter_turn_def adapter_tasks_def)
  moreover have "ad_sessions (adapter_turn en k m) = ad_sessions m1"
    "ad_ended (adapter_turn en k m) = ad_ended m1" "ad_children (adapter_turn en k m) = ad_children m1"
    using True at x by (simp_all add: adapter_turn_def)
  ultimately show ?thesis by (metis adapters_ok_cong)
next
  case False
  then have "adapter_turn en k m = m" by (auto simp: adapter_turn_def split: prod.splits list.splits)
  then show ?thesis using assms by simp
qed

lemma call_tasks_idle: "adapter_held (mset (call_tasks c)) = {#}"
  by (cases c) (auto simp: adapter_AutoStart_def adapter_held_def)

interpretation adapters: invariant_machine adapter_step new_adapters "\<lambda>m. adapters_ok (mset (adapter_tasks m)) m"
proof unfold_locales
  show "adapters_ok (mset (adapter_tasks new_adapters)) new_adapters"
    by (simp add: adapters_ok_def new_adapters_def adapter_tasks_def adapter_tracked_def smap_sorted_def)
next
  fix m e
  assume ok: "adapters_ok (mset (adapter_tasks m)) m"
  show "adapters_ok (mset (adapter_tasks (adapter_step m e))) (adapter_step m e)"
  proof (cases e)
    case (AdBegin thread c)
    then show ?thesis
      using ok by (simp add: adapters_ok_def adapter_tasks_def adapter_tracked_def call_tasks_idle)
  next
    case (AdTurn en k)
    then show ?thesis using ok by (simp add: adapter_turn_ok)
  next
    case (AdQuery en i)
    obtain r m1 where q: "adapter_GetPid_tracked en i m = (r, m1)" by (rule prod.exhaust)
    show ?thesis using adapter_GetPid_ok [OF ok q] by (simp add: AdQuery q adapter_tasks_def)
  next
    case (AdSessionMoves i s)
    have "map (as_child \<circ> snd) (ad_sessions (adapter_step m e)) = map (as_child \<circ> snd) (ad_sessions m)"
      "map fst (ad_sessions (adapter_step m e)) = map fst (ad_sessions m)" by (auto simp: AdSessionMoves)
    moreover have "ad_ended (adapter_step m e) = ad_ended m" "ad_children (adapter_step m e) = ad_children m"
      "ad_threads (adapter_step m e) = ad_threads m" by (simp_all add: AdSessionMoves)
    ultimately show ?thesis using ok unfolding adapters_ok_def adapter_tracked_def adapter_tasks_def smap_sorted_def by metis
  qed
qed

text \<open>
  In every interleaving of the adapter manager's calls, an adapter id is in the table at most once
  and every child process is in exactly one place: in the table, in the hands of exactly one call, or
  ended.
\<close>
theorem adapter_children_tracked:
  "let m = foldl adapter_step new_adapters es in
     distinct (map fst (ad_sessions m))
     \<and> adapter_tracked m + adapter_held (mset (adapter_tasks m)) + mset (map fst (ad_ended m))
       = mset [0..<ad_children m]"
  using adapters.run_inv [of es] smap_sorted_distinct by (auto simp: adapters_ok_def Let_def)

section \<open>What the client manager excludes\<close>

definition example_adapter :: LlmAdapter where
  "example_adapter = \<lparr>la_id = ''a'', la_command = ''/bin/a'', la_args = [], la_env = [], la_autoStart = True\<rparr>"

definition example_adapter_env :: adapter_env where
  "example_adapter_env =
     \<lparr>ae_runtime_dir = ''/run'', ae_config = default_config\<lparr>cc_llm_adapters := [example_adapter]\<rparr>,
      ae_kernel = example_kernel, ae_spawn = (\<lambda>_. Inr 7), ae_probe = None, ae_atomic_write = None\<rparr>"

text \<open>
  Two starts of one adapter on two threads both pass the check of the table; the second one to publish
  its session replaces, and thereby kills, the session of the first, which was reported as started.
\<close>
lemma racing_starts_replace:
  "let m = foldl adapter_step new_adapters
             ([AdBegin 1 (AdCallStart ''a'' True), AdBegin 2 (AdCallStart ''a'' True)]
              @ replicate 3 (AdTurn example_adapter_env 0) @ replicate 3 (AdTurn example_adapter_env 1)
              @ replicate 2 (AdTurn example_adapter_env 0) @ replicate 2 (AdTurn example_adapter_env 1))
   in ad_ended m = [(0, EndReplaced)] \<and> ad_results m = [(2, Inr ()), (1, Inr ())]"
  by code_simp

text \<open>
  Stopping an adapter that is not tracked removes a file outside the runtime directory when the id has
  path separators; the client manager refuses such ids.
\<close>
lemma adapter_stop_escapes:
  "adapter_PidPath ''/run/vinput/adapters'' ''../../x'' = ''/run/vinput/adapters/../../x.pid''
   \<and> PidPath ''/run/vinput/clients'' ''../../x'' = []"
  by code_simp

end
