(* ===== verification/Path_Utils.thy ===== *)
theory Path_Utils
  imports File_Utils "HOL-Library.Sublist"
begin

text \<open>
  \<open>src/common/utils/path_utils.cpp\<close>: the directories of the program as functions of the environment, and
  the test whether a path stays below a base, which guards the installation and the use of models.
\<close>

section \<open>Texts and paths\<close>

text \<open>
  The constructor of \<open>std::filesystem::path\<close> from a text: repeated separators count once, and a
  separator cur the end gives an empty last name.
\<close>

definition to_path :: "string \<Rightarrow> path" where
  "to_path s =
     (let ns = filter (\<lambda>n. n \<noteq> []) (Split s CHR ''/'') in
      \<lparr>path_rooted = starts_with s ''/'',
       path_names = (if ns \<noteq> [] \<and> last s = CHR ''/'' then ns @ [[]] else ns)\<rparr>)"

definition path_text :: "path \<Rightarrow> string" where
  "path_text p = (if path_rooted p then ''/'' else []) @ Join (path_names p) ''/''"

text \<open>What iterating over a path gives.\<close>

definition components :: "path \<Rightarrow> string list" where
  "components p = (if path_rooted p then [''/''] else []) @ path_names p"

section \<open>Below a root\<close>

text \<open>The loop that takes empty file names off the normalised root.\<close>

function strip_trailing :: "path \<Rightarrow> path" where
  "strip_trailing r =
     (if filename r = [] \<and> parent_path r \<noteq> empty_path \<and> r \<noteq> parent_path r
      then strip_trailing (parent_path r) else r)"
  by pat_completeness auto
termination
proof (relation "measure (\<lambda>r. length (path_names r))")
  fix r :: path
  assume "filename r = [] \<and> parent_path r \<noteq> empty_path \<and> r \<noteq> parent_path r"
  then have "path_names r \<noteq> []" by (auto simp: parent_path_def)
  then show "(parent_path r, r) \<in> measure (\<lambda>r. length (path_names r))" by (simp add: parent_path_def)
qed simp

declare strip_trailing.simps [simp del]

fun leads :: "string list \<Rightarrow> string list \<Rightarrow> bool" where
  "leads [] ps = True"
| "leads (r # rs) [] = False"
| "leads (r # rs) (p # ps) = (p = r \<and> leads rs ps)"

definition IsPathWithinRoot :: "path \<Rightarrow> path \<Rightarrow> bool" where
  "IsPathWithinRoot p base =
     (let norm_path = lexically_normal p; norm_root = strip_trailing (lexically_normal base)
      in leads (components norm_root) (components norm_path))"

section \<open>The directories\<close>

type_synonym environment = "string \<Rightarrow> string option"

definition GetEnvNonEmpty :: "environment \<Rightarrow> string \<Rightarrow> string option" where
  "GetEnvNonEmpty getenv name =
     (case getenv name of Some val \<Rightarrow> if val \<noteq> [] then Some val else None | None \<Rightarrow> None)"

definition sub :: "path \<Rightarrow> string \<Rightarrow> path" where
  "sub p s = join_path p (to_path s)"

definition FlatpakAddonRootDir :: path where
  "FlatpakAddonRootDir = sub (sub (to_path ''/app'') ''addons'') ''Vinput''"

definition FlatpakBundledSystemdUnitPath :: "string \<Rightarrow> path" where
  "FlatpakBundledSystemdUnitPath unit_name =
     sub (sub (sub (sub FlatpakAddonRootDir ''share'') ''systemd'') ''user'') unit_name"

definition FlatpakBundledExecutablePath :: "string \<Rightarrow> path" where
  "FlatpakBundledExecutablePath name = sub (sub FlatpakAddonRootDir ''bin'') name"

definition xdg_home :: "environment \<Rightarrow> string \<Rightarrow> string list \<Rightarrow> path" where
  "xdg_home getenv var below =
     (case GetEnvNonEmpty getenv var of
        Some xdg \<Rightarrow> to_path xdg
      | None \<Rightarrow>
          (case GetEnvNonEmpty getenv ''HOME'' of
             Some home \<Rightarrow> foldl sub (to_path home) below
           | None \<Rightarrow> empty_path))"

definition XdgConfigHome :: "environment \<Rightarrow> path" where
  "XdgConfigHome getenv = xdg_home getenv ''XDG_CONFIG_HOME'' [''.config'']"

definition XdgDataHome :: "environment \<Rightarrow> path" where
  "XdgDataHome getenv = xdg_home getenv ''XDG_DATA_HOME'' [''.local'', ''share'']"

definition XdgCacheHome :: "environment \<Rightarrow> path" where
  "XdgCacheHome getenv = xdg_home getenv ''XDG_CACHE_HOME'' [''.cache'']"

definition VinputConfigDir :: "environment \<Rightarrow> path" where
  "VinputConfigDir getenv = sub (XdgConfigHome getenv) ''vinput''"

definition VinputDataDir :: "environment \<Rightarrow> path" where
  "VinputDataDir getenv = sub (XdgDataHome getenv) ''vinput''"

definition VinputCacheDir :: "environment \<Rightarrow> path" where
  "VinputCacheDir getenv = sub (XdgCacheHome getenv) ''vinput''"

definition kDaemonServiceUnitName :: string where
  "kDaemonServiceUnitName = ''vinput-daemon.service''"

definition kDaemonExecutableName :: string where
  "kDaemonExecutableName = ''vinput-daemon''"

definition UserSystemdUnitDir :: "environment \<Rightarrow> path" where
  "UserSystemdUnitDir getenv = sub (sub (XdgConfigHome getenv) ''systemd'') ''user''"

definition UserSystemdUnitPath :: "environment \<Rightarrow> string \<Rightarrow> path" where
  "UserSystemdUnitPath getenv unit_name = sub (UserSystemdUnitDir getenv) unit_name"

definition DaemonExecutablePath :: "bool \<Rightarrow> path" where
  "DaemonExecutablePath in_sandbox =
     (if in_sandbox then FlatpakBundledExecutablePath kDaemonExecutableName
      else to_path kDaemonExecutableName)"

definition DaemonServiceUnitInstallPath :: "environment \<Rightarrow> path" where
  "DaemonServiceUnitInstallPath getenv = UserSystemdUnitPath getenv kDaemonServiceUnitName"

definition DaemonServiceUnitTemplatePath :: "bool \<Rightarrow> path" where
  "DaemonServiceUnitTemplatePath in_sandbox =
     (if in_sandbox then FlatpakBundledSystemdUnitPath kDaemonServiceUnitName else empty_path)"

definition ExpandUserPath :: "environment \<Rightarrow> string \<Rightarrow> path" where
  "ExpandUserPath getenv s =
     (if s = [] \<or> hd s \<noteq> CHR ''~'' then to_path s
      else
        (case GetEnvNonEmpty getenv ''HOME'' of
           None \<Rightarrow> empty_path
         | Some home \<Rightarrow> sub (to_path home) (drop (if length s > 1 \<and> s ! 1 = CHR ''/'' then 2 else 1) s)))"

definition DefaultModelBaseDir :: "environment \<Rightarrow> path" where
  "DefaultModelBaseDir getenv = sub (VinputDataDir getenv) ''models''"

definition CoreConfigPath :: "environment \<Rightarrow> path" where
  "CoreConfigPath getenv = sub (VinputConfigDir getenv) ''config.json''"

definition FcitxAddonConfigPath :: "environment \<Rightarrow> path" where
  "FcitxAddonConfigPath getenv =
     (let config_home = XdgConfigHome getenv in
      if config_home = empty_path then empty_path
      else sub (sub (sub config_home ''fcitx5'') ''conf'') ''vinput.conf'')"

definition RegistryCacheDir :: "environment \<Rightarrow> path" where
  "RegistryCacheDir getenv = sub (VinputCacheDir getenv) ''registry''"

definition ManagedResourceDir :: "environment \<Rightarrow> string \<Rightarrow> path" where
  "ManagedResourceDir getenv category = sub (VinputDataDir getenv) category"

definition ManagedAsrProviderDir :: "environment \<Rightarrow> path" where
  "ManagedAsrProviderDir getenv = ManagedResourceDir getenv ''providers''"

definition ManagedLlmAdapterDir :: "environment \<Rightarrow> path" where
  "ManagedLlmAdapterDir getenv = ManagedResourceDir getenv ''adapters''"

definition runtime_dir :: "environment \<Rightarrow> string \<Rightarrow> path" where
  "runtime_dir getenv leaf =
     (case GetEnvNonEmpty getenv ''XDG_RUNTIME_DIR'' of
        Some xdg_runtime \<Rightarrow> sub (sub (to_path xdg_runtime) ''vinput'') leaf
      | None \<Rightarrow>
          (let dir = (case GetEnvNonEmpty getenv ''TMPDIR'' of Some t \<Rightarrow> to_path t | None \<Rightarrow> to_path ''/tmp'')
           in sub (sub dir ''vinput'') leaf))"

definition AdapterRuntimeDir :: "environment \<Rightarrow> path" where
  "AdapterRuntimeDir getenv = runtime_dir getenv ''adapters''"

definition ClientRuntimeDir :: "environment \<Rightarrow> path" where
  "ClientRuntimeDir getenv = runtime_dir getenv ''clients''"

definition ContextCachePath :: "environment \<Rightarrow> path" where
  "ContextCachePath getenv = sub (VinputCacheDir getenv) ''context.jsonl''"

definition ReadNotificationsPath :: "environment \<Rightarrow> path" where
  "ReadNotificationsPath getenv = sub (VinputCacheDir getenv) ''read_notifications''"

definition ProviderModelCachePath :: "environment \<Rightarrow> path" where
  "ProviderModelCachePath getenv = sub (VinputCacheDir getenv) ''provider_models.json''"

definition InstalledManifestCachePath :: "environment \<Rightarrow> path" where
  "InstalledManifestCachePath getenv = sub (VinputCacheDir getenv) ''installed.json''"

definition I18nCachePath :: "environment \<Rightarrow> string \<Rightarrow> path" where
  "I18nCachePath getenv loc = sub (sub (RegistryCacheDir getenv) ''i18n'') (loc @ ''.json'')"

section \<open>The test is exact\<close>

text \<open>
  The reference: where an absolute path without symbolic links leads, as the list of the directories
  from the root. Two dots lead to the parent, and at the root they lead nowhere else.
\<close>

fun walk :: "string list \<Rightarrow> string list \<Rightarrow> string list" where
  "walk cur [] = cur"
| "walk cur (n # ns) =
     (if n = [] \<or> n = ''.'' then walk cur ns
      else if n = ''..'' then walk (butlast cur) ns
      else walk (cur @ [n]) ns)"

definition leads_to :: "path \<Rightarrow> string list" where
  "leads_to p = walk [] (path_names p)"

definition real_names :: "string list \<Rightarrow> bool" where
  "real_names ns = list_all (\<lambda>n. n \<noteq> [] \<and> n \<noteq> ''.'' \<and> n \<noteq> ''..'') ns"

lemma real_names_butlast: "real_names ns \<Longrightarrow> real_names (butlast ns)"
  by (auto simp: real_names_def list_all_iff dest: in_set_butlastD)

lemma walk_real: "real_names cur \<Longrightarrow> real_names (walk cur ns)"
proof (induction cur ns rule: walk.induct)
  case (2 cur n ns)
  then show ?case by (auto simp: real_names_butlast) (auto simp: real_names_def)
qed simp

lemma normal_names_walk:
  "real_names cur \<Longrightarrow> \<exists>trail'. normal_names True cur trail ns = walk cur ns @ (if trail' then [[]] else [])"
proof (induction ns arbitrary: cur trail)
  case Nil
  then show ?case by auto
next
  case (Cons n ns)
  show ?case
  proof (cases "n = [] \<or> n = ''.''")
    case True
    then show ?thesis using Cons by simp
  next
    case False
    note n = False
    show ?thesis
    proof (cases "n = ''..''")
      case True
      have "cur \<noteq> [] \<Longrightarrow> last cur \<noteq> ''..''" using Cons.prems by (simp add: real_names_def list_all_iff)
      then have "normal_names True cur trail (n # ns) = normal_names True (butlast cur) True ns"
        using True by (cases "cur = []") simp_all
      moreover have "walk cur (n # ns) = walk (butlast cur) ns" using True by simp
      ultimately show ?thesis using Cons.IH [OF real_names_butlast [OF Cons.prems], of True] by simp
    next
      case False
      then have "real_names (cur @ [n])" using n Cons.prems by (simp add: real_names_def)
      then show ?thesis using False n Cons.IH [of "cur @ [n]" False] by simp
    qed
  qed
qed

lemma lexically_normal_walk:
  assumes "path_rooted p"
  shows "\<exists>trail. lexically_normal p = \<lparr>path_rooted = True, path_names = leads_to p @ (if trail then [[]] else [])\<rparr>"
proof -
  have "p \<noteq> empty_path" using assms by (auto simp: empty_path_def)
  moreover obtain trail where "normal_names True [] False (path_names p) = leads_to p @ (if trail then [[]] else [])"
    using normal_names_walk [of "[]" False "path_names p"] by (auto simp: leads_to_def real_names_def)
  ultimately have "lexically_normal p = p\<lparr>path_names := leads_to p @ (if trail then [[]] else [])\<rparr>"
    using assms by (simp add: lexically_normal_def)
  then show ?thesis using assms by (cases p) auto
qed

lemma strip_trailing_walk:
  assumes "real_names ns"
  shows "strip_trailing \<lparr>path_rooted = True, path_names = ns @ (if trail then [[]] else [])\<rparr>
    = \<lparr>path_rooted = True, path_names = ns\<rparr>"
proof -
  have "last ns \<noteq> []" if "ns \<noteq> []" using assms that by (auto simp: real_names_def list_all_iff)
  then have "strip_trailing \<lparr>path_rooted = True, path_names = ns\<rparr> = \<lparr>path_rooted = True, path_names = ns\<rparr>"
    by (subst strip_trailing.simps) (auto simp: filename_def parent_path_def)
  moreover have "strip_trailing \<lparr>path_rooted = True, path_names = ns @ [[]]\<rparr>
      = strip_trailing \<lparr>path_rooted = True, path_names = ns\<rparr>"
    by (subst strip_trailing.simps) (simp add: filename_def parent_path_def empty_path_def)
  ultimately show ?thesis by simp
qed

lemma leads_prefix: "leads rs ps \<longleftrightarrow> prefix rs ps"
  by (induction rs ps rule: leads.induct) auto

text \<open>
  For absolute paths the test accepts exactly the paths that lead to the root or to something
  below it, however dots, double dots and repeated or trailing separators are mixed into either.
\<close>
theorem IsPathWithinRoot_exact:
  assumes "path_rooted p" and "path_rooted base"
  shows "IsPathWithinRoot p base \<longleftrightarrow> prefix (leads_to base) (leads_to p)"
proof -
  obtain t where p: "lexically_normal p = \<lparr>path_rooted = True, path_names = leads_to p @ (if t then [[]] else [])\<rparr>"
    using lexically_normal_walk [OF assms(1)] by blast
  obtain u where r: "lexically_normal base = \<lparr>path_rooted = True, path_names = leads_to base @ (if u then [[]] else [])\<rparr>"
    using lexically_normal_walk [OF assms(2)] by blast
  have real: "real_names (leads_to base)" unfolding leads_to_def by (rule walk_real) (simp add: real_names_def)
  have "IsPathWithinRoot p base \<longleftrightarrow> prefix (leads_to base) (leads_to p @ (if t then [[]] else []))"
    by (simp add: IsPathWithinRoot_def p r strip_trailing_walk [OF real] components_def leads_prefix Let_def)
  also have "\<dots> \<longleftrightarrow> prefix (leads_to base) (leads_to p)"
    using real by (cases t) (auto simp: prefix_snoc real_names_def)
  finally show ?thesis .
qed

theorem IsPathWithinRoot_exact_witness:
  "IsPathWithinRoot (to_path ''/m/x/../x/./y/'') (to_path ''/m//x/'')
   \<and> \<not> IsPathWithinRoot (to_path ''/m/x/../y'') (to_path ''/m/x'')"
proof -
  have "path_rooted (to_path ''/m/x/../x/./y/'')" "path_rooted (to_path ''/m//x/'')"
    "path_rooted (to_path ''/m/x/../y'')" "path_rooted (to_path ''/m/x'')" by code_simp+
  moreover have "prefix (leads_to (to_path ''/m//x/'')) (leads_to (to_path ''/m/x/../x/./y/''))"
    "\<not> prefix (leads_to (to_path ''/m/x'')) (leads_to (to_path ''/m/x/../y''))" by code_simp+
  ultimately show ?thesis using IsPathWithinRoot_exact by blast
qed

end
