(* ===== verification/Registry_Fetch.thy ===== *)
theory Registry_Fetch
  imports Path_Utils Core_Config
begin

text \<open>
  \<open>src/common/utils/downloader.cpp\<close>, \<open>src/common/registry/registry_cache.cpp\<close>, \<open>registry_fetch.cpp\<close> and
  \<open>registry_i18n.cpp\<close>: downloads with alternative addresses, the cache that stands in when the network
  fails, and the translations of the registry's texts. The HTTP client, the cancellation token and the
  outcomes of writes are parameters; the files of the cache are a state that is passed along.
\<close>

section \<open>Downloads\<close>

record DownloadResponse =
  hr_status_code :: int
  hr_body :: string
  hr_effective_url :: string
  hr_error_message :: string
  hr_cancelled :: bool

definition hr_Ok :: "DownloadResponse \<Rightarrow> bool" where
  "hr_Ok r \<longleftrightarrow> hr_status_code r \<ge> 200 \<and> hr_status_code r < 300 \<and> hr_error_message r = [] \<and> \<not> hr_cancelled r"

record DownloadResult =
  dr_ok :: bool
  dr_resolved_url :: string
  dr_http_code :: int
  dr_bytes_received :: nat
  dr_error :: string

definition default_download :: DownloadResult where
  "default_download = \<lparr>dr_ok = False, dr_resolved_url = [], dr_http_code = 0, dr_bytes_received = 0, dr_error = []\<rparr>"

definition RequiresHttpStatusCheck :: "string \<Rightarrow> bool" where
  "RequiresHttpStatusCheck url \<longleftrightarrow> starts_with url ''http://'' \<or> starts_with url ''https://''"

definition PopulateResult :: "string \<Rightarrow> DownloadResponse \<Rightarrow> DownloadResult \<Rightarrow> DownloadResult" where
  "PopulateResult url res result =
     (let http_ok = (if RequiresHttpStatusCheck url then hr_status_code res = 200 else True);
          ok = (hr_Ok res \<and> http_ok)
      in result
        \<lparr>dr_resolved_url := (if hr_effective_url res = [] then url else hr_effective_url res),
         dr_http_code := hr_status_code res, dr_ok := ok,
         dr_error := (if ok then []
                      else if hr_cancelled res then ''download cancelled''
                      else if hr_error_message res \<noteq> [] then ''download failed: '' @ hr_error_message res
                      else if RequiresHttpStatusCheck url \<and> hr_status_code res \<noteq> 200 \<and> hr_status_code res \<noteq> 0
                      then ''download failed with HTTP '' @ to_string (hr_status_code res)
                      else ''download failed'')\<rparr>)"

text \<open>
  The answers of the network and of the token (never set if there is none), both by the number of times
  the token was read before; a loop reads it before and after each request.
\<close>

record net_env =
  nt_request :: "nat \<Rightarrow> string \<Rightarrow> DownloadResponse"
  nt_token :: "nat \<Rightarrow> bool"

definition cancelled_result :: "string \<Rightarrow> DownloadResult \<Rightarrow> DownloadResult" where
  "cancelled_result url r = r\<lparr>dr_ok := False, dr_resolved_url := url, dr_error := ''download cancelled''\<rparr>"

fun DownloadText_loop ::
    "net_env \<Rightarrow> nat \<Rightarrow> DownloadResult \<Rightarrow> string list \<Rightarrow> string option \<times> DownloadResult" where
  "DownloadText_loop nt n last_result [] = (None, last_result)"
| "DownloadText_loop nt n last_result (url # urls) =
     (if nt_token nt n then (None, cancelled_result url last_result)
      else if url = [] then DownloadText_loop nt (n + 1) last_result urls
      else
        (let res = nt_request nt n url;
             r = (PopulateResult url res last_result)\<lparr>dr_bytes_received := length (hr_body res)\<rparr>
         in if dr_ok r then (Some (hr_body res), r)
            else if hr_cancelled res \<or> nt_token nt (n + 1) then (None, r)
            else DownloadText_loop nt (n + 2) r urls))"

definition DownloadText :: "net_env \<Rightarrow> string list \<Rightarrow> string option \<times> DownloadResult" where
  "DownloadText nt urls = DownloadText_loop nt 0 default_download urls"

text \<open>
  A download to a file: whether it succeeded, the result, and the contents of the file afterwards.
  \<open>sizes\<close> is the answer of \<open>file_size\<close>; what a failed request leaves in the file does not matter, since the
  file is removed.
\<close>

fun DownloadFile_loop ::
    "net_env \<Rightarrow> (string \<Rightarrow> nat) \<Rightarrow> nat \<Rightarrow> DownloadResult \<Rightarrow> string list \<Rightarrow> string option \<times> DownloadResult" where
  "DownloadFile_loop nt sizes n last_result [] = (None, last_result)"
| "DownloadFile_loop nt sizes n last_result (url # urls) =
     (if nt_token nt n then (None, cancelled_result url last_result)
      else if url = [] then DownloadFile_loop nt sizes (n + 1) last_result urls
      else
        (let res = nt_request nt n url; r = PopulateResult url res last_result
         in if dr_ok r then (Some (hr_body res), r\<lparr>dr_bytes_received := sizes (hr_body res)\<rparr>)
            else if hr_cancelled res \<or> nt_token nt (n + 1) then (None, r\<lparr>dr_bytes_received := 0\<rparr>)
            else DownloadFile_loop nt sizes (n + 2) (r\<lparr>dr_bytes_received := 0\<rparr>) urls))"

definition DownloadFile :: "net_env \<Rightarrow> (string \<Rightarrow> nat) \<Rightarrow> string list \<Rightarrow> bool \<times> DownloadResult \<times> string option" where
  "DownloadFile nt sizes urls =
     (case DownloadFile_loop nt sizes 0 default_download urls of
        (Some body, r) \<Rightarrow> (True, r, Some body)
      | (None, r) \<Rightarrow> (False, r, None))"

section \<open>The cache\<close>

text \<open>The files of the cache by path; a file that is not there or too large is not readable.\<close>

type_synonym cache_files = "path \<Rightarrow> string option"

record cache_env = net_env +
  ct_read_error :: "path \<Rightarrow> string"
  ct_write_error :: "path \<Rightarrow> string option"

record FetchOutcome =
  fo_ok :: bool
  fo_content :: string
  fo_result :: DownloadResult
  fo_error :: string
  fo_used_cache :: bool
  fo_fallback_error :: string

definition SaveCachedText :: "cache_env \<Rightarrow> path \<Rightarrow> string \<Rightarrow> cache_files \<Rightarrow> string option \<times> cache_files" where
  "SaveCachedText ce cache_path content files =
     (case ct_write_error ce cache_path of
        Some e \<Rightarrow> (Some e, files)
      | None \<Rightarrow> (None, files(cache_path \<mapsto> content)))"

definition cached_result :: "path \<Rightarrow> string \<Rightarrow> DownloadResult" where
  "cached_result cache_path content =
     \<lparr>dr_ok = True, dr_resolved_url = path_text cache_path, dr_http_code = 0,
      dr_bytes_received = length content, dr_error = []\<rparr>"

abbreviation net_of :: "cache_env \<Rightarrow> net_env" where
  "net_of ce \<equiv> \<lparr>nt_request = nt_request ce, nt_token = nt_token ce\<rparr>"

definition FetchText :: "cache_env \<Rightarrow> string list \<Rightarrow> path \<Rightarrow> cache_files \<Rightarrow> FetchOutcome \<times> cache_files" where
  "FetchText ce urls cache_path files =
     (case DownloadText (net_of ce) urls of
        (Some content, dl) \<Rightarrow>
          (case SaveCachedText ce cache_path content files of
             (Some e, files1) \<Rightarrow>
               (\<lparr>fo_ok = False, fo_content = content, fo_result = dl, fo_error = e, fo_used_cache = False,
                 fo_fallback_error = []\<rparr>, files1)
           | (None, files1) \<Rightarrow>
               (\<lparr>fo_ok = True, fo_content = content, fo_result = dl, fo_error = [], fo_used_cache = False,
                 fo_fallback_error = []\<rparr>, files1))
      | (None, dl) \<Rightarrow>
          (case files cache_path of
             Some content \<Rightarrow>
               (\<lparr>fo_ok = True, fo_content = content, fo_result = cached_result cache_path content, fo_error = [],
                 fo_used_cache = True, fo_fallback_error = dr_error dl\<rparr>, files)
           | None \<Rightarrow>
               (\<lparr>fo_ok = False, fo_content = [], fo_result = dl,
                 fo_error = (if dr_error dl \<noteq> []
                             then dr_error dl @ ''; cache unavailable: '' @ ct_read_error ce cache_path
                             else ct_read_error ce cache_path),
                 fo_used_cache = False, fo_fallback_error = []\<rparr>, files)))"

definition CachePath :: "environment \<Rightarrow> string \<Rightarrow> path" where
  "CachePath getenv name = sub (RegistryCacheDir getenv) name"

definition ModelRegistryPath :: "environment \<Rightarrow> path" where
  "ModelRegistryPath getenv = CachePath getenv ''models.json''"

definition AsrProviderRegistryPath :: "environment \<Rightarrow> path" where
  "AsrProviderRegistryPath getenv = CachePath getenv ''providers.json''"

definition LlmAdapterRegistryPath :: "environment \<Rightarrow> path" where
  "LlmAdapterRegistryPath getenv = CachePath getenv ''adapters.json''"

section \<open>Translations\<close>

text \<open>The source's maps are unordered; here the keys ascend, and no operation depends on the order.\<close>

type_synonym I18nMap = "string smap"

fun text_members :: "(string \<times> json) list \<Rightarrow> I18nMap \<Rightarrow> I18nMap" where
  "text_members [] m = m"
| "text_members ((key, JStr t) # es) m = text_members es (smap_put key t m)"
| "text_members (_ # es) m = text_members es m"

text \<open>The map, and the error if one is reported.\<close>

definition ParseI18nJson :: "(string \<Rightarrow> string + json) \<Rightarrow> string \<Rightarrow> I18nMap \<times> string option" where
  "ParseI18nJson read_json content =
     (case read_json content of
        Inl e \<Rightarrow> ([], Some (''failed to parse i18n JSON: '' @ e))
      | Inr (JObj entries) \<Rightarrow> (text_members entries [], None)
      | Inr _ \<Rightarrow> ([], Some ''i18n JSON is not an object''))"

definition LoadI18nFile :: "(string \<Rightarrow> string + json) \<Rightarrow> path \<Rightarrow> cache_files \<Rightarrow> I18nMap \<times> string option" where
  "LoadI18nFile read_json p files =
     (case files p of
        None \<Rightarrow> ([], Some (''cached i18n unavailable: '' @ path_text p))
      | Some content \<Rightarrow> ParseI18nJson read_json content)"

definition LoadLocalI18nOverrides :: "(string \<Rightarrow> string + json) \<Rightarrow> environment \<Rightarrow> cache_files \<Rightarrow> I18nMap" where
  "LoadLocalI18nOverrides read_json getenv files =
     fst (LoadI18nFile read_json (sub (VinputConfigDir getenv) ''i18n.local.json'') files)"

definition ApplyLocalI18nOverrides ::
    "(string \<Rightarrow> string + json) \<Rightarrow> environment \<Rightarrow> cache_files \<Rightarrow> I18nMap \<Rightarrow> I18nMap" where
  "ApplyLocalI18nOverrides read_json getenv files m =
     foldl (\<lambda>acc (key, v). smap_put key v acc) m (LoadLocalI18nOverrides read_json getenv files)"

fun first_locale :: "environment \<Rightarrow> string list \<Rightarrow> string" where
  "first_locale getenv [] = ''en_US''"
| "first_locale getenv (v # vs) =
     (case getenv v of
        Some val \<Rightarrow>
          if val \<noteq> [] \<and> CanonicalizeLocale val \<noteq> [] then CanonicalizeLocale val else first_locale getenv vs
      | None \<Rightarrow> first_locale getenv vs)"

definition DetectPreferredLocale :: "environment \<Rightarrow> string" where
  "DetectPreferredLocale getenv = first_locale getenv [''LANGUAGE'', ''LC_ALL'', ''LC_MESSAGES'', ''LANG'']"

text \<open>\<open>emplace\<close> of all entries keeps those that are there.\<close>

definition emplace_all :: "I18nMap \<Rightarrow> I18nMap \<Rightarrow> I18nMap" where
  "emplace_all m fallback = foldl (\<lambda>acc (key, v). smap_emplace key v acc) m fallback"

definition LoadMergedCachedI18nMap ::
    "(string \<Rightarrow> string + json) \<Rightarrow> environment \<Rightarrow> cache_files \<Rightarrow> string \<Rightarrow> I18nMap \<times> string" where
  "LoadMergedCachedI18nMap read_json getenv files preferred_locale =
     (case LoadI18nFile read_json (I18nCachePath getenv preferred_locale) files of
        (merged, e1) \<Rightarrow>
          (case (if preferred_locale \<noteq> ''en_US''
                 then (case LoadI18nFile read_json (I18nCachePath getenv ''en_US'') files of
                         (fallback, e2) \<Rightarrow>
                           (if merged = [] then fallback else emplace_all merged fallback, e2))
                 else (merged, None)) of
             (merged1, e2) \<Rightarrow>
               (let merged2 = ApplyLocalI18nOverrides read_json getenv files merged1;
                    primary = (case e1 of Some e \<Rightarrow> e | None \<Rightarrow> []);
                    fallback_error = (case e2 of Some e \<Rightarrow> e | None \<Rightarrow> [])
                in (merged2,
                    if merged2 \<noteq> [] then []
                    else if primary \<noteq> []
                    then primary @ (if fallback_error \<noteq> [] then ''; '' @ fallback_error else [])
                    else fallback_error))))"

definition registry_LookupI18n :: "I18nMap \<Rightarrow> string \<Rightarrow> string \<Rightarrow> string" where
  "registry_LookupI18n m key fallback =
     (case map_of m key of None \<Rightarrow> fallback | Some v \<Rightarrow> if v = [] then fallback else v)"

section \<open>Fetching\<close>

definition CacheFallbackWarning :: "string \<Rightarrow> FetchOutcome \<Rightarrow> string" where
  "CacheFallbackWarning name st =
     ''using cached '' @ name @ '' because download failed''
     @ (if fo_fallback_error st \<noteq> [] then '': '' @ fo_fallback_error st else [])"

definition RefreshLocaleCache ::
    "cache_env \<Rightarrow> environment \<Rightarrow> CoreConfig \<Rightarrow> string \<Rightarrow> cache_files \<Rightarrow> bool \<times> string list \<times> cache_files" where
  "RefreshLocaleCache ce getenv config loc files =
     (let urls = RegistryI18nUrls config loc in
      if urls = [] then (False, [], files)
      else
        (case FetchText ce urls (I18nCachePath getenv loc) files of
           (st, files1) \<Rightarrow>
             (fo_ok st,
              if fo_ok st \<and> fo_used_cache st then [CacheFallbackWarning (''i18n '' @ loc) st] else [], files1)))"

definition RefreshI18nAfterOnlineFetch ::
    "cache_env \<Rightarrow> environment \<Rightarrow> CoreConfig option \<Rightarrow> cache_files \<Rightarrow> string list \<times> cache_files" where
  "RefreshI18nAfterOnlineFetch ce getenv config files =
     (case config of
        None \<Rightarrow> ([], files)
      | Some c \<Rightarrow>
          (let preferred = DetectPreferredLocale getenv in
           case RefreshLocaleCache ce getenv c preferred files of
             (_, w1, files1) \<Rightarrow>
               if preferred \<noteq> ''en_US''
               then (case RefreshLocaleCache ce getenv c ''en_US'' files1 of (_, w2, files2) \<Rightarrow> (w1 @ w2, files2))
               else (w1, files1)))"

definition FetchRegistryText ::
    "cache_env \<Rightarrow> environment \<Rightarrow> CoreConfig option \<Rightarrow> string list \<Rightarrow> path \<Rightarrow> cache_files
     \<Rightarrow> FetchOutcome \<times> string list \<times> cache_files" where
  "FetchRegistryText ce getenv config urls cache_path files =
     (case FetchText ce urls cache_path files of
        (st, files1) \<Rightarrow>
          if \<not> fo_ok st then (st, [], files1)
          else if fo_used_cache st then (st, [CacheFallbackWarning (filename cache_path) st], files1)
          else
            (case RefreshI18nAfterOnlineFetch ce getenv config files1 of
               (ws, files2) \<Rightarrow> (st, ws, files2)))"

definition FetchI18nMap ::
    "cache_env \<Rightarrow> (string \<Rightarrow> string + json) \<Rightarrow> environment \<Rightarrow> string \<Rightarrow> string list \<Rightarrow> cache_files
     \<Rightarrow> I18nMap \<times> string option \<times> cache_files" where
  "FetchI18nMap ce read_json getenv loc urls files =
     (if urls = [] then ([], Some ''no i18n URLs configured'', files)
      else
        (case FetchText ce urls (I18nCachePath getenv loc) files of
           (st, files1) \<Rightarrow>
             if \<not> fo_ok st then ([], Some (fo_error st), files1)
             else (case ParseI18nJson read_json (fo_content st) of
                     (m, e) \<Rightarrow> (m, Some (case e of Some x \<Rightarrow> x | None \<Rightarrow> []), files1))))"

definition FetchMergedI18nMap ::
    "cache_env \<Rightarrow> (string \<Rightarrow> string + json) \<Rightarrow> environment \<Rightarrow> CoreConfig \<Rightarrow> string \<Rightarrow> cache_files
     \<Rightarrow> I18nMap \<times> string \<times> cache_files" where
  "FetchMergedI18nMap ce read_json getenv config preferred_locale files =
     (let primary_urls = RegistryI18nUrls config preferred_locale;
          fallback_urls = RegistryI18nUrls config ''en_US'';
          fetch = FetchI18nMap ce read_json getenv
      in case (if primary_urls \<noteq> [] then fetch preferred_locale primary_urls files else ([], None, files)) of
           (merged, e1, files1) \<Rightarrow>
             (case (if merged = [] \<and> preferred_locale \<noteq> ''en_US'' then
                      (case fetch ''en_US'' fallback_urls files1 of
                         (fallback, e2, files2) \<Rightarrow>
                           (emplace_all merged fallback, case e2 of Some e \<Rightarrow> Some e | None \<Rightarrow> e1, files2))
                    else if preferred_locale \<noteq> ''en_US'' then
                      (case fetch ''en_US'' fallback_urls files1 of
                         (fallback, _, files2) \<Rightarrow> (emplace_all merged fallback, e1, files2))
                    else (merged, e1, files1)) of
                (merged1, e, files2) \<Rightarrow>
                  (ApplyLocalI18nOverrides read_json getenv files2 merged1,
                   case e of Some x \<Rightarrow> x | None \<Rightarrow> [], files2)))"

section \<open>What a download returns\<close>

text \<open>A response that counts as a success for its address.\<close>

definition good_response :: "string \<Rightarrow> DownloadResponse \<Rightarrow> bool" where
  "good_response url res \<longleftrightarrow> hr_Ok res \<and> (RequiresHttpStatusCheck url \<longrightarrow> hr_status_code res = 200)"

lemma PopulateResult_ok: "dr_ok (PopulateResult url res r) = good_response url res"
  by (simp add: PopulateResult_def good_response_def Let_def)

text \<open>The addresses that were asked, in order, and what they answered.\<close>

fun asked :: "net_env \<Rightarrow> nat \<Rightarrow> string list \<Rightarrow> (string \<times> DownloadResponse) list" where
  "asked nt n [] = []"
| "asked nt n (url # urls) =
     (if nt_token nt n then []
      else if url = [] then asked nt (n + 1) urls
      else (url, nt_request nt n url) #
        (if good_response url (nt_request nt n url) \<or> hr_cancelled (nt_request nt n url) \<or> nt_token nt (n + 1)
         then [] else asked nt (n + 2) urls))"

lemma asked_subseq: "subseq (map fst (asked nt n urls)) urls"
  by (induction nt n urls rule: asked.induct) auto

lemma DownloadText_loop_asked:
  "fst (DownloadText_loop nt n r urls) =
     (if asked nt n urls \<noteq> [] \<and> good_response (fst (last (asked nt n urls))) (snd (last (asked nt n urls)))
      then Some (hr_body (snd (last (asked nt n urls)))) else None)"
  by (induction nt n r urls rule: DownloadText_loop.induct) (auto simp: Let_def PopulateResult_ok)

lemma asked_bad_before:
  "i + 1 < length (asked nt n urls) \<Longrightarrow> \<not> good_response (fst (asked nt n urls ! i)) (snd (asked nt n urls ! i))"
proof (induction nt n urls arbitrary: i rule: asked.induct)
  case (2 nt n url urls)
  then show ?case by (cases i) (auto split: if_splits)
qed simp

text \<open>
  A download asks its addresses in the given order and stops at the first good answer or a
  cancellation; it succeeds exactly if the last answer it got is good, and then gives the body of that
  answer. All the answers before were bad.
\<close>
theorem download_first_good:
  "let as = asked nt 0 urls in
     subseq (map fst as) urls
     \<and> (\<forall>i. i + 1 < length as \<longrightarrow> \<not> good_response (fst (as ! i)) (snd (as ! i)))
     \<and> fst (DownloadText nt urls) =
         (if as \<noteq> [] \<and> good_response (fst (last as)) (snd (last as)) then Some (hr_body (snd (last as))) else None)"
  using asked_subseq asked_bad_before DownloadText_loop_asked unfolding Let_def DownloadText_def by blast

definition quiet_net :: net_env where
  "quiet_net = \<lparr>nt_request = (\<lambda>_ url. \<lparr>hr_status_code = (if url = ''http://b'' then 200 else 404), hr_body = url,
      hr_effective_url = [], hr_error_message = [], hr_cancelled = False\<rparr>), nt_token = (\<lambda>_. False)\<rparr>"

theorem download_first_good_witness:
  "\<not> good_response ''http://a'' (nt_request quiet_net 0 ''http://a'')
   \<and> fst (DownloadText quiet_net [''http://a'', ''http://b'']) = Some ''http://b''"
proof -
  have "length (asked quiet_net 0 [''http://a'', ''http://b'']) = 2"
    "asked quiet_net 0 [''http://a'', ''http://b''] ! 0 = (''http://a'', nt_request quiet_net 0 ''http://a'')"
    "fst (DownloadText quiet_net [''http://a'', ''http://b'']) = Some ''http://b''" by code_simp+
  then show ?thesis
    using download_first_good [of quiet_net "[''http://a'', ''http://b'']", unfolded Let_def] by force
qed

text \<open>
  After a successful fetch the cache holds exactly the text that was returned, whether it came from
  the network or, when the network failed, from the cache itself; no other file changes, and with a cached
  copy a fetch fails only when a fresh text cannot be stored.
\<close>
theorem fetch_cache_coherent:
  assumes "FetchText ce urls cache_path files = (st, files')"
  shows "(fo_ok st \<longrightarrow> files' cache_path = Some (fo_content st))
    \<and> (fo_ok st \<and> \<not> fo_used_cache st \<longrightarrow> fst (DownloadText (net_of ce) urls) = Some (fo_content st))
    \<and> (fo_used_cache st \<longrightarrow> fst (DownloadText (net_of ce) urls) = None \<and> files' = files)
    \<and> (\<not> fo_ok st \<longrightarrow> files' = files \<and> (files cache_path = None \<or> ct_write_error ce cache_path \<noteq> None))
    \<and> (\<forall>q. q \<noteq> cache_path \<longrightarrow> files' q = files q)"
  using assms by (auto simp: FetchText_def SaveCachedText_def split: prod.splits option.splits)

definition example_fetch_cache :: cache_env where
  "example_fetch_cache = \<lparr>nt_request = nt_request quiet_net, nt_token = nt_token quiet_net,
     ct_read_error = (\<lambda>_. ''missing''), ct_write_error = (\<lambda>_. None)\<rparr>"

theorem fetch_cache_coherent_witness:
  "snd (FetchText example_fetch_cache [''http://b''] (to_path ''/c'') (\<lambda>_. None)) (to_path ''/c'') = Some ''http://b''"
proof -
  obtain st files' where f: "FetchText example_fetch_cache [''http://b''] (to_path ''/c'') (\<lambda>_. None) = (st, files')"
    by (rule prod.exhaust)
  have "fo_ok (fst (FetchText example_fetch_cache [''http://b''] (to_path ''/c'') (\<lambda>_. None)))"
    "fo_content (fst (FetchText example_fetch_cache [''http://b''] (to_path ''/c'') (\<lambda>_. None))) = ''http://b''" by code_simp+
  then show ?thesis using fetch_cache_coherent [OF f] by (simp add: f)
qed

section \<open>Which translation is found\<close>

lemma map_of_puts: "map_of (foldl (\<lambda>acc (key, v). smap_put key v acc) m es) = map_of m ++ map_of (rev es)"
  by (induction es arbitrary: m) (auto simp: map_add_assoc [symmetric])

lemma map_of_emplace: "map_of (smap_emplace k v m) = [k \<mapsto> v] ++ map_of m"
  by (auto simp: smap_emplace_def map_add_def fun_eq_iff split: option.split)

lemma map_of_emplace_all: "map_of (emplace_all m fb) = map_of fb ++ map_of m"
proof (induction fb arbitrary: m)
  case (Cons e fb)
  obtain k v where e: "e = (k, v)" by (rule prod.exhaust)
  have "map_of (emplace_all m (e # fb)) = map_of (emplace_all (smap_emplace k v m) fb)"
    by (simp add: emplace_all_def e)
  also have "\<dots> = map_of fb ++ ([k \<mapsto> v] ++ map_of m)" by (simp add: Cons map_of_emplace)
  also have "\<dots> = map_of (e # fb) ++ map_of m" by (auto simp: e map_add_def fun_eq_iff split: option.split)
  finally show ?case .
qed (simp add: emplace_all_def)

lemma text_members_sorted: "smap_sorted m \<Longrightarrow> smap_sorted (text_members es m)"
  by (induction es m rule: text_members.induct) (auto simp: smap_sorted_put)

lemma LoadI18nFile_sorted: "smap_sorted (fst (LoadI18nFile read_json p files))"
proof -
  have "smap_sorted []" by (simp add: smap_sorted_def)
  then show ?thesis
    by (auto simp: LoadI18nFile_def ParseI18nJson_def text_members_sorted split: option.split sum.split json.split)
qed

lemma map_of_rev_sorted: "smap_sorted m \<Longrightarrow> map_of (rev m) = map_of m"
  using map_of_inject_set [of "rev m" m] smap_sorted_distinct [of m] by (simp add: rev_map [symmetric])

text \<open>
  A text is looked up in the user's own file first, then in the cached translation of the preferred
  locale, then in the English one, and an empty text counts as missing only after that choice was made.
\<close>
theorem i18n_precedence:
  "registry_LookupI18n (fst (LoadMergedCachedI18nMap read_json getenv files loc)) key fallback =
     (let file = (\<lambda>p. map_of (fst (LoadI18nFile read_json p files)));
          own = file (sub (VinputConfigDir getenv) ''i18n.local.json'') key;
          preferred = file (I18nCachePath getenv loc) key;
          english = file (I18nCachePath getenv ''en_US'') key;
          chosen = (case own of Some v \<Rightarrow> v | None \<Rightarrow>
                     (case preferred of Some v \<Rightarrow> v | None \<Rightarrow> (case english of Some v \<Rightarrow> v | None \<Rightarrow> [])))
      in if chosen = [] then fallback else chosen)"
proof -
  have own: "map_of (ApplyLocalI18nOverrides read_json getenv files m) =
      map_of m ++ map_of (fst (LoadI18nFile read_json (sub (VinputConfigDir getenv) ''i18n.local.json'') files))" for m
    by (simp add: ApplyLocalI18nOverrides_def map_of_puts LoadLocalI18nOverrides_def map_of_rev_sorted LoadI18nFile_sorted)
  show ?thesis
    by (auto simp: LoadMergedCachedI18nMap_def registry_LookupI18n_def own map_of_emplace_all map_add_def Let_def
        split: prod.splits option.splits)
qed

end
