(* ===== verification/Model_Manager.thy ===== *)
theory Model_Manager
  imports Path_Utils Json_Access "HOL-Library.Multiset"
begin

text \<open>
  \<open>src/common/asr/model_manager.cpp\<close>: the ids of models and the directories they live in, the metadata of
  an installed model, and the operations that list, check and remove models. The file system as the
  operations find it and the JSON reader are parameters.
\<close>

section \<open>Ids and directories\<close>

fun join_dots :: "string \<Rightarrow> string list \<Rightarrow> string" where
  "join_dots name [] = name"
| "join_dots name (t # ts) = join_dots ((if name \<noteq> [] then name @ ''.'' else name) @ t) ts"

definition SplitModelId :: "string \<Rightarrow> string list" where
  "SplitModelId model_id =
     (if model_id = [] \<or> model_id = ''.'' \<or> model_id = ''..'' \<or> CHR ''/'' \<in> set model_id
         \<or> CHR 0x5C \<in> set model_id then []
      else
        (let tokens = Split model_id CHR ''.'' in
         if length tokens < 3 \<or> hd tokens \<noteq> ''model'' then []
         else if \<exists>t\<in>set tokens. t = [] \<or> t = ''.'' \<or> t = ''..'' then []
         else
           (let source = tokens ! 1; name = join_dots [] (drop 2 tokens) in
            if source = [] \<or> name = [] then [] else [''model'', source, name])))"

definition RelativePathForId :: "string \<Rightarrow> path" where
  "RelativePathForId model_id =
     (let segments = SplitModelId model_id in
      if length segments \<noteq> 3 \<or> hd segments \<noteq> ''model'' then empty_path
      else foldl (\<lambda>p s. join_path p (to_path s)) empty_path (drop 1 segments))"

definition IdFromRelativePath :: "path \<Rightarrow> string" where
  "IdFromRelativePath relative_path =
     (let parts = components relative_path in
      if \<exists>p\<in>set parts. p = [] \<or> p = ''.'' \<or> p = ''..'' then []
      else if length parts \<noteq> 2 then []
      else (case [''model''] @ parts of [] \<Rightarrow> [] | s # ss \<Rightarrow> foldl (\<lambda>i t. i @ ''.'' @ t) s ss))"

definition ModelDir :: "string \<Rightarrow> string \<Rightarrow> path" where
  "ModelDir base_dir model_id =
     (let relative_path = RelativePathForId model_id in
      if relative_path = empty_path then empty_path else join_path (to_path base_dir) relative_path)"

definition NormalizeBaseDir :: "environment \<Rightarrow> string \<Rightarrow> path" where
  "NormalizeBaseDir getenv raw_path =
     (if raw_path = [] then DefaultModelBaseDir getenv else ExpandUserPath getenv raw_path)"

section \<open>The installed models\<close>

text \<open>
  The entries of a directory come by name, none if it cannot be read; \<open>mf_canonical\<close> is
  \<open>weakly_canonical\<close>, and \<open>mf_remove_all\<close> the outcome of removing a directory.
\<close>

record model_fs =
  mf_exists :: "path \<Rightarrow> bool"
  mf_is_directory :: "path \<Rightarrow> bool"
  mf_is_regular :: "path \<Rightarrow> bool"
  mf_entries :: "path \<Rightarrow> string list"
  mf_read :: "path \<Rightarrow> string"
  mf_canonical :: "path \<Rightarrow> string + path"
  mf_remove_all :: "path \<Rightarrow> string option"

definition hidden_name :: "string \<Rightarrow> bool" where
  "hidden_name n \<longleftrightarrow> n = [] \<or> n = ''.'' \<or> n = ''..'' \<or> hd n = CHR ''.''"

definition manifest_path :: "path \<Rightarrow> path" where
  "manifest_path dir = join_path dir (to_path ''vinput-model.json'')"

definition subdirectories :: "model_fs \<Rightarrow> path \<Rightarrow> (string \<times> path) list" where
  "subdirectories fs dir =
     filter (\<lambda>(n, d). mf_is_directory fs d \<and> \<not> hidden_name n)
       (map (\<lambda>n. (n, join_path dir (relative [n]))) (mf_entries fs dir))"

definition ForEachInstalledModelDir :: "model_fs \<Rightarrow> string \<Rightarrow> (string \<times> path) list" where
  "ForEachInstalledModelDir fs base_dir =
     (let base = to_path base_dir in
      if \<not> mf_exists fs base \<or> \<not> mf_is_directory fs base then []
      else
        concat (map (\<lambda>(engine_name, engine_dir).
          map (\<lambda>(model_name, model_dir). (IdFromRelativePath (relative [engine_name, model_name]), model_dir))
            (filter (\<lambda>(model_name, model_dir).
               IdFromRelativePath (relative [engine_name, model_name]) \<noteq> []
               \<and> mf_is_regular fs (manifest_path model_dir))
             (subdirectories fs engine_dir)))
          (subdirectories fs base)))"

section \<open>Metadata\<close>

definition squoted :: "string \<Rightarrow> string" where
  "squoted s = [CHR 0x27] @ s @ [CHR 0x27]"

record ModelInfo =
  mi_backend :: string
  mi_runtime :: string
  mi_family :: string
  mi_model_type :: string
  mi_language :: string
  mi_supports_hotwords :: bool
  mi_size_bytes :: u64
  mi_files :: "string smap"
  mi_rejected_files :: "string smap"
  mi_params :: "string smap"
  mi_recognizer_config :: json
  mi_model_config :: json

definition default_ModelInfo :: ModelInfo where
  "default_ModelInfo =
     \<lparr>mi_backend = [], mi_runtime = [], mi_family = [], mi_model_type = [], mi_language = ''auto'',
      mi_supports_hotwords = False, mi_size_bytes = 0, mi_files = [], mi_rejected_files = [], mi_params = [],
      mi_recognizer_config = JObj [], mi_model_config = JObj []\<rparr>"

definition mi_File :: "ModelInfo \<Rightarrow> string \<Rightarrow> string" where
  "mi_File info key = (case map_of (mi_files info) key of Some f \<Rightarrow> f | None \<Rightarrow> [])"

definition mi_Param :: "ModelInfo \<Rightarrow> string \<Rightarrow> string \<Rightarrow> string" where
  "mi_Param info key default_val = (case map_of (mi_params info) key of Some v \<Rightarrow> v | None \<Rightarrow> default_val)"

definition mi_ParamBool :: "ModelInfo \<Rightarrow> string \<Rightarrow> bool \<Rightarrow> bool" where
  "mi_ParamBool info key default_val =
     (case map_of (mi_params info) key of
        None \<Rightarrow> default_val
      | Some v \<Rightarrow> v = ''true'' \<or> v = ''1'')"

text \<open>The environment of the parser: JSON reader, floating point and \<open>std::to_string(double)\<close>.\<close>

record parse_env =
  pe_read_json :: "string \<Rightarrow> string + json"
  pe_float :: float_env
  pe_show :: "fp \<Rightarrow> string"

definition ResolveModelMetadataPath :: "model_fs \<Rightarrow> path \<Rightarrow> path \<Rightarrow> string \<Rightarrow> string + path" where
  "ResolveModelMetadataPath fs model_dir model_root raw_path =
     (case mf_canonical fs (join_path model_dir (to_path raw_path)) of
        Inl e \<Rightarrow> Inl (''failed to resolve path '' @ squoted raw_path @ '': '' @ e)
      | Inr candidate \<Rightarrow>
          if \<not> IsPathWithinRoot candidate model_root
          then Inl (''path escapes model directory: '' @ raw_path) else Inr candidate)"

definition FormatNumber :: "parse_env \<Rightarrow> fp \<Rightarrow> string" where
  "FormatNumber pe x =
     (let i = fp_to_int (pe_float pe) int64_min int64_max x in
      if x \<noteq> NaN \<and> x = fe_round64 (pe_float pe) (of_int i) then to_string i else pe_show pe x)"

definition AddScalarParam :: "parse_env \<Rightarrow> string \<Rightarrow> json \<Rightarrow> string smap \<Rightarrow> string smap" where
  "AddScalarParam pe key v params =
     (if key = [] then params
      else
        (case v of
           JStr t \<Rightarrow> smap_put key t params
         | JBool b \<Rightarrow> smap_put key (if b then ''true'' else ''false'') params
         | JNum x \<Rightarrow> smap_put key (FormatNumber pe x) params
         | _ \<Rightarrow> params))"

definition AddFieldParam :: "parse_env \<Rightarrow> string \<Rightarrow> json \<Rightarrow> string \<Rightarrow> json \<Rightarrow> ModelInfo \<Rightarrow> ModelInfo" where
  "AddFieldParam pe key obj field fallback info =
     info\<lparr>mi_params :=
       AddScalarParam pe key (case json_Find obj field of None \<Rightarrow> fallback | Some node \<Rightarrow> node) (mi_params info)\<rparr>"

definition ResolveModelFileField ::
    "model_fs \<Rightarrow> path \<Rightarrow> path \<Rightarrow> json \<Rightarrow> string \<Rightarrow> string \<Rightarrow> ModelInfo \<Rightarrow> ModelInfo" where
  "ResolveModelFileField fs dir model_root obj field file_key info =
     (case json_Find obj field of
        Some (JStr raw_path) \<Rightarrow>
          if raw_path = [] then info
          else
            (case ResolveModelMetadataPath fs dir model_root raw_path of
               Inl _ \<Rightarrow> info\<lparr>mi_rejected_files := smap_put file_key raw_path (mi_rejected_files info)\<rparr>
             | Inr p \<Rightarrow> info\<lparr>mi_files := smap_put file_key (path_text p) (mi_files info)\<rparr>)
      | _ \<Rightarrow> info)"

definition FamilyUsesTokenizerAsset :: "string \<Rightarrow> bool" where
  "FamilyUsesTokenizerAsset family \<longleftrightarrow> family = ''funasr_nano'' \<or> family = ''qwen3_asr''"

text \<open>The members of the family's object: texts may be paths, and every scalar is a parameter.\<close>

definition family_member ::
    "parse_env \<Rightarrow> model_fs \<Rightarrow> path \<Rightarrow> path \<Rightarrow> json \<Rightarrow> ModelInfo \<Rightarrow> string \<times> json \<Rightarrow> ModelInfo" where
  "family_member pe fs dir model_root family_config info kv =
     (case kv of
        (key, v) \<Rightarrow>
          (let info1 = (if is_string v
                        then ResolveModelFileField fs dir model_root family_config key key info else info)
           in info1\<lparr>mi_params := AddScalarParam pe key v (mi_params info1)\<rparr>))"

abbreviation object_member :: "json \<Rightarrow> string \<Rightarrow> json option" where
  "object_member j key \<equiv> (case json_Find j key of Some v \<Rightarrow> if is_object v then Some v else None | None \<Rightarrow> None)"

definition read_header :: "parse_env \<Rightarrow> json \<Rightarrow> ModelInfo" where
  "read_header pe j =
     default_ModelInfo
       \<lparr>mi_backend := json_String j ''backend'' [], mi_runtime := json_String j ''runtime'' [],
        mi_family := json_String j ''family'' [], mi_model_type := json_String j ''family'' [],
        mi_language := json_String j ''language'' ''auto'',
        mi_supports_hotwords := json_Bool j ''supports_hotwords'' False,
        mi_size_bytes := word_of_int (json_Int64 (pe_float pe) j ''size_bytes'' 0),
        mi_recognizer_config := (case object_member j ''recognizer'' of Some r \<Rightarrow> r | None \<Rightarrow> JObj []),
        mi_model_config := (case object_member j ''model'' of Some m \<Rightarrow> m | None \<Rightarrow> JObj [])\<rparr>"

text \<open>The fields of the metadata in the order in which they are read.\<close>

definition metadata_steps :: "parse_env \<Rightarrow> model_fs \<Rightarrow> path \<Rightarrow> path \<Rightarrow> ModelInfo \<Rightarrow> (ModelInfo \<Rightarrow> ModelInfo) list" where
  "metadata_steps pe fs dir model_root info =
     (let rec_cfg = mi_recognizer_config info; mod_cfg = mi_model_config info;
          file = ResolveModelFileField fs dir model_root;
          zero = JNum (Finite 0);
          num = (\<lambda>obj f. AddFieldParam pe f obj f zero);
          str = (\<lambda>obj f. AddFieldParam pe f obj f (JStr []))
      in map (\<lambda>f. file mod_cfg f f) [''tokens'', ''bpe_vocab'', ''bpe_model'', ''telespeech_ctc'']
       @ (case object_member rec_cfg ''lm_config'' of
            None \<Rightarrow> []
          | Some lm \<Rightarrow> [file lm ''model'' ''lm'', AddFieldParam pe ''lm_scale'' lm ''scale'' zero])
       @ map (\<lambda>f. file rec_cfg f f) [''hotwords_file'', ''rule_fsts'', ''rule_fars'']
       @ (case object_member rec_cfg ''ctc_fst_decoder_config'' of
            None \<Rightarrow> []
          | Some ctc \<Rightarrow> [file ctc ''graph'' ''graph'', AddFieldParam pe ''ctc_fst_max_active'' ctc ''max_active'' zero])
       @ (case object_member rec_cfg ''hr'' of
            None \<Rightarrow> []
          | Some hr \<Rightarrow> [file hr ''lexicon'' ''hr_lexicon'', file hr ''rule_fsts'' ''hr_rule_fsts''])
       @ [str rec_cfg ''decoding_method'']
       @ map (num rec_cfg) [''max_active_paths'', ''enable_endpoint'', ''rule1_min_trailing_silence'',
           ''rule2_min_trailing_silence'', ''rule3_min_utterance_length'', ''hotwords_score'', ''blank_penalty'']
       @ map (num mod_cfg) [''num_threads'', ''debug'']
       @ map (str mod_cfg) [''provider'', ''model_type'', ''modeling_unit'']
       @ (case object_member mod_cfg (mi_family info) of
            Some (JObj members) \<Rightarrow>
              map (\<lambda>kv i. family_member pe fs dir model_root (JObj members) i kv) members
          | _ \<Rightarrow> []))"

definition ParseModelJson :: "parse_env \<Rightarrow> model_fs \<Rightarrow> path \<Rightarrow> path \<Rightarrow> string + ModelInfo" where
  "ParseModelJson pe fs dir json_path =
     (case pe_read_json pe (mf_read fs json_path) of
        Inl e \<Rightarrow> Inl (''failed to parse '' @ squoted (path_text json_path) @ '': '' @ e)
      | Inr j \<Rightarrow>
          (case mf_canonical fs dir of
             Inl e \<Rightarrow> Inl (''failed to resolve model root '' @ squoted (path_text dir) @ '': '' @ e)
           | Inr model_root \<Rightarrow>
               (let info = read_header pe j in
                Inr (foldl (\<lambda>i step. step i) info (metadata_steps pe fs dir model_root info)))))"

section \<open>Checks\<close>

definition file_there :: "model_fs \<Rightarrow> string \<Rightarrow> bool" where
  "file_there fs f \<longleftrightarrow> f \<noteq> [] \<and> mf_exists fs (to_path f)"

definition HasTokens :: "model_fs \<Rightarrow> ModelInfo \<Rightarrow> bool" where
  "HasTokens fs info = file_there fs (mi_File info ''tokens'')"

definition HasTokenizer :: "model_fs \<Rightarrow> ModelInfo \<Rightarrow> bool" where
  "HasTokenizer fs info = file_there fs (mi_File info ''tokenizer'')"

definition HasRequiredTextAsset :: "model_fs \<Rightarrow> ModelInfo \<Rightarrow> bool" where
  "HasRequiredTextAsset fs info =
     (if FamilyUsesTokenizerAsset (mi_family info) then HasTokenizer fs info else HasTokens fs info)"

definition RequiredTextAssetField :: "ModelInfo \<Rightarrow> string" where
  "RequiredTextAssetField info =
     (if FamilyUsesTokenizerAsset (mi_family info) then ''model.tokenizer'' else ''model.tokens'')"

definition RequiredTextAssetPathKey :: "ModelInfo \<Rightarrow> string" where
  "RequiredTextAssetPathKey info =
     (if FamilyUsesTokenizerAsset (mi_family info) then ''tokenizer'' else ''tokens'')"

definition HasModelFiles :: "model_fs \<Rightarrow> ModelInfo \<Rightarrow> bool" where
  "HasModelFiles fs info =
     list_ex (\<lambda>(key, f).
       key \<notin> set [''tokens'', ''tokenizer'', ''bpe_vocab'', ''bpe_model'', ''hotwords_file'', ''lm'', ''rule_fsts'',
                 ''rule_fars'', ''graph'', ''hr_lexicon'', ''hr_rule_fsts'']
       \<and> file_there fs f) (mi_files info)"

definition looks_like_runtime_hint :: "string \<Rightarrow> bool" where
  "looks_like_runtime_hint v \<longleftrightarrow>
     v \<noteq> [] \<and> list_all (\<lambda>c. (97 \<le> (of_char c :: nat) \<and> (of_char c :: nat) \<le> 122) \<or> c = CHR ''-'' \<or> c = CHR ''_'') v
     \<and> v \<noteq> ''multilingual'' \<and> CHR ''_'' \<notin> set v"

definition RuntimeLanguageHint :: "ModelInfo \<Rightarrow> string" where
  "RuntimeLanguageHint info =
     (let own = (case object_member (mi_model_config info) (mi_family info) of
                   None \<Rightarrow> None
                 | Some cfg \<Rightarrow>
                     (case json_Find cfg ''language'' of
                        Some (JStr l) \<Rightarrow> Some l
                      | _ \<Rightarrow> (case json_Find cfg ''src_lang'' of Some (JStr l) \<Rightarrow> Some l | _ \<Rightarrow> None)))
      in case own of
           Some l \<Rightarrow> l
         | None \<Rightarrow> if looks_like_runtime_hint (mi_language info) then mi_language info else [])"

section \<open>The manager\<close>

record ModelManager =
  mm_base_dir :: string
  mm_model_id :: string

definition new_ModelManager :: "environment \<Rightarrow> string \<Rightarrow> string \<Rightarrow> ModelManager" where
  "new_ModelManager getenv base_dir model_id =
     \<lparr>mm_base_dir = path_text (NormalizeBaseDir getenv base_dir), mm_model_id = model_id\<rparr>"

definition GetModelInfo :: "parse_env \<Rightarrow> model_fs \<Rightarrow> ModelManager \<Rightarrow> string + ModelInfo" where
  "GetModelInfo pe fs mm =
     (let dir = ModelDir (mm_base_dir mm) (mm_model_id mm); json_path = manifest_path dir in
      if \<not> mf_exists fs json_path
      then Inl (''missing '' @ squoted ''vinput-model.json'' @ '' in '' @ path_text dir)
      else ParseModelJson pe fs dir json_path)"

definition EnsureModels :: "parse_env \<Rightarrow> model_fs \<Rightarrow> ModelManager \<Rightarrow> string + unit" where
  "EnsureModels pe fs mm =
     (let dir = ModelDir (mm_base_dir mm) (mm_model_id mm); json_path = manifest_path dir;
          manifest = squoted ''vinput-model.json''; for_model = '' for model '' @ squoted (mm_model_id mm) in
      if \<not> mf_exists fs json_path then Inl (''missing '' @ manifest @ '' in '' @ path_text dir)
      else
        (case GetModelInfo pe fs mm of
           Inl e \<Rightarrow> Inl e
         | Inr info \<Rightarrow>
             if mi_family info = [] then Inl (manifest @ '' is missing family'' @ for_model)
             else
               (case mi_rejected_files info of
                  (key, raw_path) # _ \<Rightarrow>
                    Inl (manifest @ '' contains invalid path for '' @ squoted key @ '': '' @ raw_path)
                | [] \<Rightarrow>
                    if \<not> HasRequiredTextAsset fs info
                    then Inl (RequiredTextAssetPathKey info @ '' file not found'' @ for_model)
                    else if \<not> HasModelFiles fs info then Inl (''no model files found'' @ for_model)
                    else Inr ())))"

definition Validate :: "parse_env \<Rightarrow> model_fs \<Rightarrow> ModelManager \<Rightarrow> string \<Rightarrow> string + unit" where
  "Validate pe fs mm model_id =
     (let dir = ModelDir (mm_base_dir mm) model_id; json_path = manifest_path dir in
      if dir = empty_path then Inl (''invalid model id: '' @ model_id)
      else if \<not> mf_exists fs dir \<or> \<not> mf_is_directory fs dir
      then Inl (''model directory does not exist: '' @ path_text dir)
      else if \<not> mf_exists fs json_path \<or> \<not> mf_is_regular fs json_path
      then Inl (''vinput-model.json not found in '' @ path_text dir)
      else
        (case ParseModelJson pe fs dir json_path of
           Inl e \<Rightarrow> Inl e
         | Inr info \<Rightarrow>
             if mi_family info = [] then Inl ''vinput-model.json missing required field: family''
             else
               (case mi_rejected_files info of
                  (key, raw_path) # _ \<Rightarrow>
                    Inl (''vinput-model.json contains out-of-bounds file path for '' @ squoted key @ '': '' @ raw_path)
                | [] \<Rightarrow>
                    if \<not> HasRequiredTextAsset fs info then
                      (let path_key = RequiredTextAssetPathKey info; asset_path = mi_File info path_key in
                       if asset_path = []
                       then Inl (''vinput-model.json missing required field: '' @ RequiredTextAssetField info)
                       else Inl (path_key @ '' file not found: '' @ asset_path))
                    else if \<not> HasModelFiles fs info
                    then Inl ''no model/encoder files found in model directory''
                    else Inr ())))"

text \<open>The outcome and the directory that was removed.\<close>

definition mm_Remove :: "model_fs \<Rightarrow> ModelManager \<Rightarrow> string \<Rightarrow> (string + unit) \<times> path option" where
  "mm_Remove fs mm model_id =
     (let requested_dir = ModelDir (mm_base_dir mm) model_id in
      if requested_dir = empty_path then (Inl (''invalid model id: '' @ model_id), None)
      else
        (case mf_canonical fs requested_dir of
           Inl e \<Rightarrow> (Inl (''failed to resolve model directory: '' @ e), None)
         | Inr dir \<Rightarrow>
             (case mf_canonical fs (to_path (mm_base_dir mm)) of
                Inl e \<Rightarrow> (Inl (''failed to resolve model base directory: '' @ e), None)
              | Inr base \<Rightarrow>
                  if \<not> IsPathWithinRoot dir base then (Inl (''invalid model id: '' @ model_id), None)
                  else if \<not> mf_exists fs dir
                  then (Inl (''model directory does not exist: '' @ path_text dir), None)
                  else
                    (case mf_remove_all fs dir of
                       Some e \<Rightarrow> (Inl (''failed to remove model directory: '' @ e), Some dir)
                     | None \<Rightarrow> (Inr (), Some dir)))))"

section \<open>Listing\<close>

fun insert_by :: "('a \<Rightarrow> string) \<Rightarrow> 'a \<Rightarrow> 'a list \<Rightarrow> 'a list" where
  "insert_by key x [] = [x]"
| "insert_by key x (y # ys) = (if string_less (key y) (key x) then y # insert_by key x ys else x # y # ys)"

definition sort_by :: "('a \<Rightarrow> string) \<Rightarrow> 'a list \<Rightarrow> 'a list" where
  "sort_by key xs = foldr (insert_by key) xs []"

definition ListModels :: "model_fs \<Rightarrow> ModelManager \<Rightarrow> string list" where
  "ListModels fs mm = remdups_adj (sort_by id (map fst (ForEachInstalledModelDir fs (mm_base_dir mm))))"

datatype InstallState = MsInstalled | MsActive | MsBroken

record ModelSummary =
  ms_id :: string
  ms_state :: InstallState
  ms_model_type :: string
  ms_language :: string
  ms_supports_hotwords :: bool
  ms_size_bytes :: u64

definition summary_typed :: "json \<Rightarrow> bool" where
  "summary_typed j \<longleftrightarrow>
     is_object j
     \<and> (case json_Find j ''family'' of Some (JStr _) \<Rightarrow> True | None \<Rightarrow> True | _ \<Rightarrow> False)
     \<and> (case json_Find j ''language'' of Some (JStr _) \<Rightarrow> True | None \<Rightarrow> True | _ \<Rightarrow> False)
     \<and> (case json_Find j ''supports_hotwords'' of Some (JBool _) \<Rightarrow> True | None \<Rightarrow> True | _ \<Rightarrow> False)
     \<and> (case json_Find j ''size_bytes'' of Some (JNum _) \<Rightarrow> True | None \<Rightarrow> True | _ \<Rightarrow> False)"

definition summary_of :: "parse_env \<Rightarrow> model_fs \<Rightarrow> string \<Rightarrow> string \<times> path \<Rightarrow> ModelSummary" where
  "summary_of pe fs active_model e =
     (case e of
        (model_id, model_dir) \<Rightarrow>
          (let broken = \<lparr>ms_id = model_id, ms_state = MsBroken, ms_model_type = [], ms_language = [],
                          ms_supports_hotwords = False, ms_size_bytes = 0\<rparr>
           in case pe_read_json pe (mf_read fs (manifest_path model_dir)) of
                Inl _ \<Rightarrow> broken
              | Inr j \<Rightarrow>
                  if \<not> summary_typed j then broken
                  else \<lparr>ms_id = model_id, ms_state = (if model_id = active_model then MsActive else MsInstalled),
                        ms_model_type = json_String j ''family'' [], ms_language = json_String j ''language'' ''auto'',
                        ms_supports_hotwords = json_Bool j ''supports_hotwords'' False,
                        ms_size_bytes = word_of_int (json_Int64 (pe_float pe) j ''size_bytes'' 0)\<rparr>))"

definition ListDetailed :: "parse_env \<Rightarrow> model_fs \<Rightarrow> ModelManager \<Rightarrow> string \<Rightarrow> ModelSummary list" where
  "ListDetailed pe fs mm active_model =
     sort_by ms_id (map (summary_of pe fs active_model) (ForEachInstalledModelDir fs (mm_base_dir mm)))"

section \<open>Errors of offline recognition\<close>

definition kOfflineCapacityLimitSec :: rat where "kOfflineCapacityLimitSec = 20"

definition FormatOfflineAsrError :: "(fp \<Rightarrow> string) \<Rightarrow> string \<Rightarrow> fp \<Rightarrow> string" where
  "FormatOfflineAsrError too_long raw_error duration_sec =
     (let is_reshape_error = sublist ''Reshape'' raw_error \<or> sublist ''cannot be reshaped'' raw_error in
      if is_reshape_error \<and> fp_less (Finite kOfflineCapacityLimitSec) duration_sec
      then too_long duration_sec else raw_error)"

section \<open>Ids name directories\<close>

lemma split_spec_join: "split_spec d s = t # ts \<Longrightarrow> s = t @ concat (map ((#) d) ts)"
proof (induction s arbitrary: t ts)
  case (Cons c s)
  obtain u us where u: "split_spec d s = u # us" by (metis list.exhaust split_spec_ne)
  note s = Cons.IH [OF u]
  show ?case
  proof (cases "c = d")
    case True
    then have "t = []" "ts = u # us" using Cons.prems u by simp_all
    then show ?thesis using True s by simp
  next
    case False
    then have "t = c # u" "ts = us" using Cons.prems u by simp_all
    then show ?thesis using s by simp
  qed
qed simp

lemma join_dots_concat: "name \<noteq> [] \<Longrightarrow> join_dots name ts = name @ concat (map ((#) CHR ''.'') ts)"
  by (induction ts arbitrary: name) auto

lemma to_path_name: "n \<noteq> [] \<Longrightarrow> CHR ''/'' \<notin> set n \<Longrightarrow> to_path n = relative [n]"
  by (cases n) (auto simp: to_path_def relative_def Split_spec split_spec_none starts_with_def Let_def
      dest: last_in_set)

definition plain_name :: "string \<Rightarrow> bool" where
  "plain_name n \<longleftrightarrow> n \<noteq> [] \<and> n \<noteq> ''.'' \<and> n \<noteq> ''..'' \<and> CHR ''/'' \<notin> set n"

lemma dotted_id:
  assumes "3 \<le> length (Split i CHR ''.'')" and "\<forall>t\<in>set (Split i CHR ''.''). t \<noteq> []" and "CHR ''/'' \<notin> set i"
  obtains type source name where "Split i CHR ''.'' ! 0 = type" "Split i CHR ''.'' ! 1 = source"
    and "join_dots [] (drop 2 (Split i CHR ''.'')) = name" and "i = type @ ''.'' @ source @ ''.'' @ name"
    and "plain_name type" "plain_name source" "plain_name name" and "CHR ''.'' \<notin> set type"
proof -
  let ?ts = "Split i CHR ''.''"
  obtain type source t ts where ts: "?ts = type # source # t # ts"
    using assms(1) by (cases ?ts rule: list.exhaust [case_names nil cons]; cases "tl ?ts"; cases "tl (tl ?ts)") auto
  define name where "name = t @ concat (map ((#) CHR ''.'') ts)"
  have nodot: "CHR ''.'' \<notin> set t" "CHR ''.'' \<notin> set source" "CHR ''.'' \<notin> set type"
    using Split_no_delim [of _ i "CHR ''.''"] by (auto simp: ts)
  have ne: "t \<noteq> []" "source \<noteq> []" "type \<noteq> []" using assms(2) by (auto simp: ts)
  have id: "i = type @ ''.'' @ source @ ''.'' @ name"
    using split_spec_join [of "CHR ''.''" i] ts by (simp add: Split_spec name_def)
  have joined: "join_dots [] (t # ts) = name" using ne by (simp add: join_dots_concat name_def)
  have "hd name \<noteq> CHR ''.''" "hd source \<noteq> CHR ''.''" "hd type \<noteq> CHR ''.''" "name \<noteq> []"
    using nodot ne by (auto simp: name_def hd_append) (use hd_in_set in metis)+
  then have "plain_name name" "plain_name source" "plain_name type"
    using assms(3) ne by (auto simp: plain_name_def id)
  then show ?thesis using that [of type source name] ts joined id nodot(3) by simp
qed

lemma SplitModelId_parts:
  assumes "SplitModelId model_id \<noteq> []"
  obtains source name where "SplitModelId model_id = [''model'', source, name]"
    and "plain_name source" "plain_name name" and "model_id = ''model.'' @ source @ ''.'' @ name"
proof -
  let ?ts = "Split model_id CHR ''.''"
  have ok: "3 \<le> length ?ts" "\<forall>t\<in>set ?ts. t \<noteq> []" "CHR ''/'' \<notin> set model_id" and model: "hd ?ts = ''model''"
    using assms by (auto simp: SplitModelId_def Let_def split: if_splits)
  obtain type source name where parts: "?ts ! 0 = type" "?ts ! 1 = source" "join_dots [] (drop 2 ?ts) = name"
    "model_id = type @ ''.'' @ source @ ''.'' @ name" "plain_name source" "plain_name name"
    by (rule dotted_id [OF ok])
  have "type = ''model''" using parts(1) model by (simp add: hd_conv_nth)
  moreover have "SplitModelId model_id = [''model'', source, name]"
    using assms parts(2,3) by (auto simp: SplitModelId_def Let_def split: if_splits)
  ultimately show ?thesis using that parts by simp
qed

text \<open>
  The directory of an id that is accepted is exactly two plain names below the base directory, so no
  id leads elsewhere, and the id is computed back from that directory.
\<close>
theorem model_id_roundtrip:
  assumes "RelativePathForId model_id \<noteq> empty_path"
  shows "\<exists>source name. RelativePathForId model_id = relative [source, name] \<and> plain_name source \<and> plain_name name
    \<and> IdFromRelativePath (RelativePathForId model_id) = model_id"
proof -
  have "SplitModelId model_id \<noteq> []" using assms by (auto simp: RelativePathForId_def Let_def)
  then obtain source name where parts: "SplitModelId model_id = [''model'', source, name]"
    and plain: "plain_name source" "plain_name name" and id: "model_id = ''model.'' @ source @ ''.'' @ name"
    by (rule SplitModelId_parts)
  have "RelativePathForId model_id = relative [source, name]"
    using plain by (simp add: RelativePathForId_def parts to_path_name plain_name_def join_path_def relative_def
        empty_path_def filename_def)
  moreover have "IdFromRelativePath (relative [source, name]) = model_id"
    using plain by (auto simp: IdFromRelativePath_def components_def relative_def plain_name_def id)
  ultimately show ?thesis using plain by auto
qed

theorem model_id_roundtrip_witness:
  "IdFromRelativePath (RelativePathForId ''model.sherpa.a.b'') = ''model.sherpa.a.b''"
proof -
  have "RelativePathForId ''model.sherpa.a.b'' \<noteq> empty_path" by code_simp
  from model_id_roundtrip [OF this] show ?thesis by blast
qed

section \<open>No file outside the model\<close>

text \<open>
  The file name is the text of the path that resolving some name below the directory gives, and that path is inside
  the root.
\<close>

definition resolved_file :: "model_fs \<Rightarrow> path \<Rightarrow> path \<Rightarrow> string \<Rightarrow> bool" where
  "resolved_file fs dir model_root f \<longleftrightarrow>
     (\<exists>raw p. mf_canonical fs (join_path dir (to_path raw)) = Inr p \<and> f = path_text p \<and> IsPathWithinRoot p model_root)"

definition files_within :: "model_fs \<Rightarrow> path \<Rightarrow> path \<Rightarrow> ModelInfo \<Rightarrow> bool" where
  "files_within fs dir model_root info \<longleftrightarrow> (\<forall>f\<in>snd ` set (mi_files info). resolved_file fs dir model_root f)"

lemma smap_put_values: "snd ` set (smap_put k v m) \<subseteq> insert v (snd ` set m)"
proof -
  have "set (smap_put k v m) \<subseteq> insert (k, v) (set m)" by (induction m) (auto split: if_splits)
  then show ?thesis by auto
qed

lemma files_within_put:
  assumes "files_within fs dir r info" and "resolved_file fs dir r g"
  shows "files_within fs dir r (info\<lparr>mi_files := smap_put key g (mi_files info)\<rparr>)"
proof -
  have "resolved_file fs dir r f" if "f \<in> snd ` set (smap_put key g (mi_files info))" for f
    using subsetD [OF smap_put_values that] assms unfolding files_within_def by blast
  then show ?thesis by (simp add: files_within_def)
qed

text \<open>A step of the parser that adds no file outside the root.\<close>

definition keeps_within :: "model_fs \<Rightarrow> path \<Rightarrow> path \<Rightarrow> (ModelInfo \<Rightarrow> ModelInfo) \<Rightarrow> bool" where
  "keeps_within fs dir r step \<longleftrightarrow> (\<forall>info. files_within fs dir r info \<longrightarrow> files_within fs dir r (step info))"

lemma file_field_keeps [simp]: "keeps_within fs dir r (ResolveModelFileField fs dir r obj field key)"
proof -
  have "files_within fs dir r (ResolveModelFileField fs dir r obj field key info)" if "files_within fs dir r info" for info
  proof (cases "\<exists>raw p. json_Find obj field = Some (JStr raw) \<and> raw \<noteq> [] \<and> ResolveModelMetadataPath fs dir r raw = Inr p")
    case True
    then obtain raw p where raw: "json_Find obj field = Some (JStr raw)" "raw \<noteq> []"
      "ResolveModelMetadataPath fs dir r raw = Inr p" by blast
    then have "resolved_file fs dir r (path_text p)"
      by (auto simp: resolved_file_def ResolveModelMetadataPath_def split: sum.splits if_splits)
    then show ?thesis using files_within_put [OF that] raw by (simp add: ResolveModelFileField_def)
  next
    case False
    then have "mi_files (ResolveModelFileField fs dir r obj field key info) = mi_files info"
      by (auto simp: ResolveModelFileField_def split: option.split json.split sum.split)
    then show ?thesis using that by (simp add: files_within_def)
  qed
  then show ?thesis by (simp add: keeps_within_def)
qed

lemma field_param_keeps [simp]: "keeps_within fs dir r (AddFieldParam pe key obj f d)"
  by (simp add: keeps_within_def AddFieldParam_def files_within_def)

lemma family_member_keeps [simp]: "keeps_within fs dir r (\<lambda>info. family_member pe fs dir r cfg info kv)"
proof -
  have "files_within fs dir r (info\<lparr>mi_params := x\<rparr>) = files_within fs dir r info" for info x by (simp add: files_within_def)
  then show ?thesis
    using file_field_keeps [of fs dir r cfg] by (cases kv) (auto simp: keeps_within_def family_member_def Let_def)
qed

lemma metadata_steps_keep: "list_all (keeps_within fs dir r) (metadata_steps pe fs dir r info)"
  unfolding metadata_steps_def Let_def
  by (simp add: list_all_iff split: option.split json.split) auto

lemma foldl_keeps:
  "list_all (keeps_within fs dir r) steps \<Longrightarrow> files_within fs dir r info \<Longrightarrow> files_within fs dir r (foldl (\<lambda>i step. step i) info steps)"
  by (induction steps arbitrary: info) (simp_all add: keeps_within_def)

lemma ParseModelJson_within:
  assumes "ParseModelJson pe fs dir json_path = Inr info"
  shows "\<exists>model_root. mf_canonical fs dir = Inr model_root \<and> files_within fs dir model_root info"
proof -
  obtain j model_root where root: "mf_canonical fs dir = Inr model_root"
    and info: "info = foldl (\<lambda>i step. step i) (read_header pe j)
        (metadata_steps pe fs dir model_root (read_header pe j))"
    using assms by (auto simp: ParseModelJson_def Let_def split: sum.splits)
  have "files_within fs dir model_root (read_header pe j)"
    by (simp add: files_within_def read_header_def default_ModelInfo_def)
  then have "files_within fs dir model_root info" unfolding info by (rule foldl_keeps [OF metadata_steps_keep])
  then show ?thesis using root by blast
qed

text \<open>
  Whatever the metadata of a model says, every file that it makes the program use lies, with all
  links resolved, in the model's own directory.
\<close>
theorem model_files_within_directory:
  assumes "ParseModelJson pe fs dir json_path = Inr info"
  shows "\<exists>model_root. mf_canonical fs dir = Inr model_root \<and> files_within fs dir model_root info"
  using assms by (rule ParseModelJson_within)

text \<open>A model with one file that is inside and one that is outside.\<close>

definition example_model :: json where
  "example_model =
     JObj [(''family'', JStr ''paraformer''),
           (''model'', JObj [(''paraformer'', JObj [(''model'', JStr ''m.onnx''), (''x'', JStr ''../../secret'')]),
                           (''tokens'', JStr ''tokens.txt'')])]"

definition example_model_parse :: parse_env where
  "example_model_parse = \<lparr>pe_read_json = (\<lambda>_. Inr example_model), pe_float = exact_env, pe_show = (\<lambda>_. ''?'')\<rparr>"

definition example_model_fs :: model_fs where
  "example_model_fs =
     \<lparr>mf_exists = (\<lambda>_. True), mf_is_directory = (\<lambda>_. True), mf_is_regular = (\<lambda>_. True), mf_entries = (\<lambda>_. []),
      mf_read = (\<lambda>_. []), mf_canonical = (\<lambda>p. Inr (lexically_normal p)), mf_remove_all = (\<lambda>_. None)\<rparr>"

theorem model_files_within_directory_witness:
  "\<exists>info. ParseModelJson example_model_parse example_model_fs (to_path ''/m/e/n'') (to_path ''/m/e/n/vinput-model.json'') = Inr info
     \<and> mi_files info = [(''model'', ''/m/e/n/m.onnx''), (''tokens'', ''/m/e/n/tokens.txt'')]
     \<and> mi_rejected_files info = [(''x'', ''../../secret'')] \<and> files_within example_model_fs (to_path ''/m/e/n'') (to_path ''/m/e/n'') info"
proof -
  let ?r = "ParseModelJson example_model_parse example_model_fs (to_path ''/m/e/n'') (to_path ''/m/e/n/vinput-model.json'')"
  have "\<not> isl ?r" "mi_files (projr ?r) = [(''model'', ''/m/e/n/m.onnx''), (''tokens'', ''/m/e/n/tokens.txt'')]"
    "mi_rejected_files (projr ?r) = [(''x'', ''../../secret'')]" by code_simp+
  then obtain info where info: "?r = Inr info"
    "mi_files info = [(''model'', ''/m/e/n/m.onnx''), (''tokens'', ''/m/e/n/tokens.txt'')]"
    "mi_rejected_files info = [(''x'', ''../../secret'')]" by (cases ?r) simp_all
  have "mf_canonical example_model_fs (to_path ''/m/e/n'') = Inr (to_path ''/m/e/n'')" by code_simp
  then have "files_within example_model_fs (to_path ''/m/e/n'') (to_path ''/m/e/n'') info"
    using model_files_within_directory [OF info(1)] by simp
  then show ?thesis using info by blast
qed

section \<open>Checks, removal and listing\<close>

text \<open>
  A model that passes validation can be loaded: its id is valid, its metadata parses and names a
  family, no file lies outside the model, and the text asset and at least one model file exist. The check
  made before loading then succeeds as well.
\<close>
theorem Validate_sound:
  assumes "Validate pe fs mm (mm_model_id mm) = Inr ()"
  shows "EnsureModels pe fs mm = Inr ()
    \<and> RelativePathForId (mm_model_id mm) \<noteq> empty_path
    \<and> (\<exists>info. GetModelInfo pe fs mm = Inr info \<and> mi_family info \<noteq> [] \<and> mi_rejected_files info = []
         \<and> HasRequiredTextAsset fs info \<and> HasModelFiles fs info)"
  using assms
  by (auto simp: Validate_def EnsureModels_def GetModelInfo_def Let_def ModelDir_def
      split: if_splits sum.splits list.splits)

definition sound_model :: json where
  "sound_model =
     JObj [(''family'', JStr ''paraformer''),
           (''model'', JObj [(''paraformer'', JObj [(''model'', JStr ''m.onnx'')]), (''tokens'', JStr ''tokens.txt'')])]"

theorem Validate_sound_witness:
  "EnsureModels (example_model_parse\<lparr>pe_read_json := (\<lambda>_. Inr sound_model)\<rparr>) example_model_fs
     \<lparr>mm_base_dir = ''/m'', mm_model_id = ''model.e.n''\<rparr> = Inr ()"
proof -
  let ?pe = "example_model_parse\<lparr>pe_read_json := (\<lambda>_. Inr sound_model)\<rparr>"
  let ?mm = "\<lparr>mm_base_dir = ''/m'', mm_model_id = ''model.e.n''\<rparr>"
  have "Validate ?pe example_model_fs ?mm (mm_model_id ?mm) = Inr ()" by code_simp
  from Validate_sound [OF this] show ?thesis by blast
qed

text \<open>
  The check before loading does not look at the id: with an id that is not valid the directory is empty,
  and the metadata is taken from the working directory of the process.
\<close>
lemma invalid_id_reads_working_directory:
  "RelativePathForId ''nonsense'' = empty_path
   \<and> EnsureModels (example_model_parse\<lparr>pe_read_json := (\<lambda>_. Inr sound_model)\<rparr>)
       (example_model_fs\<lparr>mf_exists := (\<lambda>p. p \<in> set [to_path ''vinput-model.json'', to_path ''tokens.txt'', to_path ''m.onnx'']),
                   mf_canonical := (\<lambda>p. Inr p)\<rparr>)
       \<lparr>mm_base_dir = ''/m'', mm_model_id = ''nonsense''\<rparr> = Inr ()"
  by code_simp

text \<open>
  Removing a model removes at most one directory, and only one that lies, with all links resolved,
  in the base directory.
\<close>
theorem mm_Remove_bounded:
  assumes "mm_Remove fs mm model_id = (r, Some dir)"
  shows "RelativePathForId model_id \<noteq> empty_path
    \<and> (\<exists>base. mf_canonical fs (to_path (mm_base_dir mm)) = Inr base \<and> IsPathWithinRoot dir base)"
  using assms by (auto simp: mm_Remove_def Let_def ModelDir_def split: if_splits sum.splits option.splits)

theorem mm_Remove_bounded_witness:
  "IsPathWithinRoot (to_path ''/m/e/n'') (to_path ''/m'')"
proof -
  have "mm_Remove example_model_fs \<lparr>mm_base_dir = ''/m'', mm_model_id = []\<rparr> ''model.e.n'' = (Inr (), Some (to_path ''/m/e/n''))"
    and base: "mf_canonical example_model_fs (to_path ''/m'') = Inr (to_path ''/m'')" by code_simp+
  from mm_Remove_bounded [OF this(1)] base show ?thesis by simp
qed

lemma insert_by_mset: "mset (insert_by key x xs) = add_mset x (mset xs)"
  by (induction xs) auto

lemma insert_by_sorted:
  "sorted_wrt (\<lambda>a b. \<not> string_less (key b) (key a)) xs \<Longrightarrow>
   sorted_wrt (\<lambda>a b. \<not> string_less (key b) (key a)) (insert_by key x xs)"
proof (induction xs)
  case (Cons y ys)
  have mem: "set (insert_by key x ys) = insert x (set ys)" by (metis insert_by_mset mset.simps(2) set_mset_mset list.simps(15))
  show ?case
  proof (cases "string_less (key y) (key x)")
    case True
    then have "\<not> string_less (key x) (key y)" using string_less_trans [of "key x" "key y" "key x"] by auto
    then show ?thesis using True Cons by (simp add: mem)
  next
    case False
    have "\<not> string_less (key z) (key x)" if "z \<in> set ys" for z
    proof
      assume "string_less (key z) (key x)"
      moreover have "key x = key y \<or> string_less (key x) (key y)" using False string_less_linear by blast
      ultimately have "string_less (key z) (key y)" using string_less_trans by auto
      then show False using Cons.prems that by simp
    qed
    then show ?thesis using False Cons.prems by simp
  qed
qed simp

lemma sort_by_props:
  "mset (sort_by key xs) = mset xs" "sorted_wrt (\<lambda>a b. \<not> string_less (key b) (key a)) (sort_by key xs)"
  by (induction xs) (simp_all add: sort_by_def insert_by_mset insert_by_sorted)

lemma remdups_adj_strict:
  "sorted_wrt (\<lambda>a b. \<not> string_less b a) xs \<Longrightarrow> sorted_wrt string_less (remdups_adj xs)"
proof (induction xs rule: remdups_adj.induct)
  case (3 x y xs)
  have above: "string_less x z" if "x \<noteq> y" "z \<in> set (y # xs)" for z
  proof -
    have "string_less x y" using 3(3) that(1) string_less_linear [of x y] by auto
    moreover have "y = z \<or> string_less y z" using 3(3) that(2) string_less_linear [of y z] by auto
    ultimately show ?thesis using string_less_trans by blast
  qed
  show ?case using 3 above by (auto simp: remdups_adj_set)
qed simp_all

text \<open>What counts as an installed model: the reference for the walk over the directories.\<close>

definition installed_model :: "model_fs \<Rightarrow> path \<Rightarrow> string \<Rightarrow> string \<Rightarrow> bool" where
  "installed_model fs base e n \<longleftrightarrow>
     (let engine = join_path base (relative [e]); model = join_path engine (relative [n]) in
      mf_exists fs base \<and> mf_is_directory fs base
      \<and> e \<in> set (mf_entries fs base) \<and> mf_is_directory fs engine \<and> \<not> hidden_name e
      \<and> n \<in> set (mf_entries fs engine) \<and> mf_is_directory fs model \<and> \<not> hidden_name n
      \<and> mf_is_regular fs (manifest_path model))"

lemma subdirectories_iff:
  "(n, d) \<in> set (subdirectories fs dir) \<longleftrightarrow>
     d = join_path dir (relative [n]) \<and> n \<in> set (mf_entries fs dir) \<and> mf_is_directory fs d \<and> \<not> hidden_name n"
  by (auto simp: subdirectories_def)

lemma map_filter_ids:
  "i \<in> fst ` set (map (\<lambda>(n, d). (f n, d)) (filter (\<lambda>(n, d). f n \<noteq> [] \<and> R d) ys)) \<longleftrightarrow>
     (\<exists>n d. (n, d) \<in> set ys \<and> R d \<and> i = f n \<and> i \<noteq> [])"
  by (auto simp: image_iff)

lemma concat_ids: "i \<in> fst ` set (concat (map g xs)) \<longleftrightarrow> (\<exists>x\<in>set xs. i \<in> fst ` set (g x))"
  by auto

lemma ForEachInstalledModelDir_ids:
  "i \<in> fst ` set (ForEachInstalledModelDir fs base_dir) \<longleftrightarrow>
     (\<exists>e n. installed_model fs (to_path base_dir) e n \<and> i = IdFromRelativePath (relative [e, n]) \<and> i \<noteq> [])"
proof (cases "mf_exists fs (to_path base_dir) \<and> mf_is_directory fs (to_path base_dir)")
  case True
  have "i \<in> fst ` set (ForEachInstalledModelDir fs base_dir) \<longleftrightarrow>
      (\<exists>e d. (e, d) \<in> set (subdirectories fs (to_path base_dir))
        \<and> (\<exists>n d'. (n, d') \<in> set (subdirectories fs d) \<and> mf_is_regular fs (manifest_path d')
             \<and> i = IdFromRelativePath (relative [e, n]) \<and> i \<noteq> []))"
    using True by (simp only: ForEachInstalledModelDir_def Let_def simp_thms if_False concat_ids)
      (simp only: split_paired_Bex_Sigma split_paired_Ex Bex_def case_prod_conv map_filter_ids)
  then show ?thesis using True by (simp only: subdirectories_iff installed_model_def Let_def) blast
next
  case False
  then show ?thesis by (auto simp: ForEachInstalledModelDir_def installed_model_def Let_def)
qed

text \<open>
  The list of models is strictly ascending, so without duplicates, and holds exactly the ids of the
  directories two levels below the base that have a metadata file and no hidden name.
\<close>
theorem ListModels_exact:
  "sorted_wrt string_less (ListModels fs mm)
   \<and> (i \<in> set (ListModels fs mm) \<longleftrightarrow>
        (\<exists>e n. installed_model fs (to_path (mm_base_dir mm)) e n \<and> i = IdFromRelativePath (relative [e, n]) \<and> i \<noteq> []))"
proof -
  let ?ids = "map fst (ForEachInstalledModelDir fs (mm_base_dir mm))"
  have "sorted_wrt string_less (ListModels fs mm)"
    unfolding ListModels_def using sort_by_props(2) [of id ?ids] by (intro remdups_adj_strict) simp
  moreover have "set (ListModels fs mm) = set ?ids"
    unfolding ListModels_def remdups_adj_set by (metis set_mset_mset sort_by_props(1))
  ultimately show ?thesis using ForEachInstalledModelDir_ids by simp
qed

text \<open>
  A number outside the range of a 64-bit integer is converted all the same; what comes out is whatever
  the conversion happens to give.
\<close>
lemma FormatNumber_out_of_range:
  "fe_round64 (pe_float pe) (of_int (fe_undef_cast (pe_float pe) (Finite (10 ^ 300)))) \<noteq> Finite (10 ^ 300) \<Longrightarrow>
     FormatNumber pe (Finite (10 ^ 300)) = pe_show pe (Finite (10 ^ 300))
     \<and> fp_to_int (pe_float pe) int64_min int64_max (Finite (10 ^ 300)) = fe_undef_cast (pe_float pe) (Finite (10 ^ 300))"
  by (simp add: FormatNumber_def fp_to_int_def trunc_rat_def int64_min_def int64_max_def)

end
