(* ===== verification/Registry_Models.thy ===== *)
theory Registry_Models
  imports Registry_Fetch Model_Manager Bpe_Vocab "HOL-Library.AList"
begin

text \<open>
  \<open>src/common/registry/registry_models.cpp\<close>: the list of models that can be downloaded, and their
  installation: download, digest, unpacking, metadata, vocabulary, and the replacement of an older
  installation. The archive reader, the network, the file system and the JSON library are parameters.
\<close>

section \<open>The registry\<close>

record RemoteModelEntry =
  rm_id :: string
  rm_short_id :: string
  rm_urls :: "string list"
  rm_sha256 :: string
  rm_size_bytes :: u64
  rm_language :: string
  rm_vinput_model :: json

definition rm_model_type :: "RemoteModelEntry \<Rightarrow> string" where
  "rm_model_type e = json_String (rm_vinput_model e) ''family'' (json_String (rm_vinput_model e) ''model_type'' [])"

definition rm_supports_hotwords :: "RemoteModelEntry \<Rightarrow> bool" where
  "rm_supports_hotwords e = json_Bool (rm_vinput_model e) ''supports_hotwords'' False"

definition remote_entry :: "float_env \<Rightarrow> json \<Rightarrow> RemoteModelEntry" where
  "remote_entry fe item =
     \<lparr>rm_id = json_String item ''id'' [], rm_short_id = json_String item ''short_id'' [],
      rm_urls = filter (\<lambda>u. u \<noteq> []) (Strings item ''urls''), rm_sha256 = json_String item ''sha256'' [],
      rm_size_bytes = word_of_int (json_Int64 fe item ''size_bytes'' 0),
      rm_language = json_String item ''language'' [],
      rm_vinput_model = (case json_Find item ''vinput_model'' of Some m \<Rightarrow> m | None \<Rightarrow> JNull)\<rparr>"

text \<open>The entries, and the error if one is reported.\<close>

definition models_ParseRegistryJson ::
    "(string \<Rightarrow> string + json) \<Rightarrow> float_env \<Rightarrow> string \<Rightarrow> RemoteModelEntry list \<times> string option" where
  "models_ParseRegistryJson read_json fe content =
     (case read_json content of
        Inl e \<Rightarrow> ([], Some (''failed to parse registry JSON: '' @ e))
      | Inr j \<Rightarrow>
          (case json_Find j ''items'' of
             None \<Rightarrow> ([], Some (''registry JSON is not an object or is missing array field '' @ squoted ''items''))
           | Some (JArr items) \<Rightarrow>
               (filter (\<lambda>e. rm_id e \<noteq> [] \<and> rm_urls e \<noteq> []) (map (remote_entry fe) items), None)
           | Some _ \<Rightarrow> ([], Some (''registry JSON is missing array field '' @ squoted ''items''))))"

definition models_FetchRegistryImpl ::
    "cache_env \<Rightarrow> (string \<Rightarrow> string + json) \<Rightarrow> float_env \<Rightarrow> environment \<Rightarrow> CoreConfig option \<Rightarrow> string list
     \<Rightarrow> cache_files \<Rightarrow> RemoteModelEntry list \<times> string \<times> cache_files" where
  "models_FetchRegistryImpl ce read_json fe getenv config urls files =
     (if urls = [] then ([], ''no registry URLs configured'', files)
      else
        (case FetchRegistryText ce getenv config urls (ModelRegistryPath getenv) files of
           (st, warnings, files1) \<Rightarrow>
             if \<not> fo_ok st then ([], fo_error st, files1)
             else (case models_ParseRegistryJson read_json fe (fo_content st) of
                     (es, e) \<Rightarrow> (es, case e of Some x \<Rightarrow> x | None \<Rightarrow> fo_error st, files1))))"

section \<open>Assets\<close>

definition ResolveInstallAssetPath :: "path \<Rightarrow> string \<Rightarrow> string + path" where
  "ResolveInstallAssetPath base raw_path =
     (let rel = to_path raw_path in
      if rel = empty_path \<or> path_rooted rel then Inl (''model asset path must be relative: '' @ raw_path)
      else if ''..'' \<in> set (components rel) then Inl (''model asset path escapes install root: '' @ raw_path)
      else Inr (lexically_normal (join_path base rel)))"

text \<open>The metadata file of the unpacked model, if it is a regular file.\<close>

definition LoadEffectiveModelManifest :: "(string \<Rightarrow> string + json) \<Rightarrow> string option \<Rightarrow> string + json" where
  "LoadEffectiveModelManifest read_json file =
     (case file of
        None \<Rightarrow> Inr JNull
      | Some content \<Rightarrow>
          (case read_json content of
             Inl e \<Rightarrow> Inl (''failed to parse effective vinput-model.json: '' @ e)
           | Inr j \<Rightarrow>
               if \<not> is_object j then Inl ''effective vinput-model.json must be a JSON object'' else Inr j))"

text \<open>What the vocabulary step finds: regular files, the size and contents of a vocabulary that is there.\<close>

record provision_env =
  pv_float :: float_env
  pv_fmt :: "32 word \<Rightarrow> string"
  pv_io :: vocab_io
  pv_regular :: "path \<Rightarrow> bool"
  pv_size :: "path \<Rightarrow> string + nat"
  pv_contents :: "path \<Rightarrow> (string \<times> bool) option"

text \<open>The outcome and the vocabulary that was written.\<close>

definition export_vocabulary :: "provision_env \<Rightarrow> path \<Rightarrow> path \<Rightarrow> (string + unit) \<times> (path \<times> string) option" where
  "export_vocabulary pv bpe_model_path vocab_path =
     (case ExportSentencePieceVocabulary (pv_fmt pv) (pv_io pv) (path_text bpe_model_path) (path_text vocab_path) of
        (Inl e, _) \<Rightarrow> (Inl e, None)
      | (Inr _, None) \<Rightarrow> (Inr (), None)
      | (Inr _, Some t) \<Rightarrow>
          (ValidateBpeVocabulary (pv_float pv) (path_text vocab_path) (Inr (length t)) (Some (t, True)),
           Some (vocab_path, t)))"

definition provide_vocabulary ::
    "provision_env \<Rightarrow> path \<Rightarrow> json \<Rightarrow> string \<Rightarrow> (string + unit) \<times> (path \<times> string) option" where
  "provide_vocabulary pv model_dir model unit =
     (case json_Find model ''bpe_vocab'' of
        Some (JStr vocab_field) \<Rightarrow>
          if vocab_field = [] then (Inl (''hotword modeling_unit '' @ squoted unit @ '' requires model.bpe_vocab''), None)
          else
            (case ResolveInstallAssetPath model_dir vocab_field of
               Inl e \<Rightarrow> (Inl e, None)
             | Inr vocab_path \<Rightarrow>
                 if pv_regular pv vocab_path
                 then (ValidateBpeVocabulary (pv_float pv) (path_text vocab_path) (pv_size pv vocab_path)
                         (pv_contents pv vocab_path), None)
                 else
                   (case json_Find model ''bpe_model'' of
                      Some (JStr bpe_model_field) \<Rightarrow>
                        if bpe_model_field = []
                        then (Inl ''BPE vocabulary is missing and model.bpe_model is not declared'', None)
                        else
                          (case ResolveInstallAssetPath model_dir bpe_model_field of
                             Inl e \<Rightarrow> (Inl e, None)
                           | Inr bpe_model_path \<Rightarrow>
                               if \<not> pv_regular pv bpe_model_path
                               then (Inl (''SentencePiece model not found: '' @ path_text bpe_model_path), None)
                               else export_vocabulary pv bpe_model_path vocab_path)
                    | _ \<Rightarrow> (Inl ''BPE vocabulary is missing and model.bpe_model is not declared'', None)))
      | _ \<Rightarrow> (Inl (''hotword modeling_unit '' @ squoted unit @ '' requires model.bpe_vocab''), None))"

definition ProvisionBpeVocabulary ::
    "provision_env \<Rightarrow> path \<Rightarrow> json \<Rightarrow> (string + unit) \<times> (path \<times> string) option" where
  "ProvisionBpeVocabulary pv model_dir vinput_model =
     (if \<not> is_object vinput_model then (Inr (), None)
      else
        (case json_Find vinput_model ''supports_hotwords'' of
           Some (JBool True) \<Rightarrow>
             (case json_Find vinput_model ''family'' of
                Some (JStr family) \<Rightarrow>
                  if family \<noteq> ''transducer'' \<and> family \<noteq> ''nemo_transducer'' then (Inr (), None)
                  else
                    (case object_member vinput_model ''model'' of
                       None \<Rightarrow> (Inl ''hotword-capable transducer is missing object field model'', None)
                     | Some model \<Rightarrow>
                         (case json_Find model ''modeling_unit'' of
                            Some (JStr unit) \<Rightarrow>
                              if unit \<notin> set [''cjkchar'', ''bpe'', ''bbpe'', ''cjkchar+bpe'']
                              then (Inl (''unsupported hotword modeling_unit: '' @ unit), None)
                              else if unit = ''cjkchar'' then (Inr (), None)
                              else provide_vocabulary pv model_dir model unit
                          | _ \<Rightarrow> (Inl ''hotword-capable transducer requires model.modeling_unit'', None)))
              | _ \<Rightarrow> (Inl ''hotword-capable model is missing string field family'', None))
         | Some (JBool False) \<Rightarrow> (Inr (), None)
         | None \<Rightarrow> (Inr (), None)
         | Some _ \<Rightarrow> (Inl ''supports_hotwords must be a boolean'', None)))"

section \<open>Unpacking\<close>

datatype entry_type = AeReg | AeDir | AeOther

text \<open>
  An entry of the archive, with the outcome of writing its header, its data blocks, each with its offset and
  the outcome of writing it, and how reading its data ended (\<open>None\<close> is the regular end).
\<close>

record archive_entry =
  ae_pathname :: "string option"
  ae_filetype :: entry_type
  ae_symlink :: bool
  ae_hardlink :: bool
  ae_size :: int
  ae_header :: "string option"
  ae_blocks :: "(string \<times> int \<times> string option) list"
  ae_end :: "string option"

record extract_env =
  ax_open :: "string option"
  ax_entries :: "archive_entry list"
  ax_end :: "string option"
  ax_create :: "path \<Rightarrow> string option"
  ax_canonical :: "path \<Rightarrow> path"

text \<open>
  What is done to the file system: creating directories, and handing an entry, with the path it gets, and its data
  to libarchive, which creates what the entry describes (a file, a directory, a link) and writes the data there.
\<close>

datatype extract_op = MakeDirs path | WriteHeader path archive_entry | WriteData path int string

fun op_path :: "extract_op \<Rightarrow> path" where
  "op_path (MakeDirs p) = p"
| "op_path (WriteHeader p entry) = p"
| "op_path (WriteData p offset d) = p"

fun copy_blocks :: "path \<Rightarrow> (string \<times> int \<times> string option) list \<Rightarrow> string option \<Rightarrow> (string + unit) \<times> extract_op list" where
  "copy_blocks p [] end_error =
     (case end_error of
        None \<Rightarrow> (Inr (), [])
      | Some e \<Rightarrow> (Inl (''archive read error: '' @ e), []))"
| "copy_blocks p ((d, offset, err) # bs) end_error =
     (case err of
        Some e \<Rightarrow> (Inl (''failed to write data: '' @ e), [])
      | None \<Rightarrow> (case copy_blocks p bs end_error of (r, ops) \<Rightarrow> (r, WriteData p offset d # ops)))"

definition extract_entry ::
    "extract_env \<Rightarrow> path \<Rightarrow> path \<Rightarrow> archive_entry \<Rightarrow> string \<Rightarrow> (string + unit) \<times> extract_op list" where
  "extract_entry ax dest dest_root entry entry_path =
     (if starts_with entry_path ''/'' then (Inl (''archive contains absolute path: '' @ entry_path), [])
      else if ''..'' \<in> set (components (to_path entry_path))
      then (Inl (''archive contains path traversal component: '' @ entry_path), [])
      else
        (let full_dest = join_path dest (to_path entry_path) in
         if ae_symlink entry \<or> ae_hardlink entry then (Inl (''archive contains link entry: '' @ entry_path), [])
         else if ae_filetype entry \<noteq> AeReg \<and> ae_filetype entry \<noteq> AeDir
         then (Inl (''archive contains unsupported entry type: '' @ entry_path), [])
         else
           (let check_path = (if ae_filetype entry = AeDir then full_dest else parent_path full_dest) in
            case ax_create ax check_path of
              Some e \<Rightarrow> (Inl (''failed to prepare extraction path: '' @ e), [MakeDirs check_path])
            | None \<Rightarrow>
                if \<not> IsPathWithinRoot (ax_canonical ax check_path) dest_root
                then (Inl (''archive entry escapes extraction root: '' @ entry_path), [MakeDirs check_path])
                else
                  (case ae_header entry of
                     Some e \<Rightarrow>
                       (Inl (''failed to write header: '' @ e),
                        [MakeDirs check_path, WriteHeader full_dest entry])
                   | None \<Rightarrow>
                       (let made = [MakeDirs check_path, WriteHeader full_dest entry] in
                        if ae_size entry > 0
                        then (case copy_blocks full_dest (ae_blocks entry) (ae_end entry) of
                                (r, ops) \<Rightarrow> (r, made @ ops))
                        else (Inr (), made))))))"

fun extract_entries :: "extract_env \<Rightarrow> path \<Rightarrow> path \<Rightarrow> archive_entry list \<Rightarrow> (string + unit) \<times> extract_op list" where
  "extract_entries ax dest dest_root [] =
     (case ax_end ax of
        None \<Rightarrow> (Inr (), [])
      | Some e \<Rightarrow> (Inl (''archive iteration error: '' @ e), []))"
| "extract_entries ax dest dest_root (entry # es) =
     (case ae_pathname entry of
        None \<Rightarrow> extract_entries ax dest dest_root es
      | Some entry_path \<Rightarrow>
          (case extract_entry ax dest dest_root entry entry_path of
             (Inl e, ops) \<Rightarrow> (Inl e, ops)
           | (Inr _, ops) \<Rightarrow> (case extract_entries ax dest dest_root es of (r, ops') \<Rightarrow> (r, ops @ ops'))))"

definition ExtractArchive :: "extract_env \<Rightarrow> path \<Rightarrow> (string + unit) \<times> extract_op list" where
  "ExtractArchive ax dest =
     (case ax_open ax of
        Some e \<Rightarrow> (Inl (''failed to open archive: '' @ e), [])
      | None \<Rightarrow> extract_entries ax dest (ax_canonical ax dest) (ax_entries ax))"

definition VerifySha256 :: "string + string \<Rightarrow> string \<Rightarrow> string + unit" where
  "VerifySha256 digest expected =
     (if expected = [] then Inr ()
      else
        (case digest of
           Inl e \<Rightarrow> Inl e
         | Inr hex \<Rightarrow>
             if hex \<noteq> expected then Inl (''SHA256 mismatch: expected '' @ expected @ '', got '' @ hex) else Inr ()))"

section \<open>Installation\<close>

text \<open>
  What is installed: the files below the model's directory, and a vocabulary made for them.
\<close>

datatype node = FileNode string | DirNode "(string \<times> node) list"

record installation =
  in_tree :: "(string \<times> node) list"
  in_vocabulary :: "(path \<times> string) option"

text \<open>A single directory at the top is replaced by its members; a member that cannot be moved is lost.\<close>

definition flatten_top :: "bool \<Rightarrow> (string \<Rightarrow> bool) \<Rightarrow> (string \<times> node) list \<Rightarrow> (string \<times> node) list" where
  "flatten_top dir_moved member_moved tree =
     (case tree of
        [(n, DirNode members)] \<Rightarrow> if dir_moved then filter (\<lambda>(m, _). member_moved m) members else tree
      | _ \<Rightarrow> tree)"

definition put_file :: "string \<Rightarrow> string \<Rightarrow> (string \<times> node) list \<Rightarrow> (string \<times> node) list" where
  "put_file name content tree = filter (\<lambda>(n, _). n \<noteq> name) tree @ [(name, FileNode content)]"

definition regular_file :: "string \<Rightarrow> (string \<times> node) list \<Rightarrow> string option" where
  "regular_file name tree = (case map_of tree name of Some (FileNode c) \<Rightarrow> Some c | _ \<Rightarrow> None)"

text \<open>
  What happens outside: the temporary directory, the network, the digest of a file, what libarchive reads from
  an archive with a given content, what a sequence of operations leaves in an empty directory, the JSON library, and the outcomes of the calls that replace the installation (\<open>None\<close> is success).
\<close>

record install_env =
  ie_temp_dir :: "string + path"
  ie_net :: net_env
  ie_sizes :: "string \<Rightarrow> nat"
  ie_cancelled_downloaded :: bool
  ie_cancelled_ready :: bool
  ie_digest :: "string \<Rightarrow> string + string"
  ie_archive :: "string \<Rightarrow> extract_env"
  ie_disk :: "path \<Rightarrow> extract_op list \<Rightarrow> (string \<times> node) list"
  ie_dir_moved :: bool
  ie_member_moved :: "string \<Rightarrow> bool"
  ie_json_empty :: "json \<Rightarrow> bool"
  ie_write_json :: "json \<Rightarrow> string option"
  ie_read_json :: "string \<Rightarrow> string + json"
  ie_manifest_error :: "string option"
  ie_provision :: provision_env
  ie_exists_error :: "string option"
  ie_stage_error :: "string option"
  ie_parent_error :: "string option"
  ie_activate_error :: "string option"
  ie_rollback_error :: "string option"

definition write_manifest :: "install_env \<Rightarrow> RemoteModelEntry \<Rightarrow> (string \<times> node) list \<Rightarrow> string + (string \<times> node) list" where
  "write_manifest ie found tree =
     (if rm_vinput_model found \<noteq> JNull \<and> \<not> ie_json_empty ie (rm_vinput_model found) then
        (if \<not> is_object (rm_vinput_model found)
         then Inl (''registry field '' @ squoted ''vinput_model'' @ '' must be a JSON object'')
         else
           (case ie_write_json ie (rm_vinput_model found) of
              None \<Rightarrow> Inl ''failed to serialize registry model metadata''
            | Some json_content \<Rightarrow>
                (case ie_manifest_error ie of
                   Some e \<Rightarrow> Inl (''failed to write vinput-model.json: '' @ e)
                 | None \<Rightarrow> Inr (put_file ''vinput-model.json'' (json_content @ [CHR 0x0A]) tree))))
      else Inr tree)"

text \<open>Everything before the old installation is touched happens in the temporary directory.\<close>

definition prepare_install :: "install_env \<Rightarrow> RemoteModelEntry \<Rightarrow> path \<Rightarrow> string + installation" where
  "prepare_install ie found tmp_dir =
     (case DownloadFile (ie_net ie) (ie_sizes ie) (rm_urls found) of
        (False, result, _) \<Rightarrow> Inl (if dr_error result = [] then ''download failed'' else dr_error result)
      | (True, _, body) \<Rightarrow>
          if ie_cancelled_downloaded ie then Inl ''download cancelled''
          else
            (let archive = (case body of Some b \<Rightarrow> b | None \<Rightarrow> []) in
             case VerifySha256 (ie_digest ie archive) (rm_sha256 found) of
               Inl e \<Rightarrow> Inl e
             | Inr _ \<Rightarrow>
                 (let extracted_dir = sub tmp_dir ''extracted'' in
                  case ExtractArchive (ie_archive ie archive) extracted_dir of
                    (Inl e, _) \<Rightarrow> Inl e
                  | (Inr _, ops) \<Rightarrow>
                      (case write_manifest ie found
                              (flatten_top (ie_dir_moved ie) (ie_member_moved ie) (ie_disk ie extracted_dir ops)) of
                         Inl e \<Rightarrow> Inl e
                       | Inr tree \<Rightarrow>
                           (case LoadEffectiveModelManifest (ie_read_json ie)
                                   (regular_file ''vinput-model.json'' tree) of
                              Inl e \<Rightarrow> Inl (''failed to prepare hotword assets: '' @ e)
                            | Inr manifest \<Rightarrow>
                                (case ProvisionBpeVocabulary (ie_provision ie) extracted_dir manifest of
                                   (Inl e, _) \<Rightarrow> Inl (''failed to prepare hotword assets: '' @ e)
                                 | (Inr _, vocab) \<Rightarrow> Inr \<lparr>in_tree = tree, in_vocabulary = vocab\<rparr>))))))"

text \<open>
  The outcome, what is at the destination afterwards, and the old installation if it is left in the
  temporary directory, which is then kept.
\<close>

type_synonym install_result = "(string + unit) \<times> installation option \<times> installation option"

definition roll_back :: "install_env \<Rightarrow> path \<Rightarrow> string \<Rightarrow> installation option \<Rightarrow> install_result" where
  "roll_back ie backup_dir failure old =
     (if old = None then (Inl failure, None, None)
      else
        (case ie_rollback_error ie of
           Some e \<Rightarrow>
             (Inl (failure @ ''; rollback also failed: '' @ e @ ''; previous installation preserved at: ''
                   @ path_text backup_dir), None, old)
         | None \<Rightarrow> (Inl failure, old, None)))"

definition replace_install ::
    "install_env \<Rightarrow> RemoteModelEntry \<Rightarrow> path \<Rightarrow> installation \<Rightarrow> installation option \<Rightarrow> install_result" where
  "replace_install ie found tmp_dir new old =
     (if RelativePathForId (rm_id found) = empty_path then (Inl (''invalid model id: '' @ rm_id found), old, None)
      else
        (case ie_exists_error ie of
           Some e \<Rightarrow> (Inl (''failed to inspect existing model installation: '' @ e), old, None)
         | None \<Rightarrow>
             if ie_cancelled_ready ie then (Inl ''download cancelled'', old, None)
             else
               (case (if old \<noteq> None then ie_stage_error ie else None) of
                  Some e \<Rightarrow> (Inl (''failed to stage existing model for replacement: '' @ e), old, None)
                | None \<Rightarrow>
                    (let backup_dir = sub tmp_dir ''previous-install'' in
                     case ie_parent_error ie of
                       Some e \<Rightarrow> roll_back ie backup_dir (''failed to create model parent directory: '' @ e) old
                     | None \<Rightarrow>
                         (case ie_activate_error ie of
                            Some e \<Rightarrow> roll_back ie backup_dir (''failed to activate new model installation: '' @ e) old
                          | None \<Rightarrow> (Inr (), Some new, None))))))"

definition InstallModelEntry ::
    "install_env \<Rightarrow> RemoteModelEntry \<Rightarrow> installation option \<Rightarrow> install_result" where
  "InstallModelEntry ie found old =
     (case ie_temp_dir ie of
        Inl e \<Rightarrow> (Inl e, old, None)
      | Inr tmp_dir \<Rightarrow>
          (case prepare_install ie found tmp_dir of
             Inl e \<Rightarrow> (Inl e, old, None)
           | Inr new \<Rightarrow> replace_install ie found tmp_dir new old))"

text \<open>Fetching the registry comes first; \<open>config\<close> is absent when only addresses were given.\<close>

definition InstallModel ::
    "install_env \<Rightarrow> cache_env \<Rightarrow> float_env \<Rightarrow> environment \<Rightarrow> bool \<Rightarrow> CoreConfig option \<Rightarrow> string list \<Rightarrow> string
     \<Rightarrow> (string \<Rightarrow> installation option) \<Rightarrow> cache_files \<Rightarrow> install_result \<times> cache_files" where
  "InstallModel ie ce fe getenv cancelled config urls model_id installed files =
     (case models_FetchRegistryImpl ce (ie_read_json ie) fe getenv config urls files of
        (entries, fetch_err, files1) \<Rightarrow>
          (if fetch_err \<noteq> [] then (Inl fetch_err, installed model_id, None)
           else
             (case find (\<lambda>e. rm_id e = model_id) entries of
                None \<Rightarrow> (Inl (''model not found in registry: '' @ model_id), installed model_id, None)
              | Some found \<Rightarrow>
                  if cancelled then (Inl ''download cancelled'', installed model_id, None)
                  else InstallModelEntry ie found (installed (rm_id found))), files1))"

section \<open>Nothing is unpacked elsewhere\<close>

lemma walk_append: "walk c (xs @ ys) = walk (walk c xs) ys"
  by (induction c xs rule: walk.induct) auto

lemma walk_down: "''..'' \<notin> set ns \<Longrightarrow> prefix c (walk c ns)"
proof (induction c ns rule: walk.induct)
  case (2 c n ns)
  then show ?case by (auto intro: append_prefixD)
qed simp

lemma walk_trailing: "walk c (ns @ [[]]) = walk c ns"
  by (simp add: walk_append)

lemma names_join:
  assumes "\<not> path_rooted rel"
  shows "path_rooted (join_path dest rel) = path_rooted dest"
    and "leads_to (join_path dest rel) = walk (leads_to dest) (path_names rel)"
proof -
  show "path_rooted (join_path dest rel) = path_rooted dest" using assms by (auto simp: join_path_def)
  have last: "walk [] (butlast (path_names dest)) = leads_to dest" if "path_names dest \<noteq> []" "filename dest = []"
  proof -
    have "path_names dest = butlast (path_names dest) @ [[]]"
      using that by (metis append_butlast_last_id filename_def)
    then show ?thesis by (metis leads_to_def walk_trailing)
  qed
  show "leads_to (join_path dest rel) = walk (leads_to dest) (path_names rel)"
    using assms last by (cases "path_names dest = []") (auto simp: join_path_def leads_to_def walk_append filename_def)
qed

lemma below_join:
  assumes "\<not> path_rooted rel" and "''..'' \<notin> set (path_names rel)"
  shows "prefix (leads_to dest) (leads_to (join_path dest rel))"
    and "prefix (leads_to dest) (leads_to (parent_path (join_path dest rel)))"
proof -
  show "prefix (leads_to dest) (leads_to (join_path dest rel))"
    using walk_down [OF assms(2)] by (simp add: names_join(2) [OF assms(1)])
  show "prefix (leads_to dest) (leads_to (parent_path (join_path dest rel)))"
  proof (cases "path_names rel = []")
    case True
    have "butlast (path_names dest) = path_names dest \<or> path_names dest = butlast (path_names dest) @ [last (path_names dest)]"
      by (cases "path_names dest = []") simp_all
    then have "filename dest = [] \<Longrightarrow> walk [] (butlast (path_names dest)) = walk [] (path_names dest)"
      by (metis append_butlast_last_id butlast.simps(1) filename_def walk_trailing)
    then show ?thesis using True assms(1) by (auto simp: join_path_def parent_path_def leads_to_def)
  next
    case False
    let ?rel = "rel\<lparr>path_names := butlast (path_names rel)\<rparr>"
    have "''..'' \<notin> set (butlast (path_names rel))" using assms(2) in_set_butlastD by metis
    then have down: "prefix (leads_to dest) (walk (leads_to dest) (butlast (path_names rel)))" by (rule walk_down)
    have "leads_to (parent_path (join_path dest rel)) = walk (leads_to dest) (butlast (path_names rel))"
    proof (cases "filename dest = [] \<and> path_names dest \<noteq> []")
      case True
      then have "path_names dest = butlast (path_names dest) @ [[]]"
        by (metis append_butlast_last_id filename_def)
      then have "walk [] (butlast (path_names dest)) = leads_to dest" by (metis leads_to_def walk_trailing)
      then show ?thesis using True False assms(1)
        by (simp add: join_path_def parent_path_def leads_to_def butlast_append walk_append)
    next
      case no: False
      then have "path_names (join_path dest rel) = path_names dest @ path_names rel"
        using False assms(1) by (cases "filename dest = []") (simp_all add: join_path_def)
      then show ?thesis using False by (simp add: parent_path_def leads_to_def butlast_append walk_append)
    qed
    then show ?thesis using down by simp
  qed
qed

lemma copy_blocks_ops: "op \<in> set (snd (copy_blocks p bs e)) \<Longrightarrow> \<exists>offset d. op = WriteData p offset d"
  by (induction p bs e rule: copy_blocks.induct) (auto split: option.splits prod.splits)

text \<open>
  An operation is safe when its path is below the destination as written, and when, for entries and their data, the
  directory it goes to, with links resolved, is inside the resolved destination too, and the entry is a plain file or a
  directory and no link of either kind.
\<close>

definition resolves_inside :: "extract_env \<Rightarrow> path \<Rightarrow> path \<Rightarrow> bool" where
  "resolves_inside ax dest p \<longleftrightarrow> IsPathWithinRoot (ax_canonical ax p) (ax_canonical ax dest)"

fun entry_safe :: "extract_env \<Rightarrow> path \<Rightarrow> extract_op \<Rightarrow> bool" where
  "entry_safe ax dest (MakeDirs p) = True"
| "entry_safe ax dest (WriteHeader p entry) =
     (\<not> ae_symlink entry \<and> \<not> ae_hardlink entry
      \<and> (ae_filetype entry = AeDir \<and> resolves_inside ax dest p
         \<or> ae_filetype entry = AeReg \<and> resolves_inside ax dest (parent_path p)))"
| "entry_safe ax dest (WriteData p offset d) = (resolves_inside ax dest p \<or> resolves_inside ax dest (parent_path p))"

definition op_safe :: "extract_env \<Rightarrow> path \<Rightarrow> extract_op \<Rightarrow> bool" where
  "op_safe ax dest op \<longleftrightarrow> prefix (leads_to dest) (leads_to (op_path op)) \<and> entry_safe ax dest op"

lemma extract_entry_ops:
  assumes "op \<in> set (snd (extract_entry ax dest dest_root entry entry_path))"
  defines "full \<equiv> join_path dest (to_path entry_path)"
  defines "checked \<equiv> (if ae_filetype entry = AeDir then full else parent_path full)"
  shows "\<not> starts_with entry_path ''/''" and "''..'' \<notin> set (components (to_path entry_path))"
    and "op = MakeDirs checked
      \<or> \<not> ae_symlink entry \<and> \<not> ae_hardlink entry \<and> (ae_filetype entry = AeReg \<or> ae_filetype entry = AeDir)
        \<and> IsPathWithinRoot (ax_canonical ax checked) dest_root
        \<and> (op = WriteHeader full entry \<or> (\<exists>offset d. op = WriteData full offset d))"
  using assms(1) copy_blocks_ops [of op full "ae_blocks entry" "ae_end entry"] unfolding full_def checked_def
  by (auto simp: extract_entry_def Let_def split: if_splits option.splits prod.splits)

lemma extract_entry_safe:
  assumes "op \<in> set (snd (extract_entry ax dest (ax_canonical ax dest) entry entry_path))"
  shows "op_safe ax dest op"
proof -
  note ops = extract_entry_ops [OF assms]
  have rel: "\<not> path_rooted (to_path entry_path)" "''..'' \<notin> set (path_names (to_path entry_path))"
    using ops(1,2) by (auto simp: to_path_def components_def Let_def)
  show ?thesis using below_join [OF rel, of dest] ops(3)
    by (auto simp: op_safe_def resolves_inside_def split: if_splits)
qed

lemma extract_entries_safe: "op \<in> set (snd (extract_entries ax dest (ax_canonical ax dest) es)) \<Longrightarrow> op_safe ax dest op"
proof (induction es)
  case (Cons entry es)
  show ?case
  proof (cases "ae_pathname entry")
    case (Some entry_path)
    then show ?thesis
      using Cons extract_entry_safe [of op ax dest entry entry_path]
      by (auto split: prod.splits sum.splits)
  qed (use Cons in simp)
qed (simp split: option.splits)

text \<open>
  C13: Whatever an archive holds, unpacking touches only paths below the destination: no path is absolute or climbs
  above it. What is handed to libarchive to be created is a plain file or a directory, never a symbolic or hard link
  or a device, and it and its data only go where the directory, with links resolved, lies inside the resolved
  destination.
\<close>
theorem extraction_confined:
  "list_all (op_safe ax dest) (snd (ExtractArchive ax dest))"
  using extract_entries_safe by (auto simp: ExtractArchive_def list_all_iff split: option.split)

section \<open>A failed installation keeps the old model\<close>







definition example_provision :: provision_env where
  "example_provision =
     \<lparr>pv_float = exact_env, pv_fmt = (\<lambda>_. ''0''),
      pv_io = \<lparr>vi_file_size = (\<lambda>_. Inl ''x''), vi_map_file = (\<lambda>_. Inl ''x''), vi_atomic_write = (\<lambda>_ _. Inr ())\<rparr>,
      pv_regular = (\<lambda>_. False), pv_size = (\<lambda>_. Inl ''x''), pv_contents = (\<lambda>_. None)\<rparr>"









lemma provide_exports:
  "provide_vocabulary pv d m u = (r, Some x) \<Longrightarrow> \<exists>b v. export_vocabulary pv b v = (r, Some x)"
  by (auto simp: provide_vocabulary_def split: option.splits json.splits sum.splits if_splits)

lemma provision_provides:
  "ProvisionBpeVocabulary pv d j = (r, Some x) \<Longrightarrow> \<exists>m u. provide_vocabulary pv d m u = (r, Some x)"
  by (auto simp: ProvisionBpeVocabulary_def split: option.splits json.splits bool.splits if_splits)

lemma export_vocabulary_valid:
  assumes "prints_numbers (pv_float pv) (pv_fmt pv)" and "export_vocabulary pv b v = (r, Some (p, t))"
  shows "r = Inr () \<and> ValidateBpeVocabulary (pv_float pv) (path_text p) (Inr (length t)) (Some (t, True)) = Inr ()"
proof -
  have "ExportSentencePieceVocabulary (pv_fmt pv) (pv_io pv) (path_text b) (path_text v) = (Inr (), Some t)" and "p = v"
    and r: "r = ValidateBpeVocabulary (pv_float pv) (path_text v) (Inr (length t)) (Some (t, True))"
    using assms(2) by (auto simp: export_vocabulary_def split: prod.splits sum.splits option.splits)
  then show ?thesis using exported_validates [OF assms(1)] by simp
qed

text \<open>
  A vocabulary that the installation writes is one that the recognisers accept: after a successful
  export the check that follows never fails.
\<close>
theorem provisioned_vocabulary_valid:
  assumes "prints_numbers (pv_float pv) (pv_fmt pv)" and "ProvisionBpeVocabulary pv model_dir manifest = (r, Some (p, t))"
  shows "r = Inr () \<and> ValidateBpeVocabulary (pv_float pv) (path_text p) (Inr (length t)) (Some (t, True)) = Inr ()"
  using provision_provides [OF assms(2)] provide_exports export_vocabulary_valid [OF assms(1)] by blast

definition example_transducer :: json where
  "example_transducer =
     JObj [(''family'', JStr ''transducer''),
           (''model'', JObj [(''bpe_model'', JStr ''m''), (''bpe_vocab'', JStr ''v''), (''modeling_unit'', JStr ''bpe'')]),
           (''supports_hotwords'', JBool True)]"

theorem provisioned_vocabulary_valid_witness:
  "fst (ProvisionBpeVocabulary (example_provision\<lparr>pv_fmt := example_score, pv_io := example_vocab_io,
      pv_regular := (\<lambda>p. p = to_path ''m'')\<rparr>) empty_path example_transducer) = Inr ()"
proof -
  let ?pv = "example_provision\<lparr>pv_fmt := example_score, pv_io := example_vocab_io, pv_regular := (\<lambda>p. p = to_path ''m'')\<rparr>"
  have paths: "ResolveInstallAssetPath empty_path ''v'' = Inr (to_path ''v'')"
    "ResolveInstallAssetPath empty_path ''m'' = Inr (to_path ''m'')" "to_path ''v'' \<noteq> to_path ''m''"
    "path_text (to_path ''v'') = ''v''" "path_text (to_path ''m'') = ''m''" by code_simp+
  obtain r where "export_vocabulary ?pv (to_path ''m'') (to_path ''v'') =
      (r, Some (to_path ''v'', ''ab'' @ [CHR 0x09] @ ''-1'' @ [CHR 0x0A]))"
    using example_model_exported by (simp add: export_vocabulary_def paths)
  then have "provide_vocabulary ?pv empty_path (JObj [(''bpe_model'', JStr ''m''), (''bpe_vocab'', JStr ''v''),
      (''modeling_unit'', JStr ''bpe'')]) ''bpe'' = (r, Some (to_path ''v'', ''ab'' @ [CHR 0x09] @ ''-1'' @ [CHR 0x0A]))"
    by (simp add: provide_vocabulary_def paths)
  then have done_: "ProvisionBpeVocabulary ?pv empty_path example_transducer =
      (r, Some (to_path ''v'', ''ab'' @ [CHR 0x09] @ ''-1'' @ [CHR 0x0A]))"
    by (simp add: ProvisionBpeVocabulary_def example_transducer_def)
  have "prints_numbers (pv_float ?pv) (pv_fmt ?pv)" using example_score_ok by (simp add: example_provision_def)
  from provisioned_vocabulary_valid [OF this done_] show ?thesis by (simp add: done_)
qed

text \<open>A member of a single directory that cannot be moved up is missing from the installation, without an error.\<close>
lemma flatten_drops_members:
  "flatten_top True (\<lambda>m. m \<noteq> ''b'') [(''m'', DirNode [(''a'', FileNode ''x''), (''b'', FileNode ''y'')])] = [(''a'', FileNode ''x'')]"
  by code_simp

end
