(* ===== verification/Registry_Scripts.thy ===== *)
theory Registry_Scripts
  imports Registry_Models
begin

text \<open>
  \<open>src/common/registry/registry_scripts.cpp\<close> and \<open>installed_manifest.cpp\<close>: the scripts that serve as speech
  recognisers and language model adapters, where they are kept, how they are downloaded and entered into the
  configuration, and the record of what is installed.
\<close>

section \<open>Ids and places\<close>

datatype Kind = KAsrProvider | KLlmAdapter

definition SplitResourceId :: "string \<Rightarrow> string list" where
  "SplitResourceId i =
     (if i = [] \<or> i = ''.'' \<or> i = ''..'' \<or> CHR ''/'' \<in> set i \<or> CHR 0x5C \<in> set i then []
      else
        (let tokens = Split i CHR ''.'' in
         if length tokens < 3 then []
         else if \<exists>t\<in>set tokens. t = [] \<or> t = ''.'' \<or> t = ''..'' then []
         else
           (let type = tokens ! 0; parent = tokens ! 1; leaf = join_dots [] (drop 2 tokens) in
            if type = [] \<or> parent = [] \<or> leaf = [] then [] else [type, parent, leaf])))"

definition ManagedBaseDirForType :: "environment \<Rightarrow> string \<Rightarrow> path" where
  "ManagedBaseDirForType getenv type =
     (if type = ''provider'' then ManagedAsrProviderDir getenv
      else if type = ''adapter'' then ManagedLlmAdapterDir getenv
      else empty_path)"

fun TypeMatchesKind :: "string \<Rightarrow> Kind \<Rightarrow> bool" where
  "TypeMatchesKind type KAsrProvider = (type = ''provider'')"
| "TypeMatchesKind type KLlmAdapter = (type = ''adapter'')"

definition script_RelativePathForId :: "string \<Rightarrow> path" where
  "script_RelativePathForId i =
     (let segments = SplitResourceId i in
      if length segments \<noteq> 3 then empty_path
      else foldl (\<lambda>p s. join_path p (to_path s)) empty_path (drop 1 segments))"

definition script_IdFromRelativePath :: "string \<Rightarrow> path \<Rightarrow> string" where
  "script_IdFromRelativePath type relative_path =
     (if type = [] \<or> type = ''.'' \<or> type = ''..'' \<or> CHR ''.'' \<in> set type \<or> CHR ''/'' \<in> set type
         \<or> CHR 0x5C \<in> set type then []
      else
        (let parts = components relative_path in
         if \<exists>p\<in>set parts. p = [] \<or> p = ''.'' \<or> p = ''..'' \<or> CHR ''/'' \<in> set p \<or> CHR 0x5C \<in> set p then []
         else if length parts \<noteq> 2 then []
         else foldl (\<lambda>i t. i @ ''.'' @ t) type parts))"

definition DefaultLocalScriptPath :: "environment \<Rightarrow> Kind \<Rightarrow> string \<Rightarrow> path" where
  "DefaultLocalScriptPath getenv kind i =
     (let segments = SplitResourceId i in
      if length segments \<noteq> 3 then empty_path
      else if \<not> TypeMatchesKind (hd segments) kind then empty_path
      else
        (let base = ManagedBaseDirForType getenv (hd segments) in
         if base = empty_path then empty_path else join_path base (script_RelativePathForId i)))"

section \<open>The registry of scripts\<close>

record EnvSpec =
  ev_name :: string
  ev_required :: bool

record RegistryEntry =
  rg_id :: string
  rg_short_id :: string
  rg_version :: string
  rg_sha256 :: string
  rg_vinput_version :: string
  rg_stream :: bool
  rg_command :: string
  rg_script_urls :: "string list"
  rg_readme_url :: string
  rg_envs :: "EnvSpec list"

definition env_specs :: "json \<Rightarrow> EnvSpec list" where
  "env_specs item =
     (case json_Find item ''envs'' of
        Some (JArr vs) \<Rightarrow>
          filter (\<lambda>e. ev_name e \<noteq> [])
            (map (\<lambda>v. \<lparr>ev_name = json_String v ''name'' [], ev_required = json_Bool v ''required'' False\<rparr>)
              (filter is_object vs))
      | _ \<Rightarrow> [])"

definition registry_entry :: "json \<Rightarrow> RegistryEntry" where
  "registry_entry item =
     \<lparr>rg_id = json_String item ''id'' [], rg_short_id = json_String item ''short_id'' [],
      rg_version = json_String item ''version'' [], rg_sha256 = json_String item ''sha256'' [],
      rg_vinput_version = json_String item ''vinput_version'' [], rg_stream = json_Bool item ''stream'' False,
      rg_command = json_String item ''command'' [],
      rg_script_urls = filter (\<lambda>u. u \<noteq> []) (Strings item ''script_urls''),
      rg_readme_url = json_String item ''readme_url'' [], rg_envs = env_specs item\<rparr>"

definition scripts_ParseRegistryJson :: "(string \<Rightarrow> string + json) \<Rightarrow> string \<Rightarrow> RegistryEntry list \<times> string" where
  "scripts_ParseRegistryJson read_json content =
     (case read_json content of
        Inl e \<Rightarrow> ([], ''failed to parse script registry JSON: '' @ e)
      | Inr j \<Rightarrow>
          (case json_Find j ''items'' of
             None \<Rightarrow> ([], ''script registry JSON is not an object or is missing array field '' @ squoted ''items'')
           | Some (JArr items) \<Rightarrow>
               (filter (\<lambda>e. rg_id e \<noteq> [] \<and> rg_command e \<noteq> [] \<and> rg_script_urls e \<noteq> []) (map registry_entry items), [])
           | Some _ \<Rightarrow> ([], ''script registry JSON is missing array field '' @ squoted ''items'')))"

definition scripts_FetchRegistryImpl ::
    "cache_env \<Rightarrow> (string \<Rightarrow> string + json) \<Rightarrow> environment \<Rightarrow> CoreConfig option \<Rightarrow> Kind \<Rightarrow> string list
     \<Rightarrow> cache_files \<Rightarrow> RegistryEntry list \<times> string \<times> cache_files" where
  "scripts_FetchRegistryImpl ce read_json getenv config kind urls files =
     (if urls = [] then ([], ''no script registry URLs configured'', files)
      else
        (case FetchRegistryText ce getenv config urls
                (if kind = KAsrProvider then AsrProviderRegistryPath getenv else LlmAdapterRegistryPath getenv) files of
           (st, warnings, files1) \<Rightarrow>
             if \<not> fo_ok st then ([], fo_error st, files1)
             else (case scripts_ParseRegistryJson read_json (fo_content st) of (es, e) \<Rightarrow> (es, e, files1))))"

section \<open>The record of installed resources\<close>

record InstalledRecord =
  ir_id :: string
  ir_kind :: string
  ir_version :: string
  ir_sha256 :: string
  ir_installed_at :: u64

type_synonym InstalledManifest = "InstalledRecord smap"

definition installed_record :: "float_env \<Rightarrow> string \<Rightarrow> json \<Rightarrow> InstalledRecord" where
  "installed_record fe i item =
     \<lparr>ir_id = i, ir_kind = json_String item ''kind'' [], ir_version = json_String item ''version'' [],
      ir_sha256 = json_String item ''sha256'' [],
      ir_installed_at = word_of_int (json_Int64 fe item ''installed_at'' 0)\<rparr>"

text \<open>\<open>emplace\<close> of the entries that are objects.\<close>

definition manifest_of :: "float_env \<Rightarrow> (string \<times> json) list \<Rightarrow> InstalledManifest" where
  "manifest_of fe items =
     foldl (\<lambda>m (i, item). if is_object item then smap_emplace i (installed_record fe i item) m else m) [] items"

definition manifest_Load :: "(string \<Rightarrow> string + json) \<Rightarrow> float_env \<Rightarrow> string option \<Rightarrow> InstalledManifest" where
  "manifest_Load read_json fe file =
     (case file of
        None \<Rightarrow> []
      | Some content \<Rightarrow>
          (case read_json content of
             Inl _ \<Rightarrow> []
           | Inr j \<Rightarrow>
               (case json_Find j ''resources'' of Some (JObj items) \<Rightarrow> manifest_of fe items | _ \<Rightarrow> [])))"

definition record_json :: "float_env \<Rightarrow> InstalledRecord \<Rightarrow> json" where
  "record_json fe r =
     JObj [(''installed_at'', JNum (fe_round64 fe (of_nat (unat (ir_installed_at r))))), (''kind'', JStr (ir_kind r)),
           (''sha256'', JStr (ir_sha256 r)), (''version'', JStr (ir_version r))]"

definition manifest_json :: "float_env \<Rightarrow> InstalledManifest \<Rightarrow> json" where
  "manifest_json fe m =
     JObj [(''resources'', JObj (foldl (\<lambda>acc (i, r). smap_emplace i (record_json fe r) acc) [] m)),
           (''version'', JNum (Finite 1))]"

text \<open>The outcome, and the text that is stored.\<close>

definition manifest_Save ::
    "(json \<Rightarrow> string option) \<Rightarrow> float_env \<Rightarrow> string option \<Rightarrow> InstalledManifest \<Rightarrow> string + string" where
  "manifest_Save write_json fe write_error m =
     (case write_json (manifest_json fe m) of
        None \<Rightarrow> Inl ''failed to serialize installed manifest''
      | Some content \<Rightarrow> (case write_error of Some e \<Rightarrow> Inl e | None \<Rightarrow> Inr content))"

definition manifest_Get :: "InstalledManifest \<Rightarrow> string \<Rightarrow> InstalledRecord option" where
  "manifest_Get m i = map_of m i"

definition RecordInstalled ::
    "u64 \<Rightarrow> string \<Rightarrow> string \<Rightarrow> string \<Rightarrow> string \<Rightarrow> InstalledManifest \<Rightarrow> InstalledManifest" where
  "RecordInstalled now i kind version sha m =
     smap_put i \<lparr>ir_id = i, ir_kind = kind, ir_version = version, ir_sha256 = sha, ir_installed_at = now\<rparr> m"

definition manifest_Remove :: "InstalledManifest \<Rightarrow> string \<Rightarrow> bool \<times> InstalledManifest" where
  "manifest_Remove m i = (map_of m i \<noteq> None, smap_erase i m)"

definition manifest_List :: "InstalledManifest \<Rightarrow> InstalledRecord list" where
  "manifest_List m = map snd m"

section \<open>Downloading a script\<close>

text \<open>
  The world of one download: the version of the host, outcomes of calls (\<open>None\<close> is success), the token
  after the download and before the replacement, the digest of a file with the given contents, and the
  files of the installation record.
\<close>

record script_env =
  sv_getenv :: environment
  sv_host :: string
  sv_mkdir_error :: "string option"
  sv_clock :: int
  sv_net :: net_env
  sv_sizes :: "string \<Rightarrow> nat"
  sv_cancelled_downloaded :: bool
  sv_cancelled_ready :: bool
  sv_digest :: "string \<Rightarrow> string + string"
  sv_exec_error :: "string option"
  sv_rename_error :: "string option"
  sv_read_json :: "string \<Rightarrow> string + json"
  sv_write_json :: "json \<Rightarrow> string option"
  sv_float :: float_env
  sv_save_error :: "string option"
  sv_now :: u64

record script_files =
  sf_script :: "string option"
  sf_temporary :: "string option"
  sf_manifest :: "string option"

definition update_manifest :: "script_env \<Rightarrow> RegistryEntry \<Rightarrow> Kind \<Rightarrow> string \<Rightarrow> script_files \<Rightarrow> script_files" where
  "update_manifest sv entry kind sha f =
     (let m = RecordInstalled (sv_now sv) (rg_id entry) (if kind = KAsrProvider then ''provider'' else ''adapter'')
                (rg_version entry) sha (manifest_Load (sv_read_json sv) (sv_float sv) (sf_manifest f))
      in case manifest_Save (sv_write_json sv) (sv_float sv) (sv_save_error sv) m of
           Inl _ \<Rightarrow> f
         | Inr content \<Rightarrow> f\<lparr>sf_manifest := Some content\<rparr>)"

text \<open>After the download, with its body in the temporary file.\<close>

definition finish_script ::
    "script_env \<Rightarrow> RegistryEntry \<Rightarrow> Kind \<Rightarrow> path \<Rightarrow> string \<Rightarrow> string \<Rightarrow> script_files \<Rightarrow> (string + path \<times> string) \<times> script_files" where
  "finish_script sv entry kind p url body f =
     (let drop_tmp = f\<lparr>sf_temporary := None\<rparr>; digest = sv_digest sv body;
          tmp_path = path_text p @ ''.download.'' @ to_string (sv_clock sv) @ ''.tmp'' in
      if sv_cancelled_downloaded sv then (Inl ''download cancelled'', drop_tmp)
      else
        (case (if rg_sha256 entry = [] then None
               else (case digest of
                       Inl e \<Rightarrow> Some e
                     | Inr sha \<Rightarrow>
                         if sha \<noteq> rg_sha256 entry
                         then Some (''SHA-256 mismatch for '' @ rg_id entry @ '': expected '' @ rg_sha256 entry
                                    @ '', got '' @ sha)
                         else None)) of
           Some e \<Rightarrow> (Inl e, drop_tmp)
         | None \<Rightarrow>
             (case sv_exec_error sv of
                Some e \<Rightarrow> (Inl (''failed to mark script executable: '' @ e), drop_tmp)
              | None \<Rightarrow>
                  if sv_cancelled_ready sv then (Inl ''download cancelled'', drop_tmp)
                  else
                    (case digest of
                       Inl e \<Rightarrow> (Inl (''failed to compute sha256 for '' @ tmp_path @ '': '' @ e), drop_tmp)
                     | Inr final_sha \<Rightarrow>
                         (case sv_rename_error sv of
                            Some e \<Rightarrow> (Inl (''failed to atomically replace script: '' @ e), drop_tmp)
                          | None \<Rightarrow>
                              (Inr (p, url),
                               update_manifest sv entry kind final_sha
                                 (f\<lparr>sf_script := Some body, sf_temporary := None\<rparr>)))))))"

definition DownloadScript ::
    "script_env \<Rightarrow> RegistryEntry \<Rightarrow> Kind \<Rightarrow> script_files \<Rightarrow> (string + path \<times> string) \<times> script_files" where
  "DownloadScript sv entry kind f =
     (if \<not> Satisfies (sv_host sv) (rg_vinput_version entry)
      then (Inl (''Resource '' @ squoted (rg_id entry) @ '' is incompatible with current vinput host (requires ''
                 @ rg_vinput_version entry @ '', current is '' @ sv_host sv @ '')''), f)
      else
        (let p = DefaultLocalScriptPath (sv_getenv sv) kind (rg_id entry) in
         if p = empty_path then (Inl (''invalid script id: '' @ rg_id entry), f)
         else
           (case sv_mkdir_error sv of
              Some e \<Rightarrow> (Inl (''failed to create script directory: '' @ e), f)
            | None \<Rightarrow>
                (case DownloadFile (sv_net sv) (sv_sizes sv) (rg_script_urls entry) of
                   (True, result, Some body) \<Rightarrow>
                     finish_script sv entry kind p (dr_resolved_url result) body (f\<lparr>sf_temporary := Some body\<rparr>)
                 | (_, result, _) \<Rightarrow>
                     (Inl (if dr_error result = [] then ''failed to download script'' else dr_error result),
                      f\<lparr>sf_temporary := None\<rparr>)))))"

section \<open>Entering a script into the configuration\<close>

definition FillDefaultEnvMap :: "EnvSpec list \<Rightarrow> string smap \<Rightarrow> string smap" where
  "FillDefaultEnvMap envs target = foldl (\<lambda>m e. smap_emplace (ev_name e) [] m) target envs"

definition IsManagedScriptPath :: "path \<Rightarrow> string list \<Rightarrow> bool" where
  "IsManagedScriptPath expected args =
     (case args of [a] \<Rightarrow> lexically_normal (to_path a) = lexically_normal expected | _ \<Rightarrow> False)"

text \<open>The first element that satisfies the test is replaced.\<close>

fun update_first :: "('a \<Rightarrow> bool) \<Rightarrow> ('a \<Rightarrow> 'a) \<Rightarrow> 'a list \<Rightarrow> 'a list" where
  "update_first P f [] = []"
| "update_first P f (x # xs) = (if P x then f x # xs else x # update_first P f xs)"

definition refresh_provider :: "RegistryEntry \<Rightarrow> string \<Rightarrow> AsrProvider \<Rightarrow> AsrProvider" where
  "refresh_provider entry script p =
     (case p of
        CommandAsrProvider c \<Rightarrow>
          CommandAsrProvider (c\<lparr>co_command := rg_command entry, co_args := [script],
            co_timeoutMs := (if co_timeoutMs c \<le> 0 then 60000 else co_timeoutMs c),
            co_env := FillDefaultEnvMap (rg_envs entry) (co_env c)\<rparr>)
      | LocalAsrProvider l \<Rightarrow> LocalAsrProvider l)"

definition MaterializeAsrProvider ::
    "environment \<Rightarrow> RegistryEntry \<Rightarrow> path \<Rightarrow> CoreConfig \<Rightarrow> (string + unit) \<times> CoreConfig" where
  "MaterializeAsrProvider getenv entry script_path config =
     (let managed_path = DefaultLocalScriptPath getenv KAsrProvider (rg_id entry);
          script = path_text script_path; same = (\<lambda>p. AsrProviderId p = rg_id entry)
      in if managed_path = empty_path then (Inl (''invalid ASR provider id: '' @ rg_id entry), config)
         else
           (case find same (cc_asr_providers config) of
              None \<Rightarrow>
                (Inr (), config\<lparr>cc_asr_providers := cc_asr_providers config @
                   [CommandAsrProvider \<lparr>co_id = rg_id entry, co_timeoutMs = 60000, co_command = rg_command entry,
                      co_args = [script], co_env = FillDefaultEnvMap (rg_envs entry) []\<rparr>]\<rparr>)
            | Some (CommandAsrProvider c) \<Rightarrow>
                if \<not> IsManagedScriptPath managed_path (co_args c)
                then (Inl (''refusing to overwrite user-defined ASR provider: '' @ rg_id entry), config)
                else (Inr (), config\<lparr>cc_asr_providers :=
                        update_first same (refresh_provider entry script) (cc_asr_providers config)\<rparr>)
            | Some (LocalAsrProvider _) \<Rightarrow>
                (Inl (''refusing to overwrite user-defined ASR provider: '' @ rg_id entry), config)))"

definition override_env :: "string smap \<Rightarrow> string smap \<Rightarrow> string smap" where
  "override_env overrides env =
     foldl (\<lambda>m (k, v). if k \<noteq> [] then smap_put k v m else m) env overrides"

definition MaterializeLlmAdapter ::
    "environment \<Rightarrow> RegistryEntry \<Rightarrow> path \<Rightarrow> string smap \<Rightarrow> CoreConfig \<Rightarrow> (string + unit) \<times> CoreConfig" where
  "MaterializeLlmAdapter getenv entry script_path env_overrides config =
     (let managed_path = DefaultLocalScriptPath getenv KLlmAdapter (rg_id entry);
          script = path_text script_path; same = (\<lambda>a. la_id a = rg_id entry);
          finish = (\<lambda>c. c\<lparr>cc_llm_adapters :=
             update_first same (\<lambda>a. a\<lparr>la_env := override_env env_overrides (la_env a)\<rparr>) (cc_llm_adapters c)\<rparr>)
      in if managed_path = empty_path then (Inl (''invalid adapter id: '' @ rg_id entry), config)
         else
           (case find same (cc_llm_adapters config) of
              None \<Rightarrow>
                (Inr (), finish (config\<lparr>cc_llm_adapters := cc_llm_adapters config @
                   [\<lparr>la_id = rg_id entry, la_command = rg_command entry, la_args = [script],
                      la_env = FillDefaultEnvMap (rg_envs entry) [], la_autoStart = False\<rparr>]\<rparr>))
            | Some a \<Rightarrow>
                if \<not> IsManagedScriptPath managed_path (la_args a)
                then (Inl (''refusing to overwrite user-defined adapter: '' @ rg_id entry), config)
                else (Inr (), finish (config\<lparr>cc_llm_adapters :=
                        update_first same (\<lambda>a. a\<lparr>la_command := rg_command entry, la_args := [script],
                          la_env := FillDefaultEnvMap (rg_envs entry) (la_env a)\<rparr>) (cc_llm_adapters config)\<rparr>))))"

section \<open>Updates\<close>

datatype UpdateStatus = UpNotInstalled | UpToDate | UpUpdateAvailable | UpIncompatible

record ResourceVersionInfo =
  vi_installed_version :: string
  vi_remote_version :: string
  vi_installed_sha256 :: string
  vi_remote_sha256 :: string
  vi_vinput_version :: string
  vi_status :: UpdateStatus

text \<open>\<open>script\<close> is the digest of the local script if the script exists (\<open>Some None\<close>: it cannot be computed).\<close>

definition CheckResourceVersion ::
    "string \<Rightarrow> InstalledManifest \<Rightarrow> RegistryEntry \<Rightarrow> bool \<Rightarrow> string option option \<Rightarrow> ResourceVersionInfo" where
  "CheckResourceVersion host manifest entry is_installed_in_config script =
     (let info = \<lparr>vi_installed_version = [], vi_remote_version = rg_version entry, vi_installed_sha256 = [],
                   vi_remote_sha256 = rg_sha256 entry, vi_vinput_version = rg_vinput_version entry,
                   vi_status = UpNotInstalled\<rparr>
      in if \<not> Satisfies host (rg_vinput_version entry) then info\<lparr>vi_status := UpIncompatible\<rparr>
         else if \<not> is_installed_in_config then info\<lparr>vi_status := UpNotInstalled\<rparr>
         else
           (let known = (case manifest_Get manifest (rg_id entry) of
                           Some r \<Rightarrow> info\<lparr>vi_installed_version := ir_version r, vi_installed_sha256 := ir_sha256 r\<rparr>
                         | None \<Rightarrow>
                             (case script of
                                Some d \<Rightarrow> info\<lparr>vi_installed_sha256 := (case d of Some x \<Rightarrow> x | None \<Rightarrow> [])\<rparr>
                              | None \<Rightarrow> info));
                version = vi_installed_version known; sha = vi_installed_sha256 known in
            known\<lparr>vi_status :=
              (if script = None then UpUpdateAvailable
               else if rg_version entry \<noteq> [] \<and> version \<noteq> [] \<and> rg_version entry \<noteq> version then UpUpdateAvailable
               else if rg_sha256 entry \<noteq> [] \<and> sha \<noteq> []
               then (if rg_sha256 entry \<noteq> sha then UpUpdateAvailable else UpToDate)
               else if rg_version entry \<noteq> [] \<and> rg_version entry = version then UpToDate
               else if rg_version entry \<noteq> [] \<and> version = [] then UpUpdateAvailable
               else UpToDate)\<rparr>))"

text \<open>Whether it succeeded, and the record file afterwards.\<close>

definition UnregisterInstalledScript ::
    "(string \<Rightarrow> string + json) \<Rightarrow> (json \<Rightarrow> string option) \<Rightarrow> float_env \<Rightarrow> string option \<Rightarrow> string \<Rightarrow> string option
     \<Rightarrow> bool \<times> string option" where
  "UnregisterInstalledScript read_json write_json fe save_error i file =
     (case manifest_Remove (manifest_Load read_json fe file) i of
        (True, m) \<Rightarrow>
          (case manifest_Save write_json fe save_error m of
             Inl _ \<Rightarrow> (False, file)
           | Inr content \<Rightarrow> (True, Some content))
      | (False, _) \<Rightarrow> (True, file))"

section \<open>Where scripts are kept\<close>

lemma SplitResourceId_parts:
  assumes "SplitResourceId i \<noteq> []"
  obtains type parent leaf where "SplitResourceId i = [type, parent, leaf]"
    and "plain_name type" "plain_name parent" "plain_name leaf" and "i = type @ ''.'' @ parent @ ''.'' @ leaf"
    and "CHR ''.'' \<notin> set type" and "CHR 0x5C \<notin> set i"
proof -
  let ?ts = "Split i CHR ''.''"
  have ok: "3 \<le> length ?ts" "\<forall>t\<in>set ?ts. t \<noteq> []" "CHR ''/'' \<notin> set i" and bs: "CHR 0x5C \<notin> set i"
    using assms by (auto simp: SplitResourceId_def Let_def split: if_splits)
  obtain type parent leaf where parts: "?ts ! 0 = type" "?ts ! 1 = parent" "join_dots [] (drop 2 ?ts) = leaf"
    "i = type @ ''.'' @ parent @ ''.'' @ leaf" "plain_name type" "plain_name parent" "plain_name leaf"
    "CHR ''.'' \<notin> set type"
    by (rule dotted_id [OF ok])
  have "SplitResourceId i = [type, parent, leaf]"
    using assms parts(1,2,3) by (auto simp: SplitResourceId_def Let_def split: if_splits)
  then show ?thesis using that parts bs by simp
qed

text \<open>
  The script of an accepted id lies exactly two plain names below the directory of its kind, so no id
  leads elsewhere, and the id is computed back from that place.
\<close>
theorem script_path_managed:
  assumes "DefaultLocalScriptPath getenv kind i \<noteq> empty_path"
  shows "\<exists>type parent leaf. DefaultLocalScriptPath getenv kind i
      = join_path (ManagedBaseDirForType getenv type) (relative [parent, leaf])
    \<and> TypeMatchesKind type kind \<and> plain_name parent \<and> plain_name leaf
    \<and> script_RelativePathForId i = relative [parent, leaf]
    \<and> script_IdFromRelativePath type (relative [parent, leaf]) = i"
proof -
  have "SplitResourceId i \<noteq> []" using assms by (auto simp: DefaultLocalScriptPath_def)
  then obtain type parent leaf where parts: "SplitResourceId i = [type, parent, leaf]"
    and plain: "plain_name type" "plain_name parent" "plain_name leaf" and i: "i = type @ ''.'' @ parent @ ''.'' @ leaf"
    and nodot: "CHR ''.'' \<notin> set type" "CHR 0x5C \<notin> set i"
    by (rule SplitResourceId_parts)
  have rel: "script_RelativePathForId i = relative [parent, leaf]"
    using plain by (simp add: script_RelativePathForId_def parts to_path_name plain_name_def join_path_def relative_def
        empty_path_def filename_def)
  moreover have "script_IdFromRelativePath type (relative [parent, leaf]) = i"
    using plain nodot by (auto simp: script_IdFromRelativePath_def components_def relative_def plain_name_def i)
  moreover have "TypeMatchesKind type kind \<and> DefaultLocalScriptPath getenv kind i
      = join_path (ManagedBaseDirForType getenv type) (relative [parent, leaf])"
    using assms rel by (auto simp: DefaultLocalScriptPath_def parts Let_def split: if_splits)
  ultimately show ?thesis using plain by blast
qed

theorem script_path_managed_witness:
  "script_IdFromRelativePath ''adapter'' (relative [''a'', ''b.py'']) = ''adapter.a.b.py''"
proof -
  have p: "DefaultLocalScriptPath (\<lambda>_. Some ''/h'') KLlmAdapter ''adapter.a.b.py'' \<noteq> empty_path"
    and rel: "script_RelativePathForId ''adapter.a.b.py'' = relative [''a'', ''b.py'']" by code_simp+
  obtain type parent leaf where "TypeMatchesKind type KLlmAdapter"
    "script_RelativePathForId ''adapter.a.b.py'' = relative [parent, leaf]"
    "script_IdFromRelativePath type (relative [parent, leaf]) = ''adapter.a.b.py''"
    using script_path_managed [OF p] by blast
  then show ?thesis using rel by (simp add: relative_def)
qed

section \<open>The record survives\<close>

definition exact_time :: "float_env \<Rightarrow> u64 \<Rightarrow> bool" where
  "exact_time fe t \<longleftrightarrow> unat t < 2 ^ 63 \<and> fe_round64 fe (of_nat (unat t)) = Finite (of_nat (unat t))"

definition manifest_ok :: "float_env \<Rightarrow> InstalledManifest \<Rightarrow> bool" where
  "manifest_ok fe m \<longleftrightarrow> smap_sorted m \<and> list_all (\<lambda>(i, r). ir_id r = i \<and> exact_time fe (ir_installed_at r)) m"

lemma json_Int64_nat:
  assumes "n < 2 ^ 63"
  shows "json_Int64 fe (JObj ((k, JNum (Finite (of_nat n))) # es)) k 0 = int n"
proof -
  have "(of_nat n :: rat) \<le> of_nat (2 ^ 63)" using assms by (simp only: of_nat_le_iff less_imp_le)
  then have "(of_nat n :: rat) \<le> 2 ^ 63" by simp
  moreover have "- (2 ^ 63) \<le> (of_nat n :: rat)" by (rule order_trans [of _ 0]) (simp, rule of_nat_0_le_iff)
  moreover have "trunc_rat (of_nat n) = int n" by (simp add: trunc_rat_def)
  moreover have "int n \<le> 2 ^ 63 - 1" using assms by simp
  ultimately show ?thesis
    by (simp add: json_Int64_def int64_min_double_def int64_max_double_def fp_to_int_def int64_min_def int64_max_def)
qed

lemma json_Int64_exact:
  assumes "exact_time fe t"
  shows "json_Int64 fe (JObj ((''installed_at'', JNum (fe_round64 fe (of_nat (unat t)))) # es)) ''installed_at'' 0 = int (unat t)"
  using assms json_Int64_nat [of "unat t" fe "''installed_at''" es] by (simp only: exact_time_def)

lemma record_back:
  "exact_time fe (ir_installed_at r) \<Longrightarrow> ir_id r = i \<Longrightarrow> installed_record fe i (record_json fe r) = r"
  by (cases r, simp del: of_nat_unat add: installed_record_def record_json_def json_Int64_exact json_String_def) simp

lemma manifest_of_records:
  "smap_sorted (acc @ m) \<Longrightarrow> list_all (\<lambda>(i, r). ir_id r = i \<and> exact_time fe (ir_installed_at r)) m \<Longrightarrow>
     foldl (\<lambda>m (i, item). if is_object item then smap_emplace i (installed_record fe i item) m else m) acc
       (map (map_prod id (record_json fe)) m) = acc @ m"
proof (induction m arbitrary: acc)
  case (Cons e m)
  obtain i r where e: "e = (i, r)" by (rule prod.exhaust)
  have lt: "string_less j i" if "j \<in> set (map fst acc)" for j
    using Cons.prems(1) that by (auto simp: e smap_sorted_def sorted_wrt_append)
  have "smap_emplace i r acc = acc @ [(i, r)]" by (rule smap_emplace_last) (rule lt)
  moreover have "installed_record fe i (record_json fe r) = r" using Cons.prems(2) by (simp add: e record_back)
  moreover have "is_object (record_json fe r)" by (simp add: record_json_def)
  ultimately show ?case using Cons.IH [of "acc @ [e]"] Cons.prems by (simp add: e)
qed simp

lemma manifest_reloads:
  assumes "manifest_ok fe m" and "manifest_Save write_json fe None m = Inr content"
    and "\<And>j s. write_json j = Some s \<Longrightarrow> read_json s = Inr j"
  shows "manifest_Load read_json fe (Some content) = m"
proof -
  have "read_json content = Inr (manifest_json fe m)"
    using assms(2,3) by (auto simp: manifest_Save_def split: option.splits)
  moreover have "foldl (\<lambda>acc (i, r). smap_emplace i (record_json fe r) acc) [] m = map (map_prod id (record_json fe)) m"
    using foldl_emplace [of "[]" m "record_json fe"] assms(1) by (simp add: manifest_ok_def)
  ultimately show ?thesis
    using manifest_of_records [of "[]" m fe] assms(1)
    by (simp add: manifest_Load_def manifest_json_def manifest_of_def manifest_ok_def)
qed

text \<open>
  C24: The record of installed resources that is read back is the one that was stored, provided that the
  JSON reader inverts the printer and the times are representable.
\<close>
theorem manifest_roundtrip:
  assumes "manifest_ok fe m" and "manifest_Save write_json fe None m = Inr content"
    and "\<forall>j s. write_json j = Some s \<longrightarrow> read_json s = Inr j"
  shows "manifest_Load read_json fe (Some content) = m"
  using manifest_reloads [OF assms(1,2)] assms(3) by blast

definition example_manifest :: InstalledManifest where
  "example_manifest = RecordInstalled 7 ''adapter.a.b'' ''adapter'' ''1'' ''d'' []"

theorem manifest_roundtrip_witness:
  "manifest_Load (\<lambda>s. if s = ''x'' then Inr (manifest_json exact_env example_manifest) else Inl []) exact_env (Some ''x'')
     = example_manifest"
proof -
  let ?prn = "\<lambda>j. if j = manifest_json exact_env example_manifest then Some ''x'' else None"
  have "manifest_ok exact_env example_manifest"
    by (simp add: manifest_ok_def example_manifest_def RecordInstalled_def smap_sorted_def exact_time_def exact_env_def)
  moreover have "manifest_Save ?prn exact_env None example_manifest = Inr ''x''" by (simp add: manifest_Save_def)
  ultimately show ?thesis by (rule manifest_roundtrip) simp
qed

section \<open>Installing a script\<close>

lemma update_manifest_frame [simp]:
  "sf_script (update_manifest sv entry kind sha f) = sf_script f"
  "sf_temporary (update_manifest sv entry kind sha f) = sf_temporary f"
  by (simp_all add: update_manifest_def Let_def split: sum.split)

lemma finish_script_cases:
  assumes "finish_script sv entry kind p url body f = (r, f')"
  shows "sf_temporary f' = None
    \<and> ((\<exists>e. r = Inl e) \<and> sf_script f' = sf_script f \<and> sf_manifest f' = sf_manifest f
       \<or> (\<exists>sha. r = Inr (p, url) \<and> sv_digest sv body = Inr sha \<and> (rg_sha256 entry \<noteq> [] \<longrightarrow> sha = rg_sha256 entry)
            \<and> f' = update_manifest sv entry kind sha (f\<lparr>sf_script := Some body, sf_temporary := None\<rparr>)))"
  using assms
  by (auto simp: finish_script_def Let_def split: if_splits option.splits sum.splits)

lemma DownloadScript_finishes:
  assumes "DownloadScript sv entry kind f = (Inr x, f')"
  shows "Satisfies (sv_host sv) (rg_vinput_version entry)
    \<and> (\<exists>p url body. finish_script sv entry kind p url body (f\<lparr>sf_temporary := Some body\<rparr>) = (Inr x, f'))"
proof (cases "DownloadFile_loop (sv_net sv) (sv_sizes sv) 0 default_download (rg_script_urls entry)")
  case (Pair content result)
  then show ?thesis using assms
    by (cases content) (auto simp: DownloadScript_def DownloadFile_def Let_def split: if_splits option.splits)
qed

text \<open>
  C21: A script is replaced as a whole or not at all: after a failure the installed script and the record
  are as before; after a success the script is what one of the listed addresses delivered, with the listed
  digest if there is one, in the place of its kind, for a host that satisfies its constraint. No temporary
  file is left.
\<close>
theorem script_install_safe:
  assumes "DownloadScript sv entry kind f = (r, f')" and "sf_temporary f = None"
  shows "sf_temporary f' = None
    \<and> (\<forall>e. r = Inl e \<longrightarrow> sf_script f' = sf_script f \<and> sf_manifest f' = sf_manifest f)
    \<and> (\<forall>p url. r = Inr (p, url) \<longrightarrow> Satisfies (sv_host sv) (rg_vinput_version entry)
         \<and> p = DefaultLocalScriptPath (sv_getenv sv) kind (rg_id entry) \<and> p \<noteq> empty_path
         \<and> (\<exists>body sha. fst (DownloadFile_loop (sv_net sv) (sv_sizes sv) 0 default_download (rg_script_urls entry)) = Some body
              \<and> sf_script f' = Some body \<and> sv_digest sv body = Inr sha
              \<and> (rg_sha256 entry \<noteq> [] \<longrightarrow> sha = rg_sha256 entry)))"
proof (cases "\<exists>result body. Satisfies (sv_host sv) (rg_vinput_version entry)
    \<and> DefaultLocalScriptPath (sv_getenv sv) kind (rg_id entry) \<noteq> empty_path \<and> sv_mkdir_error sv = None
    \<and> DownloadFile_loop (sv_net sv) (sv_sizes sv) 0 default_download (rg_script_urls entry) = (Some body, result)")
  case True
  then obtain result body where ok: "Satisfies (sv_host sv) (rg_vinput_version entry)"
    "DefaultLocalScriptPath (sv_getenv sv) kind (rg_id entry) \<noteq> empty_path" "sv_mkdir_error sv = None"
    "DownloadFile_loop (sv_net sv) (sv_sizes sv) 0 default_download (rg_script_urls entry) = (Some body, result)" by blast
  have "finish_script sv entry kind (DefaultLocalScriptPath (sv_getenv sv) kind (rg_id entry)) (dr_resolved_url result)
      body (f\<lparr>sf_temporary := Some body\<rparr>) = (r, f')"
    using assms(1) ok by (simp add: DownloadScript_def DownloadFile_def Let_def)
  from finish_script_cases [OF this] show ?thesis using ok by auto
next
  case False
  have "(\<exists>e. r = Inl e) \<and> sf_script f' = sf_script f \<and> sf_manifest f' = sf_manifest f \<and> sf_temporary f' = None"
    using assms False
    by (auto simp: DownloadScript_def DownloadFile_def Let_def split: if_splits option.splits prod.splits)
  then show ?thesis by auto
qed

definition example_script :: RegistryEntry where
  "example_script =
     \<lparr>rg_id = ''adapter.a.b'', rg_short_id = ''b'', rg_version = ''1'', rg_sha256 = ''d'', rg_vinput_version = [],
      rg_stream = False, rg_command = ''python3'', rg_script_urls = [''http://b''], rg_readme_url = [], rg_envs = []\<rparr>"

text \<open>A JSON library for the records of one script: the text is the digest.\<close>

definition example_installed :: "string \<Rightarrow> InstalledManifest" where
  "example_installed sha = RecordInstalled 7 ''adapter.a.b'' ''adapter'' ''1'' sha []"

definition stored_digest :: "json \<Rightarrow> string" where
  "stored_digest j = json_String (json_Object (json_Object j ''resources'') ''adapter.a.b'') ''sha256'' []"

definition example_script_env :: script_env where
  "example_script_env =
     \<lparr>sv_getenv = (\<lambda>_. Some ''/h''), sv_host = ''1.0.0'', sv_mkdir_error = None, sv_clock = 5, sv_net = quiet_net,
      sv_sizes = length, sv_cancelled_downloaded = False, sv_cancelled_ready = False, sv_digest = (\<lambda>_. Inr ''d''),
      sv_exec_error = None, sv_rename_error = None,
      sv_read_json = (\<lambda>s. Inr (manifest_json exact_env (example_installed s))),
      sv_write_json = (\<lambda>j. if j = manifest_json exact_env (example_installed (stored_digest j))
                          then Some (stored_digest j) else None),
      sv_float = exact_env, sv_save_error = None, sv_now = 7\<rparr>"

lemma successful_run:
  assumes "\<not> isl (fst run)"
  obtains x f
  where "run = (Inr x, f)"
  using assms by (cases run; cases "fst run") auto

theorem script_install_safe_witness:
  "sf_script (snd (DownloadScript example_script_env example_script KLlmAdapter
     \<lparr>sf_script = Some ''old'', sf_temporary = None, sf_manifest = None\<rparr>)) = Some ''http://b''"
proof -
  let ?f = "\<lparr>sf_script = Some ''old'', sf_temporary = None, sf_manifest = None\<rparr>"
  have "\<not> isl (fst (DownloadScript example_script_env example_script KLlmAdapter ?f))"
    and body: "fst (DownloadFile_loop (sv_net example_script_env) (sv_sizes example_script_env) 0 default_download
      (rg_script_urls example_script)) = Some ''http://b''" by code_simp+
  then obtain x f' where d: "DownloadScript example_script_env example_script KLlmAdapter ?f = (Inr x, f')"
    using successful_run by blast
  obtain p url where "x = (p, url)" by (rule prod.exhaust)
  with script_install_safe [OF d] body show ?thesis by (auto simp: d)
qed

lemma list_all_smap_put_pair:
  "list_all (\<lambda>(i, x). P i x) m \<Longrightarrow> P k v \<Longrightarrow> list_all (\<lambda>(i, x). P i x) (smap_put k v m)"
  by (induction m) auto

text \<open>
  C22: Once a script has been installed and the record could be stored, the check for updates finds it up
  to date, until the registry lists another version or digest.
\<close>
theorem installed_script_up_to_date:
  assumes "DownloadScript sv entry kind f = (Inr x, f')"
    and "manifest_ok (sv_float sv) (manifest_Load (sv_read_json sv) (sv_float sv) (sf_manifest f))"
    and "exact_time (sv_float sv) (sv_now sv)" and "sv_save_error sv = None"
    and "\<forall>j s. sv_write_json sv j = Some s \<longrightarrow> sv_read_json sv s = Inr j"
    and "\<forall>sha. sv_write_json sv (manifest_json (sv_float sv) (RecordInstalled (sv_now sv) (rg_id entry)
      (if kind = KAsrProvider then ''provider'' else ''adapter'') (rg_version entry) sha
      (manifest_Load (sv_read_json sv) (sv_float sv) (sf_manifest f)))) \<noteq> None"
  shows "vi_status (CheckResourceVersion (sv_host sv) (manifest_Load (sv_read_json sv) (sv_float sv) (sf_manifest f'))
      entry True (Some digest)) = UpToDate"
proof -
  obtain p url body where run: "Satisfies (sv_host sv) (rg_vinput_version entry)"
    "finish_script sv entry kind p url body (f\<lparr>sf_temporary := Some body\<rparr>) = (Inr x, f')"
    using DownloadScript_finishes [OF assms(1)] by blast
  obtain sha where sha: "rg_sha256 entry \<noteq> [] \<longrightarrow> sha = rg_sha256 entry"
    and f': "f' = update_manifest sv entry kind sha (f\<lparr>sf_script := Some body, sf_temporary := None\<rparr>)"
    using finish_script_cases [OF run(2)] by auto
  define m where "m = RecordInstalled (sv_now sv) (rg_id entry) (if kind = KAsrProvider then ''provider'' else ''adapter'')
      (rg_version entry) sha (manifest_Load (sv_read_json sv) (sv_float sv) (sf_manifest f))"
  obtain content where content: "manifest_Save (sv_write_json sv) (sv_float sv) None m = Inr content"
  proof -
    have "sv_write_json sv (manifest_json (sv_float sv) m) \<noteq> None" unfolding m_def using assms(6) by blast
    then show thesis using that by (auto simp: manifest_Save_def)
  qed
  have "manifest_ok (sv_float sv) m"
    using assms(2,3) by (auto simp: m_def manifest_ok_def RecordInstalled_def smap_sorted_put list_all_smap_put_pair)
  then have "manifest_Load (sv_read_json sv) (sv_float sv) (Some content) = m"
    by (rule manifest_reloads [OF _ content]) (use assms(5) in blast)
  moreover have "sf_manifest f' = Some content"
    using content assms(4) by (simp add: f' update_manifest_def Let_def m_def)
  ultimately show ?thesis
    using run(1) sha by (simp add: CheckResourceVersion_def manifest_Get_def m_def RecordInstalled_def Let_def)
qed

theorem installed_script_up_to_date_witness:
  "vi_status (CheckResourceVersion ''1.0.0'' (example_installed ''d'') example_script True (Some None)) = UpToDate"
proof -
  let ?sv = example_script_env and ?f = "\<lparr>sf_script = None, sf_temporary = None, sf_manifest = None\<rparr>"
  let ?run = "DownloadScript ?sv example_script KLlmAdapter ?f"
  have "\<not> isl (fst ?run)" and stored: "sf_manifest (snd ?run) = Some ''d''" by code_simp+
  then obtain x f' where run: "?run = (Inr x, f')" using successful_run by blast
  have empty: "manifest_Load (sv_read_json ?sv) (sv_float ?sv) (sf_manifest ?f) = []" by (simp add: manifest_Load_def)
  have digest: "stored_digest (manifest_json exact_env (example_installed sha)) = sha" for sha
    by (simp add: stored_digest_def manifest_json_def example_installed_def RecordInstalled_def json_Object_def
        json_String_def record_json_def smap_emplace_def)
  have "manifest_ok (sv_float ?sv) (manifest_Load (sv_read_json ?sv) (sv_float ?sv) (sf_manifest ?f))"
    unfolding empty by (simp add: manifest_ok_def smap_sorted_def)
  moreover have "exact_time (sv_float ?sv) (sv_now ?sv)" by (simp add: example_script_env_def exact_time_def exact_env_def)
  moreover have "sv_save_error ?sv = None" by (simp add: example_script_env_def)
  moreover have "\<forall>j s. sv_write_json ?sv j = Some s \<longrightarrow> sv_read_json ?sv s = Inr j"
    by (auto simp: example_script_env_def split: if_splits)
  moreover have "\<forall>sha. sv_write_json ?sv (manifest_json (sv_float ?sv) (RecordInstalled (sv_now ?sv) (rg_id example_script)
      (if KLlmAdapter = KAsrProvider then ''provider'' else ''adapter'') (rg_version example_script) sha
      (manifest_Load (sv_read_json ?sv) (sv_float ?sv) (sf_manifest ?f)))) \<noteq> None"
    unfolding empty using digest by (simp add: example_script_env_def example_script_def example_installed_def)
  ultimately have "vi_status (CheckResourceVersion (sv_host ?sv)
      (manifest_Load (sv_read_json ?sv) (sv_float ?sv) (sf_manifest f')) example_script True (Some None)) = UpToDate"
    by (rule installed_script_up_to_date [OF run])
  moreover have "manifest_Load (sv_read_json ?sv) (sv_float ?sv) (Some ''d'') = example_installed ''d''" by code_simp
  ultimately show ?thesis using stored run by (simp add: example_script_env_def)
qed

section \<open>User-defined providers are kept\<close>

lemma update_first_spec:
  "find P xs = Some x \<Longrightarrow> \<exists>as bs. xs = as @ x # bs \<and> (\<forall>a\<in>set as. \<not> P a) \<and> update_first P f xs = as @ f x # bs"
proof (induction xs)
  case (Cons y ys)
  show ?case
  proof (cases "P y")
    case True
    then show ?thesis using Cons.prems by (intro exI [of _ "[]"] exI [of _ ys]) auto
  next
    case False
    then obtain as bs where "ys = as @ x # bs" "\<forall>a\<in>set as. \<not> P a" "update_first P f ys = as @ f x # bs" using Cons by auto
    then show ?thesis using False by (intro exI [of _ "y # as"] exI [of _ bs]) simp
  qed
qed simp

text \<open>
  Entering a script into the configuration changes at most one recogniser, the one with its id, and
  that one only if it is a command with exactly the managed script as its argument; everything else in the
  configuration stays as it was. If it refuses, nothing changes.
\<close>
theorem provider_materialized_safely:
  assumes "MaterializeAsrProvider getenv entry script_path config = (r, config')"
  shows "(\<exists>e. r = Inl e) \<and> config' = config
    \<or> r = Inr () \<and> (\<exists>as bs new. config' = config\<lparr>cc_asr_providers := as @ new # bs\<rparr> \<and> AsrProviderId new = rg_id entry
        \<and> (bs = [] \<and> as = cc_asr_providers config \<and> rg_id entry \<notin> AsrProviderId ` set as
           \<or> (\<exists>c. cc_asr_providers config = as @ CommandAsrProvider c # bs \<and> co_id c = rg_id entry
                \<and> IsManagedScriptPath (DefaultLocalScriptPath getenv KAsrProvider (rg_id entry)) (co_args c))))"
proof (cases "find (\<lambda>p. AsrProviderId p = rg_id entry) (cc_asr_providers config)")
  case None
  then have "rg_id entry \<notin> AsrProviderId ` set (cc_asr_providers config)" by (auto simp: find_None_iff_all)
  moreover define new where "new = CommandAsrProvider \<lparr>co_id = rg_id entry, co_timeoutMs = 60000,
      co_command = rg_command entry, co_args = [path_text script_path], co_env = FillDefaultEnvMap (rg_envs entry) []\<rparr>"
  have "(\<exists>e. r = Inl e) \<and> config' = config
      \<or> r = Inr () \<and> config' = config\<lparr>cc_asr_providers := cc_asr_providers config @ [new]\<rparr>"
    using assms None by (auto simp: MaterializeAsrProvider_def Let_def new_def split: if_splits)
  moreover have "AsrProviderId new = rg_id entry" by (simp add: new_def)
  ultimately show ?thesis by blast
next
  case (Some p)
  show ?thesis
  proof (cases p)
    case (LocalAsrProvider l)
    then show ?thesis using assms Some by (auto simp: MaterializeAsrProvider_def Let_def split: if_splits)
  next
    case (CommandAsrProvider c)
    obtain as bs where parts: "cc_asr_providers config = as @ p # bs"
      "update_first (\<lambda>p. AsrProviderId p = rg_id entry) (refresh_provider entry (path_text script_path)) (cc_asr_providers config)
        = as @ refresh_provider entry (path_text script_path) p # bs"
      using update_first_spec [OF Some, of "refresh_provider entry (path_text script_path)"] by blast
    have same: "co_id c = rg_id entry" using find_Some_memD [OF Some] CommandAsrProvider by simp
    define new where "new = refresh_provider entry (path_text script_path) p"
    have "(\<exists>e. r = Inl e) \<and> config' = config
        \<or> r = Inr () \<and> config' = config\<lparr>cc_asr_providers := as @ new # bs\<rparr>
          \<and> IsManagedScriptPath (DefaultLocalScriptPath getenv KAsrProvider (rg_id entry)) (co_args c)"
      using assms Some parts(2) CommandAsrProvider
      by (auto simp: MaterializeAsrProvider_def Let_def new_def split: if_splits)
    moreover have "AsrProviderId new = rg_id entry" using same by (simp add: new_def CommandAsrProvider refresh_provider_def)
    ultimately show ?thesis using parts(1) same CommandAsrProvider by blast
  qed
qed

theorem provider_materialized_safely_witness:
  "snd (MaterializeAsrProvider (\<lambda>_. Some ''/h'') (example_script\<lparr>rg_id := ''provider.a.b''\<rparr>) (to_path ''/s'')
     (default_config\<lparr>cc_asr_providers := [CommandAsrProvider \<lparr>co_id = ''provider.a.b'', co_timeoutMs = 1,
        co_command = ''mine'', co_args = [''/my/script''], co_env = []\<rparr>]\<rparr>))
   = default_config\<lparr>cc_asr_providers := [CommandAsrProvider \<lparr>co_id = ''provider.a.b'', co_timeoutMs = 1,
        co_command = ''mine'', co_args = [''/my/script''], co_env = []\<rparr>]\<rparr>"
proof -
  let ?config = "default_config\<lparr>cc_asr_providers := [CommandAsrProvider \<lparr>co_id = ''provider.a.b'', co_timeoutMs = 1,
        co_command = ''mine'', co_args = [''/my/script''], co_env = []\<rparr>]\<rparr>"
  let ?run = "MaterializeAsrProvider (\<lambda>_. Some ''/h'') (example_script\<lparr>rg_id := ''provider.a.b''\<rparr>) (to_path ''/s'') ?config"
  have "isl (fst ?run)" by code_simp
  moreover obtain r config' where run: "?run = (r, config')" by (rule prod.exhaust)
  ultimately show ?thesis using provider_materialized_safely [OF run] by (auto simp: isl_def)
qed

end
