(* ===== verification/Vad_Trimmer.thy ===== *)
theory Vad_Trimmer
  imports Audio
begin

text \<open>
  \<open>src/daemon/asr/vad_trimmer.cpp\<close>: cutting recorded audio at the speech that a voice activity detector
  reports. The detector is a function from the windows it was fed since its reset to the segments it
  queues. Positions are integers; a recording has fewer than \<open>2 ^ 31\<close> samples.
\<close>

record VadTrimParams =
  vp_threshold :: fp
  vp_min_speech_duration :: fp
  vp_min_silence_duration :: fp
  vp_max_speech_duration :: fp
  vp_speech_pad_ms :: int

definition default_VadTrimParams :: "float_env \<Rightarrow> VadTrimParams" where
  "default_VadTrimParams fe =
     \<lparr>vp_threshold = fe_round32 fe (35 / 100), vp_min_speech_duration = fe_round32 fe (1 / 10),
      vp_min_silence_duration = fe_round32 fe (8 / 10), vp_max_speech_duration = Finite 15, vp_speech_pad_ms = 500\<rparr>"

record SpeechSegment =
  sg_start :: int
  sg_samples :: "fp list"

type_synonym detector = "fp list list \<Rightarrow> SpeechSegment list"

record VadTrimmer =
  vt_vad :: "detector option"
  vt_sample_rate :: int
  vt_params :: VadTrimParams

definition new_VadTrimmer :: "float_env \<Rightarrow> VadTrimmer" where
  "new_VadTrimmer fe = \<lparr>vt_vad = None, vt_sample_rate = 16000, vt_params = default_VadTrimParams fe\<rparr>"

definition vt_Available :: "VadTrimmer \<Rightarrow> bool" where
  "vt_Available t \<longleftrightarrow> vt_vad t \<noteq> None"

definition vt_Shutdown :: "VadTrimmer \<Rightarrow> VadTrimmer" where
  "vt_Shutdown t = t\<lparr>vt_vad := None\<rparr>"

section \<open>Initialisation\<close>

text \<open>The configuration of the detector, with the members that the code sets.\<close>

record vad_model_config =
  vm_model :: string
  vm_threshold :: fp
  vm_min_silence_duration :: fp
  vm_min_speech_duration :: fp
  vm_window_size :: int
  vm_max_speech_duration :: fp
  vm_sample_rate :: int
  vm_num_threads :: int
  vm_provider :: string
  vm_debug :: int

definition positive_or :: "fp \<Rightarrow> fp \<Rightarrow> fp" where
  "positive_or d x = (if \<not> is_finite x \<or> fp_le x (Finite 0) then d else x)"

definition vt_Init ::
    "float_env \<Rightarrow> (vad_model_config \<Rightarrow> fp \<Rightarrow> detector option) \<Rightarrow> string \<Rightarrow> int \<Rightarrow> string \<Rightarrow> VadTrimParams
     \<Rightarrow> VadTrimmer \<Rightarrow> (string + unit) \<times> VadTrimmer" where
  "vt_Init fe create model_path sample_rate provider params t =
     (if vt_Available t then (Inr (), t)
      else
        (let p = params\<lparr>
               vp_max_speech_duration := positive_or (Finite 15) (vp_max_speech_duration params),
               vp_min_silence_duration := positive_or (fe_round32 fe (8 / 10)) (vp_min_silence_duration params),
               vp_min_speech_duration := positive_or (fe_round32 fe (1 / 10)) (vp_min_speech_duration params)\<rparr>;
             config = \<lparr>vm_model = model_path, vm_threshold = vp_threshold p,
               vm_min_silence_duration = vp_min_silence_duration p, vm_min_speech_duration = vp_min_speech_duration p,
               vm_window_size = 512, vm_max_speech_duration = vp_max_speech_duration p, vm_sample_rate = sample_rate,
               vm_num_threads = 1, vm_provider = provider, vm_debug = 0\<rparr>
         in case create config (Finite 30) of
              None \<Rightarrow> (Inl (''failed to create VAD from '' @ [CHR 0x27] @ model_path @ [CHR 0x27]), t\<lparr>vt_params := p\<rparr>)
            | Some vad \<Rightarrow> (Inr (), t\<lparr>vt_params := p, vt_vad := Some vad, vt_sample_rate := sample_rate\<rparr>)))"

section \<open>Feeding\<close>

function feed_loop :: "'a \<Rightarrow> 'a list \<Rightarrow> nat \<Rightarrow> 'a list list" where
  "feed_loop zero pcm offset =
     (if offset + 512 \<le> length pcm then take 512 (drop offset pcm) # feed_loop zero pcm (offset + 512)
      else if offset < length pcm
      then [drop offset pcm @ replicate (512 - (length pcm - offset)) zero]
      else [])"
  by pat_completeness auto
termination
  by (relation "measure (\<lambda>(zero, pcm, offset). length pcm - offset)") auto

declare feed_loop.simps [simp del]

definition FeedWaveformToVad :: "detector \<Rightarrow> fp list \<Rightarrow> SpeechSegment list" where
  "FeedWaveformToVad vad pcm = vad (feed_loop (Finite 0) pcm 0)"

text \<open>The intervals of the segments that are not empty, in the order in which they are popped.\<close>

definition detections :: "SpeechSegment list \<Rightarrow> (int \<times> int) list" where
  "detections segs =
     map (\<lambda>seg. (sg_start seg, sg_start seg + int (length (sg_samples seg)))) (filter (\<lambda>seg. sg_samples seg \<noteq> []) segs)"

definition cut_out :: "'a list \<Rightarrow> int \<Rightarrow> int \<Rightarrow> 'a list" where
  "cut_out pcm a b = take (nat b - nat a) (drop (nat a) pcm)"

text \<open>The product is negative only if the maximum is zero anyway, so rounding down is as good as truncating.\<close>

definition padding_samples :: "int \<Rightarrow> int \<Rightarrow> int" where
  "padding_samples speech_pad_ms sample_rate = max 0 (speech_pad_ms * sample_rate div 1000)"

section \<open>Trimming\<close>

definition bounds_step :: "int \<times> int \<Rightarrow> int \<times> int \<Rightarrow> int \<times> int" where
  "bounds_step b d =
     (case b of (earliest, latest) \<Rightarrow> case d of (seg_start, seg_end) \<Rightarrow>
        (if earliest < 0 \<or> seg_start < earliest then seg_start else earliest, max latest seg_end))"

definition Trim_audio :: "VadTrimmer \<Rightarrow> fp list \<Rightarrow> fp list" where
  "Trim_audio t pcm =
     (case vt_vad t of
        None \<Rightarrow> pcm
      | Some vad \<Rightarrow>
          if pcm = [] then pcm
          else
            (case foldl bounds_step (- 1, - 1) (detections (FeedWaveformToVad vad pcm)) of
               (earliest, latest) \<Rightarrow>
                 if earliest < 0 then []
                 else if latest \<le> earliest then pcm
                 else
                   (let pad = padding_samples (vp_speech_pad_ms (vt_params t)) (vt_sample_rate t);
                        total_n = int (length pcm); cut_start = max 0 (earliest - pad);
                        cut_end = min total_n (latest + pad)
                    in if cut_start \<le> 0 \<and> cut_end \<ge> total_n then pcm
                       else if cut_end \<le> cut_start then pcm
                       else cut_out pcm cut_start cut_end)))"

section \<open>Segmenting\<close>

text \<open>\<open>std::clamp\<close> has no defined result if its bounds are in the wrong order: \<open>undef\<close> is what it then gives.\<close>

definition std_clamp :: "(int \<Rightarrow> int \<Rightarrow> int \<Rightarrow> int) \<Rightarrow> int \<Rightarrow> int \<Rightarrow> int \<Rightarrow> int" where
  "std_clamp undef v lo hi = (if hi < lo then undef v lo hi else if v < lo then lo else if hi < v then hi else v)"

definition raw_cut_end :: "int \<Rightarrow> int \<Rightarrow> int \<Rightarrow> (int \<times> int) list \<Rightarrow> int" where
  "raw_cut_end pad total_n raw_end rest =
     (case rest of
        [] \<Rightarrow> min total_n (raw_end + pad)
      | (next_raw_start, _) # _ \<Rightarrow>
          (let gap = next_raw_start - raw_end in
           if gap \<ge> 2 * pad then raw_end + pad else if gap > 0 then raw_end + gap div 2 else raw_end))"

fun segment_cuts :: "(int \<Rightarrow> int \<Rightarrow> int \<Rightarrow> int) \<Rightarrow> int \<Rightarrow> int \<Rightarrow> int \<Rightarrow> (int \<times> int) list \<Rightarrow> (int \<times> int) list" where
  "segment_cuts undef pad total_n last_cut_end [] = []"
| "segment_cuts undef pad total_n last_cut_end ((raw_start, raw_end) # ds) =
     (let cut_start = max last_cut_end (max 0 (raw_start - pad));
          cut_end = std_clamp undef (raw_cut_end pad total_n raw_end ds) cut_start total_n
      in (cut_start, cut_end) # segment_cuts undef pad total_n cut_end ds)"

definition Segment_audio ::
    "float_env \<Rightarrow> (int \<Rightarrow> int \<Rightarrow> int \<Rightarrow> int) \<Rightarrow> VadTrimmer \<Rightarrow> fp list \<Rightarrow> int \<Rightarrow> fp list list" where
  "Segment_audio fe undef t pcm sample_rate =
     (case vt_vad t of
        None \<Rightarrow> [pcm]
      | Some vad \<Rightarrow>
          if pcm = [] then [pcm]
          else
            (let detected = detections (FeedWaveformToVad vad pcm) in
             if detected = [] then []
             else
               (let effective_sr = (if sample_rate > 0 then sample_rate else vt_sample_rate t);
                    pad = padding_samples (vp_speech_pad_ms (vt_params t)) effective_sr;
                    cuts = segment_cuts undef pad (int (length pcm)) 0 detected;
                    raw_segments = map (\<lambda>(a, b). cut_out pcm a b) (filter (\<lambda>(a, b). b > a) cuts);
                    max_duration = positive_or (Finite 15) (vp_max_speech_duration (vt_params t))
                in CoalesceAndSliceSegments fe raw_segments effective_sr max_duration (fe_round32 fe (1 / 2)))))"

section \<open>The detector hears everything\<close>

lemma feed_loop_facts:
  "concat (feed_loop zero pcm offset) =
     drop offset pcm @ replicate (length (concat (feed_loop zero pcm offset)) - (length pcm - offset)) zero
   \<and> list_all (\<lambda>w. length w = 512) (feed_loop zero pcm offset)
   \<and> length pcm - offset \<le> length (concat (feed_loop zero pcm offset))"
proof (induction zero pcm offset rule: feed_loop.induct)
  case (1 zero pcm offset)
  show ?case
  proof (cases "offset + 512 \<le> length pcm")
    case True
    let ?rest = "concat (feed_loop zero pcm (offset + 512))"
    note IH = 1(1) [OF True]
    have step: "feed_loop zero pcm offset = take 512 (drop offset pcm) # feed_loop zero pcm (offset + 512)"
      using True by (subst feed_loop.simps) simp
    have len: "length (concat (feed_loop zero pcm offset)) - (length pcm - offset)
        = length ?rest - (length pcm - (offset + 512))" using True IH by (simp add: step)
    have "take 512 (drop offset pcm) @ drop (offset + 512) pcm = drop offset pcm"
      by (metis append_take_drop_id drop_drop add.commute)
    moreover have "concat (feed_loop zero pcm offset) = take 512 (drop offset pcm) @ drop (offset + 512) pcm
        @ replicate (length ?rest - (length pcm - (offset + 512))) zero" using IH by (simp only: step concat.simps)
    ultimately have "concat (feed_loop zero pcm offset) = drop offset pcm
        @ replicate (length (concat (feed_loop zero pcm offset)) - (length pcm - offset)) zero"
      unfolding len by (metis append_assoc)
    then show ?thesis using IH True by (simp add: step)
  next
    case False
    then show ?thesis by (subst (1 2 3 4) feed_loop.simps) auto
  qed
qed

text \<open>
  The detector is fed the recording, filled up with silence to whole windows of 512 samples.
\<close>
theorem FeedWaveformToVad_complete:
  "\<exists>k windows. FeedWaveformToVad vad pcm = vad windows \<and> concat windows = pcm @ replicate k (Finite 0)
     \<and> list_all (\<lambda>w. length w = 512) windows"
  using feed_loop_facts [of "Finite 0" pcm 0] by (auto simp: FeedWaveformToVad_def)

section \<open>Trimming keeps the speech\<close>

lemma bounds_fold:
  assumes "list_all (\<lambda>(s, e). 0 \<le> s \<and> s < e) ds" and "foldl bounds_step (a, b) ds = (a', b')"
  shows "(0 \<le> a \<longrightarrow> 0 \<le> a' \<and> a' \<le> a) \<and> b \<le> b' \<and> (\<forall>(s, e)\<in>set ds. 0 \<le> a' \<and> a' \<le> s \<and> e \<le> b')
    \<and> (ds = [] \<longrightarrow> a' = a)"
  using assms
proof (induction ds arbitrary: a b)
  case (Cons d ds)
  obtain s e where d: "d = (s, e)" by (rule prod.exhaust)
  let ?a = "if a < 0 \<or> s < a then s else a"
  have "bounds_step (a, b) d = (?a, max b e)" by (simp add: d bounds_step_def)
  then have "foldl bounds_step (?a, max b e) ds = (a', b')" using Cons.prems(2) by (simp only: foldl.simps)
  note IH = Cons.IH [OF _ this]
  then show ?case using Cons.prems(1) by (auto simp: d split: if_splits)
qed simp

text \<open>
  Trimming returns one contiguous part of the recording that contains every detected stretch of speech,
  as far as it lies in the recording, with all the pauses in between; it is empty only without speech.
\<close>
theorem Trim_audio_keeps_speech:
  assumes "vt_vad t = Some vad" and "detections (FeedWaveformToVad vad pcm) = ds" and "ds \<noteq> []"
    and "list_all (\<lambda>(s, e). 0 \<le> s \<and> s < e) ds"
  shows "\<exists>a b. 0 \<le> a \<and> b \<le> int (length pcm) \<and> Trim_audio t pcm = cut_out pcm a b
    \<and> list_all (\<lambda>(s, e). a \<le> s \<and> min e (int (length pcm)) \<le> b) ds"
proof -
  obtain earliest latest where bounds: "foldl bounds_step (- 1, - 1) ds = (earliest, latest)" by (rule prod.exhaust)
  define pad where "pad = padding_samples (vp_speech_pad_ms (vt_params t)) (vt_sample_rate t)"
  have pad: "0 \<le> pad" by (simp add: pad_def padding_samples_def)
  have all: "\<forall>(s, e)\<in>set ds. 0 \<le> earliest \<and> earliest \<le> s \<and> e \<le> latest" using bounds_fold [OF assms(4) bounds] by blast
  have whole: "pcm = cut_out pcm 0 (int (length pcm))" by (simp add: cut_out_def)
  have inside: "list_all (\<lambda>(s, e). 0 \<le> s \<and> min e (int (length pcm)) \<le> int (length pcm)) ds"
    using all by (fastforce simp: list_all_iff)
  have "Trim_audio t pcm = pcm \<or> Trim_audio t pcm = cut_out pcm (max 0 (earliest - pad))
      (min (int (length pcm)) (latest + pad))"
    using assms(1-3) bounds all
    by (cases ds) (auto simp: Trim_audio_def Let_def pad_def split: if_splits)
  then show ?thesis
  proof
    assume "Trim_audio t pcm = pcm"
    then show ?thesis using whole inside by (metis order_refl of_nat_0_le_iff)
  next
    assume "Trim_audio t pcm = cut_out pcm (max 0 (earliest - pad)) (min (int (length pcm)) (latest + pad))"
    moreover have "list_all (\<lambda>(s, e). max 0 (earliest - pad) \<le> s
        \<and> min e (int (length pcm)) \<le> min (int (length pcm)) (latest + pad)) ds"
      using all pad by (fastforce simp: list_all_iff)
    ultimately show ?thesis by (metis max.cobounded1 min.cobounded1)
  qed
qed

definition example_trimmer :: VadTrimmer where
  "example_trimmer = \<lparr>vt_vad = Some (\<lambda>_. [\<lparr>sg_start = 1, sg_samples = [Finite 0, Finite 0]\<rparr>]), vt_sample_rate = 16000,
     vt_params = (default_VadTrimParams exact_env)\<lparr>vp_speech_pad_ms := 0\<rparr>\<rparr>"

theorem Trim_audio_keeps_speech_witness:
  "\<exists>a b. 0 \<le> a \<and> b \<le> 4 \<and> Trim_audio example_trimmer (replicate 4 (Finite 0)) = cut_out (replicate 4 (Finite 0)) a b
     \<and> a \<le> 1 \<and> 3 \<le> b"
  using Trim_audio_keeps_speech [of example_trimmer "\<lambda>_. [\<lparr>sg_start = 1, sg_samples = [Finite 0, Finite 0]\<rparr>]"
      "replicate 4 (Finite 0)" "[(1, 3)]"]
  by (simp add: example_trimmer_def FeedWaveformToVad_def detections_def)

section \<open>Segmenting keeps the speech\<close>

text \<open>What a detector reports: stretches of speech in order, that begin in the recording.\<close>

definition detections_ok :: "int \<Rightarrow> (int \<times> int) list \<Rightarrow> bool" where
  "detections_ok n ds \<longleftrightarrow>
     sorted_wrt (\<lambda>(s, e) (s', e'). e \<le> s') ds \<and> list_all (\<lambda>(s, e). 0 \<le> s \<and> s < e \<and> s < n) ds"

text \<open>A cut keeps its stretch, and adds no more than the padding.\<close>

definition cut_fits :: "int \<Rightarrow> int \<Rightarrow> int \<times> int \<Rightarrow> int \<times> int \<Rightarrow> bool" where
  "cut_fits pad n c d \<longleftrightarrow>
     fst d - pad \<le> fst c \<and> 0 \<le> fst c \<and> fst c \<le> fst d \<and> min (snd d) n \<le> snd c \<and> snd c \<le> snd d + pad \<and> snd c \<le> n"

lemma raw_cut_end_bounds:
  assumes "0 \<le> pad" and "detections_ok n ((s, e) # ds)"
  shows "min e n \<le> raw_cut_end pad n e ds \<and> raw_cut_end pad n e ds \<le> e + pad
    \<and> (ds \<noteq> [] \<longrightarrow> raw_cut_end pad n e ds \<le> fst (hd ds))"
  using assms by (cases ds) (auto simp: raw_cut_end_def detections_ok_def Let_def)

lemma segment_cuts_fit:
  assumes "0 \<le> pad" and "detections_ok n ds" and "0 \<le> l" and "ds \<noteq> [] \<longrightarrow> l \<le> fst (hd ds)"
  shows "list_all2 (cut_fits pad n) (segment_cuts undef pad n l ds) ds
    \<and> sorted_wrt (\<lambda>c c'. snd c \<le> fst c') (segment_cuts undef pad n l ds)
    \<and> list_all (\<lambda>c. l \<le> fst c) (segment_cuts undef pad n l ds)"
  using assms(2-4)
proof (induction ds arbitrary: l)
  case (Cons d ds)
  obtain s e where d: "d = (s, e)" by (rule prod.exhaust)
  define a where "a = max l (max 0 (s - pad))"
  define b where "b = std_clamp undef (raw_cut_end pad n e ds) a n"
  have ok: "0 \<le> s" "s < e" "s < n" "detections_ok n ds" "ds \<noteq> [] \<longrightarrow> e \<le> fst (hd ds)"
    using Cons.prems(1) by (cases ds; auto simp: d detections_ok_def)+
  note raw = raw_cut_end_bounds [OF assms(1) Cons.prems(1) [unfolded d]]
  have a: "l \<le> a" "0 \<le> a" "a \<le> s" "s - pad \<le> a" using assms(1) ok Cons.prems(2,3) by (auto simp: a_def d)
  have b: "a \<le> b" "min e n \<le> b" "b \<le> e + pad" "b \<le> n" "ds \<noteq> [] \<longrightarrow> b \<le> fst (hd ds)"
    using raw a ok assms(1) by (auto simp: b_def std_clamp_def)
  have "list_all2 (cut_fits pad n) (segment_cuts undef pad n b ds) ds
      \<and> sorted_wrt (\<lambda>c c'. snd c \<le> fst c') (segment_cuts undef pad n b ds)
      \<and> list_all (\<lambda>c. b \<le> fst c) (segment_cuts undef pad n b ds)"
    using Cons.IH [OF ok(4)] a(2) b(1,5) by auto
  moreover have "segment_cuts undef pad n l (d # ds) = (a, b) # segment_cuts undef pad n b ds"
    by (simp add: d a_def b_def Let_def)
  moreover have "cut_fits pad n (a, b) d" using a b by (simp add: d cut_fits_def)
  ultimately show ?case using a b by (auto simp only: list_all2_Cons sorted_wrt.simps list_all_iff list.set ball_simps fst_conv snd_conv)
qed simp

lemma concat_nonempty_cuts:
  "concat (map (\<lambda>(a, b). cut_out pcm a b) (filter (\<lambda>(a, b). b > a) cuts)) = concat (map (\<lambda>(a, b). cut_out pcm a b) cuts)"
  by (induction cuts) (auto simp: cut_out_def)

text \<open>
  No speech is lost or repeated by segmenting: the segments together are cuts of the recording in order,
  one for each detected stretch; the cuts do not overlap, each contains its stretch as far as it lies in the
  recording, and reaches beyond it by at most the padding. This holds whatever \<open>std::clamp\<close> does with bounds
  in the wrong order, since that does not happen.
\<close>
theorem Segment_audio_keeps_speech:
  assumes "vt_vad t = Some vad" and "detections (FeedWaveformToVad vad pcm) = ds"
    and "detections_ok (int (length pcm)) ds" and "0 < rate"
  shows "\<exists>cuts. concat (Segment_audio fe undef t pcm rate) = concat (map (\<lambda>(a, b). cut_out pcm a b) cuts)
    \<and> sorted_wrt (\<lambda>c c'. snd c \<le> fst c') cuts
    \<and> list_all2 (cut_fits (padding_samples (vp_speech_pad_ms (vt_params t)) rate) (int (length pcm))) cuts ds"
proof (cases "pcm = [] \<or> ds = []")
  case True
  then have "ds = []" using assms(3) by (cases ds) (auto simp: detections_ok_def)
  then show ?thesis using assms(1,2) True by (intro exI [of _ "[]"]) (auto simp: Segment_audio_def Let_def)
next
  case False
  let ?pad = "padding_samples (vp_speech_pad_ms (vt_params t)) rate"
  let ?cuts = "segment_cuts undef ?pad (int (length pcm)) 0 ds"
  have "0 \<le> ?pad" by (simp add: padding_samples_def)
  moreover have "ds \<noteq> [] \<longrightarrow> 0 \<le> fst (hd ds)" using assms(3) by (cases ds) (auto simp: detections_ok_def)
  ultimately have "list_all2 (cut_fits ?pad (int (length pcm))) ?cuts ds \<and> sorted_wrt (\<lambda>c c'. snd c \<le> fst c') ?cuts"
    using segment_cuts_fit assms(3) by blast
  moreover have "concat (Segment_audio fe undef t pcm rate) = concat (map (\<lambda>(a, b). cut_out pcm a b) ?cuts)"
    using assms(1,2,4) False
    by (simp add: Segment_audio_def Let_def CoalesceAndSliceSegments_correct concat_nonempty_cuts)
  ultimately show ?thesis by blast
qed

theorem Segment_audio_keeps_speech_witness:
  "\<exists>cuts. concat (Segment_audio exact_env (\<lambda>_ _ _. 0) example_trimmer (replicate 4 (Finite 0)) 16000)
       = concat (map (\<lambda>(a, b). cut_out (replicate 4 (Finite 0)) a b) cuts)
     \<and> list_all2 (cut_fits 0 4) cuts [(1, 3)]"
  using Segment_audio_keeps_speech [of example_trimmer "\<lambda>_. [\<lparr>sg_start = 1, sg_samples = [Finite 0, Finite 0]\<rparr>]"
      "replicate 4 (Finite 0)" "[(1, 3)]" 16000 exact_env "\<lambda>_ _ _. 0"]
  by (auto simp: example_trimmer_def FeedWaveformToVad_def detections_def detections_ok_def padding_samples_def)

end
