(* ===== verification/Sherpa_Sessions.thy ===== *)
theory Sherpa_Sessions
  imports Vad_Trimmer Model_Manager Recognition_Contract
begin

text \<open>
  The recognition sessions of \<open>src/daemon/asr/backends/sherpa_offline_backend.cpp\<close> and
  \<open>sherpa_streaming_backend.cpp\<close>. The sherpa-onnx library is a parameter: an offline recogniser answers a
  call, numbered within the session, with a text or an exception, or gets no stream; an online recogniser is
  a record of functions on the state of a stream. Statistics that are only logged are left out.
\<close>

section \<open>Offline sessions\<close>

definition kMinSamplesForInference :: nat where "kMinSamplesForInference = 8000"

definition pcm_float :: "float_env \<Rightarrow> i16 \<Rightarrow> fp" where
  "pcm_float fe x = fe_round32 fe (of_int (sint x) / 32768)"

type_synonym offline_recognizer = "nat \<Rightarrow> fp list \<Rightarrow> (string + string) option"

definition InferOffline :: "offline_recognizer option \<Rightarrow> nat \<Rightarrow> fp list \<Rightarrow> string + string" where
  "InferOffline recognizer i audio =
     (case recognizer of
        None \<Rightarrow> Inr []
      | Some r \<Rightarrow> (case r i audio of None \<Rightarrow> Inr [] | Some result \<Rightarrow> result))"

record SherpaOfflineSession =
  of_recognizer :: "offline_recognizer option"
  of_vad_available :: bool
  of_vad :: "VadTrimmer option"
  of_finished :: bool
  of_samples :: "fp list"
  of_events :: "RecognitionEvent list"

definition new_SherpaOfflineSession ::
    "offline_recognizer option \<Rightarrow> bool \<Rightarrow> VadTrimmer option \<Rightarrow> SherpaOfflineSession" where
  "new_SherpaOfflineSession r available vad =
     \<lparr>of_recognizer = r, of_vad_available = available, of_vad = vad, of_finished = False, of_samples = [],
      of_events = []\<rparr>"

definition offline_PushAudio_float ::
    "SherpaOfflineSession \<Rightarrow> fp list \<Rightarrow> (bool \<times> string) \<times> SherpaOfflineSession" where
  "offline_PushAudio_float s audio =
     (if of_finished s then ((False, ''Recognition session already finished.''), s)
      else ((True, []), s\<lparr>of_samples := of_samples s @ audio\<rparr>))"

definition offline_PushAudio ::
    "float_env \<Rightarrow> SherpaOfflineSession \<Rightarrow> i16 list \<Rightarrow> (bool \<times> string) \<times> SherpaOfflineSession" where
  "offline_PushAudio fe s pcm =
     (if of_finished s then ((False, ''Recognition session already finished.''), s)
      else ((True, []), s\<lparr>of_samples := of_samples s @ map (pcm_float fe) pcm\<rparr>))"

definition is_ascii_alnum :: "char \<Rightarrow> bool" where
  "is_ascii_alnum c \<longleftrightarrow>
     (let n = of_char c :: nat in 97 \<le> n \<and> n \<le> 122 \<or> 65 \<le> n \<and> n \<le> 90 \<or> 48 \<le> n \<and> n \<le> 57)"

definition needs_space_between :: "char \<Rightarrow> char \<Rightarrow> bool" where
  "needs_space_between left right \<longleftrightarrow> is_ascii_alnum left \<and> is_ascii_alnum right"

definition join_text :: "string \<Rightarrow> string \<Rightarrow> string" where
  "join_text tx seg_text =
     (if seg_text = [] then tx
      else tx @ (if tx \<noteq> [] \<and> needs_space_between (last tx) (hd seg_text) then '' '' else []) @ seg_text)"

text \<open>Empty segments are skipped, and an exception ends the loop.\<close>

fun infer_segments :: "offline_recognizer option \<Rightarrow> nat \<Rightarrow> string \<Rightarrow> fp list list \<Rightarrow> string + string" where
  "infer_segments r i tx [] = Inr tx"
| "infer_segments r i tx (segment # segments) =
     (if segment = [] then infer_segments r i tx segments
      else
        (case InferOffline r i segment of
           Inl what \<Rightarrow> Inl what
         | Inr seg_text \<Rightarrow> infer_segments r (Suc i) (join_text tx seg_text) segments))"

text \<open>
  What the computation before the events gives: \<open>None\<close> when the detector finds no speech.
\<close>

definition offline_text ::
    "float_env \<Rightarrow> (int \<Rightarrow> int \<Rightarrow> int \<Rightarrow> int) \<Rightarrow> SherpaOfflineSession \<Rightarrow> (string + string) option" where
  "offline_text fe undef s =
     (case (if of_vad_available s then of_vad s else None) of
        Some vad \<Rightarrow>
          if vt_Available vad then
            (let segments = Segment_audio fe undef vad (of_samples s) 16000 in
             if segments = [] then None else Some (infer_segments (of_recognizer s) 0 [] segments))
          else Some (InferOffline (of_recognizer s) 0 (of_samples s))
      | None \<Rightarrow> Some (InferOffline (of_recognizer s) 0 (of_samples s)))"

definition sherpa_event :: "RecognitionEventKind \<Rightarrow> string \<Rightarrow> string \<Rightarrow> RecognitionEvent" where
  "sherpa_event kind tx err = \<lparr>ev_kind = kind, ev_text = tx, ev_error = err\<rparr>"

definition sherpa_completed :: RecognitionEvent where
  "sherpa_completed = sherpa_event Completed [] []"

text \<open>\<open>too_long\<close> is the translated message for recordings beyond the capacity of a model.\<close>

definition offline_Finish ::
    "float_env \<Rightarrow> (int \<Rightarrow> int \<Rightarrow> int \<Rightarrow> int) \<Rightarrow> (fp \<Rightarrow> string) \<Rightarrow> SherpaOfflineSession
     \<Rightarrow> (bool \<times> string) \<times> SherpaOfflineSession" where
  "offline_Finish fe undef too_long s =
     (if of_finished s then ((True, []), s)
      else
        (let s1 = s\<lparr>of_finished := True\<rparr>; queue = (\<lambda>evs. s1\<lparr>of_events := of_events s1 @ evs\<rparr>) in
         if length (of_samples s1) < kMinSamplesForInference then ((True, []), queue [sherpa_completed])
         else
           (case offline_text fe undef s1 of
              None \<Rightarrow> ((True, []), queue [sherpa_completed])
            | Some (Inl what) \<Rightarrow>
                (let friendly_err = FormatOfflineAsrError too_long what
                       (fe_round64 fe (of_nat (length (of_samples s1)) / 16000))
                 in ((False, friendly_err), queue [sherpa_event ErrorEvent [] friendly_err, sherpa_completed]))
            | Some (Inr tx) \<Rightarrow>
                ((True, []), queue ((if tx \<noteq> [] then [sherpa_event FinalText tx []] else []) @ [sherpa_completed])))))"

definition offline_Cancel :: "SherpaOfflineSession \<Rightarrow> SherpaOfflineSession" where
  "offline_Cancel s = s\<lparr>of_finished := True, of_samples := [], of_events := [sherpa_completed]\<rparr>"

definition offline_PollEvents :: "SherpaOfflineSession \<Rightarrow> RecognitionEvent list \<times> SherpaOfflineSession" where
  "offline_PollEvents s = (of_events s, s\<lparr>of_events := []\<rparr>)"

definition offline_ops ::
    "float_env \<Rightarrow> (int \<Rightarrow> int \<Rightarrow> int \<Rightarrow> int) \<Rightarrow> (fp \<Rightarrow> string) \<Rightarrow> SherpaOfflineSession session_ops" where
  "offline_ops fe undef too_long =
     \<lparr>so_push = offline_PushAudio fe, so_finish = offline_Finish fe undef too_long, so_cancel = offline_Cancel,
      so_interrupt = (\<lambda>s. s), so_poll = offline_PollEvents\<rparr>"

section \<open>Streaming sessions\<close>

definition kTailPaddingSamples :: nat where "kTailPaddingSamples = 16000 * 66 div 100"

record 'x online_engine =
  on_accept :: "'x \<Rightarrow> fp list \<Rightarrow> 'x"
  on_input_finished :: "'x \<Rightarrow> 'x"
  on_ready :: "'x \<Rightarrow> bool"
  on_decode :: "'x \<Rightarrow> 'x"
  on_text :: "'x \<Rightarrow> string"

text \<open>\<open>sh_stream\<close> is absent once stream and recogniser have been given up.\<close>

record 'x SherpaStreamingSession =
  sh_stream :: "'x option"
  sh_finished :: bool
  sh_total_samples :: nat
  sh_last_partial_text :: string
  sh_events :: "RecognitionEvent list"

definition new_SherpaStreamingSession :: "'x option \<Rightarrow> 'x SherpaStreamingSession" where
  "new_SherpaStreamingSession stream =
     \<lparr>sh_stream = stream, sh_finished = False, sh_total_samples = 0, sh_last_partial_text = [], sh_events = []\<rparr>"

definition GetCurrentText :: "'x online_engine \<Rightarrow> 'x \<Rightarrow> string" where
  "GetCurrentText eng x = Trim (on_text eng x)"

definition decode_once :: "'x online_engine \<Rightarrow> 'x \<times> 'x SherpaStreamingSession \<Rightarrow> 'x \<times> 'x SherpaStreamingSession" where
  "decode_once eng xs =
     (case xs of (x, s) \<Rightarrow>
        (let x' = on_decode eng x; tx = GetCurrentText eng x' in
         (x', if tx \<noteq> [] \<and> tx \<noteq> sh_last_partial_text s
              then s\<lparr>sh_last_partial_text := tx, sh_events := sh_events s @ [sherpa_event PartialText tx []]\<rparr>
              else s)))"

text \<open>The loop ends when the recogniser has no more frames; \<open>None\<close> is a loop that never does.\<close>

partial_function (option) decode_loop ::
    "'x online_engine \<Rightarrow> 'x \<times> 'x SherpaStreamingSession \<Rightarrow> ('x \<times> 'x SherpaStreamingSession) option" where
  [code]: "decode_loop eng xs = (if on_ready eng (fst xs) then decode_loop eng (decode_once eng xs) else Some xs)"

definition DecodeAvailable :: "'x online_engine \<Rightarrow> 'x SherpaStreamingSession \<Rightarrow> 'x SherpaStreamingSession option" where
  "DecodeAvailable eng s =
     (case sh_stream s of
        None \<Rightarrow> Some s
      | Some x \<Rightarrow> map_option (\<lambda>(x', s'). s'\<lparr>sh_stream := Some x'\<rparr>) (decode_loop eng (x, s)))"

definition sherpa_PushAudio_float ::
    "'x online_engine \<Rightarrow> 'x SherpaStreamingSession \<Rightarrow> fp list \<Rightarrow> ((bool \<times> string) \<times> 'x SherpaStreamingSession) option" where
  "sherpa_PushAudio_float eng s audio =
     (if sh_finished s then Some ((False, ''Recognition session already finished.''), s)
      else
        (case sh_stream s of
           None \<Rightarrow> Some ((False, ''Streaming recognizer is not initialized.''), s)
         | Some x \<Rightarrow>
             if audio = [] then Some ((True, []), s)
             else
               map_option (Pair (True, []))
                 (DecodeAvailable eng (s\<lparr>sh_total_samples := sh_total_samples s + length audio,
                                        sh_stream := Some (on_accept eng x audio)\<rparr>))))"

definition sherpa_PushAudio ::
    "float_env \<Rightarrow> 'x online_engine \<Rightarrow> 'x SherpaStreamingSession \<Rightarrow> i16 list
     \<Rightarrow> ((bool \<times> string) \<times> 'x SherpaStreamingSession) option" where
  "sherpa_PushAudio fe eng s pcm = sherpa_PushAudio_float eng s (map (pcm_float fe) pcm)"

definition finish_events :: "'x online_engine \<Rightarrow> 'x SherpaStreamingSession \<Rightarrow> 'x SherpaStreamingSession" where
  "finish_events eng s =
     (let tx = (case sh_stream s of None \<Rightarrow> [] | Some x \<Rightarrow> GetCurrentText eng x);
          s1 = (if tx = [] then s
                else
                  (let s2 = (if tx \<noteq> sh_last_partial_text s
                             then s\<lparr>sh_events := sh_events s @ [sherpa_event PartialText tx []],
                                    sh_last_partial_text := tx\<rparr>
                             else s)
                   in s2\<lparr>sh_events := sh_events s2 @ [sherpa_event FinalText tx []]\<rparr>))
      in s1\<lparr>sh_events := sh_events s1 @ [sherpa_completed]\<rparr>)"

definition sherpa_Finish ::
    "'x online_engine \<Rightarrow> 'x SherpaStreamingSession \<Rightarrow> ((bool \<times> string) \<times> 'x SherpaStreamingSession) option" where
  "sherpa_Finish eng s =
     (if sh_finished s then Some ((True, []), s)
      else
        (case sh_stream s of
           None \<Rightarrow> Some ((False, ''Streaming recognizer is not initialized.''), s)
         | Some x \<Rightarrow>
             (let x1 = (if sh_total_samples s > 0 then on_accept eng x (replicate kTailPaddingSamples (Finite 0)) else x)
              in map_option (\<lambda>s'. ((True, []), finish_events eng s'))
                   (DecodeAvailable eng (s\<lparr>sh_finished := True, sh_stream := Some (on_input_finished eng x1)\<rparr>)))))"

definition sherpa_Cancel :: "'x SherpaStreamingSession \<Rightarrow> 'x SherpaStreamingSession" where
  "sherpa_Cancel s = s\<lparr>sh_finished := True, sh_events := [sherpa_completed], sh_stream := None\<rparr>"

definition sherpa_PollEvents :: "'x SherpaStreamingSession \<Rightarrow> RecognitionEvent list \<times> 'x SherpaStreamingSession" where
  "sherpa_PollEvents s = (sh_events s, s\<lparr>sh_events := []\<rparr>)"

section \<open>Offline: the text of the speech\<close>

lemma offline_pushes:
  "\<not> of_finished s \<Longrightarrow> foldl (\<lambda>s pcm. snd (offline_PushAudio fe s pcm)) s chunks
     = s\<lparr>of_samples := of_samples s @ map (pcm_float fe) (concat chunks)\<rparr>"
  by (induction chunks arbitrary: s) (simp_all add: offline_PushAudio_def)

text \<open>The answers for the segments of a recording, in order; a segment the recogniser has no stream for counts as empty text.\<close>

definition segment_answers :: "offline_recognizer \<Rightarrow> nat \<Rightarrow> fp list list \<Rightarrow> (string + string) list" where
  "segment_answers r i segs = map (\<lambda>(k, a). case r k a of None \<Rightarrow> Inr [] | Some result \<Rightarrow> result) (enumerate i segs)"

lemma infer_segments_answers:
  assumes "list_all (\<lambda>seg. seg \<noteq> []) segs"
  shows "infer_segments (Some r) i tx segs
    = (case find isl (segment_answers r i segs) of
         Some failure \<Rightarrow> failure
       | None \<Rightarrow> Inr (foldl join_text tx (map projr (segment_answers r i segs))))"
  using assms
  by (induction segs arbitrary: i tx) (simp_all add: InferOffline_def segment_answers_def split: sum.splits option.splits)

lemma Segment_audio_nonempty:
  assumes "vt_vad t = Some vad" and "pcm \<noteq> []"
  shows "list_all (\<lambda>seg. seg \<noteq> []) (Segment_audio fe undef t pcm rate)"
  using assms CoalesceAndSliceSegments_correct by (fastforce simp: Segment_audio_def Let_def list_all_iff)

text \<open>
  C23: An offline session with a voice activity detector, whose stretches come in order and start inside the
  recording, cuts the pushed audio into segments that together hold all the detected speech and no audio twice,
  in order. A recording of less than half a second only completes. Otherwise the segments are recognised one after
  another: when a call throws, finishing fails with the message made of the first exception, which is reported as
  an error before the completion; when none does, the texts of the segments are joined, a segment without a stream
  counting as no text, reported as the one result unless empty, and followed by the completion. Nothing else is
  reported.
\<close>
theorem offline_recognizes_speech:
  assumes "vt_vad vad = Some detect" and "audio = map (pcm_float fe) (concat chunks)"
    and "detections (FeedWaveformToVad detect audio) = ds" and "detections_ok (int (length audio)) ds"
    and "offline_Finish fe undef too_long (foldl (\<lambda>s pcm. snd (offline_PushAudio fe s pcm))
          (new_SherpaOfflineSession (Some r) True (Some vad)) chunks) = (result, s')"
  shows "\<exists>segs cuts. concat segs = concat (map (\<lambda>(a, b). cut_out audio a b) cuts)
      \<and> sorted_wrt (\<lambda>c c'. snd c \<le> fst c') cuts
      \<and> list_all2 (cut_fits (padding_samples (vp_speech_pad_ms (vt_params vad)) 16000) (int (length audio))) cuts ds
      \<and> (result, fst (offline_PollEvents s'))
          = (if length audio < kMinSamplesForInference then ((True, []), [sherpa_completed])
             else
               (case find isl (segment_answers r 0 segs) of
                  Some failure \<Rightarrow>
                    (let err = FormatOfflineAsrError too_long (projl failure)
                           (fe_round64 fe (of_nat (length audio) / 16000))
                     in ((False, err), [sherpa_event ErrorEvent [] err, sherpa_completed]))
                | None \<Rightarrow>
                    (let tx = foldl join_text [] (map projr (segment_answers r 0 segs))
                     in ((True, []), (if tx = [] then [] else [sherpa_event FinalText tx []]) @ [sherpa_completed]))))"
proof -
  define segs where "segs = Segment_audio fe undef vad audio 16000"
  define s where "s = new_SherpaOfflineSession (Some r) True (Some vad)"
  obtain cuts where cuts: "concat segs = concat (map (\<lambda>(a, b). cut_out audio a b) cuts)"
    "sorted_wrt (\<lambda>c c'. snd c \<le> fst c') cuts"
    "list_all2 (cut_fits (padding_samples (vp_speech_pad_ms (vt_params vad)) 16000) (int (length audio))) cuts ds"
    using Segment_audio_keeps_speech [OF assms(1,3,4), of 16000 fe undef] by (auto simp: segs_def)
  have fin: "offline_Finish fe undef too_long (s\<lparr>of_samples := audio\<rparr>) = (result, s')"
    using assms(5) offline_pushes [of s fe chunks] by (simp add: s_def new_SherpaOfflineSession_def assms(2))
  have outcome: "audio \<noteq> [] \<Longrightarrow> offline_text fe undef (s\<lparr>of_samples := audio, of_finished := True\<rparr>)
      = (if segs = [] then None
         else Some (case find isl (segment_answers r 0 segs) of
             Some failure \<Rightarrow> failure | None \<Rightarrow> Inr (foldl join_text [] (map projr (segment_answers r 0 segs)))))"
    using infer_segments_answers [OF Segment_audio_nonempty [OF assms(1), of audio fe undef 16000], of r 0 "[]", folded segs_def] assms(1)
    by (simp add: offline_text_def s_def new_SherpaOfflineSession_def vt_Available_def segs_def [symmetric] Let_def)
  have failed: "\<exists>what. failure = Inl what" if "find isl (segment_answers r 0 segs) = Some failure" for failure
    using that by (auto simp: find_Some_iff isl_def)
  have "of_events (s\<lparr>of_samples := audio\<rparr>) = []" "\<not> of_finished (s\<lparr>of_samples := audio\<rparr>)"
    by (simp_all add: s_def new_SherpaOfflineSession_def)
  then show ?thesis using fin outcome failed cuts
    by (intro exI [of _ segs] exI [of _ cuts])
      (fastforce simp: offline_Finish_def offline_PollEvents_def Let_def kMinSamplesForInference_def segment_answers_def
        split: if_splits option.splits)
qed

text \<open>A recogniser that answers the first call of a session and throws at any further one.\<close>

definition one_answer :: offline_recognizer where
  "one_answer k a = Some (if k = 0 then Inr ''a'' else Inl ''exhausted'')"

theorem offline_recognizes_speech_witness:
  "\<exists>result s' segs. offline_Finish exact_env (\<lambda>_ _ _. 0) (\<lambda>_. []) (foldl (\<lambda>s pcm. snd (offline_PushAudio exact_env s pcm))
          (new_SherpaOfflineSession (Some one_answer) True (Some example_trimmer)) [replicate 8000 0]) = (result, s')
     \<and> (result, fst (offline_PollEvents s'))
       = (case find isl (segment_answers one_answer 0 segs) of
            Some failure \<Rightarrow>
              (let err = FormatOfflineAsrError (\<lambda>_. []) (projl failure) (fe_round64 exact_env (of_nat 8000 / 16000))
               in ((False, err), [sherpa_event ErrorEvent [] err, sherpa_completed]))
          | None \<Rightarrow>
              (let tx = foldl join_text [] (map projr (segment_answers one_answer 0 segs))
               in ((True, []), (if tx = [] then [] else [sherpa_event FinalText tx []]) @ [sherpa_completed])))"
proof -
  have detector: "vt_vad example_trimmer = Some (\<lambda>_. [\<lparr>sg_start = 1, sg_samples = [Finite 0, Finite 0]\<rparr>])"
    by (simp add: example_trimmer_def)
  have heard: "detections (FeedWaveformToVad (\<lambda>_. [\<lparr>sg_start = 1, sg_samples = [Finite 0, Finite 0]\<rparr>]) audio) = [(1, 3)]"
    for audio by (simp add: FeedWaveformToVad_def detections_def)
  let ?audio = "map (pcm_float exact_env) (concat [replicate 8000 0])"
  have len: "length ?audio = 8000" by simp
  have ok: "detections_ok (int (length ?audio)) [(1, 3)]" unfolding len by (simp add: detections_ok_def)
  have long: "(8000 < kMinSamplesForInference) = False" by (simp add: kMinSamplesForInference_def)
  show ?thesis
    using offline_recognizes_speech [OF detector refl heard ok prod.collapse [symmetric],
        of "\<lambda>_ _ _. 0" "\<lambda>_. []" one_answer] prod.collapse [symmetric] unfolding long len if_False by blast
qed

section \<open>Streaming: the loop\<close>

text \<open>Which audio a stream has accepted on its way, decoding apart.\<close>

inductive online_fed :: "'x online_engine \<Rightarrow> 'x \<Rightarrow> fp list \<Rightarrow> 'x \<Rightarrow> bool" for eng x where
  fed_start: "online_fed eng x [] x"
| fed_accept: "online_fed eng x a y \<Longrightarrow> online_fed eng x (a @ b) (on_accept eng y b)"
| fed_decode: "online_fed eng x a y \<Longrightarrow> online_fed eng x a (on_decode eng y)"

text \<open>Decoding a stream that is ready uses up some of what it holds.\<close>

definition makes_progress :: "'x online_engine \<Rightarrow> ('x \<Rightarrow> nat) \<Rightarrow> bool" where
  "makes_progress eng m \<longleftrightarrow> (\<forall>x. on_ready eng x \<longrightarrow> m (on_decode eng x) < m x)"

definition partials_ok :: "RecognitionEvent list \<Rightarrow> string \<Rightarrow> bool" where
  "partials_ok evs latest \<longleftrightarrow>
     (\<exists>ts. evs = map (\<lambda>t. sherpa_event PartialText t []) ts \<and> [] \<notin> set ts \<and> distinct_adj ts
        \<and> latest = (if ts = [] then [] else last ts))"

lemma partials_ok_snoc:
  assumes "partials_ok evs latest" and "t \<noteq> []" and "t \<noteq> latest"
  shows "partials_ok (evs @ [sherpa_event PartialText t []]) t"
proof -
  obtain ts where ts: "evs = map (\<lambda>t. sherpa_event PartialText t []) ts" "[] \<notin> set ts" "distinct_adj ts"
    "latest = (if ts = [] then [] else last ts)" using assms(1) unfolding partials_ok_def by blast
  then show ?thesis unfolding partials_ok_def using assms(2,3)
    by (intro exI [of _ "ts @ [t]"]) (auto simp: distinct_adj_append_iff)
qed

lemma decode_loop_ends:
  assumes "makes_progress eng m"
    and "online_fed eng x0 a x" and "partials_ok (out @ sh_events s) (sh_last_partial_text s)"
  shows "\<exists>x' s'. decode_loop eng (x, s) = Some (x', s') \<and> \<not> on_ready eng x' \<and> online_fed eng x0 a x'
    \<and> partials_ok (out @ sh_events s') (sh_last_partial_text s')
    \<and> sh_finished s' = sh_finished s \<and> sh_total_samples s' = sh_total_samples s"
  using assms(2,3)
proof (induction "m x" arbitrary: x s rule: less_induct)
  case less
  show ?case
  proof (cases "on_ready eng x")
    case True
    obtain x' s' where once: "decode_once eng (x, s) = (x', s')" by (rule prod.exhaust)
    then have x': "x' = on_decode eng x" by (simp add: decode_once_def Let_def split: if_splits)
    have "partials_ok (out @ sh_events s') (sh_last_partial_text s')"
      and same: "sh_finished s' = sh_finished s" "sh_total_samples s' = sh_total_samples s"
      using once less.prems(2) partials_ok_snoc [OF less.prems(2)]
      by (auto simp: decode_once_def Let_def split: if_splits)
    note IH = less.hyps [OF assms(1) [unfolded makes_progress_def, rule_format, OF True] fed_decode [OF less.prems(1)], of s', folded x', OF this(1)]
    have "decode_loop eng (x, s) = decode_loop eng (x', s')" using True once by (subst decode_loop.simps) simp
    then show ?thesis using IH same by simp
  next
    case False
    then show ?thesis using less.prems by (subst decode_loop.simps) simp
  qed
qed

section \<open>Streaming: the transcript\<close>

datatype sherpa_op = PushOp "i16 list" | PollOp

text \<open>Pushes and polls in any order, with the events that were polled; a push that fails ends the run.\<close>

fun sherpa_run ::
    "float_env \<Rightarrow> 'x online_engine \<Rightarrow> sherpa_op list \<Rightarrow> RecognitionEvent list \<times> 'x SherpaStreamingSession
     \<Rightarrow> (RecognitionEvent list \<times> 'x SherpaStreamingSession) option" where
  "sherpa_run fe eng [] st = Some st"
| "sherpa_run fe eng (PollOp # ops) (out, s) =
     (case sherpa_PollEvents s of (evs, s') \<Rightarrow> sherpa_run fe eng ops (out @ evs, s'))"
| "sherpa_run fe eng (PushOp pcm # ops) (out, s) =
     (case sherpa_PushAudio fe eng s pcm of
        Some ((True, _), s') \<Rightarrow> sherpa_run fe eng ops (out, s')
      | _ \<Rightarrow> None)"

fun op_pcm :: "sherpa_op \<Rightarrow> i16 list" where
  "op_pcm (PushOp pcm) = pcm"
| "op_pcm PollOp = []"

definition recording_on :: "'x online_engine \<Rightarrow> 'x \<Rightarrow> fp list \<Rightarrow> RecognitionEvent list \<times> 'x SherpaStreamingSession \<Rightarrow> bool" where
  "recording_on eng x0 a st \<longleftrightarrow>
     (case st of (out, s) \<Rightarrow>
        \<not> sh_finished s \<and> (\<exists>x. sh_stream s = Some x \<and> online_fed eng x0 a x) \<and> sh_total_samples s = length a
        \<and> partials_ok (out @ sh_events s) (sh_last_partial_text s))"

lemma DecodeAvailable_ends:
  assumes "makes_progress eng m"
    and "sh_stream s = Some x" and "online_fed eng x0 a x" and "partials_ok (out @ sh_events s) (sh_last_partial_text s)"
  shows "\<exists>x' s'. DecodeAvailable eng s = Some s' \<and> sh_stream s' = Some x' \<and> \<not> on_ready eng x' \<and> online_fed eng x0 a x'
    \<and> partials_ok (out @ sh_events s') (sh_last_partial_text s')
    \<and> sh_finished s' = sh_finished s \<and> sh_total_samples s' = sh_total_samples s"
  using decode_loop_ends [OF assms(1,3,4)] assms(2) by (auto simp: DecodeAvailable_def)

lemma sherpa_push_records:
  assumes "makes_progress eng m" and "recording_on eng x0 a (out, s)"
  shows "\<exists>s'. sherpa_PushAudio fe eng s pcm = Some ((True, []), s')
    \<and> recording_on eng x0 (a @ map (pcm_float fe) pcm) (out, s')"
proof (cases "pcm = []")
  case True
  then show ?thesis using assms(2) by (auto simp: sherpa_PushAudio_def sherpa_PushAudio_float_def recording_on_def)
next
  case False
  obtain x where x: "sh_stream s = Some x" "online_fed eng x0 a x" using assms(2) by (auto simp: recording_on_def)
  let ?audio = "map (pcm_float fe) pcm"
  let ?s = "s\<lparr>sh_total_samples := sh_total_samples s + length ?audio, sh_stream := Some (on_accept eng x ?audio)\<rparr>"
  have "partials_ok (out @ sh_events ?s) (sh_last_partial_text ?s)" using assms(2) by (simp add: recording_on_def)
  from DecodeAvailable_ends [OF assms(1) _ fed_accept [OF x(2), of ?audio] this]
  show ?thesis using assms(2) x(1) False
    by (auto simp: sherpa_PushAudio_def sherpa_PushAudio_float_def recording_on_def)
qed

lemma sherpa_run_records:
  assumes "makes_progress eng m" and "recording_on eng x0 a st"
  shows "\<exists>st'. sherpa_run fe eng ops st = Some st'
    \<and> recording_on eng x0 (a @ map (pcm_float fe) (concat (map op_pcm ops))) st'"
  using assms(2)
proof (induction ops arbitrary: a st)
  case (Cons op ops)
  obtain out s where st: "st = (out, s)" by (rule prod.exhaust)
  show ?case
  proof (cases op)
    case (PushOp pcm)
    obtain s' where push: "sherpa_PushAudio fe eng s pcm = Some ((True, []), s')"
      "recording_on eng x0 (a @ map (pcm_float fe) pcm) (out, s')"
      using sherpa_push_records [OF assms(1) Cons.prems [unfolded st]] by blast
    show ?thesis using Cons.IH [OF push(2)] push(1) by (simp add: st PushOp)
  next
    case PollOp
    have "recording_on eng x0 a (out @ sh_events s, s\<lparr>sh_events := []\<rparr>)"
      using Cons.prems by (simp add: st recording_on_def)
    from Cons.IH [OF this] show ?thesis by (simp add: st PollOp sherpa_PollEvents_def)
  qed
qed simp

lemma finish_events_spec:
  assumes "partials_ok (out @ sh_events s) (sh_last_partial_text s)" and "sh_stream s = Some y"
  shows "\<exists>ts. out @ sh_events (finish_events eng s) = map (\<lambda>t. sherpa_event PartialText t []) ts
        @ (if GetCurrentText eng y = [] then [] else [sherpa_event FinalText (GetCurrentText eng y) []]) @ [sherpa_completed]
    \<and> [] \<notin> set ts \<and> distinct_adj ts \<and> (GetCurrentText eng y \<noteq> [] \<longrightarrow> ts \<noteq> [] \<and> last ts = GetCurrentText eng y)"
proof (cases "GetCurrentText eng y = [] \<or> GetCurrentText eng y = sh_last_partial_text s")
  case True
  then show ?thesis using assms by (auto simp: finish_events_def Let_def partials_ok_def)
next
  case False
  then have "partials_ok ((out @ sh_events s) @ [sherpa_event PartialText (GetCurrentText eng y) []]) (GetCurrentText eng y)"
    using partials_ok_snoc [OF assms(1)] by simp
  then obtain ts where "out @ sh_events s @ [sherpa_event PartialText (GetCurrentText eng y) []]
      = map (\<lambda>t. sherpa_event PartialText t []) ts" "[] \<notin> set ts" "distinct_adj ts"
    "GetCurrentText eng y = (if ts = [] then [] else last ts)" by (auto simp: partials_ok_def)
  then show ?thesis using False assms(2)
    by (intro exI [of _ ts]) (auto simp: finish_events_def Let_def append_assoc [symmetric] simp del: append_assoc split: if_splits)
qed

text \<open>
  C27: However pushes and polls of a streaming session follow each other, the recogniser gets exactly the
  pushed audio, in order, then silence to flush it, and is decoded to the end; every call returns. What is
  reported is a sequence of partial texts, none empty and none twice in a row, then the final text, which is
  the last partial text, unless there is none, and completion, once and last. It is assumed that decoding
  makes progress.
\<close>
theorem streaming_transcript:
  assumes "makes_progress eng m"
    and "audio = map (pcm_float fe) (concat (map op_pcm ops))"
  shows "\<exists>out s s' x y ts tx. sherpa_run fe eng ops ([], new_SherpaStreamingSession (Some x0)) = Some (out, s)
    \<and> sherpa_Finish eng s = Some ((True, []), s')
    \<and> online_fed eng x0 (audio @ (if audio = [] then [] else replicate kTailPaddingSamples (Finite 0))) x
    \<and> online_fed eng (on_input_finished eng x) [] y \<and> \<not> on_ready eng y \<and> tx = GetCurrentText eng y
    \<and> out @ sh_events s' = map (\<lambda>t. sherpa_event PartialText t []) ts
        @ (if tx = [] then [] else [sherpa_event FinalText tx []]) @ [sherpa_completed]
    \<and> [] \<notin> set ts \<and> distinct_adj ts \<and> (tx \<noteq> [] \<longrightarrow> ts \<noteq> [] \<and> last ts = tx)"
proof -
  have "recording_on eng x0 [] ([], new_SherpaStreamingSession (Some x0))"
    by (auto simp: recording_on_def new_SherpaStreamingSession_def partials_ok_def fed_start)
  then obtain out s where run: "sherpa_run fe eng ops ([], new_SherpaStreamingSession (Some x0)) = Some (out, s)"
    "recording_on eng x0 audio (out, s)"
    using sherpa_run_records [OF assms(1)] assms(2) by (metis append_Nil prod.exhaust)
  obtain x where x: "sh_stream s = Some x" "online_fed eng x0 audio x" using run(2) by (auto simp: recording_on_def)
  define x1 where "x1 = (if audio = [] then x else on_accept eng x (replicate kTailPaddingSamples (Finite 0)))"
  have fed: "online_fed eng x0 (audio @ (if audio = [] then [] else replicate kTailPaddingSamples (Finite 0))) x1"
    using x(2) fed_accept [OF x(2), of "replicate kTailPaddingSamples (Finite 0)"] by (auto simp: x1_def)
  let ?s = "s\<lparr>sh_finished := True, sh_stream := Some (on_input_finished eng x1)\<rparr>"
  have "partials_ok (out @ sh_events ?s) (sh_last_partial_text ?s)" using run(2) by (simp add: recording_on_def)
  then obtain y s2 where s2: "DecodeAvailable eng ?s = Some s2" "sh_stream s2 = Some y" "\<not> on_ready eng y"
    "online_fed eng (on_input_finished eng x1) [] y" "partials_ok (out @ sh_events s2) (sh_last_partial_text s2)"
    using DecodeAvailable_ends [OF assms(1) _ fed_start, where s = ?s and out = out] by auto
  have "sherpa_Finish eng s = Some ((True, []), finish_events eng s2)"
    using run(2) x(1) s2(1) by (auto simp: sherpa_Finish_def recording_on_def x1_def)
  with run(1) fed s2(3,4) finish_events_spec [OF s2(5,2), of eng] show ?thesis by blast
qed

text \<open>A recogniser that counts the samples it has not decoded, 100 at a time.\<close>

definition counting_engine :: "nat online_engine" where
  "counting_engine = \<lparr>on_accept = (\<lambda>n a. n + length a), on_input_finished = (\<lambda>n. n), on_ready = (\<lambda>n. n \<ge> 100),
     on_decode = (\<lambda>n. n - 100), on_text = (\<lambda>_. '' a '')\<rparr>"

theorem streaming_transcript_witness:
  "\<exists>out s s'. sherpa_run exact_env counting_engine [PushOp (replicate 150 0), PollOp] ([], new_SherpaStreamingSession (Some 0))
       = Some (out, s)
     \<and> sherpa_Finish counting_engine s = Some ((True, []), s') \<and> last (out @ sh_events s') = sherpa_completed"
  using streaming_transcript [of counting_engine "\<lambda>n. n" "map (pcm_float exact_env) (concat (map op_pcm
      [PushOp (replicate 150 0), PollOp]))" exact_env "[PushOp (replicate 150 0), PollOp]" 0]
  by (fastforce simp: counting_engine_def makes_progress_def simp del: sherpa_run.simps op_pcm.simps)

text \<open>A cancelled session has given up its stream and reports completion only.\<close>

lemma sherpa_Cancel_completes:
  "sherpa_PollEvents (sherpa_Cancel s) = ([sherpa_completed], (sherpa_Cancel s)\<lparr>sh_events := []\<rparr>)
   \<and> sherpa_PushAudio fe eng (sherpa_Cancel s) pcm = Some ((False, ''Recognition session already finished.''), sherpa_Cancel s)
   \<and> sherpa_Finish eng (sherpa_Cancel s) = Some ((True, []), sherpa_Cancel s)"
  by (simp add: sherpa_Cancel_def sherpa_PollEvents_def sherpa_PushAudio_def sherpa_PushAudio_float_def sherpa_Finish_def)

end
