(* ===== verification/Sherpa_Backends.thy ===== *)
theory Sherpa_Backends
  imports Sherpa_Sessions Hotwords Core_Config
begin

text \<open>
  How the local recognisers are set up: \<open>src/daemon/asr/sherpa_json_helpers.h\<close>, \<open>asr_config.h\<close> and the backends of
  \<open>sherpa_offline_backend.cpp\<close> and \<open>sherpa_streaming_backend.cpp\<close>. The configuration structures belong to
  sherpa-onnx; a configuration is the list of the members that were set, the last one first, and a member that was
  not set is null or zero. Creating a recogniser from it is a parameter, and so is \<open>std::stof\<close>, whose result
  depends on the locale of the process.
\<close>

section \<open>Reading model metadata\<close>

text \<open>\<open>std::stoi\<close>: white space, a sign and digits, then anything; \<open>None\<close> is an exception.\<close>

definition stoi :: "string \<Rightarrow> int option" where
  "stoi s =
     (let rest = dropWhile (\<lambda>c. c \<in> set ('' '' @ map char_of [9 :: nat, 10, 11, 12, 13])) s;
          negative = starts_with rest ''-'';
          digits = takeWhile (\<lambda>c. c \<in> set ''0123456789'') (if negative \<or> starts_with rest ''+'' then tl rest else rest);
          n = foldl (\<lambda>n c. 10 * n + (int (of_char c) - 48)) 0 digits;
          value = (if negative then - n else n)
      in if digits = [] \<or> value < - (2 ^ 31) \<or> 2 ^ 31 - 1 < value then None else Some value)"

definition SafeStoi :: "string \<Rightarrow> int \<Rightarrow> int" where
  "SafeStoi s default_val = (case stoi s of Some v \<Rightarrow> v | None \<Rightarrow> default_val)"

definition SafeStof :: "(string \<Rightarrow> fp option) \<Rightarrow> string \<Rightarrow> fp \<Rightarrow> fp" where
  "SafeStof stof s default_val = (case stof s of Some v \<Rightarrow> v | None \<Rightarrow> default_val)"

definition JsonInt :: "json \<Rightarrow> string \<Rightarrow> int \<Rightarrow> int" where
  "JsonInt obj key default_val =
     (case json_Find obj key of
        Some (JNum (Finite x)) \<Rightarrow>
          if of_int (trunc_rat x) \<noteq> x \<or> x < - (2 ^ 31) \<or> 2 ^ 31 - 1 < x then default_val else trunc_rat x
      | Some (JBool flag) \<Rightarrow> if flag then 1 else 0
      | Some (JStr s) \<Rightarrow> SafeStoi s default_val
      | _ \<Rightarrow> default_val)"

text \<open>A \<open>double\<close> becomes a \<open>float\<close> by rounding; infinities and NaN stay.\<close>

definition double_to_float :: "float_env \<Rightarrow> fp \<Rightarrow> fp" where
  "double_to_float fe x = (case x of Finite r \<Rightarrow> fe_round32 fe r | _ \<Rightarrow> x)"

definition JsonFloat :: "float_env \<Rightarrow> (string \<Rightarrow> fp option) \<Rightarrow> json \<Rightarrow> string \<Rightarrow> fp \<Rightarrow> fp" where
  "JsonFloat fe stof obj key default_val =
     (case json_Find obj key of
        Some (JNum x) \<Rightarrow> double_to_float fe x
      | Some (JStr s) \<Rightarrow> SafeStof stof s default_val
      | _ \<Rightarrow> default_val)"

definition JsonBool :: "json \<Rightarrow> string \<Rightarrow> bool \<Rightarrow> bool" where
  "JsonBool obj key default_val =
     (case json_Find obj key of
        Some (JBool flag) \<Rightarrow> flag
      | Some (JNum x) \<Rightarrow> x \<noteq> Finite 0
      | Some (JStr s) \<Rightarrow> s = ''true'' \<or> s = ''1''
      | _ \<Rightarrow> default_val)"

record AsrConfig =
  ac_language :: string
  ac_hotwords_file :: string
  ac_thread_num :: int
  ac_vad_enabled :: bool
  ac_vad_model_path :: string
  ac_vad_threshold :: fp
  ac_vad_min_speech_duration :: fp
  ac_vad_min_silence_duration :: fp
  ac_vad_speech_pad_ms :: int

section \<open>The configuration of a recogniser\<close>

datatype c_value = CStr string | CInt int | CFloat fp

type_synonym c_config = "(string \<times> c_value) list"

definition c_set :: "string \<Rightarrow> c_value \<Rightarrow> c_config \<Rightarrow> c_config" where
  "c_set key v cfg = (key, v) # cfg"

definition c_set_if :: "bool \<Rightarrow> (string \<times> c_value) list \<Rightarrow> c_config \<Rightarrow> c_config" where
  "c_set_if b kvs cfg = (if b then rev kvs @ cfg else cfg)"

text \<open>What is needed of the system: hotword files, the checks of a vocabulary, and the temporary file.\<close>

record sherpa_env =
  sp_float :: float_env
  sp_stof :: "string \<Rightarrow> fp option"
  sp_hotwords :: hotword_io
  sp_regular :: "string \<Rightarrow> bool"
  sp_vocabulary :: "string \<Rightarrow> string + unit"
  sp_temp_dir :: "string + path"
  sp_clock :: int
  sp_write_error :: "string option"

definition flag_value :: "bool \<Rightarrow> c_value" where
  "flag_value b = CInt (if b then 1 else 0)"

text \<open>The members that a family sets. \<open>prompt\<close> is the hotwords given in the prompt, if the provider configures some.\<close>

definition given :: "string \<Rightarrow> string \<Rightarrow> (string \<times> c_value) list" where
  "given k s = (if s = [] then [] else [(k, CStr s)])"

definition family_handlers ::
    "sherpa_env \<Rightarrow> ModelInfo \<Rightarrow> AsrConfig \<Rightarrow> string option \<Rightarrow> string \<Rightarrow> (string \<times> (string \<times> c_value) list) list" where
  "family_handlers sp info ac prompt family =
     (let cfg = json_Object (mi_model_config info) family; F = (\<lambda>k. CStr (mi_File info k));
          S = (\<lambda>k d. JsonString cfg k d); I = (\<lambda>k d. CInt (JsonInt cfg k d));
          R = (\<lambda>k d. CFloat (JsonFloat (sp_float sp) (sp_stof sp) cfg k d)); B = (\<lambda>k. flag_value (JsonBool cfg k False));
          hotwords = (case prompt of Some h \<Rightarrow> h | None \<Rightarrow> S ''hotwords'' []);
          transducer = [(''transducer.encoder'', F ''encoder''), (''transducer.decoder'', F ''decoder''),
                        (''transducer.joiner'', F ''joiner'')];
          ninety = fe_round32 (sp_float sp) (9 / 10)
      in [(''paraformer'', [(''paraformer.model'', F ''model'')]),
          (''sense_voice'',
           [(''sense_voice.model'', F ''model''), (''sense_voice.language'', CStr (S ''language'' (ac_language ac))),
                 (''sense_voice.use_itn'', B ''use_itn'')]),
          (''whisper'',
           [(''whisper.encoder'', F ''encoder''), (''whisper.decoder'', F ''decoder''),
                 (''whisper.language'', CStr (S ''language'' (ac_language ac))),
                 (''whisper.task'', CStr (S ''task'' ''transcribe'')), (''whisper.tail_paddings'', I ''tail_paddings'' (- 1)),
                 (''whisper.enable_token_timestamps'', B ''enable_token_timestamps''),
                 (''whisper.enable_segment_timestamps'', B ''enable_segment_timestamps'')]),
          (''moonshine'',
           ([(''moonshine.preprocessor'', F ''preprocessor''), (''moonshine.encoder'', F ''encoder''),
                  (''moonshine.uncached_decoder'', F ''uncached_decoder''),
                  (''moonshine.cached_decoder'', F ''cached_decoder'')]
                 @ given ''moonshine.merged_decoder'' (mi_File info ''merged_decoder''))),
          (''transducer'', transducer),
          (''nemo_transducer'', transducer),
          (''zipformer_ctc'', [(''zipformer_ctc.model'', F ''model'')]),
          (''fire_red_asr'', [(''fire_red_asr.encoder'', F ''encoder''), (''fire_red_asr.decoder'', F ''decoder'')]),
          (''fire_red_asr_ctc'', [(''fire_red_asr_ctc.model'', F ''model'')]),
          (''dolphin'', [(''dolphin.model'', F ''model'')]),
          (''nemo_ctc'', [(''nemo_ctc.model'', F ''model'')]),
          (''wenet_ctc'', [(''wenet_ctc.model'', F ''model'')]),
          (''tdnn'', [(''tdnn.model'', F ''model'')]),
          (''omnilingual'', [(''omnilingual.model'', F ''model'')]),
          (''medasr'', [(''medasr.model'', F ''model'')]),
          (''canary'',
           [(''canary.encoder'', F ''encoder''), (''canary.decoder'', F ''decoder''),
                 (''canary.src_lang'', CStr (S ''src_lang'' (ac_language ac))),
                 (''canary.tgt_lang'', CStr (S ''tgt_lang'' (ac_language ac))), (''canary.use_pnc'', B ''use_pnc'')]),
          (''funasr_nano'',
           ([(''funasr_nano.encoder_adaptor'', F ''encoder_adapter''), (''funasr_nano.llm'', F ''llm''),
                  (''funasr_nano.embedding'', F ''embedding''), (''funasr_nano.tokenizer'', F ''tokenizer''),
                  (''funasr_nano.language'', CStr (S ''language'' (ac_language ac))), (''funasr_nano.itn'', B ''itn'')]
                 @ given ''funasr_nano.system_prompt'' (S ''system_prompt'' [])
                 @ given ''funasr_nano.user_prompt'' (S ''user_prompt'' []) @ given ''funasr_nano.hotwords'' hotwords
                 @ [(''funasr_nano.max_new_tokens'', I ''max_new_tokens'' 1024),
                    (''funasr_nano.temperature'', R ''temperature'' (Finite 1)), (''funasr_nano.top_p'', R ''top_p'' ninety),
                    (''funasr_nano.seed'', I ''seed'' 0)])),
          (''qwen3_asr'',
           ([(''qwen3_asr.conv_frontend'', F ''conv_frontend''), (''qwen3_asr.encoder'', F ''encoder''),
                  (''qwen3_asr.decoder'', F ''decoder''), (''qwen3_asr.tokenizer'', F ''tokenizer''),
                  (''qwen3_asr.max_total_len'', I ''max_total_len'' 4096),
                  (''qwen3_asr.max_new_tokens'', I ''max_new_tokens'' 1024),
                  (''qwen3_asr.temperature'', R ''temperature'' (Finite 1)), (''qwen3_asr.top_p'', R ''top_p'' ninety),
                  (''qwen3_asr.seed'', I ''seed'' 0)] @ given ''qwen3_asr.hotwords'' hotwords))])"

definition family_members ::
    "sherpa_env \<Rightarrow> ModelInfo \<Rightarrow> AsrConfig \<Rightarrow> string option \<Rightarrow> string \<Rightarrow> (string \<times> c_value) list option" where
  "family_members sp info ac prompt family =
     (if family = ''telespeech_ctc'' then Some [(''telespeech_ctc'', CStr (mi_File info ''telespeech_ctc''))]
      else map_of (family_handlers sp info ac prompt family) family)"

text \<open>Hotwords of an offline recogniser: the ones for the prompt, and the normalised ones for a transducer.\<close>

definition offline_hotwords :: "sherpa_env \<Rightarrow> ModelInfo \<Rightarrow> AsrConfig \<Rightarrow> string + string option \<times> string" where
  "offline_hotwords sp info ac =
     (let configured = mi_supports_hotwords info \<and> ac_hotwords_file ac \<noteq> []; family = mi_family info;
          prompt = (if configured \<and> IsPromptHotwordFamily family then
                      (case LoadPromptHotwordsCsv (sp_float sp) (sp_hotwords sp) (ac_hotwords_file ac) of
                         Inl e \<Rightarrow> Inl e
                       | Inr h \<Rightarrow> Inr h)
                    else if configured \<and> \<not> IsTransducerHotwordFamily family then
                      Inl (''model family '' @ squoted family @ '' does not expose an ASR hotword input in sherpa-onnx'')
                    else Inr [])
      in case prompt of
           Inl e \<Rightarrow> Inl e
         | Inr p \<Rightarrow>
             (let shown = (if configured then Some p else None);
                  selected = (if ac_hotwords_file ac \<noteq> [] then ac_hotwords_file ac else mi_File info ''hotwords_file'')
              in if mi_supports_hotwords info \<and> IsTransducerHotwordFamily family \<and> selected \<noteq> [] then
                   (case LoadTransducerHotwords (sp_float sp) (sp_hotwords sp) selected of
                      Inl e \<Rightarrow> Inl e
                    | Inr h \<Rightarrow>
                        if h = [] then Inr (shown, [])
                        else
                          (case ValidateTransducerHotwordAssets (mi_model_config info) (mi_File info) (sp_regular sp)
                                  (sp_vocabulary sp) of
                             Inl e \<Rightarrow> Inl e
                           | Inr _ \<Rightarrow> Inr (shown, h)))
                 else Inr (shown, [])))"

text \<open>The members that do not depend on the family, in the order in which they are set.\<close>

definition offline_base :: "sherpa_env \<Rightarrow> ModelInfo \<Rightarrow> AsrConfig \<Rightarrow> string \<Rightarrow> c_config" where
  "offline_base sp info ac hotwords =
     (let rc = mi_recognizer_config info; mc = mi_model_config info; feat = json_Object rc ''feat_config'';
          lm = json_Object rc ''lm_config''; R = JsonFloat (sp_float sp) (sp_stof sp); F = mi_File info;
          model_type = JsonString mc ''model_type'' []; modeling_unit = JsonString mc ''modeling_unit'' ''cjkchar''
      in c_set_if (F ''rule_fars'' \<noteq> []) [(''rule_fars'', CStr (F ''rule_fars''))]
         (c_set_if (F ''rule_fsts'' \<noteq> []) [(''rule_fsts'', CStr (F ''rule_fsts''))]
         (c_set_if (F ''lm'' \<noteq> []) [(''lm_config.model'', CStr (F ''lm'')), (''lm_config.scale'', CFloat (R lm ''scale'' (Finite (1 / 2))))]
         (c_set_if (modeling_unit \<noteq> []) [(''modeling_unit'', CStr modeling_unit)]
         (c_set_if (F ''bpe_vocab'' \<noteq> []) [(''bpe_vocab'', CStr (F ''bpe_vocab''))]
         (c_set_if (model_type \<noteq> []) [(''model_type'', CStr model_type)]
         (c_set ''provider'' (CStr (JsonString mc ''provider'' ''cpu''))
         (c_set ''num_threads'' (CInt (JsonInt mc ''num_threads'' (ac_thread_num ac)))
         (c_set_if (F ''tokens'' \<noteq> []) [(''tokens'', CStr (F ''tokens''))]
         (c_set_if (hotwords \<noteq> []) [(''decoding_method'', CStr ''modified_beam_search'')]
         (c_set ''blank_penalty'' (CFloat (R rc ''blank_penalty'' (Finite 0)))
         (c_set ''hotwords_score'' (CFloat (R rc ''hotwords_score'' (Finite (3 / 2))))
         (c_set ''max_active_paths'' (CInt (JsonInt rc ''max_active_paths'' 4))
         (c_set ''decoding_method'' (CStr (JsonString rc ''decoding_method'' ''greedy_search''))
         (c_set ''feature_dim'' (CInt (JsonInt feat ''feature_dim'' 80))
         (c_set ''sample_rate'' (CInt (JsonInt feat ''sample_rate'' 16000)) []))))))))))))))))"

definition offline_config :: "sherpa_env \<Rightarrow> ModelInfo \<Rightarrow> AsrConfig \<Rightarrow> string option \<Rightarrow> string \<Rightarrow> c_config option" where
  "offline_config sp info ac prompt hotwords =
     (let base = offline_base sp info ac hotwords in
      case family_members sp info ac prompt (mi_family info) of
        None \<Rightarrow> None
      | Some members \<Rightarrow>
          Some (c_set_if (map_of base ''model_type'' = None) [(''model_type'', CStr (mi_family info))] (rev members @ base)))"

text \<open>What is done on the way.\<close>

datatype sherpa_effect = WroteTemp string string | CreatedWith c_config | RemovedTemp string

definition WriteTemporaryHotwordFile :: "sherpa_env \<Rightarrow> string \<Rightarrow> (string + string) \<times> sherpa_effect list" where
  "WriteTemporaryHotwordFile sp content =
     (case sp_temp_dir sp of
        Inl e \<Rightarrow> (Inl (''failed to locate temporary directory: '' @ e), [])
      | Inr temp_dir \<Rightarrow>
          (let temp_file = path_text (sub temp_dir (''vinput-hotwords-'' @ to_string (sp_clock sp) @ ''.txt'')) in
           case sp_write_error sp of
             Some e \<Rightarrow> (Inl e, [])
           | None \<Rightarrow> (Inr temp_file, [WroteTemp temp_file content])))"

definition create_recognizer ::
    "(c_config \<Rightarrow> 'r option) \<Rightarrow> string \<Rightarrow> c_config \<Rightarrow> (string + 'r) \<times> sherpa_effect list" where
  "create_recognizer create family config =
     (case create config of
        None \<Rightarrow> (Inl (''failed to create sherpa-onnx recognizer for family '' @ squoted family), [CreatedWith config])
      | Some r \<Rightarrow> (Inr r, [CreatedWith config]))"

definition CreateOfflineRecognizer ::
    "sherpa_env \<Rightarrow> (c_config \<Rightarrow> 'r option) \<Rightarrow> ModelInfo \<Rightarrow> AsrConfig \<Rightarrow> (string + 'r) \<times> sherpa_effect list" where
  "CreateOfflineRecognizer sp create info ac =
     (case offline_hotwords sp info ac of
        Inl e \<Rightarrow> (Inl e, [])
      | Inr (prompt, hotwords) \<Rightarrow>
          (case offline_config sp info ac prompt hotwords of
             None \<Rightarrow> (Inl (''unsupported model family '' @ squoted (mi_family info)), [])
           | Some config \<Rightarrow>
               if hotwords = [] then create_recognizer create (mi_family info) config
               else
                 (case WriteTemporaryHotwordFile sp hotwords of
                    (Inl e, effects) \<Rightarrow> (Inl e, effects)
                  | (Inr temp_file, effects) \<Rightarrow>
                      (case create_recognizer create (mi_family info) (c_set ''hotwords_file'' (CStr temp_file) config) of
                         (result, created) \<Rightarrow> (result, effects @ created @ [RemovedTemp temp_file])))))"

section \<open>The offline backend\<close>

record SherpaOfflineBackend =
  ob_info :: ModelInfo
  ob_config :: AsrConfig
  ob_provider_id :: string
  ob_recognizer :: "offline_recognizer option"
  ob_vad :: VadTrimmer

definition offline_Describe :: "SherpaOfflineBackend \<Rightarrow> BackendDescriptor" where
  "offline_Describe b =
     default_descriptor\<lparr>bd_provider_id := ob_provider_id b, bd_provider_type := kLocalProviderType,
       bd_backend_id := ''sherpa-offline'',
       bd_capabilities := (bd_capabilities default_descriptor)\<lparr>audio_delivery_mode := Buffered,
         supports_hotwords := mi_supports_hotwords (ob_info b)\<rparr>\<rparr>"

definition offline_InitializeLocked ::
    "sherpa_env \<Rightarrow> (c_config \<Rightarrow> offline_recognizer option) \<Rightarrow> (vad_model_config \<Rightarrow> fp \<Rightarrow> detector option)
     \<Rightarrow> SherpaOfflineBackend \<Rightarrow> (string + unit) \<times> SherpaOfflineBackend" where
  "offline_InitializeLocked sp create create_vad b =
     (if ob_recognizer b \<noteq> None then (Inr (), b)
      else
        (case fst (CreateOfflineRecognizer sp create (ob_info b) (ob_config b)) of
           Inl e \<Rightarrow> (Inl e, b)
         | Inr r \<Rightarrow>
             (let b1 = b\<lparr>ob_recognizer := Some r\<rparr>; ac = ob_config b in
              if ac_vad_enabled ac \<and> ac_vad_model_path ac \<noteq> [] then
                (let params = (default_VadTrimParams (sp_float sp))\<lparr>vp_threshold := ac_vad_threshold ac,
                       vp_min_speech_duration := ac_vad_min_speech_duration ac,
                       vp_min_silence_duration := ac_vad_min_silence_duration ac,
                       vp_speech_pad_ms := ac_vad_speech_pad_ms ac\<rparr>
                 in (Inr (), b1\<lparr>ob_vad := snd (vt_Init (sp_float sp) create_vad (ac_vad_model_path ac) 16000
                       (JsonString (mi_model_config (ob_info b)) ''provider'' ''cpu'') params (ob_vad b))\<rparr>))
              else (Inr (), b1))))"

definition offline_CreateSession ::
    "sherpa_env \<Rightarrow> (c_config \<Rightarrow> offline_recognizer option) \<Rightarrow> (vad_model_config \<Rightarrow> fp \<Rightarrow> detector option)
     \<Rightarrow> SherpaOfflineBackend \<Rightarrow> (string + SherpaOfflineSession) \<times> SherpaOfflineBackend" where
  "offline_CreateSession sp create create_vad b =
     (case offline_InitializeLocked sp create create_vad b of
        (Inl e, b1) \<Rightarrow> (Inl e, b1)
      | (Inr _, b1) \<Rightarrow>
          (Inr (new_SherpaOfflineSession (ob_recognizer b1) (vt_Available (ob_vad b1)) (Some (ob_vad b1))), b1))"

definition CreateSherpaOfflineBackend ::
    "float_env \<Rightarrow> string \<Rightarrow> VadConfig \<Rightarrow> LocalAsr \<Rightarrow> ModelInfo \<Rightarrow> AsrConfig \<Rightarrow> SherpaOfflineBackend" where
  "CreateSherpaOfflineBackend fe vad_model_path vad provider info ac =
     \<lparr>ob_info = info,
      ob_config = ac\<lparr>ac_vad_enabled := vad_enabled vad, ac_vad_model_path := vad_model_path,
        ac_vad_threshold := double_to_float fe (vad_threshold vad),
        ac_vad_min_speech_duration := double_to_float fe (vad_minSpeechDuration vad),
        ac_vad_min_silence_duration := double_to_float fe (vad_minSilenceDuration vad),
        ac_vad_speech_pad_ms := vad_speechPadMs vad\<rparr>,
      ob_provider_id = lo_id provider, ob_recognizer = None, ob_vad = new_VadTrimmer fe\<rparr>"

section \<open>The streaming backend\<close>

definition ChooseNumThreads :: "json \<Rightarrow> int \<Rightarrow> int" where
  "ChooseNumThreads model_cfg runtime_default =
     (if runtime_default > 0 then runtime_default else JsonInt model_cfg ''num_threads'' 1)"

text \<open>The hotwords of a streaming recogniser, from a file or from the metadata; empty for none.\<close>

definition streaming_hotwords :: "sherpa_env \<Rightarrow> ModelInfo \<Rightarrow> AsrConfig \<Rightarrow> string + string" where
  "streaming_hotwords sp info ac =
     (let transducer = IsTransducerHotwordFamily (mi_family info);
          selected = (if ac_hotwords_file ac \<noteq> [] then ac_hotwords_file ac else mi_File info ''hotwords_file'');
          buf = JsonString (mi_recognizer_config info) ''hotwords_buf'' [];
          checked = (\<lambda>h. if h = [] then Inr []
                         else (case ValidateTransducerHotwordAssets (mi_model_config info) (mi_File info) (sp_regular sp)
                                      (sp_vocabulary sp) of
                                 Inl e \<Rightarrow> Inl e
                               | Inr _ \<Rightarrow> Inr h))
      in if mi_supports_hotwords info \<and> ac_hotwords_file ac \<noteq> [] \<and> \<not> transducer then
           Inl (''model family '' @ squoted (mi_family info) @ '' does not expose streaming ASR hotwords in sherpa-onnx'')
         else if mi_supports_hotwords info \<and> transducer then
           (if selected \<noteq> [] then
              (case LoadTransducerHotwords (sp_float sp) (sp_hotwords sp) selected of Inl e \<Rightarrow> Inl e | Inr h \<Rightarrow> checked h)
            else checked buf)
         else Inr [])"

definition streaming_base :: "sherpa_env \<Rightarrow> ModelInfo \<Rightarrow> AsrConfig \<Rightarrow> string \<Rightarrow> c_config" where
  "streaming_base sp info ac hotwords =
     (let rc = mi_recognizer_config info; mc = mi_model_config info; feat = json_Object rc ''feat_config'';
          R = (\<lambda>k d. CFloat (JsonFloat (sp_float sp) (sp_stof sp) rc k d)); r32 = fe_round32 (sp_float sp); F = mi_File info;
          model_type = JsonString mc ''model_type'' []; modeling_unit = JsonString mc ''modeling_unit'' [];
          tokens_buf = JsonString mc ''tokens_buf'' []
      in c_set_if (F ''hr_rule_fsts'' \<noteq> []) [(''hr.rule_fsts'', CStr (F ''hr_rule_fsts''))]
         (c_set_if (F ''hr_lexicon'' \<noteq> []) [(''hr.lexicon'', CStr (F ''hr_lexicon''))]
         (c_set_if (hotwords \<noteq> []) [(''hotwords_buf'', CStr hotwords),
             (''hotwords_buf_size'', CInt (int (length hotwords))), (''decoding_method'', CStr ''modified_beam_search'')]
         (c_set_if (F ''graph'' \<noteq> []) [(''ctc_fst_decoder_config.graph'', CStr (F ''graph'')),
             (''ctc_fst_decoder_config.max_active'', CInt (JsonInt (json_Object rc ''ctc_fst_decoder_config'') ''max_active'' 3000))]
         (c_set_if (F ''rule_fars'' \<noteq> []) [(''rule_fars'', CStr (F ''rule_fars''))]
         (c_set_if (F ''rule_fsts'' \<noteq> []) [(''rule_fsts'', CStr (F ''rule_fsts''))]
         (c_set_if (tokens_buf \<noteq> []) [(''tokens_buf'', CStr tokens_buf), (''tokens_buf_size'', CInt (int (length tokens_buf)))]
         (c_set_if (F ''bpe_vocab'' \<noteq> []) [(''bpe_vocab'', CStr (F ''bpe_vocab''))]
         (c_set_if (modeling_unit \<noteq> []) [(''modeling_unit'', CStr modeling_unit)]
         (c_set_if (model_type \<noteq> []) [(''model_type'', CStr model_type)]
         (rev [(''sample_rate'', CInt (JsonInt feat ''sample_rate'' 16000)),
               (''feature_dim'', CInt (JsonInt feat ''feature_dim'' 80)), (''tokens'', CStr (F ''tokens'')),
               (''num_threads'', CInt (ChooseNumThreads mc (ac_thread_num ac))),
               (''provider'', CStr (JsonString mc ''provider'' ''cpu'')),
               (''decoding_method'', CStr (JsonString rc ''decoding_method'' ''greedy_search'')),
               (''max_active_paths'', CInt (JsonInt rc ''max_active_paths'' 4)), (''blank_penalty'', R ''blank_penalty'' (Finite 0)),
               (''enable_endpoint'', flag_value (JsonBool rc ''enable_endpoint'' True)),
               (''rule1_min_trailing_silence'', R ''rule1_min_trailing_silence'' (r32 (24 / 10))),
               (''rule2_min_trailing_silence'', R ''rule2_min_trailing_silence'' (r32 (12 / 10))),
               (''rule3_min_utterance_length'', R ''rule3_min_utterance_length'' (Finite 20)),
               (''hotwords_score'', R ''hotwords_score'' (Finite (3 / 2)))])))))))))))"

definition streaming_members :: "ModelInfo \<Rightarrow> (string \<times> c_value) list option" where
  "streaming_members info =
     (let F = (\<lambda>k. CStr (mi_File info k)); family = mi_family info in
      if family = ''transducer'' then
        Some [(''transducer.encoder'', F ''encoder''), (''transducer.decoder'', F ''decoder''), (''transducer.joiner'', F ''joiner'')]
      else if family = ''zipformer2_ctc'' then Some [(''zipformer2_ctc.model'', F ''model'')]
      else if family = ''paraformer'' then Some [(''paraformer.encoder'', F ''encoder''), (''paraformer.decoder'', F ''decoder'')]
      else if family = ''nemo_ctc'' then Some [(''nemo_ctc.model'', F ''model'')]
      else if family = ''t_one_ctc'' then Some [(''t_one_ctc.model'', F ''model'')]
      else None)"

text \<open>A streaming recogniser: its functions, and the streams it creates, numbered; \<open>None\<close> is a failure.\<close>

record 'x online_recognizer =
  or_engine :: "'x online_engine"
  or_streams :: "nat \<Rightarrow> 'x option"

record 'x SherpaStreamingBackend =
  sb_info :: ModelInfo
  sb_config :: AsrConfig
  sb_provider_id :: string
  sb_recognizer :: "'x online_recognizer option"
  sb_streams_created :: nat

definition sherpa_streaming_Describe :: "'x SherpaStreamingBackend \<Rightarrow> BackendDescriptor" where
  "sherpa_streaming_Describe b =
     default_descriptor\<lparr>bd_provider_id := sb_provider_id b, bd_provider_type := kLocalProviderType,
       bd_backend_id := ''sherpa-streaming'',
       bd_capabilities := (bd_capabilities default_descriptor)\<lparr>audio_delivery_mode := Chunked, supports_streaming := True,
         supports_partial_results := True, supports_hotwords := mi_supports_hotwords (sb_info b)\<rparr>\<rparr>"

partial_function (option) drain_stream :: "'x online_engine \<Rightarrow> 'x \<Rightarrow> 'x option" where
  [code]: "drain_stream eng x = (if on_ready eng x then drain_stream eng (on_decode eng x) else Some x)"

text \<open>The warm-up decodes a fifth of a second of silence on a stream of its own.\<close>

definition WarmupRecognizerLocked :: "'x online_recognizer \<Rightarrow> 'x SherpaStreamingBackend \<Rightarrow> 'x SherpaStreamingBackend option" where
  "WarmupRecognizerLocked r b =
     (let b1 = b\<lparr>sb_streams_created := Suc (sb_streams_created b)\<rparr>; eng = or_engine r in
      case or_streams r (sb_streams_created b) of
        None \<Rightarrow> Some b1
      | Some x \<Rightarrow>
          (case drain_stream eng (on_accept eng x (replicate 3200 (Finite 0))) of
             None \<Rightarrow> None
           | Some x1 \<Rightarrow> (case drain_stream eng (on_input_finished eng x1) of None \<Rightarrow> None | Some _ \<Rightarrow> Some b1)))"

definition streaming_config :: "sherpa_env \<Rightarrow> ModelInfo \<Rightarrow> AsrConfig \<Rightarrow> string + c_config" where
  "streaming_config sp info ac =
     (case streaming_hotwords sp info ac of
        Inl e \<Rightarrow> Inl e
      | Inr hotwords \<Rightarrow>
          (case streaming_members info of
             None \<Rightarrow> Inl (''Unsupported sherpa-streaming model family '' @ squoted (mi_family info))
           | Some members \<Rightarrow> Inr (rev members @ streaming_base sp info ac hotwords)))"

definition InitializeRecognizerLocked ::
    "sherpa_env \<Rightarrow> (c_config \<Rightarrow> 'x online_recognizer option) \<Rightarrow> 'x SherpaStreamingBackend
     \<Rightarrow> ((string + unit) \<times> 'x SherpaStreamingBackend) option" where
  "InitializeRecognizerLocked sp create b =
     (if sb_recognizer b \<noteq> None then Some (Inr (), b)
      else
        (case streaming_config sp (sb_info b) (sb_config b) of
           Inl e \<Rightarrow> Some (Inl e, b)
         | Inr config \<Rightarrow>
             (case create config of
                None \<Rightarrow>
                  Some (Inl (''failed to create sherpa-streaming recognizer for family '' @ squoted (mi_family (sb_info b))), b)
              | Some r \<Rightarrow>
                  map_option (Pair (Inr ())) (WarmupRecognizerLocked r (b\<lparr>sb_recognizer := Some r, sb_streams_created := 0\<rparr>)))))"

definition streaming_CreateSession ::
    "sherpa_env \<Rightarrow> (c_config \<Rightarrow> 'x online_recognizer option) \<Rightarrow> 'x SherpaStreamingBackend
     \<Rightarrow> ((string + 'x SherpaStreamingSession) \<times> 'x SherpaStreamingBackend) option" where
  "streaming_CreateSession sp create b =
     (case InitializeRecognizerLocked sp create b of
        None \<Rightarrow> None
      | Some (Inl e, b1) \<Rightarrow> Some (Inl e, b1)
      | Some (Inr _, b1) \<Rightarrow>
          (case sb_recognizer b1 of
             None \<Rightarrow> Some (Inl [], b1)
           | Some r \<Rightarrow>
               (let b2 = b1\<lparr>sb_streams_created := Suc (sb_streams_created b1)\<rparr> in
                case or_streams r (sb_streams_created b1) of
                  None \<Rightarrow> Some (Inl ''failed to create sherpa-streaming stream'', b2)
                | Some x \<Rightarrow> Some (Inr (new_SherpaStreamingSession (Some x)), b2))))"

definition CreateSherpaStreamingBackend :: "LocalAsr \<Rightarrow> ModelInfo \<Rightarrow> AsrConfig \<Rightarrow> 'x SherpaStreamingBackend" where
  "CreateSherpaStreamingBackend provider info ac =
     \<lparr>sb_info = info, sb_config = ac\<lparr>ac_vad_enabled := False, ac_vad_model_path := []\<rparr>, sb_provider_id = lo_id provider,
      sb_recognizer = None, sb_streams_created = 0\<rparr>"

section \<open>No file outside the model is loaded\<close>

text \<open>
  The members that name one file for the library, the hotwords apart. The members \<open>rule_fsts\<close>, \<open>rule_fars\<close> and
  \<open>hr.rule_fsts\<close> are not among them: the library takes their value as a list of files.
\<close>

definition file_members :: "string list" where
  "file_members =
     [''tokens'', ''bpe_vocab'', ''lm_config.model'', ''hr.lexicon'',
      ''ctc_fst_decoder_config.graph'', ''paraformer.model'', ''sense_voice.model'', ''whisper.encoder'', ''whisper.decoder'',
      ''moonshine.preprocessor'', ''moonshine.encoder'', ''moonshine.uncached_decoder'', ''moonshine.cached_decoder'',
      ''moonshine.merged_decoder'', ''transducer.encoder'', ''transducer.decoder'', ''transducer.joiner'',
      ''zipformer_ctc.model'', ''fire_red_asr.encoder'', ''fire_red_asr.decoder'', ''fire_red_asr_ctc.model'',
      ''dolphin.model'', ''nemo_ctc.model'', ''wenet_ctc.model'', ''tdnn.model'', ''omnilingual.model'', ''medasr.model'',
      ''canary.encoder'', ''canary.decoder'', ''funasr_nano.encoder_adaptor'', ''funasr_nano.llm'',
      ''funasr_nano.embedding'', ''funasr_nano.tokenizer'', ''qwen3_asr.conv_frontend'', ''qwen3_asr.encoder'',
      ''qwen3_asr.decoder'', ''qwen3_asr.tokenizer'', ''telespeech_ctc'', ''zipformer2_ctc.model'', ''paraformer.encoder'',
      ''paraformer.decoder'', ''t_one_ctc.model'']"

definition own_file :: "ModelInfo \<Rightarrow> string \<times> c_value \<Rightarrow> bool" where
  "own_file info kv \<longleftrightarrow>
     (fst kv \<in> set file_members \<longrightarrow> (case snd kv of CStr f \<Rightarrow> f = [] \<or> f \<in> snd ` set (mi_files info) | _ \<Rightarrow> False))"

lemma mi_File_own: "mi_File info k = [] \<or> mi_File info k \<in> snd ` set (mi_files info)"
  by (force simp: mi_File_def split: option.split dest: map_of_SomeD)

lemma own_file_File [simp]: "own_file info (k, CStr (mi_File info j))"
  using mi_File_own [of info j] by (auto simp: own_file_def)

lemma own_file_other: "k \<notin> set file_members \<Longrightarrow> own_file info (k, v)"
  by (simp add: own_file_def)

lemma own_c_set_if [simp]:
  "list_all (own_file info) (c_set_if b kvs cfg) \<longleftrightarrow> (b \<longrightarrow> list_all (own_file info) kvs) \<and> list_all (own_file info) cfg"
  by (auto simp: c_set_if_def list_all_iff)

lemma own_c_set [simp]:
  "list_all (own_file info) (c_set k v cfg) \<longleftrightarrow> own_file info (k, v) \<and> list_all (own_file info) cfg"
  by (simp add: c_set_def)

lemma offline_base_own: "list_all (own_file info) (offline_base sp info ac hotwords)"
  by (simp add: offline_base_def Let_def own_file_other file_members_def)

lemma streaming_base_own: "list_all (own_file info) (streaming_base sp info ac hotwords)"
  by (simp add: streaming_base_def Let_def own_file_other file_members_def)

lemma streaming_members_own: "streaming_members info = Some ms \<Longrightarrow> list_all (own_file info) ms"
  by (auto simp: streaming_members_def Let_def split: if_splits)

lemma family_settings:
  "list_all (\<lambda>k. k \<notin> set file_members)
     [''sense_voice.language'', ''sense_voice.use_itn'', ''whisper.language'', ''whisper.task'', ''whisper.tail_paddings'',
      ''whisper.enable_token_timestamps'', ''whisper.enable_segment_timestamps'', ''canary.src_lang'', ''canary.tgt_lang'',
      ''canary.use_pnc'', ''funasr_nano.language'', ''funasr_nano.itn'', ''funasr_nano.system_prompt'',
      ''funasr_nano.user_prompt'', ''funasr_nano.hotwords'', ''funasr_nano.max_new_tokens'', ''funasr_nano.temperature'',
      ''funasr_nano.top_p'', ''funasr_nano.seed'', ''qwen3_asr.max_total_len'', ''qwen3_asr.max_new_tokens'',
      ''qwen3_asr.temperature'', ''qwen3_asr.top_p'', ''qwen3_asr.seed'', ''qwen3_asr.hotwords'']"
  by code_simp

lemma list_all_given [simp]: "list_all P (given k s) \<longleftrightarrow> (s \<noteq> [] \<longrightarrow> P (k, CStr s))"
  by (simp add: given_def)

lemma handlers_own: "list_all (\<lambda>h. list_all (own_file info) (snd h)) (family_handlers sp info ac prompt family)"
  using family_settings by (simp add: family_handlers_def Let_def own_file_other)

lemma family_members_all:
  assumes "family_members sp info ac prompt family = Some ms"
    and "list_all (\<lambda>h. list_all P (snd h)) (family_handlers sp info ac prompt family)"
    and "P (''telespeech_ctc'', CStr (mi_File info ''telespeech_ctc''))"
  shows "list_all P ms"
proof (cases "family = ''telespeech_ctc''")
  case True
  then show ?thesis using assms(1,3) by (auto simp: family_members_def)
next
  case False
  then have "(family, ms) \<in> set (family_handlers sp info ac prompt family)"
    using assms(1) by (auto simp: family_members_def dest: map_of_SomeD)
  then show ?thesis using assms(2) by (fastforce simp: list_all_iff)
qed

lemma offline_config_own:
  assumes "offline_config sp info ac prompt hotwords = Some config"
  shows "list_all (own_file info) config"
proof -
  obtain ms where ms: "family_members sp info ac prompt (mi_family info) = Some ms"
    and config: "config = c_set_if (map_of (offline_base sp info ac hotwords) ''model_type'' = None)
      [(''model_type'', CStr (mi_family info))] (rev ms @ offline_base sp info ac hotwords)"
    using assms by (auto simp: offline_config_def Let_def split: option.splits)
  have "own_file info (''model_type'', CStr (mi_family info))" by (rule own_file_other) (simp add: file_members_def)
  then show ?thesis
    using family_members_all [OF ms handlers_own] offline_base_own by (simp add: config)
qed

lemma CreateOfflineRecognizer_creates:
  assumes "CreateOfflineRecognizer sp create info ac = (r, effects)" and "CreatedWith config \<in> set effects"
  shows "\<exists>prompt hotwords config'. offline_config sp info ac prompt hotwords = Some config'
    \<and> (config = config' \<or> (\<exists>f. config = c_set ''hotwords_file'' (CStr f) config'))"
proof -
  obtain prompt hotwords where hot: "offline_hotwords sp info ac = Inr (prompt, hotwords)"
    using assms by (auto simp: CreateOfflineRecognizer_def split: sum.splits)
  obtain config' where config': "offline_config sp info ac prompt hotwords = Some config'"
    using assms by (auto simp: CreateOfflineRecognizer_def hot split: option.splits)
  obtain t ws where temp: "WriteTemporaryHotwordFile sp hotwords = (t, ws)" by (rule prod.exhaust)
  then have "CreatedWith config \<notin> set ws"
    by (auto simp: WriteTemporaryHotwordFile_def Let_def split: sum.splits option.splits)
  then have "config = config' \<or> (\<exists>f. config = c_set ''hotwords_file'' (CStr f) config')"
    using assms hot config' temp
    by (cases t) (auto simp: CreateOfflineRecognizer_def create_recognizer_def split: if_splits option.splits)
  with config' show ?thesis by blast
qed

lemma offline_created_own:
  assumes "CreateOfflineRecognizer sp create info ac = (r, effects)" and "CreatedWith config \<in> set effects"
  shows "list_all (own_file info) config"
proof -
  have "own_file info (''hotwords_file'', CStr f)" for f by (rule own_file_other) code_simp
  then show ?thesis using CreateOfflineRecognizer_creates [OF assms] offline_config_own by fastforce
qed

lemma own_file_inside:
  assumes "list_all (own_file info) config" and "files_within fs dir model_root info" and "k \<in> set file_members"
    and "(k, v) \<in> set config"
  shows "\<exists>f. v = CStr f \<and> (f = [] \<or> resolved_file fs dir model_root f)"
proof -
  have "own_file info (k, v)" using assms(1,4) by (auto simp: list_all_iff)
  then show ?thesis using assms(2,3) by (auto simp: own_file_def files_within_def split: c_value.splits)
qed

text \<open>
  C15: Whatever the metadata of a model says, every member of the configuration that names a file for the offline
  recogniser is empty or the text of a path obtained by resolving, with all links, a name in the directory of that
  model, and this resolved path lies inside the resolved directory. This covers the members that name one file;
  it leaves out the temporary file with the hotwords and the members whose value is a list of rule files.
\<close>
theorem offline_files_confined:
  assumes "ParseModelJson pe fs dir json_path = Inr info"
    and "CreateOfflineRecognizer sp create info ac = (r, effects)" and "CreatedWith config \<in> set effects"
    and "k \<in> set file_members" and "(k, v) \<in> set config"
  shows "\<exists>model_root f. mf_canonical fs dir = Inr model_root \<and> v = CStr f
    \<and> (f = [] \<or> (\<exists>raw p. mf_canonical fs (join_path dir (to_path raw)) = Inr p \<and> f = path_text p
                    \<and> IsPathWithinRoot p model_root))"
proof -
  obtain model_root where "mf_canonical fs dir = Inr model_root" "files_within fs dir model_root info"
    using ParseModelJson_within [OF assms(1)] by blast
  then show ?thesis using own_file_inside [OF offline_created_own [OF assms(2,3)] _ assms(4,5)]
    unfolding resolved_file_def by blast
qed

definition example_sherpa :: sherpa_env where
  "example_sherpa = \<lparr>sp_float = exact_env, sp_stof = (\<lambda>_. None), sp_hotwords = example_hotword_io, sp_regular = (\<lambda>_. True),
     sp_vocabulary = (\<lambda>_. Inr ()), sp_temp_dir = Inr (to_path ''/tmp''), sp_clock = 7, sp_write_error = None\<rparr>"

definition example_asr :: AsrConfig where
  "example_asr = \<lparr>ac_language = ''en'', ac_hotwords_file = ''h'', ac_thread_num = 4, ac_vad_enabled = False,
     ac_vad_model_path = [], ac_vad_threshold = Finite 0, ac_vad_min_speech_duration = Finite 0,
     ac_vad_min_silence_duration = Finite 0, ac_vad_speech_pad_ms = 0\<rparr>"

theorem offline_files_confined_witness:
  "\<exists>model_root p. mf_canonical example_model_fs (to_path ''/m/e/n'') = Inr model_root
     \<and> path_text p = ''/m/e/n/m.onnx'' \<and> IsPathWithinRoot p model_root"
proof -
  let ?r = "ParseModelJson example_model_parse example_model_fs (to_path ''/m/e/n'') (to_path ''/m/e/n/vinput-model.json'')"
  let ?run = "CreateOfflineRecognizer example_sherpa (\<lambda>_. Some ()) (projr ?r) example_asr"
  have "\<not> isl ?r" and key: "''paraformer.model'' \<in> set file_members"
    and created: "list_ex (\<lambda>e. case e of CreatedWith c \<Rightarrow> list_ex (\<lambda>kv. kv = (''paraformer.model'', CStr ''/m/e/n/m.onnx'')) c
        | _ \<Rightarrow> False) (snd ?run)" by code_simp+
  then have info: "?r = Inr (projr ?r)" by (cases ?r) simp_all
  obtain e where "e \<in> set (snd ?run)" and e: "case e of CreatedWith c \<Rightarrow> list_ex (\<lambda>kv. kv = (''paraformer.model'', CStr ''/m/e/n/m.onnx'')) c
      | _ \<Rightarrow> False" using created unfolding list_ex_iff by blast
  then obtain config where "CreatedWith config \<in> set (snd ?run)" "(''paraformer.model'', CStr ''/m/e/n/m.onnx'') \<in> set config"
    by - (cases e, auto simp: list_ex_iff)
  then show ?thesis using offline_files_confined [OF info _ _ key, of example_sherpa "\<lambda>_. Some ()" example_asr "fst ?run" "snd ?run"]
    by fastforce
qed

section \<open>Hotwords take effect\<close>

lemma map_of_c_set [simp]: "map_of (c_set k v cfg) j = (if k = j then Some v else map_of cfg j)"
  by (simp add: c_set_def)

lemma map_of_c_set_if [simp]:
  "map_of (c_set_if b kvs cfg) j = (case (if b then map_of (rev kvs) j else None) of None \<Rightarrow> map_of cfg j | Some v \<Rightarrow> Some v)"
  by (simp add: c_set_if_def map_add_def split: option.split)

lemma handlers_keys:
  "list_all (\<lambda>h. list_all (\<lambda>kv. fst kv \<noteq> ''decoding_method'') (snd h)) (family_handlers sp info ac prompt family)"
  by (simp add: family_handlers_def Let_def)

lemma offline_decoding:
  assumes "offline_config sp info ac prompt hotwords = Some config" and "hotwords \<noteq> []"
  shows "map_of config ''decoding_method'' = Some (CStr ''modified_beam_search'')"
proof -
  have base: "map_of (offline_base sp info ac hotwords) ''decoding_method'' = Some (CStr ''modified_beam_search'')"
    using assms(2) by (simp add: offline_base_def Let_def)
  obtain ms where ms: "family_members sp info ac prompt (mi_family info) = Some ms"
    and config: "config = c_set_if (map_of (offline_base sp info ac hotwords) ''model_type'' = None)
      [(''model_type'', CStr (mi_family info))] (rev ms @ offline_base sp info ac hotwords)"
    using assms(1) by (auto simp: offline_config_def Let_def split: option.splits)
  have "map_of (rev ms) ''decoding_method'' = None"
    using family_members_all [OF ms handlers_keys] by (auto simp: map_of_eq_None_iff list_all_iff)
  then show ?thesis using base by (simp add: config map_add_def)
qed

lemma hotword_effects:
  assumes "offline_hotwords sp info ac = Inr (prompt, hotwords)" and "hotwords \<noteq> []"
    and "CreateOfflineRecognizer sp create info ac = (r, effects)"
  shows "effects = [] \<and> (\<exists>e. r = Inl e)
    \<or> (\<exists>f config. effects = [WroteTemp f hotwords, CreatedWith config, RemovedTemp f]
        \<and> map_of config ''hotwords_file'' = Some (CStr f)
        \<and> map_of config ''decoding_method'' = Some (CStr ''modified_beam_search''))"
proof (cases "offline_config sp info ac prompt hotwords")
  case None
  then show ?thesis using assms(1,3) by (auto simp: CreateOfflineRecognizer_def)
next
  case (Some config)
  obtain t ws where temp: "WriteTemporaryHotwordFile sp hotwords = (t, ws)" by (rule prod.exhaust)
  have ws: "ws = (case t of Inl e \<Rightarrow> [] | Inr f \<Rightarrow> [WroteTemp f hotwords])"
    using temp by (auto simp: WriteTemporaryHotwordFile_def Let_def split: sum.splits option.splits)
  show ?thesis
  proof (cases t)
    case (Inl e)
    then show ?thesis using assms Some temp ws by (auto simp: CreateOfflineRecognizer_def)
  next
    case (Inr f)
    then have "effects = [WroteTemp f hotwords, CreatedWith (c_set ''hotwords_file'' (CStr f) config), RemovedTemp f]"
      using assms Some temp ws
      by (auto simp: CreateOfflineRecognizer_def create_recognizer_def split: option.splits)
    then show ?thesis using offline_decoding [OF Some assms(2)] by auto
  qed
qed

text \<open>
  When a model takes hotwords and the selected file has some, the recogniser is created at most once, with
  exactly these hotwords, with the search that uses them, and only if the vocabulary they need is sound; the
  temporary file that carries them is removed again, whether or not the creation succeeded.
\<close>
theorem offline_hotwords_take_effect:
  assumes "mi_supports_hotwords info" and "IsTransducerHotwordFamily (mi_family info)" and "ac_hotwords_file ac \<noteq> []"
    and "LoadTransducerHotwords (sp_float sp) (sp_hotwords sp) (ac_hotwords_file ac) = Inr hotwords" and "hotwords \<noteq> []"
    and "CreateOfflineRecognizer sp create info ac = (r, effects)"
  shows "effects = [] \<and> (\<exists>e. r = Inl e)
    \<or> (\<exists>f config. effects = [WroteTemp f hotwords, CreatedWith config, RemovedTemp f]
        \<and> map_of config ''hotwords_file'' = Some (CStr f)
        \<and> map_of config ''decoding_method'' = Some (CStr ''modified_beam_search'')
        \<and> ValidateTransducerHotwordAssets (mi_model_config info) (mi_File info) (sp_regular sp) (sp_vocabulary sp) = Inr ())"
proof -
  have "\<not> IsPromptHotwordFamily (mi_family info)"
    using assms(2) by (auto simp: IsTransducerHotwordFamily_def IsPromptHotwordFamily_def)
  then have hot: "offline_hotwords sp info ac = (case ValidateTransducerHotwordAssets (mi_model_config info) (mi_File info)
      (sp_regular sp) (sp_vocabulary sp) of Inl e \<Rightarrow> Inl e | Inr _ \<Rightarrow> Inr (Some [], hotwords))"
    using assms(1-5) by (simp add: offline_hotwords_def Let_def)
  show ?thesis
  proof (cases "ValidateTransducerHotwordAssets (mi_model_config info) (mi_File info) (sp_regular sp) (sp_vocabulary sp)")
    case (Inl e)
    then show ?thesis using assms(6) hot by (auto simp: CreateOfflineRecognizer_def)
  next
    case (Inr u)
    then show ?thesis using hotword_effects [OF _ assms(5,6)] hot by auto
  qed
qed

theorem offline_hotwords_take_effect_witness:
  "\<exists>r effects hotwords. hotwords \<noteq> []
     \<and> CreateOfflineRecognizer example_sherpa (\<lambda>_. Some ()) (default_ModelInfo\<lparr>mi_family := ''transducer'', mi_supports_hotwords := True,
         mi_model_config := JObj [(''modeling_unit'', JStr ''cjkchar'')]\<rparr>) example_asr = (r, effects)
     \<and> (effects = [] \<and> (\<exists>e. r = Inl e)
        \<or> (\<exists>f config. effects = [WroteTemp f hotwords, CreatedWith config, RemovedTemp f]))"
proof -
  let ?info = "default_ModelInfo\<lparr>mi_family := ''transducer'', mi_supports_hotwords := True,
      mi_model_config := JObj [(''modeling_unit'', JStr ''cjkchar'')]\<rparr>"
  obtain r effects where run: "CreateOfflineRecognizer example_sherpa (\<lambda>_. Some ()) ?info example_asr = (r, effects)"
    by (rule prod.exhaust)
  have "LoadTransducerHotwords (sp_float example_sherpa) (sp_hotwords example_sherpa) (ac_hotwords_file example_asr)
      = Inr (''foo bar :2'' @ [CHR 0x0A] @ ''http://x'' @ [CHR 0x0A])"
    using example_hotwords_loaded by (simp add: example_sherpa_def example_asr_def)
  from offline_hotwords_take_effect [OF _ _ _ this _ run]
  have "effects = [] \<and> (\<exists>e. r = Inl e)
      \<or> (\<exists>f config. effects = [WroteTemp f (''foo bar :2'' @ [CHR 0x0A] @ ''http://x'' @ [CHR 0x0A]), CreatedWith config, RemovedTemp f])"
    by (auto simp: IsTransducerHotwordFamily_def example_asr_def)
  then show ?thesis using run by (metis append_Cons list.distinct(1))
qed

end
