(* ===== verification/Spec2Isabelle.thy ===== *)
theory Spec2Isabelle
  imports
    Controller_Delivery
    Controller_Audio
    Client_Protocol
    Config_Migration
    Config_Store
    Addon_Behaviour
    Hotwords
    File_Utils
    Adapter_Manager
    Registry_Scripts
    Sherpa_Backends
begin

text \<open>
  A verification library for fcitx5-vinput, a voice input method: a daemon records audio, recognises
  speech, rewrites the text with a language model and hands the result to an addon of the fcitx5
  input method framework. All paths below are relative to \<open>src/src\<close> of the repository.

  \<^bold>\<open>The program.\<close> The \<^emph>\<open>addon\<close> watches the keyboard. Its hotkeys ask the daemon over D-Bus to record; the
  daemon's \<^emph>\<open>runtime controller\<close> moves its \<^emph>\<open>state machine\<close> to Recording, samples from \<^emph>\<open>PipeWire\<close> go
  through the \<^emph>\<open>recording buffer\<close> to a \<^emph>\<open>recognition session\<close>, which the \<^emph>\<open>session lifecycle manager\<close> owns
  and whose backend the \<^emph>\<open>session manager\<close> builds; stopping finishes the session and gives its text to the
  \<^emph>\<open>recognition pipeline\<close>, where a \<^emph>\<open>scene\<close> decides whether the \<^emph>\<open>post processor\<close> asks a language model; the
  \<^emph>\<open>payload\<close> goes back to the addon, which commits it or shows a menu. Everything is steered by a JSON
  \<^emph>\<open>configuration\<close> that is migrated, normalised, validated, cached and saved by the common library.

  \<^bold>\<open>The theories\<close>, each component after the ones it uses:

  \<^item> \<open>Prelude\<close>: searching and slicing of character lists as \<open>std::string_view\<close> does it, key-wise
    deduplication (\<open>keep_first\<close>), the collections of simplification rules, and the locale
    \<open>invariant_machine\<close>: a deterministic step function with an initial state and an invariant.
  \<^item> \<open>String_Utils\<close> (\<open>common/utils/string_utils.h\<close>, \<open>url_utils.h\<close>, \<open>locale_utils.h\<close>), \<open>Version_Utils\<close>
    (\<open>common/utils/version_utils.cpp\<close>), \<open>Interpolation\<close> (\<open>common/utils/interpolation.cpp\<close>,
    \<open>daemon/postprocess/prompt_template.cpp\<close>): the text utilities, function by function.
    \<open>Process_Utils\<close> and \<open>Process_Session\<close> (\<open>common/utils/process_utils.cpp\<close>, \<open>process_session.cpp\<close>):
    lines, environments, process identity, and the pump thread of a child process. \<open>Process_Control\<close>
    (\<open>process_utils.cpp\<close>): signalling and reaping a process by its recorded identity. \<open>File_Utils\<close>
    (\<open>common/utils/file_utils.cpp\<close>): limited reads, symbolic links, atomic replacement, digests.
    \<open>Path_Utils\<close> (\<open>common/utils/path_utils.cpp\<close>): the directories of the program and the test that a path
    lies below another.
  \<^item> \<open>Dbus_Interface\<close> (\<open>common/dbus/dbus_interface.h\<close>), \<open>Client_Protocol\<close> (\<open>common/client/client_command.cpp\<close>,
    \<open>client_event.cpp\<close>), \<open>Notification_Bridge\<close> (\<open>common/notify/notification_bridge.cpp\<close>): what the processes
    tell each other. \<open>Managed_Clients\<close> (\<open>common/client/client_manager.cpp\<close>) and \<open>Adapter_Manager\<close>
    (\<open>common/llm/adapter_manager.cpp\<close>): the processes the daemon starts, stops and talks to; a call is a list of
    tasks, and threads take turns task by task.
  \<^item> \<open>Runtime_State_Machine\<close> (\<open>daemon/runtime/runtime_state_machine.cpp\<close>): the record
    \<open>RuntimeStateMachine\<close> has the class's members, and each \<open>On...\<close> handler is one definition that
    returns the \<open>StateTransitionResult\<close> and the new machine.
  \<^item> \<open>Float_Model\<close>: rationals, infinities and NaN with the rounding as a parameter. \<open>Audio\<close>
    (\<open>daemon/audio/audio_types.h\<close>, \<open>audio_utils.cpp\<close>, \<open>daemon/runtime/audio_recording_buffer.cpp\<close>,
    \<open>daemon/asr/vad_segmentation.cpp\<close>): 16-bit samples are \<open>16 word\<close>, and the locale \<open>sample_stream\<close> is
    the contract of a buffer that is fed and drawn. \<open>Audio_Capture\<close> (\<open>daemon/audio/audio_capture.cpp\<close>,
    \<open>output_ducker.cpp\<close>): the capture streams, the ducker and the volume of the default sink.
  \<^item> \<open>Recognition_Contract\<close> (\<open>daemon/asr/runtime/recognition_contract.h\<close>): events, results and the
    record of operations a backend session offers. \<open>Async_Session\<close>
    (\<open>daemon/asr/runtime/async_recognition_session.cpp\<close>): the step relation \<open>async_step\<close> interleaves
    \<open>PushAudio\<close>, \<open>Finish\<close>, \<open>Cancel\<close> and \<open>Interrupt\<close> with the stages of the worker thread; every
    step is one critical section of the code. \<open>Command_Backends\<close> (\<open>daemon/asr/backends/command_batch_backend.cpp\<close>,
    \<open>command_streaming_backend.cpp\<close>): recognisers that run a program. \<open>Session_Lifecycle\<close>
    (\<open>daemon/runtime/session_lifecycle_manager.cpp\<close>): installation, detachment, retirement. \<open>Session_Manager\<close>
    (\<open>daemon/asr/runtime/recognition_session_manager.cpp\<close>, \<open>backend_factory.cpp\<close>): the reload thread.
  \<^item> \<open>Float_Parse\<close> (\<open>std::from_chars\<close> for \<open>float\<close>), \<open>Bpe_Vocab\<close> (\<open>common/asr/bpe_vocab_exporter.cpp\<close>: the
    protobuf reader, the export of the pieces and the check of an exported file) and \<open>Hotwords\<close>
    (\<open>daemon/asr/hotword_utils.cpp\<close>: the files with words to prefer).
  \<^item> \<open>Vad_Trimmer\<close> (\<open>daemon/asr/vad_trimmer.cpp\<close>: audio cut at the speech a detector reports), \<open>Sherpa_Sessions\<close>
    and \<open>Sherpa_Backends\<close> (\<open>daemon/asr/backends/sherpa_offline_backend.cpp\<close>, \<open>sherpa_streaming_backend.cpp\<close>,
    \<open>daemon/asr/sherpa_json_helpers.h\<close>): the local recognisers, their sessions and how they are configured.
  \<^item> \<open>Scene\<close> (\<open>common/scene/postprocess_scene.cpp\<close>), \<open>Json_Access\<close> (\<open>common/json/json_access.h\<close>),
    \<open>Core_Config\<close> (\<open>common/config/core_config_types.h\<close>, \<open>core_config_normalize.cpp\<close>,
    \<open>core_config_validate.cpp\<close>, \<open>core_config_view.cpp\<close>, \<open>core_config_resolve.cpp\<close>),
    \<open>Config_Migration\<close> (\<open>common/config/config_migration.cpp\<close>), \<open>Config_Json\<close> (\<open>core_config_json.cpp\<close>),
    \<open>Config_Store\<close> (\<open>core_config_store.cpp\<close>, \<open>core_config_defaults.cpp\<close>, \<open>config_router.cpp\<close>),
    \<open>Provider_Models\<close> (\<open>common/llm/provider_model_cache.cpp\<close>): the configuration and what is cached with it.
  \<^item> \<open>Registry_Fetch\<close> (\<open>common/utils/downloader.cpp\<close>, \<open>common/registry/registry_cache.cpp\<close>, \<open>registry_fetch.cpp\<close>,
    \<open>registry_i18n.cpp\<close>): downloads with fallbacks, the cache and the translated names. \<open>Model_Manager\<close>
    (\<open>common/asr/model_manager.cpp\<close>): the metadata of installed models. \<open>Registry_Models\<close>
    (\<open>registry_models.cpp\<close>): unpacking an archive as the list of what is handed to the file system (each header
    with its kind and links, each block of data with its offset), and the installation of what unpacking the
    downloaded archive leaves. \<open>Registry_Scripts\<close> (\<open>registry_scripts.cpp\<close>, \<open>installed_manifest.cpp\<close>):
    scripts, the record of what is installed, and their entries in the configuration.
  \<^item> \<open>Recognition_Result\<close> (\<open>common/asr/recognition_result.cpp\<close>) and \<open>Post_Processor\<close>
    (\<open>daemon/postprocess/candidate_parser.cpp\<close>, \<open>post_processor.cpp\<close>,
    \<open>daemon/runtime/recognition_pipeline.cpp\<close>): from recognised text to payload.
  \<^item> \<open>Daemon_Controller\<close> (\<open>daemon/runtime/daemon_runtime_controller.cpp\<close>) composes the machine, the buffer, the
    sessions, the capture and the pipeline; \<open>Controller_Runs\<close>, \<open>Controller_Delivery\<close> and \<open>Controller_Audio\<close>
    hold its runs and their properties. \<open>Controller_Audio\<close> also has the session object that the controller
    makes of a backend's session (\<open>make_session_object\<close>: as it is for buffered delivery, behind the queue of
    \<open>Async_Session\<close> for chunked delivery), with the locale \<open>recording_session\<close> that both kinds meet.
  \<^item> \<open>Addon\<close> (\<open>addon/dbus/status_poll_gate.h\<close>, \<open>addon/core/context_writer.cpp\<close>,
    \<open>addon/menu/palette_command.cpp\<close>), \<open>Addon_Preview\<close> (the shortened transcript), \<open>Addon_Palette\<close> (queries and
    items of the command palette), \<open>Addon_Engine\<close> (\<open>addon/core/vinput.cpp\<close>, \<open>addon/dbus/vinput_dbus.cpp\<close>: session,
    calls, replies, polling, context buffer) and \<open>Addon_Keys\<close> (\<open>addon/input/vinput_keyevent.cpp\<close>,
    \<open>addon/menu/vinput_menu.cpp\<close>: hotkeys and menus). \<open>engine_step\<close> is one event of the main loop;
    \<open>Addon_Invariant\<close> and \<open>Addon_Behaviour\<close> hold the properties.

  \<^bold>\<open>What the theorems show.\<close> The state machine follows its phase graph, keeps its invariant in every
  reachable state and balances capture starts with stops. In every run of main loop, audio thread, worker,
  reload thread and ducker the controller's phase agrees with session, microphone, volume and worker, and a
  cancellation brings the daemon back to rest. While a session is not given up, a recording that is stopped
  after half a second or more gives it, or the worker, every sample that the capture queue had room for, once,
  in order and with the gain, and the others are counted. The asynchronous session reports success only when its
  backend was given every accepted chunk in order, its queue keeps its bound in every interleaving, and
  \<open>Finish\<close> returns. The output volume is put back when the commands that do so take effect. Sessions are detached or cancelled exactly once; a child process reports its exit once and last.
  No client process is ever replaced or lost, however calls interleave; a PID record stands for one process, a
  termination request signals it through its descriptor or, without one, right after its identity was checked
  (the gap that is left then is not excluded); output is framed independently of how it was read. Hotword files are loaded without
  loss, their text check is exact, and an exported vocabulary passes the check of its reader. Files are replaced
  atomically. Unpacking touches only paths below its destination and creates plain files and directories in
  directories that resolve inside it; an installation that fails keeps the old model or
  script, one that succeeds holds what a listed address delivered with the listed digest (a script is then found
  to be up to date); each single file the offline recogniser is told to load, the hotword file apart, is a resolved
  path inside its model's directory. An offline session recognises all the speech that was detected, once and in order, or
  reports the recogniser's failure; a streaming session gives its recogniser exactly the pushed audio and reports
  partial texts, none empty and none twice in a row, the final text and one completion. A session that runs a
  program completes at most once, and exactly once after a cancellation or a finish that is not refused.
  Normalisation yields a configuration that validates; what is saved is what is loaded, in another process but for
  the labels of built-in scenes and timeouts that are not positive; pointers into the
  configuration find the node they name; migration reaches its target version in one pass and never rewrites a
  file without a backup. Whatever model, adapter, network or cancellation do, a text that is not blank reaches
  the user, with trimmed, distinct and bounded candidates. The addon keeps its session, its polling, its menus
  and its context buffer consistent over every sequence of events; a key released too early still stops the
  recording, if the daemon can be called when the stop is due; a daemon that has gone idle ends the session that is shown; a chord does nothing. The theories
  also prove what the code does where it fails: a stop request that is dropped and ends in a cancellation,
  menus that are stacked, PID files removed under a running client, adapters that replace each other, a reload
  that mislabels its backend, injected texts that orphan a recording, an interrupted session that a finish leaves
  without completion, a restore of the volume that fails and is not tried again, negative timeouts that are not
  written, the members of an archive lost while flattening, an invalid model id read from the working directory, the
  unguarded conversion of 2^63 in \<open>Int64\<close>, the duplicate candidates of \<open>ProcessCommand\<close>.

  \<^bold>\<open>Atomicity.\<close> Code under a lock is one step; a callback of the fcitx or sd-event main loop is one step; the
  controller's worker takes a round in three (take, recognise, deliver). Within one step of the addon the clock
  does not move. An asynchronous call is answered by a later event, if its slot is still there. A handler of the
  controller is one step although it takes its lock more than once, and the commands of managed clients, which
  the code runs on threads of their own, are outside the controller's runs. \<open>SynchronizeBackend\<close> merges two
  critical sections that follow each other.

  \<^bold>\<open>Simplifications.\<close> Removing a temporary file succeeds (the code ignores the result). Audio given to the offline
  recogniser has fewer than \<open>2 ^ 31\<close> samples (the code casts the count to 32 bits). The cancellation of the child
  that \<open>Interrupt\<close> of a streaming program session makes on another thread is part of what the child is said to do.

  \<^bold>\<open>Termination and bounds.\<close> Loops are structural or have a measure
  (the distance to the end of the text in \<open>Interp_loop\<close>, \<open>Split_loop\<close>, \<open>SplitLines_loop\<close>, \<open>SeekPointer\<close> and
  \<open>container_scan\<close>, the remaining samples in \<open>slice_loop\<close>, the queue length in \<open>drop_oldest\<close>). The loop over
  the graphemes of a preview takes the number of code points as fuel, which is enough when no grapheme is empty
  (\<open>graphemes_nonempty\<close>). The decoding loops of a streaming recogniser are partial functions into
  \<open>option\<close>, shown to return when decoding makes progress. Loops that wait for the world (an adapter's turns,
  PipeWire's rounds) run over the list of what the world does. The worker thread of a session reaches completion within \<open>9 + 3 * n\<close> of its own
  steps after a finish request, \<open>n\<close> being the number of queued chunks. Counters of dropped audio and of the
  status gate keep their 64-bit width; sample counts and indices below a container's size are \<open>nat\<close>; times are
  integers.

  \<^bold>\<open>Parameters.\<close> What is not part of the sources is an argument: the JSON reader and printer (glaze),
  the fcitx configuration reader, keys and panels (\<open>fcitx\<close>), the Unicode library, HTTP transport, child
  processes, PipeWire and wpctl, the archive reader and the file system it writes to, digests, sherpa-onnx, translated messages (gettext), the environment, file contents, clocks, rounding
  of floating point operations, and the recognisers behind \<open>session_ops\<close>. Laws that a theorem needs of them are
  its hypotheses, and its witness instantiates them.

  \<^bold>\<open>Not modelled.\<close> Log output; the D-Bus transport; the
  sherpa-onnx library itself; the HTTP client and the sandbox; the one-shot run of a process; in the addon the installation of the systemd unit, the page counter
  of a menu and the destructor; the command line and the Qt interface. Memory management is not represented:
  shared pointers are identifiers, and objects live as long as they are reachable.
\<close>

end
